(* ===== verification/Etzio_Prelude.thy ===== *)
theory Etzio_Prelude
  imports Main "HOL-Library.Char_ord" "HOL-Library.List_Lexorder"
begin

text \<open>
  Shared vocabulary of the development: Python values that every component uses (byte strings,
  text, exceptions), the result type of a Python call that may raise, and the generic lemmas on
  results, lists and maps that the component theories rely on.

  A Python \<open>str\<close> is represented by the list of bytes of its UTF-8 encoding (in the
  \<open>surrogatepass\<close> form, so that a lone surrogate, which has no strict encoding, is still a value
  and is rejected where the source rejects it). The representation is injective, and because
  UTF-8 keeps the order of code points, the byte-wise lexicographic order of the list type
  is Python's order on \<open>str\<close>. A Python \<open>bytes\<close> value is the list of its bytes.
\<close>

section \<open>Names of the model's types\<close>

type_synonym bytes = string
type_synonym pystr = string
type_synonym digest = string

section \<open>Exceptions\<close>

text \<open>
  One constructor per exception class of the modelled modules; the arguments are the reason code
  (where the class carries one) and the message, without interpolated values.
\<close>

datatype exn =
    ProtocolError string string
  | SemanticProtocolError string string
  | MissionProtocolError string
  | EventIntegrityError string
  | ReductionError string
  | AuthorityError string string
  | EvidenceError string
  | VerificationError string string
  | VerificationArtifactError string string
  | IntegrityError string string
  | EventStoreError string
  | EventStoreCorruptionError string
  | StoreBusyError string
  | StoreCapacityError string
  | StoreOperationalError string
  | StaleHeadError string
  | ClosedStreamError string
  | VerificationLeaseIssuanceError string string
  | VerificationLeaseRecoveryError string string
  | EvidenceVaultError string
  | EvidenceVaultArtifactMissing string
  | EvidenceVaultCapacityError string
  | EvidenceVaultRequestError nat string string
  | IntegrityFinalityRequiredError string
  | PendingIntegrityTransitionError string
  | IntegrityTransitionConflictError string
  | IntegrityTransitionError string string
  | VerificationArtifactResolutionError string string
  | VerificationReceiptAdmissionError string string
  | FixtureMissionError string string
  | HeadAuthorityAdapterError string string
  | IntegrityAdapterError string string
  | BlockedFinalityError string string
  | KeyError string
  | TypeError string
  | ValueError string

type_synonym 'a result = "exn + 'a"

text \<open>The classes that derive from \<open>ProtocolError\<close>, for \<open>except ProtocolError\<close> clauses.\<close>

fun is_protocol_error :: "exn \<Rightarrow> bool" where
  "is_protocol_error (ProtocolError c m) = True"
| "is_protocol_error (SemanticProtocolError c m) = True"
| "is_protocol_error (MissionProtocolError m) = True"
| "is_protocol_error (EventIntegrityError m) = True"
| "is_protocol_error (ReductionError m) = True"
| "is_protocol_error (VerificationArtifactError c m) = True"
| "is_protocol_error (EventStoreError m) = True"
| "is_protocol_error (EventStoreCorruptionError m) = True"
| "is_protocol_error (StoreBusyError m) = True"
| "is_protocol_error (StoreCapacityError m) = True"
| "is_protocol_error (StoreOperationalError m) = True"
| "is_protocol_error (StaleHeadError m) = True"
| "is_protocol_error (ClosedStreamError m) = True"
| "is_protocol_error (VerificationLeaseIssuanceError c m) = True"
| "is_protocol_error (VerificationLeaseRecoveryError c m) = True"
| "is_protocol_error (EvidenceVaultError m) = True"
| "is_protocol_error (EvidenceVaultArtifactMissing m) = True"
| "is_protocol_error (EvidenceVaultCapacityError m) = True"
| "is_protocol_error (EvidenceVaultRequestError i c m) = True"
| "is_protocol_error (IntegrityFinalityRequiredError m) = True"
| "is_protocol_error (PendingIntegrityTransitionError m) = True"
| "is_protocol_error (IntegrityTransitionConflictError m) = True"
| "is_protocol_error (IntegrityTransitionError c m) = True"
| "is_protocol_error (VerificationArtifactResolutionError c m) = True"
| "is_protocol_error (VerificationReceiptAdmissionError c m) = True"
| "is_protocol_error (FixtureMissionError c m) = True"
| "is_protocol_error _ = False"

text \<open>The adapter errors, which derive from \<open>ValueError\<close> directly.\<close>

fun is_adapter_error :: "exn \<Rightarrow> bool" where
  "is_adapter_error (HeadAuthorityAdapterError c m) = True"
| "is_adapter_error (IntegrityAdapterError c m) = True"
| "is_adapter_error (BlockedFinalityError c m) = True"
| "is_adapter_error _ = False"

text \<open>\<open>str(exc)\<close>\<close>

fun exn_message :: "exn \<Rightarrow> string" where
  "exn_message (ProtocolError c m) = m"
| "exn_message (SemanticProtocolError c m) = m"
| "exn_message (MissionProtocolError m) = m"
| "exn_message (EventIntegrityError m) = m"
| "exn_message (ReductionError m) = m"
| "exn_message (AuthorityError c m) = m"
| "exn_message (EvidenceError m) = m"
| "exn_message (VerificationError c m) = m"
| "exn_message (VerificationArtifactError c m) = m"
| "exn_message (IntegrityError c m) = m"
| "exn_message (EventStoreError m) = m"
| "exn_message (EventStoreCorruptionError m) = m"
| "exn_message (StoreBusyError m) = m"
| "exn_message (StoreCapacityError m) = m"
| "exn_message (StoreOperationalError m) = m"
| "exn_message (StaleHeadError m) = m"
| "exn_message (ClosedStreamError m) = m"
| "exn_message (VerificationLeaseIssuanceError c m) = m"
| "exn_message (VerificationLeaseRecoveryError c m) = m"
| "exn_message (EvidenceVaultError m) = m"
| "exn_message (EvidenceVaultArtifactMissing m) = m"
| "exn_message (EvidenceVaultCapacityError m) = m"
| "exn_message (EvidenceVaultRequestError i c m) = m"
| "exn_message (IntegrityFinalityRequiredError m) = m"
| "exn_message (PendingIntegrityTransitionError m) = m"
| "exn_message (IntegrityTransitionConflictError m) = m"
| "exn_message (IntegrityTransitionError c m) = m"
| "exn_message (VerificationArtifactResolutionError c m) = m"
| "exn_message (VerificationReceiptAdmissionError c m) = m"
| "exn_message (FixtureMissionError c m) = m"
| "exn_message (HeadAuthorityAdapterError c m) = m"
| "exn_message (IntegrityAdapterError c m) = m"
| "exn_message (BlockedFinalityError c m) = m"
| "exn_message (KeyError m) = m"
| "exn_message (TypeError m) = m"
| "exn_message (ValueError m) = m"

section \<open>Results\<close>

definition bindR :: "'e + 'a \<Rightarrow> ('a \<Rightarrow> 'e + 'b) \<Rightarrow> 'e + 'b" where
  "bindR m f = (case m of Inl e \<Rightarrow> Inl e | Inr x \<Rightarrow> f x)"

text \<open>\<open>try: m except E: handler\<close>: the handler sees the exception and may raise another one.\<close>

definition catchR :: "'e + 'a \<Rightarrow> ('e \<Rightarrow> 'e + 'a) \<Rightarrow> 'e + 'a" where
  "catchR m h = (case m of Inl e \<Rightarrow> h e | Inr x \<Rightarrow> Inr x)"

definition requireR :: "bool \<Rightarrow> 'e \<Rightarrow> 'e + unit" where
  "requireR b e = (if b then Inr () else Inl e)"

fun foldR :: "('s \<Rightarrow> 'a \<Rightarrow> 'e + 's) \<Rightarrow> 's \<Rightarrow> 'a list \<Rightarrow> 'e + 's" where
  "foldR f s [] = Inr s"
| "foldR f s (x # xs) = bindR (f s x) (\<lambda>s'. foldR f s' xs)"

fun mapR :: "('a \<Rightarrow> 'e + 'b) \<Rightarrow> 'a list \<Rightarrow> 'e + 'b list" where
  "mapR f [] = Inr []"
| "mapR f (x # xs) = bindR (f x) (\<lambda>y. bindR (mapR f xs) (\<lambda>ys. Inr (y # ys)))"

named_theorems result_simps \<open>equations that decompose a successful result\<close>

lemma bindR_simps [simp]:
  "bindR (Inl e) f = Inl e"
  "bindR (Inr x) f = f x"
  by (simp_all add: bindR_def)

lemma catchR_simps [simp]:
  "catchR (Inl e) h = h e"
  "catchR (Inr x) h = Inr x"
  by (simp_all add: catchR_def)

lemma bindR_eq_Inr [result_simps]:
  "bindR m f = Inr y \<longleftrightarrow> (\<exists>x. m = Inr x \<and> f x = Inr y)"
  by (cases m) auto

lemma bindR_eq_Inl:
  "bindR m f = Inl e \<longleftrightarrow> m = Inl e \<or> (\<exists>x. m = Inr x \<and> f x = Inl e)"
  by (cases m) auto

lemma requireR_eq_Inr [result_simps]: "requireR b e = Inr u \<longleftrightarrow> b"
  by (simp add: requireR_def)

lemma if_raise_eq_Inr [result_simps]:
  "(if b then Inl e else m) = Inr y \<longleftrightarrow> \<not> b \<and> m = Inr y"
  by simp

lemma bindR_assoc: "bindR (bindR m f) g = bindR m (\<lambda>x. bindR (f x) g)"
  by (cases m) auto

lemma bindR_cong [fundef_cong]:
  "m = m' \<Longrightarrow> (\<And>x. m' = Inr x \<Longrightarrow> f x = f' x) \<Longrightarrow> bindR m f = bindR m' f'"
  by (cases m') auto

lemma foldR_append:
  "foldR f s (xs @ ys) = bindR (foldR f s xs) (\<lambda>s'. foldR f s' ys)"
  by (induction xs arbitrary: s) (auto simp: bindR_assoc)

text \<open>
  The rule that carries every invariant of a fold over a list: what one step keeps, the whole run
  keeps.
\<close>

lemma foldR_invariant:
  assumes "foldR f s xs = Inr t" and "P s"
    and "\<And>s x s'. P s \<Longrightarrow> f s x = Inr s' \<Longrightarrow> P s'"
  shows "P t"
  using assms(1,2)
proof (induction xs arbitrary: s)
  case Nil
  then show ?case by simp
next
  case (Cons x xs)
  then obtain s' where "f s x = Inr s'" and "foldR f s' xs = Inr t"
    by (auto simp: bindR_eq_Inr)
  with Cons.IH Cons.prems(2) assms(3) show ?case by blast
qed

lemma foldR_prefix:
  assumes "foldR f s (xs @ ys) = Inr t"
  obtains u where "foldR f s xs = Inr u" and "foldR f u ys = Inr t"
  using assms by (auto simp: foldR_append bindR_eq_Inr)

lemma mapR_length: "mapR f xs = Inr ys \<Longrightarrow> length ys = length xs"
  by (induction xs arbitrary: ys) (auto simp: bindR_eq_Inr)

lemma mapR_nth: "mapR f xs = Inr ys \<Longrightarrow> i < length xs \<Longrightarrow> f (xs ! i) = Inr (ys ! i)"
  by (induction xs arbitrary: ys i) (auto simp: bindR_eq_Inr nth_Cons split: nat.splits)

section \<open>Characters and text\<close>

definition in_range :: "nat \<Rightarrow> nat \<Rightarrow> char \<Rightarrow> bool" where
  "in_range lo hi c \<longleftrightarrow> lo \<le> of_char c \<and> of_char c \<le> hi"

definition is_digit :: "char \<Rightarrow> bool" where
  "is_digit c \<longleftrightarrow> in_range 48 57 c"

definition is_lower :: "char \<Rightarrow> bool" where
  "is_lower c \<longleftrightarrow> in_range 97 122 c"

definition is_upper :: "char \<Rightarrow> bool" where
  "is_upper c \<longleftrightarrow> in_range 65 90 c"

text \<open>The class \<open>[0-9a-f]\<close> of the digest patterns.\<close>

definition is_lower_hex :: "char \<Rightarrow> bool" where
  "is_lower_hex c \<longleftrightarrow> is_digit c \<or> in_range 97 102 c"

definition hex_digit :: "nat \<Rightarrow> char" where
  "hex_digit n = (if n < 10 then char_of (48 + n) else char_of (87 + n))"

text \<open>\<open>bytes.hex()\<close> and \<open>hexdigest()\<close>.\<close>

definition hex_bytes :: "bytes \<Rightarrow> pystr" where
  "hex_bytes bs = concat (map (\<lambda>c. [hex_digit (of_char c div 16), hex_digit (of_char c mod 16)]) bs)"

lemma hex_digit_lower_hex: "n < 16 \<Longrightarrow> is_lower_hex (hex_digit n)"
  by (auto simp: hex_digit_def is_lower_hex_def is_digit_def in_range_def)

lemma of_char_div16: "(of_char (c :: char) :: nat) div 16 < 16"
proof -
  have "(of_char c :: nat) < 16 * 16" by simp
  then show ?thesis by (rule less_mult_imp_div_less)
qed

lemma hex_bytes_length: "length (hex_bytes bs) = 2 * length bs"
  by (induction bs) (auto simp: hex_bytes_def)

lemma hex_bytes_lower_hex: "list_all is_lower_hex (hex_bytes bs)"
  by (induction bs) (auto simp: hex_bytes_def hex_digit_lower_hex of_char_div16)

section \<open>Sorted lists without duplicates\<close>

text \<open>\<open>xs == sorted(set(xs))\<close>, the canonical-order test of the sources.\<close>

definition canonical_order :: "string list \<Rightarrow> bool" where
  "canonical_order xs \<longleftrightarrow> sorted xs \<and> distinct xs"

lemma canonical_order_sorted_set: "canonical_order xs \<longleftrightarrow> xs = sorted_list_of_set (set xs)"
  by (metis canonical_order_def distinct_sorted_list_of_set finite_set sorted_distinct_set_unique
      set_sorted_list_of_set sorted_sorted_list_of_set)

lemma sort_key_idem: "sorted (map f xs) \<Longrightarrow> sort_key f xs = xs"
  by (rule sort_key_id_if_sorted)

end
