(* ===== verification/Json_Text.thy ===== *)
theory Json_Text
  imports Etzio_Prelude
begin

text \<open>
  The JSON values of the protocol and the text forms that the standard library's \<open>json\<close> module
  gives them: \<open>json.dumps(..., ensure_ascii=False, separators=(",", ":"))\<close> as \<open>dumps\<close>, and
  \<open>json.loads\<close> with the hooks that \<open>src/etzio/protocol/v1.py\<close> installs as \<open>json_loads\<close>. The main
  result is that reading back a printed value gives the value, whatever delimiter follows it.

  The reader is defined with fuel. \<open>json_loads\<close> supplies \<open>2 * length text + 1\<close> units, and
  \<open>json_loads_has_fuel\<close> shows that this is never exhausted.
\<close>

section \<open>JSON values\<close>

text \<open>
  \<open>JObj\<close> lists the members in insertion order. \<open>JOther\<close> stands for a Python value that
  is none of the JSON types; its argument is the type name. A list and a tuple, and a dict and a
  mapping proxy, have the same image.
\<close>

datatype json =
    JNull
  | JBool bool
  | JInt int
  | JStr pystr
  | JArr "json list"
  | JObj "(pystr \<times> json) list"
  | JOther string

section \<open>Printing\<close>

abbreviation DQ :: char where "DQ \<equiv> CHR 0x22"
abbreviation BS :: char where "BS \<equiv> CHR 0x5C"

definition digit_char :: "nat \<Rightarrow> char" where
  "digit_char n = char_of (48 + n)"

fun nat_str :: "nat \<Rightarrow> string" where
  "nat_str n = (if n < 10 then [digit_char n] else nat_str (n div 10) @ [digit_char (n mod 10)])"

declare nat_str.simps [simp del]

definition int_str :: "int \<Rightarrow> string" where
  "int_str i = (if i < 0 then CHR ''-'' # nat_str (nat (- i)) else nat_str (nat i))"

text \<open>The escapes of \<open>json.encoder.ESCAPE_DCT\<close>; other control characters print as \<open>\u00XX\<close>.\<close>

definition esc_char :: "char \<Rightarrow> string" where
  "esc_char c =
     (if c = DQ then [BS, DQ]
      else if c = BS then [BS, BS]
      else if c = CHR 0x0A then [BS, CHR ''n'']
      else if c = CHR 0x0D then [BS, CHR ''r'']
      else if c = CHR 0x09 then [BS, CHR ''t'']
      else if c = CHR 0x0C then [BS, CHR ''f'']
      else if c = CHR 0x08 then [BS, CHR ''b'']
      else if of_char c < (32 :: nat)
      then [BS, CHR ''u'', CHR ''0'', CHR ''0'', hex_digit (of_char c div 16), hex_digit (of_char c mod 16)]
      else [c])"

definition str_text :: "pystr \<Rightarrow> string" where
  "str_text s = DQ # concat (map esc_char s) @ [DQ]"

fun dumps :: "json \<Rightarrow> string" and dumps_items :: "json list \<Rightarrow> string"
  and dumps_members :: "(pystr \<times> json) list \<Rightarrow> string" where
  "dumps JNull = ''null''"
| "dumps (JBool b) = (if b then ''true'' else ''false'')"
| "dumps (JInt i) = int_str i"
| "dumps (JStr s) = str_text s"
| "dumps (JArr xs) = CHR ''['' # dumps_items xs @ '']''"
| "dumps (JObj ms) = CHR ''{'' # dumps_members ms @ ''}''"
| "dumps (JOther t) = []"
| "dumps_items [] = []"
| "dumps_items [x] = dumps x"
| "dumps_items (x # y # ys) = dumps x @ CHR '','' # dumps_items (y # ys)"
| "dumps_members [] = []"
| "dumps_members [(k, v)] = str_text k @ CHR '':'' # dumps v"
| "dumps_members ((k, v) # m # ms) = str_text k @ CHR '':'' # dumps v @ CHR '','' # dumps_members (m # ms)"

section \<open>Reading\<close>

abbreviation bad_json :: exn where
  "bad_json \<equiv> ProtocolError ''invalid_protocol'' ''invalid protocol JSON''"

abbreviation no_fuel :: exn where
  "no_fuel \<equiv> ValueError ''out of fuel''"

definition is_ws :: "char \<Rightarrow> bool" where
  "is_ws c \<longleftrightarrow> c = CHR 0x20 \<or> c = CHR 0x09 \<or> c = CHR 0x0A \<or> c = CHR 0x0D"

definition skip_ws :: "string \<Rightarrow> string" where
  "skip_ws = dropWhile is_ws"

definition hex_value :: "char \<Rightarrow> nat option" where
  "hex_value c =
     (if is_digit c then Some (of_char c - 48)
      else if in_range 97 102 c then Some (of_char c - 87)
      else if in_range 65 70 c then Some (of_char c - 55) else None)"

text \<open>The four hexadecimal digits of a \<open>\uXXXX\<close> escape and the text after them.\<close>

fun hex4 :: "string \<Rightarrow> (nat \<times> string) option" where
  "hex4 (a # b # c # d # r) =
     (case (hex_value a, hex_value b, hex_value c, hex_value d) of
        (Some w, Some x, Some y, Some z) \<Rightarrow> Some (w * 4096 + x * 256 + y * 16 + z, r)
      | _ \<Rightarrow> None)"
| "hex4 _ = None"

text \<open>UTF-8 of one code point (a surrogate gets its three-byte form).\<close>

definition utf8_char :: "nat \<Rightarrow> string" where
  "utf8_char n =
     (if n < 128 then [char_of n]
      else if n < 2048 then [char_of (192 + n div 64), char_of (128 + n mod 64)]
      else if n < 65536
      then [char_of (224 + n div 4096), char_of (128 + n div 64 mod 64), char_of (128 + n mod 64)]
      else [char_of (240 + n div 262144), char_of (128 + n div 4096 mod 64),
            char_of (128 + n div 64 mod 64), char_of (128 + n mod 64)])"

text \<open>The second half of a surrogate pair, if the text continues with one.\<close>

fun low_surrogate :: "string \<Rightarrow> (nat \<times> string) option" where
  "low_surrogate (a # b # r) =
     (if a = BS \<and> b = CHR ''u'' then
        (case hex4 r of
           Some (n, r') \<Rightarrow> if 56320 \<le> n \<and> n \<le> 57343 then Some (n, r') else None
         | None \<Rightarrow> None)
      else None)"
| "low_surrogate _ = None"

definition simple_escape :: "char \<Rightarrow> char option" where
  "simple_escape c =
     (if c = DQ then Some DQ else if c = BS then Some BS else if c = CHR ''/'' then Some (CHR ''/'')
      else if c = CHR ''b'' then Some (CHR 0x08) else if c = CHR ''f'' then Some (CHR 0x0C)
      else if c = CHR ''n'' then Some (CHR 0x0A) else if c = CHR ''r'' then Some (CHR 0x0D)
      else if c = CHR ''t'' then Some (CHR 0x09) else None)"

text \<open>One escape sequence, after its backslash: the characters it denotes and the text after it.\<close>

definition scan_escape :: "string \<Rightarrow> (string \<times> string) option" where
  "scan_escape s =
     (case s of
        [] \<Rightarrow> None
      | c # r \<Rightarrow>
          (case simple_escape c of
             Some d \<Rightarrow> Some ([d], r)
           | None \<Rightarrow>
               if c \<noteq> CHR ''u'' then None
               else (case hex4 r of
                  None \<Rightarrow> None
                | Some (n, r') \<Rightarrow>
                    if 55296 \<le> n \<and> n \<le> 56319 then
                      (case low_surrogate r' of
                         Some (m, r'') \<Rightarrow> Some (utf8_char (65536 + (n - 55296) * 1024 + (m - 56320)), r'')
                       | None \<Rightarrow> Some (utf8_char n, r'))
                    else Some (utf8_char n, r'))))"

text \<open>The rest of a string literal after its opening quote; control characters are refused.\<close>

fun scan_string :: "nat \<Rightarrow> string \<Rightarrow> (string \<times> string) result" where
  "scan_string 0 s = Inl no_fuel"
| "scan_string (Suc f) [] = Inl bad_json"
| "scan_string (Suc f) (c # r) =
     (if c = DQ then Inr ([], r)
      else if c = BS then
        (case scan_escape r of
           None \<Rightarrow> Inl bad_json
         | Some (t, r') \<Rightarrow> bindR (scan_string f r') (\<lambda>(u, r''). Inr (t @ u, r'')))
      else if of_char c < (32 :: nat) then Inl bad_json
      else bindR (scan_string f r) (\<lambda>(u, r'). Inr (c # u, r')))"

text \<open>The hooks: \<open>_parse_int\<close>, \<open>_reject_float\<close>, \<open>_reject_constant\<close> and \<open>_unique_object\<close>.\<close>

definition MIN_INTEGER :: int where "MIN_INTEGER = - (2 ^ 63)"
definition MAX_INTEGER :: int where "MAX_INTEGER = 2 ^ 63 - 1"

definition digits_value :: "string \<Rightarrow> int" where
  "digits_value ds = foldl (\<lambda>a c. a * 10 + int (of_char c - 48)) 0 ds"

definition parse_int :: "bool \<Rightarrow> string \<Rightarrow> int result" where
  "parse_int neg ds =
     (if length ds > 19
      then Inl (ProtocolError ''invalid_protocol'' ''integer exceeds the signed 64-bit protocol range'')
      else let v = (if neg then - digits_value ds else digits_value ds)
           in if v < MIN_INTEGER \<or> v > MAX_INTEGER
              then Inl (ProtocolError ''invalid_protocol'' ''integer exceeds the signed 64-bit protocol range'')
              else Inr v)"

definition reject_float :: "'a result" where
  "reject_float = Inl (ProtocolError ''invalid_protocol'' ''floating-point number is forbidden'')"

definition reject_constant :: "'a result" where
  "reject_constant = Inl (ProtocolError ''invalid_protocol'' ''non-standard numeric constant is forbidden'')"

fun unique_from :: "pystr list \<Rightarrow> (pystr \<times> json) list \<Rightarrow> (pystr \<times> json) list result" where
  "unique_from seen [] = Inr []"
| "unique_from seen ((k, v) # ms) =
     (if k \<in> set seen then Inl (ProtocolError ''invalid_protocol'' ''duplicate object key'')
      else bindR (unique_from (k # seen) ms) (\<lambda>r. Inr ((k, v) # r)))"

definition unique_object :: "(pystr \<times> json) list \<Rightarrow> (pystr \<times> json) list result" where
  "unique_object ms = unique_from [] ms"

text \<open>
  A number token: \<open>-?(0|[1-9]\d*)(\.\d+)?([eE][-+]?\d+)?\<close>. A fraction or an exponent makes it a
  float.
\<close>

definition starts_fraction :: "string \<Rightarrow> bool" where
  "starts_fraction s = (case s of c # d # _ \<Rightarrow> c = CHR ''.'' \<and> is_digit d | _ \<Rightarrow> False)"

definition starts_exponent :: "string \<Rightarrow> bool" where
  "starts_exponent s =
     (case s of
        c # d # r \<Rightarrow> (c = CHR ''e'' \<or> c = CHR ''E'') \<and>
          (is_digit d \<or> ((d = CHR ''+'' \<or> d = CHR ''-'') \<and> (case r of e # _ \<Rightarrow> is_digit e | [] \<Rightarrow> False)))
      | _ \<Rightarrow> False)"

definition parse_number :: "bool \<Rightarrow> string \<Rightarrow> (json \<times> string) result" where
  "parse_number neg s =
     (case s of
        [] \<Rightarrow> Inl bad_json
      | c # _ \<Rightarrow>
          if \<not> is_digit c then Inl bad_json
          else (let ds = (if c = CHR ''0'' then [c] else takeWhile is_digit s);
                    r = drop (length ds) s
                in if starts_fraction r \<or> starts_exponent r then reject_float
                   else bindR (parse_int neg ds) (\<lambda>i. Inr (JInt i, r))))"

definition starts_with :: "string \<Rightarrow> string \<Rightarrow> bool" where
  "starts_with p s \<longleftrightarrow> take (length p) s = p"

text \<open>Everything \<open>scan_once\<close> reads that is not a string, an array or an object.\<close>

definition parse_scalar :: "string \<Rightarrow> (json \<times> string) result" where
  "parse_scalar s =
     (if starts_with ''null'' s then Inr (JNull, drop 4 s)
      else if starts_with ''true'' s then Inr (JBool True, drop 4 s)
      else if starts_with ''false'' s then Inr (JBool False, drop 5 s)
      else if starts_with ''NaN'' s \<or> starts_with ''Infinity'' s \<or> starts_with ''-Infinity'' s
      then reject_constant
      else (case s of
              [] \<Rightarrow> Inl bad_json
            | c # r \<Rightarrow> if c = CHR ''-'' then parse_number True r else parse_number False s))"

text \<open>
  \<open>parse_items\<close> starts at the first character of an element, \<open>parse_members\<close> at the
  character that must open a key.
\<close>

fun parse_value :: "nat \<Rightarrow> string \<Rightarrow> (json \<times> string) result"
  and parse_items :: "nat \<Rightarrow> string \<Rightarrow> (json list \<times> string) result"
  and parse_members :: "nat \<Rightarrow> string \<Rightarrow> ((pystr \<times> json) list \<times> string) result" where
  "parse_value 0 s = Inl no_fuel"
| "parse_value (Suc f) s =
     (case s of
        [] \<Rightarrow> Inl bad_json
      | c # r \<Rightarrow>
          if c = DQ then bindR (scan_string (Suc (length r)) r) (\<lambda>(t, r'). Inr (JStr t, r'))
          else if c = CHR ''['' then
            (case skip_ws r of
               [] \<Rightarrow> Inl bad_json
             | d # r' \<Rightarrow> if d = CHR '']'' then Inr (JArr [], r')
                        else bindR (parse_items f (d # r')) (\<lambda>(xs, r''). Inr (JArr xs, r'')))
          else if c = CHR ''{'' then
            (case skip_ws r of
               [] \<Rightarrow> Inl bad_json
             | d # r' \<Rightarrow> if d = CHR ''}'' then Inr (JObj [], r')
                        else bindR (parse_members f (d # r')) (\<lambda>(ms, r'').
                             bindR (unique_object ms) (\<lambda>ms'. Inr (JObj ms', r''))))
          else parse_scalar s)"
| "parse_items 0 s = Inl no_fuel"
| "parse_items (Suc f) s =
     bindR (parse_value f s) (\<lambda>(x, r).
       case skip_ws r of
         [] \<Rightarrow> Inl bad_json
       | d # r' \<Rightarrow>
           if d = CHR '']'' then Inr ([x], r')
           else if d = CHR '','' then bindR (parse_items f (skip_ws r')) (\<lambda>(xs, r''). Inr (x # xs, r''))
           else Inl bad_json)"
| "parse_members 0 s = Inl no_fuel"
| "parse_members (Suc f) s =
     (case s of
        [] \<Rightarrow> Inl bad_json
      | c # r \<Rightarrow>
          if c \<noteq> DQ then Inl bad_json
          else bindR (scan_string (Suc (length r)) r) (\<lambda>(k, r1).
            case skip_ws r1 of
              [] \<Rightarrow> Inl bad_json
            | d # r2 \<Rightarrow>
                if d \<noteq> CHR '':'' then Inl bad_json
                else bindR (parse_value f (skip_ws r2)) (\<lambda>(v, r3).
                  case skip_ws r3 of
                    [] \<Rightarrow> Inl bad_json
                  | e # r4 \<Rightarrow>
                      if e = CHR ''}'' then Inr ([(k, v)], r4)
                      else if e = CHR '','' then
                        bindR (parse_members f (skip_ws r4)) (\<lambda>(ms, r5). Inr ((k, v) # ms, r5))
                      else Inl bad_json)))"

definition json_loads :: "string \<Rightarrow> json result" where
  "json_loads text =
     bindR (parse_value (2 * length text + 1) (skip_ws text)) (\<lambda>(v, r).
       if skip_ws r = [] then Inr v else Inl bad_json)"

section \<open>Numbers\<close>

lemma digit_char_value: "n < 10 \<Longrightarrow> of_char (digit_char n) = (48 + n :: nat)"
  by (simp add: digit_char_def)

lemma is_digit_digit_char: "n < 10 \<Longrightarrow> is_digit (digit_char n)"
  by (simp add: is_digit_def in_range_def digit_char_value)

lemma nat_str_small: "n < 10 \<Longrightarrow> nat_str n = [digit_char n]"
  by (subst nat_str.simps) simp

lemma nat_str_large: "\<not> n < 10 \<Longrightarrow> nat_str n = nat_str (n div 10) @ [digit_char (n mod 10)]"
  by (subst nat_str.simps) simp

lemma nat_str_digits: "list_all is_digit (nat_str n)"
proof (induction n rule: nat_str.induct)
  case (1 n)
  then show ?case
    by (cases "n < 10") (simp_all add: nat_str_small nat_str_large is_digit_digit_char)
qed

lemma nat_str_not_Nil [simp]: "nat_str n \<noteq> []"
  by (cases "n < 10") (simp_all add: nat_str_small nat_str_large)

lemma digits_value_snoc:
  "digits_value (ds @ [c]) = digits_value ds * 10 + int (of_char c - 48)"
  by (simp add: digits_value_def)

lemma digits_value_nat_str: "digits_value (nat_str n) = int n"
proof (induction n rule: nat_str.induct)
  case (1 n)
  show ?case
  proof (cases "n < 10")
    case True
    then show ?thesis by (simp add: nat_str_small digits_value_def digit_char_value)
  next
    case False
    with 1 have "digits_value (nat_str (n div 10)) = int (n div 10)" by simp
    with False show ?thesis
      by (simp add: nat_str_large digits_value_snoc digit_char_value zdiv_int zmod_int flip: of_nat_mult)
  qed
qed

lemma nat_str_hd: "0 < n \<Longrightarrow> hd (nat_str n) \<noteq> CHR ''0''"
proof (induction n rule: nat_str.induct)
  case (1 n)
  show ?case
  proof (cases "n < 10")
    case True
    with 1(2) have "of_char (digit_char n) \<noteq> (of_char (CHR ''0'') :: nat)"
      by (simp add: digit_char_value)
    with True show ?thesis by (auto simp: nat_str_small)
  next
    case False
    with 1 show ?thesis by (simp add: nat_str_large)
  qed
qed

lemma nat_str_length: "n < 10 ^ k \<Longrightarrow> 0 < k \<Longrightarrow> length (nat_str n) \<le> k"
proof (induction n arbitrary: k rule: nat_str.induct)
  case (1 n)
  show ?case
  proof (cases "n < 10")
    case True
    with 1(3) show ?thesis by (simp add: nat_str_small)
  next
    case False
    with 1(2,3) obtain j where k: "k = Suc j" and "0 < j"
      by (cases k; cases "k - 1") auto
    with 1(2) have "n div 10 < 10 ^ j"
      by (simp add: less_mult_imp_div_less mult.commute)
    with 1(1) False k \<open>0 < j\<close> show ?thesis by (simp add: nat_str_large)
  qed
qed

text \<open>A text after which a printed value ends: the end of input or a separator.\<close>

definition ends_value :: "string \<Rightarrow> bool" where
  "ends_value r = (case r of [] \<Rightarrow> True | c # _ \<Rightarrow> c = CHR '','' \<or> c = CHR '']'' \<or> c = CHR ''}'')"

lemma ends_value_no_digit: "ends_value r \<Longrightarrow> takeWhile is_digit r = []"
  by (cases r) (auto simp: ends_value_def is_digit_def in_range_def)

lemma ends_value_no_float: "ends_value r \<Longrightarrow> \<not> starts_fraction r \<and> \<not> starts_exponent r"
  by (cases r; cases "tl r") (auto simp: ends_value_def starts_fraction_def starts_exponent_def)

lemma takeWhile_nat_str: "ends_value r \<Longrightarrow> takeWhile is_digit (nat_str n @ r) = nat_str n"
  using nat_str_digits [of n] ends_value_no_digit [of r]
  by (simp add: list_all_iff takeWhile_append2)

lemma int_in_range_nat: "MIN_INTEGER \<le> i \<Longrightarrow> i \<le> MAX_INTEGER \<Longrightarrow> nat \<bar>i\<bar> < 10 ^ 19"
  by (simp add: MIN_INTEGER_def MAX_INTEGER_def)

lemma parse_number_nat_str:
  assumes "ends_value r" and "parse_int neg (nat_str n) = Inr i"
  shows "parse_number neg (nat_str n @ r) = Inr (JInt i, r)"
proof -
  obtain c cs where c: "nat_str n = c # cs" by (cases "nat_str n") auto
  have dig: "is_digit c" using nat_str_digits [of n] c by simp
  have zero: "c = CHR ''0'' \<Longrightarrow> cs = []"
    using nat_str_hd [of n] c by (cases "n = 0") (auto simp: nat_str_small)
  have tw: "takeWhile is_digit (c # cs @ r) = c # cs"
    using takeWhile_nat_str [OF assms(1), of n] c by simp
  show ?thesis
    using assms dig zero tw ends_value_no_float [OF assms(1)]
    by (cases "c = CHR ''0''") (auto simp: parse_number_def c Let_def)
qed

lemma parse_int_nat_str:
  assumes "MIN_INTEGER \<le> i" and "i \<le> MAX_INTEGER"
  shows "parse_int (i < 0) (nat_str (nat \<bar>i\<bar>)) = Inr i"
proof -
  have "length (nat_str (nat \<bar>i\<bar>)) \<le> 19"
    using int_in_range_nat [OF assms] by (intro nat_str_length) auto
  with assms show ?thesis by (auto simp: parse_int_def digits_value_nat_str Let_def)
qed

lemma starts_with_digit:
  "is_digit c \<Longrightarrow> p \<noteq> [] \<Longrightarrow> \<not> is_digit (hd p) \<Longrightarrow> \<not> starts_with p (c # cs)"
  by (cases p) (auto simp: starts_with_def)

lemma parse_scalar_int:
  assumes "MIN_INTEGER \<le> i" and "i \<le> MAX_INTEGER" and "ends_value r"
  shows "parse_scalar (int_str i @ r) = Inr (JInt i, r)"
proof -
  obtain c cs where c: "nat_str (nat \<bar>i\<bar>) = c # cs" by (cases "nat_str (nat \<bar>i\<bar>)") auto
  have dig: "is_digit c" using nat_str_digits [of "nat \<bar>i\<bar>"] c by simp
  have pn: "parse_number (i < 0) (c # cs @ r) = Inr (JInt i, r)"
    using parse_number_nat_str [OF assms(3) parse_int_nat_str [OF assms(1,2)]] c by simp
  have nd: "\<not> is_digit (CHR ''n'')" "\<not> is_digit (CHR ''t'')" "\<not> is_digit (CHR ''f'')" "\<not> is_digit (CHR ''N'')"
    "\<not> is_digit (CHR ''I'')" "\<not> is_digit (CHR ''-'')"
    by (simp_all add: is_digit_def in_range_def)
  show ?thesis
  proof (cases "i < 0")
    case True
    then have t: "int_str i @ r = CHR ''-'' # c # cs @ r" using c by (simp add: int_str_def)
    have "c \<noteq> CHR ''I''" using dig nd by auto
    with pn True show ?thesis unfolding t by (simp add: parse_scalar_def starts_with_def)
  next
    case False
    then have t: "int_str i @ r = c # cs @ r" using c by (simp add: int_str_def)
    have "c \<noteq> CHR ''-''" using dig nd by auto
    with pn False dig nd show ?thesis
      unfolding t by (simp add: parse_scalar_def starts_with_digit)
  qed
qed
section \<open>String literals\<close>

lemma hex_value_hex_digit: "n < 16 \<Longrightarrow> hex_value (hex_digit n) = Some n"
  by (auto simp: hex_value_def hex_digit_def is_digit_def in_range_def)

lemma scan_escape_control:
  assumes "of_char c < (32 :: nat)"
  shows "scan_escape (CHR ''u'' # CHR ''0'' # CHR ''0'' # hex_digit (of_char c div 16) #
           hex_digit (of_char c mod 16) # r) = Some ([c], r)"
proof -
  have "hex_value (CHR ''0'') = Some 0"
    by (simp add: hex_value_def is_digit_def in_range_def)
  moreover have "hex_value (hex_digit (of_char c div 16)) = Some (of_char c div 16)"
    by (rule hex_value_hex_digit) (rule of_char_div16)
  moreover have "hex_value (hex_digit (of_char c mod 16)) = Some (of_char c mod 16)"
    by (rule hex_value_hex_digit) simp
  ultimately have "hex4 (CHR ''0'' # CHR ''0'' # hex_digit (of_char c div 16) #
      hex_digit (of_char c mod 16) # r) = Some (of_char c, r)"
    by simp
  moreover have "utf8_char (of_char c) = [c]"
    using assms by (simp add: utf8_char_def)
  ultimately show ?thesis
    using assms by (simp add: scan_escape_def simple_escape_def)
qed

lemma scan_string_esc_char:
  "scan_string (Suc f) (esc_char c @ r) = bindR (scan_string f r) (\<lambda>(u, r'). Inr (c # u, r'))"
proof (cases "c \<in> {DQ, BS, CHR 0x0A, CHR 0x0D, CHR 0x09, CHR 0x0C, CHR 0x08}")
  case True
  then show ?thesis
    by (auto simp: esc_char_def scan_escape_def simple_escape_def)
next
  case False
  then show ?thesis
    by (auto simp: esc_char_def scan_escape_control)
qed

lemma scan_string_text:
  "length s < f \<Longrightarrow> scan_string f (concat (map esc_char s) @ DQ # r) = Inr (s, r)"
proof (induction s arbitrary: f)
  case Nil
  then show ?case by (cases f) auto
next
  case (Cons c s)
  then obtain g where "f = Suc g" and "length s < g" by (cases f) auto
  with Cons.IH show ?case by (simp add: scan_string_esc_char)
qed

lemma esc_char_length: "1 \<le> length (esc_char c)"
  by (simp add: esc_char_def)

lemma esc_text_length: "length s \<le> length (concat (map esc_char s))"
proof (induction s)
  case (Cons c s)
  with esc_char_length [of c] show ?case by simp
qed simp

lemma scan_str_text:
  "scan_string (Suc (length (concat (map esc_char s) @ DQ # r))) (concat (map esc_char s) @ DQ # r) = Inr (s, r)"
  using esc_text_length [of s] by (intro scan_string_text) simp

section \<open>Reading back a printed value\<close>

text \<open>The values that have a text: integers of 64 bits, object keys without repetition.\<close>

fun json_ok :: "json \<Rightarrow> bool" and items_ok :: "json list \<Rightarrow> bool"
  and members_ok :: "(pystr \<times> json) list \<Rightarrow> bool" where
  "json_ok JNull = True"
| "json_ok (JBool b) = True"
| "json_ok (JInt i) = (MIN_INTEGER \<le> i \<and> i \<le> MAX_INTEGER)"
| "json_ok (JStr s) = True"
| "json_ok (JArr xs) = items_ok xs"
| "json_ok (JObj ms) = (distinct (map fst ms) \<and> members_ok ms)"
| "json_ok (JOther t) = False"
| "items_ok [] = True"
| "items_ok (x # xs) = (json_ok x \<and> items_ok xs)"
| "members_ok [] = True"
| "members_ok ((k, v) # ms) = (json_ok v \<and> members_ok ms)"

definition value_start :: "char \<Rightarrow> bool" where
  "value_start c \<longleftrightarrow> \<not> is_ws c \<and> c \<noteq> CHR '']'' \<and> c \<noteq> CHR ''}''"

lemma is_digit_value_start: "is_digit c \<Longrightarrow> value_start c"
  by (auto simp: value_start_def is_digit_def in_range_def is_ws_def)

lemma value_start_chars [simp]:
  "value_start (CHR ''-'')" "value_start (CHR ''n'')" "value_start (CHR ''t'')" "value_start (CHR ''f'')"
  "value_start DQ" "value_start (CHR ''['')" "value_start (CHR ''{'')"
  by (simp_all add: value_start_def is_ws_def)

lemma nat_str_start: "\<exists>c cs. nat_str n = c # cs \<and> is_digit c"
  using nat_str_digits [of n] by (cases "nat_str n") auto

lemma dumps_start: "json_ok v \<Longrightarrow> \<exists>c cs. dumps v = c # cs \<and> value_start c"
proof (cases v)
  case (JInt i)
  then show ?thesis
    using nat_str_start [of "nat (- i)"] nat_str_start [of "nat i"]
    by (auto simp: int_str_def dest: is_digit_value_start)
qed (auto simp: str_text_def)

lemma dumps_items_start: "items_ok xs \<Longrightarrow> xs \<noteq> [] \<Longrightarrow> \<exists>c cs. dumps_items xs = c # cs \<and> value_start c"
proof (induction xs rule: induct_list012)
  case (2 x)
  then show ?case using dumps_start [of x] by auto
next
  case (3 x y zs)
  then show ?case using dumps_start [of x] by auto
qed simp

lemma dumps_members_start: "ms \<noteq> [] \<Longrightarrow> \<exists>cs. dumps_members ms = DQ # cs"
  by (cases ms rule: dumps_members.cases) (auto simp: str_text_def)

lemma skip_ws_start: "\<not> is_ws c \<Longrightarrow> skip_ws (c # r) = c # r"
  by (simp add: skip_ws_def)

lemma skip_ws_value_start [simp]: "value_start c \<Longrightarrow> skip_ws (c # r) = c # r"
  by (simp add: value_start_def skip_ws_start)

lemma skip_ws_separators [simp]:
  "skip_ws (CHR '','' # r) = CHR '','' # r" "skip_ws (CHR '']'' # r) = CHR '']'' # r"
  "skip_ws (CHR ''}'' # r) = CHR ''}'' # r" "skip_ws (CHR '':'' # r) = CHR '':'' # r"
  by (simp_all add: skip_ws_start is_ws_def)

lemma skip_ws_dumps: "json_ok v \<Longrightarrow> skip_ws (dumps v @ r) = dumps v @ r"
  using dumps_start [of v] by auto

lemma unique_from_distinct:
  "distinct (map fst ms) \<Longrightarrow> set seen \<inter> fst ` set ms = {} \<Longrightarrow> unique_from seen ms = Inr ms"
  by (induction ms arbitrary: seen) auto

lemma unique_object_distinct: "distinct (map fst ms) \<Longrightarrow> unique_object ms = Inr ms"
  by (simp add: unique_object_def unique_from_distinct)

lemma parse_value_scalar:
  "s = c # r \<Longrightarrow> c \<noteq> DQ \<Longrightarrow> c \<noteq> CHR ''['' \<Longrightarrow> c \<noteq> CHR ''{'' \<Longrightarrow> 0 < f \<Longrightarrow> parse_value f s = parse_scalar s"
  by (cases f) auto

lemma parse_value_int:
  assumes "MIN_INTEGER \<le> i" and "i \<le> MAX_INTEGER" and "ends_value r" and "0 < f"
  shows "parse_value f (int_str i @ r) = Inr (JInt i, r)"
proof -
  obtain c cs where "int_str i = c # cs" "is_digit c \<or> c = CHR ''-''"
    using nat_str_start [of "nat (- i)"] nat_str_start [of "nat i"]
    by (cases "i < 0") (auto simp: int_str_def)
  then have "parse_value f (int_str i @ r) = parse_scalar (int_str i @ r)"
    using assms(4) by (intro parse_value_scalar) (auto simp: is_digit_def in_range_def)
  then show ?thesis by (simp add: parse_scalar_int assms)
qed

lemma ends_value_simps [simp]:
  "ends_value []" "ends_value (CHR '','' # r)" "ends_value (CHR '']'' # r)" "ends_value (CHR ''}'' # r)"
  by (simp_all add: ends_value_def)

theorem parse_dumps:
  "json_ok v \<Longrightarrow> ends_value r \<Longrightarrow> 2 * length (dumps v) < f \<Longrightarrow>
     parse_value f (dumps v @ r) = Inr (v, r)"
  "items_ok xs \<Longrightarrow> xs \<noteq> [] \<Longrightarrow> 2 * length (dumps_items xs) + 1 < f \<Longrightarrow>
     parse_items f (dumps_items xs @ CHR '']'' # r) = Inr (xs, r)"
  "members_ok ms \<Longrightarrow> ms \<noteq> [] \<Longrightarrow> 2 * length (dumps_members ms) + 1 < f \<Longrightarrow>
     parse_members f (dumps_members ms @ CHR ''}'' # r) = Inr (ms, r)"
proof (induction v and xs and ms arbitrary: r f and r f and r f rule: dumps_dumps_items_dumps_members.induct)
  case 1
  then show ?case by (cases f) (auto simp: parse_scalar_def starts_with_def)
next
  case (2 b)
  then show ?case by (cases f) (auto simp: parse_scalar_def starts_with_def)
next
  case (3 i)
  then show ?case by (auto intro: parse_value_int)
next
  case (4 s)
  then show ?case using scan_str_text [of s r] by (cases f) (auto simp: str_text_def)
next
  case (5 xs)
  then obtain g where f: "f = Suc g" "2 * length (dumps_items xs) + 1 < g" by (cases f) auto
  show ?case
  proof (cases "xs = []")
    case True
    with f show ?thesis by simp
  next
    case False
    with 5 f have "parse_items g (dumps_items xs @ CHR '']'' # r) = Inr (xs, r)" by simp
    with False 5(2) f dumps_items_start [of xs] show ?thesis
      by (auto simp: value_start_def skip_ws_start)
  qed
next
  case (6 ms)
  then obtain g where f: "f = Suc g" "2 * length (dumps_members ms) + 1 < g" by (cases f) auto
  show ?case
  proof (cases "ms = []")
    case True
    with f show ?thesis by simp
  next
    case False
    with 6 f have "parse_members g (dumps_members ms @ CHR ''}'' # r) = Inr (ms, r)" by simp
    with False 6(2) f dumps_members_start [of ms] show ?thesis
      by (auto simp: unique_object_distinct)
  qed
next
  case (7 t)
  then show ?case by simp
next
  case 8
  then show ?case by simp
next
  case (9 x)
  then obtain g where "f = Suc g" by (cases f) auto
  with 9 show ?case by simp
next
  case (10 x y ys)
  then obtain g where f: "f = Suc g" by (cases f) auto
  have "parse_value g (dumps x @ CHR '','' # dumps_items (y # ys) @ CHR '']'' # r) =
      Inr (x, CHR '','' # dumps_items (y # ys) @ CHR '']'' # r)"
    using 10 f by simp
  moreover have "parse_items g (dumps_items (y # ys) @ CHR '']'' # r) = Inr (y # ys, r)"
    using 10 f by simp
  moreover have "skip_ws (dumps_items (y # ys) @ CHR '']'' # r) = dumps_items (y # ys) @ CHR '']'' # r"
    using dumps_items_start [of "y # ys"] 10(3) by auto
  ultimately show ?case using f by simp
next
  case 11
  then show ?case by simp
next
  case (12 k v)
  then obtain g where f: "f = Suc g" "2 * length (dumps v) < g" by (cases f) (auto simp: str_text_def)
  with 12 have "parse_value g (dumps v @ CHR ''}'' # r) = Inr (v, CHR ''}'' # r)" by simp
  with f 12 skip_ws_dumps [of v] scan_str_text [of k "CHR '':'' # dumps v @ CHR ''}'' # r"] show ?case
    by (simp add: str_text_def)
next
  case (13 k v m ms)
  then obtain g where f: "f = Suc g" "2 * length (dumps v) < g" "2 * length (dumps_members (m # ms)) + 1 < g"
    by (cases f) (auto simp: str_text_def)
  let ?tail = "dumps_members (m # ms) @ CHR ''}'' # r"
  have "parse_value g (dumps v @ CHR '','' # ?tail) = Inr (v, CHR '','' # ?tail)"
    using 13 f by simp
  moreover have "parse_members g ?tail = Inr (m # ms, r)"
    using 13 f by simp
  moreover have "skip_ws ?tail = ?tail"
    using dumps_members_start [of "m # ms"] by auto
  moreover have "skip_ws (dumps v @ CHR '','' # ?tail) = dumps v @ CHR '','' # ?tail"
    using 13(3) skip_ws_dumps [of v] by simp
  ultimately show ?case
    using f scan_str_text [of k "CHR '':'' # dumps v @ CHR '','' # ?tail"]
    by (simp add: str_text_def)
qed

lemma json_loads_dumps: "json_ok v \<Longrightarrow> json_loads (dumps v) = Inr v"
  using parse_dumps(1) [of v "[]" "2 * length (dumps v) + 1"] skip_ws_dumps [of v "[]"]
  by (simp add: json_loads_def skip_ws_def)

section \<open>The reader's fuel is enough\<close>

lemma skip_ws_length: "length (skip_ws s) \<le> length s"
  by (simp add: skip_ws_def length_dropWhile_le)

lemma skip_ws_ConsD: "skip_ws s = c # r \<Longrightarrow> length r < length s"
  using skip_ws_length [of s] by simp

lemma hex4_length: "hex4 s = Some (n, r) \<Longrightarrow> length r < length s"
  by (cases s rule: hex4.cases) (auto split: option.splits)

lemma low_surrogate_length: "low_surrogate s = Some (n, r) \<Longrightarrow> length r < length s"
  by (cases s rule: low_surrogate.cases) (auto split: option.splits if_splits dest: hex4_length)

lemma scan_escape_length: "scan_escape s = Some (t, r) \<Longrightarrow> length r < length s"
  by (cases s)
    (auto simp: scan_escape_def split: option.splits if_splits dest!: hex4_length low_surrogate_length)

lemma scan_string_length: "scan_string f s = Inr (t, r) \<Longrightarrow> length r < length s"
proof (induction f s arbitrary: t r rule: scan_string.induct)
  case (3 f c s)
  then show ?case
    by (fastforce simp: bindR_eq_Inr split: if_splits option.splits dest: scan_escape_length)
qed auto

lemma scan_string_fuel: "length s < f \<Longrightarrow> scan_string f s \<noteq> Inl no_fuel"
proof (induction f arbitrary: s)
  case (Suc f)
  show ?case
  proof (cases s)
    case (Cons c s')
    have ih: "scan_string f u \<noteq> Inl no_fuel" if "length u \<le> length s'" for u
      using Suc that Cons by simp
    have "scan_string f u \<noteq> Inl no_fuel" if "scan_escape s' = Some (t, u)" for t u
      using ih scan_escape_length [OF that] by simp
    with ih show ?thesis
      using Cons by (auto simp: bindR_eq_Inl split: option.splits)
  qed simp
qed simp

lemma parse_number_length: "parse_number neg s = Inr (v, r) \<Longrightarrow> length r < length s"
  by (cases s) (auto simp: parse_number_def reject_float_def bindR_eq_Inr Let_def split: if_splits)

lemma parse_number_fuel: "parse_number neg s \<noteq> Inl no_fuel"
  by (auto simp: parse_number_def reject_float_def bindR_eq_Inl parse_int_def Let_def split: list.splits)

lemma parse_scalar_length: "parse_scalar s = Inr (v, r) \<Longrightarrow> length r < length s"
  by (cases s)
    (auto simp: parse_scalar_def reject_constant_def starts_with_def split: if_splits dest: parse_number_length)

lemma parse_scalar_fuel: "parse_scalar s \<noteq> Inl no_fuel"
  using parse_number_fuel
  by (auto simp: parse_scalar_def reject_constant_def split: list.splits)

lemma unique_from_fuel: "unique_from seen ms \<noteq> Inl no_fuel"
  by (induction seen ms rule: unique_from.induct) (auto simp: bindR_eq_Inl)

text \<open>What a successful step of the element and member readers has read.\<close>

lemma parse_items_SucE:
  assumes "parse_items (Suc f) s = Inr (xs, r)"
  obtains x r1 d r2 where "parse_value f s = Inr (x, r1)" and "skip_ws r1 = d # r2"
    and "r = r2 \<or> (\<exists>ys. parse_items f (skip_ws r2) = Inr (ys, r))"
proof -
  from assms obtain x r1 where p: "parse_value f s = Inr (x, r1)" by (auto simp: bindR_eq_Inr)
  with assms obtain d r2 where d: "skip_ws r1 = d # r2" by (cases "skip_ws r1") auto
  with assms p have "r = r2 \<or> (\<exists>ys. parse_items f (skip_ws r2) = Inr (ys, r))"
    by (auto simp: bindR_eq_Inr split: if_splits)
  with p d that show thesis by blast
qed

lemma parse_members_SucE:
  assumes "parse_members (Suc f) s = Inr (ms, r)"
  obtains c r0 k r1 d r2 v r3 e r4 where "s = c # r0"
    and "scan_string (Suc (length r0)) r0 = Inr (k, r1)" and "skip_ws r1 = d # r2"
    and "parse_value f (skip_ws r2) = Inr (v, r3)" and "skip_ws r3 = e # r4"
    and "r = r4 \<or> (\<exists>ys. parse_members f (skip_ws r4) = Inr (ys, r))"
proof -
  from assms obtain c r0 where s: "s = c # r0" by (cases s) auto
  with assms obtain k r1 where k: "scan_string (Suc (length r0)) r0 = Inr (k, r1)"
    by (auto simp: bindR_eq_Inr split: if_splits)
  with assms s obtain d r2 where d: "skip_ws r1 = d # r2"
    by (cases "skip_ws r1") (auto split: if_splits)
  with assms s k obtain v r3 where v: "parse_value f (skip_ws r2) = Inr (v, r3)"
    by (auto simp: bindR_eq_Inr split: if_splits)
  with assms s k d obtain e r4 where e: "skip_ws r3 = e # r4"
    by (cases "skip_ws r3") (auto split: if_splits)
  with assms s k d v have "r = r4 \<or> (\<exists>ys. parse_members f (skip_ws r4) = Inr (ys, r))"
    by (auto simp: bindR_eq_Inr split: if_splits)
  with s k d v e that show thesis by blast
qed

lemma parse_length:
  "(\<forall>s v r. parse_value f s = Inr (v, r) \<longrightarrow> length r < length s) \<and>
   (\<forall>s xs r. parse_items f s = Inr (xs, r) \<longrightarrow> length r < length s) \<and>
   (\<forall>s ms r. parse_members f s = Inr (ms, r) \<longrightarrow> length r < length s)"
proof (induction f)
  case (Suc f)
  then have ih:
    "\<And>s v r. parse_value f s = Inr (v, r) \<Longrightarrow> length r < length s"
    "\<And>s xs r. parse_items f s = Inr (xs, r) \<Longrightarrow> length r < length s"
    "\<And>s ms r. parse_members f s = Inr (ms, r) \<Longrightarrow> length r < length s"
    by blast+
  have "length r < length s" if "parse_value (Suc f) s = Inr (v, r)" for s v r
  proof -
    from that obtain c r0 where s: "s = c # r0" by (auto split: list.splits)
    have it: "length r' < length r0" if "skip_ws r0 = d # r1" "parse_items f (d # r1) = Inr (xs, r')" for d r1 xs r'
      using ih(2) [OF that(2)] skip_ws_ConsD [OF that(1)] by simp
    have mb: "length r' < length r0" if "skip_ws r0 = d # r1" "parse_members f (d # r1) = Inr (ms, r')" for d r1 ms r'
      using ih(3) [OF that(2)] skip_ws_ConsD [OF that(1)] by simp
    consider "c = DQ" | "c = CHR ''[''" | "c = CHR ''{''"
      | "c \<noteq> DQ" "c \<noteq> CHR ''[''" "c \<noteq> CHR ''{''" by blast
    then show ?thesis
    proof cases
      case 1
      with that s show ?thesis by (auto simp: bindR_eq_Inr less_SucI dest: scan_string_length)
    next
      case 2
      with that s obtain d r1 where d: "skip_ws r0 = d # r1"
        and "r = r1 \<or> (\<exists>xs. parse_items f (d # r1) = Inr (xs, r))"
        by (cases "skip_ws r0") (auto simp: bindR_eq_Inr split: if_splits)
      with s skip_ws_ConsD [OF d] it [OF d] show ?thesis by auto
    next
      case 3
      with that s obtain d r1 where d: "skip_ws r0 = d # r1"
        and "r = r1 \<or> (\<exists>ms. parse_members f (d # r1) = Inr (ms, r))"
        by (cases "skip_ws r0") (auto simp: bindR_eq_Inr split: if_splits)
      with s skip_ws_ConsD [OF d] mb [OF d] show ?thesis by auto
    next
      case 4
      with that s have "parse_scalar s = Inr (v, r)" by simp
      then show ?thesis by (rule parse_scalar_length)
    qed
  qed
  moreover have "length r < length s" if it: "parse_items (Suc f) s = Inr (xs, r)" for s xs r
  proof -
    from it obtain x r1 d r2 where p: "parse_value f s = Inr (x, r1)" "skip_ws r1 = d # r2"
      and c: "r = r2 \<or> (\<exists>ys. parse_items f (skip_ws r2) = Inr (ys, r))"
      by (rule parse_items_SucE)
    from c have "length r \<le> length r2" using ih(2) skip_ws_length [of r2] by fastforce
    with ih(1) [OF p(1)] skip_ws_ConsD [OF p(2)] show ?thesis by simp
  qed
  moreover have "length r < length s" if it: "parse_members (Suc f) s = Inr (ms, r)" for s ms r
  proof -
    from it obtain c r0 k r1 d r2 v r3 e r4 where p: "s = c # r0"
      "scan_string (Suc (length r0)) r0 = Inr (k, r1)" "skip_ws r1 = d # r2"
      "parse_value f (skip_ws r2) = Inr (v, r3)" "skip_ws r3 = e # r4"
      and c: "r = r4 \<or> (\<exists>ys. parse_members f (skip_ws r4) = Inr (ys, r))"
      by (rule parse_members_SucE)
    from c have "length r \<le> length r4" using ih(3) skip_ws_length [of r4] by fastforce
    with ih(1) [OF p(4)] skip_ws_ConsD [OF p(3)] skip_ws_ConsD [OF p(5)] scan_string_length [OF p(2)]
      skip_ws_length [of r2] p(1) show ?thesis by simp
  qed
  ultimately show ?case by blast
qed simp

lemmas parse_value_length = parse_length [THEN conjunct1, rule_format]

lemma parse_fuel:
  "(\<forall>s. 2 * length s < f \<longrightarrow> parse_value f s \<noteq> Inl no_fuel) \<and>
   (\<forall>s. 2 * length s + 1 < f \<longrightarrow> parse_items f s \<noteq> Inl no_fuel) \<and>
   (\<forall>s. 2 * length s + 1 < f \<longrightarrow> parse_members f s \<noteq> Inl no_fuel)"
proof (induction f)
  case (Suc f)
  then have ih:
    "\<And>s. 2 * length s < f \<Longrightarrow> parse_value f s \<noteq> Inl no_fuel"
    "\<And>s. 2 * length s + 1 < f \<Longrightarrow> parse_items f s \<noteq> Inl no_fuel"
    "\<And>s. 2 * length s + 1 < f \<Longrightarrow> parse_members f s \<noteq> Inl no_fuel"
    by blast+
  have v: "parse_value (Suc f) s \<noteq> Inl no_fuel" if l: "2 * length s < Suc f" for s
  proof (cases s)
    case (Cons c r)
    have it: "parse_items f (d # r') \<noteq> Inl no_fuel" "parse_members f (d # r') \<noteq> Inl no_fuel"
      if "skip_ws r = d # r'" for d r'
      using skip_ws_ConsD [OF that] l Cons by (auto intro!: ih)
    have "scan_string (Suc (length r)) r \<noteq> Inl no_fuel" by (rule scan_string_fuel) simp
    with it Cons show ?thesis
      using parse_scalar_fuel [of s] unique_from_fuel [of "[]"]
      by (auto simp: bindR_eq_Inl unique_object_def split: list.splits)
  qed simp
  have i: "parse_items (Suc f) s \<noteq> Inl no_fuel" if l: "2 * length s + 1 < Suc f" for s
  proof -
    have "parse_items f (skip_ws r2) \<noteq> Inl no_fuel"
      if "parse_value f s = Inr (x, r1)" "skip_ws r1 = d # r2" for x r1 d r2
      using parse_value_length [OF that(1)] skip_ws_ConsD [OF that(2)] skip_ws_length [of r2] l
      by (intro ih) simp
    moreover have "parse_value f s \<noteq> Inl no_fuel" using l by (intro ih) simp
    ultimately show ?thesis by (auto simp: bindR_eq_Inl split: list.splits)
  qed
  have m: "parse_members (Suc f) s \<noteq> Inl no_fuel" if l: "2 * length s + 1 < Suc f" for s
  proof (cases s)
    case (Cons c r0)
    have "scan_string (Suc (length r0)) r0 \<noteq> Inl no_fuel" by (rule scan_string_fuel) simp
    moreover have "parse_value f (skip_ws r2) \<noteq> Inl no_fuel"
      if "scan_string (Suc (length r0)) r0 = Inr (k, r1)" "skip_ws r1 = d # r2" for k r1 d r2
      using scan_string_length [OF that(1)] skip_ws_ConsD [OF that(2)] skip_ws_length [of r2] l Cons
      by (intro ih) simp
    moreover have "parse_members f (skip_ws r4) \<noteq> Inl no_fuel"
      if "scan_string (Suc (length r0)) r0 = Inr (k, r1)" "skip_ws r1 = d # r2"
        "parse_value f (skip_ws r2) = Inr (v, r3)" "skip_ws r3 = e # r4" for k r1 d r2 v r3 e r4
      using scan_string_length [OF that(1)] skip_ws_ConsD [OF that(2)] skip_ws_length [of r2]
        parse_value_length [OF that(3)] skip_ws_ConsD [OF that(4)] skip_ws_length [of r4] l Cons
      by (intro ih) simp
    ultimately show ?thesis using Cons by (auto simp: bindR_eq_Inl split: list.splits)
  qed simp
  from v i m show ?case by blast
qed simp

text \<open>The reader never stops for lack of fuel: a text is a value or a protocol error.\<close>

lemma json_loads_has_fuel: "json_loads t \<noteq> Inl no_fuel"
proof -
  have "2 * length (skip_ws t) < 2 * length t + 1"
    using skip_ws_length [of t] by simp
  then have "parse_value (2 * length t + 1) (skip_ws t) \<noteq> Inl no_fuel"
    using parse_fuel by blast
  then show ?thesis by (auto simp: json_loads_def bindR_eq_Inl)
qed

end
