(* ===== verification/Protocol_V1.thy ===== *)
theory Protocol_V1
  imports Json_Text "HOL-Library.Multiset"
begin

text \<open>
  \<open>src/etzio/protocol/v1.py\<close>: strict normalisation of JSON values, the one canonical byte
  representation, content identities and the common envelope. The three functions that the module
  takes from outside the repository are fields of \<open>externals\<close> and an argument of every
  definition that uses them: \<open>hashlib.sha256(..).digest()\<close>, \<open>unicodedata2.normalize("NFC", ..)\<close>, and the
  Ed25519 primitives that the trust modules call. Nothing is assumed of them unless a theorem
  says so.

  The results: normalisation is idempotent and keeps the key set of every object, the canonical bytes
  of a value read back as its normal form, equal canonical bytes mean equal normal forms, and
  \<open>EnvelopeV1.from_bytes\<close> accepts exactly the canonical bytes of the envelopes that
  \<open>EnvelopeV1.create\<close> builds.
\<close>

section \<open>External functions\<close>

record externals =
  sha256 :: "bytes \<Rightarrow> bytes"
  nfc :: "pystr \<Rightarrow> pystr"
  ed25519_valid_point :: "bytes \<Rightarrow> bool"
  ed25519_loadable :: "bytes \<Rightarrow> bool"
  ed25519_verify :: "bytes \<Rightarrow> bytes \<Rightarrow> bytes \<Rightarrow> bool"

section \<open>Constants\<close>

definition PROTOCOL_VERSION :: int where "PROTOCOL_VERSION = 1"
definition OBJECT_VERSION :: int where "OBJECT_VERSION = 1"
definition MAX_WIRE_BYTES :: nat where "MAX_WIRE_BYTES = 16 * 1024 * 1024"
definition MAX_STRING_CODEPOINTS :: nat where "MAX_STRING_CODEPOINTS = 1000000"
definition MAX_KEY_CODEPOINTS :: nat where "MAX_KEY_CODEPOINTS = 128"
definition MAX_CONTAINER_ITEMS :: nat where "MAX_CONTAINER_ITEMS = 10000"
definition MAX_TOTAL_NODES :: nat where "MAX_TOTAL_NODES = 100000"
definition MAX_NESTING_DEPTH :: nat where "MAX_NESTING_DEPTH = 64"

definition SUPPORTED_OBJECT_KINDS :: "string list" where
  "SUPPORTED_OBJECT_KINDS =
     [''analysis_lease'', ''authority_admission'', ''authority_grant'', ''candidate'', ''event'',
      ''head_checkpoint'', ''integrity_decision'', ''target_snapshot'',
      ''verification_artifact_resolution'', ''verification_lease'', ''verifier_receipt'']"

definition ENVELOPE_FIELDS_V1 :: "string list" where
  "ENVELOPE_FIELDS_V1 =
     [''attestations'', ''body'', ''object_id'', ''object_kind'', ''object_version'', ''protocol_version'']"

section \<open>Strings and keys\<close>

abbreviation protocol_error :: "string \<Rightarrow> 'a result" where
  "protocol_error m \<equiv> Inl (ProtocolError ''invalid_protocol'' m)"

text \<open>The number of code points: every byte but the continuation bytes starts one.\<close>

definition codepoints :: "pystr \<Rightarrow> nat" where
  "codepoints s = length (filter (\<lambda>c. \<not> in_range 128 191 c) s)"

definition isascii :: "pystr \<Rightarrow> bool" where
  "isascii s \<longleftrightarrow> list_all (in_range 0 127) s"

text \<open>
  Strict UTF-8, as \<open>bytes.decode("utf-8")\<close> accepts it. On a text it fails exactly when the
  text contains a surrogate code point.
\<close>

definition utf8_len :: "char \<Rightarrow> nat" where
  "utf8_len a =
     (if in_range 0 127 a then 1 else if in_range 194 223 a then 2
      else if in_range 224 239 a then 3 else if in_range 240 244 a then 4 else 0)"

definition utf8_one :: "bytes \<Rightarrow> bool" where
  "utf8_one p =
     (case p of
        [a] \<Rightarrow> in_range 0 127 a
      | [a, b] \<Rightarrow> in_range 194 223 a \<and> in_range 128 191 b
      | [a, b, c] \<Rightarrow> in_range 224 239 a \<and>
          in_range (if of_char a = (224 :: nat) then 160 else 128)
            (if of_char a = (237 :: nat) then 159 else 191) b \<and> in_range 128 191 c
      | [a, b, c, d] \<Rightarrow> in_range 240 244 a \<and>
          in_range (if of_char a = (240 :: nat) then 144 else 128)
            (if of_char a = (244 :: nat) then 143 else 191) b \<and> in_range 128 191 c \<and> in_range 128 191 d
      | _ \<Rightarrow> False)"

function utf8_valid :: "bytes \<Rightarrow> bool" where
  "utf8_valid [] = True"
| "utf8_valid (a # r) =
     (if utf8_len a = 0 then False
      else utf8_one (take (utf8_len a) (a # r)) \<and> utf8_valid (drop (utf8_len a) (a # r)))"
  by pat_completeness auto
termination
  by (relation "measure length") auto

declare utf8_valid.simps(2) [simp del]

definition validate_string :: "externals \<Rightarrow> pystr \<Rightarrow> pystr result" where
  "validate_string X s =
     (if codepoints s > MAX_STRING_CODEPOINTS
      then protocol_error ''string exceeds the protocol length ceiling''
      else if isascii s then Inr s
      else if \<not> utf8_valid s
      then protocol_error ''Unicode surrogate code points are forbidden''
      else if nfc X s \<noteq> s
      then protocol_error ''strings must already be NFC-normalized''
      else Inr s)"

text \<open>\<open>_KEY_PATTERN\<close>: \<open>^[a-z][a-z0-9]*(?:_[a-z0-9]+)*$\<close>, as an automaton.\<close>

fun snake_rest :: "bool \<Rightarrow> string \<Rightarrow> bool" where
  "snake_rest complete [] = complete"
| "snake_rest complete (c # s) =
     (if is_lower c \<or> is_digit c then snake_rest True s
      else complete \<and> c = CHR ''_'' \<and> snake_rest False s)"

definition snake_case :: "string \<Rightarrow> bool" where
  "snake_case s = (case s of [] \<Rightarrow> False | c # r \<Rightarrow> is_lower c \<and> snake_rest True r)"

definition validate_key :: "externals \<Rightarrow> pystr \<Rightarrow> pystr result" where
  "validate_key X k =
     bindR (validate_string X k) (\<lambda>_.
       if codepoints k > MAX_KEY_CODEPOINTS
       then protocol_error ''object key exceeds the protocol length ceiling''
       else if \<not> snake_case k
       then protocol_error ''object keys must be ASCII snake_case''
       else Inr k)"

section \<open>Normalisation\<close>

text \<open>
  \<open>_normalize_json\<close>. The node counter is threaded through the traversal: every function returns the
  counter it ends with. \<open>enter_node\<close> is the check at the head of the function.
\<close>

definition enter_node :: "nat \<Rightarrow> nat \<Rightarrow> nat result" where
  "enter_node depth node_count =
     (if depth > MAX_NESTING_DEPTH then protocol_error ''value exceeds the protocol nesting ceiling''
      else if node_count + 1 > MAX_TOTAL_NODES
      then protocol_error ''value exceeds the protocol node-count ceiling''
      else Inr (node_count + 1))"

fun normalize_json :: "externals \<Rightarrow> nat \<Rightarrow> nat \<Rightarrow> json \<Rightarrow> (json \<times> nat) result"
  and normalize_items :: "externals \<Rightarrow> nat \<Rightarrow> nat \<Rightarrow> json list \<Rightarrow> (json list \<times> nat) result"
  and normalize_members ::
    "externals \<Rightarrow> nat \<Rightarrow> nat \<Rightarrow> (pystr \<times> json) list \<Rightarrow> ((pystr \<times> json) list \<times> nat) result" where
  "normalize_json X d n JNull = bindR (enter_node d n) (\<lambda>n. Inr (JNull, n))"
| "normalize_json X d n (JBool b) = bindR (enter_node d n) (\<lambda>n. Inr (JBool b, n))"
| "normalize_json X d n (JInt i) = bindR (enter_node d n) (\<lambda>n.
     if i < MIN_INTEGER \<or> i > MAX_INTEGER
     then protocol_error ''integer exceeds the signed 64-bit protocol range''
     else Inr (JInt i, n))"
| "normalize_json X d n (JStr s) = bindR (enter_node d n) (\<lambda>n.
     bindR (validate_string X s) (\<lambda>s. Inr (JStr s, n)))"
| "normalize_json X d n (JArr xs) = bindR (enter_node d n) (\<lambda>n.
     if length xs > MAX_CONTAINER_ITEMS
     then protocol_error ''array exceeds the protocol item-count ceiling''
     else bindR (normalize_items X (d + 1) n xs) (\<lambda>(ys, n). Inr (JArr ys, n)))"
| "normalize_json X d n (JObj ms) = bindR (enter_node d n) (\<lambda>n.
     if length ms > MAX_CONTAINER_ITEMS
     then protocol_error ''object exceeds the protocol member-count ceiling''
     else bindR (normalize_members X (d + 1) n ms) (\<lambda>(ys, n). Inr (JObj (sort_key fst ys), n)))"
| "normalize_json X d n (JOther t) = bindR (enter_node d n) (\<lambda>n.
     protocol_error ''unsupported JSON value type'')"
| "normalize_items X d n [] = Inr ([], n)"
| "normalize_items X d n (x # xs) =
     bindR (normalize_json X d n x) (\<lambda>(y, n).
     bindR (normalize_items X d n xs) (\<lambda>(ys, n). Inr (y # ys, n)))"
| "normalize_members X d n [] = Inr ([], n)"
| "normalize_members X d n ((k, v) # ms) =
     bindR (validate_key X k) (\<lambda>k.
     bindR (normalize_json X d n v) (\<lambda>(w, n).
     bindR (normalize_members X d n ms) (\<lambda>(ys, n). Inr ((k, w) # ys, n))))"

text \<open>
  \<open>thaw_json\<close> and \<open>freeze_json\<close>: both validate; the frozen and the thawed form of a value
  have the same image here.
\<close>

definition thaw_json :: "externals \<Rightarrow> json \<Rightarrow> json result" where
  "thaw_json X v = bindR (normalize_json X 0 0 v) (\<lambda>(w, _). Inr w)"

definition freeze_json :: "externals \<Rightarrow> json \<Rightarrow> json result" where
  "freeze_json X v = bindR (normalize_json X 0 0 v) (\<lambda>(w, _). Inr w)"

section \<open>Canonical bytes and strict decoding\<close>

text \<open>
  The members of a normal form are sorted already, so the \<open>sort_keys=True\<close> of the call has
  nothing left to do.
\<close>

definition canonical_dumps :: "externals \<Rightarrow> json \<Rightarrow> bytes result" where
  "canonical_dumps X v =
     bindR (normalize_json X 0 0 v) (\<lambda>(w, _).
       if length (dumps w) > MAX_WIRE_BYTES
       then protocol_error ''canonical JSON exceeds the protocol wire-byte ceiling''
       else Inr (dumps w))"

definition strict_loads :: "externals \<Rightarrow> bytes \<Rightarrow> json result" where
  "strict_loads X data =
     (if length data > MAX_WIRE_BYTES then protocol_error ''wire input exceeds the protocol byte ceiling''
      else if \<not> utf8_valid data then protocol_error ''wire bytes must be valid UTF-8''
      else bindR (json_loads data) (\<lambda>v. bindR (normalize_json X 0 0 v) (\<lambda>(w, _). Inr w)))"

section \<open>Content identities\<close>

definition validate_kind :: "bool \<Rightarrow> pystr \<Rightarrow> pystr result" where
  "validate_kind supported_only kind =
     (if \<not> snake_case kind then protocol_error ''object kind must be an ASCII snake_case string''
      else if supported_only \<and> kind \<notin> set SUPPORTED_OBJECT_KINDS
      then protocol_error ''unsupported protocol-v1 object kind''
      else Inr kind)"

definition CONTENT_DOMAIN :: bytes where
  "CONTENT_DOMAIN = ''etzio.protocol.v1'' @ [CHR 0x00]"

definition content_id :: "externals \<Rightarrow> pystr \<Rightarrow> json \<Rightarrow> digest result" where
  "content_id X kind v =
     bindR (validate_kind False kind) (\<lambda>valid_kind.
     bindR (canonical_dumps X v) (\<lambda>semantic_bytes.
       Inr (''sha256:'' @ hex_bytes (sha256 X (CONTENT_DOMAIN @ valid_kind @ [CHR 0x00] @ semantic_bytes)))))"

text \<open>\<open>^sha256:[0-9a-f]{64}$\<close>, which several modules compile under different names.\<close>

definition full_digest :: "pystr \<Rightarrow> bool" where
  "full_digest s \<longleftrightarrow>
     starts_with ''sha256:'' s \<and> length s = 71 \<and> list_all is_lower_hex (drop 7 s)"

section \<open>The common envelope\<close>

record envelope =
  env_kind :: pystr
  env_object_id :: digest
  env_body :: "(pystr \<times> json) list"
  env_attestations :: "json list"

definition envelope_to_json :: "externals \<Rightarrow> envelope \<Rightarrow> json result" where
  "envelope_to_json X e =
     bindR (thaw_json X (JObj (env_body e))) (\<lambda>body.
     bindR (thaw_json X (JArr (env_attestations e))) (\<lambda>attestations.
       Inr (JObj [(''protocol_version'', JInt PROTOCOL_VERSION), (''object_kind'', JStr (env_kind e)),
             (''object_version'', JInt OBJECT_VERSION), (''object_id'', JStr (env_object_id e)),
             (''body'', body), (''attestations'', attestations)])))"

definition envelope_to_bytes :: "externals \<Rightarrow> envelope \<Rightarrow> bytes result" where
  "envelope_to_bytes X e = bindR (envelope_to_json X e) (canonical_dumps X)"

fun is_JObj :: "json \<Rightarrow> bool" where
  "is_JObj (JObj ms) = True"
| "is_JObj _ = False"

fun obj_members :: "json \<Rightarrow> (pystr \<times> json) list" where
  "obj_members (JObj ms) = ms"
| "obj_members _ = []"

fun is_JArr :: "json \<Rightarrow> bool" where
  "is_JArr (JArr xs) = True"
| "is_JArr _ = False"

fun arr_items :: "json \<Rightarrow> json list" where
  "arr_items (JArr xs) = xs"
| "arr_items _ = []"

definition envelope_create :: "externals \<Rightarrow> pystr \<Rightarrow> json \<Rightarrow> json \<Rightarrow> envelope result" where
  "envelope_create X object_kind body attestations =
     bindR (validate_kind True object_kind) (\<lambda>kind.
     bindR (freeze_json X body) (\<lambda>frozen_body.
     if \<not> is_JObj frozen_body then protocol_error ''envelope body must be a JSON object''
     else bindR (freeze_json X attestations) (\<lambda>frozen_attestations.
     if \<not> is_JArr frozen_attestations \<or> \<not> list_all is_JObj (arr_items frozen_attestations)
     then protocol_error ''envelope attestations must be an array of JSON objects''
     else if length (arr_items frozen_attestations) > 16
     then protocol_error ''envelope exceeds the attestation-count ceiling''
     else bindR (content_id X kind frozen_body) (\<lambda>object_id.
       let e = \<lparr>env_kind = kind, env_object_id = object_id, env_body = obj_members frozen_body,
                env_attestations = arr_items frozen_attestations\<rparr>
       in bindR (envelope_to_bytes X e) (\<lambda>_. Inr e)))))"

definition member :: "pystr \<Rightarrow> json \<Rightarrow> json" where
  "member k v = (case map_of (obj_members v) k of Some w \<Rightarrow> w | None \<Rightarrow> JNull)"

definition envelope_from_bytes :: "externals \<Rightarrow> bytes \<Rightarrow> envelope result" where
  "envelope_from_bytes X data =
     bindR (strict_loads X data) (\<lambda>decoded.
     if \<not> is_JObj decoded then protocol_error ''protocol envelope must be a JSON object''
     else let fields = set (map fst (obj_members decoded)) in
     if \<not> fields \<subseteq> set ENVELOPE_FIELDS_V1 then protocol_error ''unknown envelope fields''
     else if \<not> set ENVELOPE_FIELDS_V1 \<subseteq> fields then protocol_error ''missing envelope fields''
     else if member ''protocol_version'' decoded \<noteq> JInt PROTOCOL_VERSION
     then protocol_error ''unsupported protocol version''
     else if member ''object_version'' decoded \<noteq> JInt OBJECT_VERSION
     then protocol_error ''unsupported object version''
     else (case member ''object_kind'' decoded of
       JStr k \<Rightarrow> bindR (validate_kind True k) (\<lambda>kind.
         case member ''object_id'' decoded of
           JStr supplied_id \<Rightarrow>
             if \<not> full_digest supplied_id then protocol_error ''malformed object_id''
             else if \<not> is_JObj (member ''body'' decoded)
             then protocol_error ''envelope body must be a JSON object''
             else if \<not> is_JArr (member ''attestations'' decoded) \<or>
                     \<not> list_all is_JObj (arr_items (member ''attestations'' decoded))
             then protocol_error ''envelope attestations must be an array of JSON objects''
             else bindR (envelope_create X kind (member ''body'' decoded) (member ''attestations'' decoded))
               (\<lambda>e. if supplied_id \<noteq> env_object_id e
                    then Inl (ProtocolError ''object_id_mismatch''
                           ''object_id does not match the canonical semantic body'')
                    else bindR (envelope_to_bytes X e) (\<lambda>b.
                      if data \<noteq> b
                      then Inl (ProtocolError ''noncanonical_envelope''
                             ''protocol envelope bytes are not canonical'')
                      else Inr e))
         | _ \<Rightarrow> protocol_error ''malformed object_id'')
     | _ \<Rightarrow> protocol_error ''object kind must be an ASCII snake_case string''))"

section \<open>What normalisation accepts and computes\<close>

text \<open>
  The traversal is described without its counter: the conditions it checks at each node
  (\<open>wf_json\<close>), the number of nodes it visits (\<open>nodes\<close>) and the value it builds
  (\<open>norm_json\<close>).
\<close>

fun nodes :: "json \<Rightarrow> nat" and nodes_items :: "json list \<Rightarrow> nat" and nodes_members :: "(pystr \<times> json) list \<Rightarrow> nat" where
  "nodes (JArr xs) = Suc (nodes_items xs)"
| "nodes (JObj ms) = Suc (nodes_members ms)"
| "nodes _ = 1"
| "nodes_items [] = 0"
| "nodes_items (x # xs) = nodes x + nodes_items xs"
| "nodes_members [] = 0"
| "nodes_members ((k, v) # ms) = nodes v + nodes_members ms"

fun norm_json :: "json \<Rightarrow> json" and norm_items :: "json list \<Rightarrow> json list"
  and norm_members :: "(pystr \<times> json) list \<Rightarrow> (pystr \<times> json) list" where
  "norm_json (JArr xs) = JArr (norm_items xs)"
| "norm_json (JObj ms) = JObj (sort_key fst (norm_members ms))"
| "norm_json v = v"
| "norm_items [] = []"
| "norm_items (x # xs) = norm_json x # norm_items xs"
| "norm_members [] = []"
| "norm_members ((k, v) # ms) = (k, norm_json v) # norm_members ms"

fun wf_json :: "externals \<Rightarrow> nat \<Rightarrow> json \<Rightarrow> bool" and wf_items :: "externals \<Rightarrow> nat \<Rightarrow> json list \<Rightarrow> bool"
  and wf_members :: "externals \<Rightarrow> nat \<Rightarrow> (pystr \<times> json) list \<Rightarrow> bool" where
  "wf_json X d JNull = (d \<le> MAX_NESTING_DEPTH)"
| "wf_json X d (JBool b) = (d \<le> MAX_NESTING_DEPTH)"
| "wf_json X d (JInt i) = (d \<le> MAX_NESTING_DEPTH \<and> MIN_INTEGER \<le> i \<and> i \<le> MAX_INTEGER)"
| "wf_json X d (JStr s) = (d \<le> MAX_NESTING_DEPTH \<and> validate_string X s = Inr s)"
| "wf_json X d (JArr xs) = (d \<le> MAX_NESTING_DEPTH \<and> length xs \<le> MAX_CONTAINER_ITEMS \<and> wf_items X (d + 1) xs)"
| "wf_json X d (JObj ms) = (d \<le> MAX_NESTING_DEPTH \<and> length ms \<le> MAX_CONTAINER_ITEMS \<and> wf_members X (d + 1) ms)"
| "wf_json X d (JOther t) = False"
| "wf_items X d [] = True"
| "wf_items X d (x # xs) = (wf_json X d x \<and> wf_items X d xs)"
| "wf_members X d [] = True"
| "wf_members X d ((k, v) # ms) = (validate_key X k = Inr k \<and> wf_json X d v \<and> wf_members X d ms)"

lemma validate_string_result: "validate_string X s = Inr t \<Longrightarrow> t = s"
  by (auto simp: validate_string_def split: if_splits)

lemma validate_key_result: "validate_key X s = Inr t \<Longrightarrow> t = s"
  by (auto simp: validate_key_def bindR_eq_Inr split: if_splits)

lemma enter_node_eq_Inr [result_simps]:
  "enter_node d n = Inr m \<longleftrightarrow> d \<le> MAX_NESTING_DEPTH \<and> n + 1 \<le> MAX_TOTAL_NODES \<and> m = n + 1"
  by (auto simp: enter_node_def)

lemma validate_string_cases: "validate_string X s = Inr t \<longleftrightarrow> t = s \<and> validate_string X s = Inr s"
  using validate_string_result by blast

lemma validate_key_cases: "validate_key X s = Inr t \<longleftrightarrow> t = s \<and> validate_key X s = Inr s"
  using validate_key_result by blast

lemma nodes_positive: "1 \<le> nodes v"
  by (cases v) auto

theorem normalize_eq_Inr:
  "normalize_json X d n v = Inr (w, m) \<longleftrightarrow>
     wf_json X d v \<and> n + nodes v \<le> MAX_TOTAL_NODES \<and> w = norm_json v \<and> m = n + nodes v"
  "n \<le> MAX_TOTAL_NODES \<Longrightarrow> normalize_items X d n xs = Inr (ys, m) \<longleftrightarrow>
     wf_items X d xs \<and> n + nodes_items xs \<le> MAX_TOTAL_NODES \<and> ys = norm_items xs \<and> m = n + nodes_items xs"
  "n \<le> MAX_TOTAL_NODES \<Longrightarrow> normalize_members X d n ms = Inr (ns, m) \<longleftrightarrow>
     wf_members X d ms \<and> n + nodes_members ms \<le> MAX_TOTAL_NODES \<and> ns = norm_members ms \<and> m = n + nodes_members ms"
proof (induction X d n v and X d n xs and X d n ms arbitrary: w m and ys m and ns m
    rule: normalize_json_normalize_items_normalize_members.induct)
  case (4 X d n s)
  then show ?case by (subst normalize_json.simps) (auto simp: result_simps dest: validate_string_result)
next
  case (5 X d n xs)
  show ?case
  proof (cases "d \<le> MAX_NESTING_DEPTH \<and> n + 1 \<le> MAX_TOTAL_NODES \<and> length xs \<le> MAX_CONTAINER_ITEMS")
    case True
    then have "enter_node d n = Inr (n + 1)" by (simp add: enter_node_def)
    with True 5 [of "n + 1"] show ?thesis by (auto simp: result_simps)
  next
    case False
    then show ?thesis by (auto simp: result_simps)
  qed
next
  case (6 X d n ms)
  show ?case
  proof (cases "d \<le> MAX_NESTING_DEPTH \<and> n + 1 \<le> MAX_TOTAL_NODES \<and> length ms \<le> MAX_CONTAINER_ITEMS")
    case True
    then have "enter_node d n = Inr (n + 1)" by (simp add: enter_node_def)
    with True 6 [of "n + 1"] show ?thesis by (auto simp: result_simps)
  next
    case False
    then show ?thesis by (auto simp: result_simps)
  qed
next
  case (9 X d n x xs)
  show ?case
  proof (cases "wf_json X d x \<and> n + nodes x \<le> MAX_TOTAL_NODES")
    case True
    then have x: "normalize_json X d n x = Inr (norm_json x, n + nodes x)" using 9(1) by simp
    with True 9(2) [OF x] show ?thesis by (auto simp: result_simps)
  next
    case False
    then show ?thesis using 9(1) by (auto simp: result_simps)
  qed
next
  case (11 X d n k v ms)
  show ?case
  proof (cases "validate_key X k = Inr k \<and> wf_json X d v \<and> n + nodes v \<le> MAX_TOTAL_NODES")
    case True
    then have k: "validate_key X k = Inr k" by simp
    with True 11(1) have v: "normalize_json X d n v = Inr (norm_json v, n + nodes v)" by simp
    with True 11(2) [OF k v] show ?thesis by (auto simp: result_simps)
  next
    case False
    then show ?thesis using 11(1) by (auto simp: result_simps dest: validate_key_result)
  qed
qed (auto simp: result_simps)

lemma norm_members_map: "norm_members ms = map (\<lambda>(k, v). (k, norm_json v)) ms"
  by (induction ms) auto

lemma norm_items_map: "norm_items xs = map norm_json xs"
  by (induction xs) auto

lemma nodes_members_sum: "nodes_members ms = sum_list (map (\<lambda>(k, v). nodes v) ms)"
  by (induction ms) auto

lemma nodes_members_mset: "mset ms = mset ns \<Longrightarrow> nodes_members ms = nodes_members ns"
  by (metis nodes_members_sum mset_map sum_mset_sum_list)

lemma wf_members_all: "wf_members X d ms \<longleftrightarrow> (\<forall>(k, v) \<in> set ms. validate_key X k = Inr k \<and> wf_json X d v)"
  by (induction ms) auto

lemma norm_keys [simp]: "map fst (norm_members ms) = map fst ms"
  by (induction ms) auto

lemma norm_lengths [simp]: "length (norm_members ms) = length ms" "length (norm_items xs) = length xs"
  by (simp_all add: norm_members_map norm_items_map)

lemma nodes_norm:
  "nodes (norm_json v) = nodes v"
  "nodes_items (norm_items xs) = nodes_items xs"
  "nodes_members (norm_members ms) = nodes_members ms"
proof (induction v and xs and ms rule: norm_json_norm_items_norm_members.induct)
  case (2 ms)
  then show ?case using nodes_members_mset [of "sort_key fst (norm_members ms)" "norm_members ms"] by simp
qed auto

lemma wf_norm:
  "wf_json X d v \<Longrightarrow> wf_json X d (norm_json v)"
  "wf_items X d xs \<Longrightarrow> wf_items X d (norm_items xs)"
  "wf_members X d ms \<Longrightarrow> wf_members X d (norm_members ms)"
proof (induction v and xs and ms arbitrary: d and d and d rule: norm_json_norm_items_norm_members.induct)
  case (2 ms)
  then show ?case by (simp add: wf_members_all)
qed auto

lemma norm_members_sorted:
  assumes "\<And>k v. (k, v) \<in> set ms \<Longrightarrow> norm_json v = v"
  shows "norm_members ms = ms"
  using assms by (auto simp: norm_members_map intro!: map_idI)

lemma norm_idem:
  "norm_json (norm_json v) = norm_json v"
  "norm_items (norm_items xs) = norm_items xs"
  "norm_members (norm_members ms) = norm_members ms"
proof (induction v and xs and ms rule: norm_json_norm_items_norm_members.induct)
  case (2 ms)
  have "norm_json v = v" if "(k, v) \<in> set (norm_members ms)" for k v
    using 2 that by (auto simp: norm_members_map)
  then have "norm_members (sort_key fst (norm_members ms)) = sort_key fst (norm_members ms)"
    by (intro norm_members_sorted) auto
  then show ?case by (simp add: sort_key_idem)
qed auto

lemma normalize_idem:
  "normalize_json X d n v = Inr (w, m) \<Longrightarrow> normalize_json X d n w = Inr (w, m)"
  by (auto simp: normalize_eq_Inr(1) wf_norm nodes_norm norm_idem)

lemma thaw_json_eq_Inr [result_simps]:
  "thaw_json X v = Inr w \<longleftrightarrow> wf_json X 0 v \<and> nodes v \<le> MAX_TOTAL_NODES \<and> w = norm_json v"
  by (auto simp: thaw_json_def bindR_eq_Inr normalize_eq_Inr(1))

lemma freeze_json_thaw: "freeze_json X v = thaw_json X v"
  by (simp add: freeze_json_def thaw_json_def)

lemma thaw_json_idem: "thaw_json X v = Inr w \<Longrightarrow> thaw_json X w = Inr w"
  by (auto simp: thaw_json_eq_Inr wf_norm nodes_norm norm_idem)

lemma canonical_dumps_eq_Inr [result_simps]:
  "canonical_dumps X v = Inr b \<longleftrightarrow>
     (\<exists>w. thaw_json X v = Inr w \<and> b = dumps w \<and> length b \<le> MAX_WIRE_BYTES)"
  by (auto simp: canonical_dumps_def bindR_eq_Inr normalize_eq_Inr(1) thaw_json_eq_Inr)

lemma canonical_dumps_thaw:
  "thaw_json X v = Inr w \<Longrightarrow> canonical_dumps X w = canonical_dumps X v"
proof -
  assume "thaw_json X v = Inr w"
  then obtain m where "normalize_json X 0 0 v = Inr (w, m)"
    by (auto simp: thaw_json_def bindR_eq_Inr)
  then show ?thesis using normalize_idem by (fastforce simp: canonical_dumps_def)
qed

section \<open>Values whose objects have distinct keys\<close>

text \<open>Every Python dict is one; the reader's \<open>_unique_object\<close> hook guarantees it for decoded values.\<close>

fun dict_ok :: "json \<Rightarrow> bool" and dict_ok_items :: "json list \<Rightarrow> bool" and dict_ok_members :: "(pystr \<times> json) list \<Rightarrow> bool" where
  "dict_ok (JArr xs) = dict_ok_items xs"
| "dict_ok (JObj ms) = (distinct (map fst ms) \<and> dict_ok_members ms)"
| "dict_ok v = True"
| "dict_ok_items [] = True"
| "dict_ok_items (x # xs) = (dict_ok x \<and> dict_ok_items xs)"
| "dict_ok_members [] = True"
| "dict_ok_members ((k, v) # ms) = (dict_ok v \<and> dict_ok_members ms)"

lemma dict_ok_members_all: "dict_ok_members ms \<longleftrightarrow> (\<forall>(k, v) \<in> set ms. dict_ok v)"
  by (induction ms) auto

lemma dict_ok_items_all: "dict_ok_items xs \<longleftrightarrow> (\<forall>v \<in> set xs. dict_ok v)"
  by (induction xs) auto

lemma members_ok_all: "members_ok ms \<longleftrightarrow> (\<forall>(k, v) \<in> set ms. json_ok v)"
  by (induction ms) auto

lemma json_ok_norm:
  "wf_json X d v \<Longrightarrow> dict_ok v \<Longrightarrow> json_ok (norm_json v)"
  "wf_items X d xs \<Longrightarrow> dict_ok_items xs \<Longrightarrow> items_ok (norm_items xs)"
  "wf_members X d ms \<Longrightarrow> dict_ok_members ms \<Longrightarrow> members_ok (norm_members ms)"
proof (induction v and xs and ms arbitrary: d and d and d rule: norm_json_norm_items_norm_members.induct)
  case (2 ms)
  have "distinct (map fst (sort_key fst (norm_members ms)))"
    using 2(3) by (metis dict_ok.simps(2) distinct_map distinct_sort norm_keys set_sort)
  moreover have "members_ok (sort_key fst (norm_members ms))"
    using 2(1) [of "d + 1"] 2(2,3) by (simp add: members_ok_all)
  ultimately show ?case by simp
qed auto

lemma dict_ok_norm:
  "dict_ok v \<Longrightarrow> dict_ok (norm_json v)"
  "dict_ok_items xs \<Longrightarrow> dict_ok_items (norm_items xs)"
  "dict_ok_members ms \<Longrightarrow> dict_ok_members (norm_members ms)"
proof (induction v and xs and ms rule: norm_json_norm_items_norm_members.induct)
  case (2 ms)
  have "distinct (map fst (sort_key fst (norm_members ms)))"
    using 2(2) by (metis dict_ok.simps(2) distinct_map distinct_sort norm_keys set_sort)
  with 2 show ?case by (simp add: dict_ok_members_all)
qed auto

section \<open>Canonical bytes are valid UTF-8\<close>

lemma utf8_valid_ascii: "in_range 0 127 a \<Longrightarrow> utf8_valid (a # r) = utf8_valid r"
  by (simp add: utf8_valid.simps(2) utf8_len_def utf8_one_def)

lemma ascii_utf8: "isascii s \<Longrightarrow> utf8_valid s"
  by (induction s) (simp_all add: isascii_def utf8_valid_ascii)

lemma utf8_one_nonempty: "utf8_one p \<Longrightarrow> p \<noteq> []"
  by (auto simp: utf8_one_def)

lemma utf8_one_high:
  "utf8_one p \<Longrightarrow> length p \<noteq> 1 \<Longrightarrow> c \<in> set p \<Longrightarrow> \<not> in_range 0 127 c"
  by (auto simp: utf8_one_def in_range_def split: list.splits if_splits)

lemma utf8_one_len: "utf8_one p \<Longrightarrow> length p = utf8_len (hd p)"
  by (auto simp: utf8_one_def utf8_len_def in_range_def split: list.splits)

lemma utf8_one_length: "utf8_one (take (utf8_len a) (a # r)) \<Longrightarrow> utf8_len a \<le> length (a # r)"
  using utf8_one_len [of "take (utf8_len a) (a # r)"] utf8_one_nonempty [of "take (utf8_len a) (a # r)"]
  by (cases "utf8_len a") auto

lemma validate_string_utf8: "validate_string X s = Inr t \<Longrightarrow> utf8_valid s"
  by (auto simp: validate_string_def ascii_utf8 split: if_splits)

lemma validate_key_utf8: "validate_key X s = Inr t \<Longrightarrow> utf8_valid s"
  by (auto simp: validate_key_def bindR_eq_Inr dest: validate_string_utf8 split: if_splits)

lemma utf8_valid_append: "utf8_valid a \<Longrightarrow> utf8_valid b \<Longrightarrow> utf8_valid (a @ b)"
proof (induction a rule: utf8_valid.induct)
  case (2 c r)
  then have one: "utf8_len c \<noteq> 0" "utf8_one (take (utf8_len c) (c # r))" "utf8_valid (drop (utf8_len c) (c # r))"
    by (simp_all add: utf8_valid.simps(2) split: if_splits)
  have len: "utf8_len c \<le> length (c # r)" by (rule utf8_one_length) (rule one(2))
  have "utf8_valid (drop (utf8_len c) (c # r) @ b)" by (rule 2(1)) (use one 2(3) in auto)
  moreover have "take (utf8_len c) ((c # r) @ b) = take (utf8_len c) (c # r)"
    "drop (utf8_len c) ((c # r) @ b) = drop (utf8_len c) (c # r) @ b"
    using len by (simp_all only: take_append drop_append diff_is_0_eq' take_0 drop_0 append_Nil2)
  ultimately show ?case using one by (simp add: utf8_valid.simps(2))
qed simp

lemma esc_char_ascii: "in_range 0 127 c \<Longrightarrow> isascii (esc_char c)"
proof -
  assume "in_range 0 127 c"
  moreover have "in_range 0 127 (hex_digit n)" if "n < 16" for n
    using that by (auto simp: hex_digit_def in_range_def)
  ultimately show ?thesis
    using of_char_div16 [of c]
    by (simp add: esc_char_def isascii_def) (simp add: in_range_def)
qed

lemma esc_char_high: "\<not> in_range 0 127 c \<Longrightarrow> esc_char c = [c]"
proof -
  assume h: "\<not> in_range 0 127 c"
  then have "c \<notin> {DQ, BS, CHR 0x0A, CHR 0x0D, CHR 0x09, CHR 0x0C, CHR 0x08}"
    by (auto simp: in_range_def)
  moreover from h have "\<not> of_char c < (32 :: nat)" by (simp add: in_range_def)
  ultimately show ?thesis by (simp add: esc_char_def)
qed

lemma esc_text_high: "(\<And>c. c \<in> set p \<Longrightarrow> \<not> in_range 0 127 c) \<Longrightarrow> concat (map esc_char p) = p"
  by (induction p) (simp_all add: esc_char_high)

lemma utf8_valid_escaped: "utf8_valid s \<Longrightarrow> utf8_valid (concat (map esc_char s))"
proof (induction s rule: utf8_valid.induct)
  case (2 a r)
  let ?p = "take (utf8_len a) (a # r)" and ?q = "drop (utf8_len a) (a # r)"
  from 2(2) have one: "utf8_len a \<noteq> 0" "utf8_one ?p" and q: "utf8_valid ?q"
    by (simp_all add: utf8_valid.simps(2) split: if_splits)
  from 2(1) [OF one(1) q] have tail: "utf8_valid (concat (map esc_char ?q))" .
  have "utf8_valid (concat (map esc_char ?p))"
  proof (cases "length ?p = 1")
    case True
    then obtain c where "?p = [c]" by (cases ?p) auto
    with one(2) show ?thesis by (simp add: utf8_one_def ascii_utf8 esc_char_ascii)
  next
    case False
    from one(2) False have id: "concat (map esc_char ?p) = ?p"
      by (intro esc_text_high utf8_one_high)
    have "utf8_valid ?p"
      using one utf8_one_length [of a r] by (cases "utf8_len a") (simp_all add: utf8_valid.simps(2))
    then show ?thesis by (simp only: id)
  qed
  with tail have "utf8_valid (concat (map esc_char (?p @ ?q)))"
    by (simp only: map_append concat_append utf8_valid_append)
  then show ?case by (simp only: append_take_drop_id)
qed simp

lemma str_text_utf8: "utf8_valid s \<Longrightarrow> utf8_valid (str_text s)"
proof -
  assume "utf8_valid s"
  then have "utf8_valid (concat (map esc_char s) @ [DQ])"
    by (intro utf8_valid_append utf8_valid_escaped) (simp_all add: utf8_valid_ascii in_range_def)
  then show ?thesis by (simp add: str_text_def utf8_valid_ascii in_range_def)
qed

lemma nat_str_ascii: "isascii (nat_str n)"
  using nat_str_digits [of n] by (auto simp: isascii_def list_all_iff is_digit_def in_range_def)

lemma int_str_utf8: "utf8_valid (int_str i)"
  using nat_str_ascii by (intro ascii_utf8) (auto simp: int_str_def isascii_def in_range_def)

lemma utf8_valid_punctuation [simp]:
  "utf8_valid (CHR '','' # r) = utf8_valid r" "utf8_valid (CHR '':'' # r) = utf8_valid r"
  "utf8_valid (CHR ''['' # r) = utf8_valid r" "utf8_valid (CHR '']'' # r) = utf8_valid r"
  "utf8_valid (CHR ''{'' # r) = utf8_valid r" "utf8_valid (CHR ''}'' # r) = utf8_valid r"
  by (simp_all add: utf8_valid_ascii in_range_def)

lemma dumps_utf8:
  "wf_json X d v \<Longrightarrow> utf8_valid (dumps v)"
  "wf_items X d xs \<Longrightarrow> utf8_valid (dumps_items xs)"
  "wf_members X d ms \<Longrightarrow> utf8_valid (dumps_members ms)"
proof (induction v and xs and ms arbitrary: d and d and d rule: dumps_dumps_items_dumps_members.induct)
  case 1
  then show ?case by (simp add: utf8_valid_ascii in_range_def)
next
  case (2 b)
  then show ?case by (simp add: utf8_valid_ascii in_range_def)
qed (auto simp: int_str_utf8 utf8_valid_append intro!: str_text_utf8 utf8_valid_append
       dest: validate_string_utf8 validate_key_utf8)

section \<open>Round trips of the canonical form\<close>

lemma canonical_roundtrip:
  assumes "dict_ok v" and "canonical_dumps X v = Inr b"
  shows "strict_loads X b = thaw_json X v"
proof -
  from assms(2) have w: "wf_json X 0 v" "nodes v \<le> MAX_TOTAL_NODES" and b: "b = dumps (norm_json v)"
    "length b \<le> MAX_WIRE_BYTES" and t: "thaw_json X v = Inr (norm_json v)"
    by (auto simp: canonical_dumps_eq_Inr thaw_json_eq_Inr)
  have "utf8_valid b" unfolding b(1) using w(1) by (intro dumps_utf8 wf_norm)
  moreover have "json_loads b = Inr (norm_json v)"
    unfolding b(1) by (intro json_loads_dumps json_ok_norm) (rule w(1), rule assms(1))
  moreover have "thaw_json X (norm_json v) = Inr (norm_json v)" by (rule thaw_json_idem) (rule t)
  ultimately show ?thesis using b t by (simp add: strict_loads_def thaw_json_def)
qed

lemma unique_from_keys:
  "unique_from seen ms = Inr ns \<Longrightarrow> ns = ms \<and> distinct (map fst ms) \<and> set seen \<inter> fst ` set ms = {}"
  by (induction seen ms arbitrary: ns rule: unique_from.induct) (auto simp: bindR_eq_Inr split: if_splits)

lemma parse_dict_ok:
  "(\<forall>s v r. parse_value f s = Inr (v, r) \<longrightarrow> dict_ok v) \<and>
   (\<forall>s xs r. parse_items f s = Inr (xs, r) \<longrightarrow> dict_ok_items xs) \<and>
   (\<forall>s ms r. parse_members f s = Inr (ms, r) \<longrightarrow> dict_ok_members ms)"
proof (induction f)
  case (Suc f)
  then have ih: "\<And>s v r. parse_value f s = Inr (v, r) \<Longrightarrow> dict_ok v"
    "\<And>s xs r. parse_items f s = Inr (xs, r) \<Longrightarrow> dict_ok_items xs"
    "\<And>s ms r. parse_members f s = Inr (ms, r) \<Longrightarrow> dict_ok_members ms" by blast+
  have number: "parse_number neg s = Inr (v, r) \<Longrightarrow> dict_ok v" for neg s v r
    by (auto simp: parse_number_def reject_float_def bindR_eq_Inr Let_def split: list.splits if_splits)
  have scalar: "parse_scalar s = Inr (v, r) \<Longrightarrow> dict_ok v" for s v r
    by (auto simp: parse_scalar_def reject_constant_def split: list.splits if_splits dest: number)
  have "dict_ok v" if p: "parse_value (Suc f) s = Inr (v, r)" for s v r
  proof (cases s)
    case (Cons c r0)
    consider "c = DQ" | "c = CHR ''[''" | "c = CHR ''{''"
      | "c \<noteq> DQ" "c \<noteq> CHR ''[''" "c \<noteq> CHR ''{''" by blast
    then show ?thesis
    proof cases
      case 1
      with p Cons show ?thesis by (auto simp: bindR_eq_Inr)
    next
      case 2
      with p Cons show ?thesis
        by (cases "skip_ws r0") (auto simp: bindR_eq_Inr split: if_splits dest: ih(2))
    next
      case 3
      with p Cons show ?thesis
        by (cases "skip_ws r0")
          (auto simp: bindR_eq_Inr unique_object_def split: if_splits dest!: unique_from_keys dest: ih(3))
    next
      case 4
      with p Cons have "parse_scalar s = Inr (v, r)" by simp
      then show ?thesis by (rule scalar)
    qed
  qed (use p in simp)
  moreover have "dict_ok_items xs" if p: "parse_items (Suc f) s = Inr (xs, r)" for s xs r
  proof -
    from p obtain x r1 where x: "parse_value f s = Inr (x, r1)" by (auto simp: bindR_eq_Inr)
    with p ih(1) [OF x] show ?thesis
      by (cases "skip_ws r1") (auto simp: bindR_eq_Inr split: if_splits dest: ih(2))
  qed
  moreover have "dict_ok_members ms" if p: "parse_members (Suc f) s = Inr (ms, r)" for s ms r
  proof -
    from p obtain c r0 k r1 d r2 v r3 e r4 where q: "s = c # r0"
      "scan_string (Suc (length r0)) r0 = Inr (k, r1)" "skip_ws r1 = d # r2"
      "parse_value f (skip_ws r2) = Inr (v, r3)" "skip_ws r3 = e # r4"
      by (rule parse_members_SucE)
    with p ih(1) [OF q(4)] show ?thesis
      by (auto simp: bindR_eq_Inr split: if_splits dest: ih(3))
  qed
  ultimately show ?case by blast
qed simp

lemma strict_loads_result:
  assumes "strict_loads X b = Inr w"
  shows "dict_ok w" and "thaw_json X w = Inr w"
proof -
  from assms obtain v where v: "json_loads b = Inr v" and n: "thaw_json X v = Inr w"
    by (auto simp: strict_loads_def thaw_json_def bindR_eq_Inr split: if_splits)
  from v obtain r where "parse_value (2 * length b + 1) (skip_ws b) = Inr (v, r)"
    by (auto simp: json_loads_def bindR_eq_Inr simp del: parse_value.simps split: if_splits)
  then have "dict_ok v" using parse_dict_ok by blast
  with n show "dict_ok w" by (auto simp: thaw_json_eq_Inr dict_ok_norm)
  from n show "thaw_json X w = Inr w" by (rule thaw_json_idem)
qed

lemma canonical_dumps_injective:
  assumes "dict_ok v" and "dict_ok w" and "canonical_dumps X v = Inr b" and "canonical_dumps X w = Inr b"
  shows "thaw_json X v = thaw_json X w"
  using canonical_roundtrip assms by metis

section \<open>Content identities\<close>

lemma snake_rest_no_nul: "snake_rest ok s \<Longrightarrow> CHR 0x00 \<notin> set s"
  by (induction ok s rule: snake_rest.induct)
    (auto simp: is_lower_def is_digit_def in_range_def split: if_splits)

lemma snake_case_no_nul: "snake_case s \<Longrightarrow> CHR 0x00 \<notin> set s"
  by (cases s) (auto simp: snake_case_def is_lower_def in_range_def dest: snake_rest_no_nul)

lemma append_sep_eq:
  "c \<notin> set a \<Longrightarrow> c \<notin> set b \<Longrightarrow> a @ c # x = b @ c # y \<longleftrightarrow> a = b \<and> x = y"
  by (induction a arbitrary: b; case_tac b) auto

definition content_preimage :: "pystr \<Rightarrow> bytes \<Rightarrow> bytes" where
  "content_preimage kind b = CONTENT_DOMAIN @ kind @ [CHR 0x00] @ b"

lemma content_preimage_inject:
  "snake_case k \<Longrightarrow> snake_case l \<Longrightarrow> content_preimage k b = content_preimage l c \<longleftrightarrow> k = l \<and> b = c"
  by (simp add: content_preimage_def append_sep_eq snake_case_no_nul)

lemma content_id_eq_Inr [result_simps]:
  "content_id X k v = Inr i \<longleftrightarrow>
     snake_case k \<and> (\<exists>b. canonical_dumps X v = Inr b \<and> i = ''sha256:'' @ hex_bytes (sha256 X (content_preimage k b)))"
  by (auto simp: content_id_def validate_kind_def bindR_eq_Inr content_preimage_def)

lemma hex_digit_inject: "a < 16 \<Longrightarrow> b < 16 \<Longrightarrow> hex_digit a = hex_digit b \<longleftrightarrow> a = b"
  using hex_value_hex_digit by (metis option.inject)

lemma hex_bytes_inject: "hex_bytes a = hex_bytes b \<longleftrightarrow> a = b"
proof (induction a arbitrary: b)
  case Nil
  then show ?case by (cases b) (simp_all add: hex_bytes_def)
next
  case (Cons x a)
  show ?case
  proof (cases b)
    case (Cons y b')
    have "(of_char x :: nat) div 16 = of_char y div 16 \<and> (of_char x :: nat) mod 16 = of_char y mod 16 \<longleftrightarrow> x = y"
      by (metis div_mult_mod_eq of_char_eq_iff)
    with Cons.IH [of b'] Cons show ?thesis
      by (auto simp: hex_bytes_def hex_digit_inject of_char_div16)
  qed (simp add: hex_bytes_def)
qed

lemma content_id_full_digest:
  assumes "\<And>m. length (sha256 X m) = 32" and "content_id X k v = Inr i"
  shows "full_digest i"
  using assms by (auto simp: content_id_eq_Inr full_digest_def starts_with_def hex_bytes_length hex_bytes_lower_hex)

section \<open>Envelopes\<close>

lemma map_of_norm_members: "map_of (norm_members ms) k = map_option norm_json (map_of ms k)"
  by (induction ms) auto

lemma map_of_sort_key: "distinct (map fst ms) \<Longrightarrow> map_of (sort_key fst ms) = map_of ms"
  by (rule map_of_inject_set [THEN iffD2]) (simp_all add: distinct_map)

lemma member_norm:
  assumes "distinct (map fst ms)"
  shows "member k (norm_json (JObj ms)) = (case map_of ms k of Some v \<Rightarrow> norm_json v | None \<Rightarrow> JNull)"
proof -
  have "distinct (map fst (norm_members ms))" using assms by simp
  then have "map_of (sort_key fst (norm_members ms)) k = map_of (norm_members ms) k"
    by (simp add: map_of_sort_key)
  then show ?thesis by (simp add: member_def map_of_norm_members split: option.splits)
qed

lemma keys_norm: "set (map fst (obj_members (norm_json (JObj ms)))) = set (map fst ms)"
  using norm_keys [of ms] by (metis list.set_map norm_json.simps(2) obj_members.simps(1) set_sort)

lemma envelope_create_eq_Inr:
  "envelope_create X k body atts = Inr e \<longleftrightarrow>
     snake_case k \<and> k \<in> set SUPPORTED_OBJECT_KINDS \<and> env_kind e = k \<and>
     thaw_json X body = Inr (JObj (env_body e)) \<and>
     thaw_json X atts = Inr (JArr (env_attestations e)) \<and>
     list_all is_JObj (env_attestations e) \<and> length (env_attestations e) \<le> 16 \<and>
     content_id X k (JObj (env_body e)) = Inr (env_object_id e) \<and>
     (\<exists>b. envelope_to_bytes X e = Inr b)"
proof -
  have obj: "is_JObj v \<longleftrightarrow> (\<exists>ms. v = JObj ms)" for v by (cases v) auto
  have arr: "is_JArr v \<longleftrightarrow> (\<exists>xs. v = JArr xs)" for v by (cases v) auto
  show ?thesis (is "?L \<longleftrightarrow> ?R")
  proof
    show "?L \<Longrightarrow> ?R"
      by (auto simp: envelope_create_def validate_kind_def freeze_json_thaw Let_def obj arr bindR_eq_Inr
          split: if_splits)
    show "?R \<Longrightarrow> ?L"
      by (cases e) (auto simp: envelope_create_def validate_kind_def freeze_json_thaw Let_def)
  qed
qed

definition envelope_json :: "envelope \<Rightarrow> json" where
  "envelope_json e =
     JObj [(''protocol_version'', JInt PROTOCOL_VERSION), (''object_kind'', JStr (env_kind e)),
           (''object_version'', JInt OBJECT_VERSION), (''object_id'', JStr (env_object_id e)),
           (''body'', JObj (env_body e)), (''attestations'', JArr (env_attestations e))]"

lemma envelope_to_json_created:
  assumes "envelope_create X k body atts = Inr e"
  shows "envelope_to_json X e = Inr (envelope_json e)"
proof -
  from assms have "thaw_json X (JObj (env_body e)) = Inr (JObj (env_body e))"
    "thaw_json X (JArr (env_attestations e)) = Inr (JArr (env_attestations e))"
    by (auto simp: envelope_create_eq_Inr intro: thaw_json_idem)
  then show ?thesis by (simp add: envelope_to_json_def envelope_json_def)
qed

lemma envelope_create_again:
  assumes "envelope_create X k body atts = Inr e"
  shows "envelope_create X k (JObj (env_body e)) (JArr (env_attestations e)) = Inr e"
  using assms by (auto simp: envelope_create_eq_Inr intro: thaw_json_idem)

lemma created_dict_ok:
  assumes "envelope_create X k body atts = Inr e" and "dict_ok body" and "dict_ok atts"
  shows "dict_ok (envelope_json e)"
proof -
  from assms have "JObj (env_body e) = norm_json body" "JArr (env_attestations e) = norm_json atts"
    by (auto simp: envelope_create_eq_Inr thaw_json_eq_Inr)
  then have "dict_ok (JObj (env_body e))" "dict_ok (JArr (env_attestations e))"
    using dict_ok_norm(1) assms(2,3) by metis+
  then show ?thesis by (simp add: envelope_json_def)
qed

lemma envelope_from_bytes_created:
  assumes digest: "full_digest (env_object_id e)"
    and e: "envelope_create X k body atts = Inr e" and "dict_ok body" and "dict_ok atts"
    and b: "envelope_to_bytes X e = Inr b"
  shows "envelope_from_bytes X b = Inr e"
proof -
  let ?J = "norm_json (envelope_json e)"
  have c: "canonical_dumps X (envelope_json e) = Inr b"
    using b envelope_to_json_created [OF e] by (simp add: envelope_to_bytes_def)
  have loads: "strict_loads X b = Inr ?J"
    using canonical_roundtrip [OF created_dict_ok [OF e assms(3,4)] c] c
    by (auto simp: canonical_dumps_eq_Inr thaw_json_eq_Inr)
  have keys: "set (map fst (obj_members ?J)) = set ENVELOPE_FIELDS_V1"
    unfolding envelope_json_def keys_norm by (auto simp: ENVELOPE_FIELDS_V1_def)
  have body: "norm_json (JObj (env_body e)) = JObj (env_body e)"
    "norm_json (JArr (env_attestations e)) = JArr (env_attestations e)"
    using e by (auto simp: envelope_create_eq_Inr thaw_json_eq_Inr norm_idem)
  have mem: "member ''protocol_version'' ?J = JInt PROTOCOL_VERSION"
    "member ''object_version'' ?J = JInt OBJECT_VERSION" "member ''object_kind'' ?J = JStr (env_kind e)"
    "member ''object_id'' ?J = JStr (env_object_id e)" "member ''body'' ?J = JObj (env_body e)"
    "member ''attestations'' ?J = JArr (env_attestations e)"
    unfolding envelope_json_def by (subst member_norm; simp add: body del: norm_json.simps(1,2))+
  have "is_JObj ?J" by (simp add: envelope_json_def)
  moreover have "validate_kind True (env_kind e) = Inr (env_kind e)" "env_kind e = k"
    "list_all is_JObj (env_attestations e)"
    using e by (auto simp: envelope_create_eq_Inr validate_kind_def)
  ultimately show ?thesis
    using loads keys mem b digest envelope_create_again [OF e] by (simp add: envelope_from_bytes_def Let_def)
qed

lemma envelope_from_bytes_inv:
  assumes "envelope_from_bytes X b = Inr e"
  obtains body atts where "envelope_create X (env_kind e) body atts = Inr e"
    and "dict_ok body" and "dict_ok atts" and "envelope_to_bytes X e = Inr b"
    and "full_digest (env_object_id e)"
proof -
  from assms obtain J where J: "strict_loads X b = Inr J" by (auto simp: envelope_from_bytes_def bindR_eq_Inr)
  with assms obtain k where "envelope_create X k (member ''body'' J) (member ''attestations'' J) = Inr e"
    and tb: "envelope_to_bytes X e = Inr b" and o: "is_JObj J" and "full_digest (env_object_id e)"
    by (auto simp: envelope_from_bytes_def bindR_eq_Inr Let_def validate_kind_def split: if_splits json.splits)
  moreover from this have "k = env_kind e" by (simp add: envelope_create_eq_Inr)
  moreover have "dict_ok (member f J)" for f
  proof -
    from o obtain ms where "J = JObj ms" by (cases J) auto
    with strict_loads_result(1) [OF J] have "\<forall>(k, v) \<in> set ms. dict_ok v" by (simp add: dict_ok_members_all)
    then show ?thesis using \<open>J = JObj ms\<close>
      by (auto simp: member_def split: option.splits dest!: map_of_SomeD)
  qed
  ultimately show thesis using that by blast
qed

text \<open>The envelopes that \<open>EnvelopeV1.create\<close> builds, as a test on the envelope itself.\<close>

definition created_envelope :: "externals \<Rightarrow> envelope \<Rightarrow> bool" where
  "created_envelope X e \<longleftrightarrow>
     full_digest (env_object_id e) \<and> dict_ok (JObj (env_body e)) \<and> dict_ok (JArr (env_attestations e)) \<and>
     envelope_create X (env_kind e) (JObj (env_body e)) (JArr (env_attestations e)) = Inr e"

lemma created_envelopeI:
  assumes "full_digest (env_object_id e)" and "envelope_create X k body atts = Inr e"
    and "dict_ok body" and "dict_ok atts"
  shows "created_envelope X e"
proof -
  have "env_kind e = k" using assms(2) by (simp add: envelope_create_eq_Inr)
  moreover have "dict_ok (envelope_json e)" by (rule created_dict_ok [OF assms(2-4)])
  ultimately show ?thesis
    using assms(1) envelope_create_again [OF assms(2)] by (simp add: created_envelope_def envelope_json_def)
qed

section \<open>Interfaces: codecs\<close>

text \<open>
  A codec promises that decoding reverses encoding on the valid values and yields only valid
  values. A strict codec moreover accepts no other bytes than the encoding of the value it returns.
\<close>

locale codec =
  fixes encode :: "'a \<Rightarrow> bytes result" and decode :: "bytes \<Rightarrow> 'a result" and valid :: "'a \<Rightarrow> bool"
  assumes decode_encode: "valid v \<Longrightarrow> encode v = Inr b \<Longrightarrow> decode b = Inr v"
    and decode_valid: "decode b = Inr v \<Longrightarrow> valid v"
begin

lemma encode_injective:
  assumes "valid v" and "valid w" and "encode v = Inr b" and "encode w = Inr b"
  shows "v = w"
proof -
  have "decode b = Inr v" "decode b = Inr w" using assms decode_encode by blast+
  then show ?thesis by simp
qed

lemma decode_reencode:
  "decode b = Inr v \<Longrightarrow> encode v = Inr c \<Longrightarrow> decode c = Inr v"
  using decode_encode decode_valid by blast

end

locale strict_codec = codec +
  assumes encode_decode: "decode b = Inr v \<Longrightarrow> encode v = Inr b"
begin

lemma decode_injective:
  assumes "decode b = Inr v" and "decode c = Inr v"
  shows "b = c"
  using encode_decode [OF assms(1)] encode_decode [OF assms(2)] by simp

lemma decode_iff: "valid v \<Longrightarrow> decode b = Inr v \<longleftrightarrow> encode v = Inr b"
  using decode_encode encode_decode by blast

end

text \<open>The canonical form of protocol values that are in normal form.\<close>

definition normal_json :: "externals \<Rightarrow> json \<Rightarrow> bool" where
  "normal_json X v \<longleftrightarrow> dict_ok v \<and> thaw_json X v = Inr v"

interpretation wire: codec "canonical_dumps X" "strict_loads X" "normal_json X" for X
proof
  show "strict_loads X b = Inr v" if "normal_json X v" "canonical_dumps X v = Inr b" for v b
    using canonical_roundtrip [of v X b] that by (simp add: normal_json_def)
  show "normal_json X v" if "strict_loads X b = Inr v" for b v
    using strict_loads_result [OF that] by (simp add: normal_json_def)
qed

interpretation env: strict_codec "envelope_to_bytes X" "envelope_from_bytes X" "created_envelope X" for X
proof
  show "envelope_from_bytes X b = Inr e" if "created_envelope X e" "envelope_to_bytes X e = Inr b" for e b
    using that envelope_from_bytes_created by (auto simp: created_envelope_def)
  show "created_envelope X e" if "envelope_from_bytes X b = Inr e" for b e
    using envelope_from_bytes_inv [OF that] created_envelopeI by metis
  show "envelope_to_bytes X e = Inr b" if "envelope_from_bytes X b = Inr e" for b e
    using envelope_from_bytes_inv [OF that] by metis
qed

section \<open>Errors of the decoder\<close>

text \<open>Every failure of the decoder is a \<open>ProtocolError\<close>; the fuel of the reader is never the cause.\<close>

definition decode_failure :: "exn \<Rightarrow> bool" where
  "decode_failure e \<longleftrightarrow> is_protocol_error e \<or> e = no_fuel"

lemma scan_string_failure: "scan_string f s = Inl e \<Longrightarrow> decode_failure e"
  by (induction f s rule: scan_string.induct)
    (auto simp: decode_failure_def bindR_eq_Inl split: if_splits option.splits)

lemma parse_number_failure: "parse_number neg s = Inl e \<Longrightarrow> decode_failure e"
  by (auto simp: decode_failure_def parse_number_def reject_float_def parse_int_def bindR_eq_Inl Let_def
      split: list.splits if_splits)

lemma parse_scalar_failure: "parse_scalar s = Inl e \<Longrightarrow> decode_failure e"
  by (auto simp: parse_scalar_def reject_constant_def split: list.splits if_splits dest: parse_number_failure)
    (simp_all add: decode_failure_def)

lemma unique_from_failure: "unique_from seen ms = Inl e \<Longrightarrow> decode_failure e"
  by (induction seen ms rule: unique_from.induct) (auto simp: decode_failure_def bindR_eq_Inl split: if_splits)

lemma parse_failure:
  "(\<forall>s e. parse_value f s = Inl e \<longrightarrow> decode_failure e) \<and>
   (\<forall>s e. parse_items f s = Inl e \<longrightarrow> decode_failure e) \<and>
   (\<forall>s e. parse_members f s = Inl e \<longrightarrow> decode_failure e)"
proof (induction f)
  case 0
  show ?case by (simp add: decode_failure_def)
next
  case (Suc f)
  then have ih: "\<And>s e. parse_value f s = Inl e \<Longrightarrow> decode_failure e"
    "\<And>s e. parse_items f s = Inl e \<Longrightarrow> decode_failure e"
    "\<And>s e. parse_members f s = Inl e \<Longrightarrow> decode_failure e" by blast+
  have bad: "decode_failure bad_json" by (simp add: decode_failure_def)
  have "decode_failure e" if p: "parse_value (Suc f) s = Inl e" for s e
  proof (cases s)
    case (Cons c r0)
    consider "c = DQ" | "c = CHR ''[''" | "c = CHR ''{''"
      | "c \<noteq> DQ" "c \<noteq> CHR ''[''" "c \<noteq> CHR ''{''" by blast
    then show ?thesis
    proof cases
      case 1
      with p Cons show ?thesis by (auto simp: bindR_eq_Inl dest: scan_string_failure)
    next
      case 2
      with p Cons bad show ?thesis
        by (cases "skip_ws r0") (auto simp: bindR_eq_Inl split: if_splits dest: ih(2))
    next
      case 3
      with p Cons bad show ?thesis
        by (cases "skip_ws r0")
          (auto simp: bindR_eq_Inl unique_object_def split: if_splits dest: unique_from_failure ih(3))
    next
      case 4
      with p Cons have "parse_scalar s = Inl e" by simp
      then show ?thesis by (rule parse_scalar_failure)
    qed
  qed (use p bad in simp)
  moreover have "decode_failure e" if p: "parse_items (Suc f) s = Inl e" for s e
  proof (cases "parse_value f s")
    case (Inl e')
    with p show ?thesis by (auto dest: ih(1))
  next
    case (Inr xr)
    with p bad show ?thesis
      by (cases xr; cases "skip_ws (snd xr)") (auto simp: bindR_eq_Inl split: if_splits dest: ih(2))
  qed
  moreover have "decode_failure e" if p: "parse_members (Suc f) s = Inl e" for s e
  proof (cases s)
    case (Cons c r0)
    have tail: "decode_failure e" if q: "skip_ws r1 = d # r2"
      and "bindR (parse_value f (skip_ws r2)) (\<lambda>(v, r3). case skip_ws r3 of [] \<Rightarrow> Inl bad_json
         | e # r4 \<Rightarrow> if e = CHR ''}'' then Inr ([(k, v)], r4)
             else if e = CHR '','' then bindR (parse_members f (skip_ws r4)) (\<lambda>(ms, r5). Inr ((k, v) # ms, r5))
             else Inl bad_json) = Inl e" for k r1 d r2
    proof (cases "parse_value f (skip_ws r2)")
      case (Inl e')
      with that show ?thesis by (auto dest: ih(1))
    next
      case (Inr xr)
      with that bad show ?thesis
        by (cases xr; cases "skip_ws (snd xr)") (auto simp: bindR_eq_Inl split: if_splits dest: ih(3))
    qed
    show ?thesis
    proof (cases "scan_string (Suc (length r0)) r0")
      case (Inl e')
      with p Cons bad show ?thesis by (auto split: if_splits dest: scan_string_failure)
    next
      case (Inr xr)
      with p Cons bad show ?thesis
        by (cases xr; cases "skip_ws (snd xr)") (auto split: if_splits dest: tail)
    qed
  qed (use p bad in simp)
  ultimately show ?case by blast
qed

lemma json_loads_failure: "json_loads t = Inl e \<Longrightarrow> is_protocol_error e"
proof -
  assume a: "json_loads t = Inl e"
  then have "decode_failure e" using parse_failure
    by (auto simp: json_loads_def bindR_eq_Inl simp del: parse_value.simps split: if_splits)
      (simp add: decode_failure_def)
  with a json_loads_has_fuel [of t] show ?thesis by (auto simp: decode_failure_def)
qed

lemma validate_string_failure: "validate_string X s = Inl e \<Longrightarrow> is_protocol_error e"
  by (auto simp: validate_string_def split: if_splits)

lemma validate_key_failure: "validate_key X s = Inl e \<Longrightarrow> is_protocol_error e"
  by (auto simp: validate_key_def bindR_eq_Inl split: if_splits dest: validate_string_failure)

lemma normalize_failure:
  "normalize_json X d n v = Inl e \<Longrightarrow> is_protocol_error e"
  "normalize_items X d n xs = Inl e \<Longrightarrow> is_protocol_error e"
  "normalize_members X d n ms = Inl e \<Longrightarrow> is_protocol_error e"
proof (induction X d n v and X d n xs and X d n ms
    rule: normalize_json_normalize_items_normalize_members.induct)
qed (auto simp: bindR_eq_Inl enter_node_def split: if_splits dest: validate_string_failure validate_key_failure)

end
