(* ===== verification/Kernel_Eval.thy ===== *)
theory Kernel_Eval
  imports Protocol_V1 "HOL-Library.Code_Target_Nat"
begin

text \<open>
  Code equations with which the simplifier evaluates the protocol functions on concrete inputs: character
  classes by the bits of a character, the readers without their fuel argument in unary, and the strict
  UTF-8 test with a short way through ASCII. Every equation is a theorem about the definitions; none
  replaces one.
\<close>

section \<open>Character classes\<close>

lemma of_char_bits:
  "(of_char (Char b0 b1 b2 b3 b4 b5 b6 b7) :: nat) =
     of_bool b0 + 2 * of_bool b1 + 4 * of_bool b2 + 8 * of_bool b3 + 16 * of_bool b4 + 32 * of_bool b5 +
     64 * of_bool b6 + 128 * of_bool b7"
  by (simp add: of_char_def)

lemma is_digit_code [code]:
  "is_digit (Char b0 b1 b2 b3 b4 b5 b6 b7) \<longleftrightarrow> \<not> b7 \<and> \<not> b6 \<and> b5 \<and> b4 \<and> (\<not> b3 \<or> \<not> b2 \<and> \<not> b1)"
  unfolding is_digit_def in_range_def of_char_bits by (auto simp: of_bool_def)

lemma is_lower_code [code]:
  "is_lower (Char b0 b1 b2 b3 b4 b5 b6 b7) \<longleftrightarrow>
     \<not> b7 \<and> b6 \<and> b5 \<and> (if b4 then \<not> b3 \<or> \<not> b2 \<and> \<not> (b1 \<and> b0) else b3 \<or> b2 \<or> b1 \<or> b0)"
  unfolding is_lower_def in_range_def of_char_bits by (auto simp: of_bool_def)

lemma is_upper_code [code]:
  "is_upper (Char b0 b1 b2 b3 b4 b5 b6 b7) \<longleftrightarrow>
     \<not> b7 \<and> b6 \<and> \<not> b5 \<and> (if b4 then \<not> b3 \<or> \<not> b2 \<and> \<not> (b1 \<and> b0) else b3 \<or> b2 \<or> b1 \<or> b0)"
  unfolding is_upper_def in_range_def of_char_bits by (auto simp: of_bool_def)

lemma is_lower_hex_code [code]:
  "is_lower_hex (Char b0 b1 b2 b3 b4 b5 b6 b7) \<longleftrightarrow>
     \<not> b7 \<and> b5 \<and> (if b6 then \<not> b4 \<and> \<not> b3 \<and> (if b2 then \<not> (b1 \<and> b0) else b1 \<or> b0)
                else b4 \<and> (\<not> b3 \<or> \<not> b2 \<and> \<not> b1))"
  unfolding is_lower_hex_def is_digit_def in_range_def of_char_bits by (auto simp: of_bool_def)

definition high_char :: "char \<Rightarrow> bool" where
  "high_char c \<longleftrightarrow> \<not> in_range 0 127 c"

definition control_char :: "char \<Rightarrow> bool" where
  "control_char c \<longleftrightarrow> of_char c < (32 :: nat)"

definition continuation_char :: "char \<Rightarrow> bool" where
  "continuation_char c \<longleftrightarrow> in_range 128 191 c"

lemma high_char_code [code]: "high_char (Char b0 b1 b2 b3 b4 b5 b6 b7) = b7"
  unfolding high_char_def in_range_def of_char_bits by (auto simp: of_bool_def)

lemma control_char_code [code]: "control_char (Char b0 b1 b2 b3 b4 b5 b6 b7) \<longleftrightarrow> \<not> b7 \<and> \<not> b6 \<and> \<not> b5"
  unfolding control_char_def of_char_bits by (auto simp: of_bool_def)

lemma continuation_char_code [code]: "continuation_char (Char b0 b1 b2 b3 b4 b5 b6 b7) \<longleftrightarrow> b7 \<and> \<not> b6"
  unfolding continuation_char_def in_range_def of_char_bits by (auto simp: of_bool_def)

section \<open>Strings\<close>

lemma isascii_code [code]: "isascii s = list_all (\<lambda>c. \<not> high_char c) s"
  by (simp add: isascii_def high_char_def)

fun count_codepoints :: "pystr \<Rightarrow> int \<Rightarrow> int" where
  "count_codepoints [] n = n"
| "count_codepoints (c # s) n = count_codepoints s (if continuation_char c then n else n + 1)"

lemma count_codepoints: "count_codepoints s n = n + int (codepoints s)"
  by (induction s n rule: count_codepoints.induct) (auto simp: codepoints_def continuation_char_def)

lemma codepoints_code [code]: "codepoints s = nat (count_codepoints s 0)"
  by (simp add: count_codepoints)

lemma utf8_valid_code [code]:
  "utf8_valid [] = True"
  "utf8_valid (a # r) =
     (if \<not> high_char a then utf8_valid r
      else utf8_len a \<noteq> 0 \<and> utf8_one (take (utf8_len a) (a # r)) \<and> utf8_valid (drop (utf8_len a) (a # r)))"
proof -
  show "utf8_valid (a # r) =
     (if \<not> high_char a then utf8_valid r
      else utf8_len a \<noteq> 0 \<and> utf8_one (take (utf8_len a) (a # r)) \<and> utf8_valid (drop (utf8_len a) (a # r)))"
  proof (cases "high_char a")
    case True
    then show ?thesis by (simp add: utf8_valid.simps(2))
  next
    case False
    then show ?thesis using utf8_valid_ascii by (simp add: high_char_def)
  qed
qed simp

lemma esc_char_code [code]:
  "esc_char c =
     (if c = DQ then [BS, DQ]
      else if c = BS then [BS, BS]
      else if control_char c then
        (if c = CHR 0x0A then [BS, CHR ''n'']
         else if c = CHR 0x0D then [BS, CHR ''r'']
         else if c = CHR 0x09 then [BS, CHR ''t'']
         else if c = CHR 0x0C then [BS, CHR ''f'']
         else if c = CHR 0x08 then [BS, CHR ''b'']
         else [BS, CHR ''u'', CHR ''0'', CHR ''0'', hex_digit (of_char c div 16), hex_digit (of_char c mod 16)])
      else [c])"
  by (auto simp: esc_char_def control_char_def)

section \<open>Readers\<close>

function scan_chars :: "string \<Rightarrow> (string \<times> string) result" where
  "scan_chars [] = Inl bad_json"
| "scan_chars (c # r) =
     (if c = DQ then Inr ([], r)
      else if c = BS then
        (case scan_escape r of
           None \<Rightarrow> Inl bad_json
         | Some (t, r') \<Rightarrow> bindR (scan_chars r') (\<lambda>(u, r''). Inr (t @ u, r'')))
      else if control_char c then Inl bad_json
      else bindR (scan_chars r) (\<lambda>(u, r'). Inr (c # u, r')))"
  by pat_completeness auto
termination
  by (relation "measure length") (auto dest: scan_escape_length)

lemma scan_chars: "length s < f \<Longrightarrow> scan_string f s = scan_chars s"
proof (induction f s rule: scan_string.induct)
  case (3 f c r)
  have "length r' < f" if "scan_escape r = Some (t, r')" for t r'
    using scan_escape_length [OF that] 3(3) by simp
  with 3 show ?case
    by (auto simp: control_char_def split: option.splits)
qed auto

lemma scan_chars_all: "scan_string (Suc (length s)) s = scan_chars s"
  by (rule scan_chars) simp

lemma parse_value_code [code]:
  "parse_value f s =
     (if f = 0 then Inl no_fuel
      else case s of
        [] \<Rightarrow> Inl bad_json
      | c # r \<Rightarrow>
          if c = DQ then bindR (scan_chars r) (\<lambda>(t, r'). Inr (JStr t, r'))
          else if c = CHR ''['' then
            (case skip_ws r of
               [] \<Rightarrow> Inl bad_json
             | d # r' \<Rightarrow> if d = CHR '']'' then Inr (JArr [], r')
                        else bindR (parse_items (f - 1) (d # r')) (\<lambda>(xs, r''). Inr (JArr xs, r'')))
          else if c = CHR ''{'' then
            (case skip_ws r of
               [] \<Rightarrow> Inl bad_json
             | d # r' \<Rightarrow> if d = CHR ''}'' then Inr (JObj [], r')
                        else bindR (parse_members (f - 1) (d # r')) (\<lambda>(ms, r'').
                             bindR (unique_object ms) (\<lambda>ms'. Inr (JObj ms', r''))))
          else parse_scalar s)"
proof (cases f)
  case (Suc n)
  show ?thesis unfolding Suc diff_Suc_1 scan_chars_all [symmetric] by simp
qed simp

lemma parse_items_code [code]:
  "parse_items f s =
     (if f = 0 then Inl no_fuel
      else bindR (parse_value (f - 1) s) (\<lambda>(x, r).
       case skip_ws r of
         [] \<Rightarrow> Inl bad_json
       | d # r' \<Rightarrow>
           if d = CHR '']'' then Inr ([x], r')
           else if d = CHR '','' then bindR (parse_items (f - 1) (skip_ws r')) (\<lambda>(xs, r''). Inr (x # xs, r''))
           else Inl bad_json))"
proof (cases f)
  case (Suc n)
  show ?thesis unfolding Suc diff_Suc_1 by simp
qed simp

lemma parse_members_code [code]:
  "parse_members f s =
     (if f = 0 then Inl no_fuel
      else case s of
        [] \<Rightarrow> Inl bad_json
      | c # r \<Rightarrow>
          if c \<noteq> DQ then Inl bad_json
          else bindR (scan_chars r) (\<lambda>(k, r1).
            case skip_ws r1 of
              [] \<Rightarrow> Inl bad_json
            | d # r2 \<Rightarrow>
                if d \<noteq> CHR '':'' then Inl bad_json
                else bindR (parse_value (f - 1) (skip_ws r2)) (\<lambda>(v, r3).
                  case skip_ws r3 of
                    [] \<Rightarrow> Inl bad_json
                  | e # r4 \<Rightarrow>
                      if e = CHR ''}'' then Inr ([(k, v)], r4)
                      else if e = CHR '','' then
                        bindR (parse_members (f - 1) (skip_ws r4)) (\<lambda>(ms, r5). Inr ((k, v) # ms, r5))
                      else Inl bad_json)))"
proof (cases f)
  case (Suc n)
  show ?thesis unfolding Suc diff_Suc_1 scan_chars_all [symmetric] by simp
qed simp

end
