(* ===== verification/Field_Checks.thy ===== *)
theory Field_Checks
  imports Kernel_Eval
begin

text \<open>
  The parts of the standard library that the typed objects use to check their fields: the
  patterns compiled with \<open>re\<close>, \<open>str.strip\<close>, \<open>PurePosixPath\<close>, \<open>base64\<close>, and access to the members of a
  decoded JSON object. The checks of a constructor are written as a list of results in source order,
  run by \<open>seqR\<close>, which stops at the first exception.
\<close>

section \<open>Sequences of checks\<close>

fun seqR :: "(exn + unit) list \<Rightarrow> exn + unit" where
  "seqR [] = Inr ()"
| "seqR (m # ms) = bindR m (\<lambda>_. seqR ms)"

lemma seqR_Cons_eq_Inr [result_simps]: "seqR (m # ms) = Inr u \<longleftrightarrow> m = Inr () \<and> seqR ms = Inr ()"
  by (auto simp: bindR_eq_Inr)

lemma seqR_Nil_eq_Inr [result_simps]: "seqR [] = Inr u"
  by simp

lemma seqR_eq_Inr: "seqR ms = Inr u \<longleftrightarrow> (\<forall>m \<in> set ms. m = Inr ())"
  by (induction ms) (auto simp: bindR_eq_Inr)

lemma seqR_append: "seqR (ms @ ns) = bindR (seqR ms) (\<lambda>_. seqR ns)"
  by (induction ms) (auto simp: bindR_assoc)

section \<open>Members of a decoded object\<close>

definition has_keys :: "json \<Rightarrow> pystr list \<Rightarrow> bool" where
  "has_keys v names \<longleftrightarrow> is_JObj v \<and> set (map fst (obj_members v)) = set names"

text \<open>The value of a member whose type has been checked.\<close>

fun jstr :: "json \<Rightarrow> pystr" where
  "jstr (JStr s) = s"
| "jstr _ = []"

fun jint :: "json \<Rightarrow> int" where
  "jint (JInt i) = i"
| "jint _ = 0"

fun jbool :: "json \<Rightarrow> bool" where
  "jbool (JBool b) = b"
| "jbool _ = False"

fun is_JStr :: "json \<Rightarrow> bool" where
  "is_JStr (JStr s) = True"
| "is_JStr _ = False"

fun is_JInt :: "json \<Rightarrow> bool" where
  "is_JInt (JInt i) = True"
| "is_JInt _ = False"

fun is_JBool :: "json \<Rightarrow> bool" where
  "is_JBool (JBool b) = True"
| "is_JBool _ = False"

definition jstrs :: "json \<Rightarrow> pystr list" where
  "jstrs v = map jstr (arr_items v)"

text \<open>
  \<open>value in {...}\<close> for a set of strings: a list or a dict is not hashable, so the test raises
  \<open>TypeError\<close> for it.
\<close>

definition in_string_set :: "json \<Rightarrow> pystr list \<Rightarrow> bool result" where
  "in_string_set v names =
     (case v of
        JArr xs \<Rightarrow> Inl (TypeError ''unhashable type'')
      | JObj ms \<Rightarrow> Inl (TypeError ''unhashable type'')
      | JStr s \<Rightarrow> Inr (s \<in> set names)
      | _ \<Rightarrow> Inr False)"

lemma is_JStr_iff: "is_JStr v \<longleftrightarrow> v = JStr (jstr v)" by (cases v) auto
lemma is_JInt_iff: "is_JInt v \<longleftrightarrow> v = JInt (jint v)" by (cases v) auto
lemma is_JBool_iff: "is_JBool v \<longleftrightarrow> v = JBool (jbool v)" by (cases v) auto
lemma is_JArr_iff: "is_JArr v \<longleftrightarrow> v = JArr (arr_items v)" by (cases v) auto
lemma is_JObj_iff: "is_JObj v \<longleftrightarrow> v = JObj (obj_members v)" by (cases v) auto

section \<open>Patterns\<close>

definition digest_value :: "json \<Rightarrow> bool" where
  "digest_value v \<longleftrightarrow> is_JStr v \<and> full_digest (jstr v)"

text \<open>\<open>^[0-9a-f]{32}$\<close>\<close>

definition nonce_text :: "pystr \<Rightarrow> bool" where
  "nonce_text s \<longleftrightarrow> length s = 32 \<and> list_all is_lower_hex s"

text \<open>\<open>^ed25519:sha256:[0-9a-f]{64}$\<close>\<close>

definition key_id_text :: "pystr \<Rightarrow> bool" where
  "key_id_text s \<longleftrightarrow>
     starts_with ''ed25519:sha256:'' s \<and> length s = 79 \<and> list_all is_lower_hex (drop 15 s)"

text \<open>\<open>^[A-Za-z][A-Za-z0-9_.:-]{1,127}$\<close>\<close>

definition identity_char :: "char \<Rightarrow> bool" where
  "identity_char c \<longleftrightarrow> is_upper c \<or> is_lower c \<or> is_digit c \<or> c \<in> set ''_.:-''"

definition identity_text :: "pystr \<Rightarrow> bool" where
  "identity_text s =
     (case s of
        [] \<Rightarrow> False
      | c # r \<Rightarrow> (is_upper c \<or> is_lower c) \<and> list_all identity_char r \<and> 1 \<le> length r \<and> length r \<le> 127)"

section \<open>Whitespace\<close>

text \<open>The UTF-8 forms of the characters that \<open>str.strip\<close> removes.\<close>

definition WHITESPACE :: "pystr list" where
  "WHITESPACE =
     [[CHR 0x09], [CHR 0x0A], [CHR 0x0B], [CHR 0x0C], [CHR 0x0D], [CHR 0x1C], [CHR 0x1D], [CHR 0x1E],
      [CHR 0x1F], [CHR 0x20], [CHR 0xC2, CHR 0x85], [CHR 0xC2, CHR 0xA0],
      [CHR 0xE1, CHR 0x9A, CHR 0x80], [CHR 0xE2, CHR 0x80, CHR 0x80], [CHR 0xE2, CHR 0x80, CHR 0x81],
      [CHR 0xE2, CHR 0x80, CHR 0x82], [CHR 0xE2, CHR 0x80, CHR 0x83], [CHR 0xE2, CHR 0x80, CHR 0x84],
      [CHR 0xE2, CHR 0x80, CHR 0x85], [CHR 0xE2, CHR 0x80, CHR 0x86], [CHR 0xE2, CHR 0x80, CHR 0x87],
      [CHR 0xE2, CHR 0x80, CHR 0x88], [CHR 0xE2, CHR 0x80, CHR 0x89], [CHR 0xE2, CHR 0x80, CHR 0x8A],
      [CHR 0xE2, CHR 0x80, CHR 0xA8], [CHR 0xE2, CHR 0x80, CHR 0xA9], [CHR 0xE2, CHR 0x80, CHR 0xAF],
      [CHR 0xE2, CHR 0x81, CHR 0x9F], [CHR 0xE3, CHR 0x80, CHR 0x80]]"

definition ends_with :: "pystr \<Rightarrow> pystr \<Rightarrow> bool" where
  "ends_with p s \<longleftrightarrow> starts_with (rev p) (rev s)"

text \<open>\<open>value.strip() == value\<close>\<close>

definition stripped :: "pystr \<Rightarrow> bool" where
  "stripped s \<longleftrightarrow> list_all (\<lambda>w. \<not> starts_with w s \<and> \<not> ends_with w s) WHITESPACE"

text \<open>A nonblank canonical string: \<open>type(v) is str and v and v.strip() == v\<close>.\<close>

definition canonical_text :: "json \<Rightarrow> bool" where
  "canonical_text v \<longleftrightarrow> is_JStr v \<and> jstr v \<noteq> [] \<and> stripped (jstr v)"

section \<open>Paths\<close>

fun split_slash :: "pystr \<Rightarrow> pystr list" where
  "split_slash [] = [[]]"
| "split_slash (c # s) =
     (if c = CHR ''/'' then [] # split_slash s
      else (case split_slash s of [] \<Rightarrow> [[c]] | p # ps \<Rightarrow> (c # p) # ps))"

fun join_slash :: "pystr list \<Rightarrow> pystr" where
  "join_slash [] = []"
| "join_slash [p] = p"
| "join_slash (p # q # ps) = p @ CHR ''/'' # join_slash (q # ps)"

text \<open>\<open>PurePosixPath(s).parts\<close> and \<open>as_posix()\<close> of a path that is not absolute.\<close>

definition path_parts :: "pystr \<Rightarrow> pystr list" where
  "path_parts s = filter (\<lambda>p. p \<noteq> [] \<and> p \<noteq> ''.'') (split_slash s)"

definition as_posix :: "pystr \<Rightarrow> pystr" where
  "as_posix s = (if path_parts s = [] then ''.'' else join_slash (path_parts s))"

definition is_absolute :: "pystr \<Rightarrow> bool" where
  "is_absolute s \<longleftrightarrow> starts_with ''/'' s"

definition relative_path_ok :: "pystr \<Rightarrow> bool" where
  "relative_path_ok s \<longleftrightarrow>
     \<not> (s = ''.'' \<or> is_absolute s \<or> as_posix s \<noteq> s \<or> ''.'' \<in> set (path_parts s) \<or>
        ''..'' \<in> set (path_parts s) \<or> BS \<in> set s \<or> CHR 0x00 \<in> set s)"

lemma split_slash_nonempty: "split_slash s \<noteq> []"
  by (induction s) (auto split: list.splits)

lemma join_split_slash: "join_slash (split_slash s) = s"
proof (induction s)
  case (Cons c s)
  obtain p ps where ps: "split_slash s = p # ps" using split_slash_nonempty by (cases "split_slash s") auto
  with Cons show ?case by (cases ps) auto
qed simp

lemma split_slash_no_slash: "p \<in> set (split_slash s) \<Longrightarrow> CHR ''/'' \<notin> set p"
proof (induction s arbitrary: p)
  case (Cons c s)
  obtain q qs where "split_slash s = q # qs" using split_slash_nonempty by (cases "split_slash s") auto
  with Cons show ?case by (auto split: if_splits)
qed simp

lemma split_join_slash:
  "ps \<noteq> [] \<Longrightarrow> (\<And>p. p \<in> set ps \<Longrightarrow> CHR ''/'' \<notin> set p) \<Longrightarrow> split_slash (join_slash ps) = ps"
proof (induction ps rule: join_slash.induct)
  case (2 p)
  then have "CHR ''/'' \<notin> set p" by simp
  then show ?case by (induction p) auto
next
  case (3 p q ps)
  then have p: "CHR ''/'' \<notin> set p" and "split_slash (join_slash (q # ps)) = q # ps" by simp_all
  then show ?case by (induction p) auto
qed simp

text \<open>
  An accepted path is its own list of components: none is empty, and none is \<open>.\<close> or \<open>..\<close>, so it
  cannot leave the directory it is resolved in.
\<close>

lemma relative_path_ok_components:
  assumes "relative_path_ok s" and "p \<in> set (split_slash s)"
  shows "p \<noteq> [] \<and> p \<noteq> ''.'' \<and> p \<noteq> ''..''"
proof -
  from assms(1) have eq: "as_posix s = s" and dots: "''.'' \<notin> set (path_parts s)" "''..'' \<notin> set (path_parts s)"
    and "s \<noteq> ''.''" by (auto simp: relative_path_ok_def)
  from eq \<open>s \<noteq> ''.''\<close> have ne: "path_parts s \<noteq> []" and "join_slash (path_parts s) = s"
    by (auto simp: as_posix_def split: if_splits)
  moreover have "CHR ''/'' \<notin> set q" if "q \<in> set (path_parts s)" for q
    using that split_slash_no_slash by (auto simp: path_parts_def)
  ultimately have "split_slash s = path_parts s" using split_join_slash by metis
  with assms(2) have p: "p \<in> set (path_parts s)" by metis
  then have "p \<noteq> []" by (simp add: path_parts_def)
  with p dots show ?thesis by auto
qed

section \<open>Base64\<close>

definition b64_alphabet :: string where
  "b64_alphabet = ''ABCDEFGHIJKLMNOPQRSTUVWXYZabcdefghijklmnopqrstuvwxyz0123456789+/''"

definition b64_char :: "nat \<Rightarrow> char" where
  "b64_char n = b64_alphabet ! n"

definition b64_value :: "char \<Rightarrow> nat option" where
  "b64_value c =
     (if is_upper c then Some (of_char c - 65)
      else if is_lower c then Some (of_char c - 71)
      else if is_digit c then Some (of_char c + 4)
      else if c = CHR ''+'' then Some 62
      else if c = CHR ''/'' then Some 63 else None)"

fun b64encode :: "bytes \<Rightarrow> pystr" where
  "b64encode [] = []"
| "b64encode [a] =
     [b64_char (of_char a div 4), b64_char (of_char a mod 4 * 16), CHR ''='', CHR ''='']"
| "b64encode [a, b] =
     [b64_char (of_char a div 4), b64_char (of_char a mod 4 * 16 + of_char b div 16),
      b64_char (of_char b mod 16 * 4), CHR ''='']"
| "b64encode (a # b # c # r) =
     b64_char (of_char a div 4) # b64_char (of_char a mod 4 * 16 + of_char b div 16) #
     b64_char (of_char b mod 16 * 4 + of_char c div 64) # b64_char (of_char c mod 64) # b64encode r"

text \<open>\<open>b64decode(.., validate=True)\<close> of a padded text; the unused bits of a last group are dropped.\<close>

fun b64decode :: "pystr \<Rightarrow> bytes option" where
  "b64decode [] = Some []"
| "b64decode (p # q # r # s # t) =
     (case (b64_value p, b64_value q) of
        (Some a, Some b) \<Rightarrow>
          if r = CHR ''='' \<and> s = CHR ''='' \<and> t = [] then Some [char_of (a * 4 + b div 16)]
          else (case b64_value r of
              None \<Rightarrow> None
            | Some c \<Rightarrow>
                if s = CHR ''='' \<and> t = [] then Some [char_of (a * 4 + b div 16), char_of (b mod 16 * 16 + c div 4)]
                else (case b64_value s of
                    None \<Rightarrow> None
                  | Some d \<Rightarrow>
                      map_option (\<lambda>bs. char_of (a * 4 + b div 16) # char_of (b mod 16 * 16 + c div 4) #
                        char_of (c mod 4 * 64 + d) # bs) (b64decode t)))
      | _ \<Rightarrow> None)"
| "b64decode _ = None"

lemma b64_value_char: "n < 64 \<Longrightarrow> b64_value (b64_char n) = Some n"
proof -
  assume "n < 64"
  then have "n \<in> set [0..<64]" by simp
  moreover have "list_all (\<lambda>n. b64_value (b64_char n) = Some n) [0..<64]"
    by (simp add: upt_rec b64_value_def b64_char_def b64_alphabet_def is_upper_def is_lower_def is_digit_def in_range_def)
  ultimately show ?thesis by (simp only: list_all_iff)
qed

lemma b64_char_not_pad: "n < 64 \<Longrightarrow> b64_char n \<noteq> CHR ''=''"
  using b64_value_char [of n]
  by (auto simp: b64_value_def is_upper_def is_lower_def is_digit_def in_range_def)

lemma char_parts:
  "(of_char (a :: char) :: nat) div 4 < 64" "(of_char a :: nat) mod 4 * 16 + of_char (b :: char) div 16 < 64"
  "(of_char b :: nat) mod 16 * 4 + of_char (c :: char) div 64 < 64" "(of_char c :: nat) mod 64 < 64"
  "(of_char a :: nat) mod 4 * 16 < 64" "(of_char b :: nat) mod 16 * 4 < 64"
proof -
  have "(of_char a :: nat) < 256" "(of_char b :: nat) < 256" "(of_char c :: nat) < 256" by simp_all
  then have "(of_char a :: nat) div 4 < 64" "(of_char b :: nat) div 16 < 16" "(of_char c :: nat) div 64 < 4"
    by linarith+
  moreover have "(of_char a :: nat) mod 4 < 4" "(of_char b :: nat) mod 16 < 16" "(of_char c :: nat) mod 64 < 64"
    by simp_all
  ultimately show "(of_char a :: nat) div 4 < 64" "(of_char a :: nat) mod 4 * 16 + of_char b div 16 < 64"
    "(of_char b :: nat) mod 16 * 4 + of_char c div 64 < 64" "(of_char c :: nat) mod 64 < 64"
    "(of_char a :: nat) mod 4 * 16 < 64" "(of_char b :: nat) mod 16 * 4 < 64"
    by linarith+
qed

lemma b64_roundtrip: "b64decode (b64encode bs) = Some bs"
proof (induction bs rule: b64encode.induct)
  case (2 a)
  have "(of_char a :: nat) div 4 * 4 + of_char a mod 4 * 16 div 16 = of_char a" by simp
  then show ?case by (simp add: b64_value_char char_parts)
next
  case (3 a b)
  have "(of_char a :: nat) div 4 * 4 + (of_char a mod 4 * 16 + of_char b div 16) div 16 = of_char a"
    "((of_char a :: nat) mod 4 * 16 + of_char b div 16) mod 16 * 16 + of_char b mod 16 * 4 div 4 = of_char b"
    using of_char_div16 [of b] by simp_all
  then show ?case by (simp add: b64_value_char char_parts b64_char_not_pad)
next
  case (4 a b c r)
  have "(of_char c :: nat) div 64 < 4" using nat_of_char_less_256 [of c] by linarith
  then have "(of_char a :: nat) div 4 * 4 + (of_char a mod 4 * 16 + of_char b div 16) div 16 = of_char a"
    "((of_char a :: nat) mod 4 * 16 + of_char b div 16) mod 16 * 16 +
       (of_char b mod 16 * 4 + of_char c div 64) div 4 = of_char b"
    "((of_char b :: nat) mod 16 * 4 + of_char c div 64) mod 4 * 64 + of_char c mod 64 = of_char c"
    using of_char_div16 [of b] by (simp_all add: div_mult_mod_eq)
  with 4 show ?case by (simp add: b64_value_char char_parts b64_char_not_pad)
qed simp

end
