(* ===== verification/Typed_Objects.thy ===== *)
theory Typed_Objects
  imports Field_Checks
begin

text \<open>
  What the typed protocol objects share: each is read from the normal-form body of an envelope and can
  rebuild that envelope from its own fields. The locale \<open>content_object\<close> is the interface that
  the events and the reducer rely on; the typed objects of the development interpret it.
\<close>

section \<open>Rebuilding a body from its members\<close>

lemma sort_key_map_of_unique:
  assumes "distinct (map fst ms)" and "distinct (map fst ns)" and "map_of ms = map_of ns"
  shows "sort_key fst ms = sort_key fst (ns :: ('a::linorder \<times> 'b) list)"
proof -
  have "set ms = set ns"
    using assms by (metis map_of_eq_Some_iff subset_antisym subsetI surj_pair)
  then have s: "set (sort_key fst ms) = set (sort_key fst ns)" by simp
  have "sorted (map fst (sort_key fst ms))" "sorted (map fst (sort_key fst ns))" by simp_all
  moreover have d: "distinct (map fst (sort_key fst ms))" "distinct (map fst (sort_key fst ns))"
    using assms by (simp_all add: distinct_map)
  ultimately have k: "map fst (sort_key fst ms) = map fst (sort_key fst ns)"
    using s by (intro sorted_distinct_set_unique) auto
  have i: "inj_on fst (set (sort_key fst ms) \<union> set (sort_key fst ns))"
    using d(1) s by (simp add: distinct_map)
  show ?thesis by (rule map_inj_on [OF k i])
qed

lemma norm_json_map_of_unique:
  assumes "distinct (map fst ms)" and "distinct (map fst ns)"
    and "\<And>k. map_option norm_json (map_of ms k) = map_option norm_json (map_of ns k)"
  shows "norm_json (JObj ms) = norm_json (JObj ns)"
proof -
  have "map_of (norm_members ms) = map_of (norm_members ns)"
    using assms(3) by (auto simp: map_of_norm_members)
  then have "sort_key fst (norm_members ms) = sort_key fst (norm_members ns)"
    using assms by (intro sort_key_map_of_unique) simp_all
  then show ?thesis by simp
qed

text \<open>A value in normal form, without the ceilings of the protocol.\<close>

definition normal_form :: "json \<Rightarrow> bool" where
  "normal_form v \<longleftrightarrow> dict_ok v \<and> norm_json v = v"

lemma normal_json_form: "normal_json X v \<Longrightarrow> normal_form v"
  by (simp add: normal_json_def normal_form_def thaw_json_eq_Inr)

lemma map_of_normal_form:
  assumes "normal_form (JObj ms)" and "map_of ms k = Some w"
  shows "normal_form w"
proof -
  from assms(1) have d: "distinct (map fst ms)" and n: "norm_json (JObj ms) = JObj ms"
    and k: "dict_ok_members ms" by (simp_all add: normal_form_def)
  have "member k (norm_json (JObj ms)) = norm_json w" using member_norm [OF d, of k] assms(2) by simp
  then have "norm_json w = w" unfolding n using assms(2) by (simp add: member_def)
  moreover have "dict_ok w" using k map_of_SomeD [OF assms(2)] by (auto simp: dict_ok_members_all)
  ultimately show ?thesis by (simp add: normal_form_def)
qed

lemma normal_form_member: "normal_form v \<Longrightarrow> normal_form (member k v)"
proof (cases v)
  case (JObj ms)
  moreover assume "normal_form v"
  ultimately show ?thesis using map_of_normal_form
    by (cases "map_of ms k") (auto simp: member_def normal_form_def)
qed (simp_all add: member_def normal_form_def)

lemma normal_form_items: "normal_form v \<Longrightarrow> x \<in> set (arr_items v) \<Longrightarrow> normal_form x"
proof (cases v)
  case (JArr xs)
  assume a: "normal_form v" "x \<in> set (arr_items v)"
  with JArr have "map norm_json xs = xs" and "x \<in> set xs" and "dict_ok x"
    by (auto simp: normal_form_def norm_items_map dict_ok_items_all)
  then have "norm_json x = x" by (metis map_eq_conv map_ident)
  with \<open>dict_ok x\<close> show ?thesis by (simp add: normal_form_def)
qed simp_all

text \<open>A body in normal form is determined by its members, in whatever order they are listed.\<close>

lemma norm_rebuild:
  assumes "normal_form v" and "has_keys v names" and "map fst ms = names" and "distinct names"
    and "\<And>k w. (k, w) \<in> set ms \<Longrightarrow> norm_json w = member k v"
  shows "norm_json (JObj ms) = v"
proof -
  obtain ns where v: "v = JObj ns" using assms(2) by (cases v) (auto simp: has_keys_def)
  with assms(1) have d: "distinct (map fst ns)" and n: "norm_json (JObj ns) = JObj ns"
    by (simp_all add: normal_form_def)
  have keys: "fst ` set ns = set names" using assms(2) v by (simp add: has_keys_def)
  have "map_option norm_json (map_of ms k) = map_option norm_json (map_of ns k)" for k
  proof (cases "k \<in> set names")
    case True
    then obtain w u where w: "map_of ms k = Some w" and u: "map_of ns k = Some u"
      using assms(3) keys by (metis image_set map_of_eq_None_iff option.exhaust)
    have "norm_json w = member k v" using assms(5) map_of_SomeD [OF w] by blast
    moreover have "norm_json u = u" using map_of_normal_form assms(1) u v by (simp add: normal_form_def)
    ultimately show ?thesis using u w v by (simp add: member_def)
  next
    case False
    then have "map_of ms k = None" "map_of ns k = None"
      using assms(3) keys by (metis image_set map_of_eq_None_iff)+
    then show ?thesis by simp
  qed
  then have "norm_json (JObj ms) = norm_json (JObj ns)"
    using assms(3,4) d by (intro norm_json_map_of_unique) simp_all
  with n v show ?thesis by simp
qed

lemma norm_scalars: "is_JStr v \<Longrightarrow> JStr (jstr v) = v" "is_JInt v \<Longrightarrow> JInt (jint v) = v"
  "is_JBool v \<Longrightarrow> JBool (jbool v) = v" "is_JStr v \<Longrightarrow> norm_json v = v" "is_JInt v \<Longrightarrow> norm_json v = v"
  "is_JBool v \<Longrightarrow> norm_json v = v"
  by (cases v; simp)+

lemma norm_strs:
  assumes "is_JArr v" and "list_all is_JStr (arr_items v)"
  shows "norm_json (JArr (map JStr (jstrs v))) = v"
  using assms by (cases v) (auto simp: jstrs_def norm_items_map list_all_iff norm_scalars intro!: map_idI)

lemma created_normal:
  assumes "created_envelope X e"
  shows "normal_json X (JObj (env_body e))"
  using assms by (auto simp: created_envelope_def envelope_create_eq_Inr normal_json_def intro: thaw_json_idem)

lemma created_thaw: "created_envelope X e \<Longrightarrow> thaw_json X (JObj (env_body e)) = Inr (JObj (env_body e))"
  using created_normal by (simp add: normal_json_def)

lemma wf_norm_iff:
  "wf_json X d (norm_json v) \<longleftrightarrow> wf_json X d v"
  "wf_items X d (norm_items xs) \<longleftrightarrow> wf_items X d xs"
  "wf_members X d (norm_members ms) \<longleftrightarrow> wf_members X d ms"
proof (induction v and xs and ms arbitrary: d and d and d rule: norm_json_norm_items_norm_members.induct)
  case (2 ms)
  then show ?case by (simp add: wf_members_all)
qed auto

lemma thaw_rebuild:
  assumes "normal_json X v" and "norm_json u = v"
  shows "thaw_json X u = Inr v"
proof -
  from assms(1) have "wf_json X 0 v" "nodes v \<le> MAX_TOTAL_NODES"
    by (simp_all add: normal_json_def thaw_json_eq_Inr)
  with assms(2) have "wf_json X 0 u" "nodes u \<le> MAX_TOTAL_NODES"
    using wf_norm_iff(1) nodes_norm(1) by metis+
  with assms(2) show ?thesis by (simp add: thaw_json_eq_Inr)
qed

lemma rebuild_envelope:
  assumes "created_envelope X e" and "env_attestations e = []"
    and "norm_json body = JObj (env_body e)"
  shows "envelope_create X (env_kind e) body (JArr []) = Inr e"
proof -
  have "thaw_json X body = Inr (JObj (env_body e))"
    by (rule thaw_rebuild [OF created_normal [OF assms(1)] assms(3)])
  with assms(1,2) show ?thesis by (simp add: created_envelope_def envelope_create_eq_Inr)
qed

section \<open>Interface: objects named by their content\<close>

locale content_object =
  fixes to_env :: "externals \<Rightarrow> 'r \<Rightarrow> envelope result"
    and from_env :: "externals \<Rightarrow> envelope \<Rightarrow> 'r result"
    and object_id :: "'r \<Rightarrow> digest"
  assumes from_env_to_env: "created_envelope X e \<Longrightarrow> from_env X e = Inr r \<Longrightarrow> to_env X r = Inr e"
    and from_env_id: "from_env X e = Inr r \<Longrightarrow> object_id r = env_object_id e"
begin

lemma object_determines_bytes:
  assumes "envelope_from_bytes X b = Inr e" and "from_env X e = Inr r"
  shows "bindR (to_env X r) (envelope_to_bytes X) = Inr b"
  using from_env_to_env [OF env.decode_valid [OF assms(1)] assms(2)] env.encode_decode [OF assms(1)] by simp

lemma bytes_injective:
  assumes "envelope_from_bytes X b = Inr e" and "from_env X e = Inr r"
    and "envelope_from_bytes X c = Inr f" and "from_env X f = Inr r"
  shows "b = c"
  using object_determines_bytes [OF assms(1,2)] object_determines_bytes [OF assms(3,4)] by simp

lemma id_is_content_id:
  assumes "created_envelope X e" and "from_env X e = Inr r"
  shows "content_id X (env_kind e) (JObj (env_body e)) = Inr (object_id r)"
  using assms from_env_id by (auto simp: created_envelope_def envelope_create_eq_Inr)

end

end
