(* ===== verification/Evidence_V1.thy ===== *)
theory Evidence_V1
  imports Typed_Objects
begin

text \<open>
  \<open>src/etzio/evidence.py\<close>: the digests of retained bytes, the artifact types, and target
  snapshots. The file store of the module is in \<open>File_Evidence\<close>.
\<close>

section \<open>Artifact types\<close>

definition EFFECT_ORACLE_TYPE :: pystr where "EFFECT_ORACLE_TYPE = ''modeled_effect_oracle_spec''"
definition ENVIRONMENT_TYPE :: pystr where "ENVIRONMENT_TYPE = ''modeled_environment_spec''"
definition EVIDENCE_TYPE :: pystr where "EVIDENCE_TYPE = ''modeled_supporting_evidence_input''"
definition POC_TYPE :: pystr where "POC_TYPE = ''modeled_poc_input''"
definition EFFECT_OUTPUT_TYPE :: pystr where "EFFECT_OUTPUT_TYPE = ''modeled_effect_output''"
definition EXECUTION_OUTPUT_TYPE :: pystr where "EXECUTION_OUTPUT_TYPE = ''modeled_execution_output''"
definition MEASURED_ENVIRONMENT_OUTPUT_TYPE :: pystr where
  "MEASURED_ENVIRONMENT_OUTPUT_TYPE = ''modeled_measured_environment_output''"
definition TERMINATION_OUTPUT_TYPE :: pystr where "TERMINATION_OUTPUT_TYPE = ''modeled_termination_output''"

definition VERIFICATION_ARTIFACT_TYPES_V1 :: "pystr list" where
  "VERIFICATION_ARTIFACT_TYPES_V1 =
     [EFFECT_ORACLE_TYPE, ENVIRONMENT_TYPE, EVIDENCE_TYPE, POC_TYPE, EFFECT_OUTPUT_TYPE,
      EXECUTION_OUTPUT_TYPE, MEASURED_ENVIRONMENT_OUTPUT_TYPE, TERMINATION_OUTPUT_TYPE]"

lemmas artifact_type_defs =
  EFFECT_ORACLE_TYPE_def ENVIRONMENT_TYPE_def EVIDENCE_TYPE_def POC_TYPE_def EFFECT_OUTPUT_TYPE_def
  EXECUTION_OUTPUT_TYPE_def MEASURED_ENVIRONMENT_OUTPUT_TYPE_def TERMINATION_OUTPUT_TYPE_def

section \<open>Digests of retained bytes\<close>

definition EVIDENCE_DOMAIN :: bytes where
  "EVIDENCE_DOMAIN = ''etzio:evidence:v1'' @ [CHR 0x00]"

definition TYPED_EVIDENCE_DOMAIN :: bytes where
  "TYPED_EVIDENCE_DOMAIN = ''etzio:evidence:typed:v1'' @ [CHR 0x00]"

definition evidence_digest :: "externals \<Rightarrow> bytes \<Rightarrow> digest" where
  "evidence_digest X data = ''sha256:'' @ hex_bytes (sha256 X (EVIDENCE_DOMAIN @ data))"

definition typed_evidence_digest :: "externals \<Rightarrow> bytes \<Rightarrow> pystr \<Rightarrow> digest result" where
  "typed_evidence_digest X data artifact_type =
     (if artifact_type \<notin> set VERIFICATION_ARTIFACT_TYPES_V1
      then Inl (EvidenceError ''unknown verification artifact type'')
      else Inr (''sha256:'' @ hex_bytes (sha256 X
             (TYPED_EVIDENCE_DOMAIN @ artifact_type @ [CHR 0x00] @ data))))"

definition typed_preimage :: "pystr \<Rightarrow> bytes \<Rightarrow> bytes" where
  "typed_preimage artifact_type data = TYPED_EVIDENCE_DOMAIN @ artifact_type @ [CHR 0x00] @ data"

lemma artifact_type_no_nul: "t \<in> set VERIFICATION_ARTIFACT_TYPES_V1 \<Longrightarrow> CHR 0x00 \<notin> set t"
  by (auto simp: VERIFICATION_ARTIFACT_TYPES_V1_def artifact_type_defs)

lemma typed_preimage_inject:
  assumes "s \<in> set VERIFICATION_ARTIFACT_TYPES_V1" and "t \<in> set VERIFICATION_ARTIFACT_TYPES_V1"
  shows "typed_preimage s a = typed_preimage t b \<longleftrightarrow> s = t \<and> a = b"
  using assms by (simp add: typed_preimage_def append_sep_eq artifact_type_no_nul)

lemma typed_and_untyped_preimages_differ: "typed_preimage t a \<noteq> EVIDENCE_DOMAIN @ b"
  by (simp add: typed_preimage_def TYPED_EVIDENCE_DOMAIN_def EVIDENCE_DOMAIN_def)

section \<open>Target snapshots\<close>

definition MAX_SNAPSHOT_BYTES_HARD_CEILING :: int where
  "MAX_SNAPSHOT_BYTES_HARD_CEILING = 64 * 1024 * 1024"

definition MAX_SNAPSHOT_FILES_HARD_CEILING :: nat where
  "MAX_SNAPSHOT_FILES_HARD_CEILING = 256"

definition validate_relative_path :: "externals \<Rightarrow> json \<Rightarrow> exn + unit" where
  "validate_relative_path X v = seqR [
     requireR (is_JStr v \<and> jstr v \<noteq> []) (EvidenceError ''snapshot path must be a nonempty string''),
     requireR (nfc X (jstr v) = jstr v) (EvidenceError ''snapshot path must be NFC-normalized''),
     requireR (\<not> (jstr v = ''.'' \<or> is_absolute (jstr v) \<or> ''..'' \<in> set (path_parts (jstr v)) \<or>
                  ''.'' \<in> set (path_parts (jstr v))))
       (EvidenceError ''snapshot path must be normalized and relative''),
     requireR (as_posix (jstr v) = jstr v) (EvidenceError ''snapshot path must be normalized and relative''),
     requireR (\<not> (BS \<in> set (jstr v) \<or> CHR 0x00 \<in> set (jstr v)))
       (EvidenceError ''snapshot path contains a forbidden character'')]"

record snapshot_file =
  sf_relative_path :: pystr
  sf_artifact_digest :: digest
  sf_size :: int

definition SNAPSHOT_FILE_FIELDS :: "pystr list" where
  "SNAPSHOT_FILE_FIELDS = [''artifact_digest'', ''relative_path'', ''size'']"

definition snapshot_file_new :: "externals \<Rightarrow> json \<Rightarrow> snapshot_file result" where
  "snapshot_file_new X v =
     bindR (seqR [
       validate_relative_path X (member ''relative_path'' v),
       requireR (digest_value (member ''artifact_digest'' v)) (EvidenceError ''invalid snapshot artifact digest''),
       requireR (is_JInt (member ''size'' v) \<and> 0 \<le> jint (member ''size'' v))
         (EvidenceError ''snapshot file size must be nonnegative'')])
     (\<lambda>_. Inr \<lparr>sf_relative_path = jstr (member ''relative_path'' v),
               sf_artifact_digest = jstr (member ''artifact_digest'' v), sf_size = jint (member ''size'' v)\<rparr>)"

definition snapshot_file_json :: "snapshot_file \<Rightarrow> json" where
  "snapshot_file_json f =
     JObj [(''artifact_digest'', JStr (sf_artifact_digest f)), (''relative_path'', JStr (sf_relative_path f)),
           (''size'', JInt (sf_size f))]"

record target_snapshot =
  ts_source :: pystr
  ts_files :: "snapshot_file list"
  ts_object_id :: digest

definition snapshot_body :: "target_snapshot \<Rightarrow> json" where
  "snapshot_body s = JObj [(''files'', JArr (map snapshot_file_json (ts_files s))), (''source'', JStr (ts_source s))]"

definition snapshot_bytes :: "target_snapshot \<Rightarrow> int" where
  "snapshot_bytes s = sum_list (map sf_size (ts_files s))"

definition target_snapshot_new :: "externals \<Rightarrow> json \<Rightarrow> snapshot_file list \<Rightarrow> digest \<Rightarrow> target_snapshot result" where
  "target_snapshot_new X source files oid =
     (let s = \<lparr>ts_source = jstr source, ts_files = files, ts_object_id = oid\<rparr>;
          paths = map sf_relative_path files
      in bindR (seqR [
           requireR (source = JStr ''repository_fixture'')
             (EvidenceError ''protocol-v1 snapshots must use the repository_fixture source''),
           requireR (files \<noteq> []) (EvidenceError ''target snapshot files must be a nonempty tuple''),
           requireR (length files \<le> MAX_SNAPSHOT_FILES_HARD_CEILING)
             (EvidenceError ''target snapshot exceeds the hard file-count ceiling''),
           requireR (snapshot_bytes s \<le> MAX_SNAPSHOT_BYTES_HARD_CEILING)
             (EvidenceError ''target snapshot exceeds the hard aggregate-byte ceiling''),
           requireR (paths = sort paths) (EvidenceError ''target snapshot files must use canonical path order''),
           requireR (distinct paths) (EvidenceError ''target snapshot paths must be unique''),
           bindR (content_id X ''target_snapshot'' (snapshot_body s)) (\<lambda>i.
             requireR (oid = i) (EvidenceError ''target snapshot object ID does not match its content''))])
         (\<lambda>_. Inr s))"

definition target_snapshot_create :: "externals \<Rightarrow> pystr \<Rightarrow> snapshot_file list \<Rightarrow> target_snapshot result" where
  "target_snapshot_create X source files =
     (if source \<noteq> ''repository_fixture''
      then Inl (EvidenceError ''protocol-v1 snapshots must use the repository_fixture source'')
      else if files = [] then Inl (EvidenceError ''target snapshot must contain at least one file'')
      else let ordered = sort_key sf_relative_path files in
        if \<not> distinct (map sf_relative_path ordered)
        then Inl (EvidenceError ''target snapshot paths must be unique'')
        else bindR (content_id X ''target_snapshot''
               (JObj [(''files'', JArr (map snapshot_file_json ordered)), (''source'', JStr source)]))
             (\<lambda>oid. target_snapshot_new X (JStr source) ordered oid))"

definition snapshot_file_entry :: "externals \<Rightarrow> json \<Rightarrow> snapshot_file result" where
  "snapshot_file_entry X v =
     (if \<not> has_keys v SNAPSHOT_FILE_FIELDS
      then Inl (EvidenceError ''target snapshot contains an invalid file entry'')
      else snapshot_file_new X v)"

definition target_snapshot_from_envelope :: "externals \<Rightarrow> envelope \<Rightarrow> target_snapshot result" where
  "target_snapshot_from_envelope X e =
     (if env_kind e \<noteq> ''target_snapshot'' \<or> env_attestations e \<noteq> []
      then Inl (EvidenceError ''expected an unattested target_snapshot envelope'')
      else bindR (thaw_json X (JObj (env_body e))) (\<lambda>body.
        if \<not> has_keys body [''files'', ''source'']
        then Inl (EvidenceError ''target snapshot envelope has missing or unknown fields'')
        else if \<not> is_JArr (member ''files'' body)
        then Inl (EvidenceError ''target snapshot files must be an array'')
        else bindR (mapR (snapshot_file_entry X) (arr_items (member ''files'' body))) (\<lambda>files.
          target_snapshot_new X (member ''source'' body) files (env_object_id e))))"

definition target_snapshot_to_envelope :: "externals \<Rightarrow> target_snapshot \<Rightarrow> envelope result" where
  "target_snapshot_to_envelope X s =
     bindR (envelope_create X ''target_snapshot'' (snapshot_body s) (JArr [])) (\<lambda>e.
       if env_object_id e \<noteq> ts_object_id s
       then Inl (EvidenceError ''target snapshot object ID does not match its envelope'') else Inr e)"

text \<open>\<open>artifacts_by_path().get(path)\<close>\<close>

definition artifacts_by_path :: "target_snapshot \<Rightarrow> pystr \<Rightarrow> digest option" where
  "artifacts_by_path s = map_of (map (\<lambda>f. (sf_relative_path f, sf_artifact_digest f)) (rev (ts_files s)))"

section \<open>Snapshots are content objects\<close>

lemma snapshot_file_entry_json:
  assumes "snapshot_file_entry X v = Inr f" and "normal_form v"
  shows "norm_json (snapshot_file_json f) = v"
proof -
  from assms(1) have k: "has_keys v SNAPSHOT_FILE_FIELDS"
    and f: "is_JStr (member ''relative_path'' v)" "is_JStr (member ''artifact_digest'' v)" "is_JInt (member ''size'' v)"
    "f = \<lparr>sf_relative_path = jstr (member ''relative_path'' v),
          sf_artifact_digest = jstr (member ''artifact_digest'' v), sf_size = jint (member ''size'' v)\<rparr>"
    by (auto simp: snapshot_file_entry_def snapshot_file_new_def validate_relative_path_def digest_value_def
        result_simps)
  show ?thesis unfolding snapshot_file_json_def
    by (rule norm_rebuild [OF assms(2) k]) (auto simp: SNAPSHOT_FILE_FIELDS_def f norm_scalars)
qed

lemma mapR_map_idem:
  assumes "mapR f xs = Inr ys" and "\<And>x y. x \<in> set xs \<Longrightarrow> f x = Inr y \<Longrightarrow> g y = x"
  shows "map g ys = xs"
  using assms by (induction xs arbitrary: ys) (auto simp: bindR_eq_Inr)

lemma target_snapshot_from_envelopeE:
  assumes "target_snapshot_from_envelope X e = Inr s" and "created_envelope X e"
  obtains body where "body = JObj (env_body e)" and "env_kind e = ''target_snapshot''" and "env_attestations e = []"
    and "has_keys body [''files'', ''source'']" and "is_JArr (member ''files'' body)"
    and "mapR (snapshot_file_entry X) (arr_items (member ''files'' body)) = Inr (ts_files s)"
    and "member ''source'' body = JStr (ts_source s)" and "ts_object_id s = env_object_id e"
  using assms created_thaw [OF assms(2)]
  by (auto simp: target_snapshot_from_envelope_def target_snapshot_new_def Let_def result_simps)

lemma snapshot_body_of_envelope:
  assumes "target_snapshot_from_envelope X e = Inr s" and "created_envelope X e"
  shows "norm_json (snapshot_body s) = JObj (env_body e)"
proof -
  from assms obtain body where b: "body = JObj (env_body e)" and "has_keys body [''files'', ''source'']"
    and arr: "is_JArr (member ''files'' body)"
    and files: "mapR (snapshot_file_entry X) (arr_items (member ''files'' body)) = Inr (ts_files s)"
    and src: "member ''source'' body = JStr (ts_source s)"
    by (rule target_snapshot_from_envelopeE)
  have nf: "normal_form body" unfolding b by (rule normal_json_form [OF created_normal [OF assms(2)]])
  have "map (\<lambda>f. norm_json (snapshot_file_json f)) (ts_files s) = arr_items (member ''files'' body)"
    using files by (rule mapR_map_idem)
      (use nf in \<open>auto intro!: snapshot_file_entry_json intro: normal_form_items normal_form_member\<close>)
  then have "norm_json (JArr (map snapshot_file_json (ts_files s))) = member ''files'' body"
    using arr by (simp add: norm_items_map comp_def is_JArr_iff)
  then show ?thesis unfolding snapshot_body_def b [symmetric]
    by (intro norm_rebuild [OF nf \<open>has_keys body _\<close>]) (auto simp: src simp del: norm_json.simps(1))
qed

interpretation snapshot: content_object target_snapshot_to_envelope target_snapshot_from_envelope ts_object_id
proof unfold_locales
  fix X e s
  assume e: "created_envelope X e" and s: "target_snapshot_from_envelope X e = Inr s"
  from s e have k: "env_kind e = ''target_snapshot''" "env_attestations e = []" "ts_object_id s = env_object_id e"
    by (rule target_snapshot_from_envelopeE; simp)+
  show "target_snapshot_to_envelope X s = Inr e"
    using rebuild_envelope [OF e k(2) snapshot_body_of_envelope [OF s e]] k
    by (simp add: target_snapshot_to_envelope_def)
next
  fix X e s
  assume "target_snapshot_from_envelope X e = Inr s"
  then show "ts_object_id s = env_object_id e"
    by (auto simp: target_snapshot_from_envelope_def target_snapshot_new_def Let_def result_simps)
qed

end
