(* ===== verification/Mission_V1.thy ===== *)
theory Mission_V1
  imports Evidence_V1
begin

text \<open>
  \<open>src/etzio/mission_v1.py\<close>: the analysis lease, an expiring capability for one static-analysis
  worker, and the static candidate, a byte-bound observation of that worker. A constructor takes the
  identifier and the raw members and runs the checks of \<open>__post_init__\<close>; a record value
  exists only for bodies that pass them.
\<close>

section \<open>Field checks\<close>

definition mission_digest :: "pystr \<Rightarrow> json \<Rightarrow> exn + unit" where
  "mission_digest field v =
     requireR (digest_value v) (MissionProtocolError (field @ '' must be a full sha256 identifier''))"

definition mission_text :: "pystr \<Rightarrow> json \<Rightarrow> exn + unit" where
  "mission_text field v =
     requireR (canonical_text v) (MissionProtocolError (field @ '' must be a nonblank canonical string''))"

definition mission_nonnegative :: "pystr \<Rightarrow> json \<Rightarrow> exn + unit" where
  "mission_nonnegative field v =
     requireR (is_JInt v \<and> 0 \<le> jint v) (MissionProtocolError (field @ '' must be a nonnegative integer''))"

definition mission_relative_path :: "json \<Rightarrow> exn + unit" where
  "mission_relative_path v = seqR [
     mission_text ''relative_path'' v,
     requireR (relative_path_ok (jstr v)) (MissionProtocolError ''relative_path must be normalized and relative'')]"

lemmas mission_check_defs =
  mission_digest_def mission_text_def mission_nonnegative_def mission_relative_path_def
  digest_value_def canonical_text_def

section \<open>Analysis leases\<close>

record analysis_lease =
  al_lease_id :: digest
  al_mission_id :: digest
  al_authority_id :: digest
  al_target_snapshot_id :: digest
  al_worker_identity :: pystr
  al_action :: pystr
  al_issued_at :: int
  al_expires_at :: int
  al_max_bytes :: int
  al_max_candidates :: int
  al_max_wallclock_seconds :: int
  al_lease_nonce :: pystr

definition ANALYSIS_LEASE_FIELDS :: "pystr list" where
  "ANALYSIS_LEASE_FIELDS =
     [''action'', ''authority_id'', ''expires_at'', ''issued_at'', ''lease_nonce'', ''max_bytes'', ''max_candidates'',
      ''max_wallclock_seconds'', ''mission_id'', ''target_snapshot_id'', ''worker_identity'']"

definition positive_budget :: "pystr \<Rightarrow> json \<Rightarrow> exn + unit" where
  "positive_budget field v = seqR [
     mission_nonnegative field v,
     requireR (jint v \<noteq> 0) (MissionProtocolError (field @ '' must be positive for an issued analysis lease''))]"

definition validate_lease_body :: "json \<Rightarrow> exn + unit" where
  "validate_lease_body body = seqR [
     requireR (has_keys body ANALYSIS_LEASE_FIELDS)
       (MissionProtocolError ''analysis lease has missing or unknown fields''),
     mission_digest ''mission_id'' (member ''mission_id'' body),
     mission_digest ''authority_id'' (member ''authority_id'' body),
     mission_digest ''target_snapshot_id'' (member ''target_snapshot_id'' body),
     requireR (member ''worker_identity'' body = JStr ''VELITES'' \<and> member ''action'' body = JStr ''static_analysis'')
       (MissionProtocolError ''foundation analysis leases are VELITES static_analysis only''),
     mission_nonnegative ''issued_at'' (member ''issued_at'' body),
     mission_nonnegative ''expires_at'' (member ''expires_at'' body),
     requireR (jint (member ''issued_at'' body) < jint (member ''expires_at'' body))
       (MissionProtocolError ''analysis lease must have a nonempty half-open validity window''),
     positive_budget ''max_bytes'' (member ''max_bytes'' body),
     positive_budget ''max_candidates'' (member ''max_candidates'' body),
     positive_budget ''max_wallclock_seconds'' (member ''max_wallclock_seconds'' body),
     requireR (is_JStr (member ''lease_nonce'' body) \<and> nonce_text (jstr (member ''lease_nonce'' body)))
       (MissionProtocolError ''lease_nonce must contain exactly 128 bits of lowercase hex'')]"

definition analysis_lease_body :: "analysis_lease \<Rightarrow> json" where
  "analysis_lease_body l = JObj [
     (''action'', JStr (al_action l)), (''authority_id'', JStr (al_authority_id l)),
     (''expires_at'', JInt (al_expires_at l)), (''issued_at'', JInt (al_issued_at l)),
     (''lease_nonce'', JStr (al_lease_nonce l)), (''max_bytes'', JInt (al_max_bytes l)),
     (''max_candidates'', JInt (al_max_candidates l)), (''max_wallclock_seconds'', JInt (al_max_wallclock_seconds l)),
     (''mission_id'', JStr (al_mission_id l)), (''target_snapshot_id'', JStr (al_target_snapshot_id l)),
     (''worker_identity'', JStr (al_worker_identity l))]"

definition analysis_lease_to_envelope :: "externals \<Rightarrow> analysis_lease \<Rightarrow> envelope result" where
  "analysis_lease_to_envelope X l = envelope_create X ''analysis_lease'' (analysis_lease_body l) (JArr [])"

definition analysis_lease_of_body :: "digest \<Rightarrow> json \<Rightarrow> analysis_lease" where
  "analysis_lease_of_body lease_id body =
     \<lparr>al_lease_id = lease_id, al_mission_id = jstr (member ''mission_id'' body),
      al_authority_id = jstr (member ''authority_id'' body),
      al_target_snapshot_id = jstr (member ''target_snapshot_id'' body),
      al_worker_identity = jstr (member ''worker_identity'' body), al_action = jstr (member ''action'' body),
      al_issued_at = jint (member ''issued_at'' body), al_expires_at = jint (member ''expires_at'' body),
      al_max_bytes = jint (member ''max_bytes'' body), al_max_candidates = jint (member ''max_candidates'' body),
      al_max_wallclock_seconds = jint (member ''max_wallclock_seconds'' body),
      al_lease_nonce = jstr (member ''lease_nonce'' body)\<rparr>"

definition analysis_lease_new :: "externals \<Rightarrow> digest \<Rightarrow> json \<Rightarrow> analysis_lease result" where
  "analysis_lease_new X lease_id body =
     bindR (seqR [mission_digest ''lease_id'' (JStr lease_id), validate_lease_body body]) (\<lambda>_.
     let l = analysis_lease_of_body lease_id body in
     bindR (analysis_lease_to_envelope X l) (\<lambda>e.
       if env_object_id e \<noteq> lease_id
       then Inl (MissionProtocolError ''lease_id does not match the canonical lease body'') else Inr l))"

definition analysis_lease_issue ::
  "externals \<Rightarrow> digest \<Rightarrow> digest \<Rightarrow> digest \<Rightarrow> int \<Rightarrow> int \<Rightarrow> int \<Rightarrow> int \<Rightarrow> int \<Rightarrow> pystr \<Rightarrow> analysis_lease result" where
  "analysis_lease_issue X mission_id authority_id target_snapshot_id issued_at expires_at max_bytes max_candidates
     max_wallclock_seconds lease_nonce =
     (let values = JObj [
            (''action'', JStr ''static_analysis''), (''authority_id'', JStr authority_id),
            (''expires_at'', JInt expires_at), (''issued_at'', JInt issued_at), (''lease_nonce'', JStr lease_nonce),
            (''max_bytes'', JInt max_bytes), (''max_candidates'', JInt max_candidates),
            (''max_wallclock_seconds'', JInt max_wallclock_seconds), (''mission_id'', JStr mission_id),
            (''target_snapshot_id'', JStr target_snapshot_id), (''worker_identity'', JStr ''VELITES'')]
      in bindR (validate_lease_body values) (\<lambda>_.
         bindR (envelope_create X ''analysis_lease'' values (JArr [])) (\<lambda>e.
           analysis_lease_new X (env_object_id e) values)))"

definition analysis_lease_from_envelope :: "externals \<Rightarrow> envelope \<Rightarrow> analysis_lease result" where
  "analysis_lease_from_envelope X e =
     (if env_kind e \<noteq> ''analysis_lease'' \<or> env_attestations e \<noteq> []
      then Inl (MissionProtocolError ''expected an unattested analysis_lease envelope'')
      else bindR (thaw_json X (JObj (env_body e))) (\<lambda>body.
        if \<not> has_keys body ANALYSIS_LEASE_FIELDS
        then Inl (MissionProtocolError ''analysis lease has missing or unknown fields'')
        else bindR (validate_lease_body body) (\<lambda>_. analysis_lease_new X (env_object_id e) body)))"

section \<open>Static candidates\<close>

definition PYTHON_SAST_VERSION :: pystr where "PYTHON_SAST_VERSION = ''python_ast.v1''"

definition SEVERITIES :: "pystr list" where "SEVERITIES = [''low'', ''medium'', ''high'', ''critical'']"

record static_candidate =
  sc_candidate_id :: digest
  sc_claim_id :: digest
  sc_mission_id :: digest
  sc_authority_id :: digest
  sc_analysis_lease_id :: digest
  sc_target_snapshot_id :: digest
  sc_source_artifact_digest :: digest
  sc_relative_path :: pystr
  sc_analyzer_version :: pystr
  sc_rule_id :: pystr
  sc_severity :: pystr
  sc_line :: int
  sc_column :: int
  sc_symbol :: pystr
  sc_producer_identity :: pystr

definition CANDIDATE_FIELDS :: "pystr list" where
  "CANDIDATE_FIELDS =
     [''analysis_lease_id'', ''analyzer_version'', ''authority_id'', ''claim_id'', ''column'', ''line'', ''mission_id'',
      ''producer_identity'', ''relative_path'', ''rule_id'', ''severity'', ''source_artifact_digest'', ''symbol'',
      ''target_snapshot_id'']"

definition claim_id :: "externals \<Rightarrow> json \<Rightarrow> digest result" where
  "claim_id X body = content_id X ''static_claim'' (JObj (map (\<lambda>k. (k, member k body))
     [''analyzer_version'', ''column'', ''line'', ''relative_path'', ''rule_id'', ''source_artifact_digest'',
      ''symbol'', ''target_snapshot_id'']))"

definition validate_candidate_body :: "json \<Rightarrow> exn + unit" where
  "validate_candidate_body body = seqR (
     requireR (has_keys body CANDIDATE_FIELDS) (MissionProtocolError ''candidate has missing or unknown fields'') #
     map (\<lambda>k. mission_digest k (member k body))
       [''analysis_lease_id'', ''authority_id'', ''claim_id'', ''mission_id'', ''source_artifact_digest'',
        ''target_snapshot_id''] @
     [requireR (member ''producer_identity'' body = JStr ''VELITES'')
        (MissionProtocolError ''static candidate producer must be VELITES''),
      requireR (member ''analyzer_version'' body = JStr PYTHON_SAST_VERSION)
        (MissionProtocolError ''unsupported Python analyzer version''),
      mission_relative_path (member ''relative_path'' body),
      mission_text ''rule_id'' (member ''rule_id'' body),
      mission_text ''symbol'' (member ''symbol'' body),
      bindR (in_string_set (member ''severity'' body) SEVERITIES) (\<lambda>known.
        requireR known (MissionProtocolError ''unsupported candidate severity'')),
      mission_nonnegative ''line'' (member ''line'' body),
      requireR (jint (member ''line'' body) \<noteq> 0) (MissionProtocolError ''candidate line must be positive''),
      mission_nonnegative ''column'' (member ''column'' body)])"

definition candidate_body :: "static_candidate \<Rightarrow> json" where
  "candidate_body c = JObj [
     (''analysis_lease_id'', JStr (sc_analysis_lease_id c)), (''analyzer_version'', JStr (sc_analyzer_version c)),
     (''authority_id'', JStr (sc_authority_id c)), (''claim_id'', JStr (sc_claim_id c)),
     (''column'', JInt (sc_column c)), (''line'', JInt (sc_line c)), (''mission_id'', JStr (sc_mission_id c)),
     (''producer_identity'', JStr (sc_producer_identity c)), (''relative_path'', JStr (sc_relative_path c)),
     (''rule_id'', JStr (sc_rule_id c)), (''severity'', JStr (sc_severity c)),
     (''source_artifact_digest'', JStr (sc_source_artifact_digest c)), (''symbol'', JStr (sc_symbol c)),
     (''target_snapshot_id'', JStr (sc_target_snapshot_id c))]"

definition candidate_to_envelope :: "externals \<Rightarrow> static_candidate \<Rightarrow> envelope result" where
  "candidate_to_envelope X c = envelope_create X ''candidate'' (candidate_body c) (JArr [])"

definition candidate_of_body :: "digest \<Rightarrow> json \<Rightarrow> static_candidate" where
  "candidate_of_body candidate_id body =
     \<lparr>sc_candidate_id = candidate_id, sc_claim_id = jstr (member ''claim_id'' body),
      sc_mission_id = jstr (member ''mission_id'' body), sc_authority_id = jstr (member ''authority_id'' body),
      sc_analysis_lease_id = jstr (member ''analysis_lease_id'' body),
      sc_target_snapshot_id = jstr (member ''target_snapshot_id'' body),
      sc_source_artifact_digest = jstr (member ''source_artifact_digest'' body),
      sc_relative_path = jstr (member ''relative_path'' body),
      sc_analyzer_version = jstr (member ''analyzer_version'' body), sc_rule_id = jstr (member ''rule_id'' body),
      sc_severity = jstr (member ''severity'' body), sc_line = jint (member ''line'' body),
      sc_column = jint (member ''column'' body), sc_symbol = jstr (member ''symbol'' body),
      sc_producer_identity = jstr (member ''producer_identity'' body)\<rparr>"

definition candidate_new :: "externals \<Rightarrow> digest \<Rightarrow> json \<Rightarrow> static_candidate result" where
  "candidate_new X candidate_id body =
     bindR (seqR [mission_digest ''candidate_id'' (JStr candidate_id), validate_candidate_body body]) (\<lambda>_.
     bindR (claim_id X body) (\<lambda>expected_claim.
     if member ''claim_id'' body \<noteq> JStr expected_claim
     then Inl (MissionProtocolError ''claim_id does not match the static claim'')
     else let c = candidate_of_body candidate_id body in
     bindR (candidate_to_envelope X c) (\<lambda>e.
       if env_object_id e \<noteq> candidate_id
       then Inl (MissionProtocolError ''candidate_id does not match the canonical candidate body'') else Inr c)))"

text \<open>The members of \<open>StaticFinding\<close> that a candidate takes over.\<close>

record static_finding =
  finding_rule_id :: pystr
  finding_severity :: pystr
  finding_file :: pystr
  finding_line :: int
  finding_column :: int
  finding_symbol :: pystr

definition candidate_from_finding ::
  "externals \<Rightarrow> static_finding \<Rightarrow> digest \<Rightarrow> digest \<Rightarrow> digest \<Rightarrow> digest \<Rightarrow> digest \<Rightarrow> static_candidate result" where
  "candidate_from_finding X f mission_id authority_id analysis_lease_id target_snapshot_id source_artifact_digest =
     (let values = [
            (''analysis_lease_id'', JStr analysis_lease_id), (''analyzer_version'', JStr PYTHON_SAST_VERSION),
            (''authority_id'', JStr authority_id), (''column'', JInt (finding_column f)),
            (''line'', JInt (finding_line f)), (''mission_id'', JStr mission_id),
            (''producer_identity'', JStr ''VELITES''), (''relative_path'', JStr (finding_file f)),
            (''rule_id'', JStr (finding_rule_id f)), (''severity'', JStr (finding_severity f)),
            (''source_artifact_digest'', JStr source_artifact_digest), (''symbol'', JStr (finding_symbol f)),
            (''target_snapshot_id'', JStr target_snapshot_id)]
      in bindR (claim_id X (JObj values)) (\<lambda>claim.
         let values = JObj (values @ [(''claim_id'', JStr claim)]) in
         bindR (validate_candidate_body values) (\<lambda>_.
         bindR (envelope_create X ''candidate'' values (JArr [])) (\<lambda>e.
           candidate_new X (env_object_id e) values))))"

definition candidate_from_envelope :: "externals \<Rightarrow> envelope \<Rightarrow> static_candidate result" where
  "candidate_from_envelope X e =
     (if env_kind e \<noteq> ''candidate'' \<or> env_attestations e \<noteq> []
      then Inl (MissionProtocolError ''expected an unattested candidate envelope'')
      else bindR (thaw_json X (JObj (env_body e))) (\<lambda>body.
        if \<not> has_keys body CANDIDATE_FIELDS
        then Inl (MissionProtocolError ''candidate has missing or unknown fields'')
        else bindR (validate_candidate_body body) (\<lambda>_. candidate_new X (env_object_id e) body)))"

section \<open>Leases and candidates are content objects\<close>

lemma in_string_set_eq_True: "in_string_set v names = Inr True \<longleftrightarrow> is_JStr v \<and> jstr v \<in> set names"
  by (cases v) (simp_all add: in_string_set_def)

lemma analysis_lease_body_of_body:
  assumes "validate_lease_body body = Inr ()" and "normal_form body"
  shows "norm_json (analysis_lease_body (analysis_lease_of_body i body)) = body"
proof -
  note v = assms(1)[unfolded validate_lease_body_def positive_budget_def mission_check_defs result_simps]
  from v have k: "has_keys body ANALYSIS_LEASE_FIELDS" by blast
  show ?thesis unfolding analysis_lease_body_def
    by (rule norm_rebuild [OF assms(2) k])
      (use v in \<open>auto simp: ANALYSIS_LEASE_FIELDS_def analysis_lease_of_body_def norm_scalars\<close>)
qed

lemma candidate_body_of_body:
  assumes "validate_candidate_body body = Inr ()" and "normal_form body"
  shows "norm_json (candidate_body (candidate_of_body i body)) = body"
proof -
  note v = assms(1)[unfolded validate_candidate_body_def mission_check_defs list.map append.simps result_simps]
  from v have k: "has_keys body CANDIDATE_FIELDS" by blast
  from v have s: "is_JStr (member ''severity'' body)" by (auto simp: in_string_set_eq_True)
  show ?thesis unfolding candidate_body_def
    by (rule norm_rebuild [OF assms(2) k])
      (use v s in \<open>auto simp: CANDIDATE_FIELDS_def candidate_of_body_def norm_scalars\<close>)
qed

interpretation analysis_lease: content_object analysis_lease_to_envelope analysis_lease_from_envelope al_lease_id
proof unfold_locales
  fix X e l
  assume e: "created_envelope X e" and l: "analysis_lease_from_envelope X e = Inr l"
  then have v: "validate_lease_body (JObj (env_body e)) = Inr ()" and k: "env_kind e = ''analysis_lease''"
    "env_attestations e = []" "l = analysis_lease_of_body (env_object_id e) (JObj (env_body e))"
    by (auto simp: analysis_lease_from_envelope_def analysis_lease_new_def created_thaw Let_def result_simps)
  show "analysis_lease_to_envelope X l = Inr e"
    using rebuild_envelope [OF e k(2) analysis_lease_body_of_body [OF v normal_json_form [OF created_normal [OF e]]]] k
    by (simp add: analysis_lease_to_envelope_def)
qed (auto simp: analysis_lease_from_envelope_def analysis_lease_new_def analysis_lease_of_body_def Let_def result_simps)

interpretation candidate: content_object candidate_to_envelope candidate_from_envelope sc_candidate_id
proof unfold_locales
  fix X e c
  assume e: "created_envelope X e" and c: "candidate_from_envelope X e = Inr c"
  then have v: "validate_candidate_body (JObj (env_body e)) = Inr ()" and k: "env_kind e = ''candidate''"
    "env_attestations e = []" "c = candidate_of_body (env_object_id e) (JObj (env_body e))"
    by (auto simp: candidate_from_envelope_def candidate_new_def created_thaw Let_def result_simps)
  show "candidate_to_envelope X c = Inr e"
    using rebuild_envelope [OF e k(2) candidate_body_of_body [OF v normal_json_form [OF created_normal [OF e]]]] k
    by (simp add: candidate_to_envelope_def)
qed (auto simp: candidate_from_envelope_def candidate_new_def candidate_of_body_def Let_def result_simps)

end
