(* ===== verification/Attested_Wire.thy ===== *)
theory Attested_Wire
  imports Typed_Objects
begin

text \<open>
  The signed wire form that authority grants and verifier receipts share: an object envelope whose only
  attestation is an Ed25519 signature over the bytes of the same envelope without attestations. The locale
  \<open>attested_wire\<close> states what the two modules promise of their readers and writers and proves once that
  this makes a strict codec; grants and receipts interpret it.
\<close>

section \<open>Attestations\<close>

text \<open>A value of an untrusted mapping: bytes, or a JSON value.\<close>

datatype pyval = PBytes bytes | PJson json

fun is_PBytes :: "pyval \<Rightarrow> bool" where
  "is_PBytes (PBytes b) = True"
| "is_PBytes _ = False"

fun pbytes :: "pyval \<Rightarrow> bytes" where
  "pbytes (PBytes b) = b"
| "pbytes _ = []"

fun pjson :: "pyval \<Rightarrow> json" where
  "pjson (PJson v) = v"
| "pjson _ = JNull"

definition attestation_json :: "pystr \<Rightarrow> pystr \<Rightarrow> json" where
  "attestation_json key_id signature_b64 = JObj [
     (''algorithm'', JStr ''ed25519''), (''key_id'', JStr key_id), (''signature_b64'', JStr signature_b64)]"

definition ATTESTATION_FIELDS :: "pystr list" where
  "ATTESTATION_FIELDS = [''algorithm'', ''key_id'', ''signature_b64'']"

lemma norm_attestation: "norm_json (attestation_json k s) = attestation_json k s"
  by (simp add: attestation_json_def less_eq_list_code less_list_code insort_key.simps)

lemma attestation_members [simp]:
  "member ''algorithm'' (attestation_json x y) = JStr ''ed25519''" "member ''key_id'' (attestation_json x y) = JStr x"
  "member ''signature_b64'' (attestation_json x y) = JStr y" "has_keys (attestation_json x y) ATTESTATION_FIELDS"
  by (auto simp: attestation_json_def member_def has_keys_def ATTESTATION_FIELDS_def)

lemma wf_depth_mono:
  "wf_json X (Suc d) v \<Longrightarrow> wf_json X d v"
  "wf_items X (Suc d) xs \<Longrightarrow> wf_items X d xs"
  "wf_members X (Suc d) ms \<Longrightarrow> wf_members X d ms"
proof (induction X d v and X d xs and X d ms rule: wf_json_wf_items_wf_members.induct)
qed auto

lemma thaw_item:
  assumes "thaw_json X (JArr xs) = Inr (JArr xs)" and "x \<in> set xs"
  shows "thaw_json X x = Inr x"
proof -
  from assms(1) have w: "wf_items X (Suc 0) xs" and n: "nodes_items xs < MAX_TOTAL_NODES" and m: "map norm_json xs = xs"
    by (auto simp: thaw_json_eq_Inr norm_items_map)
  have "wf_json X (Suc 0) x" using w assms(2) by (induction xs) auto
  moreover have "nodes x \<le> nodes_items xs" using assms(2) by (induction xs) auto
  moreover have "norm_json x = x" using m assms(2) by (metis map_eq_conv map_ident)
  ultimately show ?thesis using n wf_depth_mono(1) by (simp add: thaw_json_eq_Inr)
qed

lemma created_attestations:
  assumes "created_envelope X e"
  shows "normal_json X (JArr (env_attestations e))"
  using assms by (auto simp: created_envelope_def envelope_create_eq_Inr normal_json_def intro: thaw_json_idem)

section \<open>Interface: attested envelopes\<close>

locale attested_wire =
  fixes X :: externals and kind :: pystr and parse :: "envelope \<Rightarrow> 'g result"
    and new :: "pyval \<Rightarrow> pyval \<Rightarrow> pyval \<Rightarrow> 's result"
    and envelope_of :: "'s \<Rightarrow> bytes" and key_of :: "'s \<Rightarrow> pystr" and signature_of :: "'s \<Rightarrow> pystr"
    and fits :: "bytes \<Rightarrow> bool"
    and to_bytes :: "'s \<Rightarrow> bytes result" and from_bytes :: "bytes \<Rightarrow> 's result"
  assumes new_values: "new e k g = Inr s \<Longrightarrow>
      e = PBytes (envelope_of s) \<and> k = PJson (JStr (key_of s)) \<and> g = PJson (JStr (signature_of s))"
    and to_bytes_iff: "to_bytes s = Inr b \<longleftrightarrow>
      (\<exists>ge g se. envelope_from_bytes X (envelope_of s) = Inr ge \<and> env_kind ge = kind \<and> env_attestations ge = [] \<and>
         parse ge = Inr g \<and>
         envelope_create X kind (JObj (env_body ge)) (JArr [attestation_json (key_of s) (signature_of s)]) = Inr se \<and>
         envelope_to_bytes X se = Inr b \<and> fits b)"
    and from_bytes_iff: "from_bytes b = Inr s \<longleftrightarrow> fits b \<and>
      (\<exists>e att un g ub. envelope_from_bytes X b = Inr e \<and> env_kind e = kind \<and> length (env_attestations e) = 1 \<and>
         thaw_json X (hd (env_attestations e)) = Inr att \<and> has_keys att ATTESTATION_FIELDS \<and>
         member ''algorithm'' att = JStr ''ed25519'' \<and>
         envelope_create X kind (JObj (env_body e)) (JArr []) = Inr un \<and> env_object_id un = env_object_id e \<and>
         parse un = Inr g \<and> envelope_to_bytes X un = Inr ub \<and>
         new (PBytes ub) (PJson (member ''key_id'' att)) (PJson (member ''signature_b64'' att)) = Inr s)"
begin

lemma attested_decode_encode:
  assumes "new (PBytes (envelope_of s)) (PJson (JStr (key_of s))) (PJson (JStr (signature_of s))) = Inr s"
    and "to_bytes s = Inr b"
  shows "from_bytes b = Inr s"
proof -
  let ?att = "attestation_json (key_of s) (signature_of s)"
  from assms(2) obtain ge g se where ge: "envelope_from_bytes X (envelope_of s) = Inr ge"
    and k: "env_kind ge = kind" "env_attestations ge = []" and g: "parse ge = Inr g"
    and se: "envelope_create X kind (JObj (env_body ge)) (JArr [?att]) = Inr se"
    and b: "envelope_to_bytes X se = Inr b" "fits b"
    unfolding to_bytes_iff by blast
  have created: "created_envelope X ge" by (rule env.decode_valid [OF ge])
  have body: "env_body se = env_body ge" and atts: "env_attestations se = [?att]"
    using se created_thaw [OF created] by (auto simp: envelope_create_eq_Inr thaw_json_eq_Inr norm_attestation)
  have create: "envelope_create X kind (JObj (env_body ge)) (JArr []) = Inr ge"
    using created k by (simp add: created_envelope_def)
  have id: "env_object_id ge = env_object_id se"
    using se create body by (auto simp: envelope_create_eq_Inr)
  have "full_digest (env_object_id se)" "dict_ok (JObj (env_body ge))"
    using created id by (simp_all add: created_envelope_def)
  then have dec: "envelope_from_bytes X b = Inr se"
    by (intro envelope_from_bytes_created [OF _ se _ _ b(1)]) (simp_all add: attestation_json_def)
  have att: "thaw_json X ?att = Inr ?att"
    by (rule thaw_item [of X "env_attestations se"])
      (use envelope_create_again [OF se] in \<open>auto simp: envelope_create_eq_Inr atts\<close>)
  have ub: "envelope_to_bytes X ge = Inr (envelope_of s)" by (rule env.encode_decode [OF ge])
  have "env_kind se = kind" using se by (simp add: envelope_create_eq_Inr)
  then show ?thesis unfolding from_bytes_iff
    using assms(1) g b(2) dec atts att body create id ub
    by (intro conjI exI [of _ se] exI [of _ ?att] exI [of _ ge] exI [of _ g] exI [of _ "envelope_of s"]) simp_all
qed

lemma attested_encode_decode:
  assumes "from_bytes b = Inr s"
  shows "to_bytes s = Inr b"
proof -
  let ?att = "attestation_json (key_of s) (signature_of s)"
  from assms obtain e att un g ub where fits: "fits b" and e: "envelope_from_bytes X b = Inr e"
    and k: "env_kind e = kind" "length (env_attestations e) = 1"
    and att: "thaw_json X (hd (env_attestations e)) = Inr att" "has_keys att ATTESTATION_FIELDS"
      "member ''algorithm'' att = JStr ''ed25519''"
    and un: "envelope_create X kind (JObj (env_body e)) (JArr []) = Inr un" "env_object_id un = env_object_id e"
    and g: "parse un = Inr g" and ub: "envelope_to_bytes X un = Inr ub"
    and s: "new (PBytes ub) (PJson (member ''key_id'' att)) (PJson (member ''signature_b64'' att)) = Inr s"
    unfolding from_bytes_iff by blast
  note d = new_values [OF s]
  have created: "created_envelope X e" by (rule env.decode_valid [OF e])
  note nja = created_attestations [OF created]
  obtain a where a: "env_attestations e = [a]" using k(2) by (cases "env_attestations e") auto
  have atts: "env_attestations e = [att]"
    using thaw_item [of X "env_attestations e" a] nja a att(1) by (simp add: normal_json_def)
  then have nfa: "normal_form att" using normal_form_items [OF normal_json_form [OF nja]] by simp
  have "norm_json ?att = att" unfolding attestation_json_def
    by (rule norm_rebuild [OF nfa att(2)]) (use d att(3) in \<open>auto simp: ATTESTATION_FIELDS_def\<close>)
  then have ta: "thaw_json X (JArr [?att]) = Inr (JArr (env_attestations e))"
    using thaw_rebuild [OF nja] atts by simp
  have dec: "envelope_from_bytes X ub = Inr un"
    by (rule envelope_from_bytes_created [OF _ un(1) _ _ ub])
      (use created un(2) in \<open>auto simp: created_envelope_def\<close>)
  have body: "env_body un = env_body e" "env_kind un = kind" "env_attestations un = []"
    using un(1) created_thaw [OF created] by (auto simp: envelope_create_eq_Inr thaw_json_eq_Inr)
  have "envelope_create X kind (JObj (env_body e)) (JArr [?att]) = Inr e"
    using created k(1) ta by (auto simp: created_envelope_def envelope_create_eq_Inr)
  then show ?thesis unfolding to_bytes_iff
    using env.encode_decode [OF e] dec g body d fits
    by (intro exI [of _ un] exI [of _ g] exI [of _ e]) simp
qed

lemma attested_valid:
  assumes "from_bytes b = Inr s"
  shows "new (PBytes (envelope_of s)) (PJson (JStr (key_of s))) (PJson (JStr (signature_of s))) = Inr s"
proof -
  from assms obtain ub k v where s: "new (PBytes ub) (PJson k) (PJson v) = Inr s"
    unfolding from_bytes_iff by blast
  from new_values [OF s] s show ?thesis by simp
qed

end

sublocale attested_wire \<subseteq> strict_codec to_bytes from_bytes
  "\<lambda>s. new (PBytes (envelope_of s)) (PJson (JStr (key_of s))) (PJson (JStr (signature_of s))) = Inr s"
  using attested_decode_encode attested_encode_decode attested_valid by unfold_locales

end
