(* ===== verification/Authority_V1.thy ===== *)
theory Authority_V1
  imports Mission_V1 Attested_Wire
begin

text \<open>
  \<open>src/etzio/authority.py\<close>: authority grants, their detached signatures, the trust store of
  operator keys, the self-verifying admission record and the admission decision. The Ed25519 primitives are
  the external functions of \<open>externals\<close>: point validation (libsodium), loading a public key and
  verifying a signature (\<open>cryptography\<close>).
\<close>

section \<open>Constants\<close>

definition AUTHORITY_OBJECT_KIND :: pystr where "AUTHORITY_OBJECT_KIND = ''authority_grant''"
definition OPERATOR_ROLE :: pystr where "OPERATOR_ROLE = ''operator''"
definition PERMITTED_ACTIONS :: "pystr list" where
  "PERMITTED_ACTIONS = [''static_analysis'', ''modeled_fixture_verification'']"
definition MAX_BYTES_HARD_CEILING :: int where "MAX_BYTES_HARD_CEILING = 2 ^ 30"
definition MAX_CANDIDATES_HARD_CEILING :: int where "MAX_CANDIDATES_HARD_CEILING = 100000"
definition MAX_WALLCLOCK_SECONDS_HARD_CEILING :: int where "MAX_WALLCLOCK_SECONDS_HARD_CEILING = 86400"
definition MAX_AUTHORITY_ENVELOPE_BYTES :: nat where "MAX_AUTHORITY_ENVELOPE_BYTES = 2 ^ 20"
definition MAX_TRUSTED_AUTHORITY_KEYS :: nat where "MAX_TRUSTED_AUTHORITY_KEYS = 64"
definition MAX_AUTHORITY_REVOCATIONS :: nat where "MAX_AUTHORITY_REVOCATIONS = 10000"
definition AUTHORITY_SIGNATURE_DOMAIN :: bytes where
  "AUTHORITY_SIGNATURE_DOMAIN = ''etzio.authority-grant.signature.v1'' @ [CHR 0x00]"

text \<open>
  Ed25519 helpers: \<open>is_valid_ed25519_public_key\<close> of \<open>crypto_v1.py\<close>, and
  \<open>Ed25519PublicKey.from_public_bytes(k).verify(s, m)\<close> not raising.
\<close>

definition is_valid_ed25519_public_key :: "externals \<Rightarrow> bytes \<Rightarrow> bool" where
  "is_valid_ed25519_public_key X k \<longleftrightarrow> length k = 32 \<and> ed25519_valid_point X k"

definition signature_verifies :: "externals \<Rightarrow> bytes \<Rightarrow> bytes \<Rightarrow> bytes \<Rightarrow> bool" where
  "signature_verifies X k s m \<longleftrightarrow> ed25519_loadable X k \<and> ed25519_verify X k s m"

definition authority_key_id :: "externals \<Rightarrow> bytes \<Rightarrow> pystr result" where
  "authority_key_id X k =
     (if length k \<noteq> 32
      then Inl (AuthorityError ''invalid_public_key'' ''Ed25519 public keys must contain exactly 32 bytes'')
      else Inr (''ed25519:sha256:'' @ hex_bytes (sha256 X k)))"

text \<open>A canonical base64 text of an Ed25519 signature.\<close>

definition signature_text :: "pystr \<Rightarrow> bool" where
  "signature_text s \<longleftrightarrow>
     (case b64decode s of None \<Rightarrow> False | Some d \<Rightarrow> length d = 64 \<and> b64encode d = s)"

section \<open>Grants\<close>

record authority_grant =
  ag_grant_id :: digest
  ag_issuer :: pystr
  ag_subject :: pystr
  ag_target_snapshot_id :: digest
  ag_assets :: "pystr list"
  ag_permitted_actions :: "pystr list"
  ag_evidence_digest :: digest
  ag_issued_at :: int
  ag_not_before :: int
  ag_expires_at :: int
  ag_max_bytes :: int
  ag_max_candidates :: int
  ag_max_wallclock_seconds :: int

definition GRANT_BODY_FIELDS :: "pystr list" where
  "GRANT_BODY_FIELDS =
     [''issuer'', ''subject'', ''target_snapshot_id'', ''assets'', ''permitted_actions'', ''evidence_digest'',
      ''issued_at'', ''not_before'', ''expires_at'', ''max_bytes'', ''max_candidates'', ''max_wallclock_seconds'']"

definition grant_text :: "pystr \<Rightarrow> json \<Rightarrow> exn + unit" where
  "grant_text field v = requireR (canonical_text v)
     (AuthorityError (''blank_'' @ field) (field @ '' must be a non-blank canonical string''))"

definition grant_digest :: "pystr \<Rightarrow> json \<Rightarrow> exn + unit" where
  "grant_digest field v = seqR [
     requireR (is_JStr v \<and> jstr v \<noteq> []) (AuthorityError (''blank_'' @ field) (field @ '' must be non-blank'')),
     requireR (full_digest (jstr v)) (AuthorityError (''invalid_'' @ field) (field @ '' must be a full sha256 content ID''))]"

definition grant_time :: "pystr \<Rightarrow> json \<Rightarrow> exn + unit" where
  "grant_time field v = requireR (is_JInt v \<and> 0 \<le> jint v)
     (AuthorityError ''invalid_time'' (field @ '' must be a nonnegative integer epoch second''))"

definition grant_budget :: "pystr \<Rightarrow> int \<Rightarrow> json \<Rightarrow> exn + unit" where
  "grant_budget field ceiling v = seqR [
     requireR (is_JInt v \<and> 0 \<le> jint v) (AuthorityError ''invalid_budget'' (field @ '' must be a nonnegative integer'')),
     requireR (jint v \<le> ceiling)
       (AuthorityError ''budget_exceeds_hard_ceiling'' (field @ '' exceeds the foundation hard ceiling''))]"

text \<open>\<open>_validate_semantics\<close>; the two tuples of the Python values are arrays here.\<close>

definition validate_semantics :: "json \<Rightarrow> exn + unit" where
  "validate_semantics values = seqR [
     requireR (has_keys values GRANT_BODY_FIELDS)
       (AuthorityError ''malformed_grant'' ''authority grant has missing or unknown fields''),
     grant_text ''issuer'' (member ''issuer'' values),
     grant_text ''subject'' (member ''subject'' values),
     grant_digest ''target_snapshot_id'' (member ''target_snapshot_id'' values),
     grant_digest ''evidence_digest'' (member ''evidence_digest'' values),
     requireR (is_JArr (member ''assets'' values) \<and> arr_items (member ''assets'' values) \<noteq> [])
       (AuthorityError ''invalid_assets'' ''assets must be a non-empty tuple''),
     requireR (list_all canonical_text (arr_items (member ''assets'' values)))
       (AuthorityError ''blank_asset'' ''assets must contain non-blank canonical strings''),
     requireR (distinct (jstrs (member ''assets'' values)))
       (AuthorityError ''duplicate_asset'' ''assets must not contain duplicates''),
     requireR (sorted (jstrs (member ''assets'' values)))
       (AuthorityError ''noncanonical_assets'' ''assets must use canonical lexical order''),
     requireR (is_JArr (member ''permitted_actions'' values) \<and> arr_items (member ''permitted_actions'' values) \<noteq> [])
       (AuthorityError ''invalid_actions'' ''permitted_actions must be a non-empty tuple''),
     requireR (list_all canonical_text (arr_items (member ''permitted_actions'' values)))
       (AuthorityError ''blank_action'' ''permitted_actions must contain canonical strings''),
     requireR (distinct (jstrs (member ''permitted_actions'' values)))
       (AuthorityError ''duplicate_action'' ''permitted_actions must not contain duplicates''),
     requireR (sorted (jstrs (member ''permitted_actions'' values)))
       (AuthorityError ''noncanonical_actions'' ''permitted_actions must use canonical lexical order''),
     requireR (set (jstrs (member ''permitted_actions'' values)) \<subseteq> set PERMITTED_ACTIONS)
       (AuthorityError ''unknown_action'' ''permitted_actions contains an unsupported action''),
     grant_time ''issued_at'' (member ''issued_at'' values),
     grant_time ''not_before'' (member ''not_before'' values),
     grant_time ''expires_at'' (member ''expires_at'' values),
     requireR (jint (member ''issued_at'' values) \<le> jint (member ''not_before'' values) \<and>
               jint (member ''not_before'' values) < jint (member ''expires_at'' values))
       (AuthorityError ''invalid_time_window'' ''time ordering must be issued_at <= not_before < expires_at''),
     grant_budget ''max_bytes'' MAX_BYTES_HARD_CEILING (member ''max_bytes'' values),
     grant_budget ''max_candidates'' MAX_CANDIDATES_HARD_CEILING (member ''max_candidates'' values),
     grant_budget ''max_wallclock_seconds'' MAX_WALLCLOCK_SECONDS_HARD_CEILING
       (member ''max_wallclock_seconds'' values)]"

definition grant_body :: "authority_grant \<Rightarrow> json" where
  "grant_body g = JObj [
     (''issuer'', JStr (ag_issuer g)), (''subject'', JStr (ag_subject g)),
     (''target_snapshot_id'', JStr (ag_target_snapshot_id g)), (''assets'', JArr (map JStr (ag_assets g))),
     (''permitted_actions'', JArr (map JStr (ag_permitted_actions g))),
     (''evidence_digest'', JStr (ag_evidence_digest g)), (''issued_at'', JInt (ag_issued_at g)),
     (''not_before'', JInt (ag_not_before g)), (''expires_at'', JInt (ag_expires_at g)),
     (''max_bytes'', JInt (ag_max_bytes g)), (''max_candidates'', JInt (ag_max_candidates g)),
     (''max_wallclock_seconds'', JInt (ag_max_wallclock_seconds g))]"

definition grant_of_body :: "digest \<Rightarrow> json \<Rightarrow> authority_grant" where
  "grant_of_body grant_id values =
     \<lparr>ag_grant_id = grant_id, ag_issuer = jstr (member ''issuer'' values),
      ag_subject = jstr (member ''subject'' values),
      ag_target_snapshot_id = jstr (member ''target_snapshot_id'' values),
      ag_assets = jstrs (member ''assets'' values), ag_permitted_actions = jstrs (member ''permitted_actions'' values),
      ag_evidence_digest = jstr (member ''evidence_digest'' values), ag_issued_at = jint (member ''issued_at'' values),
      ag_not_before = jint (member ''not_before'' values), ag_expires_at = jint (member ''expires_at'' values),
      ag_max_bytes = jint (member ''max_bytes'' values), ag_max_candidates = jint (member ''max_candidates'' values),
      ag_max_wallclock_seconds = jint (member ''max_wallclock_seconds'' values)\<rparr>"

definition grant_envelope :: "externals \<Rightarrow> json \<Rightarrow> envelope result" where
  "grant_envelope X body =
     catchR (envelope_create X AUTHORITY_OBJECT_KIND body (JArr [])) (\<lambda>ex.
       if is_protocol_error ex
       then Inl (AuthorityError ''invalid_grant'' ''grant cannot be represented by protocol v1'') else Inl ex)"

definition grant_new :: "externals \<Rightarrow> digest \<Rightarrow> json \<Rightarrow> authority_grant result" where
  "grant_new X grant_id values =
     bindR (seqR [
       requireR (full_digest grant_id)
         (AuthorityError ''invalid_grant_id'' ''grant_id must be a full sha256 content ID''),
       validate_semantics values]) (\<lambda>_.
     let g = grant_of_body grant_id values in
     bindR (grant_envelope X (grant_body g)) (\<lambda>e.
       if grant_id \<noteq> env_object_id e
       then Inl (AuthorityError ''object_id_mismatch'' ''grant_id does not match canonical grant semantics'')
       else Inr g))"

text \<open>\<open>issue\<close>: the scopes are sorted before they are validated.\<close>

definition grant_issue :: "externals \<Rightarrow> authority_grant \<Rightarrow> authority_grant result" where
  "grant_issue X g =
     (let values = grant_body (g\<lparr>ag_assets := sort (ag_assets g),
                                ag_permitted_actions := sort (ag_permitted_actions g)\<rparr>)
      in bindR (validate_semantics values) (\<lambda>_.
         bindR (grant_envelope X values) (\<lambda>e. grant_new X (env_object_id e) values)))"

definition grant_from_envelope :: "externals \<Rightarrow> envelope \<Rightarrow> authority_grant result" where
  "grant_from_envelope X e =
     (if env_kind e \<noteq> AUTHORITY_OBJECT_KIND
      then Inl (AuthorityError ''wrong_object_kind'' ''envelope is not an authority grant'')
      else if env_attestations e \<noteq> []
      then Inl (AuthorityError ''unexpected_attestations'' ''authority grant envelope attestations must be empty'')
      else bindR (thaw_json X (JObj (env_body e))) (\<lambda>raw_body.
      if \<not> has_keys raw_body GRANT_BODY_FIELDS
      then Inl (AuthorityError ''malformed_grant'' ''authority grant body has missing or unknown fields'')
      else if \<not> is_JArr (member ''assets'' raw_body) \<or> \<not> is_JArr (member ''permitted_actions'' raw_body)
      then Inl (AuthorityError ''malformed_grant'' ''authority grant scopes must be JSON arrays'')
      else bindR (validate_semantics raw_body) (\<lambda>_. grant_new X (env_object_id e) raw_body)))"

definition grant_to_envelope :: "externals \<Rightarrow> authority_grant \<Rightarrow> envelope result" where
  "grant_to_envelope X g =
     bindR (envelope_create X AUTHORITY_OBJECT_KIND (grant_body g) (JArr [])) (\<lambda>e.
       if env_object_id e \<noteq> ag_grant_id g
       then Inl (AuthorityError ''object_id_mismatch'' ''grant_id does not match canonical grant semantics'')
       else Inr e)"

section \<open>Signed grants\<close>

record signed_grant =
  sg_envelope_bytes :: bytes
  sg_key_id :: pystr
  sg_signature_b64 :: pystr

definition signed_grant_new :: "pyval \<Rightarrow> pyval \<Rightarrow> pyval \<Rightarrow> signed_grant result" where
  "signed_grant_new envelope_bytes key_id signature_b64 =
     bindR (seqR [
       requireR (is_PBytes envelope_bytes \<and> pbytes envelope_bytes \<noteq> [])
         (AuthorityError ''malformed_signed_object'' ''envelope_bytes must be non-empty bytes''),
       requireR (length (pbytes envelope_bytes) \<le> MAX_AUTHORITY_ENVELOPE_BYTES)
         (AuthorityError ''authority_envelope_too_large'' ''authority envelope exceeds the fixed byte ceiling''),
       requireR (is_JStr (pjson key_id) \<and> key_id_text (jstr (pjson key_id)))
         (AuthorityError ''malformed_key_id'' ''key_id must be content-derived from an Ed25519 public key''),
       requireR (is_JStr (pjson signature_b64) \<and> codepoints (jstr (pjson signature_b64)) = 88)
         (AuthorityError ''malformed_signature'' ''signature_b64 must be one canonical Ed25519 signature''),
       requireR (signature_text (jstr (pjson signature_b64)))
         (AuthorityError ''malformed_signature'' ''signature_b64 must be one canonical Ed25519 signature'')])
     (\<lambda>_. Inr \<lparr>sg_envelope_bytes = pbytes envelope_bytes, sg_key_id = jstr (pjson key_id),
               sg_signature_b64 = jstr (pjson signature_b64)\<rparr>)"

definition signed_grant_to_envelope :: "externals \<Rightarrow> signed_grant \<Rightarrow> envelope result" where
  "signed_grant_to_envelope X s =
     bindR (catchR (envelope_from_bytes X (sg_envelope_bytes s)) (\<lambda>ex.
       if is_protocol_error ex
       then Inl (AuthorityError ''invalid_envelope'' ''signed grant envelope is invalid'') else Inl ex)) (\<lambda>grant_env.
     if env_kind grant_env \<noteq> AUTHORITY_OBJECT_KIND \<or> env_attestations grant_env \<noteq> []
     then Inl (AuthorityError ''invalid_envelope'' ''signed authority input must contain one unattested grant envelope'')
     else bindR (grant_from_envelope X grant_env) (\<lambda>_.
       envelope_create X AUTHORITY_OBJECT_KIND (JObj (env_body grant_env))
         (JArr [attestation_json (sg_key_id s) (sg_signature_b64 s)])))"

definition signed_grant_to_bytes :: "externals \<Rightarrow> signed_grant \<Rightarrow> bytes result" where
  "signed_grant_to_bytes X s = bindR (signed_grant_to_envelope X s) (envelope_to_bytes X)"

definition signed_grant_from_transport_bytes :: "externals \<Rightarrow> bool \<Rightarrow> bytes \<Rightarrow> signed_grant result" where
  "signed_grant_from_transport_bytes X validate_grant data =
     bindR (catchR (envelope_from_bytes X data) (\<lambda>ex.
       if is_protocol_error ex
       then Inl (AuthorityError ''invalid_envelope'' ''signed authority wire is invalid'') else Inl ex)) (\<lambda>e.
     if env_kind e \<noteq> AUTHORITY_OBJECT_KIND \<or> length (env_attestations e) \<noteq> 1
     then Inl (AuthorityError ''malformed_signed_object''
            ''signed authority wire requires exactly one grant attestation'')
     else bindR (thaw_json X (hd (env_attestations e))) (\<lambda>attestation.
     if \<not> has_keys attestation ATTESTATION_FIELDS
     then Inl (AuthorityError ''malformed_signed_object''
            ''authority signature attestation has missing or unknown fields'')
     else if member ''algorithm'' attestation \<noteq> JStr ''ed25519''
     then Inl (AuthorityError ''malformed_signed_object'' ''unsupported signature algorithm'')
     else bindR (envelope_create X AUTHORITY_OBJECT_KIND (JObj (env_body e)) (JArr [])) (\<lambda>unattested.
     if env_object_id unattested \<noteq> env_object_id e
     then Inl (AuthorityError ''object_id_mismatch'' ''attested grant identity changed'')
     else bindR (if validate_grant then bindR (grant_from_envelope X unattested) (\<lambda>_. Inr ()) else Inr ()) (\<lambda>_.
     bindR (envelope_to_bytes X unattested) (\<lambda>b.
       signed_grant_new (PBytes b) (PJson (member ''key_id'' attestation))
         (PJson (member ''signature_b64'' attestation)))))))"

definition signed_grant_from_bytes :: "externals \<Rightarrow> bytes \<Rightarrow> signed_grant result" where
  "signed_grant_from_bytes X data = signed_grant_from_transport_bytes X True data"

text \<open>\<open>AuthoritySigner.sign\<close>; the private key is represented by the signatures it makes.\<close>

definition authority_sign :: "externals \<Rightarrow> bytes \<Rightarrow> (bytes \<Rightarrow> bytes) \<Rightarrow> authority_grant \<Rightarrow> signed_grant result" where
  "authority_sign X public_key sign g =
     bindR (grant_to_envelope X g) (\<lambda>e.
     bindR (envelope_to_bytes X e) (\<lambda>envelope_bytes.
     bindR (authority_key_id X public_key) (\<lambda>key_id.
       signed_grant_new (PBytes envelope_bytes) (PJson (JStr key_id))
         (PJson (JStr (b64encode (sign (AUTHORITY_SIGNATURE_DOMAIN @ envelope_bytes))))))))"

section \<open>Trust stores\<close>

text \<open>The frozen sets of the source are lists here; only membership and the sorted listing are used.\<close>

definition sorted_set :: "pystr list \<Rightarrow> pystr list" where
  "sorted_set xs = sort (remdups xs)"

record trusted_key =
  tk_public_key_bytes :: bytes
  tk_roles :: "pystr list"
  tk_issuers :: "pystr list"

definition trusted_key_new :: "externals \<Rightarrow> bytes \<Rightarrow> pystr list \<Rightarrow> pystr list \<Rightarrow> trusted_key result" where
  "trusted_key_new X k roles issuers =
     bindR (seqR [
       requireR (is_valid_ed25519_public_key X k)
         (AuthorityError ''invalid_public_key'' ''Ed25519 public keys must be canonical prime-subgroup points''),
       requireR (ed25519_loadable X k) (AuthorityError ''invalid_public_key'' ''invalid Ed25519 public key''),
       requireR (roles \<noteq> []) (AuthorityError ''invalid_roles'' ''trusted keys require an explicit non-empty role set''),
       requireR (list_all (\<lambda>r. canonical_text (JStr r)) roles)
         (AuthorityError ''invalid_roles'' ''roles must be non-blank canonical strings''),
       requireR (issuers \<noteq> [])
         (AuthorityError ''invalid_issuers'' ''trusted keys require an explicit non-empty issuer set''),
       requireR (list_all (\<lambda>r. canonical_text (JStr r)) issuers)
         (AuthorityError ''invalid_issuers'' ''issuers must be non-blank canonical strings'')])
     (\<lambda>_. Inr \<lparr>tk_public_key_bytes = k, tk_roles = roles, tk_issuers = issuers\<rparr>)"

record trust_store =
  ts_keys :: "(pystr \<times> trusted_key) list"
  ts_revoked_key_ids :: "pystr list"
  ts_revoked_grant_ids :: "digest list"

definition trust_store_new ::
  "externals \<Rightarrow> (pystr \<times> trusted_key) list \<Rightarrow> pystr list \<Rightarrow> digest list \<Rightarrow> trust_store result" where
  "trust_store_new X keys revoked_key_ids revoked_grant_ids =
     bindR (seqR (
       map (\<lambda>(key_id, trusted). seqR [
         requireR (key_id_text key_id)
           (AuthorityError ''invalid_trust_store'' ''trust-store key IDs must be content-derived''),
         bindR (authority_key_id X (tk_public_key_bytes trusted)) (\<lambda>expected.
           requireR (key_id = expected)
             (AuthorityError ''invalid_trust_store'' ''trust-store key ID does not match public key''))]) keys @
       [requireR (length keys \<le> MAX_TRUSTED_AUTHORITY_KEYS)
          (AuthorityError ''invalid_trust_store'' ''trust store exceeds the key-count ceiling''),
        requireR (list_all key_id_text revoked_key_ids)
          (AuthorityError ''invalid_trust_store'' ''revocation entry has an invalid identifier''),
        requireR (list_all full_digest revoked_grant_ids)
          (AuthorityError ''invalid_trust_store'' ''revocation entry has an invalid identifier''),
        requireR (length (remdups revoked_key_ids) + length (remdups revoked_grant_ids) \<le> MAX_AUTHORITY_REVOCATIONS)
          (AuthorityError ''invalid_trust_store'' ''trust store exceeds the revocation-count ceiling'')]))
     (\<lambda>_. Inr \<lparr>ts_keys = keys, ts_revoked_key_ids = revoked_key_ids, ts_revoked_grant_ids = revoked_grant_ids\<rparr>)"

fun collect_keys :: "externals \<Rightarrow> (pystr \<times> trusted_key) list \<Rightarrow> trusted_key list \<Rightarrow> (pystr \<times> trusted_key) list result" where
  "collect_keys X keys [] = Inr keys"
| "collect_keys X keys (k # ks) =
     bindR (authority_key_id X (tk_public_key_bytes k)) (\<lambda>key_id.
       if key_id \<in> fst ` set keys then Inl (AuthorityError ''invalid_trust_store'' ''duplicate trusted key'')
       else collect_keys X (keys @ [(key_id, k)]) ks)"

definition trust_store_from_keys :: "externals \<Rightarrow> trusted_key list \<Rightarrow> pystr list \<Rightarrow> digest list \<Rightarrow> trust_store result" where
  "trust_store_from_keys X trusted_keys revoked_key_ids revoked_grant_ids =
     bindR (collect_keys X [] trusted_keys) (\<lambda>keys. trust_store_new X keys revoked_key_ids revoked_grant_ids)"

definition trust_key_json :: "pystr \<times> trusted_key \<Rightarrow> json" where
  "trust_key_json = (\<lambda>(key_id, k). JObj [
     (''issuers'', JArr (map JStr (sorted_set (tk_issuers k)))), (''key_id'', JStr key_id),
     (''public_key_b64'', JStr (b64encode (tk_public_key_bytes k))),
     (''roles'', JArr (map JStr (sorted_set (tk_roles k))))])"

definition trust_snapshot_body :: "trust_store \<Rightarrow> json" where
  "trust_snapshot_body t = JObj [
     (''keys'', JArr (map trust_key_json (sort_key fst (ts_keys t)))),
     (''revoked_grant_ids'', JArr (map JStr (sorted_set (ts_revoked_grant_ids t)))),
     (''revoked_key_ids'', JArr (map JStr (sorted_set (ts_revoked_key_ids t))))]"

section \<open>The trust snapshot of an admission\<close>

fun is_authority_error :: "exn \<Rightarrow> bool" where
  "is_authority_error (AuthorityError r m) = True"
| "is_authority_error _ = False"

abbreviation invalid_admission :: "string \<Rightarrow> exn" where
  "invalid_admission \<equiv> AuthorityError ''invalid_admission''"

definition KEY_ENTRY_FIELDS :: "pystr list" where
  "KEY_ENTRY_FIELDS = [''issuers'', ''key_id'', ''public_key_b64'', ''roles'']"

definition canonical_labels :: "json \<Rightarrow> bool" where
  "canonical_labels v \<longleftrightarrow>
     arr_items v \<noteq> [] \<and> list_all canonical_text (arr_items v) \<and> canonical_order (jstrs v)"

definition validate_key_entry :: "externals \<Rightarrow> json \<Rightarrow> exn + unit" where
  "validate_key_entry X entry = seqR [
     requireR (has_keys entry KEY_ENTRY_FIELDS) (invalid_admission ''trust snapshot key entry is malformed''),
     requireR (is_JArr (member ''roles'' entry) \<and> is_JArr (member ''issuers'' entry))
       (invalid_admission ''trust snapshot roles and issuers must be arrays''),
     (case (if is_JStr (member ''public_key_b64'' entry) then b64decode (jstr (member ''public_key_b64'' entry)) else None) of
        None \<Rightarrow> Inl (invalid_admission ''trust snapshot public key is malformed'')
      | Some public_bytes \<Rightarrow>
          requireR (length public_bytes = 32 \<and> is_valid_ed25519_public_key X public_bytes \<and>
                    JStr (b64encode public_bytes) = member ''public_key_b64'' entry \<and>
                    authority_key_id X public_bytes = Inr (jstr (member ''key_id'' entry)) \<and>
                    is_JStr (member ''key_id'' entry))
            (invalid_admission ''trust snapshot key identity is malformed'')),
     requireR (canonical_labels (member ''roles'' entry)) (invalid_admission ''trust snapshot labels are noncanonical''),
     requireR (canonical_labels (member ''issuers'' entry)) (invalid_admission ''trust snapshot labels are noncanonical'')]"

definition validate_trust_snapshot_body :: "externals \<Rightarrow> json \<Rightarrow> exn + unit" where
  "validate_trust_snapshot_body X body =
     (let keys = member ''keys'' body; revoked_grants = member ''revoked_grant_ids'' body;
          revoked_keys = member ''revoked_key_ids'' body
      in seqR ([
        requireR (has_keys body [''keys'', ''revoked_grant_ids'', ''revoked_key_ids''])
          (invalid_admission ''trust snapshot has missing or unknown fields''),
        requireR (is_JArr keys \<and> is_JArr revoked_grants \<and> is_JArr revoked_keys)
          (invalid_admission ''trust snapshot collections must be arrays''),
        requireR (length (arr_items keys) \<le> MAX_TRUSTED_AUTHORITY_KEYS)
          (invalid_admission ''trust snapshot exceeds the key-count ceiling''),
        requireR (length (arr_items revoked_grants) + length (arr_items revoked_keys) \<le> MAX_AUTHORITY_REVOCATIONS)
          (invalid_admission ''trust snapshot exceeds the revocation ceiling'')] @
        map (validate_key_entry X) (arr_items keys) @
        [requireR (canonical_order (map (\<lambda>entry. jstr (member ''key_id'' entry)) (arr_items keys)))
           (invalid_admission ''trust snapshot keys are noncanonical''),
         requireR (list_all digest_value (arr_items revoked_grants) \<and> canonical_order (jstrs revoked_grants) \<and>
                   list_all (\<lambda>v. is_JStr v \<and> key_id_text (jstr v)) (arr_items revoked_keys) \<and>
                   canonical_order (jstrs revoked_keys))
           (invalid_admission ''trust snapshot revocations are noncanonical'')]))"

section \<open>Admission records\<close>

text \<open>\<open>_required_action_tuple\<close> on an iterable.\<close>

definition required_action_tuple :: "json list \<Rightarrow> pystr list result" where
  "required_action_tuple actions =
     bindR (seqR [
       requireR (list_all (\<lambda>a. is_JStr a \<and> jstr a \<in> set PERMITTED_ACTIONS) actions)
         (AuthorityError ''invalid_required_actions'' ''required_actions contains an unsupported action''),
       requireR (distinct (map jstr actions))
         (AuthorityError ''invalid_required_actions'' ''required_actions must not contain duplicates'')])
     (\<lambda>_. Inr (sort (map jstr actions)))"

record authority_admission =
  aa_admission_id :: digest
  aa_authority_id :: digest
  aa_signer_key_id :: pystr
  aa_target_snapshot_id :: digest
  aa_decision_time :: int
  aa_required_actions :: "pystr list"
  aa_grant_expires_at :: int
  aa_trust_snapshot_id :: digest
  aa_trust_snapshot_bytes :: bytes
  aa_signed_grant_bytes :: bytes

definition ADMISSION_BODY_FIELDS :: "pystr list" where
  "ADMISSION_BODY_FIELDS =
     [''authority_id'', ''decision_time'', ''grant_expires_at'', ''required_actions'', ''signer_key_id'',
      ''signed_grant'', ''target_snapshot_id'', ''trust_snapshot'', ''trust_snapshot_id'']"

definition find_key_entry :: "json \<Rightarrow> pystr \<Rightarrow> json option" where
  "find_key_entry trust key_id = find (\<lambda>entry. member ''key_id'' entry = JStr key_id) (arr_items (member ''keys'' trust))"

definition validate_embedded_signer :: "externals \<Rightarrow> json \<Rightarrow> signed_grant \<Rightarrow> authority_grant \<Rightarrow> exn + unit" where
  "validate_embedded_signer X trust signed grant =
     (case find_key_entry trust (sg_key_id signed) of
        None \<Rightarrow> Inl (invalid_admission ''embedded signer is not trusted for this issuer'')
      | Some entry \<Rightarrow> seqR [
          requireR (JStr OPERATOR_ROLE \<in> set (arr_items (member ''roles'' entry)) \<and>
                    JStr (ag_issuer grant) \<in> set (arr_items (member ''issuers'' entry)))
            (invalid_admission ''embedded signer is not trusted for this issuer''),
          (case (b64decode (jstr (member ''public_key_b64'' entry)), b64decode (sg_signature_b64 signed)) of
             (Some public_key, Some signature) \<Rightarrow>
               requireR (signature_verifies X public_key signature
                           (AUTHORITY_SIGNATURE_DOMAIN @ sg_envelope_bytes signed))
                 (invalid_admission ''embedded grant signature is invalid'')
           | _ \<Rightarrow> Inl (invalid_admission ''embedded grant signature is invalid''))])"

definition validate_historical_admission :: "externals \<Rightarrow> authority_admission \<Rightarrow> json \<Rightarrow> exn + unit" where
  "validate_historical_admission X a trust =
     bindR (catchR (bindR (signed_grant_from_bytes X (aa_signed_grant_bytes a)) (\<lambda>signed.
              bindR (envelope_from_bytes X (sg_envelope_bytes signed)) (\<lambda>e.
              bindR (grant_from_envelope X e) (\<lambda>grant. Inr (signed, grant)))))
            (\<lambda>ex. if is_protocol_error ex \<or> is_authority_error ex
                  then Inl (invalid_admission ''embedded signed grant is invalid'') else Inl ex)) (\<lambda>(signed, grant).
     bindR (signed_grant_to_bytes X signed) (\<lambda>wire. seqR [
       requireR (wire = aa_signed_grant_bytes a) (invalid_admission ''embedded signed grant is noncanonical''),
       requireR (\<not> (sg_key_id signed \<noteq> aa_signer_key_id a \<or> ag_grant_id grant \<noteq> aa_authority_id a \<or>
                    ag_target_snapshot_id grant \<noteq> aa_target_snapshot_id a \<or>
                    ag_expires_at grant \<noteq> aa_grant_expires_at a \<or>
                    aa_decision_time a < ag_not_before grant \<or> aa_decision_time a \<ge> ag_expires_at grant \<or>
                    \<not> set (aa_required_actions a) \<subseteq> set (ag_permitted_actions grant)))
         (invalid_admission ''embedded grant does not satisfy the admission''),
       requireR (\<not> (JStr (sg_key_id signed) \<in> set (arr_items (member ''revoked_key_ids'' trust)) \<or>
                    JStr (ag_grant_id grant) \<in> set (arr_items (member ''revoked_grant_ids'' trust))))
         (invalid_admission ''embedded trust snapshot revokes the admission''),
       validate_embedded_signer X trust signed grant]))"

definition admission_body_with :: "externals \<Rightarrow> authority_admission \<Rightarrow> json \<Rightarrow> json result" where
  "admission_body_with X a trust =
     bindR (strict_loads X (aa_signed_grant_bytes a)) (\<lambda>signed. Inr (JObj [
       (''authority_id'', JStr (aa_authority_id a)), (''decision_time'', JInt (aa_decision_time a)),
       (''grant_expires_at'', JInt (aa_grant_expires_at a)),
       (''required_actions'', JArr (map JStr (aa_required_actions a))),
       (''signer_key_id'', JStr (aa_signer_key_id a)), (''signed_grant'', signed),
       (''target_snapshot_id'', JStr (aa_target_snapshot_id a)), (''trust_snapshot'', trust),
       (''trust_snapshot_id'', JStr (aa_trust_snapshot_id a))]))"

definition admission_body :: "externals \<Rightarrow> authority_admission \<Rightarrow> json result" where
  "admission_body X a =
     bindR (strict_loads X (aa_trust_snapshot_bytes a)) (\<lambda>loaded.
       if \<not> is_JObj loaded then Inl (invalid_admission ''trust snapshot must be a JSON object'')
       else admission_body_with X a loaded)"

definition admission_to_envelope :: "externals \<Rightarrow> authority_admission \<Rightarrow> envelope result" where
  "admission_to_envelope X a =
     bindR (admission_body X a) (\<lambda>body.
     bindR (envelope_create X ''authority_admission'' body (JArr [])) (\<lambda>e.
       if env_object_id e \<noteq> aa_admission_id a
       then Inl (invalid_admission ''admission ID does not match its content'') else Inr e))"

text \<open>
  \<open>__post_init__\<close>: \<open>body\<close> holds the members whose type is still to be checked and
  \<open>actions\<close> the elements of the required-action tuple.
\<close>

definition admission_new ::
  "externals \<Rightarrow> digest \<Rightarrow> json \<Rightarrow> json list \<Rightarrow> bytes \<Rightarrow> bytes \<Rightarrow> authority_admission result" where
  "admission_new X admission_id body actions trust_bytes signed_bytes =
     (let a = \<lparr>aa_admission_id = admission_id, aa_authority_id = jstr (member ''authority_id'' body),
               aa_signer_key_id = jstr (member ''signer_key_id'' body),
               aa_target_snapshot_id = jstr (member ''target_snapshot_id'' body),
               aa_decision_time = jint (member ''decision_time'' body), aa_required_actions = map jstr actions,
               aa_grant_expires_at = jint (member ''grant_expires_at'' body),
               aa_trust_snapshot_id = jstr (member ''trust_snapshot_id'' body),
               aa_trust_snapshot_bytes = trust_bytes, aa_signed_grant_bytes = signed_bytes\<rparr>
      in bindR (seqR [
           requireR (full_digest admission_id) (invalid_admission ''admission_id must be a full sha256 ID''),
           requireR (digest_value (member ''authority_id'' body))
             (invalid_admission ''authority_id must be a full sha256 ID''),
           requireR (digest_value (member ''target_snapshot_id'' body))
             (invalid_admission ''target_snapshot_id must be a full sha256 ID''),
           requireR (digest_value (member ''trust_snapshot_id'' body))
             (invalid_admission ''trust_snapshot_id must be a full sha256 ID''),
           requireR (is_JStr (member ''signer_key_id'' body) \<and> key_id_text (jstr (member ''signer_key_id'' body)))
             (invalid_admission ''signer_key_id is malformed''),
           requireR (is_JInt (member ''decision_time'' body) \<and> 0 \<le> jint (member ''decision_time'' body))
             (invalid_admission ''decision_time must be nonnegative''),
           requireR (is_JInt (member ''grant_expires_at'' body) \<and>
                     jint (member ''decision_time'' body) < jint (member ''grant_expires_at'' body))
             (invalid_admission ''admission must precede grant expiry''),
           bindR (required_action_tuple actions) (\<lambda>required.
             requireR (required = map jstr actions) (invalid_admission ''required actions must use canonical order''))])
         (\<lambda>_. bindR (catchR (strict_loads X trust_bytes) (\<lambda>ex.
                if is_protocol_error ex then Inl (invalid_admission ''trust snapshot bytes are invalid'') else Inl ex))
         (\<lambda>loaded. if \<not> is_JObj loaded then Inl (invalid_admission ''trust snapshot must be a JSON object'') else
         bindR (canonical_dumps X loaded) (\<lambda>again.
         if again \<noteq> trust_bytes then Inl (invalid_admission ''trust snapshot must be a JSON object'') else
         bindR (validate_trust_snapshot_body X loaded) (\<lambda>_.
         bindR (content_id X ''authority_trust_snapshot'' loaded) (\<lambda>trust_id.
         if trust_id \<noteq> aa_trust_snapshot_id a
         then Inl (invalid_admission ''trust snapshot ID does not match its bytes'') else
         bindR (validate_historical_admission X a loaded) (\<lambda>_.
         bindR (admission_body_with X a loaded) (\<lambda>full_body.
         bindR (envelope_create X ''authority_admission'' full_body (JArr [])) (\<lambda>e.
         if env_object_id e \<noteq> admission_id
         then Inl (invalid_admission ''admission ID does not match its content'') else Inr a)))))))))"

definition admission_from_envelope :: "externals \<Rightarrow> envelope \<Rightarrow> authority_admission result" where
  "admission_from_envelope X e =
     (if env_kind e \<noteq> ''authority_admission'' \<or> env_attestations e \<noteq> []
      then Inl (invalid_admission ''expected an unattested authority_admission envelope'')
      else bindR (thaw_json X (JObj (env_body e))) (\<lambda>body.
      if \<not> has_keys body ADMISSION_BODY_FIELDS
      then Inl (invalid_admission ''admission has missing or unknown fields'')
      else if \<not> is_JArr (member ''required_actions'' body) \<or> \<not> is_JObj (member ''trust_snapshot'' body) \<or>
              \<not> is_JObj (member ''signed_grant'' body)
      then Inl (invalid_admission ''admission arrays or objects are malformed'')
      else bindR (canonical_dumps X (member ''trust_snapshot'' body)) (\<lambda>trust_bytes.
      bindR (canonical_dumps X (member ''signed_grant'' body)) (\<lambda>signed_bytes.
        admission_new X (env_object_id e) body (arr_items (member ''required_actions'' body)) trust_bytes signed_bytes))))"

definition admission_issue ::
  "externals \<Rightarrow> authority_grant \<Rightarrow> signed_grant \<Rightarrow> pystr \<Rightarrow> trust_store \<Rightarrow> int \<Rightarrow> json list \<Rightarrow> digest \<Rightarrow>
   authority_admission result" where
  "admission_issue X grant signed signer_key_id trust decision_time required_actions target_snapshot_id =
     bindR (required_action_tuple required_actions) (\<lambda>required.
     let trust_body = trust_snapshot_body trust in
     bindR (canonical_dumps X trust_body) (\<lambda>trust_bytes.
     bindR (content_id X ''authority_trust_snapshot'' trust_body) (\<lambda>trust_id.
     bindR (signed_grant_to_envelope X signed) (\<lambda>signed_env.
     bindR (envelope_to_json X signed_env) (\<lambda>signed_json.
     let body = JObj [
           (''authority_id'', JStr (ag_grant_id grant)), (''decision_time'', JInt decision_time),
           (''grant_expires_at'', JInt (ag_expires_at grant)), (''required_actions'', JArr (map JStr required)),
           (''signer_key_id'', JStr signer_key_id), (''signed_grant'', signed_json),
           (''target_snapshot_id'', JStr target_snapshot_id), (''trust_snapshot'', trust_body),
           (''trust_snapshot_id'', JStr trust_id)]
     in bindR (envelope_create X ''authority_admission'' body (JArr [])) (\<lambda>e.
        bindR (signed_grant_to_bytes X signed) (\<lambda>signed_bytes.
          admission_new X (env_object_id e) body (map JStr required) trust_bytes signed_bytes)))))))"

section \<open>The admission decision\<close>

record admission_decision =
  ad_accepted :: bool
  ad_authority_id :: "digest option"
  ad_reason_code :: pystr
  ad_key_id :: "pystr option"
  ad_grant :: "authority_grant option"
  ad_admission :: "authority_admission option"

definition accepted_decision :: "digest \<Rightarrow> pystr \<Rightarrow> authority_grant \<Rightarrow> authority_admission \<Rightarrow> admission_decision result" where
  "accepted_decision authority_id key_id grant admission =
     bindR (seqR [
       requireR (full_digest authority_id) (AuthorityError ''invalid_decision'' ''accepted decisions require an authority ID''),
       requireR (key_id_text key_id) (AuthorityError ''invalid_decision'' ''accepted decisions require a signer key ID''),
       requireR (ag_grant_id grant = authority_id)
         (AuthorityError ''invalid_decision'' ''admitted grant and authority ID differ''),
       requireR (aa_authority_id admission = authority_id \<and> aa_signer_key_id admission = key_id \<and>
                 aa_target_snapshot_id admission = ag_target_snapshot_id grant \<and>
                 aa_grant_expires_at admission = ag_expires_at grant)
         (AuthorityError ''invalid_decision'' ''admission record and decision differ'')])
     (\<lambda>_. Inr \<lparr>ad_accepted = True, ad_authority_id = Some authority_id, ad_reason_code = ''accepted'',
               ad_key_id = Some key_id, ad_grant = Some grant, ad_admission = Some admission\<rparr>)"

definition refuse :: "pystr \<Rightarrow> admission_decision" where
  "refuse reason = \<lparr>ad_accepted = False, ad_authority_id = None, ad_reason_code = reason, ad_key_id = None,
                    ad_grant = None, ad_admission = None\<rparr>"

text \<open>The untrusted input of an admission.\<close>

datatype raw_signed =
    RawSigned signed_grant
  | RawWire bytes
  | RawMapping "(pystr \<times> pyval) list"
  | RawOther

definition raw_field :: "(pystr \<times> pyval) list \<Rightarrow> pystr \<Rightarrow> pyval" where
  "raw_field raw k = (case map_of raw k of Some v \<Rightarrow> v | None \<Rightarrow> PJson JNull)"

fun parse_signed_object :: "externals \<Rightarrow> raw_signed \<Rightarrow> signed_grant result" where
  "parse_signed_object X (RawSigned s) = Inr s"
| "parse_signed_object X (RawWire b) = signed_grant_from_transport_bytes X False b"
| "parse_signed_object X RawOther =
     Inl (AuthorityError ''unsigned_object'' ''authority input must be a signed object'')"
| "parse_signed_object X (RawMapping raw) =
     (if ''signature_b64'' \<notin> fst ` set raw
      then Inl (AuthorityError ''unsigned_object'' ''authority input has no detached signature'')
      else if fst ` set raw \<noteq> {''envelope_bytes'', ''key_id'', ''signature_b64''}
      then Inl (AuthorityError ''malformed_signed_object'' ''signed authority object has missing or unknown fields'')
      else signed_grant_new (raw_field raw ''envelope_bytes'') (raw_field raw ''key_id'')
             (raw_field raw ''signature_b64''))"

text \<open>\<open>_protocol_reason\<close>\<close>

fun protocol_reason :: "exn \<Rightarrow> pystr" where
  "protocol_reason (ProtocolError code m) =
     (if code \<in> {''object_id_mismatch'', ''noncanonical_envelope''} then code else ''invalid_envelope'')"
| "protocol_reason _ = ''invalid_envelope''"

text \<open>A raised exception that the decision turns into a refusal; any other one escapes.\<close>

definition refuse_on :: "(exn \<Rightarrow> pystr option) \<Rightarrow> 'a result \<Rightarrow> ('a \<Rightarrow> admission_decision result) \<Rightarrow> admission_decision result" where
  "refuse_on reason m f =
     (case m of Inr x \<Rightarrow> f x
      | Inl ex \<Rightarrow> (case reason ex of Some r \<Rightarrow> Inr (refuse r) | None \<Rightarrow> Inl ex))"

fun authority_reason :: "exn \<Rightarrow> pystr option" where
  "authority_reason (AuthorityError r m) = Some r"
| "authority_reason _ = None"

definition grant_reason :: "exn \<Rightarrow> pystr option" where
  "grant_reason ex = (if is_protocol_error ex then Some (protocol_reason ex) else authority_reason ex)"

definition admit_grant ::
  "externals \<Rightarrow> trust_store \<Rightarrow> int \<Rightarrow> digest \<Rightarrow> pystr list \<Rightarrow> signed_grant \<Rightarrow> trusted_key \<Rightarrow> authority_grant \<Rightarrow>
   admission_decision result" where
  "admit_grant X trust decision_time expected_target required signed trusted grant =
     (if ag_grant_id grant \<in> set (ts_revoked_grant_ids trust) then Inr (refuse ''grant_revoked'')
      else if ag_issuer grant \<notin> set (tk_issuers trusted) then Inr (refuse ''issuer_not_allowed'')
      else if decision_time < ag_not_before grant then Inr (refuse ''not_yet_valid'')
      else if decision_time \<ge> ag_expires_at grant then Inr (refuse ''expired'')
      else if ag_target_snapshot_id grant \<noteq> expected_target then Inr (refuse ''target_mismatch'')
      else if \<not> set required \<subseteq> set (ag_permitted_actions grant) then Inr (refuse ''missing_required_action'')
      else bindR (admission_issue X grant signed (sg_key_id signed) trust decision_time (map JStr required) expected_target)
             (\<lambda>admission. accepted_decision (ag_grant_id grant) (sg_key_id signed) grant admission))"

definition admit_signed ::
  "externals \<Rightarrow> trust_store \<Rightarrow> int \<Rightarrow> digest \<Rightarrow> pystr list \<Rightarrow> signed_grant \<Rightarrow> admission_decision result" where
  "admit_signed X trust decision_time expected_target required signed =
     (if sg_key_id signed \<in> set (ts_revoked_key_ids trust) then Inr (refuse ''key_revoked'')
      else case map_of (ts_keys trust) (sg_key_id signed) of
        None \<Rightarrow> Inr (refuse ''unknown_key'')
      | Some trusted \<Rightarrow>
          if OPERATOR_ROLE \<notin> set (tk_roles trusted) then Inr (refuse ''key_missing_operator_role'')
          else (case b64decode (sg_signature_b64 signed) of
            None \<Rightarrow> Inr (refuse ''malformed_signature'')
          | Some signature \<Rightarrow>
              if length signature \<noteq> 64 \<or> b64encode signature \<noteq> sg_signature_b64 signed
              then Inr (refuse ''malformed_signature'')
              else if \<not> signature_verifies X (tk_public_key_bytes trusted) signature
                        (AUTHORITY_SIGNATURE_DOMAIN @ sg_envelope_bytes signed)
              then Inr (refuse ''invalid_signature'')
              else refuse_on grant_reason (envelope_from_bytes X (sg_envelope_bytes signed)) (\<lambda>e.
                refuse_on grant_reason (envelope_to_bytes X e) (\<lambda>again.
                if sg_envelope_bytes signed \<noteq> again then Inr (refuse ''noncanonical_envelope'')
                else refuse_on grant_reason (grant_from_envelope X e) (\<lambda>grant.
                  admit_grant X trust decision_time expected_target required signed trusted grant)))))"

definition admit_authority ::
  "externals \<Rightarrow> raw_signed \<Rightarrow> trust_store \<Rightarrow> json \<Rightarrow> json \<Rightarrow> json list \<Rightarrow> admission_decision result" where
  "admit_authority X raw trust decision_time expected_target required_actions =
     (if \<not> is_JInt decision_time \<or> jint decision_time < 0 then Inr (refuse ''invalid_decision_time'')
      else if \<not> digest_value expected_target then Inr (refuse ''invalid_expected_target'')
      else refuse_on authority_reason (required_action_tuple required_actions) (\<lambda>required.
        refuse_on authority_reason (parse_signed_object X raw) (\<lambda>signed.
          admit_signed X trust (jint decision_time) (jstr expected_target) required signed)))"

section \<open>Grants are content objects\<close>

lemma grant_body_of_body:
  assumes "validate_semantics body = Inr ()" and "normal_form body"
  shows "norm_json (grant_body (grant_of_body i body)) = body"
proof -
  note v = assms(1)[unfolded validate_semantics_def grant_text_def grant_digest_def grant_time_def grant_budget_def
      canonical_text_def [abs_def] result_simps]
  from v have k: "has_keys body GRANT_BODY_FIELDS" by blast
  have lists: "norm_json (JArr (map JStr (jstrs (member ''assets'' body)))) = member ''assets'' body"
    "norm_json (JArr (map JStr (jstrs (member ''permitted_actions'' body)))) = member ''permitted_actions'' body"
    by (rule norm_strs; use v in \<open>auto simp: list_all_iff\<close>)+
  show ?thesis unfolding grant_body_def
    by (rule norm_rebuild [OF assms(2) k])
      (use v in \<open>auto simp: GRANT_BODY_FIELDS_def grant_of_body_def norm_scalars lists simp del: norm_json.simps(1)\<close>)
qed

lemma grant_from_envelopeD:
  assumes "grant_from_envelope X e = Inr g"
  shows "env_kind e = AUTHORITY_OBJECT_KIND" and "env_attestations e = []"
    and "ag_grant_id g = env_object_id e"
    and "\<exists>body. thaw_json X (JObj (env_body e)) = Inr body \<and> validate_semantics body = Inr () \<and>
           g = grant_of_body (env_object_id e) body"
proof -
  note a = assms [unfolded grant_from_envelope_def grant_new_def Let_def if_raise_eq_Inr bindR_eq_Inr seqR_Cons_eq_Inr]
  from a show "env_kind e = AUTHORITY_OBJECT_KIND" "env_attestations e = []" by blast+
  from a show b: "\<exists>body. thaw_json X (JObj (env_body e)) = Inr body \<and> validate_semantics body = Inr () \<and>
           g = grant_of_body (env_object_id e) body" by auto
  then show "ag_grant_id g = env_object_id e" by (auto simp: grant_of_body_def)
qed

interpretation grant: content_object grant_to_envelope grant_from_envelope ag_grant_id
proof unfold_locales
  fix X e g
  assume e: "created_envelope X e" and g: "grant_from_envelope X e = Inr g"
  note d = grant_from_envelopeD [OF g]
  from d(4) created_thaw [OF e] have v: "validate_semantics (JObj (env_body e)) = Inr ()"
    and eq: "g = grant_of_body (env_object_id e) (JObj (env_body e))" by auto
  have "norm_json (grant_body g) = JObj (env_body e)"
    unfolding eq by (rule grant_body_of_body [OF v normal_json_form [OF created_normal [OF e]]])
  from rebuild_envelope [OF e d(2) this] d(1,3) show "grant_to_envelope X g = Inr e"
    by (simp add: grant_to_envelope_def)
qed (rule grant_from_envelopeD(3))

text \<open>Every grant that exists is bounded in scope, time and budget.\<close>

definition grant_wf :: "authority_grant \<Rightarrow> bool" where
  "grant_wf g \<longleftrightarrow>
     full_digest (ag_target_snapshot_id g) \<and> full_digest (ag_evidence_digest g) \<and>
     ag_assets g \<noteq> [] \<and> canonical_order (ag_assets g) \<and>
     ag_permitted_actions g \<noteq> [] \<and> canonical_order (ag_permitted_actions g) \<and>
     set (ag_permitted_actions g) \<subseteq> set PERMITTED_ACTIONS \<and>
     0 \<le> ag_issued_at g \<and> ag_issued_at g \<le> ag_not_before g \<and> ag_not_before g < ag_expires_at g \<and>
     0 \<le> ag_max_bytes g \<and> ag_max_bytes g \<le> MAX_BYTES_HARD_CEILING \<and>
     0 \<le> ag_max_candidates g \<and> ag_max_candidates g \<le> MAX_CANDIDATES_HARD_CEILING \<and>
     0 \<le> ag_max_wallclock_seconds g \<and> ag_max_wallclock_seconds g \<le> MAX_WALLCLOCK_SECONDS_HARD_CEILING"

lemma validate_semantics_wf: "validate_semantics body = Inr () \<Longrightarrow> grant_wf (grant_of_body i body)"
  unfolding validate_semantics_def grant_text_def grant_digest_def grant_time_def grant_budget_def result_simps
    grant_wf_def canonical_order_def
  by (elim conjE) (simp add: grant_of_body_def jstrs_def)

lemma grant_from_envelope_wf: "grant_from_envelope X e = Inr g \<Longrightarrow> grant_wf g"
  using grant_from_envelopeD(4) validate_semantics_wf by blast

section \<open>The signed wire is a strict codec\<close>

definition valid_signed :: "signed_grant \<Rightarrow> bool" where
  "valid_signed s \<longleftrightarrow>
     signed_grant_new (PBytes (sg_envelope_bytes s)) (PJson (JStr (sg_key_id s))) (PJson (JStr (sg_signature_b64 s))) = Inr s"

lemma signed_grant_new_values:
  assumes "signed_grant_new e k g = Inr s"
  shows "e = PBytes (sg_envelope_bytes s) \<and> k = PJson (JStr (sg_key_id s)) \<and> g = PJson (JStr (sg_signature_b64 s))"
proof -
  from assms have "is_PBytes e" "sg_envelope_bytes s = pbytes e" "is_JStr (pjson k)" "is_JStr (pjson g)"
    "sg_key_id s = jstr (pjson k)" "sg_signature_b64 s = jstr (pjson g)"
    by (auto simp: signed_grant_new_def result_simps)
  then show ?thesis by (cases e; cases k; cases g; simp add: norm_scalars)
qed

interpretation signed: attested_wire X AUTHORITY_OBJECT_KIND "grant_from_envelope X" signed_grant_new
  sg_envelope_bytes sg_key_id sg_signature_b64 "\<lambda>_. True" "signed_grant_to_bytes X" "signed_grant_from_bytes X" for X
proof unfold_locales
  show "signed_grant_new e k g = Inr s \<Longrightarrow>
      e = PBytes (sg_envelope_bytes s) \<and> k = PJson (JStr (sg_key_id s)) \<and> g = PJson (JStr (sg_signature_b64 s))" for e k g s
    by (rule signed_grant_new_values)
qed (auto simp: signed_grant_to_bytes_def signed_grant_to_envelope_def signed_grant_from_bytes_def
    signed_grant_from_transport_bytes_def bindR_eq_Inr catchR_def split: sum.splits if_splits)

lemma transport_without_validation:
  "signed_grant_from_bytes X b = Inr s \<Longrightarrow> signed_grant_from_transport_bytes X False b = Inr s"
  by (auto simp: signed_grant_from_bytes_def signed_grant_from_transport_bytes_def bindR_eq_Inr split: if_splits)

section \<open>Admission records verify themselves\<close>

text \<open>
  What an admission record establishes by itself: its embedded signed grant is valid, carries the
  recorded identifiers, covers the decision time and the required actions, is revoked neither by key nor by
  grant in the embedded trust snapshot, and is signed by an operator key that this snapshot trusts for
  the issuer and whose identifier is derived from its bytes.
\<close>

definition admission_supported :: "externals \<Rightarrow> authority_admission \<Rightarrow> authority_grant \<Rightarrow> bool" where
  "admission_supported X a grant \<longleftrightarrow>
     (\<exists>trust signed e entry k s.
        strict_loads X (aa_trust_snapshot_bytes a) = Inr trust \<and>
        content_id X ''authority_trust_snapshot'' trust = Inr (aa_trust_snapshot_id a) \<and>
        signed_grant_from_bytes X (aa_signed_grant_bytes a) = Inr signed \<and>
        envelope_from_bytes X (sg_envelope_bytes signed) = Inr e \<and> grant_from_envelope X e = Inr grant \<and>
        sg_key_id signed = aa_signer_key_id a \<and> ag_grant_id grant = aa_authority_id a \<and>
        ag_target_snapshot_id grant = aa_target_snapshot_id a \<and> ag_expires_at grant = aa_grant_expires_at a \<and>
        ag_not_before grant \<le> aa_decision_time a \<and> aa_decision_time a < ag_expires_at grant \<and>
        set (aa_required_actions a) \<subseteq> set (ag_permitted_actions grant) \<and>
        JStr (aa_signer_key_id a) \<notin> set (arr_items (member ''revoked_key_ids'' trust)) \<and>
        JStr (aa_authority_id a) \<notin> set (arr_items (member ''revoked_grant_ids'' trust)) \<and>
        entry \<in> set (arr_items (member ''keys'' trust)) \<and>
        JStr OPERATOR_ROLE \<in> set (arr_items (member ''roles'' entry)) \<and>
        JStr (ag_issuer grant) \<in> set (arr_items (member ''issuers'' entry)) \<and>
        b64decode (jstr (member ''public_key_b64'' entry)) = Some k \<and>
        is_valid_ed25519_public_key X k \<and> authority_key_id X k = Inr (aa_signer_key_id a) \<and>
        b64decode (sg_signature_b64 signed) = Some s \<and>
        signature_verifies X k s (AUTHORITY_SIGNATURE_DOMAIN @ sg_envelope_bytes signed))"

lemma validate_key_entryD:
  assumes "validate_key_entry X entry = Inr ()"
  obtains k where "b64decode (jstr (member ''public_key_b64'' entry)) = Some k"
    and "is_valid_ed25519_public_key X k" and "authority_key_id X k = Inr (jstr (member ''key_id'' entry))"
  using assms unfolding validate_key_entry_def result_simps
  by (auto simp: result_simps split: option.splits if_splits)

lemma validate_trust_snapshot_bodyD:
  assumes "validate_trust_snapshot_body X trust = Inr ()" and "entry \<in> set (arr_items (member ''keys'' trust))"
  shows "validate_key_entry X entry = Inr ()"
  using assms unfolding validate_trust_snapshot_body_def Let_def seqR_eq_Inr by simp

lemma find_key_entryD:
  "find_key_entry trust i = Some entry \<Longrightarrow> entry \<in> set (arr_items (member ''keys'' trust)) \<and> member ''key_id'' entry = JStr i"
  by (auto simp: find_key_entry_def find_Some_iff)

lemma validate_embedded_signerD:
  assumes "validate_embedded_signer X trust signed grant = Inr ()"
  obtains entry where "find_key_entry trust (sg_key_id signed) = Some entry"
    and "JStr OPERATOR_ROLE \<in> set (arr_items (member ''roles'' entry))"
    and "JStr (ag_issuer grant) \<in> set (arr_items (member ''issuers'' entry))"
    and "\<And>k. b64decode (jstr (member ''public_key_b64'' entry)) = Some k \<Longrightarrow>
           \<exists>s. b64decode (sg_signature_b64 signed) = Some s \<and>
               signature_verifies X k s (AUTHORITY_SIGNATURE_DOMAIN @ sg_envelope_bytes signed)"
proof (cases "find_key_entry trust (sg_key_id signed)")
  case (Some entry)
  with assms have r: "JStr OPERATOR_ROLE \<in> set (arr_items (member ''roles'' entry))"
    "JStr (ag_issuer grant) \<in> set (arr_items (member ''issuers'' entry))"
    by (simp_all add: validate_embedded_signer_def bindR_eq_Inr requireR_eq_Inr)
  have "\<exists>s. b64decode (sg_signature_b64 signed) = Some s \<and>
         signature_verifies X k s (AUTHORITY_SIGNATURE_DOMAIN @ sg_envelope_bytes signed)"
    if "b64decode (jstr (member ''public_key_b64'' entry)) = Some k" for k
    using assms Some that r
    by (cases "b64decode (sg_signature_b64 signed)") (auto simp: validate_embedded_signer_def bindR_eq_Inr requireR_def split: if_splits)
  with Some r that show thesis by blast
qed (use assms in \<open>simp add: validate_embedded_signer_def\<close>)

lemma validate_historical_admissionD:
  assumes "validate_historical_admission X a trust = Inr ()" and "validate_trust_snapshot_body X trust = Inr ()"
    and "strict_loads X (aa_trust_snapshot_bytes a) = Inr trust"
    and "content_id X ''authority_trust_snapshot'' trust = Inr (aa_trust_snapshot_id a)"
  shows "\<exists>grant. admission_supported X a grant"
proof -
  from assms(1) obtain signed e grant wire where
    parts: "signed_grant_from_bytes X (aa_signed_grant_bytes a) = Inr signed"
      "envelope_from_bytes X (sg_envelope_bytes signed) = Inr e" "grant_from_envelope X e = Inr grant"
    and eqs: "\<not> (sg_key_id signed \<noteq> aa_signer_key_id a \<or> ag_grant_id grant \<noteq> aa_authority_id a \<or>
          ag_target_snapshot_id grant \<noteq> aa_target_snapshot_id a \<or> ag_expires_at grant \<noteq> aa_grant_expires_at a \<or>
          aa_decision_time a < ag_not_before grant \<or> aa_decision_time a \<ge> ag_expires_at grant \<or>
          \<not> set (aa_required_actions a) \<subseteq> set (ag_permitted_actions grant))"
    and rev: "\<not> (JStr (sg_key_id signed) \<in> set (arr_items (member ''revoked_key_ids'' trust)) \<or>
          JStr (ag_grant_id grant) \<in> set (arr_items (member ''revoked_grant_ids'' trust)))"
    and signer: "validate_embedded_signer X trust signed grant = Inr ()"
    unfolding validate_historical_admission_def
    by (auto simp: bindR_eq_Inr catchR_def requireR_eq_Inr split: sum.splits if_splits)
  from signer obtain entry where entry: "find_key_entry trust (sg_key_id signed) = Some entry"
    and roles: "JStr OPERATOR_ROLE \<in> set (arr_items (member ''roles'' entry))"
      "JStr (ag_issuer grant) \<in> set (arr_items (member ''issuers'' entry))"
    and sig: "\<And>k. b64decode (jstr (member ''public_key_b64'' entry)) = Some k \<Longrightarrow>
           \<exists>s. b64decode (sg_signature_b64 signed) = Some s \<and>
               signature_verifies X k s (AUTHORITY_SIGNATURE_DOMAIN @ sg_envelope_bytes signed)"
    by (rule validate_embedded_signerD) blast
  note f = find_key_entryD [OF entry]
  then have "validate_key_entry X entry = Inr ()" using validate_trust_snapshot_bodyD [OF assms(2)] by blast
  then obtain k where k: "b64decode (jstr (member ''public_key_b64'' entry)) = Some k"
    "is_valid_ed25519_public_key X k" "authority_key_id X k = Inr (jstr (member ''key_id'' entry))"
    by (rule validate_key_entryD)
  from sig [OF k(1)] obtain s where "b64decode (sg_signature_b64 signed) = Some s"
    "signature_verifies X k s (AUTHORITY_SIGNATURE_DOMAIN @ sg_envelope_bytes signed)" by blast
  with k f parts eqs rev roles assms(3,4) show ?thesis unfolding admission_supported_def
    by (intro exI [of _ grant] exI [of _ trust] exI [of _ signed] exI [of _ e] exI [of _ entry] exI [of _ k] exI [of _ s])
      (simp add: not_le not_less)
qed

lemma admission_newD:
  assumes "admission_new X i body actions trust_bytes signed_bytes = Inr a"
  shows "\<exists>grant. admission_supported X a grant" and "0 \<le> aa_decision_time a"
    and "set (aa_required_actions a) \<subseteq> set PERMITTED_ACTIONS" and "aa_admission_id a = i"
    and "a = \<lparr>aa_admission_id = i, aa_authority_id = jstr (member ''authority_id'' body),
               aa_signer_key_id = jstr (member ''signer_key_id'' body),
               aa_target_snapshot_id = jstr (member ''target_snapshot_id'' body),
               aa_decision_time = jint (member ''decision_time'' body), aa_required_actions = map jstr actions,
               aa_grant_expires_at = jint (member ''grant_expires_at'' body),
               aa_trust_snapshot_id = jstr (member ''trust_snapshot_id'' body),
               aa_trust_snapshot_bytes = trust_bytes, aa_signed_grant_bytes = signed_bytes\<rparr>"
    and "list_all is_JStr actions"
    and "is_JStr (member ''authority_id'' body)" and "is_JStr (member ''signer_key_id'' body)"
    and "is_JStr (member ''target_snapshot_id'' body)" and "is_JInt (member ''decision_time'' body)"
    and "is_JInt (member ''grant_expires_at'' body)" and "is_JStr (member ''trust_snapshot_id'' body)"
proof -
  note u = assms [unfolded admission_new_def Let_def digest_value_def required_action_tuple_def
      bindR_eq_Inr if_raise_eq_Inr seqR_Cons_eq_Inr requireR_eq_Inr]
  from u show eq: "a = \<lparr>aa_admission_id = i, aa_authority_id = jstr (member ''authority_id'' body),
               aa_signer_key_id = jstr (member ''signer_key_id'' body),
               aa_target_snapshot_id = jstr (member ''target_snapshot_id'' body),
               aa_decision_time = jint (member ''decision_time'' body), aa_required_actions = map jstr actions,
               aa_grant_expires_at = jint (member ''grant_expires_at'' body),
               aa_trust_snapshot_id = jstr (member ''trust_snapshot_id'' body),
               aa_trust_snapshot_bytes = trust_bytes, aa_signed_grant_bytes = signed_bytes\<rparr>"
    by (elim exE conjE) simp
  from u show "is_JStr (member ''authority_id'' body)" "is_JStr (member ''signer_key_id'' body)"
    "is_JStr (member ''target_snapshot_id'' body)" "is_JInt (member ''decision_time'' body)"
    "is_JInt (member ''grant_expires_at'' body)" "is_JStr (member ''trust_snapshot_id'' body)" by blast+
  from u have "list_all (\<lambda>x. is_JStr x \<and> jstr x \<in> set PERMITTED_ACTIONS) actions" by blast
  then show "list_all is_JStr actions" "set (aa_required_actions a) \<subseteq> set PERMITTED_ACTIONS"
    unfolding eq by (auto simp: list_all_iff)
  from u show "0 \<le> aa_decision_time a" unfolding eq by simp
  show "aa_admission_id a = i" unfolding eq by simp
  from u obtain loaded where "strict_loads X trust_bytes = Inr loaded"
    "validate_trust_snapshot_body X loaded = Inr ()"
    "content_id X ''authority_trust_snapshot'' loaded = Inr (aa_trust_snapshot_id a)"
    "validate_historical_admission X a loaded = Inr ()"
    unfolding eq by (elim exE conjE) (auto simp: catchR_def split: sum.splits if_splits)
  then show "\<exists>grant. admission_supported X a grant"
    using validate_historical_admissionD [of X a loaded] by (auto simp: eq)
qed

lemma loads_dumps_normal_form:
  assumes "normal_form v" and "canonical_dumps X v = Inr b"
  shows "strict_loads X b = Inr v"
  using canonical_roundtrip [OF _ assms(2)] assms by (auto simp: normal_form_def canonical_dumps_eq_Inr thaw_json_eq_Inr)

lemma admission_from_envelopeD:
  assumes "admission_from_envelope X e = Inr a"
  obtains body where "thaw_json X (JObj (env_body e)) = Inr body" and "has_keys body ADMISSION_BODY_FIELDS"
    and "is_JArr (member ''required_actions'' body)" and "is_JObj (member ''trust_snapshot'' body)"
    and "canonical_dumps X (member ''trust_snapshot'' body) = Inr (aa_trust_snapshot_bytes a)"
    and "canonical_dumps X (member ''signed_grant'' body) = Inr (aa_signed_grant_bytes a)"
    and "env_kind e = ''authority_admission''" and "env_attestations e = []"
    and "admission_new X (env_object_id e) body (arr_items (member ''required_actions'' body))
           (aa_trust_snapshot_bytes a) (aa_signed_grant_bytes a) = Inr a"
proof -
  from assms obtain body tb sb where b: "thaw_json X (JObj (env_body e)) = Inr body" "has_keys body ADMISSION_BODY_FIELDS"
    "is_JArr (member ''required_actions'' body)" "is_JObj (member ''trust_snapshot'' body)"
    "canonical_dumps X (member ''trust_snapshot'' body) = Inr tb"
    "canonical_dumps X (member ''signed_grant'' body) = Inr sb"
    "env_kind e = ''authority_admission''" "env_attestations e = []"
    and n: "admission_new X (env_object_id e) body (arr_items (member ''required_actions'' body)) tb sb = Inr a"
    unfolding admission_from_envelope_def if_raise_eq_Inr bindR_eq_Inr by blast
  from admission_newD(5) [OF n] have "tb = aa_trust_snapshot_bytes a" "sb = aa_signed_grant_bytes a" by simp_all
  with b n that show thesis by blast
qed

lemma admission_body_of_envelope:
  assumes a: "admission_from_envelope X e = Inr a" and e: "created_envelope X e"
  obtains body where "admission_body X a = Inr body" and "norm_json body = JObj (env_body e)"
proof -
  from a obtain raw where t: "thaw_json X (JObj (env_body e)) = Inr raw" and k: "has_keys raw ADMISSION_BODY_FIELDS"
    and arr: "is_JArr (member ''required_actions'' raw)" and obj: "is_JObj (member ''trust_snapshot'' raw)"
    and tb: "canonical_dumps X (member ''trust_snapshot'' raw) = Inr (aa_trust_snapshot_bytes a)"
    and sb: "canonical_dumps X (member ''signed_grant'' raw) = Inr (aa_signed_grant_bytes a)"
    and n: "admission_new X (env_object_id e) raw (arr_items (member ''required_actions'' raw))
           (aa_trust_snapshot_bytes a) (aa_signed_grant_bytes a) = Inr a"
    by (rule admission_from_envelopeD)
  have raw: "raw = JObj (env_body e)" using t created_thaw [OF e] by simp
  then have nf: "normal_form raw" using normal_json_form [OF created_normal [OF e]] by simp
  note m = normal_form_member [OF nf]
  note d = admission_newD [OF n]
  have acts: "norm_json (JArr (map JStr (jstrs (member ''required_actions'' raw)))) = member ''required_actions'' raw"
    by (rule norm_strs [OF arr d(6)])
  have trust: "norm_json (member ''trust_snapshot'' raw) = member ''trust_snapshot'' raw"
    "norm_json (member ''signed_grant'' raw) = member ''signed_grant'' raw"
    using m by (simp_all add: normal_form_def)
  have fields: "aa_authority_id a = jstr (member ''authority_id'' raw)" "aa_decision_time a = jint (member ''decision_time'' raw)"
    "aa_grant_expires_at a = jint (member ''grant_expires_at'' raw)"
    "aa_required_actions a = jstrs (member ''required_actions'' raw)"
    "aa_signer_key_id a = jstr (member ''signer_key_id'' raw)"
    "aa_target_snapshot_id a = jstr (member ''target_snapshot_id'' raw)"
    "aa_trust_snapshot_id a = jstr (member ''trust_snapshot_id'' raw)"
    by (subst d(5), simp add: jstrs_def)+
  let ?body = "JObj [
       (''authority_id'', JStr (aa_authority_id a)), (''decision_time'', JInt (aa_decision_time a)),
       (''grant_expires_at'', JInt (aa_grant_expires_at a)),
       (''required_actions'', JArr (map JStr (aa_required_actions a))),
       (''signer_key_id'', JStr (aa_signer_key_id a)), (''signed_grant'', member ''signed_grant'' raw),
       (''target_snapshot_id'', JStr (aa_target_snapshot_id a)), (''trust_snapshot'', member ''trust_snapshot'' raw),
       (''trust_snapshot_id'', JStr (aa_trust_snapshot_id a))]"
  have "admission_body X a = Inr ?body"
    using loads_dumps_normal_form [OF m tb] loads_dumps_normal_form [OF m sb] obj
    by (simp add: admission_body_def admission_body_with_def)
  moreover have "norm_json ?body = raw"
    by (rule norm_rebuild [OF nf k])
      (use d(7-12) acts trust in \<open>auto simp: ADMISSION_BODY_FIELDS_def norm_scalars fields simp del: norm_json.simps(1,2)\<close>)
  ultimately show thesis using that raw by simp
qed

interpretation admission: content_object admission_to_envelope admission_from_envelope aa_admission_id
proof unfold_locales
  fix X e a
  assume e: "created_envelope X e" and a: "admission_from_envelope X e = Inr a"
  from a have k: "env_kind e = ''authority_admission''" "env_attestations e = []" "aa_admission_id a = env_object_id e"
    by (rule admission_from_envelopeD; use admission_newD(4) in blast)+
  obtain body where b: "admission_body X a = Inr body" "norm_json body = JObj (env_body e)"
    by (rule admission_body_of_envelope [OF a e])
  from rebuild_envelope [OF e k(2) b(2)] k b(1) show "admission_to_envelope X a = Inr e"
    by (simp add: admission_to_envelope_def)
next
  fix X e a
  assume "admission_from_envelope X e = Inr a"
  then show "aa_admission_id a = env_object_id e"
    by (rule admission_from_envelopeD) (rule admission_newD(4))
qed

section \<open>Properties of the admission decision\<close>

lemma refuse_on_accepted:
  assumes "refuse_on reason m f = Inr d" and "ad_accepted d"
  obtains x where "m = Inr x" and "f x = Inr d"
  using assms by (auto simp: refuse_on_def refuse_def split: sum.splits option.splits)

lemma admit_grant_accepted:
  assumes "admit_grant X trust t target required signed key grant = Inr d" and "ad_accepted d"
  shows "ag_grant_id grant \<notin> set (ts_revoked_grant_ids trust)" and "ag_issuer grant \<in> set (tk_issuers key)"
    and "ag_not_before grant \<le> t" and "t < ag_expires_at grant" and "ag_target_snapshot_id grant = target"
    and "set required \<subseteq> set (ag_permitted_actions grant)"
    and "\<exists>a. d = \<lparr>ad_accepted = True, ad_authority_id = Some (ag_grant_id grant), ad_reason_code = ''accepted'',
               ad_key_id = Some (sg_key_id signed), ad_grant = Some grant, ad_admission = Some a\<rparr> \<and>
             admission_issue X grant signed (sg_key_id signed) trust t (map JStr required) target = Inr a"
  using assms by (auto simp: admit_grant_def accepted_decision_def refuse_def result_simps split: if_splits)

lemma admission_issue_supported:
  "admission_issue X grant signed k trust t required target = Inr a \<Longrightarrow> \<exists>g. admission_supported X a g"
  by (auto simp: admission_issue_def Let_def bindR_eq_Inr dest: admission_newD(1))

lemma admit_signed_accepted:
  assumes "admit_signed X trust t target required signed = Inr d" and "ad_accepted d"
  obtains key s e grant where "sg_key_id signed \<notin> set (ts_revoked_key_ids trust)"
    and "map_of (ts_keys trust) (sg_key_id signed) = Some key" and "OPERATOR_ROLE \<in> set (tk_roles key)"
    and "b64decode (sg_signature_b64 signed) = Some s"
    and "signature_verifies X (tk_public_key_bytes key) s (AUTHORITY_SIGNATURE_DOMAIN @ sg_envelope_bytes signed)"
    and "envelope_from_bytes X (sg_envelope_bytes signed) = Inr e" and "grant_from_envelope X e = Inr grant"
    and "admit_grant X trust t target required signed key grant = Inr d"
proof -
  have r: "\<not> ad_accepted (refuse c)" for c by (simp add: refuse_def)
  from assms r obtain key s where k: "sg_key_id signed \<notin> set (ts_revoked_key_ids trust)"
    "map_of (ts_keys trust) (sg_key_id signed) = Some key" "OPERATOR_ROLE \<in> set (tk_roles key)"
    "b64decode (sg_signature_b64 signed) = Some s"
    "signature_verifies X (tk_public_key_bytes key) s (AUTHORITY_SIGNATURE_DOMAIN @ sg_envelope_bytes signed)"
    and rest: "refuse_on grant_reason (envelope_from_bytes X (sg_envelope_bytes signed)) (\<lambda>e.
        refuse_on grant_reason (envelope_to_bytes X e) (\<lambda>again.
        if sg_envelope_bytes signed \<noteq> again then Inr (refuse ''noncanonical_envelope'')
        else refuse_on grant_reason (grant_from_envelope X e) (\<lambda>grant.
          admit_grant X trust t target required signed key grant))) = Inr d"
    by (auto simp: admit_signed_def split: if_splits option.splits)
  from rest assms(2) obtain e where e: "envelope_from_bytes X (sg_envelope_bytes signed) = Inr e"
    and rest: "refuse_on grant_reason (envelope_to_bytes X e) (\<lambda>again.
        if sg_envelope_bytes signed \<noteq> again then Inr (refuse ''noncanonical_envelope'')
        else refuse_on grant_reason (grant_from_envelope X e) (\<lambda>grant.
          admit_grant X trust t target required signed key grant)) = Inr d" by (rule refuse_on_accepted)
  from rest assms(2) obtain b where "(if sg_envelope_bytes signed \<noteq> b then Inr (refuse ''noncanonical_envelope'')
        else refuse_on grant_reason (grant_from_envelope X e) (\<lambda>grant.
          admit_grant X trust t target required signed key grant)) = Inr d" by (rule refuse_on_accepted)
  with assms(2) r have "refuse_on grant_reason (grant_from_envelope X e) (\<lambda>grant.
          admit_grant X trust t target required signed key grant) = Inr d" by (auto split: if_splits)
  from this assms(2) obtain grant where "grant_from_envelope X e = Inr grant"
    "admit_grant X trust t target required signed key grant = Inr d" by (rule refuse_on_accepted)
  with k e that show thesis by blast
qed

text \<open>
  C10: an accepted decision of \<open>admit_authority\<close> means that every check was passed: the signer key is
  known, unrevoked and has the operator role, its Ed25519 signature verifies over the domain-separated
  envelope bytes, the envelope decodes to a well-formed grant that is unrevoked, issued by an issuer
  this key may speak for, inside its validity window at the decision time, for the expected target, and
  permits every required action; the decision carries this grant and an admission record that verifies
  itself.
\<close>

theorem admit_accepted_sound:
  assumes "admit_authority X raw trust decision_time target required = Inr d" and "ad_accepted d"
  shows "\<exists>signed key s e grant a.
    parse_signed_object X raw = Inr signed \<and>
    sg_key_id signed \<notin> set (ts_revoked_key_ids trust) \<and>
    map_of (ts_keys trust) (sg_key_id signed) = Some key \<and> OPERATOR_ROLE \<in> set (tk_roles key) \<and>
    b64decode (sg_signature_b64 signed) = Some s \<and>
    signature_verifies X (tk_public_key_bytes key) s (AUTHORITY_SIGNATURE_DOMAIN @ sg_envelope_bytes signed) \<and>
    envelope_from_bytes X (sg_envelope_bytes signed) = Inr e \<and> grant_from_envelope X e = Inr grant \<and>
    grant_wf grant \<and> ag_grant_id grant \<notin> set (ts_revoked_grant_ids trust) \<and>
    ag_issuer grant \<in> set (tk_issuers key) \<and>
    ag_not_before grant \<le> jint decision_time \<and> jint decision_time < ag_expires_at grant \<and>
    target = JStr (ag_target_snapshot_id grant) \<and>
    set (map jstr required) \<subseteq> set (ag_permitted_actions grant) \<and>
    d = \<lparr>ad_accepted = True, ad_authority_id = Some (ag_grant_id grant), ad_reason_code = ''accepted'',
         ad_key_id = Some (sg_key_id signed), ad_grant = Some grant, ad_admission = Some a\<rparr> \<and>
    (\<exists>g. admission_supported X a g)"
proof -
  have r: "\<not> ad_accepted (refuse c)" for c by (simp add: refuse_def)
  from assms r have t: "digest_value target"
    and rest: "refuse_on authority_reason (required_action_tuple required) (\<lambda>required.
        refuse_on authority_reason (parse_signed_object X raw) (\<lambda>signed.
          admit_signed X trust (jint decision_time) (jstr target) required signed)) = Inr d"
    by (auto simp: admit_authority_def split: if_splits)
  from rest assms(2) obtain req where req: "required_action_tuple required = Inr req"
    and rest: "refuse_on authority_reason (parse_signed_object X raw) (\<lambda>signed.
          admit_signed X trust (jint decision_time) (jstr target) req signed) = Inr d" by (rule refuse_on_accepted)
  from rest assms(2) obtain signed where s: "parse_signed_object X raw = Inr signed"
    and adm: "admit_signed X trust (jint decision_time) (jstr target) req signed = Inr d" by (rule refuse_on_accepted)
  from adm assms(2) obtain key sg e grant where k: "sg_key_id signed \<notin> set (ts_revoked_key_ids trust)"
    "map_of (ts_keys trust) (sg_key_id signed) = Some key" "OPERATOR_ROLE \<in> set (tk_roles key)"
    "b64decode (sg_signature_b64 signed) = Some sg"
    "signature_verifies X (tk_public_key_bytes key) sg (AUTHORITY_SIGNATURE_DOMAIN @ sg_envelope_bytes signed)"
    "envelope_from_bytes X (sg_envelope_bytes signed) = Inr e" and g: "grant_from_envelope X e = Inr grant"
    and ag: "admit_grant X trust (jint decision_time) (jstr target) req signed key grant = Inr d"
    by (rule admit_signed_accepted)
  note d = admit_grant_accepted [OF ag assms(2)]
  from d(7) obtain a where a: "d = \<lparr>ad_accepted = True, ad_authority_id = Some (ag_grant_id grant),
        ad_reason_code = ''accepted'', ad_key_id = Some (sg_key_id signed), ad_grant = Some grant, ad_admission = Some a\<rparr>"
    and i: "admission_issue X grant signed (sg_key_id signed) trust (jint decision_time) (map JStr req) (jstr target) = Inr a"
    by blast
  have "set req = set (map jstr required)" using req by (auto simp: required_action_tuple_def bindR_eq_Inr)
  moreover have "target = JStr (ag_target_snapshot_id grant)"
    using t d(5) by (simp add: digest_value_def norm_scalars)
  ultimately show ?thesis
    using s k g a d(1-6) grant_from_envelope_wf [OF g] admission_issue_supported [OF i]
    by (intro exI [of _ signed] exI [of _ key] exI [of _ sg] exI [of _ e] exI [of _ grant] exI [of _ a]) simp
qed

text \<open>
  admission does not depend on the representation of the signed grant: the object, its canonical
  signed wire and its raw mapping lead to the same decision, refusals included.
\<close>

theorem admit_representation_independent:
  assumes "valid_signed s" and "signed_grant_to_bytes X s = Inr b"
  shows "admit_authority X (RawWire b) trust t target required = admit_authority X (RawSigned s) trust t target required \<and>
    admit_authority X (RawMapping [(''envelope_bytes'', PBytes (sg_envelope_bytes s)),
        (''key_id'', PJson (JStr (sg_key_id s))), (''signature_b64'', PJson (JStr (sg_signature_b64 s)))])
      trust t target required = admit_authority X (RawSigned s) trust t target required"
proof -
  have "parse_signed_object X (RawWire b) = Inr s"
    using transport_without_validation signed.decode_encode assms by (auto simp: valid_signed_def)
  moreover have "parse_signed_object X (RawMapping [(''envelope_bytes'', PBytes (sg_envelope_bytes s)),
      (''key_id'', PJson (JStr (sg_key_id s))), (''signature_b64'', PJson (JStr (sg_signature_b64 s)))]) = Inr s"
    using assms(1) by (simp add: raw_field_def valid_signed_def)
  ultimately show ?thesis by (simp add: admit_authority_def)
qed

text \<open>
  an admission record that is accepted from the wire verifies itself, and its object is the one its
  canonical bytes name: writing it again gives the bytes it was read from.
\<close>

theorem admission_record_self_verifying:
  assumes "envelope_from_bytes X b = Inr e" and "admission_from_envelope X e = Inr a"
  shows "(\<exists>grant. admission_supported X a grant \<and> grant_wf grant) \<and>
    aa_decision_time a < aa_grant_expires_at a \<and> aa_admission_id a = env_object_id e \<and>
    bindR (admission_to_envelope X a) (envelope_to_bytes X) = Inr b"
proof -
  from assms(2) obtain g where g: "admission_supported X a g"
    by (rule admission_from_envelopeD) (use admission_newD(1) in blast)
  then have "grant_wf g" "aa_decision_time a < aa_grant_expires_at a"
    by (auto simp: admission_supported_def intro: grant_from_envelope_wf)
  then show ?thesis
    using g admission.object_determines_bytes [OF assms] admission.from_env_id [OF assms(2)] by blast
qed

end
