(* ===== verification/Verification_Artifacts.thy ===== *)
theory Verification_Artifacts
  imports Mission_V1
begin

text \<open>
  \<open>src/etzio/verification_artifacts.py\<close>: the record of the artifacts that were resolved for one
  verification lease. Every role has one fixed artifact type, the roles use pairwise distinct
  digests, and the sizes stay below the fixed ceilings.
\<close>

section \<open>Field checks\<close>

definition RESOLUTION_OBJECT_KIND :: pystr where "RESOLUTION_OBJECT_KIND = ''verification_artifact_resolution''"
definition RESOLUTION_PROFILE_V1 :: pystr where "RESOLUTION_PROFILE_V1 = ''modeled_fixture_typed_cas_v1''"
definition TARGET_ARTIFACT_TYPE_V1 :: pystr where "TARGET_ARTIFACT_TYPE_V1 = ''repository_fixture_source''"
definition MAX_RESOLUTION_SINGLE_ARTIFACT_BYTES_V1 :: int where
  "MAX_RESOLUTION_SINGLE_ARTIFACT_BYTES_V1 = 64 * 1024 * 1024"
definition MAX_TYPED_VERIFICATION_INPUT_BYTES_V1 :: int where
  "MAX_TYPED_VERIFICATION_INPUT_BYTES_V1 = 64 * 1024 * 1024"
definition MAX_RESOLUTION_ARTIFACT_BYTES_V1 :: int where
  "MAX_RESOLUTION_ARTIFACT_BYTES_V1 = 128 * 1024 * 1024"
definition MAX_RESOLUTION_ARTIFACTS_PER_ROLE_V1 :: nat where "MAX_RESOLUTION_ARTIFACTS_PER_ROLE_V1 = 256"
definition MAX_RESOLUTION_EPOCH_SECOND_V1 :: int where "MAX_RESOLUTION_EPOCH_SECOND_V1 = 2 ^ 63 - 1"

abbreviation artifact_error :: "string \<Rightarrow> string \<Rightarrow> exn" where
  "artifact_error \<equiv> VerificationArtifactError"

definition artifact_digest_check :: "pystr \<Rightarrow> json \<Rightarrow> exn + unit" where
  "artifact_digest_check name v =
     requireR (digest_value v) (artifact_error (''invalid_'' @ name) (name @ '' must be a full sha256 content ID''))"

definition artifact_size_check :: "json \<Rightarrow> exn + unit" where
  "artifact_size_check v =
     requireR (is_JInt v \<and> 0 \<le> jint v \<and> jint v \<le> MAX_RESOLUTION_SINGLE_ARTIFACT_BYTES_V1)
       (artifact_error ''invalid_artifact_size'' ''artifact size must be a bounded nonnegative integer'')"

definition artifact_relative_path :: "json \<Rightarrow> exn + unit" where
  "artifact_relative_path v = seqR [
     requireR (canonical_text v)
       (artifact_error ''invalid_relative_path'' ''relative_path must be nonempty text without edge whitespace''),
     requireR (relative_path_ok (jstr v))
       (artifact_error ''invalid_relative_path'' ''relative_path must be normalized and relative'')]"

lemmas artifact_check_defs =
  artifact_digest_check_def artifact_size_check_def artifact_relative_path_def digest_value_def canonical_text_def

section \<open>Bindings\<close>

record artifact_binding =
  ab_artifact_digest :: digest
  ab_artifact_type :: pystr
  ab_size :: int

definition BINDING_FIELDS :: "pystr list" where
  "BINDING_FIELDS = [''artifact_digest'', ''artifact_type'', ''size'']"

definition artifact_binding_json :: "artifact_binding \<Rightarrow> json" where
  "artifact_binding_json b = JObj [
     (''artifact_digest'', JStr (ab_artifact_digest b)), (''artifact_type'', JStr (ab_artifact_type b)),
     (''size'', JInt (ab_size b))]"

definition artifact_binding_from_dict :: "json \<Rightarrow> artifact_binding result" where
  "artifact_binding_from_dict v =
     (if \<not> has_keys v BINDING_FIELDS
      then Inl (artifact_error ''malformed_artifact_binding''
             ''verification artifact binding has missing or unknown fields'')
      else bindR (seqR [
        artifact_digest_check ''artifact_digest'' (member ''artifact_digest'' v),
        requireR (is_JStr (member ''artifact_type'' v) \<and>
                  jstr (member ''artifact_type'' v) \<in> set VERIFICATION_ARTIFACT_TYPES_V1)
          (artifact_error ''invalid_artifact_type''
             ''verification artifact type is not in the closed protocol-v1 registry''),
        artifact_size_check (member ''size'' v),
        requireR (jint (member ''size'' v) \<noteq> 0)
          (artifact_error ''invalid_artifact_size'' ''typed verification artifact size must be positive'')])
      (\<lambda>_. Inr \<lparr>ab_artifact_digest = jstr (member ''artifact_digest'' v),
                ab_artifact_type = jstr (member ''artifact_type'' v), ab_size = jint (member ''size'' v)\<rparr>))"

record target_binding =
  tb_artifact_digest :: digest
  tb_artifact_type :: pystr
  tb_relative_path :: pystr
  tb_size :: int

definition TARGET_BINDING_FIELDS :: "pystr list" where
  "TARGET_BINDING_FIELDS = [''artifact_digest'', ''artifact_type'', ''relative_path'', ''size'']"

definition target_binding_json :: "target_binding \<Rightarrow> json" where
  "target_binding_json b = JObj [
     (''artifact_digest'', JStr (tb_artifact_digest b)), (''artifact_type'', JStr (tb_artifact_type b)),
     (''relative_path'', JStr (tb_relative_path b)), (''size'', JInt (tb_size b))]"

definition target_binding_from_dict :: "json \<Rightarrow> target_binding result" where
  "target_binding_from_dict v =
     (if \<not> has_keys v TARGET_BINDING_FIELDS
      then Inl (artifact_error ''malformed_target_artifact_binding''
             ''target artifact binding has missing or unknown fields'')
      else bindR (seqR [
        artifact_digest_check ''artifact_digest'' (member ''artifact_digest'' v),
        requireR (member ''artifact_type'' v = JStr TARGET_ARTIFACT_TYPE_V1)
          (artifact_error ''invalid_target_artifact_type''
             ''target artifacts must use the repository fixture source type''),
        artifact_relative_path (member ''relative_path'' v),
        artifact_size_check (member ''size'' v)])
      (\<lambda>_. Inr \<lparr>tb_artifact_digest = jstr (member ''artifact_digest'' v),
                tb_artifact_type = jstr (member ''artifact_type'' v),
                tb_relative_path = jstr (member ''relative_path'' v), tb_size = jint (member ''size'' v)\<rparr>))"

section \<open>Resolutions\<close>

record artifact_resolution =
  ar_resolution_id :: digest
  ar_authority_id :: digest
  ar_candidate_id :: digest
  ar_effect_oracle_artifact :: artifact_binding
  ar_environment_artifact :: artifact_binding
  ar_evidence_artifacts :: "artifact_binding list"
  ar_mission_id :: digest
  ar_poc_artifact :: artifact_binding
  ar_resolution_profile :: pystr
  ar_resolved_at :: int
  ar_target_artifacts :: "target_binding list"
  ar_target_snapshot_id :: digest
  ar_verification_lease_id :: digest

definition RESOLUTION_BODY_FIELDS_V1 :: "pystr list" where
  "RESOLUTION_BODY_FIELDS_V1 =
     [''authority_id'', ''candidate_id'', ''effect_oracle_artifact'', ''environment_artifact'', ''evidence_artifacts'',
      ''mission_id'', ''poc_artifact'', ''resolution_profile'', ''resolved_at'', ''target_artifacts'',
      ''target_snapshot_id'', ''verification_lease_id'']"

definition typed_input_bytes :: "artifact_resolution \<Rightarrow> int" where
  "typed_input_bytes r =
     ab_size (ar_poc_artifact r) + ab_size (ar_environment_artifact r) + ab_size (ar_effect_oracle_artifact r) +
     sum_list (map ab_size (ar_evidence_artifacts r))"

definition total_bytes :: "artifact_resolution \<Rightarrow> int" where
  "total_bytes r =
     sum_list (map tb_size (ar_target_artifacts r)) +
     ab_size (ar_poc_artifact r) + ab_size (ar_environment_artifact r) + ab_size (ar_effect_oracle_artifact r) +
     sum_list (map ab_size (ar_evidence_artifacts r))"

definition evidence_digests :: "artifact_resolution \<Rightarrow> digest list" where
  "evidence_digests r = map ab_artifact_digest (ar_evidence_artifacts r)"

definition singleton_and_evidence :: "artifact_resolution \<Rightarrow> digest list" where
  "singleton_and_evidence r =
     ab_artifact_digest (ar_poc_artifact r) # ab_artifact_digest (ar_environment_artifact r) #
     ab_artifact_digest (ar_effect_oracle_artifact r) # evidence_digests r"

definition resolution_body :: "artifact_resolution \<Rightarrow> json" where
  "resolution_body r = JObj [
     (''authority_id'', JStr (ar_authority_id r)), (''candidate_id'', JStr (ar_candidate_id r)),
     (''effect_oracle_artifact'', artifact_binding_json (ar_effect_oracle_artifact r)),
     (''environment_artifact'', artifact_binding_json (ar_environment_artifact r)),
     (''evidence_artifacts'', JArr (map artifact_binding_json (ar_evidence_artifacts r))),
     (''mission_id'', JStr (ar_mission_id r)),
     (''poc_artifact'', artifact_binding_json (ar_poc_artifact r)),
     (''resolution_profile'', JStr (ar_resolution_profile r)), (''resolved_at'', JInt (ar_resolved_at r)),
     (''target_artifacts'', JArr (map target_binding_json (ar_target_artifacts r))),
     (''target_snapshot_id'', JStr (ar_target_snapshot_id r)),
     (''verification_lease_id'', JStr (ar_verification_lease_id r))]"

text \<open>
  \<open>_validate_values\<close>. The members whose Python type may differ are passed as they are in the
  body; the bindings are typed already.
\<close>

definition validate_resolution_values :: "json \<Rightarrow> artifact_resolution \<Rightarrow> exn + unit" where
  "validate_resolution_values body r = seqR (
     map (\<lambda>k. artifact_digest_check k (member k body))
       [''authority_id'', ''candidate_id'', ''mission_id'', ''target_snapshot_id'', ''verification_lease_id''] @
     [requireR (member ''resolution_profile'' body = JStr RESOLUTION_PROFILE_V1)
        (artifact_error ''unsupported_resolution_profile'' ''artifact resolution profile is unsupported''),
      requireR (is_JInt (member ''resolved_at'' body) \<and> 0 \<le> jint (member ''resolved_at'' body) \<and>
                jint (member ''resolved_at'' body) \<le> MAX_RESOLUTION_EPOCH_SECOND_V1)
        (artifact_error ''invalid_resolved_at'' ''resolved_at must be a nonnegative int64 epoch second''),
      requireR (ar_target_artifacts r \<noteq> [] \<and> length (ar_target_artifacts r) \<le> MAX_RESOLUTION_ARTIFACTS_PER_ROLE_V1)
        (artifact_error ''invalid_target_artifacts'' ''target_artifacts must be a nonempty tuple of typed bindings''),
      requireR (canonical_order (map tb_relative_path (ar_target_artifacts r)))
        (artifact_error ''noncanonical_target_artifacts'' ''target artifacts must use unique canonical path order''),
      requireR (ar_evidence_artifacts r \<noteq> [] \<and> length (ar_evidence_artifacts r) \<le> MAX_RESOLUTION_ARTIFACTS_PER_ROLE_V1)
        (artifact_error ''invalid_evidence_artifacts'' ''evidence_artifacts must be a nonempty tuple of typed bindings''),
      requireR (canonical_order (evidence_digests r))
        (artifact_error ''noncanonical_evidence_artifacts'' ''evidence artifacts must use unique canonical digest order''),
      requireR (ab_artifact_type (ar_poc_artifact r) = POC_TYPE \<and>
                ab_artifact_type (ar_environment_artifact r) = ENVIRONMENT_TYPE \<and>
                ab_artifact_type (ar_effect_oracle_artifact r) = EFFECT_ORACLE_TYPE)
        (artifact_error ''artifact_role_mismatch'' ''singleton artifact type does not match its fixed role''),
      requireR (list_all (\<lambda>b. ab_artifact_type b = EVIDENCE_TYPE) (ar_evidence_artifacts r))
        (artifact_error ''artifact_role_mismatch'' ''evidence artifact type does not match its fixed role''),
      requireR (distinct (singleton_and_evidence r))
        (artifact_error ''artifact_role_collision'' ''verification artifact roles must use distinct digests''),
      requireR (set (map tb_artifact_digest (ar_target_artifacts r)) \<inter> set (singleton_and_evidence r) = {})
        (artifact_error ''artifact_role_collision''
           ''target and verification artifact roles must use distinct digests''),
      requireR (typed_input_bytes r \<le> MAX_TYPED_VERIFICATION_INPUT_BYTES_V1)
        (artifact_error ''resolution_byte_ceiling_exceeded''
           ''typed verification inputs exceed the fixed protocol-v1 ceiling''),
      requireR (total_bytes r \<le> MAX_RESOLUTION_ARTIFACT_BYTES_V1)
        (artifact_error ''resolution_byte_ceiling_exceeded''
           ''resolved artifact bytes exceed the fixed protocol-v1 ceiling'')])"

text \<open>\<open>except ProtocolError\<close> around the envelope of a resolution.\<close>

definition resolution_envelope :: "externals \<Rightarrow> json \<Rightarrow> envelope result" where
  "resolution_envelope X body =
     catchR (envelope_create X RESOLUTION_OBJECT_KIND body (JArr [])) (\<lambda>ex.
       if is_protocol_error ex
       then Inl (artifact_error ''invalid_resolution'' ''artifact resolution cannot be represented by protocol v1'')
       else Inl ex)"

definition resolution_to_envelope :: "externals \<Rightarrow> artifact_resolution \<Rightarrow> envelope result" where
  "resolution_to_envelope X r =
     bindR (resolution_envelope X (resolution_body r)) (\<lambda>e.
       if env_object_id e \<noteq> ar_resolution_id r
       then Inl (artifact_error ''object_id_mismatch'' ''resolution_id does not match canonical resolution semantics'')
       else Inr e)"

definition resolution_new :: "externals \<Rightarrow> json \<Rightarrow> artifact_resolution \<Rightarrow> artifact_resolution result" where
  "resolution_new X body r =
     bindR (seqR [artifact_digest_check ''resolution_id'' (JStr (ar_resolution_id r)),
                  validate_resolution_values body r]) (\<lambda>_.
     bindR (resolution_envelope X (resolution_body r)) (\<lambda>e.
       if ar_resolution_id r \<noteq> env_object_id e
       then Inl (artifact_error ''object_id_mismatch'' ''resolution_id does not match canonical resolution semantics'')
       else Inr r))"

text \<open>\<open>issue\<close>: the same values with the identifier that their envelope gets.\<close>

definition resolution_issue :: "externals \<Rightarrow> artifact_resolution \<Rightarrow> artifact_resolution result" where
  "resolution_issue X values =
     (let r = values\<lparr>ar_resolution_profile := RESOLUTION_PROFILE_V1\<rparr> in
      bindR (resolution_envelope X (resolution_body r)) (\<lambda>e.
        resolution_new X (resolution_body r) (r\<lparr>ar_resolution_id := env_object_id e\<rparr>)))"

definition resolution_from_envelope :: "externals \<Rightarrow> envelope \<Rightarrow> artifact_resolution result" where
  "resolution_from_envelope X e =
     (if env_kind e \<noteq> RESOLUTION_OBJECT_KIND
      then Inl (artifact_error ''wrong_object_kind'' ''envelope is not a verification artifact resolution'')
      else if env_attestations e \<noteq> []
      then Inl (artifact_error ''unexpected_attestations'' ''artifact resolution attestations must be empty'')
      else bindR (thaw_json X (JObj (env_body e))) (\<lambda>body.
      if \<not> has_keys body RESOLUTION_BODY_FIELDS_V1
      then Inl (artifact_error ''malformed_resolution'' ''artifact resolution body has missing or unknown fields'')
      else if \<not> is_JArr (member ''evidence_artifacts'' body) \<or> \<not> is_JArr (member ''target_artifacts'' body)
      then Inl (artifact_error ''malformed_resolution'' ''artifact resolution collections must be arrays'')
      else bindR (artifact_binding_from_dict (member ''effect_oracle_artifact'' body)) (\<lambda>effect_oracle.
      bindR (artifact_binding_from_dict (member ''environment_artifact'' body)) (\<lambda>environment.
      bindR (mapR artifact_binding_from_dict (arr_items (member ''evidence_artifacts'' body))) (\<lambda>evidence.
      bindR (artifact_binding_from_dict (member ''poc_artifact'' body)) (\<lambda>poc.
      bindR (mapR target_binding_from_dict (arr_items (member ''target_artifacts'' body))) (\<lambda>targets.
      resolution_new X body
        \<lparr>ar_resolution_id = env_object_id e, ar_authority_id = jstr (member ''authority_id'' body),
         ar_candidate_id = jstr (member ''candidate_id'' body), ar_effect_oracle_artifact = effect_oracle,
         ar_environment_artifact = environment, ar_evidence_artifacts = evidence,
         ar_mission_id = jstr (member ''mission_id'' body), ar_poc_artifact = poc,
         ar_resolution_profile = jstr (member ''resolution_profile'' body),
         ar_resolved_at = jint (member ''resolved_at'' body), ar_target_artifacts = targets,
         ar_target_snapshot_id = jstr (member ''target_snapshot_id'' body),
         ar_verification_lease_id = jstr (member ''verification_lease_id'' body)\<rparr>)))))))"

section \<open>Resolutions are content objects\<close>

lemma artifact_binding_rebuild:
  assumes "artifact_binding_from_dict v = Inr b" and "normal_form v"
  shows "norm_json (artifact_binding_json b) = v"
proof -
  note a = assms(1)[unfolded artifact_binding_from_dict_def artifact_check_defs result_simps]
  then have k: "has_keys v BINDING_FIELDS" by blast
  show ?thesis unfolding artifact_binding_json_def
    by (rule norm_rebuild [OF assms(2) k]) (use a in \<open>auto simp: BINDING_FIELDS_def norm_scalars\<close>)
qed

lemma target_binding_rebuild:
  assumes "target_binding_from_dict v = Inr b" and "normal_form v"
  shows "norm_json (target_binding_json b) = v"
proof -
  note a = assms(1)[unfolded target_binding_from_dict_def artifact_check_defs result_simps]
  then have k: "has_keys v TARGET_BINDING_FIELDS" by blast
  show ?thesis unfolding target_binding_json_def
    by (rule norm_rebuild [OF assms(2) k]) (use a in \<open>auto simp: TARGET_BINDING_FIELDS_def norm_scalars\<close>)
qed

lemma norm_array_rebuild:
  assumes "mapR f (arr_items v) = Inr ys" and "is_JArr v" and "normal_form v"
    and "\<And>x y. f x = Inr y \<Longrightarrow> normal_form x \<Longrightarrow> norm_json (g y) = x"
  shows "norm_json (JArr (map g ys)) = v"
proof -
  have "map (\<lambda>y. norm_json (g y)) ys = arr_items v"
    using assms(1) by (rule mapR_map_idem) (use assms(3,4) normal_form_items in blast)
  with assms(2) show ?thesis by (simp add: norm_items_map comp_def is_JArr_iff)
qed

text \<open>What an accepted body says of the resolution that is built from it.\<close>

lemma resolution_from_envelopeD:
  assumes "resolution_from_envelope X e = Inr r" and "created_envelope X e"
  defines "body \<equiv> JObj (env_body e)"
  shows "env_kind e = RESOLUTION_OBJECT_KIND" and "env_attestations e = []"
    and "has_keys body RESOLUTION_BODY_FIELDS_V1"
    and "is_JArr (member ''evidence_artifacts'' body)" and "is_JArr (member ''target_artifacts'' body)"
    and "artifact_binding_from_dict (member ''effect_oracle_artifact'' body) = Inr (ar_effect_oracle_artifact r)"
    and "artifact_binding_from_dict (member ''environment_artifact'' body) = Inr (ar_environment_artifact r)"
    and "mapR artifact_binding_from_dict (arr_items (member ''evidence_artifacts'' body)) = Inr (ar_evidence_artifacts r)"
    and "artifact_binding_from_dict (member ''poc_artifact'' body) = Inr (ar_poc_artifact r)"
    and "mapR target_binding_from_dict (arr_items (member ''target_artifacts'' body)) = Inr (ar_target_artifacts r)"
    and "resolution_new X body r = Inr r" and "ar_resolution_id r = env_object_id e"
    and "JStr (ar_authority_id r) = member ''authority_id'' body"
    and "JStr (ar_candidate_id r) = member ''candidate_id'' body"
    and "JStr (ar_mission_id r) = member ''mission_id'' body"
    and "JStr (ar_resolution_profile r) = member ''resolution_profile'' body"
    and "JInt (ar_resolved_at r) = member ''resolved_at'' body"
    and "JStr (ar_target_snapshot_id r) = member ''target_snapshot_id'' body"
    and "JStr (ar_verification_lease_id r) = member ''verification_lease_id'' body"
proof -
  have t: "thaw_json X body = Inr body" unfolding body_def by (rule created_thaw [OF assms(2)])
  have new: "resolution_new X body s = Inr r \<Longrightarrow> s = r \<and>
     is_JStr (member ''authority_id'' body) \<and> is_JStr (member ''candidate_id'' body) \<and>
     is_JStr (member ''mission_id'' body) \<and> is_JStr (member ''resolution_profile'' body) \<and>
     is_JInt (member ''resolved_at'' body) \<and> is_JStr (member ''target_snapshot_id'' body) \<and>
     is_JStr (member ''verification_lease_id'' body)" for s
    unfolding resolution_new_def validate_resolution_values_def artifact_check_defs list.map append.simps result_simps
    by (elim conjE exE) simp
  note a = assms(1)[unfolded resolution_from_envelope_def body_def [symmetric] t bindR_simps if_raise_eq_Inr bindR_eq_Inr]
  then obtain eo en ev poc tg where
    b: "artifact_binding_from_dict (member ''effect_oracle_artifact'' body) = Inr eo"
      "artifact_binding_from_dict (member ''environment_artifact'' body) = Inr en"
      "mapR artifact_binding_from_dict (arr_items (member ''evidence_artifacts'' body)) = Inr ev"
      "artifact_binding_from_dict (member ''poc_artifact'' body) = Inr poc"
      "mapR target_binding_from_dict (arr_items (member ''target_artifacts'' body)) = Inr tg"
    and r: "resolution_new X body
        \<lparr>ar_resolution_id = env_object_id e, ar_authority_id = jstr (member ''authority_id'' body),
         ar_candidate_id = jstr (member ''candidate_id'' body), ar_effect_oracle_artifact = eo,
         ar_environment_artifact = en, ar_evidence_artifacts = ev,
         ar_mission_id = jstr (member ''mission_id'' body), ar_poc_artifact = poc,
         ar_resolution_profile = jstr (member ''resolution_profile'' body),
         ar_resolved_at = jint (member ''resolved_at'' body), ar_target_artifacts = tg,
         ar_target_snapshot_id = jstr (member ''target_snapshot_id'' body),
         ar_verification_lease_id = jstr (member ''verification_lease_id'' body)\<rparr> = Inr r"
      (is "resolution_new X body ?r = _")
    by blast
  from a show "env_kind e = RESOLUTION_OBJECT_KIND" "env_attestations e = []"
    "has_keys body RESOLUTION_BODY_FIELDS_V1"
    "is_JArr (member ''evidence_artifacts'' body)" "is_JArr (member ''target_artifacts'' body)" by blast+
  note types = new [OF r, THEN conjunct2]
  have e: "r = ?r" by (rule new [OF r, THEN conjunct1, symmetric])
  show "artifact_binding_from_dict (member ''effect_oracle_artifact'' body) = Inr (ar_effect_oracle_artifact r)"
    "artifact_binding_from_dict (member ''environment_artifact'' body) = Inr (ar_environment_artifact r)"
    "mapR artifact_binding_from_dict (arr_items (member ''evidence_artifacts'' body)) = Inr (ar_evidence_artifacts r)"
    "artifact_binding_from_dict (member ''poc_artifact'' body) = Inr (ar_poc_artifact r)"
    "mapR target_binding_from_dict (arr_items (member ''target_artifacts'' body)) = Inr (ar_target_artifacts r)"
    "ar_resolution_id r = env_object_id e" unfolding e using b by simp_all
  show "resolution_new X body r = Inr r" using r e by simp
  show "JStr (ar_authority_id r) = member ''authority_id'' body"
    "JStr (ar_candidate_id r) = member ''candidate_id'' body"
    "JStr (ar_mission_id r) = member ''mission_id'' body"
    "JStr (ar_resolution_profile r) = member ''resolution_profile'' body"
    "JInt (ar_resolved_at r) = member ''resolved_at'' body"
    "JStr (ar_target_snapshot_id r) = member ''target_snapshot_id'' body"
    "JStr (ar_verification_lease_id r) = member ''verification_lease_id'' body"
    unfolding e using types by (simp_all add: norm_scalars)
qed

lemma resolution_body_of_envelope:
  assumes "resolution_from_envelope X e = Inr r" and "created_envelope X e"
  shows "norm_json (resolution_body r) = JObj (env_body e)"
proof -
  note d = resolution_from_envelopeD [OF assms]
  have nf: "normal_form (JObj (env_body e))" by (rule normal_json_form [OF created_normal [OF assms(2)]])
  note m = normal_form_member [OF nf]
  note arrays = norm_array_rebuild [OF d(8) d(4) m artifact_binding_rebuild]
    norm_array_rebuild [OF d(10) d(5) m target_binding_rebuild]
  note singles = d(6,7,9) [THEN artifact_binding_rebuild, OF m]
  show ?thesis unfolding resolution_body_def
    by (rule norm_rebuild [OF nf d(3)])
      (auto simp: RESOLUTION_BODY_FIELDS_V1_def arrays singles d(13-) [symmetric] simp del: norm_json.simps(1,2))
qed

interpretation resolution: content_object resolution_to_envelope resolution_from_envelope ar_resolution_id
proof unfold_locales
  fix X e r
  assume e: "created_envelope X e" and r: "resolution_from_envelope X e = Inr r"
  note d = resolution_from_envelopeD [OF r e]
  show "resolution_to_envelope X r = Inr e"
    using rebuild_envelope [OF e d(2) resolution_body_of_envelope [OF r e]] d(1,12)
    by (simp add: resolution_to_envelope_def resolution_envelope_def)
next
  fix X e r
  assume "resolution_from_envelope X e = Inr r"
  then show "ar_resolution_id r = env_object_id e"
    by (auto simp: resolution_from_envelope_def resolution_new_def result_simps)
qed

end
