(* ===== verification/Verification_V1.thy ===== *)
theory Verification_V1
  imports Authority_V1 Verification_Artifacts
begin

text \<open>
  \<open>src/etzio/verification.py\<close>, first part: verification leases, verifier receipts and signed receipts.
  A lease binds one verifier to one candidate, its predeclared artifacts and a half-open time window; a
  receipt copies every binding of the lease and adds four typed outputs, a verdict and two observations.
\<close>

section \<open>Constants and field checks\<close>

definition LEASE_OBJECT_KIND :: pystr where "LEASE_OBJECT_KIND = ''verification_lease''"
definition RECEIPT_OBJECT_KIND :: pystr where "RECEIPT_OBJECT_KIND = ''verifier_receipt''"
definition LEASE_PURPOSE :: pystr where "LEASE_PURPOSE = ''modeled_fixture_verification''"
definition MODELED_FIXTURE_TIER :: pystr where "MODELED_FIXTURE_TIER = ''modeled_fixture''"
definition VERIFIER_ROLE :: pystr where "VERIFIER_ROLE = ''modeled_fixture_verifier''"
definition VERDICTS :: "pystr list" where
  "VERDICTS = [''confirmed'', ''not_reproduced'', ''inconclusive'', ''invalid'']"
definition MAX_VERIFIER_RECEIPT_ENVELOPE_BYTES :: nat where "MAX_VERIFIER_RECEIPT_ENVELOPE_BYTES = 256 * 1024"
definition MAX_EVIDENCE_ARTIFACTS :: nat where "MAX_EVIDENCE_ARTIFACTS = 256"
definition MAX_TYPED_VERIFICATION_OUTPUT_BYTES_V1 :: int where
  "MAX_TYPED_VERIFICATION_OUTPUT_BYTES_V1 = 64 * 1024 * 1024"
definition MAX_TRUSTED_VERIFIER_KEYS :: nat where "MAX_TRUSTED_VERIFIER_KEYS = 64"
definition MAX_VERIFIER_ROLES :: nat where "MAX_VERIFIER_ROLES = 16"
definition MAX_VERIFIER_REVOCATIONS :: nat where "MAX_VERIFIER_REVOCATIONS = 10000"
definition MAX_EPOCH_SECOND :: int where "MAX_EPOCH_SECOND = 2 ^ 63 - 1"
definition RECEIPT_SIGNATURE_DOMAIN :: bytes where
  "RECEIPT_SIGNATURE_DOMAIN = ''etzio.verifier-receipt.signature.v1'' @ [CHR 0x00]"

definition validate_digest :: "pystr \<Rightarrow> json \<Rightarrow> exn + unit" where
  "validate_digest field v = requireR (digest_value v)
     (VerificationError (''invalid_'' @ field) (field @ '' must be a full sha256 content ID''))"

definition validate_key_id :: "pystr \<Rightarrow> json \<Rightarrow> exn + unit" where
  "validate_key_id field v = requireR (is_JStr v \<and> key_id_text (jstr v))
     (VerificationError (''invalid_'' @ field) (field @ '' must be a content-derived Ed25519 key ID''))"

definition validate_identity :: "pystr \<Rightarrow> json \<Rightarrow> exn + unit" where
  "validate_identity field v = requireR (is_JStr v \<and> identity_text (jstr v))
     (VerificationError (''invalid_'' @ field) (field @ '' must be a canonical identity string''))"

definition validate_evidence_tuple :: "json \<Rightarrow> exn + unit" where
  "validate_evidence_tuple v = seqR [
     requireR (is_JArr v \<and> arr_items v \<noteq> []) (VerificationError ''invalid_evidence_artifact_digests''
       ''evidence_artifact_digests must be a non-empty tuple''),
     requireR (length (arr_items v) \<le> MAX_EVIDENCE_ARTIFACTS) (VerificationError ''too_many_evidence_artifacts''
       ''evidence artifacts exceed the fixed count ceiling''),
     requireR (list_all digest_value (arr_items v)) (VerificationError ''invalid_evidence_artifact_digests''
       ''each evidence artifact must have a full sha256 content ID''),
     requireR (distinct (jstrs v)) (VerificationError ''duplicate_evidence_artifact''
       ''evidence artifact digests must be unique''),
     requireR (sorted (jstrs v)) (VerificationError ''noncanonical_evidence_order''
       ''evidence artifact digests must be sorted'')]"

definition epoch_second :: "json \<Rightarrow> bool" where
  "epoch_second v \<longleftrightarrow> is_JInt v \<and> 0 \<le> jint v \<and> jint v \<le> MAX_EPOCH_SECOND"

definition validate_times :: "json \<Rightarrow> json \<Rightarrow> exn + unit" where
  "validate_times issued_at expires_at = seqR [
     requireR (epoch_second issued_at \<and> epoch_second expires_at) (VerificationError ''invalid_lease_time''
       ''lease times must be nonnegative integer epoch seconds''),
     requireR (jint issued_at < jint expires_at) (VerificationError ''invalid_lease_window''
       ''lease interval must satisfy issued_at < expires_at'')]"

text \<open>\<open>_create_envelope\<close>\<close>

definition create_envelope :: "externals \<Rightarrow> pystr \<Rightarrow> json \<Rightarrow> envelope result" where
  "create_envelope X kind body =
     catchR (envelope_create X kind body (JArr [])) (\<lambda>ex.
       if is_protocol_error ex
       then Inl (VerificationError ''invalid_protocol_value'' ''object cannot be represented by protocol v1'')
       else Inl ex)"

lemmas verification_check_defs =
  validate_digest_def validate_key_id_def validate_identity_def validate_evidence_tuple_def validate_times_def
  digest_value_def epoch_second_def

section \<open>Verification leases\<close>

record verification_lease =
  vl_lease_id :: digest
  vl_lease_nonce :: pystr
  vl_mission_id :: digest
  vl_authority_id :: digest
  vl_target_snapshot_id :: digest
  vl_candidate_id :: digest
  vl_candidate_producer_id :: pystr
  vl_poc_artifact_digest :: digest
  vl_evidence_artifact_digests :: "digest list"
  vl_environment_digest :: digest
  vl_effect_oracle_id :: digest
  vl_verifier_id :: pystr
  vl_verifier_key_id :: pystr
  vl_issuance_trust_snapshot_id :: digest
  vl_issued_at :: int
  vl_expires_at :: int

definition LEASE_VALUE_FIELDS :: "pystr list" where
  "LEASE_VALUE_FIELDS = [
     ''lease_nonce'', ''mission_id'', ''authority_id'', ''target_snapshot_id'', ''candidate_id'',
     ''candidate_producer_id'', ''poc_artifact_digest'', ''evidence_artifact_digests'', ''environment_digest'',
     ''effect_oracle_id'', ''verifier_id'', ''verifier_key_id'', ''issuance_trust_snapshot_id'', ''issued_at'',
     ''expires_at'']"

definition LEASE_BODY_FIELDS :: "pystr list" where
  "LEASE_BODY_FIELDS = ''purpose'' # LEASE_VALUE_FIELDS"

definition validate_vlease_values :: "json \<Rightarrow> exn + unit" where
  "validate_vlease_values values = seqR (
     [requireR (has_keys values LEASE_VALUE_FIELDS)
        (VerificationError ''malformed_lease'' ''lease has missing or unknown fields''),
      requireR (is_JStr (member ''lease_nonce'' values) \<and> nonce_text (jstr (member ''lease_nonce'' values)))
        (VerificationError ''invalid_lease_nonce'' ''lease_nonce must be 128 bits of lowercase hexadecimal'')] @
     map (\<lambda>k. validate_digest k (member k values))
       [''mission_id'', ''authority_id'', ''target_snapshot_id'', ''candidate_id'', ''poc_artifact_digest'',
        ''environment_digest'', ''effect_oracle_id'', ''issuance_trust_snapshot_id''] @
     [validate_identity ''candidate_producer_id'' (member ''candidate_producer_id'' values),
      validate_identity ''verifier_id'' (member ''verifier_id'' values),
      validate_key_id ''verifier_key_id'' (member ''verifier_key_id'' values),
      validate_evidence_tuple (member ''evidence_artifact_digests'' values),
      requireR (distinct (jstr (member ''poc_artifact_digest'' values) #
                  jstrs (member ''evidence_artifact_digests'' values) @
                  [jstr (member ''environment_digest'' values), jstr (member ''effect_oracle_id'' values)]))
        (VerificationError ''artifact_role_collision'' ''verification artifact roles must use distinct content identities''),
      validate_times (member ''issued_at'' values) (member ''expires_at'' values)])"

definition vlease_values :: "verification_lease \<Rightarrow> json" where
  "vlease_values x = JObj [
     (''lease_nonce'', JStr (vl_lease_nonce x)), (''mission_id'', JStr (vl_mission_id x)),
     (''authority_id'', JStr (vl_authority_id x)), (''target_snapshot_id'', JStr (vl_target_snapshot_id x)),
     (''candidate_id'', JStr (vl_candidate_id x)),
     (''candidate_producer_id'', JStr (vl_candidate_producer_id x)),
     (''poc_artifact_digest'', JStr (vl_poc_artifact_digest x)),
     (''evidence_artifact_digests'', JArr (map JStr (vl_evidence_artifact_digests x))),
     (''environment_digest'', JStr (vl_environment_digest x)),
     (''effect_oracle_id'', JStr (vl_effect_oracle_id x)), (''verifier_id'', JStr (vl_verifier_id x)),
     (''verifier_key_id'', JStr (vl_verifier_key_id x)),
     (''issuance_trust_snapshot_id'', JStr (vl_issuance_trust_snapshot_id x)),
     (''issued_at'', JInt (vl_issued_at x)), (''expires_at'', JInt (vl_expires_at x))]"

definition vlease_wire_body :: "verification_lease \<Rightarrow> json" where
  "vlease_wire_body x = JObj [
     (''purpose'', JStr LEASE_PURPOSE), (''lease_nonce'', JStr (vl_lease_nonce x)),
     (''mission_id'', JStr (vl_mission_id x)), (''authority_id'', JStr (vl_authority_id x)),
     (''target_snapshot_id'', JStr (vl_target_snapshot_id x)), (''candidate_id'', JStr (vl_candidate_id x)),
     (''candidate_producer_id'', JStr (vl_candidate_producer_id x)),
     (''poc_artifact_digest'', JStr (vl_poc_artifact_digest x)),
     (''evidence_artifact_digests'', JArr (map JStr (vl_evidence_artifact_digests x))),
     (''environment_digest'', JStr (vl_environment_digest x)),
     (''effect_oracle_id'', JStr (vl_effect_oracle_id x)), (''verifier_id'', JStr (vl_verifier_id x)),
     (''verifier_key_id'', JStr (vl_verifier_key_id x)),
     (''issuance_trust_snapshot_id'', JStr (vl_issuance_trust_snapshot_id x)),
     (''issued_at'', JInt (vl_issued_at x)), (''expires_at'', JInt (vl_expires_at x))]"

definition vlease_of_values :: "digest \<Rightarrow> json \<Rightarrow> verification_lease" where
  "vlease_of_values object_id values = \<lparr>
     vl_lease_id = object_id, vl_lease_nonce = jstr (member ''lease_nonce'' values),
     vl_mission_id = jstr (member ''mission_id'' values),
     vl_authority_id = jstr (member ''authority_id'' values),
     vl_target_snapshot_id = jstr (member ''target_snapshot_id'' values),
     vl_candidate_id = jstr (member ''candidate_id'' values),
     vl_candidate_producer_id = jstr (member ''candidate_producer_id'' values),
     vl_poc_artifact_digest = jstr (member ''poc_artifact_digest'' values),
     vl_evidence_artifact_digests = jstrs (member ''evidence_artifact_digests'' values),
     vl_environment_digest = jstr (member ''environment_digest'' values),
     vl_effect_oracle_id = jstr (member ''effect_oracle_id'' values),
     vl_verifier_id = jstr (member ''verifier_id'' values),
     vl_verifier_key_id = jstr (member ''verifier_key_id'' values),
     vl_issuance_trust_snapshot_id = jstr (member ''issuance_trust_snapshot_id'' values),
     vl_issued_at = jint (member ''issued_at'' values), vl_expires_at = jint (member ''expires_at'' values)\<rparr>"

definition vlease_new :: "externals \<Rightarrow> digest \<Rightarrow> json \<Rightarrow> verification_lease result" where
  "vlease_new X lease_id values =
     bindR (seqR [
       requireR (full_digest lease_id)
         (VerificationError ''invalid_lease_id'' ''lease_id must be a full sha256 content ID''),
       validate_vlease_values values]) (\<lambda>_.
     let l = vlease_of_values lease_id values in
     bindR (create_envelope X LEASE_OBJECT_KIND (vlease_wire_body l)) (\<lambda>e.
       if lease_id \<noteq> env_object_id e
       then Inl (VerificationError ''object_id_mismatch'' ''lease_id does not match canonical lease semantics'')
       else Inr l))"

text \<open>\<open>issue\<close>: the values of a lease record, with the identifier that their envelope gets.\<close>

definition vlease_issue :: "externals \<Rightarrow> verification_lease \<Rightarrow> verification_lease result" where
  "vlease_issue X l =
     bindR (validate_vlease_values (vlease_values l)) (\<lambda>_.
     bindR (create_envelope X LEASE_OBJECT_KIND (vlease_wire_body l)) (\<lambda>e.
       vlease_new X (env_object_id e) (vlease_values l)))"

definition without_purpose :: "json \<Rightarrow> json" where
  "without_purpose body = JObj (filter (\<lambda>(k, v). k \<noteq> ''purpose'') (obj_members body))"

definition vlease_from_envelope :: "externals \<Rightarrow> envelope \<Rightarrow> verification_lease result" where
  "vlease_from_envelope X e =
     (if env_kind e \<noteq> LEASE_OBJECT_KIND
      then Inl (VerificationError ''wrong_object_kind'' ''envelope is not a verification lease'')
      else if env_attestations e \<noteq> []
      then Inl (VerificationError ''unexpected_attestations'' ''verification lease attestations must be empty'')
      else bindR (thaw_json X (JObj (env_body e))) (\<lambda>body.
      if \<not> has_keys body LEASE_BODY_FIELDS
      then Inl (VerificationError ''malformed_lease'' ''lease body has missing or unknown fields'')
      else if member ''purpose'' body \<noteq> JStr LEASE_PURPOSE
      then Inl (VerificationError ''wrong_lease_purpose'' ''lease is not for modeled fixture verification'')
      else if \<not> is_JArr (member ''evidence_artifact_digests'' body)
      then Inl (VerificationError ''malformed_lease'' ''evidence_artifact_digests must be an array'')
      else vlease_new X (env_object_id e) (without_purpose body)))"

definition vlease_to_envelope :: "externals \<Rightarrow> verification_lease \<Rightarrow> envelope result" where
  "vlease_to_envelope X l =
     bindR (create_envelope X LEASE_OBJECT_KIND (vlease_wire_body l)) (\<lambda>e.
       if env_object_id e \<noteq> vl_lease_id l
       then Inl (VerificationError ''object_id_mismatch'' ''lease_id does not match canonical lease semantics'')
       else Inr e)"

text \<open>\<open>derive_verification_lease_nonce\<close>, with the values of a lease.\<close>

definition derive_verification_lease_nonce :: "externals \<Rightarrow> digest \<Rightarrow> verification_lease \<Rightarrow> pystr result" where
  "derive_verification_lease_nonce X prior_event_digest l =
     bindR (content_id X ''verification_lease_nonce'' (JObj [
       (''authority_id'', JStr (vl_authority_id l)), (''candidate_id'', JStr (vl_candidate_id l)),
       (''candidate_producer_id'', JStr (vl_candidate_producer_id l)), (''effect_oracle_id'', JStr (vl_effect_oracle_id l)),
       (''environment_digest'', JStr (vl_environment_digest l)),
       (''evidence_artifact_digests'', JArr (map JStr (vl_evidence_artifact_digests l))),
       (''expires_at'', JInt (vl_expires_at l)), (''issued_at'', JInt (vl_issued_at l)),
       (''mission_id'', JStr (vl_mission_id l)), (''poc_artifact_digest'', JStr (vl_poc_artifact_digest l)),
       (''prior_event_digest'', JStr prior_event_digest), (''target_snapshot_id'', JStr (vl_target_snapshot_id l)),
       (''verifier_id'', JStr (vl_verifier_id l)), (''verifier_key_id'', JStr (vl_verifier_key_id l)),
       (''issuance_trust_snapshot_id'', JStr (vl_issuance_trust_snapshot_id l))]))
     (\<lambda>d. Inr (take 32 (if starts_with ''sha256:'' d then drop 7 d else d)))"

section \<open>Verifier receipts\<close>

record verifier_receipt =
  vr_receipt_id :: digest
  vr_artifact_resolution_id :: digest
  vr_lease_id :: digest
  vr_mission_id :: digest
  vr_authority_id :: digest
  vr_target_snapshot_id :: digest
  vr_candidate_id :: digest
  vr_candidate_producer_id :: pystr
  vr_poc_artifact_digest :: digest
  vr_evidence_artifact_digests :: "digest list"
  vr_environment_digest :: digest
  vr_effect_oracle_id :: digest
  vr_execution_output_digest :: digest
  vr_execution_output_size :: int
  vr_effect_output_digest :: digest
  vr_effect_output_size :: int
  vr_measured_environment_output_digest :: digest
  vr_measured_environment_output_size :: int
  vr_termination_output_digest :: digest
  vr_termination_output_size :: int
  vr_verifier_id :: pystr
  vr_verifier_key_id :: pystr
  vr_evidence_tier :: pystr
  vr_verdict :: pystr
  vr_effect_observed :: bool
  vr_oracle_satisfied :: bool
  vr_completed_at :: int

definition RECEIPT_BODY_FIELDS :: "pystr list" where
  "RECEIPT_BODY_FIELDS = [
     ''artifact_resolution_id'', ''lease_id'', ''mission_id'', ''authority_id'', ''target_snapshot_id'',
     ''candidate_id'', ''candidate_producer_id'', ''poc_artifact_digest'', ''evidence_artifact_digests'',
     ''environment_digest'', ''effect_oracle_id'', ''execution_output_digest'', ''execution_output_size'',
     ''effect_output_digest'', ''effect_output_size'', ''measured_environment_output_digest'',
     ''measured_environment_output_size'', ''termination_output_digest'', ''termination_output_size'',
     ''verifier_id'', ''verifier_key_id'', ''evidence_tier'', ''verdict'', ''effect_observed'',
     ''oracle_satisfied'', ''completed_at'']"

definition OUTPUT_DIGEST_FIELDS :: "pystr list" where
  "OUTPUT_DIGEST_FIELDS =
     [''execution_output_digest'', ''effect_output_digest'', ''measured_environment_output_digest'',
      ''termination_output_digest'']"

definition OUTPUT_SIZE_FIELDS :: "pystr list" where
  "OUTPUT_SIZE_FIELDS =
     [''execution_output_size'', ''effect_output_size'', ''measured_environment_output_size'',
      ''termination_output_size'']"

definition validate_receipt_values :: "json \<Rightarrow> exn + unit" where
  "validate_receipt_values values =
     (let output_digests = map (\<lambda>k. jstr (member k values)) OUTPUT_DIGEST_FIELDS;
          input_digests = jstr (member ''poc_artifact_digest'' values) #
            jstrs (member ''evidence_artifact_digests'' values) @
            [jstr (member ''environment_digest'' values), jstr (member ''effect_oracle_id'' values)]
      in seqR (
     requireR (has_keys values RECEIPT_BODY_FIELDS)
       (VerificationError ''malformed_receipt'' ''receipt has missing or unknown fields'') #
     map (\<lambda>k. validate_digest k (member k values))
       [''artifact_resolution_id'', ''lease_id'', ''mission_id'', ''authority_id'', ''target_snapshot_id'',
        ''candidate_id'', ''poc_artifact_digest'', ''environment_digest'', ''effect_oracle_id'',
        ''execution_output_digest'', ''effect_output_digest'', ''measured_environment_output_digest'',
        ''termination_output_digest''] @
     [validate_identity ''candidate_producer_id'' (member ''candidate_producer_id'' values),
      validate_identity ''verifier_id'' (member ''verifier_id'' values),
      validate_key_id ''verifier_key_id'' (member ''verifier_key_id'' values),
      validate_evidence_tuple (member ''evidence_artifact_digests'' values),
      requireR (distinct output_digests) (VerificationError ''output_artifact_role_collision''
        ''verification output roles must use distinct content identities''),
      requireR (set output_digests \<inter> set input_digests = {}) (VerificationError ''output_input_artifact_collision''
        ''verification outputs must be distinct from predeclared inputs'')] @
     map (\<lambda>k. requireR (is_JInt (member k values) \<and> 0 < jint (member k values) \<and>
                        jint (member k values) \<le> MAX_TYPED_VERIFICATION_OUTPUT_BYTES_V1)
        (VerificationError (''invalid_'' @ k) (k @ '' must be an integer from 1 through 64 MiB''))) OUTPUT_SIZE_FIELDS @
     [requireR (sum_list (map (\<lambda>k. jint (member k values)) OUTPUT_SIZE_FIELDS) \<le> MAX_TYPED_VERIFICATION_OUTPUT_BYTES_V1)
        (VerificationError ''verification_output_byte_ceiling_exceeded''
           ''signed verification output sizes exceed the fixed aggregate byte ceiling''),
      requireR (is_JStr (member ''evidence_tier'' values))
        (VerificationError ''invalid_evidence_tier'' ''evidence_tier must be a string''),
      requireR (jstr (member ''evidence_tier'' values) = MODELED_FIXTURE_TIER)
        (VerificationError ''unsupported_evidence_tier'' ''only modeled_fixture evidence is admitted''),
      requireR (is_JStr (member ''verdict'' values) \<and> jstr (member ''verdict'' values) \<in> set VERDICTS)
        (VerificationError ''invalid_verdict'' ''unsupported verifier verdict''),
      requireR (is_JBool (member ''effect_observed'' values) \<and> is_JBool (member ''oracle_satisfied'' values))
        (VerificationError ''invalid_observation'' ''effect and oracle observations must be booleans''),
      requireR (epoch_second (member ''completed_at'' values))
        (VerificationError ''invalid_completed_at'' ''completed_at must be a nonnegative integer epoch second'')]))"

definition receipt_body :: "verifier_receipt \<Rightarrow> json" where
  "receipt_body x = JObj [
     (''artifact_resolution_id'', JStr (vr_artifact_resolution_id x)), (''lease_id'', JStr (vr_lease_id x)),
     (''mission_id'', JStr (vr_mission_id x)), (''authority_id'', JStr (vr_authority_id x)),
     (''target_snapshot_id'', JStr (vr_target_snapshot_id x)), (''candidate_id'', JStr (vr_candidate_id x)),
     (''candidate_producer_id'', JStr (vr_candidate_producer_id x)),
     (''poc_artifact_digest'', JStr (vr_poc_artifact_digest x)),
     (''evidence_artifact_digests'', JArr (map JStr (vr_evidence_artifact_digests x))),
     (''environment_digest'', JStr (vr_environment_digest x)),
     (''effect_oracle_id'', JStr (vr_effect_oracle_id x)),
     (''execution_output_digest'', JStr (vr_execution_output_digest x)),
     (''execution_output_size'', JInt (vr_execution_output_size x)),
     (''effect_output_digest'', JStr (vr_effect_output_digest x)),
     (''effect_output_size'', JInt (vr_effect_output_size x)),
     (''measured_environment_output_digest'', JStr (vr_measured_environment_output_digest x)),
     (''measured_environment_output_size'', JInt (vr_measured_environment_output_size x)),
     (''termination_output_digest'', JStr (vr_termination_output_digest x)),
     (''termination_output_size'', JInt (vr_termination_output_size x)),
     (''verifier_id'', JStr (vr_verifier_id x)), (''verifier_key_id'', JStr (vr_verifier_key_id x)),
     (''evidence_tier'', JStr (vr_evidence_tier x)), (''verdict'', JStr (vr_verdict x)),
     (''effect_observed'', JBool (vr_effect_observed x)),
     (''oracle_satisfied'', JBool (vr_oracle_satisfied x)), (''completed_at'', JInt (vr_completed_at x))]"

definition receipt_of_values :: "digest \<Rightarrow> json \<Rightarrow> verifier_receipt" where
  "receipt_of_values object_id values = \<lparr>
     vr_receipt_id = object_id, vr_artifact_resolution_id = jstr (member ''artifact_resolution_id'' values),
     vr_lease_id = jstr (member ''lease_id'' values), vr_mission_id = jstr (member ''mission_id'' values),
     vr_authority_id = jstr (member ''authority_id'' values),
     vr_target_snapshot_id = jstr (member ''target_snapshot_id'' values),
     vr_candidate_id = jstr (member ''candidate_id'' values),
     vr_candidate_producer_id = jstr (member ''candidate_producer_id'' values),
     vr_poc_artifact_digest = jstr (member ''poc_artifact_digest'' values),
     vr_evidence_artifact_digests = jstrs (member ''evidence_artifact_digests'' values),
     vr_environment_digest = jstr (member ''environment_digest'' values),
     vr_effect_oracle_id = jstr (member ''effect_oracle_id'' values),
     vr_execution_output_digest = jstr (member ''execution_output_digest'' values),
     vr_execution_output_size = jint (member ''execution_output_size'' values),
     vr_effect_output_digest = jstr (member ''effect_output_digest'' values),
     vr_effect_output_size = jint (member ''effect_output_size'' values),
     vr_measured_environment_output_digest = jstr (member ''measured_environment_output_digest'' values),
     vr_measured_environment_output_size = jint (member ''measured_environment_output_size'' values),
     vr_termination_output_digest = jstr (member ''termination_output_digest'' values),
     vr_termination_output_size = jint (member ''termination_output_size'' values),
     vr_verifier_id = jstr (member ''verifier_id'' values),
     vr_verifier_key_id = jstr (member ''verifier_key_id'' values),
     vr_evidence_tier = jstr (member ''evidence_tier'' values), vr_verdict = jstr (member ''verdict'' values),
     vr_effect_observed = jbool (member ''effect_observed'' values),
     vr_oracle_satisfied = jbool (member ''oracle_satisfied'' values),
     vr_completed_at = jint (member ''completed_at'' values)\<rparr>"

definition receipt_new :: "externals \<Rightarrow> digest \<Rightarrow> json \<Rightarrow> verifier_receipt result" where
  "receipt_new X receipt_id values =
     bindR (seqR [
       requireR (full_digest receipt_id)
         (VerificationError ''invalid_receipt_id'' ''receipt_id must be a full sha256 content ID''),
       validate_receipt_values values]) (\<lambda>_.
     let r = receipt_of_values receipt_id values in
     bindR (create_envelope X RECEIPT_OBJECT_KIND (receipt_body r)) (\<lambda>e.
       if receipt_id \<noteq> env_object_id e
       then Inl (VerificationError ''object_id_mismatch'' ''receipt_id does not match canonical receipt semantics'')
       else Inr r))"

definition receipt_issue :: "externals \<Rightarrow> verifier_receipt \<Rightarrow> verifier_receipt result" where
  "receipt_issue X r =
     bindR (validate_receipt_values (receipt_body r)) (\<lambda>_.
     bindR (create_envelope X RECEIPT_OBJECT_KIND (receipt_body r)) (\<lambda>e.
       receipt_new X (env_object_id e) (receipt_body r)))"

text \<open>\<open>for_lease\<close>: every binding is copied from the lease; the other members are those of \<open>r\<close>.\<close>

definition receipt_for_lease :: "externals \<Rightarrow> verification_lease \<Rightarrow> verifier_receipt \<Rightarrow> verifier_receipt result" where
  "receipt_for_lease X l r = receipt_issue X (r\<lparr>
     vr_lease_id := vl_lease_id l, vr_mission_id := vl_mission_id l, vr_authority_id := vl_authority_id l,
     vr_target_snapshot_id := vl_target_snapshot_id l, vr_candidate_id := vl_candidate_id l,
     vr_candidate_producer_id := vl_candidate_producer_id l, vr_poc_artifact_digest := vl_poc_artifact_digest l,
     vr_evidence_artifact_digests := vl_evidence_artifact_digests l, vr_environment_digest := vl_environment_digest l,
     vr_effect_oracle_id := vl_effect_oracle_id l, vr_verifier_id := vl_verifier_id l,
     vr_verifier_key_id := vl_verifier_key_id l\<rparr>)"

definition receipt_from_envelope :: "externals \<Rightarrow> envelope \<Rightarrow> verifier_receipt result" where
  "receipt_from_envelope X e =
     (if env_kind e \<noteq> RECEIPT_OBJECT_KIND
      then Inl (VerificationError ''wrong_object_kind'' ''envelope is not a verifier receipt'')
      else if env_attestations e \<noteq> []
      then Inl (VerificationError ''unexpected_attestations'' ''verifier receipt attestations must be empty'')
      else bindR (thaw_json X (JObj (env_body e))) (\<lambda>body.
      if \<not> has_keys body RECEIPT_BODY_FIELDS
      then Inl (VerificationError ''malformed_receipt'' ''receipt body has missing or unknown fields'')
      else if \<not> is_JArr (member ''evidence_artifact_digests'' body)
      then Inl (VerificationError ''malformed_receipt'' ''evidence_artifact_digests must be an array'')
      else receipt_new X (env_object_id e) body))"

definition receipt_to_envelope :: "externals \<Rightarrow> verifier_receipt \<Rightarrow> envelope result" where
  "receipt_to_envelope X r =
     bindR (create_envelope X RECEIPT_OBJECT_KIND (receipt_body r)) (\<lambda>e.
       if env_object_id e \<noteq> vr_receipt_id r
       then Inl (VerificationError ''object_id_mismatch'' ''receipt_id does not match canonical receipt semantics'')
       else Inr e)"

section \<open>Signed receipts\<close>

record signed_receipt =
  sr_envelope_bytes :: bytes
  sr_key_id :: pystr
  sr_signature_b64 :: pystr

definition signed_receipt_new :: "pyval \<Rightarrow> pyval \<Rightarrow> pyval \<Rightarrow> signed_receipt result" where
  "signed_receipt_new envelope_bytes key_id signature_b64 =
     bindR (seqR [
       requireR (is_PBytes envelope_bytes \<and> pbytes envelope_bytes \<noteq> [])
         (VerificationError ''malformed_signed_receipt'' ''envelope_bytes must be non-empty bytes''),
       requireR (length (pbytes envelope_bytes) \<le> MAX_VERIFIER_RECEIPT_ENVELOPE_BYTES)
         (VerificationError ''receipt_envelope_too_large'' ''verifier receipt envelope exceeds the fixed byte ceiling''),
       requireR (is_JStr (pjson key_id) \<and> key_id_text (jstr (pjson key_id)))
         (VerificationError ''malformed_key_id'' ''key_id must identify an Ed25519 public key''),
       requireR (is_JStr (pjson signature_b64) \<and> codepoints (jstr (pjson signature_b64)) = 88)
         (VerificationError ''malformed_signature'' ''signature_b64 must be one canonical Ed25519 signature''),
       requireR (signature_text (jstr (pjson signature_b64)))
         (VerificationError ''malformed_signature'' ''signature_b64 must be one canonical Ed25519 signature'')])
     (\<lambda>_. Inr \<lparr>sr_envelope_bytes = pbytes envelope_bytes, sr_key_id = jstr (pjson key_id),
               sr_signature_b64 = jstr (pjson signature_b64)\<rparr>)"

definition signed_receipt_to_envelope :: "externals \<Rightarrow> signed_receipt \<Rightarrow> envelope result" where
  "signed_receipt_to_envelope X s =
     bindR (catchR (envelope_from_bytes X (sr_envelope_bytes s)) (\<lambda>ex.
       if is_protocol_error ex
       then Inl (VerificationError ''invalid_envelope'' ''signed receipt envelope is invalid'') else Inl ex)) (\<lambda>receipt_env.
     if env_kind receipt_env \<noteq> RECEIPT_OBJECT_KIND \<or> env_attestations receipt_env \<noteq> []
     then Inl (VerificationError ''invalid_envelope''
            ''signed verifier input must contain one unattested receipt envelope'')
     else bindR (receipt_from_envelope X receipt_env) (\<lambda>_.
     bindR (envelope_create X RECEIPT_OBJECT_KIND (JObj (env_body receipt_env))
         (JArr [attestation_json (sr_key_id s) (sr_signature_b64 s)])) (\<lambda>e.
     bindR (envelope_to_bytes X e) (\<lambda>b.
       if length b > MAX_VERIFIER_RECEIPT_ENVELOPE_BYTES
       then Inl (VerificationError ''receipt_envelope_too_large''
              ''signed verifier receipt exceeds the fixed byte ceiling'')
       else Inr e))))"

definition signed_receipt_to_bytes :: "externals \<Rightarrow> signed_receipt \<Rightarrow> bytes result" where
  "signed_receipt_to_bytes X s = bindR (signed_receipt_to_envelope X s) (envelope_to_bytes X)"

definition signed_receipt_from_bytes :: "externals \<Rightarrow> bytes \<Rightarrow> signed_receipt result" where
  "signed_receipt_from_bytes X data =
     (if length data > MAX_VERIFIER_RECEIPT_ENVELOPE_BYTES
      then Inl (VerificationError ''receipt_envelope_too_large'' ''signed verifier receipt exceeds the fixed byte ceiling'')
      else bindR (catchR (envelope_from_bytes X data) (\<lambda>ex.
        if is_protocol_error ex
        then Inl (VerificationError ''invalid_envelope'' ''signed receipt wire is invalid'') else Inl ex)) (\<lambda>e.
      if env_kind e \<noteq> RECEIPT_OBJECT_KIND \<or> length (env_attestations e) \<noteq> 1
      then Inl (VerificationError ''malformed_signed_receipt''
             ''signed verifier wire requires exactly one receipt attestation'')
      else bindR (thaw_json X (hd (env_attestations e))) (\<lambda>attestation.
      if \<not> has_keys attestation ATTESTATION_FIELDS
      then Inl (VerificationError ''malformed_signed_receipt''
             ''receipt signature attestation has missing or unknown fields'')
      else if member ''algorithm'' attestation \<noteq> JStr ''ed25519''
      then Inl (VerificationError ''malformed_signed_receipt'' ''unsupported receipt signature algorithm'')
      else bindR (envelope_create X RECEIPT_OBJECT_KIND (JObj (env_body e)) (JArr [])) (\<lambda>unattested.
      if env_object_id unattested \<noteq> env_object_id e
      then Inl (VerificationError ''object_id_mismatch'' ''attested receipt identity changed'')
      else bindR (receipt_from_envelope X unattested) (\<lambda>_.
      bindR (envelope_to_bytes X unattested) (\<lambda>b.
        signed_receipt_new (PBytes b) (PJson (member ''key_id'' attestation))
          (PJson (member ''signature_b64'' attestation))))))))"

text \<open>\<open>VerifierSigner.sign\<close>; the private key is represented by the signatures it makes.\<close>

definition verifier_key_id :: "externals \<Rightarrow> bytes \<Rightarrow> pystr result" where
  "verifier_key_id X k =
     (if length k \<noteq> 32
      then Inl (VerificationError ''invalid_public_key'' ''Ed25519 public keys must contain exactly 32 bytes'')
      else Inr (''ed25519:sha256:'' @ hex_bytes (sha256 X k)))"

definition verifier_sign :: "externals \<Rightarrow> bytes \<Rightarrow> (bytes \<Rightarrow> bytes) \<Rightarrow> verifier_receipt \<Rightarrow> signed_receipt result" where
  "verifier_sign X public_key sign r =
     bindR (verifier_key_id X public_key) (\<lambda>key_id.
     if vr_verifier_key_id r \<noteq> key_id
     then Inl (VerificationError ''signer_key_mismatch'' ''receipt is assigned to a different verifier key'')
     else bindR (receipt_to_envelope X r) (\<lambda>e.
     bindR (envelope_to_bytes X e) (\<lambda>envelope_bytes.
       signed_receipt_new (PBytes envelope_bytes) (PJson (JStr key_id))
         (PJson (JStr (b64encode (sign (RECEIPT_SIGNATURE_DOMAIN @ envelope_bytes))))))))"

section \<open>Leases and receipts are content objects\<close>

lemma member_without_purpose: "k \<noteq> ''purpose'' \<Longrightarrow> member k (without_purpose v) = member k v"
proof -
  assume "k \<noteq> ''purpose''"
  then have "map_of (filter (\<lambda>(k, v). k \<noteq> ''purpose'') ms) k = map_of ms k" for ms :: "(pystr \<times> json) list"
    by (induction ms) auto
  then show ?thesis by (simp add: member_def without_purpose_def)
qed

lemma list_all_unfold: "list_all P [] = True" "list_all P (x # xs) = (P x \<and> list_all P xs)"
  by simp_all

lemma vlease_values_typed:
  assumes "validate_vlease_values values = Inr ()"
  shows "list_all (\<lambda>k. is_JStr (member k values))
      [''lease_nonce'', ''mission_id'', ''authority_id'', ''target_snapshot_id'', ''candidate_id'', ''candidate_producer_id'',
       ''poc_artifact_digest'', ''environment_digest'', ''effect_oracle_id'', ''verifier_id'', ''verifier_key_id'',
       ''issuance_trust_snapshot_id'']"
    and "is_JInt (member ''issued_at'' values)" and "is_JInt (member ''expires_at'' values)"
    and "is_JArr (member ''evidence_artifact_digests'' values)"
    and "list_all is_JStr (arr_items (member ''evidence_artifact_digests'' values))"
proof -
  note v = assms [unfolded validate_vlease_values_def verification_check_defs [abs_def] list.map append.simps result_simps]
  from v show "list_all (\<lambda>k. is_JStr (member k values))
      [''lease_nonce'', ''mission_id'', ''authority_id'', ''target_snapshot_id'', ''candidate_id'', ''candidate_producer_id'',
       ''poc_artifact_digest'', ''environment_digest'', ''effect_oracle_id'', ''verifier_id'', ''verifier_key_id'',
       ''issuance_trust_snapshot_id'']"
    unfolding list_all_unfold by blast
  from v show "is_JInt (member ''issued_at'' values)" "is_JInt (member ''expires_at'' values)"
    "is_JArr (member ''evidence_artifact_digests'' values)" by blast+
  from v have "list_all (\<lambda>v. is_JStr v \<and> full_digest (jstr v)) (arr_items (member ''evidence_artifact_digests'' values))"
    by blast
  then show "list_all is_JStr (arr_items (member ''evidence_artifact_digests'' values))" by (simp add: list_all_iff)
qed

lemma vlease_rebuild:
  assumes "validate_vlease_values (without_purpose body) = Inr ()" and "normal_form body"
    and "has_keys body LEASE_BODY_FIELDS" and "member ''purpose'' body = JStr LEASE_PURPOSE"
  shows "norm_json (vlease_wire_body (vlease_of_values i (without_purpose body))) = body"
proof -
  note t = vlease_values_typed [OF assms(1), unfolded list_all_unfold]
  have l: "norm_json (JArr (map JStr (jstrs (member ''evidence_artifact_digests'' body)))) =
      member ''evidence_artifact_digests'' body"
    by (rule norm_strs) (use t(4,5) in \<open>simp_all add: member_without_purpose\<close>)
  show ?thesis unfolding vlease_wire_body_def
    by (rule norm_rebuild [OF assms(2,3)])
      (use t assms(4) l in \<open>auto simp: LEASE_BODY_FIELDS_def LEASE_VALUE_FIELDS_def vlease_of_values_def
         member_without_purpose norm_scalars simp del: norm_json.simps(1,2)\<close>)
qed

lemma vlease_from_envelopeD:
  assumes "vlease_from_envelope X e = Inr l"
  obtains body where "thaw_json X (JObj (env_body e)) = Inr body" and "env_kind e = LEASE_OBJECT_KIND"
    and "env_attestations e = []" and "has_keys body LEASE_BODY_FIELDS"
    and "member ''purpose'' body = JStr LEASE_PURPOSE" and "validate_vlease_values (without_purpose body) = Inr ()"
    and "l = vlease_of_values (env_object_id e) (without_purpose body)"
  using assms unfolding vlease_from_envelope_def vlease_new_def Let_def if_raise_eq_Inr bindR_eq_Inr seqR_Cons_eq_Inr
  by auto

interpretation vlease: content_object vlease_to_envelope vlease_from_envelope vl_lease_id
proof unfold_locales
  fix X e l
  assume e: "created_envelope X e" and l: "vlease_from_envelope X e = Inr l"
  from l obtain body where t: "thaw_json X (JObj (env_body e)) = Inr body" and k: "env_kind e = LEASE_OBJECT_KIND"
    "env_attestations e = []" "has_keys body LEASE_BODY_FIELDS" "member ''purpose'' body = JStr LEASE_PURPOSE"
    and v: "validate_vlease_values (without_purpose body) = Inr ()"
    and eq: "l = vlease_of_values (env_object_id e) (without_purpose body)" by (rule vlease_from_envelopeD)
  have b: "body = JObj (env_body e)" using t created_thaw [OF e] by simp
  then have nf: "normal_form body" using normal_json_form [OF created_normal [OF e]] by simp
  have "norm_json (vlease_wire_body l) = JObj (env_body e)"
    unfolding eq using vlease_rebuild [OF v nf k(3,4)] b by simp
  from rebuild_envelope [OF e k(2) this] k(1) show "vlease_to_envelope X l = Inr e"
    by (simp add: vlease_to_envelope_def create_envelope_def eq vlease_of_values_def)
next
  fix X e l
  assume "vlease_from_envelope X e = Inr l"
  then show "vl_lease_id l = env_object_id e"
    by (rule vlease_from_envelopeD) (simp add: vlease_of_values_def)
qed

lemma receipt_values_typed:
  assumes "validate_receipt_values values = Inr ()"
  shows "list_all (\<lambda>k. is_JStr (member k values))
      [''artifact_resolution_id'', ''lease_id'', ''mission_id'', ''authority_id'', ''target_snapshot_id'',
        ''candidate_id'', ''poc_artifact_digest'', ''environment_digest'', ''effect_oracle_id'',
        ''execution_output_digest'', ''effect_output_digest'', ''measured_environment_output_digest'',
        ''termination_output_digest'', ''candidate_producer_id'', ''verifier_id'', ''verifier_key_id'',
        ''evidence_tier'', ''verdict'']"
    and "list_all (\<lambda>k. is_JInt (member k values))
      [''execution_output_size'', ''effect_output_size'', ''measured_environment_output_size'',
       ''termination_output_size'', ''completed_at'']"
    and "is_JBool (member ''effect_observed'' values)" and "is_JBool (member ''oracle_satisfied'' values)"
    and "has_keys values RECEIPT_BODY_FIELDS" and "is_JArr (member ''evidence_artifact_digests'' values)"
    and "list_all is_JStr (arr_items (member ''evidence_artifact_digests'' values))"
proof -
  note v = assms [unfolded validate_receipt_values_def Let_def verification_check_defs [abs_def] OUTPUT_SIZE_FIELDS_def
      list.map append.simps result_simps]
  from v show "list_all (\<lambda>k. is_JStr (member k values))
      [''artifact_resolution_id'', ''lease_id'', ''mission_id'', ''authority_id'', ''target_snapshot_id'',
        ''candidate_id'', ''poc_artifact_digest'', ''environment_digest'', ''effect_oracle_id'',
        ''execution_output_digest'', ''effect_output_digest'', ''measured_environment_output_digest'',
        ''termination_output_digest'', ''candidate_producer_id'', ''verifier_id'', ''verifier_key_id'',
        ''evidence_tier'', ''verdict'']"
    unfolding list_all_unfold by blast
  from v show "list_all (\<lambda>k. is_JInt (member k values))
      [''execution_output_size'', ''effect_output_size'', ''measured_environment_output_size'',
       ''termination_output_size'', ''completed_at'']"
    unfolding list_all_unfold by blast
  from v show "is_JBool (member ''effect_observed'' values)" "is_JBool (member ''oracle_satisfied'' values)"
    "has_keys values RECEIPT_BODY_FIELDS" "is_JArr (member ''evidence_artifact_digests'' values)" by blast+
  from v have "list_all (\<lambda>v. is_JStr v \<and> full_digest (jstr v)) (arr_items (member ''evidence_artifact_digests'' values))"
    by blast
  then show "list_all is_JStr (arr_items (member ''evidence_artifact_digests'' values))" by (simp add: list_all_iff)
qed

lemma receipt_rebuild:
  assumes "validate_receipt_values body = Inr ()" and "normal_form body"
  shows "norm_json (receipt_body (receipt_of_values i body)) = body"
proof -
  note t = receipt_values_typed [OF assms(1), unfolded list_all_unfold]
  have l: "norm_json (JArr (map JStr (jstrs (member ''evidence_artifact_digests'' body)))) =
      member ''evidence_artifact_digests'' body"
    by (rule norm_strs [OF t(6,7)])
  show ?thesis unfolding receipt_body_def
    by (rule norm_rebuild [OF assms(2) t(5)])
      (use t(1-4) l in \<open>auto simp: RECEIPT_BODY_FIELDS_def receipt_of_values_def norm_scalars
         simp del: norm_json.simps(1,2)\<close>)
qed

lemma receipt_from_envelopeD:
  assumes "receipt_from_envelope X e = Inr r"
  obtains body where "thaw_json X (JObj (env_body e)) = Inr body" and "env_kind e = RECEIPT_OBJECT_KIND"
    and "env_attestations e = []" and "validate_receipt_values body = Inr ()"
    and "r = receipt_of_values (env_object_id e) body"
  using assms unfolding receipt_from_envelope_def receipt_new_def Let_def if_raise_eq_Inr bindR_eq_Inr seqR_Cons_eq_Inr
  by auto

interpretation receipt: content_object receipt_to_envelope receipt_from_envelope vr_receipt_id
proof unfold_locales
  fix X e r
  assume e: "created_envelope X e" and r: "receipt_from_envelope X e = Inr r"
  from r obtain body where t: "thaw_json X (JObj (env_body e)) = Inr body" and k: "env_kind e = RECEIPT_OBJECT_KIND"
    "env_attestations e = []" and v: "validate_receipt_values body = Inr ()"
    and eq: "r = receipt_of_values (env_object_id e) body" by (rule receipt_from_envelopeD)
  have b: "body = JObj (env_body e)" using t created_thaw [OF e] by simp
  then have nf: "normal_form body" using normal_json_form [OF created_normal [OF e]] by simp
  have "norm_json (receipt_body r) = JObj (env_body e)"
    unfolding eq using receipt_rebuild [OF v nf] b by simp
  from rebuild_envelope [OF e k(2) this] k(1) show "receipt_to_envelope X r = Inr e"
    by (simp add: receipt_to_envelope_def create_envelope_def eq receipt_of_values_def)
next
  fix X e r
  assume "receipt_from_envelope X e = Inr r"
  then show "vr_receipt_id r = env_object_id e"
    by (rule receipt_from_envelopeD) (simp add: receipt_of_values_def)
qed

section \<open>The signed receipt wire is a strict codec\<close>

lemma signed_receipt_new_values:
  assumes "signed_receipt_new e k g = Inr s"
  shows "e = PBytes (sr_envelope_bytes s) \<and> k = PJson (JStr (sr_key_id s)) \<and> g = PJson (JStr (sr_signature_b64 s))"
proof -
  from assms have "is_PBytes e" "sr_envelope_bytes s = pbytes e" "is_JStr (pjson k)" "is_JStr (pjson g)"
    "sr_key_id s = jstr (pjson k)" "sr_signature_b64 s = jstr (pjson g)"
    by (auto simp: signed_receipt_new_def result_simps)
  then show ?thesis by (cases e; cases k; cases g; simp add: norm_scalars)
qed

interpretation signed_receipt: attested_wire X RECEIPT_OBJECT_KIND "receipt_from_envelope X" signed_receipt_new
  sr_envelope_bytes sr_key_id sr_signature_b64 "\<lambda>b. length b \<le> MAX_VERIFIER_RECEIPT_ENVELOPE_BYTES"
  "signed_receipt_to_bytes X" "signed_receipt_from_bytes X" for X
proof unfold_locales
  show "signed_receipt_new e k g = Inr s \<Longrightarrow>
      e = PBytes (sr_envelope_bytes s) \<and> k = PJson (JStr (sr_key_id s)) \<and> g = PJson (JStr (sr_signature_b64 s))" for e k g s
    by (rule signed_receipt_new_values)
qed (auto simp: signed_receipt_to_bytes_def signed_receipt_to_envelope_def signed_receipt_from_bytes_def
    bindR_eq_Inr catchR_def not_less split: sum.splits if_splits)

end
