(* ===== verification/Verifier_Trust.thy ===== *)
theory Verifier_Trust
  imports Verification_V1
begin

text \<open>
  \<open>src/etzio/verification.py\<close>, second part: the trust store of verifier keys and its canonical
  snapshot, the consistency of verdicts with observations, the binding of receipts to artifact
  resolutions, and the authentication of a signed receipt.
\<close>

section \<open>Trusted verifier keys\<close>

record trusted_verifier_key =
  tv_verifier_id :: pystr
  tv_public_key_bytes :: bytes
  tv_roles :: "pystr list"

definition trusted_verifier_key_new :: "externals \<Rightarrow> pystr \<Rightarrow> bytes \<Rightarrow> pystr list \<Rightarrow> trusted_verifier_key result" where
  "trusted_verifier_key_new X verifier_id k roles =
     bindR (seqR [
       validate_identity ''verifier_id'' (JStr verifier_id),
       requireR (is_valid_ed25519_public_key X k)
         (VerificationError ''invalid_public_key'' ''Ed25519 public keys must be canonical prime-subgroup points''),
       requireR (ed25519_loadable X k) (VerificationError ''invalid_public_key'' ''invalid Ed25519 public key''),
       requireR (roles \<noteq> []) (VerificationError ''invalid_roles'' ''trusted keys require a non-empty frozen role set''),
       requireR (length (remdups roles) \<le> MAX_VERIFIER_ROLES)
         (VerificationError ''invalid_roles'' ''trusted key exceeds the role-count ceiling''),
       requireR (list_all (\<lambda>r. canonical_text (JStr r) \<and> identity_text r) roles)
         (VerificationError ''invalid_roles'' ''roles must be non-blank canonical identity strings'')])
     (\<lambda>_. Inr \<lparr>tv_verifier_id = verifier_id, tv_public_key_bytes = k, tv_roles = roles\<rparr>)"

section \<open>Verifier trust stores\<close>

record verifier_trust_store =
  vt_keys :: "(pystr \<times> trusted_verifier_key) list"
  vt_revoked_key_ids :: "pystr list"
  vt_revoked_receipt_ids :: "digest list"
  vt_revoked_lease_ids :: "digest list"

text \<open>\<open>_validated_identifier_frozenset\<close>: the loop with its index and the set collected so far.\<close>

fun validated_identifiers :: "(pystr \<Rightarrow> bool) \<Rightarrow> pystr \<Rightarrow> nat \<Rightarrow> pystr list \<Rightarrow> pystr list \<Rightarrow> pystr list result" where
  "validated_identifiers pattern reason maximum found [] = Inr found"
| "validated_identifiers pattern reason maximum found (v # vs) =
     (if length found \<ge> maximum
      then Inl (VerificationError reason ''identifier collection exceeds its fixed count ceiling'')
      else if \<not> pattern v then Inl (VerificationError reason ''identifier collection contains an invalid value'')
      else if v \<in> set found then Inl (VerificationError reason ''identifier collection contains a duplicate'')
      else validated_identifiers pattern reason maximum (found @ [v]) vs)"

fun check_verifier_keys :: "externals \<Rightarrow> nat \<Rightarrow> (pystr \<times> trusted_verifier_key) list \<Rightarrow> exn + unit" where
  "check_verifier_keys X n [] = Inr ()"
| "check_verifier_keys X n ((key_id, k) # ks) =
     (if n \<ge> MAX_TRUSTED_VERIFIER_KEYS
      then Inl (VerificationError ''invalid_trust_store'' ''trust store exceeds the key-count ceiling'')
      else if \<not> key_id_text key_id
      then Inl (VerificationError ''invalid_trust_store'' ''trust-store key IDs must be content-derived'')
      else bindR (verifier_key_id X (tv_public_key_bytes k)) (\<lambda>expected.
        if key_id \<noteq> expected
        then Inl (VerificationError ''invalid_trust_store'' ''trust-store key ID does not match public key'')
        else check_verifier_keys X (n + 1) ks))"

definition verifier_trust_store_new ::
  "externals \<Rightarrow> (pystr \<times> trusted_verifier_key) list \<Rightarrow> pystr list \<Rightarrow> digest list \<Rightarrow> digest list \<Rightarrow>
   verifier_trust_store result" where
  "verifier_trust_store_new X keys revoked_keys revoked_receipts revoked_leases =
     bindR (check_verifier_keys X 0 keys) (\<lambda>_.
     bindR (validated_identifiers key_id_text ''invalid_trust_store'' MAX_VERIFIER_REVOCATIONS [] revoked_keys) (\<lambda>rk.
     bindR (validated_identifiers full_digest ''invalid_trust_store'' MAX_VERIFIER_REVOCATIONS [] revoked_receipts) (\<lambda>rr.
     bindR (validated_identifiers full_digest ''invalid_trust_store'' MAX_VERIFIER_REVOCATIONS [] revoked_leases) (\<lambda>rl.
     if length rk + length rr + length rl > MAX_VERIFIER_REVOCATIONS
     then Inl (VerificationError ''invalid_trust_store'' ''trust store exceeds the combined revocation-count ceiling'')
     else Inr \<lparr>vt_keys = keys, vt_revoked_key_ids = rk, vt_revoked_receipt_ids = rr, vt_revoked_lease_ids = rl\<rparr>))))"

fun collect_verifier_keys ::
  "externals \<Rightarrow> (pystr \<times> trusted_verifier_key) list \<Rightarrow> trusted_verifier_key list \<Rightarrow>
   (pystr \<times> trusted_verifier_key) list result" where
  "collect_verifier_keys X keys [] = Inr keys"
| "collect_verifier_keys X keys (k # ks) =
     (if length keys \<ge> MAX_TRUSTED_VERIFIER_KEYS
      then Inl (VerificationError ''invalid_trust_store'' ''trust store exceeds the key-count ceiling'')
      else bindR (verifier_key_id X (tv_public_key_bytes k)) (\<lambda>key_id.
        if key_id \<in> fst ` set keys then Inl (VerificationError ''invalid_trust_store'' ''duplicate trusted verifier key'')
        else collect_verifier_keys X (keys @ [(key_id, k)]) ks))"

definition verifier_trust_store_from_keys ::
  "externals \<Rightarrow> trusted_verifier_key list \<Rightarrow> pystr list \<Rightarrow> digest list \<Rightarrow> digest list \<Rightarrow> verifier_trust_store result" where
  "verifier_trust_store_from_keys X trusted_keys revoked_keys revoked_receipts revoked_leases =
     bindR (collect_verifier_keys X [] trusted_keys) (\<lambda>keys.
     bindR (validated_identifiers key_id_text ''invalid_trust_store'' MAX_VERIFIER_REVOCATIONS [] revoked_keys) (\<lambda>rk.
     bindR (validated_identifiers full_digest ''invalid_trust_store'' MAX_VERIFIER_REVOCATIONS [] revoked_receipts) (\<lambda>rr.
     bindR (validated_identifiers full_digest ''invalid_trust_store'' MAX_VERIFIER_REVOCATIONS [] revoked_leases) (\<lambda>rl.
       verifier_trust_store_new X keys rk rr rl))))"

definition verifier_key_json :: "pystr \<times> trusted_verifier_key \<Rightarrow> json" where
  "verifier_key_json = (\<lambda>(key_id, k). JObj [
     (''key_id'', JStr key_id), (''public_key_b64'', JStr (b64encode (tv_public_key_bytes k))),
     (''roles'', JArr (map JStr (sorted_set (tv_roles k)))), (''verifier_id'', JStr (tv_verifier_id k))])"

definition verifier_snapshot_body :: "verifier_trust_store \<Rightarrow> json" where
  "verifier_snapshot_body t = JObj [
     (''keys'', JArr (map verifier_key_json (sort_key fst (vt_keys t)))),
     (''revoked_key_ids'', JArr (map JStr (sorted_set (vt_revoked_key_ids t)))),
     (''revoked_lease_ids'', JArr (map JStr (sorted_set (vt_revoked_lease_ids t)))),
     (''revoked_receipt_ids'', JArr (map JStr (sorted_set (vt_revoked_receipt_ids t))))]"

definition verifier_snapshot_id :: "externals \<Rightarrow> verifier_trust_store \<Rightarrow> digest result" where
  "verifier_snapshot_id X t = content_id X ''verifier_trust_snapshot'' (verifier_snapshot_body t)"

section \<open>Reading a trust snapshot\<close>

fun is_verification_error :: "exn \<Rightarrow> bool" where
  "is_verification_error (VerificationError c m) = True"
| "is_verification_error _ = False"

abbreviation invalid_snapshot :: "string \<Rightarrow> exn" where
  "invalid_snapshot \<equiv> VerificationError ''invalid_trust_snapshot''"

definition TRUST_KEY_FIELDS :: "pystr list" where
  "TRUST_KEY_FIELDS = [''key_id'', ''public_key_b64'', ''roles'', ''verifier_id'']"

definition TRUST_SNAPSHOT_FIELDS :: "pystr list" where
  "TRUST_SNAPSHOT_FIELDS = [''keys'', ''revoked_key_ids'', ''revoked_lease_ids'', ''revoked_receipt_ids'']"

definition snapshot_key_entry :: "externals \<Rightarrow> json \<Rightarrow> trusted_verifier_key result" where
  "snapshot_key_entry X entry =
     (let roles = member ''roles'' entry in
      bindR (seqR [
        requireR (has_keys entry TRUST_KEY_FIELDS) (invalid_snapshot ''trust snapshot key entry is malformed''),
        requireR (is_JStr (member ''key_id'' entry) \<and> key_id_text (jstr (member ''key_id'' entry)) \<and>
                  is_JStr (member ''public_key_b64'' entry) \<and> codepoints (jstr (member ''public_key_b64'' entry)) = 44 \<and>
                  is_JArr roles \<and> arr_items roles \<noteq> [] \<and> length (arr_items roles) \<le> MAX_VERIFIER_ROLES \<and>
                  list_all (\<lambda>r. is_JStr r \<and> identity_text (jstr r) \<and> stripped (jstr r)) (arr_items roles) \<and>
                  canonical_order (jstrs roles) \<and>
                  is_JStr (member ''verifier_id'' entry) \<and> identity_text (jstr (member ''verifier_id'' entry)) \<and>
                  stripped (jstr (member ''verifier_id'' entry)))
          (invalid_snapshot ''trust snapshot key identity or roles are noncanonical'')]) (\<lambda>_.
      case b64decode (jstr (member ''public_key_b64'' entry)) of
        None \<Rightarrow> Inl (invalid_snapshot ''trust snapshot public key is malformed'')
      | Some k \<Rightarrow>
          if \<not> (length k = 32 \<and> JStr (b64encode k) = member ''public_key_b64'' entry \<and>
                verifier_key_id X k = Inr (jstr (member ''key_id'' entry)) \<and> is_valid_ed25519_public_key X k)
          then Inl (invalid_snapshot ''trust snapshot public key identity is malformed'')
          else catchR (trusted_verifier_key_new X (jstr (member ''verifier_id'' entry)) k (jstrs roles))
                 (\<lambda>ex. if is_verification_error ex
                       then Inl (invalid_snapshot ''trust snapshot contains an invalid trusted key'') else Inl ex)))"

definition canonical_identifiers :: "(pystr \<Rightarrow> bool) \<Rightarrow> json \<Rightarrow> exn + unit" where
  "canonical_identifiers pattern v =
     requireR (list_all (\<lambda>x. is_JStr x \<and> pattern (jstr x)) (arr_items v) \<and> canonical_order (jstrs v))
       (invalid_snapshot ''trust snapshot revocations are noncanonical'')"

definition trust_store_from_snapshot_body :: "externals \<Rightarrow> json \<Rightarrow> verifier_trust_store result" where
  "trust_store_from_snapshot_body X body =
     (let keys = member ''keys'' body; revoked_keys = member ''revoked_key_ids'' body;
          revoked_leases = member ''revoked_lease_ids'' body; revoked_receipts = member ''revoked_receipt_ids'' body
      in bindR (seqR [
        requireR (has_keys body TRUST_SNAPSHOT_FIELDS) (invalid_snapshot ''trust snapshot has missing or unknown fields''),
        requireR (is_JArr keys \<and> is_JArr revoked_keys \<and> is_JArr revoked_leases \<and> is_JArr revoked_receipts)
          (invalid_snapshot ''trust snapshot collections must be arrays''),
        requireR (length (arr_items keys) \<le> MAX_TRUSTED_VERIFIER_KEYS)
          (invalid_snapshot ''trust snapshot exceeds the key-count ceiling''),
        requireR (length (arr_items revoked_keys) + length (arr_items revoked_leases) +
                  length (arr_items revoked_receipts) \<le> MAX_VERIFIER_REVOCATIONS)
          (invalid_snapshot ''trust snapshot exceeds the revocation-count ceiling'')]) (\<lambda>_.
      bindR (mapR (snapshot_key_entry X) (arr_items keys)) (\<lambda>trusted_keys.
      bindR (seqR [
        requireR (canonical_order (map (\<lambda>e. jstr (member ''key_id'' e)) (arr_items keys)))
          (invalid_snapshot ''trust snapshot keys are not in unique canonical order''),
        canonical_identifiers key_id_text revoked_keys,
        canonical_identifiers full_digest revoked_leases,
        canonical_identifiers full_digest revoked_receipts]) (\<lambda>_.
      bindR (catchR (verifier_trust_store_from_keys X trusted_keys (jstrs revoked_keys) (jstrs revoked_receipts)
               (jstrs revoked_leases))
             (\<lambda>ex. if is_verification_error ex
                   then Inl (invalid_snapshot ''trust snapshot cannot be reconstructed'') else Inl ex)) (\<lambda>store.
      if norm_json (verifier_snapshot_body store) \<noteq> norm_json body
      then Inl (invalid_snapshot ''trust snapshot body is not canonical'') else Inr store)))))"

definition verifier_trust_from_snapshot :: "externals \<Rightarrow> json \<Rightarrow> digest option \<Rightarrow> verifier_trust_store result" where
  "verifier_trust_from_snapshot X body expected =
     bindR (trust_store_from_snapshot_body X body) (\<lambda>store.
     case expected of
       None \<Rightarrow> Inr store
     | Some i \<Rightarrow>
         if \<not> full_digest i
         then Inl (VerificationError ''invalid_trust_snapshot'' ''expected snapshot ID must be a full sha256 content ID'')
         else bindR (verifier_snapshot_id X store) (\<lambda>actual.
           if actual \<noteq> i
           then Inl (VerificationError ''trust_snapshot_mismatch'' ''trust snapshot ID does not match its canonical body'')
           else Inr store))"

section \<open>Verdicts and observations\<close>

definition verdict_consistency_reason :: "pystr \<Rightarrow> bool \<Rightarrow> bool \<Rightarrow> pystr option" where
  "verdict_consistency_reason verdict effect_observed oracle_satisfied =
     (if verdict = ''confirmed'' then
        (if \<not> effect_observed then Some ''confirmed_without_effect''
         else if \<not> oracle_satisfied then Some ''confirmed_without_oracle'' else None)
      else if verdict = ''not_reproduced'' then
        (if effect_observed \<or> oracle_satisfied then Some ''not_reproduced_with_positive_observation'' else None)
      else if verdict = ''invalid'' then
        (if effect_observed \<or> oracle_satisfied then Some ''invalid_with_positive_observation'' else None)
      else if verdict = ''inconclusive'' \<and> effect_observed \<and> oracle_satisfied
      then Some ''inconclusive_with_confirmed_observation'' else None)"

section \<open>Binding receipts to resolutions\<close>

text \<open>The reason of the first comparison that fails.\<close>

fun first_reason :: "(bool \<times> pystr) list \<Rightarrow> pystr option" where
  "first_reason [] = None"
| "first_reason ((ok, reason) # cs) = (if ok then first_reason cs else Some reason)"

lemma first_reason_None: "first_reason cs = None \<longleftrightarrow> (\<forall>(ok, r) \<in> set cs. ok)"
  by (induction cs rule: first_reason.induct) auto

definition binding_checks :: "pystr \<Rightarrow> artifact_binding \<Rightarrow> digest \<Rightarrow> pystr \<Rightarrow> (bool \<times> pystr) list" where
  "binding_checks role b expected_digest expected_type = [
     (ab_artifact_digest b = expected_digest, ''resolution_'' @ role @ ''_digest_mismatch''),
     (ab_artifact_type b = expected_type, ''resolution_'' @ role @ ''_type_mismatch''),
     (0 < ab_size b, ''resolution_'' @ role @ ''_empty'')]"

definition evidence_checks :: "artifact_resolution \<Rightarrow> verification_lease \<Rightarrow> (bool \<times> pystr) list" where
  "evidence_checks r l = concat (map (\<lambda>(i, b, d). binding_checks (''evidence_'' @ nat_str i) b d EVIDENCE_TYPE)
     (zip [0..<length (ar_evidence_artifacts r)] (zip (ar_evidence_artifacts r) (vl_evidence_artifact_digests l))))"

definition output_digests :: "verifier_receipt \<Rightarrow> digest list" where
  "output_digests v = [vr_execution_output_digest v, vr_effect_output_digest v,
     vr_measured_environment_output_digest v, vr_termination_output_digest v]"

definition artifact_resolution_binding_reason ::
  "artifact_resolution \<Rightarrow> verification_lease \<Rightarrow> verifier_receipt \<Rightarrow> int \<Rightarrow> pystr option" where
  "artifact_resolution_binding_reason r l v decision_time = first_reason (
     [(vr_artifact_resolution_id v = ar_resolution_id r, ''artifact_resolution_mismatch''),
      (ar_verification_lease_id r = vl_lease_id l, ''resolution_lease_mismatch''),
      (ar_mission_id r = vl_mission_id l, ''resolution_mission_mismatch''),
      (ar_authority_id r = vl_authority_id l, ''resolution_authority_mismatch''),
      (ar_target_snapshot_id r = vl_target_snapshot_id l, ''resolution_target_mismatch''),
      (ar_candidate_id r = vl_candidate_id l, ''resolution_candidate_mismatch''),
      (vl_issued_at l \<le> ar_resolved_at r, ''resolution_before_lease''),
      (ar_resolved_at r < vl_expires_at l, ''resolution_after_expiry''),
      (ar_resolved_at r < vr_completed_at v, ''resolution_after_receipt''),
      (ar_resolved_at r \<le> decision_time, ''resolution_from_future''),
      (length (ar_evidence_artifacts r) = length (vl_evidence_artifact_digests l), ''resolution_evidence_artifacts_mismatch'')] @
     binding_checks ''poc'' (ar_poc_artifact r) (vl_poc_artifact_digest l) POC_TYPE @
     evidence_checks r l @
     binding_checks ''environment'' (ar_environment_artifact r) (vl_environment_digest l) ENVIRONMENT_TYPE @
     binding_checks ''effect_oracle'' (ar_effect_oracle_artifact r) (vl_effect_oracle_id l) EFFECT_ORACLE_TYPE @
     [(set (output_digests v) \<inter> (set (map tb_artifact_digest (ar_target_artifacts r)) \<union> set (singleton_and_evidence r)) = {},
       ''output_resolution_artifact_collision'')])"

section \<open>Authentication\<close>

record authenticated_receipt =
  at_signed_receipt :: signed_receipt
  at_receipt :: verifier_receipt
  at_lease :: verification_lease
  at_artifact_resolution :: artifact_resolution
  at_decision_trust_snapshot_id :: digest

definition authenticated_receipt_new ::
  "externals \<Rightarrow> signed_receipt \<Rightarrow> verifier_receipt \<Rightarrow> verification_lease \<Rightarrow> artifact_resolution \<Rightarrow> digest \<Rightarrow>
   authenticated_receipt result" where
  "authenticated_receipt_new X signed v l r snapshot_id =
     bindR (validate_digest ''decision_trust_snapshot_id'' (JStr snapshot_id)) (\<lambda>_.
     bindR (if sr_key_id signed \<noteq> vr_verifier_key_id v then Inr False
            else bindR (receipt_to_envelope X v) (\<lambda>e.
                 bindR (envelope_to_bytes X e) (\<lambda>b. Inr (sr_envelope_bytes signed = b)))) (\<lambda>same.
     if \<not> same
     then Inl (VerificationError ''invalid_authenticated_receipt''
            ''signed_receipt and receipt do not describe the same attested value'')
     else if artifact_resolution_binding_reason r l v MAX_EPOCH_SECOND \<noteq> None
     then Inl (VerificationError ''invalid_authenticated_receipt''
            ''receipt, lease, and artifact resolution are internally incoherent'')
     else Inr \<lparr>at_signed_receipt = signed, at_receipt = v, at_lease = l, at_artifact_resolution = r,
              at_decision_trust_snapshot_id = snapshot_id\<rparr>))"

datatype raw_receipt =
    RawReceipt signed_receipt
  | RawReceiptWire bytes
  | RawReceiptMapping "(pystr \<times> pyval) list"
  | RawReceiptOther

fun parse_signed_receipt :: "externals \<Rightarrow> raw_receipt \<Rightarrow> signed_receipt result" where
  "parse_signed_receipt X (RawReceipt s) = Inr s"
| "parse_signed_receipt X (RawReceiptWire b) = signed_receipt_from_bytes X b"
| "parse_signed_receipt X RawReceiptOther =
     Inl (VerificationError ''unsigned_receipt'' ''verification input must be a signed receipt'')"
| "parse_signed_receipt X (RawReceiptMapping raw) =
     (if ''signature_b64'' \<notin> fst ` set raw
      then Inl (VerificationError ''unsigned_receipt'' ''verification input has no detached signature'')
      else if fst ` set raw \<noteq> {''envelope_bytes'', ''key_id'', ''signature_b64''}
      then Inl (VerificationError ''malformed_signed_receipt'' ''signed receipt has missing or unknown fields'')
      else signed_receipt_new (raw_field raw ''envelope_bytes'') (raw_field raw ''key_id'') (raw_field raw ''signature_b64''))"

text \<open>\<open>_protocol_reason\<close>\<close>

fun receipt_protocol_reason :: "exn \<Rightarrow> pystr" where
  "receipt_protocol_reason (ProtocolError code m) =
     (if code = ''object_id_mismatch'' then ''object_id_mismatch'' else ''invalid_envelope'')"
| "receipt_protocol_reason _ = ''invalid_envelope''"

definition decode_signed_receipt :: "externals \<Rightarrow> signed_receipt \<Rightarrow> verifier_receipt result" where
  "decode_signed_receipt X signed =
     catchR (bindR (envelope_from_bytes X (sr_envelope_bytes signed)) (\<lambda>e.
             bindR (envelope_to_bytes X e) (\<lambda>b.
             if b \<noteq> sr_envelope_bytes signed
             then Inl (VerificationError ''noncanonical_envelope'' ''receipt envelope bytes are noncanonical'')
             else receipt_from_envelope X e)))
       (\<lambda>ex. if is_protocol_error ex
             then Inl (VerificationError (receipt_protocol_reason ex) ''receipt envelope violates protocol v1'')
             else Inl ex)"

text \<open>The comparisons of a receipt with its lease, in source order.\<close>

definition lease_comparisons :: "verifier_receipt \<Rightarrow> verification_lease \<Rightarrow> (bool \<times> pystr) list" where
  "lease_comparisons v l = [
     (vr_lease_id v = vl_lease_id l, ''lease_mismatch''),
     (vr_mission_id v = vl_mission_id l, ''mission_mismatch''),
     (vr_authority_id v = vl_authority_id l, ''authority_mismatch''),
     (vr_target_snapshot_id v = vl_target_snapshot_id l, ''target_mismatch''),
     (vr_candidate_id v = vl_candidate_id l, ''candidate_mismatch''),
     (vr_candidate_producer_id v = vl_candidate_producer_id l, ''candidate_producer_mismatch''),
     (vr_poc_artifact_digest v = vl_poc_artifact_digest l, ''poc_artifact_mismatch''),
     (vr_evidence_artifact_digests v = vl_evidence_artifact_digests l, ''evidence_artifacts_mismatch''),
     (vr_environment_digest v = vl_environment_digest l, ''environment_mismatch''),
     (vr_effect_oracle_id v = vl_effect_oracle_id l, ''effect_oracle_mismatch''),
     (vr_verifier_id v = vl_verifier_id l, ''verifier_mismatch''),
     (vr_verifier_key_id v = vl_verifier_key_id l, ''verifier_key_mismatch'')]"

definition reason_check :: "pystr option \<Rightarrow> string \<Rightarrow> exn + unit" where
  "reason_check reason m = (case reason of None \<Rightarrow> Inr () | Some c \<Rightarrow> Inl (VerificationError c m))"

text \<open>The checks of \<open>authenticate_verifier_receipt\<close> on the decoded receipt.\<close>

definition check_receipt ::
  "verifier_trust_store \<Rightarrow> signed_receipt \<Rightarrow> trusted_verifier_key \<Rightarrow> verifier_receipt \<Rightarrow> verification_lease \<Rightarrow>
   artifact_resolution \<Rightarrow> int \<Rightarrow> pystr option \<Rightarrow> exn + unit" where
  "check_receipt trust signed key v l r decision_time expected_verdict = seqR [
     requireR (vr_receipt_id v \<notin> set (vt_revoked_receipt_ids trust))
       (VerificationError ''receipt_revoked'' ''verifier receipt is revoked''),
     requireR (vr_verifier_key_id v = sr_key_id signed)
       (VerificationError ''signer_key_mismatch'' ''receipt verifier key differs from its attestation''),
     requireR (vr_verifier_id v = tv_verifier_id key)
       (VerificationError ''verifier_identity_mismatch'' ''receipt verifier identity differs from the trusted key''),
     reason_check (first_reason (lease_comparisons v l)) ''receipt differs from the verification lease'',
     requireR (vl_issued_at l \<le> vr_completed_at v)
       (VerificationError ''receipt_before_lease'' ''receipt completion precedes lease issuance''),
     requireR (vr_completed_at v < vl_expires_at l)
       (VerificationError ''receipt_after_expiry'' ''receipt completion is outside the lease window''),
     requireR (vr_completed_at v \<le> decision_time)
       (VerificationError ''receipt_from_future'' ''receipt completion is later than decision time''),
     requireR (vr_evidence_tier v = MODELED_FIXTURE_TIER)
       (VerificationError ''unsupported_evidence_tier'' ''only modeled_fixture evidence is admitted''),
     requireR (case expected_verdict of None \<Rightarrow> True | Some e \<Rightarrow> vr_verdict v = e)
       (VerificationError ''verdict_mismatch'' ''signed receipt verdict differs from the expected verdict''),
     reason_check (verdict_consistency_reason (vr_verdict v) (vr_effect_observed v) (vr_oracle_satisfied v))
       ''receipt verdict and observations are inconsistent'',
     reason_check (artifact_resolution_binding_reason r l v decision_time)
       ''receipt does not bind the exact verification artifact resolution'']"

definition authenticate_verifier_receipt ::
  "externals \<Rightarrow> raw_receipt \<Rightarrow> verifier_trust_store \<Rightarrow> verification_lease \<Rightarrow> artifact_resolution \<Rightarrow> int \<Rightarrow>
   pystr option \<Rightarrow> authenticated_receipt result" where
  "authenticate_verifier_receipt X raw trust l r decision_time expected_verdict =
     bindR (seqR [
       requireR (0 \<le> decision_time \<and> decision_time \<le> MAX_EPOCH_SECOND)
         (VerificationError ''invalid_decision_time'' ''decision_time must be a nonnegative int64 epoch second''),
       requireR (case expected_verdict of None \<Rightarrow> True | Some e \<Rightarrow> e \<in> set VERDICTS)
         (VerificationError ''invalid_expected_verdict'' ''expected_verdict must be None or a supported verdict'')]) (\<lambda>_.
     bindR (parse_signed_receipt X raw) (\<lambda>signed.
     bindR (seqR [
       requireR (vl_candidate_producer_id l \<noteq> vl_verifier_id l)
         (VerificationError ''self_verification'' ''candidate producer cannot verify its own candidate''),
       requireR (vl_lease_id l \<notin> set (vt_revoked_lease_ids trust))
         (VerificationError ''lease_revoked'' ''verification lease is revoked''),
       requireR (vl_issued_at l \<le> decision_time)
         (VerificationError ''lease_not_yet_valid'' ''verification lease is not yet valid''),
       requireR (decision_time < vl_expires_at l)
         (VerificationError ''lease_expired'' ''verification lease is expired''),
       requireR (sr_key_id signed \<notin> set (vt_revoked_key_ids trust))
         (VerificationError ''key_revoked'' ''verifier key is revoked'')]) (\<lambda>_.
     case map_of (vt_keys trust) (sr_key_id signed) of
       None \<Rightarrow> Inl (VerificationError ''unknown_key'' ''verifier key is not trusted'')
     | Some key \<Rightarrow>
         if VERIFIER_ROLE \<notin> set (tv_roles key)
         then Inl (VerificationError ''key_missing_verifier_role'' ''verifier key lacks the required role'')
         else (case (if signature_text (sr_signature_b64 signed) then b64decode (sr_signature_b64 signed) else None) of
           None \<Rightarrow> Inl (VerificationError ''malformed_signature'' ''verifier signature is malformed'')
         | Some signature \<Rightarrow>
             if \<not> signature_verifies X (tv_public_key_bytes key) signature (RECEIPT_SIGNATURE_DOMAIN @ sr_envelope_bytes signed)
             then Inl (VerificationError ''invalid_signature'' ''verifier signature is invalid'')
             else bindR (decode_signed_receipt X signed) (\<lambda>v.
               bindR (check_receipt trust signed key v l r decision_time expected_verdict) (\<lambda>_.
               bindR (verifier_snapshot_id X trust) (\<lambda>snapshot_id.
                 authenticated_receipt_new X signed v l r snapshot_id)))))))"

section \<open>Output bindings\<close>

record output_artifacts =
  oa_execution :: artifact_binding
  oa_effect :: artifact_binding
  oa_measured_environment :: artifact_binding
  oa_termination :: artifact_binding

definition output_list :: "output_artifacts \<Rightarrow> artifact_binding list" where
  "output_list outs = [oa_execution outs, oa_effect outs, oa_measured_environment outs, oa_termination outs]"

definition output_total_bytes :: "output_artifacts \<Rightarrow> int" where
  "output_total_bytes outs = sum_list (map ab_size (output_list outs))"

definition output_artifacts_new :: "output_artifacts \<Rightarrow> output_artifacts result" where
  "output_artifacts_new outs =
     bindR (seqR [
       requireR (map ab_artifact_type (output_list outs) =
                 [EXECUTION_OUTPUT_TYPE, EFFECT_OUTPUT_TYPE, MEASURED_ENVIRONMENT_OUTPUT_TYPE, TERMINATION_OUTPUT_TYPE])
         (VerificationError ''invalid_verification_output_binding''
            ''verification output binding has the wrong code-owned type''),
       requireR (distinct (map ab_artifact_digest (output_list outs)))
         (VerificationError ''output_artifact_role_collision''
            ''verification output roles must use distinct content identities''),
       requireR (output_total_bytes outs \<le> MAX_TYPED_VERIFICATION_OUTPUT_BYTES_V1)
         (VerificationError ''verification_output_byte_ceiling_exceeded''
            ''verification outputs exceed the fixed aggregate byte ceiling'')]) (\<lambda>_. Inr outs)"

section \<open>What a clear binding reason means\<close>

lemma binding_checks_ok:
  "(\<forall>(ok, m) \<in> set (binding_checks role b d t). ok) \<longleftrightarrow> ab_artifact_digest b = d \<and> ab_artifact_type b = t \<and> 0 < ab_size b"
  by (auto simp: binding_checks_def)

lemma evidence_checks_ok:
  assumes "length (ar_evidence_artifacts r) = length (vl_evidence_artifact_digests l)"
  shows "(\<forall>(ok, m) \<in> set (evidence_checks r l). ok) \<longleftrightarrow>
    evidence_digests r = vl_evidence_artifact_digests l \<and>
    (\<forall>b \<in> set (ar_evidence_artifacts r). ab_artifact_type b = EVIDENCE_TYPE \<and> 0 < ab_size b)"
proof -
  let ?bs = "ar_evidence_artifacts r" and ?ds = "vl_evidence_artifact_digests l"
  have z: "set (zip [0..<length ?bs] (zip ?bs ?ds)) = {(i, ?bs ! i, ?ds ! i) | i. i < length ?bs}"
    (is "?l = ?r")
  proof
    show "?l \<subseteq> ?r" using assms by (auto simp: set_zip)
    show "?r \<subseteq> ?l"
    proof
      fix x assume "x \<in> ?r"
      then obtain i where i: "i < length ?bs" and x: "x = (i, ?bs ! i, ?ds ! i)" by blast
      have "zip [0..<length ?bs] (zip ?bs ?ds) ! i = x" using i x assms by simp
      moreover have "i < length (zip [0..<length ?bs] (zip ?bs ?ds))" using i assms by simp
      ultimately show "x \<in> ?l" by (metis nth_mem)
    qed
  qed
  have "(\<forall>(ok, m) \<in> set (evidence_checks r l). ok) \<longleftrightarrow>
      (\<forall>y \<in> set (zip [0..<length ?bs] (zip ?bs ?ds)). \<forall>(ok, m) \<in> set ((\<lambda>(i, b, d).
         binding_checks (''evidence_'' @ nat_str i) b d EVIDENCE_TYPE) y). ok)"
    unfolding evidence_checks_def set_concat set_map by simp
  also have "\<dots> \<longleftrightarrow>
      (\<forall>i < length ?bs. \<forall>(ok, m) \<in> set (binding_checks (''evidence_'' @ nat_str i) (?bs ! i) (?ds ! i) EVIDENCE_TYPE). ok)"
    unfolding z by fastforce
  also have "\<dots> \<longleftrightarrow> (\<forall>i < length ?bs. ab_artifact_digest (?bs ! i) = ?ds ! i \<and>
      ab_artifact_type (?bs ! i) = EVIDENCE_TYPE \<and> 0 < ab_size (?bs ! i))"
    unfolding binding_checks_ok ..
  also have "\<dots> \<longleftrightarrow> map ab_artifact_digest ?bs = ?ds \<and>
      (\<forall>b \<in> set ?bs. ab_artifact_type b = EVIDENCE_TYPE \<and> 0 < ab_size b)"
    using assms by (auto simp: list_eq_iff_nth_eq all_set_conv_all_nth)
  finally show ?thesis by (simp add: evidence_digests_def)
qed

lemma binding_reason_None:
  "artifact_resolution_binding_reason r l v t = None \<longleftrightarrow>
     vr_artifact_resolution_id v = ar_resolution_id r \<and> ar_verification_lease_id r = vl_lease_id l \<and>
     ar_mission_id r = vl_mission_id l \<and> ar_authority_id r = vl_authority_id l \<and>
     ar_target_snapshot_id r = vl_target_snapshot_id l \<and> ar_candidate_id r = vl_candidate_id l \<and>
     vl_issued_at l \<le> ar_resolved_at r \<and> ar_resolved_at r < vl_expires_at l \<and>
     ar_resolved_at r < vr_completed_at v \<and> ar_resolved_at r \<le> t \<and>
     ab_artifact_digest (ar_poc_artifact r) = vl_poc_artifact_digest l \<and> ab_artifact_type (ar_poc_artifact r) = POC_TYPE \<and>
     0 < ab_size (ar_poc_artifact r) \<and>
     evidence_digests r = vl_evidence_artifact_digests l \<and>
     (\<forall>b \<in> set (ar_evidence_artifacts r). ab_artifact_type b = EVIDENCE_TYPE \<and> 0 < ab_size b) \<and>
     ab_artifact_digest (ar_environment_artifact r) = vl_environment_digest l \<and>
     ab_artifact_type (ar_environment_artifact r) = ENVIRONMENT_TYPE \<and> 0 < ab_size (ar_environment_artifact r) \<and>
     ab_artifact_digest (ar_effect_oracle_artifact r) = vl_effect_oracle_id l \<and>
     ab_artifact_type (ar_effect_oracle_artifact r) = EFFECT_ORACLE_TYPE \<and> 0 < ab_size (ar_effect_oracle_artifact r) \<and>
     set (output_digests v) \<inter> (set (map tb_artifact_digest (ar_target_artifacts r)) \<union> set (singleton_and_evidence r)) = {}"
proof (cases "length (ar_evidence_artifacts r) = length (vl_evidence_artifact_digests l)")
  case True
  show ?thesis
    unfolding artifact_resolution_binding_reason_def first_reason_None set_append ball_Un binding_checks_ok
      evidence_checks_ok [OF True] using True by simp
next
  case False
  then have "evidence_digests r \<noteq> vl_evidence_artifact_digests l" by (metis evidence_digests_def length_map)
  with False show ?thesis
    unfolding artifact_resolution_binding_reason_def first_reason_None set_append ball_Un by simp
qed

lemma binding_reason_later:
  "artifact_resolution_binding_reason r l v t = None \<Longrightarrow> t \<le> t' \<Longrightarrow> artifact_resolution_binding_reason r l v t' = None"
  unfolding binding_reason_None by linarith

lemma reason_check_eq_Inr [result_simps]: "reason_check reason m = Inr u \<longleftrightarrow> reason = None"
  by (auto simp: reason_check_def split: option.splits)

lemma check_receiptD:
  assumes "check_receipt trust signed key v l r t ev = Inr ()"
  shows "vr_receipt_id v \<notin> set (vt_revoked_receipt_ids trust)" and "vr_verifier_key_id v = sr_key_id signed"
    and "vr_verifier_id v = tv_verifier_id key" and "first_reason (lease_comparisons v l) = None"
    and "vl_issued_at l \<le> vr_completed_at v" and "vr_completed_at v < vl_expires_at l" and "vr_completed_at v \<le> t"
    and "vr_evidence_tier v = MODELED_FIXTURE_TIER"
    and "verdict_consistency_reason (vr_verdict v) (vr_effect_observed v) (vr_oracle_satisfied v) = None"
    and "artifact_resolution_binding_reason r l v t = None"
  using assms unfolding check_receipt_def result_simps by blast+

lemma lease_comparisons_None:
  "first_reason (lease_comparisons v l) = None \<longleftrightarrow>
     vr_lease_id v = vl_lease_id l \<and> vr_mission_id v = vl_mission_id l \<and> vr_authority_id v = vl_authority_id l \<and>
     vr_target_snapshot_id v = vl_target_snapshot_id l \<and> vr_candidate_id v = vl_candidate_id l \<and>
     vr_candidate_producer_id v = vl_candidate_producer_id l \<and> vr_poc_artifact_digest v = vl_poc_artifact_digest l \<and>
     vr_evidence_artifact_digests v = vl_evidence_artifact_digests l \<and> vr_environment_digest v = vl_environment_digest l \<and>
     vr_effect_oracle_id v = vl_effect_oracle_id l \<and> vr_verifier_id v = vl_verifier_id l \<and>
     vr_verifier_key_id v = vl_verifier_key_id l"
  by (simp add: lease_comparisons_def first_reason_None)

lemma decode_signed_receiptD:
  assumes "decode_signed_receipt X signed = Inr v"
  obtains e where "envelope_from_bytes X (sr_envelope_bytes signed) = Inr e" and "receipt_from_envelope X e = Inr v"
  using assms by (auto simp: decode_signed_receipt_def catchR_def bindR_eq_Inr split: sum.splits if_splits)

lemma authenticateE:
  assumes "authenticate_verifier_receipt X raw trust l r t ev = Inr a"
  obtains signed key s v i where "parse_signed_receipt X raw = Inr signed"
    and "0 \<le> t" and "t \<le> MAX_EPOCH_SECOND"
    and "vl_candidate_producer_id l \<noteq> vl_verifier_id l" and "vl_lease_id l \<notin> set (vt_revoked_lease_ids trust)"
    and "vl_issued_at l \<le> t" and "t < vl_expires_at l" and "sr_key_id signed \<notin> set (vt_revoked_key_ids trust)"
    and "map_of (vt_keys trust) (sr_key_id signed) = Some key" and "VERIFIER_ROLE \<in> set (tv_roles key)"
    and "b64decode (sr_signature_b64 signed) = Some s"
    and "signature_verifies X (tv_public_key_bytes key) s (RECEIPT_SIGNATURE_DOMAIN @ sr_envelope_bytes signed)"
    and "decode_signed_receipt X signed = Inr v" and "check_receipt trust signed key v l r t ev = Inr ()"
    and "verifier_snapshot_id X trust = Inr i" and "authenticated_receipt_new X signed v l r i = Inr a"
proof -
  note u = assms [unfolded authenticate_verifier_receipt_def bindR_eq_Inr seqR_Cons_eq_Inr requireR_eq_Inr]
  from u obtain signed where p: "parse_signed_receipt X raw = Inr signed" "0 \<le> t" "t \<le> MAX_EPOCH_SECOND"
    "vl_candidate_producer_id l \<noteq> vl_verifier_id l" "vl_lease_id l \<notin> set (vt_revoked_lease_ids trust)"
    "vl_issued_at l \<le> t" "t < vl_expires_at l" "sr_key_id signed \<notin> set (vt_revoked_key_ids trust)"
    and rest: "(case map_of (vt_keys trust) (sr_key_id signed) of
       None \<Rightarrow> Inl (VerificationError ''unknown_key'' ''verifier key is not trusted'')
     | Some key \<Rightarrow>
         if VERIFIER_ROLE \<notin> set (tv_roles key)
         then Inl (VerificationError ''key_missing_verifier_role'' ''verifier key lacks the required role'')
         else (case (if signature_text (sr_signature_b64 signed) then b64decode (sr_signature_b64 signed) else None) of
           None \<Rightarrow> Inl (VerificationError ''malformed_signature'' ''verifier signature is malformed'')
         | Some signature \<Rightarrow>
             if \<not> signature_verifies X (tv_public_key_bytes key) signature (RECEIPT_SIGNATURE_DOMAIN @ sr_envelope_bytes signed)
             then Inl (VerificationError ''invalid_signature'' ''verifier signature is invalid'')
             else bindR (decode_signed_receipt X signed) (\<lambda>v.
               bindR (check_receipt trust signed key v l r t ev) (\<lambda>_.
               bindR (verifier_snapshot_id X trust) (\<lambda>snapshot_id.
                 authenticated_receipt_new X signed v l r snapshot_id))))) = Inr a"
    by blast
  from rest obtain key where k: "map_of (vt_keys trust) (sr_key_id signed) = Some key" "VERIFIER_ROLE \<in> set (tv_roles key)"
    by (auto split: option.splits if_splits)
  with rest obtain s where s: "b64decode (sr_signature_b64 signed) = Some s" "signature_text (sr_signature_b64 signed)"
    by (auto split: option.splits if_splits)
  with rest k have "signature_verifies X (tv_public_key_bytes key) s (RECEIPT_SIGNATURE_DOMAIN @ sr_envelope_bytes signed)"
    and "bindR (decode_signed_receipt X signed) (\<lambda>v.
               bindR (check_receipt trust signed key v l r t ev) (\<lambda>_.
               bindR (verifier_snapshot_id X trust) (\<lambda>snapshot_id.
                 authenticated_receipt_new X signed v l r snapshot_id))) = Inr a"
    by (simp_all split: if_splits)
  with p k s that show thesis by (auto simp: bindR_eq_Inr)
qed

lemma authenticated_receipt_newD:
  assumes "authenticated_receipt_new X signed v l r i = Inr a"
  shows "a = \<lparr>at_signed_receipt = signed, at_receipt = v, at_lease = l, at_artifact_resolution = r,
              at_decision_trust_snapshot_id = i\<rparr>"
  using assms by (auto simp: authenticated_receipt_new_def bindR_eq_Inr split: if_splits)

section \<open>Properties\<close>

text \<open>
  the consistency rule of verdicts as a truth table. A confirmed verdict needs both observations, a
  \<open>not_reproduced\<close> or \<open>invalid\<close> verdict neither, and an inconclusive one must not have both; no pair of
  observations is consistent with both a confirmed and another verdict.
\<close>

theorem verdict_consistency_table:
  "(verdict_consistency_reason ''confirmed'' eo os = None \<longleftrightarrow> eo \<and> os) \<and>
   (verdict_consistency_reason ''not_reproduced'' eo os = None \<longleftrightarrow> \<not> eo \<and> \<not> os) \<and>
   (verdict_consistency_reason ''invalid'' eo os = None \<longleftrightarrow> \<not> eo \<and> \<not> os) \<and>
   (verdict_consistency_reason ''inconclusive'' eo os = None \<longleftrightarrow> \<not> (eo \<and> os))"
  by (simp add: verdict_consistency_reason_def)

text \<open>
  C11: an authenticated receipt was signed by a trusted, unrevoked key with the verifier role that the lease
  assigned, by a verifier that did not produce the candidate; every binding of the receipt is the one of
  the lease, the resolution holds exactly the predeclared artifacts, the outputs are new content, the
  times are ordered (issued, resolved, completed, decided, expires), and the verdict fits the
  observations.
\<close>

theorem authenticate_sound:
  assumes "authenticate_verifier_receipt X raw trust l r t ev = Inr a"
  shows "\<exists>signed key s v i.
    a = \<lparr>at_signed_receipt = signed, at_receipt = v, at_lease = l, at_artifact_resolution = r,
         at_decision_trust_snapshot_id = i\<rparr> \<and>
    verifier_snapshot_id X trust = Inr i \<and>
    parse_signed_receipt X raw = Inr signed \<and> decode_signed_receipt X signed = Inr v \<and>
    map_of (vt_keys trust) (vl_verifier_key_id l) = Some key \<and> sr_key_id signed = vl_verifier_key_id l \<and>
    tv_verifier_id key = vl_verifier_id l \<and> vl_verifier_id l \<noteq> vl_candidate_producer_id l \<and>
    VERIFIER_ROLE \<in> set (tv_roles key) \<and> b64decode (sr_signature_b64 signed) = Some s \<and>
    signature_verifies X (tv_public_key_bytes key) s (RECEIPT_SIGNATURE_DOMAIN @ sr_envelope_bytes signed) \<and>
    vl_verifier_key_id l \<notin> set (vt_revoked_key_ids trust) \<and> vl_lease_id l \<notin> set (vt_revoked_lease_ids trust) \<and>
    vr_receipt_id v \<notin> set (vt_revoked_receipt_ids trust) \<and>
    vr_lease_id v = vl_lease_id l \<and> vr_mission_id v = vl_mission_id l \<and> vr_authority_id v = vl_authority_id l \<and>
    vr_target_snapshot_id v = vl_target_snapshot_id l \<and> vr_candidate_id v = vl_candidate_id l \<and>
    vr_artifact_resolution_id v = ar_resolution_id r \<and> ar_verification_lease_id r = vl_lease_id l \<and>
    evidence_digests r = vl_evidence_artifact_digests l \<and>
    singleton_and_evidence r = vl_poc_artifact_digest l # vl_environment_digest l # vl_effect_oracle_id l #
      vl_evidence_artifact_digests l \<and>
    set (output_digests v) \<inter> set (singleton_and_evidence r) = {} \<and>
    vl_issued_at l \<le> ar_resolved_at r \<and> ar_resolved_at r < vr_completed_at v \<and> vr_completed_at v \<le> t \<and>
    t < vl_expires_at l \<and>
    verdict_consistency_reason (vr_verdict v) (vr_effect_observed v) (vr_oracle_satisfied v) = None"
proof -
  from assms obtain signed key s v i where k: "parse_signed_receipt X raw = Inr signed"
    and p: "vl_candidate_producer_id l \<noteq> vl_verifier_id l" "vl_lease_id l \<notin> set (vt_revoked_lease_ids trust)"
    and t: "t < vl_expires_at l" and key: "sr_key_id signed \<notin> set (vt_revoked_key_ids trust)"
      "map_of (vt_keys trust) (sr_key_id signed) = Some key" "VERIFIER_ROLE \<in> set (tv_roles key)"
      "b64decode (sr_signature_b64 signed) = Some s"
      "signature_verifies X (tv_public_key_bytes key) s (RECEIPT_SIGNATURE_DOMAIN @ sr_envelope_bytes signed)"
    and v: "decode_signed_receipt X signed = Inr v" and c: "check_receipt trust signed key v l r t ev = Inr ()"
    and i: "verifier_snapshot_id X trust = Inr i" and a: "authenticated_receipt_new X signed v l r i = Inr a"
    by (rule authenticateE)
  note d = check_receiptD [OF c]
  note cmp = d(4)[unfolded lease_comparisons_None] and bind = d(10)[unfolded binding_reason_None]
  have id: "sr_key_id signed = vl_verifier_key_id l" using d(2) cmp by simp
  show ?thesis
    by (intro exI [of _ signed] exI [of _ key] exI [of _ s] exI [of _ v] exI [of _ i] conjI)
      (use k p t key v i authenticated_receipt_newD [OF a] d(1,3,7,9) cmp bind id in
        \<open>auto simp: singleton_and_evidence_def\<close>)
qed

text \<open>
  C35: the coherence checks that \<open>AuthenticatedVerifierReceiptV1\<close> repeats at construction never refuse
  a receipt that passed authentication: the result is returned.
\<close>

theorem authenticate_returns:
  assumes "parse_signed_receipt X raw = Inr signed" and "0 \<le> t" and "t \<le> MAX_EPOCH_SECOND"
    and "case ev of None \<Rightarrow> True | Some e \<Rightarrow> e \<in> set VERDICTS"
    and "vl_candidate_producer_id l \<noteq> vl_verifier_id l" and "vl_lease_id l \<notin> set (vt_revoked_lease_ids trust)"
    and "vl_issued_at l \<le> t" and "t < vl_expires_at l" and "sr_key_id signed \<notin> set (vt_revoked_key_ids trust)"
    and "map_of (vt_keys trust) (sr_key_id signed) = Some key" and "VERIFIER_ROLE \<in> set (tv_roles key)"
    and "signature_text (sr_signature_b64 signed)" and "b64decode (sr_signature_b64 signed) = Some s"
    and "signature_verifies X (tv_public_key_bytes key) s (RECEIPT_SIGNATURE_DOMAIN @ sr_envelope_bytes signed)"
    and "decode_signed_receipt X signed = Inr v" and "check_receipt trust signed key v l r t ev = Inr ()"
    and "verifier_snapshot_id X trust = Inr i" and "full_digest i"
  shows "authenticate_verifier_receipt X raw trust l r t ev =
    Inr \<lparr>at_signed_receipt = signed, at_receipt = v, at_lease = l, at_artifact_resolution = r,
         at_decision_trust_snapshot_id = i\<rparr>"
proof -
  note d = check_receiptD [OF assms(16)]
  from assms(15) obtain e where e: "envelope_from_bytes X (sr_envelope_bytes signed) = Inr e" "receipt_from_envelope X e = Inr v"
    by (rule decode_signed_receiptD)
  from receipt.object_determines_bytes [OF e] obtain e' where "receipt_to_envelope X v = Inr e'"
    "envelope_to_bytes X e' = Inr (sr_envelope_bytes signed)" by (auto simp: bindR_eq_Inr)
  then have "authenticated_receipt_new X signed v l r i = Inr \<lparr>at_signed_receipt = signed, at_receipt = v, at_lease = l,
      at_artifact_resolution = r, at_decision_trust_snapshot_id = i\<rparr>"
    using d(2) binding_reason_later [OF d(10) assms(3)] assms(18)
    by (simp add: authenticated_receipt_new_def validate_digest_def digest_value_def requireR_def)
  with assms show ?thesis by (simp add: authenticate_verifier_receipt_def requireR_def)
qed

end
