(* ===== verification/Events_V1.thy ===== *)
theory Events_V1
  imports Verifier_Trust
begin

text \<open>
  \<open>src/etzio/kernel/events_v1.py\<close>: the canonical events of a mission stream. An event carries the chain
  fields and its payload bytes; constructing one runs every check of the payload's kind. The payload
  validation is one definition per event kind.
\<close>

section \<open>Constants\<close>

definition GENESIS_DIGEST :: digest where
  "GENESIS_DIGEST = ''sha256:d97322dec35e47b77b1045b723936e345978b2223804c19f62ac6150cb377a23''"

definition RECEIPT_ADMISSION_PROFILE_V1 :: pystr where
  "RECEIPT_ADMISSION_PROFILE_V1 = ''modeled_fixture_receipt_admission_v1''"
definition CANCELLATION_REASON :: pystr where "CANCELLATION_REASON = ''operator_cancelled''"
definition ACTIVE_LEASE_REASSIGNMENT_REASON :: pystr where
  "ACTIVE_LEASE_REASSIGNMENT_REASON = ''active_lease_superseded''"
definition EXPIRED_LEASE_REASSIGNMENT_REASON :: pystr where
  "EXPIRED_LEASE_REASSIGNMENT_REASON = ''expired_lease_recovery''"
definition CANCELLED_LEASE_REASSIGNMENT_REASON :: pystr where
  "CANCELLED_LEASE_REASSIGNMENT_REASON = ''cancelled_lease_recovery''"
definition MISSION_CLOSED_STATUSES :: "pystr list" where
  "MISSION_CLOSED_STATUSES = [''completed'', ''receipt_coverage_complete'', ''receipt_coverage_incomplete'']"

text \<open>\<open>EVENT_UNIT_BY_KIND_V1\<close> and \<open>EVENT_PAYLOAD_FIELDS_BY_KIND_V1\<close>\<close>

definition EVENT_UNIT_BY_KIND :: "(pystr \<times> pystr) list" where
  "EVENT_UNIT_BY_KIND =
     [(''authority_admitted'', ''AQUILA''), (''mission_admission_refused'', ''AQUILA''), (''mission_opened'', ''ETZIO''),
      (''analysis_lease_issued'', ''AQUILA''), (''verification_lease_issued'', ''AQUILA''),
      (''verification_lease_cancelled'', ''AQUILA''), (''verification_lease_expired'', ''ETZIO''),
      (''verification_lease_reassigned'', ''AQUILA''), (''verification_artifacts_resolved'', ''ETZIO''),
      (''verifier_receipt_admitted'', ''ETZIO''), (''candidate_recorded'', ''VELITES''), (''parse_failed'', ''VELITES''),
      (''scan_completed'', ''VELITES''), (''mission_closed'', ''ETZIO''), (''scan_failed'', ''ETZIO''),
      (''scan_timed_out'', ''ETZIO''), (''scan_cancelled'', ''AQUILA''), (''budget_exhausted'', ''AQUILA'')]"

definition EVENT_PAYLOAD_FIELDS_BY_KIND :: "(pystr \<times> pystr list) list" where
  "EVENT_PAYLOAD_FIELDS_BY_KIND =
     [(''authority_admitted'', [''admission'', ''grant'', ''key_id'', ''signature_b64'']),
      (''mission_admission_refused'', [''reason_code'', ''stage'']),
      (''mission_opened'', [''target_snapshot'']),
      (''analysis_lease_issued'', [''lease'']),
      (''verification_lease_issued'', [''lease'', ''verifier_trust_snapshot'', ''verifier_trust_snapshot_id'']),
      (''verification_lease_cancelled'', [''reason_code'', ''verification_lease_id'']),
      (''verification_lease_expired'', [''verification_lease_id'']),
      (''verification_lease_reassigned'', [''lease'', ''predecessor_verification_lease_id'', ''reason_code'',
         ''verifier_trust_snapshot'', ''verifier_trust_snapshot_id'']),
      (''verification_artifacts_resolved'', [''resolution'']),
      (''verifier_receipt_admitted'', [''adjudication_profile'', ''decision_trust_snapshot'', ''decision_trust_snapshot_id'',
         ''effect_output_artifact'', ''execution_output_artifact'', ''measured_environment_output_artifact'', ''receipt'',
         ''termination_output_artifact'']),
      (''candidate_recorded'', [''candidate'']),
      (''parse_failed'', [''analysis_lease_id'', ''parse_failure'', ''source_artifact_digest'']),
      (''scan_completed'', [''analyzer_version'', ''bytes_scanned'', ''candidate_count'', ''file_count'', ''parse_failure_count'']),
      (''mission_closed'', [''candidate_count'', ''parse_failure_count'', ''status'']),
      (''scan_failed'', [''reason_code'']), (''scan_timed_out'', [''reason_code'']),
      (''scan_cancelled'', [''reason_code'']), (''budget_exhausted'', [''reason_code''])]"

section \<open>Field checks\<close>

abbreviation event_error :: "string \<Rightarrow> exn" where "event_error \<equiv> EventIntegrityError"

definition event_text :: "pystr \<Rightarrow> json \<Rightarrow> exn + unit" where
  "event_text name v = requireR (canonical_text v) (event_error (name @ '' must be non-empty text without edge whitespace''))"

definition event_digest_check :: "pystr \<Rightarrow> json \<Rightarrow> exn + unit" where
  "event_digest_check name v = requireR (digest_value v) (event_error (name @ '' must be a full lowercase sha256 digest''))"

definition event_nonnegative :: "pystr \<Rightarrow> json \<Rightarrow> exn + unit" where
  "event_nonnegative name v =
     requireR (is_JInt v \<and> 0 \<le> jint v) (event_error (name @ '' must be a non-negative integer''))"

definition event_exact_keys :: "pystr \<Rightarrow> json \<Rightarrow> pystr list \<Rightarrow> exn + unit" where
  "event_exact_keys name v expected = seqR [
     requireR (is_JObj v) (event_error (name @ '' must be a JSON object'')),
     requireR (has_keys v expected) (event_error (name @ '' keys differ''))]"

definition event_relative_path :: "json \<Rightarrow> exn + unit" where
  "event_relative_path v = seqR [
     event_text ''relative_path'' v,
     requireR (relative_path_ok (jstr v)) (event_error ''relative_path must be normalized and relative'')]"

text \<open>\<open>except E as exc: raise EventIntegrityError\<close>\<close>

definition wrap_error :: "(exn \<Rightarrow> bool) \<Rightarrow> string \<Rightarrow> 'a result \<Rightarrow> 'a result" where
  "wrap_error caught m r = catchR r (\<lambda>ex. if caught ex then Inl (event_error m) else Inl ex)"

fun is_mission_error :: "exn \<Rightarrow> bool" where
  "is_mission_error (MissionProtocolError m) = True"
| "is_mission_error _ = False"

fun is_evidence_error :: "exn \<Rightarrow> bool" where
  "is_evidence_error (EvidenceError m) = True"
| "is_evidence_error _ = False"

fun is_artifact_error :: "exn \<Rightarrow> bool" where
  "is_artifact_error (VerificationArtifactError c m) = True"
| "is_artifact_error _ = False"

fun is_event_error :: "exn \<Rightarrow> bool" where
  "is_event_error (EventIntegrityError m) = True"
| "is_event_error _ = False"

lemma wrap_error_eq_Inr [result_simps]: "wrap_error caught m r = Inr x \<longleftrightarrow> r = Inr x"
  by (cases r) (auto simp: wrap_error_def)

definition require_nested_envelope :: "externals \<Rightarrow> json \<Rightarrow> pystr \<Rightarrow> pystr \<Rightarrow> envelope result" where
  "require_nested_envelope X payload field expected_kind =
     (if \<not> is_JObj (member field payload)
      then Inl (event_error (field @ '' must be a protocol envelope object''))
      else bindR (wrap_error is_protocol_error (field @ '' is not a valid canonical envelope'')
             (bindR (canonical_dumps X (member field payload)) (envelope_from_bytes X))) (\<lambda>e.
        if env_kind e \<noteq> expected_kind then Inl (event_error (field @ '' must contain a '' @ expected_kind @ '' envelope''))
        else if env_attestations e \<noteq> [] then Inl (event_error (field @ '' envelope must not contain attestations''))
        else Inr e))"

definition is_value_error :: "exn \<Rightarrow> bool" where
  "is_value_error ex \<longleftrightarrow> is_protocol_error ex \<or> is_authority_error ex \<or> is_evidence_error ex \<or> is_verification_error ex \<or> is_adapter_error ex \<or>
     (case ex of ValueError m \<Rightarrow> True | IntegrityError c m \<Rightarrow> True | _ \<Rightarrow> False)"

definition require_signed_verifier_receipt :: "externals \<Rightarrow> json \<Rightarrow> (envelope \<times> signed_receipt) result" where
  "require_signed_verifier_receipt X payload =
     (if \<not> is_JObj (member ''receipt'' payload) then Inl (event_error ''receipt must be a protocol envelope object'')
      else bindR (wrap_error is_value_error ''receipt is not a canonical exactly-one-attested verifier receipt''
             (bindR (canonical_dumps X (member ''receipt'' payload)) (\<lambda>canonical.
              bindR (signed_receipt_from_bytes X canonical) (\<lambda>signed.
              bindR (signed_receipt_to_envelope X signed) (\<lambda>e. Inr (canonical, signed, e)))))) (\<lambda>(canonical, signed, e).
        bindR (envelope_to_bytes X e) (\<lambda>b.
          if b \<noteq> canonical then Inl (event_error ''receipt envelope is not canonical'') else Inr (e, signed))))"

section \<open>Events\<close>

record event =
  ev_protocol_version :: int
  ev_event_version :: int
  ev_mission_id :: digest
  ev_seq :: int
  ev_kind :: pystr
  ev_unit :: pystr
  ev_authority_id :: digest
  ev_target_id :: digest
  ev_decision_time :: int
  ev_payload_bytes :: bytes
  ev_prev_digest :: digest
  ev_event_digest :: digest

section \<open>Payloads, one definition per kind\<close>

text \<open>The signer fields of \<open>authority_admitted\<close>.\<close>

definition authority_signer_fields :: "json \<Rightarrow> exn + unit" where
  "authority_signer_fields payload = seqR [
     event_text ''key_id'' (member ''key_id'' payload),
     requireR (key_id_text (jstr (member ''key_id'' payload))) (event_error ''key_id must identify an Ed25519 public key''),
     event_text ''signature_b64'' (member ''signature_b64'' payload),
     (case b64decode (jstr (member ''signature_b64'' payload)) of
        None \<Rightarrow> Inl (event_error ''signature_b64 must be canonical base64'')
      | Some signature \<Rightarrow>
          requireR (length signature = 64 \<and> b64encode signature = jstr (member ''signature_b64'' payload))
            (event_error ''signature_b64 must encode one canonical Ed25519 signature''))]"

definition validate_authority_admitted :: "externals \<Rightarrow> event \<Rightarrow> json \<Rightarrow> exn + unit" where
  "validate_authority_admitted X ev payload =
     bindR (require_nested_envelope X payload ''admission'' ''authority_admission'') (\<lambda>admission_envelope.
     bindR (require_nested_envelope X payload ''grant'' ''authority_grant'') (\<lambda>grant_envelope.
     bindR (wrap_error is_authority_error ''authority_admitted contains invalid authority evidence''
       (bindR (admission_from_envelope X admission_envelope) (\<lambda>admission.
        bindR (grant_from_envelope X grant_envelope) (\<lambda>grant.
        bindR (signed_grant_from_bytes X (aa_signed_grant_bytes admission)) (\<lambda>signed.
          Inr (admission, grant, signed)))))) (\<lambda>(admission, grant, signed).
     bindR (envelope_to_bytes X grant_envelope) (\<lambda>grant_bytes. seqR [
       requireR (ag_grant_id grant = ev_authority_id ev)
         (event_error ''authority grant object_id does not match event authority_id''),
       requireR (aa_authority_id admission = ev_authority_id ev \<and> aa_target_snapshot_id admission = ev_target_id ev \<and>
                 aa_decision_time admission = ev_decision_time ev \<and>
                 ''static_analysis'' \<in> set (aa_required_actions admission) \<and>
                 ''static_analysis'' \<in> set (ag_permitted_actions grant))
         (event_error ''authority admission does not authorize this event and target''),
       requireR (ag_target_snapshot_id grant = ev_target_id ev \<and> aa_grant_expires_at admission = ag_expires_at grant)
         (event_error ''authority grant does not match the admission and event target''),
       authority_signer_fields payload,
       requireR (aa_signer_key_id admission = jstr (member ''key_id'' payload) \<and>
                 sg_key_id signed = jstr (member ''key_id'' payload) \<and>
                 sg_signature_b64 signed = jstr (member ''signature_b64'' payload) \<and>
                 sg_envelope_bytes signed = grant_bytes)
         (event_error ''authority event fields do not match the self-verifying admission'')]))))"

definition validate_mission_admission_refused :: "json \<Rightarrow> exn + unit" where
  "validate_mission_admission_refused payload = seqR [
     event_text ''reason_code'' (member ''reason_code'' payload),
     bindR (in_string_set (member ''stage'' payload) [''admission'', ''preflight'']) (\<lambda>known.
       requireR known (event_error ''mission admission refusal stage must be admission or preflight''))]"

definition validate_mission_opened :: "externals \<Rightarrow> event \<Rightarrow> json \<Rightarrow> exn + unit" where
  "validate_mission_opened X ev payload =
     bindR (require_nested_envelope X payload ''target_snapshot'' ''target_snapshot'') (\<lambda>e.
     bindR (wrap_error is_evidence_error ''mission_opened contains an invalid target snapshot''
       (target_snapshot_from_envelope X e)) (\<lambda>_.
       requireR (env_object_id e = ev_target_id ev) (event_error ''target snapshot object_id does not match event target_id'')))"

definition validate_analysis_lease_issued :: "externals \<Rightarrow> event \<Rightarrow> json \<Rightarrow> exn + unit" where
  "validate_analysis_lease_issued X ev payload =
     bindR (require_nested_envelope X payload ''lease'' ''analysis_lease'') (\<lambda>e.
     bindR (wrap_error is_mission_error ''analysis_lease_issued contains an invalid lease''
       (analysis_lease_from_envelope X e)) (\<lambda>l. seqR [
       requireR (al_mission_id l = ev_mission_id ev \<and> al_authority_id l = ev_authority_id ev \<and>
                 al_target_snapshot_id l = ev_target_id ev)
         (event_error ''analysis lease does not match the event identities''),
       requireR (al_expires_at l \<le> al_issued_at l + al_max_wallclock_seconds l)
         (event_error ''analysis lease expiry exceeds its wallclock ceiling'')]))"

definition validate_verification_lease_evidence :: "externals \<Rightarrow> event \<Rightarrow> json \<Rightarrow> exn + unit" where
  "validate_verification_lease_evidence X ev payload =
     bindR (require_nested_envelope X payload ''lease'' ''verification_lease'') (\<lambda>e.
     bindR (event_digest_check ''verifier_trust_snapshot_id'' (member ''verifier_trust_snapshot_id'' payload)) (\<lambda>_.
     let snapshot_id = jstr (member ''verifier_trust_snapshot_id'' payload) in
     bindR (wrap_error is_verification_error ''invalid verification evidence''
       (bindR (vlease_from_envelope X e) (\<lambda>l.
        bindR (verifier_trust_from_snapshot X (member ''verifier_trust_snapshot'' payload) (Some snapshot_id)) (\<lambda>trust.
          Inr (l, trust))))) (\<lambda>(l, trust).
     bindR (seqR [
       requireR (vl_mission_id l = ev_mission_id ev \<and> vl_authority_id l = ev_authority_id ev \<and>
                 vl_target_snapshot_id l = ev_target_id ev)
         (event_error ''verification lease does not match the event identities''),
       requireR (vl_issued_at l = ev_decision_time ev)
         (event_error ''verification lease issued_at must equal the event decision_time''),
       requireR (vl_candidate_producer_id l \<noteq> vl_verifier_id l)
         (event_error ''verification lease cannot assign the candidate producer''),
       (case map_of (vt_keys trust) (vl_verifier_key_id l) of
          None \<Rightarrow> Inl (event_error ''verification lease references an unknown verifier key'')
        | Some key \<Rightarrow> seqR [
            requireR (vl_verifier_key_id l \<notin> set (vt_revoked_key_ids trust))
              (event_error ''verification lease references a revoked verifier key''),
            requireR (VERIFIER_ROLE \<in> set (tv_roles key))
              (event_error ''verification lease key lacks the modeled verifier role''),
            requireR (tv_verifier_id key = vl_verifier_id l)
              (event_error ''verification lease verifier identity differs from its trusted key'')]),
       requireR (vl_issuance_trust_snapshot_id l = snapshot_id)
         (event_error ''verification lease does not bind its retained trust snapshot'')]) (\<lambda>_.
     bindR (derive_verification_lease_nonce X (ev_prev_digest ev) (l\<lparr>vl_issuance_trust_snapshot_id := snapshot_id\<rparr>)) (\<lambda>nonce.
       requireR (vl_lease_nonce l = nonce) (event_error ''verification lease nonce is not kernel-derived''))))))"

definition validate_verification_lease_cancelled :: "json \<Rightarrow> exn + unit" where
  "validate_verification_lease_cancelled payload = seqR [
     event_digest_check ''verification_lease_id'' (member ''verification_lease_id'' payload),
     event_text ''reason_code'' (member ''reason_code'' payload),
     requireR (jstr (member ''reason_code'' payload) = CANCELLATION_REASON)
       (event_error ''verification lease cancellation reason must be operator_cancelled'')]"

definition validate_verification_lease_reassigned :: "externals \<Rightarrow> event \<Rightarrow> json \<Rightarrow> exn + unit" where
  "validate_verification_lease_reassigned X ev payload = seqR [
     event_digest_check ''predecessor_verification_lease_id'' (member ''predecessor_verification_lease_id'' payload),
     event_text ''reason_code'' (member ''reason_code'' payload),
     requireR (jstr (member ''reason_code'' payload) \<in>
                {ACTIVE_LEASE_REASSIGNMENT_REASON, CANCELLED_LEASE_REASSIGNMENT_REASON, EXPIRED_LEASE_REASSIGNMENT_REASON})
       (event_error ''verification lease reassignment reason is unsupported''),
     validate_verification_lease_evidence X ev payload]"

definition validate_verification_artifacts_resolved :: "externals \<Rightarrow> event \<Rightarrow> json \<Rightarrow> exn + unit" where
  "validate_verification_artifacts_resolved X ev payload =
     bindR (require_nested_envelope X payload ''resolution'' ''verification_artifact_resolution'') (\<lambda>e.
     bindR (wrap_error is_artifact_error ''verification_artifacts_resolved contains an invalid resolution''
       (resolution_from_envelope X e)) (\<lambda>r. seqR [
       requireR (ar_mission_id r = ev_mission_id ev \<and> ar_authority_id r = ev_authority_id ev \<and>
                 ar_target_snapshot_id r = ev_target_id ev)
         (event_error ''artifact resolution does not match the event identities''),
       requireR (ar_resolved_at r = ev_decision_time ev)
         (event_error ''artifact resolution resolved_at must equal the event decision_time'')]))"

text \<open>The output bindings of a receipt admission, and their comparison with the signed receipt.\<close>

definition decode_outputs :: "json \<Rightarrow> output_artifacts result" where
  "decode_outputs payload =
     bindR (artifact_binding_from_dict (member ''execution_output_artifact'' payload)) (\<lambda>execution.
     bindR (artifact_binding_from_dict (member ''effect_output_artifact'' payload)) (\<lambda>effect.
     bindR (artifact_binding_from_dict (member ''measured_environment_output_artifact'' payload)) (\<lambda>measured.
     bindR (artifact_binding_from_dict (member ''termination_output_artifact'' payload)) (\<lambda>termination.
       output_artifacts_new \<lparr>oa_execution = execution, oa_effect = effect, oa_measured_environment = measured,
         oa_termination = termination\<rparr>))))"

definition outputs_match :: "output_artifacts \<Rightarrow> verifier_receipt \<Rightarrow> bool" where
  "outputs_match outs v \<longleftrightarrow>
     oa_execution outs = \<lparr>ab_artifact_digest = vr_execution_output_digest v, ab_artifact_type = EXECUTION_OUTPUT_TYPE,
       ab_size = vr_execution_output_size v\<rparr> \<and>
     oa_effect outs = \<lparr>ab_artifact_digest = vr_effect_output_digest v, ab_artifact_type = EFFECT_OUTPUT_TYPE,
       ab_size = vr_effect_output_size v\<rparr> \<and>
     oa_measured_environment outs = \<lparr>ab_artifact_digest = vr_measured_environment_output_digest v,
       ab_artifact_type = MEASURED_ENVIRONMENT_OUTPUT_TYPE, ab_size = vr_measured_environment_output_size v\<rparr> \<and>
     oa_termination outs = \<lparr>ab_artifact_digest = vr_termination_output_digest v,
       ab_artifact_type = TERMINATION_OUTPUT_TYPE, ab_size = vr_termination_output_size v\<rparr>"

definition validate_verifier_receipt_admitted :: "externals \<Rightarrow> event \<Rightarrow> json \<Rightarrow> exn + unit" where
  "validate_verifier_receipt_admitted X ev payload =
     bindR (seqR [
       requireR (member ''adjudication_profile'' payload = JStr RECEIPT_ADMISSION_PROFILE_V1)
         (event_error ''verifier receipt admission uses an unsupported adjudication profile''),
       event_digest_check ''decision_trust_snapshot_id'' (member ''decision_trust_snapshot_id'' payload)]) (\<lambda>_.
     let snapshot_id = jstr (member ''decision_trust_snapshot_id'' payload) in
     bindR (wrap_error (\<lambda>ex. is_verification_error ex \<or> is_artifact_error ex \<or> is_protocol_error ex)
              ''verifier_receipt_admitted contains invalid decision evidence''
       (bindR (verifier_trust_from_snapshot X (member ''decision_trust_snapshot'' payload) (Some snapshot_id)) (\<lambda>trust.
        bindR (require_signed_verifier_receipt X payload) (\<lambda>(receipt_envelope, signed).
        bindR (envelope_from_bytes X (sr_envelope_bytes signed)) (\<lambda>unattested.
        bindR (receipt_from_envelope X unattested) (\<lambda>v.
        bindR (decode_outputs payload) (\<lambda>outs. Inr (trust, receipt_envelope, v, outs)))))))) (\<lambda>(trust, receipt_envelope, v, outs).
     bindR (verifier_snapshot_id X trust) (\<lambda>trust_id. seqR [
       requireR (env_object_id receipt_envelope = vr_receipt_id v \<and> vr_mission_id v = ev_mission_id ev \<and>
                 vr_authority_id v = ev_authority_id ev \<and> vr_target_snapshot_id v = ev_target_id ev \<and>
                 vr_completed_at v \<le> ev_decision_time ev \<and> trust_id = snapshot_id)
         (event_error ''verifier receipt admission differs from the event identities or time''),
       requireR (outputs_match outs v)
         (event_error ''verifier receipt admission output bindings differ from the signed receipt'')])))"

definition validate_candidate_recorded :: "externals \<Rightarrow> event \<Rightarrow> json \<Rightarrow> exn + unit" where
  "validate_candidate_recorded X ev payload =
     bindR (require_nested_envelope X payload ''candidate'' ''candidate'') (\<lambda>e.
     bindR (wrap_error is_mission_error ''candidate_recorded contains an invalid candidate''
       (candidate_from_envelope X e)) (\<lambda>c.
       requireR (sc_mission_id c = ev_mission_id ev \<and> sc_authority_id c = ev_authority_id ev \<and>
                 sc_target_snapshot_id c = ev_target_id ev)
         (event_error ''candidate does not match the event identities'')))"

definition PARSE_FAILURE_KEYS :: "pystr list" where
  "PARSE_FAILURE_KEYS = [''column'', ''line'', ''reason_code'', ''relative_path'']"

definition validate_parse_failed :: "json \<Rightarrow> exn + unit" where
  "validate_parse_failed payload =
     (let failure = member ''parse_failure'' payload in seqR [
       event_digest_check ''analysis_lease_id'' (member ''analysis_lease_id'' payload),
       event_digest_check ''source_artifact_digest'' (member ''source_artifact_digest'' payload),
       event_exact_keys ''parse_failure'' failure PARSE_FAILURE_KEYS,
       event_nonnegative ''parse_failure.line'' (member ''line'' failure),
       event_nonnegative ''parse_failure.column'' (member ''column'' failure),
       event_text ''parse_failure.reason_code'' (member ''reason_code'' failure),
       event_relative_path (member ''relative_path'' failure)])"

definition validate_scan_completed :: "json \<Rightarrow> exn + unit" where
  "validate_scan_completed payload = seqR (
     event_text ''analyzer_version'' (member ''analyzer_version'' payload) #
     map (\<lambda>k. event_nonnegative k (member k payload))
       [''bytes_scanned'', ''candidate_count'', ''file_count'', ''parse_failure_count''])"

definition validate_mission_closed :: "json \<Rightarrow> exn + unit" where
  "validate_mission_closed payload = seqR [
     event_nonnegative ''candidate_count'' (member ''candidate_count'' payload),
     event_nonnegative ''parse_failure_count'' (member ''parse_failure_count'' payload),
     event_text ''status'' (member ''status'' payload),
     requireR (jstr (member ''status'' payload) \<in> set MISSION_CLOSED_STATUSES)
       (event_error ''mission_closed status is unsupported'')]"

definition validate_payload :: "externals \<Rightarrow> event \<Rightarrow> json \<Rightarrow> exn + unit" where
  "validate_payload X ev payload =
     (case map_of EVENT_UNIT_BY_KIND (ev_kind ev) of
        None \<Rightarrow> Inl (event_error ''unsupported event kind'')
      | Some expected_unit \<Rightarrow>
          if ev_unit ev \<noteq> expected_unit then Inl (event_error ''events of this kind must be authored by their unit'')
          else bindR (event_exact_keys ''payload'' payload (the (map_of EVENT_PAYLOAD_FIELDS_BY_KIND (ev_kind ev)))) (\<lambda>_.
            if ev_kind ev = ''authority_admitted'' then validate_authority_admitted X ev payload
            else if ev_kind ev = ''mission_admission_refused'' then validate_mission_admission_refused payload
            else if ev_kind ev = ''mission_opened'' then validate_mission_opened X ev payload
            else if ev_kind ev = ''analysis_lease_issued'' then validate_analysis_lease_issued X ev payload
            else if ev_kind ev = ''verification_lease_expired''
            then event_digest_check ''verification_lease_id'' (member ''verification_lease_id'' payload)
            else if ev_kind ev = ''verification_lease_cancelled'' then validate_verification_lease_cancelled payload
            else if ev_kind ev = ''verification_lease_reassigned'' then validate_verification_lease_reassigned X ev payload
            else if ev_kind ev = ''verification_lease_issued'' then validate_verification_lease_evidence X ev payload
            else if ev_kind ev = ''verification_artifacts_resolved''
            then validate_verification_artifacts_resolved X ev payload
            else if ev_kind ev = ''verifier_receipt_admitted'' then validate_verifier_receipt_admitted X ev payload
            else if ev_kind ev = ''candidate_recorded'' then validate_candidate_recorded X ev payload
            else if ev_kind ev = ''parse_failed'' then validate_parse_failed payload
            else if ev_kind ev = ''scan_completed'' then validate_scan_completed payload
            else if ev_kind ev = ''mission_closed'' then validate_mission_closed payload
            else event_text ''reason_code'' (member ''reason_code'' payload)))"

section \<open>Construction and the canonical wire\<close>

definition event_body_with :: "event \<Rightarrow> json \<Rightarrow> json" where
  "event_body_with ev payload = JObj [
     (''authority_id'', JStr (ev_authority_id ev)), (''decision_time'', JInt (ev_decision_time ev)),
     (''kind'', JStr (ev_kind ev)), (''mission_id'', JStr (ev_mission_id ev)), (''payload'', payload),
     (''prev_digest'', JStr (ev_prev_digest ev)), (''seq'', JInt (ev_seq ev)), (''target_id'', JStr (ev_target_id ev)),
     (''unit'', JStr (ev_unit ev))]"

definition event_of_body :: "json \<Rightarrow> bytes \<Rightarrow> digest \<Rightarrow> event" where
  "event_of_body body payload_bytes event_digest =
     \<lparr>ev_protocol_version = PROTOCOL_VERSION, ev_event_version = OBJECT_VERSION,
      ev_mission_id = jstr (member ''mission_id'' body), ev_seq = jint (member ''seq'' body),
      ev_kind = jstr (member ''kind'' body), ev_unit = jstr (member ''unit'' body),
      ev_authority_id = jstr (member ''authority_id'' body), ev_target_id = jstr (member ''target_id'' body),
      ev_decision_time = jint (member ''decision_time'' body), ev_payload_bytes = payload_bytes,
      ev_prev_digest = jstr (member ''prev_digest'' body), ev_event_digest = event_digest\<rparr>"

text \<open>\<open>__post_init__\<close> on the raw members of a body; \<open>event_payload_checks\<close> is its \<open>try\<close> block.\<close>

definition event_header_checks :: "json \<Rightarrow> digest \<Rightarrow> exn + unit" where
  "event_header_checks body event_digest = seqR [
     event_digest_check ''mission_id'' (member ''mission_id'' body),
     event_nonnegative ''seq'' (member ''seq'' body),
     event_text ''kind'' (member ''kind'' body),
     event_text ''unit'' (member ''unit'' body),
     event_digest_check ''authority_id'' (member ''authority_id'' body),
     event_digest_check ''target_id'' (member ''target_id'' body),
     event_nonnegative ''decision_time'' (member ''decision_time'' body),
     event_digest_check ''prev_digest'' (member ''prev_digest'' body),
     event_digest_check ''event_digest'' (JStr event_digest)]"

definition event_payload_checks :: "externals \<Rightarrow> event \<Rightarrow> envelope result" where
  "event_payload_checks X ev =
     wrap_error (\<lambda>ex. is_protocol_error ex \<and> \<not> is_event_error ex) ''event body violates protocol v1''
       (bindR (strict_loads X (ev_payload_bytes ev)) (\<lambda>payload.
        if \<not> is_JObj payload then Inl (event_error ''event payload must be a JSON object'')
        else bindR (canonical_dumps X payload) (\<lambda>again.
        if again \<noteq> ev_payload_bytes ev then Inl (event_error ''payload bytes are not canonical'')
        else bindR (validate_payload X ev payload) (\<lambda>_.
          envelope_create X ''event'' (event_body_with ev payload) (JArr [])))))"

definition event_new :: "externals \<Rightarrow> json \<Rightarrow> bytes \<Rightarrow> digest \<Rightarrow> event result" where
  "event_new X body payload_bytes event_digest =
     bindR (event_header_checks body event_digest) (\<lambda>_.
     let ev = event_of_body body payload_bytes event_digest in
     bindR (event_payload_checks X ev) (\<lambda>e.
       if event_digest \<noteq> env_object_id e
       then Inl (event_error ''event digest does not match the common envelope object_id'') else Inr ev))"

definition event_payload :: "externals \<Rightarrow> event \<Rightarrow> json result" where
  "event_payload X ev =
     bindR (bindR (strict_loads X (ev_payload_bytes ev)) (freeze_json X)) (\<lambda>payload.
       if \<not> is_JObj payload then Inl (event_error ''event payload must be a JSON object'') else Inr payload)"

definition event_create ::
  "externals \<Rightarrow> digest \<Rightarrow> int \<Rightarrow> pystr \<Rightarrow> pystr \<Rightarrow> digest \<Rightarrow> digest \<Rightarrow> int \<Rightarrow> json \<Rightarrow> digest \<Rightarrow> event result" where
  "event_create X mission_id seq kind unit authority_id target_id decision_time payload prev_digest =
     (if \<not> is_JObj payload then Inl (event_error ''payload must be a JSON object'')
      else bindR (wrap_error (\<lambda>ex. is_protocol_error ex \<and> \<not> is_event_error ex) ''event cannot be represented by protocol v1''
        (bindR (bindR (bindR (freeze_json X payload) (thaw_json X)) (canonical_dumps X)) (\<lambda>payload_bytes.
         bindR (strict_loads X payload_bytes) (\<lambda>normalized.
         if \<not> is_JObj normalized then Inl (event_error ''event payload must be a JSON object'')
         else let body = JObj [
           (''authority_id'', JStr authority_id), (''decision_time'', JInt decision_time), (''kind'', JStr kind),
           (''mission_id'', JStr mission_id), (''payload'', normalized), (''prev_digest'', JStr prev_digest),
           (''seq'', JInt seq), (''target_id'', JStr target_id), (''unit'', JStr unit)]
         in bindR (envelope_create X ''event'' body (JArr [])) (\<lambda>e. Inr (body, payload_bytes, e)))))) (\<lambda>(body, payload_bytes, e).
        event_new X body payload_bytes (env_object_id e)))"

definition event_to_envelope :: "externals \<Rightarrow> event \<Rightarrow> envelope result" where
  "event_to_envelope X ev =
     bindR (strict_loads X (ev_payload_bytes ev)) (\<lambda>payload.
     if \<not> is_JObj payload then Inl (event_error ''event payload must be a JSON object'')
     else bindR (envelope_create X ''event'' (event_body_with ev payload) (JArr [])) (\<lambda>e.
       if env_object_id e \<noteq> ev_event_digest ev
       then Inl (event_error ''event digest does not match the common envelope object_id'') else Inr e))"

definition event_to_canonical_bytes :: "externals \<Rightarrow> event \<Rightarrow> bytes result" where
  "event_to_canonical_bytes X ev = bindR (event_to_envelope X ev) (envelope_to_bytes X)"

text \<open>\<open>verify\<close>: construct the same event again.\<close>

definition event_verify :: "externals \<Rightarrow> event \<Rightarrow> exn + unit" where
  "event_verify X ev =
     bindR (seqR [
       requireR (ev_protocol_version ev = PROTOCOL_VERSION) (event_error ''unsupported protocol_version''),
       requireR (ev_event_version ev = OBJECT_VERSION) (event_error ''unsupported event_version'')]) (\<lambda>_.
     bindR (event_new X (event_body_with ev JNull) (ev_payload_bytes ev) (ev_event_digest ev)) (\<lambda>_. Inr ()))"

definition EVENT_BODY_FIELDS :: "pystr list" where
  "EVENT_BODY_FIELDS =
     [''authority_id'', ''decision_time'', ''kind'', ''mission_id'', ''payload'', ''prev_digest'', ''seq'', ''target_id'', ''unit'']"

definition event_from_canonical_bytes :: "externals \<Rightarrow> bytes \<Rightarrow> event result" where
  "event_from_canonical_bytes X raw =
     bindR (wrap_error is_protocol_error ''invalid event envelope'' (envelope_from_bytes X raw)) (\<lambda>e.
     if env_kind e \<noteq> ''event'' then Inl (event_error ''protocol envelope is not an event'')
     else if env_attestations e \<noteq> [] then Inl (event_error ''event envelopes must not contain attestations'')
     else bindR (thaw_json X (JObj (env_body e))) (\<lambda>body.
     if \<not> has_keys body EVENT_BODY_FIELDS then Inl (event_error ''event body keys differ'')
     else if \<not> is_JObj (member ''payload'' body) then Inl (event_error ''event payload must be a JSON object'')
     else bindR (canonical_dumps X (member ''payload'' body)) (\<lambda>payload_bytes.
       event_new X body payload_bytes (env_object_id e))))"

section \<open>Events are a strict codec\<close>

lemma event_members:
  "member ''authority_id'' (event_body_with ev p) = JStr (ev_authority_id ev)"
  "member ''decision_time'' (event_body_with ev p) = JInt (ev_decision_time ev)"
  "member ''kind'' (event_body_with ev p) = JStr (ev_kind ev)"
  "member ''mission_id'' (event_body_with ev p) = JStr (ev_mission_id ev)"
  "member ''payload'' (event_body_with ev p) = p"
  "member ''prev_digest'' (event_body_with ev p) = JStr (ev_prev_digest ev)"
  "member ''seq'' (event_body_with ev p) = JInt (ev_seq ev)"
  "member ''target_id'' (event_body_with ev p) = JStr (ev_target_id ev)"
  "member ''unit'' (event_body_with ev p) = JStr (ev_unit ev)"
  by (simp_all add: event_body_with_def member_def)

lemma event_members_norm:
  assumes "k \<in> set EVENT_BODY_FIELDS" and "norm_json p = p"
  shows "member k (norm_json (event_body_with ev p)) = member k (event_body_with ev p)"
proof -
  have d: "distinct (map fst (obj_members (event_body_with ev p)))" and j: "event_body_with ev p = JObj (obj_members (event_body_with ev p))"
    by (simp_all add: event_body_with_def)
  have "member k (norm_json (event_body_with ev p)) =
      (case map_of (obj_members (event_body_with ev p)) k of Some v \<Rightarrow> norm_json v | None \<Rightarrow> JNull)"
    using member_norm [OF d, of k] j by simp
  also have "\<dots> = member k (event_body_with ev p)"
    using assms by (auto simp: EVENT_BODY_FIELDS_def event_body_with_def member_def)
  finally show ?thesis .
qed

lemma event_keys: "has_keys (norm_json (event_body_with ev p)) EVENT_BODY_FIELDS"
  unfolding has_keys_def event_body_with_def keys_norm by (auto simp: EVENT_BODY_FIELDS_def)

lemma event_of_body_cong:
  "(\<And>k. k \<in> set EVENT_BODY_FIELDS \<Longrightarrow> k \<noteq> ''payload'' \<Longrightarrow> member k b = member k c) \<Longrightarrow>
   event_of_body b pb d = event_of_body c pb d \<and> event_header_checks b d = event_header_checks c d"
  by (simp add: event_of_body_def event_header_checks_def EVENT_BODY_FIELDS_def)

lemma event_of_own_body:
  assumes "ev_protocol_version ev = PROTOCOL_VERSION" and "ev_event_version ev = OBJECT_VERSION"
  shows "event_of_body (event_body_with ev p) (ev_payload_bytes ev) (ev_event_digest ev) = ev"
  using assms by (simp add: event_of_body_def event_members)

lemma event_header_typed:
  assumes "event_header_checks body d = Inr ()"
  shows "is_JStr (member ''mission_id'' body)" "is_JInt (member ''seq'' body)" "is_JStr (member ''kind'' body)"
    "is_JStr (member ''unit'' body)" "is_JStr (member ''authority_id'' body)" "is_JStr (member ''target_id'' body)"
    "is_JInt (member ''decision_time'' body)" "is_JStr (member ''prev_digest'' body)" "full_digest d"
  using assms unfolding event_header_checks_def event_digest_check_def event_text_def event_nonnegative_def
    digest_value_def canonical_text_def result_simps by simp_all

lemma event_body_members_back:
  assumes "event_header_checks body d = Inr ()" and "k \<in> set EVENT_BODY_FIELDS" and "k \<noteq> ''payload''"
  shows "member k (event_body_with (event_of_body body pb d) p) = member k body"
  using event_header_typed [OF assms(1)] assms(2,3)
  by (auto simp: EVENT_BODY_FIELDS_def event_members event_of_body_def norm_scalars)

lemma event_newD:
  assumes "event_new X body pb d = Inr ev"
  shows "ev = event_of_body body pb d" and "event_header_checks body d = Inr ()"
    and "ev_protocol_version ev = PROTOCOL_VERSION" and "ev_event_version ev = OBJECT_VERSION"
    and "ev_payload_bytes ev = pb" and "ev_event_digest ev = d"
    and "\<exists>e. event_payload_checks X ev = Inr e \<and> env_object_id e = d"
  using assms by (auto simp: event_new_def bindR_eq_Inr Let_def event_of_body_def split: if_splits)

lemma event_verify_iff:
  "event_verify X ev = Inr () \<longleftrightarrow>
     ev_protocol_version ev = PROTOCOL_VERSION \<and> ev_event_version ev = OBJECT_VERSION \<and>
     event_header_checks (event_body_with ev JNull) (ev_event_digest ev) = Inr () \<and>
     (\<exists>e. event_payload_checks X ev = Inr e \<and> env_object_id e = ev_event_digest ev)"
proof (cases "ev_protocol_version ev = PROTOCOL_VERSION \<and> ev_event_version ev = OBJECT_VERSION")
  case True
  then have "event_of_body (event_body_with ev JNull) (ev_payload_bytes ev) (ev_event_digest ev) = ev"
    by (blast intro: event_of_own_body)
  with True show ?thesis
    unfolding event_verify_def event_new_def Let_def bindR_eq_Inr if_raise_eq_Inr seqR_Cons_eq_Inr requireR_eq_Inr by auto
next
  case False
  then show ?thesis by (auto simp: event_verify_def bindR_eq_Inr seqR_Cons_eq_Inr requireR_eq_Inr)
qed

lemma event_new_verified:
  assumes "event_new X body pb d = Inr ev"
  shows "event_verify X ev = Inr ()"
proof -
  note n = event_newD [OF assms]
  have "event_header_checks (event_body_with ev JNull) d = event_header_checks body d"
    unfolding n(1) by (rule event_of_body_cong [THEN conjunct2]) (rule event_body_members_back [OF n(2)])
  with n show ?thesis by (auto simp: event_verify_iff)
qed

lemma event_verify_new:
  assumes "event_verify X ev = Inr ()"
    and "\<And>k. k \<in> set EVENT_BODY_FIELDS \<Longrightarrow> k \<noteq> ''payload'' \<Longrightarrow> member k body = member k (event_body_with ev JNull)"
  shows "event_new X body (ev_payload_bytes ev) (ev_event_digest ev) = Inr ev"
proof -
  from event_of_body_cong [OF assms(2)] have
    "event_of_body body (ev_payload_bytes ev) (ev_event_digest ev) =
       event_of_body (event_body_with ev JNull) (ev_payload_bytes ev) (ev_event_digest ev)"
    "event_header_checks body (ev_event_digest ev) = event_header_checks (event_body_with ev JNull) (ev_event_digest ev)"
    by blast+
  with assms(1) show ?thesis unfolding event_verify_iff
    by (auto simp: event_new_def Let_def event_of_own_body)
qed

lemma event_payload_checksD:
  assumes "event_payload_checks X ev = Inr e"
  obtains payload where "strict_loads X (ev_payload_bytes ev) = Inr payload" and "is_JObj payload"
    and "canonical_dumps X payload = Inr (ev_payload_bytes ev)" and "validate_payload X ev payload = Inr ()"
    and "envelope_create X ''event'' (event_body_with ev payload) (JArr []) = Inr e"
proof -
  from assms obtain payload again u where "strict_loads X (ev_payload_bytes ev) = Inr payload" "\<not> \<not> is_JObj payload"
    "canonical_dumps X payload = Inr again" "\<not> again \<noteq> ev_payload_bytes ev" "validate_payload X ev payload = Inr u"
    "envelope_create X ''event'' (event_body_with ev payload) (JArr []) = Inr e"
    unfolding event_payload_checks_def wrap_error_eq_Inr bindR_eq_Inr if_raise_eq_Inr by (elim exE conjE) (rule that)
  then show thesis by (intro that) simp_all
qed

lemma event_from_bytesD:
  assumes "event_from_canonical_bytes X b = Inr ev"
  obtains e payload where "envelope_from_bytes X b = Inr e" and "env_kind e = ''event''" and "env_attestations e = []"
    and "has_keys (JObj (env_body e)) EVENT_BODY_FIELDS" and "is_JObj payload"
    and "payload = member ''payload'' (JObj (env_body e))" and "canonical_dumps X payload = Inr (ev_payload_bytes ev)"
    and "event_new X (JObj (env_body e)) (ev_payload_bytes ev) (env_object_id e) = Inr ev"
proof -
  from assms obtain e body pb where e: "envelope_from_bytes X b = Inr e" "env_kind e = ''event''" "env_attestations e = []"
    and t: "thaw_json X (JObj (env_body e)) = Inr body" and k: "has_keys body EVENT_BODY_FIELDS"
    "is_JObj (member ''payload'' body)" "canonical_dumps X (member ''payload'' body) = Inr pb"
    and n: "event_new X body pb (env_object_id e) = Inr ev"
    unfolding event_from_canonical_bytes_def bindR_eq_Inr wrap_error_eq_Inr if_raise_eq_Inr by blast
  have "body = JObj (env_body e)" using t created_thaw [OF env.decode_valid [OF e(1)]] by simp
  with e k n event_newD(5) [OF n] that show thesis by simp
qed

lemma event_encode_decode:
  assumes "event_from_canonical_bytes X b = Inr ev"
  shows "event_to_canonical_bytes X ev = Inr b"
proof -
  from assms obtain e payload where e: "envelope_from_bytes X b = Inr e" and k: "env_kind e = ''event''" "env_attestations e = []"
    "has_keys (JObj (env_body e)) EVENT_BODY_FIELDS" and p: "is_JObj payload" "payload = member ''payload'' (JObj (env_body e))"
    "canonical_dumps X payload = Inr (ev_payload_bytes ev)"
    and n: "event_new X (JObj (env_body e)) (ev_payload_bytes ev) (env_object_id e) = Inr ev"
    by (rule event_from_bytesD)
  have created: "created_envelope X e" by (rule env.decode_valid [OF e])
  have nf: "normal_form (JObj (env_body e))" by (rule normal_json_form [OF created_normal [OF created]])
  have nfp: "normal_form payload" unfolding p(2) by (rule normal_form_member [OF nf])
  note d = event_newD [OF n]
  have "norm_json (event_body_with ev payload) = JObj (env_body e)"
    unfolding event_body_with_def
  proof (rule norm_rebuild [OF nf k(3)])
    fix f w
    assume "(f, w) \<in> set [
     (''authority_id'', JStr (ev_authority_id ev)), (''decision_time'', JInt (ev_decision_time ev)),
     (''kind'', JStr (ev_kind ev)), (''mission_id'', JStr (ev_mission_id ev)), (''payload'', payload),
     (''prev_digest'', JStr (ev_prev_digest ev)), (''seq'', JInt (ev_seq ev)), (''target_id'', JStr (ev_target_id ev)),
     (''unit'', JStr (ev_unit ev))]"
    then have "(f = ''payload'' \<and> w = payload) \<or> (f \<in> set EVENT_BODY_FIELDS \<and> f \<noteq> ''payload'' \<and> w = member f (event_body_with ev JNull) \<and> norm_json w = w)"
      by (auto simp: event_members EVENT_BODY_FIELDS_def)
    then show "norm_json w = member f (JObj (env_body e))"
      using nfp event_body_members_back [OF d(2), of f "ev_payload_bytes ev" JNull] d(1) by (auto simp: normal_form_def p(2))
  qed (simp_all add: EVENT_BODY_FIELDS_def)
  from rebuild_envelope [OF created k(2) this]
  have "event_to_envelope X ev = Inr e"
    using loads_dumps_normal_form [OF nfp p(3)] p(1) k(1) d(6) by (simp add: event_to_envelope_def)
  then show ?thesis using env.encode_decode [OF e] by (simp add: event_to_canonical_bytes_def)
qed

lemma event_decode_encode:
  assumes "event_verify X ev = Inr ()" and "event_to_canonical_bytes X ev = Inr b"
  shows "event_from_canonical_bytes X b = Inr ev"
proof -
  from assms(2) obtain payload e where p: "strict_loads X (ev_payload_bytes ev) = Inr payload" "is_JObj payload"
    and e: "envelope_create X ''event'' (event_body_with ev payload) (JArr []) = Inr e" "env_object_id e = ev_event_digest ev"
    and b: "envelope_to_bytes X e = Inr b"
    by (auto simp: event_to_canonical_bytes_def event_to_envelope_def result_simps)
  note l = strict_loads_result [OF p(1)]
  have np: "norm_json payload = payload" using l(2) by (simp add: thaw_json_eq_Inr)
  from assms(1) obtain e' where "event_payload_checks X ev = Inr e'" by (auto simp: event_verify_iff)
  then have cd: "canonical_dumps X payload = Inr (ev_payload_bytes ev)"
    by (rule event_payload_checksD) (use p(1) in simp)
  have fd: "full_digest (env_object_id e)"
    using assms(1) e(2) event_header_typed(9) by (auto simp: event_verify_iff)
  have dk: "dict_ok (event_body_with ev payload)" using l(1) by (simp add: event_body_with_def)
  have dec: "envelope_from_bytes X b = Inr e" by (rule envelope_from_bytes_created [OF fd e(1) dk _ b]) simp
  have body: "JObj (env_body e) = norm_json (event_body_with ev payload)" and ka: "env_kind e = ''event''" "env_attestations e = []"
    using e(1) by (auto simp: envelope_create_eq_Inr thaw_json_eq_Inr)
  have thaw: "thaw_json X (JObj (env_body e)) = Inr (JObj (env_body e))"
    by (rule created_thaw [OF env.decode_valid [OF dec]])
  have mem: "member k (JObj (env_body e)) = member k (event_body_with ev payload)" if "k \<in> set EVENT_BODY_FIELDS" for k
    unfolding body by (rule event_members_norm [OF that np])
  have pl: "member ''payload'' (JObj (env_body e)) = payload"
    using mem [of "''payload''"] by (simp add: EVENT_BODY_FIELDS_def event_members)
  have "event_new X (JObj (env_body e)) (ev_payload_bytes ev) (ev_event_digest ev) = Inr ev"
    by (rule event_verify_new [OF assms(1)]) (subst mem, assumption, auto simp: EVENT_BODY_FIELDS_def event_members)
  moreover have "has_keys (JObj (env_body e)) EVENT_BODY_FIELDS" unfolding body by (rule event_keys)
  ultimately show ?thesis
    using dec ka thaw pl p(2) cd e(2) by (simp add: event_from_canonical_bytes_def wrap_error_def)
qed

interpretation event: strict_codec "event_to_canonical_bytes X" "event_from_canonical_bytes X"
  "\<lambda>ev. event_verify X ev = Inr ()" for X
proof unfold_locales
  show "event_verify X ev = Inr () \<Longrightarrow> event_to_canonical_bytes X ev = Inr b \<Longrightarrow> event_from_canonical_bytes X b = Inr ev" for ev b
    by (rule event_decode_encode)
  show "event_from_canonical_bytes X b = Inr ev \<Longrightarrow> event_verify X ev = Inr ()" for b ev
    by (erule event_from_bytesD) (rule event_new_verified)
  show "event_from_canonical_bytes X b = Inr ev \<Longrightarrow> event_to_canonical_bytes X ev = Inr b" for b ev
    by (rule event_encode_decode)
qed

end
