(* ===== verification/Reducer.thy ===== *)
theory Reducer
  imports Events_V1 "HOL-Library.AList"
begin

text \<open>
  \<open>src/etzio/kernel/reducer.py\<close>: the replay of a mission stream. \<open>mission_state\<close> holds the local variables
  of \<open>reduce_events\<close>; there is one handler per event kind (a branch of its loop body), split into the part
  that decodes the retained evidence and the part that checks it and updates the state. A Python
  \<open>set\<close> is a set, a \<open>dict\<close> an association list in insertion order.
\<close>

abbreviation reduction_error :: "string \<Rightarrow> exn" where "reduction_error \<equiv> ReductionError"

section \<open>Phases and transitions\<close>

datatype projection_phase =
  ADMITTED | OPEN | ANALYZING | SCAN_COMPLETED | AWAITING_VERIFICATION | CLOSED | REFUSED | FAILED | CANCELLED
| TIMED_OUT | BUDGET_EXHAUSTED

definition is_terminal :: "projection_phase \<Rightarrow> bool" where
  "is_terminal p \<longleftrightarrow> p \<in> {CLOSED, REFUSED, FAILED, CANCELLED, TIMED_OUT, BUDGET_EXHAUSTED}"

definition FAILURE_PHASES :: "(pystr \<times> pystr) list" where
  "FAILURE_PHASES =
     [(''scan_failed'', ''failed''), (''scan_cancelled'', ''cancelled''), (''scan_timed_out'', ''timed_out''),
      (''budget_exhausted'', ''budget_exhausted'')]"

definition PHASE_BY_INTERNAL :: "(pystr \<times> projection_phase) list" where
  "PHASE_BY_INTERNAL =
     [(''admitted'', ADMITTED), (''open'', OPEN), (''analyzing'', ANALYZING), (''scan_completed'', SCAN_COMPLETED),
      (''awaiting_verification'', AWAITING_VERIFICATION), (''closed'', CLOSED), (''refused'', REFUSED),
      (''failed'', FAILED), (''cancelled'', CANCELLED), (''timed_out'', TIMED_OUT), (''budget_exhausted'', BUDGET_EXHAUSTED)]"

definition VERIFICATION_KINDS :: "pystr list" where
  "VERIFICATION_KINDS =
     [''verification_lease_issued'', ''verification_lease_expired'', ''verification_lease_cancelled'',
      ''verification_lease_reassigned'', ''verification_artifacts_resolved'', ''verifier_receipt_admitted'']"

definition illegal_transition :: "pystr result" where
  "illegal_transition = Inl (reduction_error ''illegal event transition'')"

definition failure_transition :: "pystr \<Rightarrow> pystr result" where
  "failure_transition kind =
     (case map_of FAILURE_PHASES kind of Some phase \<Rightarrow> Inr phase | None \<Rightarrow> illegal_transition)"

definition transition :: "pystr \<Rightarrow> pystr \<Rightarrow> pystr result" where
  "transition phase kind =
     (if phase = ''start'' then
        (if kind = ''authority_admitted'' then Inr ''admitted''
         else if kind = ''mission_admission_refused'' then Inr ''refused'' else illegal_transition)
      else if phase = ''admitted'' then
        (if kind = ''mission_opened'' then Inr ''open'' else failure_transition kind)
      else if phase = ''open'' then
        (if kind = ''analysis_lease_issued'' then Inr ''analyzing'' else failure_transition kind)
      else if phase = ''analyzing'' then
        (if kind \<in> {''candidate_recorded'', ''parse_failed''} then Inr ''analyzing''
         else if kind = ''scan_completed'' then Inr ''scan_completed'' else failure_transition kind)
      else if phase = ''scan_completed'' then
        (if kind = ''verification_lease_issued'' then Inr ''awaiting_verification''
         else if kind = ''mission_closed'' then Inr ''closed'' else failure_transition kind)
      else if phase = ''awaiting_verification'' then
        (if kind \<in> set VERIFICATION_KINDS then Inr ''awaiting_verification''
         else if kind = ''mission_closed'' then Inr ''closed'' else illegal_transition)
      else illegal_transition)"

section \<open>State\<close>

record mission_state =
  st_mission_id :: digest
  st_authority_id :: digest
  st_target_id :: digest
  st_phase :: pystr
  st_expected_seq :: int
  st_expected_prev :: digest
  st_previous_time :: "int option"
  st_candidates :: "event list"
  st_failures :: "event list"
  st_candidate_ids :: "digest set"
  st_candidate_events :: "(digest \<times> event) list"
  st_lease_events :: "event list"
  st_expiry_events :: "event list"
  st_cancellation_events :: "event list"
  st_reassignment_events :: "event list"
  st_resolution_events :: "event list"
  st_receipt_events :: "event list"
  st_lease_ids :: "digest set"
  st_leases :: "(digest \<times> verification_lease) list"
  st_latest :: "(digest \<times> digest) list"
  st_successors :: "(digest \<times> digest) list"
  st_resolutions :: "(digest \<times> artifact_resolution) list"
  st_resolved :: "digest set"
  st_active :: "digest set"
  st_expired :: "digest set"
  st_cancelled :: "digest set"
  st_superseded :: "digest set"
  st_consumed :: "digest set"
  st_receipt_ids :: "digest set"
  st_grant :: "authority_grant option"
  st_admission :: "authority_admission option"
  st_snapshot :: "target_snapshot option"
  st_analysis_lease :: "analysis_lease option"
  st_refusal :: "event option"
  st_failure_event :: "event option"
  st_scan_summary :: "event option"
  st_terminal_event :: "event option"

definition initial_state :: "event \<Rightarrow> mission_state" where
  "initial_state first =
     \<lparr>st_mission_id = ev_mission_id first, st_authority_id = ev_authority_id first, st_target_id = ev_target_id first,
      st_phase = ''start'', st_expected_seq = 0, st_expected_prev = GENESIS_DIGEST, st_previous_time = None,
      st_candidates = [], st_failures = [], st_candidate_ids = {}, st_candidate_events = [], st_lease_events = [],
      st_expiry_events = [], st_cancellation_events = [], st_reassignment_events = [], st_resolution_events = [],
      st_receipt_events = [], st_lease_ids = {}, st_leases = [], st_latest = [], st_successors = [], st_resolutions = [],
      st_resolved = {}, st_active = {}, st_expired = {}, st_cancelled = {}, st_superseded = {}, st_consumed = {},
      st_receipt_ids = {}, st_grant = None, st_admission = None, st_snapshot = None, st_analysis_lease = None,
      st_refusal = None, st_failure_event = None, st_scan_summary = None, st_terminal_event = None\<rparr>"

section \<open>Candidate partitions\<close>

record candidate_partitions =
  cp_active :: "digest set"
  cp_receipt_covered :: "digest set"
  cp_never_assigned :: "digest set"
  cp_latest_expired :: "digest set"
  cp_latest_cancelled :: "digest set"

definition partition_list :: "candidate_partitions \<Rightarrow> digest set list" where
  "partition_list p =
     [cp_active p, cp_receipt_covered p, cp_never_assigned p, cp_latest_expired p, cp_latest_cancelled p]"

text \<open>
  The loop over \<open>latest_lease_by_candidate.items()\<close>. The arguments are the four lease sets of the signature:
  active, consumed, expired, cancelled.
\<close>

definition lease_states :: "digest set \<Rightarrow> digest set \<Rightarrow> digest set \<Rightarrow> digest set \<Rightarrow> digest \<Rightarrow> bool list" where
  "lease_states active consumed expired cancelled lease_id =
     [lease_id \<in> active, lease_id \<in> consumed, lease_id \<in> expired, lease_id \<in> cancelled]"

definition place_candidate ::
  "digest set \<Rightarrow> digest set \<Rightarrow> digest set \<Rightarrow> digest set \<Rightarrow> candidate_partitions \<Rightarrow> digest \<times> digest \<Rightarrow>
   candidate_partitions result" where
  "place_candidate active consumed expired cancelled p entry =
     (case entry of (candidate_id, lease_id) \<Rightarrow>
        if length (filter (\<lambda>b. b) (lease_states active consumed expired cancelled lease_id)) \<noteq> 1
        then Inl (reduction_error ''candidate latest verification lease lacks one terminal or active state'')
        else if lease_id \<in> active then Inr (p\<lparr>cp_active := insert candidate_id (cp_active p)\<rparr>)
        else if lease_id \<in> consumed then Inr (p\<lparr>cp_receipt_covered := insert candidate_id (cp_receipt_covered p)\<rparr>)
        else if lease_id \<in> expired then Inr (p\<lparr>cp_latest_expired := insert candidate_id (cp_latest_expired p)\<rparr>)
        else Inr (p\<lparr>cp_latest_cancelled := insert candidate_id (cp_latest_cancelled p)\<rparr>))"

definition verification_candidate_partitions ::
  "digest set \<Rightarrow> (digest \<times> digest) list \<Rightarrow> digest set \<Rightarrow> digest set \<Rightarrow> digest set \<Rightarrow> digest set \<Rightarrow>
   candidate_partitions result" where
  "verification_candidate_partitions candidate_ids latest active consumed expired cancelled =
     (if \<not> fst ` set latest \<subseteq> candidate_ids
      then Inl (reduction_error ''verification lease lineage references an unknown candidate'')
      else bindR (foldR (place_candidate active consumed expired cancelled)
             \<lparr>cp_active = {}, cp_receipt_covered = {}, cp_never_assigned = candidate_ids - fst ` set latest,
              cp_latest_expired = {}, cp_latest_cancelled = {}\<rparr> latest) (\<lambda>p.
        if \<Union> (set (partition_list p)) \<noteq> candidate_ids \<or>
           sum_list (map card (partition_list p)) \<noteq> card candidate_ids
        then Inl (reduction_error ''verification candidate states are not an exhaustive partition'')
        else Inr p))"

definition partitions_of :: "mission_state \<Rightarrow> candidate_partitions result" where
  "partitions_of st =
     verification_candidate_partitions (st_candidate_ids st) (st_latest st) (st_active st) (st_consumed st)
       (st_expired st) (st_cancelled st)"

section \<open>Decoding retained evidence\<close>

definition nested_envelope :: "externals \<Rightarrow> json \<Rightarrow> pystr \<Rightarrow> envelope result" where
  "nested_envelope X payload field =
     catchR (bindR (bindR (thaw_json X (member field payload)) (canonical_dumps X)) (envelope_from_bytes X))
       (\<lambda>ex. if is_protocol_error ex then Inl (reduction_error (''invalid '' @ field @ '' envelope'')) else Inl ex)"

text \<open>The lease and the trust snapshot of an issuance or a reassignment.\<close>

definition decode_lease_evidence :: "externals \<Rightarrow> json \<Rightarrow> (verification_lease \<times> verifier_trust_store \<times> digest) result" where
  "decode_lease_evidence X payload =
     bindR (bindR (nested_envelope X payload ''lease'') (vlease_from_envelope X)) (\<lambda>l.
     bindR (thaw_json X payload) (\<lambda>thawed.
     bindR (verifier_trust_from_snapshot X (member ''verifier_trust_snapshot'' thawed)
              (Some (jstr (member ''verifier_trust_snapshot_id'' payload)))) (\<lambda>trust.
       Inr (l, trust, jstr (member ''verifier_trust_snapshot_id'' payload)))))"

section \<open>Authority, target and analysis\<close>

definition admit_evidence :: "mission_state \<Rightarrow> authority_grant \<Rightarrow> authority_admission \<Rightarrow> mission_state result" where
  "admit_evidence st grant admission =
     bindR (requireR (''static_analysis'' \<in> set (aa_required_actions admission) \<and>
                      ''static_analysis'' \<in> set (ag_permitted_actions grant))
       (reduction_error ''admitted authority does not permit exact static_analysis'')) (\<lambda>_.
     Inr (st\<lparr>st_grant := Some grant, st_admission := Some admission\<rparr>))"

definition handle_authority_admitted :: "externals \<Rightarrow> mission_state \<Rightarrow> event \<Rightarrow> mission_state result" where
  "handle_authority_admitted X st ev =
     bindR (event_payload X ev) (\<lambda>payload.
     bindR (bindR (nested_envelope X payload ''grant'') (grant_from_envelope X)) (\<lambda>grant.
     bindR (bindR (nested_envelope X payload ''admission'') (admission_from_envelope X)) (\<lambda>admission.
       admit_evidence st grant admission)))"

definition open_target :: "mission_state \<Rightarrow> target_snapshot \<Rightarrow> mission_state" where
  "open_target st snapshot = st\<lparr>st_snapshot := Some snapshot\<rparr>"

definition handle_mission_opened :: "externals \<Rightarrow> mission_state \<Rightarrow> event \<Rightarrow> mission_state result" where
  "handle_mission_opened X st ev =
     bindR (event_payload X ev) (\<lambda>payload.
     bindR (bindR (nested_envelope X payload ''target_snapshot'') (target_snapshot_from_envelope X)) (\<lambda>snapshot.
       Inr (open_target st snapshot)))"

definition in_window :: "int \<Rightarrow> int \<Rightarrow> int \<Rightarrow> bool" where
  "in_window lo t hi \<longleftrightarrow> lo \<le> t \<and> t < hi"

definition start_analysis :: "mission_state \<Rightarrow> event \<Rightarrow> analysis_lease \<Rightarrow> mission_state result" where
  "start_analysis st ev l =
     (case st_grant st of
        None \<Rightarrow> Inl (reduction_error ''analysis lease has no admitted authority grant'')
      | Some grant \<Rightarrow>
          bindR (seqR [
            requireR (case st_admission st of None \<Rightarrow> False | Some admission \<Rightarrow>
                ''static_analysis'' \<in> set (aa_required_actions admission) \<and>
                ''static_analysis'' \<in> set (ag_permitted_actions grant) \<and> al_action l = ''static_analysis'')
              (reduction_error ''analysis lease lacks admitted static_analysis authority''),
            requireR (al_expires_at l \<le> ag_expires_at grant \<and> al_max_bytes l \<le> ag_max_bytes grant \<and>
                      al_max_candidates l \<le> ag_max_candidates grant \<and>
                      al_max_wallclock_seconds l \<le> ag_max_wallclock_seconds grant)
              (reduction_error ''analysis lease exceeds the admitted authority grant''),
            requireR (al_expires_at l \<le> al_issued_at l + al_max_wallclock_seconds l)
              (reduction_error ''analysis lease expiry exceeds its wallclock ceiling'')]) (\<lambda>_.
          case st_snapshot st of
            None \<Rightarrow> Inl (reduction_error ''analysis lease has no retained target snapshot'')
          | Some snapshot \<Rightarrow>
              bindR (seqR [
                requireR (snapshot_bytes snapshot \<le> al_max_bytes l)
                  (reduction_error ''analysis lease byte budget is smaller than the target snapshot''),
                requireR (in_window (al_issued_at l) (ev_decision_time ev) (al_expires_at l))
                  (reduction_error ''analysis lease issuance event is outside the lease window'')]) (\<lambda>_.
              Inr (st\<lparr>st_analysis_lease := Some l\<rparr>))))"

definition handle_analysis_lease_issued :: "externals \<Rightarrow> mission_state \<Rightarrow> event \<Rightarrow> mission_state result" where
  "handle_analysis_lease_issued X st ev =
     bindR (event_payload X ev) (\<lambda>payload.
     bindR (bindR (nested_envelope X payload ''lease'') (analysis_lease_from_envelope X)) (start_analysis st ev))"

definition output_count :: "mission_state \<Rightarrow> int" where
  "output_count st = int (length (st_candidates st)) + int (length (st_failures st))"

text \<open>
  The budget checks that a candidate and a parse failure share. \<open>referenced\<close> is the lease
  they name, \<open>what\<close> the noun of the messages, \<open>path\<close> and \<open>source\<close> the artifact.
\<close>

definition check_output :: "string \<Rightarrow> mission_state \<Rightarrow> event \<Rightarrow> digest \<Rightarrow> pystr \<Rightarrow> digest \<Rightarrow> exn + unit" where
  "check_output what st ev referenced path source =
     (case st_analysis_lease st of
        None \<Rightarrow> Inl (reduction_error (what @ '' has no admitted analysis lease''))
      | Some l \<Rightarrow>
          bindR (seqR [
            requireR (referenced = al_lease_id l)
              (reduction_error (what @ '' does not reference the admitted analysis lease'')),
            requireR (ev_decision_time ev - al_issued_at l \<le> al_max_wallclock_seconds l)
              (reduction_error (what @ '' exceeded the retained epoch wallclock ceiling'')),
            requireR (in_window (al_issued_at l) (ev_decision_time ev) (al_expires_at l))
              (reduction_error (what @ '' was recorded outside the lease window'')),
            requireR (output_count st + 1 \<le> al_max_candidates l)
              (reduction_error (what @ '' exceeded the analysis output budget''))]) (\<lambda>_.
          case st_snapshot st of
            None \<Rightarrow> Inl (reduction_error (what @ '' has no retained target snapshot''))
          | Some snapshot \<Rightarrow>
              requireR (artifacts_by_path snapshot path = Some source)
                (reduction_error ((if what = ''candidate'' then what else ''parse-failure'') @ '' source artifact is absent from the target snapshot''))))"

definition record_candidate :: "mission_state \<Rightarrow> event \<Rightarrow> static_candidate \<Rightarrow> mission_state result" where
  "record_candidate st ev c =
     bindR (seqR [
       requireR (sc_candidate_id c \<notin> st_candidate_ids st)
         (reduction_error ''duplicate candidate identity in mission stream''),
       check_output ''candidate'' st ev (sc_analysis_lease_id c) (sc_relative_path c) (sc_source_artifact_digest c)]) (\<lambda>_.
     Inr (st\<lparr>st_candidate_ids := insert (sc_candidate_id c) (st_candidate_ids st),
             st_candidate_events := AList.update (sc_candidate_id c) ev (st_candidate_events st),
             st_candidates := st_candidates st @ [ev]\<rparr>))"

definition handle_candidate_recorded :: "externals \<Rightarrow> mission_state \<Rightarrow> event \<Rightarrow> mission_state result" where
  "handle_candidate_recorded X st ev =
     bindR (event_payload X ev) (\<lambda>payload.
     bindR (bindR (nested_envelope X payload ''candidate'') (candidate_from_envelope X)) (record_candidate st ev))"

definition record_parse_failure :: "mission_state \<Rightarrow> event \<Rightarrow> json \<Rightarrow> mission_state result" where
  "record_parse_failure st ev payload =
     bindR (check_output ''parse failure'' st ev (jstr (member ''analysis_lease_id'' payload))
              (jstr (member ''relative_path'' (member ''parse_failure'' payload)))
              (jstr (member ''source_artifact_digest'' payload))) (\<lambda>_.
     Inr (st\<lparr>st_failures := st_failures st @ [ev]\<rparr>))"

definition handle_parse_failed :: "externals \<Rightarrow> mission_state \<Rightarrow> event \<Rightarrow> mission_state result" where
  "handle_parse_failed X st ev = bindR (event_payload X ev) (record_parse_failure st ev)"

definition refuse_mission :: "mission_state \<Rightarrow> event \<Rightarrow> mission_state" where
  "refuse_mission st ev = st\<lparr>st_refusal := Some ev, st_terminal_event := Some ev\<rparr>"

definition fail_mission :: "mission_state \<Rightarrow> event \<Rightarrow> mission_state" where
  "fail_mission st ev = st\<lparr>st_failure_event := Some ev, st_terminal_event := Some ev\<rparr>"

definition complete_scan :: "mission_state \<Rightarrow> event \<Rightarrow> json \<Rightarrow> mission_state result" where
  "complete_scan st ev payload =
     (case (st_analysis_lease st, st_snapshot st) of
        (Some l, Some snapshot) \<Rightarrow>
          bindR (seqR [
            requireR (in_window (al_issued_at l) (ev_decision_time ev) (al_expires_at l))
              (reduction_error ''scan_completed is outside the lease window''),
            requireR (member ''candidate_count'' payload = JInt (int (length (st_candidates st))))
              (reduction_error ''scan_completed candidate_count does not match retained candidates''),
            requireR (member ''parse_failure_count'' payload = JInt (int (length (st_failures st))))
              (reduction_error ''scan_completed parse_failure_count does not match retained failures''),
            requireR (member ''file_count'' payload = JInt (int (length (ts_files snapshot))))
              (reduction_error ''scan_completed file_count does not match the target snapshot''),
            requireR (member ''bytes_scanned'' payload = JInt (snapshot_bytes snapshot))
              (reduction_error ''scan_completed bytes_scanned does not match the target snapshot''),
            requireR (member ''analyzer_version'' payload = JStr PYTHON_SAST_VERSION)
              (reduction_error ''scan_completed analyzer_version is unsupported''),
            requireR (jint (member ''bytes_scanned'' payload) \<le> al_max_bytes l \<and>
                      output_count st \<le> al_max_candidates l \<and>
                      ev_decision_time ev - al_issued_at l \<le> al_max_wallclock_seconds l)
              (reduction_error ''scan_completed exceeds its analysis lease'')]) (\<lambda>_.
          Inr (st\<lparr>st_scan_summary := Some ev\<rparr>))
      | _ \<Rightarrow> Inl (reduction_error ''scan_completed requires a retained target and analysis lease''))"

definition handle_scan_completed :: "externals \<Rightarrow> mission_state \<Rightarrow> event \<Rightarrow> mission_state result" where
  "handle_scan_completed X st ev = bindR (event_payload X ev) (complete_scan st ev)"

section \<open>Verification leases\<close>

definition permits_verification :: "authority_grant \<Rightarrow> authority_admission \<Rightarrow> bool" where
  "permits_verification grant admission \<longleftrightarrow>
     ''modeled_fixture_verification'' \<in> set (aa_required_actions admission) \<and>
     ''modeled_fixture_verification'' \<in> set (ag_permitted_actions grant)"

definition grant_deadline :: "authority_grant \<Rightarrow> authority_admission \<Rightarrow> int" where
  "grant_deadline grant admission = min (ag_expires_at grant) (aa_decision_time admission + ag_max_wallclock_seconds grant)"

definition mission_bindings_match :: "mission_state \<Rightarrow> verification_lease \<Rightarrow> event \<Rightarrow> bool" where
  "mission_bindings_match st l candidate_event \<longleftrightarrow>
     vl_mission_id l = st_mission_id st \<and> vl_authority_id l = st_authority_id st \<and>
     vl_target_snapshot_id l = st_target_id st \<and> vl_candidate_producer_id l = ev_unit candidate_event"

definition eligible_verifier :: "verifier_trust_store \<Rightarrow> verification_lease \<Rightarrow> digest \<Rightarrow> bool" where
  "eligible_verifier trust l snapshot_id \<longleftrightarrow>
     (case map_of (vt_keys trust) (vl_verifier_key_id l) of
        None \<Rightarrow> False
      | Some key \<Rightarrow> vl_verifier_key_id l \<notin> set (vt_revoked_key_ids trust) \<and> VERIFIER_ROLE \<in> set (tv_roles key) \<and>
          tv_verifier_id key = vl_verifier_id l \<and> vl_issuance_trust_snapshot_id l = snapshot_id)"

text \<open>
  The updates that an issuance and a reassignment share: a new active lease becomes the latest one
  of its candidate.
\<close>

definition retain_lease :: "mission_state \<Rightarrow> event \<Rightarrow> verification_lease \<Rightarrow> mission_state" where
  "retain_lease st ev l =
     st\<lparr>st_lease_ids := insert (vl_lease_id l) (st_lease_ids st),
        st_leases := AList.update (vl_lease_id l) l (st_leases st),
        st_active := insert (vl_lease_id l) (st_active st),
        st_latest := AList.update (vl_candidate_id l) (vl_lease_id l) (st_latest st),
        st_lease_events := st_lease_events st @ [ev]\<rparr>"

definition issue_lease ::
  "mission_state \<Rightarrow> event \<Rightarrow> verification_lease \<Rightarrow> verifier_trust_store \<Rightarrow> digest \<Rightarrow> mission_state result" where
  "issue_lease st ev l trust snapshot_id =
     (case (st_grant st, st_admission st) of
        (Some grant, Some admission) \<Rightarrow>
          bindR (requireR (permits_verification grant admission)
            (reduction_error ''verification lease lacks admitted modeled_fixture_verification authority'')) (\<lambda>_.
          case map_of (st_candidate_events st) (vl_candidate_id l) of
            None \<Rightarrow> Inl (reduction_error ''verification lease references no retained candidate'')
          | Some candidate_event \<Rightarrow>
              bindR (seqR [
                requireR (mission_bindings_match st l candidate_event)
                  (reduction_error ''verification lease differs from retained mission bindings''),
                requireR (vl_issued_at l = ev_decision_time ev)
                  (reduction_error ''verification lease issued_at differs from its event''),
                requireR (aa_decision_time admission \<le> vl_issued_at l \<and> vl_issued_at l < vl_expires_at l \<and>
                          vl_expires_at l \<le> grant_deadline grant admission)
                  (reduction_error ''verification lease exceeds the admitted authority window''),
                requireR (vl_candidate_producer_id l \<noteq> vl_verifier_id l)
                  (reduction_error ''verification lease assigns the candidate producer''),
                requireR (eligible_verifier trust l snapshot_id)
                  (reduction_error ''verification lease lacks an eligible retained verifier''),
                requireR (vl_lease_id l \<notin> st_lease_ids st)
                  (reduction_error ''duplicate verification lease identity in mission stream''),
                requireR (map_of (st_latest st) (vl_candidate_id l) = None)
                  (reduction_error ''plain issuance requires a never-assigned verification candidate''),
                requireR (int (length (st_lease_events st)) + 1 \<le> ag_max_candidates grant)
                  (reduction_error ''verification lease count exceeds the admitted candidate ceiling'')]) (\<lambda>_.
              Inr (retain_lease st ev l)))
      | _ \<Rightarrow> Inl (reduction_error ''verification lease has no admitted authority evidence''))"

definition handle_verification_lease_issued :: "externals \<Rightarrow> mission_state \<Rightarrow> event \<Rightarrow> mission_state result" where
  "handle_verification_lease_issued X st ev =
     bindR (event_payload X ev) (\<lambda>payload.
     bindR (decode_lease_evidence X payload) (\<lambda>(l, trust, snapshot_id). issue_lease st ev l trust snapshot_id))"

definition expire_lease :: "mission_state \<Rightarrow> event \<Rightarrow> digest \<Rightarrow> mission_state result" where
  "expire_lease st ev lease_id =
     (case map_of (st_leases st) lease_id of
        None \<Rightarrow> Inl (reduction_error ''verification lease expiry references no prior lease'')
      | Some l \<Rightarrow>
          bindR (seqR [
            requireR (map_of (st_latest st) (vl_candidate_id l) = Some (vl_lease_id l))
              (reduction_error ''verification lease expiry must reference the latest lease of the candidate''),
            requireR (vl_lease_id l \<in> st_active st)
              (reduction_error ''verification lease expiry requires one active lease''),
            requireR (vl_expires_at l \<le> ev_decision_time ev)
              (reduction_error ''verification lease cannot expire before its retained deadline'')]) (\<lambda>_.
          Inr (st\<lparr>st_active := st_active st - {vl_lease_id l},
                  st_expired := insert (vl_lease_id l) (st_expired st),
                  st_expiry_events := st_expiry_events st @ [ev]\<rparr>)))"

definition handle_verification_lease_expired :: "externals \<Rightarrow> mission_state \<Rightarrow> event \<Rightarrow> mission_state result" where
  "handle_verification_lease_expired X st ev =
     bindR (event_payload X ev) (\<lambda>payload. expire_lease st ev (jstr (member ''verification_lease_id'' payload)))"

definition cancel_lease :: "mission_state \<Rightarrow> event \<Rightarrow> digest \<Rightarrow> pystr \<Rightarrow> mission_state result" where
  "cancel_lease st ev lease_id reason_code =
     (case map_of (st_leases st) lease_id of
        None \<Rightarrow> Inl (reduction_error ''verification lease cancellation references no prior lease'')
      | Some l \<Rightarrow>
          bindR (seqR [
            requireR (reason_code = CANCELLATION_REASON)
              (reduction_error ''verification lease cancellation reason is unsupported''),
            requireR (map_of (st_latest st) (vl_candidate_id l) = Some (vl_lease_id l))
              (reduction_error ''verification lease cancellation must reference the latest lease of the candidate''),
            requireR (vl_lease_id l \<in> st_active st)
              (reduction_error ''verification lease cancellation requires one active lease''),
            requireR (in_window (vl_issued_at l) (ev_decision_time ev) (vl_expires_at l))
              (reduction_error ''verification lease cancellation is outside the active lease window'')]) (\<lambda>_.
          Inr (st\<lparr>st_active := st_active st - {vl_lease_id l},
                  st_cancelled := insert (vl_lease_id l) (st_cancelled st),
                  st_cancellation_events := st_cancellation_events st @ [ev]\<rparr>)))"

definition handle_verification_lease_cancelled :: "externals \<Rightarrow> mission_state \<Rightarrow> event \<Rightarrow> mission_state result" where
  "handle_verification_lease_cancelled X st ev =
     bindR (event_payload X ev) (\<lambda>payload.
       cancel_lease st ev (jstr (member ''verification_lease_id'' payload)) (jstr (member ''reason_code'' payload)))"

section \<open>Reassignment\<close>

definition reassigned_predecessor :: "mission_state \<Rightarrow> digest \<Rightarrow> verification_lease result" where
  "reassigned_predecessor st predecessor_id =
     (case map_of (st_leases st) predecessor_id of
        None \<Rightarrow> Inl (reduction_error ''verification lease reassignment references no predecessor'')
      | Some predecessor \<Rightarrow>
          bindR (seqR [
            requireR (map_of (st_latest st) (vl_candidate_id predecessor) = Some (vl_lease_id predecessor))
              (reduction_error ''verification lease reassignment requires the latest lease of the candidate''),
            requireR (map_of (st_successors st) (vl_lease_id predecessor) = None)
              (reduction_error ''verification lease predecessor already has a successor'')]) (\<lambda>_. Inr predecessor))"

definition work_bindings ::
  "verification_lease \<Rightarrow> digest \<times> digest \<times> digest \<times> digest \<times> pystr \<times> digest \<times> digest list \<times> digest \<times> digest" where
  "work_bindings l =
     (vl_mission_id l, vl_authority_id l, vl_target_snapshot_id l, vl_candidate_id l, vl_candidate_producer_id l,
      vl_poc_artifact_digest l, vl_evidence_artifact_digests l, vl_environment_digest l, vl_effect_oracle_id l)"

text \<open>The disposition of the predecessor: an active one is superseded, an expired or cancelled one stays so.\<close>

definition release_predecessor :: "mission_state \<Rightarrow> event \<Rightarrow> verification_lease \<Rightarrow> pystr \<Rightarrow> mission_state result" where
  "release_predecessor st ev predecessor reason_code =
     (if vl_lease_id predecessor \<in> st_active st then
        bindR (seqR [
          requireR (ev_decision_time ev < vl_expires_at predecessor)
            (reduction_error ''expired active lease requires canonical expiry before reassignment''),
          requireR (reason_code = ACTIVE_LEASE_REASSIGNMENT_REASON)
            (reduction_error ''active verification lease reassignment reason is unsupported'')]) (\<lambda>_.
        Inr (st\<lparr>st_active := st_active st - {vl_lease_id predecessor},
                st_superseded := insert (vl_lease_id predecessor) (st_superseded st)\<rparr>))
      else if vl_lease_id predecessor \<in> st_expired st then
        bindR (requireR (reason_code = EXPIRED_LEASE_REASSIGNMENT_REASON)
          (reduction_error ''expired verification lease reassignment reason is unsupported'')) (\<lambda>_. Inr st)
      else if vl_lease_id predecessor \<in> st_cancelled st then
        bindR (requireR (reason_code = CANCELLED_LEASE_REASSIGNMENT_REASON)
          (reduction_error ''cancelled verification lease reassignment reason is unsupported'')) (\<lambda>_. Inr st)
      else Inl (reduction_error ''verification lease predecessor cannot be reassigned from its disposition''))"

definition reassign_lease ::
  "externals \<Rightarrow> mission_state \<Rightarrow> event \<Rightarrow> verification_lease \<Rightarrow> verification_lease \<Rightarrow> verifier_trust_store \<Rightarrow> digest \<Rightarrow> pystr \<Rightarrow>
   mission_state result" where
  "reassign_lease X st ev predecessor l trust snapshot_id reason_code =
     (case (st_grant st, st_admission st) of
        (Some grant, Some admission) \<Rightarrow>
          bindR (requireR (permits_verification grant admission)
            (reduction_error ''verification lease reassignment lacks admitted modeled_fixture_verification authority'')) (\<lambda>_.
          case map_of (st_candidate_events st) (vl_candidate_id predecessor) of
            None \<Rightarrow> Inl (reduction_error ''verification lease predecessor references no retained candidate'')
          | Some candidate_event \<Rightarrow>
              bindR (seqR [
                requireR (work_bindings l = work_bindings predecessor)
                  (reduction_error ''verification lease reassignment changed immutable work bindings''),
                requireR (mission_bindings_match st l candidate_event)
                  (reduction_error ''reassigned verification lease differs from retained mission bindings''),
                requireR (vl_issued_at l = ev_decision_time ev)
                  (reduction_error ''reassigned verification lease issued_at differs from its event''),
                requireR (aa_decision_time admission \<le> vl_issued_at l \<and> vl_issued_at l < vl_expires_at l \<and>
                          vl_expires_at l \<le> grant_deadline grant admission)
                  (reduction_error ''reassigned verification lease exceeds the admitted authority window''),
                requireR (vl_candidate_producer_id l \<noteq> vl_verifier_id l)
                  (reduction_error ''reassigned verification lease assigns the candidate producer''),
                requireR (vl_verifier_id l \<noteq> vl_verifier_id predecessor)
                  (reduction_error ''verification lease reassignment requires a different verifier''),
                requireR (eligible_verifier trust l snapshot_id \<and> vl_lease_id l \<notin> set (vt_revoked_lease_ids trust))
                  (reduction_error ''reassigned verification lease lacks an eligible retained verifier'')]) (\<lambda>_.
              bindR (derive_verification_lease_nonce X (ev_prev_digest ev) l) (\<lambda>expected_nonce.
              bindR (seqR [
                requireR (vl_lease_nonce l = expected_nonce)
                  (reduction_error ''reassigned verification lease nonce is not kernel-derived''),
                requireR (vl_lease_id l \<notin> st_lease_ids st)
                  (reduction_error ''duplicate verification lease identity in mission stream''),
                requireR (int (length (st_lease_events st)) + 1 \<le> ag_max_candidates grant)
                  (reduction_error ''verification lease count exceeds the admitted candidate ceiling'')]) (\<lambda>_.
              bindR (release_predecessor st ev predecessor reason_code) (\<lambda>st'.
                let st2 = retain_lease st' ev l in
                Inr (st2\<lparr>st_successors := AList.update (vl_lease_id predecessor) (vl_lease_id l) (st_successors st2),
                         st_reassignment_events := st_reassignment_events st2 @ [ev]\<rparr>))))))
      | _ \<Rightarrow> Inl (reduction_error ''verification lease reassignment has no admitted authority evidence''))"

definition handle_verification_lease_reassigned :: "externals \<Rightarrow> mission_state \<Rightarrow> event \<Rightarrow> mission_state result" where
  "handle_verification_lease_reassigned X st ev =
     bindR (event_payload X ev) (\<lambda>payload.
     bindR (reassigned_predecessor st (jstr (member ''predecessor_verification_lease_id'' payload))) (\<lambda>predecessor.
     bindR (decode_lease_evidence X payload) (\<lambda>(l, trust, snapshot_id).
       reassign_lease X st ev predecessor l trust snapshot_id (jstr (member ''reason_code'' payload)))))"

section \<open>Artifact resolution\<close>

definition snapshot_targets :: "target_snapshot \<Rightarrow> (digest \<times> pystr \<times> int) list" where
  "snapshot_targets s = map (\<lambda>f. (sf_artifact_digest f, sf_relative_path f, sf_size f)) (ts_files s)"

definition resolution_targets :: "artifact_resolution \<Rightarrow> (digest \<times> pystr \<times> int) list" where
  "resolution_targets r = map (\<lambda>b. (tb_artifact_digest b, tb_relative_path b, tb_size b)) (ar_target_artifacts r)"

definition resolve_artifacts :: "mission_state \<Rightarrow> event \<Rightarrow> artifact_resolution \<Rightarrow> mission_state result" where
  "resolve_artifacts st ev r =
     (case map_of (st_leases st) (ar_verification_lease_id r) of
        None \<Rightarrow> Inl (reduction_error ''artifact resolution references no prior verification lease'')
      | Some l \<Rightarrow>
          bindR (seqR [
            requireR (vl_lease_id l \<in> st_active st \<and> map_of (st_latest st) (vl_candidate_id l) = Some (vl_lease_id l))
              (reduction_error ''artifact resolution requires the active latest lease of the candidate''),
            requireR (ar_verification_lease_id r \<notin> st_resolved st)
              (reduction_error ''verification lease already has an artifact resolution''),
            requireR (ar_mission_id r = st_mission_id st \<and> ar_authority_id r = st_authority_id st \<and>
                      ar_target_snapshot_id r = st_target_id st \<and> ar_candidate_id r = vl_candidate_id l)
              (reduction_error ''artifact resolution differs from retained mission bindings''),
            requireR (ar_resolved_at r = ev_decision_time ev)
              (reduction_error ''artifact resolution time differs from its event''),
            requireR (in_window (vl_issued_at l) (ar_resolved_at r) (vl_expires_at l))
              (reduction_error ''artifact resolution is outside the verification lease window'')]) (\<lambda>_.
          case st_snapshot st of
            None \<Rightarrow> Inl (reduction_error ''artifact resolution has no retained target snapshot'')
          | Some snapshot \<Rightarrow>
              bindR (seqR [
                requireR (resolution_targets r = snapshot_targets snapshot)
                  (reduction_error ''artifact resolution target bindings differ from the retained snapshot''),
                requireR (ab_artifact_digest (ar_poc_artifact r) = vl_poc_artifact_digest l \<and>
                          ab_artifact_digest (ar_environment_artifact r) = vl_environment_digest l \<and>
                          ab_artifact_digest (ar_effect_oracle_artifact r) = vl_effect_oracle_id l \<and>
                          map ab_artifact_digest (ar_evidence_artifacts r) = vl_evidence_artifact_digests l)
                  (reduction_error ''artifact resolution differs from verification lease artifacts'')]) (\<lambda>_.
              case st_grant st of
                None \<Rightarrow> Inl (reduction_error ''artifact resolution has no admitted authority grant'')
              | Some grant \<Rightarrow>
                  bindR (requireR (total_bytes r \<le> ag_max_bytes grant \<and>
                                   typed_input_bytes r \<le> MAX_TYPED_VERIFICATION_INPUT_BYTES_V1 \<and>
                                   total_bytes r \<le> MAX_RESOLUTION_ARTIFACT_BYTES_V1)
                    (reduction_error ''artifact resolution exceeds the admitted byte ceiling'')) (\<lambda>_.
                  Inr (st\<lparr>st_resolved := insert (ar_verification_lease_id r) (st_resolved st),
                          st_resolutions := AList.update (ar_verification_lease_id r) r (st_resolutions st),
                          st_resolution_events := st_resolution_events st @ [ev]\<rparr>)))))"

definition handle_verification_artifacts_resolved :: "externals \<Rightarrow> mission_state \<Rightarrow> event \<Rightarrow> mission_state result" where
  "handle_verification_artifacts_resolved X st ev =
     bindR (event_payload X ev) (\<lambda>payload.
     bindR (bindR (nested_envelope X payload ''resolution'') (resolution_from_envelope X)) (resolve_artifacts st ev))"

section \<open>Receipt admission\<close>

text \<open>The first \<open>try\<close> block: the decision's trust store, the signed receipt and its unattested content.\<close>

definition decode_receipt_evidence ::
  "externals \<Rightarrow> json \<Rightarrow> (verifier_trust_store \<times> signed_receipt \<times> verifier_receipt) result" where
  "decode_receipt_evidence X payload =
     catchR
       (bindR (verifier_trust_from_snapshot X (member ''decision_trust_snapshot'' payload)
                 (Some (jstr (member ''decision_trust_snapshot_id'' payload)))) (\<lambda>trust.
        bindR (canonical_dumps X (member ''receipt'' payload)) (\<lambda>signed_receipt_bytes.
        bindR (signed_receipt_from_bytes X signed_receipt_bytes) (\<lambda>signed.
        bindR (signed_receipt_to_bytes X signed) (\<lambda>again.
        if again \<noteq> signed_receipt_bytes then Inl (reduction_error ''retained signed verifier receipt is noncanonical'')
        else bindR (bindR (envelope_from_bytes X (sr_envelope_bytes signed)) (receipt_from_envelope X)) (\<lambda>v.
          Inr (trust, signed, v)))))))
       (\<lambda>ex. if is_verification_error ex \<or> is_protocol_error ex
             then Inl (reduction_error ''invalid retained verifier receipt decision evidence'') else Inl ex)"

definition receipt_lease :: "mission_state \<Rightarrow> verifier_receipt \<Rightarrow> (verification_lease \<times> artifact_resolution) result" where
  "receipt_lease st v =
     (case map_of (st_leases st) (vr_lease_id v) of
        None \<Rightarrow> Inl (reduction_error ''verifier receipt references no prior verification lease'')
      | Some l \<Rightarrow>
          bindR (seqR [
            requireR (vr_lease_id v \<notin> st_consumed st) (reduction_error ''verification lease is already consumed''),
            requireR (vl_lease_id l \<in> st_active st \<and> map_of (st_latest st) (vl_candidate_id l) = Some (vl_lease_id l))
              (reduction_error ''verifier receipt requires the active latest lease of the candidate'')]) (\<lambda>_.
          case map_of (st_resolutions st) (vr_lease_id v) of
            None \<Rightarrow> Inl (reduction_error ''verifier receipt references a lease without a prior artifact resolution'')
          | Some r \<Rightarrow>
              bindR (requireR (vr_receipt_id v \<notin> st_receipt_ids st)
                (reduction_error ''verifier receipt is already admitted'')) (\<lambda>_. Inr (l, r))))"

text \<open>The second \<open>try\<close> block.\<close>

definition authenticate_admission ::
  "externals \<Rightarrow> event \<Rightarrow> json \<Rightarrow> verifier_trust_store \<Rightarrow> signed_receipt \<Rightarrow> verification_lease \<Rightarrow> artifact_resolution \<Rightarrow>
   (authenticated_receipt \<times> output_artifacts) result" where
  "authenticate_admission X ev payload trust signed l r =
     catchR
       (bindR (authenticate_verifier_receipt X (RawReceipt signed) trust l r (ev_decision_time ev) None) (\<lambda>authenticated.
        bindR (decode_outputs payload) (\<lambda>outs. Inr (authenticated, outs))))
       (\<lambda>ex. if is_verification_error ex \<or> is_artifact_error ex
             then Inl (reduction_error ''verifier receipt admission failed authentication'') else Inl ex)"

definition admit_receipt ::
  "mission_state \<Rightarrow> event \<Rightarrow> json \<Rightarrow> verifier_receipt \<Rightarrow> artifact_resolution \<Rightarrow> authenticated_receipt \<Rightarrow> output_artifacts \<Rightarrow>
   mission_state result" where
  "admit_receipt st ev payload v r authenticated outs =
     bindR (seqR [
       requireR (JStr (at_decision_trust_snapshot_id authenticated) = member ''decision_trust_snapshot_id'' payload)
         (reduction_error ''receipt authentication used a different decision trust snapshot''),
       requireR (outputs_match outs (at_receipt authenticated))
         (reduction_error ''receipt output bindings differ from the signed receipt'')]) (\<lambda>_.
     case st_grant st of
       None \<Rightarrow> Inl (reduction_error ''verifier receipt admission has no admitted authority grant'')
     | Some grant \<Rightarrow>
         bindR (requireR (total_bytes r + output_total_bytes outs \<le> ag_max_bytes grant)
           (reduction_error ''receipt artifacts exceed the admitted byte ceiling'')) (\<lambda>_.
         Inr (st\<lparr>st_active := st_active st - {vr_lease_id v},
                 st_consumed := insert (vr_lease_id v) (st_consumed st),
                 st_receipt_ids := insert (vr_receipt_id v) (st_receipt_ids st),
                 st_receipt_events := st_receipt_events st @ [ev]\<rparr>)))"

text \<open>What remains of the branch once its evidence is decoded.\<close>

definition consume_lease ::
  "externals \<Rightarrow> mission_state \<Rightarrow> event \<Rightarrow> json \<Rightarrow> verifier_trust_store \<Rightarrow> signed_receipt \<Rightarrow> verifier_receipt \<Rightarrow>
   mission_state result" where
  "consume_lease X st ev payload trust signed v =
     bindR (receipt_lease st v) (\<lambda>(l, r).
     bindR (authenticate_admission X ev payload trust signed l r) (\<lambda>(authenticated, outs).
       admit_receipt st ev payload v r authenticated outs))"

definition handle_verifier_receipt_admitted :: "externals \<Rightarrow> mission_state \<Rightarrow> event \<Rightarrow> mission_state result" where
  "handle_verifier_receipt_admitted X st ev =
     bindR (bindR (event_payload X ev) (thaw_json X)) (\<lambda>payload.
     bindR (requireR (member ''adjudication_profile'' payload = JStr RECEIPT_ADMISSION_PROFILE_V1)
       (reduction_error ''verifier receipt admission uses an unsupported profile'')) (\<lambda>_.
     bindR (decode_receipt_evidence X payload) (\<lambda>(trust, signed, v). consume_lease X st ev payload trust signed v)))"

section \<open>Closure\<close>

definition verification_intent :: "mission_state \<Rightarrow> bool" where
  "verification_intent st \<longleftrightarrow>
     (case st_admission st of None \<Rightarrow> False
      | Some admission \<Rightarrow> ''modeled_fixture_verification'' \<in> set (aa_required_actions admission))"

definition coverage_status :: "candidate_partitions \<Rightarrow> digest set \<Rightarrow> pystr" where
  "coverage_status p candidate_ids =
     (if cp_receipt_covered p = candidate_ids then ''receipt_coverage_complete'' else ''receipt_coverage_incomplete'')"

definition legacy_zero_candidate_completion :: "mission_state \<Rightarrow> pystr \<Rightarrow> bool" where
  "legacy_zero_candidate_completion st status \<longleftrightarrow>
     status = ''completed'' \<and> st_candidate_ids st = {} \<and> st_lease_events st = [] \<and> st_expiry_events st = [] \<and>
     st_cancellation_events st = [] \<and> st_reassignment_events st = [] \<and> st_resolution_events st = [] \<and>
     st_receipt_events st = []"

definition check_closing_status :: "mission_state \<Rightarrow> pystr \<Rightarrow> exn + unit" where
  "check_closing_status st status =
     (if verification_intent st then
        bindR (partitions_of st) (\<lambda>p. seqR [
          requireR (st_active st = {} \<and> cp_active p = {})
            (reduction_error ''verification mission cannot close with an active lease''),
          requireR (status = coverage_status p (st_candidate_ids st) \<or> legacy_zero_candidate_completion st status)
            (reduction_error ''verification mission cannot close with a status that differs from retained receipt coverage'')])
      else requireR (status = ''completed'')
        (reduction_error ''non-verification mission must close with completed status''))"

definition check_closing :: "mission_state \<Rightarrow> json \<Rightarrow> event result" where
  "check_closing st payload =
     bindR (seqR [
       check_closing_status st (jstr (member ''status'' payload)),
       requireR (member ''candidate_count'' payload = JInt (int (length (st_candidates st))))
         (reduction_error ''mission_closed candidate_count does not match retained candidates''),
       requireR (member ''parse_failure_count'' payload = JInt (int (length (st_failures st))))
         (reduction_error ''mission_closed parse_failure_count does not match retained failures'')]) (\<lambda>_.
     case st_scan_summary st of
       None \<Rightarrow> Inl (reduction_error ''mission_closed requires a retained scan summary'')
     | Some summary \<Rightarrow> Inr summary)"

definition handle_mission_closed :: "externals \<Rightarrow> mission_state \<Rightarrow> event \<Rightarrow> mission_state result" where
  "handle_mission_closed X st ev =
     bindR (event_payload X ev) (\<lambda>payload.
     bindR (check_closing st payload) (\<lambda>summary.
     bindR (event_payload X summary) (\<lambda>summary_payload.
     bindR (requireR (member ''candidate_count'' payload = member ''candidate_count'' summary_payload \<and>
                      member ''parse_failure_count'' payload = member ''parse_failure_count'' summary_payload)
       (reduction_error ''mission_closed counts do not match scan_completed'')) (\<lambda>_.
     Inr (st\<lparr>st_terminal_event := Some ev\<rparr>)))))"

section \<open>The replay loop\<close>

definition handle_event :: "externals \<Rightarrow> mission_state \<Rightarrow> event \<Rightarrow> mission_state result" where
  "handle_event X st ev =
     (if ev_kind ev = ''authority_admitted'' then handle_authority_admitted X st ev
      else if ev_kind ev = ''mission_opened'' then handle_mission_opened X st ev
      else if ev_kind ev = ''analysis_lease_issued'' then handle_analysis_lease_issued X st ev
      else if ev_kind ev = ''candidate_recorded'' then handle_candidate_recorded X st ev
      else if ev_kind ev = ''parse_failed'' then handle_parse_failed X st ev
      else if ev_kind ev = ''mission_admission_refused'' then Inr (refuse_mission st ev)
      else if map_of FAILURE_PHASES (ev_kind ev) \<noteq> None then Inr (fail_mission st ev)
      else if ev_kind ev = ''scan_completed'' then handle_scan_completed X st ev
      else if ev_kind ev = ''verification_lease_issued'' then handle_verification_lease_issued X st ev
      else if ev_kind ev = ''verification_lease_expired'' then handle_verification_lease_expired X st ev
      else if ev_kind ev = ''verification_lease_cancelled'' then handle_verification_lease_cancelled X st ev
      else if ev_kind ev = ''verification_lease_reassigned'' then handle_verification_lease_reassigned X st ev
      else if ev_kind ev = ''verification_artifacts_resolved'' then handle_verification_artifacts_resolved X st ev
      else if ev_kind ev = ''verifier_receipt_admitted'' then handle_verifier_receipt_admitted X st ev
      else if ev_kind ev = ''mission_closed'' then handle_mission_closed X st ev
      else Inr st)"

definition check_chain :: "mission_state \<Rightarrow> event \<Rightarrow> exn + unit" where
  "check_chain st ev = seqR [
     requireR (ev_seq ev = st_expected_seq st) (reduction_error ''event sequence gap or fork''),
     requireR (ev_prev_digest ev = st_expected_prev st) (reduction_error ''predecessor mismatch''),
     requireR (ev_mission_id ev = st_mission_id st) (reduction_error ''cross-mission event in reducer input''),
     requireR (ev_authority_id ev = st_authority_id st) (reduction_error ''authority identity changed within mission stream''),
     requireR (ev_target_id ev = st_target_id st) (reduction_error ''target identity changed within mission stream''),
     requireR (case st_previous_time st of None \<Rightarrow> True | Some t \<Rightarrow> t \<le> ev_decision_time ev)
       (reduction_error ''decision_time regressed'')]"

definition advance :: "event \<Rightarrow> mission_state \<Rightarrow> mission_state" where
  "advance ev st =
     st\<lparr>st_expected_seq := st_expected_seq st + 1, st_expected_prev := ev_event_digest ev,
        st_previous_time := Some (ev_decision_time ev)\<rparr>"

definition verify_retained :: "externals \<Rightarrow> event \<Rightarrow> exn + unit" where
  "verify_retained X ev =
     catchR (event_verify X ev) (\<lambda>ex. if is_event_error ex then Inl (reduction_error ''invalid event'') else Inl ex)"

definition reduce_step :: "externals \<Rightarrow> mission_state \<Rightarrow> event \<Rightarrow> mission_state result" where
  "reduce_step X st ev =
     bindR (verify_retained X ev) (\<lambda>_.
     bindR (check_chain st ev) (\<lambda>_.
     bindR (transition (st_phase st) (ev_kind ev)) (\<lambda>phase.
     bindR (handle_event X (st\<lparr>st_phase := phase\<rparr>) ev) (\<lambda>st'. Inr (advance ev st')))))"

record mission_projection =
  mp_mission_id :: digest
  mp_authority_id :: digest
  mp_target_id :: digest
  mp_phase :: projection_phase
  mp_events :: "event list"
  mp_candidate_events :: "event list"
  mp_parse_failures :: "event list"
  mp_lease_events :: "event list"
  mp_expiry_events :: "event list"
  mp_cancellation_events :: "event list"
  mp_reassignment_events :: "event list"
  mp_resolution_events :: "event list"
  mp_receipt_events :: "event list"
  mp_active_leases :: "digest set"
  mp_expired_leases :: "digest set"
  mp_cancelled_leases :: "digest set"
  mp_superseded_leases :: "digest set"
  mp_consumed_leases :: "digest set"
  mp_partitions :: candidate_partitions
  mp_latest_lease_by_candidate :: "(digest \<times> digest) list"
  mp_lease_successors :: "(digest \<times> digest) list"
  mp_refusal :: "event option"
  mp_failure_event :: "event option"
  mp_scan_summary :: "event option"
  mp_terminal_event :: "event option"

definition lease_dispositions :: "mission_state \<Rightarrow> digest set list" where
  "lease_dispositions st = [st_active st, st_expired st, st_cancelled st, st_superseded st, st_consumed st]"

definition check_dispositions :: "mission_state \<Rightarrow> exn + unit" where
  "check_dispositions st =
     requireR (\<Union> (set (lease_dispositions st)) = st_lease_ids st \<and>
               sum_list (map card (lease_dispositions st)) = card (st_lease_ids st))
       (reduction_error ''verification leases do not have exactly one canonical disposition'')"

text \<open>\<open>sorted(d.items())\<close>: the keys of a dictionary are distinct, so the order is the one of the keys.\<close>

definition sorted_items :: "(digest \<times> digest) list \<Rightarrow> (digest \<times> digest) list" where
  "sorted_items d = sort_key fst d"

definition project :: "event list \<Rightarrow> mission_state \<Rightarrow> mission_projection result" where
  "project retained st =
     bindR (check_dispositions st) (\<lambda>_.
     bindR (partitions_of st) (\<lambda>p.
     case map_of PHASE_BY_INTERNAL (st_phase st) of
       None \<Rightarrow> Inl (KeyError (st_phase st))
     | Some phase \<Rightarrow> Inr
         \<lparr>mp_mission_id = st_mission_id st, mp_authority_id = st_authority_id st, mp_target_id = st_target_id st,
          mp_phase = phase, mp_events = retained, mp_candidate_events = st_candidates st,
          mp_parse_failures = st_failures st, mp_lease_events = st_lease_events st,
          mp_expiry_events = st_expiry_events st, mp_cancellation_events = st_cancellation_events st,
          mp_reassignment_events = st_reassignment_events st, mp_resolution_events = st_resolution_events st,
          mp_receipt_events = st_receipt_events st, mp_active_leases = st_active st,
          mp_expired_leases = st_expired st, mp_cancelled_leases = st_cancelled st,
          mp_superseded_leases = st_superseded st, mp_consumed_leases = st_consumed st, mp_partitions = p,
          mp_latest_lease_by_candidate = sorted_items (st_latest st),
          mp_lease_successors = sorted_items (st_successors st), mp_refusal = st_refusal st,
          mp_failure_event = st_failure_event st, mp_scan_summary = st_scan_summary st,
          mp_terminal_event = st_terminal_event st\<rparr>))"

definition reduce_events :: "externals \<Rightarrow> event list \<Rightarrow> mission_projection result" where
  "reduce_events X retained =
     (case retained of
        [] \<Rightarrow> Inl (reduction_error ''cannot infer a mission projection from an empty stream'')
      | first # _ \<Rightarrow> bindR (foldR (reduce_step X) (initial_state first) retained) (project retained))"

end
