(* ===== verification/Lifecycle.thy ===== *)
theory Lifecycle
  imports Reducer
begin

text \<open>
  The mission lifecycle as a step relation. \<open>evidence_step\<close> has one rule per branch of the reducer's loop
  body, over evidence that is already decoded; \<open>mission_run\<close> chains the steps behind the header checks and the
  phase machine. The replay of \<open>reduce_events\<close> refines it, so what rule induction shows of
  the runs holds of every projection.
\<close>

section \<open>What each operation checks and changes\<close>

lemma admit_evidenceD:
  assumes "admit_evidence st g a = Inr st'"
  shows "''static_analysis'' \<in> set (aa_required_actions a)" and "''static_analysis'' \<in> set (ag_permitted_actions g)"
    and "st' = st\<lparr>st_grant := Some g, st_admission := Some a\<rparr>"
  using assms by (auto simp: admit_evidence_def bindR_eq_Inr requireR_eq_Inr)

lemma start_analysisE:
  assumes "start_analysis st ev l = Inr st'"
  obtains g a s where "st_grant st = Some g" and "st_admission st = Some a" and "st_snapshot st = Some s"
    and "''static_analysis'' \<in> set (aa_required_actions a)" and "''static_analysis'' \<in> set (ag_permitted_actions g)"
    and "al_action l = ''static_analysis''"
    and "al_expires_at l \<le> ag_expires_at g" and "al_max_bytes l \<le> ag_max_bytes g"
    and "al_max_candidates l \<le> ag_max_candidates g" and "al_max_wallclock_seconds l \<le> ag_max_wallclock_seconds g"
    and "al_expires_at l \<le> al_issued_at l + al_max_wallclock_seconds l" and "snapshot_bytes s \<le> al_max_bytes l"
    and "al_issued_at l \<le> ev_decision_time ev" and "ev_decision_time ev < al_expires_at l"
    and "st' = st\<lparr>st_analysis_lease := Some l\<rparr>"
proof -
  from assms obtain g where g: "st_grant st = Some g" by (auto simp: start_analysis_def split: option.splits)
  with assms obtain s where s: "st_snapshot st = Some s"
    by (auto simp: start_analysis_def bindR_eq_Inr split: option.splits)
  from assms g obtain a where a: "st_admission st = Some a"
    by (auto simp: start_analysis_def bindR_eq_Inr seqR_Cons_eq_Inr requireR_eq_Inr split: option.splits)
  from assms show thesis
    using that [OF g a s] unfolding start_analysis_def g s a option.case bindR_eq_Inr seqR_Cons_eq_Inr requireR_eq_Inr in_window_def
    by auto
qed

lemma check_outputE:
  assumes "check_output what st ev ref path src = Inr ()"
  obtains l s where "st_analysis_lease st = Some l" and "st_snapshot st = Some s" and "ref = al_lease_id l"
    and "ev_decision_time ev - al_issued_at l \<le> al_max_wallclock_seconds l" and "al_issued_at l \<le> ev_decision_time ev"
    and "ev_decision_time ev < al_expires_at l" and "output_count st + 1 \<le> al_max_candidates l"
    and "artifacts_by_path s path = Some src"
proof -
  from assms obtain l where l: "st_analysis_lease st = Some l" by (auto simp: check_output_def split: option.splits)
  with assms obtain s where s: "st_snapshot st = Some s" by (auto simp: check_output_def bindR_eq_Inr split: option.splits)
  from assms show thesis
    using that [OF l s] unfolding check_output_def l s option.case bindR_eq_Inr seqR_Cons_eq_Inr requireR_eq_Inr in_window_def
    by auto
qed

lemma record_candidateD:
  assumes "record_candidate st ev c = Inr st'"
  shows "sc_candidate_id c \<notin> st_candidate_ids st"
    and "check_output ''candidate'' st ev (sc_analysis_lease_id c) (sc_relative_path c) (sc_source_artifact_digest c) = Inr ()"
    and "st' = st\<lparr>st_candidate_ids := insert (sc_candidate_id c) (st_candidate_ids st),
             st_candidate_events := AList.update (sc_candidate_id c) ev (st_candidate_events st),
             st_candidates := st_candidates st @ [ev]\<rparr>"
  using assms by (auto simp: record_candidate_def bindR_eq_Inr requireR_eq_Inr seqR_Cons_eq_Inr)

lemma record_parse_failureE:
  assumes "record_parse_failure st ev payload = Inr st'"
  obtains ref path src where "check_output ''parse failure'' st ev ref path src = Inr ()"
    and "st' = st\<lparr>st_failures := st_failures st @ [ev]\<rparr>"
  using assms by (auto simp: record_parse_failure_def bindR_eq_Inr)

lemma complete_scanE:
  assumes "complete_scan st ev payload = Inr st'"
  obtains l s where "st_analysis_lease st = Some l" and "st_snapshot st = Some s"
    and "snapshot_bytes s \<le> al_max_bytes l" and "output_count st \<le> al_max_candidates l"
    and "al_issued_at l \<le> ev_decision_time ev" and "ev_decision_time ev < al_expires_at l"
    and "st' = st\<lparr>st_scan_summary := Some ev\<rparr>"
proof -
  from assms obtain l s where l: "st_analysis_lease st = Some l" and s: "st_snapshot st = Some s"
    by (auto simp: complete_scan_def split: option.splits)
  note u = assms [unfolded complete_scan_def l s option.case prod.case bindR_eq_Inr seqR_Cons_eq_Inr requireR_eq_Inr in_window_def]
  from u have "snapshot_bytes s \<le> al_max_bytes l" by (metis jint.simps(1))
  then show thesis using u by (intro that [OF l s]) blast+
qed

lemma issue_leaseE:
  assumes "issue_lease st ev l trust i = Inr st'"
  obtains g a ce where "st_grant st = Some g" and "st_admission st = Some a"
    and "map_of (st_candidate_events st) (vl_candidate_id l) = Some ce" and "permits_verification g a"
    and "mission_bindings_match st l ce" and "vl_issued_at l = ev_decision_time ev"
    and "aa_decision_time a \<le> vl_issued_at l" and "vl_issued_at l < vl_expires_at l"
    and "vl_expires_at l \<le> grant_deadline g a" and "vl_candidate_producer_id l \<noteq> vl_verifier_id l"
    and "eligible_verifier trust l i" and "vl_lease_id l \<notin> st_lease_ids st"
    and "map_of (st_latest st) (vl_candidate_id l) = None"
    and "int (length (st_lease_events st)) + 1 \<le> ag_max_candidates g" and "st' = retain_lease st ev l"
proof -
  from assms obtain g a where g: "st_grant st = Some g" "st_admission st = Some a"
    by (auto simp: issue_lease_def split: option.splits)
  with assms obtain ce where c: "map_of (st_candidate_events st) (vl_candidate_id l) = Some ce"
    by (auto simp: issue_lease_def bindR_eq_Inr split: option.splits)
  from assms show thesis
    using that [OF g c] unfolding issue_lease_def g c option.case prod.case bindR_eq_Inr seqR_Cons_eq_Inr requireR_eq_Inr by auto
qed

lemma expire_leaseE:
  assumes "expire_lease st ev i = Inr st'"
  obtains l where "map_of (st_leases st) i = Some l" and "map_of (st_latest st) (vl_candidate_id l) = Some (vl_lease_id l)"
    and "vl_lease_id l \<in> st_active st" and "vl_expires_at l \<le> ev_decision_time ev"
    and "st' = st\<lparr>st_active := st_active st - {vl_lease_id l}, st_expired := insert (vl_lease_id l) (st_expired st),
                  st_expiry_events := st_expiry_events st @ [ev]\<rparr>"
  using assms by (auto simp: expire_lease_def bindR_eq_Inr seqR_Cons_eq_Inr requireR_eq_Inr split: option.splits)

lemma cancel_leaseE:
  assumes "cancel_lease st ev i reason = Inr st'"
  obtains l where "map_of (st_leases st) i = Some l" and "map_of (st_latest st) (vl_candidate_id l) = Some (vl_lease_id l)"
    and "reason = CANCELLATION_REASON"
    and "vl_lease_id l \<in> st_active st" and "vl_issued_at l \<le> ev_decision_time ev" and "ev_decision_time ev < vl_expires_at l"
    and "st' = st\<lparr>st_active := st_active st - {vl_lease_id l}, st_cancelled := insert (vl_lease_id l) (st_cancelled st),
                  st_cancellation_events := st_cancellation_events st @ [ev]\<rparr>"
  using assms by (auto simp: cancel_lease_def bindR_eq_Inr seqR_Cons_eq_Inr requireR_eq_Inr in_window_def split: option.splits)

lemma reassigned_predecessorD:
  assumes "reassigned_predecessor st pid = Inr p"
  shows "map_of (st_leases st) pid = Some p" and "map_of (st_latest st) (vl_candidate_id p) = Some (vl_lease_id p)"
    and "map_of (st_successors st) (vl_lease_id p) = None"
  using assms by (auto simp: reassigned_predecessor_def bindR_eq_Inr seqR_Cons_eq_Inr requireR_eq_Inr split: option.splits)

lemma release_predecessorE:
  assumes "release_predecessor st ev p reason = Inr st'"
  obtains (superseded) "vl_lease_id p \<in> st_active st" and "ev_decision_time ev < vl_expires_at p"
    and "reason = ACTIVE_LEASE_REASSIGNMENT_REASON"
    and "st' = st\<lparr>st_active := st_active st - {vl_lease_id p}, st_superseded := insert (vl_lease_id p) (st_superseded st)\<rparr>"
  | (kept) "vl_lease_id p \<notin> st_active st" and "vl_lease_id p \<in> st_expired st \<union> st_cancelled st" and "st' = st"
  using assms
  by (auto simp: release_predecessor_def bindR_eq_Inr seqR_Cons_eq_Inr requireR_eq_Inr split: if_splits)

lemma reassign_leaseE:
  assumes "reassign_lease X st ev p l trust i reason = Inr st'"
  obtains g a ce st1 where "st_grant st = Some g" and "st_admission st = Some a"
    and "map_of (st_candidate_events st) (vl_candidate_id p) = Some ce" and "permits_verification g a"
    and "work_bindings l = work_bindings p"
    and "mission_bindings_match st l ce" and "vl_issued_at l = ev_decision_time ev"
    and "aa_decision_time a \<le> vl_issued_at l" and "vl_issued_at l < vl_expires_at l"
    and "vl_expires_at l \<le> grant_deadline g a" and "vl_candidate_producer_id l \<noteq> vl_verifier_id l"
    and "vl_verifier_id l \<noteq> vl_verifier_id p" and "eligible_verifier trust l i"
    and "vl_lease_id l \<notin> set (vt_revoked_lease_ids trust)"
    and "derive_verification_lease_nonce X (ev_prev_digest ev) l = Inr (vl_lease_nonce l)"
    and "vl_lease_id l \<notin> st_lease_ids st" and "int (length (st_lease_events st)) + 1 \<le> ag_max_candidates g"
    and "release_predecessor st ev p reason = Inr st1"
    and "st' = (retain_lease st1 ev l)\<lparr>
       st_successors := AList.update (vl_lease_id p) (vl_lease_id l) (st_successors (retain_lease st1 ev l)),
       st_reassignment_events := st_reassignment_events (retain_lease st1 ev l) @ [ev]\<rparr>"
proof -
  from assms obtain g a where g: "st_grant st = Some g" "st_admission st = Some a"
    by (auto simp: reassign_lease_def split: option.splits)
  with assms obtain ce where c: "map_of (st_candidate_events st) (vl_candidate_id p) = Some ce"
    by (auto simp: reassign_lease_def bindR_eq_Inr split: option.splits)
  note u = assms [unfolded reassign_lease_def g c option.case prod.case bindR_eq_Inr seqR_Cons_eq_Inr requireR_eq_Inr Let_def sum.inject]
  from u obtain nonce st1 where
    n: "derive_verification_lease_nonce X (ev_prev_digest ev) l = Inr nonce" "vl_lease_nonce l = nonce"
    and r: "release_predecessor st ev p reason = Inr st1"
    and e: "(retain_lease st1 ev l)\<lparr>
       st_successors := AList.update (vl_lease_id p) (vl_lease_id l) (st_successors (retain_lease st1 ev l)),
       st_reassignment_events := st_reassignment_events (retain_lease st1 ev l) @ [ev]\<rparr> = st'"
    by (elim exE conjE) (rule that)
  from n have "derive_verification_lease_nonce X (ev_prev_digest ev) l = Inr (vl_lease_nonce l)" by simp
  with u r e [symmetric] show thesis by (intro that [OF g c]) blast+
qed

lemma resolve_artifactsE:
  assumes "resolve_artifacts st ev r = Inr st'"
  obtains l s g where "map_of (st_leases st) (ar_verification_lease_id r) = Some l" and "st_snapshot st = Some s"
    and "st_grant st = Some g" and "vl_lease_id l \<in> st_active st"
    and "map_of (st_latest st) (vl_candidate_id l) = Some (vl_lease_id l)"
    and "ar_verification_lease_id r \<notin> st_resolved st" and "ar_mission_id r = st_mission_id st"
    and "ar_authority_id r = st_authority_id st" and "ar_target_snapshot_id r = st_target_id st"
    and "ar_candidate_id r = vl_candidate_id l" and "ar_resolved_at r = ev_decision_time ev"
    and "vl_issued_at l \<le> ar_resolved_at r" and "ar_resolved_at r < vl_expires_at l"
    and "resolution_targets r = snapshot_targets s"
    and "singleton_and_evidence r = vl_poc_artifact_digest l # vl_environment_digest l # vl_effect_oracle_id l #
      vl_evidence_artifact_digests l"
    and "total_bytes r \<le> ag_max_bytes g"
    and "st' = st\<lparr>st_resolved := insert (ar_verification_lease_id r) (st_resolved st),
                  st_resolutions := AList.update (ar_verification_lease_id r) r (st_resolutions st),
                  st_resolution_events := st_resolution_events st @ [ev]\<rparr>"
proof -
  from assms obtain l where l: "map_of (st_leases st) (ar_verification_lease_id r) = Some l"
    by (auto simp: resolve_artifacts_def split: option.splits)
  with assms obtain s where s: "st_snapshot st = Some s"
    by (auto simp: resolve_artifacts_def bindR_eq_Inr split: option.splits)
  with assms l obtain g where g: "st_grant st = Some g"
    by (auto simp: resolve_artifacts_def bindR_eq_Inr split: option.splits)
  note u = assms [unfolded resolve_artifacts_def l s g option.case bindR_eq_Inr seqR_Cons_eq_Inr requireR_eq_Inr in_window_def sum.inject]
  then show thesis by (intro that [OF l s g]) (auto simp: singleton_and_evidence_def evidence_digests_def)
qed

lemma receipt_leaseD:
  assumes "receipt_lease st v = Inr (l, r)"
  shows "map_of (st_leases st) (vr_lease_id v) = Some l" and "vr_lease_id v \<notin> st_consumed st"
    and "vl_lease_id l \<in> st_active st" and "map_of (st_latest st) (vl_candidate_id l) = Some (vl_lease_id l)"
    and "map_of (st_resolutions st) (vr_lease_id v) = Some r" and "vr_receipt_id v \<notin> st_receipt_ids st"
  using assms by (auto simp: receipt_lease_def bindR_eq_Inr seqR_Cons_eq_Inr requireR_eq_Inr split: option.splits)

lemma admit_receiptE:
  assumes "admit_receipt st ev payload v r a outs = Inr st'"
  obtains g where "st_grant st = Some g" and "outputs_match outs (at_receipt a)"
    and "total_bytes r + output_total_bytes outs \<le> ag_max_bytes g"
    and "st' = st\<lparr>st_active := st_active st - {vr_lease_id v}, st_consumed := insert (vr_lease_id v) (st_consumed st),
                 st_receipt_ids := insert (vr_receipt_id v) (st_receipt_ids st),
                 st_receipt_events := st_receipt_events st @ [ev]\<rparr>"
  using assms by (auto simp: admit_receipt_def bindR_eq_Inr seqR_Cons_eq_Inr requireR_eq_Inr split: option.splits)

lemma consume_leaseE:
  assumes "consume_lease X st ev payload trust signed v = Inr st'"
  obtains l r a outs g where "receipt_lease st v = Inr (l, r)"
    and "authenticate_verifier_receipt X (RawReceipt signed) trust l r (ev_decision_time ev) None = Inr a"
    and "st_grant st = Some g" and "outputs_match outs (at_receipt a)"
    and "total_bytes r + output_total_bytes outs \<le> ag_max_bytes g"
    and "st' = st\<lparr>st_active := st_active st - {vr_lease_id v}, st_consumed := insert (vr_lease_id v) (st_consumed st),
                 st_receipt_ids := insert (vr_receipt_id v) (st_receipt_ids st),
                 st_receipt_events := st_receipt_events st @ [ev]\<rparr>"
proof -
  from assms obtain l r a outs where lr: "receipt_lease st v = Inr (l, r)"
    and a: "authenticate_admission X ev payload trust signed l r = Inr (a, outs)"
    and s: "admit_receipt st ev payload v r a outs = Inr st'"
    by (auto simp: consume_lease_def bindR_eq_Inr)
  from a have "authenticate_verifier_receipt X (RawReceipt signed) trust l r (ev_decision_time ev) None = Inr a"
    by (auto simp: authenticate_admission_def catchR_def bindR_eq_Inr split: sum.splits if_splits)
  with lr s that show thesis by (auto elim!: admit_receiptE)
qed

section \<open>The step relation\<close>

text \<open>
  \<open>evidence_step X st ev st'\<close>: the branch of the event's kind accepts some decoded evidence and turns
  \<open>st\<close>, whose phase is already the one after the transition, into \<open>st'\<close>.
\<close>

inductive evidence_step :: "externals \<Rightarrow> mission_state \<Rightarrow> event \<Rightarrow> mission_state \<Rightarrow> bool" for X where
  admitted: "ev_kind ev = ''authority_admitted'' \<Longrightarrow> admit_evidence st g a = Inr st' \<Longrightarrow> evidence_step X st ev st'"
| opened: "ev_kind ev = ''mission_opened'' \<Longrightarrow> st' = open_target st s \<Longrightarrow> evidence_step X st ev st'"
| leased: "ev_kind ev = ''analysis_lease_issued'' \<Longrightarrow> start_analysis st ev al = Inr st' \<Longrightarrow> evidence_step X st ev st'"
| candidate: "ev_kind ev = ''candidate_recorded'' \<Longrightarrow> record_candidate st ev c = Inr st' \<Longrightarrow> evidence_step X st ev st'"
| parse_failed: "ev_kind ev = ''parse_failed'' \<Longrightarrow> record_parse_failure st ev payload = Inr st' \<Longrightarrow> evidence_step X st ev st'"
| refused: "ev_kind ev = ''mission_admission_refused'' \<Longrightarrow> st' = refuse_mission st ev \<Longrightarrow> evidence_step X st ev st'"
| failed: "map_of FAILURE_PHASES (ev_kind ev) = Some phase \<Longrightarrow> st' = fail_mission st ev \<Longrightarrow> evidence_step X st ev st'"
| scanned: "ev_kind ev = ''scan_completed'' \<Longrightarrow> complete_scan st ev payload = Inr st' \<Longrightarrow> evidence_step X st ev st'"
| issued: "ev_kind ev = ''verification_lease_issued'' \<Longrightarrow> issue_lease st ev l trust i = Inr st' \<Longrightarrow> evidence_step X st ev st'"
| expired: "ev_kind ev = ''verification_lease_expired'' \<Longrightarrow> expire_lease st ev i = Inr st' \<Longrightarrow> evidence_step X st ev st'"
| cancelled: "ev_kind ev = ''verification_lease_cancelled'' \<Longrightarrow> cancel_lease st ev i reason = Inr st' \<Longrightarrow> evidence_step X st ev st'"
| reassigned: "ev_kind ev = ''verification_lease_reassigned'' \<Longrightarrow> reassigned_predecessor st pid = Inr p \<Longrightarrow>
    reassign_lease X st ev p l trust i reason = Inr st' \<Longrightarrow> evidence_step X st ev st'"
| resolved: "ev_kind ev = ''verification_artifacts_resolved'' \<Longrightarrow> resolve_artifacts st ev r = Inr st' \<Longrightarrow> evidence_step X st ev st'"
| receipt: "ev_kind ev = ''verifier_receipt_admitted'' \<Longrightarrow> consume_lease X st ev payload trust signed v = Inr st' \<Longrightarrow>
    evidence_step X st ev st'"
| closed: "ev_kind ev = ''mission_closed'' \<Longrightarrow> check_closing st payload = Inr summary \<Longrightarrow>
    st' = st\<lparr>st_terminal_event := Some ev\<rparr> \<Longrightarrow> evidence_step X st ev st'"

inductive mission_run :: "externals \<Rightarrow> event \<Rightarrow> event list \<Rightarrow> mission_state \<Rightarrow> bool" for X first where
  start: "mission_run X first [] (initial_state first)"
| step: "mission_run X first evs st \<Longrightarrow> check_chain st ev = Inr () \<Longrightarrow> transition (st_phase st) (ev_kind ev) = Inr phase \<Longrightarrow>
    evidence_step X (st\<lparr>st_phase := phase\<rparr>) ev st' \<Longrightarrow> mission_run X first (evs @ [ev]) (advance ev st')"

inductive_cases mission_run_snocE: "mission_run X first (evs @ [ev]) st"

lemma transition_kind:
  assumes "transition phase kind = Inr p"
  shows "kind \<in> fst ` set EVENT_UNIT_BY_KIND"
  using assms
  by (auto simp: transition_def failure_transition_def illegal_transition_def FAILURE_PHASES_def VERIFICATION_KINDS_def
      EVENT_UNIT_BY_KIND_def split: if_splits)

lemmas handler_defs =
  handle_authority_admitted_def handle_mission_opened_def handle_analysis_lease_issued_def handle_candidate_recorded_def
  handle_parse_failed_def handle_scan_completed_def handle_verification_lease_issued_def
  handle_verification_lease_expired_def handle_verification_lease_cancelled_def handle_verification_lease_reassigned_def
  handle_verification_artifacts_resolved_def handle_verifier_receipt_admitted_def handle_mission_closed_def

lemma handle_event_step:
  assumes "handle_event X st ev = Inr st'" and "ev_kind ev \<in> fst ` set EVENT_UNIT_BY_KIND"
  shows "evidence_step X st ev st'"
proof (cases "map_of FAILURE_PHASES (ev_kind ev)")
  case None
  with assms show ?thesis unfolding handle_event_def handler_defs
    by (auto simp: bindR_eq_Inr EVENT_UNIT_BY_KIND_def FAILURE_PHASES_def split: if_splits prod.splits
        intro: evidence_step.intros)
next
  case (Some phase)
  then have "handle_event X st ev = Inr (fail_mission st ev)"
    by (auto simp: FAILURE_PHASES_def handle_event_def split: if_splits)
  with assms(1) Some show ?thesis by (auto intro: evidence_step.failed)
qed

lemma reduce_step_run:
  assumes "reduce_step X st ev = Inr st'" and "mission_run X first evs st"
  shows "mission_run X first (evs @ [ev]) st'"
proof -
  from assms(1) obtain phase st1 where "check_chain st ev = Inr ()" and t: "transition (st_phase st) (ev_kind ev) = Inr phase"
    and h: "handle_event X (st\<lparr>st_phase := phase\<rparr>) ev = Inr st1" and "st' = advance ev st1"
    by (auto simp: reduce_step_def bindR_eq_Inr)
  with assms(2) handle_event_step [OF h transition_kind [OF t]] show ?thesis by (auto intro: mission_run.step)
qed

lemma foldR_mission_run:
  assumes "foldR (reduce_step X) st evs = Inr st'" and "mission_run X first done st"
  shows "mission_run X first (done @ evs) st'"
  using assms
proof (induction evs arbitrary: st "done")
  case (Cons ev evs)
  then obtain st1 where "reduce_step X st ev = Inr st1" and r: "foldR (reduce_step X) st1 evs = Inr st'"
    by (auto simp: bindR_eq_Inr)
  then have "mission_run X first (done @ [ev]) st1" using Cons.prems(2) by (blast intro: reduce_step_run)
  from Cons.IH [OF r this] show ?case by simp
qed simp

section \<open>The lease ledger\<close>

text \<open>
  The invariant of the verification ledger: leases are stored under their identity, the five disposition sets
  partition the identities, the latest lease of a candidate is a lease of that candidate that was
  never superseded, and an active lease is the latest one of its candidate.
\<close>

definition lease_table_ok :: "mission_state \<Rightarrow> bool" where
  "lease_table_ok st \<longleftrightarrow>
     finite (st_lease_ids st) \<and> dom (map_of (st_leases st)) = st_lease_ids st \<and>
     (\<forall>i l. map_of (st_leases st) i = Some l \<longrightarrow> vl_lease_id l = i)"

definition dispositions_ok :: "mission_state \<Rightarrow> bool" where
  "dispositions_ok st \<longleftrightarrow>
     st_lease_ids st = st_active st \<union> st_expired st \<union> st_cancelled st \<union> st_superseded st \<union> st_consumed st \<and>
     st_active st \<inter> (st_expired st \<union> st_cancelled st \<union> st_superseded st \<union> st_consumed st) = {} \<and>
     st_expired st \<inter> (st_cancelled st \<union> st_superseded st \<union> st_consumed st) = {} \<and>
     st_cancelled st \<inter> (st_superseded st \<union> st_consumed st) = {} \<and> st_superseded st \<inter> st_consumed st = {}"

definition lineage_ok :: "mission_state \<Rightarrow> bool" where
  "lineage_ok st \<longleftrightarrow>
     distinct (map fst (st_latest st)) \<and>
     (\<forall>c i. map_of (st_latest st) c = Some i \<longrightarrow>
        (\<exists>l. map_of (st_leases st) i = Some l \<and> vl_candidate_id l = c) \<and> i \<notin> st_superseded st) \<and>
     (\<forall>i l. i \<in> st_active st \<longrightarrow> map_of (st_leases st) i = Some l \<longrightarrow> map_of (st_latest st) (vl_candidate_id l) = Some i)"

definition candidates_ok :: "mission_state \<Rightarrow> bool" where
  "candidates_ok st \<longleftrightarrow>
     finite (st_candidate_ids st) \<and> dom (map_of (st_candidate_events st)) = st_candidate_ids st \<and>
     dom (map_of (st_latest st)) \<subseteq> st_candidate_ids st"

definition ledger_ok :: "mission_state \<Rightarrow> bool" where
  "ledger_ok st \<longleftrightarrow> lease_table_ok st \<and> dispositions_ok st \<and> lineage_ok st \<and> candidates_ok st"

lemmas ledger_defs = ledger_ok_def lease_table_ok_def dispositions_ok_def lineage_ok_def candidates_ok_def

text \<open>The ledger depends on these fields only.\<close>

lemma ledger_ok_cong:
  assumes "st_lease_ids st' = st_lease_ids st" "st_leases st' = st_leases st" "st_active st' = st_active st"
    "st_expired st' = st_expired st" "st_cancelled st' = st_cancelled st" "st_superseded st' = st_superseded st"
    "st_consumed st' = st_consumed st" "st_latest st' = st_latest st" "st_candidate_ids st' = st_candidate_ids st"
    "st_candidate_events st' = st_candidate_events st"
  shows "ledger_ok st' = ledger_ok st"
  using assms by (simp add: ledger_defs)

lemma ledger_retire:
  assumes "ledger_ok st" and "i \<in> st_active st" and "st_active st' = st_active st - {i}"
    and "(st_expired st', st_cancelled st', st_superseded st', st_consumed st') \<in>
      {(insert i (st_expired st), st_cancelled st, st_superseded st, st_consumed st),
       (st_expired st, insert i (st_cancelled st), st_superseded st, st_consumed st),
       (st_expired st, st_cancelled st, st_superseded st, insert i (st_consumed st))}"
    and "st_lease_ids st' = st_lease_ids st" "st_leases st' = st_leases st" "st_latest st' = st_latest st"
      "st_candidate_ids st' = st_candidate_ids st" "st_candidate_events st' = st_candidate_events st"
  shows "ledger_ok st'"
proof -
  from assms have "dispositions_ok st'" unfolding dispositions_ok_def ledger_ok_def by auto
  moreover from assms have "st_superseded st' = st_superseded st" "st_active st' \<subseteq> st_active st" by auto
  with assms have "lineage_ok st'" unfolding lineage_ok_def ledger_ok_def by auto
  ultimately show ?thesis using assms by (simp add: ledger_ok_def lease_table_ok_def candidates_ok_def)
qed

lemma lineage_retain:
  assumes "distinct (map fst (st_latest st))"
    and "\<And>c j. map_of (st_latest st) c = Some j \<Longrightarrow> c \<noteq> vl_candidate_id l \<Longrightarrow>
      (\<exists>m. map_of (st_leases st) j = Some m \<and> vl_candidate_id m = c) \<and> j \<notin> st_superseded st"
    and "\<And>j m. j \<in> st_active st \<Longrightarrow> map_of (st_leases st) j = Some m \<Longrightarrow>
      vl_candidate_id m \<noteq> vl_candidate_id l \<and> map_of (st_latest st) (vl_candidate_id m) = Some j"
    and "vl_lease_id l \<notin> dom (map_of (st_leases st))" and "vl_lease_id l \<notin> st_superseded st"
  shows "lineage_ok (retain_lease st ev l)"
  unfolding lineage_ok_def
proof (intro conjI allI impI)
  show "distinct (map fst (st_latest (retain_lease st ev l)))"
    using assms(1) by (simp add: retain_lease_def distinct_update)
next
  fix c j
  assume "map_of (st_latest (retain_lease st ev l)) c = Some j"
  then show "\<exists>m. map_of (st_leases (retain_lease st ev l)) j = Some m \<and> vl_candidate_id m = c"
    and "j \<notin> st_superseded (retain_lease st ev l)"
    using assms(2) [of c j] assms(4,5) by (auto simp: retain_lease_def update_conv' split: if_splits)
next
  fix j m
  assume "j \<in> st_active (retain_lease st ev l)" and "map_of (st_leases (retain_lease st ev l)) j = Some m"
  then show "map_of (st_latest (retain_lease st ev l)) (vl_candidate_id m) = Some j"
    using assms(3) [of j m] by (auto simp: retain_lease_def update_conv' split: if_splits)
qed

lemma ledger_retain:
  assumes "ledger_ok st" and "vl_lease_id l \<notin> st_lease_ids st" and "vl_candidate_id l \<in> st_candidate_ids st"
    and "\<And>i m. i \<in> st_active st \<Longrightarrow> map_of (st_leases st) i = Some m \<Longrightarrow> vl_candidate_id m \<noteq> vl_candidate_id l"
  shows "ledger_ok (retain_lease st ev l)"
proof -
  have new: "vl_lease_id l \<notin> st_active st \<union> st_expired st \<union> st_cancelled st \<union> st_superseded st \<union> st_consumed st"
    using assms(1,2) by (auto simp: ledger_ok_def dispositions_ok_def)
  have "lease_table_ok (retain_lease st ev l)"
    using assms(1) by (auto simp: ledger_ok_def lease_table_ok_def retain_lease_def update_conv')
  moreover have "dispositions_ok (retain_lease st ev l)"
    using assms(1) new by (auto simp: ledger_ok_def dispositions_ok_def retain_lease_def)
  moreover have "candidates_ok (retain_lease st ev l)"
    using assms(1,3) by (auto simp: ledger_ok_def candidates_ok_def retain_lease_def update_conv')
  moreover have "lineage_ok (retain_lease st ev l)"
    by (rule lineage_retain)
      (use assms new in \<open>auto simp: ledger_ok_def lineage_ok_def lease_table_ok_def\<close>)
  ultimately show ?thesis by (simp add: ledger_ok_def)
qed

lemma latest_unique_active:
  assumes "ledger_ok st" and "i \<in> st_active st" and "map_of (st_leases st) i = Some l"
  shows "map_of (st_latest st) (vl_candidate_id l) = Some i" and "vl_lease_id l = i"
  using assms by (auto simp: ledger_ok_def lineage_ok_def lease_table_ok_def)

lemma ledger_issue:
  assumes "issue_lease st ev l trust i = Inr st'" and "ledger_ok st"
  shows "ledger_ok st'"
  using assms(1)
proof (rule issue_leaseE)
  fix g a ce
  assume *: "map_of (st_candidate_events st) (vl_candidate_id l) = Some ce" "vl_lease_id l \<notin> st_lease_ids st"
    "map_of (st_latest st) (vl_candidate_id l) = None" "st' = retain_lease st ev l"
  from *(1) have "vl_candidate_id l \<in> st_candidate_ids st" using assms(2) by (auto simp: ledger_ok_def candidates_ok_def)
  moreover have "vl_candidate_id m \<noteq> vl_candidate_id l" if "j \<in> st_active st" "map_of (st_leases st) j = Some m" for j m
    using latest_unique_active(1) [OF assms(2) that] *(3) by auto
  ultimately show ?thesis using *(2,4) assms(2) ledger_retain by blast
qed

lemma ledger_reassign:
  assumes "reassign_lease X st ev p l trust i reason = Inr st'" and "reassigned_predecessor st pid = Inr p" and "ledger_ok st"
  shows "ledger_ok st'"
  using assms(1)
proof (rule reassign_leaseE)
  fix g a ce st1
  assume ce: "map_of (st_candidate_events st) (vl_candidate_id p) = Some ce" and wb: "work_bindings l = work_bindings p"
    and new: "vl_lease_id l \<notin> st_lease_ids st" and rel: "release_predecessor st ev p reason = Inr st1"
    and st': "st' = (retain_lease st1 ev l)\<lparr>
       st_successors := AList.update (vl_lease_id p) (vl_lease_id l) (st_successors (retain_lease st1 ev l)),
       st_reassignment_events := st_reassignment_events (retain_lease st1 ev l) @ [ev]\<rparr>"
  note pd = reassigned_predecessorD [OF assms(2)]
  have cand: "vl_candidate_id l = vl_candidate_id p" using wb by (simp add: work_bindings_def)
  have cp: "vl_candidate_id p \<in> st_candidate_ids st" using assms(3) ce by (auto simp: ledger_ok_def candidates_ok_def)
  have pid: "vl_lease_id p = pid" using assms(3) pd(1) by (auto simp: ledger_ok_def lease_table_ok_def)
  have others: "vl_candidate_id m \<noteq> vl_candidate_id l" if "j \<in> st_active st" "j \<noteq> pid" "map_of (st_leases st) j = Some m" for j m
    using latest_unique_active(1) [OF assms(3) that(1,3)] pd(2) that(2) cand pid by auto
  have tab: "dom (map_of (st_leases st)) = st_lease_ids st" and disp: "st_superseded st \<subseteq> st_lease_ids st"
    and lin: "distinct (map fst (st_latest st))"
      "\<And>c i. map_of (st_latest st) c = Some i \<Longrightarrow>
         (\<exists>l. map_of (st_leases st) i = Some l \<and> vl_candidate_id l = c) \<and> i \<notin> st_superseded st"
      "\<And>i l. i \<in> st_active st \<Longrightarrow> map_of (st_leases st) i = Some l \<Longrightarrow> map_of (st_latest st) (vl_candidate_id l) = Some i"
    using assms(3) by (auto simp: ledger_ok_def lineage_ok_def lease_table_ok_def dispositions_ok_def)
  have "ledger_ok (retain_lease st1 ev l)"
    using rel
  proof (cases rule: release_predecessorE)
    case superseded
    txt \<open>The intermediate state, where the superseded lease is still the latest one, is repaired by the retention.\<close>
    have "lease_table_ok (retain_lease st1 ev l)" "candidates_ok (retain_lease st1 ev l)"
      using assms(3) superseded cp cand
      by (auto simp: ledger_ok_def lease_table_ok_def candidates_ok_def retain_lease_def update_conv')
    moreover have "dispositions_ok (retain_lease st1 ev l)"
      using assms(3) superseded new by (auto simp: ledger_ok_def dispositions_ok_def retain_lease_def)
    moreover have "lineage_ok (retain_lease st1 ev l)"
    proof (rule lineage_retain)
      fix c j
      assume "map_of (st_latest st1) c = Some j" and "c \<noteq> vl_candidate_id l"
      then show "(\<exists>m. map_of (st_leases st1) j = Some m \<and> vl_candidate_id m = c) \<and> j \<notin> st_superseded st1"
        using lin(2) [of c j] superseded(4) pd(1) pid cand by auto
    next
      fix j m
      assume "j \<in> st_active st1" and "map_of (st_leases st1) j = Some m"
      then show "vl_candidate_id m \<noteq> vl_candidate_id l \<and> map_of (st_latest st1) (vl_candidate_id m) = Some j"
        using lin(3) [of j m] others [of j m] superseded(4) pid by auto
    qed (use lin(1) superseded(4) new tab disp pd(1) pid in auto)
    ultimately show ?thesis by (simp add: ledger_ok_def)
  next
    case kept
    then show ?thesis using ledger_retain [of st l ev] assms(3) new cp cand others pid by auto
  qed
  then show ?thesis unfolding st' by (subst ledger_ok_cong [of _ "retain_lease st1 ev l"]) simp_all
qed

lemma ledger_consume:
  assumes "consume_lease X st ev payload trust signed v = Inr st'" and "ledger_ok st"
  shows "ledger_ok st'"
  using assms(1)
proof (rule consume_leaseE)
  fix l r
  assume "receipt_lease st v = Inr (l, r)"
    and st': "st' = st\<lparr>st_active := st_active st - {vr_lease_id v}, st_consumed := insert (vr_lease_id v) (st_consumed st),
                 st_receipt_ids := insert (vr_receipt_id v) (st_receipt_ids st),
                 st_receipt_events := st_receipt_events st @ [ev]\<rparr>"
  note d = receipt_leaseD [OF this(1)]
  have "vr_lease_id v \<in> st_active st" using assms(2) d(1,3) by (auto simp: ledger_ok_def lease_table_ok_def)
  from ledger_retire [OF assms(2) this] show ?thesis unfolding st' by simp
qed

lemma ledger_step:
  assumes "evidence_step X st ev st'" and "ledger_ok st"
  shows "ledger_ok st'"
  using assms(1)
proof cases
  case (candidate c)
  from record_candidateD [OF this(2)] show ?thesis
    using assms(2) by (auto simp: ledger_defs update_conv')
next
  case (expired i)
  from this(2) show ?thesis by (rule expire_leaseE) (rule ledger_retire [OF assms(2)], auto)
next
  case (cancelled i reason)
  from this(2) show ?thesis by (rule cancel_leaseE) (rule ledger_retire [OF assms(2)], auto)
next
  case (issued l trust i)
  then show ?thesis using assms(2) ledger_issue by blast
next
  case (reassigned pid p l trust i reason)
  then show ?thesis using assms(2) ledger_reassign by blast
next
  case (receipt payload trust signed v)
  then show ?thesis using assms(2) ledger_consume by blast
next
  case (resolved r)
  from this(2) show ?thesis by (rule resolve_artifactsE) (simp add: ledger_ok_cong [of _ st] assms(2))
next
  case (leased al)
  from this(2) show ?thesis by (rule start_analysisE) (simp add: ledger_ok_cong [of _ st] assms(2))
next
  case (parse_failed payload)
  from this(2) show ?thesis by (rule record_parse_failureE) (simp add: ledger_ok_cong [of _ st] assms(2))
next
  case (scanned payload)
  from this(2) show ?thesis by (rule complete_scanE) (simp add: ledger_ok_cong [of _ st] assms(2))
qed (auto simp: ledger_ok_cong [of _ st] assms(2) open_target_def refuse_mission_def fail_mission_def dest!: admit_evidenceD(3))

lemma ledger_initial: "ledger_ok (initial_state first)"
  by (simp add: ledger_defs initial_state_def)

lemma ledger_advance: "ledger_ok (advance ev st) = ledger_ok st" "ledger_ok (st\<lparr>st_phase := ph\<rparr>) = ledger_ok st"
  by (rule ledger_ok_cong; simp add: advance_def)+

theorem run_ledger_ok: "mission_run X first evs st \<Longrightarrow> ledger_ok st"
  by (induction rule: mission_run.induct) (auto simp: ledger_initial ledger_advance dest: ledger_step)

section \<open>The final checks never fire\<close>

lemma card_five:
  assumes "finite U" and "U = A \<union> B \<union> C \<union> D \<union> E" and "A \<inter> (B \<union> C \<union> D \<union> E) = {}" and "B \<inter> (C \<union> D \<union> E) = {}"
    and "C \<inter> (D \<union> E) = {}" and "D \<inter> E = {}"
  shows "sum_list (map card [A, B, C, D, E]) = card U"
proof -
  have f: "finite A" "finite B" "finite C" "finite D" "finite E" using assms(1,2) by (simp_all add: finite_Un)
  have "card (A \<union> (B \<union> (C \<union> (D \<union> E)))) = card A + (card B + (card C + (card D + card E)))"
    by (subst card_Un_disjoint, use f assms(3-6) in auto)+
  moreover have "U = A \<union> (B \<union> (C \<union> (D \<union> E)))" using assms(2) by auto
  ultimately show ?thesis by simp
qed

lemma dispositions_never_fail:
  assumes "ledger_ok st"
  shows "check_dispositions st = Inr ()"
  using assms card_five [of "st_lease_ids st" "st_active st" "st_expired st" "st_cancelled st" "st_superseded st" "st_consumed st"]
  by (auto simp: check_dispositions_def lease_dispositions_def ledger_ok_def dispositions_ok_def lease_table_ok_def requireR_def)

text \<open>The candidates whose latest lease is in a given disposition set.\<close>

definition latest_in :: "digest set \<Rightarrow> (digest \<times> digest) list \<Rightarrow> digest set" where
  "latest_in S latest = fst ` {e \<in> set latest. snd e \<in> S}"

lemma latest_in_simps [simp]:
  "latest_in S [] = {}"
  "latest_in S ((c, i) # latest) = (if i \<in> S then insert c (latest_in S latest) else latest_in S latest)"
  by (auto simp: latest_in_def image_iff)

lemma latest_in_map_of: "distinct (map fst latest) \<Longrightarrow> latest_in S latest = {c. \<exists>i \<in> S. map_of latest c = Some i}"
  by (auto simp: latest_in_def image_iff map_of_eq_Some_iff)

lemma place_all:
  assumes "\<forall>e \<in> set latest. snd e \<in> A \<union> K \<union> E \<union> C"
    and "A \<inter> (K \<union> E \<union> C) = {}" and "K \<inter> (E \<union> C) = {}" and "E \<inter> C = {}"
  shows "foldR (place_candidate A K E C) p latest = Inr (p\<lparr>
    cp_active := cp_active p \<union> latest_in A latest, cp_receipt_covered := cp_receipt_covered p \<union> latest_in K latest,
    cp_latest_expired := cp_latest_expired p \<union> latest_in E latest,
    cp_latest_cancelled := cp_latest_cancelled p \<union> latest_in C latest\<rparr>)"
  using assms(1)
proof (induction latest arbitrary: p)
  case (Cons e latest)
  obtain c i where e: "e = (c, i)" by fastforce
  from Cons.prems e have "i \<in> A \<union> K \<union> E \<union> C" by simp
  then consider "i \<in> A" "i \<notin> K" "i \<notin> E" "i \<notin> C" | "i \<notin> A" "i \<in> K" "i \<notin> E" "i \<notin> C"
    | "i \<notin> A" "i \<notin> K" "i \<in> E" "i \<notin> C" | "i \<notin> A" "i \<notin> K" "i \<notin> E" "i \<in> C" using assms(2-4) by blast
  then show ?case using Cons by cases (simp_all add: place_candidate_def lease_states_def e)
qed simp

definition partitions_spec :: "mission_state \<Rightarrow> candidate_partitions" where
  "partitions_spec st =
     \<lparr>cp_active = {c. \<exists>i \<in> st_active st. map_of (st_latest st) c = Some i},
      cp_receipt_covered = {c. \<exists>i \<in> st_consumed st. map_of (st_latest st) c = Some i},
      cp_never_assigned = {c \<in> st_candidate_ids st. map_of (st_latest st) c = None},
      cp_latest_expired = {c. \<exists>i \<in> st_expired st. map_of (st_latest st) c = Some i},
      cp_latest_cancelled = {c. \<exists>i \<in> st_cancelled st. map_of (st_latest st) c = Some i}\<rparr>"

lemma partitions_disjoint:
  assumes "ledger_ok st"
  shows "\<Union> (set (partition_list (partitions_spec st))) = st_candidate_ids st"
    and "sum_list (map card (partition_list (partitions_spec st))) = card (st_candidate_ids st)"
proof -
  note d = assms [unfolded ledger_defs]
  define P where "P = (\<lambda>S. {c. \<exists>i \<in> S. map_of (st_latest st) c = Some i})"
  define N where "N = {c \<in> st_candidate_ids st. map_of (st_latest st) c = None}"
  have l: "partition_list (partitions_spec st) = [P (st_active st), P (st_consumed st), N, P (st_expired st), P (st_cancelled st)]"
    by (simp add: partition_list_def partitions_spec_def P_def N_def)
  have placed: "i \<in> st_active st \<union> st_consumed st \<union> st_expired st \<union> st_cancelled st" if "map_of (st_latest st) c = Some i" for c i
  proof -
    from d that obtain l where "map_of (st_leases st) i = Some l" and "i \<notin> st_superseded st" by blast
    then show ?thesis using d by blast
  qed
  have sub: "P S \<subseteq> st_candidate_ids st" for S using d unfolding P_def by blast
  have all: "c \<in> P (st_active st) \<union> P (st_consumed st) \<union> N \<union> P (st_expired st) \<union> P (st_cancelled st)"
    if "c \<in> st_candidate_ids st" for c
    using that placed [of c] unfolding P_def N_def by (cases "map_of (st_latest st) c") auto
  have u: "st_candidate_ids st = P (st_active st) \<union> P (st_consumed st) \<union> N \<union> P (st_expired st) \<union> P (st_cancelled st)"
    using sub all by (auto simp: N_def)
  then show "\<Union> (set (partition_list (partitions_spec st))) = st_candidate_ids st" unfolding l by auto
  have dj: "P S \<inter> P T = {}" if "S \<inter> T = {}" for S T using that unfolding P_def by auto
  have dN: "P S \<inter> N = {}" "N \<inter> P S = {}" for S unfolding P_def N_def by auto
  have s: "st_active st \<inter> st_consumed st = {}" "st_active st \<inter> st_expired st = {}" "st_active st \<inter> st_cancelled st = {}"
    "st_consumed st \<inter> st_expired st = {}" "st_consumed st \<inter> st_cancelled st = {}" "st_expired st \<inter> st_cancelled st = {}"
    using d by blast+
  show "sum_list (map card (partition_list (partitions_spec st))) = card (st_candidate_ids st)"
    unfolding l using d by (intro card_five [OF _ u]) (simp_all add: Int_Un_distrib dN dj [OF s(1)] dj [OF s(2)] dj [OF s(3)]
      dj [OF s(4)] dj [OF s(5)] dj [OF s(6)])
qed

lemma partitions_of_ledger:
  assumes "ledger_ok st"
  shows "partitions_of st = Inr (partitions_spec st)"
proof -
  note d = assms [unfolded ledger_defs]
  have "snd e \<in> st_active st \<union> st_consumed st \<union> st_expired st \<union> st_cancelled st" if "e \<in> set (st_latest st)" for e
  proof -
    have "map_of (st_latest st) (fst e) = Some (snd e)" using that d by (simp add: map_of_eq_Some_iff)
    with d obtain l where "map_of (st_leases st) (snd e) = Some l" and "snd e \<notin> st_superseded st" by blast
    then show ?thesis using d by blast
  qed
  then have f: "foldR (place_candidate (st_active st) (st_consumed st) (st_expired st) (st_cancelled st)) p (st_latest st) =
      Inr (p\<lparr>cp_active := cp_active p \<union> latest_in (st_active st) (st_latest st),
        cp_receipt_covered := cp_receipt_covered p \<union> latest_in (st_consumed st) (st_latest st),
        cp_latest_expired := cp_latest_expired p \<union> latest_in (st_expired st) (st_latest st),
        cp_latest_cancelled := cp_latest_cancelled p \<union> latest_in (st_cancelled st) (st_latest st)\<rparr>)" for p
    by (intro place_all) (use d in auto)
  have "fst ` set (st_latest st) \<subseteq> st_candidate_ids st" using d by (simp add: dom_map_of_conv_image_fst)
  moreover have "st_candidate_ids st - fst ` set (st_latest st) = {c \<in> st_candidate_ids st. map_of (st_latest st) c = None}"
    by (auto simp: map_of_eq_None_iff)
  ultimately show ?thesis
    unfolding partitions_of_def verification_candidate_partitions_def f
    using partitions_disjoint [OF assms] d by (simp add: latest_in_map_of partitions_spec_def)
qed

end
