(* ===== verification/Lifecycle_Invariants.thy ===== *)
theory Lifecycle_Invariants
  imports Lifecycle
begin

text \<open>
  Further invariants of the mission runs: what a step leaves alone, the phase a state is in, who may hold a
  lease, the lineage of reassigned leases, resolutions before receipts, the budgets, and the event chain.
\<close>

section \<open>Frames\<close>

lemmas step_elims = start_analysisE check_outputE record_parse_failureE complete_scanE issue_leaseE expire_leaseE cancel_leaseE
  release_predecessorE reassign_leaseE resolve_artifactsE consume_leaseE

definition same_header :: "mission_state \<Rightarrow> mission_state \<Rightarrow> bool" where
  "same_header st st' \<longleftrightarrow>
     st_mission_id st' = st_mission_id st \<and> st_authority_id st' = st_authority_id st \<and> st_target_id st' = st_target_id st \<and>
     st_phase st' = st_phase st \<and> st_expected_seq st' = st_expected_seq st \<and> st_expected_prev st' = st_expected_prev st \<and>
     st_previous_time st' = st_previous_time st"

lemma header_frame:
  assumes "evidence_step X st ev st'"
  shows "same_header st st'"
  using assms
  by cases (auto elim!: step_elims dest!: admit_evidenceD(3) record_candidateD(3)
      simp: same_header_def open_target_def refuse_mission_def fail_mission_def retain_lease_def)

lemma grant_frame:
  assumes "evidence_step X st ev st'" and "ev_kind ev \<noteq> ''authority_admitted''"
  shows "st_grant st' = st_grant st" and "st_admission st' = st_admission st"
  using assms
  by (cases; auto elim!: step_elims dest!: record_candidateD(3)
      simp: open_target_def refuse_mission_def fail_mission_def retain_lease_def)+

lemma snapshot_frame:
  assumes "evidence_step X st ev st'" and "ev_kind ev \<noteq> ''mission_opened''"
  shows "st_snapshot st' = st_snapshot st"
  using assms
  by cases (auto elim!: step_elims dest!: admit_evidenceD(3) record_candidateD(3)
      simp: refuse_mission_def fail_mission_def retain_lease_def)

lemma analysis_lease_frame:
  assumes "evidence_step X st ev st'" and "ev_kind ev \<noteq> ''analysis_lease_issued''"
  shows "st_analysis_lease st' = st_analysis_lease st"
  using assms
  by cases (auto elim!: step_elims dest!: admit_evidenceD(3) record_candidateD(3)
      simp: open_target_def refuse_mission_def fail_mission_def retain_lease_def)

lemma outputs_frame:
  assumes "evidence_step X st ev st'" and "ev_kind ev \<notin> {''candidate_recorded'', ''parse_failed''}"
  shows "st_candidates st' = st_candidates st" and "st_failures st' = st_failures st"
    and "st_candidate_events st' = st_candidate_events st"
  using assms
  by (cases; auto elim!: step_elims dest!: admit_evidenceD(3)
      simp: open_target_def refuse_mission_def fail_mission_def retain_lease_def)+

lemma leases_frame:
  assumes "evidence_step X st ev st'" and "ev_kind ev \<notin> {''verification_lease_issued'', ''verification_lease_reassigned''}"
  shows "st_leases st' = st_leases st" and "st_lease_events st' = st_lease_events st"
    and "st_lease_ids st' = st_lease_ids st" and "st_successors st' = st_successors st"
    and "st_latest st' = st_latest st" and "st_superseded st' = st_superseded st"
  using assms
  by (cases; auto elim!: step_elims dest!: admit_evidenceD(3) record_candidateD(3)
      simp: open_target_def refuse_mission_def fail_mission_def)+

lemma resolutions_frame:
  assumes "evidence_step X st ev st'" and "ev_kind ev \<noteq> ''verification_artifacts_resolved''"
  shows "st_resolutions st' = st_resolutions st" and "st_resolved st' = st_resolved st"
  using assms
  by (cases; auto elim!: step_elims dest!: admit_evidenceD(3) record_candidateD(3)
      simp: open_target_def refuse_mission_def fail_mission_def retain_lease_def)+

lemma consumed_frame:
  assumes "evidence_step X st ev st'" and "ev_kind ev \<noteq> ''verifier_receipt_admitted''"
  shows "st_consumed st' = st_consumed st" and "st_receipt_ids st' = st_receipt_ids st" and "st_receipt_events st' = st_receipt_events st"
  using assms
  by (cases; auto elim!: step_elims dest!: admit_evidenceD(3) record_candidateD(3)
      simp: open_target_def refuse_mission_def fail_mission_def retain_lease_def)+

section \<open>Phases\<close>

lemma transition_early:
  "transition ph k = Inr q \<Longrightarrow> q \<in> {''start'', ''admitted'', ''open''} \<Longrightarrow>
   ph \<in> {''start'', ''admitted''} \<and> k \<in> {''authority_admitted'', ''mission_opened''} \<and> q \<noteq> ''start''"
  by (auto simp: transition_def failure_transition_def illegal_transition_def FAILURE_PHASES_def split: if_splits option.splits)

lemma transition_before_leases:
  "transition ph k = Inr q \<Longrightarrow> q \<in> {''start'', ''admitted'', ''open'', ''analyzing'', ''scan_completed''} \<Longrightarrow>
   ph \<in> {''start'', ''admitted'', ''open'', ''analyzing'', ''scan_completed''} \<and>
   k \<notin> {''verification_lease_issued'', ''verification_lease_reassigned''}"
  by (auto simp: transition_def failure_transition_def illegal_transition_def FAILURE_PHASES_def split: if_splits option.splits)

lemma transition_source:
  "transition ph ''authority_admitted'' = Inr q \<Longrightarrow> ph = ''start''"
  "transition ph ''mission_opened'' = Inr q \<Longrightarrow> ph = ''admitted''"
  "transition ph ''analysis_lease_issued'' = Inr q \<Longrightarrow> ph = ''open''"
  "transition ph ''candidate_recorded'' = Inr q \<Longrightarrow> ph = ''analyzing'' \<and> q = ''analyzing''"
  "transition ph ''parse_failed'' = Inr q \<Longrightarrow> ph = ''analyzing'' \<and> q = ''analyzing''"
  by (auto simp: transition_def failure_transition_def illegal_transition_def FAILURE_PHASES_def VERIFICATION_KINDS_def
      split: if_splits option.splits)

lemma advance_fields [simp]:
  "st_phase (advance ev st) = st_phase st" "st_grant (advance ev st) = st_grant st" "st_admission (advance ev st) = st_admission st"
  "st_snapshot (advance ev st) = st_snapshot st" "st_analysis_lease (advance ev st) = st_analysis_lease st"
  "st_candidates (advance ev st) = st_candidates st" "st_failures (advance ev st) = st_failures st"
  "st_leases (advance ev st) = st_leases st" "st_lease_events (advance ev st) = st_lease_events st"
  "st_lease_ids (advance ev st) = st_lease_ids st" "st_successors (advance ev st) = st_successors st"
  "st_latest (advance ev st) = st_latest st" "st_resolutions (advance ev st) = st_resolutions st"
  "st_resolved (advance ev st) = st_resolved st" "st_consumed (advance ev st) = st_consumed st"
  "st_receipt_ids (advance ev st) = st_receipt_ids st" "st_receipt_events (advance ev st) = st_receipt_events st"
  "st_mission_id (advance ev st) = st_mission_id st" "st_authority_id (advance ev st) = st_authority_id st"
  "st_target_id (advance ev st) = st_target_id st" "st_candidate_events (advance ev st) = st_candidate_events st"
  "st_superseded (advance ev st) = st_superseded st" "st_expired (advance ev st) = st_expired st"
  "st_cancelled (advance ev st) = st_cancelled st" "st_active (advance ev st) = st_active st"
  "st_candidate_ids (advance ev st) = st_candidate_ids st" "st_terminal_event (advance ev st) = st_terminal_event st"
  by (simp_all add: advance_def)

lemma step_phase: "evidence_step X (st\<lparr>st_phase := ph\<rparr>) ev st' \<Longrightarrow> st_phase st' = ph"
  by (drule header_frame) (simp add: same_header_def)

lemma run_start:
  "mission_run X first evs st \<Longrightarrow> st_phase st = ''start'' \<longleftrightarrow> evs = []"
proof (induction rule: mission_run.induct)
  case (step evs st ev phase st')
  then show ?case using transition_early [OF step.hyps(3)] step_phase [OF step.hyps(4)] by auto
qed (simp add: initial_state_def)

lemma run_Nil: "mission_run X first [] st \<Longrightarrow> st = initial_state first"
  by (erule mission_run.cases) auto

lemma run_early:
  "mission_run X first evs st \<Longrightarrow> st_phase st \<in> {''start'', ''admitted'', ''open''} \<Longrightarrow>
   st_analysis_lease st = None \<and> st_candidates st = [] \<and> st_failures st = []"
proof (induction rule: mission_run.induct)
  case (step evs st ev phase st')
  then have "phase \<in> {''start'', ''admitted'', ''open''}" by (simp add: step_phase [OF step.hyps(4)])
  note t = transition_early [OF step.hyps(3) this]
  then show ?case
    using step.IH analysis_lease_frame [OF step.hyps(4)] outputs_frame [OF step.hyps(4)] by auto
qed (simp add: initial_state_def)

lemma run_before_leases:
  "mission_run X first evs st \<Longrightarrow> st_phase st \<in> {''start'', ''admitted'', ''open'', ''analyzing'', ''scan_completed''} \<Longrightarrow>
   st_leases st = [] \<and> st_lease_events st = [] \<and> st_lease_ids st = {}"
proof (induction rule: mission_run.induct)
  case (step evs st ev phase st')
  then have "phase \<in> {''start'', ''admitted'', ''open'', ''analyzing'', ''scan_completed''}"
    by (simp add: step_phase [OF step.hyps(4)])
  note t = transition_before_leases [OF step.hyps(3) this]
  then show ?case using step.IH leases_frame [OF step.hyps(4)] by auto
qed (simp add: initial_state_def)

text \<open>Authority is admitted once, on the pristine state.\<close>

lemma admitted_pristine:
  assumes "mission_run X first evs st" and "transition (st_phase st) (ev_kind ev) = Inr ph" and "ev_kind ev = ''authority_admitted''"
  shows "st = initial_state first"
  using assms run_start [OF assms(1)] run_Nil transition_source(1) by metis

section \<open>Leases and their authority\<close>

definition assignment_ok :: "mission_state \<Rightarrow> verification_lease \<Rightarrow> bool" where
  "assignment_ok st l \<longleftrightarrow>
     (\<exists>g a ce. st_grant st = Some g \<and> st_admission st = Some a \<and> map_of (st_candidate_events st) (vl_candidate_id l) = Some ce \<and>
        permits_verification g a \<and> mission_bindings_match st l ce \<and> vl_candidate_producer_id l \<noteq> vl_verifier_id l \<and>
        aa_decision_time a \<le> vl_issued_at l \<and> vl_issued_at l < vl_expires_at l \<and> vl_expires_at l \<le> grant_deadline g a)"

definition assignments_ok :: "mission_state \<Rightarrow> bool" where
  "assignments_ok st \<longleftrightarrow> (\<forall>i l. map_of (st_leases st) i = Some l \<longrightarrow> assignment_ok st l)"

lemma assignment_ok_mono:
  assumes "assignment_ok st l" and "st_grant st' = st_grant st" and "st_admission st' = st_admission st"
    and "map_of (st_candidate_events st) \<subseteq>\<^sub>m map_of (st_candidate_events st')"
    and "st_mission_id st' = st_mission_id st" "st_authority_id st' = st_authority_id st" "st_target_id st' = st_target_id st"
  shows "assignment_ok st' l"
proof -
  from assms(1) obtain g a ce where "st_grant st = Some g" "st_admission st = Some a"
    and ce: "map_of (st_candidate_events st) (vl_candidate_id l) = Some ce"
    and "permits_verification g a \<and> mission_bindings_match st l ce \<and> vl_candidate_producer_id l \<noteq> vl_verifier_id l \<and>
        aa_decision_time a \<le> vl_issued_at l \<and> vl_issued_at l < vl_expires_at l \<and> vl_expires_at l \<le> grant_deadline g a"
    unfolding assignment_ok_def by blast
  moreover from assms(4) ce have "map_of (st_candidate_events st') (vl_candidate_id l) = Some ce"
    unfolding map_le_def by (metis domI)
  ultimately show ?thesis unfolding assignment_ok_def using assms(2,3,5-7) by (auto simp: mission_bindings_match_def)
qed

lemma candidate_events_grow:
  assumes "evidence_step X st ev st'" and "ledger_ok st"
  shows "map_of (st_candidate_events st) \<subseteq>\<^sub>m map_of (st_candidate_events st')"
proof (cases "ev_kind ev = ''candidate_recorded''")
  case True
  with assms(1) obtain c where "record_candidate st ev c = Inr st'"
    by cases (auto simp: FAILURE_PHASES_def split: if_splits)
  from record_candidateD [OF this] assms(2) show ?thesis
    by (auto simp: map_le_def update_conv' ledger_defs dom_def)
next
  case False
  from assms(1) have "st_candidate_events st' = st_candidate_events st"
    by cases (use False in \<open>auto elim!: step_elims dest!: admit_evidenceD(3)
      simp: open_target_def refuse_mission_def fail_mission_def retain_lease_def\<close>)
  then show ?thesis by simp
qed

lemma new_assignment:
  assumes "evidence_step X st ev st'" and "map_of (st_leases st') i = Some l" and "map_of (st_leases st) i \<noteq> Some l"
  shows "assignment_ok st' l"
  using assms(1)
proof cases
  case (issued l' trust j)
  from issued(2) show ?thesis
    by (rule issue_leaseE)
      (use assms(2,3) in \<open>auto simp: retain_lease_def update_conv' assignment_ok_def mission_bindings_match_def split: if_splits\<close>)
next
  case (reassigned pid p l' trust j reason)
  from reassigned(3) show ?thesis
  proof (rule reassign_leaseE)
    fix g a ce st1
    assume g: "st_grant st = Some g" "st_admission st = Some a"
      and ce: "map_of (st_candidate_events st) (vl_candidate_id p) = Some ce" and p: "permits_verification g a"
      and w: "work_bindings l' = work_bindings p" and m: "mission_bindings_match st l' ce"
      and t: "aa_decision_time a \<le> vl_issued_at l'" "vl_issued_at l' < vl_expires_at l'" "vl_expires_at l' \<le> grant_deadline g a"
        "vl_candidate_producer_id l' \<noteq> vl_verifier_id l'"
      and r: "release_predecessor st ev p reason = Inr st1"
      and e: "st' = (retain_lease st1 ev l')\<lparr>
         st_successors := AList.update (vl_lease_id p) (vl_lease_id l') (st_successors (retain_lease st1 ev l')),
         st_reassignment_events := st_reassignment_events (retain_lease st1 ev l') @ [ev]\<rparr>"
    have s1: "st_grant st1 = st_grant st" "st_admission st1 = st_admission st" "st_candidate_events st1 = st_candidate_events st"
      "st_leases st1 = st_leases st" "st_mission_id st1 = st_mission_id st" "st_authority_id st1 = st_authority_id st"
      "st_target_id st1 = st_target_id st"
      using r by (auto elim!: release_predecessorE)
    have "l = l'" using assms(2,3) s1 unfolding e by (auto simp: retain_lease_def update_conv' split: if_splits)
    moreover have "vl_candidate_id l' = vl_candidate_id p" using w by (simp add: work_bindings_def)
    ultimately show ?thesis using g ce p m t s1 unfolding e
      by (auto simp: assignment_ok_def retain_lease_def mission_bindings_match_def)
  qed
qed (use assms(2,3) in \<open>auto elim!: step_elims dest!: admit_evidenceD(3) record_candidateD(3)
      simp: open_target_def refuse_mission_def fail_mission_def\<close>)

lemma run_assignments: "mission_run X first evs st \<Longrightarrow> assignments_ok st"
proof (induction rule: mission_run.induct)
  case (step evs st ev phase st')
  let ?st = "st\<lparr>st_phase := phase\<rparr>"
  have ledger: "ledger_ok ?st" using run_ledger_ok [OF step.hyps(1)] by (simp add: ledger_advance)
  have "assignment_ok st' l" if "map_of (st_leases st') i = Some l" for i l
  proof (cases "map_of (st_leases st) i = Some l")
    case True
    then have old: "assignment_ok ?st l" using step.IH
      by (auto simp: assignments_ok_def assignment_ok_def mission_bindings_match_def)
    have "ev_kind ev \<noteq> ''authority_admitted''"
      using admitted_pristine [OF step.hyps(1,3)] True by (auto simp: initial_state_def)
    then show ?thesis
      using assignment_ok_mono [OF old grant_frame [OF step.hyps(4)] candidate_events_grow [OF step.hyps(4) ledger]]
        header_frame [OF step.hyps(4)] by (simp add: same_header_def)
  next
    case False
    then show ?thesis using new_assignment [OF step.hyps(4) that] by simp
  qed
  then show ?case by (auto simp: assignments_ok_def assignment_ok_def mission_bindings_match_def)
qed (simp add: initial_state_def assignments_ok_def)

section \<open>Lineage of reassigned leases\<close>

definition succession_ok :: "mission_state \<Rightarrow> digest \<Rightarrow> digest \<Rightarrow> bool" where
  "succession_ok st i j \<longleftrightarrow>
     (\<exists>p l. map_of (st_leases st) i = Some p \<and> map_of (st_leases st) j = Some l \<and> work_bindings l = work_bindings p \<and>
        vl_verifier_id l \<noteq> vl_verifier_id p \<and> i \<in> st_superseded st \<union> st_expired st \<union> st_cancelled st)"

definition successions_ok :: "mission_state \<Rightarrow> bool" where
  "successions_ok st \<longleftrightarrow>
     (\<forall>i j. map_of (st_successors st) i = Some j \<longrightarrow> succession_ok st i j) \<and>
     st_superseded st \<subseteq> dom (map_of (st_successors st))"

lemma retired_grow:
  assumes "evidence_step X st ev st'"
  shows "st_expired st \<subseteq> st_expired st'" and "st_cancelled st \<subseteq> st_cancelled st'" and "st_superseded st \<subseteq> st_superseded st'"
    and "st_consumed st \<subseteq> st_consumed st'" and "st_lease_ids st \<subseteq> st_lease_ids st'"
  using assms
  by (cases; auto elim!: step_elims dest!: admit_evidenceD(3) record_candidateD(3)
      simp: open_target_def refuse_mission_def fail_mission_def retain_lease_def)+

lemma leases_grow:
  assumes "evidence_step X st ev st'" and "ledger_ok st" and "map_of (st_leases st) i = Some l"
  shows "map_of (st_leases st') i = Some l"
proof -
  have i: "i \<in> st_lease_ids st" using assms(2,3) by (auto simp: ledger_defs)
  from assms(1) show ?thesis
    by cases (use i assms(3) in \<open>auto elim!: step_elims dest!: admit_evidenceD(3) record_candidateD(3)
      simp: open_target_def refuse_mission_def fail_mission_def retain_lease_def update_conv'\<close>)
qed

lemma reassign_succession:
  assumes "reassign_lease X st ev p l trust i reason = Inr st'" and "reassigned_predecessor st pid = Inr p" and "ledger_ok st"
    and "successions_ok st"
  shows "successions_ok st'"
  using assms(1)
proof (rule reassign_leaseE)
  fix g a ce st1
  assume w: "work_bindings l = work_bindings p" "vl_verifier_id l \<noteq> vl_verifier_id p"
    and new: "vl_lease_id l \<notin> st_lease_ids st" and rel: "release_predecessor st ev p reason = Inr st1"
    and e: "st' = (retain_lease st1 ev l)\<lparr>
       st_successors := AList.update (vl_lease_id p) (vl_lease_id l) (st_successors (retain_lease st1 ev l)),
       st_reassignment_events := st_reassignment_events (retain_lease st1 ev l) @ [ev]\<rparr>"
  note pd = reassigned_predecessorD [OF assms(2)]
  have pid: "vl_lease_id p = pid" using assms(3) pd(1) by (auto simp: ledger_ok_def lease_table_ok_def)
  have ids: "pid \<in> st_lease_ids st" "dom (map_of (st_leases st)) = st_lease_ids st" using assms(3) pd(1) by (auto simp: ledger_defs)
  have s1: "st_leases st1 = st_leases st" "st_successors st1 = st_successors st" "st_expired st1 = st_expired st"
    "st_cancelled st1 = st_cancelled st" "st_superseded st \<subseteq> st_superseded st1" "st_superseded st1 \<subseteq> insert pid (st_superseded st)"
    "pid \<in> st_superseded st1 \<union> st_expired st1 \<union> st_cancelled st1"
    using rel pid by (auto elim!: release_predecessorE)
  have old: "succession_ok st' j k" if "map_of (st_successors st) j = Some k" for j k
  proof -
    from assms(4) that obtain q m where "map_of (st_leases st) j = Some q" "map_of (st_leases st) k = Some m"
      "work_bindings m = work_bindings q" "vl_verifier_id m \<noteq> vl_verifier_id q"
      "j \<in> st_superseded st \<union> st_expired st \<union> st_cancelled st" unfolding successions_ok_def succession_ok_def by blast
    moreover from this have "j \<noteq> vl_lease_id l" "k \<noteq> vl_lease_id l" using ids new by auto
    ultimately show ?thesis unfolding succession_ok_def e using s1 by (auto simp: retain_lease_def update_conv')
  qed
  moreover have "succession_ok st' pid (vl_lease_id l)"
    unfolding succession_ok_def e using s1 pd(1) w new ids by (auto simp: retain_lease_def update_conv')
  ultimately have "succession_ok st' j k" if "map_of (st_successors st') j = Some k" for j k
    using that s1 unfolding e by (auto simp: retain_lease_def update_conv' pid split: if_splits)
  moreover have "st_superseded st' \<subseteq> dom (map_of (st_successors st'))"
    unfolding e using s1 assms(4) by (auto simp: retain_lease_def update_conv' pid successions_ok_def)
  ultimately show ?thesis by (simp add: successions_ok_def)
qed

lemma succession_step:
  assumes "evidence_step X st ev st'" and "ledger_ok st" and "successions_ok st"
  shows "successions_ok st'"
proof (cases "ev_kind ev = ''verification_lease_reassigned''")
  case True
  with assms(1) obtain pid p l trust i reason where "reassigned_predecessor st pid = Inr p"
    "reassign_lease X st ev p l trust i reason = Inr st'" by cases (auto simp: FAILURE_PHASES_def split: if_splits)
  then show ?thesis using reassign_succession assms(2,3) by blast
next
  case False
  have s: "st_successors st' = st_successors st" "st_superseded st' = st_superseded st"
    using assms(1)
    by (cases; use False in \<open>auto elim!: step_elims dest!: admit_evidenceD(3) record_candidateD(3)
      simp: open_target_def refuse_mission_def fail_mission_def retain_lease_def\<close>)+
  have "succession_ok st' i j" if "succession_ok st i j" for i j
    using that leases_grow [OF assms(1,2)] retired_grow [OF assms(1)] unfolding succession_ok_def by blast
  with assms(3) s show ?thesis by (simp add: successions_ok_def)
qed

lemma run_successions: "mission_run X first evs st \<Longrightarrow> successions_ok st"
proof (induction rule: mission_run.induct)
  case (step evs st ev phase st')
  have "ledger_ok (st\<lparr>st_phase := phase\<rparr>)" using run_ledger_ok [OF step.hyps(1)] by (simp add: ledger_advance)
  from succession_step [OF step.hyps(4) this] step.IH show ?case by (simp add: successions_ok_def succession_ok_def)
qed (simp add: initial_state_def successions_ok_def)

section \<open>Resolutions and receipts\<close>

definition resolution_ok :: "mission_state \<Rightarrow> digest \<Rightarrow> artifact_resolution \<Rightarrow> bool" where
  "resolution_ok st i r \<longleftrightarrow>
     ar_verification_lease_id r = i \<and>
     (\<exists>l. map_of (st_leases st) i = Some l \<and> ar_candidate_id r = vl_candidate_id l \<and>
        vl_issued_at l \<le> ar_resolved_at r \<and> ar_resolved_at r < vl_expires_at l \<and>
        singleton_and_evidence r = vl_poc_artifact_digest l # vl_environment_digest l # vl_effect_oracle_id l #
          vl_evidence_artifact_digests l)"

definition resolutions_ok :: "mission_state \<Rightarrow> bool" where
  "resolutions_ok st \<longleftrightarrow>
     (\<forall>i r. map_of (st_resolutions st) i = Some r \<longrightarrow> resolution_ok st i r) \<and>
     dom (map_of (st_resolutions st)) = st_resolved st \<and> st_consumed st \<subseteq> st_resolved st"

lemma resolution_step:
  assumes "evidence_step X st ev st'" and "ledger_ok st" and "resolutions_ok st"
  shows "resolutions_ok st'"
proof -
  have old: "resolution_ok st' i r" if "map_of (st_resolutions st) i = Some r" for i r
    using that assms(3) leases_grow [OF assms(1,2)] unfolding resolutions_ok_def resolution_ok_def by blast
  show ?thesis
  proof (cases "ev_kind ev = ''verification_artifacts_resolved''")
    case True
    with assms(1) obtain r where r: "resolve_artifacts st ev r = Inr st'"
      by cases (auto simp: FAILURE_PHASES_def split: if_splits)
    then have "resolution_ok st' (ar_verification_lease_id r) r"
      by (rule resolve_artifactsE) (auto simp: resolution_ok_def)
    moreover from r have "st_resolutions st' = AList.update (ar_verification_lease_id r) r (st_resolutions st)"
      and "st_resolved st' = insert (ar_verification_lease_id r) (st_resolved st)" and "st_consumed st' = st_consumed st"
      by (rule resolve_artifactsE; simp)+
    ultimately show ?thesis using old assms(3) by (auto simp: resolutions_ok_def update_conv' split: if_splits)
  next
    case False
    note f = resolutions_frame [OF assms(1) False]
    have "st_consumed st' \<subseteq> st_resolved st"
      using assms(1)
    proof cases
      case (receipt payload trust signed v)
      from this(2) show ?thesis
        by (rule consume_leaseE) (use assms(3) in \<open>auto simp: resolutions_ok_def dest!: receipt_leaseD(5)\<close>)
    qed (use assms(3) in \<open>auto elim!: step_elims dest!: admit_evidenceD(3) record_candidateD(3)
      simp: open_target_def refuse_mission_def fail_mission_def retain_lease_def resolutions_ok_def\<close>)
    with old f assms(3) show ?thesis by (simp add: resolutions_ok_def)
  qed
qed

lemma resolutions_cong: "resolutions_ok (advance ev st) = resolutions_ok st" "resolutions_ok (st\<lparr>st_phase := ph\<rparr>) = resolutions_ok st"
  unfolding resolutions_ok_def resolution_ok_def by simp_all

lemma run_resolutions: "mission_run X first evs st \<Longrightarrow> resolutions_ok st"
proof (induction rule: mission_run.induct)
  case (step evs st ev phase st')
  have "ledger_ok (st\<lparr>st_phase := phase\<rparr>)" using run_ledger_ok [OF step.hyps(1)] by (simp add: ledger_advance)
  from resolution_step [OF step.hyps(4) this] step.IH show ?case by (simp only: resolutions_cong)
qed (simp add: initial_state_def resolutions_ok_def)

section \<open>Budgets\<close>

definition lease_budget_ok :: "mission_state \<Rightarrow> bool" where
  "lease_budget_ok st \<longleftrightarrow>
     length (st_lease_events st) = card (st_lease_ids st) \<and>
     (st_lease_events st \<noteq> [] \<longrightarrow>
        (\<exists>g. st_grant st = Some g \<and> int (length (st_lease_events st)) \<le> ag_max_candidates g))"

lemma retained_count:
  assumes "evidence_step X st ev st'" and "finite (st_lease_ids st)"
    and "ev_kind ev \<in> {''verification_lease_issued'', ''verification_lease_reassigned''}"
  shows "length (st_lease_events st') = Suc (length (st_lease_events st)) \<and> card (st_lease_ids st') = Suc (card (st_lease_ids st)) \<and>
    (\<exists>g. st_grant st' = Some g \<and> int (length (st_lease_events st')) \<le> ag_max_candidates g)"
  using assms(1)
proof cases
  case (issued l trust i)
  from issued(2) show ?thesis by (rule issue_leaseE) (use assms(2) in \<open>simp add: retain_lease_def\<close>)
next
  case (reassigned pid p l trust i reason)
  from reassigned(3) show ?thesis
    by (rule reassign_leaseE) (use assms(2) in \<open>auto elim!: release_predecessorE simp: retain_lease_def\<close>)
qed (use assms(3) in \<open>auto simp: FAILURE_PHASES_def split: if_splits\<close>)

lemma run_lease_budget: "mission_run X first evs st \<Longrightarrow> lease_budget_ok st"
proof (induction rule: mission_run.induct)
  case (step evs st ev phase st')
  have fin: "finite (st_lease_ids st)" using run_ledger_ok [OF step.hyps(1)] by (simp add: ledger_ok_def lease_table_ok_def)
  show ?case
  proof (cases "ev_kind ev \<in> {''verification_lease_issued'', ''verification_lease_reassigned''}")
    case True
    then show ?thesis using retained_count [OF step.hyps(4) _ True] fin step.IH by (auto simp: lease_budget_ok_def)
  next
    case False
    note f = leases_frame [OF step.hyps(4) False]
    show ?thesis
    proof (cases "ev_kind ev = ''authority_admitted''")
      case True
      with f admitted_pristine [OF step.hyps(1,3)] show ?thesis by (simp add: lease_budget_ok_def initial_state_def)
    next
      case False
      with f grant_frame [OF step.hyps(4)] step.IH show ?thesis by (auto simp: lease_budget_ok_def)
    qed
  qed
qed (simp add: initial_state_def lease_budget_ok_def)

text \<open>The analysis lease stays within the grant, and the outputs within the analysis lease.\<close>

definition analysis_budget_ok :: "mission_state \<Rightarrow> bool" where
  "analysis_budget_ok st \<longleftrightarrow>
     (case st_analysis_lease st of
        None \<Rightarrow> output_count st = 0
      | Some al \<Rightarrow> \<exists>g s. st_grant st = Some g \<and> st_snapshot st = Some s \<and> al_expires_at al \<le> ag_expires_at g \<and>
          al_max_bytes al \<le> ag_max_bytes g \<and> al_max_candidates al \<le> ag_max_candidates g \<and>
          al_max_wallclock_seconds al \<le> ag_max_wallclock_seconds g \<and> snapshot_bytes s \<le> al_max_bytes al \<and>
          (output_count st = 0 \<or> output_count st \<le> al_max_candidates al))"

lemma analysis_cong:
  assumes "st_analysis_lease st' = st_analysis_lease st" "st_grant st' = st_grant st" "st_snapshot st' = st_snapshot st"
    "st_candidates st' = st_candidates st" "st_failures st' = st_failures st"
  shows "analysis_budget_ok st' = analysis_budget_ok st"
  unfolding analysis_budget_ok_def output_count_def assms ..

lemma output_step:
  assumes "evidence_step X st ev st'" and "ev_kind ev \<in> {''candidate_recorded'', ''parse_failed''}" and "analysis_budget_ok st"
  shows "analysis_budget_ok st'"
  using assms(1)
proof cases
  case (candidate c)
  note d = record_candidateD [OF this(2)]
  from d(2) show ?thesis by (rule check_outputE) (use d(3) assms(3) in \<open>auto simp: analysis_budget_ok_def output_count_def\<close>)
next
  case (parse_failed payload)
  from this(2) show ?thesis
    by (rule record_parse_failureE) (erule check_outputE, use assms(3) in \<open>auto simp: analysis_budget_ok_def output_count_def\<close>)
qed (use assms(2) in \<open>auto simp: FAILURE_PHASES_def split: if_splits\<close>)

lemma run_analysis_budget: "mission_run X first evs st \<Longrightarrow> analysis_budget_ok st"
proof (induction rule: mission_run.induct)
  case (step evs st ev phase st')
  let ?st = "st\<lparr>st_phase := phase\<rparr>"
  have IH: "analysis_budget_ok ?st" using step.IH by (subst analysis_cong) simp_all
  have early: "st_phase st \<in> {''start'', ''admitted'', ''open''} \<Longrightarrow> st_analysis_lease st = None \<and> output_count st = 0"
    using run_early [OF step.hyps(1)] by (simp add: output_count_def)
  have "analysis_budget_ok st'"
  proof (cases "ev_kind ev \<in> {''candidate_recorded'', ''parse_failed''}")
    case True
    then show ?thesis by (rule output_step [OF step.hyps(4) _ IH])
  next
    case False
    note out = outputs_frame [OF step.hyps(4) False]
    consider "ev_kind ev = ''authority_admitted''" | "ev_kind ev = ''mission_opened''" | "ev_kind ev = ''analysis_lease_issued''"
      | "ev_kind ev \<notin> {''authority_admitted'', ''mission_opened'', ''analysis_lease_issued''}" by blast
    then show ?thesis
    proof cases
      case 3
      with step.hyps(3) have "output_count st = 0" using early transition_source(3) by auto
      moreover from step.hyps(4) 3 obtain al where "start_analysis ?st ev al = Inr st'"
        by cases (auto simp: FAILURE_PHASES_def split: if_splits)
      ultimately show ?thesis by (elim start_analysisE) (auto simp: analysis_budget_ok_def output_count_def)
    next
      case 4
      then show ?thesis
        using IH out grant_frame [OF step.hyps(4)] snapshot_frame [OF step.hyps(4)] analysis_lease_frame [OF step.hyps(4)]
        by (subst analysis_cong [of _ ?st]) auto
    qed (use step.hyps(3) early transition_source out analysis_lease_frame [OF step.hyps(4)] in
        \<open>auto simp: analysis_budget_ok_def output_count_def\<close>)
  qed
  then show ?case by (subst analysis_cong [of _ st']) simp_all
qed (simp add: initial_state_def analysis_budget_ok_def output_count_def)

section \<open>The event chain\<close>

lemma check_chainD:
  assumes "check_chain st ev = Inr ()"
  shows "ev_seq ev = st_expected_seq st" and "ev_prev_digest ev = st_expected_prev st" and "ev_mission_id ev = st_mission_id st"
    and "ev_authority_id ev = st_authority_id st" and "ev_target_id ev = st_target_id st"
    and "\<And>t. st_previous_time st = Some t \<Longrightarrow> t \<le> ev_decision_time ev"
  using assms unfolding check_chain_def seqR_Cons_eq_Inr requireR_eq_Inr by auto

definition chained :: "event \<Rightarrow> event list \<Rightarrow> bool" where
  "chained first evs \<longleftrightarrow>
     (\<forall>i < length evs. ev_seq (evs ! i) = int i \<and> ev_mission_id (evs ! i) = ev_mission_id first \<and>
        ev_authority_id (evs ! i) = ev_authority_id first \<and> ev_target_id (evs ! i) = ev_target_id first \<and>
        ev_prev_digest (evs ! i) = (if i = 0 then GENESIS_DIGEST else ev_event_digest (evs ! (i - 1)))) \<and>
     sorted (map ev_decision_time evs)"

definition header_after :: "event \<Rightarrow> event list \<Rightarrow> mission_state \<Rightarrow> bool" where
  "header_after first evs st \<longleftrightarrow>
     st_mission_id st = ev_mission_id first \<and> st_authority_id st = ev_authority_id first \<and> st_target_id st = ev_target_id first \<and>
     st_expected_seq st = int (length evs) \<and>
     st_expected_prev st = (if evs = [] then GENESIS_DIGEST else ev_event_digest (last evs)) \<and>
     st_previous_time st = (if evs = [] then None else Some (ev_decision_time (last evs)))"

lemma chained_snoc:
  assumes "chained first evs" and "header_after first evs st" and "check_chain st ev = Inr ()"
  shows "chained first (evs @ [ev])"
proof -
  note c = check_chainD [OF assms(3)]
  have time: "\<forall>t \<in> set (map ev_decision_time evs). t \<le> ev_decision_time ev"
  proof (cases "evs = []")
    case False
    then have "ev_decision_time (last evs) \<le> ev_decision_time ev" using assms(2) c(6) by (simp add: header_after_def)
    moreover have "t \<le> ev_decision_time (last evs)" if "t \<in> set (map ev_decision_time evs)" for t
      using assms(1) that False sorted_nth_mono [of "map ev_decision_time evs" _ "length evs - 1"]
      by (auto simp: chained_def in_set_conv_nth last_conv_nth)
    ultimately show ?thesis by force
  qed simp
  have "ev_prev_digest ev = (if length evs = 0 then GENESIS_DIGEST else ev_event_digest ((evs @ [ev]) ! (length evs - 1)))"
    using assms(2) c(2) by (auto simp: header_after_def nth_append last_conv_nth)
  then show ?thesis using assms c time
    by (auto simp: chained_def header_after_def nth_append sorted_append less_Suc_eq)
qed

lemma run_chain: "mission_run X first evs st \<Longrightarrow> chained first evs \<and> header_after first evs st"
proof (induction rule: mission_run.induct)
  case (step evs st ev phase st')
  then have "chained first (evs @ [ev])" using chained_snoc by blast
  moreover have "header_after first (evs @ [ev]) (advance ev st')"
    using header_frame [OF step.hyps(4)] step.IH by (simp add: header_after_def same_header_def advance_def)
  ultimately show ?case by blast
qed (simp add: chained_def header_after_def initial_state_def)

end
