(* ===== verification/Mission_Replay.thy ===== *)
theory Mission_Replay
  imports Lifecycle_Invariants
begin

text \<open>
  What the replay of a mission stream guarantees: the properties of \<open>reduce_events\<close> and of the runs it
  refines.
\<close>

section \<open>Helper lemmas\<close>

lemma transition_known:
  "transition ph k = Inr q \<Longrightarrow> q \<in> fst ` set PHASE_BY_INTERNAL"
  by (auto simp: transition_def failure_transition_def illegal_transition_def FAILURE_PHASES_def PHASE_BY_INTERNAL_def
      split: if_splits option.splits)

lemma run_phase_known:
  assumes "mission_run X first evs st" and "evs \<noteq> []"
  shows "\<exists>p. map_of PHASE_BY_INTERNAL (st_phase st) = Some p"
  using assms
proof cases
  case (step evs' st0 ev phase st')
  have "st_phase st = phase" using step(2) step_phase [OF step(6)] by simp
  then show ?thesis using transition_known [OF step(5)] by (metis image_iff map_of_eq_None_iff option.exhaust)
qed simp

lemma project_total:
  assumes "mission_run X first evs st" and "evs \<noteq> []"
  shows "\<exists>p. project ds st = Inr p"
  using run_phase_known [OF assms] run_ledger_ok [OF assms(1)]
  by (auto simp: project_def dispositions_never_fail partitions_of_ledger)

lemma projectD:
  assumes "project evs st = Inr p" and "ledger_ok st"
  shows "mp_partitions p = partitions_spec st" and "map_of PHASE_BY_INTERNAL (st_phase st) = Some (mp_phase p)"
    and "mp_active_leases p = st_active st" and "mp_expired_leases p = st_expired st" and "mp_cancelled_leases p = st_cancelled st"
    and "mp_superseded_leases p = st_superseded st" and "mp_consumed_leases p = st_consumed st" and "mp_events p = evs"
    and "mp_mission_id p = st_mission_id st" and "mp_authority_id p = st_authority_id st" and "mp_target_id p = st_target_id st"
    and "mp_candidate_events p = st_candidates st" and "mp_terminal_event p = st_terminal_event st"
  using assms by (auto simp: project_def dispositions_never_fail partitions_of_ledger split: option.splits)

lemma reduce_eventsE:
  assumes "reduce_events X evs = Inr p"
  obtains first rest st where "evs = first # rest" and "foldR (reduce_step X) (initial_state first) evs = Inr st"
    and "mission_run X first evs st" and "project evs st = Inr p"
proof -
  from assms obtain first rest st where e: "evs = first # rest" and f: "foldR (reduce_step X) (initial_state first) evs = Inr st"
    and p: "project evs st = Inr p"
    by (auto simp: reduce_events_def bindR_eq_Inr split: list.splits)
  have "mission_run X first ([] @ evs) st" by (rule foldR_mission_run [OF f mission_run.start])
  with e f p that show thesis by simp
qed

lemma retired_grow_reduce:
  assumes "foldR (reduce_step X) st evs = Inr st'"
  shows "st_expired st \<subseteq> st_expired st' \<and> st_cancelled st \<subseteq> st_cancelled st' \<and> st_superseded st \<subseteq> st_superseded st' \<and>
    st_consumed st \<subseteq> st_consumed st'"
  using assms
proof (induction evs arbitrary: st)
  case (Cons ev evs)
  then obtain st2 where "reduce_step X st ev = Inr st2" and r: "foldR (reduce_step X) st2 evs = Inr st'"
    by (auto simp: bindR_eq_Inr)
  then obtain phase st1 where t: "transition (st_phase st) (ev_kind ev) = Inr phase"
    and h: "handle_event X (st\<lparr>st_phase := phase\<rparr>) ev = Inr st1" and s2: "st2 = advance ev st1"
    unfolding reduce_step_def by (auto simp: bindR_eq_Inr)
  from retired_grow [OF handle_event_step [OF h transition_kind [OF t]]] Cons.IH [OF r] s2 show ?case by auto
qed simp

section \<open>The replay as a whole\<close>


text \<open>
  C26: the two closing checks of \<open>reduce_events\<close> (one disposition per lease, an exhaustive partition of the
  candidates) and the phase lookup never fail: the replay of a nonempty stream raises exactly what one
  of its events makes the loop raise.
\<close>

theorem final_checks_never_fire:
  "reduce_events X (ev # evs) = Inl e \<longleftrightarrow> foldR (reduce_step X) (initial_state ev) (ev # evs) = Inl e"
proof (cases "foldR (reduce_step X) (initial_state ev) (ev # evs)")
  case (Inr st)
  from foldR_mission_run [OF this mission_run.start] have "mission_run X ev (ev # evs) st" by simp
  then obtain p where "project (ev # evs) st = Inr p" using project_total by blast
  with Inr show ?thesis by (simp add: reduce_events_def del: foldR.simps)
qed (simp add: reduce_events_def del: foldR.simps)

text \<open>
  every nonempty prefix of an accepted stream is accepted (a valid recovery point), and a lease that
  was retired in the prefix keeps its disposition in the whole stream.
\<close>

theorem recovery_points:
  assumes "reduce_events X (evs @ later) = Inr p" and "evs \<noteq> []"
  shows "\<exists>q. reduce_events X evs = Inr q \<and> mp_expired_leases q \<subseteq> mp_expired_leases p \<and>
    mp_cancelled_leases q \<subseteq> mp_cancelled_leases p \<and> mp_superseded_leases q \<subseteq> mp_superseded_leases p \<and>
    mp_consumed_leases q \<subseteq> mp_consumed_leases p"
  using assms(1)
proof (rule reduce_eventsE)
  fix first rest st
  assume e: "evs @ later = first # rest" and f: "foldR (reduce_step X) (initial_state first) (evs @ later) = Inr st"
    and run: "mission_run X first (evs @ later) st" and p: "project (evs @ later) st = Inr p"
  from f obtain st1 where f1: "foldR (reduce_step X) (initial_state first) evs = Inr st1"
    and f2: "foldR (reduce_step X) st1 later = Inr st" by (rule foldR_prefix)
  from foldR_mission_run [OF f1 mission_run.start] have run1: "mission_run X first evs st1" by simp
  obtain q where q: "project evs st1 = Inr q" using project_total [OF run1 assms(2)] by blast
  have "reduce_events X evs = Inr q" using f1 q e assms(2) by (cases evs) (auto simp: reduce_events_def simp del: foldR.simps)
  with retired_grow_reduce [OF f2] projectD [OF p run_ledger_ok [OF run]] projectD [OF q run_ledger_ok [OF run1]]
  show ?thesis by auto
qed

text \<open>
  the events of an accepted stream form one hash chain: consecutive sequence numbers from 0, each event naming
  the digest of its predecessor (the genesis digest first), one mission, authority and target, and
  decision times that never decrease.
\<close>

theorem accepted_stream_chained:
  assumes "reduce_events X evs = Inr p"
  shows "chained (hd evs) evs \<and> mp_mission_id p = ev_mission_id (hd evs) \<and> mp_authority_id p = ev_authority_id (hd evs) \<and>
    mp_target_id p = ev_target_id (hd evs) \<and> mp_events p = evs"
  using assms
proof (rule reduce_eventsE)
  fix first rest st
  assume e: "evs = first # rest" and run: "mission_run X first evs st" and p: "project evs st = Inr p"
  from run_chain [OF run] projectD [OF p run_ledger_ok [OF run]] e show ?thesis by (simp add: header_after_def)
qed

lemma terminal_no_transition:
  "map_of PHASE_BY_INTERNAL ph = Some p \<Longrightarrow> is_terminal p \<Longrightarrow> transition ph k = illegal_transition"
proof -
  assume "map_of PHASE_BY_INTERNAL ph = Some p" and t: "is_terminal p"
  then have "(ph, p) \<in> set PHASE_BY_INTERNAL" by (blast dest: map_of_SomeD)
  with t have "ph \<in> {''closed'', ''refused'', ''failed'', ''cancelled'', ''timed_out'', ''budget_exhausted''}"
    unfolding PHASE_BY_INTERNAL_def is_terminal_def by auto
  then show "transition ph k = illegal_transition" unfolding transition_def by (elim insertE emptyE) simp_all
qed

text \<open>
  an accepted stream whose projection is terminal has no accepted extension: the reducer raises on any
  further event.
\<close>

theorem terminal_is_final:
  assumes "reduce_events X evs = Inr p" and "is_terminal (mp_phase p)"
  shows "\<exists>e. reduce_events X (evs @ ev # later) = Inl e"
  using assms(1)
proof (rule reduce_eventsE)
  fix first rest st
  assume e: "evs = first # rest" and f: "foldR (reduce_step X) (initial_state first) evs = Inr st"
    and run: "mission_run X first evs st" and p: "project evs st = Inr p"
  have "transition (st_phase st) (ev_kind ev) = illegal_transition"
    using terminal_no_transition projectD(2) [OF p run_ledger_ok [OF run]] assms(2) by blast
  then obtain x where "reduce_step X st ev = Inl x"
    by (cases "verify_retained X ev"; cases "check_chain st ev") (simp_all add: reduce_step_def illegal_transition_def)
  with f have "foldR (reduce_step X) (initial_state first) (evs @ ev # later) = Inl x" by (simp add: foldR_append)
  then show ?thesis unfolding e by (simp add: reduce_events_def del: foldR.simps)
qed

section \<open>Lease dispositions\<close>

text \<open>
  The abstract life of one lease: it is issued once, and an active lease retires once, in one of four ways.
\<close>

datatype disposition = Active | Expired | Cancelled | Superseded | Consumed


inductive disposition_step :: "disposition option \<Rightarrow> disposition option \<Rightarrow> bool" where
  stay: "disposition_step d d"
| issue: "disposition_step None (Some Active)"
| expire: "disposition_step (Some Active) (Some Expired)"
| cancel: "disposition_step (Some Active) (Some Cancelled)"
| supersede: "disposition_step (Some Active) (Some Superseded)"
| consume: "disposition_step (Some Active) (Some Consumed)"

inductive_simps disposition_step_simps [simp]:
  "disposition_step None d" "disposition_step (Some Active) d" "disposition_step (Some Expired) d"
  "disposition_step (Some Cancelled) d" "disposition_step (Some Superseded) d" "disposition_step (Some Consumed) d"





text \<open>
  C3: in every reachable state the five disposition sets partition the lease identities, and every candidate
  is in exactly one of the five verification states that \<open>_verification_candidate_partitions\<close>
  derives: the derivation succeeds and returns the sets of its specification.
\<close>

theorem dispositions_and_candidates_partition:
  assumes "mission_run X first evs st"
  shows "check_dispositions st = Inr () \<and> dispositions_ok st \<and> partitions_of st = Inr (partitions_spec st) \<and>
    \<Union> (set (partition_list (partitions_spec st))) = st_candidate_ids st \<and>
    sum_list (map card (partition_list (partitions_spec st))) = card (st_candidate_ids st)"
  using run_ledger_ok [OF assms]
  by (simp add: dispositions_never_fail partitions_of_ledger partitions_disjoint ledger_ok_def)

text \<open>
  a candidate never has two active leases, and its active lease is its latest one.
\<close>

theorem one_active_lease_per_candidate:
  assumes "mission_run X first evs st" and "i \<in> st_active st" and "j \<in> st_active st"
    and "map_of (st_leases st) i = Some l" and "map_of (st_leases st) j = Some m" and "vl_candidate_id l = vl_candidate_id m"
  shows "i = j \<and> map_of (st_latest st) (vl_candidate_id l) = Some i"
  using latest_unique_active(1) [OF run_ledger_ok [OF assms(1)] assms(2,4)]
    latest_unique_active(1) [OF run_ledger_ok [OF assms(1)] assms(3,5)] assms(6) by simp

section \<open>Authority, lineage and evidence of leases\<close>

text \<open>
  C27: every lease of a reachable state was assigned under the admitted authority: for a recorded candidate
  of this mission, to a verifier that is not the unit that produced the candidate, with a
  window inside the grant's deadline, and only when the grant and the admission both permit verification.
\<close>

theorem leases_within_authority:
  assumes "mission_run X first evs st" and "map_of (st_leases st) i = Some l"
  shows "\<exists>g a ce. st_grant st = Some g \<and> st_admission st = Some a \<and> permits_verification g a \<and>
    map_of (st_candidate_events st) (vl_candidate_id l) = Some ce \<and> vl_candidate_producer_id l = ev_unit ce \<and>
    vl_verifier_id l \<noteq> ev_unit ce \<and> vl_mission_id l = ev_mission_id first \<and> vl_authority_id l = ev_authority_id first \<and>
    vl_target_snapshot_id l = ev_target_id first \<and> aa_decision_time a \<le> vl_issued_at l \<and> vl_issued_at l < vl_expires_at l \<and>
    vl_expires_at l \<le> ag_expires_at g \<and> vl_expires_at l \<le> aa_decision_time a + ag_max_wallclock_seconds g"
proof -
  have "assignment_ok st l" using run_assignments [OF assms(1)] assms(2) by (simp add: assignments_ok_def)
  moreover have "header_after first evs st" using run_chain [OF assms(1)] by blast
  ultimately show ?thesis
    unfolding assignment_ok_def mission_bindings_match_def header_after_def grant_deadline_def by auto
qed

text \<open>
  C28: a reassigned lease binds the same work as its predecessor (candidate, producer, artifacts, environment,
  oracle) but a different verifier; its predecessor is retired and never consumed, and every
  superseded lease has a recorded successor.
\<close>

theorem reassignment_lineage:
  assumes "mission_run X first evs st"
  shows "(\<forall>i j. map_of (st_successors st) i = Some j \<longrightarrow>
      (\<exists>p l. map_of (st_leases st) i = Some p \<and> map_of (st_leases st) j = Some l \<and> work_bindings l = work_bindings p \<and>
         vl_verifier_id l \<noteq> vl_verifier_id p \<and> i \<notin> st_active st \<and> i \<notin> st_consumed st)) \<and>
    (\<forall>i \<in> st_superseded st. \<exists>j. map_of (st_successors st) i = Some j)"
proof -
  have "succession_ok st i j" if "map_of (st_successors st) i = Some j" for i j
    using run_successions [OF assms] that by (simp add: successions_ok_def)
  moreover have "i \<notin> st_active st \<and> i \<notin> st_consumed st" if "i \<in> st_superseded st \<union> st_expired st \<union> st_cancelled st" for i
    using run_ledger_ok [OF assms] that unfolding ledger_ok_def dispositions_ok_def by blast
  ultimately show ?thesis using run_successions [OF assms] unfolding succession_ok_def successions_ok_def by blast
qed

text \<open>
  C29: a lease is consumed only after its artifacts were resolved, and the retained resolution of a lease is for that lease
  and its candidate, inside the lease window, with exactly the artifacts the lease predeclared.
\<close>

theorem receipts_need_resolutions:
  assumes "mission_run X first evs st"
  shows "st_consumed st \<subseteq> dom (map_of (st_resolutions st)) \<and>
    (\<forall>i r. map_of (st_resolutions st) i = Some r \<longrightarrow>
      (\<exists>l. map_of (st_leases st) i = Some l \<and> ar_verification_lease_id r = vl_lease_id l \<and> ar_candidate_id r = vl_candidate_id l \<and>
        vl_issued_at l \<le> ar_resolved_at r \<and> ar_resolved_at r < vl_expires_at l \<and>
        singleton_and_evidence r = vl_poc_artifact_digest l # vl_environment_digest l # vl_effect_oracle_id l #
          vl_evidence_artifact_digests l))"
proof (intro conjI allI impI)
  show "st_consumed st \<subseteq> dom (map_of (st_resolutions st))" using run_resolutions [OF assms] by (simp add: resolutions_ok_def)
  fix i r
  assume "map_of (st_resolutions st) i = Some r"
  then have "resolution_ok st i r" using run_resolutions [OF assms] by (simp add: resolutions_ok_def)
  then obtain l where l: "map_of (st_leases st) i = Some l" and r: "ar_verification_lease_id r = i" "ar_candidate_id r = vl_candidate_id l"
    "vl_issued_at l \<le> ar_resolved_at r" "ar_resolved_at r < vl_expires_at l"
    "singleton_and_evidence r = vl_poc_artifact_digest l # vl_environment_digest l # vl_effect_oracle_id l #
          vl_evidence_artifact_digests l" unfolding resolution_ok_def by blast
  have "vl_lease_id l = i" using run_ledger_ok [OF assms] l by (simp add: ledger_ok_def lease_table_ok_def)
  with l r show "\<exists>l. map_of (st_leases st) i = Some l \<and> ar_verification_lease_id r = vl_lease_id l \<and> ar_candidate_id r = vl_candidate_id l \<and>
        vl_issued_at l \<le> ar_resolved_at r \<and> ar_resolved_at r < vl_expires_at l \<and>
        singleton_and_evidence r = vl_poc_artifact_digest l # vl_environment_digest l # vl_effect_oracle_id l #
          vl_evidence_artifact_digests l" by (intro exI [of _ l]) simp
qed

text \<open>
  C30: the budgets hold in every reachable state: the analysis lease stays within the grant, the recorded outputs
  within the analysis lease, the target snapshot within its byte budget, and the number of
  verification leases, reassignments included, within the grant's candidate ceiling.
\<close>

theorem budgets_respected:
  assumes "mission_run X first evs st"
  shows "length (st_lease_events st) = card (st_lease_ids st) \<and>
    (st_lease_ids st \<noteq> {} \<longrightarrow> (\<exists>g. st_grant st = Some g \<and> int (card (st_lease_ids st)) \<le> ag_max_candidates g)) \<and>
    (\<forall>al. st_analysis_lease st = Some al \<longrightarrow>
       (\<exists>g s. st_grant st = Some g \<and> st_snapshot st = Some s \<and> al_expires_at al \<le> ag_expires_at g \<and>
          al_max_bytes al \<le> ag_max_bytes g \<and> al_max_candidates al \<le> ag_max_candidates g \<and> snapshot_bytes s \<le> al_max_bytes al \<and>
          (output_count st = 0 \<or> output_count st \<le> al_max_candidates al)))"
proof -
  have "finite (st_lease_ids st)" using run_ledger_ok [OF assms] by (simp add: ledger_ok_def lease_table_ok_def)
  then show ?thesis using run_lease_budget [OF assms] run_analysis_budget [OF assms]
    unfolding lease_budget_ok_def analysis_budget_ok_def by auto
qed

section \<open>Closure\<close>

lemma no_leases_without_intent:
  assumes "mission_run X first evs st" and "\<not> verification_intent st"
  shows "st_lease_ids st = {}"
proof (rule ccontr)
  assume "st_lease_ids st \<noteq> {}"
  then obtain i l where "map_of (st_leases st) i = Some l"
    using run_ledger_ok [OF assms(1)] unfolding ledger_ok_def lease_table_ok_def by blast
  then have "assignment_ok st l" using run_assignments [OF assms(1)] by (simp add: assignments_ok_def)
  with assms(2) show False by (auto simp: assignment_ok_def permits_verification_def verification_intent_def)
qed

lemma closing_statusD:
  assumes "mission_run X first evs st" and "check_closing_status st status = Inr ()"
  shows "st_active st = {}" and "status \<in> set MISSION_CLOSED_STATUSES"
    and "status = ''receipt_coverage_complete'' \<Longrightarrow> cp_receipt_covered (partitions_spec st) = st_candidate_ids st"
    and "status = ''receipt_coverage_incomplete'' \<Longrightarrow> cp_receipt_covered (partitions_spec st) \<noteq> st_candidate_ids st"
    and "status = ''completed'' \<Longrightarrow> st_lease_ids st = {}"
proof -
  note l = run_ledger_ok [OF assms(1)]
  have sub: "st_active st \<subseteq> st_lease_ids st" using l by (auto simp: ledger_ok_def dispositions_ok_def)
  have legacy: "legacy_zero_candidate_completion st status \<Longrightarrow> st_lease_ids st = {}"
    using run_lease_budget [OF assms(1)] l
    by (auto simp: legacy_zero_candidate_completion_def lease_budget_ok_def ledger_ok_def lease_table_ok_def)
  have intent: "verification_intent st \<Longrightarrow> st_active st = {} \<and>
      (status = coverage_status (partitions_spec st) (st_candidate_ids st) \<or> legacy_zero_candidate_completion st status)"
    using assms(2) by (auto simp: check_closing_status_def partitions_of_ledger [OF l] bindR_eq_Inr requireR_eq_Inr)
  have other: "\<not> verification_intent st \<Longrightarrow> status = ''completed'' \<and> st_lease_ids st = {}"
    using assms(2) no_leases_without_intent [OF assms(1)] by (simp add: check_closing_status_def requireR_eq_Inr)
  show "st_active st = {}" using intent other sub by blast
  consider (covered) "verification_intent st" "status = coverage_status (partitions_spec st) (st_candidate_ids st)"
    | (plain) "status = ''completed''" "st_lease_ids st = {}"
    using intent other legacy by (auto simp: legacy_zero_candidate_completion_def)
  note cs = this
  show "status \<in> set MISSION_CLOSED_STATUSES"
    by (cases rule: cs) (simp_all add: MISSION_CLOSED_STATUSES_def coverage_status_def)
  show "cp_receipt_covered (partitions_spec st) = st_candidate_ids st" if "status = ''receipt_coverage_complete''"
    using that by (cases rule: cs) (auto simp: coverage_status_def split: if_splits)
  show "cp_receipt_covered (partitions_spec st) \<noteq> st_candidate_ids st" if "status = ''receipt_coverage_incomplete''"
    using that by (cases rule: cs) (auto simp: coverage_status_def split: if_splits)
  show "st_lease_ids st = {}" if "status = ''completed''"
    using that by (cases rule: cs) (auto simp: coverage_status_def split: if_splits)
qed

text \<open>
  C4: a mission closes only without an active lease, with the exact counts of its outputs, and with a status that tells the
  truth: \<open>receipt_coverage_complete\<close> when every candidate's latest lease is consumed by an admitted receipt,
  \<open>receipt_coverage_incomplete\<close> when some candidate lacks that, \<open>completed\<close> only when no lease was ever issued.
\<close>

theorem closure_is_truthful:
  assumes "mission_run X first evs st" and "handle_mission_closed X (st\<lparr>st_phase := ph\<rparr>) ev = Inr st'"
  shows "\<exists>payload status. event_payload X ev = Inr payload \<and> status = jstr (member ''status'' payload) \<and>
    member ''candidate_count'' payload = JInt (int (length (st_candidates st))) \<and>
    member ''parse_failure_count'' payload = JInt (int (length (st_failures st))) \<and>
    st_scan_summary st \<noteq> None \<and> st_active st = {} \<and> status \<in> set MISSION_CLOSED_STATUSES \<and>
    (status = ''receipt_coverage_complete'' \<longrightarrow> (\<forall>c \<in> st_candidate_ids st. \<exists>i \<in> st_consumed st. map_of (st_latest st) c = Some i)) \<and>
    (status = ''receipt_coverage_incomplete'' \<longrightarrow> (\<exists>c \<in> st_candidate_ids st. \<forall>i \<in> st_consumed st. map_of (st_latest st) c \<noteq> Some i)) \<and>
    (status = ''completed'' \<longrightarrow> st_lease_ids st = {}) \<and> st_terminal_event st' = Some ev"
proof -
  let ?st = "st\<lparr>st_phase := ph\<rparr>"
  from assms(2) obtain payload summary where p: "event_payload X ev = Inr payload"
    and c: "check_closing ?st payload = Inr summary" and t: "st' = ?st\<lparr>st_terminal_event := Some ev\<rparr>"
    unfolding handle_mission_closed_def by (auto simp: bindR_eq_Inr)
  let ?status = "jstr (member ''status'' payload)"
  from c have counts: "member ''candidate_count'' payload = JInt (int (length (st_candidates st)))"
    "member ''parse_failure_count'' payload = JInt (int (length (st_failures st)))" "st_scan_summary st \<noteq> None"
    and cs: "check_closing_status ?st ?status = Inr ()"
    by (auto simp: check_closing_def bindR_eq_Inr seqR_Cons_eq_Inr requireR_eq_Inr split: option.splits)
  have "check_closing_status ?st ?status = check_closing_status st ?status"
    unfolding check_closing_status_def verification_intent_def partitions_of_def legacy_zero_candidate_completion_def by simp
  with cs have "check_closing_status st ?status = Inr ()" by simp
  note d = closing_statusD [OF assms(1) this]
  have covered: "cp_receipt_covered (partitions_spec st) = {c. \<exists>i \<in> st_consumed st. map_of (st_latest st) c = Some i}"
    by (simp add: partitions_spec_def)
  have sub: "cp_receipt_covered (partitions_spec st) \<subseteq> st_candidate_ids st"
    using run_ledger_ok [OF assms(1)] unfolding covered ledger_ok_def candidates_ok_def by blast
  have "\<forall>c \<in> st_candidate_ids st. \<exists>i \<in> st_consumed st. map_of (st_latest st) c = Some i" if "?status = ''receipt_coverage_complete''"
    using d(3) [OF that] unfolding covered by blast
  moreover have "\<exists>c \<in> st_candidate_ids st. \<forall>i \<in> st_consumed st. map_of (st_latest st) c \<noteq> Some i"
    if "?status = ''receipt_coverage_incomplete''"
    using d(4) [OF that] sub unfolding covered by blast
  ultimately show ?thesis using p counts d(1,2,5) t
    by (intro exI [of _ payload] exI [of _ "?status"]) simp
qed

end
