(* ===== verification/Wire_Properties.thy ===== *)
theory Wire_Properties
  imports Mission_Replay
begin

text \<open>
  What the canonical wire guarantees: strict decoding, content identifiers, envelopes, events and the content objects
  built on them, and the single operations on leases.
\<close>

text \<open>How far a phase is along the mission; the six terminal phases come last.\<close>

definition phase_rank :: "pystr \<Rightarrow> nat" where
  "phase_rank p =
     (if p = ''start'' then 0 else if p = ''admitted'' then 1 else if p = ''open'' then 2 else if p = ''analyzing'' then 3
      else if p = ''scan_completed'' then 4 else if p = ''awaiting_verification'' then 5 else 6)"

section \<open>Canonical JSON\<close>

text \<open>
  C37: the canonical text of a value decodes to exactly the normal form of that value, and the normal form has the
  same canonical text.
\<close>

theorem canonical_json_roundtrip:
  assumes "dict_ok v" and "canonical_dumps X v = Inr b"
  shows "strict_loads X b = Inr (norm_json v) \<and> canonical_dumps X (norm_json v) = Inr b \<and> length b \<le> MAX_WIRE_BYTES"
proof -
  from assms(2) have t: "thaw_json X v = Inr (norm_json v)" and l: "length b \<le> MAX_WIRE_BYTES"
    by (auto simp: canonical_dumps_eq_Inr thaw_json_eq_Inr)
  with assms canonical_roundtrip canonical_dumps_thaw [OF t] show ?thesis by metis
qed

text \<open>
  C38: strict decoding always ends: with a value that is its own normal form and has no duplicate key, or with a protocol
  error, never with another exception and never for lack of fuel.
\<close>

theorem strict_decoding_total:
  "(\<exists>w. strict_loads X b = Inr w \<and> dict_ok w \<and> thaw_json X w = Inr w) \<or> (\<exists>e. strict_loads X b = Inl e \<and> is_protocol_error e)"
proof (cases "strict_loads X b")
  case (Inl e)
  then have "is_protocol_error e"
    by (auto simp: strict_loads_def bindR_eq_Inl
        dest: json_loads_failure normalize_failure(1) split: if_splits)
  with Inl show ?thesis by blast
qed (use strict_loads_result in blast)

section \<open>Identifiers\<close>

text \<open>
  C39: equal content identifiers mean the same kind and the same value up to normal form, when SHA-256 does not collide on the
  two messages that are hashed.
\<close>

theorem content_id_binds:
  assumes "content_id X k v = Inr i" and "content_id X l w = Inr i" and "dict_ok v" and "dict_ok w"
    and "canonical_dumps X v = Inr b" and "canonical_dumps X w = Inr c"
    and "inj_on (sha256 X) {content_preimage k b, content_preimage l c}"
  shows "k = l \<and> norm_json v = norm_json w"
proof -
  from assms(1,2,5,6) have s: "snake_case k" "snake_case l" and h: "sha256 X (content_preimage k b) = sha256 X (content_preimage l c)"
    by (auto simp: content_id_eq_Inr hex_bytes_inject)
  from h have "content_preimage k b = content_preimage l c" by (rule inj_onD [OF assms(7)]) simp_all
  then have "k = l" and "b = c" using content_preimage_inject s by blast+
  moreover have "thaw_json X v = thaw_json X w"
    using canonical_dumps_injective assms(3-6) \<open>b = c\<close> by blast
  moreover have "thaw_json X v = Inr (norm_json v)" "thaw_json X w = Inr (norm_json w)"
    using assms(5,6) by (auto simp: canonical_dumps_eq_Inr thaw_json_eq_Inr)
  ultimately show ?thesis by simp
qed

text \<open>
  the digest of a typed artifact determines its type and its bytes, and is not the digest of untyped evidence,
  when SHA-256 does not collide on the two messages that are hashed.
\<close>

theorem typed_evidence_separated:
  assumes "typed_evidence_digest X a s = Inr i"
  shows "(typed_evidence_digest X b t = Inr i \<and> inj_on (sha256 X) {typed_preimage s a, typed_preimage t b} \<longrightarrow> s = t \<and> a = b) \<and>
    (inj_on (sha256 X) {typed_preimage s a, EVIDENCE_DOMAIN @ c} \<longrightarrow> evidence_digest X c \<noteq> i)"
proof -
  have i: "s \<in> set VERIFICATION_ARTIFACT_TYPES_V1" "i = ''sha256:'' @ hex_bytes (sha256 X (typed_preimage s a))"
    using assms by (auto simp: typed_evidence_digest_def typed_preimage_def split: if_splits)
  have "s = t \<and> a = b" if t: "typed_evidence_digest X b t = Inr i" and j: "inj_on (sha256 X) {typed_preimage s a, typed_preimage t b}"
  proof -
    have h: "t \<in> set VERIFICATION_ARTIFACT_TYPES_V1" "sha256 X (typed_preimage s a) = sha256 X (typed_preimage t b)"
      using t i(2) by (auto simp: typed_evidence_digest_def typed_preimage_def hex_bytes_inject split: if_splits)
    from h(2) have "typed_preimage s a = typed_preimage t b" by (rule inj_onD [OF j]) simp_all
    then show ?thesis using typed_preimage_inject i(1) h(1) by blast
  qed
  moreover have "evidence_digest X c \<noteq> i" if j: "inj_on (sha256 X) {typed_preimage s a, EVIDENCE_DOMAIN @ c}"
  proof
    assume "evidence_digest X c = i"
    then have "sha256 X (typed_preimage s a) = sha256 X (EVIDENCE_DOMAIN @ c)"
      using i(2) by (simp add: evidence_digest_def hex_bytes_inject)
    then have "typed_preimage s a = EVIDENCE_DOMAIN @ c" by (rule inj_onD [OF j]) simp_all
    then show False using typed_and_untyped_preimages_differ by metis
  qed
  ultimately show ?thesis by blast
qed

section \<open>Envelopes and events\<close>

text \<open>
  an envelope that decodes is canonical: it encodes to the bytes it was read from, its identifier is the
  content identifier of its body, and kind and number of attestations are within the protocol.
\<close>

theorem envelope_wire_exact:
  assumes "envelope_from_bytes X b = Inr e"
  shows "envelope_to_bytes X e = Inr b \<and> content_id X (env_kind e) (JObj (env_body e)) = Inr (env_object_id e) \<and>
    full_digest (env_object_id e) \<and> env_kind e \<in> set SUPPORTED_OBJECT_KINDS \<and> length (env_attestations e) \<le> 16"
  using assms by (rule envelope_from_bytes_inv) (simp add: envelope_create_eq_Inr)

text \<open>
  what \<open>create\<close> returns can be sent: it has a wire form, and that decodes to the same envelope.
  SHA-256 has 32 bytes.
\<close>

theorem envelope_created_decodes:
  assumes "\<And>m. length (sha256 X m) = 32" and "envelope_create X k body atts = Inr e" and "dict_ok body" and "dict_ok atts"
  shows "\<exists>b. envelope_to_bytes X e = Inr b \<and> envelope_from_bytes X b = Inr e"
proof -
  from assms(2) obtain b where b: "envelope_to_bytes X e = Inr b" and i: "content_id X k (JObj (env_body e)) = Inr (env_object_id e)"
    unfolding envelope_create_eq_Inr by blast
  have "full_digest (env_object_id e)" by (rule content_id_full_digest [OF assms(1) i])
  from envelope_from_bytes_created [OF this assms(2,3,4) b] b show ?thesis by blast
qed

text \<open>
  C36: bytes decode to an event exactly when the event passes verification and has those bytes as its canonical form.
\<close>

theorem event_wire_exact:
  "event_from_canonical_bytes X b = Inr ev \<longleftrightarrow> event_verify X ev = Inr () \<and> event_to_canonical_bytes X ev = Inr b"
  using event.decode_encode event.encode_decode event.decode_valid by blast

text \<open>
  an event built by \<open>create\<close> passes verification, carries the given header, and its payload is the normal form of the
  given one.
\<close>

theorem event_created_verifies:
  assumes "event_create X mission_id seq kind unit authority_id target_id time payload prev = Inr ev"
  shows "event_verify X ev = Inr () \<and> ev_mission_id ev = mission_id \<and> ev_seq ev = seq \<and> ev_kind ev = kind \<and> ev_unit ev = unit \<and>
    ev_authority_id ev = authority_id \<and> ev_target_id ev = target_id \<and> ev_decision_time ev = time \<and> ev_prev_digest ev = prev \<and>
    canonical_dumps X payload = Inr (ev_payload_bytes ev)"
proof -
  from assms obtain body pb d where n: "event_new X body pb d = Inr ev" and c: "canonical_dumps X (norm_json payload) = Inr pb"
      and t: "thaw_json X payload = Inr (norm_json payload)"
      and m: "member ''mission_id'' body = JStr mission_id" "member ''seq'' body = JInt seq" "member ''kind'' body = JStr kind"
      "member ''unit'' body = JStr unit" "member ''authority_id'' body = JStr authority_id" "member ''target_id'' body = JStr target_id"
      "member ''decision_time'' body = JInt time" "member ''prev_digest'' body = JStr prev"
    unfolding event_create_def
    by (auto simp: bindR_eq_Inr if_raise_eq_Inr wrap_error_eq_Inr freeze_json_thaw thaw_json_eq_Inr norm_idem member_def Let_def)
  show ?thesis
    using event_new_verified [OF n] event_newD(1,5) [OF n] m c canonical_dumps_thaw [OF t] by (simp add: event_of_body_def)
qed

section \<open>Content objects\<close>

text \<open>
  a target snapshot read from the wire is identified by its bytes: encoding it gives them back, and two wires with
  the same snapshot are the same. Its paths are unique and sorted, its files and bytes within the hard ceilings.
\<close>

theorem snapshot_wire_identity:
  assumes "envelope_from_bytes X b = Inr e" and "target_snapshot_from_envelope X e = Inr s"
  shows "bindR (target_snapshot_to_envelope X s) (envelope_to_bytes X) = Inr b \<and> ts_object_id s = env_object_id e \<and>
    sorted (map sf_relative_path (ts_files s)) \<and> distinct (map sf_relative_path (ts_files s)) \<and>
    ts_files s \<noteq> [] \<and> length (ts_files s) \<le> MAX_SNAPSHOT_FILES_HARD_CEILING \<and> snapshot_bytes s \<le> MAX_SNAPSHOT_BYTES_HARD_CEILING"
proof -
  from assms(2) obtain v fs where "target_snapshot_new X v fs (env_object_id e) = Inr s"
    by (auto simp: target_snapshot_from_envelope_def bindR_eq_Inr if_raise_eq_Inr)
  then have f: "ts_files s = fs" "fs \<noteq> []" "length fs \<le> MAX_SNAPSHOT_FILES_HARD_CEILING" "snapshot_bytes s \<le> MAX_SNAPSHOT_BYTES_HARD_CEILING"
    "map sf_relative_path fs = sort (map sf_relative_path fs)" "distinct (map sf_relative_path fs)"
    by (auto simp: target_snapshot_new_def Let_def bindR_eq_Inr seqR_Cons_eq_Inr requireR_eq_Inr)
  then have "sorted (map sf_relative_path fs)" by (metis sorted_sort)
  with f snapshot.object_determines_bytes [OF assms] snapshot.from_env_id [OF assms(2)] show ?thesis by simp
qed

text \<open>
  a verification lease read from the wire has a nonempty window, a nonempty evidence list without repetition and valid
  digests, and is identified by its bytes.
\<close>

theorem verification_lease_wire_identity:
  assumes "envelope_from_bytes X b = Inr e" and "vlease_from_envelope X e = Inr l"
  shows "bindR (vlease_to_envelope X l) (envelope_to_bytes X) = Inr b \<and> vl_lease_id l = env_object_id e \<and>
    0 \<le> vl_issued_at l \<and> vl_issued_at l < vl_expires_at l \<and> full_digest (vl_candidate_id l) \<and> full_digest (vl_mission_id l)"
proof -
  from assms(2) obtain body where v: "validate_vlease_values (without_purpose body) = Inr ()"
    and l: "l = vlease_of_values (env_object_id e) (without_purpose body)" by (rule vlease_from_envelopeD)
  have "0 \<le> vl_issued_at l" "vl_issued_at l < vl_expires_at l" "full_digest (vl_candidate_id l)" "full_digest (vl_mission_id l)"
    using v unfolding l by (auto simp: validate_vlease_values_def verification_check_defs vlease_of_values_def
        seqR_append bindR_eq_Inr seqR_Cons_eq_Inr requireR_eq_Inr)
  with vlease.object_determines_bytes [OF assms] vlease.from_env_id [OF assms(2)] show ?thesis by simp
qed

text \<open>
  an artifact resolution read from the wire gives every role its own digest, stays within both byte ceilings and is
  identified by its bytes.
\<close>

theorem resolution_wire_identity:
  assumes "envelope_from_bytes X b = Inr e" and "resolution_from_envelope X e = Inr r"
  shows "bindR (resolution_to_envelope X r) (envelope_to_bytes X) = Inr b \<and> ar_resolution_id r = env_object_id e \<and>
    distinct (singleton_and_evidence r) \<and>
    set (map tb_artifact_digest (ar_target_artifacts r)) \<inter> set (singleton_and_evidence r) = {} \<and>
    typed_input_bytes r \<le> MAX_TYPED_VERIFICATION_INPUT_BYTES_V1 \<and> total_bytes r \<le> MAX_RESOLUTION_ARTIFACT_BYTES_V1"
proof -
  from assms(1) have "created_envelope X e" by (rule env.decode_valid)
  from resolution_from_envelopeD(11) [OF assms(2) this]
  have "validate_resolution_values (JObj (env_body e)) r = Inr ()"
    by (auto simp: resolution_new_def bindR_eq_Inr seqR_Cons_eq_Inr)
  then have "distinct (singleton_and_evidence r)"
    "set (map tb_artifact_digest (ar_target_artifacts r)) \<inter> set (singleton_and_evidence r) = {}"
    "typed_input_bytes r \<le> MAX_TYPED_VERIFICATION_INPUT_BYTES_V1" "total_bytes r \<le> MAX_RESOLUTION_ARTIFACT_BYTES_V1"
    unfolding validate_resolution_values_def seqR_append bindR_eq_Inr seqR_Cons_eq_Inr requireR_eq_Inr by blast+
  with resolution.object_determines_bytes [OF assms] resolution.from_env_id [OF assms(2)] show ?thesis by simp
qed

text \<open>
  a grant read from the wire is well formed (canonical lists, known actions, ordered times, budgets within the hard
  ceilings) and is identified by its bytes.
\<close>

theorem grant_wire_identity:
  assumes "envelope_from_bytes X b = Inr e" and "grant_from_envelope X e = Inr g"
  shows "grant_wf g \<and> bindR (grant_to_envelope X g) (envelope_to_bytes X) = Inr b \<and> ag_grant_id g = env_object_id e"
  using grant_from_envelope_wf [OF assms(2)] grant.object_determines_bytes [OF assms] grant.from_env_id [OF assms(2)] by simp

text \<open>
  bytes decode to a signed verifier receipt exactly when they are its canonical attested envelope and its fields pass
  validation: exactly one attestation, removed before signing and restored on the wire.
\<close>

theorem signed_receipt_wire_exact:
  "signed_receipt_from_bytes X b = Inr s \<longleftrightarrow>
     signed_receipt_new (PBytes (sr_envelope_bytes s)) (PJson (JStr (sr_key_id s))) (PJson (JStr (sr_signature_b64 s))) = Inr s \<and>
     signed_receipt_to_bytes X s = Inr b"
  using signed_receipt.decode_encode signed_receipt.encode_decode signed_receipt.decode_valid by blast

text \<open>
  a relative path that passes validation has only ordinary components: it does not start at the root, and none
  of its parts is empty, the current or the parent directory.
\<close>

theorem relative_path_stays_inside:
  assumes "relative_path_ok s"
  shows "\<not> starts_with ''/'' s \<and> [] \<notin> set (split_slash s) \<and> ''.'' \<notin> set (split_slash s) \<and> ''..'' \<notin> set (split_slash s)"
  using assms relative_path_ok_components [OF assms] by (auto simp: relative_path_ok_def is_absolute_def)

section \<open>Operations on leases\<close>

text \<open>
  the deadline separates the ways a lease retires: at a decision time at which a lease can expire, it can neither be
  cancelled nor superseded by a reassignment.
\<close>

theorem lease_retirements_exclusive:
  assumes "expire_lease st ev i = Inr st'"
  shows "(\<exists>e. cancel_lease st ev i reason = Inl e) \<and>
    (\<forall>p. reassigned_predecessor st i = Inr p \<longrightarrow> (\<exists>e. release_predecessor st ev p reason = Inl e))"
proof -
  from assms obtain l where l: "map_of (st_leases st) i = Some l" "vl_lease_id l \<in> st_active st" "vl_expires_at l \<le> ev_decision_time ev"
    by (rule expire_leaseE) blast
  have "cancel_lease st ev i reason \<noteq> Inr s" for s
    using l by (auto simp: cancel_lease_def bindR_eq_Inr seqR_Cons_eq_Inr requireR_eq_Inr in_window_def)
  moreover have "release_predecessor st ev p reason \<noteq> Inr s" if "reassigned_predecessor st i = Inr p" for p s
  proof -
    have "p = l" using reassigned_predecessorD(1) [OF that] l(1) by simp
    then show ?thesis using l(2,3) by (auto simp: release_predecessor_def bindR_eq_Inr seqR_Cons_eq_Inr requireR_eq_Inr)
  qed
  ultimately show ?thesis by (metis sum.exhaust)
qed

text \<open>
  the phase only moves forward: every accepted event either advances the mission or stays in one of the two
  phases that collect evidence.
\<close>

theorem phases_advance:
  assumes "transition p k = Inr q"
  shows "phase_rank p < phase_rank q \<or> q = p \<and> p \<in> {''analyzing'', ''awaiting_verification''}"
  using assms
  by (auto simp: transition_def failure_transition_def illegal_transition_def FAILURE_PHASES_def phase_rank_def split: if_splits)

section \<open>Escaping exceptions\<close>


text \<open>
  a candidate body that is valid, with its severity replaced by an array or an object, ends validation with a TypeError
  instead of the mission protocol error of an unsupported severity.
\<close>

theorem candidate_severity_type_error:
  assumes "validate_candidate_body (JObj ms) = Inr ()" and "is_JArr v \<or> is_JObj v"
  shows "\<exists>m. validate_candidate_body (JObj (AList.update ''severity'' v ms)) = Inl (TypeError m) \<and> \<not> is_mission_error (TypeError m)"
proof -
  let ?b = "JObj ms" and ?c = "JObj (AList.update ''severity'' v ms)"
  note checks = assms(1)[unfolded validate_candidate_body_def list.map append.simps seqR_Cons_eq_Inr requireR_eq_Inr]
  from checks have "''severity'' \<in> fst ` set ms" by (auto simp: has_keys_def CANDIDATE_FIELDS_def)
  then have "has_keys ?c CANDIDATE_FIELDS = has_keys ?b CANDIDATE_FIELDS"
    by (simp add: has_keys_def dom_map_of_conv_image_fst [symmetric] update_conv' insert_absorb)
  moreover have "member k ?c = member k ?b" if "k \<noteq> ''severity''" for k using that by (simp add: member_def update_conv')
  moreover have "\<exists>m. in_string_set (member ''severity'' ?c) SEVERITIES = Inl (TypeError m)"
    using assms(2) by (cases v) (simp_all add: in_string_set_def member_def update_conv')
  ultimately show ?thesis
    using checks unfolding validate_candidate_body_def by (auto simp: requireR_def)
qed

end
