(* ===== verification/Sample_Values.thy ===== *)
theory Sample_Values
  imports Mission_Replay
begin

text \<open>
  A worked example, evaluated in the kernel. The parameters of the model are instantiated by concrete functions (a
  hash that maps every message to 32 zero bytes, the identity as normal form, signatures that always
  verify); the lemmas below turn the codecs on concrete values into rewriting, so that no text has to be
  parsed to evaluate a whole mission.
\<close>

section \<open>Concrete parameters\<close>

definition Xs :: externals where
  "Xs = \<lparr>sha256 = (\<lambda>m. replicate 32 (CHR 0x00)), nfc = (\<lambda>s. s), ed25519_valid_point = (\<lambda>k. True),
     ed25519_loadable = (\<lambda>k. True), ed25519_verify = (\<lambda>k s m. True)\<rparr>"

definition Z :: digest where "Z = ''sha256:'' @ replicate 64 (CHR ''0'')"

text \<open>Another well-formed digest, with a given last character.\<close>

definition dig :: "char \<Rightarrow> digest" where "dig c = ''sha256:'' @ replicate 63 (CHR ''0'') @ [c]"

definition KEY :: pystr where "KEY = ''ed25519:sha256:'' @ replicate 64 (CHR ''0'')"
definition SIG :: pystr where "SIG = b64encode (replicate 64 (CHR 0x00))"
definition PUB :: bytes where "PUB = replicate 32 (CHR 0x00)"

definition sound :: "json \<Rightarrow> bool" where
  "sound v \<longleftrightarrow> wf_json Xs 0 v \<and> nodes v \<le> MAX_TOTAL_NODES \<and> length (dumps (norm_json v)) \<le> MAX_WIRE_BYTES \<and> dict_ok v"

lemma sound_thaw: "sound v \<Longrightarrow> thaw_json Xs v = Inr (norm_json v)"
  by (simp add: sound_def thaw_json_eq_Inr)

lemma sound_dumps: "sound v \<Longrightarrow> canonical_dumps Xs v = Inr (dumps (norm_json v))"
  by (simp add: sound_def canonical_dumps_eq_Inr sound_thaw)

lemma sound_loads: "sound v \<Longrightarrow> strict_loads Xs (dumps (norm_json v)) = Inr (norm_json v)"
  using canonical_roundtrip [of v Xs] sound_dumps sound_thaw by (simp add: sound_def)

lemma Z_code: "''sha256:'' @ hex_bytes (sha256 Xs m) = Z"
  by (simp add: Xs_def Z_def) code_simp

lemma sound_id: "sound v \<Longrightarrow> snake_case k \<Longrightarrow> content_id Xs k v = Inr Z"
  by (simp add: content_id_def validate_kind_def sound_dumps Z_code [simplified append.simps])

definition sample_envelope :: "pystr \<Rightarrow> json \<Rightarrow> json \<Rightarrow> envelope" where
  "sample_envelope k body atts =
     \<lparr>env_kind = k, env_object_id = Z, env_body = obj_members (norm_json body), env_attestations = arr_items (norm_json atts)\<rparr>"

definition sample_wire :: "pystr \<Rightarrow> json \<Rightarrow> json \<Rightarrow> bytes" where
  "sample_wire k body atts = dumps (norm_json (envelope_json (sample_envelope k body atts)))"

text \<open>What has to be evaluated for one envelope.\<close>

definition sendable :: "pystr \<Rightarrow> json \<Rightarrow> json \<Rightarrow> bool" where
  "sendable k body atts \<longleftrightarrow>
     snake_case k \<and> k \<in> set SUPPORTED_OBJECT_KINDS \<and> is_JObj body \<and> is_JArr atts \<and> list_all is_JObj (arr_items (norm_json atts)) \<and>
     length (arr_items (norm_json atts)) \<le> 16 \<and> sound body \<and> sound atts \<and> sound (envelope_json (sample_envelope k body atts))"

lemma norm_obj: "is_JObj v \<Longrightarrow> JObj (obj_members (norm_json v)) = norm_json v" by (cases v) auto
lemma norm_arr: "is_JArr v \<Longrightarrow> JArr (arr_items (norm_json v)) = norm_json v" by (cases v) auto

lemma sample_to_bytes:
  assumes "sendable k body atts"
  shows "envelope_to_bytes Xs (sample_envelope k body atts) = Inr (sample_wire k body atts)"
    and "envelope_to_json Xs (sample_envelope k body atts) = Inr (envelope_json (sample_envelope k body atts))"
proof -
  have "thaw_json Xs (norm_json body) = Inr (norm_json body)" "thaw_json Xs (norm_json atts) = Inr (norm_json atts)"
    using assms sound_thaw thaw_json_idem by (auto simp: sendable_def)
  then show j: "envelope_to_json Xs (sample_envelope k body atts) = Inr (envelope_json (sample_envelope k body atts))"
    using assms by (simp add: envelope_to_json_def envelope_json_def sample_envelope_def norm_obj norm_arr sendable_def)
  show "envelope_to_bytes Xs (sample_envelope k body atts) = Inr (sample_wire k body atts)"
    using assms by (simp add: envelope_to_bytes_def j sendable_def sound_dumps sample_wire_def)
qed

lemma sound_norm_id:
  assumes "sound v" and "snake_case k"
  shows "content_id Xs k (norm_json v) = Inr Z"
proof -
  have "canonical_dumps Xs (norm_json v) = canonical_dumps Xs v"
    by (rule canonical_dumps_thaw) (rule sound_thaw [OF assms(1)])
  then show ?thesis using assms by (simp add: content_id_def validate_kind_def sound_dumps Z_code [simplified append.simps])
qed

lemma sample_create:
  assumes "sendable k body atts"
  shows "envelope_create Xs k body atts = Inr (sample_envelope k body atts)"
  using assms sample_to_bytes(1) [OF assms]
  by (auto simp: envelope_create_eq_Inr sendable_def sample_envelope_def norm_obj norm_arr sound_thaw sound_norm_id)

lemma Z_full: "full_digest Z" by code_simp

lemma sample_from_bytes:
  assumes "sendable k body atts"
  shows "envelope_from_bytes Xs (sample_wire k body atts) = Inr (sample_envelope k body atts)"
  by (rule envelope_from_bytes_created [OF _ sample_create [OF assms] _ _ sample_to_bytes(1) [OF assms]])
    (use assms in \<open>auto simp: sample_envelope_def sendable_def sound_def Z_full\<close>)

section \<open>Bounds by weight\<close>

text \<open>
  A bound on the canonical text that is cheap to evaluate: every character counts as six, the longest escape.
\<close>

fun weight :: "json \<Rightarrow> nat" and weight_items :: "json list \<Rightarrow> nat" and weight_members :: "(pystr \<times> json) list \<Rightarrow> nat" where
  "weight (JInt i) = length (int_str i)"
| "weight (JStr s) = 2 + 6 * length s"
| "weight (JArr xs) = 2 + weight_items xs"
| "weight (JObj ms) = 2 + weight_members ms"
| "weight v = 5"
| "weight_items [] = 0"
| "weight_items (x # xs) = 1 + weight x + weight_items xs"
| "weight_members [] = 0"
| "weight_members ((k, v) # ms) = 4 + 6 * length k + weight v + weight_members ms"

lemma str_text_length: "length (str_text s) \<le> 2 + 6 * length s"
proof -
  have "length (esc_char c) \<le> 6" for c by (simp add: esc_char_def)
  then have "length (concat (map esc_char s)) \<le> 6 * length s" by (induction s) (auto simp: add_mono)
  then show ?thesis by (simp add: str_text_def)
qed

lemma dumps_weight:
  "length (dumps v) \<le> weight v" "length (dumps_items xs) \<le> weight_items xs" "length (dumps_members ms) \<le> weight_members ms"
proof (induction v and xs and ms rule: dumps_dumps_items_dumps_members.induct)
  case (4 s) then show ?case using str_text_length [of s] by simp
next
  case (12 k v) then show ?case using str_text_length [of k] by simp
next
  case (13 k v m ms) then show ?case using str_text_length [of k] by simp
qed auto

lemma weight_members_sum: "weight_members ms = sum_list (map (\<lambda>(k, v). 4 + 6 * length k + weight v) ms)"
  by (induction ms) auto

lemma weight_members_mset: "mset ms = mset ns \<Longrightarrow> weight_members ms = weight_members ns"
  by (metis weight_members_sum mset_map sum_mset_sum_list)

lemma weight_norm:
  "weight (norm_json v) = weight v" "weight_items (norm_items xs) = weight_items xs" "weight_members (norm_members ms) = weight_members ms"
proof (induction v and xs and ms rule: norm_json_norm_items_norm_members.induct)
  case (2 ms)
  then show ?case using weight_members_mset [of "sort_key fst (norm_members ms)" "norm_members ms"] by simp
qed auto

lemma wf_mono:
  "wf_json X d v \<Longrightarrow> e \<le> d \<Longrightarrow> wf_json X e v" "wf_items X d xs \<Longrightarrow> e \<le> d \<Longrightarrow> wf_items X e xs"
  "wf_members X d ms \<Longrightarrow> e \<le> d \<Longrightarrow> wf_members X e ms"
  by (induction X d v and X d xs and X d ms arbitrary: e and e and e rule: wf_json_wf_items_wf_members.induct) auto

text \<open>A value that is valid at depth \<open>d\<close>, with at most \<open>n\<close> nodes and weight \<open>w\<close>.\<close>

definition compact :: "nat \<Rightarrow> nat \<Rightarrow> nat \<Rightarrow> json \<Rightarrow> bool" where
  "compact d n w v \<longleftrightarrow> wf_json Xs d v \<and> dict_ok v \<and> nodes v \<le> n \<and> weight v \<le> w"

lemma compact_norm: "compact d n w v \<Longrightarrow> compact d n w (norm_json v)"
  by (simp add: compact_def wf_norm dict_ok_norm nodes_norm weight_norm)

lemma compact_mono: "compact d n w v \<Longrightarrow> e \<le> d \<Longrightarrow> n \<le> m \<Longrightarrow> w \<le> u \<Longrightarrow> compact e m u v"
  using wf_mono(1) by (auto simp: compact_def)

lemma compact_sound:
  assumes "compact d n w v" and "n \<le> 100000" and "w \<le> 16000000"
  shows "sound v"
proof -
  have "wf_json Xs 0 v" using assms(1) wf_mono(1) by (auto simp: compact_def)
  moreover have "length (dumps (norm_json v)) \<le> MAX_WIRE_BYTES"
    using dumps_weight(1) [of "norm_json v"] assms by (simp add: weight_norm compact_def MAX_WIRE_BYTES_def)
  ultimately show ?thesis using assms by (simp add: sound_def compact_def MAX_TOTAL_NODES_def)
qed

definition short_key :: "pystr \<Rightarrow> bool" where "short_key k \<longleftrightarrow> validate_key Xs k = Inr k \<and> length k \<le> 64"

lemma compact_obj:
  assumes "list_all (\<lambda>(k, v). short_key k \<and> compact (Suc d) n w v) ms" and "distinct (map fst ms)" and "length ms \<le> c"
    and "c \<le> 10000" and "d \<le> 60"
  shows "compact d (1 + c * n) (2 + c * (w + 388)) (JObj ms)"
proof -
  have all: "\<forall>(k, v) \<in> set ms. short_key k \<and> compact (Suc d) n w v" using assms(1) by (simp add: list_all_iff)
  have "nodes_members ms \<le> length ms * n" using all
    by (induction ms) (auto simp: compact_def)
  then have n: "nodes_members ms \<le> c * n" using assms(3) mult_le_mono1 order_trans by blast
  have "weight_members ms \<le> length ms * (w + 388)" using all
    by (induction ms) (auto simp: compact_def short_key_def)
  then have w: "weight_members ms \<le> c * (w + 388)" using assms(3) mult_le_mono1 order_trans by blast
  have "wf_members Xs (Suc d) ms" "dict_ok_members ms"
    using all by (auto simp: wf_members_all dict_ok_members_all short_key_def compact_def)
  with n w assms show ?thesis by (simp add: compact_def MAX_NESTING_DEPTH_def MAX_CONTAINER_ITEMS_def)
qed

lemma short_keys:
  "list_all short_key [''protocol_version'', ''object_kind'', ''object_version'', ''object_id'', ''body'', ''attestations'']"
  by code_simp

lemma Z_compact: "compact 64 1 500 (JStr Z)" by code_simp

text \<open>An envelope whose body is an object of compact members.\<close>

lemma compact_envelope:
  assumes "compact (Suc d) n w body" and "compact (Suc d) n w atts" and "is_JObj body" and "is_JArr atts" and "d \<le> 60"
    and "validate_string Xs k = Inr k" and "length k \<le> 64" and "1 \<le> n" and "500 \<le> w"
  shows "compact d (1 + 6 * n) (2 + 6 * (w + 388)) (envelope_json (sample_envelope k body atts))"
proof -
  have "compact (Suc d) n w (JInt 1)"
    using assms by (simp add: compact_def MAX_NESTING_DEPTH_def MIN_INTEGER_def MAX_INTEGER_def int_str_def) (simp add: nat_str.simps)
  moreover have "compact (Suc d) n w (JStr Z)" using Z_compact by (rule compact_mono) (use assms in auto)
  moreover have "compact (Suc d) n w (JStr k)" using assms by (simp add: compact_def MAX_NESTING_DEPTH_def)
  moreover have "compact (Suc d) n w (norm_json body)" "compact (Suc d) n w (norm_json atts)" using assms compact_norm by auto
  ultimately show ?thesis
    unfolding envelope_json_def using assms short_keys
    by (intro compact_obj) (simp_all add: sample_envelope_def norm_obj norm_arr PROTOCOL_VERSION_def OBJECT_VERSION_def)
qed

lemma compact_sendable:
  assumes "compact 1 n w body" and "compact 1 n w atts" and "is_JObj body" and "is_JArr atts" and "snake_case k"
    and "k \<in> set SUPPORTED_OBJECT_KINDS" and "list_all is_JObj (arr_items (norm_json atts))" and "length (arr_items (norm_json atts)) \<le> 16"
    and "1 \<le> n" and "500 \<le> w" and "n \<le> 15000" and "w \<le> 2600000"
  shows "sendable k body atts"
proof -
  have k: "validate_string Xs k = Inr k" "length k \<le> 64"
  proof -
    have "list_all (\<lambda>k. validate_string Xs k = Inr k \<and> length k \<le> 64) SUPPORTED_OBJECT_KINDS" by code_simp
    then show "validate_string Xs k = Inr k" "length k \<le> 64" using assms(6) by (auto simp: list_all_iff)
  qed
  have "sound body" by (rule compact_sound [OF assms(1)]) (use assms in auto)
  moreover have "sound atts" by (rule compact_sound [OF assms(2)]) (use assms in auto)
  moreover have "sound (envelope_json (sample_envelope k body atts))"
    by (rule compact_sound [OF compact_envelope [of 0 n w]]) (use assms k in auto)
  ultimately show ?thesis using assms by (simp add: sendable_def)
qed


section \<open>A signed grant\<close>

definition G :: authority_grant where
  "G = \<lparr>ag_grant_id = Z, ag_issuer = ''op'', ag_subject = ''s'', ag_target_snapshot_id = Z, ag_assets = [''a''],
    ag_permitted_actions = [''modeled_fixture_verification'', ''static_analysis''], ag_evidence_digest = Z, ag_issued_at = 10,
    ag_not_before = 10, ag_expires_at = 1000, ag_max_bytes = 1000, ag_max_candidates = 9, ag_max_wallclock_seconds = 900\<rparr>"

definition GE :: envelope where "GE = sample_envelope ''authority_grant'' (grant_body G) (JArr [])"
definition GB :: bytes where "GB = sample_wire ''authority_grant'' (grant_body G) (JArr [])"

lemma G_sendable: "sendable ''authority_grant'' (grant_body G) (JArr [])"
  by (rule compact_sendable [of 200 30000]; code_simp)

lemma G_from: "grant_from_envelope Xs GE = Inr G"
  by code_simp

lemma GE_fields [simp]: "env_kind GE = AUTHORITY_OBJECT_KIND" "env_attestations GE = []" "env_object_id GE = Z"
  by (simp_all add: GE_def sample_envelope_def AUTHORITY_OBJECT_KIND_def)

definition S :: signed_grant where "S = \<lparr>sg_envelope_bytes = GB, sg_key_id = KEY, sg_signature_b64 = SIG\<rparr>"

definition GJ :: json where "GJ = JObj (env_body GE)"
definition SA :: json where "SA = JArr [attestation_json KEY SIG]"
definition SE :: envelope where "SE = sample_envelope ''authority_grant'' GJ SA"
definition SB :: bytes where "SB = sample_wire ''authority_grant'' GJ SA"

lemma S_sendable: "sendable ''authority_grant'' GJ SA"
  by (rule compact_sendable [of 200 30000]; code_simp)

lemma G_wire: "envelope_from_bytes Xs GB = Inr GE" "envelope_to_bytes Xs GE = Inr GB"
  "envelope_create Xs ''authority_grant'' (grant_body G) (JArr []) = Inr GE"
  unfolding GE_def GB_def using G_sendable by (simp_all add: sample_from_bytes sample_to_bytes sample_create)

lemma S_wire: "envelope_create Xs ''authority_grant'' GJ SA = Inr SE" "envelope_to_bytes Xs SE = Inr SB"
  "envelope_to_json Xs SE = Inr (envelope_json SE)"
  unfolding SE_def SB_def using S_sendable by (simp_all add: sample_from_bytes sample_to_bytes sample_create)

lemma S_to_bytes: "signed_grant_to_envelope Xs S = Inr SE" "signed_grant_to_bytes Xs S = Inr SB"
  using S_wire by (simp_all add: signed_grant_to_bytes_def signed_grant_to_envelope_def S_def G_wire G_from
      AUTHORITY_OBJECT_KIND_def GJ_def SA_def)

lemma S_valid: "valid_signed S"
  unfolding valid_signed_def S_def GB_def by code_simp

lemma S_from_bytes: "signed_grant_from_bytes Xs SB = Inr S"
  using signed.decode_encode S_valid S_to_bytes(2) by (simp add: valid_signed_def)

section \<open>Trust and admission\<close>

definition T :: trust_store where
  "T = \<lparr>ts_keys = [(KEY, \<lparr>tk_public_key_bytes = PUB, tk_roles = [''operator''], tk_issuers = [''op'']\<rparr>)],
     ts_revoked_key_ids = [], ts_revoked_grant_ids = []\<rparr>"

definition TJ :: json where "TJ = norm_json (trust_snapshot_body T)"
definition TB :: bytes where "TB = dumps TJ"

lemma T_sound: "sound (trust_snapshot_body T)"
  by (rule compact_sound [of 0 200 30000]; code_simp)

lemma T_facts: "canonical_dumps Xs (trust_snapshot_body T) = Inr TB" "strict_loads Xs TB = Inr TJ" "canonical_dumps Xs TJ = Inr TB"
  "content_id Xs ''authority_trust_snapshot'' (trust_snapshot_body T) = Inr Z" "content_id Xs ''authority_trust_snapshot'' TJ = Inr Z"
proof -
  have k: "snake_case ''authority_trust_snapshot''" by code_simp
  show "canonical_dumps Xs (trust_snapshot_body T) = Inr TB" "strict_loads Xs TB = Inr TJ"
    "content_id Xs ''authority_trust_snapshot'' (trust_snapshot_body T) = Inr Z" "content_id Xs ''authority_trust_snapshot'' TJ = Inr Z"
    using T_sound k by (simp_all add: TB_def TJ_def sound_dumps sound_loads sound_id sound_norm_id)
  then show "canonical_dumps Xs TJ = Inr TB"
    using canonical_dumps_thaw [OF sound_thaw [OF T_sound]] by (simp add: TJ_def)
qed

lemma T_valid: "validate_trust_snapshot_body Xs TJ = Inr ()" "is_JObj TJ"
  by code_simp+

definition ACTIONS :: "pystr list" where "ACTIONS = [''modeled_fixture_verification'', ''static_analysis'']"

definition AJ :: "json \<Rightarrow> json \<Rightarrow> json" where
  "AJ signed trust = JObj [
     (''authority_id'', JStr Z), (''decision_time'', JInt 20), (''grant_expires_at'', JInt 1000),
     (''required_actions'', JArr (map JStr ACTIONS)), (''signer_key_id'', JStr KEY), (''signed_grant'', signed),
     (''target_snapshot_id'', JStr Z), (''trust_snapshot'', trust), (''trust_snapshot_id'', JStr Z)]"

definition SJ :: json where "SJ = norm_json (envelope_json SE)"

lemma AJ_sendable: "sendable ''authority_admission'' (AJ (envelope_json SE) (trust_snapshot_body T)) (JArr [])"
  by (rule compact_sendable [of 200 30000]; code_simp)

lemma AJ_norm: "norm_json (AJ SJ TJ) = norm_json (AJ (envelope_json SE) (trust_snapshot_body T))"
  by (simp add: AJ_def SJ_def TJ_def norm_idem)

lemma AJ_sendable': "sendable ''authority_admission'' (AJ SJ TJ) (JArr [])"
  by (rule compact_sendable [of 200 30000]; code_simp)

definition A :: authority_admission where
  "A = \<lparr>aa_admission_id = Z, aa_authority_id = Z, aa_signer_key_id = KEY, aa_target_snapshot_id = Z, aa_decision_time = 20,
     aa_required_actions = ACTIONS, aa_grant_expires_at = 1000, aa_trust_snapshot_id = Z, aa_trust_snapshot_bytes = TB,
     aa_signed_grant_bytes = SB\<rparr>"

definition AE :: envelope where "AE = sample_envelope ''authority_admission'' (AJ SJ TJ) (JArr [])"

lemma SJ_loads: "strict_loads Xs SB = Inr SJ"
  unfolding SB_def sample_wire_def SJ_def SE_def using S_sendable by (simp add: sendable_def sound_loads)

lemma A_wire: "envelope_create Xs ''authority_admission'' (AJ SJ TJ) (JArr []) = Inr AE"
  "envelope_create Xs ''authority_admission'' (AJ (envelope_json SE) (trust_snapshot_body T)) (JArr []) = Inr AE"
  unfolding AE_def using AJ_sendable AJ_sendable' AJ_norm by (simp_all add: sample_create sample_envelope_def)

lemma A_historical: "validate_historical_admission Xs A TJ = Inr ()"
proof -
  have e: "validate_embedded_signer Xs TJ S G = Inr ()"
    by code_simp
  have r: "member ''revoked_key_ids'' TJ = JArr []" "member ''revoked_grant_ids'' TJ = JArr []" by code_simp+
  have s: "sg_envelope_bytes S = GB" "sg_key_id S = KEY" by (simp_all add: S_def)
  show ?thesis
    using e r by (simp add: validate_historical_admission_def S_from_bytes S_to_bytes s G_wire G_from A_def requireR_def
        G_def [THEN arg_cong, of ag_grant_id] G_def [THEN arg_cong, of ag_target_snapshot_id] G_def [THEN arg_cong, of ag_expires_at]
        G_def [THEN arg_cong, of ag_not_before] G_def [THEN arg_cong, of ag_permitted_actions] ACTIONS_def)
qed

lemma A_body: "admission_body_with Xs A TJ = Inr (AJ SJ TJ)"
  by (simp add: admission_body_with_def A_def SJ_loads AJ_def)

lemma A_members:
  "member ''authority_id'' (AJ s t) = JStr Z" "member ''signer_key_id'' (AJ s t) = JStr KEY"
  "member ''target_snapshot_id'' (AJ s t) = JStr Z" "member ''decision_time'' (AJ s t) = JInt 20"
  "member ''grant_expires_at'' (AJ s t) = JInt 1000" "member ''trust_snapshot_id'' (AJ s t) = JStr Z"
  by (simp_all add: AJ_def member_def)

lemma ACTIONS_required: "required_action_tuple (map JStr ACTIONS) = Inr ACTIONS"
  by code_simp

lemma KEY_text: "key_id_text KEY" by code_simp

lemma A_new_of:
  assumes "member ''authority_id'' b = JStr Z" "member ''signer_key_id'' b = JStr KEY"
    "member ''target_snapshot_id'' b = JStr Z" "member ''decision_time'' b = JInt 20"
    "member ''grant_expires_at'' b = JInt 1000" "member ''trust_snapshot_id'' b = JStr Z"
  shows "admission_new Xs Z b (map JStr ACTIONS) TB SB = Inr A"
proof -
  have a: "\<lparr>aa_admission_id = Z, aa_authority_id = Z, aa_signer_key_id = KEY, aa_target_snapshot_id = Z, aa_decision_time = 20,
     aa_required_actions = ACTIONS, aa_grant_expires_at = 1000, aa_trust_snapshot_id = Z, aa_trust_snapshot_bytes = TB,
     aa_signed_grant_bytes = SB\<rparr> = A" by (simp add: A_def)
  have m: "map (jstr \<circ> JStr) ACTIONS = ACTIONS" by (simp add: ACTIONS_def)
  have "aa_trust_snapshot_id A = Z" "env_object_id AE = Z" by (simp_all add: A_def AE_def sample_envelope_def)
  then show ?thesis
    unfolding admission_new_def
    by (simp add: assms digest_value_def Z_full KEY_text ACTIONS_required requireR_def m a T_facts T_valid
        A_historical A_body A_wire)
qed

lemmas A_new = A_new_of [OF A_members]

lemma AJ_members_norm:
  "member k (norm_json (AJ s t)) = norm_json (member k (AJ s t))"
proof -
  have d: "distinct (map fst (obj_members (AJ s t)))" by (simp add: AJ_def)
  have o: "AJ s t = JObj (obj_members (AJ s t))" by (simp add: AJ_def)
  have "member k (norm_json (JObj (obj_members (AJ s t)))) = norm_json (member k (JObj (obj_members (AJ s t))))"
    using member_norm [OF d, of k] by (auto simp: member_def split: option.splits)
  with o show ?thesis by simp
qed

lemma A_from: "admission_from_envelope Xs AE = Inr A"
proof -
  have b: "JObj (env_body AE) = norm_json (AJ SJ TJ)" unfolding AE_def sample_envelope_def by (simp add: norm_obj AJ_def)
  have t: "thaw_json Xs (norm_json (AJ SJ TJ)) = Inr (norm_json (AJ SJ TJ))"
    using AJ_sendable' by (intro thaw_json_idem [of _ "AJ SJ TJ"] sound_thaw) (simp add: sendable_def)
  have n: "norm_json SJ = SJ" "norm_json TJ = TJ" by (simp_all add: SJ_def TJ_def norm_idem)
  have m: "member ''required_actions'' (AJ SJ TJ) = JArr (map JStr ACTIONS)" "member ''signed_grant'' (AJ SJ TJ) = SJ"
    "member ''trust_snapshot'' (AJ SJ TJ) = TJ" by (simp_all add: AJ_def member_def)
  have a: "norm_items (map JStr ACTIONS) = map JStr ACTIONS" by (simp add: norm_items_map)
  have k: "has_keys (norm_json (AJ SJ TJ)) ADMISSION_BODY_FIELDS" 
    unfolding has_keys_def AJ_def keys_norm by (auto simp: ADMISSION_BODY_FIELDS_def)
  have s: "canonical_dumps Xs SJ = Inr SB" "is_JObj SJ"
  proof -
    have "sound (envelope_json SE)" using S_sendable by (simp add: sendable_def SE_def)
    then show "canonical_dumps Xs SJ = Inr SB"
      using canonical_dumps_thaw [OF sound_thaw] sound_dumps by (simp add: SJ_def SB_def sample_wire_def SE_def)
    show "is_JObj SJ" by (simp add: SJ_def envelope_json_def)
  qed
  have w: "admission_new Xs Z (norm_json (AJ SJ TJ)) (map JStr ACTIONS) TB SB = Inr A"
    by (rule A_new_of) (simp_all add: AJ_members_norm A_members)
  have e: "env_kind AE = ''authority_admission''" "env_attestations AE = []" "env_object_id AE = Z"
    by (simp_all add: AE_def sample_envelope_def)
  show ?thesis by (simp add: admission_from_envelope_def e b t k AJ_members_norm m n a s T_facts T_valid w)
qed

lemma A_issue: "admission_issue Xs G S KEY T 20 (map JStr ACTIONS) Z = Inr A"
proof -
  have "ag_grant_id G = Z" "ag_expires_at G = 1000" "env_object_id AE = Z" by (simp_all add: G_def AE_def sample_envelope_def)
  then show ?thesis
    unfolding admission_issue_def by (simp add: ACTIONS_required T_facts S_to_bytes S_wire A_wire A_new flip: AJ_def)
qed

definition DECISION :: admission_decision where
  "DECISION = \<lparr>ad_accepted = True, ad_authority_id = Some Z, ad_reason_code = ''accepted'', ad_key_id = Some KEY,
     ad_grant = Some G, ad_admission = Some A\<rparr>"

lemma admit_sample: "admit_authority Xs (RawSigned S) T (JInt 20) (JStr Z) (map JStr ACTIONS) = Inr DECISION"
proof -
  have s: "sg_envelope_bytes S = GB" "sg_key_id S = KEY" "sg_signature_b64 S = SIG" by (simp_all add: S_def)
  have t: "map_of (ts_keys T) KEY = Some \<lparr>tk_public_key_bytes = PUB, tk_roles = [''operator''], tk_issuers = [''op'']\<rparr>"
    "ts_revoked_key_ids T = []" "ts_revoked_grant_ids T = []" by (simp_all add: T_def)
  have sig: "b64decode SIG = Some (replicate 64 (CHR 0x00))" "b64encode (replicate 64 (CHR 0x00)) = SIG"
    unfolding SIG_def by (rule b64_roundtrip, rule refl)
  have v: "signature_verifies Xs k g m" for k g m by (simp add: signature_verifies_def Xs_def)
  have g: "admit_grant Xs T 20 Z ACTIONS S \<lparr>tk_public_key_bytes = PUB, tk_roles = [''operator''], tk_issuers = [''op'']\<rparr> G = Inr DECISION"
  proof -
    have "accepted_decision Z KEY G A = Inr DECISION"
      by (simp add: accepted_decision_def Z_full KEY_text requireR_def G_def A_def DECISION_def)
    moreover have "ag_grant_id G = Z" "ag_target_snapshot_id G = Z" "ag_issuer G = ''op''" "ag_not_before G = 10" "ag_expires_at G = 1000"
      "set ACTIONS \<subseteq> set (ag_permitted_actions G)" by (simp_all add: G_def ACTIONS_def)
    ultimately show ?thesis by (simp add: admit_grant_def t s A_issue)
  qed
  show ?thesis
    by (simp add: admit_authority_def digest_value_def Z_full ACTIONS_required refuse_on_def admit_signed_def s t OPERATOR_ROLE_def
        sig v G_wire G_from g)
qed

end
