(* ===== verification/Sample_Evidence.thy ===== *)
theory Sample_Evidence
  imports Sample_Values
begin

text \<open>
  The worked example continued: the evidence of one mission, from the target snapshot to an authenticated
  verifier receipt.
\<close>

section \<open>Target, analysis and candidate\<close>

definition FILES :: "snapshot_file list" where
  "FILES = [\<lparr>sf_relative_path = ''m.py'', sf_artifact_digest = dig (CHR ''1''), sf_size = 7\<rparr>]"

definition TS :: target_snapshot where
  "TS = \<lparr>ts_source = ''repository_fixture'', ts_files = FILES, ts_object_id = Z\<rparr>"

definition AL :: analysis_lease where
  "AL = \<lparr>al_lease_id = Z, al_mission_id = Z, al_authority_id = Z, al_target_snapshot_id = Z, al_worker_identity = ''VELITES'',
     al_action = ''static_analysis'', al_issued_at = 22, al_expires_at = 200, al_max_bytes = 100, al_max_candidates = 5,
     al_max_wallclock_seconds = 300, al_lease_nonce = replicate 32 (CHR ''0'')\<rparr>"

definition CA :: static_candidate where
  "CA = \<lparr>sc_candidate_id = Z, sc_claim_id = Z, sc_mission_id = Z, sc_authority_id = Z, sc_analysis_lease_id = Z,
     sc_target_snapshot_id = Z, sc_source_artifact_digest = dig (CHR ''1''), sc_relative_path = ''m.py'',
     sc_analyzer_version = ''python_ast.v1'', sc_rule_id = ''r'', sc_severity = ''high'', sc_line = 1, sc_column = 0,
     sc_symbol = ''f'', sc_producer_identity = ''VELITES''\<rparr>"

definition TSE :: envelope where "TSE = sample_envelope ''target_snapshot'' (snapshot_body TS) (JArr [])"
definition ALE :: envelope where "ALE = sample_envelope ''analysis_lease'' (analysis_lease_body AL) (JArr [])"
definition CAE :: envelope where "CAE = sample_envelope ''candidate'' (candidate_body CA) (JArr [])"

lemma TS_sendable: "sendable ''target_snapshot'' (snapshot_body TS) (JArr [])"
  by (rule compact_sendable [of 200 30000]; code_simp)
lemma AL_sendable: "sendable ''analysis_lease'' (analysis_lease_body AL) (JArr [])"
  by (rule compact_sendable [of 200 30000]; code_simp)
lemma CA_sendable: "sendable ''candidate'' (candidate_body CA) (JArr [])"
  by (rule compact_sendable [of 200 30000]; code_simp)

lemma TS_from: "target_snapshot_from_envelope Xs TSE = Inr TS" by code_simp
lemma AL_from: "analysis_lease_from_envelope Xs ALE = Inr AL" by code_simp
lemma CA_from: "candidate_from_envelope Xs CAE = Inr CA" by code_simp

section \<open>Verification\<close>

definition VT :: verifier_trust_store where
  "VT = \<lparr>vt_keys = [(KEY, \<lparr>tv_verifier_id = ''ver1'', tv_public_key_bytes = PUB, tv_roles = [VERIFIER_ROLE]\<rparr>)],
     vt_revoked_key_ids = [], vt_revoked_receipt_ids = [], vt_revoked_lease_ids = []\<rparr>"

definition VTJ :: json where "VTJ = norm_json (verifier_snapshot_body VT)"

lemma VT_from: "trust_store_from_snapshot_body Xs VTJ = Inr VT" by code_simp

lemma VT_id: "verifier_snapshot_id Xs VT = Inr Z"
proof -
  have "sound (verifier_snapshot_body VT)" by (rule compact_sound [of 0 200 30000]; code_simp)
  moreover have "snake_case ''verifier_trust_snapshot''" by code_simp
  ultimately show ?thesis by (simp add: verifier_snapshot_id_def sound_id)
qed

lemma VT_snapshot: "verifier_trust_from_snapshot Xs VTJ (Some Z) = Inr VT"
  by (simp add: verifier_trust_from_snapshot_def VT_from VT_id Z_full)

definition VL :: verification_lease where
  "VL = \<lparr>vl_lease_id = Z, vl_lease_nonce = replicate 32 (CHR ''0''), vl_mission_id = Z, vl_authority_id = Z,
     vl_target_snapshot_id = Z, vl_candidate_id = Z, vl_candidate_producer_id = ''VELITES'',
     vl_poc_artifact_digest = dig (CHR ''2''), vl_evidence_artifact_digests = [dig (CHR ''3'')],
     vl_environment_digest = dig (CHR ''4''), vl_effect_oracle_id = dig (CHR ''5''), vl_verifier_id = ''ver1'',
     vl_verifier_key_id = KEY, vl_issuance_trust_snapshot_id = Z, vl_issued_at = 60, vl_expires_at = 500\<rparr>"

definition VLE :: envelope where "VLE = sample_envelope ''verification_lease'' (vlease_wire_body VL) (JArr [])"

lemma VL_sendable: "sendable ''verification_lease'' (vlease_wire_body VL) (JArr [])"
  by (rule compact_sendable [of 200 30000]; code_simp)
lemma VL_from: "vlease_from_envelope Xs VLE = Inr VL" by code_simp

lemma VL_nonce: "derive_verification_lease_nonce Xs Z VL = Inr (replicate 32 (CHR ''0''))"
  by code_simp

definition bind :: "char \<Rightarrow> pystr \<Rightarrow> artifact_binding" where
  "bind c t = \<lparr>ab_artifact_digest = dig c, ab_artifact_type = t, ab_size = 3\<rparr>"

definition RS :: artifact_resolution where
  "RS = \<lparr>ar_resolution_id = Z, ar_authority_id = Z, ar_candidate_id = Z,
     ar_effect_oracle_artifact = bind (CHR ''5'') EFFECT_ORACLE_TYPE, ar_environment_artifact = bind (CHR ''4'') ENVIRONMENT_TYPE,
     ar_evidence_artifacts = [bind (CHR ''3'') EVIDENCE_TYPE], ar_mission_id = Z, ar_poc_artifact = bind (CHR ''2'') POC_TYPE,
     ar_resolution_profile = RESOLUTION_PROFILE_V1, ar_resolved_at = 70,
     ar_target_artifacts = [\<lparr>tb_artifact_digest = dig (CHR ''1''), tb_artifact_type = TARGET_ARTIFACT_TYPE_V1,
        tb_relative_path = ''m.py'', tb_size = 7\<rparr>],
     ar_target_snapshot_id = Z, ar_verification_lease_id = Z\<rparr>"

definition RSE :: envelope where "RSE = sample_envelope ''verification_artifact_resolution'' (resolution_body RS) (JArr [])"

lemma RS_sendable: "sendable ''verification_artifact_resolution'' (resolution_body RS) (JArr [])"
  by (rule compact_sendable [of 200 30000]; code_simp)
lemma RS_from: "resolution_from_envelope Xs RSE = Inr RS" by code_simp

definition VR :: verifier_receipt where
  "VR = \<lparr>vr_receipt_id = Z, vr_artifact_resolution_id = Z, vr_lease_id = Z, vr_mission_id = Z, vr_authority_id = Z,
     vr_target_snapshot_id = Z, vr_candidate_id = Z, vr_candidate_producer_id = ''VELITES'',
     vr_poc_artifact_digest = dig (CHR ''2''), vr_evidence_artifact_digests = [dig (CHR ''3'')],
     vr_environment_digest = dig (CHR ''4''), vr_effect_oracle_id = dig (CHR ''5''),
     vr_execution_output_digest = dig (CHR ''6''), vr_execution_output_size = 3, vr_effect_output_digest = dig (CHR ''7''),
     vr_effect_output_size = 3, vr_measured_environment_output_digest = dig (CHR ''8''), vr_measured_environment_output_size = 3,
     vr_termination_output_digest = dig (CHR ''9''), vr_termination_output_size = 3, vr_verifier_id = ''ver1'',
     vr_verifier_key_id = KEY, vr_evidence_tier = MODELED_FIXTURE_TIER, vr_verdict = ''confirmed'', vr_effect_observed = True,
     vr_oracle_satisfied = True, vr_completed_at = 80\<rparr>"

definition VRE :: envelope where "VRE = sample_envelope ''verifier_receipt'' (receipt_body VR) (JArr [])"
definition VRB :: bytes where "VRB = sample_wire ''verifier_receipt'' (receipt_body VR) (JArr [])"

lemma VR_sendable: "sendable ''verifier_receipt'' (receipt_body VR) (JArr [])"
  by (rule compact_sendable [of 200 30000]; code_simp)
lemma VR_from: "receipt_from_envelope Xs VRE = Inr VR" by code_simp

lemma VR_wire: "envelope_from_bytes Xs VRB = Inr VRE" "envelope_to_bytes Xs VRE = Inr VRB"
  unfolding VRE_def VRB_def using VR_sendable by (simp_all add: sample_from_bytes sample_to_bytes)

lemma VRE_fields [simp]: "env_kind VRE = ''verifier_receipt''" "env_attestations VRE = []" "env_object_id VRE = Z"
  by (simp_all add: VRE_def sample_envelope_def)

definition SR :: signed_receipt where "SR = \<lparr>sr_envelope_bytes = VRB, sr_key_id = KEY, sr_signature_b64 = SIG\<rparr>"
definition VRJ :: json where "VRJ = JObj (env_body VRE)"
definition SRE :: envelope where "SRE = sample_envelope ''verifier_receipt'' VRJ SA"
definition SRB :: bytes where "SRB = sample_wire ''verifier_receipt'' VRJ SA"

lemma SR_sendable: "sendable ''verifier_receipt'' VRJ SA"
  by (rule compact_sendable [of 200 30000]; code_simp)

lemma SR_small: "length SRB \<le> MAX_VERIFIER_RECEIPT_ENVELOPE_BYTES" by code_simp

lemma SR_to: "signed_receipt_to_envelope Xs SR = Inr SRE" "envelope_to_bytes Xs SRE = Inr SRB" "signed_receipt_to_bytes Xs SR = Inr SRB"
proof -
  have c: "envelope_create Xs ''verifier_receipt'' VRJ SA = Inr SRE" and t: "envelope_to_bytes Xs SRE = Inr SRB"
    unfolding SRE_def SRB_def using SR_sendable by (simp_all add: sample_create sample_to_bytes)
  show "envelope_to_bytes Xs SRE = Inr SRB" by (rule t)
  show e: "signed_receipt_to_envelope Xs SR = Inr SRE"
    using c t SR_small by (simp add: signed_receipt_to_envelope_def SR_def VR_wire VR_from RECEIPT_OBJECT_KIND_def VRJ_def SA_def)
  show "signed_receipt_to_bytes Xs SR = Inr SRB" by (simp add: signed_receipt_to_bytes_def e t)
qed

lemma SR_valid: "signed_receipt_new (PBytes VRB) (PJson (JStr KEY)) (PJson (JStr SIG)) = Inr SR"
  unfolding SR_def VRB_def by code_simp

lemma SR_from: "signed_receipt_from_bytes Xs SRB = Inr SR"
  using signed_receipt.decode_encode [of SR] SR_valid SR_to(3) by (simp add: SR_def)

lemma VR_decode: "decode_signed_receipt Xs SR = Inr VR"
  by (simp add: decode_signed_receipt_def SR_def VR_wire VR_from)

definition AT :: authenticated_receipt where
  "AT = \<lparr>at_signed_receipt = SR, at_receipt = VR, at_lease = VL, at_artifact_resolution = RS, at_decision_trust_snapshot_id = Z\<rparr>"

lemma VR_checked: "check_receipt VT SR \<lparr>tv_verifier_id = ''ver1'', tv_public_key_bytes = PUB, tv_roles = [VERIFIER_ROLE]\<rparr> VR VL RS 90 None = Inr ()"
  by code_simp

end
