(* ===== verification/Sample_Stream.thy ===== *)
theory Sample_Stream
  imports Sample_Evidence
begin

text \<open>
  The worked example as a mission stream: nine events from the admission of the authority to the closure with complete receipt
  coverage, and their replay.
\<close>

section \<open>Authentication\<close>

lemma AT_new: "authenticated_receipt_new Xs SR VR VL RS Z = Inr AT"
proof -
  have c: "create_envelope Xs RECEIPT_OBJECT_KIND (receipt_body VR) = Inr VRE"
    unfolding create_envelope_def RECEIPT_OBJECT_KIND_def VRE_def by (simp add: sample_create [OF VR_sendable])
  then have e: "receipt_to_envelope Xs VR = Inr VRE" by (simp add: receipt_to_envelope_def VR_def)
  have f: "sr_envelope_bytes SR = VRB" "sr_key_id SR = KEY" "vr_verifier_key_id VR = KEY"
    by (simp_all add: SR_def VR_def)
  have r: "artifact_resolution_binding_reason RS VL VR MAX_EPOCH_SECOND = None" by code_simp
  show ?thesis
    by (simp add: authenticated_receipt_new_def e VR_wire f r validate_digest_def digest_value_def Z_full requireR_def AT_def)
qed

lemma SIG_decode: "b64decode SIG = Some (replicate 64 (CHR 0x00))" "signature_text SIG"
  unfolding SIG_def signature_text_def by (simp_all add: b64_roundtrip)

lemma AT_authenticated: "authenticate_verifier_receipt Xs (RawReceipt SR) VT VL RS 90 None = Inr AT"
proof -
  have v: "signature_verifies Xs k g m" for k g m by (simp add: signature_verifies_def Xs_def)
  have f: "sr_envelope_bytes SR = VRB" "sr_key_id SR = KEY" "sr_signature_b64 SR = SIG" by (simp_all add: SR_def)
  have l: "vl_candidate_producer_id VL \<noteq> vl_verifier_id VL" "vl_issued_at VL = 60" "vl_expires_at VL = 500" by (simp_all add: VL_def)
  have t: "vt_revoked_lease_ids VT = []" "vt_revoked_key_ids VT = []"
    "map_of (vt_keys VT) KEY = Some \<lparr>tv_verifier_id = ''ver1'', tv_public_key_bytes = PUB, tv_roles = [VERIFIER_ROLE]\<rparr>"
    by (simp_all add: VT_def)
  show ?thesis
    by (simp add: authenticate_verifier_receipt_def MAX_EPOCH_SECOND_def requireR_def f l t SIG_decode v VR_decode VR_checked VT_id AT_new)
qed

section \<open>Events\<close>

definition sample_event :: "pystr \<Rightarrow> pystr \<Rightarrow> int \<Rightarrow> int \<Rightarrow> digest \<Rightarrow> json \<Rightarrow> event" where
  "sample_event kind unit seq time prev payload =
     \<lparr>ev_protocol_version = PROTOCOL_VERSION, ev_event_version = OBJECT_VERSION, ev_mission_id = Z, ev_seq = seq, ev_kind = kind,
      ev_unit = unit, ev_authority_id = Z, ev_target_id = Z, ev_decision_time = time, ev_payload_bytes = dumps (norm_json payload),
      ev_prev_digest = prev, ev_event_digest = Z\<rparr>"

lemma sample_event_fields [simp]:
  "ev_protocol_version (sample_event k u s t p v) = PROTOCOL_VERSION" "ev_event_version (sample_event k u s t p v) = OBJECT_VERSION"
  "ev_mission_id (sample_event k u s t p v) = Z" "ev_seq (sample_event k u s t p v) = s" "ev_kind (sample_event k u s t p v) = k"
  "ev_unit (sample_event k u s t p v) = u" "ev_authority_id (sample_event k u s t p v) = Z" "ev_target_id (sample_event k u s t p v) = Z"
  "ev_decision_time (sample_event k u s t p v) = t" "ev_payload_bytes (sample_event k u s t p v) = dumps (norm_json v)"
  "ev_prev_digest (sample_event k u s t p v) = p" "ev_event_digest (sample_event k u s t p v) = Z"
  by (simp_all add: sample_event_def)

lemma sound_again: "sound v \<Longrightarrow> canonical_dumps Xs (norm_json v) = Inr (dumps (norm_json v))"
  using canonical_dumps_thaw [OF sound_thaw] sound_dumps by simp

lemma is_JObj_norm: "is_JObj (norm_json v) = is_JObj v" by (cases v) auto

text \<open>What has to be evaluated for one event.\<close>

definition retainable :: "pystr \<Rightarrow> pystr \<Rightarrow> int \<Rightarrow> int \<Rightarrow> digest \<Rightarrow> json \<Rightarrow> bool" where
  "retainable k u s t p v \<longleftrightarrow>
     sound v \<and> is_JObj v \<and>
     event_header_checks (event_body_with (sample_event k u s t p v) JNull) Z = Inr () \<and>
     sendable ''event'' (event_body_with (sample_event k u s t p v) (norm_json v)) (JArr [])"

lemma event_short_keys:
  "list_all short_key [''authority_id'', ''decision_time'', ''kind'', ''mission_id'', ''payload'', ''prev_digest'', ''seq'', ''target_id'', ''unit'']"
  by code_simp

text \<open>An event is retainable when its header is valid and the members of its payload are small.\<close>

lemma retainableI:
  assumes "event_header_checks (event_body_with (sample_event k u s t p JNull) JNull) Z = Inr ()"
    and ms: "list_all (\<lambda>(f, v). short_key f \<and> compact 3 150 30000 v) ms" "distinct (map fst ms)" "length ms \<le> 8"
    and hd: "list_all (compact 2 150 30000) [JStr k, JStr u, JStr p, JInt s, JInt t]"
  shows "retainable k u s t p (JObj ms)"
proof -
  have P: "compact 2 (1 + 8 * 150) (2 + 8 * (30000 + 388)) (JObj ms)"
    by (rule compact_obj) (use ms in \<open>auto simp: numeral_3_eq_3\<close>)
  have m: "compact 2 1300 250000 v" if "compact 2 150 30000 v" for v using that by (rule compact_mono) auto
  have z: "compact 2 1300 250000 (JStr Z)" using Z_compact by (rule compact_mono) auto
  have "compact 2 1300 250000 (norm_json (JObj ms))" using compact_norm [OF P] by (rule compact_mono) auto
  then have B: "compact 1 (1 + 9 * 1300) (2 + 9 * (250000 + 388)) (event_body_with (sample_event k u s t p (JObj ms)) (norm_json (JObj ms)))"
    unfolding event_body_with_def using hd m z event_short_keys
    by (intro compact_obj) (simp_all del: norm_json.simps add: numeral_2_eq_2 [symmetric])
  have E: "compact 1 (1 + 9 * 1300) (2 + 9 * (250000 + 388)) (JArr [])" by code_simp
  have "sendable ''event'' (event_body_with (sample_event k u s t p (JObj ms)) (norm_json (JObj ms))) (JArr [])"
    by (rule compact_sendable [OF B E]) (simp_all add: event_body_with_def, code_simp+)
  moreover have "sound (JObj ms)" by (rule compact_sound [OF P]) auto
  ultimately show ?thesis using assms(1) by (simp add: retainable_def event_body_with_def)
qed

lemma sample_event_payload: "sound v \<Longrightarrow> is_JObj v \<Longrightarrow> event_payload Xs (sample_event k u s t p v) = Inr (norm_json v)"
  by (simp add: event_payload_def sound_loads freeze_json_thaw thaw_json_idem [OF sound_thaw] is_JObj_norm)

lemma sample_event_verified:
  assumes "retainable k u s t p v" and "validate_payload Xs (sample_event k u s t p v) (norm_json v) = Inr ()"
  shows "verify_retained Xs (sample_event k u s t p v) = Inr ()" and "event_payload Xs (sample_event k u s t p v) = Inr (norm_json v)"
proof -
  note r = assms(1)[unfolded retainable_def]
  have "event_payload_checks Xs (sample_event k u s t p v) =
      Inr (sample_envelope ''event'' (event_body_with (sample_event k u s t p v) (norm_json v)) (JArr []))"
    using r assms(2) sample_create by (simp add: event_payload_checks_def sound_loads sound_again is_JObj_norm wrap_error_def)
  then have "event_verify Xs (sample_event k u s t p v) = Inr ()"
    using r by (auto simp: event_verify_iff sample_envelope_def)
  then show "verify_retained Xs (sample_event k u s t p v) = Inr ()" by (simp add: verify_retained_def)
  show "event_payload Xs (sample_event k u s t p v) = Inr (norm_json v)" using r by (simp add: sample_event_payload)
qed

text \<open>A nested envelope of a payload.\<close>

definition sample_json :: "envelope \<Rightarrow> json" where "sample_json e = norm_json (envelope_json e)"

lemma nested_sample:
  assumes "sendable k b a" and "member f P = sample_json (sample_envelope k b a)"
  shows "nested_envelope Xs P f = Inr (sample_envelope k b a)"
    and "arr_items (norm_json a) = [] \<Longrightarrow> require_nested_envelope Xs P f k = Inr (sample_envelope k b a)"
proof -
  let ?E = "sample_envelope k b a"
  have s: "sound (envelope_json ?E)" using assms(1) by (simp add: sendable_def)
  have d: "canonical_dumps Xs (sample_json ?E) = Inr (sample_wire k b a)"
    using sound_again [OF s] by (simp add: sample_json_def sample_wire_def)
  have t: "thaw_json Xs (sample_json ?E) = Inr (sample_json ?E)"
    unfolding sample_json_def by (rule thaw_json_idem) (rule sound_thaw [OF s])
  show "nested_envelope Xs P f = Inr ?E" by (simp add: nested_envelope_def assms(2) t d sample_from_bytes [OF assms(1)])
  have o: "is_JObj (sample_json ?E)" by (simp add: sample_json_def envelope_json_def)
  show "require_nested_envelope Xs P f k = Inr ?E" if "arr_items (norm_json a) = []"
    using that by (simp add: require_nested_envelope_def assms(2) d o sample_from_bytes [OF assms(1)] wrap_error_def)
      (simp add: sample_envelope_def)
qed

lemma member_norm_payload: "distinct (map fst ms) \<Longrightarrow> member k (norm_json (JObj ms)) = norm_json (member k (JObj ms))"
  using member_norm [of ms k] by (auto simp: member_def split: option.splits)

lemma sample_json_norm [simp]: "norm_json (sample_json e) = sample_json e"
  by (simp add: sample_json_def norm_idem)

section \<open>The nine events\<close>

definition P0 :: json where
  "P0 = JObj [(''admission'', sample_json AE), (''grant'', sample_json GE), (''key_id'', JStr KEY), (''signature_b64'', JStr SIG)]"
definition P1 :: json where "P1 = JObj [(''target_snapshot'', sample_json TSE)]"
definition P2 :: json where "P2 = JObj [(''lease'', sample_json ALE)]"
definition P3 :: json where "P3 = JObj [(''candidate'', sample_json CAE)]"
definition P4 :: json where
  "P4 = JObj [(''analyzer_version'', JStr ''python_ast.v1''), (''bytes_scanned'', JInt 7), (''candidate_count'', JInt 1),
     (''file_count'', JInt 1), (''parse_failure_count'', JInt 0)]"
definition P5 :: json where
  "P5 = JObj [(''lease'', sample_json VLE), (''verifier_trust_snapshot'', VTJ), (''verifier_trust_snapshot_id'', JStr Z)]"
definition P6 :: json where "P6 = JObj [(''resolution'', sample_json RSE)]"
definition P7 :: json where
  "P7 = JObj [(''adjudication_profile'', JStr RECEIPT_ADMISSION_PROFILE_V1), (''decision_trust_snapshot'', VTJ),
     (''decision_trust_snapshot_id'', JStr Z), (''effect_output_artifact'', artifact_binding_json (bind (CHR ''7'') EFFECT_OUTPUT_TYPE)),
     (''execution_output_artifact'', artifact_binding_json (bind (CHR ''6'') EXECUTION_OUTPUT_TYPE)),
     (''measured_environment_output_artifact'', artifact_binding_json (bind (CHR ''8'') MEASURED_ENVIRONMENT_OUTPUT_TYPE)),
     (''receipt'', sample_json SRE),
     (''termination_output_artifact'', artifact_binding_json (bind (CHR ''9'') TERMINATION_OUTPUT_TYPE))]"
definition P8 :: json where
  "P8 = JObj [(''candidate_count'', JInt 1), (''parse_failure_count'', JInt 0), (''status'', JStr ''receipt_coverage_complete'')]"

definition E0 :: event where "E0 = sample_event ''authority_admitted'' ''AQUILA'' 0 20 GENESIS_DIGEST P0"
definition E1 :: event where "E1 = sample_event ''mission_opened'' ''ETZIO'' 1 21 Z P1"
definition E2 :: event where "E2 = sample_event ''analysis_lease_issued'' ''AQUILA'' 2 22 Z P2"
definition E3 :: event where "E3 = sample_event ''candidate_recorded'' ''VELITES'' 3 23 Z P3"
definition E4 :: event where "E4 = sample_event ''scan_completed'' ''VELITES'' 4 24 Z P4"
definition E5 :: event where "E5 = sample_event ''verification_lease_issued'' ''AQUILA'' 5 60 Z P5"
definition E6 :: event where "E6 = sample_event ''verification_artifacts_resolved'' ''ETZIO'' 6 70 Z P6"
definition E7 :: event where "E7 = sample_event ''verifier_receipt_admitted'' ''ETZIO'' 7 90 Z P7"
definition E8 :: event where "E8 = sample_event ''mission_closed'' ''ETZIO'' 8 95 Z P8"

lemma compact_json: "compact d n w (envelope_json e) \<Longrightarrow> compact d n w (sample_json e)"
  unfolding sample_json_def by (rule compact_norm)

lemma AE_compact: "compact 3 150 30000 (sample_json AE)" by (rule compact_json) code_simp
lemma GE_compact: "compact 3 150 30000 (sample_json GE)" by (rule compact_json) code_simp
lemma TSE_compact: "compact 3 150 30000 (sample_json TSE)" by (rule compact_json) code_simp
lemma ALE_compact: "compact 3 150 30000 (sample_json ALE)" by (rule compact_json) code_simp
lemma CAE_compact: "compact 3 150 30000 (sample_json CAE)" by (rule compact_json) code_simp
lemma VLE_compact: "compact 3 150 30000 (sample_json VLE)" by (rule compact_json) code_simp
lemma RSE_compact: "compact 3 150 30000 (sample_json RSE)" by (rule compact_json) code_simp
lemma SRE_compact: "compact 3 150 30000 (sample_json SRE)" by (rule compact_json) code_simp
lemma VTJ_compact: "compact 3 150 30000 VTJ" unfolding VTJ_def by (rule compact_norm) code_simp
lemma text_compact: "list_all (compact 3 150 30000) [JStr Z, JStr KEY, JStr SIG, JStr RECEIPT_ADMISSION_PROFILE_V1,
   JStr ''python_ast.v1'', JStr ''receipt_coverage_complete'', JInt 0, JInt 1, JInt 7]" by code_simp
lemma output_compact: "list_all (compact 3 150 30000) [
   artifact_binding_json (bind (CHR ''7'') EFFECT_OUTPUT_TYPE), artifact_binding_json (bind (CHR ''6'') EXECUTION_OUTPUT_TYPE),
   artifact_binding_json (bind (CHR ''8'') MEASURED_ENVIRONMENT_OUTPUT_TYPE),
   artifact_binding_json (bind (CHR ''9'') TERMINATION_OUTPUT_TYPE)]" by code_simp

lemmas payload_compact =
  AE_compact GE_compact TSE_compact ALE_compact CAE_compact VLE_compact RSE_compact SRE_compact VTJ_compact
  text_compact [simplified] output_compact [simplified]

lemma payload_keys: "list_all short_key [''admission'', ''grant'', ''key_id'', ''signature_b64'', ''target_snapshot'', ''lease'',
  ''candidate'', ''analyzer_version'', ''bytes_scanned'', ''candidate_count'', ''file_count'', ''parse_failure_count'',
  ''verifier_trust_snapshot'', ''verifier_trust_snapshot_id'', ''resolution'', ''adjudication_profile'', ''decision_trust_snapshot'',
  ''decision_trust_snapshot_id'', ''effect_output_artifact'', ''execution_output_artifact'', ''measured_environment_output_artifact'',
  ''receipt'', ''termination_output_artifact'', ''status'']" by code_simp

lemma E0_ok: "retainable ''authority_admitted'' ''AQUILA'' 0 20 GENESIS_DIGEST P0"
  unfolding P0_def by (rule retainableI) (code_simp, simp_all add: payload_keys [simplified] payload_compact, code_simp)
lemma E1_ok: "retainable ''mission_opened'' ''ETZIO'' 1 21 Z P1"
  unfolding P1_def by (rule retainableI) (code_simp, simp_all add: payload_keys [simplified] payload_compact, code_simp)
lemma E2_ok: "retainable ''analysis_lease_issued'' ''AQUILA'' 2 22 Z P2"
  unfolding P2_def by (rule retainableI) (code_simp, simp_all add: payload_keys [simplified] payload_compact, code_simp)
lemma E3_ok: "retainable ''candidate_recorded'' ''VELITES'' 3 23 Z P3"
  unfolding P3_def by (rule retainableI) (code_simp, simp_all add: payload_keys [simplified] payload_compact, code_simp)
lemma E4_ok: "retainable ''scan_completed'' ''VELITES'' 4 24 Z P4"
  unfolding P4_def by (rule retainableI) (code_simp, simp_all add: payload_keys [simplified] payload_compact, code_simp)
lemma E5_ok: "retainable ''verification_lease_issued'' ''AQUILA'' 5 60 Z P5"
  unfolding P5_def by (rule retainableI) (code_simp, simp_all add: payload_keys [simplified] payload_compact, code_simp)
lemma E6_ok: "retainable ''verification_artifacts_resolved'' ''ETZIO'' 6 70 Z P6"
  unfolding P6_def by (rule retainableI) (code_simp, simp_all add: payload_keys [simplified] payload_compact, code_simp)
lemma E7_ok: "retainable ''verifier_receipt_admitted'' ''ETZIO'' 7 90 Z P7"
  unfolding P7_def by (rule retainableI) (code_simp, simp_all add: payload_keys [simplified] payload_compact, code_simp)
lemma E8_ok: "retainable ''mission_closed'' ''ETZIO'' 8 95 Z P8"
  unfolding P8_def by (rule retainableI) (code_simp, simp_all add: payload_keys [simplified] payload_compact, code_simp)

section \<open>Payload validation\<close>

lemma payload_keys_exact:
  assumes "fst ` set ms = set ks"
  shows "event_exact_keys n (norm_json (JObj ms)) ks = Inr ()"
  using assms keys_norm [of ms] by (simp add: event_exact_keys_def has_keys_def requireR_def del: norm_json.simps) (simp)

lemma P_members:
  "member ''admission'' (norm_json P0) = sample_json AE" "member ''grant'' (norm_json P0) = sample_json GE"
  "member ''key_id'' (norm_json P0) = JStr KEY" "member ''signature_b64'' (norm_json P0) = JStr SIG"
  "member ''target_snapshot'' (norm_json P1) = sample_json TSE" "member ''lease'' (norm_json P2) = sample_json ALE"
  "member ''candidate'' (norm_json P3) = sample_json CAE" "member ''lease'' (norm_json P5) = sample_json VLE"
  "member ''verifier_trust_snapshot'' (norm_json P5) = VTJ" "member ''verifier_trust_snapshot_id'' (norm_json P5) = JStr Z"
  "member ''resolution'' (norm_json P6) = sample_json RSE"
  unfolding P0_def P1_def P2_def P3_def P5_def P6_def
  by (simp_all add: member_norm_payload member_def VTJ_def norm_idem)

lemma P_counts:
  "member ''analyzer_version'' (norm_json P4) = JStr ''python_ast.v1''" "member ''bytes_scanned'' (norm_json P4) = JInt 7"
  "member ''candidate_count'' (norm_json P4) = JInt 1" "member ''file_count'' (norm_json P4) = JInt 1"
  "member ''parse_failure_count'' (norm_json P4) = JInt 0"
  "member ''candidate_count'' (norm_json P8) = JInt 1" "member ''parse_failure_count'' (norm_json P8) = JInt 0"
  "member ''status'' (norm_json P8) = JStr ''receipt_coverage_complete''"
  unfolding P4_def P8_def by (simp_all add: member_norm_payload member_def)

lemma P7_members:
  "member ''adjudication_profile'' (norm_json P7) = JStr RECEIPT_ADMISSION_PROFILE_V1"
  "member ''decision_trust_snapshot'' (norm_json P7) = VTJ" "member ''decision_trust_snapshot_id'' (norm_json P7) = JStr Z"
  "member ''receipt'' (norm_json P7) = sample_json SRE"
  "member ''effect_output_artifact'' (norm_json P7) = norm_json (artifact_binding_json (bind (CHR ''7'') EFFECT_OUTPUT_TYPE))"
  "member ''execution_output_artifact'' (norm_json P7) = norm_json (artifact_binding_json (bind (CHR ''6'') EXECUTION_OUTPUT_TYPE))"
  "member ''measured_environment_output_artifact'' (norm_json P7) =
     norm_json (artifact_binding_json (bind (CHR ''8'') MEASURED_ENVIRONMENT_OUTPUT_TYPE))"
  "member ''termination_output_artifact'' (norm_json P7) = norm_json (artifact_binding_json (bind (CHR ''9'') TERMINATION_OUTPUT_TYPE))"
  unfolding P7_def by (simp_all add: member_norm_payload member_def VTJ_def norm_idem)

lemma E1_payload: "validate_payload Xs E1 (norm_json P1) = Inr ()"
proof -
  have n: "require_nested_envelope Xs (norm_json P1) ''target_snapshot'' ''target_snapshot'' = Inr TSE"
    unfolding TSE_def by (rule nested_sample(2) [OF TS_sendable]) (simp_all add: P_members TSE_def)
  have k: "event_exact_keys ''payload'' (norm_json P1) [''target_snapshot''] = Inr ()"
    unfolding P1_def by (rule payload_keys_exact) simp
  have "env_object_id TSE = Z" by (simp add: TSE_def sample_envelope_def)
  then have "validate_mission_opened Xs E1 (norm_json P1) = Inr ()"
    by (simp add: validate_mission_opened_def n TS_from wrap_error_def requireR_def E1_def)
  then show ?thesis using k by (simp add: validate_payload_def E1_def EVENT_UNIT_BY_KIND_def EVENT_PAYLOAD_FIELDS_BY_KIND_def)
qed

lemmas payload_tables = EVENT_UNIT_BY_KIND_def EVENT_PAYLOAD_FIELDS_BY_KIND_def

lemma E0_payload: "validate_payload Xs E0 (norm_json P0) = Inr ()"
proof -
  have a: "require_nested_envelope Xs (norm_json P0) ''admission'' ''authority_admission'' = Inr AE"
    unfolding AE_def by (rule nested_sample(2) [OF AJ_sendable']) (simp_all add: P_members AE_def)
  have g: "require_nested_envelope Xs (norm_json P0) ''grant'' ''authority_grant'' = Inr GE"
    unfolding GE_def by (rule nested_sample(2) [OF G_sendable]) (simp_all add: P_members GE_def)
  have k: "event_exact_keys ''payload'' (norm_json P0) [''admission'', ''grant'', ''key_id'', ''signature_b64''] = Inr ()"
    unfolding P0_def by (rule payload_keys_exact) simp
  have sg: "authority_signer_fields (norm_json P0) = Inr ()"
  proof -
    have "canonical_text (JStr KEY)" "canonical_text (JStr SIG)" by code_simp+
    moreover have "b64encode (replicate 64 (CHR 0x00)) = SIG" by (simp add: SIG_def)
    ultimately show ?thesis
      by (simp add: authority_signer_fields_def P_members event_text_def KEY_text SIG_decode requireR_def)
  qed
  have s: "sg_envelope_bytes S = GB" "sg_key_id S = KEY" "sg_signature_b64 S = SIG" by (simp_all add: S_def)
  have A: "aa_signed_grant_bytes A = SB" "aa_authority_id A = Z" "aa_target_snapshot_id A = Z" "aa_decision_time A = 20"
    "aa_grant_expires_at A = 1000" "aa_signer_key_id A = KEY" "''static_analysis'' \<in> set (aa_required_actions A)"
    by (simp_all add: A_def ACTIONS_def)
  have G: "ag_grant_id G = Z" "ag_target_snapshot_id G = Z" "ag_expires_at G = 1000" "''static_analysis'' \<in> set (ag_permitted_actions G)"
    by (simp_all add: G_def)
  have "validate_authority_admitted Xs E0 (norm_json P0) = Inr ()"
    by (simp add: validate_authority_admitted_def a g A_from G_from S_from_bytes wrap_error_def requireR_def E0_def A G G_wire sg P_members s)
  then show ?thesis using k by (simp add: validate_payload_def E0_def payload_tables)
qed

lemma E2_payload: "validate_payload Xs E2 (norm_json P2) = Inr ()"
proof -
  have n: "require_nested_envelope Xs (norm_json P2) ''lease'' ''analysis_lease'' = Inr ALE"
    unfolding ALE_def by (rule nested_sample(2) [OF AL_sendable]) (simp_all add: P_members ALE_def)
  have k: "event_exact_keys ''payload'' (norm_json P2) [''lease''] = Inr ()"
    unfolding P2_def by (rule payload_keys_exact) simp
  have "validate_analysis_lease_issued Xs E2 (norm_json P2) = Inr ()"
    by (simp add: validate_analysis_lease_issued_def n AL_from wrap_error_def requireR_def E2_def AL_def)
  then show ?thesis using k by (simp add: validate_payload_def E2_def payload_tables)
qed

lemma E3_payload: "validate_payload Xs E3 (norm_json P3) = Inr ()"
proof -
  have n: "require_nested_envelope Xs (norm_json P3) ''candidate'' ''candidate'' = Inr CAE"
    unfolding CAE_def by (rule nested_sample(2) [OF CA_sendable]) (simp_all add: P_members CAE_def)
  have k: "event_exact_keys ''payload'' (norm_json P3) [''candidate''] = Inr ()"
    unfolding P3_def by (rule payload_keys_exact) simp
  have "validate_candidate_recorded Xs E3 (norm_json P3) = Inr ()"
    by (simp add: validate_candidate_recorded_def n CA_from wrap_error_def requireR_def E3_def CA_def)
  then show ?thesis using k by (simp add: validate_payload_def E3_def payload_tables)
qed

lemma E4_payload: "validate_payload Xs E4 (norm_json P4) = Inr ()"
proof -
  have k: "event_exact_keys ''payload'' (norm_json P4)
      [''analyzer_version'', ''bytes_scanned'', ''candidate_count'', ''file_count'', ''parse_failure_count''] = Inr ()"
    unfolding P4_def by (rule payload_keys_exact) simp
  have "canonical_text (JStr ''python_ast.v1'')" by code_simp
  then have "validate_scan_completed (norm_json P4) = Inr ()"
    by (simp add: validate_scan_completed_def P_counts event_text_def event_nonnegative_def requireR_def)
  then show ?thesis using k by (simp add: validate_payload_def E4_def payload_tables)
qed

lemma E5_payload: "validate_payload Xs E5 (norm_json P5) = Inr ()"
proof -
  have n: "require_nested_envelope Xs (norm_json P5) ''lease'' ''verification_lease'' = Inr VLE"
    unfolding VLE_def by (rule nested_sample(2) [OF VL_sendable]) (simp_all add: P_members VLE_def)
  have k: "event_exact_keys ''payload'' (norm_json P5) [''lease'', ''verifier_trust_snapshot'', ''verifier_trust_snapshot_id''] = Inr ()"
    unfolding P5_def by (rule payload_keys_exact) simp
  have u: "VL\<lparr>vl_issuance_trust_snapshot_id := Z\<rparr> = VL" by (simp add: VL_def)
  have l: "vl_mission_id VL = Z" "vl_authority_id VL = Z" "vl_target_snapshot_id VL = Z" "vl_issued_at VL = 60"
    "vl_candidate_producer_id VL = ''VELITES''" "vl_verifier_key_id VL = KEY" "vl_verifier_id VL = ''ver1''"
    "vl_issuance_trust_snapshot_id VL = Z" "vl_lease_nonce VL = replicate 32 (CHR ''0'')" by (simp_all add: VL_def)
  have t: "map_of (vt_keys VT) KEY = Some \<lparr>tv_verifier_id = ''ver1'', tv_public_key_bytes = PUB, tv_roles = [VERIFIER_ROLE]\<rparr>"
    "vt_revoked_key_ids VT = []" by (simp_all add: VT_def)
  have "validate_verification_lease_evidence Xs E5 (norm_json P5) = Inr ()"
    by (simp add: validate_verification_lease_evidence_def n P_members event_digest_check_def digest_value_def Z_full
        VL_from VT_snapshot wrap_error_def requireR_def E5_def l t u VL_nonce [simplified l])
  then show ?thesis using k by (simp add: validate_payload_def E5_def payload_tables)
qed

lemma E6_payload: "validate_payload Xs E6 (norm_json P6) = Inr ()"
proof -
  have n: "require_nested_envelope Xs (norm_json P6) ''resolution'' ''verification_artifact_resolution'' = Inr RSE"
    unfolding RSE_def by (rule nested_sample(2) [OF RS_sendable]) (simp_all add: P_members RSE_def)
  have k: "event_exact_keys ''payload'' (norm_json P6) [''resolution''] = Inr ()"
    unfolding P6_def by (rule payload_keys_exact) simp
  have "validate_verification_artifacts_resolved Xs E6 (norm_json P6) = Inr ()"
    by (simp add: validate_verification_artifacts_resolved_def n RS_from wrap_error_def requireR_def E6_def RS_def)
  then show ?thesis using k by (simp add: validate_payload_def E6_def payload_tables)
qed

lemma E8_payload: "validate_payload Xs E8 (norm_json P8) = Inr ()"
proof -
  have k: "event_exact_keys ''payload'' (norm_json P8) [''candidate_count'', ''parse_failure_count'', ''status''] = Inr ()"
    unfolding P8_def by (rule payload_keys_exact) simp
  have "canonical_text (JStr ''receipt_coverage_complete'')" by code_simp
  then have "validate_mission_closed (norm_json P8) = Inr ()"
    by (simp add: validate_mission_closed_def P_counts event_text_def event_nonnegative_def requireR_def MISSION_CLOSED_STATUSES_def)
  then show ?thesis using k by (simp add: validate_payload_def E8_def payload_tables)
qed

definition OUTS :: output_artifacts where
  "OUTS = \<lparr>oa_execution = bind (CHR ''6'') EXECUTION_OUTPUT_TYPE, oa_effect = bind (CHR ''7'') EFFECT_OUTPUT_TYPE,
     oa_measured_environment = bind (CHR ''8'') MEASURED_ENVIRONMENT_OUTPUT_TYPE,
     oa_termination = bind (CHR ''9'') TERMINATION_OUTPUT_TYPE\<rparr>"

lemma P7_outputs: "decode_outputs (norm_json P7) = Inr OUTS" "outputs_match OUTS VR"
proof -
  have d:
    "artifact_binding_from_dict (norm_json (artifact_binding_json (bind (CHR ''6'') EXECUTION_OUTPUT_TYPE))) = Inr (bind (CHR ''6'') EXECUTION_OUTPUT_TYPE)"
    "artifact_binding_from_dict (norm_json (artifact_binding_json (bind (CHR ''7'') EFFECT_OUTPUT_TYPE))) = Inr (bind (CHR ''7'') EFFECT_OUTPUT_TYPE)"
    "artifact_binding_from_dict (norm_json (artifact_binding_json (bind (CHR ''8'') MEASURED_ENVIRONMENT_OUTPUT_TYPE))) =
       Inr (bind (CHR ''8'') MEASURED_ENVIRONMENT_OUTPUT_TYPE)"
    "artifact_binding_from_dict (norm_json (artifact_binding_json (bind (CHR ''9'') TERMINATION_OUTPUT_TYPE))) =
       Inr (bind (CHR ''9'') TERMINATION_OUTPUT_TYPE)"
    by code_simp+
  have "output_artifacts_new OUTS = Inr OUTS" by code_simp
  then show "decode_outputs (norm_json P7) = Inr OUTS" by (simp add: decode_outputs_def P7_members d OUTS_def)
  show "outputs_match OUTS VR" by code_simp
qed

lemma SRE_dumps: "canonical_dumps Xs (sample_json SRE) = Inr SRB" "is_JObj (sample_json SRE)"
proof -
  have "sound (envelope_json SRE)" using SR_sendable by (simp add: sendable_def SRE_def)
  then show "canonical_dumps Xs (sample_json SRE) = Inr SRB"
    using sound_again by (simp add: sample_json_def SRB_def sample_wire_def SRE_def)
  show "is_JObj (sample_json SRE)" by (simp add: sample_json_def envelope_json_def)
qed

lemma SR_bytes: "sr_envelope_bytes SR = VRB" by (simp add: SR_def)

lemma E7_payload: "validate_payload Xs E7 (norm_json P7) = Inr ()"
proof -
  have k: "event_exact_keys ''payload'' (norm_json P7) [''adjudication_profile'', ''decision_trust_snapshot'', ''decision_trust_snapshot_id'',
      ''effect_output_artifact'', ''execution_output_artifact'', ''measured_environment_output_artifact'', ''receipt'',
      ''termination_output_artifact''] = Inr ()"
    unfolding P7_def by (rule payload_keys_exact) simp
  have r: "require_signed_verifier_receipt Xs (norm_json P7) = Inr (SRE, SR)"
    by (simp add: require_signed_verifier_receipt_def P7_members SRE_dumps SR_from SR_to wrap_error_def)
  have v: "env_object_id SRE = Z" "vr_receipt_id VR = Z" "vr_mission_id VR = Z" "vr_authority_id VR = Z" "vr_target_snapshot_id VR = Z"
    "vr_completed_at VR = 80" by (simp_all add: SRE_def sample_envelope_def VR_def)
  have "validate_verifier_receipt_admitted Xs E7 (norm_json P7) = Inr ()"
    by (simp add: validate_verifier_receipt_admitted_def P7_members event_digest_check_def digest_value_def Z_full VT_snapshot r
        SR_bytes VR_wire VR_from P7_outputs wrap_error_def requireR_def VT_id E7_def v)
  then show ?thesis using k by (simp add: validate_payload_def E7_def payload_tables)
qed

section \<open>Replay\<close>

lemmas E_verified =
  sample_event_verified [OF E0_ok E0_payload [unfolded E0_def], folded E0_def] sample_event_verified [OF E1_ok E1_payload [unfolded E1_def], folded E1_def]
  sample_event_verified [OF E2_ok E2_payload [unfolded E2_def], folded E2_def] sample_event_verified [OF E3_ok E3_payload [unfolded E3_def], folded E3_def]
  sample_event_verified [OF E4_ok E4_payload [unfolded E4_def], folded E4_def] sample_event_verified [OF E5_ok E5_payload [unfolded E5_def], folded E5_def]
  sample_event_verified [OF E6_ok E6_payload [unfolded E6_def], folded E6_def] sample_event_verified [OF E7_ok E7_payload [unfolded E7_def], folded E7_def]
  sample_event_verified [OF E8_ok E8_payload [unfolded E8_def], folded E8_def]

definition S1 :: mission_state where
  "S1 = (initial_state E0)\<lparr>st_phase := ''admitted'', st_expected_seq := 1, st_expected_prev := Z, st_previous_time := Some 20,
     st_grant := Some G, st_admission := Some A\<rparr>"
definition S2 :: mission_state where
  "S2 = S1\<lparr>st_phase := ''open'', st_expected_seq := 2, st_previous_time := Some 21, st_snapshot := Some TS\<rparr>"
definition S3 :: mission_state where
  "S3 = S2\<lparr>st_phase := ''analyzing'', st_expected_seq := 3, st_previous_time := Some 22, st_analysis_lease := Some AL\<rparr>"
definition S4 :: mission_state where
  "S4 = S3\<lparr>st_phase := ''analyzing'', st_expected_seq := 4, st_previous_time := Some 23, st_candidate_ids := {Z},
     st_candidate_events := [(Z, E3)], st_candidates := [E3]\<rparr>"
definition S5 :: mission_state where
  "S5 = S4\<lparr>st_phase := ''scan_completed'', st_expected_seq := 5, st_previous_time := Some 24, st_scan_summary := Some E4\<rparr>"
definition S6 :: mission_state where
  "S6 = S5\<lparr>st_phase := ''awaiting_verification'', st_expected_seq := 6, st_previous_time := Some 60, st_lease_ids := {Z},
     st_leases := [(Z, VL)], st_active := {Z}, st_latest := [(Z, Z)], st_lease_events := [E5]\<rparr>"
definition S7 :: mission_state where
  "S7 = S6\<lparr>st_expected_seq := 7, st_previous_time := Some 70, st_resolved := {Z}, st_resolutions := [(Z, RS)], st_resolution_events := [E6]\<rparr>"
definition S8 :: mission_state where
  "S8 = S7\<lparr>st_expected_seq := 8, st_previous_time := Some 90, st_active := {}, st_consumed := {Z}, st_receipt_ids := {Z},
     st_receipt_events := [E7]\<rparr>"
definition S9 :: mission_state where
  "S9 = S8\<lparr>st_phase := ''closed'', st_expected_seq := 9, st_previous_time := Some 95, st_terminal_event := Some E8\<rparr>"

lemma step0: "reduce_step Xs (initial_state E0) E0 = Inr S1"
proof -
  have a: "nested_envelope Xs (norm_json P0) ''admission'' = Inr AE"
    unfolding AE_def by (rule nested_sample(1) [OF AJ_sendable']) (simp add: P_members AE_def)
  have g: "nested_envelope Xs (norm_json P0) ''grant'' = Inr GE"
    unfolding GE_def by (rule nested_sample(1) [OF G_sendable]) (simp add: P_members GE_def)
  have f: "''static_analysis'' \<in> set (aa_required_actions A)" "''static_analysis'' \<in> set (ag_permitted_actions G)"
    by (simp_all add: A_def ACTIONS_def G_def)
  have h: "handle_event Xs st E0 = Inr (st\<lparr>st_grant := Some G, st_admission := Some A\<rparr>)" for st
    using E_verified by (simp add: handle_event_def handle_authority_admitted_def a g G_from A_from admit_evidence_def f requireR_def E0_def)
  show ?thesis
    by (simp add: reduce_step_def E_verified h) (simp add: check_chain_def requireR_def transition_def initial_state_def advance_def S1_def E0_def)
qed

text \<open>The remaining steps: the handler on the decoded evidence, then the chain and the transition.\<close>

lemma reduce_stepI:
  assumes "verify_retained Xs ev = Inr ()" "check_chain st ev = Inr ()" "transition (st_phase st) (ev_kind ev) = Inr p"
    "handle_event Xs (st\<lparr>st_phase := p\<rparr>) ev = Inr st'" "advance ev st' = st2"
  shows "reduce_step Xs st ev = Inr st2"
  using assms by (simp add: reduce_step_def)

lemmas state_defs = S1_def S2_def S3_def S4_def S5_def S6_def S7_def S8_def S9_def initial_state_def
lemmas event_defs = E0_def E1_def E2_def E3_def E4_def E5_def E6_def E7_def E8_def
lemmas chain_defs = check_chain_def requireR_def transition_def failure_transition_def VERIFICATION_KINDS_def advance_def

lemma step1: "reduce_step Xs S1 E1 = Inr S2"
proof -
  have n: "nested_envelope Xs (norm_json P1) ''target_snapshot'' = Inr TSE"
    unfolding TSE_def by (rule nested_sample(1) [OF TS_sendable]) (simp add: P_members TSE_def)
  have k: "ev_kind E1 = ''mission_opened''" by (simp add: E1_def)
  have h: "handle_event Xs st E1 = Inr (open_target st TS)" for st
    by (simp add: handle_event_def handle_mission_opened_def E_verified n TS_from k)
  show ?thesis by (rule reduce_stepI [OF E_verified(3) _ _ h]) (simp_all add: chain_defs state_defs E0_def E1_def open_target_def)
qed

lemma step2: "reduce_step Xs S2 E2 = Inr S3"
proof -
  have n: "nested_envelope Xs (norm_json P2) ''lease'' = Inr ALE"
    unfolding ALE_def by (rule nested_sample(1) [OF AL_sendable]) (simp add: P_members ALE_def)
  have k: "ev_kind E2 = ''analysis_lease_issued''" "ev_decision_time E2 = 22" by (simp_all add: E2_def)
  have f: "st_grant S2 = Some G" "st_admission S2 = Some A" "st_snapshot S2 = Some TS" by (simp_all add: state_defs)
  have h: "handle_event Xs (S2\<lparr>st_phase := p\<rparr>) E2 = Inr (S2\<lparr>st_phase := p, st_analysis_lease := Some AL\<rparr>)" for p
    by (simp add: handle_event_def handle_analysis_lease_issued_def E_verified n AL_from k start_analysis_def f requireR_def
        A_def ACTIONS_def G_def AL_def in_window_def snapshot_bytes_def TS_def FILES_def)
  show ?thesis by (rule reduce_stepI [OF E_verified(5) _ _ h]) (simp_all add: chain_defs state_defs E0_def E2_def)
qed

lemma step3: "reduce_step Xs S3 E3 = Inr S4"
proof -
  have n: "nested_envelope Xs (norm_json P3) ''candidate'' = Inr CAE"
    unfolding CAE_def by (rule nested_sample(1) [OF CA_sendable]) (simp add: P_members CAE_def)
  have k: "ev_kind E3 = ''candidate_recorded''" "ev_decision_time E3 = 23" by (simp_all add: E3_def)
  have f: "st_analysis_lease S3 = Some AL" "st_snapshot S3 = Some TS" "st_candidate_ids S3 = {}" "st_candidates S3 = []"
    "st_failures S3 = []" "st_candidate_events S3 = []" by (simp_all add: state_defs)
  have c: "artifacts_by_path TS (sc_relative_path CA) = Some (sc_source_artifact_digest CA)" by code_simp
  have h: "handle_event Xs (S3\<lparr>st_phase := p\<rparr>) E3 =
      Inr (S3\<lparr>st_phase := p, st_candidate_ids := {Z}, st_candidate_events := [(Z, E3)], st_candidates := [E3]\<rparr>)" for p
    by (simp add: handle_event_def handle_candidate_recorded_def E_verified n CA_from k record_candidate_def check_output_def f c
        requireR_def output_count_def in_window_def) (simp add: AL_def CA_def f requireR_def)
  show ?thesis by (rule reduce_stepI [OF E_verified(7) _ _ h]) (simp_all add: chain_defs state_defs E0_def E3_def)
qed

lemma step4: "reduce_step Xs S4 E4 = Inr S5"
proof -
  have k: "ev_kind E4 = ''scan_completed''" "ev_decision_time E4 = 24" by (simp_all add: E4_def)
  have f: "st_analysis_lease S4 = Some AL" "st_snapshot S4 = Some TS" "st_candidates S4 = [E3]" "st_failures S4 = []"
    by (simp_all add: state_defs)
  have h: "handle_event Xs (S4\<lparr>st_phase := p\<rparr>) E4 = Inr (S4\<lparr>st_phase := p, st_scan_summary := Some E4\<rparr>)" for p
    by (simp add: handle_event_def handle_scan_completed_def E_verified k complete_scan_def f P_counts requireR_def FAILURE_PHASES_def
        AL_def TS_def FILES_def snapshot_bytes_def PYTHON_SAST_VERSION_def output_count_def in_window_def)
  show ?thesis by (rule reduce_stepI [OF E_verified(9) _ _ h]) (simp_all add: chain_defs state_defs E0_def E4_def)
qed

lemma step5: "reduce_step Xs S5 E5 = Inr S6"
proof -
  have n: "nested_envelope Xs (norm_json P5) ''lease'' = Inr VLE"
    unfolding VLE_def by (rule nested_sample(1) [OF VL_sendable]) (simp add: P_members VLE_def)
  have t: "thaw_json Xs (norm_json P5) = Inr (norm_json P5)"
    using E5_ok unfolding retainable_def by (blast intro: thaw_json_idem sound_thaw)
  have d: "decode_lease_evidence Xs (norm_json P5) = Inr (VL, VT, Z)"
    by (simp add: decode_lease_evidence_def n t VL_from P_members VT_snapshot)
  have k: "ev_kind E5 = ''verification_lease_issued''" "ev_decision_time E5 = 60" by (simp_all add: E5_def)
  have f: "st_grant S5 = Some G" "st_admission S5 = Some A" "map_of (st_candidate_events S5) Z = Some E3" "st_lease_ids S5 = {}"
    "st_latest S5 = []" "st_lease_events S5 = []" "st_leases S5 = []" "st_active S5 = {}" "st_mission_id S5 = Z" "st_authority_id S5 = Z"
    "st_target_id S5 = Z" by (simp_all add: state_defs E0_def)
  have u: "ev_unit E3 = ''VELITES''" by (simp add: E3_def)
  have i: "issue_lease (S5\<lparr>st_phase := p\<rparr>) E5 VL VT Z = Inr (retain_lease (S5\<lparr>st_phase := p\<rparr>) E5 VL)" for p
    by (simp add: issue_lease_def permits_verification_def mission_bindings_match_def eligible_verifier_def grant_deadline_def requireR_def
        k u f VL_def VT_def A_def G_def ACTIONS_def)
  have r: "retain_lease (S5\<lparr>st_phase := p\<rparr>) E5 VL =
      S5\<lparr>st_phase := p, st_lease_ids := {Z}, st_leases := [(Z, VL)], st_active := {Z}, st_latest := [(Z, Z)], st_lease_events := [E5]\<rparr>" for p
    by (simp add: retain_lease_def f VL_def)
  have h: "handle_event Xs (S5\<lparr>st_phase := p\<rparr>) E5 =
      Inr (S5\<lparr>st_phase := p, st_lease_ids := {Z}, st_leases := [(Z, VL)], st_active := {Z}, st_latest := [(Z, Z)], st_lease_events := [E5]\<rparr>)" for p
    by (simp add: handle_event_def handle_verification_lease_issued_def E_verified d k FAILURE_PHASES_def i r)
  show ?thesis by (rule reduce_stepI [OF E_verified(11) _ _ h]) (simp_all add: chain_defs state_defs E0_def E5_def)
qed

lemma RS_total: "total_bytes RS = 19" "typed_input_bytes RS = 12" by code_simp+

lemma step6: "reduce_step Xs S6 E6 = Inr S7"
proof -
  have n: "nested_envelope Xs (norm_json P6) ''resolution'' = Inr RSE"
    unfolding RSE_def by (rule nested_sample(1) [OF RS_sendable]) (simp add: P_members RSE_def)
  have k: "ev_kind E6 = ''verification_artifacts_resolved''" "ev_decision_time E6 = 70" by (simp_all add: E6_def)
  have f: "map_of (st_leases S6) Z = Some VL" "st_active S6 = {Z}" "map_of (st_latest S6) Z = Some Z" "st_resolved S6 = {}"
    "st_resolutions S6 = []" "st_resolution_events S6 = []" "st_mission_id S6 = Z" "st_authority_id S6 = Z" "st_target_id S6 = Z"
    "st_snapshot S6 = Some TS" "st_grant S6 = Some G" by (simp_all add: state_defs E0_def)
  have r: "resolve_artifacts (S6\<lparr>st_phase := p\<rparr>) E6 RS =
      Inr (S6\<lparr>st_phase := p, st_resolved := {Z}, st_resolutions := [(Z, RS)], st_resolution_events := [E6]\<rparr>)" for p
    by (simp add: resolve_artifacts_def requireR_def in_window_def RS_total f k) (simp add: RS_def f requireR_def VL_def G_def
        resolution_targets_def snapshot_targets_def TS_def FILES_def bind_def k in_window_def total_bytes_def typed_input_bytes_def MAX_TYPED_VERIFICATION_INPUT_BYTES_V1_def MAX_RESOLUTION_ARTIFACT_BYTES_V1_def)
  have h: "handle_event Xs (S6\<lparr>st_phase := p\<rparr>) E6 =
      Inr (S6\<lparr>st_phase := p, st_resolved := {Z}, st_resolutions := [(Z, RS)], st_resolution_events := [E6]\<rparr>)" for p
    by (simp add: handle_event_def handle_verification_artifacts_resolved_def E_verified n RS_from k FAILURE_PHASES_def r)
  show ?thesis by (rule reduce_stepI [OF E_verified(13) _ _ h]) (simp_all add: chain_defs state_defs E0_def E6_def)
qed

lemma step7: "reduce_step Xs S7 E7 = Inr S8"
proof -
  have t: "thaw_json Xs (norm_json P7) = Inr (norm_json P7)"
    using E7_ok unfolding retainable_def by (blast intro: thaw_json_idem sound_thaw)
  have d: "decode_receipt_evidence Xs (norm_json P7) = Inr (VT, SR, VR)"
    by (simp add: decode_receipt_evidence_def P7_members VT_snapshot SRE_dumps SR_from SR_to SR_bytes VR_wire VR_from)
  have k: "ev_kind E7 = ''verifier_receipt_admitted''" "ev_decision_time E7 = 90" by (simp_all add: E7_def)
  have f: "map_of (st_leases S7) Z = Some VL" "st_active S7 = {Z}" "map_of (st_latest S7) Z = Some Z" "st_consumed S7 = {}"
    "map_of (st_resolutions S7) Z = Some RS" "st_receipt_ids S7 = {}" "st_receipt_events S7 = []" "st_grant S7 = Some G"
    by (simp_all add: state_defs)
  have v: "vr_lease_id VR = Z" "vr_receipt_id VR = Z" "vl_lease_id VL = Z" "vl_candidate_id VL = Z" by (simp_all add: VR_def VL_def)
  have l: "receipt_lease (S7\<lparr>st_phase := p\<rparr>) VR = Inr (VL, RS)" for p by (simp add: receipt_lease_def v f requireR_def)
  have a: "authenticate_admission Xs E7 (norm_json P7) VT SR VL RS = Inr (AT, OUTS)"
    by (simp add: authenticate_admission_def k AT_authenticated P7_outputs)
  have o: "output_total_bytes OUTS = 12" "ag_max_bytes G = 1000" "at_receipt AT = VR" "at_decision_trust_snapshot_id AT = Z"
    by (code_simp, simp_all add: G_def AT_def)
  have h: "handle_event Xs (S7\<lparr>st_phase := p\<rparr>) E7 =
      Inr (S7\<lparr>st_phase := p, st_active := {}, st_consumed := {Z}, st_receipt_ids := {Z}, st_receipt_events := [E7]\<rparr>)" for p
    by (simp add: handle_event_def handle_verifier_receipt_admitted_def E_verified t d k FAILURE_PHASES_def P7_members requireR_def
        consume_lease_def l a admit_receipt_def o P7_outputs f RS_total v)
  show ?thesis by (rule reduce_stepI [OF E_verified(15) _ _ h]) (simp_all add: chain_defs state_defs E0_def E7_def)
qed

definition PARTS :: candidate_partitions where
  "PARTS = \<lparr>cp_active = {}, cp_receipt_covered = {Z}, cp_never_assigned = {}, cp_latest_expired = {}, cp_latest_cancelled = {}\<rparr>"

lemma PARTS_covered:
  "verification_candidate_partitions {Z} [(Z, Z)] {} {Z} {} {} = Inr PARTS"
  by (simp add: verification_candidate_partitions_def place_candidate_def lease_states_def partition_list_def PARTS_def)

lemma closing_handled: "handle_mission_closed Xs (S8\<lparr>st_phase := p\<rparr>) E8 = Inr (S8\<lparr>st_phase := p, st_terminal_event := Some E8\<rparr>)"
proof -
  have f: "st_candidate_ids S8 = {Z}" "st_latest S8 = [(Z, Z)]" "st_active S8 = {}" "st_consumed S8 = {Z}" "st_expired S8 = {}"
    "st_cancelled S8 = {}" "st_admission S8 = Some A" "st_candidates S8 = [E3]" "st_failures S8 = []" "st_scan_summary S8 = Some E4"
    by (simp_all add: state_defs)
  have c: "check_closing (S8\<lparr>st_phase := p\<rparr>) (norm_json P8) = Inr E4"
    by (simp add: check_closing_def check_closing_status_def verification_intent_def partitions_of_def f PARTS_covered P_counts
        requireR_def coverage_status_def A_def ACTIONS_def) (simp add: PARTS_def)
  show ?thesis by (simp add: handle_mission_closed_def E_verified c P_counts requireR_def)
qed

lemma step8: "reduce_step Xs S8 E8 = Inr S9"
proof -
  have k: "ev_kind E8 = ''mission_closed''" by (simp add: E8_def)
  have h: "handle_event Xs (S8\<lparr>st_phase := p\<rparr>) E8 = Inr (S8\<lparr>st_phase := p, st_terminal_event := Some E8\<rparr>)" for p
    by (simp add: handle_event_def k FAILURE_PHASES_def closing_handled)
  show ?thesis by (rule reduce_stepI [OF E_verified(17) _ _ h]) (simp_all add: chain_defs state_defs E0_def E8_def)
qed

abbreviation STREAM :: "event list" where "STREAM \<equiv> [E0, E1, E2, E3, E4, E5, E6, E7, E8]"

lemma stream_folds: "foldR (reduce_step Xs) (initial_state E0) STREAM = Inr S9"
  by (simp add: step0 step1 step2 step3 step4 step5 step6 step7 step8)

definition PROJECTION :: mission_projection where
  "PROJECTION =
     \<lparr>mp_mission_id = Z, mp_authority_id = Z, mp_target_id = Z, mp_phase = CLOSED, mp_events = STREAM, mp_candidate_events = [E3],
      mp_parse_failures = [], mp_lease_events = [E5], mp_expiry_events = [], mp_cancellation_events = [], mp_reassignment_events = [],
      mp_resolution_events = [E6], mp_receipt_events = [E7], mp_active_leases = {}, mp_expired_leases = {}, mp_cancelled_leases = {},
      mp_superseded_leases = {}, mp_consumed_leases = {Z}, mp_partitions = PARTS, mp_latest_lease_by_candidate = [(Z, Z)],
      mp_lease_successors = [], mp_refusal = None, mp_failure_event = None, mp_scan_summary = Some E4, mp_terminal_event = Some E8\<rparr>"

lemma stream_accepted: "reduce_events Xs STREAM = Inr PROJECTION"
proof -
  have "project STREAM S9 = Inr PROJECTION"
    by (simp add: project_def check_dispositions_def lease_dispositions_def requireR_def partitions_of_def state_defs E0_def PARTS_covered
        PHASE_BY_INTERNAL_def sorted_items_def PROJECTION_def)
  then show ?thesis using stream_folds by (simp add: reduce_events_def del: foldR.simps)
qed

lemma runs:
  "mission_run Xs E0 [E0, E1, E2, E3, E4, E5] S6" "mission_run Xs E0 [E0, E1, E2, E3, E4, E5, E6] S7"
  "mission_run Xs E0 [E0, E1, E2, E3, E4, E5, E6, E7] S8" "mission_run Xs E0 STREAM S9"
proof -
  note steps = step0 step1 step2 step3 step4 step5 step6 step7 step8
  have "mission_run Xs E0 ([] @ evs) st" if "foldR (reduce_step Xs) (initial_state E0) evs = Inr st" for evs st
    using that mission_run.start by (rule foldR_mission_run)
  note run = this [simplified append.simps]
  show "mission_run Xs E0 [E0, E1, E2, E3, E4, E5] S6" by (rule run) (simp add: steps)
  show "mission_run Xs E0 [E0, E1, E2, E3, E4, E5, E6] S7" by (rule run) (simp add: steps)
  show "mission_run Xs E0 [E0, E1, E2, E3, E4, E5, E6, E7] S8" by (rule run) (simp add: steps)
  show "mission_run Xs E0 STREAM S9" by (rule run) (simp add: steps)
qed

text \<open>A branch of the run: instead of a resolution, the active lease is reassigned to another verifier.\<close>

definition KEY2 :: pystr where "KEY2 = ''ed25519:'' @ dig (CHR ''1'')"

definition VT2 :: verifier_trust_store where
  "VT2 = \<lparr>vt_keys = [(KEY2, \<lparr>tv_verifier_id = ''ver2'', tv_public_key_bytes = PUB, tv_roles = [VERIFIER_ROLE]\<rparr>)],
     vt_revoked_key_ids = [], vt_revoked_receipt_ids = [], vt_revoked_lease_ids = []\<rparr>"

definition VL2 :: verification_lease where
  "VL2 = VL\<lparr>vl_lease_id := dig (CHR ''a''), vl_verifier_id := ''ver2'', vl_verifier_key_id := KEY2, vl_issued_at := 70\<rparr>"

definition ER :: event where
  "ER = sample_event ''verification_lease_reassigned'' ''AQUILA'' 6 70 Z (JObj [])"

definition R7 :: mission_state where
  "R7 = S6\<lparr>st_expected_seq := 7, st_previous_time := Some 70, st_lease_ids := {dig (CHR ''a''), Z},
     st_leases := [(Z, VL), (dig (CHR ''a''), VL2)], st_active := {dig (CHR ''a'')}, st_superseded := {Z},
     st_latest := [(Z, dig (CHR ''a''))], st_lease_events := [E5, ER], st_successors := [(Z, dig (CHR ''a''))],
     st_reassignment_events := [ER]\<rparr>"

lemma VL2_nonce: "derive_verification_lease_nonce Xs Z VL2 = Inr (replicate 32 (CHR ''0''))"
  by code_simp

lemma dig_Z: "dig (CHR ''a'') \<noteq> Z" "Z \<noteq> dig (CHR ''a'')" by code_simp+

abbreviation WAITING :: mission_state where "WAITING \<equiv> S6\<lparr>st_phase := ''awaiting_verification''\<rparr>"
abbreviation REASSIGNED :: mission_state where "REASSIGNED \<equiv> R7\<lparr>st_expected_seq := 6, st_previous_time := Some 60\<rparr>"

lemma reassigned_step: "evidence_step Xs WAITING ER REASSIGNED"
proof -
  have k: "ev_kind ER = ''verification_lease_reassigned''" "ev_decision_time ER = 70" "ev_prev_digest ER = Z" "ev_event_digest ER = Z"
    by (simp_all add: ER_def)
  have f: "st_grant S6 = Some G" "st_admission S6 = Some A" "map_of (st_candidate_events S6) Z = Some E3" "st_lease_ids S6 = {Z}"
    "st_lease_events S6 = [E5]" "map_of (st_leases S6) Z = Some VL" "map_of (st_latest S6) Z = Some Z" "st_active S6 = {Z}"
    "st_mission_id S6 = Z" "st_authority_id S6 = Z" "st_target_id S6 = Z" "st_successors S6 = []" "st_superseded S6 = {}"
    "st_leases S6 = [(Z, VL)]" "st_latest S6 = [(Z, Z)]" "st_reassignment_events S6 = []" by (simp_all add: state_defs E0_def)
  have u: "ev_unit E3 = ''VELITES''" by (simp add: E3_def)
  have p: "reassigned_predecessor WAITING Z = Inr VL" by (simp add: reassigned_predecessor_def f requireR_def) (simp add: VL_def f)
  have l: "vl_lease_id VL = Z" "vl_candidate_id VL = Z" "vl_expires_at VL = 500" "vl_verifier_id VL = ''ver1''" "work_bindings VL2 = work_bindings VL"
    "vl_lease_id VL2 = dig (CHR ''a'')" "vl_candidate_id VL2 = Z" "vl_issued_at VL2 = 70" "vl_expires_at VL2 = 500" "vl_verifier_id VL2 = ''ver2''"
    "vl_candidate_producer_id VL2 = ''VELITES''" "vl_lease_nonce VL2 = replicate 32 (CHR ''0'')"
    by (simp_all add: VL_def VL2_def work_bindings_def)
  have b: "mission_bindings_match WAITING VL2 E3" by (simp add: mission_bindings_match_def f u VL2_def VL_def)
  have e: "eligible_verifier VT2 VL2 Z" "vt_revoked_lease_ids VT2 = []" by (simp_all add: eligible_verifier_def VT2_def VL2_def VL_def)
  have g: "permits_verification G A" "aa_decision_time A = 20" "grant_deadline G A = 920" "ag_max_candidates G = 9"
    by (simp_all add: permits_verification_def grant_deadline_def A_def G_def ACTIONS_def)
  have r: "release_predecessor WAITING ER VL ACTIVE_LEASE_REASSIGNMENT_REASON = Inr (WAITING\<lparr>st_active := {}, st_superseded := {Z}\<rparr>)"
    by (simp add: release_predecessor_def l f k requireR_def)
  have "reassign_lease Xs WAITING ER VL VL2 VT2 Z ACTIVE_LEASE_REASSIGNMENT_REASON =
      (let st2 = retain_lease (WAITING\<lparr>st_active := {}, st_superseded := {Z}\<rparr>) ER VL2 in
       Inr (st2\<lparr>st_successors := AList.update Z (dig (CHR ''a'')) (st_successors st2),
         st_reassignment_events := st_reassignment_events st2 @ [ER]\<rparr>))"
    by (simp add: reassign_lease_def f g l b e k requireR_def VL2_nonce r dig_Z)
  also have "\<dots> = Inr REASSIGNED" by (simp add: retain_lease_def f l R7_def dig_Z) (simp add: state_defs E0_def)
  finally show ?thesis using evidence_step.reassigned [OF k(1) p] by blast
qed

lemma reassigned_advance: "advance ER REASSIGNED = R7"
  by (simp add: advance_def ER_def R7_def) (simp add: state_defs)

lemma reassigned_run: "mission_run Xs E0 ([E0, E1, E2, E3, E4, E5] @ [ER]) R7"
proof -
  have "check_chain S6 ER = Inr ()" "transition (st_phase S6) (ev_kind ER) = Inr ''awaiting_verification''"
    by (simp_all add: chain_defs state_defs E0_def ER_def)
  from mission_run.step [OF runs(1) this reassigned_step] show ?thesis by (simp only: reassigned_advance)
qed

end
