(* ===== verification/Merkle_V1.thy ===== *)
theory Merkle_V1
  imports Protocol_V1
begin

text \<open>
  The Merkle trees of \<open>src/etzio/kernel/head_authority_adapters_v1.py\<close> (the section on RFC 9162 hashing): roots, audit paths,
  consistency proofs and the two verification loops. The lemmas show that the inclusion loop, started at a leaf of a tree, climbs
  to the root of the tree along the audit path, and that the nodes of an accepted proof are determined by the root. SHA-256 is the
  parameter \<open>sha256 X\<close>; that a digest has 32 bytes is part of \<open>hash_leaves\<close>.
\<close>

unbundle bit_operations_syntax

section \<open>Errors and constants\<close>

datatype head_error = HeadAuthorityAdapterError string string | MerkleValueError string

type_synonym 'a head_result = "head_error + 'a"

definition MAX_HEAD_PROOF_NODES_V1 :: nat where "MAX_HEAD_PROOF_NODES_V1 = 64"
definition MAX_HEAD_TREE_SIZE_V1 :: int where "MAX_HEAD_TREE_SIZE_V1 = 2 ^ 48"
definition MERKLE_LEAF_PREFIX :: bytes where "MERKLE_LEAF_PREFIX = [CHR 0x00]"
definition MERKLE_NODE_PREFIX :: bytes where "MERKLE_NODE_PREFIX = [CHR 0x01]"

section \<open>Trees\<close>

definition merkle_leaf_hash :: "externals \<Rightarrow> bytes \<Rightarrow> bytes head_result" where
  "merkle_leaf_hash X data =
     (if data = [] then Inl (HeadAuthorityAdapterError ''invalid_head_record'' ''a Merkle leaf requires nonempty immutable bytes'')
      else Inr (sha256 X (MERKLE_LEAF_PREFIX @ data)))"

definition merkle_node_hash :: "externals \<Rightarrow> bytes \<Rightarrow> bytes \<Rightarrow> bytes" where
  "merkle_node_hash X left right = sha256 X (MERKLE_NODE_PREFIX @ left @ right)"

text \<open>\<open>int.bit_length\<close> of a nonnegative number.\<close>

fun bit_length :: "nat \<Rightarrow> nat" where
  "bit_length n = (if n = 0 then 0 else Suc (bit_length (n div 2)))"

declare bit_length.simps [simp del]

definition largest_power_of_two_below :: "nat \<Rightarrow> nat" where
  "largest_power_of_two_below n = (if n AND (n - 1) \<noteq> 0 then push_bit (bit_length n - 1) 1 else drop_bit 1 n)"

lemma and_pred_zero: "0 < n \<Longrightarrow> n AND (n - 1) = 0 \<longleftrightarrow> (\<exists>k. n = 2 ^ k)" for n :: nat
proof (induction n rule: less_induct)
  case (less n)
  show ?case
  proof (cases "even n")
    case True
    then obtain m where m: "n = 2 * m" by blast
    with less.prems have "0 < m" "m < n" by auto
    then obtain p where p: "m = Suc p" by (cases m) auto
    have "n AND (n - 1) = 2 * (m AND (m - 1))"
      unfolding m p by (simp add: and_nat_unfold [of "Suc (Suc (2 * p))"])
    with less.IH [OF \<open>m < n\<close> \<open>0 < m\<close>] have "n AND (n - 1) = 0 \<longleftrightarrow> (\<exists>k. m = 2 ^ k)" by simp
    also have "\<dots> \<longleftrightarrow> (\<exists>k. n = 2 ^ k)"
    proof
      assume "\<exists>k. m = 2 ^ k"
      then obtain k where "m = 2 ^ k" by blast
      then show "\<exists>k. n = 2 ^ k" using m by (intro exI [of _ "Suc k"]) simp
    next
      assume "\<exists>k. n = 2 ^ k"
      then obtain k where k: "n = 2 ^ k" by blast
      with True have "k \<noteq> 0" by (cases k) auto
      then show "\<exists>k. m = 2 ^ k" using k m by (cases k) auto
    qed
    finally show ?thesis .
  next
    case False
    then obtain m where m: "n = Suc (2 * m)" by (elim oddE) auto
    have "n AND (n - 1) = 2 * m" unfolding m by (simp add: and_nat_unfold [of "Suc (2 * m)"])
    moreover have "(\<exists>k. n = 2 ^ k) \<longleftrightarrow> m = 0"
    proof
      assume "\<exists>k. n = 2 ^ k"
      then obtain k where k: "n = 2 ^ k" by blast
      with False have "k = 0" by (cases k) auto
      with k m show "m = 0" by simp
    qed (use m in \<open>auto intro: exI [of _ 0]\<close>)
    ultimately show ?thesis by simp
  qed
qed

lemma bit_length_bounds: "0 < n \<Longrightarrow> 2 ^ (bit_length n - 1) \<le> n \<and> n < 2 ^ bit_length n \<and> 0 < bit_length n"
proof (induction n rule: less_induct)
  case (less n)
  show ?case
  proof (cases "n = 1")
    case False
    with less.prems have n: "0 < n div 2" "n div 2 < n" by auto
    from less.IH [OF n(2,1)] have "2 * 2 ^ (bit_length (n div 2) - 1) \<le> n" "n < 2 * 2 ^ bit_length (n div 2)" "0 < bit_length (n div 2)" by auto
    then show ?thesis using less.prems by (subst (1 2 3) bit_length.simps) (cases "bit_length (n div 2)"; simp)
  qed (simp add: bit_length.simps [of "Suc 0"] bit_length.simps [of 0])
qed

text \<open>The split of a tree is a power of two below its size, and at least half of it.\<close>

lemma split_power:
  assumes "2 \<le> n"
  obtains a where "largest_power_of_two_below n = 2 ^ a" and "2 ^ a < n" and "n \<le> 2 * 2 ^ a"
proof (cases "n AND (n - 1) = 0")
  case True
  then obtain k where k: "n = 2 ^ k" using and_pred_zero assms by auto
  with assms obtain a where "k = Suc a" by (cases k) auto
  with True k that show thesis by (simp add: largest_power_of_two_below_def drop_bit_eq_div)
next
  case False
  let ?a = "bit_length n - 1"
  have b: "2 ^ ?a \<le> n" "n < 2 ^ bit_length n" "0 < bit_length n" using bit_length_bounds assms by auto
  have "0 < n" using assms by simp
  then have "\<not> (\<exists>k. n = 2 ^ k)" using False by (simp only: and_pred_zero not_False_eq_True)
  then have "n \<noteq> 2 ^ ?a" by (rule contrapos_nn) (rule exI)
  moreover have "(2 :: nat) ^ bit_length n = 2 * 2 ^ ?a" using b(3) by (cases "bit_length n") auto
  ultimately show thesis using that [of ?a] False b by (simp add: largest_power_of_two_below_def push_bit_eq_mult)
qed

lemma split_unique:
  assumes "2 ^ a < n" and "n \<le> 2 * 2 ^ a"
  shows "largest_power_of_two_below n = 2 ^ a"
proof -
  have "1 \<le> (2 :: nat) ^ a" by simp
  with assms(1) have "2 \<le> n" by linarith
  then obtain b where b: "largest_power_of_two_below n = 2 ^ b" "2 ^ b < n" "n \<le> 2 * 2 ^ b" by (rule split_power)
  from assms b have "(2 :: nat) ^ a < 2 ^ Suc b" "(2 :: nat) ^ b < 2 ^ Suc a" by auto
  then have "a < Suc b" "b < Suc a" by (metis power_less_imp_less_exp one_less_numeral_iff semiring_norm(76))+
  then show ?thesis using b by simp
qed

lemma split_bounds: "2 \<le> n \<Longrightarrow> 0 < largest_power_of_two_below n \<and> largest_power_of_two_below n < n"
  by (erule split_power) simp

function merkle_root :: "externals \<Rightarrow> bytes list \<Rightarrow> bytes" where
  "merkle_root X leaf_hashes =
     (if leaf_hashes = [] then sha256 X []
      else if length leaf_hashes = 1 then hd leaf_hashes
      else let split = largest_power_of_two_below (length leaf_hashes) in
        merkle_node_hash X (merkle_root X (take split leaf_hashes)) (merkle_root X (drop split leaf_hashes)))"
  by pat_completeness auto

lemma split_lengths:
  assumes "xs \<noteq> []" and "length xs \<noteq> 1"
  shows "0 < largest_power_of_two_below (length xs) \<and> largest_power_of_two_below (length xs) < length xs"
proof -
  have "2 \<le> length xs" using assms by (cases xs) (auto simp: Suc_le_eq)
  then show ?thesis by (rule split_bounds)
qed

termination merkle_root
  by (relation "measure (\<lambda>(X, xs). length xs)") (auto dest: split_lengths)

declare merkle_root.simps [simp del]

function merkle_inclusion_proof :: "externals \<Rightarrow> bytes list \<Rightarrow> int \<Rightarrow> bytes list head_result" where
  "merkle_inclusion_proof X leaf_hashes leaf_index =
     (if leaf_index < 0 \<or> leaf_index \<ge> int (length leaf_hashes)
      then Inl (HeadAuthorityAdapterError ''invalid_head_proof'' ''inclusion proof requires an in-range leaf index'')
      else if length leaf_hashes = 1 then Inr []
      else let split = largest_power_of_two_below (length leaf_hashes) in
        if leaf_index < int split
        then bindR (merkle_inclusion_proof X (take split leaf_hashes) leaf_index)
               (\<lambda>path. Inr (path @ [merkle_root X (drop split leaf_hashes)]))
        else bindR (merkle_inclusion_proof X (drop split leaf_hashes) (leaf_index - int split))
               (\<lambda>path. Inr (path @ [merkle_root X (take split leaf_hashes)])))"
  by pat_completeness auto

lemma split_lengths_index:
  assumes "\<not> (i < 0 \<or> i \<ge> int (length xs))" and "length xs \<noteq> 1"
  shows "0 < largest_power_of_two_below (length xs)" "largest_power_of_two_below (length xs) < length xs"
  using split_lengths [of xs] assms by (cases "xs = []"; auto)+

termination merkle_inclusion_proof
proof (relation "measure (\<lambda>(X, xs, i). length xs)", goal_cases)
  case (2 X xs i split)
  with split_lengths_index [of i xs] show ?case by simp
next
  case (3 X xs i split)
  with split_lengths_index [of i xs] show ?case by simp
qed simp

declare merkle_inclusion_proof.simps [simp del]

text \<open>\<open>_merkle_subproof\<close> is only called with \<open>0 < first_size \<le> size\<close>.\<close>

function merkle_subproof :: "externals \<Rightarrow> bytes list \<Rightarrow> nat \<Rightarrow> bool \<Rightarrow> bytes list" where
  "merkle_subproof X leaf_hashes first_size complete =
     (if first_size = length leaf_hashes then (if complete then [] else [merkle_root X leaf_hashes])
      else if length leaf_hashes < 2 then []
      else let split = largest_power_of_two_below (length leaf_hashes) in
        if first_size \<le> split
        then merkle_subproof X (take split leaf_hashes) first_size complete @ [merkle_root X (drop split leaf_hashes)]
        else merkle_subproof X (drop split leaf_hashes) (first_size - split) False @ [merkle_root X (take split leaf_hashes)])"
  by pat_completeness auto

termination merkle_subproof
  by (relation "measure (\<lambda>(X, xs, m, c). length xs)") (auto dest: split_bounds simp: not_less)

declare merkle_subproof.simps [simp del]

definition merkle_consistency_proof :: "externals \<Rightarrow> bytes list \<Rightarrow> int \<Rightarrow> bytes list head_result" where
  "merkle_consistency_proof X leaf_hashes first_size =
     (if first_size \<le> 0 \<or> first_size > int (length leaf_hashes)
      then Inl (HeadAuthorityAdapterError ''invalid_head_proof'' ''consistency proof requires a positive prefix within the tree'')
      else Inr (merkle_subproof X leaf_hashes (nat first_size) True))"

section \<open>Verification of proofs\<close>

definition hash_bytes :: "bytes \<Rightarrow> bool" where "hash_bytes b \<longleftrightarrow> length b = 32"

text \<open>\<open>while node_index & 1 == 0 and node_index != 0\<close>\<close>

function skip_even :: "nat \<Rightarrow> nat \<Rightarrow> nat \<times> nat" where
  "skip_even node_index last_index =
     (if even node_index \<and> node_index \<noteq> 0 then skip_even (node_index div 2) (last_index div 2) else (node_index, last_index))"
  by pat_completeness auto

termination skip_even by (relation "measure fst") auto

declare skip_even.simps [simp del]

text \<open>One iteration of the loop over the proof; the state is \<open>(node_index, last_index, computed)\<close>.\<close>

definition inclusion_step :: "externals \<Rightarrow> nat \<times> nat \<times> bytes \<Rightarrow> bytes \<Rightarrow> (nat \<times> nat \<times> bytes) head_result" where
  "inclusion_step X state node =
     (case state of (node_index, last_index, computed) \<Rightarrow>
        if \<not> hash_bytes node
        then Inl (HeadAuthorityAdapterError ''invalid_head_proof'' ''inclusion proof nodes must be 32-byte hashes'')
        else if last_index = 0
        then Inl (HeadAuthorityAdapterError ''head_inclusion_proof_invalid''
               ''inclusion proof is longer than the claimed tree geometry allows'')
        else if odd node_index \<or> node_index = last_index
        then (case skip_even node_index last_index of (f, s) \<Rightarrow> Inr (f div 2, s div 2, merkle_node_hash X node computed))
        else Inr (node_index div 2, last_index div 2, merkle_node_hash X computed node))"

definition verify_merkle_inclusion :: "externals \<Rightarrow> bytes \<Rightarrow> int \<Rightarrow> int \<Rightarrow> bytes list \<Rightarrow> bytes \<Rightarrow> unit head_result" where
  "verify_merkle_inclusion X leaf_hash leaf_index tree_size proof_nodes root_hash =
     (if \<not> hash_bytes leaf_hash
      then Inl (HeadAuthorityAdapterError ''invalid_head_proof'' ''inclusion proof requires one 32-byte leaf hash'')
      else if \<not> hash_bytes root_hash
      then Inl (HeadAuthorityAdapterError ''invalid_head_proof'' ''inclusion proof requires one 32-byte root hash'')
      else if tree_size \<le> 0
      then Inl (HeadAuthorityAdapterError ''invalid_head_proof'' ''inclusion proof requires a positive tree size'')
      else if leaf_index < 0 \<or> leaf_index \<ge> tree_size
      then Inl (HeadAuthorityAdapterError ''head_inclusion_proof_invalid'' ''inclusion proof leaf index is outside the claimed tree'')
      else if length proof_nodes > MAX_HEAD_PROOF_NODES_V1
      then Inl (HeadAuthorityAdapterError ''invalid_head_proof'' ''inclusion proof must be a bounded ordered tuple'')
      else bindR (foldR (inclusion_step X) (nat leaf_index, nat (tree_size - 1), leaf_hash) proof_nodes) (\<lambda>(_, last_index, computed).
        if last_index \<noteq> 0
        then Inl (HeadAuthorityAdapterError ''head_inclusion_proof_invalid''
               ''inclusion proof is shorter than the claimed tree geometry requires'')
        else if computed \<noteq> root_hash
        then Inl (HeadAuthorityAdapterError ''head_inclusion_proof_invalid'' ''inclusion proof does not recompute the claimed log root'')
        else Inr ()))"

text \<open>The state of the second loop is \<open>(node_index, last_index, computed_first, computed_second)\<close>.\<close>

definition consistency_step ::
  "externals \<Rightarrow> nat \<times> nat \<times> bytes \<times> bytes \<Rightarrow> bytes \<Rightarrow> (nat \<times> nat \<times> bytes \<times> bytes) head_result" where
  "consistency_step X state node =
     (case state of (node_index, last_index, computed_first, computed_second) \<Rightarrow>
        if \<not> hash_bytes node
        then Inl (HeadAuthorityAdapterError ''invalid_head_proof'' ''consistency proof nodes must be 32-byte hashes'')
        else if last_index = 0
        then Inl (HeadAuthorityAdapterError ''head_consistency_proof_invalid''
               ''consistency proof is longer than the claimed tree geometry allows'')
        else if odd node_index \<or> node_index = last_index
        then (case skip_even node_index last_index of (f, s) \<Rightarrow>
               Inr (f div 2, s div 2, merkle_node_hash X node computed_first, merkle_node_hash X node computed_second))
        else Inr (node_index div 2, last_index div 2, computed_first, merkle_node_hash X computed_second node))"

text \<open>\<open>(n & -n).bit_length() - 1\<close>\<close>

definition trailing_zeros :: "nat \<Rightarrow> nat" where
  "trailing_zeros n = bit_length (nat (int n AND - int n)) - 1"

definition consistency_start :: "nat \<Rightarrow> nat \<Rightarrow> bytes \<Rightarrow> bytes list \<Rightarrow> (nat \<times> nat \<times> bytes \<times> bytes list) head_result" where
  "consistency_start first_size second_size first_root proof_nodes =
     (let shift = trailing_zeros first_size; node_index = drop_bit shift first_size; last_index = drop_bit shift (second_size - 1) in
      if node_index = 1 then Inr (node_index - 1, last_index, first_root, proof_nodes)
      else if \<not> hash_bytes (hd proof_nodes)
      then Inl (HeadAuthorityAdapterError ''invalid_head_proof'' ''consistency proof nodes must be 32-byte hashes'')
      else Inr (node_index - 1, last_index, hd proof_nodes, tl proof_nodes))"

definition verify_merkle_consistency :: "externals \<Rightarrow> int \<Rightarrow> bytes \<Rightarrow> int \<Rightarrow> bytes \<Rightarrow> bytes list \<Rightarrow> unit head_result" where
  "verify_merkle_consistency X first_size first_root second_size second_root proof_nodes =
     (if \<not> hash_bytes first_root
      then Inl (HeadAuthorityAdapterError ''invalid_head_proof'' ''consistency proof requires one 32-byte first root'')
      else if \<not> hash_bytes second_root
      then Inl (HeadAuthorityAdapterError ''invalid_head_proof'' ''consistency proof requires one 32-byte second root'')
      else if first_size \<le> 0
      then Inl (HeadAuthorityAdapterError ''invalid_head_proof'' ''consistency proof requires a positive retained tree size'')
      else if second_size \<le> 0
      then Inl (HeadAuthorityAdapterError ''invalid_head_proof'' ''consistency proof requires a positive tree size'')
      else if length proof_nodes > MAX_HEAD_PROOF_NODES_V1
      then Inl (HeadAuthorityAdapterError ''invalid_head_proof'' ''consistency proof must be a bounded ordered tuple'')
      else if first_size > second_size
      then Inl (HeadAuthorityAdapterError ''head_catalog_tree_rollback'' ''catalog tree size regressed below the retained predecessor'')
      else if first_size = second_size then
        (if proof_nodes \<noteq> []
         then Inl (HeadAuthorityAdapterError ''head_consistency_proof_invalid'' ''an unchanged tree size cannot carry a consistency proof'')
         else if first_root \<noteq> second_root
         then Inl (HeadAuthorityAdapterError ''head_catalog_equivocation'' ''an unchanged tree size cannot change its log root'')
         else Inr ())
      else if proof_nodes = []
      then Inl (HeadAuthorityAdapterError ''head_consistency_proof_invalid''
             ''a grown tree requires a consistency proof from the retained root'')
      else bindR (consistency_start (nat first_size) (nat second_size) first_root proof_nodes) (\<lambda>(node_index, last_index, seed, remaining).
        bindR (foldR (consistency_step X) (node_index, last_index, seed, seed) remaining) (\<lambda>(_, last, computed_first, computed_second).
        if last \<noteq> 0
        then Inl (HeadAuthorityAdapterError ''head_consistency_proof_invalid''
               ''consistency proof is shorter than the claimed tree geometry requires'')
        else if computed_first \<noteq> first_root
        then Inl (HeadAuthorityAdapterError ''head_consistency_proof_invalid''
               ''consistency proof does not recompute the retained predecessor root'')
        else if computed_second \<noteq> second_root
        then Inl (HeadAuthorityAdapterError ''head_consistency_proof_invalid'' ''consistency proof does not recompute the claimed log root'')
        else Inr ())))"

section \<open>Induction along the splits\<close>

text \<open>\<open>joins a ls rs\<close>: the tree over \<open>ls @ rs\<close> is split between \<open>ls\<close>, which is complete of height \<open>a\<close>, and \<open>rs\<close>.\<close>

definition joins :: "nat \<Rightarrow> 'a list \<Rightarrow> 'a list \<Rightarrow> bool" where
  "joins a ls rs \<longleftrightarrow> length ls = 2 ^ a \<and> rs \<noteq> [] \<and> length rs \<le> 2 ^ a"

lemma joins_split:
  assumes "joins a ls rs"
  shows "largest_power_of_two_below (length ls + length rs) = length ls" "0 < length ls" "0 < length rs" "ls \<noteq> []" "rs \<noteq> []"
    "length ls + length rs \<noteq> Suc 0" "\<not> length ls + length rs < 2"
proof -
  have l: "length ls = 2 ^ a" "0 < length rs" "length rs \<le> 2 ^ a" "1 \<le> (2 :: nat) ^ a" using assms by (auto simp: joins_def)
  show "largest_power_of_two_below (length ls + length rs) = length ls" using split_unique [of a "length ls + length rs"] l by simp
  show "0 < length ls" "0 < length rs" "length ls + length rs \<noteq> Suc 0" "\<not> length ls + length rs < 2" using l by linarith+
  then show "ls \<noteq> []" "rs \<noteq> []" by auto
qed

lemma joins_obtain:
  assumes "2 \<le> length xs"
  obtains a ls rs where "xs = ls @ rs" and "joins a ls rs"
proof -
  obtain a where a: "2 ^ a < length xs" "length xs \<le> 2 * 2 ^ a" using assms by (rule split_power)
  have "joins a (take (2 ^ a) xs) (drop (2 ^ a) xs)" using a by (auto simp: joins_def)
  then show thesis using that [of "take (2 ^ a) xs" "drop (2 ^ a) xs"] by simp
qed

lemma tree_induct [consumes 1, case_names leaf node]:
  assumes "xs \<noteq> []" and "\<And>x. P [x]" and "\<And>a ls rs. joins a ls rs \<Longrightarrow> P ls \<Longrightarrow> P rs \<Longrightarrow> P (ls @ rs)"
  shows "P xs"
  using assms(1)
proof (induction xs rule: length_induct)
  case (1 xs)
  show ?case
  proof (cases "length xs = 1")
    case True
    then show ?thesis using assms(2) by (auto simp: length_Suc_conv)
  next
    case False
    with 1(2) have "2 \<le> length xs" by (cases xs) (auto simp: Suc_le_eq)
    then obtain a ls rs where "xs = ls @ rs" "joins a ls rs" by (rule joins_obtain)
    then show ?thesis using 1(1) assms(3) joins_split(2,3) [of a ls rs] by auto
  qed
qed

lemma merkle_root_simps [simp]:
  "merkle_root X [x] = x"
  "joins a ls rs \<Longrightarrow> merkle_root X (ls @ rs) = merkle_node_hash X (merkle_root X ls) (merkle_root X rs)"
proof -
  show "merkle_root X [x] = x" by (simp add: merkle_root.simps)
  assume j: "joins a ls rs"
  from joins_split [OF j] show "merkle_root X (ls @ rs) = merkle_node_hash X (merkle_root X ls) (merkle_root X rs)"
    by (simp add: merkle_root.simps [of X "ls @ rs"] Let_def)
qed

text \<open>The audit path without its range checks.\<close>

function audit_path :: "externals \<Rightarrow> bytes list \<Rightarrow> nat \<Rightarrow> bytes list" where
  "audit_path X xs i =
     (if length xs < 2 then []
      else let k = largest_power_of_two_below (length xs) in
        if i < k then audit_path X (take k xs) i @ [merkle_root X (drop k xs)]
        else audit_path X (drop k xs) (i - k) @ [merkle_root X (take k xs)])"
  by pat_completeness auto

termination audit_path
  by (relation "measure (\<lambda>(X, xs, i). length xs)") (auto dest: split_bounds simp: not_less)

declare audit_path.simps [simp del]

lemma audit_path_simps [simp]:
  "audit_path X [x] i = []"
  "joins a ls rs \<Longrightarrow> i < length ls \<Longrightarrow> audit_path X (ls @ rs) i = audit_path X ls i @ [merkle_root X rs]"
  "joins a ls rs \<Longrightarrow> \<not> i < length ls \<Longrightarrow> audit_path X (ls @ rs) i = audit_path X rs (i - length ls) @ [merkle_root X ls]"
proof -
  show "audit_path X [x] i = []" by (simp add: audit_path.simps)
  assume j: "joins a ls rs"
  note s = joins_split [OF j]
  show "i < length ls \<Longrightarrow> audit_path X (ls @ rs) i = audit_path X ls i @ [merkle_root X rs]"
    "\<not> i < length ls \<Longrightarrow> audit_path X (ls @ rs) i = audit_path X rs (i - length ls) @ [merkle_root X ls]"
    using s by (simp_all add: audit_path.simps [of X "ls @ rs" i] Let_def)
qed

lemma inclusion_proof_is_path:
  assumes "i < length xs"
  shows "merkle_inclusion_proof X xs (int i) = Inr (audit_path X xs i)"
proof -
  have "xs \<noteq> []" using assms by auto
  then show ?thesis using assms
  proof (induction xs arbitrary: i rule: tree_induct)
    case (leaf x)
    then show ?case by (simp add: merkle_inclusion_proof.simps)
  next
    case (node a ls rs)
    note s = joins_split [OF node(1)]
    show ?case
    proof (cases "i < length ls")
      case True
      then show ?thesis using node s by (simp add: merkle_inclusion_proof.simps [of X "ls @ rs" "int i"] Let_def)
    next
      case False
      then obtain j where j: "i = length ls + j" using le_Suc_ex not_less by blast
      with node(4) have "j < length rs" by simp
      then show ?thesis using node s unfolding j
        by (simp add: merkle_inclusion_proof.simps [of X "ls @ rs" "int (length ls) + int j"] Let_def)
    qed
  qed
qed

lemma subproof_simps:
  "merkle_subproof X xs (length xs) True = []"
  "merkle_subproof X xs (length xs) False = [merkle_root X xs]"
  "joins a ls rs \<Longrightarrow> m \<le> length ls \<Longrightarrow> merkle_subproof X (ls @ rs) m c = merkle_subproof X ls m c @ [merkle_root X rs]"
  "joins a ls rs \<Longrightarrow> length ls < m \<Longrightarrow> m < length (ls @ rs) \<Longrightarrow>
     merkle_subproof X (ls @ rs) m c = merkle_subproof X rs (m - length ls) False @ [merkle_root X ls]"
proof -
  show "merkle_subproof X xs (length xs) True = []" "merkle_subproof X xs (length xs) False = [merkle_root X xs]"
    by (simp_all add: merkle_subproof.simps)
  assume j: "joins a ls rs"
  note s = joins_split [OF j]
  show "merkle_subproof X (ls @ rs) m c = merkle_subproof X ls m c @ [merkle_root X rs]" if m: "m \<le> length ls"
  proof -
    have "m < length ls + length rs" using m s(3) by linarith
    then have n: "(m = length ls + length rs) = False" by blast
    show ?thesis using m s by (simp add: merkle_subproof.simps [of X "ls @ rs" m c] Let_def n)
  qed
  show "length ls < m \<Longrightarrow> m < length (ls @ rs) \<Longrightarrow>
      merkle_subproof X (ls @ rs) m c = merkle_subproof X rs (m - length ls) False @ [merkle_root X ls]"
    using s by (simp add: merkle_subproof.simps [of X "ls @ rs" m c] Let_def)
qed

section \<open>The inclusion loop climbs the tree\<close>

definition hash_leaves :: "externals \<Rightarrow> bytes list \<Rightarrow> bool" where
  "hash_leaves X xs \<longleftrightarrow> (\<forall>m. length (sha256 X m) = 32) \<and> list_all hash_bytes xs"

lemma hash_leaves_append [simp]: "hash_leaves X (xs @ ys) \<longleftrightarrow> hash_leaves X xs \<and> hash_leaves X ys"
  by (auto simp: hash_leaves_def)

lemma node_hash_bytes: "hash_leaves X xs \<Longrightarrow> hash_bytes (merkle_node_hash X l r)"
  by (simp add: hash_leaves_def hash_bytes_def merkle_node_hash_def)

lemma root_hash_bytes: "xs \<noteq> [] \<Longrightarrow> hash_leaves X xs \<Longrightarrow> hash_bytes (merkle_root X xs)"
proof (induction xs rule: tree_induct)
  case (node a ls rs)
  then show ?case using node_hash_bytes [of X ls] by simp
qed (simp add: hash_leaves_def)

lemma path_hash_bytes: "xs \<noteq> [] \<Longrightarrow> hash_leaves X xs \<Longrightarrow> i < length xs \<Longrightarrow> list_all hash_bytes (audit_path X xs i)"
proof (induction xs arbitrary: i rule: tree_induct)
  case (node a ls rs)
  then show ?case using joins_split [OF node(1)] root_hash_bytes [of ls X] root_hash_bytes [of rs X] by (cases "i < length ls") auto
qed simp

lemma path_length: "xs \<noteq> [] \<Longrightarrow> length xs \<le> 2 ^ b \<Longrightarrow> length (audit_path X xs i) \<le> b"
proof (induction xs arbitrary: i b rule: tree_induct)
  case (node a ls rs)
  have "length ls = 2 ^ a" "0 < length rs" "length ls + length rs \<le> 2 ^ b"
    using node(1,4) joins_split(3) [OF node(1)] by (simp_all add: joins_def)
  then have "(2 :: nat) ^ a < 2 ^ b" by linarith
  then have "a < b" by simp
  moreover have "length (audit_path X ls i) \<le> a" "length (audit_path X rs (i - length ls)) \<le> a"
    using node(1) node(2,3) [of a] by (simp_all add: joins_def)
  ultimately show ?case using node(1) by (cases "i < length ls") auto
qed simp

lemma skip_even_odd: "odd g \<Longrightarrow> skip_even g s = (g, s)"
  by (simp add: skip_even.simps)

lemma skip_even_power: "odd g \<Longrightarrow> skip_even (2 ^ t * g) s = (g, s div 2 ^ t)"
proof (induction t arbitrary: s)
  case (Suc t)
  have "g \<noteq> 0" using Suc.prems by (cases g) auto
  then show ?case using Suc.IH [OF Suc.prems, of "s div 2"] skip_even.simps [of "2 ^ Suc t * g" s]
    by (simp add: mult.assoc div_mult2_eq)
qed (simp add: skip_even_odd)

lemma step_left:
  assumes "hash_bytes n" and "even f" and "f \<noteq> s" and "s \<noteq> 0"
  shows "inclusion_step X (f, s, c) n = Inr (f div 2, s div 2, merkle_node_hash X c n)"
  using assms by (simp add: inclusion_step_def)

lemma step_right_odd:
  assumes "hash_bytes n" and "odd f" and "s \<noteq> 0"
  shows "inclusion_step X (f, s, c) n = Inr (f div 2, s div 2, merkle_node_hash X n c)"
  using assms by (simp add: inclusion_step_def skip_even_odd)

lemma step_right_border:
  assumes "hash_bytes n" and "odd g"
  shows "inclusion_step X (2 ^ t * g, 2 ^ t * g, c) n = Inr (g div 2, g div 2, merkle_node_hash X n c)"
proof -
  have "g \<noteq> 0" using assms(2) by (cases g) auto
  then show ?thesis using assms by (simp add: inclusion_step_def skip_even_power)
qed

text \<open>In a complete subtree that is not the last one, the loop reaches the root of the subtree after as many steps as its height.\<close>

lemma climb_complete:
  assumes "length xs = 2 ^ h" and "hash_leaves X xs" and "i < 2 ^ h" and "(q + 1) * 2 ^ h \<le> s"
  shows "foldR (inclusion_step X) (q * 2 ^ h + i, s, xs ! i) (audit_path X xs i) = Inr (q, s div 2 ^ h, merkle_root X xs)"
  using assms
proof (induction h arbitrary: xs i q)
  case 0
  then show ?case by (auto simp: length_Suc_conv)
next
  case (Suc a)
  let ?ls = "take (2 ^ a) xs" and ?rs = "drop (2 ^ a) xs"
  have x: "xs = ?ls @ ?rs" and l: "length ?ls = 2 ^ a" "length ?rs = 2 ^ a" using Suc.prems(1) by simp_all
  have j: "joins a ?ls ?rs" using l by (auto simp: joins_def)
  have h: "hash_leaves X ?ls" "hash_leaves X ?rs" using Suc.prems(2) x by (metis hash_leaves_append)+
  have r: "hash_bytes (merkle_root X ?ls)" "hash_bytes (merkle_root X ?rs)" using h root_hash_bytes joins_split(4,5) [OF j] by blast+
  have sd: "2 * q + 2 \<le> s div 2 ^ a"
    using Suc.prems(4) by (simp add: less_eq_div_iff_mult_less_eq algebra_simps)
  have root: "merkle_root X xs = merkle_node_hash X (merkle_root X ?ls) (merkle_root X ?rs)" using merkle_root_simps(2) [OF j] x by metis
  have dd: "s div 2 ^ Suc a = s div 2 ^ a div 2" by (metis div_mult2_eq power_Suc2)
  show ?case
  proof (cases "i < 2 ^ a")
    case True
    have p: "audit_path X xs i = audit_path X ?ls i @ [merkle_root X ?rs]" using audit_path_simps(2) [OF j] True l x by metis
    have "foldR (inclusion_step X) (2 * q * 2 ^ a + i, s, ?ls ! i) (audit_path X ?ls i) = Inr (2 * q, s div 2 ^ a, merkle_root X ?ls)"
      by (rule Suc.IH) (use l h True Suc.prems(4) in \<open>simp_all add: algebra_simps\<close>)
    moreover have "?ls ! i = xs ! i" using True by simp
    moreover have e: "q * 2 ^ Suc a + i = 2 * q * 2 ^ a + i" by simp
    ultimately show ?thesis using r sd unfolding e p root dd by (simp add: foldR_append step_left)
  next
    case False
    then obtain k where k: "i = 2 ^ a + k" using le_Suc_ex not_less by blast
    have p: "audit_path X xs i = audit_path X ?rs k @ [merkle_root X ?ls]" using audit_path_simps(3) [OF j, of i] l x k by simp
    have "foldR (inclusion_step X) ((2 * q + 1) * 2 ^ a + k, s, ?rs ! k) (audit_path X ?rs k) = Inr (2 * q + 1, s div 2 ^ a, merkle_root X ?rs)"
      by (rule Suc.IH) (use l h k Suc.prems in \<open>simp_all add: algebra_simps\<close>)
    moreover have "?rs ! k = xs ! i" using k Suc.prems(1) by simp
    moreover have e: "q * 2 ^ Suc a + i = (2 * q + 1) * 2 ^ a + k" by (simp add: k algebra_simps)
    ultimately show ?thesis using r sd unfolding e p root dd by (simp add: foldR_append step_right_odd)
  qed
qed

lemma ceil_power:
  fixes m :: nat
  assumes "0 < m"
  obtains b where "m \<le> 2 ^ b" and "2 ^ b < 2 * m"
proof (cases "m = 1")
  case True
  then show thesis using that [of 0] by simp
next
  case False
  with assms have "2 \<le> m" by simp
  then obtain a where "2 ^ a < m" "m \<le> 2 * 2 ^ a" by (rule split_power)
  then show thesis using that [of "Suc a"] by simp
qed

lemma ceil_power_unique: "m \<le> 2 ^ b \<Longrightarrow> 2 ^ b < 2 * m \<Longrightarrow> m \<le> 2 ^ c \<Longrightarrow> 2 ^ c < 2 * m \<Longrightarrow> b = c" for m :: nat
proof -
  assume a: "m \<le> 2 ^ b" "2 ^ b < 2 * m" "m \<le> 2 ^ c" "2 ^ c < 2 * m"
  then have "(2 :: nat) ^ b < 2 ^ Suc c" "(2 :: nat) ^ c < 2 ^ Suc b" by auto
  then have "b < Suc c" "c < Suc b" by (simp_all only: power_strict_increasing_iff one_less_numeral_iff semiring_norm)
  then show "b = c" by simp
qed

text \<open>At the right border of the tree the loop shifts several levels at once.\<close>

lemma climb_border:
  assumes "xs \<noteq> []" and "hash_leaves X xs" and "i < length xs" and "length xs \<le> 2 ^ b" and "2 ^ b < 2 * length xs"
  shows "foldR (inclusion_step X) (q * 2 ^ b + i, q * 2 ^ b + length xs - 1, xs ! i) (audit_path X xs i) = Inr (q, q, merkle_root X xs)"
  using assms
proof (induction xs arbitrary: i b q rule: tree_induct)
  case (leaf x)
  then have "b = 0" by (cases b) auto
  with leaf show ?case by simp
next
  case (node a ls rs)
  have l: "length ls = 2 ^ a" "length rs \<le> 2 ^ a" "0 < length rs" using node(1) joins_split(3) [OF node(1)] by (simp_all add: joins_def)
  have b: "b = Suc a"
    by (rule ceil_power_unique [of "length (ls @ rs)"]) (use node(6,7) l in simp_all)
  have h: "hash_leaves X ls" "hash_leaves X rs" using node(4) by simp_all
  have r: "hash_bytes (merkle_root X ls)" "hash_bytes (merkle_root X rs)" using h root_hash_bytes joins_split(4,5) [OF node(1)] by blast+
  show ?case
  proof (cases "i < length ls")
    case True
    let ?s = "q * 2 ^ b + length (ls @ rs) - 1"
    obtain p where p: "length rs = Suc p" using l(3) by (cases "length rs") auto
    have s: "?s = (2 * q + 1) * 2 ^ a + p" using l(1) b p by (simp add: algebra_simps)
    have sd: "?s div 2 ^ a = 2 * q + 1" 
      unfolding s by (subst div_mult_self3) (use l(2) p in simp_all)
    have le: "(2 * q + 1) * 2 ^ a \<le> ?s" unfolding s by simp
    have "foldR (inclusion_step X) (2 * q * 2 ^ a + i, ?s, ls ! i) (audit_path X ls i) = Inr (2 * q, 2 * q + 1, merkle_root X ls)"
      using climb_complete [OF l(1) h(1), of i "2 * q" ?s] True l le sd by simp
    moreover have e: "q * 2 ^ b + i = 2 * q * 2 ^ a + i" "(ls @ rs) ! i = ls ! i" using b True by (simp_all add: nth_append)
    ultimately show ?thesis using r True node(1) unfolding e by (simp add: foldR_append step_left)
  next
    case False
    then obtain k where k: "i = length ls + k" using le_Suc_ex not_less by blast
    obtain c where c: "length rs \<le> 2 ^ c" "2 ^ c < 2 * length rs" using l(3) by (rule ceil_power)
    have "(2 :: nat) ^ c < 2 ^ Suc a" using c l by simp
    then have "c \<le> a" by (simp only: power_strict_increasing_iff one_less_numeral_iff semiring_norm)
    then obtain t where t: "a = c + t" using le_Suc_ex by blast
    let ?q = "2 ^ t * (2 * q + 1)"
    have o: "?q * 2 ^ c = q * 2 ^ b + 2 ^ a" using b t by (simp add: power_add algebra_simps)
    have "foldR (inclusion_step X) (?q * 2 ^ c + k, ?q * 2 ^ c + length rs - 1, rs ! k) (audit_path X rs k) = Inr (?q, ?q, merkle_root X rs)"
      by (rule node(3)) (use h k node(5) c in simp_all)
    moreover have e: "q * 2 ^ b + i = ?q * 2 ^ c + k" "q * 2 ^ b + length (ls @ rs) - 1 = ?q * 2 ^ c + length rs - 1" "(ls @ rs) ! i = rs ! k"
      using o l k by (simp_all add: nth_append)
    moreover have p: "audit_path X (ls @ rs) i = audit_path X rs k @ [merkle_root X ls]" using audit_path_simps(3) [OF node(1), of i] k by simp
    ultimately show ?thesis using r node(1) step_right_border [OF r(1), of "2 * q + 1" X t "merkle_root X rs"]
      unfolding e p by (simp add: foldR_append del: mult_Suc_right)
  qed
qed

lemma climb_tree:
  assumes "xs \<noteq> []" and "hash_leaves X xs" and "i < length xs"
  shows "foldR (inclusion_step X) (i, length xs - 1, xs ! i) (audit_path X xs i) = Inr (0, 0, merkle_root X xs)"
proof -
  obtain b where "length xs \<le> 2 ^ b" "2 ^ b < 2 * length xs" using assms(1) ceil_power [of "length xs"] by auto
  from climb_border [OF assms this, of 0] show ?thesis by simp
qed

section \<open>What a proof determines\<close>

text \<open>The positions that the loop visits do not depend on the hashes; \<open>node_message\<close> is what it hashes at one position.\<close>

definition next_position :: "nat \<Rightarrow> nat \<Rightarrow> nat \<times> nat" where
  "next_position f s = (if odd f \<or> f = s then case skip_even f s of (f', s') \<Rightarrow> (f' div 2, s' div 2) else (f div 2, s div 2))"

definition node_message :: "nat \<Rightarrow> nat \<Rightarrow> bytes \<Rightarrow> bytes \<Rightarrow> bytes" where
  "node_message f s c n = MERKLE_NODE_PREFIX @ (if odd f \<or> f = s then n @ c else c @ n)"

fun climb_messages :: "externals \<Rightarrow> nat \<Rightarrow> nat \<Rightarrow> bytes \<Rightarrow> bytes list \<Rightarrow> bytes list" where
  "climb_messages X f s c [] = []"
| "climb_messages X f s c (n # ns) =
     node_message f s c n # (case next_position f s of (f', s') \<Rightarrow> climb_messages X f' s' (sha256 X (node_message f s c n)) ns)"

lemma inclusion_step_shape:
  "inclusion_step X (f, s, c) n = Inr st \<longleftrightarrow>
     hash_bytes n \<and> s \<noteq> 0 \<and> (case next_position f s of (f', s') \<Rightarrow> st = (f', s', sha256 X (node_message f s c n)))"
  by (auto simp: inclusion_step_def next_position_def node_message_def merkle_node_hash_def split: prod.splits)

lemma node_message_inject:
  "node_message f s c n = node_message f s d m \<Longrightarrow> hash_bytes c \<Longrightarrow> hash_bytes d \<Longrightarrow> hash_bytes n \<Longrightarrow> hash_bytes m \<Longrightarrow> c = d \<and> n = m"
  by (auto simp: node_message_def hash_bytes_def split: if_splits)

text \<open>
  Two proofs that lead to the same root from the same position have the same start and the same nodes, when the hash does not
  collide on the messages that are hashed on the way.
\<close>

lemma climb_inject:
  assumes "foldR (inclusion_step X) (f, s, c) p = Inr (f1, 0, r)" and "foldR (inclusion_step X) (f, s, d) q = Inr (f2, 0, r)"
    and "\<And>m. length (sha256 X m) = 32" and "hash_bytes c" and "hash_bytes d"
    and "inj_on (sha256 X) (set (climb_messages X f s c p) \<union> set (climb_messages X f s d q))"
  shows "c = d \<and> p = q"
  using assms(1,2,4-)
proof (induction p arbitrary: f s c d q)
  case Nil
  then have s: "s = 0" "c = r" by simp_all
  have "inclusion_step X (f, 0, d) n \<noteq> Inr st" for n st by (simp add: inclusion_step_shape)
  with Nil(2) s show ?case by (cases q) (auto simp: bindR_eq_Inr)
next
  case (Cons n p)
  obtain f' s' where nx: "next_position f s = (f', s')" by force
  let ?c = "node_message f s c n"
  from Cons.prems(1) have n: "hash_bytes n" "s \<noteq> 0" and p: "foldR (inclusion_step X) (f', s', sha256 X ?c) p = Inr (f1, 0, r)"
    by (auto simp: bindR_eq_Inr inclusion_step_shape nx)
  from Cons.prems(2) n(2) obtain m q' where q: "q = m # q'" by (cases q) auto
  let ?d = "node_message f s d m"
  from Cons.prems(2) q have m: "hash_bytes m" and q2: "foldR (inclusion_step X) (f', s', sha256 X ?d) q' = Inr (f2, 0, r)"
    by (auto simp: bindR_eq_Inr inclusion_step_shape nx)
  have i: "inj_on (sha256 X) (insert ?c (set (climb_messages X f' s' (sha256 X ?c) p)) \<union> insert ?d (set (climb_messages X f' s' (sha256 X ?d) q')))"
    using Cons.prems(5) by (simp add: q nx)
  have "sha256 X ?c = sha256 X ?d \<and> p = q'"
  proof (rule Cons.IH [OF p q2])
    show "inj_on (sha256 X) (set (climb_messages X f' s' (sha256 X ?c) p) \<union> set (climb_messages X f' s' (sha256 X ?d) q'))"
      using i by (rule inj_on_subset) auto
  qed (simp_all add: hash_bytes_def assms(3))
  moreover have "?c = ?d" by (rule inj_onD [OF i conjunct1 [OF calculation]]) simp_all
  ultimately show ?case using node_message_inject [OF _ Cons.prems(3,4) n(1) m] q by blast
qed

lemma verify_inclusion_iff:
  "verify_merkle_inclusion X leaf i n p root = Inr u \<longleftrightarrow>
     hash_bytes leaf \<and> hash_bytes root \<and> 0 < n \<and> 0 \<le> i \<and> i < n \<and> length p \<le> MAX_HEAD_PROOF_NODES_V1 \<and>
     (\<exists>f. foldR (inclusion_step X) (nat i, nat (n - 1), leaf) p = Inr (f, 0, root))"
  unfolding verify_merkle_inclusion_def if_raise_eq_Inr bindR_eq_Inr by (auto simp: not_less not_le)

section \<open>Properties\<close>

text \<open>The node messages that \<open>verify_merkle_inclusion\<close> hashes for these arguments.\<close>

definition inclusion_messages :: "externals \<Rightarrow> bytes \<Rightarrow> int \<Rightarrow> int \<Rightarrow> bytes list \<Rightarrow> bytes list" where
  "inclusion_messages X leaf i n p = climb_messages X (nat i) (nat (n - 1)) leaf p"

lemma inclusion_path_verifies:
  assumes "hash_leaves X xs" and "i < length xs" and "length xs \<le> 2 ^ 64"
  shows "verify_merkle_inclusion X (xs ! i) (int i) (int (length xs)) (audit_path X xs i) (merkle_root X xs) = Inr ()"
proof -
  have n: "xs \<noteq> []" using assms(2) by auto
  have "hash_bytes (xs ! i)" using assms(1,2) by (simp add: hash_leaves_def list_all_length)
  moreover have "nat (int (length xs) - 1) = length xs - 1" by simp
  moreover have "length (audit_path X xs i) \<le> MAX_HEAD_PROOF_NODES_V1"
    using path_length [OF n assms(3)] by (simp add: MAX_HEAD_PROOF_NODES_V1_def)
  ultimately show ?thesis
    unfolding verify_inclusion_iff using root_hash_bytes [OF n assms(1)] climb_tree [OF n assms(1,2)] assms(2) by auto
qed

text \<open>
  for a tree of 32-byte leaf hashes, at most \<open>2 ^ 64\<close> of them, the inclusion proof of every leaf is computed and is accepted
  against the root of the tree.
\<close>

theorem inclusion_complete:
  assumes "hash_leaves X xs" and "i < length xs" and "length xs \<le> 2 ^ 64"
  shows "\<exists>p. merkle_inclusion_proof X xs (int i) = Inr p \<and>
    verify_merkle_inclusion X (xs ! i) (int i) (int (length xs)) p (merkle_root X xs) = Inr ()"
  using inclusion_proof_is_path [OF assms(2)] inclusion_path_verifies [OF assms] by blast

lemma inclusion_determined:
  assumes "\<And>m. length (sha256 X m) = 32" and "verify_merkle_inclusion X leaf i n p root = Inr u" and "verify_merkle_inclusion X leaf' i n p' root = Inr u'"
    and "inj_on (sha256 X) (set (inclusion_messages X leaf i n p) \<union> set (inclusion_messages X leaf' i n p'))"
  shows "leaf = leaf' \<and> p = p'"
proof -
  from assms(2,3) obtain f f' where
    v: "foldR (inclusion_step X) (nat i, nat (n - 1), leaf) p = Inr (f, 0, root)" "foldR (inclusion_step X) (nat i, nat (n - 1), leaf') p' = Inr (f', 0, root)"
    and h: "hash_bytes leaf" "hash_bytes leaf'"
    unfolding verify_inclusion_iff by blast
  show ?thesis by (rule climb_inject [OF v assms(1) h assms(4) [unfolded inclusion_messages_def]])
qed

text \<open>
  an accepted inclusion proof binds the position: two proofs accepted for one index, tree size and root show the same
  leaf and are equal, when SHA-256 does not collide on the node messages that the two verifications hash.
\<close>

theorem inclusion_binding:
  assumes "\<And>m. length (sha256 X m) = 32" and "verify_merkle_inclusion X leaf i n p root = Inr ()" and "verify_merkle_inclusion X leaf' i n p' root = Inr ()"
    and "inj_on (sha256 X) (set (inclusion_messages X leaf i n p) \<union> set (inclusion_messages X leaf' i n p'))"
  shows "leaf = leaf' \<and> p = p'"
  using assms by (rule inclusion_determined)

end
