(* ===== verification/Merkle_Consistency.thy ===== *)
theory Merkle_Consistency
  imports Merkle_V1
begin

text \<open>
  Consistency proofs of \<open>src/etzio/kernel/head_authority_adapters_v1.py\<close>: the second verification loop, started at the last complete
  block of a prefix, climbs to the root of the prefix and to the root of the whole tree at once, and the roots determine the proof.
\<close>

unbundle bit_operations_syntax

section \<open>Powers of two and trailing zeros\<close>

lemma power_of_two_sum:
  assumes "0 < r" and "r < (2 :: nat) ^ a"
  shows "2 ^ a + r \<noteq> 2 ^ k"
proof
  assume e: "2 ^ a + r = 2 ^ k"
  with assms have "(2 :: nat) ^ a < 2 ^ k" "(2 :: nat) ^ k < 2 ^ Suc a" unfolding power_Suc by linarith+
  then have "a < k" "k < Suc a" by (simp_all only: power_strict_increasing_iff one_less_numeral_iff semiring_norm)
  then show False by simp
qed

lemma power_less_exp: "(2 :: nat) ^ m < 2 ^ k \<Longrightarrow> m < k"
  by (simp only: power_strict_increasing_iff one_less_numeral_iff semiring_norm)

lemma power_dvd_less: "(2 :: nat) ^ m < 2 ^ k \<Longrightarrow> (2 :: nat) ^ Suc m dvd 2 ^ k"
  by (rule le_imp_power_dvd) (simp only: Suc_le_eq power_less_exp)

lemma and_double: "(2 * a) AND (2 * b) = 2 * (a AND b)" for a b :: int
  by (rule bit_eqI) (auto simp: bit_simps bit_double_iff)

lemma and_neg: "odd (g :: int) \<Longrightarrow> (2 ^ t * g) AND - (2 ^ t * g) = 2 ^ t"
proof (induction t)
  case 0
  then obtain m where g: "g = 2 * m + 1" by (rule oddE)
  have n: "- g = 2 * NOT m + 1" by (simp add: g not_int_def)
  have "bit (g AND - g) k = bit (1 :: int) k" for k
    unfolding bit_and_iff unfolding n unfolding g by (cases k) (simp_all add: bit_Suc bit_not_iff bit_0)
  then have "g AND - g = 1" by (intro bit_eqI) simp
  then show ?case by simp
next
  case (Suc t)
  have "- (2 ^ Suc t * g) = 2 * - (2 ^ t * g)" "2 ^ Suc t * g = 2 * (2 ^ t * g)" by simp_all
  then show ?case using Suc and_double [of "2 ^ t * g" "- (2 ^ t * g)"] by (simp add: mult.assoc)
qed

lemma bit_length_power: "bit_length (2 ^ t) = Suc t"
proof (induction t)
  case 0
  then show ?case by (simp add: bit_length.simps [of "Suc 0"] bit_length.simps [of 0])
next
  case (Suc t)
  then show ?case using bit_length.simps [of "2 * 2 ^ t"] by simp
qed

lemma trailing_zeros_power: "odd g \<Longrightarrow> trailing_zeros (2 ^ t * g) = t"
proof -
  assume "odd g"
  then have "(2 ^ t * int g) AND - (2 ^ t * int g) = 2 ^ t" by (intro and_neg) simp
  then show ?thesis by (simp add: trailing_zeros_def bit_length_power nat_power_eq)
qed

lemma two_odd_factor:
  assumes "0 < n"
  obtains t d where "n = (2 * d + 1) * 2 ^ t" and "trailing_zeros n = t"
proof -
  have "\<exists>t g. odd g \<and> n = 2 ^ t * g" using assms
  proof (induction n rule: less_induct)
    case (less n)
    show ?case
    proof (cases "even n")
      case True
      then obtain m where m: "n = 2 * m" by blast
      with less.prems have "m < n" "0 < m" by auto
      from less.IH [OF this] obtain t g where "odd g" "m = 2 ^ t * g" by blast
      then have "odd g \<and> n = 2 ^ Suc t * g" using m by simp
      then show ?thesis by blast
    next
      case False
      then have "odd n \<and> n = 2 ^ 0 * n" by simp
      then show ?thesis by blast
    qed
  qed
  then obtain t g where g: "odd g" "n = 2 ^ t * g" by blast
  then obtain d where d: "g = 2 * d + 1" by (elim oddE)
  show thesis
  proof (rule that)
    show "n = (2 * d + 1) * 2 ^ t" using g(2) d by (simp add: mult.commute)
    show "trailing_zeros n = t" unfolding g(2) by (rule trailing_zeros_power) (rule g(1))
  qed
qed

section \<open>The consistency loop climbs two trees\<close>

lemma trailing_zeros_dvd: "0 < m \<Longrightarrow> 2 ^ trailing_zeros m dvd m"
  by (erule two_odd_factor) (metis dvd_triv_right)

lemma power_le_exp: "(2 :: nat) ^ m \<le> 2 ^ k \<Longrightarrow> m \<le> k"
  by (simp only: power_increasing_iff one_less_numeral_iff semiring_norm)

lemma trailing_zeros_add:
  assumes "0 < r" and "r < 2 ^ a"
  shows "trailing_zeros (2 ^ a + r) = trailing_zeros r"
proof -
  from assms(1) obtain t d where d: "r = (2 * d + 1) * 2 ^ t" "trailing_zeros r = t" by (rule two_odd_factor)
  have "2 ^ t \<le> r" using d(1) by simp
  then have "t < a" using assms(2) power_less_exp by (metis le_less_trans)
  then obtain k where a: "a = Suc k + t" using less_imp_Suc_add by (metis add.commute add_Suc)
  have "2 ^ a + r = 2 ^ t * (2 * (2 ^ k + d) + 1)" unfolding a d(1) by (simp add: power_add algebra_simps)
  moreover have "odd (2 * (2 ^ k + d) + 1)" by simp
  ultimately show ?thesis using d(2) trailing_zeros_power by metis
qed

lemma trailing_zeros_pow: "trailing_zeros (2 ^ k) = k"
  using trailing_zeros_power [of 1 k] by simp

lemma cstep_left:
  assumes "hash_bytes n" and "even f" and "f \<noteq> s" and "s \<noteq> 0"
  shows "consistency_step X (f, s, c, d) n = Inr (f div 2, s div 2, c, merkle_node_hash X d n)"
  using assms by (simp add: consistency_step_def)

lemma cstep_right_odd:
  assumes "hash_bytes n" and "odd f" and "s \<noteq> 0"
  shows "consistency_step X (f, s, c, d) n = Inr (f div 2, s div 2, merkle_node_hash X n c, merkle_node_hash X n d)"
  using assms by (simp add: consistency_step_def skip_even_odd)

lemma cstep_right_border:
  assumes "hash_bytes n" and "odd g"
  shows "consistency_step X (2 ^ t * g, 2 ^ t * g, c, d) n = Inr (g div 2, g div 2, merkle_node_hash X n c, merkle_node_hash X n d)"
proof -
  have "g \<noteq> 0" using assms(2) by (cases g) auto
  then show ?thesis using assms by (simp add: consistency_step_def skip_even_power)
qed

definition climbs :: "externals \<Rightarrow> bytes list \<Rightarrow> nat \<Rightarrow> nat \<Rightarrow> nat \<Rightarrow> nat \<Rightarrow> nat \<Rightarrow> bool" where
  "climbs X xs m p s f e \<longleftrightarrow> (\<exists>seed rest. merkle_subproof X xs m False = seed # rest \<and>
     foldR (consistency_step X) (p, s, seed, seed) rest = Inr (f, e, merkle_root X (take m xs), merkle_root X xs))"

text \<open>The prefix of a split tree.\<close>

lemma prefix_root:
  assumes "joins a ls rs" and "length ls < m" and "m \<le> length (ls @ rs)"
  shows "merkle_root X (take m (ls @ rs)) = merkle_node_hash X (merkle_root X ls) (merkle_root X (take (m - length ls) rs))"
proof -
  have "joins a ls (take (m - length ls) rs)" using assms by (auto simp: joins_def)
  then show ?thesis using assms(2) by simp
qed

lemma climbs_left:
  assumes "joins a ls rs" and "m \<le> length ls" and "climbs X ls m p s f e" and "hash_bytes (merkle_root X rs)"
    and "even f" and "f \<noteq> e" and "e \<noteq> 0"
  shows "climbs X (ls @ rs) m p s (f div 2) (e div 2)"
proof -
  from assms(3) obtain seed rest where r: "merkle_subproof X ls m False = seed # rest"
    "foldR (consistency_step X) (p, s, seed, seed) rest = Inr (f, e, merkle_root X (take m ls), merkle_root X ls)"
    unfolding climbs_def by blast
  have "merkle_subproof X (ls @ rs) m False = seed # (rest @ [merkle_root X rs])" using subproof_simps(3) [OF assms(1,2)] r(1) by simp
  moreover have "foldR (consistency_step X) (p, s, seed, seed) (rest @ [merkle_root X rs]) =
      Inr (f div 2, e div 2, merkle_root X (take m (ls @ rs)), merkle_root X (ls @ rs))"
    using assms by (simp add: foldR_append r(2) cstep_left)
  ultimately show ?thesis unfolding climbs_def by blast
qed

lemma climbs_right:
  assumes "joins a ls rs" and "length ls < m" and "m < length (ls @ rs)" and "climbs X rs (m - length ls) p s f e"
    and "\<And>c d. consistency_step X (f, e, c, d) (merkle_root X ls) =
           Inr (f', e', merkle_node_hash X (merkle_root X ls) c, merkle_node_hash X (merkle_root X ls) d)"
  shows "climbs X (ls @ rs) m p s f' e'"
proof -
  from assms(4) obtain seed rest where r: "merkle_subproof X rs (m - length ls) False = seed # rest"
    "foldR (consistency_step X) (p, s, seed, seed) rest = Inr (f, e, merkle_root X (take (m - length ls) rs), merkle_root X rs)"
    unfolding climbs_def by blast
  have "merkle_subproof X (ls @ rs) m False = seed # (rest @ [merkle_root X ls])" using subproof_simps(4) [OF assms(1,2,3)] r(1) by simp
  moreover have "foldR (consistency_step X) (p, s, seed, seed) (rest @ [merkle_root X ls]) =
      Inr (f', e', merkle_root X (take m (ls @ rs)), merkle_root X (ls @ rs))"
    unfolding prefix_root [OF assms(1,2) less_imp_le [OF assms(3)]] merkle_root_simps(2) [OF assms(1)]
    by (simp add: foldR_append r(2) assms(5))
  ultimately show ?thesis unfolding climbs_def by blast
qed

lemma climbs_all:
  assumes "m = length xs"
  shows "climbs X xs m p s p s"
  using assms by (simp add: climbs_def subproof_simps(2))

lemma climbs_complete:
  assumes "length xs = 2 ^ h" and "hash_leaves X xs" and "0 < m" and "m \<le> 2 ^ h" and "(q + 1) * 2 ^ h \<le> s"
    and "(p + 1) * 2 ^ trailing_zeros m = q * 2 ^ h + m"
  shows "climbs X xs m p (s div 2 ^ trailing_zeros m) q (s div 2 ^ h)"
proof (cases "m = 2 ^ h")
  case True
  then have "(p + 1) * 2 ^ h = (q + 1) * 2 ^ h" using assms(6) by (simp add: trailing_zeros_pow)
  then have "p = q" by simp
  with True assms(1) show ?thesis by (simp add: trailing_zeros_pow climbs_all)
next
  case False
  then show ?thesis using assms
  proof (induction h arbitrary: xs m q)
    case (Suc a)
    let ?ls = "take (2 ^ a) xs" and ?rs = "drop (2 ^ a) xs" and ?t = "trailing_zeros m"
    have x: "?ls @ ?rs = xs" and l: "length ?ls = 2 ^ a" "length ?rs = 2 ^ a" using Suc.prems(2) by simp_all
    have j: "joins a ?ls ?rs" using l by (auto simp: joins_def)
    have h: "hash_leaves X ?ls" "hash_leaves X ?rs" using Suc.prems(3) x by (metis hash_leaves_append)+
    have r: "hash_bytes (merkle_root X ?ls)" "hash_bytes (merkle_root X ?rs)" using h root_hash_bytes joins_split(4,5) [OF j] by blast+
    have sd: "2 * q + 2 \<le> s div 2 ^ a" using Suc.prems(6) by (simp add: less_eq_div_iff_mult_less_eq algebra_simps)
    have dd: "s div 2 ^ Suc a = s div 2 ^ a div 2" by (metis div_mult2_eq power_Suc2)
    show ?case
    proof (cases "m \<le> 2 ^ a")
      case True
      have "climbs X ?ls m p (s div 2 ^ ?t) (2 * q) (s div 2 ^ a)"
      proof (cases "m = 2 ^ a")
        case True
        then have "(p + 1) * 2 ^ a = (2 * q + 1) * 2 ^ a" using Suc.prems(7) by (simp add: trailing_zeros_pow algebra_simps)
        then have "p = 2 * q" by simp
        with True l show ?thesis by (simp add: trailing_zeros_pow climbs_all)
      next
        case False
        then show ?thesis
          by (rule Suc.IH) (use l h True Suc.prems(4,6,7) in \<open>simp_all add: algebra_simps\<close>)
      qed
      from climbs_left [OF j _ this r(2)] True l sd show ?thesis unfolding x dd by simp
    next
      case False
      then obtain k where k: "m = 2 ^ a + k" "0 < k" using less_imp_add_positive not_le by metis
      have kl: "k < 2 ^ a" using k Suc.prems(1,5) by simp
      have t: "trailing_zeros k = ?t" using trailing_zeros_add [OF k(2) kl] k(1) by simp
      have "climbs X ?rs k p (s div 2 ^ trailing_zeros k) (2 * q + 1) (s div 2 ^ a)"
        by (rule Suc.IH) (use l h k kl t Suc.prems(6,7) in \<open>simp_all add: algebra_simps\<close>)
      then have c: "climbs X ?rs (m - length ?ls) p (s div 2 ^ ?t) (2 * q + 1) (s div 2 ^ a)" using k(1) l t by simp
      have "climbs X (?ls @ ?rs) m p (s div 2 ^ ?t) ((2 * q + 1) div 2) (s div 2 ^ a div 2)"
        by (rule climbs_right [OF j _ _ c]) (use k kl l r sd in \<open>simp_all add: cstep_right_odd\<close>)
      then show ?thesis unfolding x dd by simp
    qed
  qed simp
qed

lemma climbs_border:
  assumes "xs \<noteq> []" and "hash_leaves X xs" and "0 < m" and "m < length xs" and "length xs \<le> 2 ^ b" and "2 ^ b < 2 * length xs"
    and "(p + 1) * 2 ^ trailing_zeros m = q * 2 ^ b + m"
  shows "climbs X xs m p ((q * 2 ^ b + length xs - 1) div 2 ^ trailing_zeros m) q q"
  using assms
proof (induction xs arbitrary: m b q rule: tree_induct)
  case (node a ls rs)
  have l: "length ls = 2 ^ a" "length rs \<le> 2 ^ a" "0 < length rs" using node(1) joins_split(3) [OF node(1)] by (simp_all add: joins_def)
  have b: "b = Suc a"
    by (rule ceil_power_unique [of "length (ls @ rs)"]) (use node(7,8) l in simp_all)
  have h: "hash_leaves X ls" "hash_leaves X rs" using node(4) by simp_all
  have r: "hash_bytes (merkle_root X ls)" "hash_bytes (merkle_root X rs)" using h root_hash_bytes joins_split(4,5) [OF node(1)] by blast+
  let ?s = "q * 2 ^ b + length (ls @ rs) - 1" and ?t = "trailing_zeros m"
  show ?case
  proof (cases "m \<le> length ls")
    case True
    obtain k where k: "length rs = Suc k" using l(3) by (cases "length rs") auto
    have s: "?s = (2 * q + 1) * 2 ^ a + k" using l(1) b k by (simp add: algebra_simps)
    have sd: "?s div 2 ^ a = 2 * q + 1" unfolding s by (subst div_mult_self3) (use l(2) k in simp_all)
    have le: "(2 * q + 1) * 2 ^ a \<le> ?s" unfolding s by simp
    have "climbs X ls m p (?s div 2 ^ ?t) (2 * q) (?s div 2 ^ a)"
      by (rule climbs_complete [OF l(1) h(1)]) (use node(5,9) True l b le in \<open>simp_all add: algebra_simps\<close>)
    from climbs_left [OF node(1) True this r(2)] sd show ?thesis by simp
  next
    case False
    then obtain k where k: "m = length ls + k" "0 < k" using less_imp_add_positive not_le by metis
    have kl: "k < length rs" using k node(6) by simp
    obtain c where c: "length rs \<le> 2 ^ c" "2 ^ c < 2 * length rs" using l(3) by (rule ceil_power)
    have "(2 :: nat) ^ c < 2 ^ Suc a" using c l by simp
    then have "c < Suc a" by (rule power_less_exp)
    then have "c \<le> a" by simp
    then obtain u where u: "a = c + u" using le_Suc_ex by blast
    let ?q = "2 ^ u * (2 * q + 1)"
    have o: "?q * 2 ^ c = q * 2 ^ b + 2 ^ a" using b u by (simp add: power_add algebra_simps)
    have t: "trailing_zeros k = ?t" using trailing_zeros_add [OF k(2), of a] kl k(1) l by simp
    have s: "?q * 2 ^ c + length rs - 1 = ?s" using o l by simp
    have "climbs X rs k p ((?q * 2 ^ c + length rs - 1) div 2 ^ trailing_zeros k) ?q ?q"
      by (rule node(3)) (use h k kl c o t l node(9) in simp_all)
    then have e: "climbs X rs (m - length ls) p (?s div 2 ^ ?t) ?q ?q" unfolding s t using k(1) by simp
    have "climbs X (ls @ rs) m p (?s div 2 ^ ?t) ((2 * q + 1) div 2) ((2 * q + 1) div 2)"
      by (rule climbs_right [OF node(1) _ node(6) e])
        (use False r(1) in \<open>simp_all only: not_le cstep_right_border even_plus_one_iff dvd_triv_left not_True_eq_False not_False_eq_True\<close>)
    then show ?thesis by simp
  qed
qed simp

lemma subproof_power:
  assumes "xs \<noteq> []" and "m \<le> length xs" and "m = 2 ^ k"
  shows "merkle_subproof X xs m False = merkle_root X (take m xs) # merkle_subproof X xs m True"
  using assms(1,2)
proof (induction xs rule: tree_induct)
  case (leaf x)
  then have m: "m = length [x]" using assms(3) by (simp add: le_Suc_eq)
  show ?case unfolding m subproof_simps(1,2) by simp
next
  case (node a ls rs)
  show ?case
  proof (cases "m \<le> length ls")
    case True
    then show ?thesis using node by (simp add: subproof_simps(3) [OF node(1)])
  next
    case False
    then obtain r where r: "m = 2 ^ a + r" "0 < r" using node(1) less_imp_add_positive unfolding joins_def not_le by metis
    show ?thesis
    proof (cases "m = length (ls @ rs)")
      case True
      then have m: "m = length (ls @ rs)" by simp
      show ?thesis unfolding m subproof_simps(1,2) by simp
    next
      case False
      then have "r < 2 ^ a" using r node(1,4) by (simp add: joins_def)
      then show ?thesis using power_of_two_sum [OF r(2), of a k] r assms(3) by simp
    qed
  qed
qed

lemma subproof_no_power:
  assumes "xs \<noteq> []" and "m < length xs" and "\<not> (\<exists>k. m = 2 ^ k)" and "0 < m"
  shows "merkle_subproof X xs m True = merkle_subproof X xs m False"
  using assms(1,2)
proof (induction xs rule: tree_induct)
  case (node a ls rs)
  show ?case
  proof (cases "m \<le> length ls")
    case True
    then have "m < length ls" using node(1) assms(3) by (auto simp: joins_def le_less)
    then show ?thesis using node(2) True by (simp add: subproof_simps(3) [OF node(1)])
  next
    case False
    then show ?thesis using node(4) by (simp add: subproof_simps(4) [OF node(1)] not_le)
  qed
qed (use assms(4) in simp)

lemma subproof_length:
  "xs \<noteq> [] \<Longrightarrow> length xs \<le> 2 ^ b \<Longrightarrow> 0 < m \<Longrightarrow> m \<le> length xs \<Longrightarrow> length (merkle_subproof X xs m False) \<le> Suc b"
proof (induction xs arbitrary: m b rule: tree_induct)
  case (leaf x)
  then have "m = length [x]" by simp
  then show ?case by (simp only: subproof_simps) simp
next
  case (node a ls rs)
  have l: "length ls = 2 ^ a" "length rs \<le> 2 ^ a" "0 < length rs" using node(1) joins_split(3) [OF node(1)] by (simp_all add: joins_def)
  then have "(2 :: nat) ^ a < 2 ^ b" using node(4) unfolding length_append by linarith
  then have a: "a < b" by (rule power_less_exp)
  consider "m \<le> length ls" | "length ls < m" "m < length (ls @ rs)" | "m = length (ls @ rs)" using node(6) by linarith
  then show ?case
  proof cases
    case 1
    then show ?thesis using node(2) [of a m] l(1) node(5) a by (simp add: subproof_simps(3) [OF node(1)])
  next
    case 2
    then have "m - length ls \<le> length rs" "0 < m - length ls" by simp_all
    with 2 show ?thesis using node(3) [of a "m - length ls"] l(2) a by (simp add: subproof_simps(4) [OF node(1)])
  next
    case 3
    then show ?thesis by (simp only: subproof_simps) simp
  qed
qed

lemma subproof_hash_bytes:
  "xs \<noteq> [] \<Longrightarrow> hash_leaves X xs \<Longrightarrow> 0 < m \<Longrightarrow> m \<le> length xs \<Longrightarrow> list_all hash_bytes (merkle_subproof X xs m False)"
proof (induction xs arbitrary: m rule: tree_induct)
  case (leaf x)
  then have m: "m = length [x]" by simp
  show ?case using leaf root_hash_bytes [of "[x]" X] unfolding m by (simp only: subproof_simps) simp
next
  case (node a ls rs)
  have r: "hash_bytes (merkle_root X ls)" "hash_bytes (merkle_root X rs)" "hash_bytes (merkle_root X (ls @ rs))"
    using node(4) root_hash_bytes [of _ X] joins_split(4,5) [OF node(1)] by (auto simp del: merkle_root_simps)
  consider "m \<le> length ls" | "length ls < m" "m < length (ls @ rs)" | "m = length (ls @ rs)" using node(6) by linarith
  then show ?case
  proof cases
    case 1
    then show ?thesis using node(2,4,5) r by (simp add: subproof_simps(3) [OF node(1)])
  next
    case 2
    then show ?thesis using node(3) [of "m - length ls"] node(4) r by (simp add: subproof_simps(4) [OF node(1)])
  next
    case 3
    then show ?thesis using r(3) by (simp only: subproof_simps) simp
  qed
qed

section \<open>Consistency\<close>

text \<open>The start of the loop: the position of the last complete block of the prefix.\<close>

lemma start_positions:
  assumes "0 < m"
  shows "(drop_bit (trailing_zeros m) m - 1 + 1) * 2 ^ trailing_zeros m = m" "drop_bit (trailing_zeros m) m = 1 \<longleftrightarrow> (\<exists>k. m = 2 ^ k)"
proof -
  have d: "2 ^ trailing_zeros m dvd m" using assms by (rule trailing_zeros_dvd)
  then have q: "drop_bit (trailing_zeros m) m * 2 ^ trailing_zeros m = m" by (simp add: drop_bit_eq_div)
  then have "drop_bit (trailing_zeros m) m \<noteq> 0" using assms by (metis mult_zero_left not_less_iff_gr_or_eq)
  with q show "(drop_bit (trailing_zeros m) m - 1 + 1) * 2 ^ trailing_zeros m = m" by simp
  show "drop_bit (trailing_zeros m) m = 1 \<longleftrightarrow> (\<exists>k. m = 2 ^ k)"
  proof
    assume "drop_bit (trailing_zeros m) m = 1"
    with q show "\<exists>k. m = 2 ^ k" by (metis mult_1)
  next
    assume "\<exists>k. m = 2 ^ k"
    then obtain k where "m = 2 ^ k" by blast
    then show "drop_bit (trailing_zeros m) m = 1" by (simp add: trailing_zeros_pow drop_bit_eq_div)
  qed
qed

text \<open>The honest run of the second verification loop on a prefix of \<open>m\<close> leaves.\<close>

lemma honest_run:
  assumes "hash_leaves X xs" and "0 < m" and "m < length xs"
  obtains seed rest where "merkle_subproof X xs m False = seed # rest" and "hash_bytes seed"
    and "foldR (consistency_step X) (drop_bit (trailing_zeros m) m - 1, drop_bit (trailing_zeros m) (length xs - 1), seed, seed) rest =
      Inr (0, 0, merkle_root X (take m xs), merkle_root X xs)"
    and "merkle_subproof X xs m True = (if \<exists>k. m = 2 ^ k then rest else seed # rest)"
    and "(\<exists>k. m = 2 ^ k) \<Longrightarrow> seed = merkle_root X (take m xs)"
proof -
  have n: "xs \<noteq> []" "0 < length xs" using assms(3) by auto
  obtain b where b: "length xs \<le> 2 ^ b" "2 ^ b < 2 * length xs" using n(2) by (rule ceil_power)
  have "climbs X xs m (drop_bit (trailing_zeros m) m - 1) ((0 * 2 ^ b + length xs - 1) div 2 ^ trailing_zeros m) 0 0"
    by (rule climbs_border [OF n(1) assms b]) (simp only: start_positions(1) [OF assms(2)] mult_zero_left add_0)
  then obtain seed rest where r: "merkle_subproof X xs m False = seed # rest"
    "foldR (consistency_step X) (drop_bit (trailing_zeros m) m - 1, drop_bit (trailing_zeros m) (length xs - 1), seed, seed) rest =
      Inr (0, 0, merkle_root X (take m xs), merkle_root X xs)"
    unfolding climbs_def by (auto simp: drop_bit_eq_div)
  have "hash_bytes seed" using subproof_hash_bytes [OF n(1) assms(1,2)] assms(3) r(1) by simp
  moreover have "merkle_subproof X xs m True = (if \<exists>k. m = 2 ^ k then rest else seed # rest)"
    "(\<exists>k. m = 2 ^ k) \<Longrightarrow> seed = merkle_root X (take m xs)"
    using subproof_power [OF n(1) less_imp_le [OF assms(3)], of _ X] subproof_no_power [OF n(1) assms(3) _ assms(2), of X] r(1) by auto
  ultimately show thesis using that r by blast
qed

text \<open>The second accumulator runs through the inclusion loop.\<close>

lemma consistency_projects:
  "foldR (consistency_step X) (f, s, c, d) p = Inr (f', s', c', d') \<Longrightarrow> foldR (inclusion_step X) (f, s, d) p = Inr (f', s', d')"
proof (induction p arbitrary: f s c d)
  case (Cons n p)
  from Cons.prems obtain g u a b where st: "consistency_step X (f, s, c, d) n = Inr (g, u, a, b)"
    and r: "foldR (consistency_step X) (g, u, a, b) p = Inr (f', s', c', d')" by (auto simp: bindR_eq_Inr)
  from st have "inclusion_step X (f, s, d) n = Inr (g, u, b)"
    by (auto simp: consistency_step_def inclusion_step_def split: if_splits prod.splits)
  with Cons.IH [OF r] show ?case by simp
qed simp

lemma verify_consistency_iff:
  assumes "m < n"
  shows "verify_merkle_consistency X m r n r' p = Inr u \<longleftrightarrow>
    hash_bytes r \<and> hash_bytes r' \<and> 0 < m \<and> p \<noteq> [] \<and> length p \<le> MAX_HEAD_PROOF_NODES_V1 \<and>
    (\<exists>i l seed rest f. consistency_start (nat m) (nat n) r p = Inr (i, l, seed, rest) \<and>
       foldR (consistency_step X) (i, l, seed, seed) rest = Inr (f, 0, r, r'))"
  using assms unfolding verify_merkle_consistency_def if_raise_eq_Inr by (auto simp: not_less not_le bindR_eq_Inr split: if_splits)

lemma start_accepts:
  assumes "consistency_start m n r p = Inr (i, l, seed, rest)" and "0 < m" and "hash_bytes r" and "p \<noteq> []"
  shows "i = drop_bit (trailing_zeros m) m - 1" "l = drop_bit (trailing_zeros m) (n - 1)" "hash_bytes seed"
    "p = (if \<exists>k. m = 2 ^ k then rest else seed # rest)" "(\<exists>k. m = 2 ^ k) \<Longrightarrow> seed = r"
proof -
  note s = assms(1) [unfolded consistency_start_def Let_def start_positions(2) [OF assms(2)]]
  show "i = drop_bit (trailing_zeros m) m - 1" "l = drop_bit (trailing_zeros m) (n - 1)" "hash_bytes seed"
    "p = (if \<exists>k. m = 2 ^ k then rest else seed # rest)" "(\<exists>k. m = 2 ^ k) \<Longrightarrow> seed = r"
    using s assms(3,4) by (auto split: if_splits)
qed

text \<open>The messages that are hashed for the inner nodes of a tree.\<close>

function node_messages :: "externals \<Rightarrow> bytes list \<Rightarrow> bytes list" where
  "node_messages X xs =
     (if length xs < 2 then []
      else let k = largest_power_of_two_below (length xs) in
        (MERKLE_NODE_PREFIX @ merkle_root X (take k xs) @ merkle_root X (drop k xs)) # node_messages X (take k xs) @ node_messages X (drop k xs))"
  by pat_completeness auto

termination node_messages
  by (relation "measure (\<lambda>(X, xs). length xs)") (auto dest: split_bounds simp: not_less)

declare node_messages.simps [simp del]

lemma node_messages_joins:
  assumes "joins a ls rs"
  shows "node_messages X (ls @ rs) = (MERKLE_NODE_PREFIX @ merkle_root X ls @ merkle_root X rs) # node_messages X ls @ node_messages X rs"
  using joins_split [OF assms] by (simp add: node_messages.simps [of X "ls @ rs"] Let_def)

lemma root_inject:
  assumes "xs \<noteq> []" and "length ys = length xs" and "merkle_root X xs = merkle_root X ys" and "hash_leaves X xs" and "hash_leaves X ys"
    and "inj_on (sha256 X) (set (node_messages X xs) \<union> set (node_messages X ys))"
  shows "xs = ys"
  using assms
proof (induction xs arbitrary: ys rule: tree_induct)
  case (leaf x)
  then show ?case by (auto simp: length_Suc_conv)
next
  case (node a ls rs)
  let ?l = "take (length ls) ys" and ?r = "drop (length ls) ys"
  let ?m = "MERKLE_NODE_PREFIX @ merkle_root X ls @ merkle_root X rs" and ?m' = "MERKLE_NODE_PREFIX @ merkle_root X ?l @ merkle_root X ?r"
  have y: "?l @ ?r = ys" and n: "length ?l = length ls" "length ?r = length rs" using node(4) by simp_all
  have j: "joins a ?l ?r" using node(1) n unfolding joins_def by (metis length_0_conv)
  have h: "hash_leaves X ?l" "hash_leaves X ?r" "hash_leaves X ls" "hash_leaves X rs"
    using node(6,7) y by (metis hash_leaves_append)+
  have i: "inj_on (sha256 X) (set (?m # node_messages X ls @ node_messages X rs) \<union> set (?m' # node_messages X ?l @ node_messages X ?r))"
    using node(8) node_messages_joins [OF node(1), of X] node_messages_joins [OF j, of X] unfolding y by simp
  have "sha256 X ?m = sha256 X ?m'"
    using node(5) merkle_root_simps(2) [OF node(1), of X] merkle_root_simps(2) [OF j, of X] unfolding y by (simp add: merkle_node_hash_def)
  then have "?m = ?m'" by (rule inj_onD [OF i]) simp_all
  moreover have "length (merkle_root X ls) = length (merkle_root X ?l)"
    using root_hash_bytes h joins_split(4) [OF node(1)] joins_split(4) [OF j] unfolding hash_bytes_def by metis
  ultimately have r: "merkle_root X ls = merkle_root X ?l" "merkle_root X rs = merkle_root X ?r" by simp_all
  have "ls = ?l" by (rule node(2) [OF n(1) r(1) h(3,1)], rule inj_on_subset [OF i]) auto
  moreover have "rs = ?r" by (rule node(3) [OF n(2) r(2) h(4,2)], rule inj_on_subset [OF i]) auto
  ultimately show ?case using y by metis
qed

section \<open>Properties\<close>

lemma consistency_path_verifies:
  assumes "hash_leaves X xs" and "0 < m" and "m \<le> length xs" and "length xs \<le> 2 ^ 63"
  shows "verify_merkle_consistency X (int m) (merkle_root X (take m xs)) (int (length xs)) (merkle_root X xs)
    (merkle_subproof X xs m True) = Inr ()"
proof -
  have n: "xs \<noteq> []" "take m xs \<noteq> []" using assms(2,3) by auto
  have "hash_leaves X (take m xs)" using assms(1) by (metis append_take_drop_id hash_leaves_append)
  then have h: "hash_bytes (merkle_root X (take m xs))" "hash_bytes (merkle_root X xs)" using root_hash_bytes n assms(1) by blast+
  show "verify_merkle_consistency X (int m) (merkle_root X (take m xs)) (int (length xs)) (merkle_root X xs) (merkle_subproof X xs m True) = Inr ()"
  proof (cases "m = length xs")
    case True
    then show ?thesis using h assms(2) unfolding True subproof_simps(1) by (simp add: verify_merkle_consistency_def)
  next
    case False
    with assms(3) have l: "m < length xs" by simp
    obtain seed rest where r: "merkle_subproof X xs m False = seed # rest" "hash_bytes seed"
      "foldR (consistency_step X) (drop_bit (trailing_zeros m) m - 1, drop_bit (trailing_zeros m) (length xs - 1), seed, seed) rest =
        Inr (0, 0, merkle_root X (take m xs), merkle_root X xs)"
      "merkle_subproof X xs m True = (if \<exists>k. m = 2 ^ k then rest else seed # rest)"
      "(\<exists>k. m = 2 ^ k) \<Longrightarrow> seed = merkle_root X (take m xs)"
      by (rule honest_run [OF assms(1,2) l]) (rule that)
    have "length (seed # rest) \<le> 64" using subproof_length [OF n(1) assms(4,2,3), of X] r(1) by simp
    then have len: "length (merkle_subproof X xs m True) \<le> MAX_HEAD_PROOF_NODES_V1" unfolding r(4) by (simp add: MAX_HEAD_PROOF_NODES_V1_def)
    have ne: "merkle_subproof X xs m True \<noteq> []" using l assms(2) by (simp add: merkle_subproof.simps [of X xs m] Let_def)
    have "consistency_start m (length xs) (merkle_root X (take m xs)) (merkle_subproof X xs m True) =
        Inr (drop_bit (trailing_zeros m) m - 1, drop_bit (trailing_zeros m) (length xs - 1), seed, rest)"
      unfolding consistency_start_def Let_def start_positions(2) [OF assms(2)] using r(2,4,5) by auto
    then show ?thesis using verify_consistency_iff [of "int m" "int (length xs)"] l assms(2) h len ne r(3) by auto
  qed
qed

text \<open>
  C34: the consistency proof between a nonempty prefix and a tree of at most \<open>2 ^ 63\<close> leaves is computed and is accepted for the
  roots of the two.
\<close>

theorem consistency_complete:
  assumes "hash_leaves X xs" and "0 < m" and "m \<le> length xs" and "length xs \<le> 2 ^ 63"
  shows "\<exists>p. merkle_consistency_proof X xs (int m) = Inr p \<and>
    verify_merkle_consistency X (int m) (merkle_root X (take m xs)) (int (length xs)) (merkle_root X xs) p = Inr ()"
  using consistency_path_verifies [OF assms] assms(2,3) by (simp add: merkle_consistency_proof_def)

text \<open>The node messages that \<open>verify_merkle_consistency\<close> hashes towards the second root.\<close>

definition consistency_messages :: "externals \<Rightarrow> int \<Rightarrow> bytes \<Rightarrow> int \<Rightarrow> bytes list \<Rightarrow> bytes list" where
  "consistency_messages X m r n p =
     (case consistency_start (nat m) (nat n) r p of
        Inr (i, l, seed, rest) \<Rightarrow> if m < n then climb_messages X i l seed rest else []
      | Inl _ \<Rightarrow> [])"

lemma consistency_determined:
  assumes "\<And>m. length (sha256 X m) = 32"
    and "verify_merkle_consistency X m r n root p = Inr u" and "verify_merkle_consistency X m r' n root p' = Inr u'"
    and "inj_on (sha256 X) (set (consistency_messages X m r n p) \<union> set (consistency_messages X m r' n p'))"
  shows "r = r' \<and> p = p'"
proof (cases "m < n")
  case False
  then show ?thesis using assms(2,3) by (auto simp: verify_merkle_consistency_def split: if_splits)
next
  case True
  from assms(2) [unfolded verify_consistency_iff [OF True]] obtain i l seed rest f where v: "hash_bytes r" "0 < m" "p \<noteq> []"
    "consistency_start (nat m) (nat n) r p = Inr (i, l, seed, rest)"
    "foldR (consistency_step X) (i, l, seed, seed) rest = Inr (f, 0, r, root)" by blast
  from assms(3) [unfolded verify_consistency_iff [OF True]] obtain i' l' seed' rest' f' where w: "hash_bytes r'" "p' \<noteq> []"
    "consistency_start (nat m) (nat n) r' p' = Inr (i', l', seed', rest')"
    "foldR (consistency_step X) (i', l', seed', seed') rest' = Inr (f', 0, r', root)" by blast
  have m: "0 < nat m" using v(2) by simp
  note s = start_accepts [OF v(4) m v(1,3)] and t = start_accepts [OF w(3) m w(1,2)]
  have e: "i' = i" "l' = l" unfolding s(1,2) t(1,2) by simp_all
  have "seed = seed' \<and> rest = rest'"
    by (rule climb_inject [OF consistency_projects [OF v(5)] consistency_projects [OF w(4) [unfolded e]] assms(1) s(3) t(3)])
      (use assms(4) v(4) w(3) True e in \<open>simp add: consistency_messages_def\<close>)
  then show ?thesis using v(5) w(4) e s(4) t(4) by auto
qed

text \<open>
  C31: accepted consistency proofs are append-only: when the proof between the roots of \<open>ys\<close> and \<open>xs\<close> is accepted, \<open>ys\<close> is a
  prefix of \<open>xs\<close>, provided that SHA-256 does not collide on the messages of the two verifications (with this proof
  and with the honest one) and on the node messages of the two trees.
\<close>

theorem consistency_append_only:
  assumes "hash_leaves X xs" and "hash_leaves X ys" and "length xs \<le> 2 ^ 63"
    and "verify_merkle_consistency X (int (length ys)) (merkle_root X ys) (int (length xs)) (merkle_root X xs) p = Inr ()"
    and "inj_on (sha256 X) (set (consistency_messages X (int (length ys)) (merkle_root X ys) (int (length xs)) p) \<union>
      set (consistency_messages X (int (length ys)) (merkle_root X (take (length ys) xs)) (int (length xs)) (merkle_subproof X xs (length ys) True)))"
    and "inj_on (sha256 X) (set (node_messages X ys) \<union> set (node_messages X (take (length ys) xs)))"
  shows "ys = take (length ys) xs \<and> length ys \<le> length xs \<and> merkle_consistency_proof X xs (int (length ys)) = Inr p"
proof -
  let ?m = "length ys"
  have m: "0 < ?m" "?m \<le> length xs" using assms(4) by (auto simp: verify_merkle_consistency_def split: if_splits)
  have n: "ys \<noteq> []" "hash_leaves X (take ?m xs)" using m(1) assms(1) by (simp_all, metis append_take_drop_id hash_leaves_append)
  have "length (sha256 X q) = 32" for q using assms(1) by (simp add: hash_leaves_def)
  from consistency_determined [OF this assms(4) consistency_path_verifies [OF assms(1) m assms(3)] assms(5)]
  have r: "merkle_root X ys = merkle_root X (take ?m xs)" "p = merkle_subproof X xs ?m True" by blast+
  have "ys = take ?m xs" by (rule root_inject [OF n(1) _ r(1) assms(2) n(2) assms(6)]) (use m(2) in simp)
  with m r(2) show ?thesis by (simp add: merkle_consistency_proof_def)
qed

end
