(* ===== verification/Merkle_Frontier.thy ===== *)
theory Merkle_Frontier
  imports Merkle_Consistency
begin

text \<open>
  The append state of \<open>src/etzio/kernel/merkle_frontier_v1.py\<close>: a tree is kept as the roots of its complete subtrees. The locale
  \<open>append_log\<close> is the contract of a log that hands out proofs when it grows; the append state meets it, with the
  trees of \<open>Merkle_V1\<close> as the reference.
\<close>

unbundle bit_operations_syntax

section \<open>The interface of an append-only log\<close>

text \<open>
  \<open>rep xs st\<close>: the state \<open>st\<close> stands for the leaves \<open>xs\<close>. Appending returns the successor, a proof for the new leaf and a proof that
  the predecessor is a prefix; both are accepted for the commitments of the lists.
\<close>

locale append_log =
  fixes rep :: "'a list \<Rightarrow> 's \<Rightarrow> bool" and app :: "'s \<Rightarrow> 'a \<Rightarrow> 'e + 's \<times> 'p \<times> 'q" and leaf_ok :: "'a \<Rightarrow> bool" and limit :: nat
    and head :: "'s \<Rightarrow> 'h" and commit :: "'a list \<Rightarrow> 'h"
    and included :: "'a \<Rightarrow> nat \<Rightarrow> nat \<Rightarrow> 'p \<Rightarrow> 'h \<Rightarrow> bool" and extends :: "nat \<Rightarrow> 'h \<Rightarrow> nat \<Rightarrow> 'h \<Rightarrow> 'q \<Rightarrow> bool"
  assumes rep_head: "rep xs st \<Longrightarrow> head st = commit xs"
    and app_grows: "rep xs st \<Longrightarrow> leaf_ok x \<Longrightarrow> length xs < limit \<Longrightarrow> \<exists>st' p q. app st x = Inr (st', p, q) \<and> rep (xs @ [x]) st'"
    and app_proofs: "rep xs st \<Longrightarrow> leaf_ok x \<Longrightarrow> length xs < limit \<Longrightarrow> app st x = Inr (st', p, q) \<Longrightarrow>
      included x (length xs) (Suc (length xs)) p (commit (xs @ [x])) \<and>
      extends (length xs) (commit xs) (Suc (length xs)) (commit (xs @ [x])) q"
begin

text \<open>A sequence of appends never gets stuck below the limit and commits to all the leaves in order.\<close>

lemma append_all:
  assumes "rep xs st" and "list_all leaf_ok ys" and "length xs + length ys \<le> limit"
  shows "\<exists>st'. foldR (\<lambda>st x. bindR (app st x) (\<lambda>r. Inr (fst r))) st ys = Inr st' \<and> rep (xs @ ys) st' \<and> head st' = commit (xs @ ys)"
  using assms
proof (induction ys arbitrary: xs st)
  case Nil
  then show ?case by (simp add: rep_head)
next
  case (Cons y ys)
  then obtain st1 p q where s: "app st y = Inr (st1, p, q)" "rep (xs @ [y]) st1"
    using app_grows [of xs st y] by auto
  have "\<exists>st'. foldR (\<lambda>st x. bindR (app st x) (\<lambda>r. Inr (fst r))) st1 ys = Inr st' \<and> rep ((xs @ [y]) @ ys) st' \<and> head st' = commit ((xs @ [y]) @ ys)"
    by (rule Cons.IH) (use Cons.prems s(2) in simp_all)
  with s(1) show ?case by simp
qed

text \<open>Whatever an append returns is accepted for the heads of the two states.\<close>

lemma append_accepted:
  assumes "rep xs st" and "leaf_ok x" and "length xs < limit" and "app st x = Inr (st', p, q)"
  shows "rep (xs @ [x]) st' \<and> included x (length xs) (Suc (length xs)) p (head st') \<and> extends (length xs) (head st) (Suc (length xs)) (head st') q"
proof -
  have "rep (xs @ [x]) st'" using app_grows [OF assms(1-3)] assms(4) by auto
  with rep_head app_proofs [OF assms] assms(1) show ?thesis by simp
qed

end

section \<open>The append state\<close>

record merkle_append_state =
  ma_tree_size :: int
  ma_peaks :: "bytes list"

text \<open>\<open>int.bit_count\<close>\<close>

fun bit_count :: "nat \<Rightarrow> nat" where
  "bit_count n = (if n = 0 then 0 else n mod 2 + bit_count (n div 2))"

declare bit_count.simps [simp del]

definition merkle_append_state_new :: "int \<Rightarrow> bytes list \<Rightarrow> merkle_append_state head_result" where
  "merkle_append_state_new tree_size peaks =
     (if \<not> (1 \<le> tree_size \<and> tree_size \<le> MAX_HEAD_TREE_SIZE_V1)
      then Inl (MerkleValueError ''Merkle append state requires a bounded positive tree size'')
      else if length peaks \<noteq> bit_count (nat tree_size) \<or> \<not> list_all hash_bytes peaks
      then Inl (MerkleValueError ''Merkle append peaks must exactly cover the tree's binary decomposition'')
      else Inr \<lparr>ma_tree_size = tree_size, ma_peaks = peaks\<rparr>)"

text \<open>The loop of \<open>root_hash\<close> over the peaks but the last, from the right.\<close>

definition peaks_root :: "externals \<Rightarrow> bytes list \<Rightarrow> bytes" where
  "peaks_root X peaks = foldl (\<lambda>root left. merkle_node_hash X left root) (last peaks) (rev (butlast peaks))"

definition append_root_hash :: "externals \<Rightarrow> merkle_append_state \<Rightarrow> bytes" where
  "append_root_hash X st = peaks_root X (ma_peaks st)"

text \<open>\<open>while size & 1: carry = _node(peaks.pop(), carry); size >>= 1\<close>\<close>

function carry_peaks :: "externals \<Rightarrow> nat \<Rightarrow> bytes list \<Rightarrow> bytes \<Rightarrow> bytes list" where
  "carry_peaks X n peaks carry =
     (if odd n then carry_peaks X (n div 2) (butlast peaks) (merkle_node_hash X (last peaks) carry) else peaks @ [carry])"
  by pat_completeness auto

termination carry_peaks by (relation "measure (\<lambda>(X, n, ps, c). n)") (auto elim: oddE)

declare carry_peaks.simps [simp del]

definition merkle_append ::
  "externals \<Rightarrow> merkle_append_state \<Rightarrow> bytes \<Rightarrow> (merkle_append_state \<times> bytes list \<times> bytes list) head_result" where
  "merkle_append X st leaf_hash =
     (if \<not> hash_bytes leaf_hash then Inl (MerkleValueError ''Merkle append requires one immutable 32-byte leaf hash'')
      else if ma_tree_size st = MAX_HEAD_TREE_SIZE_V1 then Inl (MerkleValueError ''Merkle append would exceed the tree-size ceiling'')
      else let n = nat (ma_tree_size st); inclusion = rev (ma_peaks st);
        consistency = (if n AND (n - 1) = 0 then [leaf_hash]
          else last (ma_peaks st) # leaf_hash # rev (butlast (ma_peaks st))) in
        bindR (merkle_append_state_new (ma_tree_size st + 1) (carry_peaks X n (ma_peaks st) leaf_hash)) (\<lambda>successor.
          Inr (successor, inclusion, consistency)))"

definition merkle_from_last_leaf :: "externals \<Rightarrow> int \<Rightarrow> bytes \<Rightarrow> bytes list \<Rightarrow> bytes \<Rightarrow> merkle_append_state head_result" where
  "merkle_from_last_leaf X tree_size leaf_hash proof_nodes root_hash =
     (if \<not> (1 \<le> tree_size \<and> tree_size \<le> MAX_HEAD_TREE_SIZE_V1)
      then Inl (MerkleValueError ''Merkle reconstruction requires a bounded positive tree size'')
      else bindR (verify_merkle_inclusion X leaf_hash (tree_size - 1) tree_size proof_nodes root_hash) (\<lambda>_.
        let t = trailing_zeros (nat tree_size);
          rightmost = foldl (\<lambda>r sibling. merkle_node_hash X sibling r) leaf_hash (take t proof_nodes) in
        bindR (merkle_append_state_new tree_size (rev (drop t proof_nodes) @ [rightmost])) (\<lambda>st.
          if append_root_hash X st \<noteq> root_hash
          then Inl (MerkleValueError ''reconstructed Merkle append state differs from its verified root'') else Inr st)))"

section \<open>Peaks\<close>

text \<open>The roots of the complete subtrees of a tree, from the left.\<close>

function peaks_of :: "externals \<Rightarrow> bytes list \<Rightarrow> bytes list" where
  "peaks_of X xs =
     (if xs = [] then [] else if \<exists>k. length xs = 2 ^ k then [merkle_root X xs]
      else merkle_root X (take (largest_power_of_two_below (length xs)) xs) # peaks_of X (drop (largest_power_of_two_below (length xs)) xs))"
  by pat_completeness auto

termination peaks_of
proof (relation "measure (\<lambda>(X, xs). length xs)", goal_cases)
  case (2 X xs)
  have "length xs \<noteq> 1" using 2(2) by (metis power_0)
  with split_lengths [OF 2(1)] have "0 < largest_power_of_two_below (length xs)" "largest_power_of_two_below (length xs) < length xs" by blast+
  then have "length xs - largest_power_of_two_below (length xs) < length xs" by linarith
  then show ?case by simp
qed simp

declare peaks_of.simps [simp del]

lemma peaks_of_simps:
  "peaks_of X [] = []"
  "length xs = 2 ^ k \<Longrightarrow> peaks_of X xs = [merkle_root X xs]"
  "length ls = 2 ^ a \<Longrightarrow> rs \<noteq> [] \<Longrightarrow> length rs < 2 ^ a \<Longrightarrow> peaks_of X (ls @ rs) = merkle_root X ls # peaks_of X rs"
proof -
  show "peaks_of X [] = []" by (simp add: peaks_of.simps)
  show "peaks_of X xs = [merkle_root X xs]" if "length xs = 2 ^ k" using that peaks_of.simps [of X xs] by auto
  assume l: "length ls = 2 ^ a" "rs \<noteq> []" "length rs < 2 ^ a"
  then have "joins a ls rs" by (simp add: joins_def)
  note s = joins_split [OF this]
  have "\<not> (\<exists>k. length (ls @ rs) = 2 ^ k)" using power_of_two_sum [of "length rs" a] l by auto
  then show "peaks_of X (ls @ rs) = merkle_root X ls # peaks_of X rs" using s by (simp add: peaks_of.simps [of X "ls @ rs"])
qed

text \<open>The two shapes of a tree with at least two leaves: complete, or a complete tree followed by a smaller one.\<close>

lemma peaks_induct [consumes 1, case_names complete smaller]:
  assumes "xs \<noteq> []" and "\<And>ys k. length ys = 2 ^ k \<Longrightarrow> P ys"
    and "\<And>a ls rs. length ls = 2 ^ a \<Longrightarrow> rs \<noteq> [] \<Longrightarrow> length rs < 2 ^ a \<Longrightarrow> P rs \<Longrightarrow> P (ls @ rs)"
  shows "P xs"
  using assms(1)
proof (induction xs rule: tree_induct)
  case (leaf x)
  then show ?case using assms(2) [of "[x]" 0] by simp
next
  case (node a ls rs)
  show ?case
  proof (cases "length rs = 2 ^ a")
    case True
    then show ?thesis using node(1) assms(2) [of "ls @ rs" "Suc a"] by (simp add: joins_def)
  next
    case False
    then show ?thesis using node assms(3) [of ls a rs] by (simp add: joins_def)
  qed
qed

lemma peaks_nonempty: "xs \<noteq> [] \<Longrightarrow> peaks_of X xs \<noteq> []"
  by (induction xs rule: peaks_induct) (auto simp: peaks_of_simps)

lemma peaks_root_simps: "peaks_root X [p] = p" "ps \<noteq> [] \<Longrightarrow> peaks_root X (p # ps) = merkle_node_hash X p (peaks_root X ps)"
  by (simp_all add: peaks_root_def)

lemma peaks_root_of: "xs \<noteq> [] \<Longrightarrow> peaks_root X (peaks_of X xs) = merkle_root X xs"
proof (induction xs rule: peaks_induct)
  case (smaller a ls rs)
  then have "joins a ls rs" by (simp add: joins_def)
  with smaller show ?case by (simp add: peaks_of_simps peaks_root_simps peaks_nonempty)
qed (simp add: peaks_of_simps peaks_root_simps)

lemma peaks_hash_bytes: "xs \<noteq> [] \<Longrightarrow> hash_leaves X xs \<Longrightarrow> list_all hash_bytes (peaks_of X xs)"
proof (induction xs rule: peaks_induct)
  case (complete ys k)
  then have "ys \<noteq> []" by auto
  with complete show ?case by (simp add: peaks_of_simps root_hash_bytes)
next
  case (smaller a ls rs)
  then have "ls \<noteq> []" by auto
  with smaller show ?case by (simp add: peaks_of_simps root_hash_bytes)
qed

text \<open>A complete block after a tree whose size is a multiple of twice the block adds one peak.\<close>

lemma peaks_append:
  assumes "length ys = 2 ^ h" and "2 ^ Suc h dvd length xs"
  shows "peaks_of X (xs @ ys) = peaks_of X xs @ [merkle_root X ys]"
proof (cases "xs = []")
  case True
  then show ?thesis using assms(1) by (simp add: peaks_of_simps)
next
  case False
  then show ?thesis using assms(2)
  proof (induction xs rule: peaks_induct)
    case (complete zs k)
    have "(2 :: nat) ^ Suc h \<le> 2 ^ k" using complete by (metis dvd_imp_le zero_less_numeral zero_less_power)
    moreover have "(2 :: nat) ^ h < 2 ^ Suc h" by simp
    ultimately have "length ys < 2 ^ k" using assms(1) by linarith
    moreover have "ys \<noteq> []" using assms(1) by auto
    ultimately show ?case using complete(1) assms(1) by (simp add: peaks_of_simps)
  next
    case (smaller a ls rs)
    have n: "2 ^ a + length rs < 2 ^ Suc a" "2 ^ Suc h \<le> 2 ^ a + length rs" using smaller by (simp_all add: dvd_imp_le)
    then have "(2 :: nat) ^ h < 2 ^ a" unfolding power_Suc by linarith
    then have a: "2 ^ Suc h dvd (2 :: nat) ^ a" by (rule power_dvd_less)
    with smaller(1,5) have r: "2 ^ Suc h dvd length rs" by (metis dvd_add_right_iff length_append)
    with a smaller(3) have "2 ^ Suc h \<le> 2 ^ a - length rs" by (intro dvd_imp_le) (auto intro: dvd_diff_nat)
    then have "length (rs @ ys) < 2 ^ a" using assms(1) smaller(3) by simp
    with smaller r show ?case by (simp add: peaks_of_simps)
  qed
qed

lemma odd_block:
  assumes "length xs = (2 * d + 1) * 2 ^ h"
  obtains us zs where "xs = us @ zs" and "length us = d * 2 ^ Suc h" and "length zs = 2 ^ h"
  using that [of "take (d * 2 ^ Suc h) xs" "drop (d * 2 ^ Suc h) xs"] assms by (simp add: algebra_simps)

lemma carry_correct:
  assumes "length xs = c * 2 ^ h" and "length ys = 2 ^ h"
  shows "carry_peaks X c (peaks_of X xs) (merkle_root X ys) = peaks_of X (xs @ ys)"
  using assms
proof (induction c arbitrary: h xs ys rule: less_induct)
  case (less c)
  show ?case
  proof (cases "even c")
    case True
    then have "2 ^ Suc h dvd length xs" using less.prems(1) by (auto elim!: evenE)
    with True less.prems(2) show ?thesis by (simp add: carry_peaks.simps peaks_append)
  next
    case False
    then obtain d where c: "c = 2 * d + 1" by (rule oddE)
    then obtain us zs where x: "xs = us @ zs" "length us = d * 2 ^ Suc h" "length zs = 2 ^ h"
      using odd_block less.prems(1) by metis
    have p: "peaks_of X xs = peaks_of X us @ [merkle_root X zs]" unfolding x(1) by (rule peaks_append [OF x(3)]) (simp add: x(2))
    have j: "joins h zs ys" using x(3) less.prems(2) by (auto simp: joins_def)
    have "carry_peaks X d (peaks_of X us) (merkle_root X (zs @ ys)) = peaks_of X (us @ (zs @ ys))"
      by (rule less.IH [of d us "Suc h"]) (use c x less.prems(2) in simp_all)
    then show ?thesis using j unfolding c p by (simp add: carry_peaks.simps [of X "Suc (2 * d)"] x(1))
  qed
qed

lemma peaks_length: "length xs = c * 2 ^ h \<Longrightarrow> length (peaks_of X xs) = bit_count c"
proof (induction c arbitrary: h xs rule: less_induct)
  case (less c)
  show ?case
  proof (cases "even c")
    case True
    then obtain d where c: "c = 2 * d" by blast
    show ?thesis
    proof (cases "d = 0")
      case True
      then show ?thesis using c less.prems by (simp add: peaks_of_simps bit_count.simps)
    next
      case False
      then show ?thesis using less.IH [of d xs "Suc h"] less.prems c by (simp add: bit_count.simps [of "2 * d"])
    qed
  next
    case False
    then obtain d where c: "c = 2 * d + 1" by (rule oddE)
    then obtain us zs where x: "xs = us @ zs" "length us = d * 2 ^ Suc h" "length zs = 2 ^ h"
      using odd_block less.prems by metis
    have "peaks_of X xs = peaks_of X us @ [merkle_root X zs]" unfolding x(1) by (rule peaks_append [OF x(3)]) (simp add: x(2))
    then show ?thesis using less.IH [of d us "Suc h"] c x(2) by (simp add: bit_count.simps [of "Suc (2 * d)"])
  qed
qed

lemma last_leaf_path: "xs \<noteq> [] \<Longrightarrow> audit_path X (xs @ [x]) (length xs) = rev (peaks_of X xs)"
proof (induction xs rule: peaks_induct)
  case (complete ys k)
  then have "joins k ys [x]" by (simp add: joins_def)
  with complete show ?case by (simp add: peaks_of_simps)
next
  case (smaller a ls rs)
  then have "joins a ls (rs @ [x])" by (simp add: joins_def)
  from audit_path_simps(3) [OF this, of "length (ls @ rs)" X] smaller show ?case by (simp add: peaks_of_simps)
qed

lemma successor_subproof:
  "xs \<noteq> [] \<Longrightarrow> merkle_subproof X (xs @ [x]) (length xs) False = last (peaks_of X xs) # x # rev (butlast (peaks_of X xs))"
proof (induction xs rule: peaks_induct)
  case (complete ys k)
  then have "joins k ys [x]" by (simp add: joins_def)
  from subproof_simps(3) [OF this, of "length ys" X False] show ?case using complete subproof_simps(2) [of X ys] by (simp add: peaks_of_simps)
next
  case (smaller a ls rs)
  then have "joins a ls (rs @ [x])" by (simp add: joins_def)
  from subproof_simps(4) [OF this, of "length (ls @ rs)" X False] smaller show ?case by (simp add: peaks_of_simps peaks_nonempty)
qed

lemma successor_consistency:
  assumes "xs \<noteq> []"
  shows "merkle_subproof X (xs @ [x]) (length xs) True =
    (if \<exists>k. length xs = 2 ^ k then [x] else last (peaks_of X xs) # x # rev (butlast (peaks_of X xs)))"
  using assms
proof (induction xs rule: peaks_induct)
  case (complete ys k)
  then have "joins k ys [x]" by (simp add: joins_def)
  from subproof_simps(3) [OF this, of "length ys" X True] show ?case using complete subproof_simps(1) [of X ys] by auto
next
  case (smaller a ls rs)
  then have j: "joins a ls (rs @ [x])" by (simp add: joins_def)
  have "\<not> (\<exists>k. length (ls @ rs) = 2 ^ k)" using power_of_two_sum [of "length rs" a] smaller(1,2,3) by auto
  then show ?case
    using subproof_simps(4) [OF j, of "length (ls @ rs)" X] successor_subproof [of "ls @ rs" X x] smaller(2) by simp
qed

lemma audit_path_right: "joins a ls rs \<Longrightarrow> audit_path X (ls @ rs) (length ls + k) = audit_path X rs k @ [merkle_root X ls]"
  using audit_path_simps(3) [of a ls rs "length ls + k" X] by simp

lemma last_block_path:
  assumes "length zs = 2 ^ t" and "2 ^ Suc t dvd length us"
  shows "audit_path X (us @ zs) (length us + k) = audit_path X zs k @ rev (peaks_of X us)"
proof (cases "us = []")
  case True
  then show ?thesis by (simp add: peaks_of_simps)
next
  case False
  have z: "zs \<noteq> []" using assms(1) by auto
  show ?thesis using False assms(2)
  proof (induction us rule: peaks_induct)
    case (complete ys k)
    have "(2 :: nat) ^ Suc t \<le> 2 ^ k" using complete by (metis dvd_imp_le zero_less_numeral zero_less_power)
    moreover have "(2 :: nat) ^ t < 2 ^ Suc t" by simp
    ultimately have "length zs \<le> 2 ^ k" using assms(1) by linarith
    then have "joins k ys zs" using complete(1) z by (simp add: joins_def)
    then show ?case using complete(1) by (simp add: audit_path_right peaks_of_simps)
  next
    case (smaller a ls rs)
    have n: "2 ^ a + length rs < 2 ^ Suc a" "2 ^ Suc t \<le> 2 ^ a + length rs" using smaller by (simp_all add: dvd_imp_le)
    then have "(2 :: nat) ^ t < 2 ^ a" unfolding power_Suc by linarith
    then have a: "2 ^ Suc t dvd (2 :: nat) ^ a" by (rule power_dvd_less)
    with smaller(1,5) have r: "2 ^ Suc t dvd length rs" by (metis dvd_add_right_iff length_append)
    with a smaller(3) have "2 ^ Suc t \<le> 2 ^ a - length rs" by (intro dvd_imp_le) (auto intro: dvd_diff_nat)
    then have "length (rs @ zs) < 2 ^ a" using assms(1) smaller(3) by simp
    then have "joins a ls (rs @ zs)" using smaller(1) z by (simp add: joins_def)
    then show ?case using smaller r audit_path_right [of a ls "rs @ zs" X "length rs + k"] by (simp add: peaks_of_simps add.assoc)
  qed
qed

lemma complete_last_path:
  assumes "length zs = 2 ^ t"
  shows "length (audit_path X zs (length zs - 1)) = t \<and>
    foldl (\<lambda>r sibling. merkle_node_hash X sibling r) (last zs) (audit_path X zs (length zs - 1)) = merkle_root X zs"
  using assms
proof (induction t arbitrary: zs)
  case 0
  then show ?case by (auto simp: length_Suc_conv)
next
  case (Suc t)
  let ?ls = "take (2 ^ t) zs" and ?rs = "drop (2 ^ t) zs"
  have x: "?ls @ ?rs = zs" and l: "length ?ls = 2 ^ t" "length ?rs = 2 ^ t" using Suc.prems(1) by simp_all
  have j: "joins t ?ls ?rs" using l by (auto simp: joins_def)
  have n: "?rs \<noteq> []" using joins_split(5) [OF j] .
  have i: "length zs - 1 = length ?ls + (length ?rs - 1)" using Suc.prems l by simp
  have "audit_path X zs (length zs - 1) = audit_path X ?rs (length ?rs - 1) @ [merkle_root X ?ls]"
    using audit_path_right [OF j, of X "length ?rs - 1"] unfolding x i .
  moreover have "last zs = last ?rs" using x n by (metis last_appendR)
  moreover have "merkle_root X zs = merkle_node_hash X (merkle_root X ?ls) (merkle_root X ?rs)" using merkle_root_simps(2) [OF j] x by metis
  ultimately show ?case using Suc.IH [OF l(2)] by simp
qed

section \<open>The append state refines the tree\<close>

definition represents :: "externals \<Rightarrow> bytes list \<Rightarrow> merkle_append_state \<Rightarrow> bool" where
  "represents X xs st \<longleftrightarrow> xs \<noteq> [] \<and> hash_leaves X xs \<and> int (length xs) \<le> MAX_HEAD_TREE_SIZE_V1 \<and>
     st = \<lparr>ma_tree_size = int (length xs), ma_peaks = peaks_of X xs\<rparr>"

lemma represents_new:
  assumes "xs \<noteq> []" and "hash_leaves X xs" and "int (length xs) \<le> MAX_HEAD_TREE_SIZE_V1"
  shows "merkle_append_state_new (int (length xs)) (peaks_of X xs) = Inr \<lparr>ma_tree_size = int (length xs), ma_peaks = peaks_of X xs\<rparr>"
proof -
  have "1 \<le> int (length xs)" using assms(1) by (cases xs) auto
  moreover have "length (peaks_of X xs) = bit_count (length xs)" using peaks_length [of xs "length xs" 0] by simp
  ultimately show ?thesis using assms(3) peaks_hash_bytes [OF assms(1,2)] by (simp add: merkle_append_state_new_def)
qed

lemma append_refines:
  assumes "represents X xs st" and "hash_bytes leaf" and "int (length xs) < MAX_HEAD_TREE_SIZE_V1"
  obtains st' where "merkle_append X st leaf = Inr (st', audit_path X (xs @ [leaf]) (length xs), merkle_subproof X (xs @ [leaf]) (length xs) True)"
    and "represents X (xs @ [leaf]) st'" and "append_root_hash X st' = merkle_root X (xs @ [leaf])"
proof -
  let ?ys = "xs @ [leaf]"
  let ?st = "\<lparr>ma_tree_size = int (length ?ys), ma_peaks = peaks_of X ?ys\<rparr>"
  from assms(1) have x: "xs \<noteq> []" "hash_leaves X xs" "st = \<lparr>ma_tree_size = int (length xs), ma_peaks = peaks_of X xs\<rparr>"
    by (simp_all add: represents_def)
  have h: "hash_leaves X ?ys" using x(2) assms(2) by (simp add: hash_leaves_def)
  have l: "int (length ?ys) \<le> MAX_HEAD_TREE_SIZE_V1" using assms(3) by simp
  have c: "carry_peaks X (length xs) (peaks_of X xs) leaf = peaks_of X ?ys"
    using carry_correct [of xs "length xs" 0 "[leaf]" X] by simp
  have p: "length xs AND (length xs - 1) = 0 \<longleftrightarrow> (\<exists>k. length xs = 2 ^ k)" using x(1) by (intro and_pred_zero) simp
  have r: "represents X ?ys ?st" using h l by (simp add: represents_def)
  have "merkle_append_state_new (int (length xs) + 1) (peaks_of X ?ys) = Inr ?st"
    using represents_new [OF _ h l] by (simp add: add.commute)
  then have "merkle_append X st leaf = Inr (?st, audit_path X ?ys (length xs), merkle_subproof X ?ys (length xs) True)"
    unfolding merkle_append_def using assms(2,3) x(3) c p
    by (simp add: Let_def last_leaf_path [OF x(1)] successor_consistency [OF x(1)] bindR_def)
  moreover have "append_root_hash X ?st = merkle_root X ?ys" by (simp add: append_root_hash_def peaks_root_of)
  ultimately show thesis using that r by blast
qed

lemma represents_root: "represents X xs st \<Longrightarrow> append_root_hash X st = merkle_root X xs"
  by (auto simp: represents_def append_root_hash_def peaks_root_of)

definition log_included :: "externals \<Rightarrow> bytes \<Rightarrow> nat \<Rightarrow> nat \<Rightarrow> bytes list \<Rightarrow> bytes \<Rightarrow> bool" where
  "log_included X leaf i n p root \<longleftrightarrow> verify_merkle_inclusion X leaf (int i) (int n) p root = Inr ()"

definition log_extends :: "externals \<Rightarrow> nat \<Rightarrow> bytes \<Rightarrow> nat \<Rightarrow> bytes \<Rightarrow> bytes list \<Rightarrow> bool" where
  "log_extends X m r n root p \<longleftrightarrow> verify_merkle_consistency X (int m) r (int n) root p = Inr ()"

lemma append_proofs:
  assumes "represents X xs st" and "hash_bytes leaf" and "length xs < nat MAX_HEAD_TREE_SIZE_V1" and "merkle_append X st leaf = Inr (st', p, q)"
  shows "log_included X leaf (length xs) (Suc (length xs)) p (merkle_root X (xs @ [leaf])) \<and>
    log_extends X (length xs) (merkle_root X xs) (Suc (length xs)) (merkle_root X (xs @ [leaf])) q"
proof -
  let ?ys = "xs @ [leaf]"
  have x: "hash_leaves X ?ys" "0 < length xs" using assms(1,2) by (auto simp: represents_def hash_leaves_def)
  have l: "length ?ys \<le> 2 ^ 63" "length ?ys \<le> 2 ^ 64" "int (length xs) < MAX_HEAD_TREE_SIZE_V1"
    using assms(3) by (simp_all add: MAX_HEAD_TREE_SIZE_V1_def)
  have pq: "p = audit_path X ?ys (length xs)" "q = merkle_subproof X ?ys (length xs) True"
    using append_refines [OF assms(1,2) l(3)] assms(4) by auto
  show ?thesis
    using inclusion_path_verifies [OF x(1) _ l(2), of "length xs"] consistency_path_verifies [OF x(1,2) _ l(1)]
    unfolding pq log_included_def log_extends_def by simp
qed

interpretation merkle_log: append_log "represents X" "merkle_append X" hash_bytes "nat MAX_HEAD_TREE_SIZE_V1" "append_root_hash X" "merkle_root X"
    "log_included X" "log_extends X" for X
proof unfold_locales
  fix xs st leaf
  assume a: "represents X xs st" "hash_bytes leaf" "length xs < nat MAX_HEAD_TREE_SIZE_V1"
  then have "int (length xs) < MAX_HEAD_TREE_SIZE_V1" by linarith
  from append_refines [OF a(1,2) this] show "\<exists>st' p q. merkle_append X st leaf = Inr (st', p, q) \<and> represents X (xs @ [leaf]) st'" by blast
qed (rule represents_root, assumption, rule append_proofs, assumption+)

section \<open>Properties\<close>

text \<open>
  C32: appending to the state of a tree returns the state of the extended tree, with its root, together with the inclusion proof and
  the consistency proof that the tree functions compute for it.
\<close>

theorem append_refines_tree:
  assumes "represents X xs st" and "hash_bytes leaf" and "int (length xs) < MAX_HEAD_TREE_SIZE_V1"
  shows "\<exists>st' p q. merkle_append X st leaf = Inr (st', p, q) \<and> represents X (xs @ [leaf]) st' \<and>
    append_root_hash X st' = merkle_root X (xs @ [leaf]) \<and> merkle_inclusion_proof X (xs @ [leaf]) (int (length xs)) = Inr p \<and>
    merkle_consistency_proof X (xs @ [leaf]) (int (length xs)) = Inr q"
proof -
  have "0 < length xs" using assms(1) by (simp add: represents_def)
  then show ?thesis
    using append_refines [OF assms] inclusion_proof_is_path [of "length xs" "xs @ [leaf]" X]
    by (metis length_append_singleton lessI merkle_consistency_proof_def nat_int not_less of_nat_0_less_iff of_nat_le_iff less_imp_le_nat)
qed

text \<open>
  a sequence of appends of 32-byte hashes within the ceiling succeeds, and the root of the last state is the root of the tree over
  all leaves; the state was kept without them.
\<close>

theorem append_all_root:
  assumes "represents X xs st" and "list_all hash_bytes ys" and "int (length xs + length ys) \<le> MAX_HEAD_TREE_SIZE_V1"
  shows "\<exists>st'. foldR (\<lambda>st leaf. bindR (merkle_append X st leaf) (\<lambda>r. Inr (fst r))) st ys = Inr st' \<and>
    represents X (xs @ ys) st' \<and> append_root_hash X st' = merkle_root X (xs @ ys)"
  using assms(1,2) by (rule merkle_log.append_all) (use assms(3) in linarith)

lemma from_last_leaf_recovers:
  assumes "hash_leaves X xs" and "xs \<noteq> []" and "int (length xs) \<le> MAX_HEAD_TREE_SIZE_V1"
  shows "merkle_from_last_leaf X (int (length xs)) (last xs) (audit_path X xs (length xs - 1)) (merkle_root X xs) =
    Inr \<lparr>ma_tree_size = int (length xs), ma_peaks = peaks_of X xs\<rparr>"
proof -
  let ?p = "audit_path X xs (length xs - 1)" and ?st = "\<lparr>ma_tree_size = int (length xs), ma_peaks = peaks_of X xs\<rparr>"
  have n: "0 < length xs" using assms(2) by simp
  then obtain t d where d: "length xs = (2 * d + 1) * 2 ^ t" "trailing_zeros (length xs) = t" by (rule two_odd_factor)
  from d(1) obtain us zs where x: "xs = us @ zs" "length us = d * 2 ^ Suc t" "length zs = 2 ^ t" by (rule odd_block)
  have z: "zs \<noteq> []" using x(3) by auto
  have dv: "2 ^ Suc t dvd length us" unfolding x(2) by simp
  have i: "length xs - 1 = length us + (length zs - 1)" using x z by (cases zs) auto
  have p: "?p = audit_path X zs (length zs - 1) @ rev (peaks_of X us)" unfolding i unfolding x(1) by (rule last_block_path [OF x(3) dv])
  note c = complete_last_path [OF x(3), of X]
  have pk: "peaks_of X xs = peaks_of X us @ [merkle_root X zs]" unfolding x(1) by (rule peaks_append [OF x(3) dv])
  have l: "last xs = last zs" using x(1) z by simp
  have f: "foldl (\<lambda>r sibling. merkle_node_hash X sibling r) (last xs) (take t ?p) = merkle_root X zs" unfolding l p using c by simp
  have r: "rev (drop t ?p) = peaks_of X us" unfolding p using c by simp
  have "length xs \<le> 2 ^ 64" using assms(3) by (simp add: MAX_HEAD_TREE_SIZE_V1_def)
  moreover have "length xs - 1 < length xs" using n by simp
  ultimately have q: "verify_merkle_inclusion X (xs ! (length xs - 1)) (int (length xs - 1)) (int (length xs)) ?p (merkle_root X xs) = Inr ()"
    by (intro inclusion_path_verifies [OF assms(1)])
  with q n assms(2) have v: "verify_merkle_inclusion X (last xs) (int (length xs) - 1) (int (length xs)) ?p (merkle_root X xs) = Inr ()"
    by (simp add: last_conv_nth of_nat_diff)
  show ?thesis
    unfolding merkle_from_last_leaf_def using n assms(3) v d(2) f r pk represents_new [OF assms(2,1,3)]
    by (simp add: Let_def append_root_hash_def peaks_root_of [OF assms(2)] Suc_le_eq flip: pk)
qed

lemma last_leaf_determined:
  assumes "hash_leaves X xs" and "xs \<noteq> []" and "int (length xs) \<le> MAX_HEAD_TREE_SIZE_V1"
    and "merkle_from_last_leaf X (int (length xs)) leaf p (merkle_root X xs) = Inr st"
    and "inj_on (sha256 X) (set (inclusion_messages X leaf (int (length xs) - 1) (int (length xs)) p) \<union>
      set (inclusion_messages X (last xs) (int (length xs) - 1) (int (length xs)) (audit_path X xs (length xs - 1))))"
  shows "leaf = last xs \<and> p = audit_path X xs (length xs - 1)"
proof -
  have v: "verify_merkle_inclusion X leaf (int (length xs) - 1) (int (length xs)) p (merkle_root X xs) = Inr ()"
    "verify_merkle_inclusion X (last xs) (int (length xs) - 1) (int (length xs)) (audit_path X xs (length xs - 1)) (merkle_root X xs) = Inr ()"
    using assms(4) from_last_leaf_recovers [OF assms(1-3)]
    by (auto simp: merkle_from_last_leaf_def bindR_eq_Inr split: if_splits)
  have "length (sha256 X q) = 32" for q using assms(1) by (simp add: hash_leaves_def)
  from inclusion_determined [OF this v assms(5)] show ?thesis .
qed

text \<open>
  C33: \<open>from_last_leaf\<close> recovers the append state of a tree from its size, its root and its last leaf with the audit path, and it recovers
  nothing else: when it accepts other values for the same size and root, SHA-256 not colliding on the messages that the two
  verifications hash, they are that leaf and that path, and the state is the same.
\<close>

theorem from_last_leaf_exact:
  assumes "hash_leaves X xs" and "xs \<noteq> []" and "int (length xs) \<le> MAX_HEAD_TREE_SIZE_V1"
    and "inj_on (sha256 X) (set (inclusion_messages X leaf (int (length xs) - 1) (int (length xs)) p) \<union>
      set (inclusion_messages X (last xs) (int (length xs) - 1) (int (length xs)) (audit_path X xs (length xs - 1))))"
  shows "merkle_from_last_leaf X (int (length xs)) leaf p (merkle_root X xs) = Inr st \<longleftrightarrow>
    leaf = last xs \<and> merkle_inclusion_proof X xs (int (length xs) - 1) = Inr p \<and> represents X xs st"
proof -
  have n: "length xs - 1 < length xs" "int (length xs) - 1 = int (length xs - 1)" using assms(2) by (cases xs; simp)+
  have p: "merkle_inclusion_proof X xs (int (length xs) - 1) = Inr (audit_path X xs (length xs - 1))"
    unfolding n(2) by (rule inclusion_proof_is_path [OF n(1)])
  note r = from_last_leaf_recovers [OF assms(1-3)]
  show ?thesis
  proof
    assume a: "merkle_from_last_leaf X (int (length xs)) leaf p (merkle_root X xs) = Inr st"
    from last_leaf_determined [OF assms(1-3) a assms(4)] a r p assms(1-3)
    show "leaf = last xs \<and> merkle_inclusion_proof X xs (int (length xs) - 1) = Inr p \<and> represents X xs st" by (simp add: represents_def)
  next
    assume "leaf = last xs \<and> merkle_inclusion_proof X xs (int (length xs) - 1) = Inr p \<and> represents X xs st"
    with p r show "merkle_from_last_leaf X (int (length xs)) leaf p (merkle_root X xs) = Inr st" by (simp add: represents_def)
  qed
qed

end
