(* ===== verification/Witnesses.thy ===== *)
theory Witnesses
  imports Wire_Properties Sample_Stream Merkle_Frontier
begin

text \<open>
  Every property with a hypothesis, applied to the worked example: the hypotheses hold there, and the conclusion says
  something about it.
\<close>

section \<open>Replay\<close>


theorem recovery_points_witness:
  "\<exists>q. reduce_events Xs [E0, E1, E2, E3, E4, E5] = Inr q \<and> mp_expired_leases q \<subseteq> mp_expired_leases PROJECTION \<and>
     mp_consumed_leases q \<subseteq> mp_consumed_leases PROJECTION"
  using recovery_points [of Xs "[E0, E1, E2, E3, E4, E5]" "[E6, E7, E8]" PROJECTION] stream_accepted by auto

theorem accepted_stream_chained_witness:
  "chained E0 STREAM \<and> mp_mission_id PROJECTION = ev_mission_id E0 \<and> mp_events PROJECTION = STREAM"
  using accepted_stream_chained [OF stream_accepted] by simp

theorem terminal_is_final_witness:
  "\<exists>e. reduce_events Xs (STREAM @ E8 # []) = Inl e"
  by (rule terminal_is_final [OF stream_accepted]) (simp add: PROJECTION_def is_terminal_def)


theorem dispositions_and_candidates_partition_witness:
  "check_dispositions R7 = Inr () \<and> partitions_of R7 = Inr (partitions_spec R7) \<and>
   \<Union> (set (partition_list (partitions_spec R7))) = {Z}"
proof -
  have "st_candidate_ids R7 = {Z}" by (simp add: R7_def state_defs)
  with dispositions_and_candidates_partition [OF reassigned_run] show ?thesis by simp
qed

theorem one_active_lease_per_candidate_witness:
  "map_of (st_latest S6) (vl_candidate_id VL) = Some Z"
proof -
  have "Z \<in> st_active S6" "map_of (st_leases S6) Z = Some VL" by (simp_all add: state_defs)
  from one_active_lease_per_candidate [OF runs(1) this(1,1,2,2) refl] show ?thesis by simp
qed

theorem leases_within_authority_witness:
  "\<exists>g a ce. st_grant S6 = Some g \<and> st_admission S6 = Some a \<and> permits_verification g a \<and>
     map_of (st_candidate_events S6) (vl_candidate_id VL) = Some ce \<and> vl_verifier_id VL \<noteq> ev_unit ce \<and> vl_expires_at VL \<le> ag_expires_at g"
proof -
  have "map_of (st_leases S6) Z = Some VL" by (simp add: state_defs)
  from leases_within_authority [OF runs(1) this] show ?thesis by blast
qed

theorem reassignment_lineage_witness:
  "\<exists>p l. map_of (st_leases R7) Z = Some p \<and> map_of (st_leases R7) (dig (CHR ''a'')) = Some l \<and> work_bindings l = work_bindings p \<and>
     vl_verifier_id l \<noteq> vl_verifier_id p \<and> Z \<notin> st_active R7 \<and> Z \<notin> st_consumed R7"
proof -
  have "map_of (st_successors R7) Z = Some (dig (CHR ''a''))" by (simp add: R7_def)
  with reassignment_lineage [OF reassigned_run] show ?thesis by blast
qed

theorem receipts_need_resolutions_witness:
  "Z \<in> st_consumed S8 \<and> (\<exists>l. map_of (st_leases S8) Z = Some l \<and> ar_verification_lease_id RS = vl_lease_id l \<and>
     vl_issued_at l \<le> ar_resolved_at RS \<and> ar_resolved_at RS < vl_expires_at l)"
proof -
  have "map_of (st_resolutions S8) Z = Some RS" "Z \<in> st_consumed S8" by (simp_all add: state_defs)
  with receipts_need_resolutions [OF runs(3)] show ?thesis by blast
qed

theorem budgets_respected_witness:
  "\<exists>g. st_grant S8 = Some g \<and> int (card (st_lease_ids S8)) \<le> ag_max_candidates g \<and>
     al_max_bytes AL \<le> ag_max_bytes g \<and> length (st_lease_events S8) = 1"
proof -
  have "st_lease_ids S8 = {Z}" "st_analysis_lease S8 = Some AL" by (simp_all add: state_defs)
  with budgets_respected [OF runs(3)] show ?thesis by fastforce
qed

theorem closure_is_truthful_witness:
  "\<exists>payload. event_payload Xs E8 = Inr payload \<and> jstr (member ''status'' payload) = ''receipt_coverage_complete'' \<and>
     (\<exists>i \<in> st_consumed S8. map_of (st_latest S8) Z = Some i) \<and> st_active S8 = {}"
proof -
  obtain payload where p: "event_payload Xs E8 = Inr payload" and c: "jstr (member ''status'' payload) = ''receipt_coverage_complete'' \<longrightarrow>
      (\<forall>c \<in> st_candidate_ids S8. \<exists>i \<in> st_consumed S8. map_of (st_latest S8) c = Some i)" and a: "st_active S8 = {}"
    using closure_is_truthful [OF runs(3) closing_handled] by blast
  have "payload = norm_json P8" using p E_verified(18) by simp
  then have "jstr (member ''status'' payload) = ''receipt_coverage_complete''" by (simp add: P_counts)
  moreover have "Z \<in> st_candidate_ids S8" by (simp add: state_defs)
  ultimately show ?thesis using p c a by blast
qed

section \<open>Authority and receipts\<close>

theorem admit_accepted_sound_witness:
  "\<exists>signed key grant. parse_signed_object Xs (RawSigned S) = Inr signed \<and> map_of (ts_keys T) (sg_key_id signed) = Some key \<and>
     OPERATOR_ROLE \<in> set (tk_roles key) \<and> grant_wf grant \<and> ag_issuer grant \<in> set (tk_issuers key) \<and> 20 < ag_expires_at grant"
proof -
  have "ad_accepted DECISION" by (simp add: DECISION_def)
  from admit_accepted_sound [OF admit_sample this] show ?thesis by fastforce
qed

theorem admit_representation_independent_witness:
  "admit_authority Xs (RawWire SB) T (JInt 20) (JStr Z) (map JStr ACTIONS) = Inr DECISION"
  using admit_representation_independent [OF S_valid S_to_bytes(2), of T "JInt 20" "JStr Z" "map JStr ACTIONS"] admit_sample by simp

theorem admission_record_self_verifying_witness:
  "(\<exists>grant. admission_supported Xs A grant \<and> grant_wf grant) \<and> aa_decision_time A < aa_grant_expires_at A \<and>
   bindR (admission_to_envelope Xs A) (envelope_to_bytes Xs) = Inr (sample_wire ''authority_admission'' (AJ SJ TJ) (JArr []))"
proof -
  have "envelope_from_bytes Xs (sample_wire ''authority_admission'' (AJ SJ TJ) (JArr [])) = Inr AE"
    unfolding AE_def by (rule sample_from_bytes [OF AJ_sendable'])
  from admission_record_self_verifying [OF this A_from] show ?thesis by blast
qed

theorem authenticate_sound_witness:
  "\<exists>signed key v. parse_signed_receipt Xs (RawReceipt SR) = Inr signed \<and> decode_signed_receipt Xs signed = Inr v \<and>
     map_of (vt_keys VT) (vl_verifier_key_id VL) = Some key \<and> tv_verifier_id key = vl_verifier_id VL \<and>
     vr_lease_id v = vl_lease_id VL \<and> verdict_consistency_reason (vr_verdict v) (vr_effect_observed v) (vr_oracle_satisfied v) = None"
  using authenticate_sound [OF AT_authenticated] by blast

theorem authenticate_returns_witness:
  "authenticate_verifier_receipt Xs (RawReceipt SR) VT VL RS 90 None =
     Inr \<lparr>at_signed_receipt = SR, at_receipt = VR, at_lease = VL, at_artifact_resolution = RS, at_decision_trust_snapshot_id = Z\<rparr>"
proof (rule authenticate_returns [of Xs "RawReceipt SR" SR 90 None VL VT
      "\<lparr>tv_verifier_id = ''ver1'', tv_public_key_bytes = PUB, tv_roles = [VERIFIER_ROLE]\<rparr>" "replicate 64 (CHR 0x00)" VR RS Z])
  show "decode_signed_receipt Xs SR = Inr VR" by (rule VR_decode)
  show "check_receipt VT SR \<lparr>tv_verifier_id = ''ver1'', tv_public_key_bytes = PUB, tv_roles = [VERIFIER_ROLE]\<rparr> VR VL RS 90 None = Inr ()"
    by (rule VR_checked)
  show "verifier_snapshot_id Xs VT = Inr Z" "full_digest Z" by (rule VT_id, rule Z_full)
qed (simp_all add: MAX_EPOCH_SECOND_def VL_def VT_def SR_def SIG_decode signature_verifies_def Xs_def)

section \<open>The wire\<close>

theorem canonical_json_roundtrip_witness:
  "strict_loads Xs TB = Inr TJ \<and> canonical_dumps Xs TJ = Inr TB \<and> length TB \<le> MAX_WIRE_BYTES"
proof -
  have "dict_ok (trust_snapshot_body T)" using T_sound by (simp add: sound_def)
  from canonical_json_roundtrip [OF this T_facts(1)] show ?thesis by (simp add: TJ_def)
qed

theorem content_id_binds_witness:
  "content_id Xs ''authority_trust_snapshot'' TJ = Inr Z \<and> norm_json (trust_snapshot_body T) = norm_json TJ"
proof -
  have "dict_ok (trust_snapshot_body T)" "dict_ok TJ" using T_sound by (simp_all add: sound_def TJ_def dict_ok_norm)
  then show ?thesis using content_id_binds [OF T_facts(4,5) _ _ T_facts(1,3)] T_facts(5) by simp
qed

theorem typed_evidence_separated_witness:
  "\<exists>i. typed_evidence_digest (Xs\<lparr>sha256 := \<lambda>m. m\<rparr>) ''abc'' POC_TYPE = Inr i \<and> evidence_digest (Xs\<lparr>sha256 := \<lambda>m. m\<rparr>) ''abc'' \<noteq> i"
proof -
  have "POC_TYPE \<in> set VERIFICATION_ARTIFACT_TYPES_V1" by (simp add: VERIFICATION_ARTIFACT_TYPES_V1_def)
  then obtain i where i: "typed_evidence_digest (Xs\<lparr>sha256 := \<lambda>m. m\<rparr>) ''abc'' POC_TYPE = Inr i"
    unfolding typed_evidence_digest_def by (metis not_not)
  have "inj_on (sha256 (Xs\<lparr>sha256 := \<lambda>m. m\<rparr>)) S" for S by (simp add: inj_on_def)
  with typed_evidence_separated [OF i, THEN conjunct2] i show ?thesis by blast
qed

theorem envelope_wire_exact_witness:
  "envelope_to_bytes Xs GE = Inr GB \<and> content_id Xs (env_kind GE) (JObj (env_body GE)) = Inr Z \<and> env_kind GE \<in> set SUPPORTED_OBJECT_KINDS"
  using envelope_wire_exact [OF G_wire(1)] by simp

theorem envelope_created_decodes_witness:
  "\<exists>b. envelope_to_bytes Xs GE = Inr b \<and> envelope_from_bytes Xs b = Inr GE"
proof (rule envelope_created_decodes)
  show "length (sha256 Xs m) = 32" for m by (simp add: Xs_def)
  show "envelope_create Xs ''authority_grant'' (grant_body G) (JArr []) = Inr GE" by (rule G_wire(3))
  show "dict_ok (grant_body G)" using G_sendable by (simp add: sendable_def sound_def)
qed simp

theorem snapshot_wire_identity_witness:
  "bindR (target_snapshot_to_envelope Xs TS) (envelope_to_bytes Xs) = Inr (sample_wire ''target_snapshot'' (snapshot_body TS) (JArr [])) \<and>
   distinct (map sf_relative_path (ts_files TS)) \<and> snapshot_bytes TS \<le> MAX_SNAPSHOT_BYTES_HARD_CEILING"
  using snapshot_wire_identity [OF sample_from_bytes [OF TS_sendable]] TS_from by (simp add: TSE_def)

theorem verification_lease_wire_identity_witness:
  "bindR (vlease_to_envelope Xs VL) (envelope_to_bytes Xs) = Inr (sample_wire ''verification_lease'' (vlease_wire_body VL) (JArr [])) \<and>
   vl_issued_at VL < vl_expires_at VL"
  using verification_lease_wire_identity [OF sample_from_bytes [OF VL_sendable]] VL_from by (simp add: VLE_def)

theorem resolution_wire_identity_witness:
  "bindR (resolution_to_envelope Xs RS) (envelope_to_bytes Xs) =
     Inr (sample_wire ''verification_artifact_resolution'' (resolution_body RS) (JArr [])) \<and> distinct (singleton_and_evidence RS)"
  using resolution_wire_identity [OF sample_from_bytes [OF RS_sendable]] RS_from by (simp add: RSE_def)

theorem grant_wire_identity_witness: "grant_wf G \<and> bindR (grant_to_envelope Xs G) (envelope_to_bytes Xs) = Inr GB"
  using grant_wire_identity [OF G_wire(1) G_from] by simp

theorem relative_path_stays_inside_witness:
  "relative_path_ok ''src/m.py'' \<and> ''..'' \<notin> set (split_slash ''src/m.py'')"
proof -
  have "relative_path_ok ''src/m.py''" by code_simp
  with relative_path_stays_inside [OF this] show ?thesis by blast
qed

theorem event_created_verifies_witness:
  "event_create Xs Z 1 ''mission_opened'' ''ETZIO'' Z Z 21 P1 Z = Inr E1 \<and> event_verify Xs E1 = Inr () \<and>
   canonical_dumps Xs P1 = Inr (ev_payload_bytes E1)"
proof -
  have r: "sound P1" "is_JObj P1" "sendable ''event'' (event_body_with E1 (norm_json P1)) (JArr [])"
    "event_header_checks (event_body_with E1 JNull) Z = Inr ()"
    using E1_ok by (simp_all add: retainable_def E1_def)
  have b: "event_body_with E1 (norm_json P1) = JObj [(''authority_id'', JStr Z), (''decision_time'', JInt 21), (''kind'', JStr ''mission_opened''),
      (''mission_id'', JStr Z), (''payload'', norm_json P1), (''prev_digest'', JStr Z), (''seq'', JInt 1), (''target_id'', JStr Z), (''unit'', JStr ''ETZIO'')]"
    by (simp add: event_body_with_def E1_def)
  have e: "envelope_create Xs ''event'' (event_body_with E1 (norm_json P1)) (JArr []) =
      Inr (sample_envelope ''event'' (event_body_with E1 (norm_json P1)) (JArr []))" by (rule sample_create [OF r(3)])
  have v: "event_verify Xs E1 = Inr ()"
    using E_verified(3) by (simp add: verify_retained_def catchR_def split: sum.splits if_splits)
  have "event_new Xs (event_body_with E1 (norm_json P1)) (ev_payload_bytes E1) (ev_event_digest E1) = Inr E1"
    by (rule event_verify_new [OF v]) (auto simp: event_members EVENT_BODY_FIELDS_def)
  then have "event_new Xs (event_body_with E1 (norm_json P1)) (dumps (norm_json P1)) Z = Inr E1" by (simp add: E1_def)
  then have c: "event_create Xs Z 1 ''mission_opened'' ''ETZIO'' Z Z 21 P1 Z = Inr E1"
    using r e by (simp add: event_create_def freeze_json_thaw sound_thaw thaw_json_idem [OF sound_thaw] sound_again sound_loads is_JObj_norm
        wrap_error_def b [symmetric]) (simp add: Let_def sample_envelope_def)
  from event_created_verifies [OF this] c show ?thesis by blast
qed

section \<open>Operations\<close>

theorem lease_retirements_exclusive_witness:
  "\<exists>e. cancel_lease S6 (ER\<lparr>ev_decision_time := 500\<rparr>) Z CANCELLATION_REASON = Inl e"
proof -
  have f: "map_of (st_leases S6) Z = Some VL" "map_of (st_latest S6) (vl_candidate_id VL) = Some (vl_lease_id VL)" "vl_lease_id VL \<in> st_active S6"
    "vl_expires_at VL = 500" by (simp_all add: state_defs VL_def)
  have "expire_lease S6 (ER\<lparr>ev_decision_time := 500\<rparr>) Z =
      Inr (S6\<lparr>st_active := st_active S6 - {vl_lease_id VL}, st_expired := insert (vl_lease_id VL) (st_expired S6),
        st_expiry_events := st_expiry_events S6 @ [ER\<lparr>ev_decision_time := 500\<rparr>]\<rparr>)"
    by (simp add: expire_lease_def f requireR_def)
  from lease_retirements_exclusive [OF this] show ?thesis by blast
qed

theorem phases_advance_witness:
  "transition ''open'' ''analysis_lease_issued'' = Inr ''analyzing'' \<and> phase_rank ''open'' < phase_rank ''analyzing''"
proof -
  have "transition ''open'' ''analysis_lease_issued'' = Inr ''analyzing''" by (simp add: transition_def)
  with phases_advance [OF this] show ?thesis by simp
qed


theorem candidate_severity_type_error_witness:
  "\<exists>m. validate_candidate_body (JObj (AList.update ''severity'' (JArr []) (obj_members (candidate_body CA)))) = Inl (TypeError m) \<and>
     \<not> is_mission_error (TypeError m)"
proof -
  have "validate_candidate_body (JObj (obj_members (candidate_body CA))) = Inr ()" by code_simp
  from candidate_severity_type_error [OF this, of "JArr []"] show ?thesis by simp
qed

section \<open>Merkle trees\<close>

text \<open>Externals whose hash keeps the end of the message, and a log of three leaf hashes.\<close>

definition Xm :: externals where "Xm = Xs\<lparr>sha256 := \<lambda>m. take 32 (rev m @ replicate 32 (CHR 0x00))\<rparr>"
definition leafA :: bytes where "leafA = replicate 32 (CHR ''a'')"
definition leafB :: bytes where "leafB = replicate 32 (CHR ''b'')"
definition leafC :: bytes where "leafC = replicate 32 (CHR ''c'')"
definition LOG :: "bytes list" where "LOG = [leafA, leafB, leafC]"

lemma leaf_lengths [simp]: "length leafA = 32" "length leafB = 32" "length leafC = 32"
  by (simp_all add: leafA_def leafB_def leafC_def)

lemma leaf_bytes [simp]: "hash_bytes leafA" "hash_bytes leafB" "hash_bytes leafC"
  by (simp_all add: hash_bytes_def)

lemma leaves_differ [simp]: "leafA \<noteq> leafB" "leafB \<noteq> leafC" "leafA \<noteq> leafC" "leafB \<noteq> leafA" "leafC \<noteq> leafB" "leafC \<noteq> leafA"
  by (simp_all add: leafA_def leafB_def leafC_def)

lemma Xm_length: "length (sha256 Xm m) = 32" by (simp add: Xm_def)

lemma Xm_node: "sha256 Xm (MERKLE_NODE_PREFIX @ l @ r) = rev r" if "length r = 32"
  using that by (simp add: Xm_def)

lemma LOG_leaves [simp]: "hash_leaves Xm LOG" "length LOG = 3" "LOG \<noteq> []" "last LOG = leafC" "LOG ! 0 = leafA"
  by (simp_all add: hash_leaves_def Xm_length LOG_def)

lemma LOG_joins: "joins 1 [leafA, leafB] [leafC]" "joins 0 [leafA] [leafB]"
  by (simp_all add: joins_def)

lemma LOG_split: "LOG = [leafA, leafB] @ [leafC]" "[leafA, leafB] = [leafA] @ [leafB]"
  by (simp_all add: LOG_def)

lemma LOG_root: "merkle_root Xm [leafA, leafB] = rev leafB" "merkle_root Xm LOG = rev leafC"
proof -
  show r: "merkle_root Xm [leafA, leafB] = rev leafB"
    using merkle_root_simps(2) [OF LOG_joins(2), of Xm] by (simp add: merkle_node_hash_def Xm_node)
  show "merkle_root Xm LOG = rev leafC"
    using merkle_root_simps(2) [OF LOG_joins(1), of Xm] r by (simp add: merkle_node_hash_def Xm_node LOG_def)
qed

lemma LOG_paths: "audit_path Xm LOG 0 = [leafB, leafC]" "audit_path Xm LOG 2 = [rev leafB]"
proof -
  have "audit_path Xm [leafA, leafB] 0 = [leafB]" using audit_path_simps(2) [OF LOG_joins(2), of 0 Xm] by simp
  then show "audit_path Xm LOG 0 = [leafB, leafC]" using audit_path_simps(2) [OF LOG_joins(1), of 0 Xm] by (simp add: LOG_def)
  show "audit_path Xm LOG 2 = [rev leafB]" using audit_path_simps(3) [OF LOG_joins(1), of 2 Xm] LOG_root(1) by (simp add: LOG_def)
qed

lemma LOG_messages:
  "inclusion_messages Xm leafA 0 3 [leafB, leafC] = [MERKLE_NODE_PREFIX @ leafA @ leafB, MERKLE_NODE_PREFIX @ rev leafB @ leafC]"
  "inclusion_messages Xm leafC 2 3 [rev leafB] = [MERKLE_NODE_PREFIX @ rev leafB @ leafC]"
  by (simp_all add: inclusion_messages_def next_position_def node_message_def Xm_node skip_even.simps split: prod.splits)

lemma LOG_inj: "inj_on (sha256 Xm) {MERKLE_NODE_PREFIX @ leafA @ leafB, MERKLE_NODE_PREFIX @ rev leafB @ leafC}"
  by (simp add: Xm_node)

theorem inclusion_complete_witness:
  "\<exists>p. merkle_inclusion_proof Xm LOG 0 = Inr p \<and> verify_merkle_inclusion Xm leafA 0 3 p (rev leafC) = Inr ()"
  using inclusion_complete [of Xm LOG 0] LOG_root by simp

theorem inclusion_binding_witness:
  "verify_merkle_inclusion Xm leafA 0 3 [leafB, leafC] (rev leafC) = Inr () \<and> [leafB, leafC] = audit_path Xm LOG 0"
proof -
  have v: "verify_merkle_inclusion Xm leafA 0 3 (audit_path Xm LOG 0) (rev leafC) = Inr ()"
    using inclusion_path_verifies [of Xm LOG 0] LOG_root by simp
  with inclusion_binding [OF Xm_length v [unfolded LOG_paths] v] LOG_inj show ?thesis by (simp add: LOG_paths LOG_messages insert_commute)
qed

lemma LOG_take: "take 2 LOG = [leafA, leafB]" "take (Suc (Suc 0)) LOG = [leafA, leafB]"
  by (simp_all add: LOG_def)

theorem consistency_complete_witness:
  "\<exists>p. merkle_consistency_proof Xm LOG 2 = Inr p \<and> verify_merkle_consistency Xm 2 (rev leafB) 3 (rev leafC) p = Inr ()"
  using consistency_complete [of Xm LOG 2] LOG_root by (simp add: LOG_take)

lemma LOG_prefix: "merkle_subproof Xm LOG 2 True = [leafC]"
  using subproof_simps(3) [OF LOG_joins(1), of 2 Xm True] subproof_simps(1) [of Xm "[leafA, leafB]"] by (simp add: LOG_def numeral_2_eq_2)

lemma LOG_consistency_messages:
  "consistency_messages Xm 2 (rev leafB) 3 [leafC] = [MERKLE_NODE_PREFIX @ rev leafB @ leafC]"
proof -
  have "trailing_zeros 2 = 1" using trailing_zeros_pow [of 1] by simp
  then show ?thesis by (simp add: consistency_messages_def consistency_start_def next_position_def node_message_def Let_def drop_bit_eq_div
        split: prod.splits)
qed

theorem consistency_append_only_witness:
  "verify_merkle_consistency Xm 2 (rev leafB) 3 (rev leafC) [leafC] = Inr () \<and> [leafA, leafB] = take 2 LOG \<and>
   merkle_consistency_proof Xm LOG 2 = Inr [leafC]"
proof -
  have v: "verify_merkle_consistency Xm 2 (rev leafB) 3 (rev leafC) [leafC] = Inr ()"
    using consistency_path_verifies [of Xm LOG 2] LOG_root by (simp add: LOG_take LOG_prefix)
  have "node_messages Xm [leafA, leafB] = [MERKLE_NODE_PREFIX @ leafA @ leafB]"
    using node_messages_joins [OF LOG_joins(2), of Xm] by (simp add: node_messages.simps)
  moreover have "hash_leaves Xm [leafA, leafB]" by (simp add: hash_leaves_def Xm_length)
  ultimately show ?thesis
    using consistency_append_only [of Xm LOG "[leafA, leafB]" "[leafC]"] v LOG_root
    by (simp add: LOG_take LOG_prefix LOG_prefix [unfolded numeral_2_eq_2] LOG_consistency_messages)
qed

lemma LOG_represented: "represents Xm LOG \<lparr>ma_tree_size = 3, ma_peaks = [rev leafB, leafC]\<rparr>"
proof -
  have "peaks_of Xm [leafA, leafB] = [rev leafB]" using peaks_of_simps(2) [of "[leafA, leafB]" 1 Xm] LOG_root by simp
  moreover have "peaks_of Xm LOG = merkle_root Xm [leafA, leafB] # peaks_of Xm [leafC]"
    using peaks_of_simps(3) [of "[leafA, leafB]" 1 "[leafC]" Xm] by (simp add: LOG_def)
  ultimately show ?thesis using peaks_of_simps(2) [of "[leafC]" 0 Xm] LOG_root
    by (simp add: represents_def MAX_HEAD_TREE_SIZE_V1_def)
qed

theorem append_refines_tree_witness:
  "\<exists>st' p q. merkle_append Xm \<lparr>ma_tree_size = 3, ma_peaks = [rev leafB, leafC]\<rparr> leafA = Inr (st', p, q) \<and>
     append_root_hash Xm st' = merkle_root Xm (LOG @ [leafA]) \<and> merkle_inclusion_proof Xm (LOG @ [leafA]) 3 = Inr p"
proof -
  have "int (length LOG) < MAX_HEAD_TREE_SIZE_V1" by (simp add: MAX_HEAD_TREE_SIZE_V1_def)
  from append_refines_tree [OF LOG_represented leaf_bytes(1) this] show ?thesis by auto
qed

theorem append_all_root_witness:
  "\<exists>st'. foldR (\<lambda>st leaf. bindR (merkle_append Xm st leaf) (\<lambda>r. Inr (fst r))) \<lparr>ma_tree_size = 3, ma_peaks = [rev leafB, leafC]\<rparr> [leafB, leafA] = Inr st' \<and>
     append_root_hash Xm st' = merkle_root Xm (LOG @ [leafB, leafA])"
proof -
  have "list_all hash_bytes [leafB, leafA]" "int (length LOG + length [leafB, leafA]) \<le> MAX_HEAD_TREE_SIZE_V1" by (simp_all add: MAX_HEAD_TREE_SIZE_V1_def)
  from append_all_root [OF LOG_represented this] show ?thesis by blast
qed

theorem from_last_leaf_exact_witness:
  "merkle_from_last_leaf Xm 3 leafC [rev leafB] (rev leafC) = Inr \<lparr>ma_tree_size = 3, ma_peaks = [rev leafB, leafC]\<rparr>"
proof -
  have "merkle_inclusion_proof Xm LOG 2 = Inr [rev leafB]" using inclusion_proof_is_path [of 2 LOG Xm] by (simp add: LOG_paths)
  then show ?thesis
    using from_last_leaf_exact [of Xm LOG leafC "[rev leafB]"] LOG_represented LOG_root
    by (simp add: LOG_paths LOG_messages MAX_HEAD_TREE_SIZE_V1_def)
qed

end
