(* ===== verification/Integrity_Fields.thy ===== *)
theory Integrity_Fields
  imports Events_V1
begin

text \<open>
  \<open>src/etzio/integrity_v1.py\<close>, what all its objects share: field checks, evidence references, revocation views, time intervals
  and the derived genesis identities. A value whose type is checked at run time is a JSON value; \<open>None\<close> is \<open>JNull\<close>.
\<close>

section \<open>Constants and errors\<close>

definition INTEGRITY_DECISION_OBJECT_KIND :: pystr where "INTEGRITY_DECISION_OBJECT_KIND = ''integrity_decision''"
definition HEAD_CHECKPOINT_OBJECT_KIND :: pystr where "HEAD_CHECKPOINT_OBJECT_KIND = ''head_checkpoint''"
definition INTEGRITY_DECISION_ROLE :: pystr where "INTEGRITY_DECISION_ROLE = ''integrity_decision_authority''"
definition HEAD_CHECKPOINT_ROLE :: pystr where "HEAD_CHECKPOINT_ROLE = ''head_checkpoint_authority''"
definition INTEGRITY_ROLES_V1 :: "pystr list" where "INTEGRITY_ROLES_V1 = [INTEGRITY_DECISION_ROLE, HEAD_CHECKPOINT_ROLE]"
definition TRUSTED_TIME_EVIDENCE_KIND :: pystr where "TRUSTED_TIME_EVIDENCE_KIND = ''trusted_time''"
definition REVOCATION_METADATA_EVIDENCE_KIND :: pystr where "REVOCATION_METADATA_EVIDENCE_KIND = ''revocation_metadata''"
definition HEAD_ANCHOR_RECEIPT_EVIDENCE_KIND :: pystr where "HEAD_ANCHOR_RECEIPT_EVIDENCE_KIND = ''head_anchor_receipt''"
definition EXTERNAL_FLOOR_EVIDENCE_KIND :: pystr where "EXTERNAL_FLOOR_EVIDENCE_KIND = ''external_floor''"
definition INTEGRITY_EVIDENCE_KINDS_V1 :: "pystr list" where
  "INTEGRITY_EVIDENCE_KINDS_V1 = [EXTERNAL_FLOOR_EVIDENCE_KIND, HEAD_ANCHOR_RECEIPT_EVIDENCE_KIND,
     REVOCATION_METADATA_EVIDENCE_KIND, TRUSTED_TIME_EVIDENCE_KIND]"
definition MAX_INTEGRITY_ENVELOPE_BYTES :: nat where "MAX_INTEGRITY_ENVELOPE_BYTES = 2 ^ 20"
definition MAX_INTEGRITY_KEYS :: nat where "MAX_INTEGRITY_KEYS = 64"
definition MAX_INTEGRITY_REVOCATIONS :: nat where "MAX_INTEGRITY_REVOCATIONS = 10000"
definition MAX_EVIDENCE_REFS :: nat where "MAX_EVIDENCE_REFS = 16"
definition MAX_REVOCATION_VIEWS :: nat where "MAX_REVOCATION_VIEWS = 16"
definition DECISION_SIGNATURE_DOMAIN :: bytes where
  "DECISION_SIGNATURE_DOMAIN = ''etzio.integrity-decision.signature.v1'' @ [CHR 0x00]"
definition CHECKPOINT_SIGNATURE_DOMAIN :: bytes where
  "CHECKPOINT_SIGNATURE_DOMAIN = ''etzio.head-checkpoint.signature.v1'' @ [CHR 0x00]"

fun is_integrity_error :: "exn \<Rightarrow> bool" where
  "is_integrity_error (IntegrityError c m) = True"
| "is_integrity_error _ = False"

fun is_type_error :: "exn \<Rightarrow> bool" where
  "is_type_error (TypeError m) = True"
| "is_type_error _ = False"

text \<open>\<open>except (AttributeError, IntegrityError, ProtocolError, TypeError, ValueError)\<close> and \<open>except (ProtocolError, IntegrityError, TypeError)\<close>\<close>

definition value_caught :: "exn \<Rightarrow> bool" where
  "value_caught ex \<longleftrightarrow> is_value_error ex \<or> is_type_error ex"

definition protocol_caught :: "exn \<Rightarrow> bool" where
  "protocol_caught ex \<longleftrightarrow> is_protocol_error ex \<or> is_integrity_error ex \<or> is_type_error ex"

text \<open>\<open>except E as exc: raise IntegrityError(..) from exc\<close>\<close>

definition rewrap :: "(exn \<Rightarrow> bool) \<Rightarrow> exn \<Rightarrow> 'a result \<Rightarrow> 'a result" where
  "rewrap caught e m = catchR m (\<lambda>ex. if caught ex then Inl e else Inl ex)"

lemma rewrap_eq_Inr [result_simps]: "rewrap caught e m = Inr x \<longleftrightarrow> m = Inr x"
  by (cases m) (auto simp: rewrap_def)

section \<open>Field checks\<close>

definition int_digest :: "pystr \<Rightarrow> json \<Rightarrow> exn + unit" where
  "int_digest field v = requireR (digest_value v)
     (IntegrityError (''invalid_'' @ field) (field @ '' must be a complete sha256 content identifier''))"

definition int_identity :: "pystr \<Rightarrow> json \<Rightarrow> exn + unit" where
  "int_identity field v = requireR (is_JStr v \<and> identity_text (jstr v))
     (IntegrityError (''invalid_'' @ field) (field @ '' must be a canonical identity string''))"

definition int_epoch :: "pystr \<Rightarrow> json \<Rightarrow> exn + unit" where
  "int_epoch field v = requireR (epoch_second v)
     (IntegrityError (''invalid_'' @ field) (field @ '' must be a nonnegative int64 epoch second''))"

definition int_nonnegative :: "pystr \<Rightarrow> json \<Rightarrow> exn + unit" where
  "int_nonnegative field v = requireR (epoch_second v)
     (IntegrityError (''invalid_'' @ field) (field @ '' must be a nonnegative int64 integer''))"

definition int_positive :: "pystr \<Rightarrow> json \<Rightarrow> exn + unit" where
  "int_positive field v = requireR (is_JInt v \<and> 0 < jint v \<and> jint v \<le> MAX_EPOCH_SECOND)
     (IntegrityError (''invalid_'' @ field) (field @ '' must be a positive int64 integer''))"

lemmas int_check_defs = int_digest_def int_identity_def int_epoch_def int_nonnegative_def int_positive_def digest_value_def epoch_second_def

text \<open>\<open>_check_expected\<close> on values of one type.\<close>

definition check_expected :: "'a \<Rightarrow> 'a \<Rightarrow> pystr \<Rightarrow> exn + unit" where
  "check_expected actual expected label = requireR (actual = expected)
     (IntegrityError (label @ ''_mismatch'') (''integrity evidence does not bind the expected '' @ label))"

lemma check_expected_eq_Inr [result_simps]: "check_expected a b l = Inr u \<longleftrightarrow> a = b"
  by (simp add: check_expected_def requireR_def)

text \<open>\<open>^[0-9a-f]{64}$\<close>\<close>

definition nonce_256 :: "pystr \<Rightarrow> bool" where
  "nonce_256 s \<longleftrightarrow> length s = 64 \<and> list_all is_lower_hex s"

section \<open>Time intervals\<close>

definition validate_time_interval :: "json \<Rightarrow> json \<Rightarrow> exn + unit" where
  "validate_time_interval lower upper = seqR [
     int_epoch ''time_lower_bound'' lower, int_epoch ''time_upper_bound'' upper,
     requireR (jint lower \<le> jint upper)
       (IntegrityError ''invalid_time_interval'' ''trusted time lower bound cannot exceed its upper bound'')]"

definition require_max_uncertainty :: "int \<Rightarrow> int \<Rightarrow> json \<Rightarrow> exn + unit" where
  "require_max_uncertainty lower upper maximum = seqR [
     int_nonnegative ''max_time_uncertainty_seconds'' maximum,
     requireR (upper - lower \<le> jint maximum)
       (IntegrityError ''time_uncertainty_exceeded'' ''trusted time interval exceeds the caller's fail-closed policy'')]"

definition interval_within :: "pystr \<Rightarrow> int \<Rightarrow> int \<Rightarrow> int \<Rightarrow> int \<Rightarrow> exn + unit" where
  "interval_within prefix lower upper not_before expires_at =
     (if lower < not_before
      then Inl (IntegrityError (prefix @ ''_'' @ (if upper < not_before then ''not_yet_valid'' else ''time_interval_straddles_not_before''))
             ''trusted time interval is not wholly inside the validity window'')
      else if upper \<ge> expires_at
      then Inl (IntegrityError (prefix @ ''_'' @ (if lower \<ge> expires_at then ''expired'' else ''time_interval_straddles_expiry''))
             ''trusted time interval is not wholly inside the validity window'')
      else Inr ())"

datatype deadline_side = Before | At_or_after

definition classify_deadline :: "json \<Rightarrow> json \<Rightarrow> json \<Rightarrow> deadline_side result" where
  "classify_deadline lower upper deadline =
     bindR (seqR [validate_time_interval lower upper, int_epoch ''deadline'' deadline]) (\<lambda>_.
     if jint upper < jint deadline then Inr Before
     else if jint lower \<ge> jint deadline then Inr At_or_after
     else Inl (IntegrityError ''time_interval_straddles_deadline'' ''trusted time uncertainty crosses the consequential deadline''))"

lemma interval_within_eq_Inr [result_simps]:
  "interval_within prefix lower upper not_before expires_at = Inr u \<longleftrightarrow> not_before \<le> lower \<and> upper < expires_at"
  by (auto simp: interval_within_def)

section \<open>Provenance\<close>

text \<open>A predecessor has a complete attestation provenance, or it is the genesis and has none.\<close>

definition validate_predecessor_provenance :: "int \<Rightarrow> json \<Rightarrow> json \<Rightarrow> json \<Rightarrow> pystr \<Rightarrow> exn + unit" where
  "validate_predecessor_provenance n attestation_id principal_id trust_snapshot_id label =
     (if n = - 1 then
        requireR (attestation_id = JNull \<and> principal_id = JNull \<and> trust_snapshot_id = JNull)
          (IntegrityError ''invalid_checkpoint_provenance'' (label @ '' genesis must not claim attestation provenance''))
      else seqR [
        requireR (attestation_id \<noteq> JNull \<and> principal_id \<noteq> JNull \<and> trust_snapshot_id \<noteq> JNull)
          (IntegrityError ''invalid_checkpoint_provenance'' (label @ '' requires complete attestation provenance'')),
        int_digest (label @ ''_attestation_id'') attestation_id, int_identity (label @ ''_principal_id'') principal_id,
        int_digest (label @ ''_trust_snapshot_id'') trust_snapshot_id])"

text \<open>\<open>str | None\<close>\<close>

fun jopt :: "json \<Rightarrow> pystr option" where
  "jopt (JStr s) = Some s"
| "jopt _ = None"

fun ojson :: "pystr option \<Rightarrow> json" where
  "ojson None = JNull"
| "ojson (Some s) = JStr s"

definition is_opt :: "json \<Rightarrow> bool" where
  "is_opt v \<longleftrightarrow> v = JNull \<or> is_JStr v"

lemma ojson_jopt: "is_opt v \<Longrightarrow> ojson (jopt v) = v" "norm_json (ojson x) = ojson x"
  by (cases v; simp add: is_opt_def) (cases x; simp)

lemma jopt_ojson [simp]: "jopt (ojson x) = x" by (cases x) simp_all

lemma provenance_typed:
  "validate_predecessor_provenance n a p t l = Inr u \<Longrightarrow> is_opt a \<and> is_opt p \<and> is_opt t"
  by (auto simp: validate_predecessor_provenance_def int_check_defs result_simps is_opt_def split: if_splits)

section \<open>Evidence references\<close>

record evidence_reference =
  er_evidence_kind :: pystr
  er_source_id :: pystr
  er_evidence_id :: digest

definition EVIDENCE_REF_FIELDS :: "pystr list" where
  "EVIDENCE_REF_FIELDS = [''evidence_id'', ''evidence_kind'', ''source_id'']"

definition evidence_reference_new :: "json \<Rightarrow> json \<Rightarrow> json \<Rightarrow> evidence_reference result" where
  "evidence_reference_new evidence_kind source_id evidence_id =
     bindR (seqR [
       requireR (is_JStr evidence_kind \<and> jstr evidence_kind \<in> set INTEGRITY_EVIDENCE_KINDS_V1)
         (IntegrityError ''invalid_evidence_kind'' ''evidence reference has an unsupported integrity evidence kind''),
       int_identity ''source_id'' source_id, int_digest ''evidence_id'' evidence_id])
     (\<lambda>_. Inr \<lparr>er_evidence_kind = jstr evidence_kind, er_source_id = jstr source_id, er_evidence_id = jstr evidence_id\<rparr>)"

definition evidence_reference_from_body :: "json \<Rightarrow> evidence_reference result" where
  "evidence_reference_from_body body =
     (if \<not> has_keys body EVIDENCE_REF_FIELDS
      then Inl (IntegrityError ''invalid_evidence_reference'' ''evidence reference has missing or unknown fields'')
      else evidence_reference_new (member ''evidence_kind'' body) (member ''source_id'' body) (member ''evidence_id'' body))"

definition evidence_reference_body :: "evidence_reference \<Rightarrow> json" where
  "evidence_reference_body r = JObj [
     (''evidence_id'', JStr (er_evidence_id r)), (''evidence_kind'', JStr (er_evidence_kind r)), (''source_id'', JStr (er_source_id r))]"

text \<open>A reference is copied by constructing it again from its fields.\<close>

definition copy_reference :: "exn \<Rightarrow> evidence_reference \<Rightarrow> evidence_reference result" where
  "copy_reference e r = rewrap value_caught e
     (evidence_reference_new (JStr (er_evidence_kind r)) (JStr (er_source_id r)) (JStr (er_evidence_id r)))"

definition validated_evidence_references :: "pystr \<Rightarrow> nat \<Rightarrow> pystr \<Rightarrow> evidence_reference list \<Rightarrow> evidence_reference list result" where
  "validated_evidence_references field minimum evidence_kind values =
     (if length values < minimum \<or> length values > MAX_EVIDENCE_REFS
      then Inl (IntegrityError (''invalid_'' @ field) (field @ '' must contain '' @ nat_str minimum @ ''..'' @ nat_str MAX_EVIDENCE_REFS @ '' typed references''))
      else bindR (mapR (copy_reference (IntegrityError (''invalid_'' @ field) (field @ '' contains an invalid evidence reference''))) values) (\<lambda>copied.
        let canonical = sort_key er_source_id copied in
        if \<not> list_all (\<lambda>r. er_evidence_kind r = evidence_kind) canonical
        then Inl (IntegrityError (''invalid_'' @ field) (field @ '' requires only '' @ evidence_kind @ '' evidence''))
        else if copied \<noteq> canonical \<or> \<not> distinct (map er_source_id canonical) \<or> \<not> distinct (map er_evidence_id canonical)
        then Inl (IntegrityError (''invalid_'' @ field) (field @ '' must be source-sorted with unique sources and evidence IDs''))
        else Inr canonical))"

definition reference_ok :: "evidence_reference \<Rightarrow> bool" where
  "reference_ok r \<longleftrightarrow> er_evidence_kind r \<in> set INTEGRITY_EVIDENCE_KINDS_V1 \<and> identity_text (er_source_id r) \<and> full_digest (er_evidence_id r)"

definition references_ok :: "nat \<Rightarrow> pystr \<Rightarrow> evidence_reference list \<Rightarrow> bool" where
  "references_ok minimum kind rs \<longleftrightarrow> minimum \<le> length rs \<and> length rs \<le> MAX_EVIDENCE_REFS \<and> list_all reference_ok rs \<and>
     list_all (\<lambda>r. er_evidence_kind r = kind) rs \<and> canonical_order (map er_source_id rs) \<and> distinct (map er_evidence_id rs)"

lemma evidence_reference_new_iff:
  "evidence_reference_new k s i = Inr r \<longleftrightarrow> k = JStr (er_evidence_kind r) \<and> s = JStr (er_source_id r) \<and> i = JStr (er_evidence_id r) \<and> reference_ok r"
  by (cases r) (auto simp: evidence_reference_new_def reference_ok_def int_check_defs result_simps norm_scalars)

lemma copy_reference_iff: "copy_reference e r = Inr r' \<longleftrightarrow> r' = r \<and> reference_ok r"
  by (cases r; cases r') (auto simp: copy_reference_def result_simps evidence_reference_new_iff)

lemma mapR_copy:
  assumes "\<And>x y. f x = Inr y \<longleftrightarrow> y = x \<and> P x"
  shows "mapR f xs = Inr ys \<longleftrightarrow> ys = xs \<and> list_all P xs"
  by (induction xs arbitrary: ys) (auto simp: bindR_eq_Inr assms)

lemma sort_key_eq_iff: "sort_key f xs = xs \<longleftrightarrow> sorted (map f xs)"
  by (metis sort_key_id_if_sorted sorted_sort_key)

lemma validated_references_iff [result_simps]:
  "validated_evidence_references field minimum kind rs = Inr rs' \<longleftrightarrow> rs' = rs \<and> references_ok minimum kind rs"
proof -
  have s: "rs = sort_key er_source_id rs \<longleftrightarrow> sorted (map er_source_id rs)" using sort_key_eq_iff by metis
  show ?thesis
    unfolding validated_evidence_references_def if_raise_eq_Inr bindR_eq_Inr mapR_copy [of _ reference_ok, OF copy_reference_iff] Let_def
      references_ok_def canonical_order_def
    using s by (auto simp: list_all_iff not_less)
qed

lemma reference_body_rebuild:
  assumes "evidence_reference_from_body v = Inr r" and "normal_form v"
  shows "norm_json (evidence_reference_body r) = v"
proof -
  from assms(1) have k: "has_keys v EVIDENCE_REF_FIELDS" "member ''evidence_kind'' v = JStr (er_evidence_kind r)"
    "member ''source_id'' v = JStr (er_source_id r)" "member ''evidence_id'' v = JStr (er_evidence_id r)"
    by (simp_all add: evidence_reference_from_body_def evidence_reference_new_iff split: if_splits)
  show ?thesis unfolding evidence_reference_body_def
    by (rule norm_rebuild [OF assms(2) k(1)]) (use k in \<open>auto simp: EVIDENCE_REF_FIELDS_def\<close>)
qed

lemma reference_from_body: "reference_ok r \<Longrightarrow> evidence_reference_from_body (evidence_reference_body r) = Inr r"
proof -
  assume "reference_ok r"
  moreover have "has_keys (evidence_reference_body r) EVIDENCE_REF_FIELDS" by (auto simp: has_keys_def evidence_reference_body_def EVIDENCE_REF_FIELDS_def)
  ultimately show ?thesis
    by (simp add: evidence_reference_from_body_def evidence_reference_new_iff) (simp add: evidence_reference_body_def member_def)
qed

text \<open>Arrays of objects: what reading them gives, prints as the array again.\<close>

lemma array_rebuild:
  assumes "mapR rd (arr_items v) = Inr xs" and "normal_form v" and "is_JArr v"
    and "\<And>u x. normal_form u \<Longrightarrow> rd u = Inr x \<Longrightarrow> norm_json (wr x) = u"
  shows "norm_json (JArr (map wr xs)) = v"
proof -
  obtain us where v: "v = JArr us" using assms(3) by (cases v) auto
  have n: "normal_form u" if "u \<in> set us" for u using normal_form_items [OF assms(2)] that v by simp
  from assms(1) v have "mapR rd us = Inr xs" by simp
  then have "map norm_json (map wr xs) = us" using n
    by (induction us arbitrary: xs) (auto simp: bindR_eq_Inr assms(4))
  then show ?thesis by (simp add: v norm_items_map)
qed

lemma array_read:
  assumes "list_all P xs" and "\<And>x. P x \<Longrightarrow> rd (wr x) = Inr x"
  shows "mapR rd (map wr xs) = Inr xs"
  using assms(1) by (induction xs) (auto simp: assms(2))

section \<open>Revocation views\<close>

record revocation_view =
  rv_namespace :: pystr
  rv_root_version :: int
  rv_version :: int
  rv_snapshot_id :: digest
  rv_evidence :: evidence_reference
  rv_valid_from :: int
  rv_valid_until :: int

definition REVOCATION_VIEW_FIELDS :: "pystr list" where
  "REVOCATION_VIEW_FIELDS = [''evidence'', ''namespace'', ''root_version'', ''snapshot_id'', ''valid_from'', ''valid_until'', ''version'']"

definition revocation_view_new :: "json \<Rightarrow> json \<Rightarrow> json \<Rightarrow> json \<Rightarrow> evidence_reference \<Rightarrow> json \<Rightarrow> json \<Rightarrow> revocation_view result" where
  "revocation_view_new namespace root_version version snapshot_id evidence valid_from valid_until =
     bindR (seqR [int_identity ''namespace'' namespace, int_positive ''root_version'' root_version,
       int_positive ''version'' version, int_digest ''snapshot_id'' snapshot_id]) (\<lambda>_.
     bindR (copy_reference (IntegrityError ''invalid_revocation_evidence'' ''revocation view requires typed revocation-metadata evidence'') evidence) (\<lambda>copied.
     bindR (seqR [
       requireR (er_evidence_kind copied = REVOCATION_METADATA_EVIDENCE_KIND)
         (IntegrityError ''invalid_revocation_evidence'' ''revocation view requires typed revocation-metadata evidence''),
       int_epoch ''valid_from'' valid_from, int_epoch ''valid_until'' valid_until,
       requireR (jint valid_from < jint valid_until)
         (IntegrityError ''invalid_revocation_window'' ''revocation validity must be a nonempty half-open interval'')]) (\<lambda>_.
     Inr \<lparr>rv_namespace = jstr namespace, rv_root_version = jint root_version, rv_version = jint version, rv_snapshot_id = jstr snapshot_id,
          rv_evidence = copied, rv_valid_from = jint valid_from, rv_valid_until = jint valid_until\<rparr>)))"

definition revocation_view_from_body :: "json \<Rightarrow> revocation_view result" where
  "revocation_view_from_body body =
     (if \<not> has_keys body REVOCATION_VIEW_FIELDS
      then Inl (IntegrityError ''invalid_revocation_view'' ''revocation view has missing or unknown fields'')
      else bindR (evidence_reference_from_body (member ''evidence'' body)) (\<lambda>evidence.
        revocation_view_new (member ''namespace'' body) (member ''root_version'' body) (member ''version'' body) (member ''snapshot_id'' body)
          evidence (member ''valid_from'' body) (member ''valid_until'' body)))"

definition revocation_view_body :: "revocation_view \<Rightarrow> json" where
  "revocation_view_body v = JObj [
     (''evidence'', evidence_reference_body (rv_evidence v)), (''namespace'', JStr (rv_namespace v)),
     (''root_version'', JInt (rv_root_version v)), (''snapshot_id'', JStr (rv_snapshot_id v)),
     (''valid_from'', JInt (rv_valid_from v)), (''valid_until'', JInt (rv_valid_until v)), (''version'', JInt (rv_version v))]"

definition copy_view :: "revocation_view \<Rightarrow> revocation_view result" where
  "copy_view v = rewrap value_caught (IntegrityError ''invalid_revocation_views'' ''revocation_views contains an invalid view'')
     (revocation_view_new (JStr (rv_namespace v)) (JInt (rv_root_version v)) (JInt (rv_version v)) (JStr (rv_snapshot_id v))
        (rv_evidence v) (JInt (rv_valid_from v)) (JInt (rv_valid_until v)))"

definition validated_revocation_views :: "revocation_view list \<Rightarrow> revocation_view list result" where
  "validated_revocation_views values =
     (if values = [] \<or> length values > MAX_REVOCATION_VIEWS
      then Inl (IntegrityError ''invalid_revocation_views'' ''revocation_views must be a nonempty bounded tuple'')
      else bindR (mapR copy_view values) (\<lambda>copied.
        let canonical = sort_key rv_namespace copied in
        if copied \<noteq> canonical \<or> \<not> distinct (map rv_namespace canonical)
        then Inl (IntegrityError ''invalid_revocation_views'' ''revocation views must be namespace-sorted and unique'')
        else Inr canonical))"

definition view_ok :: "revocation_view \<Rightarrow> bool" where
  "view_ok v \<longleftrightarrow> identity_text (rv_namespace v) \<and> 0 < rv_root_version v \<and> rv_root_version v \<le> MAX_EPOCH_SECOND \<and>
     0 < rv_version v \<and> rv_version v \<le> MAX_EPOCH_SECOND \<and> full_digest (rv_snapshot_id v) \<and> reference_ok (rv_evidence v) \<and>
     er_evidence_kind (rv_evidence v) = REVOCATION_METADATA_EVIDENCE_KIND \<and> 0 \<le> rv_valid_from v \<and> rv_valid_from v < rv_valid_until v \<and>
     rv_valid_until v \<le> MAX_EPOCH_SECOND"

definition views_ok :: "revocation_view list \<Rightarrow> bool" where
  "views_ok vs \<longleftrightarrow> vs \<noteq> [] \<and> length vs \<le> MAX_REVOCATION_VIEWS \<and> list_all view_ok vs \<and> canonical_order (map rv_namespace vs)"

lemma revocation_view_new_iff:
  "revocation_view_new ns rt ver sn e f u = Inr v \<longleftrightarrow>
     ns = JStr (rv_namespace v) \<and> rt = JInt (rv_root_version v) \<and> ver = JInt (rv_version v) \<and> sn = JStr (rv_snapshot_id v) \<and>
     e = rv_evidence v \<and> f = JInt (rv_valid_from v) \<and> u = JInt (rv_valid_until v) \<and> view_ok v"
  by (cases v) (auto simp: revocation_view_new_def view_ok_def int_check_defs result_simps copy_reference_iff norm_scalars)

lemma copy_view_iff: "copy_view v = Inr v' \<longleftrightarrow> v' = v \<and> view_ok v"
  by (cases v; cases v') (auto simp: copy_view_def result_simps revocation_view_new_iff)

lemma validated_views_iff [result_simps]: "validated_revocation_views vs = Inr vs' \<longleftrightarrow> vs' = vs \<and> views_ok vs"
proof -
  have s: "vs = sort_key rv_namespace vs \<longleftrightarrow> sorted (map rv_namespace vs)" using sort_key_eq_iff by metis
  show ?thesis
    unfolding validated_revocation_views_def if_raise_eq_Inr bindR_eq_Inr mapR_copy [of _ view_ok, OF copy_view_iff] Let_def
      views_ok_def canonical_order_def
    using s by (auto simp: not_less)
qed

lemma view_body_rebuild:
  assumes "revocation_view_from_body v = Inr r" and "normal_form v"
  shows "norm_json (revocation_view_body r) = v"
proof -
  from assms(1) have k: "has_keys v REVOCATION_VIEW_FIELDS" "member ''namespace'' v = JStr (rv_namespace r)"
    "member ''root_version'' v = JInt (rv_root_version r)" "member ''version'' v = JInt (rv_version r)"
    "member ''snapshot_id'' v = JStr (rv_snapshot_id r)" "member ''valid_from'' v = JInt (rv_valid_from r)"
    "member ''valid_until'' v = JInt (rv_valid_until r)" and e: "evidence_reference_from_body (member ''evidence'' v) = Inr (rv_evidence r)"
    by (auto simp: revocation_view_from_body_def bindR_eq_Inr revocation_view_new_iff split: if_splits)
  have "norm_json (evidence_reference_body (rv_evidence r)) = member ''evidence'' v"
    by (rule reference_body_rebuild [OF e normal_form_member [OF assms(2)]])
  then show ?thesis unfolding revocation_view_body_def
    by (intro norm_rebuild [OF assms(2) k(1)]) (use k in \<open>auto simp: REVOCATION_VIEW_FIELDS_def\<close>)
qed

lemma view_from_body: "view_ok v \<Longrightarrow> revocation_view_from_body (revocation_view_body v) = Inr v"
proof -
  assume v: "view_ok v"
  have "has_keys (revocation_view_body v) REVOCATION_VIEW_FIELDS" by (auto simp: has_keys_def revocation_view_body_def REVOCATION_VIEW_FIELDS_def)
  moreover have "evidence_reference_from_body (evidence_reference_body (rv_evidence v)) = Inr (rv_evidence v)"
    using v by (intro reference_from_body) (simp add: view_ok_def)
  ultimately show ?thesis using v
    by (simp add: revocation_view_from_body_def) (simp add: revocation_view_body_def member_def revocation_view_new_iff)
qed

section \<open>Genesis identities\<close>

definition head_checkpoint_genesis_id :: "externals \<Rightarrow> json \<Rightarrow> json \<Rightarrow> digest result" where
  "head_checkpoint_genesis_id X service_instance_id environment_id =
     bindR (seqR [int_identity ''service_instance_id'' service_instance_id, int_identity ''environment_id'' environment_id]) (\<lambda>_.
       content_id X ''head_checkpoint_genesis'' (JObj [
         (''environment_id'', environment_id), (''service_instance_id'', service_instance_id)]))"

definition mission_checkpoint_genesis_id :: "externals \<Rightarrow> json \<Rightarrow> json \<Rightarrow> json \<Rightarrow> digest result" where
  "mission_checkpoint_genesis_id X service_instance_id environment_id mission_id =
     bindR (seqR [int_identity ''service_instance_id'' service_instance_id, int_identity ''environment_id'' environment_id,
       int_digest ''mission_id'' mission_id]) (\<lambda>_.
       content_id X ''mission_checkpoint_genesis'' (JObj [
         (''environment_id'', environment_id), (''mission_id'', mission_id), (''service_instance_id'', service_instance_id)]))"

end
