(* ===== verification/Integrity_Decision.thy ===== *)
theory Integrity_Decision
  imports Integrity_Fields Attested_Wire
begin

text \<open>
  \<open>src/etzio/integrity_v1.py\<close>: \<open>IntegrityDecisionV1\<close>, the pre-transition statement of an integrity authority. The scalar
  arguments of the constructor arrive as the members of a JSON object, the evidence as typed values.
\<close>

section \<open>Data\<close>

record integrity_decision =
  dc_decision_id :: digest
  dc_service_instance_id :: pystr
  dc_environment_id :: pystr
  dc_mission_id :: pystr
  dc_authority_id :: pystr
  dc_target_id :: pystr
  dc_prior_global_checkpoint_sequence :: int
  dc_prior_global_checkpoint_id :: pystr
  dc_prior_global_checkpoint_attestation_id :: "pystr option"
  dc_prior_global_checkpoint_principal_id :: "pystr option"
  dc_prior_global_checkpoint_trust_snapshot_id :: "pystr option"
  dc_prior_event_seq :: int
  dc_prior_event_digest :: pystr
  dc_event_kind :: pystr
  dc_proposed_event_digest :: pystr
  dc_transition_intent_id :: pystr
  dc_request_nonce :: pystr
  dc_time_lower_bound :: int
  dc_time_upper_bound :: int
  dc_time_policy_id :: pystr
  dc_decision_policy_id :: pystr
  dc_time_evidence :: "evidence_reference list"
  dc_revocation_views :: "revocation_view list"

definition DECISION_BODY_FIELDS :: "pystr list" where
  "DECISION_BODY_FIELDS = [''authority_id'', ''decision_policy_id'', ''environment_id'', ''event_kind'', ''mission_id'',
     ''prior_global_checkpoint_attestation_id'', ''prior_global_checkpoint_id'', ''prior_global_checkpoint_principal_id'',
     ''prior_global_checkpoint_sequence'', ''prior_global_checkpoint_trust_snapshot_id'', ''prior_event_digest'',
     ''prior_event_seq'', ''proposed_event_digest'', ''request_nonce'', ''revocation_views'', ''service_instance_id'',
     ''target_id'', ''time_evidence'', ''time_lower_bound'', ''time_policy_id'', ''time_upper_bound'',
     ''transition_intent_id'']"

text \<open>\<open>_decision_body\<close>: the scalar members are taken over as they are.\<close>

definition decision_body :: "json \<Rightarrow> evidence_reference list \<Rightarrow> revocation_view list \<Rightarrow> json result" where
  "decision_body v time_evidence revocation_views =
     bindR (validated_evidence_references ''time_evidence'' 2 TRUSTED_TIME_EVIDENCE_KIND time_evidence) (\<lambda>time_evidence.
     bindR (validated_revocation_views revocation_views) (\<lambda>revocation_views.
     Inr (JObj [(''authority_id'', member ''authority_id'' v), (''decision_policy_id'', member ''decision_policy_id'' v),
       (''environment_id'', member ''environment_id'' v), (''event_kind'', member ''event_kind'' v),
       (''mission_id'', member ''mission_id'' v),
       (''prior_global_checkpoint_attestation_id'', member ''prior_global_checkpoint_attestation_id'' v),
       (''prior_global_checkpoint_id'', member ''prior_global_checkpoint_id'' v),
       (''prior_global_checkpoint_principal_id'', member ''prior_global_checkpoint_principal_id'' v),
       (''prior_global_checkpoint_sequence'', member ''prior_global_checkpoint_sequence'' v),
       (''prior_global_checkpoint_trust_snapshot_id'', member ''prior_global_checkpoint_trust_snapshot_id'' v),
       (''prior_event_digest'', member ''prior_event_digest'' v), (''prior_event_seq'', member ''prior_event_seq'' v),
       (''proposed_event_digest'', member ''proposed_event_digest'' v), (''request_nonce'', member ''request_nonce'' v),
       (''revocation_views'', JArr (map revocation_view_body revocation_views)),
       (''service_instance_id'', member ''service_instance_id'' v), (''target_id'', member ''target_id'' v),
       (''time_evidence'', JArr (map evidence_reference_body time_evidence)),
       (''time_lower_bound'', member ''time_lower_bound'' v), (''time_policy_id'', member ''time_policy_id'' v),
       (''time_upper_bound'', member ''time_upper_bound'' v), (''transition_intent_id'', member ''transition_intent_id'' v)])))"

definition decision_of :: "digest \<Rightarrow> json \<Rightarrow> evidence_reference list \<Rightarrow> revocation_view list \<Rightarrow> integrity_decision" where
  "decision_of decision_id v time_evidence revocation_views = \<lparr>dc_decision_id = decision_id,
     dc_service_instance_id = jstr (member ''service_instance_id'' v),
     dc_environment_id = jstr (member ''environment_id'' v), dc_mission_id = jstr (member ''mission_id'' v),
     dc_authority_id = jstr (member ''authority_id'' v), dc_target_id = jstr (member ''target_id'' v),
     dc_prior_global_checkpoint_sequence = jint (member ''prior_global_checkpoint_sequence'' v),
     dc_prior_global_checkpoint_id = jstr (member ''prior_global_checkpoint_id'' v),
     dc_prior_global_checkpoint_attestation_id = jopt (member ''prior_global_checkpoint_attestation_id'' v),
     dc_prior_global_checkpoint_principal_id = jopt (member ''prior_global_checkpoint_principal_id'' v),
     dc_prior_global_checkpoint_trust_snapshot_id = jopt (member ''prior_global_checkpoint_trust_snapshot_id'' v),
     dc_prior_event_seq = jint (member ''prior_event_seq'' v),
     dc_prior_event_digest = jstr (member ''prior_event_digest'' v), dc_event_kind = jstr (member ''event_kind'' v),
     dc_proposed_event_digest = jstr (member ''proposed_event_digest'' v),
     dc_transition_intent_id = jstr (member ''transition_intent_id'' v),
     dc_request_nonce = jstr (member ''request_nonce'' v), dc_time_lower_bound = jint (member ''time_lower_bound'' v),
     dc_time_upper_bound = jint (member ''time_upper_bound'' v), dc_time_policy_id = jstr (member ''time_policy_id'' v),
     dc_decision_policy_id = jstr (member ''decision_policy_id'' v), dc_time_evidence = time_evidence,
     dc_revocation_views = revocation_views\<rparr>"

definition decision_scalars :: "integrity_decision \<Rightarrow> json" where
  "decision_scalars d = JObj [
     (''service_instance_id'', JStr (dc_service_instance_id d)), (''environment_id'', JStr (dc_environment_id d)),
     (''mission_id'', JStr (dc_mission_id d)), (''authority_id'', JStr (dc_authority_id d)),
     (''target_id'', JStr (dc_target_id d)),
     (''prior_global_checkpoint_sequence'', JInt (dc_prior_global_checkpoint_sequence d)),
     (''prior_global_checkpoint_id'', JStr (dc_prior_global_checkpoint_id d)),
     (''prior_global_checkpoint_attestation_id'', ojson (dc_prior_global_checkpoint_attestation_id d)),
     (''prior_global_checkpoint_principal_id'', ojson (dc_prior_global_checkpoint_principal_id d)),
     (''prior_global_checkpoint_trust_snapshot_id'', ojson (dc_prior_global_checkpoint_trust_snapshot_id d)),
     (''prior_event_seq'', JInt (dc_prior_event_seq d)), (''prior_event_digest'', JStr (dc_prior_event_digest d)),
     (''event_kind'', JStr (dc_event_kind d)), (''proposed_event_digest'', JStr (dc_proposed_event_digest d)),
     (''transition_intent_id'', JStr (dc_transition_intent_id d)), (''request_nonce'', JStr (dc_request_nonce d)),
     (''time_lower_bound'', JInt (dc_time_lower_bound d)), (''time_upper_bound'', JInt (dc_time_upper_bound d)),
     (''time_policy_id'', JStr (dc_time_policy_id d)), (''decision_policy_id'', JStr (dc_decision_policy_id d))]"

section \<open>Construction\<close>

definition decision_checks :: "externals \<Rightarrow> json \<Rightarrow> exn + unit" where
  "decision_checks X v =
     bindR (seqR [
       int_identity ''service_instance_id'' (member ''service_instance_id'' v), int_identity ''environment_id'' (member ''environment_id'' v),
       int_digest ''mission_id'' (member ''mission_id'' v), int_digest ''authority_id'' (member ''authority_id'' v),
       int_digest ''target_id'' (member ''target_id'' v),
       requireR (is_JInt (member ''prior_global_checkpoint_sequence'' v) \<and> - 1 \<le> jint (member ''prior_global_checkpoint_sequence'' v) \<and>
                 jint (member ''prior_global_checkpoint_sequence'' v) < MAX_EPOCH_SECOND)
         (IntegrityError ''invalid_prior_global_checkpoint_sequence'' ''prior global checkpoint sequence must leave room for one int64 successor''),
       int_digest ''prior_global_checkpoint_id'' (member ''prior_global_checkpoint_id'' v)]) (\<lambda>_.
     bindR (head_checkpoint_genesis_id X (member ''service_instance_id'' v) (member ''environment_id'' v)) (\<lambda>global_genesis.
     seqR [
       requireR (\<not> (jint (member ''prior_global_checkpoint_sequence'' v) = - 1 \<and> jstr (member ''prior_global_checkpoint_id'' v) \<noteq> global_genesis \<or>
                   jint (member ''prior_global_checkpoint_sequence'' v) \<ge> 0 \<and> jstr (member ''prior_global_checkpoint_id'' v) = global_genesis))
         (IntegrityError ''invalid_global_checkpoint_binding'' ''prior global sequence and checkpoint identity disagree''),
       validate_predecessor_provenance (jint (member ''prior_global_checkpoint_sequence'' v)) (member ''prior_global_checkpoint_attestation_id'' v)
         (member ''prior_global_checkpoint_principal_id'' v) (member ''prior_global_checkpoint_trust_snapshot_id'' v) ''prior_global_checkpoint'',
       requireR (is_JInt (member ''prior_event_seq'' v) \<and> - 1 \<le> jint (member ''prior_event_seq'' v) \<and> jint (member ''prior_event_seq'' v) < MAX_EPOCH_SECOND)
         (IntegrityError ''invalid_prior_event_seq'' ''prior_event_seq must leave room for one signed int64 successor''),
       int_digest ''prior_event_digest'' (member ''prior_event_digest'' v),
       requireR (jint (member ''prior_event_seq'' v) = - 1 \<longrightarrow> jstr (member ''prior_event_digest'' v) = GENESIS_DIGEST)
         (IntegrityError ''invalid_genesis_binding'' ''sequence -1 must bind the fixed event genesis digest''),
       requireR (jint (member ''prior_event_seq'' v) \<ge> 0 \<longrightarrow> jstr (member ''prior_event_digest'' v) \<noteq> GENESIS_DIGEST)
         (IntegrityError ''invalid_genesis_binding'' ''non-genesis sequence cannot bind the event genesis digest''),
       requireR (is_JStr (member ''event_kind'' v) \<and> snake_case (jstr (member ''event_kind'' v)))
         (IntegrityError ''invalid_event_kind'' ''event_kind must be an ASCII snake_case identifier''),
       int_digest ''proposed_event_digest'' (member ''proposed_event_digest'' v), int_digest ''transition_intent_id'' (member ''transition_intent_id'' v),
       requireR (is_JStr (member ''request_nonce'' v) \<and> nonce_256 (jstr (member ''request_nonce'' v)))
         (IntegrityError ''invalid_request_nonce'' ''request_nonce must contain 256 bits of lowercase hexadecimal material''),
       validate_time_interval (member ''time_lower_bound'' v) (member ''time_upper_bound'' v),
       int_digest ''time_policy_id'' (member ''time_policy_id'' v), int_digest ''decision_policy_id'' (member ''decision_policy_id'' v)]))"

definition views_cover :: "int \<Rightarrow> int \<Rightarrow> revocation_view list \<Rightarrow> exn + unit" where
  "views_cover lower upper views =
     seqR (map (\<lambda>view. interval_within (''revocation_'' @ rv_namespace view) lower upper (rv_valid_from view) (rv_valid_until view)) views)"

definition decision_new :: "externals \<Rightarrow> digest \<Rightarrow> json \<Rightarrow> evidence_reference list \<Rightarrow> revocation_view list \<Rightarrow> integrity_decision result" where
  "decision_new X decision_id v time_evidence revocation_views =
     bindR (seqR [int_digest ''decision_id'' (JStr decision_id), decision_checks X v]) (\<lambda>_.
     bindR (validated_evidence_references ''time_evidence'' 2 TRUSTED_TIME_EVIDENCE_KIND time_evidence) (\<lambda>evidence.
     bindR (validated_revocation_views revocation_views) (\<lambda>views.
     bindR (views_cover (jint (member ''time_lower_bound'' v)) (jint (member ''time_upper_bound'' v)) views) (\<lambda>_.
     bindR (decision_body v evidence views) (\<lambda>body.
     bindR (envelope_create X INTEGRITY_DECISION_OBJECT_KIND body (JArr [])) (\<lambda>e.
     if env_object_id e \<noteq> decision_id
     then Inl (IntegrityError ''object_id_mismatch'' ''decision_id does not match canonical integrity-decision semantics'')
     else Inr (decision_of decision_id v evidence views)))))))"

text \<open>\<open>_decision_values\<close>: the evidence of a body, read from its arrays.\<close>

definition decision_values :: "json \<Rightarrow> (evidence_reference list \<times> revocation_view list) result" where
  "decision_values body =
     (let te = member ''time_evidence'' body; rv = member ''revocation_views'' body in
      if \<not> (is_JArr te \<and> is_JArr rv \<and> 2 \<le> length (arr_items te) \<and> length (arr_items te) \<le> MAX_EVIDENCE_REFS \<and>
            1 \<le> length (arr_items rv) \<and> length (arr_items rv) \<le> MAX_REVOCATION_VIEWS)
      then Inl (IntegrityError ''invalid_integrity_decision'' ''decision evidence and revocation views must be bounded arrays'')
      else bindR (mapR evidence_reference_from_body (arr_items te)) (\<lambda>time_evidence.
           bindR (mapR revocation_view_from_body (arr_items rv)) (\<lambda>revocation_views. Inr (time_evidence, revocation_views))))"

definition decision_issue :: "externals \<Rightarrow> json \<Rightarrow> evidence_reference list \<Rightarrow> revocation_view list \<Rightarrow> integrity_decision result" where
  "decision_issue X v time_evidence revocation_views =
     bindR (rewrap (\<lambda>ex. \<not> is_integrity_error ex \<and> value_caught ex)
         (IntegrityError ''invalid_integrity_decision'' ''integrity decision cannot be represented by protocol v1'')
         (bindR (decision_body v time_evidence revocation_views) (\<lambda>body.
          bindR (envelope_create X INTEGRITY_DECISION_OBJECT_KIND body (JArr [])) (\<lambda>e. Inr (body, e))))) (\<lambda>(body, e).
     bindR (decision_values body) (\<lambda>(te, rv). decision_new X (env_object_id e) body te rv))"

definition decision_from_envelope :: "externals \<Rightarrow> envelope \<Rightarrow> integrity_decision result" where
  "decision_from_envelope X e =
     (if \<not> (env_kind e = INTEGRITY_DECISION_OBJECT_KIND \<and> env_attestations e = [])
      then Inl (IntegrityError ''invalid_integrity_decision'' ''expected an unattested integrity_decision envelope'')
      else bindR (rewrap value_caught (IntegrityError ''invalid_integrity_decision'' ''integrity decision body is not valid protocol-v1 semantics'')
          (thaw_json X (JObj (env_body e)))) (\<lambda>body.
        if \<not> has_keys body DECISION_BODY_FIELDS
        then Inl (IntegrityError ''invalid_integrity_decision'' ''integrity decision has missing or unknown fields'')
        else bindR (decision_values body) (\<lambda>(te, rv). decision_new X (env_object_id e) body te rv)))"

definition decision_to_envelope :: "externals \<Rightarrow> integrity_decision \<Rightarrow> envelope result" where
  "decision_to_envelope X d =
     bindR (decision_body (decision_scalars d) (dc_time_evidence d) (dc_revocation_views d)) (\<lambda>body.
     bindR (envelope_create X INTEGRITY_DECISION_OBJECT_KIND body (JArr [])) (\<lambda>e.
     if env_object_id e \<noteq> dc_decision_id d
     then Inl (IntegrityError ''object_id_mismatch'' ''decision_id does not match canonical integrity-decision semantics'')
     else Inr e))"

definition decision_revocation_view :: "integrity_decision \<Rightarrow> json \<Rightarrow> revocation_view result" where
  "decision_revocation_view d namespace =
     bindR (int_identity ''namespace'' namespace) (\<lambda>_.
     case find (\<lambda>view. JStr (rv_namespace view) = namespace) (dc_revocation_views d) of
       Some view \<Rightarrow> Inr view
     | None \<Rightarrow> Inl (IntegrityError ''missing_revocation_namespace'' ''integrity decision lacks revocation namespace''))"

text \<open>\<open>_snapshot_integrity_decision_value\<close>\<close>

definition snapshot_decision_value :: "externals \<Rightarrow> integrity_decision \<Rightarrow> integrity_decision result" where
  "snapshot_decision_value X d =
     rewrap value_caught (IntegrityError ''invalid_integrity_decision'' ''integrity decision is not a valid canonical value'')
       (bindR (decision_to_envelope X d) (\<lambda>e. bindR (envelope_to_bytes X e) (\<lambda>b. bindR (envelope_from_bytes X b) (decision_from_envelope X))))"

section \<open>Reading and writing\<close>

lemma decision_checks_typed:
  assumes "decision_checks X v = Inr u"
  shows "list_all (\<lambda>k. is_JStr (member k v)) [''service_instance_id'', ''environment_id'', ''mission_id'', ''authority_id'', ''target_id'',
       ''prior_global_checkpoint_id'', ''prior_event_digest'', ''event_kind'', ''proposed_event_digest'',
       ''transition_intent_id'', ''request_nonce'', ''time_policy_id'', ''decision_policy_id'']"
    and "list_all (\<lambda>k. is_JInt (member k v)) [''prior_global_checkpoint_sequence'', ''prior_event_seq'', ''time_lower_bound'', ''time_upper_bound'']"
    and "list_all (\<lambda>k. is_opt (member k v)) [''prior_global_checkpoint_attestation_id'', ''prior_global_checkpoint_principal_id'',
       ''prior_global_checkpoint_trust_snapshot_id'']"
proof -
  note c = assms [unfolded decision_checks_def bindR_eq_Inr validate_time_interval_def int_check_defs result_simps]
  from c show "list_all (\<lambda>k. is_JStr (member k v)) [''service_instance_id'', ''environment_id'', ''mission_id'', ''authority_id'', ''target_id'',
       ''prior_global_checkpoint_id'', ''prior_event_digest'', ''event_kind'', ''proposed_event_digest'',
       ''transition_intent_id'', ''request_nonce'', ''time_policy_id'', ''decision_policy_id'']"
    unfolding list_all_unfold by blast
  from c show "list_all (\<lambda>k. is_JInt (member k v)) [''prior_global_checkpoint_sequence'', ''prior_event_seq'', ''time_lower_bound'', ''time_upper_bound'']"
    unfolding list_all_unfold by blast
  from c have "validate_predecessor_provenance (jint (member ''prior_global_checkpoint_sequence'' v)) (member ''prior_global_checkpoint_attestation_id'' v)
         (member ''prior_global_checkpoint_principal_id'' v) (member ''prior_global_checkpoint_trust_snapshot_id'' v) ''prior_global_checkpoint'' = Inr ()"
    by blast
  from provenance_typed [OF this] show "list_all (\<lambda>k. is_opt (member k v)) [''prior_global_checkpoint_attestation_id'', ''prior_global_checkpoint_principal_id'',
       ''prior_global_checkpoint_trust_snapshot_id'']"
    unfolding list_all_unfold by blast
qed

lemma decision_scalars_of:
  assumes "decision_checks X v = Inr u"
  shows "decision_body (decision_scalars (decision_of i v te rv)) = decision_body v"
proof -
  note t = decision_checks_typed [OF assms, unfolded list_all_unfold]
  show ?thesis
    by (intro ext) (use t in \<open>simp add: decision_body_def decision_scalars_def decision_of_def member_def [of _ "JObj _"] norm_scalars ojson_jopt\<close>)
qed

lemma views_cover_eq_Inr [result_simps]:
  "views_cover lower upper views = Inr u \<longleftrightarrow> (\<forall>view \<in> set views. rv_valid_from view \<le> lower \<and> upper < rv_valid_until view)"
  by (auto simp: views_cover_def seqR_eq_Inr interval_within_eq_Inr)

lemma decision_body_eq_Inr:
  "decision_body v te rv = Inr body \<longleftrightarrow> references_ok 2 TRUSTED_TIME_EVIDENCE_KIND te \<and> views_ok rv \<and> body = JObj [(''authority_id'', member ''authority_id'' v), (''decision_policy_id'', member ''decision_policy_id'' v),
       (''environment_id'', member ''environment_id'' v), (''event_kind'', member ''event_kind'' v),
       (''mission_id'', member ''mission_id'' v),
       (''prior_global_checkpoint_attestation_id'', member ''prior_global_checkpoint_attestation_id'' v),
       (''prior_global_checkpoint_id'', member ''prior_global_checkpoint_id'' v),
       (''prior_global_checkpoint_principal_id'', member ''prior_global_checkpoint_principal_id'' v),
       (''prior_global_checkpoint_sequence'', member ''prior_global_checkpoint_sequence'' v),
       (''prior_global_checkpoint_trust_snapshot_id'', member ''prior_global_checkpoint_trust_snapshot_id'' v),
       (''prior_event_digest'', member ''prior_event_digest'' v), (''prior_event_seq'', member ''prior_event_seq'' v),
       (''proposed_event_digest'', member ''proposed_event_digest'' v), (''request_nonce'', member ''request_nonce'' v),
       (''revocation_views'', JArr (map revocation_view_body rv)),
       (''service_instance_id'', member ''service_instance_id'' v), (''target_id'', member ''target_id'' v),
       (''time_evidence'', JArr (map evidence_reference_body te)), (''time_lower_bound'', member ''time_lower_bound'' v),
       (''time_policy_id'', member ''time_policy_id'' v), (''time_upper_bound'', member ''time_upper_bound'' v),
       (''transition_intent_id'', member ''transition_intent_id'' v)]"
  by (auto simp: decision_body_def result_simps)

lemma decision_new_iff:
  "decision_new X i v te rv = Inr d \<longleftrightarrow> full_digest i \<and> decision_checks X v = Inr () \<and>
     (\<forall>view \<in> set rv. rv_valid_from view \<le> jint (member ''time_lower_bound'' v) \<and> jint (member ''time_upper_bound'' v) < rv_valid_until view) \<and>
     (\<exists>body e. decision_body v te rv = Inr body \<and> envelope_create X INTEGRITY_DECISION_OBJECT_KIND body (JArr []) = Inr e \<and> env_object_id e = i) \<and>
     d = decision_of i v te rv"
  unfolding decision_new_def decision_body_eq_Inr
  by (auto simp: result_simps int_digest_def digest_value_def decision_body_eq_Inr)

lemma decision_values_eq_Inr:
  "decision_values body = Inr (te, rv) \<longleftrightarrow>
     is_JArr (member ''time_evidence'' body) \<and> is_JArr (member ''revocation_views'' body) \<and>
     2 \<le> length (arr_items (member ''time_evidence'' body)) \<and> length (arr_items (member ''time_evidence'' body)) \<le> MAX_EVIDENCE_REFS \<and>
     1 \<le> length (arr_items (member ''revocation_views'' body)) \<and> length (arr_items (member ''revocation_views'' body)) \<le> MAX_REVOCATION_VIEWS \<and>
     mapR evidence_reference_from_body (arr_items (member ''time_evidence'' body)) = Inr te \<and>
     mapR revocation_view_from_body (arr_items (member ''revocation_views'' body)) = Inr rv"
  by (auto simp: decision_values_def Let_def bindR_eq_Inr)

lemma decision_from_envelopeD:
  assumes "decision_from_envelope X e = Inr d"
  obtains body te rv where "thaw_json X (JObj (env_body e)) = Inr body" and "env_kind e = INTEGRITY_DECISION_OBJECT_KIND"
    and "env_attestations e = []" and "has_keys body DECISION_BODY_FIELDS" and "decision_values body = Inr (te, rv)"
    and "decision_new X (env_object_id e) body te rv = Inr d"
  using assms unfolding decision_from_envelope_def if_raise_eq_Inr bindR_eq_Inr rewrap_eq_Inr by auto

lemma decision_body_rebuild:
  assumes "decision_values body = Inr (te, rv)" and "normal_form body" and "has_keys body DECISION_BODY_FIELDS"
    and "decision_checks X body = Inr u" and "decision_body body te rv = Inr b"
  shows "norm_json b = body"
proof -
  note t = decision_checks_typed [OF assms(4), unfolded list_all_unfold]
  have te: "norm_json (JArr (map evidence_reference_body te)) = member ''time_evidence'' body"
    by (rule array_rebuild [where rd = evidence_reference_from_body])
      (use assms(1) normal_form_member [OF assms(2)] reference_body_rebuild in \<open>auto simp: decision_values_eq_Inr\<close>)
  have rv: "norm_json (JArr (map revocation_view_body rv)) = member ''revocation_views'' body"
    by (rule array_rebuild [where rd = revocation_view_from_body])
      (use assms(1) normal_form_member [OF assms(2)] view_body_rebuild in \<open>auto simp: decision_values_eq_Inr\<close>)
  have o: "norm_json w = w" if "is_opt w" for w using that by (cases w) (auto simp: is_opt_def)
  show ?thesis unfolding assms(5) [unfolded decision_body_eq_Inr, THEN conjunct2, THEN conjunct2]
    by (rule norm_rebuild [OF assms(2,3)])
      (use t te rv in \<open>auto simp: DECISION_BODY_FIELDS_def norm_scalars o simp del: norm_json.simps(1,2)\<close>)
qed

interpretation decision: content_object decision_to_envelope decision_from_envelope dc_decision_id
proof unfold_locales
  fix X e d
  assume e: "created_envelope X e" and d: "decision_from_envelope X e = Inr d"
  from d obtain body te rv where t: "thaw_json X (JObj (env_body e)) = Inr body" and k: "env_kind e = INTEGRITY_DECISION_OBJECT_KIND"
    "env_attestations e = []" "has_keys body DECISION_BODY_FIELDS" and v: "decision_values body = Inr (te, rv)"
    and n: "decision_new X (env_object_id e) body te rv = Inr d" by (rule decision_from_envelopeD)
  have b: "body = JObj (env_body e)" using t created_thaw [OF e] by simp
  then have nf: "normal_form body" using normal_json_form [OF created_normal [OF e]] by simp
  from n obtain b' where c: "decision_checks X body = Inr ()" and b': "decision_body body te rv = Inr b'"
    and eq: "d = decision_of (env_object_id e) body te rv" unfolding decision_new_iff by blast
  have "norm_json b' = JObj (env_body e)" using decision_body_rebuild [OF v nf k(3) c b'] b by simp
  from rebuild_envelope [OF e k(2) this] k(1) b' show "decision_to_envelope X d = Inr e"
    unfolding decision_to_envelope_def eq decision_scalars_of [OF c] by (simp add: decision_of_def)
next
  fix X e d
  assume "decision_from_envelope X e = Inr d"
  then show "dc_decision_id d = env_object_id e"
    by (rule decision_from_envelopeD) (auto simp: decision_new_iff decision_of_def)
qed

text \<open>A decision that was read from an envelope survives the snapshot that consequential functions take of it.\<close>

definition valid_decision :: "externals \<Rightarrow> integrity_decision \<Rightarrow> bool" where
  "valid_decision X d \<longleftrightarrow> (\<exists>e. created_envelope X e \<and> decision_from_envelope X e = Inr d)"

lemma snapshot_decision_valid:
  assumes "valid_decision X d"
  shows "snapshot_decision_value X d = Inr d"
proof -
  from assms obtain e where e: "created_envelope X e" "decision_from_envelope X e = Inr d" by (auto simp: valid_decision_def)
  then obtain b where "envelope_to_bytes X e = Inr b" "envelope_from_bytes X b = Inr e"
    using env.decode_encode by (auto simp: created_envelope_def envelope_create_eq_Inr)
  then show ?thesis using e decision.from_env_to_env [OF e] by (simp add: snapshot_decision_value_def rewrap_def)
qed

end
