(* ===== verification/Head_Checkpoint.thy ===== *)
theory Head_Checkpoint
  imports Integrity_Fields Attested_Wire
begin

text \<open>
  \<open>src/etzio/integrity_v1.py\<close>: \<open>HeadCheckpointV1\<close>, the statement of a checkpoint authority on the head of the instance and of one
  mission, and the anchor statement that external anchors register before it exists.
\<close>

section \<open>Data\<close>

record head_checkpoint =
  hc_checkpoint_id :: digest
  hc_service_instance_id :: pystr
  hc_environment_id :: pystr
  hc_instance_sequence :: int
  hc_previous_checkpoint_id :: pystr
  hc_previous_checkpoint_attestation_id :: "pystr option"
  hc_previous_checkpoint_principal_id :: "pystr option"
  hc_previous_checkpoint_trust_snapshot_id :: "pystr option"
  hc_previous_mission_checkpoint_id :: pystr
  hc_previous_mission_checkpoint_attestation_id :: "pystr option"
  hc_previous_mission_checkpoint_principal_id :: "pystr option"
  hc_previous_mission_checkpoint_trust_snapshot_id :: "pystr option"
  hc_mission_id :: pystr
  hc_authority_id :: pystr
  hc_target_id :: pystr
  hc_event_seq :: int
  hc_event_digest :: pystr
  hc_integrity_decision_id :: pystr
  hc_integrity_decision_attestation_id :: pystr
  hc_integrity_decision_principal_id :: pystr
  hc_integrity_decision_trust_snapshot_id :: pystr
  hc_time_lower_bound :: int
  hc_time_upper_bound :: int
  hc_time_policy_id :: pystr
  hc_anchor_policy_id :: pystr
  hc_anchor_statement_id :: pystr
  hc_time_evidence :: "evidence_reference list"
  hc_anchor_evidence :: "evidence_reference list"

definition CHECKPOINT_BODY_FIELDS :: "pystr list" where
  "CHECKPOINT_BODY_FIELDS = [''anchor_evidence'', ''anchor_policy_id'', ''anchor_statement_id'', ''authority_id'', ''environment_id'',
     ''event_digest'', ''event_seq'', ''instance_sequence'', ''integrity_decision_attestation_id'',
     ''integrity_decision_id'', ''integrity_decision_principal_id'', ''integrity_decision_trust_snapshot_id'',
     ''mission_id'', ''previous_checkpoint_attestation_id'', ''previous_checkpoint_id'',
     ''previous_checkpoint_principal_id'', ''previous_checkpoint_trust_snapshot_id'',
     ''previous_mission_checkpoint_attestation_id'', ''previous_mission_checkpoint_id'',
     ''previous_mission_checkpoint_principal_id'', ''previous_mission_checkpoint_trust_snapshot_id'',
     ''service_instance_id'', ''target_id'', ''time_evidence'', ''time_lower_bound'', ''time_policy_id'',
     ''time_upper_bound'']"

text \<open>\<open>_checkpoint_body\<close>\<close>

definition checkpoint_body :: "json \<Rightarrow> evidence_reference list \<Rightarrow> evidence_reference list \<Rightarrow> json result" where
  "checkpoint_body v time_evidence anchor_evidence =
     bindR (validated_evidence_references ''time_evidence'' 2 TRUSTED_TIME_EVIDENCE_KIND time_evidence) (\<lambda>time_evidence.
     bindR (validated_evidence_references ''anchor_evidence'' 2 HEAD_ANCHOR_RECEIPT_EVIDENCE_KIND anchor_evidence) (\<lambda>anchor_evidence.
     Inr (JObj [(''anchor_evidence'', JArr (map evidence_reference_body anchor_evidence)),
       (''anchor_policy_id'', member ''anchor_policy_id'' v), (''anchor_statement_id'', member ''anchor_statement_id'' v),
       (''authority_id'', member ''authority_id'' v), (''environment_id'', member ''environment_id'' v),
       (''event_digest'', member ''event_digest'' v), (''event_seq'', member ''event_seq'' v),
       (''instance_sequence'', member ''instance_sequence'' v),
       (''integrity_decision_attestation_id'', member ''integrity_decision_attestation_id'' v),
       (''integrity_decision_id'', member ''integrity_decision_id'' v),
       (''integrity_decision_principal_id'', member ''integrity_decision_principal_id'' v),
       (''integrity_decision_trust_snapshot_id'', member ''integrity_decision_trust_snapshot_id'' v),
       (''mission_id'', member ''mission_id'' v),
       (''previous_checkpoint_attestation_id'', member ''previous_checkpoint_attestation_id'' v),
       (''previous_checkpoint_id'', member ''previous_checkpoint_id'' v),
       (''previous_checkpoint_principal_id'', member ''previous_checkpoint_principal_id'' v),
       (''previous_checkpoint_trust_snapshot_id'', member ''previous_checkpoint_trust_snapshot_id'' v),
       (''previous_mission_checkpoint_attestation_id'', member ''previous_mission_checkpoint_attestation_id'' v),
       (''previous_mission_checkpoint_id'', member ''previous_mission_checkpoint_id'' v),
       (''previous_mission_checkpoint_principal_id'', member ''previous_mission_checkpoint_principal_id'' v),
       (''previous_mission_checkpoint_trust_snapshot_id'', member ''previous_mission_checkpoint_trust_snapshot_id'' v),
       (''service_instance_id'', member ''service_instance_id'' v), (''target_id'', member ''target_id'' v),
       (''time_evidence'', JArr (map evidence_reference_body time_evidence)),
       (''time_lower_bound'', member ''time_lower_bound'' v), (''time_policy_id'', member ''time_policy_id'' v),
       (''time_upper_bound'', member ''time_upper_bound'' v)])))"

definition checkpoint_of :: "digest \<Rightarrow> json \<Rightarrow> evidence_reference list \<Rightarrow> evidence_reference list \<Rightarrow> head_checkpoint" where
  "checkpoint_of checkpoint_id v time_evidence anchor_evidence = \<lparr>hc_checkpoint_id = checkpoint_id,
     hc_service_instance_id = jstr (member ''service_instance_id'' v),
     hc_environment_id = jstr (member ''environment_id'' v), hc_instance_sequence = jint (member ''instance_sequence'' v),
     hc_previous_checkpoint_id = jstr (member ''previous_checkpoint_id'' v),
     hc_previous_checkpoint_attestation_id = jopt (member ''previous_checkpoint_attestation_id'' v),
     hc_previous_checkpoint_principal_id = jopt (member ''previous_checkpoint_principal_id'' v),
     hc_previous_checkpoint_trust_snapshot_id = jopt (member ''previous_checkpoint_trust_snapshot_id'' v),
     hc_previous_mission_checkpoint_id = jstr (member ''previous_mission_checkpoint_id'' v),
     hc_previous_mission_checkpoint_attestation_id = jopt (member ''previous_mission_checkpoint_attestation_id'' v),
     hc_previous_mission_checkpoint_principal_id = jopt (member ''previous_mission_checkpoint_principal_id'' v),
     hc_previous_mission_checkpoint_trust_snapshot_id = jopt (member ''previous_mission_checkpoint_trust_snapshot_id'' v),
     hc_mission_id = jstr (member ''mission_id'' v), hc_authority_id = jstr (member ''authority_id'' v),
     hc_target_id = jstr (member ''target_id'' v), hc_event_seq = jint (member ''event_seq'' v),
     hc_event_digest = jstr (member ''event_digest'' v),
     hc_integrity_decision_id = jstr (member ''integrity_decision_id'' v),
     hc_integrity_decision_attestation_id = jstr (member ''integrity_decision_attestation_id'' v),
     hc_integrity_decision_principal_id = jstr (member ''integrity_decision_principal_id'' v),
     hc_integrity_decision_trust_snapshot_id = jstr (member ''integrity_decision_trust_snapshot_id'' v),
     hc_time_lower_bound = jint (member ''time_lower_bound'' v), hc_time_upper_bound = jint (member ''time_upper_bound'' v),
     hc_time_policy_id = jstr (member ''time_policy_id'' v), hc_anchor_policy_id = jstr (member ''anchor_policy_id'' v),
     hc_anchor_statement_id = jstr (member ''anchor_statement_id'' v), hc_time_evidence = time_evidence,
     hc_anchor_evidence = anchor_evidence\<rparr>"

definition checkpoint_scalars :: "head_checkpoint \<Rightarrow> json" where
  "checkpoint_scalars c = JObj [
     (''service_instance_id'', JStr (hc_service_instance_id c)), (''environment_id'', JStr (hc_environment_id c)),
     (''instance_sequence'', JInt (hc_instance_sequence c)),
     (''previous_checkpoint_id'', JStr (hc_previous_checkpoint_id c)),
     (''previous_checkpoint_attestation_id'', ojson (hc_previous_checkpoint_attestation_id c)),
     (''previous_checkpoint_principal_id'', ojson (hc_previous_checkpoint_principal_id c)),
     (''previous_checkpoint_trust_snapshot_id'', ojson (hc_previous_checkpoint_trust_snapshot_id c)),
     (''previous_mission_checkpoint_id'', JStr (hc_previous_mission_checkpoint_id c)),
     (''previous_mission_checkpoint_attestation_id'', ojson (hc_previous_mission_checkpoint_attestation_id c)),
     (''previous_mission_checkpoint_principal_id'', ojson (hc_previous_mission_checkpoint_principal_id c)),
     (''previous_mission_checkpoint_trust_snapshot_id'', ojson (hc_previous_mission_checkpoint_trust_snapshot_id c)),
     (''mission_id'', JStr (hc_mission_id c)), (''authority_id'', JStr (hc_authority_id c)),
     (''target_id'', JStr (hc_target_id c)), (''event_seq'', JInt (hc_event_seq c)),
     (''event_digest'', JStr (hc_event_digest c)), (''integrity_decision_id'', JStr (hc_integrity_decision_id c)),
     (''integrity_decision_attestation_id'', JStr (hc_integrity_decision_attestation_id c)),
     (''integrity_decision_principal_id'', JStr (hc_integrity_decision_principal_id c)),
     (''integrity_decision_trust_snapshot_id'', JStr (hc_integrity_decision_trust_snapshot_id c)),
     (''time_lower_bound'', JInt (hc_time_lower_bound c)), (''time_upper_bound'', JInt (hc_time_upper_bound c)),
     (''time_policy_id'', JStr (hc_time_policy_id c)), (''anchor_policy_id'', JStr (hc_anchor_policy_id c)),
     (''anchor_statement_id'', JStr (hc_anchor_statement_id c))]"

section \<open>Anchor statements\<close>

text \<open>The fields and the body of the statement.\<close>

definition anchor_statement_checks :: "json \<Rightarrow> exn + unit" where
  "anchor_statement_checks v = seqR [
     int_digest ''previous_checkpoint_id'' (member ''previous_checkpoint_id'' v),
     int_digest ''previous_mission_checkpoint_id'' (member ''previous_mission_checkpoint_id'' v),
     int_digest ''mission_id'' (member ''mission_id'' v), int_digest ''authority_id'' (member ''authority_id'' v),
     int_digest ''target_id'' (member ''target_id'' v), int_digest ''event_digest'' (member ''event_digest'' v),
     int_digest ''integrity_decision_id'' (member ''integrity_decision_id'' v),
     int_digest ''integrity_decision_attestation_id'' (member ''integrity_decision_attestation_id'' v),
     int_digest ''integrity_decision_trust_snapshot_id'' (member ''integrity_decision_trust_snapshot_id'' v),
     int_digest ''time_policy_id'' (member ''time_policy_id'' v),
     int_digest ''anchor_policy_id'' (member ''anchor_policy_id'' v),
     int_identity ''service_instance_id'' (member ''service_instance_id'' v), int_identity ''environment_id'' (member ''environment_id'' v),
     int_identity ''integrity_decision_principal_id'' (member ''integrity_decision_principal_id'' v),
     int_nonnegative ''instance_sequence'' (member ''instance_sequence'' v), int_nonnegative ''event_seq'' (member ''event_seq'' v),
     validate_predecessor_provenance (jint (member ''instance_sequence'' v) - 1) (member ''previous_checkpoint_attestation_id'' v) (member ''previous_checkpoint_principal_id'' v)
       (member ''previous_checkpoint_trust_snapshot_id'' v) ''previous_checkpoint'',
     validate_predecessor_provenance (jint (member ''event_seq'' v) - 1) (member ''previous_mission_checkpoint_attestation_id'' v) (member ''previous_mission_checkpoint_principal_id'' v)
       (member ''previous_mission_checkpoint_trust_snapshot_id'' v) ''previous_mission_checkpoint'',
     validate_time_interval (member ''time_lower_bound'' v) (member ''time_upper_bound'' v)]"

definition anchor_statement_body :: "json \<Rightarrow> evidence_reference list \<Rightarrow> json" where
  "anchor_statement_body v references = JObj [(''anchor_policy_id'', member ''anchor_policy_id'' v), (''authority_id'', member ''authority_id'' v),
       (''environment_id'', member ''environment_id'' v), (''event_digest'', member ''event_digest'' v),
       (''event_seq'', member ''event_seq'' v), (''instance_sequence'', member ''instance_sequence'' v),
       (''integrity_decision_attestation_id'', member ''integrity_decision_attestation_id'' v),
       (''integrity_decision_id'', member ''integrity_decision_id'' v),
       (''integrity_decision_principal_id'', member ''integrity_decision_principal_id'' v),
       (''integrity_decision_trust_snapshot_id'', member ''integrity_decision_trust_snapshot_id'' v),
       (''mission_id'', member ''mission_id'' v), (''previous_checkpoint_id'', member ''previous_checkpoint_id'' v),
       (''previous_checkpoint_attestation_id'', member ''previous_checkpoint_attestation_id'' v),
       (''previous_checkpoint_principal_id'', member ''previous_checkpoint_principal_id'' v),
       (''previous_checkpoint_trust_snapshot_id'', member ''previous_checkpoint_trust_snapshot_id'' v),
       (''previous_mission_checkpoint_id'', member ''previous_mission_checkpoint_id'' v),
       (''previous_mission_checkpoint_attestation_id'', member ''previous_mission_checkpoint_attestation_id'' v),
       (''previous_mission_checkpoint_principal_id'', member ''previous_mission_checkpoint_principal_id'' v),
       (''previous_mission_checkpoint_trust_snapshot_id'', member ''previous_mission_checkpoint_trust_snapshot_id'' v),
       (''service_instance_id'', member ''service_instance_id'' v), (''target_id'', member ''target_id'' v),
       (''time_evidence'', JArr (map evidence_reference_body references)),
       (''time_lower_bound'', member ''time_lower_bound'' v), (''time_policy_id'', member ''time_policy_id'' v),
       (''time_upper_bound'', member ''time_upper_bound'' v)]"

definition derive_anchor_statement_id :: "externals \<Rightarrow> json \<Rightarrow> evidence_reference list \<Rightarrow> digest result" where
  "derive_anchor_statement_id X v time_evidence =
     bindR (anchor_statement_checks v) (\<lambda>_.
     bindR (validated_evidence_references ''time_evidence'' 2 TRUSTED_TIME_EVIDENCE_KIND time_evidence) (\<lambda>references.
     content_id X ''head_anchor_statement'' (anchor_statement_body v references)))"

section \<open>Construction\<close>

definition checkpoint_checks :: "externals \<Rightarrow> json \<Rightarrow> exn + unit" where
  "checkpoint_checks X v =
     bindR (seqR [
       int_digest ''previous_checkpoint_id'' (member ''previous_checkpoint_id'' v),
       int_digest ''previous_mission_checkpoint_id'' (member ''previous_mission_checkpoint_id'' v),
       int_digest ''mission_id'' (member ''mission_id'' v), int_digest ''authority_id'' (member ''authority_id'' v),
       int_digest ''target_id'' (member ''target_id'' v), int_digest ''event_digest'' (member ''event_digest'' v),
       int_digest ''integrity_decision_id'' (member ''integrity_decision_id'' v),
       int_digest ''integrity_decision_attestation_id'' (member ''integrity_decision_attestation_id'' v),
       int_digest ''integrity_decision_trust_snapshot_id'' (member ''integrity_decision_trust_snapshot_id'' v),
       int_digest ''time_policy_id'' (member ''time_policy_id'' v),
       int_digest ''anchor_policy_id'' (member ''anchor_policy_id'' v),
       int_digest ''anchor_statement_id'' (member ''anchor_statement_id'' v),
       int_identity ''service_instance_id'' (member ''service_instance_id'' v), int_identity ''environment_id'' (member ''environment_id'' v),
       int_identity ''integrity_decision_principal_id'' (member ''integrity_decision_principal_id'' v),
       int_nonnegative ''instance_sequence'' (member ''instance_sequence'' v), int_nonnegative ''event_seq'' (member ''event_seq'' v),
       requireR (jint (member ''event_seq'' v) \<le> jint (member ''instance_sequence'' v))
         (IntegrityError ''invalid_checkpoint_sequence'' ''mission event sequence cannot exceed the instance-global sequence'')]) (\<lambda>_.
     bindR (head_checkpoint_genesis_id X (member ''service_instance_id'' v) (member ''environment_id'' v)) (\<lambda>global_genesis.
     bindR (mission_checkpoint_genesis_id X (member ''service_instance_id'' v) (member ''environment_id'' v) (member ''mission_id'' v)) (\<lambda>mission_genesis.
     seqR [
       requireR (\<not> (jint (member ''instance_sequence'' v) = 0 \<and> jstr (member ''previous_checkpoint_id'' v) \<noteq> global_genesis \<or>
                   jint (member ''instance_sequence'' v) > 0 \<and> jstr (member ''previous_checkpoint_id'' v) = global_genesis))
         (IntegrityError ''invalid_global_checkpoint_binding'' ''checkpoint sequence and global predecessor identity disagree''),
       requireR (\<not> (jint (member ''event_seq'' v) = 0 \<and> jstr (member ''previous_mission_checkpoint_id'' v) \<noteq> mission_genesis \<or>
                   jint (member ''event_seq'' v) > 0 \<and> jstr (member ''previous_mission_checkpoint_id'' v) = mission_genesis))
         (IntegrityError ''invalid_mission_checkpoint_binding'' ''event sequence and mission predecessor identity disagree''),
       validate_predecessor_provenance (jint (member ''instance_sequence'' v) - 1) (member ''previous_checkpoint_attestation_id'' v) (member ''previous_checkpoint_principal_id'' v)
         (member ''previous_checkpoint_trust_snapshot_id'' v) ''previous_checkpoint'',
       validate_predecessor_provenance (jint (member ''event_seq'' v) - 1) (member ''previous_mission_checkpoint_attestation_id'' v) (member ''previous_mission_checkpoint_principal_id'' v)
         (member ''previous_mission_checkpoint_trust_snapshot_id'' v) ''previous_mission_checkpoint'',
       requireR (\<not> (member ''previous_checkpoint_id'' v = member ''previous_mission_checkpoint_id'' v \<and>
           (member ''previous_checkpoint_attestation_id'' v, member ''previous_checkpoint_principal_id'' v, member ''previous_checkpoint_trust_snapshot_id'' v) \<noteq>
           (member ''previous_mission_checkpoint_attestation_id'' v, member ''previous_mission_checkpoint_principal_id'' v,
            member ''previous_mission_checkpoint_trust_snapshot_id'' v)))
         (IntegrityError ''checkpoint_predecessor_provenance_mismatch'' ''one predecessor identity must have one exact attestation provenance''),
       validate_time_interval (member ''time_lower_bound'' v) (member ''time_upper_bound'' v)])))"

definition checkpoint_new :: "externals \<Rightarrow> digest \<Rightarrow> json \<Rightarrow> evidence_reference list \<Rightarrow> evidence_reference list \<Rightarrow> head_checkpoint result" where
  "checkpoint_new X checkpoint_id v time_evidence anchor_evidence =
     bindR (seqR [int_digest ''checkpoint_id'' (JStr checkpoint_id), checkpoint_checks X v]) (\<lambda>_.
     bindR (validated_evidence_references ''time_evidence'' 2 TRUSTED_TIME_EVIDENCE_KIND time_evidence) (\<lambda>time_evidence.
     bindR (validated_evidence_references ''anchor_evidence'' 2 HEAD_ANCHOR_RECEIPT_EVIDENCE_KIND anchor_evidence) (\<lambda>anchor_evidence.
     bindR (derive_anchor_statement_id X v time_evidence) (\<lambda>expected_statement_id.
     if jstr (member ''anchor_statement_id'' v) \<noteq> expected_statement_id
     then Inl (IntegrityError ''anchor_statement_mismatch'' ''anchor_statement_id does not match the pre-receipt head statement'')
     else bindR (checkpoint_body v time_evidence anchor_evidence) (\<lambda>body.
     bindR (envelope_create X HEAD_CHECKPOINT_OBJECT_KIND body (JArr [])) (\<lambda>e.
     if env_object_id e \<noteq> checkpoint_id
     then Inl (IntegrityError ''object_id_mismatch'' ''checkpoint_id does not match canonical head-checkpoint semantics'')
     else Inr (checkpoint_of checkpoint_id v time_evidence anchor_evidence)))))))"

text \<open>\<open>_checkpoint_values\<close>\<close>

definition checkpoint_values :: "json \<Rightarrow> (evidence_reference list \<times> evidence_reference list) result" where
  "checkpoint_values body =
     (let te = member ''time_evidence'' body; ae = member ''anchor_evidence'' body in
      if \<not> (is_JArr te \<and> is_JArr ae \<and> 2 \<le> length (arr_items te) \<and> length (arr_items te) \<le> MAX_EVIDENCE_REFS \<and>
            2 \<le> length (arr_items ae) \<and> length (arr_items ae) \<le> MAX_EVIDENCE_REFS)
      then Inl (IntegrityError ''invalid_head_checkpoint'' ''checkpoint evidence must be bounded arrays'')
      else bindR (mapR evidence_reference_from_body (arr_items te)) (\<lambda>time_evidence.
           bindR (mapR evidence_reference_from_body (arr_items ae)) (\<lambda>anchor_evidence. Inr (time_evidence, anchor_evidence))))"

text \<open>\<open>issue\<close> derives the anchor statement; the given members have none.\<close>

definition with_anchor_statement :: "json \<Rightarrow> digest \<Rightarrow> json" where
  "with_anchor_statement v statement_id = JObj ((''anchor_statement_id'', JStr statement_id) # obj_members v)"

definition checkpoint_issue :: "externals \<Rightarrow> json \<Rightarrow> evidence_reference list \<Rightarrow> evidence_reference list \<Rightarrow> head_checkpoint result" where
  "checkpoint_issue X v time_evidence anchor_evidence =
     bindR (derive_anchor_statement_id X v time_evidence) (\<lambda>statement_id.
     bindR (checkpoint_body (with_anchor_statement v statement_id) time_evidence anchor_evidence) (\<lambda>body.
     bindR (envelope_create X HEAD_CHECKPOINT_OBJECT_KIND body (JArr [])) (\<lambda>e.
     bindR (checkpoint_values body) (\<lambda>(te, ae). checkpoint_new X (env_object_id e) body te ae))))"

definition checkpoint_from_envelope :: "externals \<Rightarrow> envelope \<Rightarrow> head_checkpoint result" where
  "checkpoint_from_envelope X e =
     (if \<not> (env_kind e = HEAD_CHECKPOINT_OBJECT_KIND \<and> env_attestations e = [])
      then Inl (IntegrityError ''invalid_head_checkpoint'' ''expected an unattested head_checkpoint envelope'')
      else bindR (rewrap value_caught (IntegrityError ''invalid_head_checkpoint'' ''head checkpoint body is not valid protocol-v1 semantics'')
          (thaw_json X (JObj (env_body e)))) (\<lambda>body.
        if \<not> has_keys body CHECKPOINT_BODY_FIELDS
        then Inl (IntegrityError ''invalid_head_checkpoint'' ''head checkpoint has missing or unknown fields'')
        else bindR (checkpoint_values body) (\<lambda>(te, ae). checkpoint_new X (env_object_id e) body te ae)))"

definition checkpoint_to_envelope :: "externals \<Rightarrow> head_checkpoint \<Rightarrow> envelope result" where
  "checkpoint_to_envelope X c =
     bindR (checkpoint_body (checkpoint_scalars c) (hc_time_evidence c) (hc_anchor_evidence c)) (\<lambda>body.
     bindR (envelope_create X HEAD_CHECKPOINT_OBJECT_KIND body (JArr [])) (\<lambda>e.
     if env_object_id e \<noteq> hc_checkpoint_id c
     then Inl (IntegrityError ''object_id_mismatch'' ''checkpoint_id does not match canonical head-checkpoint semantics'')
     else Inr e))"

text \<open>\<open>_snapshot_head_checkpoint_value\<close>\<close>

definition snapshot_checkpoint_value :: "externals \<Rightarrow> head_checkpoint \<Rightarrow> head_checkpoint result" where
  "snapshot_checkpoint_value X c =
     rewrap value_caught (IntegrityError ''invalid_head_checkpoint'' ''head checkpoint is not a valid canonical value'')
       (bindR (checkpoint_to_envelope X c) (\<lambda>e. bindR (envelope_to_bytes X e) (\<lambda>b. bindR (envelope_from_bytes X b) (checkpoint_from_envelope X))))"

section \<open>Reading and writing\<close>

lemma checkpoint_checks_typed:
  assumes "checkpoint_checks X v = Inr u"
  shows "list_all (\<lambda>k. is_JStr (member k v)) [''service_instance_id'', ''environment_id'', ''previous_checkpoint_id'', ''previous_mission_checkpoint_id'',
       ''mission_id'', ''authority_id'', ''target_id'', ''event_digest'', ''integrity_decision_id'',
       ''integrity_decision_attestation_id'', ''integrity_decision_principal_id'', ''integrity_decision_trust_snapshot_id'',
       ''time_policy_id'', ''anchor_policy_id'', ''anchor_statement_id'']"
    and "list_all (\<lambda>k. is_JInt (member k v)) [''instance_sequence'', ''event_seq'', ''time_lower_bound'', ''time_upper_bound'']"
    and "list_all (\<lambda>k. is_opt (member k v)) [''previous_checkpoint_attestation_id'', ''previous_checkpoint_principal_id'',
       ''previous_checkpoint_trust_snapshot_id'', ''previous_mission_checkpoint_attestation_id'',
       ''previous_mission_checkpoint_principal_id'', ''previous_mission_checkpoint_trust_snapshot_id'']"
proof -
  note c = assms [unfolded checkpoint_checks_def bindR_eq_Inr validate_time_interval_def int_check_defs result_simps]
  from c show "list_all (\<lambda>k. is_JStr (member k v)) [''service_instance_id'', ''environment_id'', ''previous_checkpoint_id'', ''previous_mission_checkpoint_id'',
       ''mission_id'', ''authority_id'', ''target_id'', ''event_digest'', ''integrity_decision_id'',
       ''integrity_decision_attestation_id'', ''integrity_decision_principal_id'', ''integrity_decision_trust_snapshot_id'',
       ''time_policy_id'', ''anchor_policy_id'', ''anchor_statement_id'']"
    unfolding list_all_unfold by blast
  from c show "list_all (\<lambda>k. is_JInt (member k v)) [''instance_sequence'', ''event_seq'', ''time_lower_bound'', ''time_upper_bound'']"
    unfolding list_all_unfold by blast
  from c have p: "validate_predecessor_provenance (jint (member ''instance_sequence'' v) - 1) (member ''previous_checkpoint_attestation_id'' v) (member ''previous_checkpoint_principal_id'' v)
         (member ''previous_checkpoint_trust_snapshot_id'' v) ''previous_checkpoint'' = Inr ()"
    "validate_predecessor_provenance (jint (member ''event_seq'' v) - 1) (member ''previous_mission_checkpoint_attestation_id'' v) (member ''previous_mission_checkpoint_principal_id'' v)
         (member ''previous_mission_checkpoint_trust_snapshot_id'' v) ''previous_mission_checkpoint'' = Inr ()" by blast+
  from provenance_typed [OF p(1)] provenance_typed [OF p(2)] show "list_all (\<lambda>k. is_opt (member k v)) [''previous_checkpoint_attestation_id'', ''previous_checkpoint_principal_id'',
       ''previous_checkpoint_trust_snapshot_id'', ''previous_mission_checkpoint_attestation_id'',
       ''previous_mission_checkpoint_principal_id'', ''previous_mission_checkpoint_trust_snapshot_id'']"
    unfolding list_all_unfold by blast
qed

lemma checkpoint_scalars_of:
  assumes "checkpoint_checks X v = Inr u"
  shows "checkpoint_body (checkpoint_scalars (checkpoint_of i v te ae)) = checkpoint_body v"
proof -
  note t = checkpoint_checks_typed [OF assms, unfolded list_all_unfold]
  show ?thesis
    by (intro ext) (use t in \<open>simp add: checkpoint_body_def checkpoint_scalars_def checkpoint_of_def member_def [of _ "JObj _"] norm_scalars ojson_jopt\<close>)
qed

lemma checkpoint_body_eq_Inr:
  "checkpoint_body v te ae = Inr body \<longleftrightarrow> references_ok 2 TRUSTED_TIME_EVIDENCE_KIND te \<and> references_ok 2 HEAD_ANCHOR_RECEIPT_EVIDENCE_KIND ae \<and>
     body = JObj [(''anchor_evidence'', JArr (map evidence_reference_body ae)), (''anchor_policy_id'', member ''anchor_policy_id'' v),
       (''anchor_statement_id'', member ''anchor_statement_id'' v), (''authority_id'', member ''authority_id'' v),
       (''environment_id'', member ''environment_id'' v), (''event_digest'', member ''event_digest'' v),
       (''event_seq'', member ''event_seq'' v), (''instance_sequence'', member ''instance_sequence'' v),
       (''integrity_decision_attestation_id'', member ''integrity_decision_attestation_id'' v),
       (''integrity_decision_id'', member ''integrity_decision_id'' v),
       (''integrity_decision_principal_id'', member ''integrity_decision_principal_id'' v),
       (''integrity_decision_trust_snapshot_id'', member ''integrity_decision_trust_snapshot_id'' v),
       (''mission_id'', member ''mission_id'' v),
       (''previous_checkpoint_attestation_id'', member ''previous_checkpoint_attestation_id'' v),
       (''previous_checkpoint_id'', member ''previous_checkpoint_id'' v),
       (''previous_checkpoint_principal_id'', member ''previous_checkpoint_principal_id'' v),
       (''previous_checkpoint_trust_snapshot_id'', member ''previous_checkpoint_trust_snapshot_id'' v),
       (''previous_mission_checkpoint_attestation_id'', member ''previous_mission_checkpoint_attestation_id'' v),
       (''previous_mission_checkpoint_id'', member ''previous_mission_checkpoint_id'' v),
       (''previous_mission_checkpoint_principal_id'', member ''previous_mission_checkpoint_principal_id'' v),
       (''previous_mission_checkpoint_trust_snapshot_id'', member ''previous_mission_checkpoint_trust_snapshot_id'' v),
       (''service_instance_id'', member ''service_instance_id'' v), (''target_id'', member ''target_id'' v),
       (''time_evidence'', JArr (map evidence_reference_body te)), (''time_lower_bound'', member ''time_lower_bound'' v),
       (''time_policy_id'', member ''time_policy_id'' v), (''time_upper_bound'', member ''time_upper_bound'' v)]"
  by (auto simp: checkpoint_body_def result_simps)

lemma checkpoint_new_iff:
  "checkpoint_new X i v te ae = Inr c \<longleftrightarrow> full_digest i \<and> checkpoint_checks X v = Inr () \<and>
     derive_anchor_statement_id X v te = Inr (jstr (member ''anchor_statement_id'' v)) \<and>
     (\<exists>body e. checkpoint_body v te ae = Inr body \<and> envelope_create X HEAD_CHECKPOINT_OBJECT_KIND body (JArr []) = Inr e \<and> env_object_id e = i) \<and>
     c = checkpoint_of i v te ae"
  unfolding checkpoint_new_def checkpoint_body_eq_Inr
  by (auto simp: result_simps int_digest_def digest_value_def checkpoint_body_eq_Inr)

lemma checkpoint_values_eq_Inr:
  "checkpoint_values body = Inr (te, ae) \<longleftrightarrow>
     is_JArr (member ''time_evidence'' body) \<and> is_JArr (member ''anchor_evidence'' body) \<and>
     2 \<le> length (arr_items (member ''time_evidence'' body)) \<and> length (arr_items (member ''time_evidence'' body)) \<le> MAX_EVIDENCE_REFS \<and>
     2 \<le> length (arr_items (member ''anchor_evidence'' body)) \<and> length (arr_items (member ''anchor_evidence'' body)) \<le> MAX_EVIDENCE_REFS \<and>
     mapR evidence_reference_from_body (arr_items (member ''time_evidence'' body)) = Inr te \<and>
     mapR evidence_reference_from_body (arr_items (member ''anchor_evidence'' body)) = Inr ae"
  by (auto simp: checkpoint_values_def Let_def bindR_eq_Inr)

lemma checkpoint_from_envelopeD:
  assumes "checkpoint_from_envelope X e = Inr c"
  obtains body te ae where "thaw_json X (JObj (env_body e)) = Inr body" and "env_kind e = HEAD_CHECKPOINT_OBJECT_KIND"
    and "env_attestations e = []" and "has_keys body CHECKPOINT_BODY_FIELDS" and "checkpoint_values body = Inr (te, ae)"
    and "checkpoint_new X (env_object_id e) body te ae = Inr c"
  using assms unfolding checkpoint_from_envelope_def if_raise_eq_Inr bindR_eq_Inr rewrap_eq_Inr by auto

lemma checkpoint_body_rebuild:
  assumes "checkpoint_values body = Inr (te, ae)" and "normal_form body" and "has_keys body CHECKPOINT_BODY_FIELDS"
    and "checkpoint_checks X body = Inr u" and "checkpoint_body body te ae = Inr b"
  shows "norm_json b = body"
proof -
  note t = checkpoint_checks_typed [OF assms(4), unfolded list_all_unfold]
  have te: "norm_json (JArr (map evidence_reference_body te)) = member ''time_evidence'' body"
    by (rule array_rebuild [where rd = evidence_reference_from_body])
      (use assms(1) normal_form_member [OF assms(2)] reference_body_rebuild in \<open>auto simp: checkpoint_values_eq_Inr\<close>)
  have ae: "norm_json (JArr (map evidence_reference_body ae)) = member ''anchor_evidence'' body"
    by (rule array_rebuild [where rd = evidence_reference_from_body])
      (use assms(1) normal_form_member [OF assms(2)] reference_body_rebuild in \<open>auto simp: checkpoint_values_eq_Inr\<close>)
  have o: "norm_json w = w" if "is_opt w" for w using that by (cases w) (auto simp: is_opt_def)
  show ?thesis unfolding assms(5) [unfolded checkpoint_body_eq_Inr, THEN conjunct2, THEN conjunct2]
    by (rule norm_rebuild [OF assms(2,3)])
      (use t te ae in \<open>auto simp: CHECKPOINT_BODY_FIELDS_def norm_scalars o simp del: norm_json.simps(1,2)\<close>)
qed

interpretation checkpoint: content_object checkpoint_to_envelope checkpoint_from_envelope hc_checkpoint_id
proof unfold_locales
  fix X e c
  assume e: "created_envelope X e" and c: "checkpoint_from_envelope X e = Inr c"
  from c obtain body te ae where t: "thaw_json X (JObj (env_body e)) = Inr body" and k: "env_kind e = HEAD_CHECKPOINT_OBJECT_KIND"
    "env_attestations e = []" "has_keys body CHECKPOINT_BODY_FIELDS" and v: "checkpoint_values body = Inr (te, ae)"
    and n: "checkpoint_new X (env_object_id e) body te ae = Inr c" by (rule checkpoint_from_envelopeD)
  have b: "body = JObj (env_body e)" using t created_thaw [OF e] by simp
  then have nf: "normal_form body" using normal_json_form [OF created_normal [OF e]] by simp
  from n obtain b' where ch: "checkpoint_checks X body = Inr ()" and b': "checkpoint_body body te ae = Inr b'"
    and eq: "c = checkpoint_of (env_object_id e) body te ae" unfolding checkpoint_new_iff by blast
  have "norm_json b' = JObj (env_body e)" using checkpoint_body_rebuild [OF v nf k(3) ch b'] b by simp
  from rebuild_envelope [OF e k(2) this] k(1) b' show "checkpoint_to_envelope X c = Inr e"
    unfolding checkpoint_to_envelope_def eq checkpoint_scalars_of [OF ch] by (simp add: checkpoint_of_def)
next
  fix X e c
  assume "checkpoint_from_envelope X e = Inr c"
  then show "hc_checkpoint_id c = env_object_id e"
    by (rule checkpoint_from_envelopeD) (auto simp: checkpoint_new_iff checkpoint_of_def)
qed

definition valid_checkpoint :: "externals \<Rightarrow> head_checkpoint \<Rightarrow> bool" where
  "valid_checkpoint X c \<longleftrightarrow> (\<exists>e. created_envelope X e \<and> checkpoint_from_envelope X e = Inr c)"

lemma snapshot_checkpoint_valid:
  assumes "valid_checkpoint X c"
  shows "snapshot_checkpoint_value X c = Inr c"
proof -
  from assms obtain e where e: "created_envelope X e" "checkpoint_from_envelope X e = Inr c" by (auto simp: valid_checkpoint_def)
  then obtain b where "envelope_to_bytes X e = Inr b" "envelope_from_bytes X b = Inr e"
    using env.decode_encode by (auto simp: created_envelope_def envelope_create_eq_Inr)
  then show ?thesis using e checkpoint.from_env_to_env [OF e] by (simp add: snapshot_checkpoint_value_def rewrap_def)
qed

end
