(* ===== verification/Integrity_Signed.thy ===== *)
theory Integrity_Signed
  imports Integrity_Decision Head_Checkpoint
begin

text \<open>
  \<open>src/etzio/integrity_v1.py\<close>: signed integrity decisions and head checkpoints. Both classes share the transport functions
  \<open>_validate_signed_fields\<close>, \<open>_signed_to_envelope\<close>, \<open>_extract_signed_transport\<close> and \<open>_signed_from_bytes\<close>, which take the object kind and
  the parser as arguments; they interpret the interface of attested envelopes, so both wires are strict codecs.
\<close>

section \<open>The shared transport\<close>

definition int_decode_signature :: "json \<Rightarrow> bytes result" where
  "int_decode_signature v =
     (let e = IntegrityError ''malformed_signature'' ''signature must be one canonical Ed25519 Base64 value'' in
      if \<not> (is_JStr v \<and> codepoints (jstr v) = 88) then Inl e
      else case b64decode (jstr v) of
        None \<Rightarrow> Inl e
      | Some decoded \<Rightarrow> if length decoded \<noteq> 64 \<or> b64encode decoded \<noteq> jstr v then Inl e else Inr decoded)"

definition validate_signed_fields :: "pyval \<Rightarrow> pyval \<Rightarrow> pyval \<Rightarrow> exn + unit" where
  "validate_signed_fields envelope_bytes key_id signature_b64 =
     bindR (seqR [
       requireR (is_PBytes envelope_bytes \<and> pbytes envelope_bytes \<noteq> [] \<and> length (pbytes envelope_bytes) \<le> MAX_INTEGRITY_ENVELOPE_BYTES)
         (IntegrityError ''malformed_signed_object'' ''signed integrity envelope bytes are missing or oversized''),
       requireR (is_JStr (pjson key_id) \<and> key_id_text (jstr (pjson key_id)))
         (IntegrityError ''malformed_key_id'' ''integrity key ID must be content-derived from Ed25519 bytes'')]) (\<lambda>_.
     bindR (int_decode_signature (pjson signature_b64)) (\<lambda>_. Inr ()))"

definition signed_to_envelope :: "externals \<Rightarrow> bytes \<Rightarrow> pystr \<Rightarrow> pystr \<Rightarrow> pystr \<Rightarrow> (envelope \<Rightarrow> 'g result) \<Rightarrow> envelope result" where
  "signed_to_envelope X envelope_bytes key_id signature_b64 object_kind parser =
     bindR (rewrap is_protocol_error (IntegrityError ''invalid_envelope'' ''signed integrity envelope is invalid'')
       (envelope_from_bytes X envelope_bytes)) (\<lambda>e.
     if env_kind e \<noteq> object_kind \<or> env_attestations e \<noteq> []
     then Inl (IntegrityError ''invalid_envelope'' (''signed input must contain one unattested '' @ object_kind @ '' envelope''))
     else bindR (parser e) (\<lambda>_.
     bindR (envelope_create X object_kind (JObj (env_body e)) (JArr [attestation_json key_id signature_b64])) (\<lambda>attested.
     bindR (envelope_to_bytes X attested) (\<lambda>b.
     if length b > MAX_INTEGRITY_ENVELOPE_BYTES
     then Inl (IntegrityError ''integrity_envelope_too_large'' ''attested integrity envelope exceeds its fixed byte ceiling'')
     else Inr attested))))"

text \<open>The wire arrives as bytes or as text.\<close>

datatype wire_data = WireBytes bytes | WireText pystr | WireOther

fun encoded_wire :: "wire_data \<Rightarrow> bytes result" where
  "encoded_wire (WireBytes data) = Inr data"
| "encoded_wire (WireText data) =
     (if codepoints data > MAX_INTEGRITY_ENVELOPE_BYTES
      then Inl (IntegrityError ''integrity_envelope_too_large'' ''signed integrity wire exceeds its fixed byte ceiling'')
      else if \<not> utf8_valid data then Inl (IntegrityError ''invalid_envelope'' ''signed integrity wire must be valid UTF-8'')
      else Inr data)"
| "encoded_wire WireOther = Inl (IntegrityError ''malformed_signed_object'' ''signed integrity transport must be bytes or str'')"

definition extract_signed_transport :: "externals \<Rightarrow> wire_data \<Rightarrow> pystr \<Rightarrow> (bytes \<times> json \<times> json) result" where
  "extract_signed_transport X data object_kind =
     bindR (encoded_wire data) (\<lambda>encoded.
     if length encoded > MAX_INTEGRITY_ENVELOPE_BYTES
     then Inl (IntegrityError ''integrity_envelope_too_large'' ''signed integrity wire exceeds its fixed byte ceiling'')
     else bindR (rewrap is_protocol_error (IntegrityError ''invalid_envelope'' ''signed integrity wire is invalid'')
       (envelope_from_bytes X encoded)) (\<lambda>e.
     if env_kind e \<noteq> object_kind \<or> length (env_attestations e) \<noteq> 1
     then Inl (IntegrityError ''malformed_signed_object'' (''signed '' @ object_kind @ '' requires exactly one attestation''))
     else bindR (thaw_json X (hd (env_attestations e))) (\<lambda>attestation.
     if \<not> (has_keys attestation ATTESTATION_FIELDS \<and> member ''algorithm'' attestation = JStr ''ed25519'')
     then Inl (IntegrityError ''malformed_signed_object'' ''integrity attestation is malformed or uses an unsupported algorithm'')
     else bindR (envelope_create X object_kind (JObj (env_body e)) (JArr [])) (\<lambda>unattested.
     bindR (envelope_to_bytes X unattested) (\<lambda>b.
     Inr (b, member ''key_id'' attestation, member ''signature_b64'' attestation))))))"

definition signed_from_bytes :: "externals \<Rightarrow> wire_data \<Rightarrow> pystr \<Rightarrow> (envelope \<Rightarrow> 'g result) \<Rightarrow> (bytes \<times> json \<times> json) result" where
  "signed_from_bytes X data object_kind parser =
     bindR (extract_signed_transport X data object_kind) (\<lambda>(envelope_bytes, key_id, signature_b64).
     bindR (envelope_from_bytes X envelope_bytes) (\<lambda>unattested.
     bindR (parser unattested) (\<lambda>_. Inr (envelope_bytes, key_id, signature_b64))))"

definition signed_attestation_id :: "externals \<Rightarrow> pystr \<Rightarrow> bytes \<Rightarrow> digest result" where
  "signed_attestation_id X kind wire_bytes =
     content_id X kind (JObj [(''wire_digest'', JStr (''sha256:'' @ hex_bytes (sha256 X wire_bytes)))])"

definition integrity_key_id :: "externals \<Rightarrow> bytes \<Rightarrow> pystr result" where
  "integrity_key_id X k =
     (if length k \<noteq> 32
      then Inl (IntegrityError ''invalid_public_key'' ''Ed25519 public keys must contain exactly 32 bytes'')
      else Inr (''ed25519:sha256:'' @ hex_bytes (sha256 X k)))"

lemma int_decode_signature_eq_Inr:
  "int_decode_signature v = Inr d \<longleftrightarrow>
     is_JStr v \<and> codepoints (jstr v) = 88 \<and> b64decode (jstr v) = Some d \<and> length d = 64 \<and> b64encode d = jstr v"
  by (auto simp: int_decode_signature_def Let_def split: option.splits if_splits)

lemma validate_signed_fields_eq_Inr:
  "validate_signed_fields e k g = Inr u \<longleftrightarrow>
     is_PBytes e \<and> pbytes e \<noteq> [] \<and> length (pbytes e) \<le> MAX_INTEGRITY_ENVELOPE_BYTES \<and>
     is_JStr (pjson k) \<and> key_id_text (jstr (pjson k)) \<and> (\<exists>d. int_decode_signature (pjson g) = Inr d)"
  by (auto simp: validate_signed_fields_def result_simps)

text \<open>The envelope without its attestation has the same identity, and reading its bytes gives it back.\<close>

lemma unattested_read:
  assumes "envelope_from_bytes X b = Inr e" and "envelope_create X (env_kind e) (JObj (env_body e)) (JArr []) = Inr un"
    and "envelope_to_bytes X un = Inr ub"
  shows "env_object_id un = env_object_id e" and "envelope_from_bytes X ub = Inr un"
proof -
  have c: "created_envelope X e" by (rule env.decode_valid [OF assms(1)])
  show i: "env_object_id un = env_object_id e"
    using c assms(2) by (auto simp: created_envelope_def envelope_create_eq_Inr)
  show "envelope_from_bytes X ub = Inr un"
    by (rule envelope_from_bytes_created [OF _ assms(2) _ _ assms(3)]) (use c i in \<open>auto simp: created_envelope_def\<close>)
qed

lemma signed_from_bytes_eq_Inr:
  "signed_from_bytes X (WireBytes b) kind parser = Inr (ub, k, g) \<longleftrightarrow> length b \<le> MAX_INTEGRITY_ENVELOPE_BYTES \<and>
     (\<exists>e att un p. envelope_from_bytes X b = Inr e \<and> env_kind e = kind \<and> length (env_attestations e) = 1 \<and>
        thaw_json X (hd (env_attestations e)) = Inr att \<and> has_keys att ATTESTATION_FIELDS \<and>
        member ''algorithm'' att = JStr ''ed25519'' \<and>
        envelope_create X kind (JObj (env_body e)) (JArr []) = Inr un \<and> env_object_id un = env_object_id e \<and>
        parser un = Inr p \<and> envelope_to_bytes X un = Inr ub \<and> k = member ''key_id'' att \<and> g = member ''signature_b64'' att)"
  (is "?l \<longleftrightarrow> ?r")
proof
  assume ?l
  then obtain e att un un' p where e: "envelope_from_bytes X b = Inr e" "env_kind e = kind" "length (env_attestations e) = 1"
      "thaw_json X (hd (env_attestations e)) = Inr att" "has_keys att ATTESTATION_FIELDS" "member ''algorithm'' att = JStr ''ed25519''"
      "envelope_create X kind (JObj (env_body e)) (JArr []) = Inr un" "envelope_to_bytes X un = Inr ub"
      "k = member ''key_id'' att" "g = member ''signature_b64'' att" and l: "length b \<le> MAX_INTEGRITY_ENVELOPE_BYTES"
    and p: "envelope_from_bytes X ub = Inr un'" "parser un' = Inr p"
    by (auto simp: signed_from_bytes_def extract_signed_transport_def bindR_eq_Inr rewrap_eq_Inr not_less split: if_splits)
  have un: "env_object_id un = env_object_id e" "envelope_from_bytes X ub = Inr un"
    using unattested_read [OF e(1) _ e(8)] e(2,7) by simp_all
  then have "un' = un" using p(1) by simp
  then show ?r using e p(2) un(1) l by blast
next
  assume ?r
  then obtain e att un p where e: "envelope_from_bytes X b = Inr e" "env_kind e = kind" "length (env_attestations e) = 1"
      "thaw_json X (hd (env_attestations e)) = Inr att" "has_keys att ATTESTATION_FIELDS" "member ''algorithm'' att = JStr ''ed25519''"
      "envelope_create X kind (JObj (env_body e)) (JArr []) = Inr un" "parser un = Inr p" "envelope_to_bytes X un = Inr ub"
      "k = member ''key_id'' att" "g = member ''signature_b64'' att" and l: "length b \<le> MAX_INTEGRITY_ENVELOPE_BYTES"
    by blast
  have "envelope_from_bytes X ub = Inr un" using unattested_read [OF e(1) _ e(9)] e(2,7) by simp
  with e l show ?l by (simp add: signed_from_bytes_def extract_signed_transport_def rewrap_def)
qed

section \<open>Signed integrity decisions\<close>

record signed_decision =
  sd_envelope_bytes :: bytes
  sd_key_id :: pystr
  sd_signature_b64 :: pystr

definition signed_decision_new :: "pyval \<Rightarrow> pyval \<Rightarrow> pyval \<Rightarrow> signed_decision result" where
  "signed_decision_new envelope_bytes key_id signature_b64 =
     bindR (validate_signed_fields envelope_bytes key_id signature_b64) (\<lambda>_.
     Inr \<lparr>sd_envelope_bytes = pbytes envelope_bytes, sd_key_id = jstr (pjson key_id), sd_signature_b64 = jstr (pjson signature_b64)\<rparr>)"

definition signed_decision_to_envelope :: "externals \<Rightarrow> signed_decision \<Rightarrow> envelope result" where
  "signed_decision_to_envelope X s = signed_to_envelope X (sd_envelope_bytes s) (sd_key_id s) (sd_signature_b64 s)
     INTEGRITY_DECISION_OBJECT_KIND (decision_from_envelope X)"

definition signed_decision_to_bytes :: "externals \<Rightarrow> signed_decision \<Rightarrow> bytes result" where
  "signed_decision_to_bytes X s = bindR (signed_decision_to_envelope X s) (envelope_to_bytes X)"

definition signed_decision_from_bytes :: "externals \<Rightarrow> wire_data \<Rightarrow> signed_decision result" where
  "signed_decision_from_bytes X data =
     bindR (signed_from_bytes X data INTEGRITY_DECISION_OBJECT_KIND (decision_from_envelope X)) (\<lambda>(envelope_bytes, key_id, signature_b64).
     signed_decision_new (PBytes envelope_bytes) (PJson key_id) (PJson signature_b64))"

definition snapshot_signed_decision :: "signed_decision \<Rightarrow> signed_decision result" where
  "snapshot_signed_decision s =
     rewrap value_caught (IntegrityError ''invalid_signed_integrity_decision'' ''signed integrity decision transport is malformed'')
       (signed_decision_new (PBytes (sd_envelope_bytes s)) (PJson (JStr (sd_key_id s))) (PJson (JStr (sd_signature_b64 s))))"

definition signed_decision_attestation_id :: "externals \<Rightarrow> signed_decision \<Rightarrow> digest result" where
  "signed_decision_attestation_id X signed =
     bindR (snapshot_signed_decision signed) (\<lambda>signed.
     bindR (rewrap value_caught (IntegrityError ''invalid_signed_integrity_decision'' ''attestation identity requires a canonical signed integrity decision'')
       (signed_decision_to_bytes X signed)) (\<lambda>wire_bytes.
     signed_attestation_id X ''signed_integrity_decision_attestation'' wire_bytes))"

text \<open>The wire, or a value built from it before, with the transport fields only.\<close>

datatype raw_decision = Raw_decision signed_decision | Raw_decision_wire wire_data

fun coerce_signed_decision :: "externals \<Rightarrow> raw_decision \<Rightarrow> signed_decision result" where
  "coerce_signed_decision X (Raw_decision s) = Inr s"
| "coerce_signed_decision X (Raw_decision_wire WireOther) =
     Inl (IntegrityError ''malformed_signed_object'' ''integrity decision must be signed wire or SignedIntegrityDecisionV1'')"
| "coerce_signed_decision X (Raw_decision_wire data) =
     bindR (extract_signed_transport X data INTEGRITY_DECISION_OBJECT_KIND) (\<lambda>(envelope_bytes, key_id, signature_b64).
     signed_decision_new (PBytes envelope_bytes) (PJson key_id) (PJson signature_b64))"

text \<open>\<open>IntegritySigner.sign_decision\<close>; the private key is represented by the signatures it makes.\<close>

definition sign_decision :: "externals \<Rightarrow> pystr \<Rightarrow> bytes \<Rightarrow> (bytes \<Rightarrow> bytes) \<Rightarrow> integrity_decision \<Rightarrow> signed_decision result" where
  "sign_decision X role public_key sign d =
     (if role \<noteq> INTEGRITY_DECISION_ROLE
      then Inl (IntegrityError ''signer_role_mismatch'' ''only an integrity-decision signer can sign a decision'')
      else bindR (snapshot_decision_value X d) (\<lambda>d.
      bindR (decision_to_envelope X d) (\<lambda>e.
      bindR (envelope_to_bytes X e) (\<lambda>envelope_bytes.
      bindR (integrity_key_id X public_key) (\<lambda>key_id.
      signed_decision_new (PBytes envelope_bytes) (PJson (JStr key_id))
        (PJson (JStr (b64encode (sign (DECISION_SIGNATURE_DOMAIN @ envelope_bytes))))))))))"

lemma signed_decision_new_values:
  assumes "signed_decision_new e k g = Inr s"
  shows "e = PBytes (sd_envelope_bytes s) \<and> k = PJson (JStr (sd_key_id s)) \<and> g = PJson (JStr (sd_signature_b64 s))"
proof -
  from assms have "is_PBytes e" "sd_envelope_bytes s = pbytes e" "is_JStr (pjson k)" "is_JStr (pjson g)"
    "sd_key_id s = jstr (pjson k)" "sd_signature_b64 s = jstr (pjson g)"
    by (auto simp: signed_decision_new_def bindR_eq_Inr validate_signed_fields_eq_Inr int_decode_signature_eq_Inr)
  then show ?thesis by (cases e; cases k; cases g; simp add: norm_scalars)
qed

interpretation signed_decision: attested_wire X INTEGRITY_DECISION_OBJECT_KIND "decision_from_envelope X" signed_decision_new
  sd_envelope_bytes sd_key_id sd_signature_b64 "\<lambda>b. length b \<le> MAX_INTEGRITY_ENVELOPE_BYTES"
  "signed_decision_to_bytes X" "\<lambda>b. signed_decision_from_bytes X (WireBytes b)" for X
proof unfold_locales
  show "signed_decision_new e k g = Inr s \<Longrightarrow>
      e = PBytes (sd_envelope_bytes s) \<and> k = PJson (JStr (sd_key_id s)) \<and> g = PJson (JStr (sd_signature_b64 s))" for e k g s
    by (rule signed_decision_new_values)
next
  show "signed_decision_to_bytes X s = Inr b \<longleftrightarrow>
      (\<exists>ge g se. envelope_from_bytes X (sd_envelope_bytes s) = Inr ge \<and> env_kind ge = INTEGRITY_DECISION_OBJECT_KIND \<and> env_attestations ge = [] \<and>
         decision_from_envelope X ge = Inr g \<and>
         envelope_create X INTEGRITY_DECISION_OBJECT_KIND (JObj (env_body ge)) (JArr [attestation_json (sd_key_id s) (sd_signature_b64 s)]) = Inr se \<and>
         envelope_to_bytes X se = Inr b \<and> length b \<le> MAX_INTEGRITY_ENVELOPE_BYTES)" for s b
    by (auto simp: signed_decision_to_bytes_def signed_decision_to_envelope_def signed_to_envelope_def bindR_eq_Inr rewrap_eq_Inr not_less
        split: if_splits)
qed (auto simp: signed_decision_from_bytes_def bindR_eq_Inr signed_from_bytes_eq_Inr split: prod.splits)

lemma snapshot_signed_decision_eq_Inr:
  "snapshot_signed_decision s = Inr s' \<longleftrightarrow> s' = s \<and>
     signed_decision_new (PBytes (sd_envelope_bytes s)) (PJson (JStr (sd_key_id s))) (PJson (JStr (sd_signature_b64 s))) = Inr s"
  by (cases s; cases s') (auto simp: snapshot_signed_decision_def rewrap_eq_Inr signed_decision_new_def bindR_eq_Inr)

section \<open>Signed head checkpoints\<close>

record signed_checkpoint =
  sc_envelope_bytes :: bytes
  sc_key_id :: pystr
  sc_signature_b64 :: pystr

definition signed_checkpoint_new :: "pyval \<Rightarrow> pyval \<Rightarrow> pyval \<Rightarrow> signed_checkpoint result" where
  "signed_checkpoint_new envelope_bytes key_id signature_b64 =
     bindR (validate_signed_fields envelope_bytes key_id signature_b64) (\<lambda>_.
     Inr \<lparr>sc_envelope_bytes = pbytes envelope_bytes, sc_key_id = jstr (pjson key_id), sc_signature_b64 = jstr (pjson signature_b64)\<rparr>)"

definition signed_checkpoint_to_envelope :: "externals \<Rightarrow> signed_checkpoint \<Rightarrow> envelope result" where
  "signed_checkpoint_to_envelope X s = signed_to_envelope X (sc_envelope_bytes s) (sc_key_id s) (sc_signature_b64 s)
     HEAD_CHECKPOINT_OBJECT_KIND (checkpoint_from_envelope X)"

definition signed_checkpoint_to_bytes :: "externals \<Rightarrow> signed_checkpoint \<Rightarrow> bytes result" where
  "signed_checkpoint_to_bytes X s = bindR (signed_checkpoint_to_envelope X s) (envelope_to_bytes X)"

definition signed_checkpoint_from_bytes :: "externals \<Rightarrow> wire_data \<Rightarrow> signed_checkpoint result" where
  "signed_checkpoint_from_bytes X data =
     bindR (signed_from_bytes X data HEAD_CHECKPOINT_OBJECT_KIND (checkpoint_from_envelope X)) (\<lambda>(envelope_bytes, key_id, signature_b64).
     signed_checkpoint_new (PBytes envelope_bytes) (PJson key_id) (PJson signature_b64))"

definition snapshot_signed_checkpoint :: "signed_checkpoint \<Rightarrow> signed_checkpoint result" where
  "snapshot_signed_checkpoint s =
     rewrap value_caught (IntegrityError ''invalid_signed_head_checkpoint'' ''signed head checkpoint transport is malformed'')
       (signed_checkpoint_new (PBytes (sc_envelope_bytes s)) (PJson (JStr (sc_key_id s))) (PJson (JStr (sc_signature_b64 s))))"

definition signed_checkpoint_attestation_id :: "externals \<Rightarrow> signed_checkpoint \<Rightarrow> digest result" where
  "signed_checkpoint_attestation_id X signed =
     bindR (snapshot_signed_checkpoint signed) (\<lambda>signed.
     bindR (rewrap value_caught (IntegrityError ''invalid_signed_head_checkpoint'' ''attestation identity requires a canonical signed head checkpoint'')
       (signed_checkpoint_to_bytes X signed)) (\<lambda>wire_bytes.
     signed_attestation_id X ''signed_head_checkpoint_attestation'' wire_bytes))"

text \<open>The wire, or a value built from it before, with the transport fields only.\<close>

datatype raw_checkpoint = Raw_checkpoint signed_checkpoint | Raw_checkpoint_wire wire_data

fun coerce_signed_checkpoint :: "externals \<Rightarrow> raw_checkpoint \<Rightarrow> signed_checkpoint result" where
  "coerce_signed_checkpoint X (Raw_checkpoint s) = Inr s"
| "coerce_signed_checkpoint X (Raw_checkpoint_wire WireOther) =
     Inl (IntegrityError ''malformed_signed_object'' ''head checkpoint must be signed wire or SignedHeadCheckpointV1'')"
| "coerce_signed_checkpoint X (Raw_checkpoint_wire data) =
     bindR (extract_signed_transport X data HEAD_CHECKPOINT_OBJECT_KIND) (\<lambda>(envelope_bytes, key_id, signature_b64).
     signed_checkpoint_new (PBytes envelope_bytes) (PJson key_id) (PJson signature_b64))"

text \<open>\<open>IntegritySigner.sign_checkpoint\<close>; the private key is represented by the signatures it makes.\<close>

definition sign_checkpoint :: "externals \<Rightarrow> pystr \<Rightarrow> bytes \<Rightarrow> (bytes \<Rightarrow> bytes) \<Rightarrow> head_checkpoint \<Rightarrow> signed_checkpoint result" where
  "sign_checkpoint X role public_key sign d =
     (if role \<noteq> HEAD_CHECKPOINT_ROLE
      then Inl (IntegrityError ''signer_role_mismatch'' ''only a head-checkpoint signer can sign a checkpoint'')
      else bindR (snapshot_checkpoint_value X d) (\<lambda>d.
      bindR (checkpoint_to_envelope X d) (\<lambda>e.
      bindR (envelope_to_bytes X e) (\<lambda>envelope_bytes.
      bindR (integrity_key_id X public_key) (\<lambda>key_id.
      signed_checkpoint_new (PBytes envelope_bytes) (PJson (JStr key_id))
        (PJson (JStr (b64encode (sign (CHECKPOINT_SIGNATURE_DOMAIN @ envelope_bytes))))))))))"

lemma signed_checkpoint_new_values:
  assumes "signed_checkpoint_new e k g = Inr s"
  shows "e = PBytes (sc_envelope_bytes s) \<and> k = PJson (JStr (sc_key_id s)) \<and> g = PJson (JStr (sc_signature_b64 s))"
proof -
  from assms have "is_PBytes e" "sc_envelope_bytes s = pbytes e" "is_JStr (pjson k)" "is_JStr (pjson g)"
    "sc_key_id s = jstr (pjson k)" "sc_signature_b64 s = jstr (pjson g)"
    by (auto simp: signed_checkpoint_new_def bindR_eq_Inr validate_signed_fields_eq_Inr int_decode_signature_eq_Inr)
  then show ?thesis by (cases e; cases k; cases g; simp add: norm_scalars)
qed

interpretation signed_checkpoint: attested_wire X HEAD_CHECKPOINT_OBJECT_KIND "checkpoint_from_envelope X" signed_checkpoint_new
  sc_envelope_bytes sc_key_id sc_signature_b64 "\<lambda>b. length b \<le> MAX_INTEGRITY_ENVELOPE_BYTES"
  "signed_checkpoint_to_bytes X" "\<lambda>b. signed_checkpoint_from_bytes X (WireBytes b)" for X
proof unfold_locales
  show "signed_checkpoint_new e k g = Inr s \<Longrightarrow>
      e = PBytes (sc_envelope_bytes s) \<and> k = PJson (JStr (sc_key_id s)) \<and> g = PJson (JStr (sc_signature_b64 s))" for e k g s
    by (rule signed_checkpoint_new_values)
next
  show "signed_checkpoint_to_bytes X s = Inr b \<longleftrightarrow>
      (\<exists>ge g se. envelope_from_bytes X (sc_envelope_bytes s) = Inr ge \<and> env_kind ge = HEAD_CHECKPOINT_OBJECT_KIND \<and> env_attestations ge = [] \<and>
         checkpoint_from_envelope X ge = Inr g \<and>
         envelope_create X HEAD_CHECKPOINT_OBJECT_KIND (JObj (env_body ge)) (JArr [attestation_json (sc_key_id s) (sc_signature_b64 s)]) = Inr se \<and>
         envelope_to_bytes X se = Inr b \<and> length b \<le> MAX_INTEGRITY_ENVELOPE_BYTES)" for s b
    by (auto simp: signed_checkpoint_to_bytes_def signed_checkpoint_to_envelope_def signed_to_envelope_def bindR_eq_Inr rewrap_eq_Inr not_less
        split: if_splits)
qed (auto simp: signed_checkpoint_from_bytes_def bindR_eq_Inr signed_from_bytes_eq_Inr split: prod.splits)

lemma snapshot_signed_checkpoint_eq_Inr:
  "snapshot_signed_checkpoint s = Inr s' \<longleftrightarrow> s' = s \<and>
     signed_checkpoint_new (PBytes (sc_envelope_bytes s)) (PJson (JStr (sc_key_id s))) (PJson (JStr (sc_signature_b64 s))) = Inr s"
  by (cases s; cases s') (auto simp: snapshot_signed_checkpoint_def rewrap_eq_Inr signed_checkpoint_new_def bindR_eq_Inr)

end
