(* ===== verification/Integrity_Copies.thy ===== *)
theory Integrity_Copies
  imports Integrity_Signed
begin

text \<open>
  The copies that consequential functions of \<open>src/etzio/integrity_v1.py\<close> take of a decision or a checkpoint go through its canonical
  wire (\<open>_snapshot_integrity_decision_value\<close>, \<open>_snapshot_head_checkpoint_value\<close>). Such a copy is equal to the original: the canonical
  body determines every field.
\<close>

lemma reread_created:
  assumes "envelope_create X k body atts = Inr e" and "dict_ok body" and "dict_ok atts"
    and "envelope_to_bytes X e = Inr b" and "envelope_from_bytes X b = Inr e'"
  shows "e' = e"
proof -
  have d: "dict_ok (envelope_json e)" "dict_ok (envelope_json e')"
    using created_dict_ok [OF assms(1-3)] env.decode_valid [OF assms(5)] by (simp_all add: envelope_json_def created_envelope_def)
  have c': "envelope_to_json X e' = Inr (envelope_json e')"
    by (rule envelope_from_bytes_inv [OF assms(5)]) (rule envelope_to_json_created)
  have c: "canonical_dumps X (envelope_json e) = Inr b" "canonical_dumps X (envelope_json e') = Inr b"
    using assms(4) env.encode_decode [OF assms(5)] envelope_to_json_created [OF assms(1)] c' by (simp_all add: envelope_to_bytes_def)
  then have "thaw_json X (envelope_json e) = Inr (norm_json (envelope_json e))" "thaw_json X (envelope_json e') = Inr (norm_json (envelope_json e'))"
    by (auto simp: canonical_dumps_eq_Inr thaw_json_eq_Inr)
  then have n: "norm_json (envelope_json e) = norm_json (envelope_json e')" using canonical_dumps_injective [OF d c] by simp
  have "member ''object_id'' (norm_json (envelope_json e)) = JStr (env_object_id e)" for e
    unfolding envelope_json_def by (subst member_norm) simp_all
  then have "env_object_id e = env_object_id e'" using n by (metis json.inject(3))
  then have "full_digest (env_object_id e)" using env.decode_valid [OF assms(5)] by (simp add: created_envelope_def)
  from envelope_from_bytes_created [OF this assms(1-4)] assms(5) show ?thesis by simp
qed

lemma member_norm_object: "distinct (map fst ms) \<Longrightarrow> member k (norm_json (JObj ms)) = norm_json (member k (JObj ms))"
  using member_norm [of ms k] by (auto simp: member_def split: option.splits)

text \<open>Two objects with the same normal form have the same normal members.\<close>

lemma norm_members_agree:
  assumes "norm_json (JObj ms) = norm_json (JObj ns)" and "distinct (map fst ms)" and "distinct (map fst ns)"
  shows "norm_json (member k (JObj ms)) = norm_json (member k (JObj ns))"
  using member_norm_object [OF assms(2), of k] member_norm_object [OF assms(3), of k] assms(1) by simp

lemma ojson_inject: "ojson x = ojson y \<longleftrightarrow> x = y"
  by (metis jopt_ojson)

lemma norm_projections: "jstr (norm_json v) = jstr v" "jint (norm_json v) = jint v" "jopt (norm_json v) = jopt v"
  by (cases v; simp)+

lemma dict_ok_ojson [simp]: "dict_ok (ojson x)"
  by (cases x) simp_all

lemma norm_array_inject:
  assumes "norm_json (JArr (map wr xs)) = norm_json (JArr (map wr ys))" and "\<And>x y. norm_json (wr x) = norm_json (wr y) \<Longrightarrow> x = y"
  shows "xs = ys"
proof -
  from assms(1) have "map (\<lambda>x. norm_json (wr x)) xs = map (\<lambda>x. norm_json (wr x)) ys" by (simp add: norm_items_map comp_def)
  moreover have "inj_on (\<lambda>x. norm_json (wr x)) (set xs \<union> set ys)" by (rule inj_onI) (rule assms(2))
  ultimately show ?thesis by (rule map_inj_on)
qed

lemma reference_body_inject:
  assumes "norm_json (evidence_reference_body r) = norm_json (evidence_reference_body s)"
  shows "r = s"
proof -
  have "norm_json (member k (evidence_reference_body r)) = norm_json (member k (evidence_reference_body s))" for k
    unfolding evidence_reference_body_def by (rule norm_members_agree [OF assms [unfolded evidence_reference_body_def]]) simp_all
  from this [of "''evidence_kind''"] this [of "''source_id''"] this [of "''evidence_id''"] show ?thesis
    by (cases r; cases s) (simp add: evidence_reference_body_def member_def)
qed

lemma view_body_inject:
  assumes "norm_json (revocation_view_body v) = norm_json (revocation_view_body w)"
  shows "v = w"
proof -
  have m: "norm_json (member k (revocation_view_body v)) = norm_json (member k (revocation_view_body w))" for k
    unfolding revocation_view_body_def by (rule norm_members_agree [OF assms [unfolded revocation_view_body_def]]) simp_all
  have "rv_evidence v = rv_evidence w"
    by (rule reference_body_inject) (use m [of "''evidence''"] in \<open>simp add: revocation_view_body_def member_def\<close>)
  with m [of "''namespace''"] m [of "''root_version''"] m [of "''version''"] m [of "''snapshot_id''"] m [of "''valid_from''"]
    m [of "''valid_until''"] show ?thesis
    by (cases v; cases w) (simp add: revocation_view_body_def member_def)
qed

lemma dict_ok_reference [simp]: "dict_ok (evidence_reference_body r)" "dict_ok (JArr (map evidence_reference_body rs))"
  by (auto simp: evidence_reference_body_def dict_ok_items_all)

lemma dict_ok_view [simp]: "dict_ok (revocation_view_body v)" "dict_ok (JArr (map revocation_view_body vs))"
  by (auto simp: revocation_view_body_def dict_ok_items_all simp del: dict_ok.simps(1))
    (auto simp: revocation_view_body_def dict_ok_items_all)

lemma decision_body_dict_ok:
  assumes "decision_body (decision_scalars d) te rv = Inr b"
  shows "dict_ok b"
  unfolding assms [unfolded decision_body_eq_Inr, THEN conjunct2, THEN conjunct2]
  by (simp add: decision_scalars_def member_def del: dict_ok.simps(1))

lemma decision_of_norm:
  assumes "dict_ok (JObj ms)"
  shows "decision_of i (norm_json (JObj ms)) te rv = decision_of i (JObj ms) te rv"
proof -
  from assms have "distinct (map fst ms)" by simp
  from member_norm_object [OF this] show ?thesis unfolding decision_of_def by (simp only: norm_projections)
qed

lemma decision_of_scalars: "decision_of (dc_decision_id d) (decision_scalars d) (dc_time_evidence d) (dc_revocation_views d) = d"
  by (cases d) (simp add: decision_of_def decision_scalars_def member_def)

lemma decision_of_body:
  assumes "decision_body v te rv = Inr b"
  shows "decision_of i b te' rv' = decision_of i v te' rv'"
  unfolding assms [unfolded decision_body_eq_Inr, THEN conjunct2, THEN conjunct2] decision_of_def
  by (simp add: member_def [of _ "JObj _"])

lemma decision_body_inject:
  assumes b: "decision_body (decision_scalars d) (dc_time_evidence d) (dc_revocation_views d) = Inr b"
    and b': "decision_body (decision_scalars d') (dc_time_evidence d') (dc_revocation_views d') = Inr b'"
    and n: "norm_json b = norm_json b'" and i: "dc_decision_id d = dc_decision_id d'"
  shows "d = d'"
proof -
  note eqs = b [unfolded decision_body_eq_Inr, THEN conjunct2, THEN conjunct2] b' [unfolded decision_body_eq_Inr, THEN conjunct2, THEN conjunct2]
  have m: "norm_json (member k b) = norm_json (member k b')" for k
    unfolding eqs by (rule norm_members_agree [OF n [unfolded eqs]]) simp_all
  have a1: "dc_time_evidence d = dc_time_evidence d'"
    by (rule norm_array_inject [OF _ reference_body_inject]) (use m [of "''time_evidence''"] in \<open>simp add: eqs member_def del: norm_json.simps\<close>)
  have a2: "dc_revocation_views d = dc_revocation_views d'"
    by (rule norm_array_inject [OF _ view_body_inject]) (use m [of "''revocation_views''"] in \<open>simp add: eqs member_def del: norm_json.simps\<close>)
  obtain ms ns where o: "b = JObj ms" "b' = JObj ns" using eqs by blast
  have d: "dict_ok (JObj ms)" "dict_ok (JObj ns)" using decision_body_dict_ok [OF b] decision_body_dict_ok [OF b'] o by simp_all
  let ?of = "\<lambda>v. decision_of (dc_decision_id d) v (dc_time_evidence d) (dc_revocation_views d)"
  have "d = ?of b" using decision_of_scalars decision_of_body [OF b] by simp
  also have "\<dots> = ?of (norm_json b)" using decision_of_norm [OF d(1)] o by simp
  also have "\<dots> = ?of b'" unfolding n using decision_of_norm [OF d(2)] o by simp
  also have "\<dots> = d'" unfolding i a1 a2 using decision_of_scalars decision_of_body [OF b'] by simp
  finally show ?thesis .
qed

lemma snapshot_decision_eq:
  assumes "snapshot_decision_value X d = Inr d'"
  shows "d' = d" and "valid_decision X d"
proof -
  from assms obtain e b e' where e: "decision_to_envelope X d = Inr e" "envelope_to_bytes X e = Inr b" "envelope_from_bytes X b = Inr e'"
    and d': "decision_from_envelope X e' = Inr d'" by (auto simp: snapshot_decision_value_def rewrap_eq_Inr bindR_eq_Inr)
  from e(1) obtain body where body: "decision_body (decision_scalars d) (dc_time_evidence d) (dc_revocation_views d) = Inr body"
    and cr: "envelope_create X INTEGRITY_DECISION_OBJECT_KIND body (JArr []) = Inr e" and i: "env_object_id e = dc_decision_id d"
    by (auto simp: decision_to_envelope_def bindR_eq_Inr split: if_splits)
  have e': "e' = e" by (rule reread_created [OF cr decision_body_dict_ok [OF body] _ e(2,3)]) simp
  have ce: "created_envelope X e" using env.decode_valid [OF e(3)] e' by simp
  then have w: "decision_to_envelope X d' = Inr e" using decision.from_env_to_env d' e' by blast
  then obtain body' where body': "decision_body (decision_scalars d') (dc_time_evidence d') (dc_revocation_views d') = Inr body'"
    and cr': "envelope_create X INTEGRITY_DECISION_OBJECT_KIND body' (JArr []) = Inr e" and i': "env_object_id e = dc_decision_id d'"
    by (auto simp: decision_to_envelope_def bindR_eq_Inr split: if_splits)
  have "norm_json body = norm_json body'" using cr cr' by (auto simp: envelope_create_eq_Inr thaw_json_eq_Inr)
  from decision_body_inject [OF body' body this [symmetric]] i i' show "d' = d" by simp
  with d' e' ce show "valid_decision X d" by (auto simp: valid_decision_def)
qed

lemma checkpoint_body_dict_ok:
  assumes "checkpoint_body (checkpoint_scalars c) te rv = Inr b"
  shows "dict_ok b"
  unfolding assms [unfolded checkpoint_body_eq_Inr, THEN conjunct2, THEN conjunct2]
  by (simp add: checkpoint_scalars_def member_def del: dict_ok.simps(1))

lemma checkpoint_of_norm:
  assumes "dict_ok (JObj ms)"
  shows "checkpoint_of i (norm_json (JObj ms)) te rv = checkpoint_of i (JObj ms) te rv"
proof -
  from assms have "distinct (map fst ms)" by simp
  from member_norm_object [OF this] show ?thesis unfolding checkpoint_of_def by (simp only: norm_projections)
qed

lemma checkpoint_of_scalars: "checkpoint_of (hc_checkpoint_id c) (checkpoint_scalars c) (hc_time_evidence c) (hc_anchor_evidence c) = c"
  by (cases c) (simp add: checkpoint_of_def checkpoint_scalars_def member_def)

lemma checkpoint_of_body:
  assumes "checkpoint_body v te rv = Inr b"
  shows "checkpoint_of i b te' rv' = checkpoint_of i v te' rv'"
  unfolding assms [unfolded checkpoint_body_eq_Inr, THEN conjunct2, THEN conjunct2] checkpoint_of_def
  by (simp add: member_def [of _ "JObj _"])

lemma checkpoint_body_inject:
  assumes b: "checkpoint_body (checkpoint_scalars c) (hc_time_evidence c) (hc_anchor_evidence c) = Inr b"
    and b': "checkpoint_body (checkpoint_scalars c') (hc_time_evidence c') (hc_anchor_evidence c') = Inr b'"
    and n: "norm_json b = norm_json b'" and i: "hc_checkpoint_id c = hc_checkpoint_id c'"
  shows "c = c'"
proof -
  note eqs = b [unfolded checkpoint_body_eq_Inr, THEN conjunct2, THEN conjunct2] b' [unfolded checkpoint_body_eq_Inr, THEN conjunct2, THEN conjunct2]
  have m: "norm_json (member k b) = norm_json (member k b')" for k
    unfolding eqs by (rule norm_members_agree [OF n [unfolded eqs]]) simp_all
  have a1: "hc_time_evidence c = hc_time_evidence c'"
    by (rule norm_array_inject [OF _ reference_body_inject]) (use m [of "''time_evidence''"] in \<open>simp add: eqs member_def del: norm_json.simps\<close>)
  have a2: "hc_anchor_evidence c = hc_anchor_evidence c'"
    by (rule norm_array_inject [OF _ reference_body_inject]) (use m [of "''anchor_evidence''"] in \<open>simp add: eqs member_def del: norm_json.simps\<close>)
  obtain ms ns where o: "b = JObj ms" "b' = JObj ns" using eqs by blast
  have d: "dict_ok (JObj ms)" "dict_ok (JObj ns)" using checkpoint_body_dict_ok [OF b] checkpoint_body_dict_ok [OF b'] o by simp_all
  let ?of = "\<lambda>v. checkpoint_of (hc_checkpoint_id c) v (hc_time_evidence c) (hc_anchor_evidence c)"
  have "c = ?of b" using checkpoint_of_scalars checkpoint_of_body [OF b] by simp
  also have "\<dots> = ?of (norm_json b)" using checkpoint_of_norm [OF d(1)] o by simp
  also have "\<dots> = ?of b'" unfolding n using checkpoint_of_norm [OF d(2)] o by simp
  also have "\<dots> = c'" unfolding i a1 a2 using checkpoint_of_scalars checkpoint_of_body [OF b'] by simp
  finally show ?thesis .
qed

lemma snapshot_checkpoint_eq:
  assumes "snapshot_checkpoint_value X c = Inr c'"
  shows "c' = c" and "valid_checkpoint X c"
proof -
  from assms obtain e b e' where e: "checkpoint_to_envelope X c = Inr e" "envelope_to_bytes X e = Inr b" "envelope_from_bytes X b = Inr e'"
    and c': "checkpoint_from_envelope X e' = Inr c'" by (auto simp: snapshot_checkpoint_value_def rewrap_eq_Inr bindR_eq_Inr)
  from e(1) obtain body where body: "checkpoint_body (checkpoint_scalars c) (hc_time_evidence c) (hc_anchor_evidence c) = Inr body"
    and cr: "envelope_create X HEAD_CHECKPOINT_OBJECT_KIND body (JArr []) = Inr e" and i: "env_object_id e = hc_checkpoint_id c"
    by (auto simp: checkpoint_to_envelope_def bindR_eq_Inr split: if_splits)
  have e': "e' = e" by (rule reread_created [OF cr checkpoint_body_dict_ok [OF body] _ e(2,3)]) simp
  have ce: "created_envelope X e" using env.decode_valid [OF e(3)] e' by simp
  then have w: "checkpoint_to_envelope X c' = Inr e" using checkpoint.from_env_to_env c' e' by blast
  then obtain body' where body': "checkpoint_body (checkpoint_scalars c') (hc_time_evidence c') (hc_anchor_evidence c') = Inr body'"
    and cr': "envelope_create X HEAD_CHECKPOINT_OBJECT_KIND body' (JArr []) = Inr e" and i': "env_object_id e = hc_checkpoint_id c'"
    by (auto simp: checkpoint_to_envelope_def bindR_eq_Inr split: if_splits)
  have "norm_json body = norm_json body'" using cr cr' by (auto simp: envelope_create_eq_Inr thaw_json_eq_Inr)
  from checkpoint_body_inject [OF body' body this [symmetric]] i i' show "c' = c" by simp
  with c' e' ce show "valid_checkpoint X c" by (auto simp: valid_checkpoint_def)
qed

end
