(* ===== verification/Integrity_Trust.thy ===== *)
theory Integrity_Trust
  imports Integrity_Copies
begin

text \<open>
  \<open>src/etzio/integrity_v1.py\<close>: trusted integrity keys, the trust store with its canonical snapshot, and the authentication of signed
  decisions and checkpoints. An authenticated record has no seal in the model: only \<open>authenticated_..._new\<close> builds it, where the source
  checks the seal.
\<close>

section \<open>Bounded sets of identifiers\<close>

text \<open>\<open>_validated_key_ids\<close>, \<open>_validated_identity_set\<close>: the loop with its index and the set collected so far, as a list without
  duplicates.\<close>

definition set_add :: "'a list \<Rightarrow> 'a \<Rightarrow> 'a list" where
  "set_add xs x = (if x \<in> set xs then xs else xs @ [x])"

fun validated_set :: "('a \<Rightarrow> exn + unit) \<Rightarrow> exn \<Rightarrow> nat \<Rightarrow> nat \<Rightarrow> 'a list \<Rightarrow> 'a list \<Rightarrow> 'a list result" where
  "validated_set check too_many maximum index found [] = Inr found"
| "validated_set check too_many maximum index found (v # vs) =
     (if index \<ge> maximum then Inl too_many
      else bindR (check v) (\<lambda>_. validated_set check too_many maximum (index + 1) (set_add found v) vs))"

definition validated_key_ids :: "nat \<Rightarrow> pystr list \<Rightarrow> pystr list result" where
  "validated_key_ids maximum values = validated_set
     (\<lambda>v. requireR (key_id_text v) (IntegrityError ''invalid_key_ids'' ''key IDs must be complete Ed25519 content identifiers''))
     (IntegrityError ''invalid_key_ids'' ''key ID iterable exceeds its fixed item ceiling'') maximum 0 [] values"

definition validated_identity_set :: "pystr \<Rightarrow> nat \<Rightarrow> pystr list \<Rightarrow> pystr list result" where
  "validated_identity_set field maximum values = validated_set (\<lambda>v. int_identity field (JStr v))
     (IntegrityError (''invalid_'' @ field) (field @ '' exceeds its fixed item ceiling'')) maximum 0 [] values"

lemma set_add_props: "set (set_add xs x) = insert x (set xs)" "distinct xs \<Longrightarrow> distinct (set_add xs x)"
  by (auto simp: set_add_def)

lemma foldl_set_add:
  "set (foldl set_add xs vs) = set xs \<union> set vs" "distinct xs \<Longrightarrow> distinct (foldl set_add xs vs)"
  "distinct (xs @ vs) \<Longrightarrow> foldl set_add xs vs = xs @ vs"
  by (induction vs arbitrary: xs) (auto simp: set_add_props set_add_def)

lemma validated_set_eq_Inr:
  assumes "index \<le> maximum"
  shows "validated_set check too_many maximum index found vs = Inr r \<longleftrightarrow>
    index + length vs \<le> maximum \<and> (\<forall>v \<in> set vs. check v = Inr ()) \<and> r = foldl set_add found vs"
  using assms
proof (induction vs arbitrary: index found)
  case Nil
  then show ?case by auto
next
  case (Cons v vs)
  show ?case
  proof (cases "index \<ge> maximum")
    case True
    then show ?thesis by simp
  next
    case False
    then have "index + 1 \<le> maximum" by simp
    from Cons.IH [OF this] False show ?thesis by (auto simp: bindR_eq_Inr)
  qed
qed

lemma validated_key_ids_eq_Inr [result_simps]:
  "validated_key_ids maximum vs = Inr r \<longleftrightarrow> length vs \<le> maximum \<and> list_all key_id_text vs \<and> r = foldl set_add [] vs"
  by (auto simp: validated_key_ids_def validated_set_eq_Inr list_all_iff requireR_def)

lemma validated_identity_set_eq_Inr [result_simps]:
  "validated_identity_set field maximum vs = Inr r \<longleftrightarrow> length vs \<le> maximum \<and> list_all identity_text vs \<and> r = foldl set_add [] vs"
  by (auto simp: validated_identity_set_def validated_set_eq_Inr list_all_iff int_identity_def requireR_def)

text \<open>\<open>", ".join(..)\<close>\<close>

fun join_comma :: "pystr list \<Rightarrow> pystr" where
  "join_comma [] = []"
| "join_comma [p] = p"
| "join_comma (p # q # ps) = p @ '', '' @ join_comma (q # ps)"

section \<open>Trusted keys\<close>

record trusted_integrity_key =
  ti_principal_id :: pystr
  ti_public_key_bytes :: bytes
  ti_role :: pystr

definition trusted_integrity_key_new :: "externals \<Rightarrow> pystr \<Rightarrow> bytes \<Rightarrow> pystr \<Rightarrow> trusted_integrity_key result" where
  "trusted_integrity_key_new X principal_id k role =
     bindR (seqR [
       int_identity ''principal_id'' (JStr principal_id),
       requireR (is_valid_ed25519_public_key X k)
         (IntegrityError ''invalid_public_key'' ''Ed25519 public keys must be canonical prime-subgroup points''),
       requireR (ed25519_loadable X k) (IntegrityError ''invalid_public_key'' ''invalid Ed25519 public key''),
       requireR (role \<in> set INTEGRITY_ROLES_V1)
         (IntegrityError ''invalid_integrity_role'' ''trusted integrity key requires one exact role'')])
     (\<lambda>_. Inr \<lparr>ti_principal_id = principal_id, ti_public_key_bytes = k, ti_role = role\<rparr>)"

definition integrity_key_ok :: "externals \<Rightarrow> trusted_integrity_key \<Rightarrow> bool" where
  "integrity_key_ok X k \<longleftrightarrow> identity_text (ti_principal_id k) \<and> is_valid_ed25519_public_key X (ti_public_key_bytes k) \<and>
     ed25519_loadable X (ti_public_key_bytes k) \<and> ti_role k \<in> set INTEGRITY_ROLES_V1"

lemma trusted_integrity_key_new_iff [result_simps]:
  "trusted_integrity_key_new X p b r = Inr k \<longleftrightarrow>
     p = ti_principal_id k \<and> b = ti_public_key_bytes k \<and> r = ti_role k \<and> integrity_key_ok X k"
  by (cases k) (auto simp: trusted_integrity_key_new_def integrity_key_ok_def int_identity_def result_simps)

lemma copy_integrity_key_iff:
  "trusted_integrity_key_new X (ti_principal_id k) (ti_public_key_bytes k) (ti_role k) = Inr k' \<longleftrightarrow> k' = k \<and> integrity_key_ok X k"
  by (cases k; cases k') (auto simp: trusted_integrity_key_new_iff)

section \<open>Trust stores\<close>

record integrity_trust_store =
  it_keys :: "(pystr \<times> trusted_integrity_key) list"
  it_revoked_key_ids :: "pystr list"

abbreviation invalid_trust_store :: "string \<Rightarrow> exn" where
  "invalid_trust_store \<equiv> IntegrityError ''invalid_trust_store''"

fun copy_integrity_keys ::
  "externals \<Rightarrow> nat \<Rightarrow> (pystr \<times> trusted_integrity_key) list \<Rightarrow> (pystr \<times> trusted_integrity_key) list \<Rightarrow>
   (pystr \<times> trusted_integrity_key) list result" where
  "copy_integrity_keys X index copied [] = Inr copied"
| "copy_integrity_keys X index copied ((key_id, k) # ks) =
     (if index \<ge> MAX_INTEGRITY_KEYS then Inl (invalid_trust_store ''integrity trust store exceeds the key-count ceiling'')
      else if \<not> key_id_text key_id \<or> key_id \<in> fst ` set copied
      then Inl (invalid_trust_store ''integrity trust-store entry is malformed'')
      else bindR (trusted_integrity_key_new X (ti_principal_id k) (ti_public_key_bytes k) (ti_role k)) (\<lambda>copied_key.
        bindR (integrity_key_id X (ti_public_key_bytes copied_key)) (\<lambda>expected.
        if expected \<noteq> key_id then Inl (invalid_trust_store ''integrity trust-store key identity is inconsistent'')
        else copy_integrity_keys X (index + 1) (copied @ [(key_id, copied_key)]) ks)))"

definition integrity_trust_store_new ::
  "externals \<Rightarrow> (pystr \<times> trusted_integrity_key) list \<Rightarrow> pystr list \<Rightarrow> integrity_trust_store result" where
  "integrity_trust_store_new X keys revoked_key_ids =
     bindR (copy_integrity_keys X 0 [] keys) (\<lambda>copied.
     bindR (validated_key_ids MAX_INTEGRITY_REVOCATIONS revoked_key_ids) (\<lambda>revoked.
     if length revoked > MAX_INTEGRITY_REVOCATIONS
     then Inl (invalid_trust_store ''integrity trust store exceeds the revocation-count ceiling'')
     else Inr \<lparr>it_keys = copied, it_revoked_key_ids = revoked\<rparr>))"

fun collect_integrity_keys ::
  "externals \<Rightarrow> (pystr \<times> trusted_integrity_key) list \<Rightarrow> trusted_integrity_key list \<Rightarrow>
   (pystr \<times> trusted_integrity_key) list result" where
  "collect_integrity_keys X keys [] = Inr keys"
| "collect_integrity_keys X keys (k # ks) =
     (if length keys \<ge> MAX_INTEGRITY_KEYS then Inl (invalid_trust_store ''trusted_keys exceeds the fixed key-count ceiling'')
      else bindR (integrity_key_id X (ti_public_key_bytes k)) (\<lambda>key_id.
        if key_id \<in> fst ` set keys then Inl (invalid_trust_store ''duplicate trusted integrity key'')
        else collect_integrity_keys X (keys @ [(key_id, k)]) ks))"

definition integrity_trust_store_from_keys ::
  "externals \<Rightarrow> trusted_integrity_key list \<Rightarrow> pystr list \<Rightarrow> integrity_trust_store result" where
  "integrity_trust_store_from_keys X trusted_keys revoked_key_ids =
     bindR (collect_integrity_keys X [] trusted_keys) (\<lambda>keys.
     bindR (validated_key_ids MAX_INTEGRITY_REVOCATIONS revoked_key_ids) (\<lambda>revoked.
     integrity_trust_store_new X keys revoked))"

definition integrity_key_json :: "pystr \<times> trusted_integrity_key \<Rightarrow> json" where
  "integrity_key_json = (\<lambda>(key_id, k). JObj [
     (''key_id'', JStr key_id), (''principal_id'', JStr (ti_principal_id k)),
     (''public_key_b64'', JStr (b64encode (ti_public_key_bytes k))), (''role'', JStr (ti_role k))])"

definition integrity_snapshot_body :: "integrity_trust_store \<Rightarrow> json" where
  "integrity_snapshot_body t = JObj [
     (''keys'', JArr (map integrity_key_json (sort_key fst (it_keys t)))),
     (''revoked_key_ids'', JArr (map JStr (sorted_set (it_revoked_key_ids t))))]"

definition integrity_snapshot_id :: "externals \<Rightarrow> integrity_trust_store \<Rightarrow> digest result" where
  "integrity_snapshot_id X t = content_id X ''integrity_trust_snapshot'' (integrity_snapshot_body t)"

text \<open>\<open>_snapshot_trust_store\<close>\<close>

definition snapshot_trust_store :: "externals \<Rightarrow> integrity_trust_store \<Rightarrow> integrity_trust_store result" where
  "snapshot_trust_store X t =
     rewrap value_caught (invalid_trust_store ''trust_store contains invalid integrity material'')
       (integrity_trust_store_new X (it_keys t) (it_revoked_key_ids t))"

section \<open>Reading a trust snapshot\<close>

definition INTEGRITY_TRUST_KEY_FIELDS :: "pystr list" where
  "INTEGRITY_TRUST_KEY_FIELDS = [''key_id'', ''principal_id'', ''public_key_b64'', ''role'']"

definition INTEGRITY_TRUST_SNAPSHOT_FIELDS :: "pystr list" where
  "INTEGRITY_TRUST_SNAPSHOT_FIELDS = [''keys'', ''revoked_key_ids'']"

abbreviation invalid_trust_snapshot :: "string \<Rightarrow> exn" where
  "invalid_trust_snapshot \<equiv> IntegrityError ''invalid_trust_snapshot''"

definition integrity_key_entry :: "externals \<Rightarrow> json \<Rightarrow> trusted_integrity_key result" where
  "integrity_key_entry X entry =
     (let key_id = member ''key_id'' entry; principal_id = member ''principal_id'' entry;
          public_key_b64 = member ''public_key_b64'' entry; role = member ''role'' entry
      in bindR (seqR [
        requireR (has_keys entry INTEGRITY_TRUST_KEY_FIELDS) (invalid_trust_snapshot ''integrity trust snapshot key entry is malformed''),
        requireR (is_JStr key_id \<and> key_id_text (jstr key_id) \<and>
                  is_JStr principal_id \<and> identity_text (jstr principal_id) \<and> stripped (jstr principal_id) \<and>
                  is_JStr public_key_b64 \<and> codepoints (jstr public_key_b64) = 44 \<and>
                  is_JStr role \<and> jstr role \<in> set INTEGRITY_ROLES_V1)
          (invalid_trust_snapshot ''integrity trust snapshot key identity or role is noncanonical'')]) (\<lambda>_.
      case b64decode (jstr public_key_b64) of
        None \<Rightarrow> Inl (invalid_trust_snapshot ''integrity trust snapshot public key is malformed'')
      | Some k \<Rightarrow>
          if \<not> (length k = 32 \<and> b64encode k = jstr public_key_b64 \<and> integrity_key_id X k = Inr (jstr key_id) \<and>
                is_valid_ed25519_public_key X k)
          then Inl (invalid_trust_snapshot ''integrity trust snapshot public key identity is malformed'')
          else rewrap value_caught (invalid_trust_snapshot ''integrity trust snapshot contains an invalid trusted key'')
                 (trusted_integrity_key_new X (jstr principal_id) k (jstr role))))"

definition integrity_trust_from_body :: "externals \<Rightarrow> json \<Rightarrow> integrity_trust_store result" where
  "integrity_trust_from_body X body =
     (let keys = member ''keys'' body; revoked_key_ids = member ''revoked_key_ids'' body
      in bindR (seqR [
        requireR (has_keys body INTEGRITY_TRUST_SNAPSHOT_FIELDS)
          (invalid_trust_snapshot ''integrity trust snapshot has missing or unknown fields''),
        requireR (is_JArr keys \<and> is_JArr revoked_key_ids) (invalid_trust_snapshot ''integrity trust snapshot collections must be arrays''),
        requireR (length (arr_items keys) \<le> MAX_INTEGRITY_KEYS)
          (invalid_trust_snapshot ''integrity trust snapshot exceeds the key-count ceiling''),
        requireR (length (arr_items revoked_key_ids) \<le> MAX_INTEGRITY_REVOCATIONS)
          (invalid_trust_snapshot ''integrity trust snapshot exceeds the revocation-count ceiling'')]) (\<lambda>_.
      bindR (mapR (integrity_key_entry X) (arr_items keys)) (\<lambda>trusted_keys.
      bindR (seqR [
        requireR (canonical_order (map (\<lambda>e. jstr (member ''key_id'' e)) (arr_items keys)))
          (invalid_trust_snapshot ''integrity trust snapshot keys are not in unique canonical order''),
        requireR (list_all (\<lambda>x. is_JStr x \<and> key_id_text (jstr x)) (arr_items revoked_key_ids) \<and>
                  canonical_order (jstrs revoked_key_ids))
          (invalid_trust_snapshot ''integrity trust snapshot revocations are noncanonical'')]) (\<lambda>_.
      bindR (rewrap value_caught (invalid_trust_snapshot ''integrity trust snapshot cannot be reconstructed'')
        (integrity_trust_store_from_keys X trusted_keys (jstrs revoked_key_ids))) (\<lambda>store.
      if norm_json (integrity_snapshot_body store) \<noteq> norm_json body
      then Inl (invalid_trust_snapshot ''integrity trust snapshot body is not canonical'')
      else Inr store)))))"

definition integrity_trust_from_snapshot :: "externals \<Rightarrow> json \<Rightarrow> digest option \<Rightarrow> integrity_trust_store result" where
  "integrity_trust_from_snapshot X body expected_snapshot_id =
     bindR (integrity_trust_from_body X body) (\<lambda>store.
     case expected_snapshot_id of
       None \<Rightarrow> Inr store
     | Some i \<Rightarrow>
         if \<not> full_digest i then Inl (invalid_trust_snapshot ''expected snapshot ID must be a full sha256 content ID'')
         else bindR (integrity_snapshot_id X store) (\<lambda>actual.
           if actual \<noteq> i
           then Inl (IntegrityError ''trust_snapshot_mismatch'' ''integrity trust snapshot ID does not match its canonical body'')
           else Inr store))"

section \<open>What a constructed store satisfies\<close>

definition integrity_store_ok :: "externals \<Rightarrow> integrity_trust_store \<Rightarrow> bool" where
  "integrity_store_ok X t \<longleftrightarrow> length (it_keys t) \<le> MAX_INTEGRITY_KEYS \<and> distinct (map fst (it_keys t)) \<and>
     (\<forall>(i, k) \<in> set (it_keys t). key_id_text i \<and> integrity_key_ok X k \<and> integrity_key_id X (ti_public_key_bytes k) = Inr i) \<and>
     length (it_revoked_key_ids t) \<le> MAX_INTEGRITY_REVOCATIONS \<and> list_all key_id_text (it_revoked_key_ids t)"

lemma copy_integrity_keys_eq_Inr:
  assumes "n = length done" and "n \<le> MAX_INTEGRITY_KEYS" and "distinct (map fst done)"
  shows "copy_integrity_keys X n done ks = Inr r \<longleftrightarrow> r = done @ ks \<and> n + length ks \<le> MAX_INTEGRITY_KEYS \<and> distinct (map fst (done @ ks)) \<and>
    (\<forall>(i, k) \<in> set ks. key_id_text i \<and> integrity_key_ok X k \<and> integrity_key_id X (ti_public_key_bytes k) = Inr i)"
  using assms
proof (induction ks arbitrary: n "done")
  case Nil
  then show ?case by auto
next
  case (Cons p ks)
  obtain i k where p: "p = (i, k)" by (cases p)
  show ?case
  proof (cases "n \<ge> MAX_INTEGRITY_KEYS \<or> \<not> key_id_text i \<or> i \<in> fst ` set done")
    case True
    then show ?thesis using Cons.prems p by auto
  next
    case False
    have "copy_integrity_keys X (n + 1) (done @ [(i, k)]) ks = Inr r \<longleftrightarrow> r = (done @ [(i, k)]) @ ks \<and> n + 1 + length ks \<le> MAX_INTEGRITY_KEYS \<and>
        distinct (map fst ((done @ [(i, k)]) @ ks)) \<and>
        (\<forall>(i, k) \<in> set ks. key_id_text i \<and> integrity_key_ok X k \<and> integrity_key_id X (ti_public_key_bytes k) = Inr i)"
      by (rule Cons.IH) (use Cons.prems False in auto)
    moreover have "copy_integrity_keys X n done (p # ks) = Inr r \<longleftrightarrow> integrity_key_ok X k \<and>
        integrity_key_id X (ti_public_key_bytes k) = Inr i \<and> copy_integrity_keys X (n + 1) (done @ [(i, k)]) ks = Inr r"
      using False p by (auto simp: bindR_eq_Inr copy_integrity_key_iff)
    ultimately show ?thesis using False p by auto
  qed
qed

lemma integrity_trust_store_new_eq_Inr:
  "integrity_trust_store_new X ks rs = Inr t \<longleftrightarrow> length rs \<le> MAX_INTEGRITY_REVOCATIONS \<and> list_all key_id_text rs \<and>
     length (foldl set_add [] rs) \<le> MAX_INTEGRITY_REVOCATIONS \<and>
     t = \<lparr>it_keys = ks, it_revoked_key_ids = foldl set_add [] rs\<rparr> \<and> integrity_store_ok X \<lparr>it_keys = ks, it_revoked_key_ids = rs\<rparr>"
  by (auto simp: integrity_trust_store_new_def bindR_eq_Inr copy_integrity_keys_eq_Inr validated_key_ids_eq_Inr integrity_store_ok_def not_less)

lemma sorted_set_cong: "set xs = set ys \<Longrightarrow> sorted_set xs = sorted_set ys"
  unfolding sorted_set_def by (metis sorted_list_of_set_sort_remdups)

text \<open>A copy of a store has the same keys, the same revoked identifiers and so the same snapshot.\<close>

lemma snapshot_trust_storeD:
  assumes "snapshot_trust_store X t = Inr t'"
  shows "integrity_store_ok X t" and "it_keys t' = it_keys t" and "set (it_revoked_key_ids t') = set (it_revoked_key_ids t)"
    and "integrity_snapshot_id X t' = integrity_snapshot_id X t"
proof -
  from assms have n: "integrity_trust_store_new X (it_keys t) (it_revoked_key_ids t) = Inr t'" by (simp add: snapshot_trust_store_def rewrap_eq_Inr)
  then show "integrity_store_ok X t" "it_keys t' = it_keys t"
    by (simp_all add: integrity_trust_store_new_eq_Inr integrity_store_ok_def)
  show s: "set (it_revoked_key_ids t') = set (it_revoked_key_ids t)" using n by (simp add: integrity_trust_store_new_eq_Inr foldl_set_add)
  show "integrity_snapshot_id X t' = integrity_snapshot_id X t"
    using sorted_set_cong [OF s] n by (simp add: integrity_snapshot_id_def integrity_snapshot_body_def integrity_trust_store_new_eq_Inr)
qed

lemma foldl_set_add_length: "length (foldl set_add xs vs) \<le> length xs + length vs"
proof (induction vs arbitrary: xs)
  case (Cons v vs)
  have "length (set_add xs v) \<le> Suc (length xs)" by (simp add: set_add_def)
  with Cons [of "set_add xs v"] show ?case by simp
qed simp

lemma snapshot_trust_store_ok: "integrity_store_ok X t \<Longrightarrow> \<exists>t'. snapshot_trust_store X t = Inr t'"
  using foldl_set_add_length [of "[]" "it_revoked_key_ids t"]
  by (auto simp: snapshot_trust_store_def rewrap_eq_Inr integrity_trust_store_new_eq_Inr integrity_store_ok_def)

end
