(* ===== verification/Integrity_Authentication.thy ===== *)
theory Integrity_Authentication
  imports Integrity_Trust
begin

text \<open>
  \<open>src/etzio/integrity_v1.py\<close>: the authentication of signed decisions and checkpoints against a trust store, and the repeated
  authentication that every consequential function makes of its arguments. \<open>authentic_decision\<close> and \<open>authentic_checkpoint\<close> say what an
  authenticated record means; authentication establishes them, and repeating it accepts exactly the records that satisfy them.
\<close>

section \<open>Signatures\<close>

definition authenticate_signed ::
  "externals \<Rightarrow> bytes \<Rightarrow> pystr \<Rightarrow> pystr \<Rightarrow> integrity_trust_store \<Rightarrow> pystr \<Rightarrow> bytes \<Rightarrow> pystr list \<Rightarrow> trusted_integrity_key result" where
  "authenticate_signed X envelope_bytes key_id signature_b64 trust role signature_domain forbidden_key_ids =
     bindR (validate_signed_fields (PBytes envelope_bytes) (PJson (JStr key_id)) (PJson (JStr signature_b64))) (\<lambda>_.
     bindR (validated_key_ids MAX_INTEGRITY_KEYS forbidden_key_ids) (\<lambda>forbidden.
     if key_id \<in> set forbidden
     then Inl (IntegrityError ''principal_separation_violation'' ''integrity signer key is forbidden for this decision'')
     else if key_id \<in> set (it_revoked_key_ids trust) then Inl (IntegrityError ''key_revoked'' ''integrity signer key is revoked'')
     else case map_of (it_keys trust) key_id of
       None \<Rightarrow> Inl (IntegrityError ''unknown_key'' ''integrity signer key is unknown'')
     | Some trusted_key \<Rightarrow>
         if ti_role trusted_key \<noteq> role
         then Inl (IntegrityError ''key_role_mismatch'' ''integrity signer key lacks the exact required role'')
         else bindR (int_decode_signature (JStr signature_b64)) (\<lambda>signature.
           if \<not> signature_verifies X (ti_public_key_bytes trusted_key) signature (signature_domain @ envelope_bytes)
           then Inl (IntegrityError ''invalid_signature'' ''integrity signature is invalid'')
           else Inr trusted_key)))"

text \<open>What a successful signature check establishes.\<close>

definition signed_by ::
  "externals \<Rightarrow> bytes \<Rightarrow> pystr \<Rightarrow> pystr \<Rightarrow> integrity_trust_store \<Rightarrow> pystr \<Rightarrow> bytes \<Rightarrow> trusted_integrity_key \<Rightarrow> bool" where
  "signed_by X envelope_bytes key_id signature_b64 trust role signature_domain k \<longleftrightarrow>
     envelope_bytes \<noteq> [] \<and> length envelope_bytes \<le> MAX_INTEGRITY_ENVELOPE_BYTES \<and> key_id_text key_id \<and>
     key_id \<notin> set (it_revoked_key_ids trust) \<and> map_of (it_keys trust) key_id = Some k \<and> ti_role k = role \<and>
     (\<exists>signature. int_decode_signature (JStr signature_b64) = Inr signature \<and>
        signature_verifies X (ti_public_key_bytes k) signature (signature_domain @ envelope_bytes))"

lemma authenticate_signed_eq_Inr:
  "authenticate_signed X b i s trust role sd forbidden = Inr k \<longleftrightarrow>
     length forbidden \<le> MAX_INTEGRITY_KEYS \<and> list_all key_id_text forbidden \<and> i \<notin> set forbidden \<and> signed_by X b i s trust role sd k"
proof -
  have f: "set (foldl set_add [] forbidden) = set forbidden" by (simp add: foldl_set_add)
  show ?thesis
    by (auto simp: authenticate_signed_def signed_by_def bindR_eq_Inr validate_signed_fields_eq_Inr validated_key_ids_eq_Inr f
        split: option.splits if_splits)
qed

lemma signed_by_cong:
  "it_keys t = it_keys t' \<Longrightarrow> set (it_revoked_key_ids t) = set (it_revoked_key_ids t') \<Longrightarrow>
   signed_by X b i s t role sd k \<longleftrightarrow> signed_by X b i s t' role sd k"
  by (simp add: signed_by_def)

definition missing_namespaces :: "pystr list \<Rightarrow> revocation_view list \<Rightarrow> pystr list" where
  "missing_namespaces required views = sorted_set (filter (\<lambda>n. n \<notin> set (map rv_namespace views)) required)"

lemma missing_namespaces_Nil: "missing_namespaces required views = [] \<longleftrightarrow> set required \<subseteq> set (map rv_namespace views)"
proof -
  have "set (missing_namespaces required views) = {n \<in> set required. n \<notin> set (map rv_namespace views)}"
    by (simp add: missing_namespaces_def sorted_set_def)
  then show ?thesis by (metis (no_types, lifting) Collect_empty_eq set_empty subset_eq)
qed

section \<open>Authenticated decisions\<close>

record authenticated_decision =
  ad_signed_decision :: signed_decision
  ad_decision :: integrity_decision
  ad_signer_principal_id :: pystr
  ad_trust_snapshot_id :: digest

definition authenticated_decision_new ::
  "externals \<Rightarrow> signed_decision \<Rightarrow> integrity_decision \<Rightarrow> pystr \<Rightarrow> digest \<Rightarrow> authenticated_decision result" where
  "authenticated_decision_new X signed d principal_id snapshot_id =
     bindR (decision_to_envelope X d) (\<lambda>e.
     bindR (envelope_to_bytes X e) (\<lambda>b.
     if sd_envelope_bytes signed \<noteq> b
     then Inl (IntegrityError ''invalid_authenticated_decision'' ''authenticated decision material is incoherent'')
     else bindR (seqR [int_identity ''signer_principal_id'' (JStr principal_id), int_digest ''trust_snapshot_id'' (JStr snapshot_id)]) (\<lambda>_.
     Inr \<lparr>ad_signed_decision = signed, ad_decision = d, ad_signer_principal_id = principal_id, ad_trust_snapshot_id = snapshot_id\<rparr>)))"

definition parse_signed_decision :: "externals \<Rightarrow> signed_decision \<Rightarrow> integrity_decision result" where
  "parse_signed_decision X signed = bindR (envelope_from_bytes X (sd_envelope_bytes signed)) (decision_from_envelope X)"

definition reauthenticate_decision :: "externals \<Rightarrow> authenticated_decision \<Rightarrow> integrity_trust_store \<Rightarrow> authenticated_decision result" where
  "reauthenticate_decision X a trust =
     bindR (snapshot_trust_store X trust) (\<lambda>trust.
     bindR (rewrap is_integrity_error (IntegrityError ''invalid_authenticated_decision'' ''authenticated decision transport is malformed'')
       (snapshot_signed_decision (ad_signed_decision a))) (\<lambda>signed.
     bindR (authenticate_signed X (sd_envelope_bytes signed) (sd_key_id signed) (sd_signature_b64 signed) trust
       INTEGRITY_DECISION_ROLE DECISION_SIGNATURE_DOMAIN []) (\<lambda>trusted_key.
     bindR (rewrap value_caught (IntegrityError ''invalid_authenticated_decision'' ''authenticated decision semantics are invalid'')
       (bindR (parse_signed_decision X signed) (\<lambda>parsed.
        bindR (snapshot_decision_value X (ad_decision a)) (\<lambda>claimed. Inr (parsed, claimed))))) (\<lambda>(parsed, claimed).
     if parsed \<noteq> claimed \<or> ti_principal_id trusted_key \<noteq> ad_signer_principal_id a
     then Inl (IntegrityError ''invalid_authenticated_decision'' ''decision result does not match its verified signer or trust snapshot'')
     else bindR (integrity_snapshot_id X trust) (\<lambda>snapshot_id.
       if snapshot_id \<noteq> ad_trust_snapshot_id a
       then Inl (IntegrityError ''invalid_authenticated_decision'' ''decision result does not match its verified signer or trust snapshot'')
       else authenticated_decision_new X signed parsed (ti_principal_id trusted_key) snapshot_id)))))"

text \<open>What an authenticated decision means under a trust store.\<close>

definition authentic_decision :: "externals \<Rightarrow> integrity_trust_store \<Rightarrow> authenticated_decision \<Rightarrow> bool" where
  "authentic_decision X trust a \<longleftrightarrow> integrity_store_ok X trust \<and>
     (\<exists>k. signed_by X (sd_envelope_bytes (ad_signed_decision a)) (sd_key_id (ad_signed_decision a)) (sd_signature_b64 (ad_signed_decision a)) trust
            INTEGRITY_DECISION_ROLE DECISION_SIGNATURE_DOMAIN k \<and> ti_principal_id k = ad_signer_principal_id a) \<and>
     parse_signed_decision X (ad_signed_decision a) = Inr (ad_decision a) \<and> integrity_snapshot_id X trust = Inr (ad_trust_snapshot_id a) \<and>
     identity_text (ad_signer_principal_id a) \<and> full_digest (ad_trust_snapshot_id a)"

lemma parse_signed_decision_valid:
  assumes "parse_signed_decision X s = Inr d"
  shows "valid_decision X d" and "bindR (decision_to_envelope X d) (envelope_to_bytes X) = Inr (sd_envelope_bytes s)"
  using assms env.decode_valid decision.object_determines_bytes by (auto simp: parse_signed_decision_def bindR_eq_Inr valid_decision_def)

lemma signed_decision_fields:
  "signed_by X (sd_envelope_bytes s) (sd_key_id s) (sd_signature_b64 s) trust role sd k \<Longrightarrow> snapshot_signed_decision s = Inr s"
  by (cases s) (auto simp: snapshot_signed_decision_eq_Inr signed_by_def signed_decision_new_def bindR_eq_Inr validate_signed_fields_eq_Inr)

lemma authenticated_decision_new_eq_Inr:
  assumes "parse_signed_decision X s = Inr d"
  shows "authenticated_decision_new X s d p i = Inr a \<longleftrightarrow> identity_text p \<and> full_digest i \<and>
     a = \<lparr>ad_signed_decision = s, ad_decision = d, ad_signer_principal_id = p, ad_trust_snapshot_id = i\<rparr>"
  using parse_signed_decision_valid(2) [OF assms]
  by (auto simp: authenticated_decision_new_def bindR_eq_Inr seqR_Cons_eq_Inr int_identity_def int_digest_def digest_value_def requireR_def)

lemma reauthenticate_decision_iff:
  "reauthenticate_decision X a trust = Inr a' \<longleftrightarrow> a' = a \<and> authentic_decision X trust a"
proof
  assume "reauthenticate_decision X a trust = Inr a'"
  then obtain t signed k parsed claimed i where t: "snapshot_trust_store X trust = Inr t"
    and s: "snapshot_signed_decision (ad_signed_decision a) = Inr signed"
    and k: "authenticate_signed X (sd_envelope_bytes signed) (sd_key_id signed) (sd_signature_b64 signed) t INTEGRITY_DECISION_ROLE DECISION_SIGNATURE_DOMAIN [] = Inr k"
    and p: "parse_signed_decision X signed = Inr parsed" "snapshot_decision_value X (ad_decision a) = Inr claimed" "parsed = claimed"
    and i: "ti_principal_id k = ad_signer_principal_id a" "integrity_snapshot_id X t = Inr i" "i = ad_trust_snapshot_id a"
    and n: "authenticated_decision_new X signed parsed (ti_principal_id k) i = Inr a'"
    by (auto simp: reauthenticate_decision_def bindR_eq_Inr rewrap_eq_Inr split: if_splits)
  have sg: "signed = ad_signed_decision a" using s by (simp add: snapshot_signed_decision_eq_Inr)
  have c: "claimed = ad_decision a" by (rule snapshot_decision_eq(1) [OF p(2)])
  have sb: "signed_by X (sd_envelope_bytes signed) (sd_key_id signed) (sd_signature_b64 signed) trust INTEGRITY_DECISION_ROLE DECISION_SIGNATURE_DOMAIN k"
    using k signed_by_cong [OF snapshot_trust_storeD(2,3) [OF t]] by (simp add: authenticate_signed_eq_Inr)
  note d = n [unfolded authenticated_decision_new_eq_Inr [OF p(1)]]
  show "a' = a \<and> authentic_decision X trust a"
  proof
    show "a' = a" using d i c p(3) sg by (cases a) simp
    show "authentic_decision X trust a" unfolding authentic_decision_def
      using snapshot_trust_storeD(1,4) [OF t] sb d i c p(1,3) sg by auto
  qed
next
  assume "a' = a \<and> authentic_decision X trust a"
  then have a: "a' = a" and au: "authentic_decision X trust a" by blast+
  from au obtain k where ok: "integrity_store_ok X trust"
    and k: "signed_by X (sd_envelope_bytes (ad_signed_decision a)) (sd_key_id (ad_signed_decision a)) (sd_signature_b64 (ad_signed_decision a)) trust
            INTEGRITY_DECISION_ROLE DECISION_SIGNATURE_DOMAIN k" "ti_principal_id k = ad_signer_principal_id a"
    and p: "parse_signed_decision X (ad_signed_decision a) = Inr (ad_decision a)" and i: "integrity_snapshot_id X trust = Inr (ad_trust_snapshot_id a)"
    and f: "identity_text (ad_signer_principal_id a)" "full_digest (ad_trust_snapshot_id a)"
    unfolding authentic_decision_def by blast
  from snapshot_trust_store_ok [OF ok] obtain t where t: "snapshot_trust_store X trust = Inr t" by blast
  have k': "authenticate_signed X (sd_envelope_bytes (ad_signed_decision a)) (sd_key_id (ad_signed_decision a)) (sd_signature_b64 (ad_signed_decision a)) t
      INTEGRITY_DECISION_ROLE DECISION_SIGNATURE_DOMAIN [] = Inr k"
    using k(1) signed_by_cong [OF snapshot_trust_storeD(2,3) [OF t]] by (simp add: authenticate_signed_eq_Inr)
  have v: "snapshot_decision_value X (ad_decision a) = Inr (ad_decision a)"
    by (rule snapshot_decision_valid [OF parse_signed_decision_valid(1) [OF p]])
  have "authenticated_decision_new X (ad_signed_decision a) (ad_decision a) (ad_signer_principal_id a) (ad_trust_snapshot_id a) = Inr a"
    unfolding authenticated_decision_new_eq_Inr [OF p] using f by simp
  then show "reauthenticate_decision X a trust = Inr a'"
    using t signed_decision_fields [OF k(1)] k' p v k(2) i snapshot_trust_storeD(4) [OF t] a
    by (simp add: reauthenticate_decision_def rewrap_def)
qed

section \<open>Authenticated checkpoints\<close>

record authenticated_checkpoint =
  ac_signed_checkpoint :: signed_checkpoint
  ac_checkpoint :: head_checkpoint
  ac_signer_principal_id :: pystr
  ac_trust_snapshot_id :: digest

definition authenticated_checkpoint_new ::
  "externals \<Rightarrow> signed_checkpoint \<Rightarrow> head_checkpoint \<Rightarrow> pystr \<Rightarrow> digest \<Rightarrow> authenticated_checkpoint result" where
  "authenticated_checkpoint_new X signed c principal_id snapshot_id =
     bindR (checkpoint_to_envelope X c) (\<lambda>e.
     bindR (envelope_to_bytes X e) (\<lambda>b.
     if sc_envelope_bytes signed \<noteq> b
     then Inl (IntegrityError ''invalid_authenticated_checkpoint'' ''authenticated checkpoint material is incoherent'')
     else bindR (seqR [int_identity ''signer_principal_id'' (JStr principal_id), int_digest ''trust_snapshot_id'' (JStr snapshot_id)]) (\<lambda>_.
     Inr \<lparr>ac_signed_checkpoint = signed, ac_checkpoint = c, ac_signer_principal_id = principal_id, ac_trust_snapshot_id = snapshot_id\<rparr>)))"

definition parse_signed_checkpoint :: "externals \<Rightarrow> signed_checkpoint \<Rightarrow> head_checkpoint result" where
  "parse_signed_checkpoint X signed = bindR (envelope_from_bytes X (sc_envelope_bytes signed)) (checkpoint_from_envelope X)"

definition reauthenticate_checkpoint :: "externals \<Rightarrow> authenticated_checkpoint \<Rightarrow> integrity_trust_store \<Rightarrow> authenticated_checkpoint result" where
  "reauthenticate_checkpoint X a trust =
     bindR (snapshot_trust_store X trust) (\<lambda>trust.
     bindR (rewrap is_integrity_error (IntegrityError ''invalid_authenticated_checkpoint'' ''authenticated checkpoint transport is malformed'')
       (snapshot_signed_checkpoint (ac_signed_checkpoint a))) (\<lambda>signed.
     bindR (authenticate_signed X (sc_envelope_bytes signed) (sc_key_id signed) (sc_signature_b64 signed) trust
       HEAD_CHECKPOINT_ROLE CHECKPOINT_SIGNATURE_DOMAIN []) (\<lambda>trusted_key.
     bindR (rewrap value_caught (IntegrityError ''invalid_authenticated_checkpoint'' ''authenticated checkpoint semantics are invalid'')
       (bindR (parse_signed_checkpoint X signed) (\<lambda>parsed.
        bindR (snapshot_checkpoint_value X (ac_checkpoint a)) (\<lambda>claimed. Inr (parsed, claimed))))) (\<lambda>(parsed, claimed).
     if parsed \<noteq> claimed \<or> ti_principal_id trusted_key \<noteq> ac_signer_principal_id a
     then Inl (IntegrityError ''invalid_authenticated_checkpoint'' ''checkpoint result does not match its verified signer or trust snapshot'')
     else bindR (integrity_snapshot_id X trust) (\<lambda>snapshot_id.
       if snapshot_id \<noteq> ac_trust_snapshot_id a
       then Inl (IntegrityError ''invalid_authenticated_checkpoint'' ''checkpoint result does not match its verified signer or trust snapshot'')
       else authenticated_checkpoint_new X signed parsed (ti_principal_id trusted_key) snapshot_id)))))"

text \<open>What an authenticated checkpoint means under a trust store.\<close>

definition authentic_checkpoint :: "externals \<Rightarrow> integrity_trust_store \<Rightarrow> authenticated_checkpoint \<Rightarrow> bool" where
  "authentic_checkpoint X trust a \<longleftrightarrow> integrity_store_ok X trust \<and>
     (\<exists>k. signed_by X (sc_envelope_bytes (ac_signed_checkpoint a)) (sc_key_id (ac_signed_checkpoint a)) (sc_signature_b64 (ac_signed_checkpoint a)) trust
            HEAD_CHECKPOINT_ROLE CHECKPOINT_SIGNATURE_DOMAIN k \<and> ti_principal_id k = ac_signer_principal_id a) \<and>
     parse_signed_checkpoint X (ac_signed_checkpoint a) = Inr (ac_checkpoint a) \<and> integrity_snapshot_id X trust = Inr (ac_trust_snapshot_id a) \<and>
     identity_text (ac_signer_principal_id a) \<and> full_digest (ac_trust_snapshot_id a)"

lemma parse_signed_checkpoint_valid:
  assumes "parse_signed_checkpoint X s = Inr c"
  shows "valid_checkpoint X c" and "bindR (checkpoint_to_envelope X c) (envelope_to_bytes X) = Inr (sc_envelope_bytes s)"
  using assms env.decode_valid checkpoint.object_determines_bytes by (auto simp: parse_signed_checkpoint_def bindR_eq_Inr valid_checkpoint_def)

lemma signed_checkpoint_fields:
  "signed_by X (sc_envelope_bytes s) (sc_key_id s) (sc_signature_b64 s) trust role sd k \<Longrightarrow> snapshot_signed_checkpoint s = Inr s"
  by (cases s) (auto simp: snapshot_signed_checkpoint_eq_Inr signed_by_def signed_checkpoint_new_def bindR_eq_Inr validate_signed_fields_eq_Inr)

lemma authenticated_checkpoint_new_eq_Inr:
  assumes "parse_signed_checkpoint X s = Inr c"
  shows "authenticated_checkpoint_new X s c p i = Inr a \<longleftrightarrow> identity_text p \<and> full_digest i \<and>
     a = \<lparr>ac_signed_checkpoint = s, ac_checkpoint = c, ac_signer_principal_id = p, ac_trust_snapshot_id = i\<rparr>"
  using parse_signed_checkpoint_valid(2) [OF assms]
  by (auto simp: authenticated_checkpoint_new_def bindR_eq_Inr seqR_Cons_eq_Inr int_identity_def int_digest_def digest_value_def requireR_def)

lemma reauthenticate_checkpoint_iff:
  "reauthenticate_checkpoint X a trust = Inr a' \<longleftrightarrow> a' = a \<and> authentic_checkpoint X trust a"
proof
  assume "reauthenticate_checkpoint X a trust = Inr a'"
  then obtain t signed k parsed claimed i where t: "snapshot_trust_store X trust = Inr t"
    and s: "snapshot_signed_checkpoint (ac_signed_checkpoint a) = Inr signed"
    and k: "authenticate_signed X (sc_envelope_bytes signed) (sc_key_id signed) (sc_signature_b64 signed) t HEAD_CHECKPOINT_ROLE CHECKPOINT_SIGNATURE_DOMAIN [] = Inr k"
    and p: "parse_signed_checkpoint X signed = Inr parsed" "snapshot_checkpoint_value X (ac_checkpoint a) = Inr claimed" "parsed = claimed"
    and i: "ti_principal_id k = ac_signer_principal_id a" "integrity_snapshot_id X t = Inr i" "i = ac_trust_snapshot_id a"
    and n: "authenticated_checkpoint_new X signed parsed (ti_principal_id k) i = Inr a'"
    by (auto simp: reauthenticate_checkpoint_def bindR_eq_Inr rewrap_eq_Inr split: if_splits)
  have sg: "signed = ac_signed_checkpoint a" using s by (simp add: snapshot_signed_checkpoint_eq_Inr)
  have c: "claimed = ac_checkpoint a" by (rule snapshot_checkpoint_eq(1) [OF p(2)])
  have sb: "signed_by X (sc_envelope_bytes signed) (sc_key_id signed) (sc_signature_b64 signed) trust HEAD_CHECKPOINT_ROLE CHECKPOINT_SIGNATURE_DOMAIN k"
    using k signed_by_cong [OF snapshot_trust_storeD(2,3) [OF t]] by (simp add: authenticate_signed_eq_Inr)
  note d = n [unfolded authenticated_checkpoint_new_eq_Inr [OF p(1)]]
  show "a' = a \<and> authentic_checkpoint X trust a"
  proof
    show "a' = a" using d i c p(3) sg by (cases a) simp
    show "authentic_checkpoint X trust a" unfolding authentic_checkpoint_def
      using snapshot_trust_storeD(1,4) [OF t] sb d i c p(1,3) sg by auto
  qed
next
  assume "a' = a \<and> authentic_checkpoint X trust a"
  then have a: "a' = a" and au: "authentic_checkpoint X trust a" by blast+
  from au obtain k where ok: "integrity_store_ok X trust"
    and k: "signed_by X (sc_envelope_bytes (ac_signed_checkpoint a)) (sc_key_id (ac_signed_checkpoint a)) (sc_signature_b64 (ac_signed_checkpoint a)) trust
            HEAD_CHECKPOINT_ROLE CHECKPOINT_SIGNATURE_DOMAIN k" "ti_principal_id k = ac_signer_principal_id a"
    and p: "parse_signed_checkpoint X (ac_signed_checkpoint a) = Inr (ac_checkpoint a)" and i: "integrity_snapshot_id X trust = Inr (ac_trust_snapshot_id a)"
    and f: "identity_text (ac_signer_principal_id a)" "full_digest (ac_trust_snapshot_id a)"
    unfolding authentic_checkpoint_def by blast
  from snapshot_trust_store_ok [OF ok] obtain t where t: "snapshot_trust_store X trust = Inr t" by blast
  have k': "authenticate_signed X (sc_envelope_bytes (ac_signed_checkpoint a)) (sc_key_id (ac_signed_checkpoint a)) (sc_signature_b64 (ac_signed_checkpoint a)) t
      HEAD_CHECKPOINT_ROLE CHECKPOINT_SIGNATURE_DOMAIN [] = Inr k"
    using k(1) signed_by_cong [OF snapshot_trust_storeD(2,3) [OF t]] by (simp add: authenticate_signed_eq_Inr)
  have v: "snapshot_checkpoint_value X (ac_checkpoint a) = Inr (ac_checkpoint a)"
    by (rule snapshot_checkpoint_valid [OF parse_signed_checkpoint_valid(1) [OF p]])
  have "authenticated_checkpoint_new X (ac_signed_checkpoint a) (ac_checkpoint a) (ac_signer_principal_id a) (ac_trust_snapshot_id a) = Inr a"
    unfolding authenticated_checkpoint_new_eq_Inr [OF p] using f by simp
  then show "reauthenticate_checkpoint X a trust = Inr a'"
    using t signed_checkpoint_fields [OF k(1)] k' p v k(2) i snapshot_trust_storeD(4) [OF t] a
    by (simp add: reauthenticate_checkpoint_def rewrap_def)
qed

section \<open>Authenticating a decision\<close>

text \<open>The keyword arguments of \<open>authenticate_integrity_decision\<close>.\<close>

record decision_expectation =
  de_forbidden_key_ids :: "pystr list"
  de_service_instance_id :: pystr
  de_environment_id :: pystr
  de_mission_id :: pystr
  de_authority_id :: pystr
  de_target_id :: pystr
  de_prior_global_checkpoint_sequence :: int
  de_prior_global_checkpoint_id :: pystr
  de_prior_global_checkpoint_attestation_id :: "pystr option"
  de_prior_global_checkpoint_principal_id :: "pystr option"
  de_prior_global_checkpoint_trust_snapshot_id :: "pystr option"
  de_prior_event_seq :: int
  de_prior_event_digest :: pystr
  de_event_kind :: pystr
  de_proposed_event_digest :: pystr
  de_transition_intent_id :: pystr
  de_request_nonce :: pystr
  de_time_policy_id :: pystr
  de_decision_policy_id :: pystr
  de_required_revocation_namespaces :: "pystr list"
  de_max_time_uncertainty_seconds :: int

definition check_decision :: "decision_expectation \<Rightarrow> integrity_decision \<Rightarrow> exn + unit" where
  "check_decision x d = seqR [
     check_expected (dc_service_instance_id d) (de_service_instance_id x) ''service_instance'',
     check_expected (dc_environment_id d) (de_environment_id x) ''environment'',
     check_expected (dc_mission_id d) (de_mission_id x) ''mission'',
     check_expected (dc_authority_id d) (de_authority_id x) ''authority'',
     check_expected (dc_target_id d) (de_target_id x) ''target'',
     check_expected (dc_prior_global_checkpoint_sequence d) (de_prior_global_checkpoint_sequence x) ''prior_global_checkpoint_sequence'',
     check_expected (dc_prior_global_checkpoint_id d) (de_prior_global_checkpoint_id x) ''prior_global_checkpoint_id'',
     check_expected (dc_prior_global_checkpoint_attestation_id d) (de_prior_global_checkpoint_attestation_id x) ''prior_global_checkpoint_attestation_id'',
     check_expected (dc_prior_global_checkpoint_principal_id d) (de_prior_global_checkpoint_principal_id x) ''prior_global_checkpoint_principal_id'',
     check_expected (dc_prior_global_checkpoint_trust_snapshot_id d) (de_prior_global_checkpoint_trust_snapshot_id x) ''prior_global_checkpoint_trust_snapshot_id'',
     check_expected (dc_prior_event_seq d) (de_prior_event_seq x) ''prior_event_seq'',
     check_expected (dc_prior_event_digest d) (de_prior_event_digest x) ''prior_event_digest'',
     check_expected (dc_event_kind d) (de_event_kind x) ''event_kind'',
     check_expected (dc_proposed_event_digest d) (de_proposed_event_digest x) ''proposed_event_digest'',
     check_expected (dc_transition_intent_id d) (de_transition_intent_id x) ''transition_intent'',
     check_expected (dc_request_nonce d) (de_request_nonce x) ''request_nonce'',
     check_expected (dc_time_policy_id d) (de_time_policy_id x) ''time_policy'',
     check_expected (dc_decision_policy_id d) (de_decision_policy_id x) ''decision_policy'',
     require_max_uncertainty (dc_time_lower_bound d) (dc_time_upper_bound d) (JInt (de_max_time_uncertainty_seconds x))]"

definition authenticate_integrity_decision ::
  "externals \<Rightarrow> raw_decision \<Rightarrow> integrity_trust_store \<Rightarrow> decision_expectation \<Rightarrow> authenticated_decision result" where
  "authenticate_integrity_decision X raw trust x =
     bindR (snapshot_trust_store X trust) (\<lambda>trust.
     bindR (coerce_signed_decision X raw) (\<lambda>supplied.
     bindR (snapshot_signed_decision supplied) (\<lambda>signed.
     bindR (authenticate_signed X (sd_envelope_bytes signed) (sd_key_id signed) (sd_signature_b64 signed) trust
       INTEGRITY_DECISION_ROLE DECISION_SIGNATURE_DOMAIN (de_forbidden_key_ids x)) (\<lambda>trusted_key.
     bindR (rewrap protocol_caught (IntegrityError ''invalid_integrity_decision'' ''signed integrity decision is semantically invalid'')
       (parse_signed_decision X signed)) (\<lambda>d.
     bindR (check_decision x d) (\<lambda>_.
     bindR (validated_identity_set ''required_revocation_namespaces'' MAX_REVOCATION_VIEWS (de_required_revocation_namespaces x)) (\<lambda>required.
     if required = []
     then Inl (IntegrityError ''missing_revocation_namespace'' ''consequential integrity decisions require a revocation namespace'')
     else let missing = missing_namespaces required (dc_revocation_views d) in
     if missing \<noteq> []
     then Inl (IntegrityError ''missing_revocation_namespace'' (''integrity decision lacks required revocation namespaces: '' @ join_comma missing))
     else bindR (integrity_snapshot_id X trust) (\<lambda>snapshot_id.
       authenticated_decision_new X signed d (ti_principal_id trusted_key) snapshot_id))))))))"

section \<open>Authenticating a checkpoint\<close>

record checkpoint_expectation =
  ce_forbidden_key_ids :: "pystr list"
  ce_forbidden_principal_ids :: "pystr list"
  ce_service_instance_id :: pystr
  ce_environment_id :: pystr
  ce_time_policy_id :: pystr
  ce_anchor_policy_id :: pystr
  ce_anchor_statement_id :: pystr
  ce_max_time_uncertainty_seconds :: int

definition check_checkpoint :: "checkpoint_expectation \<Rightarrow> head_checkpoint \<Rightarrow> exn + unit" where
  "check_checkpoint x c = seqR [
     check_expected (hc_service_instance_id c) (ce_service_instance_id x) ''service_instance'',
     check_expected (hc_environment_id c) (ce_environment_id x) ''environment'',
     check_expected (hc_time_policy_id c) (ce_time_policy_id x) ''time_policy'',
     check_expected (hc_anchor_policy_id c) (ce_anchor_policy_id x) ''anchor_policy'',
     check_expected (hc_anchor_statement_id c) (ce_anchor_statement_id x) ''anchor_statement'',
     require_max_uncertainty (hc_time_lower_bound c) (hc_time_upper_bound c) (JInt (ce_max_time_uncertainty_seconds x))]"

definition authenticate_head_checkpoint ::
  "externals \<Rightarrow> raw_checkpoint \<Rightarrow> integrity_trust_store \<Rightarrow> checkpoint_expectation \<Rightarrow> authenticated_checkpoint result" where
  "authenticate_head_checkpoint X raw trust x =
     bindR (snapshot_trust_store X trust) (\<lambda>trust.
     bindR (coerce_signed_checkpoint X raw) (\<lambda>supplied.
     bindR (snapshot_signed_checkpoint supplied) (\<lambda>signed.
     bindR (authenticate_signed X (sc_envelope_bytes signed) (sc_key_id signed) (sc_signature_b64 signed) trust
       HEAD_CHECKPOINT_ROLE CHECKPOINT_SIGNATURE_DOMAIN (ce_forbidden_key_ids x)) (\<lambda>trusted_key.
     bindR (validated_identity_set ''forbidden_principal_ids'' MAX_INTEGRITY_KEYS (ce_forbidden_principal_ids x)) (\<lambda>forbidden.
     if ti_principal_id trusted_key \<in> set forbidden
     then Inl (IntegrityError ''principal_separation_violation'' ''checkpoint signer principal is forbidden for this decision'')
     else bindR (rewrap protocol_caught (IntegrityError ''invalid_head_checkpoint'' ''signed head checkpoint is semantically invalid'')
       (parse_signed_checkpoint X signed)) (\<lambda>c.
     bindR (check_checkpoint x c) (\<lambda>_.
     bindR (integrity_snapshot_id X trust) (\<lambda>snapshot_id.
       authenticated_checkpoint_new X signed c (ti_principal_id trusted_key) snapshot_id))))))))"

section \<open>Soundness\<close>

lemma authenticate_decision_sound:
  assumes "authenticate_integrity_decision X raw trust x = Inr a"
  shows "authentic_decision X trust a" and "sd_key_id (ad_signed_decision a) \<notin> set (de_forbidden_key_ids x)"
    and "check_decision x (ad_decision a) = Inr ()" and "de_required_revocation_namespaces x \<noteq> []"
    and "set (de_required_revocation_namespaces x) \<subseteq> set (map rv_namespace (dc_revocation_views (ad_decision a)))"
    and "\<exists>s. coerce_signed_decision X raw = Inr s \<and> ad_signed_decision a = s"
proof -
  from assms obtain t sup signed k d req i where t: "snapshot_trust_store X trust = Inr t" and sup: "coerce_signed_decision X raw = Inr sup"
    and s: "snapshot_signed_decision sup = Inr signed"
    and k: "authenticate_signed X (sd_envelope_bytes signed) (sd_key_id signed) (sd_signature_b64 signed) t
       INTEGRITY_DECISION_ROLE DECISION_SIGNATURE_DOMAIN (de_forbidden_key_ids x) = Inr k"
    and p: "parse_signed_decision X signed = Inr d" and c: "check_decision x d = Inr ()"
    and r: "validated_identity_set ''required_revocation_namespaces'' MAX_REVOCATION_VIEWS (de_required_revocation_namespaces x) = Inr req"
      "req \<noteq> []" "missing_namespaces req (dc_revocation_views d) = []"
    and i: "integrity_snapshot_id X t = Inr i" and n: "authenticated_decision_new X signed d (ti_principal_id k) i = Inr a"
    unfolding authenticate_integrity_decision_def bindR_eq_Inr rewrap_eq_Inr Let_def if_raise_eq_Inr by auto
  note d = n [unfolded authenticated_decision_new_eq_Inr [OF p]]
  have sb: "signed_by X (sd_envelope_bytes signed) (sd_key_id signed) (sd_signature_b64 signed) trust INTEGRITY_DECISION_ROLE DECISION_SIGNATURE_DOMAIN k"
    and fk: "sd_key_id signed \<notin> set (de_forbidden_key_ids x)"
    using k signed_by_cong [OF snapshot_trust_storeD(2,3) [OF t]] by (simp_all add: authenticate_signed_eq_Inr)
  have req: "set req = set (de_required_revocation_namespaces x)" using r(1) by (simp add: validated_identity_set_eq_Inr foldl_set_add)
  show "authentic_decision X trust a" unfolding authentic_decision_def
    using snapshot_trust_storeD(1,4) [OF t] sb p i d by auto
  show "sd_key_id (ad_signed_decision a) \<notin> set (de_forbidden_key_ids x)" "check_decision x (ad_decision a) = Inr ()"
    using d fk c by simp_all
  show "de_required_revocation_namespaces x \<noteq> []" using r(2) req by auto
  show "set (de_required_revocation_namespaces x) \<subseteq> set (map rv_namespace (dc_revocation_views (ad_decision a)))"
    using r(3) req d by (simp add: missing_namespaces_Nil)
  show "\<exists>s. coerce_signed_decision X raw = Inr s \<and> ad_signed_decision a = s"
    using sup s d by (simp add: snapshot_signed_decision_eq_Inr)
qed

lemma authenticate_checkpoint_sound:
  assumes "authenticate_head_checkpoint X raw trust x = Inr a"
  shows "authentic_checkpoint X trust a" and "sc_key_id (ac_signed_checkpoint a) \<notin> set (ce_forbidden_key_ids x)"
    and "ac_signer_principal_id a \<notin> set (ce_forbidden_principal_ids x)" and "check_checkpoint x (ac_checkpoint a) = Inr ()"
    and "\<exists>s. coerce_signed_checkpoint X raw = Inr s \<and> ac_signed_checkpoint a = s"
proof -
  from assms obtain t sup signed k f c i where t: "snapshot_trust_store X trust = Inr t" and sup: "coerce_signed_checkpoint X raw = Inr sup"
    and s: "snapshot_signed_checkpoint sup = Inr signed"
    and k: "authenticate_signed X (sc_envelope_bytes signed) (sc_key_id signed) (sc_signature_b64 signed) t
       HEAD_CHECKPOINT_ROLE CHECKPOINT_SIGNATURE_DOMAIN (ce_forbidden_key_ids x) = Inr k"
    and f: "validated_identity_set ''forbidden_principal_ids'' MAX_INTEGRITY_KEYS (ce_forbidden_principal_ids x) = Inr f" "ti_principal_id k \<notin> set f"
    and p: "parse_signed_checkpoint X signed = Inr c" and c: "check_checkpoint x c = Inr ()"
    and i: "integrity_snapshot_id X t = Inr i" and n: "authenticated_checkpoint_new X signed c (ti_principal_id k) i = Inr a"
    unfolding authenticate_head_checkpoint_def bindR_eq_Inr rewrap_eq_Inr Let_def if_raise_eq_Inr by auto
  note d = n [unfolded authenticated_checkpoint_new_eq_Inr [OF p]]
  have sb: "signed_by X (sc_envelope_bytes signed) (sc_key_id signed) (sc_signature_b64 signed) trust HEAD_CHECKPOINT_ROLE CHECKPOINT_SIGNATURE_DOMAIN k"
    and fk: "sc_key_id signed \<notin> set (ce_forbidden_key_ids x)"
    using k signed_by_cong [OF snapshot_trust_storeD(2,3) [OF t]] by (simp_all add: authenticate_signed_eq_Inr)
  show "authentic_checkpoint X trust a" unfolding authentic_checkpoint_def
    using snapshot_trust_storeD(1,4) [OF t] sb p i d by auto
  show "sc_key_id (ac_signed_checkpoint a) \<notin> set (ce_forbidden_key_ids x)" "check_checkpoint x (ac_checkpoint a) = Inr ()"
    using d fk c by simp_all
  show "ac_signer_principal_id a \<notin> set (ce_forbidden_principal_ids x)"
    using f d by (simp add: validated_identity_set_eq_Inr foldl_set_add)
  show "\<exists>s. coerce_signed_checkpoint X raw = Inr s \<and> ac_signed_checkpoint a = s"
    using sup s d by (simp add: snapshot_signed_checkpoint_eq_Inr)
qed

end
