(* ===== verification/Integrity_Floors.thy ===== *)
theory Integrity_Floors
  imports Integrity_Authentication
begin

text \<open>
  \<open>src/etzio/integrity_v1.py\<close>: the caller's validation policy and the externally retained floors, one for the revocation metadata of a
  namespace and one for the head catalog. They are stored as JSON bodies; the interface \<open>body_format\<close> says what reading and writing
  promise, and the three formats and the trust snapshot interpret it.
\<close>

section \<open>Interface: canonical bodies\<close>

locale body_format =
  fixes rd :: "json \<Rightarrow> 'a result" and wr :: "'a \<Rightarrow> json" and ok :: "'a \<Rightarrow> bool"
  assumes read_write: "ok x \<Longrightarrow> rd (wr x) = Inr x"
    and read_ok: "rd b = Inr x \<Longrightarrow> ok x"
    and read_canonical: "rd b = Inr x \<Longrightarrow> norm_json (wr x) = norm_json b"
begin

lemma write_injective: "ok x \<Longrightarrow> ok y \<Longrightarrow> wr x = wr y \<Longrightarrow> x = y"
  using read_write by (metis sum.inject(2))

lemma read_range: "(\<exists>b. rd b = Inr x) \<longleftrightarrow> ok x"
  using read_write read_ok by blast

lemma read_determines: "rd b = Inr x \<Longrightarrow> rd c = Inr x \<Longrightarrow> norm_json b = norm_json c"
  using read_canonical by metis

lemma read_exact: "(\<exists>b. rd b = Inr x \<and> norm_json b = norm_json c) \<longleftrightarrow> ok x \<and> norm_json (wr x) = norm_json c"
  using read_write read_ok read_canonical by metis

end

section \<open>Validation policies\<close>

record validation_policy =
  vp_decision_policy_id :: pystr
  vp_decision_time_policy_id :: pystr
  vp_checkpoint_time_policy_id :: pystr
  vp_anchor_policy_id :: pystr
  vp_required_revocation_namespaces :: "pystr list"
  vp_max_decision_uncertainty_seconds :: int
  vp_max_checkpoint_uncertainty_seconds :: int

definition validation_policy_new :: "json \<Rightarrow> pystr list \<Rightarrow> validation_policy result" where
  "validation_policy_new v required_revocation_namespaces =
     bindR (seqR [
       int_digest ''decision_policy_id'' (member ''decision_policy_id'' v),
       int_digest ''decision_time_policy_id'' (member ''decision_time_policy_id'' v),
       int_digest ''checkpoint_time_policy_id'' (member ''checkpoint_time_policy_id'' v),
       int_digest ''anchor_policy_id'' (member ''anchor_policy_id'' v)]) (\<lambda>_.
     bindR (validated_identity_set ''required_revocation_namespaces'' MAX_REVOCATION_VIEWS required_revocation_namespaces) (\<lambda>namespaces.
     if namespaces = []
     then Inl (IntegrityError ''missing_revocation_namespace'' ''validation policy requires at least one revocation namespace'')
     else bindR (seqR [
       int_nonnegative ''max_decision_uncertainty_seconds'' (member ''max_decision_uncertainty_seconds'' v),
       int_nonnegative ''max_checkpoint_uncertainty_seconds'' (member ''max_checkpoint_uncertainty_seconds'' v)]) (\<lambda>_.
     Inr \<lparr>vp_decision_policy_id = jstr (member ''decision_policy_id'' v), vp_decision_time_policy_id = jstr (member ''decision_time_policy_id'' v),
       vp_checkpoint_time_policy_id = jstr (member ''checkpoint_time_policy_id'' v), vp_anchor_policy_id = jstr (member ''anchor_policy_id'' v),
       vp_required_revocation_namespaces = namespaces,
       vp_max_decision_uncertainty_seconds = jint (member ''max_decision_uncertainty_seconds'' v),
       vp_max_checkpoint_uncertainty_seconds = jint (member ''max_checkpoint_uncertainty_seconds'' v)\<rparr>)))"

definition validation_policy_body :: "validation_policy \<Rightarrow> json" where
  "validation_policy_body p = JObj [
     (''anchor_policy_id'', JStr (vp_anchor_policy_id p)), (''checkpoint_time_policy_id'', JStr (vp_checkpoint_time_policy_id p)),
     (''decision_policy_id'', JStr (vp_decision_policy_id p)), (''decision_time_policy_id'', JStr (vp_decision_time_policy_id p)),
     (''max_checkpoint_uncertainty_seconds'', JInt (vp_max_checkpoint_uncertainty_seconds p)),
     (''max_decision_uncertainty_seconds'', JInt (vp_max_decision_uncertainty_seconds p)),
     (''required_revocation_namespaces'', JArr (map JStr (sorted_set (vp_required_revocation_namespaces p))))]"

definition VALIDATION_POLICY_FIELDS :: "pystr list" where
  "VALIDATION_POLICY_FIELDS = [''anchor_policy_id'', ''checkpoint_time_policy_id'', ''decision_policy_id'', ''decision_time_policy_id'',
     ''max_checkpoint_uncertainty_seconds'', ''max_decision_uncertainty_seconds'', ''required_revocation_namespaces'']"

definition validation_policy_from_body :: "json \<Rightarrow> validation_policy result" where
  "validation_policy_from_body body =
     (let namespaces = member ''required_revocation_namespaces'' body in
      if \<not> has_keys body VALIDATION_POLICY_FIELDS
      then Inl (IntegrityError ''invalid_validation_policy'' ''integrity validation policy has missing or unknown fields'')
      else if \<not> (is_JArr namespaces \<and> arr_items namespaces \<noteq> [] \<and> length (arr_items namespaces) \<le> MAX_REVOCATION_VIEWS \<and>
                list_all is_JStr (arr_items namespaces) \<and> canonical_order (jstrs namespaces))
      then Inl (IntegrityError ''invalid_validation_policy'' ''policy revocation namespaces must be a nonempty canonical array'')
      else bindR (rewrap value_caught (IntegrityError ''invalid_validation_policy'' ''integrity validation policy cannot be reconstructed'')
        (validation_policy_new body (jstrs namespaces))) (\<lambda>policy.
      if norm_json (validation_policy_body policy) \<noteq> norm_json body
      then Inl (IntegrityError ''invalid_validation_policy'' ''integrity validation policy body is not canonical'')
      else Inr policy))"

text \<open>\<open>_snapshot_validation_policy\<close>; the body has the scalar fields.\<close>

definition snapshot_validation_policy :: "validation_policy \<Rightarrow> validation_policy result" where
  "snapshot_validation_policy p =
     rewrap (\<lambda>ex. is_integrity_error ex \<or> is_type_error ex) (IntegrityError ''invalid_validation_policy'' ''integrity validation policy is malformed'')
       (validation_policy_new (validation_policy_body p) (vp_required_revocation_namespaces p))"

definition policy_ok :: "validation_policy \<Rightarrow> bool" where
  "policy_ok p \<longleftrightarrow> full_digest (vp_decision_policy_id p) \<and> full_digest (vp_decision_time_policy_id p) \<and>
     full_digest (vp_checkpoint_time_policy_id p) \<and> full_digest (vp_anchor_policy_id p) \<and>
     vp_required_revocation_namespaces p \<noteq> [] \<and> length (vp_required_revocation_namespaces p) \<le> MAX_REVOCATION_VIEWS \<and>
     list_all identity_text (vp_required_revocation_namespaces p) \<and>
     0 \<le> vp_max_decision_uncertainty_seconds p \<and> vp_max_decision_uncertainty_seconds p \<le> MAX_EPOCH_SECOND \<and>
     0 \<le> vp_max_checkpoint_uncertainty_seconds p \<and> vp_max_checkpoint_uncertainty_seconds p \<le> MAX_EPOCH_SECOND"

lemma foldl_set_add_distinct: "distinct vs \<Longrightarrow> foldl set_add [] vs = vs"
  using foldl_set_add(3) [of "[]" vs] by simp

lemma foldl_set_add_Nil: "foldl set_add [] vs = [] \<longleftrightarrow> vs = []"
  using foldl_set_add(1) [of "[]" vs] by (metis set_empty sup_bot_left)

lemma validation_policy_new_iff:
  "validation_policy_new v ns = Inr p \<longleftrightarrow>
     member ''decision_policy_id'' v = JStr (vp_decision_policy_id p) \<and> member ''decision_time_policy_id'' v = JStr (vp_decision_time_policy_id p) \<and>
     member ''checkpoint_time_policy_id'' v = JStr (vp_checkpoint_time_policy_id p) \<and> member ''anchor_policy_id'' v = JStr (vp_anchor_policy_id p) \<and>
     member ''max_decision_uncertainty_seconds'' v = JInt (vp_max_decision_uncertainty_seconds p) \<and>
     member ''max_checkpoint_uncertainty_seconds'' v = JInt (vp_max_checkpoint_uncertainty_seconds p) \<and>
     vp_required_revocation_namespaces p = foldl set_add [] ns \<and> policy_ok (p\<lparr>vp_required_revocation_namespaces := ns\<rparr>)"
  by (cases p) (auto simp: validation_policy_new_def policy_ok_def int_check_defs result_simps norm_scalars foldl_set_add_Nil)

lemma policy_body_members:
  "member ''decision_policy_id'' (validation_policy_body p) = JStr (vp_decision_policy_id p)"
  "member ''decision_time_policy_id'' (validation_policy_body p) = JStr (vp_decision_time_policy_id p)"
  "member ''checkpoint_time_policy_id'' (validation_policy_body p) = JStr (vp_checkpoint_time_policy_id p)"
  "member ''anchor_policy_id'' (validation_policy_body p) = JStr (vp_anchor_policy_id p)"
  "member ''max_decision_uncertainty_seconds'' (validation_policy_body p) = JInt (vp_max_decision_uncertainty_seconds p)"
  "member ''max_checkpoint_uncertainty_seconds'' (validation_policy_body p) = JInt (vp_max_checkpoint_uncertainty_seconds p)"
  "member ''required_revocation_namespaces'' (validation_policy_body p) = JArr (map JStr (sorted_set (vp_required_revocation_namespaces p)))"
  "has_keys (validation_policy_body p) VALIDATION_POLICY_FIELDS"
  by (simp_all add: validation_policy_body_def member_def) (auto simp: has_keys_def VALIDATION_POLICY_FIELDS_def)

text \<open>The copy of a policy differs at most in the order of the namespaces.\<close>

lemma snapshot_validation_policy_iff:
  "snapshot_validation_policy p = Inr p' \<longleftrightarrow>
     policy_ok p \<and> p' = p\<lparr>vp_required_revocation_namespaces := foldl set_add [] (vp_required_revocation_namespaces p)\<rparr>"
  by (cases p; cases p') (auto simp: snapshot_validation_policy_def rewrap_eq_Inr validation_policy_new_iff policy_body_members policy_ok_def)

definition canonical_policy :: "validation_policy \<Rightarrow> bool" where
  "canonical_policy p \<longleftrightarrow> policy_ok p \<and> canonical_order (vp_required_revocation_namespaces p)"

lemma sorted_set_canonical: "canonical_order xs \<Longrightarrow> sorted_set xs = xs"
  by (simp add: sorted_set_def canonical_order_def sort_key_idem distinct_remdups_id sorted_sort_id)

lemma jstrs_strs [simp]: "jstrs (JArr (map JStr xs)) = xs"
  by (simp add: jstrs_def comp_def)

lemma policy_set_self [simp]: "p\<lparr>vp_required_revocation_namespaces := vp_required_revocation_namespaces p\<rparr> = p"
  by (cases p) simp

interpretation policy_format: body_format validation_policy_from_body validation_policy_body canonical_policy
proof unfold_locales
  fix p assume p: "canonical_policy p"
  then have s: "sorted_set (vp_required_revocation_namespaces p) = vp_required_revocation_namespaces p"
    "foldl set_add [] (vp_required_revocation_namespaces p) = vp_required_revocation_namespaces p"
    using sorted_set_canonical foldl_set_add_distinct by (auto simp: canonical_policy_def canonical_order_def)
  have "validation_policy_new (validation_policy_body p) (vp_required_revocation_namespaces p) = Inr p"
    using p s by (simp add: validation_policy_new_iff policy_body_members canonical_policy_def)
  with p s show "validation_policy_from_body (validation_policy_body p) = Inr p"
    by (simp add: validation_policy_from_body_def policy_body_members canonical_policy_def policy_ok_def rewrap_def list_all_iff)
next
  fix b p assume "validation_policy_from_body b = Inr p"
  then have n: "validation_policy_new b (jstrs (member ''required_revocation_namespaces'' b)) = Inr p"
    and c: "canonical_order (jstrs (member ''required_revocation_namespaces'' b))"
    and e: "norm_json (validation_policy_body p) = norm_json b"
    unfolding validation_policy_from_body_def Let_def if_raise_eq_Inr bindR_eq_Inr rewrap_eq_Inr by auto
  have r: "vp_required_revocation_namespaces p = jstrs (member ''required_revocation_namespaces'' b)"
    using n c by (simp add: validation_policy_new_iff canonical_order_def foldl_set_add_distinct)
  from n have "policy_ok (p\<lparr>vp_required_revocation_namespaces := vp_required_revocation_namespaces p\<rparr>)" unfolding r by (simp add: validation_policy_new_iff)
  then have "policy_ok p" by simp
  with c r show "canonical_policy p" by (simp add: canonical_policy_def)
  show "norm_json (validation_policy_body p) = norm_json b" by (rule e)
qed

section \<open>Revocation floors\<close>

record revocation_floor =
  rf_service_instance_id :: pystr
  rf_environment_id :: pystr
  rf_decision_policy_id :: pystr
  rf_namespace :: pystr
  rf_root_version :: int
  rf_version :: int
  rf_snapshot_id :: pystr
  rf_evidence :: "evidence_reference list"

definition revocation_floor_new :: "json \<Rightarrow> evidence_reference list \<Rightarrow> revocation_floor result" where
  "revocation_floor_new v evidence =
     bindR (seqR [
       int_identity ''service_instance_id'' (member ''service_instance_id'' v), int_identity ''environment_id'' (member ''environment_id'' v),
       int_digest ''decision_policy_id'' (member ''decision_policy_id'' v), int_identity ''namespace'' (member ''namespace'' v),
       int_positive ''root_version'' (member ''root_version'' v), int_positive ''version'' (member ''version'' v),
       int_digest ''snapshot_id'' (member ''snapshot_id'' v)]) (\<lambda>_.
     bindR (validated_evidence_references ''external_floor_evidence'' 2 EXTERNAL_FLOOR_EVIDENCE_KIND evidence) (\<lambda>evidence.
     Inr \<lparr>rf_service_instance_id = jstr (member ''service_instance_id'' v), rf_environment_id = jstr (member ''environment_id'' v),
       rf_decision_policy_id = jstr (member ''decision_policy_id'' v), rf_namespace = jstr (member ''namespace'' v),
       rf_root_version = jint (member ''root_version'' v), rf_version = jint (member ''version'' v),
       rf_snapshot_id = jstr (member ''snapshot_id'' v), rf_evidence = evidence\<rparr>))"

definition revocation_floor_body :: "revocation_floor \<Rightarrow> json" where
  "revocation_floor_body f = JObj [
     (''decision_policy_id'', JStr (rf_decision_policy_id f)), (''environment_id'', JStr (rf_environment_id f)),
     (''evidence'', JArr (map evidence_reference_body (rf_evidence f))), (''namespace'', JStr (rf_namespace f)),
     (''root_version'', JInt (rf_root_version f)), (''service_instance_id'', JStr (rf_service_instance_id f)),
     (''snapshot_id'', JStr (rf_snapshot_id f)), (''version'', JInt (rf_version f))]"

definition REVOCATION_FLOOR_FIELDS :: "pystr list" where
  "REVOCATION_FLOOR_FIELDS = [''decision_policy_id'', ''environment_id'', ''evidence'', ''namespace'', ''root_version'',
     ''service_instance_id'', ''snapshot_id'', ''version'']"

definition revocation_floor_from_body :: "json \<Rightarrow> revocation_floor result" where
  "revocation_floor_from_body body =
     (let evidence = member ''evidence'' body in
      if \<not> has_keys body REVOCATION_FLOOR_FIELDS
      then Inl (IntegrityError ''invalid_external_revocation_floor'' ''external revocation floor has missing or unknown fields'')
      else if \<not> (is_JArr evidence \<and> 2 \<le> length (arr_items evidence) \<and> length (arr_items evidence) \<le> MAX_EVIDENCE_REFS)
      then Inl (IntegrityError ''invalid_external_revocation_floor'' ''external revocation floor evidence is not a bounded quorum'')
      else bindR (rewrap value_caught (IntegrityError ''invalid_external_revocation_floor'' ''external revocation floor cannot be reconstructed'')
        (bindR (mapR evidence_reference_from_body (arr_items evidence)) (revocation_floor_new body))) (\<lambda>floor.
      if norm_json (revocation_floor_body floor) \<noteq> norm_json body
      then Inl (IntegrityError ''invalid_external_revocation_floor'' ''external revocation floor body is not canonical'')
      else Inr floor))"

definition snapshot_revocation_floor :: "revocation_floor \<Rightarrow> revocation_floor result" where
  "snapshot_revocation_floor f =
     rewrap value_caught (IntegrityError ''invalid_external_revocation_floor'' ''external revocation floor is malformed'')
       (revocation_floor_new (revocation_floor_body f) (rf_evidence f))"

definition revocation_floor_ok :: "revocation_floor \<Rightarrow> bool" where
  "revocation_floor_ok f \<longleftrightarrow> identity_text (rf_service_instance_id f) \<and> identity_text (rf_environment_id f) \<and>
     full_digest (rf_decision_policy_id f) \<and> identity_text (rf_namespace f) \<and>
     0 < rf_root_version f \<and> rf_root_version f \<le> MAX_EPOCH_SECOND \<and> 0 < rf_version f \<and> rf_version f \<le> MAX_EPOCH_SECOND \<and>
     full_digest (rf_snapshot_id f) \<and> references_ok 2 EXTERNAL_FLOOR_EVIDENCE_KIND (rf_evidence f)"

lemma revocation_floor_new_iff:
  "revocation_floor_new v es = Inr f \<longleftrightarrow>
     member ''service_instance_id'' v = JStr (rf_service_instance_id f) \<and> member ''environment_id'' v = JStr (rf_environment_id f) \<and>
     member ''decision_policy_id'' v = JStr (rf_decision_policy_id f) \<and> member ''namespace'' v = JStr (rf_namespace f) \<and>
     member ''root_version'' v = JInt (rf_root_version f) \<and> member ''version'' v = JInt (rf_version f) \<and>
     member ''snapshot_id'' v = JStr (rf_snapshot_id f) \<and> es = rf_evidence f \<and> revocation_floor_ok f"
  by (cases f) (auto simp: revocation_floor_new_def revocation_floor_ok_def int_check_defs result_simps norm_scalars)

lemma revocation_floor_body_members:
  "member ''service_instance_id'' (revocation_floor_body f) = JStr (rf_service_instance_id f)"
  "member ''environment_id'' (revocation_floor_body f) = JStr (rf_environment_id f)"
  "member ''decision_policy_id'' (revocation_floor_body f) = JStr (rf_decision_policy_id f)"
  "member ''namespace'' (revocation_floor_body f) = JStr (rf_namespace f)"
  "member ''root_version'' (revocation_floor_body f) = JInt (rf_root_version f)"
  "member ''version'' (revocation_floor_body f) = JInt (rf_version f)"
  "member ''snapshot_id'' (revocation_floor_body f) = JStr (rf_snapshot_id f)"
  "member ''evidence'' (revocation_floor_body f) = JArr (map evidence_reference_body (rf_evidence f))"
  "has_keys (revocation_floor_body f) REVOCATION_FLOOR_FIELDS"
  by (simp_all add: revocation_floor_body_def member_def) (auto simp: has_keys_def REVOCATION_FLOOR_FIELDS_def)

lemma snapshot_revocation_floor_iff: "snapshot_revocation_floor f = Inr f' \<longleftrightarrow> f' = f \<and> revocation_floor_ok f"
  by (cases f; cases f') (auto simp: snapshot_revocation_floor_def rewrap_eq_Inr revocation_floor_new_iff revocation_floor_body_members)

lemma references_ok_read: "references_ok n k es \<Longrightarrow> mapR evidence_reference_from_body (map evidence_reference_body es) = Inr es"
  by (rule array_read [where P = reference_ok]) (auto simp: references_ok_def reference_from_body)

interpretation revocation_floor_format: body_format revocation_floor_from_body revocation_floor_body revocation_floor_ok
proof unfold_locales
  fix f assume f: "revocation_floor_ok f"
  then have r: "references_ok 2 EXTERNAL_FLOOR_EVIDENCE_KIND (rf_evidence f)" by (simp add: revocation_floor_ok_def)
  have "revocation_floor_new (revocation_floor_body f) (rf_evidence f) = Inr f"
    using f by (simp add: revocation_floor_new_iff revocation_floor_body_members)
  with references_ok_read [OF r] r show "revocation_floor_from_body (revocation_floor_body f) = Inr f"
    by (simp add: revocation_floor_from_body_def revocation_floor_body_members rewrap_def references_ok_def)
next
  fix b f assume f: "revocation_floor_from_body b = Inr f"
  then show "revocation_floor_ok f" "norm_json (revocation_floor_body f) = norm_json b"
    unfolding revocation_floor_from_body_def Let_def if_raise_eq_Inr bindR_eq_Inr rewrap_eq_Inr by (auto simp: revocation_floor_new_iff)
qed

section \<open>Head floors\<close>

record head_floor =
  hf_service_instance_id :: pystr
  hf_environment_id :: pystr
  hf_instance_sequence :: int
  hf_checkpoint_id :: pystr
  hf_checkpoint_attestation_id :: "pystr option"
  hf_checkpoint_principal_id :: "pystr option"
  hf_checkpoint_trust_snapshot_id :: "pystr option"
  hf_mission_id :: pystr
  hf_mission_event_seq :: int
  hf_mission_checkpoint_id :: pystr
  hf_mission_checkpoint_attestation_id :: "pystr option"
  hf_mission_checkpoint_principal_id :: "pystr option"
  hf_mission_checkpoint_trust_snapshot_id :: "pystr option"
  hf_evidence :: "evidence_reference list"

definition floor_provenance :: "int \<Rightarrow> json \<Rightarrow> json \<Rightarrow> json \<Rightarrow> pystr \<Rightarrow> exn + unit" where
  "floor_provenance n attestation_id principal_id trust_snapshot_id label =
     (if n = - 1 then
        requireR (attestation_id = JNull \<and> principal_id = JNull \<and> trust_snapshot_id = JNull)
          (IntegrityError ''external_floor_mismatch'' (label @ '' genesis cannot claim checkpoint attestation provenance''))
      else seqR [
        requireR (attestation_id \<noteq> JNull \<and> principal_id \<noteq> JNull \<and> trust_snapshot_id \<noteq> JNull)
          (IntegrityError ''external_floor_mismatch'' (label @ '' checkpoint floor requires complete attestation provenance'')),
        int_digest (label @ ''_checkpoint_attestation_id'') attestation_id, int_identity (label @ ''_checkpoint_principal_id'') principal_id,
        int_digest (label @ ''_checkpoint_trust_snapshot_id'') trust_snapshot_id])"

definition floor_sequence :: "pystr \<Rightarrow> json \<Rightarrow> exn + unit" where
  "floor_sequence field v = requireR (is_JInt v \<and> - 1 \<le> jint v \<and> jint v \<le> MAX_EPOCH_SECOND)
     (IntegrityError (''invalid_'' @ field) (field @ '' must be an int64 sequence at or above -1''))"

abbreviation floor_mismatch :: "string \<Rightarrow> exn" where
  "floor_mismatch \<equiv> IntegrityError ''external_floor_mismatch''"

definition head_floor_checks :: "externals \<Rightarrow> json \<Rightarrow> exn + unit" where
  "head_floor_checks X v =
     (let sequence = jint (member ''instance_sequence'' v); mission_seq = jint (member ''mission_event_seq'' v);
          checkpoint_id = jstr (member ''checkpoint_id'' v); mission_checkpoint_id = jstr (member ''mission_checkpoint_id'' v)
      in bindR (seqR [
        int_identity ''service_instance_id'' (member ''service_instance_id'' v), int_identity ''environment_id'' (member ''environment_id'' v),
        floor_sequence ''instance_sequence'' (member ''instance_sequence'' v), floor_sequence ''mission_event_seq'' (member ''mission_event_seq'' v),
        int_digest ''checkpoint_id'' (member ''checkpoint_id'' v), int_digest ''mission_id'' (member ''mission_id'' v),
        int_digest ''mission_checkpoint_id'' (member ''mission_checkpoint_id'' v),
        floor_provenance sequence (member ''checkpoint_attestation_id'' v) (member ''checkpoint_principal_id'' v)
          (member ''checkpoint_trust_snapshot_id'' v) ''global'',
        floor_provenance mission_seq (member ''mission_checkpoint_attestation_id'' v) (member ''mission_checkpoint_principal_id'' v)
          (member ''mission_checkpoint_trust_snapshot_id'' v) ''mission'']) (\<lambda>_.
      bindR (head_checkpoint_genesis_id X (member ''service_instance_id'' v) (member ''environment_id'' v)) (\<lambda>expected_global.
      bindR (mission_checkpoint_genesis_id X (member ''service_instance_id'' v) (member ''environment_id'' v) (member ''mission_id'' v)) (\<lambda>expected_mission.
      seqR [
        requireR (\<not> (sequence = - 1 \<and> checkpoint_id \<noteq> expected_global)) (floor_mismatch ''global genesis floor has the wrong checkpoint identity''),
        requireR (\<not> (sequence \<ge> 0 \<and> checkpoint_id = expected_global)) (floor_mismatch ''non-genesis global floor cannot use the genesis identity''),
        requireR (\<not> (mission_seq = - 1 \<and> mission_checkpoint_id \<noteq> expected_mission))
          (floor_mismatch ''mission genesis floor has the wrong checkpoint identity''),
        requireR (\<not> (mission_seq \<ge> 0 \<and> mission_checkpoint_id = expected_mission))
          (floor_mismatch ''non-genesis mission floor cannot use the genesis identity''),
        requireR (\<not> (sequence = - 1 \<and> mission_seq \<ge> 0 \<or> sequence \<ge> 0 \<and> mission_seq > sequence))
          (floor_mismatch ''mission floor cannot be ahead of the instance-global floor''),
        requireR (checkpoint_id = mission_checkpoint_id \<longrightarrow>
            member ''checkpoint_attestation_id'' v = member ''mission_checkpoint_attestation_id'' v \<and>
            member ''checkpoint_principal_id'' v = member ''mission_checkpoint_principal_id'' v \<and>
            member ''checkpoint_trust_snapshot_id'' v = member ''mission_checkpoint_trust_snapshot_id'' v)
          (floor_mismatch ''one checkpoint identity must have one exact attestation provenance'')]))))"

definition head_floor_of :: "json \<Rightarrow> evidence_reference list \<Rightarrow> head_floor" where
  "head_floor_of v evidence = \<lparr>hf_service_instance_id = jstr (member ''service_instance_id'' v),
     hf_environment_id = jstr (member ''environment_id'' v),
     hf_instance_sequence = jint (member ''instance_sequence'' v),
     hf_checkpoint_id = jstr (member ''checkpoint_id'' v),
     hf_checkpoint_attestation_id = jopt (member ''checkpoint_attestation_id'' v),
     hf_checkpoint_principal_id = jopt (member ''checkpoint_principal_id'' v),
     hf_checkpoint_trust_snapshot_id = jopt (member ''checkpoint_trust_snapshot_id'' v),
     hf_mission_id = jstr (member ''mission_id'' v),
     hf_mission_event_seq = jint (member ''mission_event_seq'' v),
     hf_mission_checkpoint_id = jstr (member ''mission_checkpoint_id'' v),
     hf_mission_checkpoint_attestation_id = jopt (member ''mission_checkpoint_attestation_id'' v),
     hf_mission_checkpoint_principal_id = jopt (member ''mission_checkpoint_principal_id'' v),
     hf_mission_checkpoint_trust_snapshot_id = jopt (member ''mission_checkpoint_trust_snapshot_id'' v), hf_evidence = evidence\<rparr>"

definition head_floor_new :: "externals \<Rightarrow> json \<Rightarrow> evidence_reference list \<Rightarrow> head_floor result" where
  "head_floor_new X v evidence =
     bindR (head_floor_checks X v) (\<lambda>_.
     bindR (validated_evidence_references ''external_floor_evidence'' 2 EXTERNAL_FLOOR_EVIDENCE_KIND evidence) (\<lambda>evidence.
     Inr (head_floor_of v evidence)))"

definition head_floor_body :: "head_floor \<Rightarrow> json" where
  "head_floor_body f = JObj [
     (''checkpoint_attestation_id'', ojson (hf_checkpoint_attestation_id f)),
     (''checkpoint_id'', JStr (hf_checkpoint_id f)),
     (''checkpoint_principal_id'', ojson (hf_checkpoint_principal_id f)),
     (''checkpoint_trust_snapshot_id'', ojson (hf_checkpoint_trust_snapshot_id f)),
     (''environment_id'', JStr (hf_environment_id f)),
     (''evidence'', JArr (map evidence_reference_body (hf_evidence f))),
     (''instance_sequence'', JInt (hf_instance_sequence f)),
     (''mission_checkpoint_attestation_id'', ojson (hf_mission_checkpoint_attestation_id f)),
     (''mission_checkpoint_id'', JStr (hf_mission_checkpoint_id f)),
     (''mission_checkpoint_principal_id'', ojson (hf_mission_checkpoint_principal_id f)),
     (''mission_checkpoint_trust_snapshot_id'', ojson (hf_mission_checkpoint_trust_snapshot_id f)),
     (''mission_event_seq'', JInt (hf_mission_event_seq f)),
     (''mission_id'', JStr (hf_mission_id f)),
     (''service_instance_id'', JStr (hf_service_instance_id f))]"

definition HEAD_FLOOR_FIELDS :: "pystr list" where
  "HEAD_FLOOR_FIELDS = [''checkpoint_attestation_id'',
     ''checkpoint_id'',
     ''checkpoint_principal_id'',
     ''checkpoint_trust_snapshot_id'',
     ''environment_id'',
     ''evidence'',
     ''instance_sequence'',
     ''mission_checkpoint_attestation_id'',
     ''mission_checkpoint_id'',
     ''mission_checkpoint_principal_id'',
     ''mission_checkpoint_trust_snapshot_id'',
     ''mission_event_seq'',
     ''mission_id'',
     ''service_instance_id'']"

definition head_floor_from_body :: "externals \<Rightarrow> json \<Rightarrow> head_floor result" where
  "head_floor_from_body X body =
     (let evidence = member ''evidence'' body in
      if \<not> has_keys body HEAD_FLOOR_FIELDS
      then Inl (IntegrityError ''invalid_external_head_floor'' ''external head floor has missing or unknown fields'')
      else if \<not> (is_JArr evidence \<and> 2 \<le> length (arr_items evidence) \<and> length (arr_items evidence) \<le> MAX_EVIDENCE_REFS)
      then Inl (IntegrityError ''invalid_external_head_floor'' ''external head floor evidence is not a bounded quorum'')
      else bindR (rewrap value_caught (IntegrityError ''invalid_external_head_floor'' ''external head floor cannot be reconstructed'')
        (bindR (mapR evidence_reference_from_body (arr_items evidence)) (head_floor_new X body))) (\<lambda>floor.
      if norm_json (head_floor_body floor) \<noteq> norm_json body
      then Inl (IntegrityError ''invalid_external_head_floor'' ''external head floor body is not canonical'')
      else Inr floor))"

definition snapshot_head_floor :: "externals \<Rightarrow> head_floor \<Rightarrow> head_floor result" where
  "snapshot_head_floor X f =
     rewrap value_caught (IntegrityError ''invalid_external_head_floor'' ''external head floor is malformed'')
       (head_floor_new X (head_floor_body f) (hf_evidence f))"

definition head_floor_ok :: "externals \<Rightarrow> head_floor \<Rightarrow> bool" where
  "head_floor_ok X f \<longleftrightarrow> head_floor_checks X (head_floor_body f) = Inr () \<and> references_ok 2 EXTERNAL_FLOOR_EVIDENCE_KIND (hf_evidence f)"

lemma head_floor_body_members:
  "member ''service_instance_id'' (head_floor_body f) = JStr (hf_service_instance_id f)"
  "member ''environment_id'' (head_floor_body f) = JStr (hf_environment_id f)"
  "member ''instance_sequence'' (head_floor_body f) = JInt (hf_instance_sequence f)"
  "member ''checkpoint_id'' (head_floor_body f) = JStr (hf_checkpoint_id f)"
  "member ''checkpoint_attestation_id'' (head_floor_body f) = ojson (hf_checkpoint_attestation_id f)"
  "member ''checkpoint_principal_id'' (head_floor_body f) = ojson (hf_checkpoint_principal_id f)"
  "member ''checkpoint_trust_snapshot_id'' (head_floor_body f) = ojson (hf_checkpoint_trust_snapshot_id f)"
  "member ''mission_id'' (head_floor_body f) = JStr (hf_mission_id f)"
  "member ''mission_event_seq'' (head_floor_body f) = JInt (hf_mission_event_seq f)"
  "member ''mission_checkpoint_id'' (head_floor_body f) = JStr (hf_mission_checkpoint_id f)"
  "member ''mission_checkpoint_attestation_id'' (head_floor_body f) = ojson (hf_mission_checkpoint_attestation_id f)"
  "member ''mission_checkpoint_principal_id'' (head_floor_body f) = ojson (hf_mission_checkpoint_principal_id f)"
  "member ''mission_checkpoint_trust_snapshot_id'' (head_floor_body f) = ojson (hf_mission_checkpoint_trust_snapshot_id f)"
  "member ''evidence'' (head_floor_body f) = JArr (map evidence_reference_body (hf_evidence f))"
  "has_keys (head_floor_body f) HEAD_FLOOR_FIELDS"
  by (simp_all add: head_floor_body_def member_def) (auto simp: has_keys_def HEAD_FLOOR_FIELDS_def)

lemma head_floor_of_body: "head_floor_of (head_floor_body f) (hf_evidence f) = f"
  by (cases f) (simp add: head_floor_of_def head_floor_body_members)

lemma snapshot_head_floor_iff: "snapshot_head_floor X f = Inr f' \<longleftrightarrow> f' = f \<and> head_floor_ok X f"
  by (auto simp: snapshot_head_floor_def rewrap_eq_Inr head_floor_new_def bindR_eq_Inr validated_references_iff head_floor_of_body head_floor_ok_def)

lemma floor_provenance_typed: "floor_provenance n a p t l = Inr u \<Longrightarrow> is_opt a \<and> is_opt p \<and> is_opt t"
  by (auto simp: floor_provenance_def int_check_defs result_simps is_opt_def split: if_splits)

text \<open>A checked body has the members that the floor writes.\<close>

lemma head_floor_rewrite:
  assumes "head_floor_checks X v = Inr u"
  shows "head_floor_checks X (head_floor_body (head_floor_of v es)) = head_floor_checks X v"
proof -
  note c = assms [unfolded head_floor_checks_def Let_def bindR_eq_Inr int_check_defs floor_sequence_def result_simps]
  from c have "floor_provenance (jint (member ''instance_sequence'' v)) (member ''checkpoint_attestation_id'' v) (member ''checkpoint_principal_id'' v)
      (member ''checkpoint_trust_snapshot_id'' v) ''global'' = Inr ()"
    "floor_provenance (jint (member ''mission_event_seq'' v)) (member ''mission_checkpoint_attestation_id'' v)
      (member ''mission_checkpoint_principal_id'' v) (member ''mission_checkpoint_trust_snapshot_id'' v) ''mission'' = Inr ()" by blast+
  note o = this [THEN floor_provenance_typed]
  from c have s: "is_JStr (member ''service_instance_id'' v)" "is_JStr (member ''environment_id'' v)" "is_JInt (member ''instance_sequence'' v)" "is_JStr (member ''checkpoint_id'' v)" "is_JStr (member ''mission_id'' v)" "is_JInt (member ''mission_event_seq'' v)" "is_JStr (member ''mission_checkpoint_id'' v)"
    by blast+
  have m: "member ''service_instance_id'' (head_floor_body (head_floor_of v es)) = member ''service_instance_id'' v"
    "member ''environment_id'' (head_floor_body (head_floor_of v es)) = member ''environment_id'' v"
    "member ''instance_sequence'' (head_floor_body (head_floor_of v es)) = member ''instance_sequence'' v"
    "member ''checkpoint_id'' (head_floor_body (head_floor_of v es)) = member ''checkpoint_id'' v"
    "member ''checkpoint_attestation_id'' (head_floor_body (head_floor_of v es)) = member ''checkpoint_attestation_id'' v"
    "member ''checkpoint_principal_id'' (head_floor_body (head_floor_of v es)) = member ''checkpoint_principal_id'' v"
    "member ''checkpoint_trust_snapshot_id'' (head_floor_body (head_floor_of v es)) = member ''checkpoint_trust_snapshot_id'' v"
    "member ''mission_id'' (head_floor_body (head_floor_of v es)) = member ''mission_id'' v"
    "member ''mission_event_seq'' (head_floor_body (head_floor_of v es)) = member ''mission_event_seq'' v"
    "member ''mission_checkpoint_id'' (head_floor_body (head_floor_of v es)) = member ''mission_checkpoint_id'' v"
    "member ''mission_checkpoint_attestation_id'' (head_floor_body (head_floor_of v es)) = member ''mission_checkpoint_attestation_id'' v"
    "member ''mission_checkpoint_principal_id'' (head_floor_body (head_floor_of v es)) = member ''mission_checkpoint_principal_id'' v"
    "member ''mission_checkpoint_trust_snapshot_id'' (head_floor_body (head_floor_of v es)) = member ''mission_checkpoint_trust_snapshot_id'' v"
    using s o by (simp_all add: head_floor_body_members head_floor_of_def norm_scalars ojson_jopt)
  show ?thesis unfolding head_floor_checks_def m ..
qed

interpretation head_floor_format: body_format "head_floor_from_body X" head_floor_body "head_floor_ok X" for X
proof unfold_locales
  fix f assume f: "head_floor_ok X f"
  then have r: "references_ok 2 EXTERNAL_FLOOR_EVIDENCE_KIND (hf_evidence f)" by (simp add: head_floor_ok_def)
  have "head_floor_new X (head_floor_body f) (hf_evidence f) = Inr f"
    using snapshot_head_floor_iff [of X f f] f by (simp add: snapshot_head_floor_def rewrap_eq_Inr)
  with references_ok_read [OF r] r show "head_floor_from_body X (head_floor_body f) = Inr f"
    by (simp add: head_floor_from_body_def head_floor_body_members rewrap_def references_ok_def)
next
  fix b f assume "head_floor_from_body X b = Inr f"
  then obtain es where n: "head_floor_new X b es = Inr f" and e: "norm_json (head_floor_body f) = norm_json b"
    unfolding head_floor_from_body_def Let_def if_raise_eq_Inr bindR_eq_Inr rewrap_eq_Inr by auto
  from n have c: "head_floor_checks X b = Inr ()" and r: "references_ok 2 EXTERNAL_FLOOR_EVIDENCE_KIND es" and f: "f = head_floor_of b es"
    by (auto simp: head_floor_new_def bindR_eq_Inr validated_references_iff)
  have "hf_evidence f = es" using f by (simp add: head_floor_of_def)
  then show "head_floor_ok X f" using head_floor_rewrite [OF c, of es] c r f by (simp add: head_floor_ok_def)
  show "norm_json (head_floor_body f) = norm_json b" by (rule e)
qed

end
