(* ===== verification/Revocation_Chain.thy ===== *)
theory Revocation_Chain
  imports Integrity_Floors
begin

text \<open>
  \<open>src/etzio/integrity_v1.py\<close>: the caller's policy applied to decisions and checkpoints, the checks that relate a checkpoint to its
  decision and to a predecessor, and \<open>validate_revocation_advance\<close>, which refuses every rollback of revocation metadata.
\<close>

section \<open>Facts of valid objects\<close>

lemma valid_checkpoint_facts:
  assumes "valid_checkpoint X c"
  shows "hc_time_lower_bound c \<le> hc_time_upper_bound c" and "0 \<le> hc_instance_sequence c" and "0 \<le> hc_event_seq c"
proof -
  from assms obtain e where "checkpoint_from_envelope X e = Inr c" by (auto simp: valid_checkpoint_def)
  then obtain v te ae where k: "checkpoint_checks X v = Inr ()" and c: "c = checkpoint_of (env_object_id e) v te ae"
    by (rule checkpoint_from_envelopeD) (auto simp: checkpoint_new_iff)
  note u = k [unfolded checkpoint_checks_def bindR_eq_Inr validate_time_interval_def int_check_defs result_simps]
  from u have "jint (member ''time_lower_bound'' v) \<le> jint (member ''time_upper_bound'' v)" by blast
  then show "hc_time_lower_bound c \<le> hc_time_upper_bound c" by (simp add: c checkpoint_of_def)
  from u have "0 \<le> jint (member ''instance_sequence'' v)" by blast
  then show "0 \<le> hc_instance_sequence c" by (simp add: c checkpoint_of_def)
  from u have "0 \<le> jint (member ''event_seq'' v)" by blast
  then show "0 \<le> hc_event_seq c" by (simp add: c checkpoint_of_def)
qed

lemma valid_decision_facts:
  assumes "valid_decision X d"
  shows "dc_time_lower_bound d \<le> dc_time_upper_bound d" and "views_ok (dc_revocation_views d)"
proof -
  from assms obtain e where "decision_from_envelope X e = Inr d" by (auto simp: valid_decision_def)
  then obtain v te rv where k: "decision_checks X v = Inr ()" and b: "\<exists>b. decision_body v te rv = Inr b" and d: "d = decision_of (env_object_id e) v te rv"
    by (rule decision_from_envelopeD) (auto simp: decision_new_iff)
  note u = k [unfolded decision_checks_def bindR_eq_Inr validate_time_interval_def int_check_defs result_simps]
  from u have "jint (member ''time_lower_bound'' v) \<le> jint (member ''time_upper_bound'' v)" by blast
  then show "dc_time_lower_bound d \<le> dc_time_upper_bound d" by (simp add: d decision_of_def)
  show "views_ok (dc_revocation_views d)" using b d by (auto simp: decision_of_def decision_body_eq_Inr)
qed

lemma authentic_checkpoint_valid: "authentic_checkpoint X t a \<Longrightarrow> valid_checkpoint X (ac_checkpoint a)"
  by (auto simp: authentic_checkpoint_def intro: parse_signed_checkpoint_valid(1))

lemma authentic_decision_valid: "authentic_decision X t a \<Longrightarrow> valid_decision X (ad_decision a)"
  by (auto simp: authentic_decision_def intro: parse_signed_decision_valid(1))

lemmas authentic_checkpoint_interval = valid_checkpoint_facts(1) [OF authentic_checkpoint_valid]
lemmas authentic_decision_interval = valid_decision_facts(1) [OF authentic_decision_valid]

section \<open>Policies\<close>

definition validate_decision_against_policy :: "integrity_decision \<Rightarrow> validation_policy \<Rightarrow> exn + unit" where
  "validate_decision_against_policy d p =
     (let missing = missing_namespaces (vp_required_revocation_namespaces p) (dc_revocation_views d) in
      seqR [
        check_expected (dc_decision_policy_id d) (vp_decision_policy_id p) ''decision_policy'',
        check_expected (dc_time_policy_id d) (vp_decision_time_policy_id p) ''time_policy'',
        require_max_uncertainty (dc_time_lower_bound d) (dc_time_upper_bound d) (JInt (vp_max_decision_uncertainty_seconds p)),
        requireR (missing = []) (IntegrityError ''missing_revocation_namespace''
          (''integrity decision lacks policy-required revocation namespaces: '' @ join_comma missing))])"

definition validate_checkpoint_against_policy :: "head_checkpoint \<Rightarrow> validation_policy \<Rightarrow> exn + unit" where
  "validate_checkpoint_against_policy c p = seqR [
     check_expected (hc_time_policy_id c) (vp_checkpoint_time_policy_id p) ''time_policy'',
     check_expected (hc_anchor_policy_id c) (vp_anchor_policy_id p) ''anchor_policy'',
     require_max_uncertainty (hc_time_lower_bound c) (hc_time_upper_bound c) (JInt (vp_max_checkpoint_uncertainty_seconds p))]"

definition require_interval_within :: "integrity_decision \<Rightarrow> json \<Rightarrow> json \<Rightarrow> exn + unit" where
  "require_interval_within d not_before expires_at = seqR [
     validate_time_interval (JInt (dc_time_lower_bound d)) (JInt (dc_time_upper_bound d)),
     int_epoch ''not_before'' not_before, int_epoch ''expires_at'' expires_at,
     requireR (jint not_before < jint expires_at)
       (IntegrityError ''invalid_validity_window'' ''validity window must be nonempty and half-open''),
     interval_within ''decision'' (dc_time_lower_bound d) (dc_time_upper_bound d) (jint not_before) (jint expires_at)]"

text \<open>What the policy says of a decision and of a checkpoint.\<close>

definition decision_fits :: "validation_policy \<Rightarrow> integrity_decision \<Rightarrow> bool" where
  "decision_fits p d \<longleftrightarrow> dc_decision_policy_id d = vp_decision_policy_id p \<and> dc_time_policy_id d = vp_decision_time_policy_id p \<and>
     dc_time_upper_bound d - dc_time_lower_bound d \<le> vp_max_decision_uncertainty_seconds p \<and>
     set (vp_required_revocation_namespaces p) \<subseteq> set (map rv_namespace (dc_revocation_views d))"

definition checkpoint_fits :: "validation_policy \<Rightarrow> head_checkpoint \<Rightarrow> bool" where
  "checkpoint_fits p c \<longleftrightarrow> hc_time_policy_id c = vp_checkpoint_time_policy_id p \<and> hc_anchor_policy_id c = vp_anchor_policy_id p \<and>
     hc_time_upper_bound c - hc_time_lower_bound c \<le> vp_max_checkpoint_uncertainty_seconds p"

lemma decision_policy_iff:
  assumes "policy_ok p"
  shows "validate_decision_against_policy d p = Inr u \<longleftrightarrow> decision_fits p d"
  using assms by (auto simp: validate_decision_against_policy_def Let_def decision_fits_def policy_ok_def missing_namespaces_Nil
      require_max_uncertainty_def int_nonnegative_def epoch_second_def result_simps)

lemma checkpoint_policy_iff:
  assumes "policy_ok p"
  shows "validate_checkpoint_against_policy c p = Inr u \<longleftrightarrow> checkpoint_fits p c"
  using assms by (auto simp: validate_checkpoint_against_policy_def checkpoint_fits_def policy_ok_def
      require_max_uncertainty_def int_nonnegative_def epoch_second_def result_simps)

lemma policy_snapshot:
  assumes "snapshot_validation_policy p = Inr p'"
  shows "policy_ok p" and "policy_ok p'" and "decision_fits p' d \<longleftrightarrow> decision_fits p d" and "checkpoint_fits p' c \<longleftrightarrow> checkpoint_fits p c"
proof -
  from assms have p: "policy_ok p" and p': "p' = p\<lparr>vp_required_revocation_namespaces := foldl set_add [] (vp_required_revocation_namespaces p)\<rparr>"
    by (simp_all add: snapshot_validation_policy_iff)
  show "policy_ok p" by (rule p)
  have "length (foldl set_add [] (vp_required_revocation_namespaces p)) \<le> MAX_REVOCATION_VIEWS"
    using foldl_set_add_length [of "[]" "vp_required_revocation_namespaces p"] p by (simp add: policy_ok_def)
  then show "policy_ok p'" using p p' by (auto simp: policy_ok_def foldl_set_add_Nil list_all_iff foldl_set_add)
  show "decision_fits p' d \<longleftrightarrow> decision_fits p d" "checkpoint_fits p' c \<longleftrightarrow> checkpoint_fits p c"
    using p' by (simp_all add: decision_fits_def checkpoint_fits_def foldl_set_add)
qed

section \<open>Relations between checkpoints and decisions\<close>

definition checkpoint_binds_decision_provenance :: "externals \<Rightarrow> head_checkpoint \<Rightarrow> authenticated_decision \<Rightarrow> bool result" where
  "checkpoint_binds_decision_provenance X c a =
     (if \<not> (hc_service_instance_id c = dc_service_instance_id (ad_decision a) \<and> hc_environment_id c = dc_environment_id (ad_decision a) \<and>
           hc_integrity_decision_id c = dc_decision_id (ad_decision a)) then Inr False
      else bindR (signed_decision_attestation_id X (ad_signed_decision a)) (\<lambda>i.
        Inr (hc_integrity_decision_attestation_id c = i \<and> hc_integrity_decision_principal_id c = ad_signer_principal_id a \<and>
             hc_integrity_decision_trust_snapshot_id c = ad_trust_snapshot_id a)))"

definition checkpoint_reference_matches ::
  "externals \<Rightarrow> pystr \<Rightarrow> pystr option \<Rightarrow> pystr option \<Rightarrow> pystr option \<Rightarrow> authenticated_checkpoint \<Rightarrow> bool result" where
  "checkpoint_reference_matches X checkpoint_id attestation_id principal_id trust_snapshot_id a =
     (if checkpoint_id \<noteq> hc_checkpoint_id (ac_checkpoint a) then Inr False
      else bindR (signed_checkpoint_attestation_id X (ac_signed_checkpoint a)) (\<lambda>i.
        Inr (attestation_id = Some i \<and> principal_id = Some (ac_signer_principal_id a) \<and> trust_snapshot_id = Some (ac_trust_snapshot_id a))))"

definition require_checkpoint_scope :: "head_checkpoint \<Rightarrow> head_checkpoint \<Rightarrow> exn + unit" where
  "require_checkpoint_scope current previous =
     requireR (hc_service_instance_id current = hc_service_instance_id previous \<and> hc_environment_id current = hc_environment_id previous)
       (IntegrityError ''checkpoint_scope_mismatch'' ''checkpoint predecessor belongs to another service instance or environment'')"

definition require_decision_follows_checkpoint :: "integrity_decision \<Rightarrow> head_checkpoint \<Rightarrow> exn + unit" where
  "require_decision_follows_checkpoint d c =
     requireR (\<not> dc_time_lower_bound d < hc_time_upper_bound c)
       (IntegrityError ''decision_time_precedes_checkpoint'' ''decision interval does not conservatively follow its checkpoint predecessor'')"

definition validate_checkpoint_decision_semantics :: "externals \<Rightarrow> head_checkpoint \<Rightarrow> authenticated_decision \<Rightarrow> exn + unit" where
  "validate_checkpoint_decision_semantics X c a =
     (let d = ad_decision a;
          mismatch = IntegrityError ''checkpoint_binding_mismatch'' ''checkpoint does not bind the exact authenticated decision''
      in if hc_service_instance_id c \<noteq> dc_service_instance_id d \<or> hc_environment_id c \<noteq> dc_environment_id d \<or>
            hc_mission_id c \<noteq> dc_mission_id d \<or> hc_authority_id c \<noteq> dc_authority_id d \<or> hc_target_id c \<noteq> dc_target_id d
         then Inl mismatch
         else bindR (checkpoint_binds_decision_provenance X c a) (\<lambda>binds.
           if \<not> binds \<or> hc_instance_sequence c \<noteq> dc_prior_global_checkpoint_sequence d + 1 \<or>
              hc_previous_checkpoint_id c \<noteq> dc_prior_global_checkpoint_id d \<or>
              hc_previous_checkpoint_attestation_id c \<noteq> dc_prior_global_checkpoint_attestation_id d \<or>
              hc_previous_checkpoint_principal_id c \<noteq> dc_prior_global_checkpoint_principal_id d \<or>
              hc_previous_checkpoint_trust_snapshot_id c \<noteq> dc_prior_global_checkpoint_trust_snapshot_id d \<or>
              hc_event_seq c \<noteq> dc_prior_event_seq d + 1 \<or> hc_event_digest c \<noteq> dc_proposed_event_digest d
           then Inl mismatch
           else if hc_time_lower_bound c < dc_time_upper_bound d
           then Inl (IntegrityError ''checkpoint_time_precedes_decision'' ''checkpoint interval does not conservatively follow the decision interval'')
           else Inr ()))"

text \<open>What these checks establish: the checkpoint is the successor that the decision announces, and it names its predecessor.\<close>

definition checkpoint_of_decision :: "externals \<Rightarrow> head_checkpoint \<Rightarrow> authenticated_decision \<Rightarrow> bool" where
  "checkpoint_of_decision X c a \<longleftrightarrow> (let d = ad_decision a in
     hc_service_instance_id c = dc_service_instance_id d \<and> hc_environment_id c = dc_environment_id d \<and> hc_mission_id c = dc_mission_id d \<and>
     hc_authority_id c = dc_authority_id d \<and> hc_target_id c = dc_target_id d \<and> hc_integrity_decision_id c = dc_decision_id d \<and>
     signed_decision_attestation_id X (ad_signed_decision a) = Inr (hc_integrity_decision_attestation_id c) \<and>
     hc_integrity_decision_principal_id c = ad_signer_principal_id a \<and> hc_integrity_decision_trust_snapshot_id c = ad_trust_snapshot_id a \<and>
     hc_instance_sequence c = dc_prior_global_checkpoint_sequence d + 1 \<and> hc_previous_checkpoint_id c = dc_prior_global_checkpoint_id d \<and>
     hc_previous_checkpoint_attestation_id c = dc_prior_global_checkpoint_attestation_id d \<and>
     hc_previous_checkpoint_principal_id c = dc_prior_global_checkpoint_principal_id d \<and>
     hc_previous_checkpoint_trust_snapshot_id c = dc_prior_global_checkpoint_trust_snapshot_id d \<and>
     hc_event_seq c = dc_prior_event_seq d + 1 \<and> hc_event_digest c = dc_proposed_event_digest d \<and>
     dc_time_upper_bound d \<le> hc_time_lower_bound c)"

definition names_checkpoint :: "externals \<Rightarrow> pystr \<Rightarrow> pystr option \<Rightarrow> pystr option \<Rightarrow> pystr option \<Rightarrow> authenticated_checkpoint \<Rightarrow> bool" where
  "names_checkpoint X checkpoint_id attestation_id principal_id trust_snapshot_id a \<longleftrightarrow> checkpoint_id = hc_checkpoint_id (ac_checkpoint a) \<and>
     (\<exists>i. signed_checkpoint_attestation_id X (ac_signed_checkpoint a) = Inr i \<and> attestation_id = Some i) \<and>
     principal_id = Some (ac_signer_principal_id a) \<and> trust_snapshot_id = Some (ac_trust_snapshot_id a)"

lemma reference_matches_iff: "checkpoint_reference_matches X c a p t x = Inr True \<longleftrightarrow> names_checkpoint X c a p t x"
  by (auto simp: checkpoint_reference_matches_def names_checkpoint_def bindR_eq_Inr)

lemma binds_provenance_iff:
  "checkpoint_binds_decision_provenance X c a = Inr True \<longleftrightarrow>
     hc_service_instance_id c = dc_service_instance_id (ad_decision a) \<and> hc_environment_id c = dc_environment_id (ad_decision a) \<and>
     hc_integrity_decision_id c = dc_decision_id (ad_decision a) \<and>
     signed_decision_attestation_id X (ad_signed_decision a) = Inr (hc_integrity_decision_attestation_id c) \<and>
     hc_integrity_decision_principal_id c = ad_signer_principal_id a \<and> hc_integrity_decision_trust_snapshot_id c = ad_trust_snapshot_id a"
  by (auto simp: checkpoint_binds_decision_provenance_def bindR_eq_Inr)

lemma checkpoint_semantics_iff: "validate_checkpoint_decision_semantics X c a = Inr u \<longleftrightarrow> checkpoint_of_decision X c a"
proof -
  have "validate_checkpoint_decision_semantics X c a = Inr u \<longleftrightarrow>
     hc_mission_id c = dc_mission_id (ad_decision a) \<and> hc_authority_id c = dc_authority_id (ad_decision a) \<and> hc_target_id c = dc_target_id (ad_decision a) \<and>
     checkpoint_binds_decision_provenance X c a = Inr True \<and> hc_instance_sequence c = dc_prior_global_checkpoint_sequence (ad_decision a) + 1 \<and>
     hc_previous_checkpoint_id c = dc_prior_global_checkpoint_id (ad_decision a) \<and>
     hc_previous_checkpoint_attestation_id c = dc_prior_global_checkpoint_attestation_id (ad_decision a) \<and>
     hc_previous_checkpoint_principal_id c = dc_prior_global_checkpoint_principal_id (ad_decision a) \<and>
     hc_previous_checkpoint_trust_snapshot_id c = dc_prior_global_checkpoint_trust_snapshot_id (ad_decision a) \<and>
     hc_event_seq c = dc_prior_event_seq (ad_decision a) + 1 \<and> hc_event_digest c = dc_proposed_event_digest (ad_decision a) \<and>
     dc_time_upper_bound (ad_decision a) \<le> hc_time_lower_bound c"
    by (auto simp: validate_checkpoint_decision_semantics_def Let_def bindR_eq_Inr not_less binds_provenance_iff split: if_splits)
  then show ?thesis unfolding checkpoint_of_decision_def binds_provenance_iff Let_def by blast
qed

section \<open>Revocation advance\<close>

definition py_repr :: "pystr \<Rightarrow> pystr" where
  "py_repr s = CHR 0x27 # s @ [CHR 0x27]"

definition view_for :: "revocation_view list \<Rightarrow> pystr \<Rightarrow> revocation_view option" where
  "view_for views n = map_of (map (\<lambda>v. (rv_namespace v, v)) views) n"

definition floor_for :: "revocation_floor list \<Rightarrow> pystr \<Rightarrow> revocation_floor option" where
  "floor_for floors n = map_of (map (\<lambda>f. (rf_namespace f, f)) floors) n"

definition lookupR :: "pystr \<Rightarrow> 'a option \<Rightarrow> 'a result" where
  "lookupR k v = (case v of None \<Rightarrow> Inl (KeyError k) | Some x \<Rightarrow> Inr x)"

definition view_above_floor :: "revocation_floor list \<Rightarrow> revocation_view \<Rightarrow> exn + unit" where
  "view_above_floor floors view =
     bindR (lookupR (rv_namespace view) (floor_for floors (rv_namespace view))) (\<lambda>floor. seqR [
       requireR (rv_root_version view \<ge> rf_root_version floor) (IntegrityError ''external_revocation_root_rollback''
         (''revocation root is below the external floor for '' @ py_repr (rv_namespace view))),
       requireR (rv_version view \<ge> rf_version floor) (IntegrityError ''external_revocation_version_rollback''
         (''revocation version is below the external floor for '' @ py_repr (rv_namespace view))),
       requireR (rv_version view = rf_version floor \<longrightarrow> rv_snapshot_id view = rf_snapshot_id floor) (IntegrityError ''external_revocation_equivocation''
         (''revocation snapshot differs at the external floor for '' @ py_repr (rv_namespace view)))])"

definition validate_current_revocation_against_external_floors :: "revocation_view list \<Rightarrow> revocation_floor list \<Rightarrow> exn + unit" where
  "validate_current_revocation_against_external_floors current_views floors = seqR (map (view_above_floor floors) current_views)"

definition view_advances :: "revocation_view list \<Rightarrow> revocation_floor list \<Rightarrow> revocation_view \<Rightarrow> exn + unit" where
  "view_advances current_views floors prior =
     (let n = rv_namespace prior in
      bindR (lookupR n (view_for current_views n)) (\<lambda>candidate.
      bindR (seqR [
        requireR (rv_root_version candidate \<ge> rv_root_version prior)
          (IntegrityError ''revocation_root_rollback'' (''revocation root version regressed for '' @ py_repr n)),
        requireR (rv_version candidate \<ge> rv_version prior)
          (IntegrityError ''revocation_version_rollback'' (''revocation version regressed for '' @ py_repr n)),
        requireR (rv_version candidate = rv_version prior \<longrightarrow> candidate = prior)
          (IntegrityError ''revocation_same_version_mutation'' (''revocation version changed bytes for '' @ py_repr n))]) (\<lambda>_.
      bindR (lookupR n (floor_for floors n)) (\<lambda>floor. seqR [
        requireR (rf_root_version floor \<ge> rv_root_version prior \<and> rf_version floor \<ge> rv_version prior)
          (IntegrityError ''external_revocation_floor_rollback'' (''external revocation floor is behind retained history for '' @ py_repr n)),
        requireR (rf_version floor = rv_version prior \<longrightarrow> rf_root_version floor = rv_root_version prior \<and> rf_snapshot_id floor = rv_snapshot_id prior)
          (IntegrityError ''external_revocation_equivocation'' (''external floor rewrites retained revocation state for '' @ py_repr n))]))))"

definition validated_floors :: "integrity_decision \<Rightarrow> revocation_floor list \<Rightarrow> revocation_floor list result" where
  "validated_floors d external_floors =
     (if external_floors = [] \<or> length external_floors > MAX_REVOCATION_VIEWS
      then Inl (IntegrityError ''missing_external_revocation_floor'' ''revocation continuity requires typed external floors'')
      else bindR (mapR snapshot_revocation_floor external_floors) (\<lambda>floors.
        let canonical = sort_key rf_namespace floors;
            missing = sorted_set (filter (\<lambda>n. n \<notin> set (map rf_namespace floors)) (map rv_namespace (dc_revocation_views d)));
            unexpected = sorted_set (filter (\<lambda>n. n \<notin> set (map rv_namespace (dc_revocation_views d))) (map rf_namespace floors))
        in if floors \<noteq> canonical \<or> \<not> distinct (map rf_namespace canonical)
        then Inl (IntegrityError ''invalid_external_revocation_floor'' ''external revocation floors must be namespace-sorted and unique'')
        else if \<not> list_all (\<lambda>f. rf_service_instance_id f = dc_service_instance_id d \<and> rf_environment_id f = dc_environment_id d \<and>
               rf_decision_policy_id f = dc_decision_policy_id d) floors
        then Inl (IntegrityError ''external_revocation_floor_scope_mismatch''
               ''external revocation floor belongs to another service or policy scope'')
        else if missing \<noteq> [] \<or> unexpected \<noteq> []
        then Inl (IntegrityError ''external_revocation_floor_set_mismatch'' (''external revocation floor namespaces differ: '' @
               (if missing = [] then [] else ''missing '' @ join_comma missing) @
               (if missing \<noteq> [] \<and> unexpected \<noteq> [] then ''; '' else []) @
               (if unexpected = [] then [] else ''unexpected '' @ join_comma unexpected)))
        else Inr floors))"

text \<open>The branch for a previous decision: it, its checkpoint and both trust stores are required.\<close>

definition check_previous_head ::
  "externals \<Rightarrow> validation_policy \<Rightarrow> authenticated_decision \<Rightarrow> authenticated_decision \<Rightarrow> integrity_trust_store option \<Rightarrow>
   authenticated_checkpoint option \<Rightarrow> integrity_trust_store option \<Rightarrow> authenticated_decision result" where
  "check_previous_head X policy current previous dts checkpoint cts =
     (case (dts, checkpoint, cts) of
       (Some dts, Some checkpoint, Some cts) \<Rightarrow>
         bindR (reauthenticate_decision X previous dts) (\<lambda>previous.
         bindR (validate_decision_against_policy (ad_decision previous) policy) (\<lambda>_.
         bindR (reauthenticate_checkpoint X checkpoint cts) (\<lambda>checkpoint.
         bindR (validate_checkpoint_against_policy (ac_checkpoint checkpoint) policy) (\<lambda>_.
         if ac_signer_principal_id checkpoint = ad_signer_principal_id previous \<or>
            sc_key_id (ac_signed_checkpoint checkpoint) = sd_key_id (ad_signed_decision previous)
         then Inl (IntegrityError ''principal_separation_violation'' ''previous decision and checkpoint must have distinct principals'')
         else bindR (checkpoint_binds_decision_provenance X (ac_checkpoint checkpoint) previous) (\<lambda>binds.
         if \<not> binds
         then Inl (IntegrityError ''previous_global_decision_mismatch'' ''previous decision is not the one retained by the global checkpoint'')
         else bindR (validate_checkpoint_decision_semantics X (ac_checkpoint checkpoint) previous) (\<lambda>_.
         let d = ad_decision current;
             e = IntegrityError ''current_global_predecessor_mismatch'' ''current decision does not extend the supplied previous global checkpoint''
         in if dc_prior_global_checkpoint_sequence d \<noteq> hc_instance_sequence (ac_checkpoint checkpoint) then Inl e
         else bindR (checkpoint_reference_matches X (dc_prior_global_checkpoint_id d) (dc_prior_global_checkpoint_attestation_id d)
             (dc_prior_global_checkpoint_principal_id d) (dc_prior_global_checkpoint_trust_snapshot_id d) checkpoint) (\<lambda>matches.
         if \<not> matches then Inl e
         else bindR (require_decision_follows_checkpoint d (ac_checkpoint checkpoint)) (\<lambda>_. Inr previous))))))))
     | _ \<Rightarrow> Inl (IntegrityError ''invalid_trust_store'' ''previous global decision and checkpoint require exact trust stores''))"

definition revocation_predecessor ::
  "externals \<Rightarrow> validation_policy \<Rightarrow> authenticated_decision \<Rightarrow> authenticated_decision option \<Rightarrow> integrity_trust_store option \<Rightarrow>
   authenticated_checkpoint option \<Rightarrow> integrity_trust_store option \<Rightarrow> authenticated_decision option result" where
  "revocation_predecessor X policy current previous dts checkpoint cts =
     (case previous of
       None \<Rightarrow>
         if dts \<noteq> None \<or> checkpoint \<noteq> None \<or> cts \<noteq> None
         then Inl (IntegrityError ''invalid_trust_store'' ''genesis revocation validation cannot claim a previous global head'')
         else if dc_prior_global_checkpoint_sequence (ad_decision current) \<noteq> - 1
         then Inl (IntegrityError ''previous_global_checkpoint_missing'' ''non-genesis decision requires its exact previous global checkpoint'')
         else Inr None
     | Some p \<Rightarrow> bindR (check_previous_head X policy current p dts checkpoint cts) (\<lambda>p. Inr (Some p)))"

text \<open>The comparison of the views with the previous decision and with the floors.\<close>

definition compare_views :: "integrity_decision \<Rightarrow> authenticated_decision option \<Rightarrow> revocation_floor list \<Rightarrow> exn + unit" where
  "compare_views d previous floors =
     (let views = dc_revocation_views d in
      case previous of
        None \<Rightarrow> validate_current_revocation_against_external_floors views floors
      | Some p \<Rightarrow>
          let prior = dc_revocation_views (ad_decision p);
              missing = sorted_set (filter (\<lambda>n. n \<notin> set (map rv_namespace views)) (map rv_namespace prior))
          in seqR [
            requireR (dc_service_instance_id (ad_decision p) = dc_service_instance_id d \<and> dc_environment_id (ad_decision p) = dc_environment_id d)
              (IntegrityError ''integrity_scope_mismatch'' ''revocation decisions belong to different service scopes''),
            requireR (missing = []) (IntegrityError ''revocation_namespace_removed''
              (''revocation namespaces cannot disappear: '' @ join_comma missing)),
            seqR (map (view_advances views floors) prior),
            validate_current_revocation_against_external_floors views floors])"

definition validate_revocation_advance ::
  "externals \<Rightarrow> authenticated_decision option \<Rightarrow> authenticated_decision \<Rightarrow> integrity_trust_store option \<Rightarrow> authenticated_checkpoint option \<Rightarrow>
   integrity_trust_store option \<Rightarrow> integrity_trust_store \<Rightarrow> revocation_floor list \<Rightarrow> validation_policy \<Rightarrow> exn + unit" where
  "validate_revocation_advance X previous current previous_dts previous_checkpoint previous_cts current_trust external_floors policy =
     bindR (snapshot_validation_policy policy) (\<lambda>policy.
     bindR (reauthenticate_decision X current current_trust) (\<lambda>current.
     bindR (validate_decision_against_policy (ad_decision current) policy) (\<lambda>_.
     bindR (revocation_predecessor X policy current previous previous_dts previous_checkpoint previous_cts) (\<lambda>previous.
     bindR (validated_floors (ad_decision current) external_floors) (\<lambda>floors.
     compare_views (ad_decision current) previous floors)))))"

section \<open>What an accepted advance means\<close>

definition floor_bounds :: "revocation_floor \<Rightarrow> revocation_view \<Rightarrow> bool" where
  "floor_bounds f v \<longleftrightarrow> rf_namespace f = rv_namespace v \<and> rf_root_version f \<le> rv_root_version v \<and> rf_version f \<le> rv_version v \<and>
     (rf_version f = rv_version v \<longrightarrow> rf_snapshot_id f = rv_snapshot_id v)"

definition view_le :: "revocation_view \<Rightarrow> revocation_view \<Rightarrow> bool" where
  "view_le v w \<longleftrightarrow> rv_namespace v = rv_namespace w \<and> rv_root_version v \<le> rv_root_version w \<and> rv_version v \<le> rv_version w \<and>
     (rv_version v = rv_version w \<longrightarrow> v = w)"

definition views_le :: "revocation_view list \<Rightarrow> revocation_view list \<Rightarrow> bool" where
  "views_le vs ws \<longleftrightarrow> (\<forall>v \<in> set vs. \<exists>w \<in> set ws. view_le v w)"

lemma view_le_order: "view_le v v" "view_le u v \<Longrightarrow> view_le v w \<Longrightarrow> view_le u w" "view_le v w \<Longrightarrow> view_le w v \<Longrightarrow> v = w"
  by (auto simp: view_le_def)

lemma views_le_refl: "views_le vs vs"
  by (auto simp: views_le_def intro: view_le_order(1))

lemma views_le_trans: "views_le us vs \<Longrightarrow> views_le vs ws \<Longrightarrow> views_le us ws"
  unfolding views_le_def by (meson view_le_order(2))

text \<open>On canonical lists, the order is antisymmetric: a history that returns to an old list never left it.\<close>

lemma views_le_half:
  assumes "views_le vs ws" and "views_le ws vs" and "distinct (map rv_namespace vs)"
  shows "set vs \<subseteq> set ws"
proof
  fix v assume v: "v \<in> set vs"
  then obtain w where w: "w \<in> set ws" "view_le v w" using assms(1) by (auto simp: views_le_def)
  then obtain v' where v': "v' \<in> set vs" "view_le w v'" using assms(2) by (auto simp: views_le_def)
  have "rv_namespace v' = rv_namespace v" using w v' by (simp add: view_le_def)
  then have "v' = v" using v v'(1) assms(3) by (auto simp: distinct_map dest: inj_onD)
  then show "v \<in> set ws" using w v' view_le_order(3) by blast
qed

lemma views_le_antisym:
  assumes "views_le vs ws" and "views_le ws vs" and "canonical_order (map rv_namespace vs)" and "canonical_order (map rv_namespace ws)"
  shows "vs = ws"
proof -
  have "set vs = set ws" using views_le_half assms by (metis canonical_order_def subset_antisym)
  then have "map rv_namespace vs = map rv_namespace ws"
    using assms(3,4) by (intro sorted_distinct_set_unique) (auto simp: canonical_order_def)
  moreover have "inj_on rv_namespace (set vs \<union> set ws)" using \<open>set vs = set ws\<close> assms(3) by (simp add: canonical_order_def distinct_map)
  ultimately show ?thesis by (rule map_inj_on)
qed

lemma lookupR_eq_Inr [result_simps]: "lookupR k v = Inr x \<longleftrightarrow> v = Some x"
  by (auto simp: lookupR_def split: option.splits)

lemma view_for_Some: "view_for views n = Some v \<Longrightarrow> v \<in> set views \<and> rv_namespace v = n"
  by (auto simp: view_for_def dest: map_of_SomeD)

lemma floor_for_Some: "floor_for floors n = Some f \<Longrightarrow> f \<in> set floors \<and> rf_namespace f = n"
  by (auto simp: floor_for_def dest: map_of_SomeD)

lemma view_above_floorD: "view_above_floor floors v = Inr u \<Longrightarrow> \<exists>f \<in> set floors. floor_bounds f v"
  by (auto simp: view_above_floor_def floor_bounds_def result_simps dest!: floor_for_Some)

lemma views_above_floorsD:
  "validate_current_revocation_against_external_floors views floors = Inr u \<Longrightarrow> \<forall>v \<in> set views. \<exists>f \<in> set floors. floor_bounds f v"
  using view_above_floorD by (fastforce simp: validate_current_revocation_against_external_floors_def seqR_eq_Inr)

lemma view_advancesD:
  assumes "view_advances views floors v = Inr u"
  shows "\<exists>w \<in> set views. view_le v w"
proof -
  from assms obtain w where "view_for views (rv_namespace v) = Some w" "rv_root_version v \<le> rv_root_version w" "rv_version v \<le> rv_version w"
    "rv_version w = rv_version v \<longrightarrow> w = v" unfolding view_advances_def Let_def result_simps by blast
  with view_for_Some [of views "rv_namespace v" w] show ?thesis by (auto simp: view_le_def intro!: bexI [of _ w])
qed

lemma validated_floors_iff:
  "validated_floors d fs = Inr fs' \<longleftrightarrow> fs' = fs \<and> fs \<noteq> [] \<and> length fs \<le> MAX_REVOCATION_VIEWS \<and> list_all revocation_floor_ok fs \<and>
     canonical_order (map rf_namespace fs) \<and>
     list_all (\<lambda>f. rf_service_instance_id f = dc_service_instance_id d \<and> rf_environment_id f = dc_environment_id d \<and>
        rf_decision_policy_id f = dc_decision_policy_id d) fs \<and>
     set (map rf_namespace fs) = set (map rv_namespace (dc_revocation_views d))"
proof -
  have s: "fs = sort_key rf_namespace fs \<longleftrightarrow> sorted (map rf_namespace fs)" using sort_key_eq_iff by metis
  have n: "sorted_set (filter P xs) = [] \<longleftrightarrow> (\<forall>x \<in> set xs. \<not> P x)" for P xs
    by (metis (mono_tags, lifting) filter_empty_conv remdups_eq_nil_iff sort_key_simps(1) sorted_set_def set_empty set_sort)
  show ?thesis
    unfolding validated_floors_def if_raise_eq_Inr bindR_eq_Inr mapR_copy [of _ revocation_floor_ok, OF snapshot_revocation_floor_iff] Let_def
      canonical_order_def n de_Morgan_disj not_not
    using s by (auto simp: not_less)
qed

lemma compare_viewsD:
  assumes "compare_views d previous floors = Inr ()"
  shows "validate_current_revocation_against_external_floors (dc_revocation_views d) floors = Inr ()"
    and "previous = Some p \<Longrightarrow> seqR (map (view_advances (dc_revocation_views d) floors) (dc_revocation_views (ad_decision p))) = Inr ()"
proof -
  show "validate_current_revocation_against_external_floors (dc_revocation_views d) floors = Inr ()"
    using assms unfolding compare_views_def Let_def by (cases previous) (simp_all only: option.case result_simps)
  show "seqR (map (view_advances (dc_revocation_views d) floors) (dc_revocation_views (ad_decision p))) = Inr ()" if "previous = Some p"
    using assms that unfolding compare_views_def Let_def by (simp only: option.case result_simps)
qed

text \<open>The head that a decision extends.\<close>

definition extends_head ::
  "externals \<Rightarrow> validation_policy \<Rightarrow> authenticated_decision \<Rightarrow> authenticated_decision \<Rightarrow> authenticated_checkpoint \<Rightarrow> bool" where
  "extends_head X policy current previous c \<longleftrightarrow> (let d = ad_decision current in
     decision_fits policy (ad_decision previous) \<and> checkpoint_fits policy (ac_checkpoint c) \<and>
     ac_signer_principal_id c \<noteq> ad_signer_principal_id previous \<and>
     sc_key_id (ac_signed_checkpoint c) \<noteq> sd_key_id (ad_signed_decision previous) \<and>
     checkpoint_of_decision X (ac_checkpoint c) previous \<and>
     dc_prior_global_checkpoint_sequence d = hc_instance_sequence (ac_checkpoint c) \<and>
     names_checkpoint X (dc_prior_global_checkpoint_id d) (dc_prior_global_checkpoint_attestation_id d)
       (dc_prior_global_checkpoint_principal_id d) (dc_prior_global_checkpoint_trust_snapshot_id d) c \<and>
     hc_time_upper_bound (ac_checkpoint c) \<le> dc_time_lower_bound d)"

lemma check_previous_headD:
  assumes "check_previous_head X policy current previous dts cp cts = Inr p" and "policy_ok policy"
  obtains t c t' where "p = previous" and "dts = Some t" and "cp = Some c" and "cts = Some t'" and "authentic_decision X t previous"
    and "authentic_checkpoint X t' c" and "extends_head X policy current previous c"
proof -
  from assms(1) obtain t c t' where a: "dts = Some t" "cp = Some c" "cts = Some t'"
    by (auto simp: check_previous_head_def split: option.splits)
  from assms(1) a have "p = previous" "authentic_decision X t previous" "authentic_checkpoint X t' c" "extends_head X policy current previous c"
    unfolding check_previous_head_def
    by (auto simp: bindR_eq_Inr if_raise_eq_Inr reauthenticate_decision_iff reauthenticate_checkpoint_iff Let_def
        decision_policy_iff [OF assms(2)] checkpoint_policy_iff [OF assms(2)] checkpoint_semantics_iff reference_matches_iff
        require_decision_follows_checkpoint_def requireR_eq_Inr not_less extends_head_def)
  with a that show thesis by blast
qed

lemma revocation_advanceD:
  assumes "validate_revocation_advance X previous current dts cp cts t floors policy = Inr ()"
  shows "authentic_decision X t current" and "policy_ok policy" and "decision_fits policy (ad_decision current)"
    and "\<forall>v \<in> set (dc_revocation_views (ad_decision current)). \<exists>f \<in> set floors. floor_bounds f v"
    and "validated_floors (ad_decision current) floors = Inr floors"
    and "previous = None \<Longrightarrow> dc_prior_global_checkpoint_sequence (ad_decision current) = - 1"
    and "previous = Some p \<Longrightarrow> (\<exists>t c t'. dts = Some t \<and> cp = Some c \<and> cts = Some t' \<and> authentic_decision X t p \<and> authentic_checkpoint X t' c \<and>
           extends_head X policy current p c) \<and> views_le (dc_revocation_views (ad_decision p)) (dc_revocation_views (ad_decision current))"
proof -
  from assms obtain policy' prev fs where pol: "snapshot_validation_policy policy = Inr policy'" and c: "authentic_decision X t current"
    and f: "validate_decision_against_policy (ad_decision current) policy' = Inr ()"
    and prev: "revocation_predecessor X policy' current previous dts cp cts = Inr prev"
    and fs: "validated_floors (ad_decision current) floors = Inr fs" and final: "compare_views (ad_decision current) prev fs = Inr ()"
    by (auto simp: validate_revocation_advance_def bindR_eq_Inr reauthenticate_decision_iff)
  note ps = policy_snapshot [OF pol]
  have fs': "fs = floors" using fs by (simp add: validated_floors_iff)
  show "authentic_decision X t current" "policy_ok policy" by (fact c, fact ps(1))
  show "decision_fits policy (ad_decision current)" using f decision_policy_iff [OF ps(2)] ps(3) by simp
  show "validated_floors (ad_decision current) floors = Inr floors" using fs fs' by simp
  show "dc_prior_global_checkpoint_sequence (ad_decision current) = - 1" if "previous = None"
    using prev that by (simp add: revocation_predecessor_def split: if_splits)
  show "\<forall>v \<in> set (dc_revocation_views (ad_decision current)). \<exists>f \<in> set floors. floor_bounds f v"
    using views_above_floorsD [OF compare_viewsD(1) [OF final]] fs' by simp
  show "(\<exists>t c t'. dts = Some t \<and> cp = Some c \<and> cts = Some t' \<and> authentic_decision X t p \<and> authentic_checkpoint X t' c \<and>
           extends_head X policy current p c) \<and> views_le (dc_revocation_views (ad_decision p)) (dc_revocation_views (ad_decision current))"
    if p: "previous = Some p"
  proof
    from prev p obtain q where q: "check_previous_head X policy' current p dts cp cts = Inr q" "prev = Some q"
      by (auto simp: revocation_predecessor_def bindR_eq_Inr)
    from q(1) ps(2) obtain u c u' where w: "q = p" "dts = Some u" "cp = Some c" "cts = Some u'" "authentic_decision X u p"
      "authentic_checkpoint X u' c" "extends_head X policy' current p c" by (rule check_previous_headD)
    moreover have "extends_head X policy current p c" using w(7) ps(3,4) by (simp add: extends_head_def)
    ultimately show "\<exists>t c t'. dts = Some t \<and> cp = Some c \<and> cts = Some t' \<and> authentic_decision X t p \<and> authentic_checkpoint X t' c \<and>
           extends_head X policy current p c" by blast
    have "seqR (map (view_advances (dc_revocation_views (ad_decision current)) fs) (dc_revocation_views (ad_decision p))) = Inr ()"
      using compare_viewsD(2) [OF final] q(2) w(1) by simp
    then show "views_le (dc_revocation_views (ad_decision p)) (dc_revocation_views (ad_decision current))"
      unfolding views_le_def seqR_eq_Inr using view_advancesD by fastforce
  qed
qed

section \<open>Histories\<close>

text \<open>One accepted advance from a previous decision, and a history of them.\<close>

inductive revocation_step :: "externals \<Rightarrow> authenticated_decision \<Rightarrow> authenticated_decision \<Rightarrow> bool" for X where
  accepted: "validate_revocation_advance X (Some p) c dts cp cts t floors policy = Inr () \<Longrightarrow> revocation_step X p c"

lemma revocation_stepD:
  assumes "revocation_step X p c"
  shows "views_le (dc_revocation_views (ad_decision p)) (dc_revocation_views (ad_decision c))"
    and "dc_prior_global_checkpoint_sequence (ad_decision c) = dc_prior_global_checkpoint_sequence (ad_decision p) + 1"
    and "dc_time_upper_bound (ad_decision p) \<le> dc_time_lower_bound (ad_decision c)"
    and "\<exists>t t'. authentic_decision X t p \<and> authentic_decision X t' c"
proof -
  from assms obtain dts cp cts t floors policy where "validate_revocation_advance X (Some p) c dts cp cts t floors policy = Inr ()"
    by cases
  note d = revocation_advanceD [OF this]
  from d(7) [OF refl] obtain u k u' where e: "authentic_decision X u p" "authentic_checkpoint X u' k" "extends_head X policy c p k"
    and v: "views_le (dc_revocation_views (ad_decision p)) (dc_revocation_views (ad_decision c))" by blast
  show "views_le (dc_revocation_views (ad_decision p)) (dc_revocation_views (ad_decision c))" by (rule v)
  show "\<exists>t t'. authentic_decision X t p \<and> authentic_decision X t' c" using d(1) e(1) by blast
  from e(3) have b: "checkpoint_of_decision X (ac_checkpoint k) p" and s: "dc_prior_global_checkpoint_sequence (ad_decision c) = hc_instance_sequence (ac_checkpoint k)"
    and f: "hc_time_upper_bound (ac_checkpoint k) \<le> dc_time_lower_bound (ad_decision c)" by (simp_all add: extends_head_def Let_def)
  show "dc_prior_global_checkpoint_sequence (ad_decision c) = dc_prior_global_checkpoint_sequence (ad_decision p) + 1"
    using b s by (simp add: checkpoint_of_decision_def Let_def)
  have "hc_time_lower_bound (ac_checkpoint k) \<le> hc_time_upper_bound (ac_checkpoint k)"
    using authentic_checkpoint_interval [OF e(2)] .
  then show "dc_time_upper_bound (ad_decision p) \<le> dc_time_lower_bound (ad_decision c)"
    using b f by (simp add: checkpoint_of_decision_def Let_def)
qed

end
