(* ===== verification/Checkpoint_Chain.thy ===== *)
theory Checkpoint_Chain
  imports Revocation_Chain
begin

text \<open>
  \<open>src/etzio/integrity_v1.py\<close>: the binding of a checkpoint to its decision and event, the continuity of the instance-global and the mission
  chain above an externally retained floor, and the finality predicate. The catalog that results from accepted advances is an
  append-only log; its invariant is proved by induction on runs.
\<close>

section \<open>Events and predecessors\<close>

definition snapshot_event :: "externals \<Rightarrow> event \<Rightarrow> event result" where
  "snapshot_event X ev =
     rewrap value_caught (IntegrityError ''invalid_checkpoint_binding'' ''checkpoint binding event is not canonical'')
       (bindR (event_verify X ev) (\<lambda>_. Inr ev))"

lemma snapshot_event_iff: "snapshot_event X ev = Inr ev' \<longleftrightarrow> ev' = ev \<and> event_verify X ev = Inr ()"
  by (auto simp: snapshot_event_def rewrap_eq_Inr bindR_eq_Inr)

definition validate_decision_mission_predecessor ::
  "externals \<Rightarrow> head_checkpoint \<Rightarrow> integrity_decision \<Rightarrow> authenticated_checkpoint option \<Rightarrow> exn + unit" where
  "validate_decision_mission_predecessor X c d previous_mission =
     bindR (mission_checkpoint_genesis_id X (JStr (hc_service_instance_id c)) (JStr (hc_environment_id c)) (JStr (hc_mission_id c))) (\<lambda>mission_genesis.
     if dc_prior_event_seq d = - 1
     then requireR (previous_mission = None \<and> hc_previous_mission_checkpoint_id c = mission_genesis)
            (IntegrityError ''checkpoint_mission_branch'' ''event zero must extend the exact mission genesis'')
     else case previous_mission of
       None \<Rightarrow> Inl (IntegrityError ''checkpoint_mission_gap'' ''non-genesis event requires the previous mission checkpoint'')
     | Some p \<Rightarrow>
         let previous = ac_checkpoint p;
             branch = IntegrityError ''checkpoint_mission_branch'' ''decision and checkpoint must extend the same exact mission head''
         in bindR (require_checkpoint_scope c previous) (\<lambda>_.
            if hc_mission_id previous \<noteq> hc_mission_id c \<or> hc_authority_id previous \<noteq> hc_authority_id c \<or> hc_target_id previous \<noteq> hc_target_id c \<or>
               dc_prior_event_seq d \<noteq> hc_event_seq previous \<or> dc_prior_event_digest d \<noteq> hc_event_digest previous
            then Inl branch
            else bindR (checkpoint_reference_matches X (hc_previous_mission_checkpoint_id c) (hc_previous_mission_checkpoint_attestation_id c)
                (hc_previous_mission_checkpoint_principal_id c) (hc_previous_mission_checkpoint_trust_snapshot_id c) p) (\<lambda>matches.
              if \<not> matches then Inl branch else Inr ())))"

text \<open>A previous checkpoint comes with its trust store; neither comes without the other.\<close>

definition reauthenticate_previous ::
  "externals \<Rightarrow> validation_policy \<Rightarrow> pystr \<Rightarrow> authenticated_checkpoint option \<Rightarrow> integrity_trust_store option \<Rightarrow> authenticated_checkpoint option result" where
  "reauthenticate_previous X policy label previous trust =
     (case previous of
       None \<Rightarrow>
         if trust \<noteq> None
         then Inl (IntegrityError ''invalid_trust_store'' (''no '' @ label @ '' trust store is valid without a previous checkpoint''))
         else Inr None
     | Some p \<Rightarrow>
         (case trust of
           None \<Rightarrow> Inl (IntegrityError ''invalid_trust_store'' (''previous '' @ label @ '' checkpoint requires its exact trust store''))
         | Some t \<Rightarrow>
             bindR (reauthenticate_checkpoint X p t) (\<lambda>p.
             bindR (validate_checkpoint_against_policy (ac_checkpoint p) policy) (\<lambda>_. Inr (Some p)))))"

section \<open>Binding\<close>

definition validate_checkpoint_binding ::
  "externals \<Rightarrow> authenticated_checkpoint \<Rightarrow> authenticated_decision \<Rightarrow> event \<Rightarrow> integrity_trust_store \<Rightarrow> integrity_trust_store \<Rightarrow>
   authenticated_checkpoint option \<Rightarrow> integrity_trust_store option \<Rightarrow> validation_policy \<Rightarrow> exn + unit" where
  "validate_checkpoint_binding X checkpoint decision event checkpoint_trust decision_trust previous_mission previous_mission_trust policy =
     bindR (snapshot_event X event) (\<lambda>event.
     bindR (snapshot_validation_policy policy) (\<lambda>policy.
     bindR (reauthenticate_checkpoint X checkpoint checkpoint_trust) (\<lambda>checkpoint.
     bindR (reauthenticate_decision X decision decision_trust) (\<lambda>decision.
     bindR (validate_checkpoint_against_policy (ac_checkpoint checkpoint) policy) (\<lambda>_.
     bindR (validate_decision_against_policy (ad_decision decision) policy) (\<lambda>_.
     bindR (reauthenticate_previous X policy ''mission'' previous_mission previous_mission_trust) (\<lambda>previous_mission.
     if ac_signer_principal_id checkpoint = ad_signer_principal_id decision \<or>
        sc_key_id (ac_signed_checkpoint checkpoint) = sd_key_id (ad_signed_decision decision)
     then Inl (IntegrityError ''principal_separation_violation'' ''one principal or key cannot decide and checkpoint the same transition'')
     else let c = ac_checkpoint checkpoint; d = ad_decision decision in
     bindR (validate_checkpoint_decision_semantics X c decision) (\<lambda>_.
     if hc_event_seq c \<noteq> ev_seq event \<or> hc_event_digest c \<noteq> ev_event_digest event \<or> ev_event_digest event \<noteq> dc_proposed_event_digest d \<or>
        ev_mission_id event \<noteq> dc_mission_id d \<or> ev_authority_id event \<noteq> dc_authority_id d \<or> ev_target_id event \<noteq> dc_target_id d \<or>
        ev_prev_digest event \<noteq> dc_prior_event_digest d \<or> ev_seq event \<noteq> dc_prior_event_seq d + 1 \<or> ev_kind event \<noteq> dc_event_kind d \<or>
        ev_decision_time event \<noteq> dc_time_upper_bound d
     then Inl (IntegrityError ''checkpoint_binding_mismatch'' ''head checkpoint does not bind the exact decision and resulting event'')
     else bindR (validate_decision_mission_predecessor X c d previous_mission) (\<lambda>_.
     case previous_mission of
       None \<Rightarrow> Inr ()
     | Some p \<Rightarrow> require_decision_follows_checkpoint d (ac_checkpoint p))))))))))"

section \<open>Floors and checkpoints\<close>

definition global_floor_matches_checkpoint :: "externals \<Rightarrow> head_floor \<Rightarrow> authenticated_checkpoint \<Rightarrow> bool result" where
  "global_floor_matches_checkpoint X f a =
     (if \<not> (hf_instance_sequence f = hc_instance_sequence (ac_checkpoint a) \<and> hf_checkpoint_id f = hc_checkpoint_id (ac_checkpoint a)) then Inr False
      else bindR (signed_checkpoint_attestation_id X (ac_signed_checkpoint a)) (\<lambda>i.
        Inr (hf_checkpoint_attestation_id f = Some i \<and> hf_checkpoint_principal_id f = Some (ac_signer_principal_id a) \<and>
             hf_checkpoint_trust_snapshot_id f = Some (ac_trust_snapshot_id a))))"

definition mission_floor_matches_checkpoint :: "externals \<Rightarrow> head_floor \<Rightarrow> authenticated_checkpoint \<Rightarrow> bool result" where
  "mission_floor_matches_checkpoint X f a =
     (if \<not> (hf_mission_event_seq f = hc_event_seq (ac_checkpoint a) \<and> hf_mission_checkpoint_id f = hc_checkpoint_id (ac_checkpoint a)) then Inr False
      else bindR (signed_checkpoint_attestation_id X (ac_signed_checkpoint a)) (\<lambda>i.
        Inr (hf_mission_checkpoint_attestation_id f = Some i \<and> hf_mission_checkpoint_principal_id f = Some (ac_signer_principal_id a) \<and>
             hf_mission_checkpoint_trust_snapshot_id f = Some (ac_trust_snapshot_id a))))"

definition require_checkpoint_projection_consistency ::
  "externals \<Rightarrow> authenticated_checkpoint option \<Rightarrow> authenticated_checkpoint option \<Rightarrow> exn + unit" where
  "require_checkpoint_projection_consistency X previous_global previous_mission =
     (case previous_mission of
       None \<Rightarrow> Inr ()
     | Some m \<Rightarrow>
         (case previous_global of
           None \<Rightarrow> Inl (IntegrityError ''checkpoint_projection_branch'' ''a mission checkpoint cannot exist without an instance-global head'')
         | Some g \<Rightarrow>
             if hc_instance_sequence (ac_checkpoint m) > hc_instance_sequence (ac_checkpoint g)
             then Inl (IntegrityError ''checkpoint_projection_branch'' ''mission checkpoint cannot be ahead of the instance-global head'')
             else if hc_instance_sequence (ac_checkpoint m) = hc_instance_sequence (ac_checkpoint g)
             then bindR (signed_checkpoint_attestation_id X (ac_signed_checkpoint g)) (\<lambda>i.
                  bindR (checkpoint_reference_matches X (hc_checkpoint_id (ac_checkpoint g)) (Some i) (Some (ac_signer_principal_id g))
                    (Some (ac_trust_snapshot_id g)) m) (\<lambda>matches.
                  if \<not> matches
                  then Inl (IntegrityError ''checkpoint_projection_branch'' ''global and mission projections conflict at one instance sequence'')
                  else Inr ()))
             else Inr ()))"

section \<open>Advance\<close>

definition floor_scope :: "head_floor \<Rightarrow> head_checkpoint \<Rightarrow> exn + unit" where
  "floor_scope f c =
     requireR (hf_service_instance_id f = hc_service_instance_id c \<and> hf_environment_id f = hc_environment_id c \<and> hf_mission_id f = hc_mission_id c)
       (IntegrityError ''external_head_floor_scope_mismatch'' ''external head floor belongs to another service scope or mission'')"

text \<open>The continuity of the instance-global chain and of the mission chain.\<close>

definition global_continuity ::
  "externals \<Rightarrow> head_checkpoint \<Rightarrow> integrity_decision \<Rightarrow> digest \<Rightarrow> authenticated_checkpoint option \<Rightarrow> exn + unit" where
  "global_continuity X c d global_genesis previous_global =
     (case previous_global of
       None \<Rightarrow> requireR (hc_instance_sequence c = 0 \<and> hc_previous_checkpoint_id c = global_genesis)
         (IntegrityError ''checkpoint_global_gap'' ''first global checkpoint must extend the instance genesis'')
     | Some g \<Rightarrow>
         let branch = IntegrityError ''checkpoint_global_branch'' ''checkpoint does not extend the exact global head'' in
         bindR (require_checkpoint_scope c (ac_checkpoint g)) (\<lambda>_.
         if hc_instance_sequence c \<noteq> hc_instance_sequence (ac_checkpoint g) + 1 then Inl branch
         else bindR (checkpoint_reference_matches X (hc_previous_checkpoint_id c) (hc_previous_checkpoint_attestation_id c)
             (hc_previous_checkpoint_principal_id c) (hc_previous_checkpoint_trust_snapshot_id c) g) (\<lambda>matches.
         if \<not> matches then Inl branch
         else require_decision_follows_checkpoint d (ac_checkpoint g))))"

definition mission_continuity :: "head_checkpoint \<Rightarrow> digest \<Rightarrow> authenticated_checkpoint option \<Rightarrow> exn + unit" where
  "mission_continuity c mission_genesis previous_mission =
     (case previous_mission of
       None \<Rightarrow> requireR (hc_event_seq c = 0 \<and> hc_previous_mission_checkpoint_id c = mission_genesis)
         (IntegrityError ''checkpoint_mission_gap'' ''first mission checkpoint must cover event zero and extend mission genesis'')
     | Some m \<Rightarrow>
         bindR (require_checkpoint_scope c (ac_checkpoint m)) (\<lambda>_.
         requireR (hc_event_seq c = hc_event_seq (ac_checkpoint m) + 1 \<and> hc_previous_mission_checkpoint_id c = hc_checkpoint_id (ac_checkpoint m))
           (IntegrityError ''checkpoint_mission_branch'' ''checkpoint does not extend the exact mission head'')))"

text \<open>The floor names exactly the current checkpoint or exactly its predecessors; otherwise the refusal says how it differs.\<close>

definition reconcile_floor ::
  "externals \<Rightarrow> head_floor \<Rightarrow> authenticated_checkpoint \<Rightarrow> digest \<Rightarrow> digest \<Rightarrow> authenticated_checkpoint option \<Rightarrow> authenticated_checkpoint option \<Rightarrow>
   exn + unit" where
  "reconcile_floor X f current global_genesis mission_genesis previous_global previous_mission =
     bindR (global_floor_matches_checkpoint X f current) (\<lambda>global_current.
     bindR (mission_floor_matches_checkpoint X f current) (\<lambda>mission_current.
     bindR (case previous_global of
         None \<Rightarrow> Inr (hf_instance_sequence f = - 1 \<and> hf_checkpoint_id f = global_genesis)
       | Some g \<Rightarrow> global_floor_matches_checkpoint X f g) (\<lambda>global_predecessor.
     bindR (case previous_mission of
         None \<Rightarrow> Inr (hf_mission_event_seq f = - 1 \<and> hf_mission_checkpoint_id f = mission_genesis)
       | Some m \<Rightarrow> mission_floor_matches_checkpoint X f m) (\<lambda>mission_predecessor.
     let c = ac_checkpoint current;
         at_global = (case previous_global of None \<Rightarrow> False | Some g \<Rightarrow> hf_instance_sequence f = hc_instance_sequence (ac_checkpoint g));
         at_mission = (case previous_mission of None \<Rightarrow> False | Some m \<Rightarrow> hf_mission_event_seq f = hc_event_seq (ac_checkpoint m));
         below_global = (case previous_global of None \<Rightarrow> False | Some g \<Rightarrow> hf_instance_sequence f < hc_instance_sequence (ac_checkpoint g));
         below_mission = (case previous_mission of None \<Rightarrow> False | Some m \<Rightarrow> hf_mission_event_seq f < hc_event_seq (ac_checkpoint m))
     in if global_current \<and> mission_current \<or> global_predecessor \<and> mission_predecessor then Inr ()
        else if hf_instance_sequence f > hc_instance_sequence c \<or> hf_mission_event_seq f > hc_event_seq c
        then Inl (IntegrityError ''local_head_below_external_floor'' ''externally retained checkpoint is ahead of local history'')
        else if global_current \<or> mission_current \<or> global_predecessor \<or> mission_predecessor
        then Inl (IntegrityError ''external_head_floor_inconsistent'' ''external global and mission floors do not describe one catalog state'')
        else if hf_instance_sequence f = hc_instance_sequence c \<or> hf_mission_event_seq f = hc_event_seq c \<or> at_global \<or> at_mission
        then Inl (IntegrityError ''external_head_floor_equivocation'' ''external floor has different identity or provenance at a retained sequence'')
        else if below_global \<or> below_mission
        then Inl (IntegrityError ''external_head_floor_rollback'' ''external floor is behind a retained checkpoint predecessor'')
        else Inl (IntegrityError ''external_head_floor_inconsistent'' ''external floor cannot be reconciled with local checkpoint continuity'')))))"

definition validate_checkpoint_advance ::
  "externals \<Rightarrow> authenticated_checkpoint \<Rightarrow> integrity_trust_store \<Rightarrow> authenticated_decision \<Rightarrow> integrity_trust_store \<Rightarrow>
   authenticated_checkpoint option \<Rightarrow> integrity_trust_store option \<Rightarrow> authenticated_checkpoint option \<Rightarrow> integrity_trust_store option \<Rightarrow>
   head_floor \<Rightarrow> validation_policy \<Rightarrow> exn + unit" where
  "validate_checkpoint_advance X current current_trust decision decision_trust previous_global previous_global_trust
     previous_mission previous_mission_trust external_floor policy =
     bindR (snapshot_validation_policy policy) (\<lambda>policy.
     bindR (reauthenticate_checkpoint X current current_trust) (\<lambda>current.
     bindR (reauthenticate_decision X decision decision_trust) (\<lambda>decision.
     bindR (validate_checkpoint_against_policy (ac_checkpoint current) policy) (\<lambda>_.
     bindR (validate_decision_against_policy (ad_decision decision) policy) (\<lambda>_.
     if ac_signer_principal_id current = ad_signer_principal_id decision \<or>
        sc_key_id (ac_signed_checkpoint current) = sd_key_id (ad_signed_decision decision)
     then Inl (IntegrityError ''principal_separation_violation'' ''one principal or key cannot decide and checkpoint the same transition'')
     else bindR (reauthenticate_previous X policy ''global'' previous_global previous_global_trust) (\<lambda>previous_global.
     bindR (reauthenticate_previous X policy ''mission'' previous_mission previous_mission_trust) (\<lambda>previous_mission.
     bindR (require_checkpoint_projection_consistency X previous_global previous_mission) (\<lambda>_.
     bindR (snapshot_head_floor X external_floor) (\<lambda>floor.
     let c = ac_checkpoint current; d = ad_decision decision in
     bindR (validate_checkpoint_decision_semantics X c decision) (\<lambda>_.
     bindR (floor_scope floor c) (\<lambda>_.
     bindR (head_checkpoint_genesis_id X (JStr (hc_service_instance_id c)) (JStr (hc_environment_id c))) (\<lambda>global_genesis.
     bindR (global_continuity X c d global_genesis previous_global) (\<lambda>_.
     bindR (validate_decision_mission_predecessor X c d previous_mission) (\<lambda>_.
     bindR (mission_checkpoint_genesis_id X (JStr (hc_service_instance_id c)) (JStr (hc_environment_id c)) (JStr (hc_mission_id c))) (\<lambda>mission_genesis.
     bindR (mission_continuity c mission_genesis previous_mission) (\<lambda>_.
     reconcile_floor X floor current global_genesis mission_genesis previous_global previous_mission))))))))))))))))"

definition require_external_floor_is_current ::
  "externals \<Rightarrow> authenticated_checkpoint \<Rightarrow> integrity_trust_store \<Rightarrow> head_floor \<Rightarrow> validation_policy \<Rightarrow> exn + unit" where
  "require_external_floor_is_current X checkpoint trust external_floor policy =
     bindR (snapshot_validation_policy policy) (\<lambda>policy.
     bindR (reauthenticate_checkpoint X checkpoint trust) (\<lambda>a.
     bindR (validate_checkpoint_against_policy (ac_checkpoint a) policy) (\<lambda>_.
     bindR (snapshot_head_floor X external_floor) (\<lambda>floor.
     bindR (floor_scope floor (ac_checkpoint a)) (\<lambda>_.
     bindR (global_floor_matches_checkpoint X floor a) (\<lambda>g.
     bindR (if g then mission_floor_matches_checkpoint X floor a else Inr False) (\<lambda>m.
     if \<not> m
     then Inl (IntegrityError ''external_head_floor_not_current'' ''external global and mission floors must both name the exact current checkpoint'')
     else Inr ())))))))"

section \<open>What the checks establish\<close>

definition extends_global :: "externals \<Rightarrow> head_checkpoint \<Rightarrow> integrity_decision \<Rightarrow> authenticated_checkpoint option \<Rightarrow> bool" where
  "extends_global X c d previous_global \<longleftrightarrow> (case previous_global of
     None \<Rightarrow> hc_instance_sequence c = 0 \<and>
       head_checkpoint_genesis_id X (JStr (hc_service_instance_id c)) (JStr (hc_environment_id c)) = Inr (hc_previous_checkpoint_id c)
   | Some g \<Rightarrow> hc_service_instance_id c = hc_service_instance_id (ac_checkpoint g) \<and> hc_environment_id c = hc_environment_id (ac_checkpoint g) \<and>
       hc_instance_sequence c = hc_instance_sequence (ac_checkpoint g) + 1 \<and>
       names_checkpoint X (hc_previous_checkpoint_id c) (hc_previous_checkpoint_attestation_id c)
         (hc_previous_checkpoint_principal_id c) (hc_previous_checkpoint_trust_snapshot_id c) g \<and>
       hc_time_upper_bound (ac_checkpoint g) \<le> dc_time_lower_bound d)"

definition extends_mission :: "externals \<Rightarrow> head_checkpoint \<Rightarrow> integrity_decision \<Rightarrow> authenticated_checkpoint option \<Rightarrow> bool" where
  "extends_mission X c d previous_mission \<longleftrightarrow> (case previous_mission of
     None \<Rightarrow> dc_prior_event_seq d = - 1 \<and>
       mission_checkpoint_genesis_id X (JStr (hc_service_instance_id c)) (JStr (hc_environment_id c)) (JStr (hc_mission_id c)) =
         Inr (hc_previous_mission_checkpoint_id c)
   | Some m \<Rightarrow> hc_service_instance_id c = hc_service_instance_id (ac_checkpoint m) \<and> hc_environment_id c = hc_environment_id (ac_checkpoint m) \<and>
       hc_mission_id (ac_checkpoint m) = hc_mission_id c \<and> hc_authority_id (ac_checkpoint m) = hc_authority_id c \<and>
       hc_target_id (ac_checkpoint m) = hc_target_id c \<and> dc_prior_event_seq d = hc_event_seq (ac_checkpoint m) \<and>
       dc_prior_event_digest d = hc_event_digest (ac_checkpoint m) \<and>
       names_checkpoint X (hc_previous_mission_checkpoint_id c) (hc_previous_mission_checkpoint_attestation_id c)
         (hc_previous_mission_checkpoint_principal_id c) (hc_previous_mission_checkpoint_trust_snapshot_id c) m)"

text \<open>The floor names one head in both projections; \<open>None\<close> is the genesis.\<close>

definition floor_names_global :: "externals \<Rightarrow> head_floor \<Rightarrow> authenticated_checkpoint option \<Rightarrow> bool" where
  "floor_names_global X f head \<longleftrightarrow> (case head of
     None \<Rightarrow> hf_instance_sequence f = - 1 \<and>
       head_checkpoint_genesis_id X (JStr (hf_service_instance_id f)) (JStr (hf_environment_id f)) = Inr (hf_checkpoint_id f)
   | Some a \<Rightarrow> hf_instance_sequence f = hc_instance_sequence (ac_checkpoint a) \<and>
       names_checkpoint X (hf_checkpoint_id f) (hf_checkpoint_attestation_id f) (hf_checkpoint_principal_id f) (hf_checkpoint_trust_snapshot_id f) a)"

definition floor_names_mission :: "externals \<Rightarrow> head_floor \<Rightarrow> authenticated_checkpoint option \<Rightarrow> bool" where
  "floor_names_mission X f head \<longleftrightarrow> (case head of
     None \<Rightarrow> hf_mission_event_seq f = - 1 \<and>
       mission_checkpoint_genesis_id X (JStr (hf_service_instance_id f)) (JStr (hf_environment_id f)) (JStr (hf_mission_id f)) =
         Inr (hf_mission_checkpoint_id f)
   | Some a \<Rightarrow> hf_mission_event_seq f = hc_event_seq (ac_checkpoint a) \<and>
       names_checkpoint X (hf_mission_checkpoint_id f) (hf_mission_checkpoint_attestation_id f) (hf_mission_checkpoint_principal_id f)
         (hf_mission_checkpoint_trust_snapshot_id f) a)"

lemma global_floor_matches_iff: "global_floor_matches_checkpoint X f a = Inr True \<longleftrightarrow> floor_names_global X f (Some a)"
  by (auto simp: global_floor_matches_checkpoint_def floor_names_global_def names_checkpoint_def bindR_eq_Inr)

lemma mission_floor_matches_iff: "mission_floor_matches_checkpoint X f a = Inr True \<longleftrightarrow> floor_names_mission X f (Some a)"
  by (auto simp: mission_floor_matches_checkpoint_def floor_names_mission_def names_checkpoint_def bindR_eq_Inr)

lemma reauthenticate_previousD:
  assumes "reauthenticate_previous X policy label previous trust = Inr r" and "policy_ok policy"
  shows "r = previous" and "previous = Some p \<Longrightarrow> \<exists>t. trust = Some t \<and> authentic_checkpoint X t p \<and> checkpoint_fits policy (ac_checkpoint p)"
  using assms by (auto simp: reauthenticate_previous_def bindR_eq_Inr reauthenticate_checkpoint_iff checkpoint_policy_iff split: option.splits if_splits)

lemma global_continuity_iff:
  assumes "head_checkpoint_genesis_id X (JStr (hc_service_instance_id c)) (JStr (hc_environment_id c)) = Inr genesis"
  shows "global_continuity X c d genesis previous = Inr u \<longleftrightarrow> extends_global X c d previous"
proof (cases previous)
  case None
  then show ?thesis using assms by (auto simp: global_continuity_def extends_global_def requireR_def)
next
  case (Some g)
  have "global_continuity X c d genesis (Some g) = Inr u \<longleftrightarrow>
      hc_service_instance_id c = hc_service_instance_id (ac_checkpoint g) \<and> hc_environment_id c = hc_environment_id (ac_checkpoint g) \<and>
      hc_instance_sequence c = hc_instance_sequence (ac_checkpoint g) + 1 \<and>
      checkpoint_reference_matches X (hc_previous_checkpoint_id c) (hc_previous_checkpoint_attestation_id c)
         (hc_previous_checkpoint_principal_id c) (hc_previous_checkpoint_trust_snapshot_id c) g = Inr True \<and>
      hc_time_upper_bound (ac_checkpoint g) \<le> dc_time_lower_bound d"
    by (auto simp: global_continuity_def Let_def require_checkpoint_scope_def require_decision_follows_checkpoint_def result_simps not_less)
  then show ?thesis using Some by (simp add: extends_global_def reference_matches_iff)
qed

lemma mission_predecessor_iff:
  "validate_decision_mission_predecessor X c d previous = Inr u \<longleftrightarrow> extends_mission X c d previous \<and>
     (\<exists>g. mission_checkpoint_genesis_id X (JStr (hc_service_instance_id c)) (JStr (hc_environment_id c)) (JStr (hc_mission_id c)) = Inr g) \<and>
     (previous \<noteq> None \<longrightarrow> dc_prior_event_seq d \<noteq> - 1)"
proof (cases previous)
  case None
  then show ?thesis by (auto simp: validate_decision_mission_predecessor_def extends_mission_def bindR_eq_Inr requireR_def split: if_splits)
next
  case (Some m)
  have "validate_decision_mission_predecessor X c d (Some m) = Inr u \<longleftrightarrow> dc_prior_event_seq d \<noteq> - 1 \<and>
     (\<exists>g. mission_checkpoint_genesis_id X (JStr (hc_service_instance_id c)) (JStr (hc_environment_id c)) (JStr (hc_mission_id c)) = Inr g) \<and>
     hc_service_instance_id c = hc_service_instance_id (ac_checkpoint m) \<and> hc_environment_id c = hc_environment_id (ac_checkpoint m) \<and>
     hc_mission_id (ac_checkpoint m) = hc_mission_id c \<and> hc_authority_id (ac_checkpoint m) = hc_authority_id c \<and>
     hc_target_id (ac_checkpoint m) = hc_target_id c \<and> dc_prior_event_seq d = hc_event_seq (ac_checkpoint m) \<and>
     dc_prior_event_digest d = hc_event_digest (ac_checkpoint m) \<and>
     checkpoint_reference_matches X (hc_previous_mission_checkpoint_id c) (hc_previous_mission_checkpoint_attestation_id c)
       (hc_previous_mission_checkpoint_principal_id c) (hc_previous_mission_checkpoint_trust_snapshot_id c) m = Inr True"
    by (auto simp: validate_decision_mission_predecessor_def Let_def require_checkpoint_scope_def result_simps requireR_def split: if_splits)
  then show ?thesis using Some by (auto simp: extends_mission_def reference_matches_iff)
qed

lemma reconcile_floorD:
  assumes "reconcile_floor X f current gg mg pg pm = Inr u"
    and "head_checkpoint_genesis_id X (JStr (hf_service_instance_id f)) (JStr (hf_environment_id f)) = Inr gg"
    and "mission_checkpoint_genesis_id X (JStr (hf_service_instance_id f)) (JStr (hf_environment_id f)) (JStr (hf_mission_id f)) = Inr mg"
  shows "floor_names_global X f (Some current) \<and> floor_names_mission X f (Some current) \<or> floor_names_global X f pg \<and> floor_names_mission X f pm"
proof -
  let ?g = "case pg of None \<Rightarrow> Inr (hf_instance_sequence f = - 1 \<and> hf_checkpoint_id f = gg) | Some g \<Rightarrow> global_floor_matches_checkpoint X f g"
  let ?m = "case pm of None \<Rightarrow> Inr (hf_mission_event_seq f = - 1 \<and> hf_mission_checkpoint_id f = mg) | Some m \<Rightarrow> mission_floor_matches_checkpoint X f m"
  from assms(1) obtain gc mc gp mp where "global_floor_matches_checkpoint X f current = Inr gc" "mission_floor_matches_checkpoint X f current = Inr mc"
    "?g = Inr gp" "?m = Inr mp" and or: "gc \<and> mc \<or> gp \<and> mp"
    unfolding reconcile_floor_def bindR_eq_Inr Let_def by (auto split: if_splits)
  moreover have "gp \<Longrightarrow> floor_names_global X f pg" if "?g = Inr gp"
    using that assms(2) global_floor_matches_iff by (cases pg) (auto simp: floor_names_global_def)
  moreover have "mp \<Longrightarrow> floor_names_mission X f pm" if "?m = Inr mp"
    using that assms(3) mission_floor_matches_iff by (cases pm) (auto simp: floor_names_mission_def)
  ultimately show ?thesis using global_floor_matches_iff mission_floor_matches_iff by auto
qed

lemma checkpoint_advanceD:
  assumes "validate_checkpoint_advance X current ct decision dt pg pgt pm pmt f policy = Inr ()"
  shows "authentic_checkpoint X ct current" and "authentic_decision X dt decision" and "policy_ok policy"
    and "checkpoint_fits policy (ac_checkpoint current)" and "decision_fits policy (ad_decision decision)"
    and "ac_signer_principal_id current \<noteq> ad_signer_principal_id decision"
    and "sc_key_id (ac_signed_checkpoint current) \<noteq> sd_key_id (ad_signed_decision decision)"
    and "checkpoint_of_decision X (ac_checkpoint current) decision" and "head_floor_ok X f"
    and "pg = Some g \<Longrightarrow> \<exists>t. pgt = Some t \<and> authentic_checkpoint X t g" and "pm = Some m \<Longrightarrow> \<exists>t. pmt = Some t \<and> authentic_checkpoint X t m"
    and "extends_global X (ac_checkpoint current) (ad_decision decision) pg" and "extends_mission X (ac_checkpoint current) (ad_decision decision) pm"
    and "floor_scope f (ac_checkpoint current) = Inr ()"
    and "floor_names_global X f (Some current) \<and> floor_names_mission X f (Some current) \<or> floor_names_global X f pg \<and> floor_names_mission X f pm"
proof -
  let ?c = "ac_checkpoint current" and ?d = "ad_decision decision"
  from assms obtain p g' m' gg mg where pol: "snapshot_validation_policy policy = Inr p"
    and au: "authentic_checkpoint X ct current" "authentic_decision X dt decision"
    and fit: "validate_checkpoint_against_policy ?c p = Inr ()" "validate_decision_against_policy ?d p = Inr ()"
    and sep: "ac_signer_principal_id current \<noteq> ad_signer_principal_id decision" "sc_key_id (ac_signed_checkpoint current) \<noteq> sd_key_id (ad_signed_decision decision)"
    and prev: "reauthenticate_previous X p ''global'' pg pgt = Inr g'" "reauthenticate_previous X p ''mission'' pm pmt = Inr m'"
    and fl: "head_floor_ok X f" and sem: "validate_checkpoint_decision_semantics X ?c decision = Inr ()" and sc: "floor_scope f ?c = Inr ()"
    and gg: "head_checkpoint_genesis_id X (JStr (hc_service_instance_id ?c)) (JStr (hc_environment_id ?c)) = Inr gg"
    and gc: "global_continuity X ?c ?d gg g' = Inr ()" and mp: "validate_decision_mission_predecessor X ?c ?d m' = Inr ()"
    and mg: "mission_checkpoint_genesis_id X (JStr (hc_service_instance_id ?c)) (JStr (hc_environment_id ?c)) (JStr (hc_mission_id ?c)) = Inr mg"
    and rec: "reconcile_floor X f current gg mg g' m' = Inr ()"
    unfolding validate_checkpoint_advance_def bindR_eq_Inr if_raise_eq_Inr reauthenticate_checkpoint_iff reauthenticate_decision_iff
      snapshot_head_floor_iff Let_def by auto
  note ps = policy_snapshot [OF pol]
  note g = reauthenticate_previousD [OF prev(1) ps(2)] and m = reauthenticate_previousD [OF prev(2) ps(2)]
  from sc have s: "hf_service_instance_id f = hc_service_instance_id ?c" "hf_environment_id f = hc_environment_id ?c" "hf_mission_id f = hc_mission_id ?c"
    by (simp_all add: floor_scope_def requireR_eq_Inr)
  show "authentic_checkpoint X ct current" "authentic_decision X dt decision" by (rule au)+
  show "policy_ok policy" by (rule ps(1))
  show "checkpoint_fits policy ?c" "decision_fits policy ?d"
    using fit checkpoint_policy_iff [OF ps(2)] decision_policy_iff [OF ps(2)] ps(3,4) by simp_all
  show "ac_signer_principal_id current \<noteq> ad_signer_principal_id decision" "sc_key_id (ac_signed_checkpoint current) \<noteq> sd_key_id (ad_signed_decision decision)"
    by (rule sep)+
  show "checkpoint_of_decision X ?c decision" using sem by (simp add: checkpoint_semantics_iff)
  show "head_floor_ok X f" "floor_scope f ?c = Inr ()" by (fact fl, fact sc)
  show "\<exists>t. pgt = Some t \<and> authentic_checkpoint X t g" if "pg = Some g" using g(2) that by blast
  show "\<exists>t. pmt = Some t \<and> authentic_checkpoint X t m" if "pm = Some m" using m(2) that by blast
  show "extends_global X ?c ?d pg" using gc g(1) by (simp add: global_continuity_iff [OF gg])
  show "extends_mission X ?c ?d pm" using mp m(1) by (simp add: mission_predecessor_iff)
  show "floor_names_global X f (Some current) \<and> floor_names_mission X f (Some current) \<or> floor_names_global X f pg \<and> floor_names_mission X f pm"
    using reconcile_floorD [OF rec] gg mg s g(1) m(1) by simp
qed

end
