(* ===== verification/Integrity_Properties.thy ===== *)
theory Integrity_Properties
  imports Checkpoint_Chain
begin

text \<open>
  The properties of \<open>src/etzio/integrity_v1.py\<close>: signed wires, authentication, trusted time, revocation history, the checkpoint
  catalog and its external floor.
\<close>

section \<open>The catalog of accepted checkpoints\<close>

text \<open>
  The catalog holds the accepted checkpoints with their decisions. \<open>validate_checkpoint_advance\<close> is called with its last entry as the
  global predecessor and the last entry of the mission as the mission predecessor.
\<close>

type_synonym catalog = "(authenticated_checkpoint \<times> authenticated_decision) list"

abbreviation entry_of :: "authenticated_checkpoint \<times> authenticated_decision \<Rightarrow> head_checkpoint" where
  "entry_of e \<equiv> ac_checkpoint (fst e)"

definition last_checkpoint :: "catalog \<Rightarrow> authenticated_checkpoint option" where
  "last_checkpoint cat = (if cat = [] then None else Some (fst (last cat)))"

definition of_mission :: "pystr \<Rightarrow> catalog \<Rightarrow> catalog" where
  "of_mission m cat = filter (\<lambda>e. hc_mission_id (entry_of e) = m) cat"

inductive catalog_run :: "externals \<Rightarrow> catalog \<Rightarrow> bool" for X where
  empty: "catalog_run X []"
| advance: "catalog_run X cat \<Longrightarrow>
    validate_checkpoint_advance X c ct d dt (last_checkpoint cat) gt (last_checkpoint (of_mission (hc_mission_id (ac_checkpoint c)) cat)) mt
      external_floor policy = Inr () \<Longrightarrow>
    catalog_run X (cat @ [(c, d)])"

text \<open>The two chains, as invariants of a list of entries.\<close>

definition global_chain :: "externals \<Rightarrow> catalog \<Rightarrow> bool" where
  "global_chain X cat \<longleftrightarrow> (\<forall>i < length cat. hc_instance_sequence (entry_of (cat ! i)) = int i \<and>
     extends_global X (entry_of (cat ! i)) (ad_decision (snd (cat ! i))) (if i = 0 then None else Some (fst (cat ! (i - 1)))))"

definition mission_chain :: "externals \<Rightarrow> catalog \<Rightarrow> bool" where
  "mission_chain X cat \<longleftrightarrow> (\<forall>i < length cat. hc_event_seq (entry_of (cat ! i)) = int i \<and>
     extends_mission X (entry_of (cat ! i)) (ad_decision (snd (cat ! i))) (if i = 0 then None else Some (fst (cat ! (i - 1)))))"

definition entry_ok :: "externals \<Rightarrow> authenticated_checkpoint \<times> authenticated_decision \<Rightarrow> bool" where
  "entry_ok X e \<longleftrightarrow> (\<exists>t t'. authentic_checkpoint X t (fst e) \<and> authentic_decision X t' (snd e)) \<and> checkpoint_of_decision X (entry_of e) (snd e) \<and>
     ac_signer_principal_id (fst e) \<noteq> ad_signer_principal_id (snd e) \<and> sc_key_id (ac_signed_checkpoint (fst e)) \<noteq> sd_key_id (ad_signed_decision (snd e))"

lemma last_checkpoint_nth: "last_checkpoint cat = (if length cat = 0 then None else Some (fst (cat ! (length cat - 1))))"
  by (simp add: last_checkpoint_def last_conv_nth)

lemma chain_snoc:
  assumes "\<forall>i < length cat. P i (cat ! i) (if i = 0 then None else Some (fst (cat ! (i - 1))))" and "P (length cat) e (last_checkpoint cat)"
  shows "\<forall>i < length (cat @ [e]). P i ((cat @ [e]) ! i) (if i = 0 then None else Some (fst ((cat @ [e]) ! (i - 1))))"
  using assms by (auto simp: nth_append less_Suc_eq last_checkpoint_nth split: if_splits)

lemma extends_global_sequence:
  assumes "global_chain X cat" and "extends_global X c d (last_checkpoint cat)"
  shows "hc_instance_sequence c = int (length cat)"
proof (cases "length cat")
  case 0
  then show ?thesis using assms(2) by (simp add: extends_global_def last_checkpoint_nth)
next
  case (Suc n)
  then have "hc_instance_sequence (entry_of (cat ! n)) = int n" using assms(1) by (simp add: global_chain_def)
  then show ?thesis using assms(2) Suc by (simp add: extends_global_def last_checkpoint_nth)
qed

lemma extends_mission_sequence:
  assumes "mission_chain X cat" and "extends_mission X c d (last_checkpoint cat)" and "hc_event_seq c = dc_prior_event_seq d + 1"
  shows "hc_event_seq c = int (length cat)"
proof (cases "length cat")
  case 0
  then show ?thesis using assms(2,3) by (simp add: extends_mission_def last_checkpoint_nth)
next
  case (Suc n)
  then have "hc_event_seq (entry_of (cat ! n)) = int n" using assms(1) by (simp add: mission_chain_def)
  then show ?thesis using assms(2,3) Suc by (simp add: extends_mission_def last_checkpoint_nth)
qed

lemma of_mission_snoc: "of_mission m (cat @ [e]) = of_mission m cat @ (if hc_mission_id (entry_of e) = m then [e] else [])"
  by (simp add: of_mission_def)

lemma catalog_invariant:
  assumes "catalog_run X cat"
  shows "global_chain X cat \<and> (\<forall>m. mission_chain X (of_mission m cat)) \<and> (\<forall>e \<in> set cat. entry_ok X e)"
  using assms
proof induction
  case empty
  show ?case by (simp add: global_chain_def mission_chain_def of_mission_def)
next
  case (advance cat c ct d dt gt mt f policy)
  note a = checkpoint_advanceD [OF advance(2)]
  have g: "global_chain X cat" and m: "\<And>m. mission_chain X (of_mission m cat)" and e: "\<forall>e \<in> set cat. entry_ok X e"
    using advance.IH by blast+
  let ?P = "\<lambda>i e p. hc_instance_sequence (entry_of e) = int i \<and> extends_global X (entry_of e) (ad_decision (snd e)) p"
  let ?Q = "\<lambda>i e p. hc_event_seq (entry_of e) = int i \<and> extends_mission X (entry_of e) (ad_decision (snd e)) p"
  have "global_chain X (cat @ [(c, d)])" unfolding global_chain_def
    by (rule chain_snoc [where P = ?P]) (use g a(12) extends_global_sequence [OF g a(12)] in \<open>auto simp: global_chain_def\<close>)
  moreover have "mission_chain X (of_mission k (cat @ [(c, d)]))" for k
  proof (cases "hc_mission_id (ac_checkpoint c) = k")
    case True
    have s: "hc_event_seq (ac_checkpoint c) = dc_prior_event_seq (ad_decision d) + 1" using a(8) by (simp add: checkpoint_of_decision_def Let_def)
    note x = a(13) [unfolded True]
    show ?thesis unfolding of_mission_snoc mission_chain_def using True
      chain_snoc [where P = ?Q and cat = "of_mission k cat" and e = "(c, d)"] m [of k] x extends_mission_sequence [OF m [of k] x s]
      by (simp add: mission_chain_def)
  next
    case False
    then show ?thesis using m [of k] by (simp add: of_mission_snoc)
  qed
  moreover have "entry_ok X (c, d)" using a(1,2,6,7,8) by (auto simp: entry_ok_def)
  ultimately show ?case using e by simp
qed

text \<open>Time does not run backwards along the global chain.\<close>

lemma catalog_times:
  assumes "catalog_run X cat" and "j < i" and "i < length cat"
  shows "hc_time_upper_bound (entry_of (cat ! j)) \<le> dc_time_lower_bound (ad_decision (snd (cat ! i)))"
  using assms(2,3)
proof (induction i)
  case (Suc i)
  note inv = catalog_invariant [OF assms(1)]
  have x: "extends_global X (entry_of (cat ! Suc i)) (ad_decision (snd (cat ! Suc i))) (Some (fst (cat ! i)))"
    using inv Suc.prems(2) by (auto simp: global_chain_def)
  then have s: "hc_time_upper_bound (entry_of (cat ! i)) \<le> dc_time_lower_bound (ad_decision (snd (cat ! Suc i)))" by (simp add: extends_global_def)
  show ?case
  proof (cases "j = i")
    case True
    then show ?thesis using s by simp
  next
    case False
    then have "hc_time_upper_bound (entry_of (cat ! j)) \<le> dc_time_lower_bound (ad_decision (snd (cat ! i)))" using Suc by simp
    moreover have "entry_ok X (cat ! i)" using inv Suc.prems(2) by simp
    then obtain t t' where "authentic_checkpoint X t (fst (cat ! i))" "authentic_decision X t' (snd (cat ! i))"
      and b: "checkpoint_of_decision X (entry_of (cat ! i)) (snd (cat ! i))" by (auto simp: entry_ok_def)
    then have "dc_time_lower_bound (ad_decision (snd (cat ! i))) \<le> dc_time_upper_bound (ad_decision (snd (cat ! i)))"
      "hc_time_lower_bound (entry_of (cat ! i)) \<le> hc_time_upper_bound (entry_of (cat ! i))"
      using authentic_decision_interval authentic_checkpoint_interval by blast+
    ultimately show ?thesis using s b by (simp add: checkpoint_of_decision_def Let_def)
  qed
qed simp

section \<open>Properties\<close>

text \<open>
  C12: the catalog is one hash-linked, gapless chain. In every run of accepted advances, the entry at position \<open>i\<close> has the sequence number \<open>i\<close>,
  names the entry before it by identity, attestation, signer and trust snapshot (the first one names the genesis), is the checkpoint
  its decision announces, signed by another principal with another key, and its decision lies wholly after every earlier checkpoint.
\<close>

theorem catalog_is_chain:
  assumes "catalog_run X cat" and "i < length cat"
  shows "hc_instance_sequence (entry_of (cat ! i)) = int i \<and>
    extends_global X (entry_of (cat ! i)) (ad_decision (snd (cat ! i))) (if i = 0 then None else Some (fst (cat ! (i - 1)))) \<and>
    entry_ok X (cat ! i) \<and> (\<forall>j < i. hc_time_upper_bound (entry_of (cat ! j)) \<le> dc_time_lower_bound (ad_decision (snd (cat ! i))))"
  using catalog_invariant [OF assms(1)] catalog_times [OF assms(1)] assms(2) by (auto simp: global_chain_def)

text \<open>
  the entries of one mission are the mission's own chain. The \<open>i\<close>-th of them covers event \<open>i\<close>, names its predecessor in the mission
  completely, and its decision builds on exactly the event digest that the predecessor recorded.
\<close>

theorem mission_is_chain:
  assumes "catalog_run X cat" and "es = of_mission m cat" and "i < length es"
  shows "hc_event_seq (entry_of (es ! i)) = int i \<and>
    extends_mission X (entry_of (es ! i)) (ad_decision (snd (es ! i))) (if i = 0 then None else Some (fst (es ! (i - 1)))) \<and>
    (\<forall>j. Suc j = i \<longrightarrow> dc_prior_event_digest (ad_decision (snd (es ! i))) = hc_event_digest (entry_of (es ! j)) \<and>
       hc_authority_id (entry_of (es ! i)) = hc_authority_id (entry_of (es ! j)) \<and> hc_target_id (entry_of (es ! i)) = hc_target_id (entry_of (es ! j)))"
proof -
  have m: "mission_chain X es" using catalog_invariant [OF assms(1)] assms(2) by simp
  then have "extends_mission X (entry_of (es ! i)) (ad_decision (snd (es ! i))) (if i = 0 then None else Some (fst (es ! (i - 1))))"
    "hc_event_seq (entry_of (es ! i)) = int i" using assms(3) by (auto simp: mission_chain_def)
  then show ?thesis by (auto simp: extends_mission_def)
qed

text \<open>
  C13: an advance is accepted only against a floor that names exactly the new checkpoint or exactly its two predecessors, in both
  projections with their complete provenance. So a floor with a later sequence, or with another identity at the same sequence, is refused.
\<close>

theorem advance_floor_exact:
  assumes "validate_checkpoint_advance X c ct d dt pg gt pm mt f policy = Inr ()"
  shows "(floor_names_global X f (Some c) \<and> floor_names_mission X f (Some c) \<or> floor_names_global X f pg \<and> floor_names_mission X f pm) \<and>
    hf_instance_sequence f \<in> {hc_instance_sequence (ac_checkpoint c), hc_instance_sequence (ac_checkpoint c) - 1} \<and>
    hf_mission_event_seq f \<in> {hc_event_seq (ac_checkpoint c), hc_event_seq (ac_checkpoint c) - 1} \<and>
    (hf_instance_sequence f = hc_instance_sequence (ac_checkpoint c) \<longrightarrow> hf_checkpoint_id f = hc_checkpoint_id (ac_checkpoint c) \<and>
       hf_mission_checkpoint_id f = hc_checkpoint_id (ac_checkpoint c))"
proof -
  note a = checkpoint_advanceD [OF assms]
  have s: "hc_event_seq (ac_checkpoint c) = dc_prior_event_seq (ad_decision d) + 1" using a(8) by (simp add: checkpoint_of_decision_def Let_def)
  have g: "hf_instance_sequence f = hc_instance_sequence (ac_checkpoint c) - 1" if "floor_names_global X f pg"
    using that a(12) by (cases pg) (auto simp: floor_names_global_def extends_global_def)
  have m: "hf_mission_event_seq f = hc_event_seq (ac_checkpoint c) - 1" if "floor_names_mission X f pm"
    using that a(13) s by (cases pm) (auto simp: floor_names_mission_def extends_mission_def)
  from a(15) show ?thesis
  proof
    assume "floor_names_global X f (Some c) \<and> floor_names_mission X f (Some c)"
    then show ?thesis by (auto simp: floor_names_global_def floor_names_mission_def names_checkpoint_def)
  next
    assume "floor_names_global X f pg \<and> floor_names_mission X f pm"
    then show ?thesis using g m by auto
  qed
qed

section \<open>Finality\<close>

lemma floor_currentD:
  assumes "require_external_floor_is_current X a t f policy = Inr ()"
  shows "authentic_checkpoint X t a" and "policy_ok policy" and "checkpoint_fits policy (ac_checkpoint a)" and "head_floor_ok X f"
    and "floor_scope f (ac_checkpoint a) = Inr ()" and "floor_names_global X f (Some a)" and "floor_names_mission X f (Some a)"
proof -
  from assms obtain p g m where pol: "snapshot_validation_policy policy = Inr p" and au: "authentic_checkpoint X t a"
    and fit: "validate_checkpoint_against_policy (ac_checkpoint a) p = Inr ()" and fl: "head_floor_ok X f" "floor_scope f (ac_checkpoint a) = Inr ()"
    and g: "global_floor_matches_checkpoint X f a = Inr g" and m: "(if g then mission_floor_matches_checkpoint X f a else Inr False) = Inr m" and "m"
    unfolding require_external_floor_is_current_def bindR_eq_Inr if_raise_eq_Inr reauthenticate_checkpoint_iff snapshot_head_floor_iff by auto
  note ps = policy_snapshot [OF pol]
  show "authentic_checkpoint X t a" "head_floor_ok X f" "floor_scope f (ac_checkpoint a) = Inr ()" "policy_ok policy" using au fl ps(1) by simp_all
  show "checkpoint_fits policy (ac_checkpoint a)" using fit checkpoint_policy_iff [OF ps(2)] ps(4) by simp
  have "g" using m \<open>m\<close> by (cases g) auto
  then show "floor_names_global X f (Some a)" "floor_names_mission X f (Some a)"
    using g m \<open>m\<close> global_floor_matches_iff mission_floor_matches_iff by auto
qed

text \<open>The messages that the attestation identity of a signed checkpoint hashes: its wire, and the body with the digest of the wire.\<close>

definition wire_digest_body :: "externals \<Rightarrow> bytes \<Rightarrow> json" where
  "wire_digest_body X w = JObj [(''wire_digest'', JStr (''sha256:'' @ hex_bytes (sha256 X w)))]"

definition attestation_wires :: "externals \<Rightarrow> signed_checkpoint list \<Rightarrow> bytes set" where
  "attestation_wires X ss = {w. \<exists>s \<in> set ss. signed_checkpoint_to_bytes X s = Inr w}"

definition attestation_bodies :: "externals \<Rightarrow> signed_checkpoint list \<Rightarrow> bytes set" where
  "attestation_bodies X ss = {content_preimage ''signed_head_checkpoint_attestation'' p | p w.
     w \<in> attestation_wires X ss \<and> canonical_dumps X (wire_digest_body X w) = Inr p}"

lemma attestation_idD:
  assumes "signed_checkpoint_attestation_id X s = Inr i" and "s \<in> set ss"
  obtains w p where "signed_checkpoint_to_bytes X s = Inr w" and "canonical_dumps X (wire_digest_body X w) = Inr p"
    and "i = ''sha256:'' @ hex_bytes (sha256 X (content_preimage ''signed_head_checkpoint_attestation'' p))"
    and "snapshot_signed_checkpoint s = Inr s" and "w \<in> attestation_wires X ss"
    and "content_preimage ''signed_head_checkpoint_attestation'' p \<in> attestation_bodies X ss"
proof -
  from assms(1) obtain s' w where s: "snapshot_signed_checkpoint s = Inr s'" and w: "signed_checkpoint_to_bytes X s' = Inr w"
    and i: "signed_attestation_id X ''signed_head_checkpoint_attestation'' w = Inr i"
    by (auto simp: signed_checkpoint_attestation_id_def bindR_eq_Inr rewrap_eq_Inr)
  have s': "s' = s" using s by (simp add: snapshot_signed_checkpoint_eq_Inr)
  from i obtain p where p: "canonical_dumps X (wire_digest_body X w) = Inr p"
    "i = ''sha256:'' @ hex_bytes (sha256 X (content_preimage ''signed_head_checkpoint_attestation'' p))"
    by (auto simp: signed_attestation_id_def wire_digest_body_def content_id_eq_Inr)
  have "w \<in> attestation_wires X ss" using w s' assms(2) by (auto simp: attestation_wires_def)
  then show thesis by (intro that [of w p]) (use s w s' p in \<open>auto simp: attestation_bodies_def\<close>)
qed

lemma attestation_id_inject:
  assumes "signed_checkpoint_attestation_id X s = Inr i" and "signed_checkpoint_attestation_id X s' = Inr i"
    and "inj_on (sha256 X) (attestation_wires X [s, s'])" and "inj_on (sha256 X) (attestation_bodies X [s, s'])"
  shows "s = s'"
proof -
  let ?k = "''signed_head_checkpoint_attestation''"
  obtain w p where a: "signed_checkpoint_to_bytes X s = Inr w" "canonical_dumps X (wire_digest_body X w) = Inr p"
    "i = ''sha256:'' @ hex_bytes (sha256 X (content_preimage ?k p))" "snapshot_signed_checkpoint s = Inr s"
    "w \<in> attestation_wires X [s, s']" "content_preimage ?k p \<in> attestation_bodies X [s, s']"
    by (rule attestation_idD [OF assms(1), of "[s, s']"]) auto
  obtain w' p' where b: "signed_checkpoint_to_bytes X s' = Inr w'" "canonical_dumps X (wire_digest_body X w') = Inr p'"
    "i = ''sha256:'' @ hex_bytes (sha256 X (content_preimage ?k p'))" "snapshot_signed_checkpoint s' = Inr s'"
    "w' \<in> attestation_wires X [s, s']" "content_preimage ?k p' \<in> attestation_bodies X [s, s']"
    by (rule attestation_idD [OF assms(2), of "[s, s']"]) auto
  have "sha256 X (content_preimage ?k p) = sha256 X (content_preimage ?k p')" using a(3) b(3) hex_bytes_inject by simp
  then have "content_preimage ?k p = content_preimage ?k p'" using inj_onD [OF assms(4)] a(6) b(6) by blast
  then have "p = p'" by (simp add: content_preimage_def)
  moreover have "dict_ok (wire_digest_body X w)" "dict_ok (wire_digest_body X w')" by (simp_all add: wire_digest_body_def)
  ultimately have "thaw_json X (wire_digest_body X w) = thaw_json X (wire_digest_body X w')" using canonical_dumps_injective a(2) b(2) by metis
  moreover have "thaw_json X (wire_digest_body X w) = Inr (wire_digest_body X w)" "thaw_json X (wire_digest_body X w') = Inr (wire_digest_body X w')"
    using a(2) b(2) by (auto simp: canonical_dumps_eq_Inr thaw_json_eq_Inr wire_digest_body_def)
  ultimately have "sha256 X w = sha256 X w'" using hex_bytes_inject by (auto simp: wire_digest_body_def)
  then have "w = w'" using inj_onD [OF assms(3)] a(5) b(5) by blast
  then show "s = s'"
    using signed_checkpoint.encode_injective [of s s' X w] a(1,4) b(1,4) by (simp add: snapshot_signed_checkpoint_eq_Inr)
qed

text \<open>
  one external floor makes at most one checkpoint final. If the finality predicate accepts two authenticated checkpoints under the same
  floor, they are the same value, signature included, as long as SHA-256 does not collide on the two wires and their identity bodies.
\<close>

theorem final_checkpoint_unique:
  assumes "require_external_floor_is_current X a t f policy = Inr ()" and "require_external_floor_is_current X b t' f policy' = Inr ()"
    and "inj_on (sha256 X) (attestation_wires X [ac_signed_checkpoint a, ac_signed_checkpoint b])"
    and "inj_on (sha256 X) (attestation_bodies X [ac_signed_checkpoint a, ac_signed_checkpoint b])"
  shows "a = b"
proof -
  note A = floor_currentD [OF assms(1)] and B = floor_currentD [OF assms(2)]
  from A(6) B(6) obtain i where i: "signed_checkpoint_attestation_id X (ac_signed_checkpoint a) = Inr i"
    "signed_checkpoint_attestation_id X (ac_signed_checkpoint b) = Inr i"
    and p: "ac_signer_principal_id a = ac_signer_principal_id b" "ac_trust_snapshot_id a = ac_trust_snapshot_id b"
    by (auto simp: floor_names_global_def names_checkpoint_def)
  have s: "ac_signed_checkpoint a = ac_signed_checkpoint b" by (rule attestation_id_inject [OF i assms(3,4)])
  then have "ac_checkpoint a = ac_checkpoint b" using A(1) B(1) by (simp add: authentic_checkpoint_def)
  with s p show ?thesis by (cases a; cases b) simp
qed

section \<open>Authentication\<close>


text \<open>
  authenticating a record again accepts exactly the authentic ones and returns them unchanged; once its key is revoked, it is refused.
\<close>

theorem reauthentication_exact:
  "(reauthenticate_checkpoint X a trust = Inr a' \<longleftrightarrow> a' = a \<and> authentic_checkpoint X trust a) \<and>
   (reauthenticate_decision X b trust = Inr b' \<longleftrightarrow> b' = b \<and> authentic_decision X trust b) \<and>
   (authentic_checkpoint X trust a \<longrightarrow> sc_key_id (ac_signed_checkpoint a) \<notin> set (it_revoked_key_ids trust)) \<and>
   (authentic_decision X trust b \<longrightarrow> sd_key_id (ad_signed_decision b) \<notin> set (it_revoked_key_ids trust))"
  using reauthenticate_checkpoint_iff reauthenticate_decision_iff by (auto simp: authentic_checkpoint_def authentic_decision_def signed_by_def)

text \<open>
  deciding and checkpointing are separated. Under one trust store, no key authenticates both a decision and a checkpoint, and no message
  signed for the one purpose is a message for the other.
\<close>

theorem decision_checkpoint_separated:
  assumes "authentic_decision X trust a" and "authentic_checkpoint X trust b"
  shows "sd_key_id (ad_signed_decision a) \<noteq> sc_key_id (ac_signed_checkpoint b) \<and>
    DECISION_SIGNATURE_DOMAIN @ sd_envelope_bytes (ad_signed_decision a) \<noteq> CHECKPOINT_SIGNATURE_DOMAIN @ sc_envelope_bytes (ac_signed_checkpoint b)"
proof
  have "INTEGRITY_DECISION_ROLE \<noteq> HEAD_CHECKPOINT_ROLE" by (simp add: INTEGRITY_DECISION_ROLE_def HEAD_CHECKPOINT_ROLE_def)
  with assms show "sd_key_id (ad_signed_decision a) \<noteq> sc_key_id (ac_signed_checkpoint b)"
    by (auto simp: authentic_decision_def authentic_checkpoint_def signed_by_def)
  show "DECISION_SIGNATURE_DOMAIN @ sd_envelope_bytes (ad_signed_decision a) \<noteq> CHECKPOINT_SIGNATURE_DOMAIN @ sc_envelope_bytes (ac_signed_checkpoint b)"
    by (simp add: DECISION_SIGNATURE_DOMAIN_def CHECKPOINT_SIGNATURE_DOMAIN_def)
qed

section \<open>Signed wires\<close>

text \<open>
  the wires of signed decisions and signed checkpoints are strict codecs: reading bytes gives a signed object exactly when the object's
  fields are well formed and it encodes to these bytes.
\<close>

theorem signed_integrity_wire_exact:
  "(signed_decision_from_bytes X (WireBytes b) = Inr s \<longleftrightarrow> snapshot_signed_decision s = Inr s \<and> signed_decision_to_bytes X s = Inr b) \<and>
   (signed_checkpoint_from_bytes X (WireBytes b) = Inr c \<longleftrightarrow> snapshot_signed_checkpoint c = Inr c \<and> signed_checkpoint_to_bytes X c = Inr b)"
proof
  show "signed_decision_from_bytes X (WireBytes b) = Inr s \<longleftrightarrow> snapshot_signed_decision s = Inr s \<and> signed_decision_to_bytes X s = Inr b"
    using signed_decision.decode_encode [of s X b] signed_decision.encode_decode [of X b s] signed_decision.decode_valid [of X b s]
    by (auto simp: snapshot_signed_decision_eq_Inr)
  show "signed_checkpoint_from_bytes X (WireBytes b) = Inr c \<longleftrightarrow> snapshot_signed_checkpoint c = Inr c \<and> signed_checkpoint_to_bytes X c = Inr b"
    using signed_checkpoint.decode_encode [of c X b] signed_checkpoint.encode_decode [of X b c] signed_checkpoint.decode_valid [of X b c]
    by (auto simp: snapshot_signed_checkpoint_eq_Inr)
qed

section \<open>Trusted time\<close>

text \<open>
  C17: a deadline is classified exactly when every instant of the trusted interval lies on the same side of it, and then on the right side;
  an interval that contains the deadline after its start is refused.
\<close>

theorem classify_deadline_exact:
  assumes "0 \<le> lower" and "lower \<le> upper" and "upper \<le> MAX_EPOCH_SECOND" and "0 \<le> deadline" and "deadline \<le> MAX_EPOCH_SECOND"
  shows "(classify_deadline (JInt lower) (JInt upper) (JInt deadline) = Inr Before \<longleftrightarrow> (\<forall>t. lower \<le> t \<and> t \<le> upper \<longrightarrow> t < deadline)) \<and>
    (classify_deadline (JInt lower) (JInt upper) (JInt deadline) = Inr At_or_after \<longleftrightarrow> (\<forall>t. lower \<le> t \<and> t \<le> upper \<longrightarrow> deadline \<le> t)) \<and>
    ((\<exists>m. classify_deadline (JInt lower) (JInt upper) (JInt deadline) = Inl (IntegrityError ''time_interval_straddles_deadline'' m)) \<longleftrightarrow>
       lower < deadline \<and> deadline \<le> upper)"
proof -
  have b: "(\<forall>t. lower \<le> t \<and> t \<le> upper \<longrightarrow> t < deadline) \<longleftrightarrow> upper < deadline" using assms(2) by auto
  have a: "(\<forall>t. lower \<le> t \<and> t \<le> upper \<longrightarrow> deadline \<le> t) \<longleftrightarrow> deadline \<le> lower" using assms(2) by auto
  have "classify_deadline (JInt lower) (JInt upper) (JInt deadline) =
      (if upper < deadline then Inr Before else if deadline \<le> lower then Inr At_or_after
       else Inl (IntegrityError ''time_interval_straddles_deadline'' ''trusted time uncertainty crosses the consequential deadline''))"
    using assms by (simp add: classify_deadline_def validate_time_interval_def int_epoch_def epoch_second_def requireR_def)
  then show ?thesis unfolding a b using assms(2) by auto
qed

section \<open>Revocation history\<close>

text \<open>
  C14: revocation metadata never rolls back. Along any history of accepted advances, every namespace of an earlier decision is still there,
  with a root version and a version at least as high, and with identical content when the version is the same; the global sequence
  increases, and the later decision's interval starts after the earlier one's ends.
\<close>

theorem revocation_never_rolls_back:
  assumes "(revocation_step X)\<^sup>+\<^sup>+ p c"
  shows "(\<forall>v \<in> set (dc_revocation_views (ad_decision p)). \<exists>w \<in> set (dc_revocation_views (ad_decision c)).
      rv_namespace w = rv_namespace v \<and> rv_root_version v \<le> rv_root_version w \<and> rv_version v \<le> rv_version w \<and>
      (rv_version v = rv_version w \<longrightarrow> v = w)) \<and>
    dc_prior_global_checkpoint_sequence (ad_decision p) < dc_prior_global_checkpoint_sequence (ad_decision c) \<and>
    dc_time_upper_bound (ad_decision p) \<le> dc_time_lower_bound (ad_decision c)"
proof -
  have "views_le (dc_revocation_views (ad_decision p)) (dc_revocation_views (ad_decision c)) \<and>
    dc_prior_global_checkpoint_sequence (ad_decision p) < dc_prior_global_checkpoint_sequence (ad_decision c) \<and>
    dc_time_upper_bound (ad_decision p) \<le> dc_time_lower_bound (ad_decision c)"
    using assms
  proof (induction rule: tranclp_induct)
    case (base y)
    then show ?case using revocation_stepD(1-3) [OF base] by simp
  next
    case (step y z)
    note s = revocation_stepD [OF step(2)]
    from s(4) have "dc_time_lower_bound (ad_decision y) \<le> dc_time_upper_bound (ad_decision y)" using authentic_decision_interval by blast
    then show ?case using step(3) s(1-3) views_le_trans by fastforce
  qed
  then show ?thesis unfolding views_le_def view_le_def by metis
qed

section \<open>Binding\<close>

text \<open>
  C15: an accepted binding ties checkpoint, decision and event together: the event is canonical, it is the one that the decision proposed
  (digest, kind, sequence number, predecessor, mission, authority, target), its time is the end of the decision's interval, the checkpoint
  records it, and decision and checkpoint extend the same mission head, which the decision follows in time.
\<close>

theorem checkpoint_binding_sound:
  assumes "validate_checkpoint_binding X c d ev ct dt pm pmt policy = Inr ()"
  shows "authentic_checkpoint X ct c \<and> authentic_decision X dt d \<and> event_verify X ev = Inr () \<and>
    ac_signer_principal_id c \<noteq> ad_signer_principal_id d \<and> checkpoint_of_decision X (ac_checkpoint c) d \<and>
    checkpoint_fits policy (ac_checkpoint c) \<and> decision_fits policy (ad_decision d) \<and>
    hc_event_digest (ac_checkpoint c) = ev_event_digest ev \<and> dc_proposed_event_digest (ad_decision d) = ev_event_digest ev \<and>
    hc_event_seq (ac_checkpoint c) = ev_seq ev \<and> dc_prior_event_seq (ad_decision d) + 1 = ev_seq ev \<and>
    dc_prior_event_digest (ad_decision d) = ev_prev_digest ev \<and> dc_event_kind (ad_decision d) = ev_kind ev \<and>
    dc_mission_id (ad_decision d) = ev_mission_id ev \<and> dc_authority_id (ad_decision d) = ev_authority_id ev \<and>
    dc_target_id (ad_decision d) = ev_target_id ev \<and> dc_time_upper_bound (ad_decision d) = ev_decision_time ev \<and>
    extends_mission X (ac_checkpoint c) (ad_decision d) pm \<and>
    (\<forall>m. pm = Some m \<longrightarrow> hc_time_upper_bound (ac_checkpoint m) \<le> dc_time_lower_bound (ad_decision d))"
proof -
  from assms obtain p r where pol: "snapshot_validation_policy policy = Inr p" and prev: "reauthenticate_previous X p ''mission'' pm pmt = Inr r"
    and au: "event_verify X ev = Inr ()" "authentic_checkpoint X ct c" "authentic_decision X dt d"
      "validate_checkpoint_against_policy (ac_checkpoint c) p = Inr ()" "validate_decision_against_policy (ad_decision d) p = Inr ()"
      "ac_signer_principal_id c \<noteq> ad_signer_principal_id d" "checkpoint_of_decision X (ac_checkpoint c) d"
    and eq: "hc_event_seq (ac_checkpoint c) = ev_seq ev" "hc_event_digest (ac_checkpoint c) = ev_event_digest ev"
      "ev_event_digest ev = dc_proposed_event_digest (ad_decision d)" "ev_mission_id ev = dc_mission_id (ad_decision d)"
      "ev_authority_id ev = dc_authority_id (ad_decision d)" "ev_target_id ev = dc_target_id (ad_decision d)"
      "ev_prev_digest ev = dc_prior_event_digest (ad_decision d)" "ev_seq ev = dc_prior_event_seq (ad_decision d) + 1"
      "ev_kind ev = dc_event_kind (ad_decision d)" "ev_decision_time ev = dc_time_upper_bound (ad_decision d)"
    and mp: "validate_decision_mission_predecessor X (ac_checkpoint c) (ad_decision d) r = Inr ()"
    and tm: "(case r of None \<Rightarrow> Inr () | Some p \<Rightarrow> require_decision_follows_checkpoint (ad_decision d) (ac_checkpoint p)) = Inr ()"
    unfolding validate_checkpoint_binding_def bindR_eq_Inr if_raise_eq_Inr reauthenticate_checkpoint_iff reauthenticate_decision_iff
      snapshot_event_iff checkpoint_semantics_iff Let_def by auto
  note ps = policy_snapshot [OF pol]
  have r: "r = pm" by (rule reauthenticate_previousD(1) [OF prev ps(2)])
  have "checkpoint_fits policy (ac_checkpoint c)" "decision_fits policy (ad_decision d)"
    using au(4,5) checkpoint_policy_iff [OF ps(2)] decision_policy_iff [OF ps(2)] ps(3,4) by simp_all
  moreover have "extends_mission X (ac_checkpoint c) (ad_decision d) pm" using mp r by (simp add: mission_predecessor_iff)
  moreover have "\<forall>m. pm = Some m \<longrightarrow> hc_time_upper_bound (ac_checkpoint m) \<le> dc_time_lower_bound (ad_decision d)"
    using tm r by (auto simp: require_decision_follows_checkpoint_def requireR_def split: if_splits)
  ultimately show ?thesis using au eq by simp
qed

end
