(* ===== verification/Sample_Integrity.thy ===== *)
theory Sample_Integrity
  imports Integrity_Properties Sample_Stream
begin

text \<open>
  The worked example for the integrity layer: two decisions and two checkpoints of one mission with their trust store, policy and floors,
  evaluated by the kernel. The hash now distinguishes checkpoints and the second public key from everything else.
\<close>

section \<open>Parameters\<close>

definition CPUB :: bytes where "CPUB = replicate 32 (CHR 0x01)"
definition CKEY :: pystr where "CKEY = ''ed25519:sha256:'' @ replicate 64 (CHR ''2'')"
definition CID :: digest where "CID = ''sha256:'' @ replicate 64 (CHR ''1'')"

definition Xi :: externals where
  "Xi = Xs\<lparr>sha256 := (\<lambda>m. replicate 32 (if starts_with (content_preimage ''head_checkpoint'' []) m then CHR 0x11
      else if m = CPUB then CHR 0x22 else CHR 0x00))\<rparr>"

definition KID :: "pystr \<Rightarrow> digest" where "KID k = (if k = ''head_checkpoint'' then CID else Z)"

lemma Xi_nfc: "nfc Xi = nfc Xs" by (simp add: Xi_def)

lemma validate_Xi: "validate_string Xi = validate_string Xs" "validate_key Xi = validate_key Xs"
  by (intro ext; simp add: validate_string_def validate_key_def Xi_nfc)+

lemma wf_Xi: "wf_json Xi d v = wf_json Xs d v" "wf_items Xi d xs = wf_items Xs d xs" "wf_members Xi d ms = wf_members Xs d ms"
  by (induction Xi d v and Xi d xs and Xi d ms rule: wf_json_wf_items_wf_members.induct) (auto simp: validate_Xi)

lemma sound_Xi:
  assumes "sound v"
  shows "thaw_json Xi v = Inr (norm_json v)" and "canonical_dumps Xi v = Inr (dumps (norm_json v))"
proof -
  show t: "thaw_json Xi v = Inr (norm_json v)" using assms by (simp add: sound_def thaw_json_eq_Inr wf_Xi)
  show "canonical_dumps Xi v = Inr (dumps (norm_json v))" using assms by (simp add: sound_def canonical_dumps_eq_Inr t)
qed

lemma preimage_prefix: "snake_case k \<Longrightarrow> starts_with (content_preimage ''head_checkpoint'' []) (content_preimage k b) \<longleftrightarrow> k = ''head_checkpoint''"
proof
  assume k: "snake_case k" and "starts_with (content_preimage ''head_checkpoint'' []) (content_preimage k b)"
  then obtain r where "content_preimage k b = content_preimage ''head_checkpoint'' [] @ r"
    unfolding starts_with_def by (metis append_take_drop_id)
  then have "content_preimage k b = content_preimage ''head_checkpoint'' r" by (simp add: content_preimage_def)
  moreover have "snake_case ''head_checkpoint''" by code_simp
  ultimately show "k = ''head_checkpoint''" using content_preimage_inject [OF k] by blast
next
  assume "k = ''head_checkpoint''"
  then show "starts_with (content_preimage ''head_checkpoint'' []) (content_preimage k b)" by (simp add: starts_with_def content_preimage_def)
qed

lemma Xi_hash: "snake_case k \<Longrightarrow> ''sha256:'' @ hex_bytes (sha256 Xi (content_preimage k b)) = KID k"
proof -
  assume k: "snake_case k"
  have "content_preimage k b \<noteq> CPUB" by (simp add: content_preimage_def CONTENT_DOMAIN_def CPUB_def numeral_eq_Suc)
  moreover have "''sha256:'' @ hex_bytes (replicate 32 (CHR 0x11)) = CID" "''sha256:'' @ hex_bytes (replicate 32 (CHR 0x00)) = Z" by code_simp+
  ultimately show ?thesis by (simp add: Xi_def preimage_prefix [OF k] KID_def)
qed

lemma Xi_id:
  assumes "sound v" and "snake_case k"
  shows "content_id Xi k v = Inr (KID k)" and "content_id Xi k (norm_json v) = Inr (KID k)"
proof -
  have "canonical_dumps Xi (norm_json v) = canonical_dumps Xi v" by (rule canonical_dumps_thaw) (rule sound_Xi [OF assms(1)])
  then show "content_id Xi k v = Inr (KID k)" "content_id Xi k (norm_json v) = Inr (KID k)"
    using assms sound_Xi Xi_hash [OF assms(2)] by (simp_all add: content_id_eq_Inr)
qed

section \<open>Envelopes\<close>

definition integ_envelope :: "pystr \<Rightarrow> json \<Rightarrow> json \<Rightarrow> envelope" where
  "integ_envelope k body atts = (sample_envelope k body atts)\<lparr>env_object_id := KID k\<rparr>"

definition integ_wire :: "pystr \<Rightarrow> json \<Rightarrow> json \<Rightarrow> bytes" where
  "integ_wire k body atts = dumps (norm_json (envelope_json (integ_envelope k body atts)))"

lemma integ_fields [simp]: "env_kind (integ_envelope k b a) = k" "env_object_id (integ_envelope k b a) = KID k"
  "env_body (integ_envelope k b a) = obj_members (norm_json b)" "env_attestations (integ_envelope k b a) = arr_items (norm_json a)"
  by (simp_all add: integ_envelope_def sample_envelope_def)

lemma CID_compact: "compact 64 1 500 (JStr CID)" by code_simp

lemma KID_compact: "compact 64 1 500 (JStr (KID k))"
  using CID_compact Z_compact by (simp add: KID_def)

lemma compact_integ_envelope:
  assumes "compact 1 n w body" and "compact 1 n w atts" and "is_JObj body" and "is_JArr atts"
    and "validate_string Xs k = Inr k" and "length k \<le> 64" and "1 \<le> n" and "500 \<le> w"
  shows "compact 0 (1 + 6 * n) (2 + 6 * (w + 388)) (envelope_json (integ_envelope k body atts))"
proof -
  have "compact 1 n w (JInt 1)"
    using assms by (simp add: compact_def MAX_NESTING_DEPTH_def MIN_INTEGER_def MAX_INTEGER_def int_str_def) (simp add: nat_str.simps)
  moreover have "compact 1 n w (JStr (KID k))" using KID_compact by (rule compact_mono) (use assms in auto)
  moreover have "compact 1 n w (JStr k)" using assms by (simp add: compact_def MAX_NESTING_DEPTH_def)
  moreover have "compact 1 n w (norm_json body)" "compact 1 n w (norm_json atts)" using assms compact_norm by auto
  ultimately show ?thesis
    unfolding envelope_json_def using assms short_keys
    by (intro compact_obj) (simp_all add: norm_obj norm_arr PROTOCOL_VERSION_def OBJECT_VERSION_def)
qed

text \<open>What has to be evaluated for one envelope, and what follows.\<close>

definition integ_ok :: "pystr \<Rightarrow> json \<Rightarrow> json \<Rightarrow> bool" where
  "integ_ok k body atts \<longleftrightarrow> compact 1 200 80000 body \<and> compact 1 200 80000 atts \<and> is_JObj body \<and> is_JArr atts \<and> snake_case k \<and>
     k \<in> set SUPPORTED_OBJECT_KINDS \<and> list_all is_JObj (arr_items (norm_json atts)) \<and> length (arr_items (norm_json atts)) \<le> 16"

lemma integ_sound:
  assumes "integ_ok k body atts"
  shows "sound body" and "sound atts" and "sound (envelope_json (integ_envelope k body atts))"
    and "length (integ_wire k body atts) \<le> MAX_INTEGRITY_ENVELOPE_BYTES" and "integ_wire k body atts \<noteq> []"
proof -
  have k: "validate_string Xs k = Inr k" "length k \<le> 64"
  proof -
    have "list_all (\<lambda>k. validate_string Xs k = Inr k \<and> length k \<le> 64) SUPPORTED_OBJECT_KINDS" by code_simp
    then show "validate_string Xs k = Inr k" "length k \<le> 64" using assms by (auto simp: list_all_iff integ_ok_def)
  qed
  have c: "compact 0 1201 482330 (envelope_json (integ_envelope k body atts))"
    using compact_integ_envelope [of 200 80000 body atts k] assms k by (simp add: integ_ok_def)
  show "sound body" "sound atts" by (rule compact_sound [of 1 200 80000]; use assms in \<open>simp add: integ_ok_def\<close>)+
  show "sound (envelope_json (integ_envelope k body atts))" by (rule compact_sound [OF c]) simp_all
  have "length (integ_wire k body atts) \<le> 482330"
    using dumps_weight(1) [of "norm_json (envelope_json (integ_envelope k body atts))"] c by (simp add: integ_wire_def weight_norm compact_def)
  then show "length (integ_wire k body atts) \<le> MAX_INTEGRITY_ENVELOPE_BYTES" by (simp add: MAX_INTEGRITY_ENVELOPE_BYTES_def)
  show "integ_wire k body atts \<noteq> []" by (simp add: integ_wire_def envelope_json_def)
qed

lemma integ_create:
  assumes "integ_ok k body atts"
  shows "envelope_create Xi k body atts = Inr (integ_envelope k body atts)"
    and "envelope_to_bytes Xi (integ_envelope k body atts) = Inr (integ_wire k body atts)"
    and "envelope_from_bytes Xi (integ_wire k body atts) = Inr (integ_envelope k body atts)"
proof -
  note s = integ_sound [OF assms]
  have t: "thaw_json Xi (norm_json body) = Inr (norm_json body)" "thaw_json Xi (norm_json atts) = Inr (norm_json atts)"
    using thaw_json_idem sound_Xi(1) s by blast+
  have j: "envelope_to_json Xi (integ_envelope k body atts) = Inr (envelope_json (integ_envelope k body atts))"
    using assms t by (simp add: envelope_to_json_def envelope_json_def norm_obj norm_arr integ_ok_def)
  show b: "envelope_to_bytes Xi (integ_envelope k body atts) = Inr (integ_wire k body atts)"
    using s(3) sound_Xi(2) by (simp add: envelope_to_bytes_def j integ_wire_def)
  show c: "envelope_create Xi k body atts = Inr (integ_envelope k body atts)"
    using assms b s sound_Xi Xi_id by (auto simp: envelope_create_eq_Inr integ_ok_def norm_obj norm_arr)
  have "full_digest (KID k)" unfolding KID_def using Z_full by (simp, code_simp)
  then show "envelope_from_bytes Xi (integ_wire k body atts) = Inr (integ_envelope k body atts)"
    by (intro envelope_from_bytes_created [OF _ c _ _ b]) (use s in \<open>auto simp: sound_def\<close>)
qed

section \<open>Decisions and checkpoints\<close>

definition reference :: "pystr \<Rightarrow> char \<Rightarrow> evidence_reference" where
  "reference kind c = \<lparr>er_evidence_kind = kind, er_source_id = ''source_'' @ [c], er_evidence_id = dig c\<rparr>"

definition references :: "pystr \<Rightarrow> evidence_reference list" where
  "references kind = [reference kind (CHR ''a''), reference kind (CHR ''b'')]"

definition RV :: "int \<Rightarrow> revocation_view" where
  "RV n = \<lparr>rv_namespace = ''keys'', rv_root_version = 1, rv_version = n, rv_snapshot_id = Z,
     rv_evidence = reference REVOCATION_METADATA_EVIDENCE_KIND (CHR ''a''), rv_valid_from = 0, rv_valid_until = 1000\<rparr>"

definition mk_decision :: "int \<Rightarrow> digest \<Rightarrow> pystr option \<Rightarrow> pystr option \<Rightarrow> pystr option \<Rightarrow> digest \<Rightarrow> int \<Rightarrow> int \<Rightarrow> integrity_decision" where
  "mk_decision n head attestation principal_id trust prior lower version =
     \<lparr>dc_decision_id = Z, dc_service_instance_id = ''svc'', dc_environment_id = ''test'', dc_mission_id = Z, dc_authority_id = Z, dc_target_id = Z,
      dc_prior_global_checkpoint_sequence = n, dc_prior_global_checkpoint_id = head, dc_prior_global_checkpoint_attestation_id = attestation,
      dc_prior_global_checkpoint_principal_id = principal_id, dc_prior_global_checkpoint_trust_snapshot_id = trust,
      dc_prior_event_seq = n, dc_prior_event_digest = prior, dc_event_kind = ''scan_completed'', dc_proposed_event_digest = Z,
      dc_transition_intent_id = Z, dc_request_nonce = replicate 64 (CHR ''0''), dc_time_lower_bound = lower, dc_time_upper_bound = lower + 10,
      dc_time_policy_id = Z, dc_decision_policy_id = Z, dc_time_evidence = references TRUSTED_TIME_EVIDENCE_KIND, dc_revocation_views = [RV version]\<rparr>"

definition D0 :: integrity_decision where "D0 = mk_decision (- 1) Z None None None GENESIS_DIGEST 10 1"
definition D1 :: integrity_decision where "D1 = mk_decision 0 CID (Some Z) (Some ''checker'') (Some Z) Z 40 2"

definition mk_checkpoint :: "int \<Rightarrow> digest \<Rightarrow> pystr option \<Rightarrow> pystr option \<Rightarrow> pystr option \<Rightarrow> int \<Rightarrow> head_checkpoint" where
  "mk_checkpoint n head attestation principal_id trust lower =
     \<lparr>hc_checkpoint_id = CID, hc_service_instance_id = ''svc'', hc_environment_id = ''test'', hc_instance_sequence = n, hc_previous_checkpoint_id = head,
      hc_previous_checkpoint_attestation_id = attestation, hc_previous_checkpoint_principal_id = principal_id, hc_previous_checkpoint_trust_snapshot_id = trust,
      hc_previous_mission_checkpoint_id = head, hc_previous_mission_checkpoint_attestation_id = attestation,
      hc_previous_mission_checkpoint_principal_id = principal_id, hc_previous_mission_checkpoint_trust_snapshot_id = trust,
      hc_mission_id = Z, hc_authority_id = Z, hc_target_id = Z, hc_event_seq = n, hc_event_digest = Z, hc_integrity_decision_id = Z,
      hc_integrity_decision_attestation_id = Z, hc_integrity_decision_principal_id = ''decider'', hc_integrity_decision_trust_snapshot_id = Z,
      hc_time_lower_bound = lower, hc_time_upper_bound = lower + 1, hc_time_policy_id = Z, hc_anchor_policy_id = Z, hc_anchor_statement_id = Z,
      hc_time_evidence = references TRUSTED_TIME_EVIDENCE_KIND, hc_anchor_evidence = references HEAD_ANCHOR_RECEIPT_EVIDENCE_KIND\<rparr>"

definition C0 :: head_checkpoint where "C0 = mk_checkpoint 0 Z None None None 30"
definition C1 :: head_checkpoint where "C1 = mk_checkpoint 1 CID (Some Z) (Some ''checker'') (Some Z) 60"

definition decision_json :: "integrity_decision \<Rightarrow> json" where
  "decision_json d = projr (decision_body (decision_scalars d) (dc_time_evidence d) (dc_revocation_views d))"

definition checkpoint_json :: "head_checkpoint \<Rightarrow> json" where
  "checkpoint_json c = projr (checkpoint_body (checkpoint_scalars c) (hc_time_evidence c) (hc_anchor_evidence c))"

abbreviation decision_env :: "integrity_decision \<Rightarrow> envelope" where
  "decision_env d \<equiv> integ_envelope ''integrity_decision'' (decision_json d) (JArr [])"

abbreviation checkpoint_env :: "head_checkpoint \<Rightarrow> envelope" where
  "checkpoint_env c \<equiv> integ_envelope ''head_checkpoint'' (checkpoint_json c) (JArr [])"

lemma D0_ok: "integ_ok ''integrity_decision'' (decision_json D0) (JArr [])" by code_simp
lemma D1_ok: "integ_ok ''integrity_decision'' (decision_json D1) (JArr [])" by code_simp
lemma C0_ok: "integ_ok ''head_checkpoint'' (checkpoint_json C0) (JArr [])" by code_simp
lemma C1_ok: "integ_ok ''head_checkpoint'' (checkpoint_json C1) (JArr [])" by code_simp

text \<open>What has to be evaluated for one decision and one checkpoint, on the normal form of its body.\<close>

definition decision_good :: "json \<Rightarrow> integrity_decision \<Rightarrow> bool" where
  "decision_good v d \<longleftrightarrow> has_keys v DECISION_BODY_FIELDS \<and> decision_values v = Inr (dc_time_evidence d, dc_revocation_views d) \<and>
     decision_checks Xi v = Inr () \<and> decision_of Z v (dc_time_evidence d) (dc_revocation_views d) = d \<and>
     decision_body v (dc_time_evidence d) (dc_revocation_views d) = Inr (decision_json d) \<and>
     list_all (\<lambda>view. rv_valid_from view \<le> jint (member ''time_lower_bound'' v) \<and> jint (member ''time_upper_bound'' v) < rv_valid_until view)
       (dc_revocation_views d)"

definition checkpoint_good :: "json \<Rightarrow> head_checkpoint \<Rightarrow> bool" where
  "checkpoint_good v c \<longleftrightarrow> has_keys v CHECKPOINT_BODY_FIELDS \<and> checkpoint_values v = Inr (hc_time_evidence c, hc_anchor_evidence c) \<and>
     checkpoint_checks Xi v = Inr () \<and> anchor_statement_checks v = Inr () \<and> references_ok 2 TRUSTED_TIME_EVIDENCE_KIND (hc_time_evidence c) \<and>
     compact 1 200 80000 (anchor_statement_body v (hc_time_evidence c)) \<and> member ''anchor_statement_id'' v = JStr Z \<and>
     checkpoint_of CID v (hc_time_evidence c) (hc_anchor_evidence c) = c \<and>
     checkpoint_body v (hc_time_evidence c) (hc_anchor_evidence c) = Inr (checkpoint_json c)"

lemma D0_good: "decision_good (norm_json (decision_json D0)) D0" by code_simp
lemma D1_good: "decision_good (norm_json (decision_json D1)) D1" by code_simp
lemma C0_good: "checkpoint_good (norm_json (checkpoint_json C0)) C0" by code_simp
lemma C1_good: "checkpoint_good (norm_json (checkpoint_json C1)) C1" by code_simp

end
