(* ===== verification/Sample_Chain.thy ===== *)
theory Sample_Chain
  imports Sample_Integrity
begin

text \<open>
  The worked example of the integrity layer, continued: the two decisions and checkpoints signed, authenticated, accepted as a catalog of two
  entries and retained in an external floor.
\<close>

section \<open>Reading\<close>

lemma small_sound: "compact 1 200 80000 v \<Longrightarrow> sound v"
  by (erule compact_sound) simp_all

lemma good_decision:
  assumes "integ_ok ''integrity_decision'' (decision_json d) (JArr [])" and "decision_good (norm_json (decision_json d)) d"
  shows "decision_from_envelope Xi (decision_env d) = Inr d"
proof -
  let ?v = "norm_json (decision_json d)"
  have o: "JObj (obj_members ?v) = ?v" using assms(1) by (simp add: integ_ok_def norm_obj)
  have t: "thaw_json Xi ?v = Inr ?v" using thaw_json_idem sound_Xi(1) integ_sound(1) [OF assms(1)] by blast
  note g = assms(2) [unfolded decision_good_def]
  have "decision_new Xi Z ?v (dc_time_evidence d) (dc_revocation_views d) = Inr d"
    unfolding decision_new_iff using g Z_full integ_create(1) [OF assms(1)] by (simp add: INTEGRITY_DECISION_OBJECT_KIND_def list_all_iff KID_def)
  then show ?thesis
    using g t by (simp add: decision_from_envelope_def o INTEGRITY_DECISION_OBJECT_KIND_def KID_def rewrap_def)
qed

lemma good_checkpoint:
  assumes "integ_ok ''head_checkpoint'' (checkpoint_json c) (JArr [])" and "checkpoint_good (norm_json (checkpoint_json c)) c"
  shows "checkpoint_from_envelope Xi (checkpoint_env c) = Inr c"
proof -
  let ?v = "norm_json (checkpoint_json c)"
  have o: "JObj (obj_members ?v) = ?v" using assms(1) by (simp add: integ_ok_def norm_obj)
  have t: "thaw_json Xi ?v = Inr ?v" using thaw_json_idem sound_Xi(1) integ_sound(1) [OF assms(1)] by blast
  note g = assms(2) [unfolded checkpoint_good_def]
  have "sound (anchor_statement_body ?v (hc_time_evidence c))" using g small_sound by blast
  moreover have "snake_case ''head_anchor_statement''" by code_simp
  ultimately have "content_id Xi ''head_anchor_statement'' (anchor_statement_body ?v (hc_time_evidence c)) = Inr Z"
    using Xi_id(1) by (simp add: KID_def)
  then have "derive_anchor_statement_id Xi ?v (hc_time_evidence c) = Inr Z"
    using g by (simp add: derive_anchor_statement_id_def result_simps bindR_eq_Inr)
  moreover have "full_digest CID" by code_simp
  ultimately have "checkpoint_new Xi CID ?v (hc_time_evidence c) (hc_anchor_evidence c) = Inr c"
    unfolding checkpoint_new_iff using g integ_create(1) [OF assms(1)] by (simp add: HEAD_CHECKPOINT_OBJECT_KIND_def KID_def)
  then show ?thesis
    using g t by (simp add: checkpoint_from_envelope_def o HEAD_CHECKPOINT_OBJECT_KIND_def KID_def rewrap_def)
qed

section \<open>Trust\<close>

definition IKEY :: trusted_integrity_key where
  "IKEY = \<lparr>ti_principal_id = ''decider'', ti_public_key_bytes = PUB, ti_role = INTEGRITY_DECISION_ROLE\<rparr>"

definition IKEY2 :: trusted_integrity_key where
  "IKEY2 = \<lparr>ti_principal_id = ''checker'', ti_public_key_bytes = CPUB, ti_role = HEAD_CHECKPOINT_ROLE\<rparr>"

definition IT :: integrity_trust_store where "IT = \<lparr>it_keys = [(KEY, IKEY), (CKEY, IKEY2)], it_revoked_key_ids = []\<rparr>"

lemma Xi_verifies: "signature_verifies Xi k g m" by (simp add: signature_verifies_def Xi_def Xs_def)

lemma IT_ok: "integrity_store_ok Xi IT" by code_simp

lemma IT_id: "integrity_snapshot_id Xi IT = Inr Z"
proof -
  have "compact 1 200 80000 (integrity_snapshot_body IT)" by code_simp
  then have "sound (integrity_snapshot_body IT)" by (rule small_sound)
  moreover have "snake_case ''integrity_trust_snapshot''" by code_simp
  ultimately show ?thesis using Xi_id(1) by (simp add: integrity_snapshot_id_def KID_def)
qed

section \<open>Signed and authenticated\<close>

definition SD :: "integrity_decision \<Rightarrow> signed_decision" where
  "SD d = \<lparr>sd_envelope_bytes = integ_wire ''integrity_decision'' (decision_json d) (JArr []), sd_key_id = KEY, sd_signature_b64 = SIG\<rparr>"

definition SC :: "head_checkpoint \<Rightarrow> signed_checkpoint" where
  "SC c = \<lparr>sc_envelope_bytes = integ_wire ''head_checkpoint'' (checkpoint_json c) (JArr []), sc_key_id = CKEY, sc_signature_b64 = SIG\<rparr>"

definition AD :: "integrity_decision \<Rightarrow> authenticated_decision" where
  "AD d = \<lparr>ad_signed_decision = SD d, ad_decision = d, ad_signer_principal_id = ''decider'', ad_trust_snapshot_id = Z\<rparr>"

definition AC :: "head_checkpoint \<Rightarrow> authenticated_checkpoint" where
  "AC c = \<lparr>ac_signed_checkpoint = SC c, ac_checkpoint = c, ac_signer_principal_id = ''checker'', ac_trust_snapshot_id = Z\<rparr>"

lemma signed_sample_fields [simp]:
  "sd_key_id (SD d) = KEY" "sc_key_id (SC c) = CKEY" "ad_signed_decision (AD d) = SD d" "ac_signed_checkpoint (AC c) = SC c" "ad_decision (AD d) = d"
  "ac_checkpoint (AC c) = c" "ad_signer_principal_id (AD d) = ''decider''" "ac_signer_principal_id (AC c) = ''checker''"
  "ad_trust_snapshot_id (AD d) = Z" "ac_trust_snapshot_id (AC c) = Z"
  by (simp_all add: SD_def SC_def AD_def AC_def)

lemma IT_keys: "map_of (it_keys IT) KEY = Some IKEY" "map_of (it_keys IT) CKEY = Some IKEY2" "KEY \<noteq> CKEY" "it_revoked_key_ids IT = []"
  "key_id_text KEY" "key_id_text CKEY"
  by code_simp+

lemma SIG_decoded: "int_decode_signature (JStr SIG) = Inr (replicate 64 (CHR 0x00))"
proof -
  have "codepoints SIG = 88" by code_simp
  moreover have "b64encode (replicate 64 (CHR 0x00)) = SIG" by (simp add: SIG_def)
  ultimately show ?thesis using SIG_decode(1) by (simp add: int_decode_signature_eq_Inr)
qed

definition good_d :: "integrity_decision \<Rightarrow> bool" where
  "good_d d \<longleftrightarrow> integ_ok ''integrity_decision'' (decision_json d) (JArr []) \<and> decision_good (norm_json (decision_json d)) d"

definition good_c :: "head_checkpoint \<Rightarrow> bool" where
  "good_c c \<longleftrightarrow> integ_ok ''head_checkpoint'' (checkpoint_json c) (JArr []) \<and> checkpoint_good (norm_json (checkpoint_json c)) c"

lemma sample_texts: "identity_text ''decider''" "identity_text ''checker''" "identity_text ''svc''" "identity_text ''test''" "full_digest CID"
  by code_simp+

lemma good_authentic_decision: "good_d d \<Longrightarrow> authentic_decision Xi IT (AD d)"
proof -
  assume g: "good_d d"
  then have o: "integ_ok ''integrity_decision'' (decision_json d) (JArr [])" by (simp add: good_d_def)
  have p: "parse_signed_decision Xi (SD d) = Inr d"
    using g good_decision integ_create(3) [OF o] by (simp add: parse_signed_decision_def SD_def good_d_def)
  have "signed_by Xi (sd_envelope_bytes (SD d)) KEY (sd_signature_b64 (SD d)) IT INTEGRITY_DECISION_ROLE DECISION_SIGNATURE_DOMAIN IKEY"
    using integ_sound(4,5) [OF o] IT_keys SIG_decoded by (simp add: signed_by_def SD_def Xi_verifies) (simp add: IKEY_def)
  moreover have "ti_principal_id IKEY = ''decider''" by (simp add: IKEY_def)
  ultimately show ?thesis using p IT_ok IT_id sample_texts(1) Z_full by (auto simp: authentic_decision_def)
qed

lemma good_authentic_checkpoint: "good_c c \<Longrightarrow> authentic_checkpoint Xi IT (AC c)"
proof -
  assume g: "good_c c"
  then have o: "integ_ok ''head_checkpoint'' (checkpoint_json c) (JArr [])" by (simp add: good_c_def)
  have p: "parse_signed_checkpoint Xi (SC c) = Inr c"
    using g good_checkpoint integ_create(3) [OF o] by (simp add: parse_signed_checkpoint_def SC_def good_c_def)
  have "signed_by Xi (sc_envelope_bytes (SC c)) CKEY (sc_signature_b64 (SC c)) IT HEAD_CHECKPOINT_ROLE CHECKPOINT_SIGNATURE_DOMAIN IKEY2"
    using integ_sound(4,5) [OF o] IT_keys SIG_decoded by (simp add: signed_by_def SC_def Xi_verifies) (simp add: IKEY2_def)
  moreover have "ti_principal_id IKEY2 = ''checker''" by (simp add: IKEY2_def)
  ultimately show ?thesis using p IT_ok IT_id sample_texts(2) Z_full by (auto simp: authentic_checkpoint_def)
qed

text \<open>Attested, the envelope is the same with one attestation.\<close>

lemma attested_ok:
  assumes "integ_ok k body (JArr [])" and "compact 1 200 80000 (JArr [attestation_json i s])"
  shows "envelope_create Xi k (norm_json body) (JArr [attestation_json i s]) = Inr (integ_envelope k body (JArr [attestation_json i s]))"
    and "envelope_to_bytes Xi (integ_envelope k body (JArr [attestation_json i s])) = Inr (integ_wire k body (JArr [attestation_json i s]))"
    and "length (integ_wire k body (JArr [attestation_json i s])) \<le> MAX_INTEGRITY_ENVELOPE_BYTES"
proof -
  have a: "integ_ok k b (JArr [attestation_json i s])" if "b = body \<or> b = norm_json body" for b
    using assms that by (auto simp: integ_ok_def compact_norm is_JObj_norm attestation_json_def)
  have "integ_envelope k (norm_json body) (JArr [attestation_json i s]) = integ_envelope k body (JArr [attestation_json i s])"
    by (simp add: integ_envelope_def sample_envelope_def norm_idem)
  with integ_create(1) [OF a [of "norm_json body"]]
  show "envelope_create Xi k (norm_json body) (JArr [attestation_json i s]) = Inr (integ_envelope k body (JArr [attestation_json i s]))" by simp
  show "envelope_to_bytes Xi (integ_envelope k body (JArr [attestation_json i s])) = Inr (integ_wire k body (JArr [attestation_json i s]))"
    "length (integ_wire k body (JArr [attestation_json i s])) \<le> MAX_INTEGRITY_ENVELOPE_BYTES"
    using integ_create(2) integ_sound(4) a by blast+
qed

lemma attestation_compact: "compact 1 200 80000 (JArr [attestation_json KEY SIG])" "compact 1 200 80000 (JArr [attestation_json CKEY SIG])"
  by code_simp+

lemma wire_digest_id:
  assumes "snake_case k" and "KID k = Z"
  shows "signed_attestation_id Xi k w = Inr Z"
proof -
  let ?d = "JObj [(''wire_digest'', JStr (''sha256:'' @ hex_bytes (sha256 Xi w)))]"
  have "hex_bytes (sha256 Xi w) \<in> {replicate 64 (CHR ''1''), replicate 64 (CHR ''2''), replicate 64 (CHR ''0'')}"
  proof -
    have "hex_bytes (replicate 32 (CHR 0x11)) = replicate 64 (CHR ''1'')" "hex_bytes (replicate 32 (CHR 0x22)) = replicate 64 (CHR ''2'')"
      "hex_bytes (replicate 32 (CHR 0x00)) = replicate 64 (CHR ''0'')" by code_simp+
    moreover have "sha256 Xi w = replicate 32 (if starts_with (content_preimage ''head_checkpoint'' []) w then CHR 0x11
      else if w = CPUB then CHR 0x22 else CHR 0x00)" by (simp add: Xi_def)
    ultimately show ?thesis
      by (cases "starts_with (content_preimage ''head_checkpoint'' []) w"; cases "w = CPUB") (simp_all only: if_True if_False insert_iff simp_thms)
  qed
  moreover have "compact 1 200 80000 (JObj [(''wire_digest'', JStr (''sha256:'' @ replicate 64 (CHR ''1'')))])"
    "compact 1 200 80000 (JObj [(''wire_digest'', JStr (''sha256:'' @ replicate 64 (CHR ''2'')))])"
    "compact 1 200 80000 (JObj [(''wire_digest'', JStr (''sha256:'' @ replicate 64 (CHR ''0'')))])" by code_simp+
  ultimately have "compact 1 200 80000 ?d" by fastforce
  then have "sound ?d" by (rule small_sound)
  then show ?thesis using Xi_id(1) assms by (simp add: signed_attestation_id_def)
qed

lemma SD_wire:
  assumes "good_d d"
  shows "signed_decision_to_bytes Xi (SD d) = Inr (integ_wire ''integrity_decision'' (decision_json d) (JArr [attestation_json KEY SIG]))"
    and "signed_decision_attestation_id Xi (SD d) = Inr Z" and "snapshot_signed_decision (SD d) = Inr (SD d)"
proof -
  have o: "integ_ok ''integrity_decision'' (decision_json d) (JArr [])" using assms by (simp add: good_d_def)
  have m: "JObj (obj_members (norm_json (decision_json d))) = norm_json (decision_json d)" using o by (simp add: integ_ok_def norm_obj)
  note a = attested_ok [OF o attestation_compact(1)]
  show w: "signed_decision_to_bytes Xi (SD d) = Inr (integ_wire ''integrity_decision'' (decision_json d) (JArr [attestation_json KEY SIG]))"
    using a integ_create(3) [OF o] good_decision assms
    by (simp add: signed_decision_to_bytes_def signed_decision_to_envelope_def signed_to_envelope_def SD_def rewrap_def m
        INTEGRITY_DECISION_OBJECT_KIND_def good_d_def)
  have s: "signed_by Xi (sd_envelope_bytes (SD d)) (sd_key_id (SD d)) (sd_signature_b64 (SD d)) IT INTEGRITY_DECISION_ROLE DECISION_SIGNATURE_DOMAIN IKEY"
    using integ_sound(4,5) [OF o] IT_keys SIG_decoded by (simp add: signed_by_def SD_def Xi_verifies) (simp add: IKEY_def)
  show f: "snapshot_signed_decision (SD d) = Inr (SD d)" by (rule signed_decision_fields [OF s])
  have "snake_case ''signed_integrity_decision_attestation''" by code_simp
  then have "signed_attestation_id Xi ''signed_integrity_decision_attestation'' b = Inr Z" for b by (rule wire_digest_id) (simp add: KID_def)
  then show "signed_decision_attestation_id Xi (SD d) = Inr Z" by (simp add: signed_decision_attestation_id_def f w rewrap_def)
qed

lemma SC_wire:
  assumes "good_c c"
  shows "signed_checkpoint_to_bytes Xi (SC c) = Inr (integ_wire ''head_checkpoint'' (checkpoint_json c) (JArr [attestation_json CKEY SIG]))"
    and "signed_checkpoint_attestation_id Xi (SC c) = Inr Z" and "snapshot_signed_checkpoint (SC c) = Inr (SC c)"
proof -
  have o: "integ_ok ''head_checkpoint'' (checkpoint_json c) (JArr [])" using assms by (simp add: good_c_def)
  have m: "JObj (obj_members (norm_json (checkpoint_json c))) = norm_json (checkpoint_json c)" using o by (simp add: integ_ok_def norm_obj)
  note a = attested_ok [OF o attestation_compact(2)]
  show w: "signed_checkpoint_to_bytes Xi (SC c) = Inr (integ_wire ''head_checkpoint'' (checkpoint_json c) (JArr [attestation_json CKEY SIG]))"
    using a integ_create(3) [OF o] good_checkpoint assms
    by (simp add: signed_checkpoint_to_bytes_def signed_checkpoint_to_envelope_def signed_to_envelope_def SC_def rewrap_def m
        HEAD_CHECKPOINT_OBJECT_KIND_def good_c_def)
  have s: "signed_by Xi (sc_envelope_bytes (SC c)) (sc_key_id (SC c)) (sc_signature_b64 (SC c)) IT HEAD_CHECKPOINT_ROLE CHECKPOINT_SIGNATURE_DOMAIN IKEY2"
    using integ_sound(4,5) [OF o] IT_keys SIG_decoded by (simp add: signed_by_def SC_def Xi_verifies) (simp add: IKEY2_def)
  show f: "snapshot_signed_checkpoint (SC c) = Inr (SC c)" by (rule signed_checkpoint_fields [OF s])
  have "snake_case ''signed_head_checkpoint_attestation''" by code_simp
  then have "signed_attestation_id Xi ''signed_head_checkpoint_attestation'' b = Inr Z" for b by (rule wire_digest_id) (simp add: KID_def)
  then show "signed_checkpoint_attestation_id Xi (SC c) = Inr Z" by (simp add: signed_checkpoint_attestation_id_def f w rewrap_def)
qed

section \<open>Policy and floors\<close>

lemma CID_Z: "CID \<noteq> Z" by code_simp

definition VP :: validation_policy where
  "VP = \<lparr>vp_decision_policy_id = Z, vp_decision_time_policy_id = Z, vp_checkpoint_time_policy_id = Z, vp_anchor_policy_id = Z,
     vp_required_revocation_namespaces = [''keys''], vp_max_decision_uncertainty_seconds = 100, vp_max_checkpoint_uncertainty_seconds = 100\<rparr>"

definition mk_floor :: "int \<Rightarrow> digest \<Rightarrow> pystr option \<Rightarrow> pystr option \<Rightarrow> pystr option \<Rightarrow> head_floor" where
  "mk_floor n head attestation principal_id trust =
     \<lparr>hf_service_instance_id = ''svc'', hf_environment_id = ''test'', hf_instance_sequence = n, hf_checkpoint_id = head,
      hf_checkpoint_attestation_id = attestation, hf_checkpoint_principal_id = principal_id, hf_checkpoint_trust_snapshot_id = trust,
      hf_mission_id = Z, hf_mission_event_seq = n, hf_mission_checkpoint_id = head, hf_mission_checkpoint_attestation_id = attestation,
      hf_mission_checkpoint_principal_id = principal_id, hf_mission_checkpoint_trust_snapshot_id = trust,
      hf_evidence = references EXTERNAL_FLOOR_EVIDENCE_KIND\<rparr>"

definition F0 :: head_floor where "F0 = mk_floor (- 1) Z None None None"
definition F1 :: head_floor where "F1 = mk_floor 0 CID (Some Z) (Some ''checker'') (Some Z)"

lemma genesis_ids: "head_checkpoint_genesis_id Xi (JStr ''svc'') (JStr ''test'') = Inr Z"
  "mission_checkpoint_genesis_id Xi (JStr ''svc'') (JStr ''test'') (JStr Z) = Inr Z"
proof -
  have "compact 1 200 80000 (JObj [(''environment_id'', JStr ''test''), (''service_instance_id'', JStr ''svc'')])"
    "compact 1 200 80000 (JObj [(''environment_id'', JStr ''test''), (''mission_id'', JStr Z), (''service_instance_id'', JStr ''svc'')])" by code_simp+
  then have "sound (JObj [(''environment_id'', JStr ''test''), (''service_instance_id'', JStr ''svc'')])"
    "sound (JObj [(''environment_id'', JStr ''test''), (''mission_id'', JStr Z), (''service_instance_id'', JStr ''svc'')])"
    by (blast intro: small_sound)+
  moreover have "snake_case ''head_checkpoint_genesis''" "snake_case ''mission_checkpoint_genesis''" by code_simp+
  ultimately show "head_checkpoint_genesis_id Xi (JStr ''svc'') (JStr ''test'') = Inr Z"
    "mission_checkpoint_genesis_id Xi (JStr ''svc'') (JStr ''test'') (JStr Z) = Inr Z"
    using Xi_id(1) sample_texts Z_full
    by (simp_all add: head_checkpoint_genesis_id_def mission_checkpoint_genesis_id_def int_identity_def int_digest_def digest_value_def requireR_def KID_def)
qed

lemma F_ok: "head_floor_ok Xi F0" "head_floor_ok Xi F1"
proof -
  have r: "references_ok 2 EXTERNAL_FLOOR_EVIDENCE_KIND (references EXTERNAL_FLOOR_EVIDENCE_KIND)" by code_simp
  have "head_floor_checks Xi (head_floor_body F0) = Inr ()" "head_floor_checks Xi (head_floor_body F1) = Inr ()"
    using sample_texts Z_full CID_Z
    by (simp_all add: head_floor_checks_def head_floor_body_members Let_def F0_def F1_def mk_floor_def genesis_ids floor_sequence_def floor_provenance_def
        int_identity_def int_digest_def digest_value_def requireR_def MAX_EPOCH_SECOND_def)
  then show "head_floor_ok Xi F0" "head_floor_ok Xi F1" using r by (simp_all add: head_floor_ok_def) (simp_all add: F0_def F1_def mk_floor_def)
qed

lemma VP_ok: "policy_ok VP" by code_simp

lemma VP_copy: "snapshot_validation_policy VP = Inr VP"
proof -
  have "VP\<lparr>vp_required_revocation_namespaces := foldl set_add [] (vp_required_revocation_namespaces VP)\<rparr> = VP" by (simp add: VP_def set_add_def)
  then show ?thesis using VP_ok by (simp add: snapshot_validation_policy_iff)
qed

lemma goods: "good_d D0" "good_d D1" "good_c C0" "good_c C1"
  by (simp_all add: good_d_def good_c_def D0_ok D1_ok C0_ok C1_ok D0_good D1_good C0_good C1_good)

lemmas sample_defs = D0_def D1_def C0_def C1_def mk_decision_def mk_checkpoint_def F0_def F1_def mk_floor_def VP_def RV_def

lemma VP_fits: "decision_fits VP D0" "decision_fits VP D1" "checkpoint_fits VP C0" "checkpoint_fits VP C1"
  by (simp_all add: decision_fits_def checkpoint_fits_def sample_defs)

lemma authentic_samples:
  "reauthenticate_decision Xi (AD D0) IT = Inr (AD D0)" "reauthenticate_decision Xi (AD D1) IT = Inr (AD D1)"
  "reauthenticate_checkpoint Xi (AC C0) IT = Inr (AC C0)" "reauthenticate_checkpoint Xi (AC C1) IT = Inr (AC C1)"
  using goods good_authentic_decision good_authentic_checkpoint by (simp_all add: reauthenticate_decision_iff reauthenticate_checkpoint_iff)

lemma fitting_samples:
  "validate_decision_against_policy D0 VP = Inr ()" "validate_decision_against_policy D1 VP = Inr ()"
  "validate_checkpoint_against_policy C0 VP = Inr ()" "validate_checkpoint_against_policy C1 VP = Inr ()"
  using VP_fits by (simp_all add: decision_policy_iff [OF VP_ok] checkpoint_policy_iff [OF VP_ok])

lemma sample_semantics:
  "validate_checkpoint_decision_semantics Xi C0 (AD D0) = Inr ()" "validate_checkpoint_decision_semantics Xi C1 (AD D1) = Inr ()"
  using SD_wire(2) goods(1,2) by (simp_all add: checkpoint_semantics_iff checkpoint_of_decision_def Let_def) (simp_all add: sample_defs)

lemma sample_ids: "signed_checkpoint_attestation_id Xi (SC C0) = Inr Z" "signed_checkpoint_attestation_id Xi (SC C1) = Inr Z"
  using SC_wire(2) goods by blast+

lemma F_copy: "snapshot_head_floor Xi F0 = Inr F0" "snapshot_head_floor Xi F1 = Inr F1"
  using F_ok by (simp_all add: snapshot_head_floor_iff)

section \<open>The catalog\<close>

lemma advance_C0: "validate_checkpoint_advance Xi (AC C0) IT (AD D0) IT None None None None F0 VP = Inr ()"
proof -
  have f: "hc_service_instance_id C0 = ''svc''" "hc_environment_id C0 = ''test''" "hc_mission_id C0 = Z" by (simp_all add: sample_defs)
  have c: "global_continuity Xi C0 D0 Z None = Inr ()" "mission_continuity C0 Z None = Inr ()" "floor_scope F0 C0 = Inr ()"
    by (simp_all add: global_continuity_def mission_continuity_def floor_scope_def requireR_def sample_defs)
  have m: "validate_decision_mission_predecessor Xi C0 D0 None = Inr ()"
    by (simp add: validate_decision_mission_predecessor_def f genesis_ids) (simp add: requireR_def sample_defs)
  have r: "reconcile_floor Xi F0 (AC C0) Z Z None None = Inr ()"
    by (simp add: reconcile_floor_def global_floor_matches_checkpoint_def mission_floor_matches_checkpoint_def) (simp add: sample_defs)
  show ?thesis
    by (simp add: validate_checkpoint_advance_def VP_copy authentic_samples fitting_samples IT_keys(3) [symmetric] reauthenticate_previous_def
        require_checkpoint_projection_consistency_def F_copy sample_semantics Let_def f genesis_ids c m r)
qed

lemma advance_C1: "validate_checkpoint_advance Xi (AC C1) IT (AD D1) IT (Some (AC C0)) (Some IT) (Some (AC C0)) (Some IT) F1 VP = Inr ()"
proof -
  have f: "hc_service_instance_id C1 = ''svc''" "hc_environment_id C1 = ''test''" "hc_mission_id C1 = Z" by (simp_all add: sample_defs)
  have n: "names_checkpoint Xi CID (Some Z) (Some ''checker'') (Some Z) (AC C0)"
    using sample_ids by (simp add: names_checkpoint_def) (simp add: sample_defs)
  have g: "extends_global Xi C1 D1 (Some (AC C0))" "extends_mission Xi C1 D1 (Some (AC C0))"
    using n by (simp_all add: extends_global_def extends_mission_def) (simp_all add: sample_defs)
  have gm: "head_checkpoint_genesis_id Xi (JStr (hc_service_instance_id C1)) (JStr (hc_environment_id C1)) = Inr Z" by (simp add: f genesis_ids)
  have c: "global_continuity Xi C1 D1 Z (Some (AC C0)) = Inr ()" using g(1) by (simp add: global_continuity_iff [OF gm])
  have m: "validate_decision_mission_predecessor Xi C1 D1 (Some (AC C0)) = Inr ()"
    using g(2) by (simp add: mission_predecessor_iff f genesis_ids) (simp add: sample_defs)
  have s: "mission_continuity C1 Z (Some (AC C0)) = Inr ()" "floor_scope F1 C1 = Inr ()"
    by (simp_all add: mission_continuity_def require_checkpoint_scope_def floor_scope_def requireR_def) (simp_all add: sample_defs)
  have x: "hf_instance_sequence F1 = 0" "hc_instance_sequence C1 = 1" "hf_mission_event_seq F1 = 0" "hc_event_seq C1 = 1" by (simp_all add: sample_defs)
  have "floor_names_global Xi F1 (Some (AC C0))" "floor_names_mission Xi F1 (Some (AC C0))"
    using n by (simp_all add: floor_names_global_def floor_names_mission_def) (simp_all add: sample_defs)
  then have y: "global_floor_matches_checkpoint Xi F1 (AC C0) = Inr True" "mission_floor_matches_checkpoint Xi F1 (AC C0) = Inr True"
    by (simp_all add: global_floor_matches_iff mission_floor_matches_iff)
  have r: "reconcile_floor Xi F1 (AC C1) Z Z (Some (AC C0)) (Some (AC C0)) = Inr ()"
    by (simp add: reconcile_floor_def global_floor_matches_checkpoint_def [of _ _ "AC C1"] mission_floor_matches_checkpoint_def [of _ _ "AC C1"] x y)
  have p: "require_checkpoint_projection_consistency Xi (Some (AC C0)) (Some (AC C0)) = Inr ()"
    by (simp add: require_checkpoint_projection_consistency_def checkpoint_reference_matches_def sample_ids)
  show ?thesis
    by (simp add: validate_checkpoint_advance_def VP_copy authentic_samples fitting_samples IT_keys(3) [symmetric] reauthenticate_previous_def
        p F_copy sample_semantics Let_def f genesis_ids c m s r)
qed

text \<open>The catalog of both, and the first checkpoint as final.\<close>

definition CAT :: catalog where "CAT = [(AC C0, AD D0), (AC C1, AD D1)]"

lemma CAT_run: "catalog_run Xi CAT"
proof -
  have m: "hc_mission_id C0 = hc_mission_id C1" by (simp add: sample_defs)
  have "catalog_run Xi ([] @ [(AC C0, AD D0)])"
    by (rule catalog_run.advance [OF catalog_run.empty, where gt = None and mt = None]) (use advance_C0 in \<open>simp add: last_checkpoint_def of_mission_def\<close>)
  then have "catalog_run Xi ([(AC C0, AD D0)] @ [(AC C1, AD D1)])"
    by (intro catalog_run.advance [where gt = "Some IT" and mt = "Some IT"]) (use advance_C1 m in \<open>simp_all add: last_checkpoint_def of_mission_def\<close>)
  then show ?thesis by (simp add: CAT_def)
qed

lemma final_C0: "require_external_floor_is_current Xi (AC C0) IT F1 VP = Inr ()"
proof -
  have "names_checkpoint Xi CID (Some Z) (Some ''checker'') (Some Z) (AC C0)"
    using sample_ids by (simp add: names_checkpoint_def) (simp add: sample_defs)
  then have "floor_names_global Xi F1 (Some (AC C0))" "floor_names_mission Xi F1 (Some (AC C0))"
    by (simp_all add: floor_names_global_def floor_names_mission_def) (simp_all add: sample_defs)
  then have y: "global_floor_matches_checkpoint Xi F1 (AC C0) = Inr True" "mission_floor_matches_checkpoint Xi F1 (AC C0) = Inr True"
    by (simp_all add: global_floor_matches_iff mission_floor_matches_iff)
  have "floor_scope F1 C0 = Inr ()" by (simp add: floor_scope_def requireR_def sample_defs)
  then show ?thesis by (simp add: require_external_floor_is_current_def VP_copy authentic_samples fitting_samples F_copy y)
qed

section \<open>Binding to an event\<close>

definition EI :: event where "EI = sample_event ''scan_completed'' ''VELITES'' 0 20 GENESIS_DIGEST P4"

lemma EI_ok: "integ_ok ''event'' (event_body_with EI (norm_json P4)) (JArr [])" by code_simp

lemma EI_header: "event_header_checks (event_body_with EI JNull) Z = Inr ()" unfolding EI_def by code_simp

lemma EI_payload: "validate_payload Xi EI (norm_json P4) = Inr ()"
proof -
  have k: "event_exact_keys ''payload'' (norm_json P4)
      [''analyzer_version'', ''bytes_scanned'', ''candidate_count'', ''file_count'', ''parse_failure_count''] = Inr ()"
    unfolding P4_def by (rule payload_keys_exact) simp
  have "canonical_text (JStr ''python_ast.v1'')" by code_simp
  then have "validate_scan_completed (norm_json P4) = Inr ()"
    by (simp add: validate_scan_completed_def P_counts event_text_def event_nonnegative_def requireR_def)
  then show ?thesis using k by (simp add: validate_payload_def EI_def payload_tables)
qed

lemma EI_verified: "event_verify Xi EI = Inr ()"
proof -
  have s: "sound P4" using E4_ok by (simp add: retainable_def)
  have d: "canonical_dumps Xi P4 = Inr (dumps (norm_json P4))" "thaw_json Xi P4 = Inr (norm_json P4)" using sound_Xi s by blast+
  have l: "strict_loads Xi (dumps (norm_json P4)) = Inr (norm_json P4)" using canonical_roundtrip [of P4 Xi] d s by (simp add: sound_def)
  have a: "canonical_dumps Xi (norm_json P4) = Inr (dumps (norm_json P4))" using canonical_dumps_thaw [OF d(2)] d(1) by simp
  have b: "ev_payload_bytes EI = dumps (norm_json P4)" by (simp add: EI_def)
  have o: "is_JObj (norm_json P4)" by (simp add: is_JObj_norm P4_def)
  have "event_payload_checks Xi EI = Inr (integ_envelope ''event'' (event_body_with EI (norm_json P4)) (JArr []))"
    by (simp add: event_payload_checks_def b l a o EI_payload integ_create(1) [OF EI_ok] wrap_error_def)
  then show ?thesis using EI_header by (simp add: event_verify_iff EI_def KID_def)
qed

lemma binding_C0: "validate_checkpoint_binding Xi (AC C0) (AD D0) EI IT IT None None VP = Inr ()"
proof -
  have e: "snapshot_event Xi EI = Inr EI" using EI_verified by (simp add: snapshot_event_iff)
  have f: "hc_service_instance_id C0 = ''svc''" "hc_environment_id C0 = ''test''" "hc_mission_id C0 = Z" by (simp_all add: sample_defs)
  have m: "validate_decision_mission_predecessor Xi C0 D0 None = Inr ()"
    by (simp add: validate_decision_mission_predecessor_def f genesis_ids) (simp add: requireR_def sample_defs)
  have q: "hc_event_seq C0 = ev_seq EI" "hc_event_digest C0 = ev_event_digest EI" "ev_event_digest EI = dc_proposed_event_digest D0"
    "ev_mission_id EI = dc_mission_id D0" "ev_authority_id EI = dc_authority_id D0" "ev_target_id EI = dc_target_id D0"
    "ev_prev_digest EI = dc_prior_event_digest D0" "ev_seq EI = dc_prior_event_seq D0 + 1" "ev_kind EI = dc_event_kind D0"
    "ev_decision_time EI = dc_time_upper_bound D0"
    by (simp_all add: sample_defs EI_def)
  show ?thesis
    by (simp add: validate_checkpoint_binding_def e VP_copy authentic_samples fitting_samples reauthenticate_previous_def IT_keys(3) [symmetric]
        sample_semantics Let_def m) (use q in simp)
qed

section \<open>Revocation\<close>

definition RF :: revocation_floor where
  "RF = \<lparr>rf_service_instance_id = ''svc'', rf_environment_id = ''test'', rf_decision_policy_id = Z, rf_namespace = ''keys'', rf_root_version = 1,
     rf_version = 1, rf_snapshot_id = Z, rf_evidence = references EXTERNAL_FLOOR_EVIDENCE_KIND\<rparr>"

lemma RF_ok: "revocation_floor_ok RF" by code_simp

lemma revocation_D1: "validate_revocation_advance Xi (Some (AD D0)) (AD D1) (Some IT) (Some (AC C0)) (Some IT) IT [RF] VP = Inr ()"
proof -
  have n: "checkpoint_reference_matches Xi CID (Some Z) (Some ''checker'') (Some Z) (AC C0) = Inr True"
    using sample_ids by (simp add: reference_matches_iff names_checkpoint_def) (simp add: sample_defs)
  have b: "checkpoint_binds_decision_provenance Xi C0 (AD D0) = Inr True"
    using SD_wire(2) [OF goods(1)] by (simp add: binds_provenance_iff) (simp add: sample_defs)
  have d: "dc_prior_global_checkpoint_sequence D1 = hc_instance_sequence C0" "dc_prior_global_checkpoint_id D1 = CID"
    "dc_prior_global_checkpoint_attestation_id D1 = Some Z" "dc_prior_global_checkpoint_principal_id D1 = Some ''checker''"
    "dc_prior_global_checkpoint_trust_snapshot_id D1 = Some Z" by (simp_all add: sample_defs)
  have t: "require_decision_follows_checkpoint D1 C0 = Inr ()" by (simp add: require_decision_follows_checkpoint_def requireR_def sample_defs)
  have h: "check_previous_head Xi VP (AD D1) (AD D0) (Some IT) (Some (AC C0)) (Some IT) = Inr (AD D0)"
    by (simp add: check_previous_head_def authentic_samples fitting_samples IT_keys(3) [symmetric] b sample_semantics Let_def d n t)
  have v: "dc_revocation_views D0 = [RV 1]" "dc_revocation_views D1 = [RV 2]" by (simp_all add: sample_defs)
  have f: "validated_floors D1 [RF] = Inr [RF]"
    using RF_ok by (simp add: validated_floors_iff MAX_REVOCATION_VIEWS_def canonical_order_def v) (simp add: RF_def sample_defs)
  have s: "dc_service_instance_id D0 = dc_service_instance_id D1 \<and> dc_environment_id D0 = dc_environment_id D1" by (simp add: sample_defs)
  have "view_advances [RV 2] [RF] (RV 1) = Inr ()" "view_above_floor [RF] (RV 2) = Inr ()"
    by (simp_all add: view_advances_def view_above_floor_def Let_def lookupR_def view_for_def floor_for_def requireR_def RV_def RF_def)
  then have c: "compare_views D1 (Some (AD D0)) [RF] = Inr ()"
    using s by (simp add: compare_views_def Let_def v validate_current_revocation_against_external_floors_def requireR_def)
      (simp add: RV_def sorted_set_def)
  show ?thesis
    by (simp add: validate_revocation_advance_def VP_copy authentic_samples fitting_samples revocation_predecessor_def h f c)
qed

section \<open>Authentication\<close>

definition DE :: decision_expectation where
  "DE = \<lparr>de_forbidden_key_ids = [CKEY], de_service_instance_id = ''svc'', de_environment_id = ''test'', de_mission_id = Z, de_authority_id = Z,
     de_target_id = Z, de_prior_global_checkpoint_sequence = - 1, de_prior_global_checkpoint_id = Z, de_prior_global_checkpoint_attestation_id = None,
     de_prior_global_checkpoint_principal_id = None, de_prior_global_checkpoint_trust_snapshot_id = None, de_prior_event_seq = - 1,
     de_prior_event_digest = GENESIS_DIGEST, de_event_kind = ''scan_completed'', de_proposed_event_digest = Z, de_transition_intent_id = Z,
     de_request_nonce = replicate 64 (CHR ''0''), de_time_policy_id = Z, de_decision_policy_id = Z, de_required_revocation_namespaces = [''keys''],
     de_max_time_uncertainty_seconds = 10\<rparr>"

lemma DE_checked: "check_decision DE D0 = Inr ()"
  by (simp add: check_decision_def check_expected_def require_max_uncertainty_def int_nonnegative_def epoch_second_def MAX_EPOCH_SECOND_def requireR_def
      DE_def sample_defs)

lemma authenticated_D0: "authenticate_integrity_decision Xi (Raw_decision (SD D0)) IT DE = Inr (AD D0)"
proof -
  note a = good_authentic_decision [OF goods(1)]
  have t: "snapshot_trust_store Xi IT = Inr IT"
  proof -
    obtain t where "snapshot_trust_store Xi IT = Inr t" using snapshot_trust_store_ok [OF IT_ok] by blast
    moreover from snapshot_trust_storeD(2,3) [OF this] have "t = IT" using IT_keys(4) by (cases t; cases IT) auto
    ultimately show ?thesis by simp
  qed
  have k: "authenticate_signed Xi (sd_envelope_bytes (SD D0)) KEY (sd_signature_b64 (SD D0)) IT INTEGRITY_DECISION_ROLE DECISION_SIGNATURE_DOMAIN
      (de_forbidden_key_ids DE) = Inr IKEY"
  proof -
    obtain k where "signed_by Xi (sd_envelope_bytes (SD D0)) KEY (sd_signature_b64 (SD D0)) IT INTEGRITY_DECISION_ROLE DECISION_SIGNATURE_DOMAIN k"
      using a by (auto simp: authentic_decision_def)
    moreover from this have "k = IKEY" using IT_keys(1) by (simp add: signed_by_def)
    ultimately show ?thesis using IT_keys(3,6) by (simp add: authenticate_signed_eq_Inr DE_def MAX_INTEGRITY_KEYS_def)
  qed
  have p: "parse_signed_decision Xi (SD D0) = Inr D0" using a by (simp add: authentic_decision_def)
  have n: "authenticated_decision_new Xi (SD D0) D0 ''decider'' Z = Inr (AD D0)"
    unfolding authenticated_decision_new_eq_Inr [OF p] using sample_texts(1) Z_full by (simp add: AD_def)
  have r: "validated_identity_set ''required_revocation_namespaces'' MAX_REVOCATION_VIEWS (de_required_revocation_namespaces DE) = Inr [''keys'']"
    by code_simp
  have v: "missing_namespaces [''keys''] (dc_revocation_views D0) = []" by (simp add: missing_namespaces_Nil sample_defs)
  have i: "ti_principal_id IKEY = ''decider''" by (simp add: IKEY_def)
  show ?thesis
    by (simp add: authenticate_integrity_decision_def t SD_wire(3) [OF goods(1)] k p DE_checked r v Let_def IT_id i n rewrap_def)
qed

end
