(* ===== verification/Integrity_Witnesses.thy ===== *)
theory Integrity_Witnesses
  imports Sample_Chain
begin

text \<open>
  The properties of the integrity layer applied to the worked example: a catalog of two checkpoints over one mission, its external floor, and
  the decisions behind it.
\<close>

theorem catalog_is_chain_witness:
  "catalog_run Xi CAT \<and> 1 < length CAT \<and> hc_instance_sequence (entry_of (CAT ! 1)) = 1 \<and> entry_ok Xi (CAT ! 1) \<and>
   hc_previous_checkpoint_id (entry_of (CAT ! 1)) = hc_checkpoint_id (entry_of (CAT ! 0)) \<and>
   hc_time_upper_bound (entry_of (CAT ! 0)) \<le> dc_time_lower_bound (ad_decision (snd (CAT ! 1)))"
  using catalog_is_chain [OF CAT_run, of 1] CAT_run by (simp add: CAT_def extends_global_def names_checkpoint_def)

theorem mission_is_chain_witness:
  "CAT = of_mission Z CAT \<and> hc_event_seq (entry_of (CAT ! 1)) = 1 \<and>
   dc_prior_event_digest (ad_decision (snd (CAT ! 1))) = hc_event_digest (entry_of (CAT ! 0))"
proof -
  have m: "CAT = of_mission Z CAT" by (simp add: CAT_def of_mission_def sample_defs)
  show ?thesis using mission_is_chain [OF CAT_run m, of 1] m by (simp add: CAT_def)
qed

theorem advance_floor_exact_witness:
  "validate_checkpoint_advance Xi (AC C1) IT (AD D1) IT (Some (AC C0)) (Some IT) (Some (AC C0)) (Some IT) F1 VP = Inr () \<and>
   floor_names_global Xi F1 (Some (AC C0)) \<and> hf_instance_sequence F1 = hc_instance_sequence C1 - 1"
proof -
  have "\<not> floor_names_global Xi F1 (Some (AC C1))" by (simp add: floor_names_global_def) (simp add: sample_defs)
  then show ?thesis using advance_floor_exact [OF advance_C1] advance_C1 by (simp add: sample_defs)
qed

theorem final_checkpoint_unique_witness:
  "require_external_floor_is_current Xi (AC C0) IT F1 VP = Inr () \<and>
   inj_on (sha256 Xi) (attestation_wires Xi [SC C0, SC C0]) \<and> inj_on (sha256 Xi) (attestation_bodies Xi [SC C0, SC C0]) \<and> AC C0 = AC C0"
proof -
  have w: "attestation_wires Xi [SC C0, SC C0] = {integ_wire ''head_checkpoint'' (checkpoint_json C0) (JArr [attestation_json CKEY SIG])}"
    using SC_wire(1) [OF goods(3)] by (auto simp: attestation_wires_def)
  have i: "inj_on (sha256 Xi) (attestation_wires Xi [SC C0, SC C0])" "inj_on (sha256 Xi) (attestation_bodies Xi [SC C0, SC C0])"
    unfolding attestation_bodies_def w by (auto simp: inj_on_def)
  then show ?thesis using final_checkpoint_unique [OF final_C0 final_C0] final_C0 by simp
qed


theorem reauthentication_exact_witness:
  "authentic_checkpoint Xi IT (AC C0) \<and> authentic_decision Xi IT (AD D0) \<and> reauthenticate_checkpoint Xi (AC C0) IT = Inr (AC C0) \<and>
   reauthenticate_decision Xi (AD D0) IT = Inr (AD D0) \<and> CKEY \<notin> set (it_revoked_key_ids IT) \<and> KEY \<notin> set (it_revoked_key_ids IT)"
  using reauthentication_exact [of Xi "AC C0" IT "AC C0" "AD D0" "AD D0"] good_authentic_decision [OF goods(1)] good_authentic_checkpoint [OF goods(3)]
  by simp

theorem decision_checkpoint_separated_witness:
  "authentic_decision Xi IT (AD D0) \<and> authentic_checkpoint Xi IT (AC C0) \<and> sd_key_id (SD D0) \<noteq> sc_key_id (SC C0)"
  using decision_checkpoint_separated [of Xi IT "AD D0" "AC C0"] good_authentic_decision [OF goods(1)] good_authentic_checkpoint [OF goods(3)] by simp

theorem classify_deadline_exact_witness:
  "classify_deadline (JInt 10) (JInt 20) (JInt 21) = Inr Before \<and> classify_deadline (JInt 10) (JInt 20) (JInt 10) = Inr At_or_after \<and>
   (\<exists>m. classify_deadline (JInt 10) (JInt 20) (JInt 15) = Inl (IntegrityError ''time_interval_straddles_deadline'' m))"
  using classify_deadline_exact [of 10 20 21] classify_deadline_exact [of 10 20 10] classify_deadline_exact [of 10 20 15]
  by (simp add: MAX_EPOCH_SECOND_def)

theorem revocation_never_rolls_back_witness:
  "(revocation_step Xi)\<^sup>+\<^sup>+ (AD D0) (AD D1) \<and> dc_prior_global_checkpoint_sequence D0 < dc_prior_global_checkpoint_sequence D1 \<and>
   (\<exists>w \<in> set (dc_revocation_views D1). rv_namespace w = ''keys'' \<and> rv_version (RV 1) \<le> rv_version w)"
proof -
  have s: "(revocation_step Xi)\<^sup>+\<^sup>+ (AD D0) (AD D1)" by (intro tranclp.r_into_trancl revocation_step.accepted) (rule revocation_D1)
  have v: "dc_revocation_views D0 = [RV 1]" by (simp add: sample_defs)
  have "rv_namespace (RV 1) = ''keys''" by (simp add: RV_def)
  then show ?thesis using revocation_never_rolls_back [OF s] s v by auto
qed

theorem checkpoint_binding_sound_witness:
  "validate_checkpoint_binding Xi (AC C0) (AD D0) EI IT IT None None VP = Inr () \<and> event_verify Xi EI = Inr () \<and>
   hc_event_digest C0 = ev_event_digest EI \<and> dc_time_upper_bound D0 = ev_decision_time EI \<and> extends_mission Xi C0 D0 None"
  using checkpoint_binding_sound [OF binding_C0] binding_C0 by simp

end
