(* ===== verification/File_Evidence.thy ===== *)
theory File_Evidence
  imports Evidence_V1
begin

text \<open>
  \<open>FileEvidenceStore\<close> of \<open>src/etzio/evidence.py\<close>: the content-addressed staging store. Its directory is a map from the name of a
  shard and the name of an artifact in it to the bytes of a file; the files and directories are private and regular, as the descriptor
  checks of the module require, and the system calls succeed. Writing takes into account what another process may have published
  under the same name between the first read and the rename.
\<close>

section \<open>The directory\<close>

record file_store =
  fs_files :: "(pystr \<times> pystr) \<Rightarrow> bytes option"
  fs_max_artifact_bytes :: int

definition file_store_new :: "((pystr \<times> pystr) \<Rightarrow> bytes option) \<Rightarrow> int \<Rightarrow> file_store result" where
  "file_store_new files max_artifact_bytes =
     (if max_artifact_bytes \<le> 0 then Inl (EvidenceError ''max_artifact_bytes must be positive'')
      else Inr \<lparr>fs_files = files, fs_max_artifact_bytes = max_artifact_bytes\<rparr>)"

definition effective_maximum :: "file_store \<Rightarrow> int option \<Rightarrow> int result" where
  "effective_maximum fs maximum =
     (case maximum of
        None \<Rightarrow> Inr (fs_max_artifact_bytes fs)
      | Some m \<Rightarrow> if m < 0 then Inl (EvidenceError ''artifact read maximum must be a nonnegative integer'')
                  else Inr (min m (fs_max_artifact_bytes fs)))"

definition digest_names :: "digest \<Rightarrow> (pystr \<times> pystr) result" where
  "digest_names d =
     (if \<not> full_digest d then Inl (EvidenceError ''invalid evidence digest'')
      else let hexadecimal = drop 7 d in Inr (take 2 hexadecimal, drop 2 hexadecimal))"

section \<open>Reading\<close>

definition read_descriptor_exact :: "bytes \<Rightarrow> int \<Rightarrow> bytes result" where
  "read_descriptor_exact content maximum =
     (if int (length content) > maximum then Inl (EvidenceError ''evidence artifact exceeds configured limit'') else Inr content)"

definition read_digest :: "file_store \<Rightarrow> digest \<Rightarrow> int \<Rightarrow> bytes result" where
  "read_digest fs d maximum =
     bindR (digest_names d) (\<lambda>names.
     case fs_files fs names of
       None \<Rightarrow> Inl (EvidenceError ''cannot open evidence artifact: not found'')
     | Some content \<Rightarrow> read_descriptor_exact content maximum)"

definition validate_artifact_type :: "pystr \<Rightarrow> pystr result" where
  "validate_artifact_type t =
     (if t \<notin> set VERIFICATION_ARTIFACT_TYPES_V1 then Inl (EvidenceError ''unknown verification artifact type'') else Inr t)"

definition file_get :: "externals \<Rightarrow> file_store \<Rightarrow> digest \<Rightarrow> int option \<Rightarrow> bytes result" where
  "file_get X fs d maximum =
     bindR (effective_maximum fs maximum) (\<lambda>m.
     bindR (read_digest fs d m) (\<lambda>data.
     if evidence_digest X data \<noteq> d then Inl (EvidenceError ''evidence artifact digest mismatch'') else Inr data))"

definition file_get_typed :: "externals \<Rightarrow> file_store \<Rightarrow> digest \<Rightarrow> pystr \<Rightarrow> int option \<Rightarrow> bytes result" where
  "file_get_typed X fs d expected_type maximum =
     bindR (validate_artifact_type expected_type) (\<lambda>validated_type.
     bindR (effective_maximum fs maximum) (\<lambda>m.
     bindR (read_digest fs d m) (\<lambda>data.
     if data = [] then Inl (EvidenceError ''typed evidence must be nonempty'')
     else bindR (typed_evidence_digest X data validated_type) (\<lambda>observed.
     if observed \<noteq> d then Inl (EvidenceError ''evidence artifact digest or type mismatch'') else Inr data))))"

section \<open>Writing\<close>

text \<open>\<open>raced\<close> is what another process published under the name before the rename, which does not replace it.\<close>

definition put_exact ::
  "file_store \<Rightarrow> bytes option \<Rightarrow> bytes \<Rightarrow> digest \<Rightarrow> (bytes \<Rightarrow> digest result) \<Rightarrow> file_store result" where
  "put_exact fs raced data d digest_for_data =
     (if int (length data) > fs_max_artifact_bytes fs then Inl (EvidenceError ''evidence artifact exceeds configured limit'')
      else bindR (digest_names d) (\<lambda>names.
      case fs_files fs names of
        Some content \<Rightarrow>
          bindR (read_descriptor_exact content (fs_max_artifact_bytes fs)) (\<lambda>existing.
          bindR (digest_for_data existing) (\<lambda>i.
          if i \<noteq> d then Inl (EvidenceError ''existing evidence artifact fails digest verification'') else Inr fs))
      | None \<Rightarrow>
          let published = (case raced of None \<Rightarrow> data | Some other \<Rightarrow> other) in
          bindR (case raced of
              None \<Rightarrow> Inr ()
            | Some other \<Rightarrow>
                bindR (read_descriptor_exact other (fs_max_artifact_bytes fs)) (\<lambda>existing.
                bindR (digest_for_data existing) (\<lambda>i.
                requireR (i = d) (EvidenceError ''concurrent evidence artifact fails digest verification'')))) (\<lambda>_.
          bindR (read_descriptor_exact published (fs_max_artifact_bytes fs)) (\<lambda>persisted.
          bindR (digest_for_data persisted) (\<lambda>i.
          if length persisted \<noteq> length data \<or> i \<noteq> d
          then Inl (EvidenceError ''persisted evidence artifact fails post-write verification'')
          else Inr (fs\<lparr>fs_files := (fs_files fs)(names \<mapsto> published)\<rparr>))))))"

record artifact_receipt =
  rc_digest :: digest
  rc_size :: int

record typed_artifact_receipt = artifact_receipt +
  rc_artifact_type :: pystr

definition file_put :: "externals \<Rightarrow> file_store \<Rightarrow> bytes option \<Rightarrow> bytes \<Rightarrow> (artifact_receipt \<times> file_store) result" where
  "file_put X fs raced data =
     (if int (length data) > fs_max_artifact_bytes fs then Inl (EvidenceError ''evidence artifact exceeds configured limit'')
      else let d = evidence_digest X data in
        bindR (put_exact fs raced data d (\<lambda>retained. Inr (evidence_digest X retained))) (\<lambda>fs'.
        Inr (\<lparr>rc_digest = d, rc_size = int (length data)\<rparr>, fs')))"

definition file_put_typed ::
  "externals \<Rightarrow> file_store \<Rightarrow> bytes option \<Rightarrow> bytes \<Rightarrow> pystr \<Rightarrow> (typed_artifact_receipt \<times> file_store) result" where
  "file_put_typed X fs raced data artifact_type =
     (if data = [] then Inl (EvidenceError ''typed evidence must be nonempty'')
      else if int (length data) > fs_max_artifact_bytes fs then Inl (EvidenceError ''evidence artifact exceeds configured limit'')
      else bindR (validate_artifact_type artifact_type) (\<lambda>validated_type.
      bindR (typed_evidence_digest X data validated_type) (\<lambda>d.
      bindR (put_exact fs raced data d (\<lambda>retained. typed_evidence_digest X retained validated_type)) (\<lambda>fs'.
      Inr (\<lparr>rc_digest = d, rc_size = int (length data), rc_artifact_type = validated_type\<rparr>, fs')))))"

section \<open>What is read back\<close>

lemma effective_maximum_le: "effective_maximum fs m = Inr n \<Longrightarrow> n \<le> fs_max_artifact_bytes fs"
  by (auto simp: effective_maximum_def split: option.splits if_splits)

lemma file_get_sound:
  assumes "file_get X fs d m = Inr data"
  shows "evidence_digest X data = d" and "int (length data) \<le> fs_max_artifact_bytes fs"
    and "\<And>n. m = Some n \<Longrightarrow> int (length data) \<le> n"
  using assms by (auto simp: file_get_def read_digest_def read_descriptor_exact_def effective_maximum_def bindR_eq_Inr
      split: option.splits if_splits)

lemma file_get_typed_sound:
  assumes "file_get_typed X fs d t m = Inr data"
  shows "typed_evidence_digest X data t = Inr d" and "data \<noteq> []" and "int (length data) \<le> fs_max_artifact_bytes fs"
    and "\<And>n. m = Some n \<Longrightarrow> int (length data) \<le> n"
  using assms by (auto simp: file_get_typed_def validate_artifact_type_def read_digest_def read_descriptor_exact_def effective_maximum_def
      bindR_eq_Inr split: option.splits if_splits)

text \<open>Writing extends the directory by at most one file, whose content has the digest of its name.\<close>

lemma put_exact_extends:
  assumes "put_exact fs raced data d h = Inr fs'"
  obtains names content where "digest_names d = Inr names" and "fs_files fs' names = Some content" and "h content = Inr d"
    and "int (length content) \<le> fs_max_artifact_bytes fs"
    and "fs' = fs \<or> fs_files fs names = None \<and> length content = length data \<and> fs' = fs\<lparr>fs_files := (fs_files fs)(names \<mapsto> content)\<rparr>"
proof -
  from assms obtain names where n: "digest_names d = Inr names" by (auto simp: put_exact_def bindR_eq_Inr split: if_splits)
  show thesis
  proof (cases "fs_files fs names")
    case None
    define content where "content = (case raced of None \<Rightarrow> data | Some other \<Rightarrow> other)"
    from assms None n have "h content = Inr d" "int (length content) \<le> fs_max_artifact_bytes fs" "length content = length data"
        "fs' = fs\<lparr>fs_files := (fs_files fs)(names \<mapsto> content)\<rparr>"
      by (auto simp: put_exact_def read_descriptor_exact_def bindR_eq_Inr Let_def content_def split: if_splits)
    with None n show thesis by (intro that [of names content]) auto
  next
    case (Some content)
    with assms n have "h content = Inr d" "int (length content) \<le> fs_max_artifact_bytes fs" "fs' = fs"
      by (auto simp: put_exact_def read_descriptor_exact_def bindR_eq_Inr split: if_splits)
    with Some n show thesis by (intro that [of names content]) auto
  qed
qed

lemma put_exact_frame:
  assumes "put_exact fs raced data d h = Inr fs'" and "fs_files fs n = Some content"
  shows "fs_files fs' n = Some content"
  using assms(1) by (rule put_exact_extends) (use assms(2) in auto)

lemma put_exact_max: "put_exact fs raced data d h = Inr fs' \<Longrightarrow> fs_max_artifact_bytes fs' = fs_max_artifact_bytes fs"
  by (erule put_exact_extends) auto

lemma read_after_put_exact:
  assumes "put_exact fs raced data d h = Inr fs'"
  obtains content where "read_digest fs' d (fs_max_artifact_bytes fs') = Inr content" and "h content = Inr d"
  using assms by (rule put_exact_extends) (use put_exact_max [OF assms] in \<open>auto simp: read_digest_def read_descriptor_exact_def\<close>)

lemma file_put_readable:
  assumes "file_put X fs raced data = Inr (r, fs')"
  shows "rc_digest r = evidence_digest X data" and "rc_size r = int (length data)" and "rc_size r \<le> fs_max_artifact_bytes fs'"
    and "\<exists>content. file_get X fs' (rc_digest r) None = Inr content"
proof -
  from assms have p: "put_exact fs raced data (evidence_digest X data) (\<lambda>retained. Inr (evidence_digest X retained)) = Inr fs'"
    and r: "r = \<lparr>rc_digest = evidence_digest X data, rc_size = int (length data)\<rparr>" and b: "int (length data) \<le> fs_max_artifact_bytes fs"
    by (auto simp: file_put_def bindR_eq_Inr Let_def split: if_splits)
  show "rc_digest r = evidence_digest X data" and "rc_size r = int (length data)" and "rc_size r \<le> fs_max_artifact_bytes fs'"
    using r b put_exact_max [OF p] by simp_all
  from p obtain content where "read_digest fs' (evidence_digest X data) (fs_max_artifact_bytes fs') = Inr content"
      "evidence_digest X content = evidence_digest X data"
    by (rule read_after_put_exact) auto
  then show "\<exists>content. file_get X fs' (rc_digest r) None = Inr content"
    by (simp add: r file_get_def effective_maximum_def)
qed

section \<open>Views of evidence\<close>

text \<open>
  What the validators read through: the store itself, or the view of \<open>VaultBackedFileEvidenceStore\<close>, which overrides the two operations.
  The contract is that what is returned has the digest it was asked for, and no more bytes than allowed.
\<close>

record evidence_view =
  view_get :: "digest \<Rightarrow> int option \<Rightarrow> bytes result"
  view_get_typed :: "digest \<Rightarrow> pystr \<Rightarrow> int option \<Rightarrow> bytes result"

definition file_view :: "externals \<Rightarrow> file_store \<Rightarrow> evidence_view" where
  "file_view X fs = \<lparr>view_get = file_get X fs, view_get_typed = file_get_typed X fs\<rparr>"

locale content_view =
  fixes X :: externals and V :: evidence_view
  assumes get_digest: "view_get V d m = Inr data \<Longrightarrow> evidence_digest X data = d"
    and get_bounded: "view_get V d (Some n) = Inr data \<Longrightarrow> int (length data) \<le> n"
    and typed_digest: "view_get_typed V d t m = Inr data \<Longrightarrow> typed_evidence_digest X data t = Inr d"
    and typed_bounded: "view_get_typed V d t (Some n) = Inr data \<Longrightarrow> int (length data) \<le> n"

interpretation files: content_view X "file_view X fs" for X fs
  by unfold_locales (auto simp: file_view_def dest: file_get_sound file_get_typed_sound)

section \<open>Fixture snapshots\<close>

definition ETZIO_FIXTURE_MANIFEST :: "(pystr \<times> int \<times> digest) list" where
  "ETZIO_FIXTURE_MANIFEST =
     [(''clean_app.py'', 754, ''sha256:1f0d6b7b2a30b9a62a1940f199c4b48909c1a84b8992dced5fe78861dc19e84d''),
      (''vulnerable_app.py'', 964, ''sha256:e2cc0adcb1773cb51e19be3efa68b5e544252a5c8417a83f1c0a3f4c0524ed33'')]"

definition manifest_entry :: "snapshot_file \<Rightarrow> (int \<times> digest) result" where
  "manifest_entry f =
     (case map_of ETZIO_FIXTURE_MANIFEST (sf_relative_path f) of
        None \<Rightarrow> Inl (EvidenceError ''snapshot path is not present in the Etzio fixture manifest'')
      | Some (expected_size, expected_digest) \<Rightarrow>
          if sf_size f \<noteq> expected_size \<or> sf_artifact_digest f \<noteq> expected_digest
          then Inl (EvidenceError ''snapshot metadata does not match the Etzio fixture manifest'')
          else Inr (expected_size, expected_digest))"

text \<open>The bytes supplied for a snapshot, by path; a dictionary has one value per path.\<close>

definition validate_etzio_fixture_snapshot_bytes :: "externals \<Rightarrow> target_snapshot \<Rightarrow> (pystr \<times> bytes) list \<Rightarrow> exn + unit" where
  "validate_etzio_fixture_snapshot_bytes X snapshot source_bytes =
     bindR (requireR (sort (map fst source_bytes) = map sf_relative_path (ts_files snapshot))
       (EvidenceError ''fixture source-byte paths differ from the target snapshot'')) (\<lambda>_.
     bindR (mapR (\<lambda>f.
       bindR (manifest_entry f) (\<lambda>(expected_size, expected_digest).
       case map_of source_bytes (sf_relative_path f) of
         None \<Rightarrow> Inl (KeyError (sf_relative_path f))
       | Some data \<Rightarrow> requireR (int (length data) = expected_size \<and> evidence_digest X data = expected_digest)
           (EvidenceError ''snapshot bytes do not match the Etzio fixture manifest''))) (ts_files snapshot)) (\<lambda>_. Inr ()))"

definition validate_etzio_fixture_snapshot :: "externals \<Rightarrow> target_snapshot \<Rightarrow> evidence_view \<Rightarrow> exn + unit" where
  "validate_etzio_fixture_snapshot X snapshot V =
     bindR (mapR (\<lambda>f.
       bindR (manifest_entry f) (\<lambda>(expected_size, expected_digest).
       bindR (view_get V (sf_artifact_digest f) (Some expected_size)) (\<lambda>data.
       Inr (sf_relative_path f, data)))) (ts_files snapshot)) (validate_etzio_fixture_snapshot_bytes X snapshot)"

section \<open>Retaining a snapshot\<close>

text \<open>The first pass of \<open>retain_snapshot\<close> validates every path and the sizes, before anything is written.\<close>

fun validate_snapshot_files :: "externals \<Rightarrow> file_store \<Rightarrow> int \<Rightarrow> int \<Rightarrow> (pystr \<times> bytes) list \<Rightarrow> exn + unit" where
  "validate_snapshot_files X fs max_total total_size [] = Inr ()"
| "validate_snapshot_files X fs max_total total_size ((relative_path, data) # rest) =
     bindR (validate_relative_path X (JStr relative_path)) (\<lambda>_.
     if int (length data) > fs_max_artifact_bytes fs
     then Inl (EvidenceError ''snapshot file exceeds the evidence-store artifact limit'')
     else if total_size + int (length data) > max_total
     then Inl (EvidenceError ''target snapshot exceeds the configured byte limit'')
     else validate_snapshot_files X fs max_total (total_size + int (length data)) rest)"

fun put_snapshot_files ::
  "externals \<Rightarrow> (pystr \<Rightarrow> bytes option) \<Rightarrow> file_store \<Rightarrow> (pystr \<times> bytes) list \<Rightarrow> (snapshot_file list \<times> file_store) result" where
  "put_snapshot_files X raced fs [] = Inr ([], fs)"
| "put_snapshot_files X raced fs ((relative_path, data) # rest) =
     bindR (file_put X fs (raced relative_path) data) (\<lambda>(receipt, fs').
     bindR (put_snapshot_files X raced fs' rest) (\<lambda>(entries, fs'').
     Inr (\<lparr>sf_relative_path = relative_path, sf_artifact_digest = rc_digest receipt, sf_size = rc_size receipt\<rparr> # entries, fs'')))"

definition retain_snapshot ::
  "externals \<Rightarrow> (pystr \<Rightarrow> bytes option) \<Rightarrow> pystr \<Rightarrow> (pystr \<times> bytes) list \<Rightarrow> file_store \<Rightarrow> int \<Rightarrow> int \<Rightarrow> (target_snapshot \<times> file_store) result" where
  "retain_snapshot X raced source files fs max_files max_total_bytes =
     (if source \<noteq> ''repository_fixture'' then Inl (EvidenceError ''protocol-v1 snapshots must use the repository_fixture source'')
      else if max_files \<le> 0 then Inl (EvidenceError ''snapshot file limit must be a positive integer'')
      else if max_total_bytes \<le> 0 then Inl (EvidenceError ''snapshot byte limit must be a positive integer'')
      else if max_files > int MAX_SNAPSHOT_FILES_HARD_CEILING then Inl (EvidenceError ''snapshot file limit exceeds the hard ceiling'')
      else if max_total_bytes > MAX_SNAPSHOT_BYTES_HARD_CEILING then Inl (EvidenceError ''snapshot byte limit exceeds the hard ceiling'')
      else if files = [] then Inl (EvidenceError ''target snapshot must contain at least one file'')
      else if int (length files) > max_files then Inl (EvidenceError ''target snapshot exceeds the configured file limit'')
      else bindR (validate_snapshot_files X fs max_total_bytes 0 files) (\<lambda>_.
        bindR (put_snapshot_files X raced fs files) (\<lambda>(entries, fs').
        bindR (target_snapshot_create X source entries) (\<lambda>snapshot. Inr (snapshot, fs')))))"

text \<open>A directory only grows, and what is readable stays readable.\<close>

definition files_extend :: "file_store \<Rightarrow> file_store \<Rightarrow> bool" where
  "files_extend fs fs' \<longleftrightarrow> fs_max_artifact_bytes fs' = fs_max_artifact_bytes fs \<and> fs_files fs \<subseteq>\<^sub>m fs_files fs'"

lemma files_extend_refl [simp]: "files_extend fs fs"
  by (simp add: files_extend_def)

lemma files_extend_trans: "files_extend a b \<Longrightarrow> files_extend b c \<Longrightarrow> files_extend a c"
  by (auto simp: files_extend_def intro: map_le_trans)

lemma put_exact_files_extend: "put_exact fs raced data d h = Inr fs' \<Longrightarrow> files_extend fs fs'"
  by (auto simp: files_extend_def map_le_def put_exact_max dest: put_exact_frame)

lemma file_put_files_extend: "file_put X fs raced data = Inr (r, fs') \<Longrightarrow> files_extend fs fs'"
  by (auto simp: file_put_def bindR_eq_Inr Let_def split: if_splits dest: put_exact_files_extend)

lemma files_extendD: "files_extend fs fs' \<Longrightarrow> fs_files fs n = Some c \<Longrightarrow> fs_files fs' n = Some c"
  by (metis domI files_extend_def map_le_def)

lemma read_digest_mono:
  assumes "read_digest fs d m = Inr data" and "files_extend fs fs'"
  shows "read_digest fs' d m = Inr data"
proof -
  from assms(1) obtain n c where "digest_names d = Inr n" "fs_files fs n = Some c" "read_descriptor_exact c m = Inr data"
    by (auto simp: read_digest_def bindR_eq_Inr split: option.splits)
  with files_extendD [OF assms(2), of n c] show ?thesis by (simp add: read_digest_def)
qed

lemma file_get_mono:
  assumes "file_get X fs d m = Inr data" and "files_extend fs fs'"
  shows "file_get X fs' d m = Inr data"
proof -
  have "effective_maximum fs' m = effective_maximum fs m" using assms(2) by (cases m) (auto simp: effective_maximum_def files_extend_def)
  with assms(1) show ?thesis
    by (auto simp: file_get_def bindR_eq_Inr if_raise_eq_Inr dest: read_digest_mono [OF _ assms(2)] simp del: if_not_P)
qed

lemma put_snapshot_files_sound:
  "put_snapshot_files X raced fs files = Inr (entries, fs') \<Longrightarrow>
    files_extend fs fs' \<and>
    map (\<lambda>e. (sf_relative_path e, sf_artifact_digest e, sf_size e)) entries =
      map (\<lambda>(p, data). (p, evidence_digest X data, int (length data))) files \<and>
    (\<forall>e \<in> set entries. \<exists>content. file_get X fs' (sf_artifact_digest e) None = Inr content)"
proof (induction X raced fs files arbitrary: entries rule: put_snapshot_files.induct)
  case (2 X raced fs p data rest)
  from "2.prems" obtain r fs1 es where p: "file_put X fs (raced p) data = Inr (r, fs1)"
    and q: "put_snapshot_files X raced fs1 rest = Inr (es, fs')"
    and e: "entries = \<lparr>sf_relative_path = p, sf_artifact_digest = rc_digest r, sf_size = rc_size r\<rparr> # es"
    by (auto simp: bindR_eq_Inr)
  note IH = "2.IH" [OF p refl q]
  have "files_extend fs fs'" using file_put_files_extend [OF p] IH files_extend_trans by blast
  moreover have "\<exists>content. file_get X fs' (rc_digest r) None = Inr content"
    using file_put_readable(4) [OF p] IH file_get_mono by blast
  ultimately show ?case using IH file_put_readable(1,2) [OF p] e by simp
qed simp

end
