(* ===== verification/Evidence_Vault.thy ===== *)
theory Evidence_Vault
  imports File_Evidence Integrity_Fields
begin

text \<open>
  \<open>src/etzio/kernel/evidence_vault.py\<close>: the manifest of the artifacts that a byte-claiming event owns. Every role, identity domain,
  type, digest, size and position is derived from the event; a caller supplies none of them.
\<close>

section \<open>Registries\<close>

definition GENERIC_IDENTITY_SCHEME_V1 :: pystr where "GENERIC_IDENTITY_SCHEME_V1 = ''generic_v1''"
definition TYPED_IDENTITY_SCHEME_V1 :: pystr where "TYPED_IDENTITY_SCHEME_V1 = ''typed_v1''"
definition GENERIC_TYPE_TAG_V1 :: pystr where "GENERIC_TYPE_TAG_V1 = []"
definition AUTHORITY_EVIDENCE_ROLE_V1 :: pystr where "AUTHORITY_EVIDENCE_ROLE_V1 = ''authority_evidence''"
definition TARGET_SOURCE_ROLE_V1 :: pystr where "TARGET_SOURCE_ROLE_V1 = ''target_source''"
definition POC_INPUT_ROLE_V1 :: pystr where "POC_INPUT_ROLE_V1 = ''verification_poc_input''"
definition SUPPORTING_EVIDENCE_INPUT_ROLE_V1 :: pystr where
  "SUPPORTING_EVIDENCE_INPUT_ROLE_V1 = ''verification_supporting_evidence_input''"
definition ENVIRONMENT_SPEC_ROLE_V1 :: pystr where "ENVIRONMENT_SPEC_ROLE_V1 = ''verification_environment_spec''"
definition EFFECT_ORACLE_SPEC_ROLE_V1 :: pystr where "EFFECT_ORACLE_SPEC_ROLE_V1 = ''verification_effect_oracle_spec''"
definition EXECUTION_OUTPUT_ROLE_V1 :: pystr where "EXECUTION_OUTPUT_ROLE_V1 = ''verification_execution_output''"
definition EFFECT_OUTPUT_ROLE_V1 :: pystr where "EFFECT_OUTPUT_ROLE_V1 = ''verification_effect_output''"
definition MEASURED_ENVIRONMENT_OUTPUT_ROLE_V1 :: pystr where
  "MEASURED_ENVIRONMENT_OUTPUT_ROLE_V1 = ''verification_measured_environment_output''"
definition TERMINATION_OUTPUT_ROLE_V1 :: pystr where "TERMINATION_OUTPUT_ROLE_V1 = ''verification_termination_output''"

lemmas vault_role_defs =
  AUTHORITY_EVIDENCE_ROLE_V1_def TARGET_SOURCE_ROLE_V1_def POC_INPUT_ROLE_V1_def SUPPORTING_EVIDENCE_INPUT_ROLE_V1_def
  ENVIRONMENT_SPEC_ROLE_V1_def EFFECT_ORACLE_SPEC_ROLE_V1_def EXECUTION_OUTPUT_ROLE_V1_def EFFECT_OUTPUT_ROLE_V1_def
  MEASURED_ENVIRONMENT_OUTPUT_ROLE_V1_def TERMINATION_OUTPUT_ROLE_V1_def

definition PROTECTED_EVIDENCE_EVENT_KINDS_V1 :: "pystr list" where
  "PROTECTED_EVIDENCE_EVENT_KINDS_V1 =
     [''authority_admitted'', ''mission_opened'', ''verification_artifacts_resolved'', ''verifier_receipt_admitted'']"

definition NON_RECEIPT_EVIDENCE_EVENT_KINDS_V1 :: "pystr list" where
  "NON_RECEIPT_EVIDENCE_EVENT_KINDS_V1 = removeAll ''verifier_receipt_admitted'' PROTECTED_EVIDENCE_EVENT_KINDS_V1"

definition VAULT_IDENTITY_BY_ROLE_V1 :: "(pystr \<times> pystr \<times> pystr) list" where
  "VAULT_IDENTITY_BY_ROLE_V1 =
     [(AUTHORITY_EVIDENCE_ROLE_V1, GENERIC_IDENTITY_SCHEME_V1, GENERIC_TYPE_TAG_V1),
      (TARGET_SOURCE_ROLE_V1, GENERIC_IDENTITY_SCHEME_V1, GENERIC_TYPE_TAG_V1),
      (POC_INPUT_ROLE_V1, TYPED_IDENTITY_SCHEME_V1, ''modeled_poc_input''),
      (SUPPORTING_EVIDENCE_INPUT_ROLE_V1, TYPED_IDENTITY_SCHEME_V1, ''modeled_supporting_evidence_input''),
      (ENVIRONMENT_SPEC_ROLE_V1, TYPED_IDENTITY_SCHEME_V1, ''modeled_environment_spec''),
      (EFFECT_ORACLE_SPEC_ROLE_V1, TYPED_IDENTITY_SCHEME_V1, ''modeled_effect_oracle_spec''),
      (EXECUTION_OUTPUT_ROLE_V1, TYPED_IDENTITY_SCHEME_V1, ''modeled_execution_output''),
      (EFFECT_OUTPUT_ROLE_V1, TYPED_IDENTITY_SCHEME_V1, ''modeled_effect_output''),
      (MEASURED_ENVIRONMENT_OUTPUT_ROLE_V1, TYPED_IDENTITY_SCHEME_V1, ''modeled_measured_environment_output''),
      (TERMINATION_OUTPUT_ROLE_V1, TYPED_IDENTITY_SCHEME_V1, ''modeled_termination_output'')]"

definition VAULT_ROLES_V1 :: "pystr list" where
  "VAULT_ROLES_V1 =
     [AUTHORITY_EVIDENCE_ROLE_V1, TARGET_SOURCE_ROLE_V1, POC_INPUT_ROLE_V1, SUPPORTING_EVIDENCE_INPUT_ROLE_V1,
      ENVIRONMENT_SPEC_ROLE_V1, EFFECT_ORACLE_SPEC_ROLE_V1, EXECUTION_OUTPUT_ROLE_V1, EFFECT_OUTPUT_ROLE_V1,
      MEASURED_ENVIRONMENT_OUTPUT_ROLE_V1, TERMINATION_OUTPUT_ROLE_V1]"

definition SINGLETON_VAULT_ROLES_V1 :: "pystr list" where
  "SINGLETON_VAULT_ROLES_V1 = removeAll TARGET_SOURCE_ROLE_V1 (removeAll SUPPORTING_EVIDENCE_INPUT_ROLE_V1 VAULT_ROLES_V1)"

definition MAX_AUTHORITY_EVIDENCE_BYTES_V1 :: int where "MAX_AUTHORITY_EVIDENCE_BYTES_V1 = 16 * 1024 * 1024"
definition MAX_VAULT_ARTIFACT_BYTES_V1 :: int where "MAX_VAULT_ARTIFACT_BYTES_V1 = MAX_RESOLUTION_SINGLE_ARTIFACT_BYTES_V1"
definition MAX_EVENT_ARTIFACT_ROLES_V1 :: int where
  "MAX_EVENT_ARTIFACT_ROLES_V1 = 2 * int MAX_RESOLUTION_ARTIFACTS_PER_ROLE_V1 + 3"
definition DEFAULT_MAX_VAULT_BYTES_V1 :: int where "DEFAULT_MAX_VAULT_BYTES_V1 = 2 ^ 30"
definition MAX_VAULT_BATCH_REQUESTS_V1 :: int where "MAX_VAULT_BATCH_REQUESTS_V1 = MAX_EVENT_ARTIFACT_ROLES_V1"
definition MAX_VAULT_REQUEST_MAXIMUM_V1 :: int where "MAX_VAULT_REQUEST_MAXIMUM_V1 = DEFAULT_MAX_VAULT_BYTES_V1"

definition vault_identity_for_role_v1 :: "pystr \<Rightarrow> (pystr \<times> pystr) result" where
  "vault_identity_for_role_v1 role =
     (case map_of VAULT_IDENTITY_BY_ROLE_V1 role of
        None \<Rightarrow> Inl (EvidenceVaultError ''vault role is not in the closed registry'') | Some identity \<Rightarrow> Inr identity)"

section \<open>Selectors and requests\<close>

record vault_selector =
  vs_event_digest :: digest
  vs_role :: pystr
  vs_ordinal :: int

definition vault_selector_new :: "digest \<Rightarrow> pystr \<Rightarrow> int \<Rightarrow> vault_selector result" where
  "vault_selector_new event_digest role ordinal =
     (if \<not> full_digest event_digest
      then Inl (EvidenceVaultError ''event artifact selector requires a full lowercase sha256 event ID'')
      else if role \<notin> set VAULT_ROLES_V1
      then Inl (EvidenceVaultError ''event artifact selector role is not in the closed registry'')
      else if ordinal < 0 \<or> ordinal \<ge> int MAX_RESOLUTION_ARTIFACTS_PER_ROLE_V1
      then Inl (EvidenceVaultError ''event artifact selector ordinal is outside the fixed bound'')
      else if role \<in> set SINGLETON_VAULT_ROLES_V1 \<and> ordinal \<noteq> 0
      then Inl (EvidenceVaultError ''singleton event artifact selectors require ordinal zero'')
      else Inr \<lparr>vs_event_digest = event_digest, vs_role = role, vs_ordinal = ordinal\<rparr>)"

record vault_request =
  vq_role :: pystr
  vq_digest :: digest
  vq_maximum :: int

definition vault_request_new :: "pystr \<Rightarrow> digest \<Rightarrow> int \<Rightarrow> vault_request result" where
  "vault_request_new role d maximum =
     (if role \<notin> set VAULT_ROLES_V1
      then Inl (EvidenceVaultError ''vault resolution request role is not in the closed registry'')
      else if \<not> full_digest d then Inl (EvidenceVaultError ''vault resolution request requires a full lowercase sha256 ID'')
      else if maximum < 0 \<or> maximum > MAX_VAULT_REQUEST_MAXIMUM_V1
      then Inl (EvidenceVaultError ''vault resolution request maximum is outside the fixed bound'')
      else Inr \<lparr>vq_role = role, vq_digest = d, vq_maximum = maximum\<rparr>)"

type_synonym identity_key = "pystr \<times> pystr \<times> digest"

definition request_identity_key :: "vault_request \<Rightarrow> identity_key result" where
  "request_identity_key q = bindR (vault_identity_for_role_v1 (vq_role q)) (\<lambda>(scheme, tag). Inr (scheme, tag, vq_digest q))"

definition role_ceiling :: "pystr \<Rightarrow> int" where
  "role_ceiling role = (if role = AUTHORITY_EVIDENCE_ROLE_V1 then MAX_AUTHORITY_EVIDENCE_BYTES_V1 else MAX_VAULT_ARTIFACT_BYTES_V1)"

definition request_effective_maximum :: "vault_request \<Rightarrow> int" where
  "request_effective_maximum q = min (vq_maximum q) (role_ceiling (vq_role q))"

section \<open>Artifact references\<close>

record vault_ref =
  va_slot :: int
  va_role :: pystr
  va_ordinal :: int
  va_locator :: pystr
  va_identity_scheme :: pystr
  va_type_tag :: pystr
  va_digest :: digest
  va_byte_size :: "int option"

definition identity_check :: "pystr \<Rightarrow> pystr \<Rightarrow> exn + unit" where
  "identity_check scheme tag =
     (if scheme = GENERIC_IDENTITY_SCHEME_V1
      then requireR (tag = GENERIC_TYPE_TAG_V1) (EvidenceVaultError ''generic vault identities forbid a type tag'')
      else if scheme = TYPED_IDENTITY_SCHEME_V1
      then requireR (tag \<in> set VERIFICATION_ARTIFACT_TYPES_V1) (EvidenceVaultError ''typed vault identity has an unknown type tag'')
      else Inl (EvidenceVaultError ''vault identity scheme is unsupported''))"

definition vault_ref_check :: "vault_ref \<Rightarrow> exn + unit" where
  "vault_ref_check a = seqR [
     requireR (0 \<le> va_slot a \<and> va_slot a < MAX_EVENT_ARTIFACT_ROLES_V1) (EvidenceVaultError ''vault slot is outside the fixed event bound''),
     requireR (va_role a \<in> set VAULT_ROLES_V1) (EvidenceVaultError ''vault role is not in the closed registry''),
     requireR (0 \<le> va_ordinal a \<and> va_ordinal a < int MAX_RESOLUTION_ARTIFACTS_PER_ROLE_V1)
       (EvidenceVaultError ''vault role ordinal is outside the fixed bound''),
     requireR (va_role a \<in> set SINGLETON_VAULT_ROLES_V1 \<longrightarrow> va_ordinal a = 0)
       (EvidenceVaultError ''singleton vault roles require ordinal zero''),
     requireR (va_role a = TARGET_SOURCE_ROLE_V1 \<longrightarrow> va_locator a \<noteq> []) (EvidenceVaultError ''target-source vault roles require a path''),
     requireR (va_role a \<noteq> TARGET_SOURCE_ROLE_V1 \<longrightarrow> va_locator a = []) (EvidenceVaultError ''non-target vault roles forbid a locator''),
     requireR (full_digest (va_digest a)) (EvidenceVaultError ''vault digest must be a full lowercase sha256 ID''),
     identity_check (va_identity_scheme a) (va_type_tag a),
     (case va_byte_size a of
        Some n \<Rightarrow> seqR [
          requireR (0 \<le> n \<and> n \<le> MAX_VAULT_ARTIFACT_BYTES_V1) (EvidenceVaultError ''vault byte size is outside the fixed bound''),
          requireR (va_identity_scheme a = TYPED_IDENTITY_SCHEME_V1 \<longrightarrow> n \<noteq> 0)
            (EvidenceVaultError ''typed vault artifacts must be nonempty'')]
      | None \<Rightarrow> requireR (va_role a = AUTHORITY_EVIDENCE_ROLE_V1)
          (EvidenceVaultError ''only authority evidence may omit its event-declared size''))]"

definition vault_ref_new :: "vault_ref \<Rightarrow> vault_ref result" where
  "vault_ref_new a = bindR (vault_ref_check a) (\<lambda>_. Inr a)"

definition ref_identity_key :: "vault_ref \<Rightarrow> identity_key" where
  "ref_identity_key a = (va_identity_scheme a, va_type_tag a, va_digest a)"

text \<open>\<open>replace(self, byte_size=..)\<close> constructs, and so checks, the reference again.\<close>

definition with_observed_size :: "vault_ref \<Rightarrow> int \<Rightarrow> vault_ref result" where
  "with_observed_size a n =
     (if va_byte_size a \<noteq> None \<and> va_byte_size a \<noteq> Some n
      then Inl (EvidenceVaultError ''artifact bytes differ from the event-declared size'')
      else if n < 0 \<or> n > role_ceiling (va_role a) then Inl (EvidenceVaultError ''artifact exceeds its vault ingestion ceiling'')
      else vault_ref_new (a\<lparr>va_byte_size := Some n\<rparr>))"

definition generic_ref :: "int \<Rightarrow> pystr \<Rightarrow> int \<Rightarrow> digest \<Rightarrow> int option \<Rightarrow> pystr \<Rightarrow> vault_ref result" where
  "generic_ref slot role ordinal d byte_size locator = vault_ref_new
     \<lparr>va_slot = slot, va_role = role, va_ordinal = ordinal, va_locator = locator, va_identity_scheme = GENERIC_IDENTITY_SCHEME_V1,
      va_type_tag = GENERIC_TYPE_TAG_V1, va_digest = d, va_byte_size = byte_size\<rparr>"

definition typed_ref :: "int \<Rightarrow> pystr \<Rightarrow> int \<Rightarrow> artifact_binding \<Rightarrow> vault_ref result" where
  "typed_ref slot role ordinal binding = vault_ref_new
     \<lparr>va_slot = slot, va_role = role, va_ordinal = ordinal, va_locator = [], va_identity_scheme = TYPED_IDENTITY_SCHEME_V1,
      va_type_tag = ab_artifact_type binding, va_digest = ab_artifact_digest binding, va_byte_size = Some (ab_size binding)\<rparr>"

section \<open>The manifest of an event\<close>

text \<open>\<open>except (KeyError, ProtocolError, TypeError, ValueError)\<close>: a missing member is a null, which is no envelope either.\<close>

definition vault_nested_envelope :: "externals \<Rightarrow> event \<Rightarrow> pystr \<Rightarrow> envelope result" where
  "vault_nested_envelope X ev field =
     bindR (bindR (event_payload X ev) (thaw_json X)) (\<lambda>payload.
     rewrap value_caught (EvidenceVaultError ''event omitted a valid envelope'')
       (bindR (canonical_dumps X (member field payload)) (envelope_from_bytes X)))"

definition target_refs :: "nat \<Rightarrow> (pystr \<times> digest \<times> int) list \<Rightarrow> vault_ref list result" where
  "target_refs start files = mapR (\<lambda>(i, path, d, n). generic_ref (int (start + i)) TARGET_SOURCE_ROLE_V1 (int i) d (Some n) path)
     (enumerate 0 files)"

definition evidence_refs :: "nat \<Rightarrow> artifact_binding list \<Rightarrow> vault_ref list result" where
  "evidence_refs start bs = mapR (\<lambda>(i, b). typed_ref (int (start + i)) SUPPORTING_EVIDENCE_INPUT_ROLE_V1 (int i) b) (enumerate 0 bs)"

definition resolution_manifest :: "artifact_resolution \<Rightarrow> vault_ref list result" where
  "resolution_manifest r =
     (let n = length (ar_target_artifacts r); k = length (ar_evidence_artifacts r) in
      bindR (target_refs 0 (map (\<lambda>t. (tb_relative_path t, tb_artifact_digest t, tb_size t)) (ar_target_artifacts r))) (\<lambda>targets.
      bindR (typed_ref (int n) POC_INPUT_ROLE_V1 0 (ar_poc_artifact r)) (\<lambda>poc.
      bindR (evidence_refs (Suc n) (ar_evidence_artifacts r)) (\<lambda>evidence.
      bindR (typed_ref (int (Suc (n + k))) ENVIRONMENT_SPEC_ROLE_V1 0 (ar_environment_artifact r)) (\<lambda>environment.
      bindR (typed_ref (int (Suc (Suc (n + k)))) EFFECT_ORACLE_SPEC_ROLE_V1 0 (ar_effect_oracle_artifact r)) (\<lambda>oracle.
      Inr (targets @ [poc] @ evidence @ [environment, oracle])))))))"

definition OUTPUT_FIELD_ROLES :: "(pystr \<times> pystr) list" where
  "OUTPUT_FIELD_ROLES =
     [(''execution_output_artifact'', EXECUTION_OUTPUT_ROLE_V1), (''effect_output_artifact'', EFFECT_OUTPUT_ROLE_V1),
      (''measured_environment_output_artifact'', MEASURED_ENVIRONMENT_OUTPUT_ROLE_V1),
      (''termination_output_artifact'', TERMINATION_OUTPUT_ROLE_V1)]"

definition derive_event_artifact_manifest_v1 :: "externals \<Rightarrow> event \<Rightarrow> vault_ref list result" where
  "derive_event_artifact_manifest_v1 X ev =
     (if ev_kind ev \<notin> set PROTECTED_EVIDENCE_EVENT_KINDS_V1 then Inr []
      else if ev_kind ev = ''authority_admitted''
      then bindR (rewrap is_protocol_error (EvidenceVaultError ''authority event contains an invalid grant'')
             (bindR (vault_nested_envelope X ev ''grant'') (grant_from_envelope X))) (\<lambda>grant.
           bindR (generic_ref 0 AUTHORITY_EVIDENCE_ROLE_V1 0 (ag_evidence_digest grant) None []) (\<lambda>a. Inr [a]))
      else if ev_kind ev = ''mission_opened''
      then bindR (rewrap is_protocol_error (EvidenceVaultError ''mission-opened event contains an invalid target snapshot'')
             (bindR (vault_nested_envelope X ev ''target_snapshot'') (target_snapshot_from_envelope X))) (\<lambda>snapshot.
           target_refs 0 (map (\<lambda>f. (sf_relative_path f, sf_artifact_digest f, sf_size f)) (ts_files snapshot)))
      else if ev_kind ev = ''verification_artifacts_resolved''
      then bindR (rewrap is_protocol_error (EvidenceVaultError ''resolution event contains an invalid artifact resolution'')
             (bindR (vault_nested_envelope X ev ''resolution'') (resolution_from_envelope X))) resolution_manifest
      else bindR (bindR (event_payload X ev) (thaw_json X)) (\<lambda>payload.
           rewrap value_caught (EvidenceVaultError ''receipt-admission event contains invalid output bindings'')
             (mapR (\<lambda>(i, field, role).
                bindR (artifact_binding_from_dict (member field payload)) (typed_ref (int i) role 0))
                (enumerate 0 OUTPUT_FIELD_ROLES))))"

section \<open>Digests by identity domain\<close>

text \<open>\<open>digest_hasher_v1\<close>: what the hasher has read before the content.\<close>

definition digest_prefix_v1 :: "pystr \<Rightarrow> pystr \<Rightarrow> bytes result" where
  "digest_prefix_v1 identity_scheme type_tag =
     (if identity_scheme = GENERIC_IDENTITY_SCHEME_V1
      then (if type_tag \<noteq> GENERIC_TYPE_TAG_V1 then Inl (EvidenceVaultError ''generic digest hashing forbids a type tag'')
            else Inr EVIDENCE_DOMAIN)
      else if identity_scheme = TYPED_IDENTITY_SCHEME_V1 \<and> type_tag \<in> set VERIFICATION_ARTIFACT_TYPES_V1
      then Inr (TYPED_EVIDENCE_DOMAIN @ type_tag @ [CHR 0x00])
      else Inl (EvidenceVaultError ''cannot hash an unsupported vault identity''))"

definition digest_bytes_v1 :: "externals \<Rightarrow> bytes \<Rightarrow> pystr \<Rightarrow> pystr \<Rightarrow> digest result" where
  "digest_bytes_v1 X data identity_scheme type_tag =
     bindR (digest_prefix_v1 identity_scheme type_tag) (\<lambda>p. Inr (''sha256:'' @ hex_bytes (sha256 X (p @ data))))"

lemma digest_bytes_generic: "digest_bytes_v1 X data GENERIC_IDENTITY_SCHEME_V1 GENERIC_TYPE_TAG_V1 = Inr (evidence_digest X data)"
  by (simp add: digest_bytes_v1_def digest_prefix_v1_def evidence_digest_def)

lemma digest_bytes_typed:
  "t \<in> set VERIFICATION_ARTIFACT_TYPES_V1 \<Longrightarrow> digest_bytes_v1 X data TYPED_IDENTITY_SCHEME_V1 t = typed_evidence_digest X data t"
  by (simp add: digest_bytes_v1_def digest_prefix_v1_def typed_evidence_digest_def GENERIC_IDENTITY_SCHEME_V1_def TYPED_IDENTITY_SCHEME_V1_def)

end
