(* ===== verification/Receipt_Evidence.thy ===== *)
theory Receipt_Evidence
  imports Evidence_Vault Mission_Replay
begin

text \<open>
  \<open>src/etzio/verification.py\<close>, the checks of a receipt against retained bytes: every input of the artifact resolution and every signed
  output is read again, under its type and size, and the validation proposal that results. The bytes are read through an evidence view.
\<close>

section \<open>Inputs\<close>

definition resolution_bindings :: "artifact_resolution \<Rightarrow> (pystr \<times> artifact_binding) list" where
  "resolution_bindings r =
     [(''poc'', ar_poc_artifact r)] @
     map (\<lambda>(i, b). (''evidence_'' @ nat_str i, b)) (enumerate 0 (ar_evidence_artifacts r)) @
     [(''environment'', ar_environment_artifact r), (''effect_oracle'', ar_effect_oracle_artifact r)]"

fun bindings_cas_reason :: "evidence_view \<Rightarrow> (pystr \<times> artifact_binding) list \<Rightarrow> pystr option result" where
  "bindings_cas_reason V [] = Inr None"
| "bindings_cas_reason V ((role, b) # rest) =
     (case view_get_typed V (ab_artifact_digest b) (ab_artifact_type b) (Some (ab_size b)) of
        Inl ex \<Rightarrow> if is_evidence_error ex then Inr (Some (''resolved_'' @ role @ ''_artifact_unavailable'')) else Inl ex
      | Inr data \<Rightarrow>
          if int (length data) \<noteq> ab_size b then Inr (Some (''resolved_'' @ role @ ''_artifact_size_mismatch''))
          else bindings_cas_reason V rest)"

definition artifact_resolution_cas_reason ::
  "externals \<Rightarrow> artifact_resolution \<Rightarrow> target_snapshot \<Rightarrow> evidence_view \<Rightarrow> pystr option result" where
  "artifact_resolution_cas_reason X r snapshot V =
     (if ts_object_id snapshot \<noteq> ar_target_snapshot_id r then Inr (Some ''target_snapshot_mismatch'')
      else if map (\<lambda>t. (tb_artifact_digest t, tb_artifact_type t, tb_relative_path t, tb_size t)) (ar_target_artifacts r) \<noteq>
              map (\<lambda>f. (sf_artifact_digest f, TARGET_ARTIFACT_TYPE_V1, sf_relative_path f, sf_size f)) (ts_files snapshot)
      then Inr (Some ''resolution_target_artifacts_mismatch'')
      else (case validate_etzio_fixture_snapshot X snapshot V of
          Inl ex \<Rightarrow> if is_evidence_error ex then Inr (Some ''resolved_target_unavailable'') else Inl ex
        | Inr _ \<Rightarrow> bindings_cas_reason V (resolution_bindings r)))"

section \<open>Outputs\<close>

text \<open>Role, type, digest and size of the four outputs, in source order.\<close>

definition output_specs :: "verifier_receipt \<Rightarrow> (pystr \<times> pystr \<times> digest \<times> int) list" where
  "output_specs v =
     [(''execution_output'', EXECUTION_OUTPUT_TYPE, vr_execution_output_digest v, vr_execution_output_size v),
      (''effect_output'', EFFECT_OUTPUT_TYPE, vr_effect_output_digest v, vr_effect_output_size v),
      (''measured_environment_output'', MEASURED_ENVIRONMENT_OUTPUT_TYPE, vr_measured_environment_output_digest v,
       vr_measured_environment_output_size v),
      (''termination_output'', TERMINATION_OUTPUT_TYPE, vr_termination_output_digest v, vr_termination_output_size v)]"

definition signed_output_bytes :: "verifier_receipt \<Rightarrow> int" where
  "signed_output_bytes v = sum_list (map (\<lambda>(role, t, d, n). n) (output_specs v))"

text \<open>The constructor of a binding checks what \<open>from_dict\<close> checks after its keys.\<close>

definition artifact_binding_new :: "digest \<Rightarrow> pystr \<Rightarrow> int \<Rightarrow> artifact_binding result" where
  "artifact_binding_new d t n =
     artifact_binding_from_dict (artifact_binding_json \<lparr>ab_artifact_digest = d, ab_artifact_type = t, ab_size = n\<rparr>)"

definition resolve_output :: "evidence_view \<Rightarrow> pystr \<times> pystr \<times> digest \<times> int \<Rightarrow> artifact_binding result" where
  "resolve_output V spec = (case spec of (role, t, d, signed_size) \<Rightarrow>
     bindR (catchR (view_get_typed V d t (Some signed_size)) (\<lambda>ex.
       if \<not> is_evidence_error ex then Inl ex
       else if exn_message ex \<in> {''evidence artifact exceeds configured limit'', ''typed evidence must be nonempty''}
       then Inl (VerificationError (''resolved_'' @ role @ ''_artifact_size_mismatch'') (role @ '' bytes differ from the signed size''))
       else Inl (VerificationError (''resolved_'' @ role @ ''_artifact_unavailable'')
              (role @ '' cannot be resolved under its code-owned type'')))) (\<lambda>data.
     if int (length data) \<noteq> signed_size
     then Inl (VerificationError (''resolved_'' @ role @ ''_artifact_size_mismatch'') (role @ '' bytes differ from the signed size''))
     else artifact_binding_new d t signed_size))"

definition outputs_of_list :: "artifact_binding list \<Rightarrow> output_artifacts result" where
  "outputs_of_list bs = output_artifacts_new
     \<lparr>oa_execution = bs ! 0, oa_effect = bs ! 1, oa_measured_environment = bs ! 2, oa_termination = bs ! 3\<rparr>"

abbreviation output_ceiling_error :: exn where
  "output_ceiling_error \<equiv> VerificationError ''verification_output_byte_ceiling_exceeded''
     ''signed verification outputs exceed the available byte allowance''"

definition resolve_verifier_output_artifacts :: "authenticated_receipt \<Rightarrow> evidence_view \<Rightarrow> int \<Rightarrow> output_artifacts result" where
  "resolve_verifier_output_artifacts authenticated V maximum_output_bytes =
     (let v = at_receipt authenticated in
      if signed_output_bytes v > min maximum_output_bytes MAX_TYPED_VERIFICATION_OUTPUT_BYTES_V1 then Inl output_ceiling_error
      else bindR (mapR (resolve_output V) (output_specs v)) outputs_of_list)"

definition revalidate_verifier_receipt_artifacts ::
  "externals \<Rightarrow> authenticated_receipt \<Rightarrow> target_snapshot \<Rightarrow> evidence_view \<Rightarrow> int \<Rightarrow> output_artifacts result" where
  "revalidate_verifier_receipt_artifacts X authenticated snapshot V maximum_output_bytes =
     (if maximum_output_bytes < 0 \<or> maximum_output_bytes > MAX_EPOCH_SECOND
      then Inl (VerificationError ''invalid_output_byte_ceiling'' ''maximum_output_bytes must be a nonnegative int64'')
      else if signed_output_bytes (at_receipt authenticated) > min maximum_output_bytes MAX_TYPED_VERIFICATION_OUTPUT_BYTES_V1
      then Inl output_ceiling_error
      else bindR (artifact_resolution_cas_reason X (at_artifact_resolution authenticated) snapshot V) (\<lambda>reason.
        case reason of
          Some c \<Rightarrow> Inl (VerificationError c ''current CAS differs from the authenticated artifact resolution'')
        | None \<Rightarrow> resolve_verifier_output_artifacts authenticated V maximum_output_bytes))"

section \<open>Proposals\<close>

record verification_proposal =
  pr_eligible :: bool
  pr_lease_id :: "digest option"
  pr_receipt_id :: "digest option"
  pr_verdict :: "pystr option"
  pr_reason_code :: pystr
  pr_issuance_trust_snapshot_id :: "digest option"
  pr_decision_trust_snapshot_id :: "digest option"
  pr_artifact_resolution_id :: "digest option"
  pr_output_artifacts :: "output_artifacts option"

definition opt_digest :: "digest option \<Rightarrow> bool" where
  "opt_digest v \<longleftrightarrow> (case v of None \<Rightarrow> False | Some d \<Rightarrow> full_digest d)"

definition proposal_new :: "verification_proposal \<Rightarrow> verification_proposal result" where
  "proposal_new p =
     (if pr_eligible p then
        (if \<not> (opt_digest (pr_lease_id p) \<and> opt_digest (pr_receipt_id p) \<and>
               (case pr_verdict p of None \<Rightarrow> False | Some v \<Rightarrow> v \<in> set VERDICTS) \<and> pr_reason_code p = ''proposal_valid'' \<and>
               opt_digest (pr_issuance_trust_snapshot_id p) \<and> opt_digest (pr_decision_trust_snapshot_id p) \<and>
               opt_digest (pr_artifact_resolution_id p) \<and> pr_output_artifacts p \<noteq> None)
         then Inl (VerificationError ''invalid_proposal'' ''eligible proposal fields are inconsistent'') else Inr p)
      else if pr_lease_id p \<noteq> None \<or> pr_receipt_id p \<noteq> None \<or> pr_verdict p \<noteq> None \<or> pr_issuance_trust_snapshot_id p \<noteq> None \<or>
              pr_decision_trust_snapshot_id p \<noteq> None \<or> pr_artifact_resolution_id p \<noteq> None \<or> pr_output_artifacts p \<noteq> None
      then Inl (VerificationError ''invalid_proposal'' ''ineligible proposals cannot expose untrusted receipt claims'')
      else Inr p)"

definition refuse_proposal :: "pystr \<Rightarrow> verification_proposal result" where
  "refuse_proposal reason_code = proposal_new
     \<lparr>pr_eligible = False, pr_lease_id = None, pr_receipt_id = None, pr_verdict = None, pr_reason_code = reason_code,
      pr_issuance_trust_snapshot_id = None, pr_decision_trust_snapshot_id = None, pr_artifact_resolution_id = None,
      pr_output_artifacts = None\<rparr>"

definition MAX_CONSUMED_LEASE_IDS :: nat where "MAX_CONSUMED_LEASE_IDS = 100000"

definition validated_digest_set :: "pystr list \<Rightarrow> pystr \<Rightarrow> nat \<Rightarrow> pystr list result" where
  "validated_digest_set values reason maximum_items =
     (if length values > maximum_items then Inl (VerificationError reason ''digest collection exceeds its fixed count ceiling'')
      else validated_identifiers full_digest reason maximum_items [] values)"

fun reason_code_of :: "exn \<Rightarrow> pystr" where
  "reason_code_of (VerificationError c m) = c"
| "reason_code_of (VerificationArtifactError c m) = c"
| "reason_code_of (AuthorityError c m) = c"
| "reason_code_of (IntegrityError c m) = c"
| "reason_code_of (IntegrityTransitionError c m) = c"
| "reason_code_of _ = []"

definition validate_verifier_receipt ::
  "externals \<Rightarrow> raw_receipt \<Rightarrow> verifier_trust_store \<Rightarrow> verification_lease \<Rightarrow> int \<Rightarrow> pystr option \<Rightarrow> digest list \<Rightarrow>
   artifact_resolution \<Rightarrow> target_snapshot \<Rightarrow> evidence_view \<Rightarrow> int \<Rightarrow> verification_proposal result" where
  "validate_verifier_receipt X raw trust l decision_time expected_verdict consumed_lease_ids r snapshot V maximum_output_bytes =
     (case
        bindR (validated_digest_set consumed_lease_ids ''invalid_consumed_lease_ids'' MAX_CONSUMED_LEASE_IDS) (\<lambda>consumed.
        bindR (authenticate_verifier_receipt X raw trust l r decision_time expected_verdict) (\<lambda>authenticated.
        if vl_lease_id l \<in> set consumed
        then Inl (VerificationError ''lease_already_consumed'' ''verification lease is already consumed'')
        else bindR (revalidate_verifier_receipt_artifacts X authenticated snapshot V maximum_output_bytes) (\<lambda>outs.
          Inr (authenticated, outs))))
      of
        Inl ex \<Rightarrow> if is_verification_error ex then refuse_proposal (reason_code_of ex) else Inl ex
      | Inr (authenticated, outs) \<Rightarrow> proposal_new
          \<lparr>pr_eligible = True, pr_lease_id = Some (vl_lease_id l), pr_receipt_id = Some (vr_receipt_id (at_receipt authenticated)),
           pr_verdict = Some (vr_verdict (at_receipt authenticated)), pr_reason_code = ''proposal_valid'',
           pr_issuance_trust_snapshot_id = Some (vl_issuance_trust_snapshot_id l),
           pr_decision_trust_snapshot_id = Some (at_decision_trust_snapshot_id authenticated),
           pr_artifact_resolution_id = Some (ar_resolution_id r), pr_output_artifacts = Some outs\<rparr>)"

section \<open>What a successful revalidation has read\<close>

definition typed_readable :: "externals \<Rightarrow> evidence_view \<Rightarrow> artifact_binding \<Rightarrow> bool" where
  "typed_readable X V b \<longleftrightarrow> (\<exists>data. view_get_typed V (ab_artifact_digest b) (ab_artifact_type b) (Some (ab_size b)) = Inr data \<and>
     typed_evidence_digest X data (ab_artifact_type b) = Inr (ab_artifact_digest b) \<and> int (length data) = ab_size b)"

definition source_readable :: "externals \<Rightarrow> evidence_view \<Rightarrow> snapshot_file \<Rightarrow> bool" where
  "source_readable X V f \<longleftrightarrow> (\<exists>data. view_get V (sf_artifact_digest f) (Some (sf_size f)) = Inr data \<and>
     evidence_digest X data = sf_artifact_digest f \<and> int (length data) = sf_size f)"

lemma mapR_all: "mapR f xs = Inr ys \<Longrightarrow> x \<in> set xs \<Longrightarrow> \<exists>y \<in> set ys. f x = Inr y"
  by (induction xs arbitrary: ys) (auto simp: bindR_eq_Inr)

lemma mapR_back: "mapR f xs = Inr ys \<Longrightarrow> y \<in> set ys \<Longrightarrow> \<exists>x \<in> set xs. f x = Inr y"
  by (induction xs arbitrary: ys) (auto simp: bindR_eq_Inr)

lemma mapR_map: "mapR f xs = Inr ys \<Longrightarrow> (\<And>x y. x \<in> set xs \<Longrightarrow> f x = Inr y \<Longrightarrow> h y = g x) \<Longrightarrow> map h ys = map g xs"
  by (induction xs arbitrary: ys) (auto simp: bindR_eq_Inr)

context content_view
begin

lemma bindings_read:
  "bindings_cas_reason V bs = Inr None \<Longrightarrow> (role, b) \<in> set bs \<Longrightarrow> typed_readable X V b"
proof (induction bs)
  case (Cons a rest)
  then show ?case
    by (cases a) (auto simp: typed_readable_def split: sum.splits if_splits dest: typed_digest)
qed simp

lemma fixture_read:
  assumes "validate_etzio_fixture_snapshot X snapshot V = Inr ()" and f: "f \<in> set (ts_files snapshot)"
  shows "source_readable X V f"
proof -
  let ?read = "\<lambda>f. bindR (manifest_entry f) (\<lambda>(expected_size, expected_digest).
    bindR (view_get V (sf_artifact_digest f) (Some expected_size)) (\<lambda>data. Inr (sf_relative_path f, data)))"
  from assms(1) obtain src where src: "mapR ?read (ts_files snapshot) = Inr src" and ok: "validate_etzio_fixture_snapshot_bytes X snapshot src = Inr ()"
    unfolding validate_etzio_fixture_snapshot_def bindR_eq_Inr by blast
  from mapR_all [OF src f] obtain d where "?read f = Inr d" and "d \<in> set src" by blast
  then obtain n e data where m: "manifest_entry f = Inr (n, e)" and g: "view_get V (sf_artifact_digest f) (Some n) = Inr data"
    and ds: "(sf_relative_path f, data) \<in> set src"
    by (auto simp: bindR_eq_Inr)
  have ne: "sf_size f = n" "sf_artifact_digest f = e" using m by (auto simp: manifest_entry_def split: option.splits if_splits)
  let ?chk = "\<lambda>f. bindR (manifest_entry f) (\<lambda>(expected_size, expected_digest).
       case map_of src (sf_relative_path f) of
         None \<Rightarrow> Inl (KeyError (sf_relative_path f))
       | Some data \<Rightarrow> requireR (int (length data) = expected_size \<and> evidence_digest X data = expected_digest)
           (EvidenceError ''snapshot bytes do not match the Etzio fixture manifest''))"
  from ok obtain us where "mapR ?chk (ts_files snapshot) = Inr us" and srt: "sort (map fst src) = map sf_relative_path (ts_files snapshot)"
    unfolding validate_etzio_fixture_snapshot_bytes_def bindR_eq_Inr requireR_eq_Inr by blast
  from mapR_all [OF this(1) f] obtain u where "?chk f = Inr u" by blast
  then obtain data' where d': "map_of src (sf_relative_path f) = Some data'" "int (length data') = n"
    using m by (auto simp: requireR_eq_Inr split: option.splits)
  have "(sf_relative_path f, data') \<in> set src" using d'(1) by (rule map_of_SomeD)
  from mapR_back [OF src this] obtain f' where "?read f' = Inr (sf_relative_path f, data')" by blast
  then obtain n' e' where "manifest_entry f' = Inr (n', e')" "view_get V (sf_artifact_digest f') (Some n') = Inr data'"
      "sf_relative_path f' = sf_relative_path f"
    by (auto simp: bindR_eq_Inr)
  with m g have "data' = data" by (auto simp: manifest_entry_def split: option.splits if_splits)
  with g d'(2) ne get_digest [OF g] show ?thesis by (auto simp: source_readable_def)
qed

lemma resolve_output_read:
  assumes "resolve_output V (role, t, d, n) = Inr b"
  shows "b = \<lparr>ab_artifact_digest = d, ab_artifact_type = t, ab_size = n\<rparr>" and "typed_readable X V b"
proof -
  from assms obtain data where g: "view_get_typed V d t (Some n) = Inr data" and l: "int (length data) = n" and b: "artifact_binding_new d t n = Inr b"
    by (auto simp: resolve_output_def bindR_eq_Inr catchR_def split: sum.splits if_splits)
  show "b = \<lparr>ab_artifact_digest = d, ab_artifact_type = t, ab_size = n\<rparr>"
    using b by (auto simp: artifact_binding_new_def artifact_binding_from_dict_def artifact_binding_json_def member_def bindR_eq_Inr split: if_splits)
  with g l typed_digest [OF g] show "typed_readable X V b" by (simp add: typed_readable_def)
qed

lemma revalidation_reads:
  assumes "revalidate_verifier_receipt_artifacts X authenticated snapshot V maximum = Inr outs"
  shows "\<And>f. f \<in> set (ts_files snapshot) \<Longrightarrow> source_readable X V f"
    and "\<And>role b. (role, b) \<in> set (resolution_bindings (at_artifact_resolution authenticated)) \<Longrightarrow> typed_readable X V b"
    and "\<And>b. b \<in> set (output_list outs) \<Longrightarrow> typed_readable X V b"
    and "outputs_match outs (at_receipt authenticated)" and "output_total_bytes outs \<le> maximum"
proof -
  let ?v = "at_receipt authenticated"
  from assms have cas: "artifact_resolution_cas_reason X (at_artifact_resolution authenticated) snapshot V = Inr None"
    and res: "resolve_verifier_output_artifacts authenticated V maximum = Inr outs"
    by (auto simp: revalidate_verifier_receipt_artifacts_def bindR_eq_Inr split: if_splits option.splits)
  from cas have vf: "validate_etzio_fixture_snapshot X snapshot V = Inr ()"
    and bs: "bindings_cas_reason V (resolution_bindings (at_artifact_resolution authenticated)) = Inr None"
    by (auto simp: artifact_resolution_cas_reason_def split: if_splits sum.splits)
  show "\<And>f. f \<in> set (ts_files snapshot) \<Longrightarrow> source_readable X V f" using fixture_read [OF vf] .
  show "\<And>role b. (role, b) \<in> set (resolution_bindings (at_artifact_resolution authenticated)) \<Longrightarrow> typed_readable X V b"
    using bindings_read [OF bs] .
  from res obtain ys where ys: "mapR (resolve_output V) (output_specs ?v) = Inr ys" and ol: "outputs_of_list ys = Inr outs"
    and le: "signed_output_bytes ?v \<le> min maximum MAX_TYPED_VERIFICATION_OUTPUT_BYTES_V1"
    by (auto simp: resolve_verifier_output_artifacts_def bindR_eq_Inr Let_def not_less split: if_splits)
  have ysm: "ys = map (\<lambda>(role, t, d, n). \<lparr>ab_artifact_digest = d, ab_artifact_type = t, ab_size = n\<rparr>) (output_specs ?v)"
    using mapR_map [OF ys, of id] resolve_output_read(1) by fastforce
  have outs: "outs = \<lparr>oa_execution = ys ! 0, oa_effect = ys ! 1, oa_measured_environment = ys ! 2, oa_termination = ys ! 3\<rparr>"
    using ol by (auto simp: outputs_of_list_def output_artifacts_new_def bindR_eq_Inr)
  show m: "outputs_match outs ?v" by (simp add: outs ysm outputs_match_def output_specs_def)
  show "output_total_bytes outs \<le> maximum"
    using le by (simp add: outs ysm output_total_bytes_def output_list_def output_specs_def signed_output_bytes_def)
  have "set (output_list outs) \<subseteq> set ys" by (simp add: outs ysm output_list_def output_specs_def)
  then show "\<And>b. b \<in> set (output_list outs) \<Longrightarrow> typed_readable X V b"
    using mapR_back [OF ys] resolve_output_read(2) by (metis prod_cases4 subsetD)
qed

end

text \<open>A refused proposal exposes nothing of the receipt; the proposals that are returned are consistent.\<close>

lemma proposal_newD: "proposal_new p = Inr q \<Longrightarrow> q = p"
  by (auto simp: proposal_new_def split: if_splits)

end
