(* ===== verification/Retained_History.thy ===== *)
theory Retained_History
  imports Receipt_Evidence
begin

text \<open>
  What the kernel services read from a replayed mission: \<open>_nested_envelope\<close> and the searches of \<open>src/etzio/kernel/verification_lease.py\<close>,
  \<open>verification_recovery.py\<close>, \<open>artifact_resolution.py\<close> and \<open>receipt_admission.py\<close>, and the revalidation of a proposed receipt admission
  under the writer lock of the store.
\<close>

section \<open>Retained objects\<close>

definition payload_item :: "json \<Rightarrow> pystr \<Rightarrow> json result" where
  "payload_item payload field = (case map_of (obj_members payload) field of None \<Rightarrow> Inl (KeyError field) | Some v \<Rightarrow> Inr v)"

definition thawed_payload :: "externals \<Rightarrow> event \<Rightarrow> json result" where
  "thawed_payload X ev = bindR (event_payload X ev) (thaw_json X)"

definition retained_envelope :: "externals \<Rightarrow> event \<Rightarrow> pystr \<Rightarrow> envelope result" where
  "retained_envelope X ev field =
     bindR (thawed_payload X ev) (\<lambda>payload.
     bindR (payload_item payload field) (\<lambda>v.
     bindR (canonical_dumps X v) (envelope_from_bytes X)))"

definition retained_lease :: "externals \<Rightarrow> event \<Rightarrow> verification_lease result" where
  "retained_lease X ev = bindR (retained_envelope X ev ''lease'') (vlease_from_envelope X)"

definition retained_candidate :: "externals \<Rightarrow> event \<Rightarrow> static_candidate result" where
  "retained_candidate X ev = bindR (retained_envelope X ev ''candidate'') (candidate_from_envelope X)"

definition retained_resolution :: "externals \<Rightarrow> event \<Rightarrow> artifact_resolution result" where
  "retained_resolution X ev = bindR (retained_envelope X ev ''resolution'') (resolution_from_envelope X)"

text \<open>\<open>for event in events: value = decode(event); if match: return\<close>, with the error that ends the search.\<close>

fun search_events :: "(event \<Rightarrow> 'a result) \<Rightarrow> ('a \<Rightarrow> bool) \<Rightarrow> exn \<Rightarrow> event list \<Rightarrow> (event \<times> 'a) result" where
  "search_events decode matches missing [] = Inl missing"
| "search_events decode matches missing (ev # evs) =
     bindR (decode ev) (\<lambda>v. if matches v then Inr (ev, v) else search_events decode matches missing evs)"

lemma search_eventsD: "search_events decode matches missing evs = Inr (ev, v) \<Longrightarrow> ev \<in> set evs \<and> decode ev = Inr v \<and> matches v"
  by (induction decode matches missing evs rule: search_events.induct) (auto simp: bindR_eq_Inr split: if_splits)

definition reject_verification :: "(string \<Rightarrow> string \<Rightarrow> exn) \<Rightarrow> 'a result \<Rightarrow> 'a result" where
  "reject_verification rej m = catchR m (\<lambda>ex. if is_verification_error ex then Inl (rej (reason_code_of ex) (exn_message ex)) else Inl ex)"

lemma reject_verification_eq_Inr [result_simps]: "reject_verification rej m = Inr x \<longleftrightarrow> m = Inr x"
  by (cases m) (auto simp: reject_verification_def)

section \<open>The readers of receipt admission\<close>

abbreviation receipt_reject :: "string \<Rightarrow> string \<Rightarrow> exn" where "receipt_reject \<equiv> VerificationReceiptAdmissionError"

definition admission_grant :: "externals \<Rightarrow> mission_projection \<Rightarrow> authority_grant result" where
  "admission_grant X p =
     (if ev_kind (hd (mp_events p)) \<noteq> ''authority_admitted''
      then Inl (receipt_reject ''mission_not_admitted'' ''receipt admission requires retained authority admission'')
      else bindR (retained_envelope X (hd (mp_events p)) ''grant'') (grant_from_envelope X))"

definition admission_target_snapshot :: "externals \<Rightarrow> mission_projection \<Rightarrow> target_snapshot result" where
  "admission_target_snapshot X p =
     (case find (\<lambda>ev. ev_kind ev = ''mission_opened'') (mp_events p) of
        None \<Rightarrow> Inl (receipt_reject ''target_not_retained'' ''receipt admission requires a retained target snapshot'')
      | Some ev \<Rightarrow> bindR (retained_envelope X ev ''target_snapshot'') (target_snapshot_from_envelope X))"

definition admission_lease :: "externals \<Rightarrow> mission_projection \<Rightarrow> digest \<Rightarrow> verification_lease result" where
  "admission_lease X p lease_id =
     bindR (search_events (retained_lease X) (\<lambda>l. vl_lease_id l = lease_id)
       (receipt_reject ''verification_lease_not_retained'' ''verification_lease_id is absent from canonical mission history'')
       (mp_lease_events p)) (\<lambda>(ev, l). Inr l)"

fun unique_resolution :: "externals \<Rightarrow> digest \<Rightarrow> artifact_resolution option \<Rightarrow> event list \<Rightarrow> artifact_resolution option result" where
  "unique_resolution X lease_id found [] = Inr found"
| "unique_resolution X lease_id found (ev # evs) =
     bindR (retained_resolution X ev) (\<lambda>r.
     if ar_verification_lease_id r \<noteq> lease_id then unique_resolution X lease_id found evs
     else if found \<noteq> None
     then Inl (receipt_reject ''duplicate_retained_resolution'' ''verification lease has multiple retained artifact resolutions'')
     else unique_resolution X lease_id (Some r) evs)"

definition admission_resolution :: "externals \<Rightarrow> mission_projection \<Rightarrow> digest \<Rightarrow> artifact_resolution result" where
  "admission_resolution X p lease_id =
     bindR (unique_resolution X lease_id None (mp_resolution_events p)) (\<lambda>found. case found of
       None \<Rightarrow> Inl (receipt_reject ''verification_artifacts_not_resolved'' ''receipt admission requires a retained artifact resolution'')
     | Some r \<Rightarrow> Inr r)"

definition assert_candidate_retained :: "externals \<Rightarrow> mission_projection \<Rightarrow> digest \<Rightarrow> exn + unit" where
  "assert_candidate_retained X p candidate_id =
     bindR (search_events (retained_candidate X) (\<lambda>c. sc_candidate_id c = candidate_id)
       (receipt_reject ''candidate_not_retained'' ''verification lease candidate is absent from canonical mission history'')
       (mp_candidate_events p)) (\<lambda>_. Inr ())"

definition signed_receipt_from_event :: "externals \<Rightarrow> event \<Rightarrow> signed_receipt result" where
  "signed_receipt_from_event X ev =
     rewrap (\<lambda>ex. is_verification_error ex \<or> is_protocol_error ex)
       (receipt_reject ''retained_receipt_invalid'' ''retained receipt admission contains invalid signed bytes'')
       (bindR (thawed_payload X ev) (\<lambda>payload.
        bindR (payload_item payload ''receipt'') (\<lambda>v.
        bindR (canonical_dumps X v) (signed_receipt_from_bytes X))))"

definition outputs_from_event :: "externals \<Rightarrow> event \<Rightarrow> output_artifacts result" where
  "outputs_from_event X ev =
     bindR (thawed_payload X ev) (\<lambda>payload.
     rewrap (\<lambda>ex. is_verification_error ex \<or> is_artifact_error ex)
       (receipt_reject ''retained_output_bindings_invalid'' ''retained output bindings are invalid'')
       (bindR (mapR (\<lambda>(field, role). bindR (payload_item payload field) artifact_binding_from_dict) OUTPUT_FIELD_ROLES) outputs_of_list))"

abbreviation admission_ceiling_error :: exn where
  "admission_ceiling_error \<equiv> receipt_reject ''verification_output_byte_ceiling_exceeded''
     ''resolved inputs and verifier outputs exceed the signed byte ceiling''"

section \<open>Revalidation of a proposed admission\<close>

definition receipt_admission_decision ::
  "externals \<Rightarrow> event \<Rightarrow> json \<Rightarrow> (verifier_trust_store \<times> signed_receipt \<times> verifier_receipt \<times> digest) result" where
  "receipt_admission_decision X ev payload =
     rewrap (\<lambda>ex. is_verification_error ex \<or> is_protocol_error ex)
       (receipt_reject ''retained_receipt_invalid'' ''receipt admission decision evidence is invalid'')
       (bindR (payload_item payload ''decision_trust_snapshot'') (\<lambda>body.
        bindR (payload_item payload ''decision_trust_snapshot_id'') (\<lambda>i.
        bindR (verifier_trust_from_snapshot X body (Some (jstr i))) (\<lambda>trust.
        bindR (signed_receipt_from_event X ev) (\<lambda>signed.
        bindR (bindR (envelope_from_bytes X (sr_envelope_bytes signed)) (receipt_from_envelope X)) (\<lambda>v.
          Inr (trust, signed, v, jstr i)))))))"

definition revalidate_outputs ::
  "externals \<Rightarrow> mission_projection \<Rightarrow> event \<Rightarrow> evidence_view \<Rightarrow> authenticated_receipt \<Rightarrow> artifact_resolution \<Rightarrow> output_artifacts result" where
  "revalidate_outputs X p ev V authenticated r =
     bindR (admission_grant X p) (\<lambda>grant.
     bindR (admission_target_snapshot X p) (\<lambda>snapshot.
     let remaining = ag_max_bytes grant - total_bytes r in
     if remaining \<le> 0
     then Inl (receipt_reject ''verification_output_byte_ceiling_exceeded''
            ''the signed byte ceiling leaves no allowance for verifier outputs'')
     else bindR (reject_verification receipt_reject
       (revalidate_verifier_receipt_artifacts X authenticated snapshot V remaining)) (\<lambda>outs.
     bindR (outputs_from_event X ev) (\<lambda>retained_outs.
     if outs \<noteq> retained_outs
     then Inl (receipt_reject ''retained_output_bindings_mismatch''
            ''current evidence-derived output bindings differ from the proposed event'')
     else if total_bytes r + output_total_bytes outs > ag_max_bytes grant then Inl admission_ceiling_error
     else Inr outs))))"

definition validate_retained_receipt_admission_event ::
  "externals \<Rightarrow> event list \<Rightarrow> event \<Rightarrow> evidence_view \<Rightarrow> (authenticated_receipt \<times> output_artifacts) result" where
  "validate_retained_receipt_admission_event X retained ev V =
     (if retained = []
      then Inl (receipt_reject ''invalid_retained_history'' ''receipt admission requires a nonempty tuple of retained events'')
      else if ev_kind ev \<noteq> ''verifier_receipt_admitted''
      then Inl (receipt_reject ''invalid_receipt_admission_event'' ''current evidence validation requires verifier_receipt_admitted'')
      else bindR (reduce_events X retained) (\<lambda>p.
        bindR (thawed_payload X ev) (\<lambda>payload.
        bindR (payload_item payload ''adjudication_profile'') (\<lambda>profile.
        if profile \<noteq> JStr RECEIPT_ADMISSION_PROFILE_V1
        then Inl (receipt_reject ''unsupported_adjudication_profile'' ''receipt admission uses an unsupported adjudication profile'')
        else bindR (receipt_admission_decision X ev payload) (\<lambda>(trust, signed, v, snapshot_id).
        bindR (admission_lease X p (vr_lease_id v)) (\<lambda>l.
        bindR (assert_candidate_retained X p (vl_candidate_id l)) (\<lambda>_.
        if vr_lease_id v \<notin> mp_active_leases p
        then Inl (receipt_reject ''verification_lease_inactive'' ''receipt admission requires the active candidate-lineage lease'')
        else bindR (admission_resolution X p (vr_lease_id v)) (\<lambda>r.
        bindR (reject_verification receipt_reject
          (authenticate_verifier_receipt X (RawReceipt signed) trust l r (ev_decision_time ev) None)) (\<lambda>authenticated.
        if at_decision_trust_snapshot_id authenticated \<noteq> snapshot_id
        then Inl (receipt_reject ''decision_trust_snapshot_mismatch''
               ''receipt authentication used a different decision trust snapshot'')
        else bindR (revalidate_outputs X p ev V authenticated r) (\<lambda>outs. Inr (authenticated, outs)))))))))))"

end
