(* ===== verification/Event_Store.thy ===== *)
theory Event_Store
  imports Retained_History
begin

text \<open>
  \<open>src/etzio/kernel/store.py\<close>: the event log and the evidence vault of \<open>SQLiteEventStore\<close>. A table is the list of its rows in insertion
  order; the constraints and triggers of the schema are checks of the insertions, and a transaction that fails leaves the tables as they
  were. A transaction runs under the writer lock, and a read in one snapshot, so each operation is one function of the tables.

  The store is one in the legacy profile: it is not enrolled for integrity finality, so its integrity tables are empty, there is no
  unresolved transition, and the validation of the integrity state comes down to the foreign keys.
\<close>

section \<open>Tables\<close>

record event_row =
  row_mission_id :: digest
  row_seq :: int
  row_digest :: digest
  row_prev_digest :: digest
  row_kind :: pystr
  row_canonical :: bytes

record evidence_artifact =
  ea_identity_scheme :: pystr
  ea_type_tag :: pystr
  ea_digest :: digest
  ea_byte_size :: int
  ea_origin_event_digest :: digest
  ea_content :: bytes

record artifact_role =
  er_event_digest :: digest
  er_event_kind :: pystr
  er_slot :: int
  er_role :: pystr
  er_ordinal :: int
  er_locator :: pystr
  er_identity_scheme :: pystr
  er_type_tag :: pystr
  er_artifact_digest :: digest
  er_byte_size :: int

record opaque_checkpoint =
  oc_mission_id :: digest
  oc_event_digest :: digest
  oc_signer_id :: pystr
  oc_algorithm :: pystr
  oc_signed_at :: int
  oc_signature :: bytes

record event_store =
  es_events :: "event_row list"
  es_artifacts :: "evidence_artifact list"
  es_roles :: "artifact_role list"
  es_checkpoints :: "opaque_checkpoint list"
  es_max_vault_bytes :: int

definition TERMINAL_KINDS :: "pystr list" where
  "TERMINAL_KINDS =
     [''mission_closed'', ''mission_admission_refused'', ''scan_failed'', ''scan_cancelled'', ''scan_timed_out'', ''budget_exhausted'']"

fun is_store_error :: "exn \<Rightarrow> bool" where
  "is_store_error (EventStoreError m) = True"
| "is_store_error (EventStoreCorruptionError m) = True"
| "is_store_error (StoreBusyError m) = True"
| "is_store_error (StoreCapacityError m) = True"
| "is_store_error (StoreOperationalError m) = True"
| "is_store_error (StaleHeadError m) = True"
| "is_store_error (ClosedStreamError m) = True"
| "is_store_error (EvidenceVaultCapacityError m) = True"
| "is_store_error (EvidenceVaultRequestError i c m) = True"
| "is_store_error (IntegrityFinalityRequiredError m) = True"
| "is_store_error (PendingIntegrityTransitionError m) = True"
| "is_store_error (IntegrityTransitionConflictError m) = True"
| "is_store_error _ = False"

fun is_vault_error :: "exn \<Rightarrow> bool" where
  "is_vault_error (EvidenceVaultError m) = True"
| "is_vault_error (EvidenceVaultArtifactMissing m) = True"
| "is_vault_error _ = False"

fun is_artifact_missing :: "exn \<Rightarrow> bool" where
  "is_artifact_missing (EvidenceVaultArtifactMissing m) = True"
| "is_artifact_missing _ = False"

fun is_key_error :: "exn \<Rightarrow> bool" where
  "is_key_error (KeyError m) = True"
| "is_key_error _ = False"

abbreviation corrupt :: "string \<Rightarrow> exn" where "corrupt \<equiv> EventStoreCorruptionError"

text \<open>\<open>sqlite3.IntegrityError\<close> as it leaves an append.\<close>

abbreviation rejected :: "string \<Rightarrow> exn" where "rejected m \<equiv> EventStoreError (''SQLite rejected event append: '' @ m)"

section \<open>Constraints and triggers\<close>

definition event_digests :: "event_store \<Rightarrow> digest list" where
  "event_digests s = map row_digest (es_events s)"

definition artifact_key :: "evidence_artifact \<Rightarrow> identity_key" where
  "artifact_key a = (ea_identity_scheme a, ea_type_tag a, ea_digest a)"

definition role_key :: "artifact_role \<Rightarrow> identity_key" where
  "role_key r = (er_identity_scheme r, er_type_tag r, er_artifact_digest r)"

definition role_owns :: "artifact_role \<Rightarrow> evidence_artifact \<Rightarrow> bool" where
  "role_owns r a \<longleftrightarrow> role_key r = artifact_key a \<and> er_byte_size r = ea_byte_size a"

definition event_roles :: "event_store \<Rightarrow> digest \<Rightarrow> artifact_role list" where
  "event_roles s d = filter (\<lambda>r. er_event_digest r = d) (es_roles s)"

text \<open>The foreign keys of the schema; the deferred ones are checked when a transaction commits.\<close>

definition foreign_keys_ok :: "event_store \<Rightarrow> bool" where
  "foreign_keys_ok s \<longleftrightarrow>
     list_all (\<lambda>a. ea_origin_event_digest a \<in> set (event_digests s)) (es_artifacts s) \<and>
     list_all (\<lambda>r. er_event_digest r \<in> set (event_digests s) \<and> list_ex (role_owns r) (es_artifacts s)) (es_roles s) \<and>
     list_all (\<lambda>c. list_ex (\<lambda>e. row_mission_id e = oc_mission_id c \<and> row_digest e = oc_event_digest c) (es_events s)) (es_checkpoints s)"

definition validate_integrity_state :: "event_store \<Rightarrow> exn + unit" where
  "validate_integrity_state s = requireR (foreign_keys_ok s) (corrupt ''modeled integrity state has a foreign-key violation'')"

definition artifact_row_check :: "evidence_artifact \<Rightarrow> exn + unit" where
  "artifact_row_check a = requireR
     (full_digest (ea_digest a) \<and> 0 \<le> ea_byte_size a \<and> ea_byte_size a \<le> MAX_VAULT_ARTIFACT_BYTES_V1 \<and>
      int (length (ea_content a)) = ea_byte_size a \<and>
      (ea_identity_scheme a = GENERIC_IDENTITY_SCHEME_V1 \<and> ea_type_tag a = GENERIC_TYPE_TAG_V1 \<or>
       ea_identity_scheme a = TYPED_IDENTITY_SCHEME_V1 \<and> ea_type_tag a \<in> set VERIFICATION_ARTIFACT_TYPES_V1 \<and> 0 < ea_byte_size a))
     (rejected ''CHECK constraint failed: evidence_artifacts'')"

definition ROLES_BY_EVENT_KIND :: "(pystr \<times> pystr list) list" where
  "ROLES_BY_EVENT_KIND =
     [(''authority_admitted'', [AUTHORITY_EVIDENCE_ROLE_V1]),
      (''mission_opened'', [TARGET_SOURCE_ROLE_V1]),
      (''verification_artifacts_resolved'',
       [TARGET_SOURCE_ROLE_V1, POC_INPUT_ROLE_V1, SUPPORTING_EVIDENCE_INPUT_ROLE_V1, ENVIRONMENT_SPEC_ROLE_V1, EFFECT_ORACLE_SPEC_ROLE_V1]),
      (''verifier_receipt_admitted'',
       [EXECUTION_OUTPUT_ROLE_V1, EFFECT_OUTPUT_ROLE_V1, MEASURED_ENVIRONMENT_OUTPUT_ROLE_V1, TERMINATION_OUTPUT_ROLE_V1])]"

definition role_row_check :: "artifact_role \<Rightarrow> exn + unit" where
  "role_row_check r = requireR
     (0 \<le> er_slot r \<and> er_slot r < MAX_EVENT_ARTIFACT_ROLES_V1 \<and>
      0 \<le> er_ordinal r \<and> er_ordinal r < 256 \<and> (er_role r \<in> set SINGLETON_VAULT_ROLES_V1 \<longrightarrow> er_ordinal r = 0) \<and>
      (if er_role r = TARGET_SOURCE_ROLE_V1 then er_locator r \<noteq> [] \<and> codepoints (er_locator r) \<le> 1000000 else er_locator r = []) \<and>
      map_of VAULT_IDENTITY_BY_ROLE_V1 (er_role r) = Some (er_identity_scheme r, er_type_tag r) \<and>
      (case map_of ROLES_BY_EVENT_KIND (er_event_kind r) of None \<Rightarrow> False | Some roles \<Rightarrow> er_role r \<in> set roles))
     (rejected ''CHECK constraint failed: event_artifact_roles'')"

text \<open>\<open>event_artifact_roles_reject_late_insert\<close>, the keys of the table and its immediate foreign key.\<close>

definition role_insert_check :: "event_store \<Rightarrow> artifact_role \<Rightarrow> exn + unit" where
  "role_insert_check s r = seqR [
     requireR (er_event_digest r \<notin> set (event_digests s)) (rejected ''event artifact roles must precede their event''),
     role_row_check r,
     requireR (\<not> list_ex (\<lambda>q. er_event_digest q = er_event_digest r \<and>
         (er_slot q = er_slot r \<or> er_role q = er_role r \<and> er_ordinal q = er_ordinal r)) (es_roles s))
       (rejected ''UNIQUE constraint failed: event_artifact_roles''),
     requireR (list_ex (role_owns r) (es_artifacts s)) (rejected ''FOREIGN KEY constraint failed'')]"

text \<open>The manifest triggers of the table \<open>events\<close>: how often each role occurs among the roles of the new event.\<close>

definition role_count :: "artifact_role list \<Rightarrow> pystr \<Rightarrow> nat" where
  "role_count rs role = length (filter (\<lambda>r. er_role r = role) rs)"

definition manifest_trigger :: "event_store \<Rightarrow> event_row \<Rightarrow> exn + unit" where
  "manifest_trigger s new =
     (let rs = event_roles s (row_digest new); kind = row_kind new in
      if list_ex (\<lambda>r. er_event_kind r \<noteq> kind) rs then Inl (rejected ''event artifact kind mismatch'')
      else if kind = ''authority_admitted''
      then requireR (length rs = 1 \<and> list_ex (\<lambda>r. er_role r = AUTHORITY_EVIDENCE_ROLE_V1 \<and> er_ordinal r = 0) rs)
             (rejected ''authority evidence manifest is incomplete'')
      else if kind = ''mission_opened''
      then requireR (1 \<le> length rs \<and> length rs \<le> 256 \<and> list_all (\<lambda>r. er_role r = TARGET_SOURCE_ROLE_V1) rs)
             (rejected ''target evidence manifest is incomplete'')
      else if kind = ''verification_artifacts_resolved''
      then requireR (1 \<le> role_count rs TARGET_SOURCE_ROLE_V1 \<and> role_count rs TARGET_SOURCE_ROLE_V1 \<le> 256 \<and>
               1 \<le> role_count rs SUPPORTING_EVIDENCE_INPUT_ROLE_V1 \<and> role_count rs SUPPORTING_EVIDENCE_INPUT_ROLE_V1 \<le> 256 \<and>
               role_count rs POC_INPUT_ROLE_V1 = 1 \<and> role_count rs ENVIRONMENT_SPEC_ROLE_V1 = 1 \<and>
               role_count rs EFFECT_ORACLE_SPEC_ROLE_V1 = 1)
             (rejected ''resolution evidence manifest is incomplete'')
      else if kind = ''verifier_receipt_admitted''
      then requireR (length rs = 4 \<and> role_count rs EXECUTION_OUTPUT_ROLE_V1 = 1 \<and> role_count rs EFFECT_OUTPUT_ROLE_V1 = 1 \<and>
               role_count rs MEASURED_ENVIRONMENT_OUTPUT_ROLE_V1 = 1 \<and> role_count rs TERMINATION_OUTPUT_ROLE_V1 = 1)
             (rejected ''receipt evidence manifest is incomplete'')
      else requireR (rs = []) (rejected ''ordinary event has an evidence manifest''))"

text \<open>\<open>SELECT .. WHERE mission_id = ? ORDER BY seq ASC\<close>\<close>

definition mission_rows :: "event_row list \<Rightarrow> digest \<Rightarrow> event_row list" where
  "mission_rows rows m = sort_key row_seq (filter (\<lambda>r. row_mission_id r = m) rows)"

text \<open>\<open>events_validate_insert\<close> and the uniqueness of digests; the last row of a mission is the one with the greatest number.\<close>

definition chain_trigger :: "event_store \<Rightarrow> event_row \<Rightarrow> exn + unit" where
  "chain_trigger s new =
     (let rs = mission_rows (es_events s) (row_mission_id new) in
      if list_ex (\<lambda>r. row_kind r \<in> set TERMINAL_KINDS) rs then Inl (ClosedStreamError ''mission stream is terminal'')
      else if row_seq new \<noteq> (if rs = [] then 0 else row_seq (last rs) + 1) then Inl (rejected ''mission sequence gap or fork'')
      else if row_prev_digest new \<noteq> (if rs = [] then GENESIS_DIGEST else row_digest (last rs))
      then Inl (rejected ''mission predecessor mismatch'')
      else if row_digest new \<in> set (event_digests s) then Inl (rejected ''UNIQUE constraint failed: events.digest'')
      else Inr ())"

section \<open>Reading a mission stream\<close>

definition store_rows :: "event_store \<Rightarrow> digest \<Rightarrow> event_row list result" where
  "store_rows s mission_id =
     (if \<not> full_digest mission_id then Inl (EventStoreError ''mission_id must be a full lowercase sha256 digest'')
      else Inr (mission_rows (es_events s) mission_id))"

text \<open>\<open>_decode_rows\<close>, with the number and the predecessor expected of the next row.\<close>

fun decode_rows :: "externals \<Rightarrow> digest \<Rightarrow> nat \<Rightarrow> digest \<Rightarrow> event_row list \<Rightarrow> event list result" where
  "decode_rows X mission_id expected_seq expected_prev [] = Inr []"
| "decode_rows X mission_id expected_seq expected_prev (row # rows) =
     bindR (rewrap value_caught (corrupt ''invalid canonical event'') (event_from_canonical_bytes X (row_canonical row))) (\<lambda>ev.
     bindR (event_to_canonical_bytes X ev) (\<lambda>canonical.
     if canonical \<noteq> row_canonical row then Inl (corrupt ''retained event bytes changed during decoding'')
     else if row_seq row \<noteq> int expected_seq \<or> ev_seq ev \<noteq> int expected_seq \<or> ev_mission_id ev \<noteq> mission_id \<or>
             row_digest row \<noteq> ev_event_digest ev \<or> row_prev_digest row \<noteq> ev_prev_digest ev \<or> row_kind row \<noteq> ev_kind ev \<or>
             ev_prev_digest ev \<noteq> expected_prev
     then Inl (corrupt ''event metadata or predecessor mismatch'')
     else bindR (decode_rows X mission_id (Suc expected_seq) (ev_event_digest ev) rows) (\<lambda>events. Inr (ev # events))))"

fun is_reduction_error :: "exn \<Rightarrow> bool" where
  "is_reduction_error (ReductionError m) = True"
| "is_reduction_error _ = False"

definition validate_retained_lifecycle :: "externals \<Rightarrow> event list \<Rightarrow> exn + unit" where
  "validate_retained_lifecycle X events =
     rewrap is_reduction_error (corrupt ''retained mission lifecycle is invalid'') (bindR (reduce_events X events) (\<lambda>_. Inr ()))"

definition validate_proposed_lifecycle :: "externals \<Rightarrow> event list \<Rightarrow> exn + unit" where
  "validate_proposed_lifecycle X events =
     rewrap is_reduction_error (EventStoreError ''illegal mission lifecycle'') (bindR (reduce_events X events) (\<lambda>_. Inr ()))"

section \<open>The vault\<close>

definition artifact_row :: "event_store \<Rightarrow> identity_key \<Rightarrow> evidence_artifact option result" where
  "artifact_row s key =
     (case find (\<lambda>a. artifact_key a = key) (es_artifacts s) of
        None \<Rightarrow> Inr None
      | Some a \<Rightarrow>
          if ea_byte_size a < 0 \<or> ea_byte_size a > MAX_VAULT_ARTIFACT_BYTES_V1 \<or> \<not> full_digest (ea_origin_event_digest a)
          then Inl (corrupt ''vault artifact metadata is invalid'') else Inr (Some a))"

text \<open>The blob is read and hashed in chunks.\<close>

definition VAULT_READ_CHUNK_BYTES :: nat where "VAULT_READ_CHUNK_BYTES = 1024 * 1024"

function blob_chunks :: "bytes \<Rightarrow> bytes list" where
  "blob_chunks blob = (if blob = [] then [] else take VAULT_READ_CHUNK_BYTES blob # blob_chunks (drop VAULT_READ_CHUNK_BYTES blob))"
  by pat_completeness auto
termination by (relation "measure length") (auto simp: VAULT_READ_CHUNK_BYTES_def)

declare blob_chunks.simps [simp del]

definition hash_chunks :: "externals \<Rightarrow> bytes \<Rightarrow> bytes list \<Rightarrow> digest" where
  "hash_chunks X prefix chunks = ''sha256:'' @ hex_bytes (sha256 X (foldl (@) prefix chunks))"

definition read_vault_identity ::
  "externals \<Rightarrow> event_store \<Rightarrow> pystr \<Rightarrow> pystr \<Rightarrow> digest \<Rightarrow> int option \<Rightarrow> int option \<Rightarrow> bytes result" where
  "read_vault_identity X s identity_scheme type_tag d maximum expected_size =
     bindR (artifact_row s (identity_scheme, type_tag, d)) (\<lambda>row. case row of
       None \<Rightarrow> Inl (EvidenceVaultArtifactMissing ''artifact identity is absent from the canonical vault'')
     | Some a \<Rightarrow>
         if expected_size \<noteq> None \<and> expected_size \<noteq> Some (ea_byte_size a)
         then Inl (corrupt ''vault artifact size differs from its event manifest'')
         else bindR (case maximum of
             None \<Rightarrow> Inr ()
           | Some m \<Rightarrow> seqR [
               requireR (0 \<le> m) (EvidenceError ''artifact read maximum must be a nonnegative integer''),
               requireR (ea_byte_size a \<le> m) (EvidenceError ''evidence artifact exceeds configured limit'')]) (\<lambda>_.
         bindR (digest_prefix_v1 identity_scheme type_tag) (\<lambda>prefix.
         if int (length (ea_content a)) \<noteq> ea_byte_size a then Inl (corrupt ''vault BLOB length differs from retained metadata'')
         else let chunks = blob_chunks (ea_content a) in
           if hash_chunks X prefix chunks \<noteq> d then Inl (corrupt ''vault BLOB fails its retained content identity'')
           else Inr (concat chunks))))"

definition read_staged_artifact :: "externals \<Rightarrow> vault_ref \<Rightarrow> file_store \<Rightarrow> (vault_ref \<times> bytes) result" where
  "read_staged_artifact X a staging =
     (let maximum = (if va_role a = AUTHORITY_EVIDENCE_ROLE_V1 then Some MAX_AUTHORITY_EVIDENCE_BYTES_V1 else va_byte_size a) in
      if maximum = None then Inl (EventStoreError ''vault artifact omitted a bounded read ceiling'')
      else bindR (rewrap is_evidence_error (EventStoreError ''required staged evidence is unavailable'')
        (if va_identity_scheme a = GENERIC_IDENTITY_SCHEME_V1 then file_get X staging (va_digest a) maximum
         else file_get_typed X staging (va_digest a) (va_type_tag a) maximum)) (\<lambda>data.
      bindR (with_observed_size a (int (length data))) (\<lambda>resolved.
      bindR (digest_bytes_v1 X data (va_identity_scheme resolved) (va_type_tag resolved)) (\<lambda>d.
      if d \<noteq> va_digest resolved then Inl (EventStoreError ''staged evidence fails its code-owned content identity'')
      else Inr (resolved, data)))))"

definition vault_used_bytes :: "event_store \<Rightarrow> int" where
  "vault_used_bytes s = sum_list (map ea_byte_size (es_artifacts s))"

text \<open>\<open>INSERT .. ON CONFLICT DO NOTHING\<close>\<close>

definition insert_artifact :: "event_store \<Rightarrow> evidence_artifact \<Rightarrow> event_store result" where
  "insert_artifact s a =
     bindR (artifact_row_check a) (\<lambda>_.
     Inr (if list_ex (\<lambda>b. artifact_key b = artifact_key a) (es_artifacts s) then s else s\<lparr>es_artifacts := es_artifacts s @ [a]\<rparr>))"

definition retain_artifact ::
  "externals \<Rightarrow> file_store \<Rightarrow> digest \<Rightarrow> vault_ref \<Rightarrow> int \<times> event_store \<Rightarrow> (vault_ref \<times> int \<times> event_store) result" where
  "retain_artifact X staging origin_event_digest a = (\<lambda>(used_bytes, s).
     if \<not> full_digest origin_event_digest then Inl (EventStoreError ''vault origin event must be a full lowercase sha256 ID'')
     else bindR (artifact_row s (ref_identity_key a)) (\<lambda>existing. case existing of
       Some row \<Rightarrow>
         bindR (read_vault_identity X s (va_identity_scheme a) (va_type_tag a) (va_digest a) None (va_byte_size a)) (\<lambda>retained.
         bindR (with_observed_size a (int (length retained))) (\<lambda>resolved. Inr (resolved, used_bytes, s)))
     | None \<Rightarrow>
         bindR (read_staged_artifact X a staging) (\<lambda>(resolved, staged).
         let n = int (length staged) in
         if used_bytes + n > es_max_vault_bytes s
         then Inl (EvidenceVaultCapacityError ''new unique evidence exceeds the database vault byte ceiling'')
         else bindR (insert_artifact s \<lparr>ea_identity_scheme = va_identity_scheme resolved, ea_type_tag = va_type_tag resolved,
           ea_digest = va_digest resolved, ea_byte_size = n, ea_origin_event_digest = origin_event_digest, ea_content = staged\<rparr>) (\<lambda>s'.
         bindR (read_vault_identity X s' (va_identity_scheme resolved) (va_type_tag resolved) (va_digest resolved) None (Some n)) (\<lambda>retained.
         if retained \<noteq> staged then Inl (corrupt ''vault identity collision retained different exact bytes'')
         else Inr (resolved, used_bytes + n, s'))))))"

fun retain_manifest ::
  "externals \<Rightarrow> file_store \<Rightarrow> digest \<Rightarrow> int \<times> event_store \<Rightarrow> vault_ref list \<Rightarrow> (vault_ref list \<times> event_store) result" where
  "retain_manifest X staging origin (used_bytes, s) [] = Inr ([], s)"
| "retain_manifest X staging origin (used_bytes, s) (a # manifest) =
     bindR (retain_artifact X staging origin a (used_bytes, s)) (\<lambda>(resolved, used_bytes', s').
     bindR (retain_manifest X staging origin (used_bytes', s') manifest) (\<lambda>(rest, s''). Inr (resolved # rest, s'')))"

definition role_of_ref :: "event \<Rightarrow> vault_ref \<Rightarrow> int \<Rightarrow> artifact_role" where
  "role_of_ref ev a n = \<lparr>er_event_digest = ev_event_digest ev, er_event_kind = ev_kind ev, er_slot = va_slot a, er_role = va_role a,
     er_ordinal = va_ordinal a, er_locator = va_locator a, er_identity_scheme = va_identity_scheme a, er_type_tag = va_type_tag a,
     er_artifact_digest = va_digest a, er_byte_size = n\<rparr>"

definition insert_event_artifact_role :: "event \<Rightarrow> event_store \<Rightarrow> vault_ref \<Rightarrow> event_store result" where
  "insert_event_artifact_role ev s a =
     (case va_byte_size a of
        None \<Rightarrow> Inl (EventStoreError ''vault mapping omitted its observed byte size'')
      | Some n \<Rightarrow> bindR (role_insert_check s (role_of_ref ev a n)) (\<lambda>_. Inr (s\<lparr>es_roles := es_roles s @ [role_of_ref ev a n]\<rparr>)))"

definition insert_event_artifact_roles :: "event \<Rightarrow> event_store \<Rightarrow> vault_ref list \<Rightarrow> event_store result" where
  "insert_event_artifact_roles ev s manifest = foldR (insert_event_artifact_role ev) s manifest"

section \<open>Verifying retained evidence\<close>

definition ref_of_role :: "artifact_role \<Rightarrow> vault_ref" where
  "ref_of_role r = \<lparr>va_slot = er_slot r, va_role = er_role r, va_ordinal = er_ordinal r, va_locator = er_locator r,
     va_identity_scheme = er_identity_scheme r, va_type_tag = er_type_tag r, va_digest = er_artifact_digest r,
     va_byte_size = Some (er_byte_size r)\<rparr>"

definition stored_event_manifest :: "event_store \<Rightarrow> digest \<Rightarrow> (pystr \<times> vault_ref) list result" where
  "stored_event_manifest s event_digest =
     rewrap is_vault_error (corrupt ''retained event-artifact manifest is invalid'')
       (mapR (\<lambda>r. bindR (vault_ref_new (ref_of_role r)) (\<lambda>a. Inr (er_event_kind r, a))) (sort_key er_slot (event_roles s event_digest)))"

text \<open>The identities read and hashed so far, with their bytes: \<open>rehashed\<close>, and \<open>artifact_cache\<close> for the keys asked for.\<close>

type_synonym sized_key = "pystr \<times> pystr \<times> digest \<times> int"
type_synonym rehashed = "(sized_key \<times> bytes) list"

definition sized_key_of :: "vault_ref \<Rightarrow> int \<Rightarrow> sized_key" where
  "sized_key_of a n = (va_identity_scheme a, va_type_tag a, va_digest a, n)"

definition rehash_artifact :: "externals \<Rightarrow> event_store \<Rightarrow> rehashed \<Rightarrow> vault_ref \<Rightarrow> rehashed result" where
  "rehash_artifact X s observed a =
     (case va_byte_size a of
        None \<Rightarrow> Inl (corrupt ''retained artifact manifest omitted its byte size'')
      | Some n \<Rightarrow>
          if map_of observed (sized_key_of a n) \<noteq> None then Inr observed
          else bindR (rewrap is_artifact_missing (corrupt ''retained event artifact is absent from the canonical vault'')
            (read_vault_identity X s (va_identity_scheme a) (va_type_tag a) (va_digest a) None (Some n))) (\<lambda>data.
            Inr ((sized_key_of a n, data) # observed)))"

definition match_manifest :: "event \<Rightarrow> vault_ref list \<Rightarrow> (pystr \<times> vault_ref) list \<Rightarrow> vault_ref list result" where
  "match_manifest ev expected stored =
     bindR (mapR (\<lambda>(expected_value, event_kind, stored_value).
       if event_kind \<noteq> ev_kind ev then Inl (corrupt ''event-artifact manifest kind differs from its event'')
       else rewrap is_vault_error (corrupt ''retained event-artifact manifest is invalid'')
         (with_observed_size expected_value (the (va_byte_size stored_value)))) (zip expected stored)) (\<lambda>resolved_expected.
     if resolved_expected \<noteq> map snd stored
     then Inl (corrupt ''retained artifact manifest differs from canonical event semantics'') else Inr (map snd stored))"

definition verify_event_manifest :: "externals \<Rightarrow> event_store \<Rightarrow> rehashed \<Rightarrow> event \<Rightarrow> rehashed result" where
  "verify_event_manifest X s observed ev =
     bindR (rewrap is_vault_error (corrupt ''retained event-artifact manifest is invalid'') (derive_event_artifact_manifest_v1 X ev)) (\<lambda>expected.
     bindR (stored_event_manifest s (ev_event_digest ev)) (\<lambda>stored.
     if ev_kind ev \<notin> set PROTECTED_EVIDENCE_EVENT_KINDS_V1
     then (if stored \<noteq> [] then Inl (corrupt ''ordinary event retains an unexpected artifact manifest'') else Inr observed)
     else if length stored \<noteq> length expected then Inl (corrupt ''protected event artifact manifest is incomplete'')
     else bindR (match_manifest ev expected stored) (foldR (rehash_artifact X s) observed)))"

definition owned_artifact :: "event_store \<Rightarrow> evidence_artifact \<Rightarrow> bool" where
  "owned_artifact s a \<longleftrightarrow> list_ex (\<lambda>r. role_owns r a \<and> er_event_digest r = ea_origin_event_digest a) (es_roles s)"

definition validate_no_orphan_artifacts :: "event_store \<Rightarrow> exn + unit" where
  "validate_no_orphan_artifacts s =
     requireR (list_all (owned_artifact s) (es_artifacts s)) (corrupt ''canonical vault contains an orphan artifact BLOB'')"

definition validate_retained_evidence :: "externals \<Rightarrow> event_store \<Rightarrow> event list \<Rightarrow> exn + unit" where
  "validate_retained_evidence X s events =
     bindR (foldR (verify_event_manifest X s) [] events) (\<lambda>_. validate_no_orphan_artifacts s)"

section \<open>Loading\<close>

definition retained_events :: "externals \<Rightarrow> event_store \<Rightarrow> digest \<Rightarrow> event list result" where
  "retained_events X s mission_id =
     bindR (store_rows s mission_id) (\<lambda>rs.
     bindR (decode_rows X mission_id 0 GENESIS_DIGEST rs) (\<lambda>events.
     bindR (if events \<noteq> [] then validate_retained_lifecycle X events else Inr ()) (\<lambda>_.
     bindR (validate_retained_evidence X s events) (\<lambda>_. Inr events))))"

definition store_load :: "externals \<Rightarrow> event_store \<Rightarrow> digest \<Rightarrow> event list result" where
  "store_load X s mission_id =
     (if \<not> full_digest mission_id then Inl (EventStoreError ''mission_id must be a full lowercase sha256 digest'')
      else bindR (validate_integrity_state s) (\<lambda>_. retained_events X s mission_id))"

definition head_of :: "event list \<Rightarrow> digest" where
  "head_of events = (if events = [] then GENESIS_DIGEST else ev_event_digest (last events))"

definition store_head :: "externals \<Rightarrow> event_store \<Rightarrow> digest \<Rightarrow> digest result" where
  "store_head X s mission_id = bindR (store_load X s mission_id) (\<lambda>events. Inr (head_of events))"

section \<open>Appending\<close>

definition validate_append_request :: "externals \<Rightarrow> event \<Rightarrow> digest \<Rightarrow> exn + unit" where
  "validate_append_request X ev expected_head =
     bindR (requireR (full_digest expected_head) (EventStoreError ''expected_head must be a full lowercase sha256 digest'')) (\<lambda>_.
     rewrap is_event_error (EventStoreError ''refusing invalid event'') (event_verify X ev))"

definition prepare_append :: "externals \<Rightarrow> event_store \<Rightarrow> event \<Rightarrow> digest \<Rightarrow> event list result" where
  "prepare_append X s ev expected_head =
     bindR (retained_events X s (ev_mission_id ev)) (\<lambda>events.
     let actual_head = head_of events in
     if expected_head \<noteq> actual_head then Inl (StaleHeadError ''stale mission head'')
     else if events \<noteq> [] \<and> ev_kind (last events) \<in> set TERMINAL_KINDS then Inl (ClosedStreamError ''mission ended'')
     else if ev_seq ev \<noteq> int (length events) then Inl (EventStoreError ''event sequence gap or fork'')
     else if ev_prev_digest ev \<noteq> actual_head then Inl (StaleHeadError ''event predecessor does not match head'')
     else bindR (validate_proposed_lifecycle X (events @ [ev])) (\<lambda>_. Inr events))"

definition row_of :: "event \<Rightarrow> bytes \<Rightarrow> event_row" where
  "row_of ev canonical = \<lparr>row_mission_id = ev_mission_id ev, row_seq = ev_seq ev, row_digest = ev_event_digest ev,
     row_prev_digest = ev_prev_digest ev, row_kind = ev_kind ev, row_canonical = canonical\<rparr>"

definition insert_event :: "externals \<Rightarrow> event_store \<Rightarrow> event \<Rightarrow> event_store result" where
  "insert_event X s ev =
     bindR (event_to_canonical_bytes X ev) (\<lambda>canonical.
     let new = row_of ev canonical in
     bindR (chain_trigger s new) (\<lambda>_.
     bindR (manifest_trigger s new) (\<lambda>_. Inr (s\<lparr>es_events := es_events s @ [new]\<rparr>))))"

text \<open>\<open>_event_for_integrity_digest_locked\<close>: the inserted row is read back.\<close>

definition event_for_digest :: "externals \<Rightarrow> event_store \<Rightarrow> digest \<Rightarrow> event result" where
  "event_for_digest X s d =
     (case find (\<lambda>r. row_digest r = d) (es_events s) of
       None \<Rightarrow> Inl (corrupt ''integrity transition does not reference one retained event'')
     | Some row \<Rightarrow>
         bindR (rewrap value_caught (corrupt ''integrity event bytes are invalid'') (event_from_canonical_bytes X (row_canonical row))) (\<lambda>ev.
         bindR (event_to_canonical_bytes X ev) (\<lambda>canonical.
         if ev_event_digest ev \<noteq> d \<or> canonical \<noteq> row_canonical row
         then Inl (corrupt ''integrity event identity differs from its canonical bytes'')
         else Inr ev)))"

definition trusted_staging_store :: "file_store \<Rightarrow> file_store result" where
  "trusted_staging_store fs =
     (if fs_max_artifact_bytes fs \<le> 0 then Inl (EventStoreError ''evidence staging limit must remain a positive exact integer'') else Inr fs)"

text \<open>\<open>VaultBackedFileEvidenceStore\<close>: vault first, staging for what the vault does not have.\<close>

definition vault_first :: "bytes result \<Rightarrow> bytes result \<Rightarrow> bytes result" where
  "vault_first vault staging = catchR vault (\<lambda>ex. if is_artifact_missing ex then staging else Inl ex)"

definition vault_view :: "externals \<Rightarrow> event_store \<Rightarrow> file_store \<Rightarrow> evidence_view" where
  "vault_view X s staging =
     \<lparr>view_get = \<lambda>d m. vault_first (read_vault_identity X s GENERIC_IDENTITY_SCHEME_V1 GENERIC_TYPE_TAG_V1 d m None) (file_get X staging d m),
      view_get_typed = \<lambda>d t m. vault_first (read_vault_identity X s TYPED_IDENTITY_SCHEME_V1 t d m None) (file_get_typed X staging d t m)\<rparr>"

definition check_receipt_evidence :: "externals \<Rightarrow> event_store \<Rightarrow> file_store option \<Rightarrow> event list \<Rightarrow> event \<Rightarrow> exn + unit" where
  "check_receipt_evidence X s staging events ev =
     (if ev_kind ev \<noteq> ''verifier_receipt_admitted'' then Inr ()
      else (case staging of
          None \<Rightarrow> Inl (EventStoreError ''receipt admission omitted its staging evidence store'')
        | Some fs \<Rightarrow>
            bindR (catchR (validate_retained_receipt_admission_event X events ev (vault_view X s fs)) (\<lambda>ex.
              if is_store_error ex then Inl ex
              else if value_caught ex \<or> is_key_error ex
              then Inl (EventStoreError ''receipt admission evidence-view validation failed'') else Inl ex)) (\<lambda>_. Inr ())))"

definition retain_event_evidence :: "externals \<Rightarrow> event_store \<Rightarrow> file_store option \<Rightarrow> event \<Rightarrow> event_store result" where
  "retain_event_evidence X s staging ev =
     (case staging of
        None \<Rightarrow> Inr s
      | Some fs \<Rightarrow>
          rewrap is_vault_error (EventStoreError ''protected evidence retention failed'')
            (bindR (derive_event_artifact_manifest_v1 X ev) (\<lambda>expected_manifest.
             bindR (retain_manifest X fs (ev_event_digest ev) (vault_used_bytes s, s) expected_manifest) (\<lambda>(retained_manifest, s').
             insert_event_artifact_roles ev s' retained_manifest))))"

definition append_verified_event :: "externals \<Rightarrow> event_store \<Rightarrow> event \<Rightarrow> digest \<Rightarrow> file_store option \<Rightarrow> event_store result" where
  "append_verified_event X s ev expected_head evidence_store =
     bindR (validate_append_request X ev expected_head) (\<lambda>_.
     if (ev_kind ev \<in> set PROTECTED_EVIDENCE_EVENT_KINDS_V1) \<noteq> (evidence_store \<noteq> None)
     then Inl (EventStoreError ''protected evidence events and vault retention must be paired'')
     else bindR (case evidence_store of None \<Rightarrow> Inr None | Some fs \<Rightarrow> bindR (trusted_staging_store fs) (\<lambda>t. Inr (Some t))) (\<lambda>staging.
     bindR (validate_integrity_state s) (\<lambda>_.
     bindR (prepare_append X s ev expected_head) (\<lambda>events.
     bindR (check_receipt_evidence X s staging events ev) (\<lambda>_.
     bindR (retain_event_evidence X s staging ev) (\<lambda>s1.
     bindR (insert_event X s1 ev) (\<lambda>s2.
     bindR (if staging = None then Inr ()
            else bindR (verify_event_manifest X s2 [] ev) (\<lambda>_.
                 requireR (list_all (owned_artifact s2) (es_artifacts s2)) (corrupt ''protected append would retain an orphan artifact''))) (\<lambda>_.
     bindR (event_for_digest X s2 (ev_event_digest ev)) (\<lambda>retained_event.
     if retained_event \<noteq> ev then Inl (corrupt ''retained event did not replay exactly after append'')
     else Inr s2)))))))))"

definition store_append :: "externals \<Rightarrow> event_store \<Rightarrow> event \<Rightarrow> digest \<Rightarrow> event_store result" where
  "store_append X s ev expected_head =
     bindR (validate_append_request X ev expected_head) (\<lambda>_.
     if ev_kind ev \<in> set PROTECTED_EVIDENCE_EVENT_KINDS_V1
     then Inl (EventStoreError ''event kind requires a dedicated evidence-retaining append'')
     else append_verified_event X s ev expected_head None)"

definition append_evidence_event :: "externals \<Rightarrow> event_store \<Rightarrow> event \<Rightarrow> digest \<Rightarrow> file_store \<Rightarrow> event_store result" where
  "append_evidence_event X s ev expected_head evidence_store =
     bindR (validate_append_request X ev expected_head) (\<lambda>_.
     if ev_kind ev \<notin> set NON_RECEIPT_EVIDENCE_EVENT_KINDS_V1
     then Inl (EventStoreError ''append_evidence_event requires a non-receipt protected event'')
     else bindR (trusted_staging_store evidence_store) (\<lambda>staging. append_verified_event X s ev expected_head (Some staging)))"

definition append_receipt_admission :: "externals \<Rightarrow> event_store \<Rightarrow> event \<Rightarrow> digest \<Rightarrow> file_store \<Rightarrow> event_store result" where
  "append_receipt_admission X s ev expected_head evidence_store =
     bindR (validate_append_request X ev expected_head) (\<lambda>_.
     if ev_kind ev \<noteq> ''verifier_receipt_admitted''
     then Inl (EventStoreError ''append_receipt_admission requires verifier_receipt_admitted'')
     else bindR (trusted_staging_store evidence_store) (\<lambda>staging. append_verified_event X s ev expected_head (Some staging)))"

end
