(* ===== verification/Store_Replay.thy ===== *)
theory Store_Replay
  imports Event_Store
begin

text \<open>
  What the event store guarantees. The rows of a mission decode to one event chain; verifying a manifest does not depend on what
  was hashed before it; an append extends one stream by one event and leaves every other stream, every artifact and every role alone; and
  a store in which every mission loads stays one.
\<close>

section \<open>Blobs\<close>

lemma concat_blob_chunks: "concat (blob_chunks b) = b"
  by (induction b rule: blob_chunks.induct) (subst blob_chunks.simps, simp)

lemma foldl_append_concat: "foldl (@) p cs = p @ concat cs"
  by (induction cs arbitrary: p) simp_all

lemma hash_chunks_whole: "hash_chunks X p (blob_chunks b) = ''sha256:'' @ hex_bytes (sha256 X (p @ b))"
  by (simp add: hash_chunks_def foldl_append_concat concat_blob_chunks)

text \<open>Reading an identity gives the content of its row, whole and with the digest of the identity.\<close>

definition vault_row :: "event_store \<Rightarrow> identity_key \<Rightarrow> evidence_artifact option" where
  "vault_row s key = find (\<lambda>a. artifact_key a = key) (es_artifacts s)"

lemma read_vault_identity_iff:
  "read_vault_identity X s scheme tag d m n = Inr data \<longleftrightarrow>
    (\<exists>a. vault_row s (scheme, tag, d) = Some a \<and> data = ea_content a \<and> int (length data) = ea_byte_size a \<and>
      ea_byte_size a \<le> MAX_VAULT_ARTIFACT_BYTES_V1 \<and> full_digest (ea_origin_event_digest a) \<and>
      digest_bytes_v1 X data scheme tag = Inr d \<and> (\<forall>k. n = Some k \<longrightarrow> ea_byte_size a = k) \<and> (\<forall>k. m = Some k \<longrightarrow> ea_byte_size a \<le> k))"
proof (cases "vault_row s (scheme, tag, d)")
  case None
  then show ?thesis by (simp add: read_vault_identity_def artifact_row_def vault_row_def)
next
  case (Some a)
  then show ?thesis
    by (cases n; cases m)
       (auto simp: read_vault_identity_def artifact_row_def vault_row_def digest_bytes_v1_def bindR_eq_Inr seqR_Cons_eq_Inr requireR_eq_Inr
         Let_def concat_blob_chunks hash_chunks_whole not_less split: if_splits)
qed

lemma vault_rowD: "vault_row s key = Some a \<Longrightarrow> a \<in> set (es_artifacts s) \<and> artifact_key a = key"
  by (auto simp: vault_row_def find_Some_iff in_set_conv_nth)

lemma digest_prefix_known: "digest_bytes_v1 X data scheme tag = Inr d \<Longrightarrow>
    scheme = GENERIC_IDENTITY_SCHEME_V1 \<and> tag = GENERIC_TYPE_TAG_V1 \<or>
    scheme = TYPED_IDENTITY_SCHEME_V1 \<and> tag \<in> set VERIFICATION_ARTIFACT_TYPES_V1"
  by (auto simp: digest_bytes_v1_def digest_prefix_v1_def bindR_eq_Inr split: if_splits)

section \<open>The rows of a mission\<close>

lemma insort_key_snoc: "f y \<le> f x \<Longrightarrow> insort_key f y (zs @ [x]) = insort_key f y zs @ [x]"
  by (induction zs) auto

lemma sort_key_snoc:
  assumes "\<And>y. y \<in> set xs \<Longrightarrow> f y \<le> f x"
  shows "sort_key f (xs @ [x]) = sort_key f xs @ [x]"
  using assms by (induction xs) (auto simp: insort_key_snoc)

lemma mission_rows_other: "row_mission_id new \<noteq> m \<Longrightarrow> mission_rows (rows @ [new]) m = mission_rows rows m"
  by (simp add: mission_rows_def)

lemma set_mission_rows: "set (mission_rows rows m) = {r \<in> set rows. row_mission_id r = m}"
  by (auto simp: mission_rows_def)

lemma mission_rows_snoc:
  assumes "\<And>r. r \<in> set (mission_rows rows (row_mission_id new)) \<Longrightarrow> row_seq r \<le> row_seq new"
  shows "mission_rows (rows @ [new]) (row_mission_id new) = mission_rows rows (row_mission_id new) @ [new]"
proof -
  have "sort_key row_seq (filter (\<lambda>r. row_mission_id r = row_mission_id new) rows @ [new]) =
    sort_key row_seq (filter (\<lambda>r. row_mission_id r = row_mission_id new) rows) @ [new]"
    by (rule sort_key_snoc) (use assms in \<open>simp add: mission_rows_def\<close>)
  then show ?thesis by (simp add: mission_rows_def)
qed

text \<open>Decoded rows and their events agree, position by position.\<close>

definition row_matches :: "externals \<Rightarrow> event_row \<Rightarrow> event \<Rightarrow> bool" where
  "row_matches X row ev \<longleftrightarrow> event_to_canonical_bytes X ev = Inr (row_canonical row) \<and> event_verify X ev = Inr () \<and>
     row_seq row = ev_seq ev \<and> row_mission_id row = ev_mission_id ev \<and> row_digest row = ev_event_digest ev \<and>
     row_prev_digest row = ev_prev_digest ev \<and> row_kind row = ev_kind ev"

fun linked :: "digest \<Rightarrow> nat \<Rightarrow> digest \<Rightarrow> event list \<Rightarrow> bool" where
  "linked m n d [] = True"
| "linked m n d (ev # evs) \<longleftrightarrow> ev_mission_id ev = m \<and> ev_seq ev = int n \<and> ev_prev_digest ev = d \<and> linked m (Suc n) (ev_event_digest ev) evs"

lemma decode_rows_iff:
  assumes "\<And>r. r \<in> set rows \<Longrightarrow> row_mission_id r = m"
  shows "decode_rows X m n d rows = Inr evs \<longleftrightarrow> list_all2 (row_matches X) rows evs \<and> linked m n d evs"
  using assms
proof (induction X m n d rows arbitrary: evs rule: decode_rows.induct)
  case (1 X m n d)
  show ?case by auto
next
  case (2 X m n d row rows)
  have rm: "row_mission_id row = m" using "2.prems" by simp
  have IH: "decode_rows X m (Suc n) (ev_event_digest ev) rows = Inr es \<longleftrightarrow>
      list_all2 (row_matches X) rows es \<and> linked m (Suc n) (ev_event_digest ev) es"
    if "event_from_canonical_bytes X (row_canonical row) = Inr ev" "event_to_canonical_bytes X ev = Inr (row_canonical row)"
      "row_seq row = int n" "ev_seq ev = int n" "ev_mission_id ev = m" "row_digest row = ev_event_digest ev"
      "row_prev_digest row = ev_prev_digest ev" "row_kind row = ev_kind ev" "ev_prev_digest ev = d" for ev es
    using "2.IH" [of ev "row_canonical row" es] that "2.prems" by (simp add: rewrap_def)
  show ?case
  proof
    assume "decode_rows X m n d (row # rows) = Inr evs"
    then obtain ev es where "event_from_canonical_bytes X (row_canonical row) = Inr ev" "event_to_canonical_bytes X ev = Inr (row_canonical row)"
      "row_seq row = int n" "ev_seq ev = int n" "ev_mission_id ev = m" "row_digest row = ev_event_digest ev"
      "row_prev_digest row = ev_prev_digest ev" "row_kind row = ev_kind ev" "ev_prev_digest ev = d" 
      "decode_rows X m (Suc n) (ev_event_digest ev) rows = Inr es" "evs = ev # es"
      by (auto simp: bindR_eq_Inr rewrap_eq_Inr split: if_splits)
    with IH [of ev es] event.decode_valid [of X "row_canonical row" ev] rm
    show "list_all2 (row_matches X) (row # rows) evs \<and> linked m n d evs" by (auto simp: row_matches_def)
  next
    assume "list_all2 (row_matches X) (row # rows) evs \<and> linked m n d evs"
    then obtain ev es where e: "evs = ev # es" "row_matches X row ev" "list_all2 (row_matches X) rows es" "linked m n d (ev # es)"
      by (auto simp: list_all2_Cons1)
    then have "event_from_canonical_bytes X (row_canonical row) = Inr ev" by (auto simp: row_matches_def intro: event.decode_encode)
    with e IH [of ev es] show "decode_rows X m n d (row # rows) = Inr evs"
      by (auto simp: row_matches_def rewrap_def)
  qed
qed

lemma linked_snoc: "linked m n d (evs @ [ev]) \<longleftrightarrow> linked m n d evs \<and> ev_mission_id ev = m \<and> ev_seq ev = int (n + length evs) \<and>
    ev_prev_digest ev = (if evs = [] then d else ev_event_digest (last evs))"
  by (induction m n d evs rule: linked.induct) auto

lemma linked_seq: "linked m n d evs \<Longrightarrow> i < length evs \<Longrightarrow> ev_seq (evs ! i) = int (n + i)"
  by (induction m n d evs arbitrary: i rule: linked.induct) (auto simp: nth_Cons split: nat.splits)

lemma linked_seq_bound: "linked m n d evs \<Longrightarrow> ev \<in> set evs \<Longrightarrow> ev_seq ev < int (n + length evs) \<and> ev_mission_id ev = m"
  by (induction m n d evs rule: linked.induct) auto

section \<open>Manifests\<close>

text \<open>Every remembered read is one that the vault still answers the same way.\<close>

definition reads_ok :: "externals \<Rightarrow> event_store \<Rightarrow> rehashed \<Rightarrow> bool" where
  "reads_ok X s observed \<longleftrightarrow> (\<forall>scheme tag d n data. map_of observed (scheme, tag, d, n) = Some data \<longrightarrow>
     read_vault_identity X s scheme tag d None (Some n) = Inr data)"

definition artifact_readable :: "externals \<Rightarrow> event_store \<Rightarrow> vault_ref \<Rightarrow> bool" where
  "artifact_readable X s a \<longleftrightarrow> (\<exists>n data. va_byte_size a = Some n \<and>
     read_vault_identity X s (va_identity_scheme a) (va_type_tag a) (va_digest a) None (Some n) = Inr data)"

lemma reads_ok_Nil [simp]: "reads_ok X s []"
  by (simp add: reads_ok_def)

lemma rehash_artifact_iff:
  assumes "reads_ok X s observed"
  shows "(\<exists>obs. rehash_artifact X s observed a = Inr obs) \<longleftrightarrow> artifact_readable X s a"
proof -
  have "artifact_readable X s a" if "va_byte_size a = Some n" "map_of observed (sized_key_of a n) = Some data" for n data
    using assms that by (auto simp: reads_ok_def artifact_readable_def sized_key_of_def)
  then show ?thesis
    by (cases "va_byte_size a") (auto simp: rehash_artifact_def bindR_eq_Inr rewrap_eq_Inr artifact_readable_def)
qed

lemma rehash_artifact_reads:
  "reads_ok X s observed \<Longrightarrow> rehash_artifact X s observed a = Inr obs \<Longrightarrow> reads_ok X s obs"
  by (auto simp: rehash_artifact_def bindR_eq_Inr rewrap_eq_Inr reads_ok_def sized_key_of_def split: option.splits if_splits)

lemma rehash_all_reads: "reads_ok X s observed \<Longrightarrow> foldR (rehash_artifact X s) observed as = Inr obs \<Longrightarrow> reads_ok X s obs"
  by (rule foldR_invariant) (auto dest: rehash_artifact_reads)

lemma rehash_all_iff:
  "reads_ok X s observed \<Longrightarrow> (\<exists>obs. foldR (rehash_artifact X s) observed as = Inr obs) \<longleftrightarrow> list_all (artifact_readable X s) as"
proof (induction as arbitrary: observed)
  case (Cons a as)
  show ?case
  proof (cases "rehash_artifact X s observed a")
    case (Inl e)
    then show ?thesis using rehash_artifact_iff [OF Cons.prems, of a] by auto
  next
    case (Inr obs)
    then show ?thesis using rehash_artifact_iff [OF Cons.prems, of a] Cons.IH [OF rehash_artifact_reads [OF Cons.prems Inr]] by auto
  qed
qed simp

text \<open>The evidence of one event is in place: its stored manifest is the derived one, and every artifact of it can be read.\<close>

definition manifest_ok :: "externals \<Rightarrow> event_store \<Rightarrow> event \<Rightarrow> bool" where
  "manifest_ok X s ev \<longleftrightarrow> (\<exists>expected stored. derive_event_artifact_manifest_v1 X ev = Inr expected \<and>
     stored_event_manifest s (ev_event_digest ev) = Inr stored \<and>
     (if ev_kind ev \<in> set PROTECTED_EVIDENCE_EVENT_KINDS_V1
      then length stored = length expected \<and> match_manifest ev expected stored = Inr (map snd stored) \<and>
        list_all (artifact_readable X s) (map snd stored)
      else stored = []))"

lemma match_manifest_result: "match_manifest ev expected stored = Inr as \<Longrightarrow> as = map snd stored"
  by (auto simp: match_manifest_def bindR_eq_Inr split: if_splits)

lemma verify_event_manifest_iff:
  assumes "reads_ok X s observed"
  shows "(\<exists>obs. verify_event_manifest X s observed ev = Inr obs) \<longleftrightarrow> manifest_ok X s ev"
proof (cases "derive_event_artifact_manifest_v1 X ev")
  case (Inr expected)
  note derived = this
  show ?thesis
  proof (cases "stored_event_manifest s (ev_event_digest ev)")
    case (Inr stored)
    show ?thesis
    proof (cases "match_manifest ev expected stored")
      case (Inr as)
      with match_manifest_result [OF Inr] derived \<open>stored_event_manifest s (ev_event_digest ev) = Inr stored\<close> rehash_all_iff [OF assms, of as]
      show ?thesis by (auto simp: verify_event_manifest_def manifest_ok_def rewrap_def)
    qed (use derived Inr in \<open>auto simp: verify_event_manifest_def manifest_ok_def rewrap_def\<close>)
  qed (use derived in \<open>auto simp: verify_event_manifest_def manifest_ok_def rewrap_def\<close>)
qed (auto simp: verify_event_manifest_def manifest_ok_def rewrap_def)

lemma verify_event_manifest_reads:
  "reads_ok X s observed \<Longrightarrow> verify_event_manifest X s observed ev = Inr obs \<Longrightarrow> reads_ok X s obs"
  by (auto simp: verify_event_manifest_def bindR_eq_Inr split: if_splits dest: rehash_all_reads)

lemma verify_manifests_iff:
  "reads_ok X s observed \<Longrightarrow> (\<exists>obs. foldR (verify_event_manifest X s) observed evs = Inr obs) \<longleftrightarrow> list_all (manifest_ok X s) evs"
proof (induction evs arbitrary: observed)
  case (Cons ev evs)
  show ?case
  proof (cases "verify_event_manifest X s observed ev")
    case (Inl e)
    then show ?thesis using verify_event_manifest_iff [OF Cons.prems, of ev] by auto
  next
    case (Inr obs)
    then show ?thesis
      using verify_event_manifest_iff [OF Cons.prems, of ev] Cons.IH [OF verify_event_manifest_reads [OF Cons.prems Inr]] by auto
  qed
qed simp

lemma validate_retained_evidence_iff:
  "validate_retained_evidence X s evs = Inr () \<longleftrightarrow> list_all (manifest_ok X s) evs \<and> list_all (owned_artifact s) (es_artifacts s)"
  using verify_manifests_iff [OF reads_ok_Nil, of X s evs]
  by (auto simp: validate_retained_evidence_def validate_no_orphan_artifacts_def bindR_eq_Inr requireR_eq_Inr)

section \<open>Loading\<close>

text \<open>What a successful load says, in one formula.\<close>

definition stream_ok :: "externals \<Rightarrow> event_store \<Rightarrow> digest \<Rightarrow> event list \<Rightarrow> bool" where
  "stream_ok X s m evs \<longleftrightarrow> list_all2 (row_matches X) (mission_rows (es_events s) m) evs \<and> linked m 0 GENESIS_DIGEST evs \<and>
     (evs \<noteq> [] \<longrightarrow> (\<exists>p. reduce_events X evs = Inr p)) \<and> list_all (manifest_ok X s) evs"

definition vault_owned :: "event_store \<Rightarrow> bool" where
  "vault_owned s \<longleftrightarrow> list_all (owned_artifact s) (es_artifacts s)"

lemma retained_events_iff:
  "retained_events X s m = Inr evs \<longleftrightarrow> full_digest m \<and> stream_ok X s m evs \<and> vault_owned s"
proof -
  have d: "decode_rows X m 0 GENESIS_DIGEST (mission_rows (es_events s) m) = Inr es \<longleftrightarrow>
      list_all2 (row_matches X) (mission_rows (es_events s) m) es \<and> linked m 0 GENESIS_DIGEST es" for es
    by (rule decode_rows_iff) (simp add: set_mission_rows)
  show ?thesis
    by (auto simp: retained_events_def store_rows_def bindR_eq_Inr d validate_retained_lifecycle_def rewrap_eq_Inr
        validate_retained_evidence_iff stream_ok_def vault_owned_def split: if_splits)
qed

lemma store_load_iff:
  "store_load X s m = Inr evs \<longleftrightarrow> full_digest m \<and> foreign_keys_ok s \<and> stream_ok X s m evs \<and> vault_owned s"
  by (auto simp: store_load_def validate_integrity_state_def bindR_eq_Inr requireR_eq_Inr retained_events_iff)

section \<open>Appending\<close>

text \<open>
  The tables only grow, and the roles that are added belong to one event. What was readable stays readable, and the manifests of
  other events stay in place.
\<close>

definition vault_extends :: "digest \<Rightarrow> event_store \<Rightarrow> event_store \<Rightarrow> bool" where
  "vault_extends d s s' \<longleftrightarrow> es_max_vault_bytes s' = es_max_vault_bytes s \<and> es_checkpoints s' = es_checkpoints s \<and>
     (\<exists>as. es_artifacts s' = es_artifacts s @ as \<and> list_all (\<lambda>a. ea_origin_event_digest a = d) as) \<and>
     (\<exists>rs. es_roles s' = es_roles s @ rs \<and> list_all (\<lambda>r. er_event_digest r = d) rs)"

lemma vault_extends_refl [simp]: "vault_extends d s s"
  by (simp add: vault_extends_def)

lemma vault_extends_trans [trans]: "vault_extends d a b \<Longrightarrow> vault_extends d b c \<Longrightarrow> vault_extends d a c"
  by (auto simp: vault_extends_def)

lemma find_append: "find P xs = Some x \<Longrightarrow> find P (xs @ ys) = Some x"
  by (induction xs) (auto split: if_splits)

lemma read_vault_identity_mono:
  assumes "vault_extends d s s'" and "read_vault_identity X s scheme tag i m n = Inr data"
  shows "read_vault_identity X s' scheme tag i m n = Inr data"
proof -
  have "vault_row s' k = Some a" if "vault_row s k = Some a" for k a
    using assms(1) that by (auto simp: vault_extends_def vault_row_def find_append)
  then show ?thesis using assms(2) unfolding read_vault_identity_iff by blast
qed

lemma artifact_readable_mono: "vault_extends d s s' \<Longrightarrow> artifact_readable X s a \<Longrightarrow> artifact_readable X s' a"
  unfolding artifact_readable_def using read_vault_identity_mono by blast

lemma event_roles_other:
  assumes "vault_extends d s s'" and "i \<noteq> d"
  shows "event_roles s' i = event_roles s i"
proof -
  from assms(1) obtain rs where "es_roles s' = es_roles s @ rs" "list_all (\<lambda>r. er_event_digest r = d) rs" by (auto simp: vault_extends_def)
  with assms(2) have "filter (\<lambda>r. er_event_digest r = i) rs = []" by (auto simp: list_all_iff filter_empty_conv)
  with \<open>es_roles s' = es_roles s @ rs\<close> show ?thesis by (simp add: event_roles_def)
qed

lemma manifest_ok_mono:
  assumes e: "vault_extends d s s'" and "ev_event_digest ev \<noteq> d" and "manifest_ok X s ev"
  shows "manifest_ok X s' ev"
proof -
  have "stored_event_manifest s' (ev_event_digest ev) = stored_event_manifest s (ev_event_digest ev)"
    by (simp add: stored_event_manifest_def event_roles_other [OF e assms(2)])
  moreover have "list_all (artifact_readable X s') as" if "list_all (artifact_readable X s) as" for as
    using that artifact_readable_mono [OF e] by (auto simp: list_all_iff)
  ultimately show ?thesis using assms(3) unfolding manifest_ok_def by (auto split: if_splits)
qed

definition vault_fits :: "event_store \<Rightarrow> bool" where
  "vault_fits s \<longleftrightarrow> vault_used_bytes s \<le> es_max_vault_bytes s"

lemma retain_artifact_extends:
  assumes "retain_artifact X fs d a (used, s) = Inr (a', used', s')" and "used = vault_used_bytes s"
  shows "vault_extends d s s' \<and> es_events s' = es_events s \<and> es_roles s' = es_roles s \<and>
    used' = vault_used_bytes s' \<and> (vault_fits s \<longrightarrow> vault_fits s')"
proof (cases "artifact_row s (ref_identity_key a)")
  case (Inl e)
  then show ?thesis using assms(1) by (auto simp: retain_artifact_def split: if_splits)
next
  case (Inr row)
  show ?thesis
  proof (cases row)
    case None
    with Inr assms(1) obtain resolved staged s1 where
      st: "read_staged_artifact X a fs = Inr (resolved, staged)" and le: "used + int (length staged) \<le> es_max_vault_bytes s"
      and i: "insert_artifact s \<lparr>ea_identity_scheme = va_identity_scheme resolved, ea_type_tag = va_type_tag resolved,
           ea_digest = va_digest resolved, ea_byte_size = int (length staged), ea_origin_event_digest = d, ea_content = staged\<rparr> = Inr s'"
      and u: "used' = used + int (length staged)"
      by (auto simp: retain_artifact_def bindR_eq_Inr Let_def not_less split: if_splits)
    have key: "ref_identity_key a = (va_identity_scheme resolved, va_type_tag resolved, va_digest resolved)"
      using st by (auto simp: read_staged_artifact_def bindR_eq_Inr with_observed_size_def vault_ref_new_def ref_identity_key_def Let_def
          split: if_splits)
    have "\<not> list_ex (\<lambda>b. artifact_key b = ref_identity_key a) (es_artifacts s)"
      using Inr None by (auto simp: artifact_row_def list_ex_iff find_None_iff split: option.splits if_splits)
    then show ?thesis
      using i u le assms(2) key by (auto simp: insert_artifact_def bindR_eq_Inr vault_extends_def vault_fits_def vault_used_bytes_def artifact_key_def)
  next
    case (Some r)
    with Inr assms show ?thesis by (auto simp: retain_artifact_def bindR_eq_Inr split: if_splits)
  qed
qed

lemma retain_manifest_extends:
  assumes "retain_manifest X fs d (used, s) as = Inr (as', s')" and "used = vault_used_bytes s"
  shows "vault_extends d s s' \<and> es_events s' = es_events s \<and> es_roles s' = es_roles s \<and> (vault_fits s \<longrightarrow> vault_fits s')"
  using assms
proof (induction as arbitrary: used s as')
  case (Cons a as)
  from Cons.prems(1) obtain b used1 s1 bs where r: "retain_artifact X fs d a (used, s) = Inr (b, used1, s1)"
    and m: "retain_manifest X fs d (used1, s1) as = Inr (bs, s')" by (auto simp: bindR_eq_Inr)
  from retain_artifact_extends [OF r Cons.prems(2)] Cons.IH [OF m] show ?case by (auto intro: vault_extends_trans)
qed auto

lemma insert_roles_extends:
  assumes "insert_event_artifact_roles ev s as = Inr s'"
  shows "vault_extends (ev_event_digest ev) s s' \<and> es_events s' = es_events s \<and> es_artifacts s' = es_artifacts s \<and>
    (list_all (\<lambda>r. list_ex (role_owns r) (es_artifacts s)) (es_roles s) \<longrightarrow> list_all (\<lambda>r. list_ex (role_owns r) (es_artifacts s')) (es_roles s'))"
  using assms unfolding insert_event_artifact_roles_def
proof (induction as arbitrary: s)
  case (Cons a as)
  from Cons.prems obtain s1 where i: "insert_event_artifact_role ev s a = Inr s1" and f: "foldR (insert_event_artifact_role ev) s1 as = Inr s'"
    by (auto simp: bindR_eq_Inr)
  from i have "vault_extends (ev_event_digest ev) s s1 \<and> es_events s1 = es_events s \<and> es_artifacts s1 = es_artifacts s \<and>
      (list_all (\<lambda>r. list_ex (role_owns r) (es_artifacts s)) (es_roles s) \<longrightarrow> list_all (\<lambda>r. list_ex (role_owns r) (es_artifacts s1)) (es_roles s1))"
    by (auto simp: insert_event_artifact_role_def role_insert_check_def bindR_eq_Inr seqR_Cons_eq_Inr requireR_eq_Inr vault_extends_def role_of_ref_def
        split: option.splits)
  with Cons.IH [OF f] show ?case by (auto intro: vault_extends_trans)
qed simp

definition roles_own :: "event_store \<Rightarrow> bool" where
  "roles_own s \<longleftrightarrow> list_all (\<lambda>r. list_ex (role_owns r) (es_artifacts s)) (es_roles s)"

lemma roles_own_more: "roles_own s \<Longrightarrow> es_roles s' = es_roles s \<Longrightarrow> es_artifacts s' = es_artifacts s @ as \<Longrightarrow> roles_own s'"
  by (auto simp: roles_own_def list_all_iff list_ex_iff)

lemma retain_event_evidence_extends:
  assumes "retain_event_evidence X s staging ev = Inr s'"
  shows "vault_extends (ev_event_digest ev) s s'" and "es_events s' = es_events s" and "vault_fits s \<Longrightarrow> vault_fits s'"
    and "roles_own s \<Longrightarrow> roles_own s'" and "staging = None \<Longrightarrow> s' = s"
proof -
  let ?d = "ev_event_digest ev"
  have "vault_extends ?d s s' \<and> es_events s' = es_events s \<and> (vault_fits s \<longrightarrow> vault_fits s') \<and> (roles_own s \<longrightarrow> roles_own s') \<and>
      (staging = None \<longrightarrow> s' = s)"
  proof (cases staging)
    case None
    then show ?thesis using assms by (simp add: retain_event_evidence_def)
  next
    case (Some fs)
    with assms obtain as bs s1 where m: "retain_manifest X fs ?d (vault_used_bytes s, s) as = Inr (bs, s1)"
      and i: "insert_event_artifact_roles ev s1 bs = Inr s'"
      by (auto simp: retain_event_evidence_def rewrap_eq_Inr bindR_eq_Inr)
    note m' = retain_manifest_extends [OF m refl] and i' = insert_roles_extends [OF i]
    have "roles_own s1" if "roles_own s" using that m' roles_own_more [of s s1] by (auto simp: vault_extends_def)
    moreover have "vault_fits s'" if "vault_fits s1" using that i' by (auto simp: vault_fits_def vault_used_bytes_def vault_extends_def)
    ultimately show ?thesis using m' i' Some by (auto simp: roles_own_def intro: vault_extends_trans)
  qed
  then show "vault_extends ?d s s'" "es_events s' = es_events s" "vault_fits s \<Longrightarrow> vault_fits s'" "roles_own s \<Longrightarrow> roles_own s'"
      "staging = None \<Longrightarrow> s' = s"
    by blast+
qed

text \<open>Everything an append that returns has established.\<close>

definition appended :: "externals \<Rightarrow> event_store \<Rightarrow> event \<Rightarrow> digest \<Rightarrow> event list \<Rightarrow> event_store \<Rightarrow> bool" where
  "appended X s ev h evs s' \<longleftrightarrow>
     store_load X s (ev_mission_id ev) = Inr evs \<and> h = head_of evs \<and> event_verify X ev = Inr () \<and>
     ev_seq ev = int (length evs) \<and> ev_prev_digest ev = h \<and> (\<exists>p. reduce_events X (evs @ [ev]) = Inr p) \<and>
     ev_event_digest ev \<notin> set (event_digests s) \<and>
     (\<exists>c. event_to_canonical_bytes X ev = Inr c \<and> es_events s' = es_events s @ [row_of ev c]) \<and>
     vault_extends (ev_event_digest ev) s s' \<and> manifest_ok X s' ev \<and> vault_owned s' \<and> roles_own s'"

lemma owned_artifact_events [simp]: "owned_artifact (s\<lparr>es_events := rows\<rparr>) = owned_artifact s"
  by (rule ext) (simp add: owned_artifact_def)

lemma chain_triggerD:
  assumes "chain_trigger s new = Inr ()"
  shows "row_digest new \<notin> set (event_digests s)"
  using assms by (auto simp: chain_trigger_def Let_def split: if_splits)

lemma manifest_trigger_ordinary:
  assumes "manifest_trigger s new = Inr ()" and "row_kind new \<notin> set PROTECTED_EVIDENCE_EVENT_KINDS_V1"
  shows "event_roles s (row_digest new) = []"
proof -
  let ?rs = "event_roles s (row_digest new)"
  from assms(2) have k: "row_kind new \<noteq> ''authority_admitted''" "row_kind new \<noteq> ''mission_opened''"
      "row_kind new \<noteq> ''verification_artifacts_resolved''" "row_kind new \<noteq> ''verifier_receipt_admitted''"
    unfolding PROTECTED_EVIDENCE_EVENT_KINDS_V1_def list.set by blast+
  have "(if list_ex (\<lambda>r. er_event_kind r \<noteq> row_kind new) ?rs then Inl (rejected ''event artifact kind mismatch'')
      else requireR (?rs = []) (rejected ''ordinary event has an evidence manifest'')) = Inr ()"
    using assms(1) unfolding manifest_trigger_def Let_def if_not_P [OF k(1)] if_not_P [OF k(2)] if_not_P [OF k(3)] if_not_P [OF k(4)] .
  then show ?thesis unfolding if_raise_eq_Inr requireR_eq_Inr by blast
qed

lemma manifest_ok_ordinary:
  assumes "ev_kind ev \<notin> set PROTECTED_EVIDENCE_EVENT_KINDS_V1" and "event_roles s (ev_event_digest ev) = []"
  shows "manifest_ok X s ev"
  using assms by (simp add: manifest_ok_def derive_event_artifact_manifest_v1_def stored_event_manifest_def rewrap_def)

lemma prepare_append_iff:
  "prepare_append X s ev h = Inr evs \<longleftrightarrow>
    retained_events X s (ev_mission_id ev) = Inr evs \<and> h = head_of evs \<and> (evs \<noteq> [] \<longrightarrow> ev_kind (last evs) \<notin> set TERMINAL_KINDS) \<and>
    ev_seq ev = int (length evs) \<and> ev_prev_digest ev = h \<and> (\<exists>p. reduce_events X (evs @ [ev]) = Inr p)"
  unfolding prepare_append_def bindR_eq_Inr Let_def if_raise_eq_Inr validate_proposed_lifecycle_def rewrap_eq_Inr by fastforce

lemma append_verified_appended:
  assumes "append_verified_event X s ev h staging = Inr s'"
  obtains evs where "appended X s ev h evs s'" and "vault_fits s \<Longrightarrow> vault_fits s'" and "full_digest h"
    and "\<And>fs. staging = Some fs \<Longrightarrow> check_receipt_evidence X s (Some fs) evs ev = Inr ()"
    and "(ev_kind ev \<in> set PROTECTED_EVIDENCE_EVENT_KINDS_V1) = (staging \<noteq> None)"
proof -
  from assms obtain st evs s1 where v: "validate_append_request X ev h = Inr ()"
    and pair: "(ev_kind ev \<in> set PROTECTED_EVIDENCE_EVENT_KINDS_V1) = (staging \<noteq> None)"
    and st: "(case staging of None \<Rightarrow> Inr None | Some fs \<Rightarrow> bindR (trusted_staging_store fs) (\<lambda>t. Inr (Some t))) = Inr st"
    and fk: "validate_integrity_state s = Inr ()" and prep: "prepare_append X s ev h = Inr evs"
    and rc: "check_receipt_evidence X s st evs ev = Inr ()" and ret: "retain_event_evidence X s st ev = Inr s1"
    and ins: "insert_event X s1 ev = Inr s'"
    and ver: "st \<noteq> None \<Longrightarrow> (\<exists>obs. verify_event_manifest X s' [] ev = Inr obs) \<and> vault_owned s'"
    unfolding append_verified_event_def vault_owned_def
    by (auto simp: bindR_eq_Inr requireR_eq_Inr split: if_splits)
  have st': "st = staging" using st by (auto simp: bindR_eq_Inr trusted_staging_store_def split: option.splits if_splits)
  note r = retain_event_evidence_extends [OF ret]
  from ins obtain c where c: "event_to_canonical_bytes X ev = Inr c" and chain: "chain_trigger s1 (row_of ev c) = Inr ()"
    and man: "manifest_trigger s1 (row_of ev c) = Inr ()" and s': "s' = s1\<lparr>es_events := es_events s1 @ [row_of ev c]\<rparr>"
    by (auto simp: insert_event_def bindR_eq_Inr Let_def)
  have ext: "vault_extends (ev_event_digest ev) s s'" using r(1) by (simp add: s' vault_extends_def)
  have fits: "vault_fits s'" if "vault_fits s" using r(3) [OF that] by (simp add: s' vault_fits_def vault_used_bytes_def)
  have fkok: "foreign_keys_ok s" using fk by (simp add: validate_integrity_state_def requireR_eq_Inr)
  then have "roles_own s'" using r(4) by (auto simp: s' roles_own_def foreign_keys_ok_def list_all_iff)
  moreover have "manifest_ok X s' ev" "vault_owned s'"
  proof -
    show "manifest_ok X s' ev"
    proof (cases st)
      case None
      then have "ev_kind ev \<notin> set PROTECTED_EVIDENCE_EVENT_KINDS_V1" using pair st' by simp
      moreover have "event_roles s' (ev_event_digest ev) = []"
        using manifest_trigger_ordinary [OF man] calculation by (simp add: s' event_roles_def row_of_def)
      ultimately show ?thesis by (rule manifest_ok_ordinary)
    qed (use ver verify_event_manifest_iff [OF reads_ok_Nil] in blast)
    show "vault_owned s'"
    proof (cases st)
      case None
      have "vault_owned s" using prep by (simp add: prepare_append_iff retained_events_iff)
      then show ?thesis using r(5) None by (simp add: s' vault_owned_def owned_artifact_def)
    qed (use ver in blast)
  qed
  moreover have "store_load X s (ev_mission_id ev) = Inr evs"
    using prep fkok by (simp add: prepare_append_iff retained_events_iff store_load_iff)
  moreover have "ev_event_digest ev \<notin> set (event_digests s)"
    using chain_triggerD [OF chain] r(2) by (simp add: row_of_def event_digests_def)
  moreover have "event_verify X ev = Inr ()" "full_digest h"
    using v by (auto simp: validate_append_request_def bindR_eq_Inr rewrap_eq_Inr requireR_eq_Inr)
  ultimately have "appended X s ev h evs s'" "full_digest h"
    using prep ext c s' r(2) by (auto simp: appended_def prepare_append_iff)
  with fits rc st' pair that show thesis by blast
qed

lemma appended_digest_new:
  assumes "appended X s ev h evs s'" and "store_load X s m = Inr es" and "e \<in> set es"
  shows "ev_event_digest e \<noteq> ev_event_digest ev"
proof -
  from assms(2) have "list_all2 (row_matches X) (mission_rows (es_events s) m) es" by (simp add: store_load_iff stream_ok_def)
  with assms(3) obtain r where "r \<in> set (mission_rows (es_events s) m)" "row_matches X r e"
    by (metis in_set_conv_nth list_all2_conv_all_nth)
  then have "r \<in> set (es_events s)" "row_digest r = ev_event_digest e" by (auto simp: set_mission_rows row_matches_def)
  then have "ev_event_digest e \<in> set (event_digests s)" by (force simp: event_digests_def)
  with assms(1) show ?thesis by (auto simp: appended_def)
qed

lemma appended_manifests:
  assumes "appended X s ev h evs s'" and "store_load X s m = Inr es"
  shows "list_all (manifest_ok X s') es"
  using assms appended_digest_new [OF assms] manifest_ok_mono
  by (fastforce simp: appended_def store_load_iff stream_ok_def list_all_iff)

lemma appended_foreign_keys:
  assumes "appended X s ev h evs s'"
  shows "foreign_keys_ok s'"
proof -
  have fk: "foreign_keys_ok s" using assms by (auto simp: appended_def store_load_iff)
  from assms obtain c as rs where e: "es_events s' = es_events s @ [row_of ev c]"
    and as: "es_artifacts s' = es_artifacts s @ as" "list_all (\<lambda>a. ea_origin_event_digest a = ev_event_digest ev) as"
    and rs: "es_roles s' = es_roles s @ rs" "list_all (\<lambda>r. er_event_digest r = ev_event_digest ev) rs"
    and cp: "es_checkpoints s' = es_checkpoints s" and own: "roles_own s'"
    by (auto simp: appended_def vault_extends_def)
  have d: "set (event_digests s') = insert (ev_event_digest ev) (set (event_digests s))" by (simp add: event_digests_def e row_of_def)
  show ?thesis using fk as rs cp own d e by (fastforce simp: foreign_keys_ok_def roles_own_def list_all_iff list_ex_iff)
qed

lemma row_of_matches:
  "event_verify X ev = Inr () \<Longrightarrow> event_to_canonical_bytes X ev = Inr c \<Longrightarrow> row_matches X (row_of ev c) ev"
  by (simp add: row_matches_def row_of_def)

lemma load_after_append:
  assumes a: "appended X s ev h evs s'"
  shows "store_load X s' (ev_mission_id ev) = Inr (evs @ [ev])"
proof -
  let ?m = "ev_mission_id ev"
  from a obtain c where c: "event_to_canonical_bytes X ev = Inr c" and e: "es_events s' = es_events s @ [row_of ev c]"
    and l: "store_load X s ?m = Inr evs" and ev: "event_verify X ev = Inr ()" "ev_seq ev = int (length evs)" "ev_prev_digest ev = head_of evs"
    by (auto simp: appended_def)
  from l have rows: "list_all2 (row_matches X) (mission_rows (es_events s) ?m) evs" and lk: "linked ?m 0 GENESIS_DIGEST evs"
    by (auto simp: store_load_iff stream_ok_def)
  have "row_seq r \<le> ev_seq ev" if "r \<in> set (mission_rows (es_events s) ?m)" for r
  proof -
    from that rows obtain x where "x \<in> set evs" "row_matches X r x" by (metis in_set_conv_nth list_all2_conv_all_nth)
    with linked_seq_bound [OF lk] ev(2) show ?thesis by (fastforce simp: row_matches_def)
  qed
  then have "mission_rows (es_events s') ?m = mission_rows (es_events s) ?m @ [row_of ev c]"
    using mission_rows_snoc [of "es_events s" "row_of ev c"] by (simp add: e row_of_def)
  with rows row_of_matches [OF ev(1) c]
  have "list_all2 (row_matches X) (mission_rows (es_events s') ?m) (evs @ [ev])" by (simp add: list_all2_appendI)
  moreover have "linked ?m 0 GENESIS_DIGEST (evs @ [ev])" using lk ev by (simp add: linked_snoc head_of_def)
  moreover have "list_all (manifest_ok X s') (evs @ [ev])" using appended_manifests [OF a l] a by (simp add: appended_def)
  ultimately show ?thesis
    using a l appended_foreign_keys [OF a] by (auto simp: store_load_iff stream_ok_def appended_def)
qed

lemma load_other_mission:
  assumes a: "appended X s ev h evs s'" and m: "m \<noteq> ev_mission_id ev" and l: "store_load X s m = Inr es"
  shows "store_load X s' m = Inr es"
proof -
  from a obtain c where "es_events s' = es_events s @ [row_of ev c]" by (auto simp: appended_def)
  with m have "mission_rows (es_events s') m = mission_rows (es_events s) m" by (simp add: mission_rows_other row_of_def)
  with l a appended_manifests [OF a l] appended_foreign_keys [OF a] show ?thesis by (simp add: store_load_iff stream_ok_def appended_def)
qed

section \<open>Checkpoints\<close>

text \<open>\<open>SignedCheckpoint.__post_init__\<close>\<close>

definition opaque_checkpoint_new :: "opaque_checkpoint \<Rightarrow> opaque_checkpoint result" where
  "opaque_checkpoint_new c =
     bindR (seqR [
       requireR (full_digest (oc_mission_id c)) (EventStoreError ''mission_id must be a full lowercase sha256 digest''),
       requireR (canonical_text (JStr (oc_signer_id c))) (EventStoreError ''signer_id must be non-empty text without edge whitespace''),
       requireR (canonical_text (JStr (oc_algorithm c))) (EventStoreError ''algorithm must be non-empty text without edge whitespace''),
       requireR (full_digest (oc_event_digest c)) (EventStoreError ''event_digest must be a full lowercase sha256 digest''),
       requireR (0 \<le> oc_signed_at c) (EventStoreError ''signed_at must be a non-negative integer''),
       requireR (oc_signature c \<noteq> []) (EventStoreError ''signature must be non-empty immutable bytes'')]) (\<lambda>_. Inr c)"

definition checkpoint_key :: "opaque_checkpoint \<Rightarrow> digest \<times> digest \<times> pystr" where
  "checkpoint_key c = (oc_mission_id c, oc_event_digest c, oc_signer_id c)"

definition store_checkpoint :: "externals \<Rightarrow> event_store \<Rightarrow> opaque_checkpoint \<Rightarrow> event_store result" where
  "store_checkpoint X s c =
     bindR (validate_integrity_state s) (\<lambda>_.
     bindR (retained_events X s (oc_mission_id c)) (\<lambda>events.
     if \<not> list_ex (\<lambda>r. row_mission_id r = oc_mission_id c \<and> row_digest r = oc_event_digest c) (es_events s)
     then Inl (EventStoreError ''checkpoint must reference a retained mission event'')
     else if list_ex (\<lambda>q. checkpoint_key q = checkpoint_key c) (es_checkpoints s)
     then Inl (EventStoreError ''SQLite rejected checkpoint: UNIQUE constraint failed'')
     else if oc_signed_at c < 0 \<or> oc_signature c = [] then Inl (EventStoreError ''SQLite rejected checkpoint: CHECK constraint failed'')
     else
       let s' = s\<lparr>es_checkpoints := es_checkpoints s @ [c]\<rparr> in
       case find (\<lambda>q. checkpoint_key q = checkpoint_key c) (es_checkpoints s') of
         None \<Rightarrow> Inl (corrupt ''stored checkpoint differs from its exact retained representation'')
       | Some q \<Rightarrow> bindR (opaque_checkpoint_new q) (\<lambda>q'.
           if q' \<noteq> c then Inl (corrupt ''stored checkpoint differs from its exact retained representation'') else Inr s')))"

text \<open>\<open>ORDER BY signed_at, event_digest, signer_id\<close>, by stable sorts from the least key on.\<close>

definition load_checkpoints :: "externals \<Rightarrow> event_store \<Rightarrow> digest \<Rightarrow> opaque_checkpoint list result" where
  "load_checkpoints X s mission_id =
     bindR (store_load X s mission_id) (\<lambda>_.
     rewrap value_caught (corrupt ''invalid retained checkpoint'')
       (mapR opaque_checkpoint_new
         (sort_key oc_signed_at (sort_key oc_event_digest (sort_key oc_signer_id
         (filter (\<lambda>c. oc_mission_id c = mission_id) (es_checkpoints s)))))))"

lemma store_checkpointD:
  assumes "store_checkpoint X s c = Inr s'"
  shows "s' = s\<lparr>es_checkpoints := es_checkpoints s @ [c]\<rparr>" and "foreign_keys_ok s'"
  using assms
  by (auto simp: store_checkpoint_def bindR_eq_Inr Let_def foreign_keys_ok_def validate_integrity_state_def requireR_eq_Inr event_digests_def
      list_ex_iff list_all_iff split: if_splits option.splits)

section \<open>Every mission loads\<close>

text \<open>The states of the store: what its operations reach from an empty database, whatever they are called with.\<close>

definition empty_store :: "int \<Rightarrow> event_store" where
  "empty_store max_vault_bytes =
     \<lparr>es_events = [], es_artifacts = [], es_roles = [], es_checkpoints = [], es_max_vault_bytes = max_vault_bytes\<rparr>"

inductive store_step :: "externals \<Rightarrow> event_store \<Rightarrow> event_store \<Rightarrow> bool" for X where
  append: "store_append X s ev h = Inr s' \<Longrightarrow> store_step X s s'"
| append_evidence: "append_evidence_event X s ev h fs = Inr s' \<Longrightarrow> store_step X s s'"
| append_receipt: "append_receipt_admission X s ev h fs = Inr s' \<Longrightarrow> store_step X s s'"
| checkpoint: "store_checkpoint X s c = Inr s' \<Longrightarrow> store_step X s s'"

definition store_reaches :: "externals \<Rightarrow> event_store \<Rightarrow> event_store \<Rightarrow> bool" where
  "store_reaches X = (store_step X)\<^sup>*\<^sup>*"

definition available :: "externals \<Rightarrow> event_store \<Rightarrow> bool" where
  "available X s \<longleftrightarrow> vault_fits s \<and> (\<forall>m. full_digest m \<longrightarrow> (\<exists>evs. store_load X s m = Inr evs))"

lemma appendsD:
  "store_append X s ev h = Inr s' \<Longrightarrow> append_verified_event X s ev h None = Inr s'"
  "append_evidence_event X s ev h fs = Inr s' \<Longrightarrow> append_verified_event X s ev h (Some fs) = Inr s'"
  "append_receipt_admission X s ev h fs = Inr s' \<Longrightarrow> append_verified_event X s ev h (Some fs) = Inr s'"
  by (auto simp: store_append_def append_evidence_event_def append_receipt_admission_def trusted_staging_store_def bindR_eq_Inr split: if_splits)

lemma step_appended:
  assumes "store_step X s s'"
  obtains (append) ev h evs where "appended X s ev h evs s'" and "vault_fits s \<Longrightarrow> vault_fits s'"
  | (checkpoint) c where "store_checkpoint X s c = Inr s'"
  using assms
proof cases
  case (append ev h)
  from append_verified_appended [OF appendsD(1) [OF append]] that(1) show thesis by metis
next
  case (append_evidence ev h fs)
  from append_verified_appended [OF appendsD(2) [OF append_evidence]] that(1) show thesis by metis
next
  case (append_receipt ev h fs)
  from append_verified_appended [OF appendsD(3) [OF append_receipt]] that(1) show thesis by metis
qed (rule that(2))

lemma manifest_ok_checkpoints [simp]: "manifest_ok X (s\<lparr>es_checkpoints := cs\<rparr>) = manifest_ok X s"
proof -
  have "read_vault_identity X (s\<lparr>es_checkpoints := cs\<rparr>) = read_vault_identity X s"
    by (intro ext) (simp add: read_vault_identity_def artifact_row_def)
  then have "artifact_readable X (s\<lparr>es_checkpoints := cs\<rparr>) = artifact_readable X s" by (intro ext) (simp add: artifact_readable_def)
  moreover have "stored_event_manifest (s\<lparr>es_checkpoints := cs\<rparr>) = stored_event_manifest s"
    by (intro ext) (simp add: stored_event_manifest_def event_roles_def)
  ultimately show ?thesis by (intro ext) (simp add: manifest_ok_def)
qed

lemma load_checkpoint:
  assumes "store_checkpoint X s c = Inr s'" and "store_load X s m = Inr evs"
  shows "store_load X s' m = Inr evs"
proof -
  have "owned_artifact (s\<lparr>es_checkpoints := cs\<rparr>) = owned_artifact s" for cs by (rule ext) (simp add: owned_artifact_def)
  with store_checkpointD [OF assms(1)] assms(2) show ?thesis by (simp add: store_load_iff stream_ok_def vault_owned_def)
qed

text \<open>A step keeps what every mission has, and adds at most one event to one of them.\<close>

lemma step_streams:
  assumes "store_step X s s'" and "store_load X s m = Inr evs"
  shows "\<exists>new. store_load X s' m = Inr (evs @ new) \<and> length new \<le> 1"
  using assms(1)
proof (cases rule: step_appended)
  case (append ev h es)
  show ?thesis
  proof (cases "m = ev_mission_id ev")
    case True
    with assms(2) append(1) have "es = evs" by (simp add: appended_def)
    with load_after_append [OF append(1)] True show ?thesis by (intro exI [of _ "[ev]"]) simp
  next
    case False
    with load_other_mission [OF append(1) _ assms(2)] show ?thesis by (intro exI [of _ "[]"]) simp
  qed
next
  case (checkpoint c)
  with load_checkpoint [OF _ assms(2)] show ?thesis by (intro exI [of _ "[]"]) simp
qed

lemma step_available: "store_step X s s' \<Longrightarrow> available X s \<Longrightarrow> available X s'"
  using step_streams
proof -
  assume s: "store_step X s s'" and a: "available X s"
  have "vault_fits s'" using s
  proof (cases rule: step_appended)
    case (checkpoint c)
    then show ?thesis using a store_checkpointD(1) by (fastforce simp: available_def vault_fits_def vault_used_bytes_def)
  qed (use a in \<open>simp add: available_def\<close>)
  with a step_streams [OF s] show ?thesis unfolding available_def by blast
qed

lemma empty_loads: "full_digest m \<Longrightarrow> store_load X (empty_store n) m = Inr []"
  by (simp add: store_load_iff stream_ok_def empty_store_def foreign_keys_ok_def vault_owned_def mission_rows_def)

lemma reaches_streams:
  assumes "store_reaches X s s'" and "store_load X s m = Inr evs"
  shows "\<exists>new. store_load X s' m = Inr (evs @ new)"
  using assms unfolding store_reaches_def
proof (induction rule: rtranclp_induct)
  case (step a b)
  then show ?case using step_streams by (metis append.assoc)
qed auto

lemma reaches_available:
  assumes "store_reaches X (empty_store n) s" and "0 \<le> n"
  shows "available X s"
  using assms(1) unfolding store_reaches_def
proof (induction rule: rtranclp_induct)
  case base
  show ?case using empty_loads assms(2) by (auto simp: available_def vault_fits_def vault_used_bytes_def empty_store_def)
next
  case (step a b)
  then show ?case by (blast intro: step_available)
qed

end
