(* ===== verification/Retained_Logs.thy ===== *)
theory Retained_Logs
  imports Store_Replay Integrity_Copies
begin

text \<open>
  Where the event lists of a projection come from: each is a list of events of the stream, so that a decision found in one of them is
  retained.
\<close>

definition state_logs :: "mission_state \<Rightarrow> event set" where
  "state_logs st = set (st_candidates st) \<union> set (st_lease_events st) \<union> set (st_expiry_events st) \<union> set (st_cancellation_events st) \<union>
     set (st_reassignment_events st) \<union> set (st_resolution_events st) \<union> set (st_receipt_events st) \<union> set_option (st_terminal_event st)"

definition projection_logs :: "mission_projection \<Rightarrow> event set" where
  "projection_logs p = set (mp_candidate_events p) \<union> set (mp_lease_events p) \<union> set (mp_expiry_events p) \<union> set (mp_cancellation_events p) \<union>
     set (mp_reassignment_events p) \<union> set (mp_resolution_events p) \<union> set (mp_receipt_events p) \<union> set_option (mp_terminal_event p)"

lemma step_logs:
  assumes "evidence_step X st ev st'"
  shows "state_logs st' \<subseteq> insert ev (state_logs st)"
  using assms
  by cases (auto elim!: step_elims dest!: admit_evidenceD(3) record_candidateD(3)
      simp: state_logs_def open_target_def refuse_mission_def fail_mission_def retain_lease_def)

lemma state_logs_cong [simp]: "state_logs (advance ev st) = state_logs st" "state_logs (st\<lparr>st_phase := ph\<rparr>) = state_logs st"
  by (simp_all add: state_logs_def advance_def)

lemma run_logs: "mission_run X first evs st \<Longrightarrow> state_logs st \<subseteq> set evs"
proof (induction rule: mission_run.induct)
  case (step evs st ev phase st')
  then show ?case using step_logs [OF step.hyps(4)] by auto
qed (simp add: initial_state_def state_logs_def)

lemma reduce_logs:
  assumes "reduce_events X evs = Inr p"
  shows "projection_logs p \<subseteq> set evs"
  using assms
proof (rule reduce_eventsE)
  fix first rest st
  assume run: "mission_run X first evs st" and p: "project evs st = Inr p"
  have "projection_logs p = state_logs st"
    using p by (auto simp: project_def projection_logs_def state_logs_def bindR_eq_Inr split: option.splits)
  with run_logs [OF run] show ?thesis by simp
qed

section \<open>Events that the services create\<close>

lemma event_createD:
  assumes "event_create X m n kind unit authority target t payload prev = Inr ev"
  shows "ev_mission_id ev = m" and "ev_seq ev = n" and "ev_kind ev = kind" and "ev_unit ev = unit" and "ev_authority_id ev = authority"
    and "ev_target_id ev = target" and "ev_decision_time ev = t" and "ev_prev_digest ev = prev"
    and "\<exists>w0 w normalized. freeze_json X payload = Inr w0 \<and> thaw_json X w0 = Inr w \<and> canonical_dumps X w = Inr (ev_payload_bytes ev) \<and>
      strict_loads X (ev_payload_bytes ev) = Inr normalized \<and> is_JObj normalized"
proof -
  define mk where "mk normalized = JObj [
           (''authority_id'', JStr authority), (''decision_time'', JInt t), (''kind'', JStr kind),
           (''mission_id'', JStr m), (''payload'', normalized), (''prev_digest'', JStr prev),
           (''seq'', JInt n), (''target_id'', JStr target), (''unit'', JStr unit)]" for normalized
  have "event_create X m n kind unit authority target t payload prev =
     (if \<not> is_JObj payload then Inl (event_error ''payload must be a JSON object'')
      else bindR (wrap_error (\<lambda>ex. is_protocol_error ex \<and> \<not> is_event_error ex) ''event cannot be represented by protocol v1''
        (bindR (bindR (bindR (freeze_json X payload) (thaw_json X)) (canonical_dumps X)) (\<lambda>payload_bytes.
         bindR (strict_loads X payload_bytes) (\<lambda>normalized.
         if \<not> is_JObj normalized then Inl (event_error ''event payload must be a JSON object'')
         else bindR (envelope_create X ''event'' (mk normalized) (JArr [])) (\<lambda>e. Inr (mk normalized, payload_bytes, e)))))) (\<lambda>(body, payload_bytes, e).
        event_new X body payload_bytes (env_object_id e)))" unfolding event_create_def mk_def Let_def by (rule refl)
  with assms obtain w0 w pb normalized and e :: envelope where p: "freeze_json X payload = Inr w0" "thaw_json X w0 = Inr w" "canonical_dumps X w = Inr pb"
    "strict_loads X pb = Inr normalized" "is_JObj normalized" and n: "event_new X (mk normalized) pb (env_object_id e) = Inr ev"
    by (auto simp: wrap_error_eq_Inr bindR_eq_Inr split: if_splits intro: that)
  from event_newD(1) [OF n] have ev: "ev = event_of_body (mk normalized) pb (env_object_id e)" by simp
  show "ev_mission_id ev = m" "ev_seq ev = n" "ev_kind ev = kind" "ev_unit ev = unit" "ev_authority_id ev = authority"
    "ev_target_id ev = target" "ev_decision_time ev = t" "ev_prev_digest ev = prev"
    by (simp_all add: ev event_of_body_def member_def mk_def)
  show "\<exists>w0 w normalized. freeze_json X payload = Inr w0 \<and> thaw_json X w0 = Inr w \<and> canonical_dumps X w = Inr (ev_payload_bytes ev) \<and>
      strict_loads X (ev_payload_bytes ev) = Inr normalized \<and> is_JObj normalized"
    using p by (auto simp: ev event_of_body_def)
qed

text \<open>The payload is read back as it was given, up to the order of its members.\<close>

lemma created_payload:
  assumes "event_create X m n kind unit authority target t payload prev = Inr ev" and "dict_ok payload"
  shows "thawed_payload X ev = Inr (norm_json payload)"
proof -
  from event_createD(9) [OF assms(1)] obtain w0 w1 normalized where d: "freeze_json X payload = Inr w0" "thaw_json X w0 = Inr w1"
    "canonical_dumps X w1 = Inr (ev_payload_bytes ev)" and l: "strict_loads X (ev_payload_bytes ev) = Inr normalized" and o: "is_JObj normalized" by blast
  from d obtain w where w: "thaw_json X payload = Inr w" and c: "canonical_dumps X w = Inr (ev_payload_bytes ev)"
    using thaw_json_idem [of X payload w0] by (auto simp: freeze_json_thaw)
  have nw: "w = norm_json payload" using w by (simp add: thaw_json_eq_Inr)
  have "strict_loads X (ev_payload_bytes ev) = thaw_json X w" by (rule canonical_roundtrip [OF _ c]) (simp add: nw dict_ok_norm assms(2))
  with l thaw_json_idem [OF w] have "normalized = w" by simp
  with l o thaw_json_idem [OF w] nw show ?thesis by (simp add: thawed_payload_def event_payload_def freeze_json_thaw)
qed

lemma created_item:
  assumes "event_create X m n kind unit authority target t (JObj ms) prev = Inr ev" and "dict_ok (JObj ms)" and "map_of ms field = Some v"
  shows "bindR (thawed_payload X ev) (\<lambda>payload. payload_item payload field) = Inr (norm_json v)"
proof -
  have "distinct (map fst ms)" using assms(2) by simp
  then have "map_of (obj_members (norm_json (JObj ms))) field = Some (norm_json v)"
    using assms(3) by (simp add: map_of_sort_key map_of_norm_members)
  with created_payload [OF assms(1,2)] show ?thesis by (simp add: payload_item_def)
qed

text \<open>An envelope put into the payload is the one that is read from it.\<close>

lemma created_envelope_retained:
  assumes "event_create X m n kind unit authority target t (JObj ms) prev = Inr ev" and "dict_ok (JObj ms)"
    and "map_of ms field = Some v" and "envelope_to_json X e = Inr v" and "created_envelope X e"
  shows "retained_envelope X ev field = Inr e"
proof -
  from assms(5) obtain b where b: "envelope_to_bytes X e = Inr b" by (auto simp: created_envelope_def envelope_create_eq_Inr)
  then have "canonical_dumps X v = Inr b" using assms(4) by (simp add: envelope_to_bytes_def)
  then have "canonical_dumps X (norm_json v) = Inr b"
    using canonical_dumps_thaw [of X v "norm_json v"] by (auto simp: canonical_dumps_eq_Inr thaw_json_eq_Inr)
  with created_item [OF assms(1-3)] env.decode_encode [OF assms(5) b] show ?thesis
    by (auto simp: retained_envelope_def bindR_eq_Inr)
qed

text \<open>Two leases with the same envelope are the same.\<close>

lemma vlease_envelope_inject:
  assumes "vlease_to_envelope X l = Inr e" and "vlease_to_envelope X l' = Inr e"
  shows "l = l'"
proof -
  have i: "vl_lease_id l = vl_lease_id l'" and n: "norm_json (vlease_wire_body l) = norm_json (vlease_wire_body l')"
    using assms by (auto simp: vlease_to_envelope_def create_envelope_def catchR_def bindR_eq_Inr envelope_create_eq_Inr thaw_json_eq_Inr
        split: sum.splits if_splits)
  have k: "norm_json (member k (vlease_wire_body l)) = norm_json (member k (vlease_wire_body l'))" for k
    using n unfolding vlease_wire_body_def by (rule norm_members_agree) simp_all
  have "vl_evidence_artifact_digests l = vl_evidence_artifact_digests l'"
    by (rule norm_array_inject [of JStr]) (use k [of "''evidence_artifact_digests''"] in \<open>simp_all add: vlease_wire_body_def member_def\<close>)
  moreover have "vl_lease_nonce l = vl_lease_nonce l'" "vl_mission_id l = vl_mission_id l'" "vl_authority_id l = vl_authority_id l'"
    "vl_target_snapshot_id l = vl_target_snapshot_id l'" "vl_candidate_id l = vl_candidate_id l'"
    using k [of "''lease_nonce''"] k [of "''mission_id''"] k [of "''authority_id''"] k [of "''target_snapshot_id''"] k [of "''candidate_id''"]
    by (simp_all add: vlease_wire_body_def member_def)
  moreover have "vl_candidate_producer_id l = vl_candidate_producer_id l'" "vl_poc_artifact_digest l = vl_poc_artifact_digest l'"
    "vl_environment_digest l = vl_environment_digest l'" "vl_effect_oracle_id l = vl_effect_oracle_id l'" "vl_verifier_id l = vl_verifier_id l'"
    using k [of "''candidate_producer_id''"] k [of "''poc_artifact_digest''"] k [of "''environment_digest''"] k [of "''effect_oracle_id''"]
      k [of "''verifier_id''"] by (simp_all add: vlease_wire_body_def member_def)
  moreover have "vl_verifier_key_id l = vl_verifier_key_id l'" "vl_issuance_trust_snapshot_id l = vl_issuance_trust_snapshot_id l'"
    "vl_issued_at l = vl_issued_at l'" "vl_expires_at l = vl_expires_at l'"
    using k [of "''verifier_key_id''"] k [of "''issuance_trust_snapshot_id''"] k [of "''issued_at''"] k [of "''expires_at''"]
    by (simp_all add: vlease_wire_body_def member_def)
  ultimately show ?thesis using i by simp
qed

lemma vlease_issueD:
  assumes "vlease_issue X v = Inr l"
  shows "l = v\<lparr>vl_lease_id := vl_lease_id l\<rparr>" and "full_digest (vl_lease_id l)"
  using assms by (auto simp: vlease_issue_def vlease_new_def vlease_of_values_def vlease_values_def member_def jstrs_def Let_def bindR_eq_Inr
      seqR_Cons_eq_Inr requireR_eq_Inr comp_def split: if_splits)

lemma vlease_created:
  assumes "vlease_issue X v = Inr l" and "vlease_to_envelope X l = Inr e"
  shows "created_envelope X e"
proof -
  from assms(2) have c: "envelope_create X LEASE_OBJECT_KIND (vlease_wire_body l) (JArr []) = Inr e" and i: "env_object_id e = vl_lease_id l"
    by (auto simp: vlease_to_envelope_def create_envelope_def catchR_def bindR_eq_Inr split: sum.splits if_splits)
  show ?thesis
    by (rule created_envelopeI [OF _ c]) (use i vlease_issueD(2) [OF assms(1)] in \<open>simp_all add: vlease_wire_body_def dict_ok_items_all\<close>)
qed

text \<open>A lease that was issued into an event is the lease that is read from the event.\<close>

lemma issued_lease_retained:
  assumes "vlease_issue X v = Inr l" and "vlease_to_envelope X l = Inr e" and "envelope_to_json X e = Inr j"
    and "event_create X m n kind unit authority target t (JObj ms) prev = Inr ev" and "dict_ok (JObj ms)" and "map_of ms ''lease'' = Some j"
    and "retained_lease X ev = Inr l'"
  shows "l' = l"
proof -
  note ce = vlease_created [OF assms(1,2)]
  have "vlease_from_envelope X e = Inr l'"
    using assms(7) created_envelope_retained [OF assms(4-6,3) ce] by (simp add: retained_lease_def)
  from vlease.from_env_to_env [OF ce this] assms(2) show ?thesis by (rule vlease_envelope_inject)
qed

end
