(* ===== verification/Vault_Resolution.thy ===== *)
theory Vault_Resolution
  imports Store_Replay
begin

text \<open>
  The batch reads of the vault in \<open>src/etzio/kernel/store.py\<close>: \<open>resolve_evidence_artifacts\<close>, which answers from the vault and falls back to
  the staging store only for identities the vault does not have, and \<open>load_event_artifacts\<close>. Both replay every mission that owns a requested
  artifact before they return its bytes.
\<close>

section \<open>Validating the owners\<close>

text \<open>The distinct missions in the order given, with the reads they share.\<close>

fun validate_missions :: "externals \<Rightarrow> event_store \<Rightarrow> rehashed \<Rightarrow> digest list \<Rightarrow> rehashed result" where
  "validate_missions X s observed [] = Inr observed"
| "validate_missions X s observed (m # missions) =
     bindR (store_rows s m) (\<lambda>rs.
     bindR (decode_rows X m 0 GENESIS_DIGEST rs) (\<lambda>events.
     if events = [] then Inl (corrupt ''vault origin mission has no retained event stream'')
     else bindR (validate_retained_lifecycle X events) (\<lambda>_.
     bindR (foldR (verify_event_manifest X s) observed events) (\<lambda>observed'. validate_missions X s observed' missions))))"

definition sized_key_ok :: "sized_key \<Rightarrow> bool" where
  "sized_key_ok k = (case k of (scheme, tag, d, n) \<Rightarrow> full_digest d \<and> 0 \<le> n \<and> n \<le> MAX_VAULT_ARTIFACT_BYTES_V1)"

definition load_missions_with_shared_evidence_validation ::
  "externals \<Rightarrow> event_store \<Rightarrow> digest list \<Rightarrow> sized_key list \<Rightarrow> rehashed result" where
  "load_missions_with_shared_evidence_validation X s mission_ids cache_keys =
     (if mission_ids = [] \<or> int (length mission_ids) > MAX_VAULT_BATCH_REQUESTS_V1 \<or> \<not> list_all full_digest mission_ids \<or> \<not> distinct mission_ids
      then Inl (EventStoreError ''vault origin missions require one bounded exact unique tuple'')
      else if cache_keys = [] \<or> int (length cache_keys) > MAX_VAULT_BATCH_REQUESTS_V1 \<or> \<not> list_all sized_key_ok cache_keys
      then Inl (EventStoreError ''vault cache keys require one bounded exact immutable set'')
      else bindR (validate_missions X s [] mission_ids) (\<lambda>observed.
        bindR (validate_no_orphan_artifacts s) (\<lambda>_. Inr (filter (\<lambda>(k, data). k \<in> set cache_keys) observed))))"

section \<open>Resolving identities\<close>

text \<open>One entry per identity, in the order of first use, with the strictest maximum and the request it came from.\<close>

fun add_request :: "nat \<Rightarrow> identity_key \<Rightarrow> int \<Rightarrow> (identity_key \<times> nat \<times> int) list \<Rightarrow> (identity_key \<times> nat \<times> int) list" where
  "add_request i key m [] = [(key, i, m)]"
| "add_request i key m ((key', i', m') # rest) =
     (if key' = key then (if m < m' then (key, i, m) else (key', i', m')) # rest else (key', i', m') # add_request i key m rest)"

fun unique_requests :: "nat \<Rightarrow> (identity_key \<times> nat \<times> int) list \<Rightarrow> vault_request list \<Rightarrow> (identity_key \<times> nat \<times> int) list result" where
  "unique_requests i acc [] = Inr acc"
| "unique_requests i acc (q # qs) =
     bindR (request_identity_key q) (\<lambda>key. unique_requests (Suc i) (add_request i key (request_effective_maximum q) acc) qs)"

text \<open>The missions that own an artifact through the role of its origin event.\<close>

definition origin_rows :: "event_store \<Rightarrow> evidence_artifact \<Rightarrow> digest list" where
  "origin_rows s a = concat (map (\<lambda>r. map row_mission_id (filter (\<lambda>e. row_digest e = er_event_digest r) (es_events s)))
     (filter (\<lambda>r. role_owns r a \<and> er_event_digest r = ea_origin_event_digest a) (es_roles s)))"

record vault_batch =
  vb_canonical :: "(identity_key \<times> int \<times> digest) list"
  vb_absent :: "(identity_key \<times> nat \<times> int) list"

definition place_request :: "event_store \<Rightarrow> vault_batch \<Rightarrow> identity_key \<times> nat \<times> int \<Rightarrow> vault_batch result" where
  "place_request s b q = (case q of (key, request_index, limit) \<Rightarrow>
     bindR (artifact_row s key) (\<lambda>row. case row of
       None \<Rightarrow> Inr (b\<lparr>vb_absent := vb_absent b @ [q]\<rparr>)
     | Some a \<Rightarrow>
         if ea_byte_size a > limit
         then Inl (EvidenceVaultRequestError request_index ''artifact_limit'' ''evidence request exceeds its configured limit'')
         else let origins = origin_rows s a in
           if origins = [] \<or> \<not> list_all full_digest origins \<or> \<not> list_all (\<lambda>m. m = hd origins) origins
           then Inl (corrupt ''canonical vault origin does not own the retained identity'')
           else Inr (b\<lparr>vb_canonical := vb_canonical b @ [(key, ea_byte_size a, hd origins)]\<rparr>)))"

definition cache_key :: "identity_key \<Rightarrow> int \<Rightarrow> sized_key" where
  "cache_key key n = (case key of (scheme, tag, d) \<Rightarrow> (scheme, tag, d, n))"

definition canonical_bytes :: "externals \<Rightarrow> event_store \<Rightarrow> vault_batch \<Rightarrow> (identity_key \<times> bytes) list result" where
  "canonical_bytes X s b =
     (let missions = sorted_list_of_set ((\<lambda>(key, n, m). m) ` set (vb_canonical b)) in
      if missions = [] then Inr []
      else bindR (load_missions_with_shared_evidence_validation X s missions (remdups (map (\<lambda>(key, n, m). cache_key key n) (vb_canonical b)))) (\<lambda>cache.
        mapR (\<lambda>(key, n, m). case map_of cache (cache_key key n) of
            None \<Rightarrow> Inl (corrupt ''canonical vault origin manifest did not validate the requested identity'')
          | Some data \<Rightarrow> Inr (key, data)) (vb_canonical b)))"

fun staged_bytes :: "externals \<Rightarrow> file_store \<Rightarrow> int \<Rightarrow> int \<Rightarrow> (identity_key \<times> nat \<times> int) list \<Rightarrow> (identity_key \<times> bytes) list result" where
  "staged_bytes X staging maximum_total selected_bytes [] = Inr []"
| "staged_bytes X staging maximum_total selected_bytes (((scheme, tag, d), request_index, limit) # rest) =
     bindR (catchR
       (let read_maximum = min limit (maximum_total - selected_bytes) in
        if scheme = GENERIC_IDENTITY_SCHEME_V1 then file_get X staging d (Some read_maximum)
        else file_get_typed X staging d tag (Some read_maximum))
       (\<lambda>ex. if \<not> is_evidence_error ex then Inl ex
             else Inl (EvidenceVaultRequestError request_index
               (if exn_message ex = ''evidence artifact exceeds configured limit'' then ''artifact_limit'' else ''artifact_unavailable'')
               ''evidence request is absent from the vault and staging CAS''))) (\<lambda>data.
     bindR (staged_bytes X staging maximum_total (selected_bytes + int (length data)) rest) (\<lambda>more.
     Inr (((scheme, tag, d), data) # more)))"

definition resolve_evidence_artifacts ::
  "externals \<Rightarrow> event_store \<Rightarrow> vault_request list \<Rightarrow> file_store \<Rightarrow> int \<Rightarrow> bytes list result" where
  "resolve_evidence_artifacts X s requests evidence_store maximum_total =
     (if requests = [] \<or> int (length requests) > MAX_VAULT_BATCH_REQUESTS_V1
      then Inl (EventStoreError ''evidence resolution requires one bounded tuple of exact vault requests'')
      else if maximum_total < 0 \<or> maximum_total > DEFAULT_MAX_VAULT_BYTES_V1
      then Inl (EventStoreError ''evidence batch maximum_total is outside the fixed vault bound'')
      else bindR (unique_requests 0 [] requests) (\<lambda>uniq.
        bindR (foldR (place_request s) \<lparr>vb_canonical = [], vb_absent = []\<rparr> uniq) (\<lambda>b.
        let selected_bytes = sum_list (map (\<lambda>(key, n, m). n) (vb_canonical b)) in
        if selected_bytes > maximum_total
        then Inl (EvidenceVaultRequestError 0 ''batch_limit'' ''canonical evidence batch exceeds its aggregate byte ceiling'')
        else bindR (canonical_bytes X s b) (\<lambda>canonical.
        bindR (if vb_absent b = [] then Inr []
               else bindR (trusted_staging_store evidence_store) (\<lambda>staging. staged_bytes X staging maximum_total selected_bytes (vb_absent b))) (\<lambda>staged.
        mapR (\<lambda>q. bindR (request_identity_key q) (\<lambda>key. case map_of (canonical @ staged) key of
            None \<Rightarrow> Inl (KeyError ''identity_key'') | Some data \<Rightarrow> Inr data)) requests)))))"

definition resolve_evidence_artifact :: "externals \<Rightarrow> event_store \<Rightarrow> pystr \<Rightarrow> digest \<Rightarrow> int \<Rightarrow> file_store \<Rightarrow> bytes result" where
  "resolve_evidence_artifact X s role d maximum evidence_store =
     bindR (rewrap is_vault_error (EventStoreError ''invalid evidence resolution request'') (vault_request_new role d maximum)) (\<lambda>request.
     bindR (resolve_evidence_artifacts X s [request] evidence_store (request_effective_maximum request)) (\<lambda>datas. Inr (hd datas)))"

section \<open>Loading the artifacts of an event\<close>

text \<open>\<open>dict.fromkeys\<close>: the distinct values, each where it occurs first.\<close>

definition first_keys :: "'a list \<Rightarrow> 'a list" where
  "first_keys xs = rev (remdups (rev xs))"

definition owner_mission :: "event_store \<Rightarrow> digest \<Rightarrow> digest result" where
  "owner_mission s event_digest =
     (case find (\<lambda>e. row_digest e = event_digest) (es_events s) of
        None \<Rightarrow> Inl (EventStoreError ''event artifact owner is not retained'')
      | Some e \<Rightarrow> if full_digest (row_mission_id e) then Inr (row_mission_id e)
                  else Inl (EventStoreError ''event artifact owner is not retained''))"

definition selected_role :: "event_store \<Rightarrow> vault_selector \<Rightarrow> sized_key result" where
  "selected_role s q =
     (case find (\<lambda>r. er_event_digest r = vs_event_digest q \<and> er_role r = vs_role q \<and> er_ordinal r = vs_ordinal q) (es_roles s) of
        None \<Rightarrow> Inl (EventStoreError ''event artifact role is not retained'')
      | Some r \<Rightarrow>
          bindR (vault_identity_for_role_v1 (vs_role q)) (\<lambda>(identity_scheme, type_tag).
          if er_identity_scheme r \<noteq> identity_scheme \<or> er_type_tag r \<noteq> type_tag \<or> \<not> full_digest (er_artifact_digest r) \<or>
             er_byte_size r < 0 \<or> er_byte_size r > MAX_VAULT_ARTIFACT_BYTES_V1
          then Inl (corrupt ''retained event artifact differs from its code-owned selector'')
          else Inr (er_identity_scheme r, er_type_tag r, er_artifact_digest r, er_byte_size r)))"

definition load_event_artifacts :: "externals \<Rightarrow> event_store \<Rightarrow> vault_selector list \<Rightarrow> int \<Rightarrow> bytes list result" where
  "load_event_artifacts X s selectors maximum_total =
     (if selectors = [] \<or> int (length selectors) > MAX_VAULT_BATCH_REQUESTS_V1
      then Inl (EventStoreError ''event artifact loading requires one bounded tuple of exact selectors'')
      else if maximum_total < 0 \<or> maximum_total > DEFAULT_MAX_VAULT_BYTES_V1
      then Inl (EventStoreError ''event artifact batch maximum_total is outside the fixed vault bound'')
      else bindR (mapR (owner_mission s) (first_keys (map vs_event_digest selectors))) (\<lambda>missions.
        bindR (mapR (selected_role s) selectors) (\<lambda>selected.
        let cache_keys = remdups selected in
        if sum_list (map (\<lambda>(scheme, tag, d, n). n) cache_keys) > maximum_total
        then Inl (EvidenceVaultRequestError 0 ''batch_limit'' ''event artifact batch exceeds its aggregate byte ceiling'')
        else bindR (load_missions_with_shared_evidence_validation X s (sorted_list_of_set (set missions)) cache_keys) (\<lambda>cache.
        mapR (\<lambda>key. case map_of cache key of
            None \<Rightarrow> Inl (corrupt ''retained event artifact was not verified with its owner mission'')
          | Some data \<Rightarrow> Inr data) selected))))"

definition load_event_artifact :: "externals \<Rightarrow> event_store \<Rightarrow> digest \<Rightarrow> pystr \<Rightarrow> int \<Rightarrow> bytes result" where
  "load_event_artifact X s event_digest role ordinal =
     bindR (rewrap is_vault_error (EventStoreError ''invalid event artifact selector'') (vault_selector_new event_digest role ordinal)) (\<lambda>selector.
     bindR (load_event_artifacts X s [selector] DEFAULT_MAX_VAULT_BYTES_V1) (\<lambda>datas. Inr (hd datas)))"

section \<open>What a batch returns\<close>

lemma add_request_distinct: "distinct (map fst acc) \<Longrightarrow> distinct (map fst (add_request i key m acc))"
proof (induction i key m acc rule: add_request.induct)
  case (2 i key m key' i' m' rest)
  have "fst ` set (add_request i key m xs) = insert key (fst ` set xs)" for xs by (induction i key m xs rule: add_request.induct) auto
  with 2 show ?case by auto
qed simp

text \<open>An identity is requested with at most a given maximum.\<close>

definition covered :: "(identity_key \<times> nat \<times> int) list \<Rightarrow> identity_key \<Rightarrow> int \<Rightarrow> bool" where
  "covered uniq key m \<longleftrightarrow> (\<exists>j n. (key, j, n) \<in> set uniq \<and> n \<le> m)"

lemma covered_simps [simp]: "\<not> covered [] key m" "covered ((key', j, n) # rest) key m \<longleftrightarrow> key' = key \<and> n \<le> m \<or> covered rest key m"
  by (auto simp: covered_def)

lemma add_request_covered: "covered acc key' m' \<or> key' = key \<and> m \<le> m' \<Longrightarrow> covered (add_request i key m acc) key' m'"
  by (induction i key m acc rule: add_request.induct) (auto split: if_splits)

lemma unique_requests_sound:
  assumes "unique_requests i acc qs = Inr uniq" and "distinct (map fst acc)"
  shows "distinct (map fst uniq) \<and> (\<forall>key m. covered acc key m \<longrightarrow> covered uniq key m) \<and>
    (\<forall>q \<in> set qs. \<forall>key. request_identity_key q = Inr key \<longrightarrow> covered uniq key (request_effective_maximum q))"
  using assms
proof (induction i acc qs rule: unique_requests.induct)
  case (2 i acc q qs)
  from "2.prems"(1) obtain k where k: "request_identity_key q = Inr k"
    and u: "unique_requests (Suc i) (add_request i k (request_effective_maximum q) acc) qs = Inr uniq"
    by (auto simp: bindR_eq_Inr)
  note IH = "2.IH" [OF k u add_request_distinct [OF "2.prems"(2)]]
  have "covered uniq key m" if "covered acc key m" for key m using IH add_request_covered that by blast
  moreover have "covered uniq k (request_effective_maximum q)" using IH add_request_covered by blast
  ultimately show ?case using IH k by (simp del: split_paired_All)
qed auto

text \<open>Where a request is placed: in the vault, within its limit, or absent from it.\<close>

definition vault_entry :: "event_store \<Rightarrow> (identity_key \<times> nat \<times> int) list \<Rightarrow> identity_key \<times> int \<times> digest \<Rightarrow> bool" where
  "vault_entry s uniq c \<longleftrightarrow> (\<exists>i l. (fst c, i, l) \<in> set uniq \<and> fst (snd c) \<le> l) \<and>
     (\<exists>a. vault_row s (fst c) = Some a \<and> ea_byte_size a = fst (snd c))"

lemma vault_entry_Cons: "vault_entry s uniq c \<Longrightarrow> vault_entry s (q # uniq) c"
  by (auto simp: vault_entry_def)

lemma place_requests_sound:
  assumes "foldR (place_request s) b uniq = Inr b'"
  shows "(\<forall>c \<in> set (vb_canonical b'). c \<in> set (vb_canonical b) \<or> vault_entry s uniq c) \<and>
    (\<forall>q \<in> set (vb_absent b'). q \<in> set (vb_absent b) \<or> q \<in> set uniq \<and> vault_row s (fst q) = None)"
  using assms
proof (induction uniq arbitrary: b)
  case (Cons q uniq)
  obtain key i l where q: "q = (key, i, l)" by (cases q)
  from Cons.prems obtain b1 where p: "place_request s b q = Inr b1" and f: "foldR (place_request s) b1 uniq = Inr b'" by (auto simp: bindR_eq_Inr)
  note IH = Cons.IH [OF f]
  show ?case
  proof (cases "vault_row s key")
    case None
    then have "b1 = b\<lparr>vb_absent := vb_absent b @ [q]\<rparr>" using p by (simp add: place_request_def q artifact_row_def vault_row_def)
    with IH None q show ?thesis by (simp add: vault_entry_Cons) (metis fst_conv vault_entry_Cons)
  next
    case (Some a)
    with p obtain m where b1: "b1 = b\<lparr>vb_canonical := vb_canonical b @ [(key, ea_byte_size a, m)]\<rparr>" and l: "ea_byte_size a \<le> l"
      by (auto simp: place_request_def q artifact_row_def vault_row_def Let_def not_less split: if_splits)
    have "vault_entry s (q # uniq) (key, ea_byte_size a, m)" using Some l q by (auto simp: vault_entry_def)
    with IH b1 show ?thesis by (simp add: vault_entry_Cons) (metis vault_entry_Cons)
  qed
qed simp

lemma validate_missions_reads: "reads_ok X s observed \<Longrightarrow> validate_missions X s observed ms = Inr obs \<Longrightarrow> reads_ok X s obs"
proof (induction X s observed ms rule: validate_missions.induct)
  case (2 X s observed m ms)
  then obtain evs obs1 where "foldR (verify_event_manifest X s) observed evs = Inr obs1" "validate_missions X s obs1 ms = Inr obs"
    and IH: "reads_ok X s obs1 \<Longrightarrow> reads_ok X s obs"
    by (auto simp: bindR_eq_Inr split: if_splits)
  moreover have "reads_ok X s obs1" using foldR_invariant [OF calculation(1), of "reads_ok X s"] "2.prems"(1) verify_event_manifest_reads by blast
  ultimately show ?case by blast
qed simp

lemma shared_cache_reads:
  assumes "load_missions_with_shared_evidence_validation X s ms keys = Inr cache" and "map_of cache (scheme, tag, d, n) = Some data"
  shows "read_vault_identity X s scheme tag d None (Some n) = Inr data"
proof -
  from assms(1) obtain obs where "validate_missions X s [] ms = Inr obs" and c: "cache = filter (\<lambda>(k, data). k \<in> set keys) obs"
    by (auto simp: load_missions_with_shared_evidence_validation_def bindR_eq_Inr split: if_splits)
  then have "reads_ok X s obs" by (blast intro: validate_missions_reads reads_ok_Nil)
  moreover have "map_of obs k = Some data" if "map_of (filter (\<lambda>(k, data). k \<in> set keys) obs) k = Some data" for k
  proof -
    have "k \<in> set keys" using map_of_SomeD [OF that] by auto
    then show ?thesis using that by (induction obs) (auto split: if_splits)
  qed
  ultimately show ?thesis using assms(2) c by (auto simp: reads_ok_def)
qed

lemma canonical_bytes_sound:
  assumes "canonical_bytes X s b = Inr canonical" and "((scheme, tag, d), data) \<in> set canonical"
  shows "\<exists>n m. ((scheme, tag, d), n, m) \<in> set (vb_canonical b) \<and> read_vault_identity X s scheme tag d None (Some n) = Inr data"
proof -
  from assms obtain ms keys cache where l: "load_missions_with_shared_evidence_validation X s ms keys = Inr cache"
    and m: "mapR (\<lambda>(key, n, m). case map_of cache (cache_key key n) of
            None \<Rightarrow> Inl (corrupt ''canonical vault origin manifest did not validate the requested identity'')
          | Some data \<Rightarrow> Inr (key, data)) (vb_canonical b) = Inr canonical"
    by (auto simp: canonical_bytes_def bindR_eq_Inr Let_def split: if_splits)
  from mapR_back [OF m assms(2)] obtain n k where "((scheme, tag, d), n, k) \<in> set (vb_canonical b)" "map_of cache (scheme, tag, d, n) = Some data"
    by (auto simp: cache_key_def split: option.splits)
  with shared_cache_reads [OF l] show ?thesis by blast
qed

text \<open>Bytes of an identity: they have its digest, and no more of them than allowed.\<close>

definition identity_bytes :: "externals \<Rightarrow> identity_key \<Rightarrow> int \<Rightarrow> bytes \<Rightarrow> bool" where
  "identity_bytes X key n data = (case key of (scheme, tag, d) \<Rightarrow> digest_bytes_v1 X data scheme tag = Inr d \<and> int (length data) \<le> n)"

lemma read_vault_identity_bytes:
  "read_vault_identity X s scheme tag d m (Some n) = Inr data \<Longrightarrow> identity_bytes X (scheme, tag, d) n data"
  by (auto simp: read_vault_identity_iff identity_bytes_def)

definition known_identity :: "identity_key \<Rightarrow> bool" where
  "known_identity key = (case key of (scheme, tag, d) \<Rightarrow>
     scheme = GENERIC_IDENTITY_SCHEME_V1 \<and> tag = GENERIC_TYPE_TAG_V1 \<or> scheme = TYPED_IDENTITY_SCHEME_V1)"

lemma staged_bytes_sound:
  assumes "staged_bytes X fs bound used qs = Inr staged"
    and "list_all (\<lambda>q. known_identity (fst q)) qs"
    and "(key, data) \<in> set staged"
  shows "\<exists>i l. (key, i, l) \<in> set qs \<and> identity_bytes X key l data"
  using assms
proof (induction X fs bound used qs arbitrary: staged rule: staged_bytes.induct)
  case (2 X fs bound used scheme tag d i l qs)
  let ?read = "let m = min l (bound - used) in if scheme = GENERIC_IDENTITY_SCHEME_V1 then file_get X fs d (Some m) else file_get_typed X fs d tag (Some m)"
  from "2.prems"(1) obtain x more where x: "?read = Inr x" and m: "staged_bytes X fs bound (used + int (length x)) qs = Inr more"
    and st: "staged = ((scheme, tag, d), x) # more"
    by (auto simp: bindR_eq_Inr catchR_def Let_def split: sum.splits if_splits)
  have "identity_bytes X (scheme, tag, d) l x"
  proof (cases "scheme = GENERIC_IDENTITY_SCHEME_V1")
    case True
    then have g: "file_get X fs d (Some (min l (bound - used))) = Inr x" and t: "tag = GENERIC_TYPE_TAG_V1"
      using x "2.prems"(2) by (auto simp: Let_def known_identity_def GENERIC_IDENTITY_SCHEME_V1_def TYPED_IDENTITY_SCHEME_V1_def)
    from file_get_sound(1) [OF g] file_get_sound(3) [OF g refl] show ?thesis by (simp add: identity_bytes_def True t digest_bytes_generic)
  next
    case False
    then have g: "file_get_typed X fs d tag (Some (min l (bound - used))) = Inr x" and t: "scheme = TYPED_IDENTITY_SCHEME_V1"
      using x "2.prems"(2) by (auto simp: Let_def known_identity_def)
    then have "tag \<in> set VERIFICATION_ARTIFACT_TYPES_V1" by (auto simp: file_get_typed_def validate_artifact_type_def split: if_splits)
    with file_get_typed_sound(1) [OF g] file_get_typed_sound(4) [OF g refl] show ?thesis by (simp add: identity_bytes_def t digest_bytes_typed)
  qed
  moreover have "\<exists>i l. (key, i, l) \<in> set qs \<and> identity_bytes X key l data" if "(key, data) \<in> set more"
    using "2.IH" [of x more] x m "2.prems"(2) that by (auto simp: catchR_def)
  ultimately show ?case using "2.prems"(3) st by auto
qed simp

lemma request_identity_known: "request_identity_key q = Inr key \<Longrightarrow> known_identity key \<and> snd (snd key) = vq_digest q"
  by (auto simp: request_identity_key_def vault_identity_for_role_v1_def bindR_eq_Inr VAULT_IDENTITY_BY_ROLE_V1_def known_identity_def
      split: option.splits if_splits)

lemma add_request_known: "known_identity key \<Longrightarrow> list_all (\<lambda>q. known_identity (fst q)) acc \<Longrightarrow> list_all (\<lambda>q. known_identity (fst q)) (add_request i key m acc)"
  by (induction i key m acc rule: add_request.induct) auto

lemma unique_requests_known:
  "unique_requests i acc qs = Inr uniq \<Longrightarrow> list_all (\<lambda>q. known_identity (fst q)) acc \<Longrightarrow> list_all (\<lambda>q. known_identity (fst q)) uniq"
proof (induction i acc qs rule: unique_requests.induct)
  case (2 i acc q qs)
  then obtain k where k: "request_identity_key q = Inr k"
    and u: "unique_requests (Suc i) (add_request i k (request_effective_maximum q) acc) qs = Inr uniq"
    by (auto simp: bindR_eq_Inr)
  from "2.IH" [OF k u] add_request_known request_identity_known [OF k] "2.prems"(2) show ?case by blast
qed simp

lemma identity_bytes_le: "identity_bytes X key l data \<Longrightarrow> l \<le> m \<Longrightarrow> identity_bytes X key m data"
  by (auto simp: identity_bytes_def split: prod.splits)

text \<open>One answer per request, in order: bytes with the requested digest, within the request's maximum; from the vault whenever it has the identity.\<close>

lemma resolve_sound:
  assumes r: "resolve_evidence_artifacts X s qs fs bound = Inr datas"
  shows "length datas = length qs"
    and "i < length qs \<Longrightarrow> \<exists>key. request_identity_key (qs ! i) = Inr key \<and>
      identity_bytes X key (request_effective_maximum (qs ! i)) (datas ! i) \<and>
      (\<forall>a. vault_row s key = Some a \<longrightarrow> datas ! i = ea_content a)"
proof -
  from r obtain uniq b canonical staged where u: "unique_requests 0 [] qs = Inr uniq"
    and p: "foldR (place_request s) \<lparr>vb_canonical = [], vb_absent = []\<rparr> uniq = Inr b"
    and c: "canonical_bytes X s b = Inr canonical"
    and t: "vb_absent b = [] \<and> staged = [] \<or> (\<exists>st used. staged_bytes X st bound used (vb_absent b) = Inr staged)"
    and m: "mapR (\<lambda>q. bindR (request_identity_key q) (\<lambda>key. case map_of (canonical @ staged) key of
            None \<Rightarrow> Inl (KeyError ''identity_key'') | Some data \<Rightarrow> Inr data)) qs = Inr datas"
  proof -
    have absent: "vb_absent b = [] \<and> staged = [] \<or> (\<exists>st used. staged_bytes X st bound used (vb_absent b) = Inr staged)"
      if "(if vb_absent b = [] then Inr [] else bindR (trusted_staging_store fs) (\<lambda>staging. staged_bytes X staging bound used (vb_absent b))) = Inr staged"
      for b used staged using that by (auto simp: bindR_eq_Inr split: if_splits)
    from r show thesis unfolding resolve_evidence_artifacts_def Let_def if_raise_eq_Inr bindR_eq_Inr
      by (elim conjE exE) (rule that, assumption+, rule absent, assumption+)
  qed
  note us = unique_requests_sound [OF u] and ps = place_requests_sound [OF p]
  have known: "list_all (\<lambda>q. known_identity (fst q)) (vb_absent b)"
    using ps unique_requests_known [OF u] by (auto simp: list_all_iff)
  show "length datas = length qs" by (rule mapR_length [OF m])
  assume i: "i < length qs"
  from mapR_nth [OF m i] obtain key where key: "request_identity_key (qs ! i) = Inr key"
    and pick: "(case map_of (canonical @ staged) key of None \<Rightarrow> Inl (KeyError ''identity_key'') | Some data \<Rightarrow> Inr data) = Inr (datas ! i)"
    unfolding bindR_eq_Inr by blast
  from pick have d: "map_of (canonical @ staged) key = Some (datas ! i)"
    by (cases "map_of (canonical @ staged) key") (simp_all del: map_of_append)
  have "covered uniq key (request_effective_maximum (qs ! i))" using us key i by (simp del: split_paired_All)
  then obtain j l where jl: "(key, j, l) \<in> set uniq" "l \<le> request_effective_maximum (qs ! i)" by (auto simp: covered_def)
  have only: "l' = l" if "(key, j', l') \<in> set uniq" for j' l' using us that jl(1) by (auto dest: eq_key_imp_eq_value)
  obtain scheme tag dd where k: "key = (scheme, tag, dd)" by (cases key)
  from map_of_SomeD [OF d] consider "(key, datas ! i) \<in> set canonical" | "(key, datas ! i) \<in> set staged" by auto
  then have "identity_bytes X key l (datas ! i) \<and> (\<forall>a. vault_row s key = Some a \<longrightarrow> datas ! i = ea_content a)"
  proof cases
    case 1
    from canonical_bytes_sound [OF c 1 [unfolded k]] obtain n mm where nm: "(key, n, mm) \<in> set (vb_canonical b)"
      and rd: "read_vault_identity X s scheme tag dd None (Some n) = Inr (datas ! i)" using k by blast
    from ps nm have "vault_entry s uniq (key, n, mm)" by auto
    then have "n \<le> l" using only by (auto simp: vault_entry_def)
    with read_vault_identity_bytes [OF rd] have "identity_bytes X key l (datas ! i)" using k by (auto intro: identity_bytes_le)
    with rd show ?thesis by (auto simp: read_vault_identity_iff k)
  next
    case 2
    with t obtain st used where sb: "staged_bytes X st bound used (vb_absent b) = Inr staged" by auto
    from staged_bytes_sound [OF sb known 2] obtain j' l' where jl': "(key, j', l') \<in> set (vb_absent b)" "identity_bytes X key l' (datas ! i)" by blast
    with ps have "(key, j', l') \<in> set uniq" "vault_row s key = None" by auto
    with jl' only show ?thesis by auto
  qed
  with jl(2) key show "\<exists>key. request_identity_key (qs ! i) = Inr key \<and>
      identity_bytes X key (request_effective_maximum (qs ! i)) (datas ! i) \<and> (\<forall>a. vault_row s key = Some a \<longrightarrow> datas ! i = ea_content a)"
    by (blast intro: identity_bytes_le)
qed

end
