(* ===== verification/Store_Port.thy ===== *)
theory Store_Port
  imports Retained_Logs Vault_Resolution "HOL-Library.Sublist"
begin

text \<open>
  What the kernel services see of an event store: the protocol \<open>_EventStorePort\<close> of \<open>src/etzio/kernel/artifact_resolution.py\<close> and
  \<open>receipt_admission.py\<close>, and the \<open>load\<close>/\<open>append\<close> pair of \<open>verification_lease.py\<close> and \<open>verification_recovery.py\<close>. Each access is a
  transaction of its own; other connections may write between two accesses, and an access may find the writer lock taken.

  The locale \<open>event_log\<close> states what the services rely on, and the port on the SQLite store is an instance of it whatever the other
  connections do, as long as they are connections to the same store.
\<close>

section \<open>Accesses\<close>

type_synonym ('s, 'a) access = "'s \<Rightarrow> 'a result \<times> 's"

definition liftP :: "'a result \<Rightarrow> ('s, 'a) access" where
  "liftP r s = (r, s)"

definition bindP :: "('s, 'a) access \<Rightarrow> ('a \<Rightarrow> ('s, 'b) access) \<Rightarrow> ('s, 'b) access" where
  "bindP m f s = (case m s of (Inl e, s') \<Rightarrow> (Inl e, s') | (Inr x, s') \<Rightarrow> f x s')"

definition catchP :: "('s, 'a) access \<Rightarrow> (exn \<Rightarrow> ('s, 'a) access) \<Rightarrow> ('s, 'a) access" where
  "catchP m h s = (case m s of (Inl e, s') \<Rightarrow> h e s' | (Inr x, s') \<Rightarrow> (Inr x, s'))"

text \<open>\<open>try: m except E: handler\<close> with a continuation that is not under the \<open>try\<close>.\<close>

definition tryP :: "('s, 'a) access \<Rightarrow> (exn \<Rightarrow> ('s, 'b) access) \<Rightarrow> ('a \<Rightarrow> ('s, 'b) access) \<Rightarrow> ('s, 'b) access" where
  "tryP m h f s = (case m s of (Inl e, s') \<Rightarrow> h e s' | (Inr x, s') \<Rightarrow> f x s')"

lemma liftP_eq [result_simps]: "liftP r s = (r', s') \<longleftrightarrow> r = r' \<and> s = s'"
  by (auto simp: liftP_def)

lemma bindP_eq_Inr [result_simps]: "bindP m f s = (Inr y, s'') \<longleftrightarrow> (\<exists>x s'. m s = (Inr x, s') \<and> f x s' = (Inr y, s''))"
  by (auto simp: bindP_def split: prod.splits sum.splits)

lemma tryP_eq_Inr [result_simps]:
  "tryP m h f s = (Inr y, s'') \<longleftrightarrow> (\<exists>x s'. m s = (Inr x, s') \<and> f x s' = (Inr y, s'')) \<or> (\<exists>e s'. m s = (Inl e, s') \<and> h e s' = (Inr y, s''))"
  by (auto simp: tryP_def split: prod.splits sum.splits)

section \<open>The port\<close>

record 's event_store_port =
  port_load :: "digest \<Rightarrow> ('s, event list) access"
  port_append :: "event \<Rightarrow> digest \<Rightarrow> ('s, unit) access"
  port_append_evidence :: "event \<Rightarrow> digest \<Rightarrow> file_store \<Rightarrow> ('s, unit) access"
  port_append_receipt :: "event \<Rightarrow> digest \<Rightarrow> file_store \<Rightarrow> ('s, unit) access"
  port_load_event_artifacts :: "vault_selector list \<Rightarrow> int \<Rightarrow> ('s, bytes list) access"
  port_resolve_evidence_artifacts :: "vault_request list \<Rightarrow> file_store \<Rightarrow> int \<Rightarrow> ('s, bytes list) access"

section \<open>Compare and append\<close>

text \<open>The end of every service: the new event is reduced with the loaded stream and appended; a stale head is reconciled with what another
  writer retained in the meantime; otherwise the committed stream is replayed.\<close>

definition replay :: "externals \<Rightarrow> 's event_store_port \<Rightarrow> digest \<Rightarrow> ('s, mission_projection) access" where
  "replay X P mission_id = bindP (port_load P mission_id) (\<lambda>events. liftP (reduce_events X events))"

definition commit_event :: "externals \<Rightarrow> 's event_store_port \<Rightarrow> digest \<Rightarrow> event list \<Rightarrow> event \<Rightarrow> ('s, unit) access \<Rightarrow> (exn \<Rightarrow> bool) \<Rightarrow>
    (mission_projection \<Rightarrow> 'r option result) \<Rightarrow> (exn \<Rightarrow> mission_projection \<Rightarrow> exn) \<Rightarrow> (mission_projection \<Rightarrow> 'r result) \<Rightarrow> ('s, 'r) access" where
  "commit_event X P mission_id retained ev action stale existing unmatched committed =
     bindP (liftP (reduce_events X (retained @ [ev]))) (\<lambda>_.
     tryP action
       (\<lambda>ex. if \<not> stale ex then liftP (Inl ex)
             else bindP (replay X P mission_id) (\<lambda>raced.
                  bindP (liftP (existing raced)) (\<lambda>found. case found of
                    Some r \<Rightarrow> liftP (Inr r) | None \<Rightarrow> liftP (Inl (unmatched ex raced)))))
       (\<lambda>_. bindP (replay X P mission_id) (\<lambda>p. liftP (committed p))))"

fun is_stale_head :: "exn \<Rightarrow> bool" where
  "is_stale_head (StaleHeadError m) = True"
| "is_stale_head _ = False"

fun is_store_busy :: "exn \<Rightarrow> bool" where
  "is_store_busy (StoreBusyError m) = True"
| "is_store_busy _ = False"

text \<open>\<open>next((event for event in events if event.event_digest == digest), None)\<close>\<close>

definition committed_event :: "exn \<Rightarrow> event list \<Rightarrow> event \<Rightarrow> event result" where
  "committed_event missing events ev =
     (case find (\<lambda>e. ev_event_digest e = ev_event_digest ev) events of None \<Rightarrow> Inl missing | Some e \<Rightarrow> Inr e)"

lemma committed_event_eq_Inr:
  "committed_event missing events ev = Inr e \<Longrightarrow> e \<in> set events \<and> ev_event_digest e = ev_event_digest ev"
  by (auto simp: committed_event_def find_Some_iff split: option.splits)

text \<open>\<open>for event in events\<close> up to the first decoded match, if there is one.\<close>

fun find_retained :: "(event \<Rightarrow> 'a result) \<Rightarrow> ('a \<Rightarrow> bool) \<Rightarrow> event list \<Rightarrow> (event \<times> 'a) option result" where
  "find_retained decode matches [] = Inr None"
| "find_retained decode matches (ev # evs) =
     bindR (decode ev) (\<lambda>v. if matches v then Inr (Some (ev, v)) else find_retained decode matches evs)"

lemma find_retainedD:
  "find_retained decode matches evs = Inr (Some (ev, v)) \<Longrightarrow> ev \<in> set evs \<and> decode ev = Inr v \<and> matches v"
  by (induction decode matches evs rule: find_retained.induct) (auto simp: bindR_eq_Inr split: if_splits)

lemma find_retained_None: "find_retained decode matches evs = Inr None \<Longrightarrow> e \<in> set evs \<Longrightarrow> \<exists>v. decode e = Inr v \<and> \<not> matches v"
  by (induction decode matches evs rule: find_retained.induct) (auto simp: bindR_eq_Inr split: if_splits)

section \<open>What the services rely on\<close>

text \<open>Streams only grow, a load returns the stream, and an append that succeeds adds its event to a stream of the length that the
  event's number says.\<close>

definition grows :: "('s \<Rightarrow> digest \<Rightarrow> event list) \<Rightarrow> 's \<Rightarrow> 's \<Rightarrow> bool" where
  "grows stream s s' \<longleftrightarrow> (\<forall>m. prefix (stream s m) (stream s' m))"

definition adds :: "('s \<Rightarrow> digest \<Rightarrow> event list) \<Rightarrow> event \<Rightarrow> digest \<Rightarrow> 's \<Rightarrow> 's \<Rightarrow> bool" where
  "adds stream ev h s s' \<longleftrightarrow> (\<exists>before. prefix (stream s (ev_mission_id ev)) before \<and> head_of before = h \<and>
     int (length before) = ev_seq ev \<and> stream s' (ev_mission_id ev) = before @ [ev])"

text \<open>An event stands directly behind the stream that a command had loaded, whose head was the expected one.\<close>

definition stands_behind :: "externals \<Rightarrow> event list \<Rightarrow> event list \<Rightarrow> event \<Rightarrow> digest \<Rightarrow> bool" where
  "stands_behind X evs retained ev h \<longleftrightarrow>
     head_of retained = h \<and> prefix (retained @ [ev]) evs \<and> (\<exists>q. reduce_events X (retained @ [ev]) = Inr q)"

locale event_log =
  fixes P :: "'s event_store_port" and live :: "'s \<Rightarrow> bool" and stream :: "'s \<Rightarrow> digest \<Rightarrow> event list"
  assumes load_grows: "live s \<Longrightarrow> port_load P m s = (r, s') \<Longrightarrow> live s' \<and> grows stream s s'"
    and load_stream: "live s \<Longrightarrow> port_load P m s = (Inr evs, s') \<Longrightarrow> stream s' m = evs"
    and append_grows: "live s \<Longrightarrow> port_append P ev h s = (a, s') \<Longrightarrow> live s' \<and> grows stream s s'"
    and append_adds: "live s \<Longrightarrow> port_append P ev h s = (Inr u, s') \<Longrightarrow> adds stream ev h s s'"
    and append_evidence_grows: "live s \<Longrightarrow> port_append_evidence P ev h fs s = (a, s') \<Longrightarrow> live s' \<and> grows stream s s'"
    and append_evidence_adds: "live s \<Longrightarrow> port_append_evidence P ev h fs s = (Inr u, s') \<Longrightarrow> adds stream ev h s s'"
    and append_receipt_grows: "live s \<Longrightarrow> port_append_receipt P ev h fs s = (a, s') \<Longrightarrow> live s' \<and> grows stream s s'"
    and append_receipt_adds: "live s \<Longrightarrow> port_append_receipt P ev h fs s = (Inr u, s') \<Longrightarrow> adds stream ev h s s'"
    and stream_mission: "live s \<Longrightarrow> ev \<in> set (stream s m) \<Longrightarrow> ev_mission_id ev = m"
    and stream_distinct: "live s \<Longrightarrow> distinct (map ev_event_digest (stream s m))"
    and load_artifacts_grows: "live s \<Longrightarrow> port_load_event_artifacts P sel n s = (b, s') \<Longrightarrow> live s' \<and> grows stream s s'"
    and resolve_grows: "live s \<Longrightarrow> port_resolve_evidence_artifacts P qs fs n s = (b, s') \<Longrightarrow> live s' \<and> grows stream s s'"
begin

lemma grows_refl [simp]: "grows stream s s"
  by (simp add: grows_def)

lemma grows_trans: "grows stream s t \<Longrightarrow> grows stream t u \<Longrightarrow> grows stream s u"
  by (auto simp: grows_def intro: prefix_order.trans)

lemma replay_stream:
  assumes "live s" and "replay X P m s = (Inr p, s')"
  shows "live s' \<and> grows stream s s' \<and> reduce_events X (stream s' m) = Inr p"
  using assms load_grows load_stream by (fastforce simp: replay_def result_simps)

text \<open>A commit either finds a matching decision of another writer in the stream, or its event stands directly behind the loaded one.\<close>

lemma commit_event_outcome:
  assumes "live s" and "prefix retained (stream s (ev_mission_id ev))" and "ev_seq ev = int (length retained)"
    and add: "\<And>u s1. action s = (Inr u, s1) \<Longrightarrow> live s1 \<and> grows stream s s1 \<and> adds stream ev h s s1"
    and keep: "\<And>e s1. action s = (Inl e, s1) \<Longrightarrow> live s1 \<and> grows stream s s1"
    and c: "commit_event X P (ev_mission_id ev) retained ev action stale existing unmatched committed s = (Inr r, s')"
  shows "live s' \<and> grows stream s s' \<and> (\<exists>q. reduce_events X (stream s' (ev_mission_id ev)) = Inr q \<and>
     (existing q = Inr (Some r) \<or> committed q = Inr r \<and> stands_behind X (stream s' (ev_mission_id ev)) retained ev h))"
proof -
  let ?m = "ev_mission_id ev"
  from c consider (stale) e s1 p where "action s = (Inl e, s1)" "replay X P ?m s1 = (Inr p, s')" "existing p = Inr (Some r)"
    | (new) s1 p q where "action s = (Inr (), s1)" "replay X P ?m s1 = (Inr p, s')" "committed p = Inr r" "reduce_events X (retained @ [ev]) = Inr q"
    by (auto simp: commit_event_def result_simps split: if_splits option.splits)
  then show ?thesis
  proof cases
    case stale
    with keep [OF stale(1)] replay_stream [OF _ stale(2)] show ?thesis by (auto intro: grows_trans)
  next
    case new
    from add [OF new(1)] have s1: "live s1" "grows stream s s1" and a: "adds stream ev h s s1" by auto
    note rp = replay_stream [OF s1(1) new(2)]
    from a obtain before where b: "prefix (stream s ?m) before" "head_of before = h" "int (length before) = ev_seq ev" "stream s1 ?m = before @ [ev]"
      by (auto simp: adds_def)
    have "prefix retained before" using assms(2) b(1) by (rule prefix_order.trans)
    with b(3) assms(3) have "before = retained" by (metis append_Nil2 append_eq_append_conv of_nat_eq_iff prefix_def)
    moreover have "prefix (stream s1 ?m) (stream s' ?m)" using rp by (simp add: grows_def)
    ultimately show ?thesis using rp b new s1 grows_trans by (auto simp: stands_behind_def)
  qed
qed

lemma reduced_mission:
  assumes "live s" and "stream s m = evs" and "reduce_events X evs = Inr p"
  shows "mp_mission_id p = m"
  using assms(3)
proof (rule reduce_eventsE)
  fix first rest st
  assume e: "evs = first # rest" and run: "mission_run X first evs st" and p: "project evs st = Inr p"
  have "ev_mission_id first = m" using stream_mission [OF assms(1), of first m] assms(2) e by simp
  with run_chain [OF run] projectD(9) [OF p run_ledger_ok [OF run]] e show ?thesis by (simp add: header_after_def)
qed

text \<open>The whole of a command: a stream is loaded and reduced, accesses that do not write may follow, and the event is committed.\<close>

lemma command_outcome:
  assumes s0: "live s0" and l: "port_load P m s0 = (Inr retained, s)" and p: "reduce_events X retained = Inr p"
    and s1: "live s1" "grows stream s s1" and ev: "ev_mission_id ev = mp_mission_id p" "ev_seq ev = int (length retained)"
    and add: "\<And>u t. action s1 = (Inr u, t) \<Longrightarrow> live t \<and> grows stream s1 t \<and> adds stream ev h s1 t"
    and keep: "\<And>e t. action s1 = (Inl e, t) \<Longrightarrow> live t \<and> grows stream s1 t"
    and c: "commit_event X P m retained ev action stale existing unmatched committed s1 = (Inr r, s')"
  shows "live s' \<and> grows stream s0 s' \<and> (\<exists>q. reduce_events X (stream s' m) = Inr q \<and>
     (existing q = Inr (Some r) \<or> committed q = Inr r \<and> stands_behind X (stream s' m) retained ev h))"
proof -
  note ls = load_grows [OF s0 l] and st = load_stream [OF s0 l]
  have m: "ev_mission_id ev = m" using reduced_mission [OF _ st p] ls ev(1) by simp
  have pre: "prefix retained (stream s1 (ev_mission_id ev))" using s1(2) st m by (auto simp: grows_def)
  note o = commit_event_outcome [OF s1(1) pre ev(2) add keep, unfolded m, OF _ _ c]
  show ?thesis using o ls s1 by (auto intro: grows_trans)
qed

text \<open>The event that a command finds by its digest after the commit is the one that it appended.\<close>

lemma committed_is_new:
  assumes "live s" and "reduce_events X (stream s m) = Inr q" and "e \<in> projection_logs q" and "ev_event_digest e = ev_event_digest ev"
    and "stands_behind X (stream s m) retained ev h"
  shows "e = ev"
proof -
  have "e \<in> set (stream s m)" using reduce_logs [OF assms(2)] assms(3) by blast
  moreover have "ev \<in> set (stream s m)" using assms(5) by (auto simp: stands_behind_def dest: set_mono_prefix)
  ultimately show ?thesis using stream_distinct [OF assms(1), of m] assms(4) by (auto simp: distinct_map dest: inj_onD)
qed

lemma appends:
  "live s \<Longrightarrow> port_append P ev h s = (Inr u, t) \<Longrightarrow> live t \<and> grows stream s t \<and> adds stream ev h s t"
  "live s \<Longrightarrow> port_append_evidence P ev h fs s = (Inr u, t) \<Longrightarrow> live t \<and> grows stream s t \<and> adds stream ev h s t"
  "live s \<Longrightarrow> port_append_receipt P ev h fs s = (Inr u, t) \<Longrightarrow> live t \<and> grows stream s t \<and> adds stream ev h s t"
  by (blast dest: append_grows append_adds, blast dest: append_evidence_grows append_evidence_adds,
      blast dest: append_receipt_grows append_receipt_adds)

text \<open>An access is safe when, whatever it returns, it leaves a live state in which every stream has only grown.\<close>

definition safe :: "('s, 'a) access \<Rightarrow> bool" where
  "safe m \<longleftrightarrow> (\<forall>s r s'. live s \<longrightarrow> m s = (r, s') \<longrightarrow> live s' \<and> grows stream s s')"

lemma safe_lift: "safe (liftP r)"
  by (simp add: safe_def liftP_def)

lemma safe_try:
  assumes "safe m" and "\<And>e. safe (h e)" and "\<And>x. safe (f x)"
  shows "safe (tryP m h f)"
  unfolding safe_def
proof (intro allI impI)
  fix s r s'
  assume l: "live s" and run: "tryP m h f s = (r, s')"
  obtain a t where m: "m s = (a, t)" by (cases "m s")
  then have t: "live t" "grows stream s t" using assms(1) l by (auto simp: safe_def)
  have "(\<exists>e. h e t = (r, s')) \<or> (\<exists>x. f x t = (r, s'))" using run m by (cases a) (auto simp: tryP_def)
  then have "live s' \<and> grows stream t s'" using assms(2,3) t(1) unfolding safe_def by blast
  with t(2) show "live s' \<and> grows stream s s'" by (blast intro: grows_trans)
qed

lemma safe_bind: "safe m \<Longrightarrow> (\<And>x. safe (f x)) \<Longrightarrow> safe (bindP m f)"
proof -
  have "bindP m f = tryP m (\<lambda>e. liftP (Inl e)) f" by (rule ext) (auto simp: bindP_def tryP_def liftP_def split: sum.split prod.split)
  then show "safe m \<Longrightarrow> (\<And>x. safe (f x)) \<Longrightarrow> safe (bindP m f)" by (simp add: safe_try safe_lift)
qed

lemma safe_catch: "safe m \<Longrightarrow> (\<And>e. safe (h e)) \<Longrightarrow> safe (catchP m h)"
proof -
  have "catchP m h = tryP m h (\<lambda>x. liftP (Inr x))" by (rule ext) (auto simp: catchP_def tryP_def liftP_def split: sum.split prod.split)
  then show "safe m \<Longrightarrow> (\<And>e. safe (h e)) \<Longrightarrow> safe (catchP m h)" by (simp add: safe_try safe_lift)
qed

lemma safe_port:
  "safe (port_load P m)" "safe (port_append P ev h)" "safe (port_append_evidence P ev h fs)" "safe (port_append_receipt P ev h fs)"
  "safe (port_load_event_artifacts P sel n)" "safe (port_resolve_evidence_artifacts P qs fs n)"
  unfolding safe_def
  by (blast dest: load_grows append_grows append_evidence_grows append_receipt_grows load_artifacts_grows resolve_grows)+

lemma safe_if: "safe m \<Longrightarrow> safe n \<Longrightarrow> safe (if b then m else n)"
  by simp

lemma safe_option: "safe m \<Longrightarrow> (\<And>x. safe (f x)) \<Longrightarrow> safe (case found of None \<Rightarrow> m | Some x \<Rightarrow> f x)"
  by (cases found) simp_all

lemma safe_prod: "(\<And>x y. safe (f x y)) \<Longrightarrow> safe (case p of (x, y) \<Rightarrow> f x y)"
  by (cases p) simp

lemma safe_sum: "(\<And>e. safe (f e)) \<Longrightarrow> (\<And>x. safe (g x)) \<Longrightarrow> safe (case r of Inl e \<Rightarrow> f e | Inr x \<Rightarrow> g x)"
  by (cases r) simp_all

lemma safe_commit: "safe action \<Longrightarrow> safe (commit_event X P m retained ev action stale existing unmatched committed)"
  unfolding commit_event_def replay_def by (intro safe_bind safe_try safe_if safe_option safe_lift safe_port)

lemmas safe_rules = safe_lift safe_bind safe_catch safe_try safe_port safe_if safe_option safe_prod safe_commit

lemma safeD: "safe m \<Longrightarrow> live s \<Longrightarrow> m s = (r, s') \<Longrightarrow> live s' \<and> grows stream s s'"
  unfolding safe_def by blast

lemma append_command:
  assumes "live s0" and "port_load P m s0 = (Inr retained, s)" and "reduce_events X retained = Inr p"
    and s1: "live s1" and "grows stream s s1" and "ev_mission_id ev = mp_mission_id p" and "ev_seq ev = int (length retained)"
    and "commit_event X P m retained ev (port_append P ev h) stale existing unmatched committed s1 = (Inr r, s')"
  shows "live s' \<and> grows stream s0 s' \<and> (\<exists>q. reduce_events X (stream s' m) = Inr q \<and>
     (existing q = Inr (Some r) \<or> committed q = Inr r \<and> stands_behind X (stream s' m) retained ev h))"
  by (rule command_outcome [OF assms(1-7) _ _ assms(8)]) (use appends(1) append_grows s1 in blast)+

lemma append_evidence_command:
  assumes "live s0" and "port_load P m s0 = (Inr retained, s)" and "reduce_events X retained = Inr p"
    and s1: "live s1" and "grows stream s s1" and "ev_mission_id ev = mp_mission_id p" and "ev_seq ev = int (length retained)"
    and "commit_event X P m retained ev (port_append_evidence P ev h fs) stale existing unmatched committed s1 = (Inr r, s')"
  shows "live s' \<and> grows stream s0 s' \<and> (\<exists>q. reduce_events X (stream s' m) = Inr q \<and>
     (existing q = Inr (Some r) \<or> committed q = Inr r \<and> stands_behind X (stream s' m) retained ev h))"
  by (rule command_outcome [OF assms(1-7) _ _ assms(8)]) (use appends(2) append_evidence_grows s1 in blast)+

end

section \<open>The port on the SQLite store\<close>

text \<open>What happens before an access: the commits of other connections, and whether the writer lock is taken when the access runs.\<close>

record interference =
  iv_writers :: "event_store \<Rightarrow> event_store"
  iv_busy :: bool

type_synonym connection = "event_store \<times> interference list"

fun transaction :: "(event_store \<Rightarrow> 'a result \<times> event_store) \<Rightarrow> (connection, 'a) access" where
  "transaction f (s, []) = (case f s of (r, s') \<Rightarrow> (r, s', []))"
| "transaction f (s, i # is) =
     (let t = iv_writers i s in
      if iv_busy i then (Inl (StoreBusyError ''SQLite writer lock is unavailable''), t, is)
      else (case f t of (r, t') \<Rightarrow> (r, t', is)))"

definition reading :: "(event_store \<Rightarrow> 'a result) \<Rightarrow> event_store \<Rightarrow> 'a result \<times> event_store" where
  "reading f s = (f s, s)"

definition writing :: "(event_store \<Rightarrow> event_store result) \<Rightarrow> event_store \<Rightarrow> unit result \<times> event_store" where
  "writing f s = (case f s of Inl e \<Rightarrow> (Inl e, s) | Inr s' \<Rightarrow> (Inr (), s'))"

definition sqlite_port :: "externals \<Rightarrow> connection event_store_port" where
  "sqlite_port X =
     \<lparr>port_load = \<lambda>m. transaction (reading (\<lambda>s. store_load X s m)),
      port_append = \<lambda>ev h. transaction (writing (\<lambda>s. store_append X s ev h)),
      port_append_evidence = \<lambda>ev h fs. transaction (writing (\<lambda>s. append_evidence_event X s ev h fs)),
      port_append_receipt = \<lambda>ev h fs. transaction (writing (\<lambda>s. append_receipt_admission X s ev h fs)),
      port_load_event_artifacts = \<lambda>sel n. transaction (reading (\<lambda>s. load_event_artifacts X s sel n)),
      port_resolve_evidence_artifacts = \<lambda>qs fs n. transaction (reading (\<lambda>s. resolve_evidence_artifacts X s qs fs n))\<rparr>"

text \<open>A connection is live when its store is available and the others only do what a store allows.\<close>

definition connected :: "externals \<Rightarrow> connection \<Rightarrow> bool" where
  "connected X c \<longleftrightarrow> available X (fst c) \<and> distinct (event_digests (fst c)) \<and> (\<forall>i\<in>set (snd c). \<forall>t. store_reaches X t (iv_writers i t))"

definition mission_stream :: "externals \<Rightarrow> connection \<Rightarrow> digest \<Rightarrow> event list" where
  "mission_stream X c m = (case store_load X (fst c) m of Inl e \<Rightarrow> [] | Inr evs \<Rightarrow> evs)"

lemma reaches_keeps_available: "store_reaches X s s' \<Longrightarrow> available X s \<Longrightarrow> available X s'"
  unfolding store_reaches_def by (induction rule: rtranclp_induct) (auto intro: step_available)

lemma step_digests: "store_step X s s' \<Longrightarrow> distinct (event_digests s) \<Longrightarrow> distinct (event_digests s')"
proof (cases rule: step_appended)
  assume d: "distinct (event_digests s)"
  fix ev h evs
  assume "appended X s ev h evs s'"
  with d show "distinct (event_digests s')" by (auto simp: appended_def event_digests_def row_of_def)
next
  assume d: "distinct (event_digests s)"
  fix c
  assume "store_checkpoint X s c = Inr s'"
  with d store_checkpointD show "distinct (event_digests s')" by (fastforce simp: event_digests_def)
qed

lemma reaches_digests: "store_reaches X s s' \<Longrightarrow> distinct (event_digests s) \<Longrightarrow> distinct (event_digests s')"
  unfolding store_reaches_def by (induction rule: rtranclp_induct) (auto intro: step_digests)

lemma load_rows:
  assumes "store_load X s m = Inr evs"
  shows "map ev_event_digest evs = map row_digest (mission_rows (es_events s) m)" and "ev \<in> set evs \<Longrightarrow> ev_mission_id ev = m"
proof -
  from assms have r: "list_all2 (row_matches X) (mission_rows (es_events s) m) evs" and l: "linked m 0 GENESIS_DIGEST evs"
    by (auto simp: store_load_iff stream_ok_def)
  from r show "map ev_event_digest evs = map row_digest (mission_rows (es_events s) m)"
    by (induction rule: list_all2_induct) (auto simp: row_matches_def)
  show "ev \<in> set evs \<Longrightarrow> ev_mission_id ev = m" using linked_seq_bound [OF l] by blast
qed

lemma mission_rows_digests: "distinct (event_digests s) \<Longrightarrow> distinct (map row_digest (mission_rows (es_events s) m))"
  by (auto simp: mission_rows_def event_digests_def distinct_map inj_on_def)

lemma stream_prefix: "store_reaches X s s' \<Longrightarrow> prefix (mission_stream X (s, is) m) (mission_stream X (s', is') m)"
  using reaches_streams [of X s s' m] by (cases "store_load X s m") (auto simp: mission_stream_def)

text \<open>A transaction is a sequence of steps of the store, so that it keeps a connection live and every stream.\<close>

lemma transaction_grows:
  assumes t: "transaction f c = (r, c')" and c: "connected X c" and f: "\<And>s r s'. f s = (r, s') \<Longrightarrow> store_reaches X s s'"
  shows "connected X c' \<and> grows (mission_stream X) c c'"
proof -
  obtain s "is" where cs: "c = (s, is)" by (cases c)
  obtain s' is' where c': "c' = (s', is')" by (cases c')
  have "store_reaches X s s' \<and> set is' \<subseteq> set is"
  proof (cases "is")
    case Nil
    with t cs c' f show ?thesis by (auto split: prod.splits)
  next
    case (Cons i js)
    then have "store_reaches X s (iv_writers i s)" using c cs by (simp add: connected_def)
    then show ?thesis using t cs c' Cons f [of "iv_writers i s"]
      by (auto simp: Let_def store_reaches_def split: if_splits prod.splits intro: rtranclp_trans)
  qed
  then show ?thesis using c cs c' by (auto simp: connected_def grows_def intro: reaches_keeps_available reaches_digests stream_prefix)
qed

lemma transaction_result:
  assumes "transaction f c = (Inr x, c')"
  shows "\<exists>t. f t = (Inr x, fst c') \<and> (t = fst c \<or> (\<exists>i\<in>set (snd c). t = iv_writers i (fst c)))"
  using assms by (cases "(f, c)" rule: transaction.cases) (auto simp: Let_def split: if_splits prod.splits)

lemma reading_reaches: "reading f s = (r, s') \<Longrightarrow> store_reaches X s s'"
  by (simp add: reading_def store_reaches_def)

lemma writing_reaches: "writing f s = (r, s') \<Longrightarrow> (\<And>u. f s = Inr u \<Longrightarrow> store_step X s u) \<Longrightarrow> store_reaches X s s'"
  by (auto simp: writing_def store_reaches_def split: sum.splits)

text \<open>An append that succeeds adds its event.\<close>

lemma writing_adds:
  assumes t: "transaction (writing f) c = (Inr u, c')" and c: "connected X c"
    and f: "\<And>s s'. f s = Inr s' \<Longrightarrow> append_verified_event X s ev h fs = Inr s'"
  shows "adds (mission_stream X) ev h c c'"
proof -
  from transaction_result [OF t] obtain s where w: "writing f s = (Inr u, fst c')"
    and s: "s = fst c \<or> (\<exists>i\<in>set (snd c). s = iv_writers i (fst c))" by auto
  have "store_reaches X (fst c) s" using s c by (auto simp: connected_def store_reaches_def)
  then have p: "prefix (mission_stream X c m) (mission_stream X (s, []) m)" for m
    using stream_prefix [of X "fst c" s "snd c" m "[]"] by simp
  from w have "f s = Inr (fst c')" by (auto simp: writing_def split: sum.splits)
  from append_verified_appended [OF f [OF this]] obtain evs where a: "appended X s ev h evs (fst c')" by metis
  then have l: "store_load X s (ev_mission_id ev) = Inr evs" "h = head_of evs" "ev_seq ev = int (length evs)" by (simp_all add: appended_def)
  have "mission_stream X c' (ev_mission_id ev) = evs @ [ev]" by (simp add: mission_stream_def load_after_append [OF a])
  moreover have "mission_stream X (s, []) (ev_mission_id ev) = evs" by (simp add: mission_stream_def l(1))
  ultimately show ?thesis using p [of "ev_mission_id ev"] l(2,3) by (metis adds_def)
qed

lemma reading_grows:
  "connected X c \<Longrightarrow> transaction (reading f) c = (r, c') \<Longrightarrow> connected X c' \<and> grows (mission_stream X) c c'"
  by (rule transaction_grows) (auto intro: reading_reaches)

lemma writing_grows:
  "connected X c \<Longrightarrow> transaction (writing f) c = (r, c') \<Longrightarrow> (\<And>s u. f s = Inr u \<Longrightarrow> store_step X s u) \<Longrightarrow>
    connected X c' \<and> grows (mission_stream X) c c'"
  by (rule transaction_grows) (auto intro: writing_reaches)

lemmas port_sel = sqlite_port_def event_store_port.simps

interpretation sqlite: event_log "sqlite_port X" "connected X" "mission_stream X" for X
proof (unfold_locales, unfold port_sel)
  fix s s' :: connection and m evs
  assume "connected X s" and "transaction (reading (\<lambda>s. store_load X s m)) s = (Inr evs, s')"
  then show "mission_stream X s' m = evs" by (auto simp: reading_def mission_stream_def dest!: transaction_result)
next
  fix s :: connection and ev m
  assume "ev \<in> set (mission_stream X s m)"
  then show "ev_mission_id ev = m" by (cases "store_load X (fst s) m") (auto simp: mission_stream_def dest: load_rows(2))
next
  fix s :: connection and m
  assume "connected X s"
  then show "distinct (map ev_event_digest (mission_stream X s m))"
    by (cases "store_load X (fst s) m") (auto simp: mission_stream_def connected_def mission_rows_digests dest!: load_rows(1))
qed ((rule reading_grows, assumption, assumption) | (rule writing_grows, assumption, assumption, erule store_step.intros) |
    (rule writing_adds, assumption, assumption, erule appendsD))+

end
