(* ===== verification/Lease_Issuance.thy ===== *)
theory Lease_Issuance
  imports Store_Port
begin

text \<open>
  \<open>src/etzio/kernel/verification_lease.py\<close>: the command that commits one verification lease to a mission, as an access to the event store
  between whose steps other writers may commit.
\<close>

abbreviation issuance_reject :: "string \<Rightarrow> string \<Rightarrow> exn" where "issuance_reject \<equiv> VerificationLeaseIssuanceError"

record lease_request =
  lq_mission_id :: digest
  lq_expected_head :: digest
  lq_candidate_id :: digest
  lq_poc_artifact_digest :: digest
  lq_evidence_artifact_digests :: "digest list"
  lq_environment_digest :: digest
  lq_effect_oracle_id :: digest
  lq_verifier_key_id :: pystr
  lq_verifier_trust_store :: verifier_trust_store
  lq_decision_time :: int
  lq_requested_wallclock_seconds :: int

record lease_issuance =
  li_projection :: mission_projection
  li_event :: event
  li_lease :: verification_lease
  li_replayed :: bool

section \<open>The request\<close>

definition require_request_digest :: "(string \<Rightarrow> string \<Rightarrow> exn) \<Rightarrow> pystr \<Rightarrow> pystr \<Rightarrow> exn + unit" where
  "require_request_digest rej field v =
     requireR (full_digest v) (rej (''invalid_'' @ field) (field @ '' must be a full sha256 content ID''))"

definition require_request_time :: "(string \<Rightarrow> string \<Rightarrow> exn) \<Rightarrow> int \<Rightarrow> exn + unit" where
  "require_request_time rej t =
     requireR (0 \<le> t \<and> t \<le> MAX_EPOCH_SECOND) (rej ''invalid_decision_time'' ''decision_time must be a nonnegative int64 epoch second'')"

definition require_requested_wallclock :: "(string \<Rightarrow> string \<Rightarrow> exn) \<Rightarrow> int \<Rightarrow> exn + unit" where
  "require_requested_wallclock rej n =
     requireR (0 < n \<and> n \<le> MAX_EPOCH_SECOND) (rej ''invalid_requested_wallclock'' ''requested_wallclock_seconds must be a positive int64'')"

definition require_verifier_key_id :: "(string \<Rightarrow> string \<Rightarrow> exn) \<Rightarrow> pystr \<Rightarrow> exn + unit" where
  "require_verifier_key_id rej k =
     requireR (key_id_text k) (rej ''invalid_verifier_key_id'' ''verifier_key_id must identify an Ed25519 public key'')"

definition validate_lease_request :: "lease_request \<Rightarrow> exn + unit" where
  "validate_lease_request rq =
     (let digests = lq_evidence_artifact_digests rq;
          artifact_roles = [lq_poc_artifact_digest rq] @ digests @ [lq_environment_digest rq, lq_effect_oracle_id rq] in
      seqR [
        require_request_digest issuance_reject ''mission_id'' (lq_mission_id rq),
        require_request_digest issuance_reject ''expected_head'' (lq_expected_head rq),
        require_request_digest issuance_reject ''candidate_id'' (lq_candidate_id rq),
        require_request_digest issuance_reject ''poc_artifact_digest'' (lq_poc_artifact_digest rq),
        require_request_digest issuance_reject ''environment_digest'' (lq_environment_digest rq),
        require_request_digest issuance_reject ''effect_oracle_id'' (lq_effect_oracle_id rq),
        require_verifier_key_id issuance_reject (lq_verifier_key_id rq),
        requireR (digests \<noteq> [] \<and> length digests \<le> MAX_EVIDENCE_ARTIFACTS \<and> list_all full_digest digests \<and>
                  digests = sort digests \<and> distinct digests)
          (issuance_reject ''invalid_evidence_artifact_digests'' ''evidence digests must be a nonempty, unique, sorted tuple of sha256 IDs''),
        requireR (distinct artifact_roles)
          (issuance_reject ''artifact_role_collision'' ''verification artifact roles must use distinct content identities''),
        require_request_time issuance_reject (lq_decision_time rq),
        require_requested_wallclock issuance_reject (lq_requested_wallclock_seconds rq)])"

section \<open>What the mission retains\<close>

definition retained_authority :: "externals \<Rightarrow> event \<Rightarrow> (authority_grant \<times> authority_admission) result" where
  "retained_authority X first =
     bindR (bindR (retained_envelope X first ''grant'') (grant_from_envelope X)) (\<lambda>grant.
     bindR (bindR (retained_envelope X first ''admission'') (admission_from_envelope X)) (\<lambda>admission. Inr (grant, admission)))"

definition issuance_authority :: "externals \<Rightarrow> mission_projection \<Rightarrow> (authority_grant \<times> authority_admission) result" where
  "issuance_authority X p =
     (if ev_kind (hd (mp_events p)) \<noteq> ''authority_admitted''
      then Inl (issuance_reject ''mission_not_admitted'' ''verification leases require retained authority admission'')
      else retained_authority X (hd (mp_events p)))"

definition issuance_candidate_event :: "externals \<Rightarrow> mission_projection \<Rightarrow> digest \<Rightarrow> event result" where
  "issuance_candidate_event X p candidate_id =
     bindR (search_events (retained_candidate X) (\<lambda>c. sc_candidate_id c = candidate_id)
       (issuance_reject ''candidate_not_retained'' ''candidate_id is absent from canonical mission history'')
       (mp_candidate_events p)) (\<lambda>(ev, c). Inr ev)"

definition retains_snapshot :: "externals \<Rightarrow> event \<Rightarrow> verifier_trust_store \<Rightarrow> digest \<Rightarrow> bool result" where
  "retains_snapshot X ev trust snapshot_id =
     bindR (thawed_payload X ev) (\<lambda>payload.
     bindR (payload_item payload ''verifier_trust_snapshot_id'') (\<lambda>i.
     if i \<noteq> JStr snapshot_id then Inr False
     else bindR (payload_item payload ''verifier_trust_snapshot'') (\<lambda>body.
       Inr (norm_json body = norm_json (verifier_snapshot_body trust)))))"

definition lease_matches_request :: "lease_request \<Rightarrow> pystr \<Rightarrow> int \<Rightarrow> digest \<Rightarrow> verification_lease \<Rightarrow> bool" where
  "lease_matches_request rq verifier_id expires_at snapshot_id l \<longleftrightarrow>
     vl_poc_artifact_digest l = lq_poc_artifact_digest rq \<and> vl_evidence_artifact_digests l = lq_evidence_artifact_digests rq \<and>
     vl_environment_digest l = lq_environment_digest rq \<and> vl_effect_oracle_id l = lq_effect_oracle_id rq \<and>
     vl_verifier_id l = verifier_id \<and> vl_verifier_key_id l = lq_verifier_key_id rq \<and> vl_issuance_trust_snapshot_id l = snapshot_id \<and>
     vl_issued_at l = lq_decision_time rq \<and> vl_expires_at l = expires_at"

definition matching_existing ::
  "externals \<Rightarrow> lease_request \<Rightarrow> pystr \<Rightarrow> int \<Rightarrow> mission_projection \<Rightarrow> lease_issuance option result" where
  "matching_existing X rq verifier_id expires_at p =
     bindR (find_retained (retained_lease X) (\<lambda>l. vl_candidate_id l = lq_candidate_id rq) (mp_lease_events p)) (\<lambda>found. case found of
       None \<Rightarrow> Inr None
     | Some (ev, l) \<Rightarrow>
         bindR (verifier_snapshot_id X (lq_verifier_trust_store rq)) (\<lambda>snapshot_id.
         bindR (if lease_matches_request rq verifier_id expires_at snapshot_id l
                then retains_snapshot X ev (lq_verifier_trust_store rq) snapshot_id else Inr False) (\<lambda>exact.
         if \<not> exact then Inl (issuance_reject ''candidate_lease_conflict'' ''candidate already has a different verification lease'')
         else Inr (Some \<lparr>li_projection = p, li_event = ev, li_lease = l, li_replayed = True\<rparr>))))"

section \<open>The decision\<close>

record lease_decision =
  ld_grant :: authority_grant
  ld_candidate_event :: event
  ld_verifier_id :: pystr
  ld_expires_at :: int

text \<open>The assigned verifier: a key of the trust snapshot that is not revoked and has the role of a verifier.\<close>

definition assigned_verifier :: "(string \<Rightarrow> string \<Rightarrow> exn) \<Rightarrow> pystr \<Rightarrow> verifier_trust_store \<Rightarrow> pystr \<Rightarrow> trusted_verifier_key result" where
  "assigned_verifier rej who trust key_id =
     (if key_id \<in> set (vt_revoked_key_ids trust)
      then Inl (rej ''verifier_key_revoked'' (who @ '' verifier key is revoked in the retained snapshot''))
      else (case map_of (vt_keys trust) key_id of
          None \<Rightarrow> Inl (rej ''unknown_verifier_key'' (who @ '' verifier key is absent from the trust snapshot''))
        | Some key \<Rightarrow>
            if VERIFIER_ROLE \<notin> set (tv_roles key)
            then Inl (rej ''verifier_role_missing'' (who @ '' verifier key lacks the modeled fixture verifier role''))
            else Inr key))"

definition verification_action :: pystr where "verification_action = ''modeled_fixture_verification''"

definition decide_lease :: "externals \<Rightarrow> lease_request \<Rightarrow> mission_projection \<Rightarrow> lease_decision result" where
  "decide_lease X rq p =
     (if is_terminal (mp_phase p)
      then Inl (issuance_reject ''mission_terminal'' ''verification lease cannot be issued after mission termination'')
      else if mp_phase p \<notin> {SCAN_COMPLETED, AWAITING_VERIFICATION}
      then Inl (issuance_reject ''scan_not_completed'' ''verification lease requires a completed fixture scan'')
      else bindR (issuance_authority X p) (\<lambda>(grant, admission).
        if verification_action \<notin> set (aa_required_actions admission) \<or> verification_action \<notin> set (ag_permitted_actions grant)
        then Inl (issuance_reject ''verification_not_authorized''
               ''retained admission and grant must authorize modeled fixture verification'')
        else if lq_requested_wallclock_seconds rq > ag_max_wallclock_seconds grant
        then Inl (issuance_reject ''requested_wallclock_exceeds_grant'' ''requested verification window exceeds the admitted ceiling'')
        else bindR (issuance_candidate_event X p (lq_candidate_id rq)) (\<lambda>candidate_event.
        bindR (assigned_verifier issuance_reject ''assigned'' (lq_verifier_trust_store rq) (lq_verifier_key_id rq)) (\<lambda>trusted_key.
        if ev_unit candidate_event = tv_verifier_id trusted_key
        then Inl (issuance_reject ''self_verification'' ''candidate producer cannot verify its own candidate'')
        else let expires_at = min (grant_deadline grant admission) (lq_decision_time rq + lq_requested_wallclock_seconds rq) in
          if lq_decision_time rq < aa_decision_time admission
          then Inl (issuance_reject ''decision_before_admission'' ''verification issuance cannot precede authority admission'')
          else if lq_decision_time rq \<ge> expires_at
          then Inl (issuance_reject ''verification_window_exhausted'' ''no admitted verification time remains'')
          else Inr \<lparr>ld_grant = grant, ld_candidate_event = candidate_event, ld_verifier_id = tv_verifier_id trusted_key,
                    ld_expires_at = expires_at\<rparr>))))"

text \<open>\<open>actual_head != expected_head\<close> and the times of a new event.\<close>

definition require_current_head :: "digest \<Rightarrow> event list \<Rightarrow> exn + unit" where
  "require_current_head expected_head retained =
     requireR (ev_event_digest (last retained) = expected_head) (StaleHeadError ''stale mission head'')"

definition lease_values :: "lease_request \<Rightarrow> lease_decision \<Rightarrow> mission_projection \<Rightarrow> digest \<Rightarrow> pystr \<Rightarrow> verification_lease" where
  "lease_values rq d p snapshot_id nonce =
     \<lparr>vl_lease_id = [], vl_lease_nonce = nonce, vl_mission_id = mp_mission_id p, vl_authority_id = mp_authority_id p,
      vl_target_snapshot_id = mp_target_id p, vl_candidate_id = lq_candidate_id rq,
      vl_candidate_producer_id = ev_unit (ld_candidate_event d), vl_poc_artifact_digest = lq_poc_artifact_digest rq,
      vl_evidence_artifact_digests = lq_evidence_artifact_digests rq, vl_environment_digest = lq_environment_digest rq,
      vl_effect_oracle_id = lq_effect_oracle_id rq, vl_verifier_id = ld_verifier_id d, vl_verifier_key_id = lq_verifier_key_id rq,
      vl_issuance_trust_snapshot_id = snapshot_id, vl_issued_at = lq_decision_time rq, vl_expires_at = ld_expires_at d\<rparr>"

text \<open>The nonce is derived from the values of the lease, and the lease is issued with it.\<close>

definition issue_with_nonce ::
  "externals \<Rightarrow> (string \<Rightarrow> string \<Rightarrow> exn) \<Rightarrow> digest \<Rightarrow> (pystr \<Rightarrow> verification_lease) \<Rightarrow> verification_lease result" where
  "issue_with_nonce X rej prior values =
     bindR (derive_verification_lease_nonce X prior (values [])) (\<lambda>nonce. reject_verification rej (vlease_issue X (values nonce)))"

definition lease_event ::
  "externals \<Rightarrow> lease_request \<Rightarrow> lease_decision \<Rightarrow> mission_projection \<Rightarrow> event list \<Rightarrow> event result" where
  "lease_event X rq d p retained =
     bindR (verifier_snapshot_id X (lq_verifier_trust_store rq)) (\<lambda>snapshot_id.
     bindR (issue_with_nonce X issuance_reject (ev_event_digest (last retained)) (lease_values rq d p snapshot_id)) (\<lambda>l.
     bindR (bindR (vlease_to_envelope X l) (envelope_to_json X)) (\<lambda>lease_json.
     event_create X (mp_mission_id p) (int (length retained)) ''verification_lease_issued'' ''AQUILA'' (mp_authority_id p) (mp_target_id p)
       (lq_decision_time rq)
       (JObj [(''lease'', lease_json), (''verifier_trust_snapshot'', verifier_snapshot_body (lq_verifier_trust_store rq)),
              (''verifier_trust_snapshot_id'', JStr snapshot_id)])
       (ev_event_digest (last retained)))))"

text \<open>The checks between the search for an existing lease and the new event.\<close>

definition check_new_lease :: "lease_request \<Rightarrow> lease_decision \<Rightarrow> mission_projection \<Rightarrow> event list \<Rightarrow> exn + unit" where
  "check_new_lease rq d p retained = seqR [
     require_current_head (lq_expected_head rq) retained,
     requireR (ev_decision_time (last retained) \<le> lq_decision_time rq)
       (issuance_reject ''decision_time_regressed'' ''verification issuance time precedes the retained mission head''),
     requireR (int (length (mp_lease_events p)) < ag_max_candidates (ld_grant d))
       (issuance_reject ''verification_lease_budget_exhausted'' ''verification lease count reached the admitted candidate ceiling'')]"

definition committed_issuance :: "externals \<Rightarrow> event \<Rightarrow> mission_projection \<Rightarrow> lease_issuance result" where
  "committed_issuance X ev p =
     bindR (committed_event (issuance_reject ''committed_event_missing'' ''appended verification lease event is absent from replay'')
       (mp_lease_events p) ev) (\<lambda>e.
     bindR (retained_lease X e) (\<lambda>l. Inr \<lparr>li_projection = p, li_event = e, li_lease = l, li_replayed = False\<rparr>))"

section \<open>The command\<close>

definition issue_modeled_fixture_verification_lease ::
  "externals \<Rightarrow> 's event_store_port \<Rightarrow> lease_request \<Rightarrow> ('s, lease_issuance) access" where
  "issue_modeled_fixture_verification_lease X P rq =
     bindP (liftP (validate_lease_request rq)) (\<lambda>_.
     bindP (port_load P (lq_mission_id rq)) (\<lambda>retained.
     if retained = []
     then liftP (Inl (issuance_reject ''mission_not_found'' ''verification lease requires a retained mission stream''))
     else bindP (liftP (reduce_events X retained)) (\<lambda>p.
       bindP (liftP (decide_lease X rq p)) (\<lambda>d.
       bindP (liftP (matching_existing X rq (ld_verifier_id d) (ld_expires_at d) p)) (\<lambda>existing. case existing of
         Some r \<Rightarrow> liftP (Inr r)
       | None \<Rightarrow>
           bindP (liftP (check_new_lease rq d p retained)) (\<lambda>_.
           bindP (liftP (lease_event X rq d p retained)) (\<lambda>ev.
           commit_event X P (lq_mission_id rq) retained ev (port_append P ev (lq_expected_head rq)) is_stale_head
             (matching_existing X rq (ld_verifier_id d) (ld_expires_at d)) (\<lambda>ex _. ex) (committed_issuance X ev))))))))"

section \<open>What an issuance leaves behind\<close>

lemma snapshot_body_dict_ok [simp]: "dict_ok (verifier_snapshot_body t)"
  by (auto simp: verifier_snapshot_body_def verifier_key_json_def dict_ok_items_all)

lemma envelope_json_dict_ok:
  assumes "envelope_to_json X e = Inr j" and "created_envelope X e"
  shows "dict_ok j"
proof -
  from assms(2) have "envelope_create X (env_kind e) (JObj (env_body e)) (JArr (env_attestations e)) = Inr e"
    "dict_ok (JObj (env_body e))" "dict_ok (JArr (env_attestations e))" by (simp_all add: created_envelope_def)
  with created_dict_ok envelope_to_json_created assms(1) show ?thesis by fastforce
qed

lemma next_lease_retained:
  assumes "issue_with_nonce X rej prior values = Inr l" and "bindR (vlease_to_envelope X l) (envelope_to_json X) = Inr j"
    and "event_create X m n kind unit authority target t (JObj ms) prev = Inr ev"
    and "dict_ok j \<Longrightarrow> dict_ok (JObj ms)" and "map_of ms ''lease'' = Some j" and "retained_lease X ev = Inr l'"
  shows "\<exists>nonce i. l' = (values nonce)\<lparr>vl_lease_id := i\<rparr>"
proof -
  from assms(1) obtain nonce where v: "vlease_issue X (values nonce) = Inr l"
    by (auto simp: issue_with_nonce_def result_simps)
  from assms(2) obtain e where e: "vlease_to_envelope X l = Inr e" "envelope_to_json X e = Inr j" by (auto simp: bindR_eq_Inr)
  have "dict_ok (JObj ms)" by (rule assms(4)) (rule envelope_json_dict_ok [OF e(2) vlease_created [OF v e(1)]])
  from issued_lease_retained [OF v e assms(3) this assms(5,6)] vlease_issueD(1) [OF v] show ?thesis by metis
qed

lemma matching_existingD:
  assumes "matching_existing X rq v t p = Inr (Some r)"
  shows "li_projection r = p \<and> li_event r \<in> set (mp_lease_events p) \<and> retained_lease X (li_event r) = Inr (li_lease r) \<and> li_replayed r \<and>
    vl_candidate_id (li_lease r) = lq_candidate_id rq \<and>
    (\<exists>i. verifier_snapshot_id X (lq_verifier_trust_store rq) = Inr i \<and> lease_matches_request rq v t i (li_lease r))"
  using assms
  by (auto simp: matching_existing_def bindR_eq_Inr split: option.splits if_splits dest!: find_retainedD)

lemma decide_leaseD:
  assumes "decide_lease X rq p = Inr d"
  shows "lq_decision_time rq < ld_expires_at d" and "ld_expires_at d \<le> lq_decision_time rq + lq_requested_wallclock_seconds rq"
    and "\<exists>key. assigned_verifier issuance_reject ''assigned'' (lq_verifier_trust_store rq) (lq_verifier_key_id rq) = Inr key \<and>
      ld_verifier_id d = tv_verifier_id key"
  using assms by (auto simp: decide_lease_def bindR_eq_Inr Let_def split: if_splits prod.splits)

lemma lease_eventD:
  assumes "lease_event X rq d p retained = Inr ev"
  shows "ev_mission_id ev = mp_mission_id p" and "ev_seq ev = int (length retained)"
    and "retained_lease X ev = Inr l \<Longrightarrow> vl_candidate_id l = lq_candidate_id rq \<and>
      (\<exists>i. verifier_snapshot_id X (lq_verifier_trust_store rq) = Inr i \<and> lease_matches_request rq (ld_verifier_id d) (ld_expires_at d) i l)"
proof -
  from assms obtain i l0 j where i: "verifier_snapshot_id X (lq_verifier_trust_store rq) = Inr i"
    and l0: "issue_with_nonce X issuance_reject (ev_event_digest (last retained)) (lease_values rq d p i) = Inr l0"
    and j: "bindR (vlease_to_envelope X l0) (envelope_to_json X) = Inr j"
    and ev: "event_create X (mp_mission_id p) (int (length retained)) ''verification_lease_issued'' ''AQUILA'' (mp_authority_id p) (mp_target_id p)
       (lq_decision_time rq)
       (JObj [(''lease'', j), (''verifier_trust_snapshot'', verifier_snapshot_body (lq_verifier_trust_store rq)),
              (''verifier_trust_snapshot_id'', JStr i)]) (ev_event_digest (last retained)) = Inr ev"
    unfolding lease_event_def bindR_eq_Inr by blast
  show "ev_mission_id ev = mp_mission_id p" "ev_seq ev = int (length retained)" using event_createD [OF ev] by simp_all
  show "vl_candidate_id l = lq_candidate_id rq \<and>
      (\<exists>i. verifier_snapshot_id X (lq_verifier_trust_store rq) = Inr i \<and> lease_matches_request rq (ld_verifier_id d) (ld_expires_at d) i l)"
    if "retained_lease X ev = Inr l"
  proof -
    have "\<exists>nonce k. l = (lease_values rq d p i nonce)\<lparr>vl_lease_id := k\<rparr>" by (rule next_lease_retained [OF l0 j ev _ _ that]) simp_all
    then show ?thesis using i by (auto simp: lease_values_def lease_matches_request_def)
  qed
qed

text \<open>The result of an issuance against the stream that it leaves: the lease is retained, it is the requested one, for a verifier of the
  given trust snapshot and within the requested time; a lease that is not replayed stands directly behind the expected head.\<close>

definition issuance_kept :: "externals \<Rightarrow> event list \<Rightarrow> lease_request \<Rightarrow> lease_issuance \<Rightarrow> bool" where
  "issuance_kept X evs rq r \<longleftrightarrow>
     reduce_events X evs = Inr (li_projection r) \<and> li_event r \<in> set (mp_lease_events (li_projection r)) \<and>
     retained_lease X (li_event r) = Inr (li_lease r) \<and> vl_candidate_id (li_lease r) = lq_candidate_id rq \<and>
     (\<exists>key expires_at i. assigned_verifier issuance_reject ''assigned'' (lq_verifier_trust_store rq) (lq_verifier_key_id rq) = Inr key \<and>
        verifier_snapshot_id X (lq_verifier_trust_store rq) = Inr i \<and> lq_decision_time rq < expires_at \<and>
        expires_at \<le> lq_decision_time rq + lq_requested_wallclock_seconds rq \<and>
        lease_matches_request rq (tv_verifier_id key) expires_at i (li_lease r)) \<and>
     (\<not> li_replayed r \<longrightarrow> (\<exists>retained. stands_behind X evs retained (li_event r) (lq_expected_head rq)))"

context event_log
begin

lemma issue_outcome:
  assumes s: "live s" and run: "issue_modeled_fixture_verification_lease X P rq s = (Inr r, s')"
  shows "live s' \<and> grows stream s s' \<and> issuance_kept X (stream s' (lq_mission_id rq)) rq r"
proof -
  let ?m = "lq_mission_id rq"
  from run obtain retained s1 p d found where l: "port_load P ?m s = (Inr retained, s1)" and p: "reduce_events X retained = Inr p"
    and d: "decide_lease X rq p = Inr d" and f: "matching_existing X rq (ld_verifier_id d) (ld_expires_at d) p = Inr found"
    and rest: "(case found of Some r \<Rightarrow> liftP (Inr r) | None \<Rightarrow>
           bindP (liftP (check_new_lease rq d p retained)) (\<lambda>_.
           bindP (liftP (lease_event X rq d p retained)) (\<lambda>ev.
           commit_event X P (lq_mission_id rq) retained ev (port_append P ev (lq_expected_head rq)) is_stale_head
             (matching_existing X rq (ld_verifier_id d) (ld_expires_at d)) (\<lambda>ex _. ex) (committed_issuance X ev)))) s1 = (Inr r, s')"
    by (auto simp: issue_modeled_fixture_verification_lease_def bindP_eq_Inr liftP_eq split: if_splits)
  note ls = load_grows [OF s l] and st = load_stream [OF s l] and dd = decide_leaseD [OF d]
  have kept: "issuance_kept X evs rq r" if "matching_existing X rq (ld_verifier_id d) (ld_expires_at d) q = Inr (Some r)" "reduce_events X evs = Inr q" for q evs
    using matching_existingD [OF that(1)] that(2) dd by (auto simp: issuance_kept_def)
  show ?thesis
  proof (cases found)
    case (Some x)
    then have "x = r" "s1 = s'" using rest by (auto simp: liftP_eq)
    with Some f p st ls kept [of p retained] show ?thesis by simp
  next
    case None
    with rest obtain ev where ev: "lease_event X rq d p retained = Inr ev"
      and c: "commit_event X P ?m retained ev (port_append P ev (lq_expected_head rq)) is_stale_head
             (matching_existing X rq (ld_verifier_id d) (ld_expires_at d)) (\<lambda>ex _. ex) (committed_issuance X ev) s1 = (Inr r, s')"
      by (auto simp: bindP_eq_Inr liftP_eq)
    note e = lease_eventD [OF ev] and s1 = ls [THEN conjunct1]
    from append_command [OF s l p s1 grows_refl e(1,2) c]
    obtain q where o: "live s'" "grows stream s s'" and q: "reduce_events X (stream s' ?m) = Inr q"
      and alt: "matching_existing X rq (ld_verifier_id d) (ld_expires_at d) q = Inr (Some r) \<or>
        committed_issuance X ev q = Inr r \<and> stands_behind X (stream s' ?m) retained ev (lq_expected_head rq)" by blast
    from alt show ?thesis
    proof
      assume "committed_issuance X ev q = Inr r \<and> stands_behind X (stream s' ?m) retained ev (lq_expected_head rq)"
      then have r: "li_projection r = q" "li_event r \<in> set (mp_lease_events q)" "ev_event_digest (li_event r) = ev_event_digest ev"
        "retained_lease X (li_event r) = Inr (li_lease r)" and sb: "stands_behind X (stream s' ?m) retained ev (lq_expected_head rq)"
        by (auto simp: committed_issuance_def bindR_eq_Inr dest!: committed_event_eq_Inr)
      have "li_event r = ev" by (rule committed_is_new [OF o(1) q _ r(3) sb]) (use r(2) in \<open>simp add: projection_logs_def\<close>)
      with r sb e(3) [of "li_lease r"] dd o q show ?thesis by (auto simp: issuance_kept_def)
    qed (use kept q o in simp)
  qed
qed

lemma issue_safe: "safe (issue_modeled_fixture_verification_lease X P rq)"
  unfolding issue_modeled_fixture_verification_lease_def by (intro safe_rules)

end

end
