(* ===== verification/Lease_Recovery.thy ===== *)
theory Lease_Recovery
  imports Lease_Issuance
begin

text \<open>
  \<open>src/etzio/kernel/verification_recovery.py\<close>: the commands that expire, cancel and reassign a verification lease and that close a
  mission over its receipt coverage.
\<close>

abbreviation recovery_reject :: "string \<Rightarrow> string \<Rightarrow> exn" where "recovery_reject \<equiv> VerificationLeaseRecoveryError"

record lease_disposition =
  dn_projection :: mission_projection
  dn_event :: event
  dn_lease :: verification_lease
  dn_replayed :: bool

record lease_reassignment =
  rs_projection :: mission_projection
  rs_event :: event
  rs_predecessor_lease :: verification_lease
  rs_lease :: verification_lease
  rs_replayed :: bool

record mission_closure =
  mc_projection :: mission_projection
  mc_event :: event
  mc_status :: pystr
  mc_replayed :: bool

section \<open>Shared steps\<close>

definition recovery_lease_by_id :: "externals \<Rightarrow> mission_projection \<Rightarrow> digest \<Rightarrow> verification_lease result" where
  "recovery_lease_by_id X p lease_id =
     bindR (search_events (retained_lease X) (\<lambda>l. vl_lease_id l = lease_id)
       (recovery_reject ''verification_lease_not_retained'' ''verification_lease_id is absent from canonical mission history'')
       (mp_lease_events p)) (\<lambda>(ev, l). Inr l)"

definition recovery_authority :: "externals \<Rightarrow> mission_projection \<Rightarrow> (authority_grant \<times> authority_admission) result" where
  "recovery_authority X p =
     (if ev_kind (hd (mp_events p)) \<noteq> ''authority_admitted''
      then Inl (recovery_reject ''mission_not_admitted'' ''verification recovery requires retained authority admission'')
      else bindR (retained_authority X (hd (mp_events p))) (\<lambda>(grant, admission).
        if verification_action \<notin> set (aa_required_actions admission) \<or> verification_action \<notin> set (ag_permitted_actions grant)
        then Inl (recovery_reject ''verification_not_authorized'' ''retained authority does not authorize modeled fixture verification'')
        else Inr (grant, admission)))"

definition recovery_load :: "externals \<Rightarrow> 's event_store_port \<Rightarrow> digest \<Rightarrow> ('s, event list \<times> mission_projection) access" where
  "recovery_load X P mission_id =
     bindP (port_load P mission_id) (\<lambda>retained.
     if retained = [] then liftP (Inl (recovery_reject ''mission_not_found'' ''verification recovery requires a retained mission stream''))
     else liftP (bindR (reduce_events X retained) (\<lambda>p. Inr (retained, p))))"

definition assert_appendable :: "event list \<Rightarrow> mission_projection \<Rightarrow> digest \<Rightarrow> int \<Rightarrow> exn + unit" where
  "assert_appendable retained p expected_head decision_time = seqR [
     requireR (\<not> is_terminal (mp_phase p)) (recovery_reject ''mission_terminal'' ''verification recovery cannot change a terminal mission''),
     requireR (mp_phase p = AWAITING_VERIFICATION)
       (recovery_reject ''verification_not_awaiting_recovery'' ''lease recovery requires awaiting_verification state''),
     require_current_head expected_head retained,
     requireR (ev_decision_time (last retained) \<le> decision_time)
       (recovery_reject ''decision_time_regressed'' ''recovery decision time precedes the retained mission head'')]"

text \<open>A new event of the mission behind the loaded stream.\<close>

definition next_event :: "externals \<Rightarrow> mission_projection \<Rightarrow> event list \<Rightarrow> pystr \<Rightarrow> pystr \<Rightarrow> int \<Rightarrow> json \<Rightarrow> event result" where
  "next_event X p retained kind unit decision_time payload =
     event_create X (mp_mission_id p) (int (length retained)) kind unit (mp_authority_id p) (mp_target_id p) decision_time payload
       (ev_event_digest (last retained))"

section \<open>Expiry and cancellation\<close>

definition disposition_events :: "pystr \<Rightarrow> mission_projection \<Rightarrow> event list" where
  "disposition_events kind p = (if kind = ''verification_lease_expired'' then mp_expiry_events p else mp_cancellation_events p)"

definition disposition_payload :: "externals \<Rightarrow> event \<Rightarrow> (json \<times> json) result" where
  "disposition_payload X ev = bindR (thawed_payload X ev) (\<lambda>payload. bindR (payload_item payload ''verification_lease_id'') (\<lambda>i. Inr (payload, i)))"

definition disposition_exact :: "int \<Rightarrow> pystr option \<Rightarrow> event \<Rightarrow> json \<Rightarrow> bool result" where
  "disposition_exact decision_time reason_code ev payload =
     (case reason_code of
        None \<Rightarrow> Inr (ev_decision_time ev = decision_time)
      | Some reason \<Rightarrow>
          if ev_decision_time ev \<noteq> decision_time then Inr False
          else bindR (payload_item payload ''reason_code'') (\<lambda>r. Inr (r = JStr reason)))"

definition existing_disposition ::
  "externals \<Rightarrow> pystr \<Rightarrow> digest \<Rightarrow> int \<Rightarrow> pystr option \<Rightarrow> mission_projection \<Rightarrow> lease_disposition option result" where
  "existing_disposition X kind lease_id decision_time reason_code p =
     bindR (find_retained (disposition_payload X) (\<lambda>(payload, i). i = JStr lease_id) (disposition_events kind p)) (\<lambda>found. case found of
       None \<Rightarrow> Inr None
     | Some (ev, payload, i) \<Rightarrow>
         bindR (disposition_exact decision_time reason_code ev payload) (\<lambda>exact.
         if \<not> exact
         then Inl (recovery_reject ''verification_lease_disposition_conflict''
                ''verification lease already has a different terminal disposition'')
         else bindR (recovery_lease_by_id X p lease_id) (\<lambda>l.
           Inr (Some \<lparr>dn_projection = p, dn_event = ev, dn_lease = l, dn_replayed = True\<rparr>))))"

definition committed_disposition :: "externals \<Rightarrow> event \<Rightarrow> digest \<Rightarrow> mission_projection \<Rightarrow> lease_disposition result" where
  "committed_disposition X ev lease_id p =
     bindR (committed_event (recovery_reject ''committed_event_missing'' ''appended recovery event is absent from replay'')
       (disposition_events (ev_kind ev) p) ev) (\<lambda>e.
     bindR (recovery_lease_by_id X p lease_id) (\<lambda>l.
       Inr \<lparr>dn_projection = p, dn_event = e, dn_lease = l, dn_replayed = False\<rparr>))"

definition require_active :: "mission_projection \<Rightarrow> digest \<Rightarrow> string \<Rightarrow> exn + unit" where
  "require_active p lease_id message = requireR (lease_id \<in> mp_active_leases p) (recovery_reject ''verification_lease_inactive'' message)"

definition expire_event :: "externals \<Rightarrow> event list \<Rightarrow> mission_projection \<Rightarrow> verification_lease \<Rightarrow> digest \<Rightarrow> digest \<Rightarrow> int \<Rightarrow> event result" where
  "expire_event X retained p l expected_head lease_id decision_time =
     bindR (recovery_authority X p) (\<lambda>_.
     bindR (seqR [
       assert_appendable retained p expected_head decision_time,
       require_active p lease_id ''only the active lineage tip can expire'',
       requireR (vl_expires_at l \<le> decision_time)
         (recovery_reject ''verification_lease_not_expired'' ''expiry cannot be retained before the lease deadline'')]) (\<lambda>_.
     next_event X p retained ''verification_lease_expired'' ''ETZIO'' decision_time (JObj [(''verification_lease_id'', JStr lease_id)])))"

definition cancel_event ::
  "externals \<Rightarrow> event list \<Rightarrow> mission_projection \<Rightarrow> verification_lease \<Rightarrow> digest \<Rightarrow> digest \<Rightarrow> pystr \<Rightarrow> int \<Rightarrow> event result" where
  "cancel_event X retained p l expected_head lease_id reason_code decision_time =
     bindR (recovery_authority X p) (\<lambda>_.
     bindR (seqR [
       assert_appendable retained p expected_head decision_time,
       require_active p lease_id ''only the active lineage tip can be cancelled'',
       requireR (decision_time < vl_expires_at l)
         (recovery_reject ''verification_lease_expiry_not_recorded'' ''an expired lease requires an explicit expiry event, not cancellation'')]) (\<lambda>_.
     next_event X p retained ''verification_lease_cancelled'' ''AQUILA'' decision_time
       (JObj [(''verification_lease_id'', JStr lease_id), (''reason_code'', JStr reason_code)])))"

definition expire_modeled_fixture_verification_lease ::
  "externals \<Rightarrow> 's event_store_port \<Rightarrow> digest \<Rightarrow> digest \<Rightarrow> digest \<Rightarrow> int \<Rightarrow> ('s, lease_disposition) access" where
  "expire_modeled_fixture_verification_lease X P mission_id expected_head lease_id decision_time =
     bindP (liftP (seqR [
       require_request_digest recovery_reject ''mission_id'' mission_id,
       require_request_digest recovery_reject ''expected_head'' expected_head,
       require_request_digest recovery_reject ''verification_lease_id'' lease_id,
       require_request_time recovery_reject decision_time])) (\<lambda>_.
     bindP (recovery_load X P mission_id) (\<lambda>(retained, p).
     bindP (liftP (recovery_lease_by_id X p lease_id)) (\<lambda>l.
     bindP (liftP (existing_disposition X ''verification_lease_expired'' lease_id decision_time None p)) (\<lambda>existing. case existing of
       Some r \<Rightarrow> liftP (Inr r)
     | None \<Rightarrow>
         bindP (liftP (expire_event X retained p l expected_head lease_id decision_time)) (\<lambda>ev.
         commit_event X P mission_id retained ev (port_append P ev expected_head) is_stale_head
           (existing_disposition X (ev_kind ev) lease_id decision_time None) (\<lambda>ex _. ex) (committed_disposition X ev lease_id))))))"

definition cancel_modeled_fixture_verification_lease ::
  "externals \<Rightarrow> 's event_store_port \<Rightarrow> digest \<Rightarrow> digest \<Rightarrow> digest \<Rightarrow> pystr \<Rightarrow> int \<Rightarrow> ('s, lease_disposition) access" where
  "cancel_modeled_fixture_verification_lease X P mission_id expected_head lease_id reason_code decision_time =
     bindP (liftP (seqR [
       require_request_digest recovery_reject ''mission_id'' mission_id,
       require_request_digest recovery_reject ''expected_head'' expected_head,
       require_request_digest recovery_reject ''verification_lease_id'' lease_id,
       requireR (reason_code = CANCELLATION_REASON)
         (recovery_reject ''unsupported_cancellation_reason'' ''modeled lease cancellation supports only operator_cancelled''),
       require_request_time recovery_reject decision_time])) (\<lambda>_.
     bindP (recovery_load X P mission_id) (\<lambda>(retained, p).
     bindP (liftP (recovery_lease_by_id X p lease_id)) (\<lambda>l.
     bindP (liftP (existing_disposition X ''verification_lease_cancelled'' lease_id decision_time (Some reason_code) p)) (\<lambda>existing.
     case existing of
       Some r \<Rightarrow> liftP (Inr r)
     | None \<Rightarrow>
         bindP (liftP (cancel_event X retained p l expected_head lease_id reason_code decision_time)) (\<lambda>ev.
         commit_event X P mission_id retained ev (port_append P ev expected_head) is_stale_head
           (existing_disposition X (ev_kind ev) lease_id decision_time (Some reason_code)) (\<lambda>ex _. ex) (committed_disposition X ev lease_id))))))"

section \<open>Reassignment\<close>

record reassignment_request =
  rq_mission_id :: digest
  rq_expected_head :: digest
  rq_predecessor_lease_id :: digest
  rq_verifier_key_id :: pystr
  rq_verifier_trust_store :: verifier_trust_store
  rq_decision_time :: int
  rq_requested_wallclock_seconds :: int

definition reassignment_payload :: "externals \<Rightarrow> event \<Rightarrow> json result" where
  "reassignment_payload X ev = bindR (thawed_payload X ev) (\<lambda>payload. payload_item payload ''predecessor_verification_lease_id'')"

definition existing_reassignment ::
  "externals \<Rightarrow> reassignment_request \<Rightarrow> verification_lease \<Rightarrow> int \<Rightarrow> mission_projection \<Rightarrow> lease_reassignment option result" where
  "existing_reassignment X rq predecessor expires_at p =
     bindR (find_retained (reassignment_payload X) (\<lambda>i. i = JStr (vl_lease_id predecessor)) (mp_reassignment_events p)) (\<lambda>found. case found of
       None \<Rightarrow> Inr None
     | Some (ev, i) \<Rightarrow>
         bindR (retained_lease X ev) (\<lambda>successor.
         bindR (verifier_snapshot_id X (rq_verifier_trust_store rq)) (\<lambda>snapshot_id.
         bindR (if ev_decision_time ev = rq_decision_time rq \<and> vl_verifier_key_id successor = rq_verifier_key_id rq \<and>
                   vl_issuance_trust_snapshot_id successor = snapshot_id \<and> vl_issued_at successor = rq_decision_time rq \<and>
                   vl_expires_at successor = expires_at
                then retains_snapshot X ev (rq_verifier_trust_store rq) snapshot_id else Inr False) (\<lambda>exact.
         if \<not> exact
         then Inl (recovery_reject ''verification_lease_reassignment_conflict'' ''predecessor lease already has a different successor'')
         else Inr (Some \<lparr>rs_projection = p, rs_event = ev, rs_predecessor_lease = predecessor, rs_lease = successor, rs_replayed = True\<rparr>)))))"

definition reassignment_reason :: "mission_projection \<Rightarrow> digest \<Rightarrow> pystr result" where
  "reassignment_reason p lease_id =
     (if lease_id \<in> mp_active_leases p then Inr ACTIVE_LEASE_REASSIGNMENT_REASON
      else if lease_id \<in> mp_expired_leases p then Inr EXPIRED_LEASE_REASSIGNMENT_REASON
      else if lease_id \<in> mp_cancelled_leases p then Inr CANCELLED_LEASE_REASSIGNMENT_REASON
      else if lease_id \<in> mp_consumed_leases p
      then Inl (recovery_reject ''verification_lease_consumed'' ''a consumed verification lease cannot be reassigned'')
      else Inl (recovery_reject ''verification_lease_not_lineage_tip''
             ''only the current active, expired, or cancelled lineage tip can be reassigned''))"

definition successor_values ::
  "reassignment_request \<Rightarrow> verification_lease \<Rightarrow> pystr \<Rightarrow> int \<Rightarrow> digest \<Rightarrow> pystr \<Rightarrow> verification_lease" where
  "successor_values rq predecessor verifier_id expires_at snapshot_id nonce =
     predecessor\<lparr>vl_lease_id := [], vl_lease_nonce := nonce, vl_verifier_id := verifier_id, vl_verifier_key_id := rq_verifier_key_id rq,
       vl_issuance_trust_snapshot_id := snapshot_id, vl_issued_at := rq_decision_time rq, vl_expires_at := expires_at\<rparr>"

text \<open>The verifier of the successor, with its reason, after all checks of the command.\<close>

definition decide_reassignment ::
  "reassignment_request \<Rightarrow> event list \<Rightarrow> mission_projection \<Rightarrow> authority_grant \<Rightarrow> verification_lease \<Rightarrow> int \<Rightarrow> (pystr \<times> pystr) result" where
  "decide_reassignment rq retained p grant predecessor expires_at =
     bindR (assert_appendable retained p (rq_expected_head rq) (rq_decision_time rq)) (\<lambda>_.
     if map_of (rev (mp_latest_lease_by_candidate p)) (vl_candidate_id predecessor) \<noteq> Some (vl_lease_id predecessor)
     then Inl (recovery_reject ''verification_lease_not_lineage_tip'' ''predecessor is not the candidate's current lineage tip'')
     else bindR (reassignment_reason p (vl_lease_id predecessor)) (\<lambda>reason_code.
       if reason_code = ACTIVE_LEASE_REASSIGNMENT_REASON \<and> rq_decision_time rq \<ge> vl_expires_at predecessor
       then Inl (recovery_reject ''verification_lease_expiry_not_recorded'' ''an expired active lease must first receive an explicit expiry event'')
       else if rq_decision_time rq \<ge> expires_at
       then Inl (recovery_reject ''verification_window_exhausted'' ''no admitted successor verification time remains'')
       else if int (length (mp_lease_events p)) \<ge> ag_max_candidates grant
       then Inl (recovery_reject ''verification_lease_budget_exhausted'' ''verification lease count reached the admitted candidate ceiling'')
       else bindR (assigned_verifier recovery_reject ''successor'' (rq_verifier_trust_store rq) (rq_verifier_key_id rq)) (\<lambda>trusted_key.
         if tv_verifier_id trusted_key = vl_verifier_id predecessor
         then Inl (recovery_reject ''verifier_not_reassigned'' ''successor must assign a different verifier identity'')
         else if vl_candidate_producer_id predecessor = tv_verifier_id trusted_key
         then Inl (recovery_reject ''self_verification'' ''candidate producer cannot verify its own candidate'')
         else Inr (tv_verifier_id trusted_key, reason_code))))"

definition reassignment_event ::
  "externals \<Rightarrow> reassignment_request \<Rightarrow> event list \<Rightarrow> mission_projection \<Rightarrow> verification_lease \<Rightarrow> int \<Rightarrow> pystr \<Rightarrow> pystr \<Rightarrow> event result" where
  "reassignment_event X rq retained p predecessor expires_at verifier_id reason_code =
     bindR (verifier_snapshot_id X (rq_verifier_trust_store rq)) (\<lambda>snapshot_id.
     bindR (issue_with_nonce X recovery_reject (ev_event_digest (last retained))
       (successor_values rq predecessor verifier_id expires_at snapshot_id)) (\<lambda>l.
     bindR (bindR (vlease_to_envelope X l) (envelope_to_json X)) (\<lambda>lease_json.
     next_event X p retained ''verification_lease_reassigned'' ''AQUILA'' (rq_decision_time rq)
       (JObj [(''predecessor_verification_lease_id'', JStr (vl_lease_id predecessor)), (''lease'', lease_json),
              (''reason_code'', JStr reason_code),
              (''verifier_trust_snapshot'', verifier_snapshot_body (rq_verifier_trust_store rq)),
              (''verifier_trust_snapshot_id'', JStr snapshot_id)]))))"

definition committed_reassignment :: "externals \<Rightarrow> event \<Rightarrow> verification_lease \<Rightarrow> mission_projection \<Rightarrow> lease_reassignment result" where
  "committed_reassignment X ev predecessor p =
     bindR (committed_event (recovery_reject ''committed_event_missing'' ''appended reassignment event is absent from replay'')
       (mp_reassignment_events p) ev) (\<lambda>e.
     bindR (retained_lease X e) (\<lambda>l.
       Inr \<lparr>rs_projection = p, rs_event = e, rs_predecessor_lease = predecessor, rs_lease = l, rs_replayed = False\<rparr>))"

definition reassign_modeled_fixture_verification_lease ::
  "externals \<Rightarrow> 's event_store_port \<Rightarrow> reassignment_request \<Rightarrow> ('s, lease_reassignment) access" where
  "reassign_modeled_fixture_verification_lease X P rq =
     bindP (liftP (seqR [
       require_request_digest recovery_reject ''mission_id'' (rq_mission_id rq),
       require_request_digest recovery_reject ''expected_head'' (rq_expected_head rq),
       require_request_digest recovery_reject ''predecessor_verification_lease_id'' (rq_predecessor_lease_id rq),
       require_verifier_key_id recovery_reject (rq_verifier_key_id rq),
       require_request_time recovery_reject (rq_decision_time rq),
       require_requested_wallclock recovery_reject (rq_requested_wallclock_seconds rq)])) (\<lambda>_.
     bindP (recovery_load X P (rq_mission_id rq)) (\<lambda>(retained, p).
     bindP (liftP (recovery_lease_by_id X p (rq_predecessor_lease_id rq))) (\<lambda>predecessor.
     bindP (liftP (recovery_authority X p)) (\<lambda>(grant, admission).
     if rq_requested_wallclock_seconds rq > ag_max_wallclock_seconds grant
     then liftP (Inl (recovery_reject ''requested_wallclock_exceeds_grant'' ''requested successor window exceeds the admitted ceiling''))
     else let expires_at = min (grant_deadline grant admission) (rq_decision_time rq + rq_requested_wallclock_seconds rq) in
       bindP (liftP (existing_reassignment X rq predecessor expires_at p)) (\<lambda>existing. case existing of
         Some r \<Rightarrow> liftP (Inr r)
       | None \<Rightarrow>
           bindP (liftP (decide_reassignment rq retained p grant predecessor expires_at)) (\<lambda>(verifier_id, reason_code).
           bindP (liftP (reassignment_event X rq retained p predecessor expires_at verifier_id reason_code)) (\<lambda>ev.
           commit_event X P (rq_mission_id rq) retained ev (port_append P ev (rq_expected_head rq)) is_stale_head
             (existing_reassignment X rq predecessor expires_at) (\<lambda>ex _. ex) (committed_reassignment X ev predecessor))))))))"

section \<open>Closing a mission over its receipt coverage\<close>

definition retained_candidate_ids :: "externals \<Rightarrow> mission_projection \<Rightarrow> json list result" where
  "retained_candidate_ids X p =
     mapR (\<lambda>ev. bindR (thawed_payload X ev) (\<lambda>payload.
       bindR (payload_item payload ''candidate'') (\<lambda>c. payload_item c ''object_id''))) (mp_candidate_events p)"

definition verification_closure_status :: "externals \<Rightarrow> mission_projection \<Rightarrow> pystr result" where
  "verification_closure_status X p =
     (if mp_active_leases p \<noteq> {}
      then Inl (recovery_reject ''verification_leases_active'' ''verification mission cannot close while any lease remains active'')
      else bindR (retained_candidate_ids X p) (\<lambda>ids.
        let candidate_ids = set ids; parts = mp_partitions p;
            partition = cp_receipt_covered parts \<union> cp_never_assigned parts \<union> cp_latest_expired parts \<union> cp_latest_cancelled parts in
        if JStr ` partition \<noteq> candidate_ids
        then Inl (recovery_reject ''verification_coverage_incomplete_partition'' ''candidate recovery partition is not exhaustive'')
        else if JStr ` cp_receipt_covered parts = candidate_ids then Inr ''receipt_coverage_complete''
        else Inr ''receipt_coverage_incomplete''))"

definition legacy_zero_completion_retained :: "json \<Rightarrow> mission_projection \<Rightarrow> bool" where
  "legacy_zero_completion_retained status p \<longleftrightarrow>
     status = JStr ''completed'' \<and> mp_candidate_events p = [] \<and> mp_lease_events p = [] \<and> mp_expiry_events p = [] \<and>
     mp_cancellation_events p = [] \<and> mp_reassignment_events p = [] \<and> mp_resolution_events p = [] \<and> mp_receipt_events p = []"

definition existing_closure :: "externals \<Rightarrow> int \<Rightarrow> mission_projection \<Rightarrow> mission_closure option result" where
  "existing_closure X decision_time p =
     (case mp_terminal_event p of
        None \<Rightarrow> Inr None
      | Some ev \<Rightarrow>
          if ev_kind ev \<noteq> ''mission_closed'' then Inr None
          else bindR (thawed_payload X ev) (\<lambda>payload.
            bindR (payload_item payload ''status'') (\<lambda>status.
            if status \<notin> {JStr ''receipt_coverage_complete'', JStr ''receipt_coverage_incomplete''} \<and>
               \<not> legacy_zero_completion_retained status p
            then Inl (recovery_reject ''verification_closure_conflict'' ''retained closure is not a verification-coverage closure'')
            else if ev_decision_time ev \<noteq> decision_time
            then Inl (recovery_reject ''verification_closure_conflict'' ''mission already closed at a different decision time'')
            else Inr (Some \<lparr>mc_projection = p, mc_event = ev, mc_status = jstr status, mc_replayed = True\<rparr>))))"

definition closure_event :: "externals \<Rightarrow> event list \<Rightarrow> mission_projection \<Rightarrow> digest \<Rightarrow> int \<Rightarrow> (event \<times> pystr) result" where
  "closure_event X retained p expected_head decision_time =
     bindR (seqR [
       requireR (\<not> is_terminal (mp_phase p))
         (recovery_reject ''mission_terminal'' ''verification closure cannot replace another terminal outcome''),
       requireR (mp_phase p \<in> {SCAN_COMPLETED, AWAITING_VERIFICATION})
         (recovery_reject ''scan_not_completed'' ''verification closure requires a completed fixture scan''),
       require_current_head expected_head retained,
       requireR (ev_decision_time (last retained) \<le> decision_time)
         (recovery_reject ''decision_time_regressed'' ''closure decision time precedes the retained mission head'')]) (\<lambda>_.
     bindR (verification_closure_status X p) (\<lambda>status.
     if mp_scan_summary p = None
     then Inl (recovery_reject ''scan_summary_missing'' ''verification closure requires a retained scan summary'')
     else bindR (next_event X p retained ''mission_closed'' ''ETZIO'' decision_time
       (JObj [(''candidate_count'', JInt (int (length (mp_candidate_events p)))),
              (''parse_failure_count'', JInt (int (length (mp_parse_failures p)))), (''status'', JStr status)])) (\<lambda>ev. Inr (ev, status))))"

definition committed_closure :: "event \<Rightarrow> pystr \<Rightarrow> mission_projection \<Rightarrow> mission_closure result" where
  "committed_closure ev status p =
     (case mp_terminal_event p of
        Some e \<Rightarrow>
          if ev_event_digest e = ev_event_digest ev
          then Inr \<lparr>mc_projection = p, mc_event = e, mc_status = status, mc_replayed = False\<rparr>
          else Inl (recovery_reject ''committed_event_missing'' ''appended verification closure is absent from replay'')
      | None \<Rightarrow> Inl (recovery_reject ''committed_event_missing'' ''appended verification closure is absent from replay''))"

definition close_modeled_fixture_verification_mission ::
  "externals \<Rightarrow> 's event_store_port \<Rightarrow> digest \<Rightarrow> digest \<Rightarrow> int \<Rightarrow> ('s, mission_closure) access" where
  "close_modeled_fixture_verification_mission X P mission_id expected_head decision_time =
     bindP (liftP (seqR [
       require_request_digest recovery_reject ''mission_id'' mission_id,
       require_request_digest recovery_reject ''expected_head'' expected_head,
       require_request_time recovery_reject decision_time])) (\<lambda>_.
     bindP (recovery_load X P mission_id) (\<lambda>(retained, p).
     bindP (liftP (recovery_authority X p)) (\<lambda>_.
     bindP (liftP (existing_closure X decision_time p)) (\<lambda>existing. case existing of
       Some r \<Rightarrow> liftP (Inr r)
     | None \<Rightarrow>
         bindP (liftP (closure_event X retained p expected_head decision_time)) (\<lambda>(ev, status).
         commit_event X P mission_id retained ev (port_append P ev expected_head) is_stale_head
           (existing_closure X decision_time) (\<lambda>ex _. ex) (committed_closure ev status))))))"

section \<open>What the commands leave behind\<close>

lemma recovery_loadD:
  assumes "recovery_load X P m s = (Inr (retained, p), s')"
  shows "port_load P m s = (Inr retained, s')" and "reduce_events X retained = Inr p"
  using assms by (auto simp: recovery_load_def bindP_eq_Inr liftP_eq bindR_eq_Inr split: if_splits)

lemma next_eventD:
  assumes "next_event X p retained kind unit t payload = Inr ev"
  shows "ev_mission_id ev = mp_mission_id p" and "ev_seq ev = int (length retained)" and "ev_kind ev = kind" and "ev_decision_time ev = t"
  using event_createD [OF assms [unfolded next_event_def]] by simp_all

definition disposition_kept :: "externals \<Rightarrow> event list \<Rightarrow> pystr \<Rightarrow> digest \<Rightarrow> digest \<Rightarrow> int \<Rightarrow> lease_disposition \<Rightarrow> bool" where
  "disposition_kept X evs kind expected_head lease_id decision_time r \<longleftrightarrow>
     reduce_events X evs = Inr (dn_projection r) \<and> dn_event r \<in> set (disposition_events kind (dn_projection r)) \<and>
     recovery_lease_by_id X (dn_projection r) lease_id = Inr (dn_lease r) \<and>
     bindR (disposition_payload X (dn_event r)) (\<lambda>(payload, i). Inr i) = Inr (JStr lease_id) \<and>
     ev_decision_time (dn_event r) = decision_time \<and>
     (\<not> dn_replayed r \<longrightarrow> (\<exists>retained. stands_behind X evs retained (dn_event r) expected_head))"

lemma existing_dispositionD:
  assumes "existing_disposition X kind lease_id t reason p = Inr (Some r)" and "reduce_events X evs = Inr p"
  shows "disposition_kept X evs kind h lease_id t r"
proof -
  from assms(1) obtain ev payload i l where f: "find_retained (disposition_payload X) (\<lambda>(payload, i). i = JStr lease_id) (disposition_events kind p) = Inr (Some (ev, payload, i))"
    and e: "disposition_exact t reason ev payload = Inr True" and l: "recovery_lease_by_id X p lease_id = Inr l"
    and r: "r = \<lparr>dn_projection = p, dn_event = ev, dn_lease = l, dn_replayed = True\<rparr>"
    by (auto simp: existing_disposition_def bindR_eq_Inr split: option.splits if_splits)
  have "ev_decision_time ev = t" using e by (auto simp: disposition_exact_def split: option.splits if_splits)
  with find_retainedD [OF f] l r assms(2) show ?thesis by (auto simp: disposition_kept_def)
qed

lemma disposition_payload_created:
  assumes "next_event X p retained kind unit t (JObj ms) = Inr ev" and "dict_ok (JObj ms)" and "map_of ms ''verification_lease_id'' = Some (JStr i)"
  shows "bindR (disposition_payload X ev) (\<lambda>(payload, i). Inr i) = Inr (JStr i)"
  using created_item [OF assms(1) [unfolded next_event_def] assms(2,3)]
  by (auto simp: disposition_payload_def bindR_eq_Inr)

context event_log
begin

lemma disposition_outcome:
  assumes s: "live s" and l: "recovery_load X P m s = (Inr (retained, p), s1)"
    and ev: "next_event X p retained kind unit t (JObj ms) = Inr ev" and ms: "dict_ok (JObj ms)" "map_of ms ''verification_lease_id'' = Some (JStr i)"
    and c: "commit_event X P m retained ev (port_append P ev h) is_stale_head
       (existing_disposition X (ev_kind ev) i t reason) (\<lambda>ex _. ex) (committed_disposition X ev i) s1 = (Inr r, s')"
  shows "live s' \<and> grows stream s s' \<and> disposition_kept X (stream s' m) kind h i t r"
proof -
  note ld = recovery_loadD [OF l] and e = next_eventD [OF ev]
  note s1 = load_grows [OF s ld(1), THEN conjunct1]
  from append_command [OF s ld s1 grows_refl e(1,2) c]
  obtain q where o: "live s'" "grows stream s s'" and q: "reduce_events X (stream s' m) = Inr q"
    and alt: "existing_disposition X kind i t reason q = Inr (Some r) \<or> committed_disposition X ev i q = Inr r \<and> stands_behind X (stream s' m) retained ev h"
    using e(3) by blast
  from alt show ?thesis
  proof
    assume "committed_disposition X ev i q = Inr r \<and> stands_behind X (stream s' m) retained ev h"
    then have r: "dn_projection r = q" "dn_event r \<in> set (disposition_events kind q)" "ev_event_digest (dn_event r) = ev_event_digest ev"
      "recovery_lease_by_id X q i = Inr (dn_lease r)" and sb: "stands_behind X (stream s' m) retained ev h"
      by (auto simp: committed_disposition_def bindR_eq_Inr e(3) dest!: committed_event_eq_Inr)
    have "dn_event r = ev"
      by (rule committed_is_new [OF o(1) q _ r(3) sb]) (use r(2) in \<open>auto simp: projection_logs_def disposition_events_def split: if_splits\<close>)
    with r sb disposition_payload_created [OF ev ms] e o q show ?thesis by (auto simp: disposition_kept_def)
  qed (use existing_dispositionD q o in blast)
qed

lemma expire_outcome:
  assumes s: "live s" and run: "expire_modeled_fixture_verification_lease X P m h i t s = (Inr r, s')"
  shows "live s' \<and> grows stream s s' \<and> disposition_kept X (stream s' m) ''verification_lease_expired'' h i t r"
proof -
  from run obtain retained p s1 l found where ld: "recovery_load X P m s = (Inr (retained, p), s1)"
    and f: "existing_disposition X ''verification_lease_expired'' i t None p = Inr found"
    and rest: "(case found of Some r \<Rightarrow> liftP (Inr r) | None \<Rightarrow>
         bindP (liftP (expire_event X retained p l h i t)) (\<lambda>ev.
         commit_event X P m retained ev (port_append P ev h) is_stale_head
           (existing_disposition X (ev_kind ev) i t None) (\<lambda>ex _. ex) (committed_disposition X ev i))) s1 = (Inr r, s')"
    by (auto simp: expire_modeled_fixture_verification_lease_def bindP_eq_Inr liftP_eq split: prod.splits)
  note st = load_stream [OF s recovery_loadD(1) [OF ld]] and ls = load_grows [OF s recovery_loadD(1) [OF ld]]
  show ?thesis
  proof (cases found)
    case (Some x)
    with rest f ls st existing_dispositionD [of X _ i t None p r retained] recovery_loadD(2) [OF ld] show ?thesis by (auto simp: liftP_eq)
  next
    case None
    with rest obtain ev where ev: "expire_event X retained p l h i t = Inr ev" and c: "commit_event X P m retained ev (port_append P ev h) is_stale_head
           (existing_disposition X (ev_kind ev) i t None) (\<lambda>ex _. ex) (committed_disposition X ev i) s1 = (Inr r, s')"
      by (auto simp: bindP_eq_Inr liftP_eq)
    from ev have "next_event X p retained ''verification_lease_expired'' ''ETZIO'' t (JObj [(''verification_lease_id'', JStr i)]) = Inr ev"
      by (auto simp: expire_event_def bindR_eq_Inr)
    from disposition_outcome [OF s ld this _ _ c] show ?thesis by simp
  qed
qed

lemma cancel_outcome:
  assumes s: "live s" and run: "cancel_modeled_fixture_verification_lease X P m h i reason t s = (Inr r, s')"
  shows "live s' \<and> grows stream s s' \<and> disposition_kept X (stream s' m) ''verification_lease_cancelled'' h i t r"
proof -
  from run obtain retained p s1 l found where ld: "recovery_load X P m s = (Inr (retained, p), s1)"
    and f: "existing_disposition X ''verification_lease_cancelled'' i t (Some reason) p = Inr found"
    and rest: "(case found of Some r \<Rightarrow> liftP (Inr r) | None \<Rightarrow>
         bindP (liftP (cancel_event X retained p l h i reason t)) (\<lambda>ev.
         commit_event X P m retained ev (port_append P ev h) is_stale_head
           (existing_disposition X (ev_kind ev) i t (Some reason)) (\<lambda>ex _. ex) (committed_disposition X ev i))) s1 = (Inr r, s')"
    by (auto simp: cancel_modeled_fixture_verification_lease_def bindP_eq_Inr liftP_eq split: prod.splits)
  note st = load_stream [OF s recovery_loadD(1) [OF ld]] and ls = load_grows [OF s recovery_loadD(1) [OF ld]]
  show ?thesis
  proof (cases found)
    case (Some x)
    with rest f ls st existing_dispositionD [of X _ i t "Some reason" p r retained] recovery_loadD(2) [OF ld] show ?thesis by (auto simp: liftP_eq)
  next
    case None
    with rest obtain ev where ev: "cancel_event X retained p l h i reason t = Inr ev" and c: "commit_event X P m retained ev (port_append P ev h) is_stale_head
           (existing_disposition X (ev_kind ev) i t (Some reason)) (\<lambda>ex _. ex) (committed_disposition X ev i) s1 = (Inr r, s')"
      by (auto simp: bindP_eq_Inr liftP_eq)
    from ev have "next_event X p retained ''verification_lease_cancelled'' ''AQUILA'' t
        (JObj [(''verification_lease_id'', JStr i), (''reason_code'', JStr reason)]) = Inr ev"
      by (auto simp: cancel_event_def bindR_eq_Inr)
    from disposition_outcome [OF s ld this _ _ c] show ?thesis by simp
  qed
qed

end

section \<open>Reassignment and closure\<close>

text \<open>The successor of a reassignment: the predecessor with another verifier, for the requested time.\<close>

definition succeeds :: "reassignment_request \<Rightarrow> verification_lease \<Rightarrow> verification_lease \<Rightarrow> bool" where
  "succeeds rq predecessor l \<longleftrightarrow> vl_verifier_id l \<noteq> vl_verifier_id predecessor \<and> vl_verifier_id l \<noteq> vl_candidate_producer_id predecessor \<and>
     (\<exists>verifier_id expires_at i nonce k. l = (successor_values rq predecessor verifier_id expires_at i nonce)\<lparr>vl_lease_id := k\<rparr>)"

definition reassignment_kept :: "externals \<Rightarrow> event list \<Rightarrow> reassignment_request \<Rightarrow> lease_reassignment \<Rightarrow> bool" where
  "reassignment_kept X evs rq r \<longleftrightarrow>
     reduce_events X evs = Inr (rs_projection r) \<and> rs_event r \<in> set (mp_reassignment_events (rs_projection r)) \<and>
     retained_lease X (rs_event r) = Inr (rs_lease r) \<and> vl_lease_id (rs_predecessor_lease r) = rq_predecessor_lease_id rq \<and>
     vl_verifier_key_id (rs_lease r) = rq_verifier_key_id rq \<and> vl_issued_at (rs_lease r) = rq_decision_time rq \<and>
     vl_expires_at (rs_lease r) \<le> rq_decision_time rq + rq_requested_wallclock_seconds rq \<and>
     (\<not> rs_replayed r \<longrightarrow> succeeds rq (rs_predecessor_lease r) (rs_lease r) \<and>
        (\<exists>retained. stands_behind X evs retained (rs_event r) (rq_expected_head rq)))"

lemma recovery_leaseD: "recovery_lease_by_id X p i = Inr l \<Longrightarrow> vl_lease_id l = i"
  by (auto simp: recovery_lease_by_id_def bindR_eq_Inr dest: search_eventsD)

lemma existing_reassignmentD:
  assumes "existing_reassignment X rq predecessor expires_at p = Inr (Some r)" and "reduce_events X evs = Inr p"
    and "vl_lease_id predecessor = rq_predecessor_lease_id rq" and "expires_at \<le> rq_decision_time rq + rq_requested_wallclock_seconds rq"
  shows "reassignment_kept X evs rq r"
  using assms
  by (auto simp: existing_reassignment_def reassignment_kept_def bindR_eq_Inr split: option.splits if_splits dest!: find_retainedD)

lemma reassignment_eventD:
  assumes "reassignment_event X rq retained p predecessor expires_at v reason = Inr ev"
  shows "ev_mission_id ev = mp_mission_id p" and "ev_seq ev = int (length retained)"
    and "retained_lease X ev = Inr l \<Longrightarrow> \<exists>i nonce k. l = (successor_values rq predecessor v expires_at i nonce)\<lparr>vl_lease_id := k\<rparr>"
proof -
  from assms obtain i l0 j where l0: "issue_with_nonce X recovery_reject (ev_event_digest (last retained)) (successor_values rq predecessor v expires_at i) = Inr l0"
    and j: "bindR (vlease_to_envelope X l0) (envelope_to_json X) = Inr j"
    and ev: "next_event X p retained ''verification_lease_reassigned'' ''AQUILA'' (rq_decision_time rq)
       (JObj [(''predecessor_verification_lease_id'', JStr (vl_lease_id predecessor)), (''lease'', j),
              (''reason_code'', JStr reason),
              (''verifier_trust_snapshot'', verifier_snapshot_body (rq_verifier_trust_store rq)),
              (''verifier_trust_snapshot_id'', JStr i)]) = Inr ev"
    unfolding reassignment_event_def bindR_eq_Inr by blast
  show "ev_mission_id ev = mp_mission_id p" "ev_seq ev = int (length retained)" using next_eventD [OF ev] by simp_all
  show "\<exists>i nonce k. l = (successor_values rq predecessor v expires_at i nonce)\<lparr>vl_lease_id := k\<rparr>" if "retained_lease X ev = Inr l"
    using next_lease_retained [OF l0 j ev [unfolded next_event_def] _ _ that] by auto
qed

lemma decide_reassignmentD:
  assumes "decide_reassignment rq retained p grant predecessor expires_at = Inr (v, reason)"
  shows "v \<noteq> vl_verifier_id predecessor" and "v \<noteq> vl_candidate_producer_id predecessor"
  using assms by (auto simp: decide_reassignment_def bindR_eq_Inr split: if_splits)

definition closure_kept :: "externals \<Rightarrow> event list \<Rightarrow> digest \<Rightarrow> int \<Rightarrow> mission_closure \<Rightarrow> bool" where
  "closure_kept X evs expected_head decision_time r \<longleftrightarrow>
     reduce_events X evs = Inr (mc_projection r) \<and> mp_terminal_event (mc_projection r) = Some (mc_event r) \<and>
     ev_kind (mc_event r) = ''mission_closed'' \<and> ev_decision_time (mc_event r) = decision_time \<and>
     (\<not> mc_replayed r \<longrightarrow> mc_status r \<in> {''receipt_coverage_complete'', ''receipt_coverage_incomplete''} \<and>
        (\<exists>retained. stands_behind X evs retained (mc_event r) expected_head))"

lemma existing_closureD:
  assumes "existing_closure X t p = Inr (Some r)" and "reduce_events X evs = Inr p"
  shows "closure_kept X evs h t r"
  using assms by (auto simp: existing_closure_def closure_kept_def bindR_eq_Inr split: option.splits if_splits)

lemma closure_eventD:
  assumes "closure_event X retained p h t = Inr (ev, status)"
  shows "ev_mission_id ev = mp_mission_id p" and "ev_seq ev = int (length retained)" and "ev_kind ev = ''mission_closed''"
    and "ev_decision_time ev = t" and "status \<in> {''receipt_coverage_complete'', ''receipt_coverage_incomplete''}"
proof -
  from assms obtain payload where n: "next_event X p retained ''mission_closed'' ''ETZIO'' t payload = Inr ev"
    and st: "verification_closure_status X p = Inr status"
    by (auto simp: closure_event_def bindR_eq_Inr split: if_splits)
  show "ev_mission_id ev = mp_mission_id p" "ev_seq ev = int (length retained)" "ev_kind ev = ''mission_closed''" "ev_decision_time ev = t"
    using next_eventD [OF n] by simp_all
  show "status \<in> {''receipt_coverage_complete'', ''receipt_coverage_incomplete''}"
    using st by (auto simp: verification_closure_status_def Let_def bindR_eq_Inr split: if_splits)
qed

context event_log
begin

lemma reassign_outcome:
  assumes s: "live s" and run: "reassign_modeled_fixture_verification_lease X P rq s = (Inr r, s')"
  shows "live s' \<and> grows stream s s' \<and> reassignment_kept X (stream s' (rq_mission_id rq)) rq r"
proof -
  let ?m = "rq_mission_id rq"
  let ?expires = "\<lambda>grant admission. min (grant_deadline grant admission) (rq_decision_time rq + rq_requested_wallclock_seconds rq)"
  from run obtain retained p s1 predecessor grant admission found where ld: "recovery_load X P ?m s = (Inr (retained, p), s1)"
    and pl: "recovery_lease_by_id X p (rq_predecessor_lease_id rq) = Inr predecessor"
    and f: "existing_reassignment X rq predecessor (?expires grant admission) p = Inr found"
    and rest: "(case found of Some r \<Rightarrow> liftP (Inr r) | None \<Rightarrow>
           bindP (liftP (decide_reassignment rq retained p grant predecessor (?expires grant admission))) (\<lambda>(verifier_id, reason_code).
           bindP (liftP (reassignment_event X rq retained p predecessor (?expires grant admission) verifier_id reason_code)) (\<lambda>ev.
           commit_event X P ?m retained ev (port_append P ev (rq_expected_head rq)) is_stale_head
             (existing_reassignment X rq predecessor (?expires grant admission)) (\<lambda>ex _. ex) (committed_reassignment X ev predecessor)))) s1 = (Inr r, s')"
    unfolding reassign_modeled_fixture_verification_lease_def Let_def
    by (auto simp: bindP_eq_Inr liftP_eq split: prod.splits if_splits)
  define expires_at where "expires_at = ?expires grant admission"
  note f = f [folded expires_at_def] and rest = rest [folded expires_at_def]
  have le: "expires_at \<le> rq_decision_time rq + rq_requested_wallclock_seconds rq" by (simp add: expires_at_def)
  note load = recovery_loadD [OF ld] and pid = recovery_leaseD [OF pl]
  note st = load_stream [OF s load(1)] and ls = load_grows [OF s load(1)]
  show ?thesis
  proof (cases found)
    case (Some x)
    with rest f ls st existing_reassignmentD [OF _ load(2) pid le, of r] show ?thesis by (auto simp: liftP_eq)
  next
    case None
    with rest obtain v reason ev where d: "decide_reassignment rq retained p grant predecessor expires_at = Inr (v, reason)"
      and ev: "reassignment_event X rq retained p predecessor expires_at v reason = Inr ev"
      and c: "commit_event X P ?m retained ev (port_append P ev (rq_expected_head rq)) is_stale_head
             (existing_reassignment X rq predecessor expires_at) (\<lambda>ex _. ex) (committed_reassignment X ev predecessor) s1 = (Inr r, s')"
      by (auto simp: bindP_eq_Inr liftP_eq)
    note e = reassignment_eventD [OF ev] and s1 = ls [THEN conjunct1]
    from append_command [OF s load s1 grows_refl e(1,2) c]
    obtain q where o: "live s'" "grows stream s s'" and q: "reduce_events X (stream s' ?m) = Inr q"
      and alt: "existing_reassignment X rq predecessor expires_at q = Inr (Some r) \<or>
        committed_reassignment X ev predecessor q = Inr r \<and> stands_behind X (stream s' ?m) retained ev (rq_expected_head rq)" by blast
    from alt show ?thesis
    proof
      assume "committed_reassignment X ev predecessor q = Inr r \<and> stands_behind X (stream s' ?m) retained ev (rq_expected_head rq)"
      then have r: "rs_projection r = q" "rs_event r \<in> set (mp_reassignment_events q)" "ev_event_digest (rs_event r) = ev_event_digest ev"
        "retained_lease X (rs_event r) = Inr (rs_lease r)" "rs_predecessor_lease r = predecessor"
        and sb: "stands_behind X (stream s' ?m) retained ev (rq_expected_head rq)"
        by (auto simp: committed_reassignment_def bindR_eq_Inr dest!: committed_event_eq_Inr)
      have ev': "rs_event r = ev" by (rule committed_is_new [OF o(1) q _ r(3) sb]) (use r(2) in \<open>simp add: projection_logs_def\<close>)
      from e(3) [of "rs_lease r"] r(4) ev' obtain i nonce k where
        l: "rs_lease r = (successor_values rq predecessor v expires_at i nonce)\<lparr>vl_lease_id := k\<rparr>" by auto
      then have "vl_verifier_id (rs_lease r) = v" by (simp add: successor_values_def)
      with decide_reassignmentD [OF d] l have "succeeds rq predecessor (rs_lease r)" unfolding succeeds_def by blast
      with r sb ev' o q pid le l show ?thesis by (auto simp: reassignment_kept_def successor_values_def)
    qed (use existing_reassignmentD [OF _ q pid le] o in simp)
  qed
qed

lemma close_outcome:
  assumes s: "live s" and run: "close_modeled_fixture_verification_mission X P m h t s = (Inr r, s')"
  shows "live s' \<and> grows stream s s' \<and> closure_kept X (stream s' m) h t r"
proof -
  from run obtain retained p s1 found where ld: "recovery_load X P m s = (Inr (retained, p), s1)"
    and f: "existing_closure X t p = Inr found"
    and rest: "(case found of Some r \<Rightarrow> liftP (Inr r) | None \<Rightarrow>
         bindP (liftP (closure_event X retained p h t)) (\<lambda>(ev, status).
         commit_event X P m retained ev (port_append P ev h) is_stale_head
           (existing_closure X t) (\<lambda>ex _. ex) (committed_closure ev status))) s1 = (Inr r, s')"
    by (auto simp: close_modeled_fixture_verification_mission_def bindP_eq_Inr liftP_eq split: prod.splits)
  note load = recovery_loadD [OF ld]
  note st = load_stream [OF s load(1)] and ls = load_grows [OF s load(1)]
  show ?thesis
  proof (cases found)
    case (Some x)
    with rest f ls st existing_closureD [OF _ load(2), of t r] show ?thesis by (auto simp: liftP_eq)
  next
    case None
    with rest obtain ev status where ev: "closure_event X retained p h t = Inr (ev, status)"
      and c: "commit_event X P m retained ev (port_append P ev h) is_stale_head
           (existing_closure X t) (\<lambda>ex _. ex) (committed_closure ev status) s1 = (Inr r, s')"
      by (auto simp: bindP_eq_Inr liftP_eq)
    note e = closure_eventD [OF ev] and s1 = ls [THEN conjunct1]
    from append_command [OF s load s1 grows_refl e(1,2) c]
    obtain q where o: "live s'" "grows stream s s'" and q: "reduce_events X (stream s' m) = Inr q"
      and alt: "existing_closure X t q = Inr (Some r) \<or> committed_closure ev status q = Inr r \<and> stands_behind X (stream s' m) retained ev h" by blast
    from alt show ?thesis
    proof
      assume "committed_closure ev status q = Inr r \<and> stands_behind X (stream s' m) retained ev h"
      then have r: "mc_projection r = q" "mp_terminal_event q = Some (mc_event r)" "ev_event_digest (mc_event r) = ev_event_digest ev"
        "mc_status r = status" and sb: "stands_behind X (stream s' m) retained ev h"
        by (auto simp: committed_closure_def split: option.splits if_splits)
      have "mc_event r = ev" by (rule committed_is_new [OF o(1) q _ r(3) sb]) (use r(2) in \<open>simp add: projection_logs_def\<close>)
      with r sb e o q show ?thesis by (auto simp: closure_kept_def)
    qed (use existing_closureD [OF _ q] o in simp)
  qed
qed

lemma recovery_safe:
  "safe (expire_modeled_fixture_verification_lease X P m h i t)" "safe (cancel_modeled_fixture_verification_lease X P m h i reason t)"
  "safe (reassign_modeled_fixture_verification_lease X P rq)" "safe (close_modeled_fixture_verification_mission X P m h t)"
  unfolding expire_modeled_fixture_verification_lease_def cancel_modeled_fixture_verification_lease_def
    reassign_modeled_fixture_verification_lease_def close_modeled_fixture_verification_mission_def recovery_load_def Let_def
  by (intro safe_rules)+

end

end
