(* ===== verification/Artifact_Service.thy ===== *)
theory Artifact_Service
  imports Lease_Recovery
begin

text \<open>
  \<open>src/etzio/kernel/artifact_resolution.py\<close>: the command that resolves the artifacts of a verification lease, target sources from the
  vault and typed inputs vault first, and commits the resolution with its evidence.
\<close>

abbreviation resolution_reject :: "string \<Rightarrow> string \<Rightarrow> exn" where "resolution_reject \<equiv> VerificationArtifactResolutionError"

record artifact_resolution_result =
  rr_projection :: mission_projection
  rr_event :: event
  rr_resolution :: artifact_resolution
  rr_replayed :: bool

section \<open>What the mission retains\<close>

definition resolution_grant :: "externals \<Rightarrow> mission_projection \<Rightarrow> authority_grant result" where
  "resolution_grant X p =
     (if ev_kind (hd (mp_events p)) \<noteq> ''authority_admitted''
      then Inl (resolution_reject ''mission_not_admitted'' ''artifact resolution requires retained authority admission'')
      else bindR (retained_envelope X (hd (mp_events p)) ''grant'') (grant_from_envelope X))"

definition opened_event :: "mission_projection \<Rightarrow> event result" where
  "opened_event p =
     (case find (\<lambda>ev. ev_kind ev = ''mission_opened'') (mp_events p) of
        None \<Rightarrow> Inl (resolution_reject ''target_not_retained'' ''artifact resolution requires a retained target snapshot'')
      | Some ev \<Rightarrow> Inr ev)"

definition resolution_target_snapshot :: "externals \<Rightarrow> mission_projection \<Rightarrow> target_snapshot result" where
  "resolution_target_snapshot X p =
     bindR (opened_event p) (\<lambda>ev. bindR (retained_envelope X ev ''target_snapshot'') (target_snapshot_from_envelope X))"

definition resolution_lease :: "externals \<Rightarrow> mission_projection \<Rightarrow> digest \<Rightarrow> verification_lease result" where
  "resolution_lease X p lease_id =
     bindR (search_events (retained_lease X) (\<lambda>l. vl_lease_id l = lease_id)
       (resolution_reject ''verification_lease_not_retained'' ''verification_lease_id is absent from canonical mission history'')
       (mp_lease_events p)) (\<lambda>(ev, l). Inr l)"

definition resolution_candidate_retained :: "externals \<Rightarrow> mission_projection \<Rightarrow> digest \<Rightarrow> exn + unit" where
  "resolution_candidate_retained X p candidate_id =
     bindR (search_events (retained_candidate X) (\<lambda>c. sc_candidate_id c = candidate_id)
       (resolution_reject ''candidate_not_retained'' ''verification lease candidate is absent from canonical mission history'')
       (mp_candidate_events p)) (\<lambda>_. Inr ())"

fun existing_resolution_from ::
  "externals \<Rightarrow> digest \<Rightarrow> (event \<times> artifact_resolution) option \<Rightarrow> event list \<Rightarrow> (event \<times> artifact_resolution) option result" where
  "existing_resolution_from X lease_id found [] = Inr found"
| "existing_resolution_from X lease_id found (ev # evs) =
     bindR (retained_resolution X ev) (\<lambda>r.
     if ar_verification_lease_id r \<noteq> lease_id then existing_resolution_from X lease_id found evs
     else if found \<noteq> None
     then Inl (resolution_reject ''duplicate_retained_resolution'' ''verification lease has multiple retained artifact resolutions'')
     else existing_resolution_from X lease_id (Some (ev, r)) evs)"

definition existing_resolution :: "externals \<Rightarrow> digest \<Rightarrow> mission_projection \<Rightarrow> (event \<times> artifact_resolution) option result" where
  "existing_resolution X lease_id p = existing_resolution_from X lease_id None (mp_resolution_events p)"

lemma existing_resolution_fromD:
  "existing_resolution_from X lease_id found evs = Inr (Some (ev, r)) \<Longrightarrow>
    found = Some (ev, r) \<or> ev \<in> set evs \<and> retained_resolution X ev = Inr r \<and> ar_verification_lease_id r = lease_id"
  by (induction X lease_id found evs rule: existing_resolution_from.induct) (auto simp: bindR_eq_Inr split: if_splits)

definition replay_existing ::
  "int \<Rightarrow> mission_projection \<Rightarrow> event \<times> artifact_resolution \<Rightarrow> artifact_resolution_result result" where
  "replay_existing decision_time p found = (case found of (ev, r) \<Rightarrow>
     if ar_resolved_at r \<noteq> decision_time
     then Inl (resolution_reject ''verification_lease_resolution_conflict'' ''verification lease already has a resolution at a different time'')
     else Inr \<lparr>rr_projection = p, rr_event = ev, rr_resolution = r, rr_replayed = True\<rparr>)"

section \<open>Typed inputs\<close>

text \<open>The exceptions that the service passes on: corruption, a busy or full store, and operational failures.\<close>

fun is_store_fault :: "exn \<Rightarrow> bool" where
  "is_store_fault (EventStoreCorruptionError m) = True"
| "is_store_fault (StoreBusyError m) = True"
| "is_store_fault (StoreCapacityError m) = True"
| "is_store_fault (EvidenceVaultCapacityError m) = True"
| "is_store_fault (StoreOperationalError m) = True"
| "is_store_fault _ = False"

fun vault_request_failure :: "exn \<Rightarrow> (nat \<times> pystr) option" where
  "vault_request_failure (EvidenceVaultRequestError i c m) = Some (i, c)"
| "vault_request_failure _ = None"

definition typed_batch_error :: "(pystr \<times> pystr \<times> digest) list \<Rightarrow> exn \<Rightarrow> exn" where
  "typed_batch_error specs ex =
     (if is_store_fault ex then ex
      else case vault_request_failure ex of
        Some (i, code) \<Rightarrow>
          if code \<in> {''artifact_limit'', ''batch_limit''}
          then resolution_reject ''resolution_byte_ceiling_exceeded'' ''typed verification inputs exceed the admitted byte ceiling''
          else resolution_reject (fst (specs ! i) @ ''_artifact_unavailable'')
                 (fst (specs ! i) @ '' artifact cannot be resolved under its expected type'')
      | None \<Rightarrow>
          if is_evidence_error ex \<or> is_store_error ex
          then resolution_reject ''verification_artifact_unavailable'' ''typed verification inputs cannot be resolved'' else ex)"

definition read_typed_batch ::
  "'s event_store_port \<Rightarrow> file_store \<Rightarrow> (pystr \<times> pystr \<times> digest) list \<Rightarrow> int \<Rightarrow> ('s, bytes list) access" where
  "read_typed_batch P evidence_store specs maximum =
     catchP (bindP (liftP (mapR (\<lambda>(_, vault_role, d). vault_request_new vault_role d maximum) specs)) (\<lambda>requests.
       port_resolve_evidence_artifacts P requests evidence_store maximum)) (\<lambda>ex. liftP (Inl (typed_batch_error specs ex)))"

definition typed_input_specs :: "verification_lease \<Rightarrow> (pystr \<times> pystr \<times> digest) list" where
  "typed_input_specs l =
     [(''poc'', POC_INPUT_ROLE_V1, vl_poc_artifact_digest l),
      (''environment'', ENVIRONMENT_SPEC_ROLE_V1, vl_environment_digest l),
      (''effect_oracle'', EFFECT_ORACLE_SPEC_ROLE_V1, vl_effect_oracle_id l)] @
     map (\<lambda>d. (''evidence'', SUPPORTING_EVIDENCE_INPUT_ROLE_V1, d)) (vl_evidence_artifact_digests l)"

definition INPUT_ARTIFACT_TYPE_BY_ROLE :: "(pystr \<times> pystr) list" where
  "INPUT_ARTIFACT_TYPE_BY_ROLE =
     [(''effect_oracle'', EFFECT_ORACLE_TYPE), (''environment'', ENVIRONMENT_TYPE), (''evidence'', EVIDENCE_TYPE), (''poc'', POC_TYPE)]"

definition typed_input_binding :: "(pystr \<times> pystr \<times> digest) \<times> bytes \<Rightarrow> artifact_binding result" where
  "typed_input_binding sd = (case sd of ((role, _, d), data) \<Rightarrow>
     (case map_of INPUT_ARTIFACT_TYPE_BY_ROLE role of
        None \<Rightarrow> Inl (KeyError role) | Some t \<Rightarrow> artifact_binding_new d t (int (length data))))"

definition target_binding_of :: "(pystr \<times> bytes) list \<Rightarrow> snapshot_file \<Rightarrow> target_binding result" where
  "target_binding_of source_bytes f =
     (case map_of source_bytes (sf_relative_path f) of
        None \<Rightarrow> Inl (KeyError (sf_relative_path f))
      | Some data \<Rightarrow> target_binding_from_dict (target_binding_json
          \<lparr>tb_artifact_digest = sf_artifact_digest f, tb_artifact_type = TARGET_ARTIFACT_TYPE_V1,
           tb_relative_path = sf_relative_path f, tb_size = int (length data)\<rparr>))"

abbreviation resolution_ceiling :: "string \<Rightarrow> exn" where
  "resolution_ceiling \<equiv> resolution_reject ''resolution_byte_ceiling_exceeded''"

section \<open>Resolving from the vault\<close>

definition target_sources :: "'s event_store_port \<Rightarrow> event \<Rightarrow> target_snapshot \<Rightarrow> int \<Rightarrow> ('s, (pystr \<times> bytes) list) access" where
  "target_sources P opened snapshot target_bytes =
     bindP (liftP (mapR (\<lambda>i. vault_selector_new (ev_event_digest opened) TARGET_SOURCE_ROLE_V1 (int i)) [0..<length (ts_files snapshot)])) (\<lambda>selectors.
     bindP (port_load_event_artifacts P selectors target_bytes) (\<lambda>resolved_sources.
     if length resolved_sources \<noteq> length (ts_files snapshot) then liftP (Inl (ValueError ''zip arguments have different lengths''))
     else liftP (Inr (zip (map sf_relative_path (ts_files snapshot)) resolved_sources))))"

definition resolution_of_bindings ::
  "externals \<Rightarrow> verification_lease \<Rightarrow> int \<Rightarrow> target_binding list \<Rightarrow> artifact_binding list \<Rightarrow> artifact_resolution result" where
  "resolution_of_bindings X l resolved_at target_bindings typed_bindings =
     catchR (resolution_issue X
       \<lparr>ar_resolution_id = [], ar_authority_id = vl_authority_id l, ar_candidate_id = vl_candidate_id l,
        ar_effect_oracle_artifact = typed_bindings ! 2, ar_environment_artifact = typed_bindings ! 1,
        ar_evidence_artifacts = drop 3 typed_bindings, ar_mission_id = vl_mission_id l, ar_poc_artifact = typed_bindings ! 0,
        ar_resolution_profile = [], ar_resolved_at = resolved_at, ar_target_artifacts = target_bindings,
        ar_target_snapshot_id = vl_target_snapshot_id l, ar_verification_lease_id = vl_lease_id l\<rparr>)
       (\<lambda>ex. if is_artifact_error ex then Inl (resolution_reject (reason_code_of ex) (exn_message ex)) else Inl ex)"

definition check_resolution_ceilings :: "authority_grant \<Rightarrow> int \<Rightarrow> artifact_resolution \<Rightarrow> exn + unit" where
  "check_resolution_ceilings grant typed_limit r = seqR [
     requireR (typed_input_bytes r \<le> typed_limit \<and> total_bytes r \<le> ag_max_bytes grant)
       (resolution_ceiling ''resolved artifacts exceed the signed byte ceiling''),
     requireR (total_bytes r \<le> MAX_RESOLUTION_ARTIFACT_BYTES_V1)
       (resolution_ceiling ''resolved artifacts exceed the fixed overall byte ceiling'')]"

definition resolve_typed_inputs ::
  "externals \<Rightarrow> 's event_store_port \<Rightarrow> file_store \<Rightarrow> verification_lease \<Rightarrow> int \<Rightarrow> authority_grant \<Rightarrow> int \<Rightarrow> target_binding list \<Rightarrow>
   ('s, artifact_resolution) access" where
  "resolve_typed_inputs X P evidence_store l resolved_at grant target_bytes target_bindings =
     (let typed_limit = min (ag_max_bytes grant - target_bytes) MAX_TYPED_VERIFICATION_INPUT_BYTES_V1; specs = typed_input_specs l in
      bindP (read_typed_batch P evidence_store specs typed_limit) (\<lambda>typed_bytes.
      if sum_list (map (\<lambda>d. int (length d)) typed_bytes) > typed_limit
      then liftP (Inl (resolution_ceiling ''typed verification inputs exceed the admitted byte ceiling''))
      else if length typed_bytes \<noteq> length specs then liftP (Inl (ValueError ''zip arguments have different lengths''))
      else liftP (bindR (mapR typed_input_binding (zip specs typed_bytes)) (\<lambda>typed_bindings.
        bindR (resolution_of_bindings X l resolved_at target_bindings typed_bindings) (\<lambda>r.
        bindR (check_resolution_ceilings grant typed_limit r) (\<lambda>_. Inr r))))))"

definition resolve_from_cas ::
  "externals \<Rightarrow> 's event_store_port \<Rightarrow> file_store \<Rightarrow> mission_projection \<Rightarrow> verification_lease \<Rightarrow> int \<Rightarrow> authority_grant \<Rightarrow>
   ('s, artifact_resolution) access" where
  "resolve_from_cas X P evidence_store p l resolved_at grant =
     bindP (liftP (resolution_target_snapshot X p)) (\<lambda>snapshot.
     let target_bytes = sum_list (map sf_size (ts_files snapshot)) in
     if ts_object_id snapshot \<noteq> vl_target_snapshot_id l
     then liftP (Inl (resolution_reject ''target_mismatch'' ''verification lease target differs from the retained snapshot''))
     else if target_bytes > ag_max_bytes grant
     then liftP (Inl (resolution_ceiling ''target bytes exhaust the signed resolution byte ceiling''))
     else bindP (liftP (opened_event p)) (\<lambda>opened.
       bindP (target_sources P opened snapshot target_bytes) (\<lambda>source_bytes.
       bindP (liftP (rewrap is_evidence_error
         (resolution_reject ''target_manifest_mismatch'' ''canonical target bytes differ from the immutable fixture manifest'')
         (validate_etzio_fixture_snapshot_bytes X snapshot source_bytes))) (\<lambda>_.
       bindP (liftP (mapR (target_binding_of source_bytes) (ts_files snapshot))) (\<lambda>target_bindings.
       resolve_typed_inputs X P evidence_store l resolved_at grant target_bytes target_bindings)))))"

section \<open>The command\<close>

definition check_new_resolution :: "event list \<Rightarrow> mission_projection \<Rightarrow> verification_lease \<Rightarrow> digest \<Rightarrow> int \<Rightarrow> exn + unit" where
  "check_new_resolution retained p l expected_head decision_time = seqR [
     requireR (\<not> is_terminal (mp_phase p)) (resolution_reject ''mission_terminal'' ''artifacts cannot be resolved after mission termination''),
     requireR (mp_phase p = AWAITING_VERIFICATION)
       (resolution_reject ''verification_lease_not_issued'' ''artifact resolution requires an issued verification lease''),
     require_current_head expected_head retained,
     requireR (ev_decision_time (last retained) \<le> decision_time)
       (resolution_reject ''decision_time_regressed'' ''artifact resolution time precedes the retained mission head''),
     requireR (vl_issued_at l \<le> decision_time)
       (resolution_reject ''resolution_before_lease'' ''artifact resolution cannot precede verification lease issuance''),
     requireR (decision_time < vl_expires_at l)
       (resolution_reject ''verification_lease_expired'' ''artifact resolution requires an unexpired verification lease'')]"

definition resolution_event ::
  "externals \<Rightarrow> event list \<Rightarrow> mission_projection \<Rightarrow> int \<Rightarrow> artifact_resolution \<Rightarrow> event result" where
  "resolution_event X retained p decision_time r =
     bindR (bindR (resolution_to_envelope X r) (envelope_to_json X)) (\<lambda>resolution_json.
     next_event X p retained ''verification_artifacts_resolved'' ''ETZIO'' decision_time (JObj [(''resolution'', resolution_json)]))"

definition committed_resolution ::
  "externals \<Rightarrow> event \<Rightarrow> artifact_resolution \<Rightarrow> mission_projection \<Rightarrow> artifact_resolution_result result" where
  "committed_resolution X ev r p =
     bindR (committed_event (resolution_reject ''committed_event_missing'' ''appended artifact resolution event is absent from replay'')
       (mp_resolution_events p) ev) (\<lambda>e.
     bindR (retained_resolution X e) (\<lambda>committed.
     if ar_resolution_id committed \<noteq> ar_resolution_id r
     then Inl (resolution_reject ''committed_resolution_mismatch'' ''appended artifact resolution differs after replay'')
     else Inr \<lparr>rr_projection = p, rr_event = e, rr_resolution = committed, rr_replayed = False\<rparr>))"

definition resolve_modeled_fixture_verification_artifacts ::
  "externals \<Rightarrow> 's event_store_port \<Rightarrow> file_store \<Rightarrow> digest \<Rightarrow> digest \<Rightarrow> digest \<Rightarrow> int \<Rightarrow> ('s, artifact_resolution_result) access" where
  "resolve_modeled_fixture_verification_artifacts X P evidence_store mission_id expected_head lease_id decision_time =
     bindP (liftP (seqR [
       require_request_digest resolution_reject ''mission_id'' mission_id,
       require_request_digest resolution_reject ''expected_head'' expected_head,
       require_request_digest resolution_reject ''verification_lease_id'' lease_id,
       require_request_time resolution_reject decision_time])) (\<lambda>_.
     bindP (port_load P mission_id) (\<lambda>retained.
     if retained = [] then liftP (Inl (resolution_reject ''mission_not_found'' ''artifact resolution requires a retained mission stream''))
     else bindP (liftP (reduce_events X retained)) (\<lambda>p.
       bindP (liftP (resolution_lease X p lease_id)) (\<lambda>l.
       bindP (liftP (resolution_candidate_retained X p (vl_candidate_id l))) (\<lambda>_.
       bindP (liftP (resolution_grant X p)) (\<lambda>grant.
       if lease_id \<notin> mp_active_leases p
       then liftP (Inl (resolution_reject ''verification_lease_inactive'' ''artifact resolution requires the active candidate-lineage lease''))
       else bindP (liftP (existing_resolution X lease_id p)) (\<lambda>existing. case existing of
         Some found \<Rightarrow> liftP (replay_existing decision_time p found)
       | None \<Rightarrow>
           bindP (liftP (check_new_resolution retained p l expected_head decision_time)) (\<lambda>_.
           bindP (resolve_from_cas X P evidence_store p l decision_time grant) (\<lambda>r.
           bindP (liftP (resolution_event X retained p decision_time r)) (\<lambda>ev.
           commit_event X P mission_id retained ev (port_append_evidence P ev expected_head evidence_store) is_stale_head
             (\<lambda>raced. bindR (existing_resolution X lease_id raced) (\<lambda>found. case found of
               None \<Rightarrow> Inr None | Some e \<Rightarrow> bindR (replay_existing decision_time raced e) (\<lambda>r. Inr (Some r))))
             (\<lambda>ex _. ex) (committed_resolution X ev r)))))))))))"

section \<open>What the command leaves behind\<close>

definition resolution_kept :: "externals \<Rightarrow> event list \<Rightarrow> digest \<Rightarrow> digest \<Rightarrow> int \<Rightarrow> artifact_resolution_result \<Rightarrow> bool" where
  "resolution_kept X evs expected_head lease_id decision_time r \<longleftrightarrow>
     reduce_events X evs = Inr (rr_projection r) \<and> rr_event r \<in> set (mp_resolution_events (rr_projection r)) \<and>
     retained_resolution X (rr_event r) = Inr (rr_resolution r) \<and>
     (rr_replayed r \<longrightarrow> ar_verification_lease_id (rr_resolution r) = lease_id \<and> ar_resolved_at (rr_resolution r) = decision_time) \<and>
     (\<not> rr_replayed r \<longrightarrow> ev_decision_time (rr_event r) = decision_time \<and>
        (\<exists>retained. stands_behind X evs retained (rr_event r) expected_head))"

lemma existing_resolutionD:
  assumes "existing_resolution X i p = Inr (Some (ev, r))"
  shows "ev \<in> set (mp_resolution_events p) \<and> retained_resolution X ev = Inr r \<and> ar_verification_lease_id r = i"
  using existing_resolution_fromD [OF assms [unfolded existing_resolution_def]] by simp

lemma replay_existingD:
  assumes "existing_resolution X i p = Inr (Some found)" and "replay_existing t p found = Inr r" and "reduce_events X evs = Inr p"
  shows "resolution_kept X evs h i t r"
  using assms existing_resolutionD [of X i p "fst found" "snd found"]
  by (auto simp: replay_existing_def resolution_kept_def split: if_splits prod.splits)

context event_log
begin

text \<open>The accesses that read artifacts leave the streams as they are, up to what other connections commit.\<close>

lemma resolve_from_cas_safe: "safe (resolve_from_cas X P fs p l t grant)"
  unfolding resolve_from_cas_def resolve_typed_inputs_def read_typed_batch_def target_sources_def Let_def by (intro safe_rules)

lemma resolve_outcome:
  assumes s: "live s" and run: "resolve_modeled_fixture_verification_artifacts X P fs m h i t s = (Inr r, s')"
  shows "live s' \<and> grows stream s s' \<and> resolution_kept X (stream s' m) h i t r"
proof -
  let ?raced = "\<lambda>raced. bindR (existing_resolution X i raced) (\<lambda>found. case found of
               None \<Rightarrow> Inr None | Some e \<Rightarrow> bindR (replay_existing t raced e) (\<lambda>r. Inr (Some r)))"
  from run obtain retained s1 p l grant found where load: "port_load P m s = (Inr retained, s1)" and p: "reduce_events X retained = Inr p"
    and f: "existing_resolution X i p = Inr found"
    and rest: "(case found of Some found \<Rightarrow> liftP (replay_existing t p found) | None \<Rightarrow>
           bindP (liftP (check_new_resolution retained p l h t)) (\<lambda>_.
           bindP (resolve_from_cas X P fs p l t grant) (\<lambda>r.
           bindP (liftP (resolution_event X retained p t r)) (\<lambda>ev.
           commit_event X P m retained ev (port_append_evidence P ev h fs) is_stale_head ?raced (\<lambda>ex _. ex) (committed_resolution X ev r))))) s1
       = (Inr r, s')"
    by (auto simp: resolve_modeled_fixture_verification_artifacts_def bindP_eq_Inr liftP_eq split: if_splits)
  note st = load_stream [OF s load] and ls = load_grows [OF s load]
  show ?thesis
  proof (cases found)
    case (Some x)
    with rest f ls st replay_existingD [OF _ _ p, of i x t r] show ?thesis by (auto simp: liftP_eq)
  next
    case None
    with rest obtain res s2 ev where cas: "resolve_from_cas X P fs p l t grant s1 = (Inr res, s2)" and ev: "resolution_event X retained p t res = Inr ev"
      and c: "commit_event X P m retained ev (port_append_evidence P ev h fs) is_stale_head ?raced (\<lambda>ex _. ex) (committed_resolution X ev res) s2 = (Inr r, s')"
      by (auto simp: bindP_eq_Inr liftP_eq)
    have s2: "live s2" "grows stream s1 s2" using safeD [OF resolve_from_cas_safe _ cas] ls by blast+
    from ev have e: "ev_mission_id ev = mp_mission_id p" "ev_seq ev = int (length retained)" "ev_decision_time ev = t"
      by (auto simp: resolution_event_def bindR_eq_Inr dest: next_eventD)
    from append_evidence_command [OF s load p s2 e(1,2) c]
    obtain q where o: "live s'" "grows stream s s'" and q: "reduce_events X (stream s' m) = Inr q"
      and alt: "?raced q = Inr (Some r) \<or> committed_resolution X ev res q = Inr r \<and> stands_behind X (stream s' m) retained ev h" by blast
    from alt show ?thesis
    proof
      assume "committed_resolution X ev res q = Inr r \<and> stands_behind X (stream s' m) retained ev h"
      then have r: "rr_projection r = q" "rr_event r \<in> set (mp_resolution_events q)" "ev_event_digest (rr_event r) = ev_event_digest ev"
        "retained_resolution X (rr_event r) = Inr (rr_resolution r)" "\<not> rr_replayed r" and sb: "stands_behind X (stream s' m) retained ev h"
        by (auto simp: committed_resolution_def bindR_eq_Inr split: if_splits dest!: committed_event_eq_Inr)
      have "rr_event r = ev" by (rule committed_is_new [OF o(1) q _ r(3) sb]) (use r(2) in \<open>simp add: projection_logs_def\<close>)
      with r sb e o q show ?thesis by (auto simp: resolution_kept_def)
    next
      assume "?raced q = Inr (Some r)"
      then obtain found where "existing_resolution X i q = Inr (Some found)" "replay_existing t q found = Inr r"
        by (auto simp: bindR_eq_Inr split: option.splits)
      with replay_existingD [OF _ _ q] o show ?thesis by blast
    qed
  qed
qed

lemma resolve_safe: "safe (resolve_modeled_fixture_verification_artifacts X P fs m h i t)"
  unfolding resolve_modeled_fixture_verification_artifacts_def by (intro safe_rules resolve_from_cas_safe)

end

end
