(* ===== verification/Receipt_Service.thy ===== *)
theory Receipt_Service
  imports Artifact_Service
begin

text \<open>
  \<open>src/etzio/kernel/receipt_admission.py\<close>: the command that admits one authenticated verifier receipt and thereby consumes its lease.
\<close>

record receipt_admission =
  ad_projection :: mission_projection
  ad_event :: event
  ad_authenticated_receipt :: authenticated_receipt
  ad_output_artifacts :: output_artifacts
  ad_replayed :: bool

record receipt_request =
  aq_mission_id :: digest
  aq_expected_head :: digest
  aq_verification_lease_id :: digest
  aq_signed_receipt :: raw_receipt
  aq_decision_trust_store :: verifier_trust_store
  aq_decision_time :: int

section \<open>The outputs of the receipt\<close>

definition new_output_specs :: "verifier_receipt \<Rightarrow> (pystr \<times> pystr \<times> digest \<times> int) list" where
  "new_output_specs v =
     [(''execution_output'', EXECUTION_OUTPUT_ROLE_V1, vr_execution_output_digest v, vr_execution_output_size v),
      (''effect_output'', EFFECT_OUTPUT_ROLE_V1, vr_effect_output_digest v, vr_effect_output_size v),
      (''measured_environment_output'', MEASURED_ENVIRONMENT_OUTPUT_ROLE_V1, vr_measured_environment_output_digest v,
       vr_measured_environment_output_size v),
      (''termination_output'', TERMINATION_OUTPUT_ROLE_V1, vr_termination_output_digest v, vr_termination_output_size v)]"

definition OUTPUT_ARTIFACT_TYPE_BY_ROLE :: "(pystr \<times> pystr) list" where
  "OUTPUT_ARTIFACT_TYPE_BY_ROLE =
     [(''effect_output'', EFFECT_OUTPUT_TYPE), (''execution_output'', EXECUTION_OUTPUT_TYPE),
      (''measured_environment_output'', MEASURED_ENVIRONMENT_OUTPUT_TYPE), (''termination_output'', TERMINATION_OUTPUT_TYPE)]"

definition size_mismatch :: "pystr \<Rightarrow> exn" where
  "size_mismatch role = receipt_reject (''resolved_'' @ role @ ''_artifact_size_mismatch'') (role @ '' bytes differ from the signed size'')"

definition output_batch_error :: "(pystr \<times> pystr \<times> digest \<times> int) list \<Rightarrow> exn \<Rightarrow> exn" where
  "output_batch_error specs ex =
     (if is_store_fault ex then ex
      else case vault_request_failure ex of
        Some (i, code) \<Rightarrow>
          if code \<in> {''artifact_limit'', ''batch_limit''} then size_mismatch (fst (specs ! i))
          else receipt_reject (''resolved_'' @ fst (specs ! i) @ ''_artifact_unavailable'')
                 (fst (specs ! i) @ '' cannot be resolved under its code-owned type'')
      | None \<Rightarrow>
          if is_evidence_error ex \<or> is_store_error ex
          then receipt_reject ''resolved_output_artifact_unavailable'' ''verification outputs cannot be resolved'' else ex)"

definition output_binding :: "(pystr \<times> pystr \<times> digest \<times> int) \<times> bytes \<Rightarrow> artifact_binding result" where
  "output_binding sd = (case sd of ((role, _, d, signed_size), data) \<Rightarrow>
     (case map_of OUTPUT_ARTIFACT_TYPE_BY_ROLE role of
        None \<Rightarrow> Inl (KeyError role)
      | Some t \<Rightarrow>
          if int (length data) \<noteq> signed_size then Inl (size_mismatch role)
          else catchR (artifact_binding_new d t signed_size) (\<lambda>ex.
            if is_artifact_error ex then Inl (receipt_reject (reason_code_of ex) (exn_message ex)) else Inl ex)))"

definition resolve_new_output_artifacts ::
  "'s event_store_port \<Rightarrow> file_store \<Rightarrow> authenticated_receipt \<Rightarrow> int \<Rightarrow> ('s, output_artifacts) access" where
  "resolve_new_output_artifacts P evidence_store authenticated maximum_output_bytes =
     (let specs = new_output_specs (at_receipt authenticated); signed_output_bytes = sum_list (map (\<lambda>(_, _, _, n). n) specs) in
      if signed_output_bytes > min maximum_output_bytes MAX_TYPED_VERIFICATION_OUTPUT_BYTES_V1
      then liftP (Inl (receipt_reject ''verification_output_byte_ceiling_exceeded''
             ''signed verification outputs exceed the available byte allowance''))
      else bindP (catchP
          (bindP (liftP (mapR (\<lambda>(_, vault_role, d, signed_size). vault_request_new vault_role d signed_size) specs)) (\<lambda>requests.
             port_resolve_evidence_artifacts P requests evidence_store signed_output_bytes))
          (\<lambda>ex. liftP (Inl (output_batch_error specs ex)))) (\<lambda>resolved_bytes.
        if length resolved_bytes \<noteq> length specs then liftP (Inl (ValueError ''zip arguments have different lengths''))
        else liftP (bindR (mapR output_binding (zip specs resolved_bytes)) (\<lambda>bs. reject_verification receipt_reject (outputs_of_list bs)))))"

section \<open>An admission that is retained already\<close>

definition retained_receipt_ids :: "externals \<Rightarrow> event \<Rightarrow> (json \<times> signed_receipt \<times> digest \<times> json) result" where
  "retained_receipt_ids X ev =
     bindR (thawed_payload X ev) (\<lambda>payload.
     bindR (signed_receipt_from_event X ev) (\<lambda>signed.
     bindR (rewrap is_verification_error (receipt_reject ''retained_receipt_invalid'' ''retained signed receipt cannot be reconstructed'')
       (signed_receipt_to_envelope X signed)) (\<lambda>e.
     bindR (envelope_from_bytes X (sr_envelope_bytes signed)) (\<lambda>receipt_env.
     bindR (bindR (thaw_json X (JObj (env_body receipt_env))) (\<lambda>body. payload_item body ''lease_id'')) (\<lambda>lease_field.
       Inr (payload, signed, env_object_id e, lease_field))))))"

definition admission_exact ::
  "externals \<Rightarrow> receipt_request \<Rightarrow> authenticated_receipt \<Rightarrow> digest \<Rightarrow> event \<Rightarrow> json \<Rightarrow> signed_receipt \<Rightarrow> digest \<Rightarrow> bool result" where
  "admission_exact X rq authenticated snapshot_id ev payload signed receipt_id =
     (if ev_decision_time ev \<noteq> aq_decision_time rq then Inr False
      else bindR (payload_item payload ''adjudication_profile'') (\<lambda>profile.
        if profile \<noteq> JStr RECEIPT_ADMISSION_PROFILE_V1 then Inr False
        else bindR (payload_item payload ''decision_trust_snapshot_id'') (\<lambda>i.
        if i \<noteq> JStr snapshot_id then Inr False
        else bindR (payload_item payload ''decision_trust_snapshot'') (\<lambda>body.
        if norm_json body \<noteq> norm_json (verifier_snapshot_body (aq_decision_trust_store rq)) then Inr False
        else bindR (signed_receipt_to_bytes X signed) (\<lambda>wire.
        bindR (signed_receipt_to_bytes X (at_signed_receipt authenticated)) (\<lambda>requested_wire.
          Inr (wire = requested_wire \<and> receipt_id = vr_receipt_id (at_receipt authenticated))))))))"

fun existing_admission_from ::
  "externals \<Rightarrow> receipt_request \<Rightarrow> authenticated_receipt \<Rightarrow> digest \<Rightarrow> mission_projection \<Rightarrow> event list \<Rightarrow> receipt_admission option result" where
  "existing_admission_from X rq authenticated snapshot_id p [] = Inr None"
| "existing_admission_from X rq authenticated snapshot_id p (ev # evs) =
     bindR (retained_receipt_ids X ev) (\<lambda>(payload, signed, receipt_id, lease_field).
     if lease_field = JStr (vl_lease_id (at_lease authenticated))
     then bindR (admission_exact X rq authenticated snapshot_id ev payload signed receipt_id) (\<lambda>exact.
       if \<not> exact
       then Inl (receipt_reject ''verification_lease_consumed_conflict'' ''verification lease is already consumed by a different admission'')
       else bindR (outputs_from_event X ev) (\<lambda>outs.
         Inr (Some \<lparr>ad_projection = p, ad_event = ev, ad_authenticated_receipt = authenticated, ad_output_artifacts = outs,
                    ad_replayed = True\<rparr>)))
     else if receipt_id = vr_receipt_id (at_receipt authenticated)
     then Inl (receipt_reject ''verifier_receipt_admission_conflict'' ''verifier receipt is already retained for another lease'')
     else existing_admission_from X rq authenticated snapshot_id p evs)"

definition existing_admission ::
  "externals \<Rightarrow> receipt_request \<Rightarrow> authenticated_receipt \<Rightarrow> mission_projection \<Rightarrow> receipt_admission option result" where
  "existing_admission X rq authenticated p =
     bindR (signed_receipt_to_bytes X (at_signed_receipt authenticated)) (\<lambda>_.
     bindR (verifier_snapshot_id X (aq_decision_trust_store rq)) (\<lambda>snapshot_id.
       existing_admission_from X rq authenticated snapshot_id p (mp_receipt_events p)))"

section \<open>The event\<close>

definition admission_payload ::
  "externals \<Rightarrow> authenticated_receipt \<Rightarrow> output_artifacts \<Rightarrow> verifier_trust_store \<Rightarrow> json result" where
  "admission_payload X authenticated outs trust =
     bindR (verifier_snapshot_id X trust) (\<lambda>snapshot_id.
     bindR (bindR (signed_receipt_to_envelope X (at_signed_receipt authenticated)) (envelope_to_json X)) (\<lambda>receipt_json.
     Inr (JObj [
       (''adjudication_profile'', JStr RECEIPT_ADMISSION_PROFILE_V1),
       (''decision_trust_snapshot'', verifier_snapshot_body trust),
       (''decision_trust_snapshot_id'', JStr snapshot_id),
       (''effect_output_artifact'', artifact_binding_json (oa_effect outs)),
       (''execution_output_artifact'', artifact_binding_json (oa_execution outs)),
       (''measured_environment_output_artifact'', artifact_binding_json (oa_measured_environment outs)),
       (''receipt'', receipt_json),
       (''termination_output_artifact'', artifact_binding_json (oa_termination outs))])))"

definition check_new_admission :: "receipt_request \<Rightarrow> event list \<Rightarrow> mission_projection \<Rightarrow> exn + unit" where
  "check_new_admission rq retained p = seqR [
     requireR (\<not> is_terminal (mp_phase p)) (receipt_reject ''mission_terminal'' ''receipt cannot be admitted after mission termination''),
     requireR (mp_phase p = AWAITING_VERIFICATION)
       (receipt_reject ''verification_not_awaiting_receipt'' ''receipt admission requires awaiting_verification state''),
     require_current_head (aq_expected_head rq) retained,
     requireR (ev_decision_time (last retained) \<le> aq_decision_time rq)
       (receipt_reject ''decision_time_regressed'' ''receipt admission time precedes the retained mission head'')]"

definition admission_event ::
  "externals \<Rightarrow> receipt_request \<Rightarrow> event list \<Rightarrow> mission_projection \<Rightarrow> authenticated_receipt \<Rightarrow> output_artifacts \<Rightarrow> event result" where
  "admission_event X rq retained p authenticated outs =
     bindR (admission_payload X authenticated outs (aq_decision_trust_store rq)) (\<lambda>payload.
     next_event X p retained ''verifier_receipt_admitted'' ''ETZIO'' (aq_decision_time rq) payload)"

text \<open>What is admitted: the lease and the receipt for it, authenticated against the retained resolution.\<close>

definition authenticate_request ::
  "externals \<Rightarrow> receipt_request \<Rightarrow> mission_projection \<Rightarrow> (authenticated_receipt \<times> artifact_resolution) result" where
  "authenticate_request X rq p =
     bindR (admission_lease X p (aq_verification_lease_id rq)) (\<lambda>l.
     bindR (assert_candidate_retained X p (vl_candidate_id l)) (\<lambda>_.
     if aq_verification_lease_id rq \<notin> mp_active_leases p \<and> aq_verification_lease_id rq \<notin> mp_consumed_leases p
     then Inl (receipt_reject ''verification_lease_inactive'' ''receipt admission requires the active candidate-lineage lease'')
     else bindR (admission_resolution X p (aq_verification_lease_id rq)) (\<lambda>r.
       bindR (reject_verification receipt_reject
         (authenticate_verifier_receipt X (aq_signed_receipt rq) (aq_decision_trust_store rq) l r (aq_decision_time rq) None)) (\<lambda>authenticated.
       Inr (authenticated, r)))))"

definition prepare_admission ::
  "externals \<Rightarrow> 's event_store_port \<Rightarrow> file_store \<Rightarrow> receipt_request \<Rightarrow> event list \<Rightarrow> mission_projection \<Rightarrow> authenticated_receipt \<Rightarrow>
   artifact_resolution \<Rightarrow> ('s, event) access" where
  "prepare_admission X P evidence_store rq retained p authenticated r =
     bindP (liftP (check_new_admission rq retained p)) (\<lambda>_.
     bindP (liftP (admission_grant X p)) (\<lambda>grant.
     let remaining = ag_max_bytes grant - total_bytes r in
     if remaining \<le> 0
     then liftP (Inl (receipt_reject ''verification_output_byte_ceiling_exceeded''
            ''the signed byte ceiling leaves no allowance for verifier outputs''))
     else bindP (resolve_new_output_artifacts P evidence_store authenticated remaining) (\<lambda>outs.
       if total_bytes r + output_total_bytes outs > ag_max_bytes grant then liftP (Inl admission_ceiling_error)
       else liftP (admission_event X rq retained p authenticated outs))))"

section \<open>The command\<close>

text \<open>One retry when the writer lock is taken.\<close>

definition append_receipt_with_retry :: "'s event_store_port \<Rightarrow> event \<Rightarrow> digest \<Rightarrow> file_store \<Rightarrow> ('s, unit) access" where
  "append_receipt_with_retry P ev expected_head evidence_store =
     catchP (port_append_receipt P ev expected_head evidence_store) (\<lambda>ex.
       if is_store_busy ex then port_append_receipt P ev expected_head evidence_store else liftP (Inl ex))"

definition unmatched_admission :: "digest \<Rightarrow> exn \<Rightarrow> mission_projection \<Rightarrow> exn" where
  "unmatched_admission expected_head ex raced =
     (if is_store_busy ex \<and> ev_event_digest (last (mp_events raced)) \<noteq> expected_head
      then StaleHeadError ''mission head advanced while receipt admission waited for the SQLite writer lock'' else ex)"

definition committed_admission :: "externals \<Rightarrow> event \<Rightarrow> authenticated_receipt \<Rightarrow> mission_projection \<Rightarrow> receipt_admission result" where
  "committed_admission X ev authenticated p =
     bindR (committed_event (receipt_reject ''committed_event_missing'' ''appended receipt admission event is absent from replay'')
       (mp_receipt_events p) ev) (\<lambda>e.
     bindR (outputs_from_event X e) (\<lambda>outs.
       Inr \<lparr>ad_projection = p, ad_event = e, ad_authenticated_receipt = authenticated, ad_output_artifacts = outs, ad_replayed = False\<rparr>))"

definition admit_modeled_fixture_verifier_receipt ::
  "externals \<Rightarrow> 's event_store_port \<Rightarrow> file_store \<Rightarrow> receipt_request \<Rightarrow> ('s, receipt_admission) access" where
  "admit_modeled_fixture_verifier_receipt X P evidence_store rq =
     bindP (liftP (seqR [
       require_request_digest receipt_reject ''mission_id'' (aq_mission_id rq),
       require_request_digest receipt_reject ''expected_head'' (aq_expected_head rq),
       require_request_digest receipt_reject ''verification_lease_id'' (aq_verification_lease_id rq),
       require_request_time receipt_reject (aq_decision_time rq)])) (\<lambda>_.
     bindP (port_load P (aq_mission_id rq)) (\<lambda>retained.
     if retained = [] then liftP (Inl (receipt_reject ''mission_not_found'' ''receipt admission requires a retained mission stream''))
     else bindP (liftP (reduce_events X retained)) (\<lambda>p.
       bindP (liftP (authenticate_request X rq p)) (\<lambda>(authenticated, r).
       bindP (liftP (existing_admission X rq authenticated p)) (\<lambda>existing. case existing of
         Some found \<Rightarrow> liftP (Inr found)
       | None \<Rightarrow>
           bindP (prepare_admission X P evidence_store rq retained p authenticated r) (\<lambda>ev.
           commit_event X P (aq_mission_id rq) retained ev (append_receipt_with_retry P ev (aq_expected_head rq) evidence_store)
             (\<lambda>ex. is_stale_head ex \<or> is_store_busy ex) (existing_admission X rq authenticated)
             (unmatched_admission (aq_expected_head rq)) (committed_admission X ev authenticated)))))))"

section \<open>What the command leaves behind\<close>

text \<open>An admission is retained for the lease of the receipt, with the receipt that was authenticated for it; a new one stands directly
  behind the expected head.\<close>

definition admission_kept :: "externals \<Rightarrow> event list \<Rightarrow> receipt_request \<Rightarrow> receipt_admission \<Rightarrow> bool" where
  "admission_kept X evs rq r \<longleftrightarrow>
     reduce_events X evs = Inr (ad_projection r) \<and> ad_event r \<in> set (mp_receipt_events (ad_projection r)) \<and>
     outputs_from_event X (ad_event r) = Inr (ad_output_artifacts r) \<and> ev_decision_time (ad_event r) = aq_decision_time rq \<and>
     vl_lease_id (at_lease (ad_authenticated_receipt r)) = aq_verification_lease_id rq \<and>
     (\<exists>l res. authenticate_verifier_receipt X (aq_signed_receipt rq) (aq_decision_trust_store rq) l res (aq_decision_time rq) None =
        Inr (ad_authenticated_receipt r)) \<and>
     (\<not> ad_replayed r \<longrightarrow> (\<exists>retained. stands_behind X evs retained (ad_event r) (aq_expected_head rq)))"

lemma existing_admission_fromD:
  assumes "existing_admission_from X rq a i p evs = Inr (Some r)"
  shows "ad_projection r = p \<and> ad_event r \<in> set evs \<and> outputs_from_event X (ad_event r) = Inr (ad_output_artifacts r) \<and>
    ev_decision_time (ad_event r) = aq_decision_time rq \<and> ad_authenticated_receipt r = a \<and> ad_replayed r"
  using assms
proof (induction X rq a i p evs rule: existing_admission_from.induct)
  case (2 X rq a i p ev evs)
  then obtain payload signed receipt_id lease_field where d: "retained_receipt_ids X ev = Inr (payload, signed, receipt_id, lease_field)"
    by (auto simp: bindR_eq_Inr)
  show ?case
  proof (cases "lease_field = JStr (vl_lease_id (at_lease a))")
    case True
    with "2.prems" d show ?thesis by (auto simp: admission_exact_def bindR_eq_Inr split: if_splits)
  next
    case False
    with "2.prems" d have "existing_admission_from X rq a i p evs = Inr (Some r)" by (auto split: if_splits)
    moreover from this "2.prems" d False have "receipt_id \<noteq> vr_receipt_id (at_receipt a)" by (auto split: if_splits)
    ultimately show ?thesis using "2.IH" [OF d refl refl refl False] by auto
  qed
qed simp

lemma authenticate_requestD:
  assumes "authenticate_request X rq p = Inr (a, r)"
  shows "vl_lease_id (at_lease a) = aq_verification_lease_id rq"
    and "\<exists>l res. authenticate_verifier_receipt X (aq_signed_receipt rq) (aq_decision_trust_store rq) l res (aq_decision_time rq) None = Inr a"
proof -
  from assms obtain l where l: "admission_lease X p (aq_verification_lease_id rq) = Inr l"
    and a: "authenticate_verifier_receipt X (aq_signed_receipt rq) (aq_decision_trust_store rq) l r (aq_decision_time rq) None = Inr a"
    by (auto simp: authenticate_request_def bindR_eq_Inr reject_verification_eq_Inr split: if_splits)
  have "vl_lease_id l = aq_verification_lease_id rq" using l by (auto simp: admission_lease_def bindR_eq_Inr dest: search_eventsD)
  moreover have "at_lease a = l"
    using a by (auto simp: authenticate_verifier_receipt_def authenticated_receipt_new_def bindR_eq_Inr split: if_splits option.splits)
  ultimately show "vl_lease_id (at_lease a) = aq_verification_lease_id rq" by simp
  show "\<exists>l res. authenticate_verifier_receipt X (aq_signed_receipt rq) (aq_decision_trust_store rq) l res (aq_decision_time rq) None = Inr a"
    using a by blast
qed

context event_log
begin

lemma adds_after: "grows stream s t \<Longrightarrow> adds stream ev h t u \<Longrightarrow> adds stream ev h s u"
  unfolding adds_def grows_def using prefix_order.trans by blast

lemma retry_grows:
  assumes "append_receipt_with_retry P ev h fs s = (r, s')" and "live s"
  shows "live s' \<and> grows stream s s' \<and> (\<forall>u. r = Inr u \<longrightarrow> adds stream ev h s s')"
proof (cases "port_append_receipt P ev h fs s")
  case (Pair a t)
  note g = append_receipt_grows [OF assms(2) Pair]
  show ?thesis
  proof (cases a)
    case (Inl ex)
    show ?thesis
    proof (cases "is_store_busy ex")
      case True
      with assms(1) Pair Inl have "port_append_receipt P ev h fs t = (r, s')" by (simp add: append_receipt_with_retry_def catchP_def)
      with g appends(3) append_receipt_grows adds_after grows_trans show ?thesis by metis
    next
      case False
      with assms(1) Pair Inl g show ?thesis by (auto simp: append_receipt_with_retry_def catchP_def liftP_def)
    qed
  next
    case (Inr u)
    with assms Pair appends(3) [OF assms(2)] show ?thesis by (auto simp: append_receipt_with_retry_def catchP_def)
  qed
qed

lemma resolve_outputs_safe: "safe (resolve_new_output_artifacts P fs a n)"
  unfolding resolve_new_output_artifacts_def Let_def by (intro safe_rules)

lemma admit_outcome:
  assumes s: "live s" and run: "admit_modeled_fixture_verifier_receipt X P fs rq s = (Inr r, s')"
  shows "live s' \<and> grows stream s s' \<and> admission_kept X (stream s' (aq_mission_id rq)) rq r"
proof -
  let ?m = "aq_mission_id rq"
  let ?stale = "\<lambda>ex. is_stale_head ex \<or> is_store_busy ex"
  from run obtain retained s1 p a res found where load: "port_load P ?m s = (Inr retained, s1)" and p: "reduce_events X retained = Inr p"
    and auth: "authenticate_request X rq p = Inr (a, res)" and f: "existing_admission X rq a p = Inr found"
    and rest: "(case found of Some found \<Rightarrow> liftP (Inr found) | None \<Rightarrow>
           bindP (prepare_admission X P fs rq retained p a res) (\<lambda>ev.
           commit_event X P ?m retained ev (append_receipt_with_retry P ev (aq_expected_head rq) fs) ?stale (existing_admission X rq a)
             (unmatched_admission (aq_expected_head rq)) (committed_admission X ev a))) s1 = (Inr r, s')"
    by (auto simp: admit_modeled_fixture_verifier_receipt_def bindP_eq_Inr liftP_eq split: if_splits prod.splits)
  note st = load_stream [OF s load] and ls = load_grows [OF s load] and au = authenticate_requestD [OF auth]
  have kept: "admission_kept X evs rq r" if "existing_admission X rq a q = Inr (Some r)" "reduce_events X evs = Inr q" for q evs
    using that au by (auto simp: existing_admission_def admission_kept_def bindR_eq_Inr dest!: existing_admission_fromD)
  show ?thesis
  proof (cases found)
    case (Some x)
    with rest f ls st kept [OF _ p] show ?thesis by (auto simp: liftP_eq)
  next
    case None
    with rest obtain ev s2 where prep: "prepare_admission X P fs rq retained p a res s1 = (Inr ev, s2)"
      and c: "commit_event X P ?m retained ev (append_receipt_with_retry P ev (aq_expected_head rq) fs) ?stale (existing_admission X rq a)
             (unmatched_admission (aq_expected_head rq)) (committed_admission X ev a) s2 = (Inr r, s')"
      by (auto simp: bindP_eq_Inr)
    from prep obtain n outs where out: "resolve_new_output_artifacts P fs a n s1 = (Inr outs, s2)"
      and ev: "admission_event X rq retained p a outs = Inr ev"
      by (auto simp: prepare_admission_def Let_def bindP_eq_Inr liftP_eq split: if_splits)
    have s2: "live s2" "grows stream s1 s2" using safeD [OF resolve_outputs_safe _ out] ls by blast+
    from ev have e: "ev_mission_id ev = mp_mission_id p" "ev_seq ev = int (length retained)" "ev_decision_time ev = aq_decision_time rq"
      by (auto simp: admission_event_def bindR_eq_Inr dest: next_eventD)
    have "live s' \<and> grows stream s s' \<and> (\<exists>q. reduce_events X (stream s' ?m) = Inr q \<and> (existing_admission X rq a q = Inr (Some r) \<or>
        committed_admission X ev a q = Inr r \<and> stands_behind X (stream s' ?m) retained ev (aq_expected_head rq)))"
      by (rule command_outcome [OF s load p s2 e(1,2) _ _ c]) (use retry_grows [OF _ s2(1)] in auto)
    then obtain q where o: "live s'" "grows stream s s'" and q: "reduce_events X (stream s' ?m) = Inr q"
      and alt: "existing_admission X rq a q = Inr (Some r) \<or>
        committed_admission X ev a q = Inr r \<and> stands_behind X (stream s' ?m) retained ev (aq_expected_head rq)" by blast
    from alt show ?thesis
    proof
      assume "committed_admission X ev a q = Inr r \<and> stands_behind X (stream s' ?m) retained ev (aq_expected_head rq)"
      then have r: "ad_projection r = q" "ad_event r \<in> set (mp_receipt_events q)" "ev_event_digest (ad_event r) = ev_event_digest ev"
        "outputs_from_event X (ad_event r) = Inr (ad_output_artifacts r)" "ad_authenticated_receipt r = a"
        and sb: "stands_behind X (stream s' ?m) retained ev (aq_expected_head rq)"
        by (auto simp: committed_admission_def bindR_eq_Inr dest!: committed_event_eq_Inr)
      have "ad_event r = ev" by (rule committed_is_new [OF o(1) q _ r(3) sb]) (use r(2) in \<open>simp add: projection_logs_def\<close>)
      with r sb e o q au show ?thesis by (auto simp: admission_kept_def)
    qed (use kept q o in simp)
  qed
qed

lemma admit_safe: "safe (admit_modeled_fixture_verifier_receipt X P fs rq)"
  unfolding admit_modeled_fixture_verifier_receipt_def prepare_admission_def append_receipt_with_retry_def Let_def
  by (intro safe_rules resolve_outputs_safe)

end

end
