(* ===== verification/Python_Sast.thy ===== *)
theory Python_Sast
  imports Mission_V1
begin

text \<open>
  \<open>src/etzio/analysis/python_sast.py\<close>: the deterministic analyser. \<open>ast.parse\<close> is a parameter, a function from the source text to a
  syntax tree or the position of a syntax error; the tree has the node classes that the detectors distinguish, with \<open>Other\<close> for all
  further ones, and the children of every node in the order of \<open>ast.iter_child_nodes\<close>.
\<close>

section \<open>Syntax trees\<close>

datatype py_constant = CStr pystr | CTrue | COther

datatype py_node =
    PName int int pystr
  | PAttribute int int py_node pystr
  | PCall int int py_node "py_node list" "(pystr option \<times> py_node) list"
  | PConstant int int py_constant
  | PJoinedStr int int "py_node list"
  | PFormattedValue int int "py_node list"
  | PBinOp int int py_node bool py_node
  | PAssign int int "py_node list" py_node
  | POther int int "py_node list"

text \<open>\<open>lineno\<close> and \<open>col_offset\<close>\<close>

fun node_line :: "py_node \<Rightarrow> int" where
  "node_line (PName l c i) = l" | "node_line (PAttribute l c v a) = l" | "node_line (PCall l c f as ks) = l"
| "node_line (PConstant l c k) = l" | "node_line (PJoinedStr l c vs) = l" | "node_line (PFormattedValue l c vs) = l"
| "node_line (PBinOp l c x op y) = l" | "node_line (PAssign l c ts v) = l" | "node_line (POther l c ns) = l"

fun node_column :: "py_node \<Rightarrow> int" where
  "node_column (PName l c i) = c" | "node_column (PAttribute l c v a) = c" | "node_column (PCall l c f as ks) = c"
| "node_column (PConstant l c k) = c" | "node_column (PJoinedStr l c vs) = c" | "node_column (PFormattedValue l c vs) = c"
| "node_column (PBinOp l c x op y) = c" | "node_column (PAssign l c ts v) = c" | "node_column (POther l c ns) = c"

text \<open>The child nodes; a \<open>keyword\<close> is a node of its own in Python that no detector looks at, and its only child is its value. The operator
  flag of a binary operation says whether it is \<open>Add\<close> or \<open>Mod\<close>.\<close>

fun child_nodes :: "py_node \<Rightarrow> py_node list" where
  "child_nodes (PName l c i) = []"
| "child_nodes (PAttribute l c v a) = [v]"
| "child_nodes (PCall l c f as ks) = f # as @ map (\<lambda>(k, v). POther l c [v]) ks"
| "child_nodes (PConstant l c k) = []"
| "child_nodes (PJoinedStr l c vs) = vs"
| "child_nodes (PFormattedValue l c vs) = vs"
| "child_nodes (PBinOp l c x op y) = [x, y]"
| "child_nodes (PAssign l c ts v) = ts @ [v]"
| "child_nodes (POther l c ns) = ns"

text \<open>\<open>ast.walk\<close> takes a node from the front of a queue and appends its children. The weight of a queue counts its nodes.\<close>

fun node_weight :: "py_node \<Rightarrow> nat" where
  "node_weight (PName l c i) = 1"
| "node_weight (PAttribute l c v a) = Suc (node_weight v)"
| "node_weight (PCall l c f as ks) = Suc (node_weight f + sum_list (map node_weight as) + sum_list (map (\<lambda>k. Suc (node_weight (snd k))) ks))"
| "node_weight (PConstant l c k) = 1"
| "node_weight (PJoinedStr l c vs) = Suc (sum_list (map node_weight vs))"
| "node_weight (PFormattedValue l c vs) = Suc (sum_list (map node_weight vs))"
| "node_weight (PBinOp l c x op y) = Suc (node_weight x + node_weight y)"
| "node_weight (PAssign l c ts v) = Suc (sum_list (map node_weight ts) + node_weight v)"
| "node_weight (POther l c ns) = Suc (sum_list (map node_weight ns))"

lemma node_weight_children: "node_weight n = Suc (sum_list (map node_weight (child_nodes n)))"
  by (cases n) (auto simp: comp_def case_prod_unfold)

function walk_queue :: "py_node list \<Rightarrow> py_node list" where
  "walk_queue [] = []"
| "walk_queue (n # queue) = n # walk_queue (queue @ child_nodes n)"
  by pat_completeness auto
termination by (relation "measure (\<lambda>ns. sum_list (map node_weight ns))") (simp_all add: node_weight_children [of n for n])

section \<open>Detectors\<close>

fun call_name :: "py_node \<Rightarrow> pystr option" where
  "call_name (PName l c i) = Some i"
| "call_name (PAttribute l c v a) = (case v of
     PName _ _ i \<Rightarrow> Some (i @ ''.'' @ a)
   | _ \<Rightarrow> (case call_name v of Some inner \<Rightarrow> (if inner = [] then Some a else Some (inner @ ''.'' @ a)) | None \<Rightarrow> Some a))"
| "call_name _ = None"

fun is_literal :: "py_node \<Rightarrow> bool" where
  "is_literal (PConstant l c k) = True"
| "is_literal _ = False"

fun is_formatted_value :: "py_node \<Rightarrow> bool" where
  "is_formatted_value (PFormattedValue l c vs) = True"
| "is_formatted_value _ = False"

fun is_format_call :: "py_node \<Rightarrow> bool" where
  "is_format_call (PAttribute l c v a) \<longleftrightarrow> a = ''format''"
| "is_format_call _ = False"

fun looks_dynamic_sql :: "py_node \<Rightarrow> bool" where
  "looks_dynamic_sql (PJoinedStr l c vs) = list_ex is_formatted_value vs"
| "looks_dynamic_sql (PBinOp l c x add_or_mod y) = add_or_mod"
| "looks_dynamic_sql (PCall l c f as ks) = is_format_call f"
| "looks_dynamic_sql _ = False"

definition SECRET_NAMES :: "pystr list" where
  "SECRET_NAMES = [''password'', ''passwd'', ''secret'', ''api_key'', ''apikey'', ''token'', ''private_key'', ''access_key'']"

definition lower_char :: "char \<Rightarrow> char" where
  "lower_char c = (if CHR 0x41 \<le> c \<and> c \<le> CHR 0x5A then char_of (of_char c + (32 :: nat)) else c)"

definition contains :: "pystr \<Rightarrow> pystr \<Rightarrow> bool" where
  "contains s t \<longleftrightarrow> list_ex (\<lambda>i. starts_with t (drop i s)) [0..<Suc (length s)]"

fun is_true_constant :: "py_node \<Rightarrow> bool" where
  "is_true_constant (PConstant l c CTrue) = True"
| "is_true_constant _ = False"

definition finding :: "pystr \<Rightarrow> pystr \<Rightarrow> pystr \<Rightarrow> py_node \<Rightarrow> pystr \<Rightarrow> static_finding" where
  "finding path rule sev node symbol = \<lparr>finding_rule_id = rule, finding_severity = sev, finding_file = path,
     finding_line = node_line node, finding_column = node_column node, finding_symbol = symbol\<rparr>"

text \<open>The chain of \<open>elif\<close>s for a call.\<close>

definition call_findings :: "pystr \<Rightarrow> py_node \<Rightarrow> pystr \<Rightarrow> py_node list \<Rightarrow> (pystr option \<times> py_node) list \<Rightarrow> static_finding list" where
  "call_findings path node name as ks =
     (let dynamic = as \<noteq> [] \<and> \<not> is_literal (hd as) in
      if name \<in> {''eval'', ''exec'', ''compile''} \<and> dynamic then [finding path ''PY-CODE-INJECTION'' ''critical'' node name]
      else if name \<in> {''os.system'', ''os.popen''} \<and> dynamic then [finding path ''PY-CMD-INJECTION'' ''high'' node name]
      else if starts_with ''subprocess.'' name
      then (if list_ex (\<lambda>(k, v). k = Some ''shell'' \<and> is_true_constant v) ks
            then [finding path ''PY-CMD-INJECTION'' ''high'' node name] else [])
      else if name \<in> {''pickle.loads'', ''pickle.load'', ''cPickle.loads'', ''marshal.loads''}
      then [finding path ''PY-UNSAFE-DESERIALIZE'' ''high'' node name]
      else if name = ''yaml.load''
      then (if \<not> list_ex (\<lambda>(k, v). k = Some ''Loader'') ks then [finding path ''PY-UNSAFE-DESERIALIZE'' ''high'' node name] else [])
      else if (name = ''execute'' \<or> ends_with ''.execute'' name) \<and> as \<noteq> [] \<and> looks_dynamic_sql (hd as)
      then [finding path ''PY-SQL-INJECTION'' ''high'' node name]
      else if name \<in> {''hashlib.md5'', ''hashlib.sha1'', ''md5'', ''sha1''} then [finding path ''PY-WEAK-CRYPTO'' ''medium'' node name]
      else [])"

fun secret_target :: "py_node \<Rightarrow> pystr option" where
  "secret_target (PName l c i) = (if list_ex (\<lambda>s. contains (map lower_char i) s) SECRET_NAMES then Some i else None)"
| "secret_target _ = None"

fun node_findings :: "pystr \<Rightarrow> py_node \<Rightarrow> static_finding list" where
  "node_findings path (PCall l c f as ks) =
     call_findings path (PCall l c f as ks) (case call_name f of None \<Rightarrow> [] | Some n \<Rightarrow> n) as ks"
| "node_findings path (PAssign l c targets (PConstant l' c' (CStr s))) =
     (if s = [] then []
      else List.map_filter (\<lambda>t. map_option (finding path ''PY-HARDCODED-SECRET'' ''medium'' (PAssign l c targets (PConstant l' c' (CStr s))))
        (secret_target t)) targets)"
| "node_findings path _ = []"

definition scan_tree :: "pystr \<Rightarrow> py_node \<Rightarrow> static_finding list" where
  "scan_tree path tree = concat (map (node_findings path) (walk_queue [tree]))"

section \<open>Analysing source bytes\<close>

record source_parse_failure =
  pf_relative_path :: pystr
  pf_reason_code :: pystr
  pf_line :: int
  pf_column :: int

definition parse_failure_json :: "source_parse_failure \<Rightarrow> json" where
  "parse_failure_json f = JObj [(''column'', JInt (pf_column f)), (''line'', JInt (pf_line f)),
     (''reason_code'', JStr (pf_reason_code f)), (''relative_path'', JStr (pf_relative_path f))]"

record source_analysis =
  sa_relative_path :: pystr
  sa_findings :: "static_finding list"
  sa_parse_failure :: "source_parse_failure option"

text \<open>What \<open>bytes.decode\<close> and \<open>ast.parse\<close> give: the start of the first invalid sequence, the position of a syntax error, or a tree.\<close>

datatype parsed_source = InvalidUtf8 int | SyntaxFailure int int | Parsed py_node

definition analyze_python_bytes :: "(bytes \<Rightarrow> parsed_source) \<Rightarrow> pystr \<Rightarrow> bytes \<Rightarrow> source_analysis result" where
  "analyze_python_bytes parse relative_path source_bytes =
     (if relative_path = [] then Inl (ValueError ''relative_path must be a nonempty string'')
      else Inr (case parse source_bytes of
        InvalidUtf8 start \<Rightarrow>
          \<lparr>sa_relative_path = relative_path, sa_findings = [],
           sa_parse_failure = Some \<lparr>pf_relative_path = relative_path, pf_reason_code = ''invalid_utf8'', pf_line = 0, pf_column = start\<rparr>\<rparr>
      | SyntaxFailure line column \<Rightarrow>
          \<lparr>sa_relative_path = relative_path, sa_findings = [],
           sa_parse_failure = Some \<lparr>pf_relative_path = relative_path, pf_reason_code = ''python_syntax_error'', pf_line = line, pf_column = column\<rparr>\<rparr>
      | Parsed tree \<Rightarrow>
          \<lparr>sa_relative_path = relative_path, sa_findings = scan_tree relative_path tree, sa_parse_failure = None\<rparr>))"

section \<open>What the analyser reports\<close>

text \<open>The nodes of a tree, and the findings of a tree collected by plain recursion over it.\<close>

inductive in_tree :: "py_node \<Rightarrow> py_node \<Rightarrow> bool" where
  root: "in_tree n n"
| child: "m \<in> set (child_nodes n) \<Longrightarrow> in_tree m k \<Longrightarrow> in_tree n k"

lemma in_tree_unfold: "in_tree n k \<longleftrightarrow> k = n \<or> (\<exists>m\<in>set (child_nodes n). in_tree m k)"
  by (subst in_tree.simps) auto

lemma set_walk_queue: "k \<in> set (walk_queue ns) \<longleftrightarrow> (\<exists>n\<in>set ns. in_tree n k)"
proof (induction ns rule: walk_queue.induct)
  case (2 n queue)
  then show ?case using in_tree_unfold [of n k] by auto
qed simp

lemma length_walk_queue: "length (walk_queue ns) = sum_list (map node_weight ns)"
proof (induction ns rule: walk_queue.induct)
  case (2 n queue)
  then show ?case using node_weight_children [of n] by simp
qed simp

lemma scan_tree_iff: "f \<in> set (scan_tree path tree) \<longleftrightarrow> (\<exists>node. in_tree tree node \<and> f \<in> set (node_findings path node))"
  by (auto simp: scan_tree_def set_walk_queue simp del: walk_queue.simps)

lemma node_findings_file: "f \<in> set (node_findings path node) \<Longrightarrow> finding_file f = path \<and> finding_line f = node_line node \<and> finding_column f = node_column node"
  by (induction path node rule: node_findings.induct)
     (auto simp: call_findings_def finding_def Let_def map_filter_def split: if_splits)

lemma node_findings_severity: "f \<in> set (node_findings path node) \<Longrightarrow> finding_severity f \<in> set SEVERITIES"
  by (induction path node rule: node_findings.induct)
     (auto simp: call_findings_def finding_def Let_def map_filter_def SEVERITIES_def split: if_splits)

end
