(* ===== verification/Fixture_Scan.thy ===== *)
theory Fixture_Scan
  imports Receipt_Service Python_Sast "HOL-Library.Product_Lexorder"
begin

text \<open>
  \<open>src/etzio/kernel/fixture_scan.py\<close>: the governed fixture scan, from the admission of an authority to the closed mission, resumable
  from any retained prefix. The analyser is that of \<open>Python_Sast\<close>, with the parser as its parameter; the two readings of the monotonic
  clock are a parameter.
\<close>

abbreviation scan_error :: "string \<Rightarrow> exn" where "scan_error \<equiv> FixtureMissionError ''invalid_protocol''"

record scan_request =
  sn_mission_id :: digest
  sn_snapshot :: target_snapshot
  sn_signed_authority :: raw_signed
  sn_trust_store :: trust_store
  sn_decision_time :: int
  sn_required_actions :: "pystr list"
  sn_retain_for_verification :: bool
  sn_cancel_requested :: bool

definition unadmitted_authority_id :: "externals \<Rightarrow> digest result" where
  "unadmitted_authority_id X = content_id X ''unadmitted_authority'' (JObj [(''meaning'', JStr ''no_authority_was_admitted'')])"

definition STATIC_ANALYSIS_ACTIONS :: "pystr list" where "STATIC_ANALYSIS_ACTIONS = [''static_analysis'']"
definition FIXTURE_VERIFICATION_ACTIONS :: "pystr list" where
  "FIXTURE_VERIFICATION_ACTIONS = [''modeled_fixture_verification'', ''static_analysis'']"

section \<open>Appending\<close>

definition append_checked ::
  "externals \<Rightarrow> 's event_store_port \<Rightarrow> digest \<Rightarrow> digest \<Rightarrow> int \<Rightarrow> event list \<Rightarrow> pystr \<Rightarrow> pystr \<Rightarrow> digest \<Rightarrow> json \<Rightarrow> file_store option \<Rightarrow>
   ('s, event list) access" where
  "append_checked X P mission_id target_id decision_time retained kind unit authority_id payload evidence_store =
     bindP (liftP (event_create X mission_id (int (length retained)) kind unit authority_id target_id decision_time payload (head_of retained))) (\<lambda>ev.
     bindP (liftP (reduce_events X (retained @ [ev]))) (\<lambda>_.
     bindP (if kind \<in> {''authority_admitted'', ''mission_opened''}
            then (case evidence_store of
                None \<Rightarrow> liftP (Inl (scan_error (kind @ '' requires atomic event-artifact retention'')))
              | Some fs \<Rightarrow> port_append_evidence P ev (head_of retained) fs)
            else if evidence_store \<noteq> None
            then liftP (Inl (scan_error (kind @ '' must not use the artifact-retaining append path'')))
            else port_append P ev (head_of retained)) (\<lambda>_.
     liftP (Inr (retained @ [ev])))))"

text \<open>A stage of the scan either ends the scan with a projection or goes on.\<close>

datatype 'a stage = Finished mission_projection | Continue 'a

definition bindS :: "('s, 'a stage) access \<Rightarrow> ('a \<Rightarrow> ('s, 'b stage) access) \<Rightarrow> ('s, 'b stage) access" where
  "bindS m f = bindP m (\<lambda>st. case st of Finished p \<Rightarrow> liftP (Inr (Finished p)) | Continue x \<Rightarrow> f x)"

definition continueP :: "('s, 'a) access \<Rightarrow> ('s, 'a stage) access" where
  "continueP m = bindP m (\<lambda>x. liftP (Inr (Continue x)))"

definition finish_scan ::
  "externals \<Rightarrow> 's event_store_port \<Rightarrow> scan_request \<Rightarrow> event list \<Rightarrow> pystr \<Rightarrow> pystr \<Rightarrow> digest \<Rightarrow> json \<Rightarrow> ('s, 'a stage) access" where
  "finish_scan X P rq retained kind unit authority_id payload =
     bindP (append_checked X P (sn_mission_id rq) (ts_object_id (sn_snapshot rq)) (sn_decision_time rq) retained kind unit authority_id payload None) (\<lambda>evs.
     liftP (bindR (reduce_events X evs) (\<lambda>p. Inr (Finished p))))"

definition reason_payload :: "pystr \<Rightarrow> json" where
  "reason_payload reason = JObj [(''reason_code'', JStr reason)]"

definition refuse_initial_mission ::
  "externals \<Rightarrow> 's event_store_port \<Rightarrow> scan_request \<Rightarrow> digest \<Rightarrow> pystr \<Rightarrow> pystr \<Rightarrow> ('s, 'a stage) access" where
  "refuse_initial_mission X P rq authority_id reason_code stage =
     finish_scan X P rq [] ''mission_admission_refused'' ''AQUILA'' authority_id
       (JObj [(''reason_code'', JStr reason_code), (''stage'', JStr stage)])"

definition closing_status :: "scan_request \<Rightarrow> pystr" where
  "closing_status rq =
     (if ''modeled_fixture_verification'' \<in> set (sn_required_actions rq) then ''receipt_coverage_complete'' else ''completed'')"

section \<open>Resuming\<close>

definition retained_required_actions :: "externals \<Rightarrow> event list \<Rightarrow> pystr list result" where
  "retained_required_actions X retained =
     bindR (bindR (retained_envelope X (hd retained) ''admission'') (admission_from_envelope X)) (\<lambda>a. Inr (aa_required_actions a))"

definition require_intent :: "externals \<Rightarrow> scan_request \<Rightarrow> event list \<Rightarrow> exn + unit" where
  "require_intent X rq retained =
     bindR (retained_required_actions X retained) (\<lambda>actions.
     requireR (actions = sn_required_actions rq) (scan_error ''resume mission intent differs from the retained admission''))"

definition resume_scan :: "externals \<Rightarrow> 's event_store_port \<Rightarrow> scan_request \<Rightarrow> event list \<Rightarrow> ('s, event list stage) access" where
  "resume_scan X P rq retained =
     (if retained = [] then liftP (Inr (Continue []))
      else bindP (liftP (reduce_events X retained)) (\<lambda>p.
        if mp_target_id p \<noteq> ts_object_id (sn_snapshot rq)
        then liftP (Inl (scan_error ''mission ID is already bound to another target snapshot''))
        else if is_terminal (mp_phase p)
        then bindP (liftP (if mp_phase p = CLOSED then require_intent X rq retained else Inr ())) (\<lambda>_. liftP (Inr (Finished p)))
        else bindP (liftP (require_intent X rq retained)) (\<lambda>_.
          if mp_phase p = AWAITING_VERIFICATION then liftP (Inr (Finished p))
          else if mp_phase p = SCAN_COMPLETED
          then (if sn_retain_for_verification rq \<and> mp_candidate_events p \<noteq> [] then liftP (Inr (Finished p))
                else (case mp_scan_summary p of
                    None \<Rightarrow> liftP (Inl (scan_error ''completed scan omitted its retained summary''))
                  | Some summary \<Rightarrow>
                      bindP (liftP (event_payload X summary)) (\<lambda>payload.
                      bindP (liftP (payload_item payload ''candidate_count'')) (\<lambda>candidate_count.
                      bindP (liftP (payload_item payload ''parse_failure_count'')) (\<lambda>parse_failure_count.
                      finish_scan X P rq retained ''mission_closed'' ''ETZIO'' (mp_authority_id p)
                        (JObj [(''candidate_count'', candidate_count), (''parse_failure_count'', parse_failure_count),
                               (''status'', JStr (closing_status rq))]))))))
          else liftP (Inr (Continue retained)))))"

section \<open>Preflight\<close>

definition preflight_failure :: "pystr \<Rightarrow> ('s, 'a) access \<Rightarrow> ('a \<Rightarrow> ('s, pystr option \<times> (pystr \<times> bytes) list) access) \<Rightarrow>
    ('s, pystr option \<times> (pystr \<times> bytes) list) access" where
  "preflight_failure reason m f =
     tryP m (\<lambda>ex. if is_store_fault ex then liftP (Inl ex)
       else if is_evidence_error ex \<or> is_store_error ex then liftP (Inr (Some reason, [])) else liftP (Inl ex)) f"

definition first_bytes :: "bytes list \<Rightarrow> bytes result" where
  "first_bytes datas = (case datas of [] \<Rightarrow> Inl (KeyError ''0'') | d # _ \<Rightarrow> Inr d)"

text \<open>The bytes behind the authority: resolved for a new mission, read from the vault for a retained one.\<close>

definition authority_bytes ::
  "'s event_store_port \<Rightarrow> file_store \<Rightarrow> authority_grant \<Rightarrow> event option \<Rightarrow> ('s, bytes) access" where
  "authority_bytes P fs grant authority_event =
     (case authority_event of
        None \<Rightarrow>
          bindP (liftP (vault_request_new AUTHORITY_EVIDENCE_ROLE_V1 (ag_evidence_digest grant) MAX_AUTHORITY_EVIDENCE_BYTES_V1)) (\<lambda>q.
          bindP (port_resolve_evidence_artifacts P [q] fs MAX_AUTHORITY_EVIDENCE_BYTES_V1) (\<lambda>datas. liftP (first_bytes datas)))
      | Some ev \<Rightarrow>
          bindP (liftP (vault_selector_new (ev_event_digest ev) AUTHORITY_EVIDENCE_ROLE_V1 0)) (\<lambda>sel.
          bindP (port_load_event_artifacts P [sel] MAX_AUTHORITY_EVIDENCE_BYTES_V1) (\<lambda>datas. liftP (first_bytes datas))))"

definition new_sources :: "'s event_store_port \<Rightarrow> file_store \<Rightarrow> target_snapshot \<Rightarrow> int \<Rightarrow> ('s, bytes list) access" where
  "new_sources P fs snapshot total_size =
     bindP (liftP (mapR (\<lambda>f. vault_request_new TARGET_SOURCE_ROLE_V1 (sf_artifact_digest f) (sf_size f)) (ts_files snapshot))) (\<lambda>requests.
     bindP (port_resolve_evidence_artifacts P requests fs total_size) (\<lambda>datas.
     if length datas \<noteq> length (ts_files snapshot) then liftP (Inl (ValueError ''zip arguments have different lengths'')) else liftP (Inr datas)))"

definition retained_sources :: "'s event_store_port \<Rightarrow> target_snapshot \<Rightarrow> event \<Rightarrow> int \<Rightarrow> ('s, (pystr \<times> bytes) list) access" where
  "retained_sources P snapshot opened total_size = target_sources P opened snapshot total_size"

definition preflight_sources ::
  "externals \<Rightarrow> 's event_store_port \<Rightarrow> file_store \<Rightarrow> target_snapshot \<Rightarrow> int \<Rightarrow> event list \<Rightarrow> ('s, pystr option \<times> (pystr \<times> bytes) list) access" where
  "preflight_sources X P fs snapshot total_size retained =
     (case find (\<lambda>ev. ev_kind ev = ''mission_opened'') retained of
        None \<Rightarrow>
          preflight_failure ''target_evidence_unavailable'' (new_sources P fs snapshot total_size) (\<lambda>datas.
            if list_ex (\<lambda>(f, d). int (length d) \<noteq> sf_size f) (zip (ts_files snapshot) datas) then liftP (Inr (Some ''target_size_mismatch'', []))
            else let source_bytes = zip (map sf_relative_path (ts_files snapshot)) datas in
              case validate_etzio_fixture_snapshot_bytes X snapshot source_bytes of
                Inl ex \<Rightarrow> if is_evidence_error ex then liftP (Inr (Some ''target_not_in_fixture_manifest'', [])) else liftP (Inl ex)
              | Inr _ \<Rightarrow> liftP (Inr (None, source_bytes)))
      | Some opened \<Rightarrow>
          tryP (bindP (retained_sources P snapshot opened total_size) (\<lambda>source_bytes.
              bindP (liftP (validate_etzio_fixture_snapshot_bytes X snapshot source_bytes)) (\<lambda>_. liftP (Inr source_bytes))))
            (\<lambda>ex. if is_evidence_error ex
                  then liftP (Inl (scan_error ''retained target bytes differ from the immutable fixture manifest'')) else liftP (Inl ex))
            (\<lambda>source_bytes. liftP (Inr (None, source_bytes))))"

definition preflight ::
  "externals \<Rightarrow> 's event_store_port \<Rightarrow> file_store \<Rightarrow> target_snapshot \<Rightarrow> authority_grant \<Rightarrow> event list \<Rightarrow>
   ('s, pystr option \<times> (pystr \<times> bytes) list) access" where
  "preflight X P fs snapshot grant retained =
     (let expected_assets = sort (map (\<lambda>f. ''fixture://'' @ sf_relative_path f) (ts_files snapshot));
          total_size = sum_list (map sf_size (ts_files snapshot));
          authority_event = (if retained = [] then None else Some (hd retained)) in
      if ag_assets grant \<noteq> expected_assets then liftP (Inr (Some ''asset_scope_mismatch'', []))
      else if ag_max_candidates grant \<le> 0 then liftP (Inr (Some ''candidate_budget_is_zero'', []))
      else if ag_max_wallclock_seconds grant \<le> 0 then liftP (Inr (Some ''wallclock_budget_is_zero'', []))
      else if total_size > ag_max_bytes grant then liftP (Inr (Some ''target_exceeds_byte_budget'', []))
      else if retained \<noteq> [] \<and> ev_kind (hd retained) \<noteq> ''authority_admitted''
      then liftP (Inl (scan_error ''retained nonterminal mission omitted authority admission''))
      else
        let continue = (\<lambda>evidence.
              if int (length evidence) > MAX_AUTHORITY_EVIDENCE_BYTES_V1 \<or> evidence_digest X evidence \<noteq> ag_evidence_digest grant
              then (if retained \<noteq> [] then liftP (Inl (scan_error ''retained authority evidence differs from its canonical grant''))
                    else liftP (Inr (Some ''authority_evidence_unavailable'', [])))
              else preflight_sources X P fs snapshot total_size retained) in
        if retained = []
        then preflight_failure ''authority_evidence_unavailable'' (authority_bytes P fs grant None) continue
        else bindP (authority_bytes P fs grant authority_event) continue)"

section \<open>Authority\<close>

record scan_context =
  sx_authority_id :: digest
  sx_grant :: authority_grant
  sx_admission :: authority_admission
  sx_signed :: signed_grant
  sx_source_bytes :: "(pystr \<times> bytes) list"

definition coerce_signed_grant :: "externals \<Rightarrow> raw_signed \<Rightarrow> signed_grant result" where
  "coerce_signed_grant X raw = (case raw of
     RawSigned s \<Rightarrow> Inr s
   | RawWire b \<Rightarrow> signed_grant_from_bytes X b
   | _ \<Rightarrow> Inl (AuthorityError ''invalid_envelope'' ''signed authority wire is invalid''))"

definition same_authority :: "externals \<Rightarrow> event list \<Rightarrow> digest \<Rightarrow> authority_grant \<Rightarrow> signed_grant \<Rightarrow> exn + unit" where
  "same_authority X retained authority_id grant signed =
     (if retained = [] then Inr ()
      else if ev_authority_id (hd retained) \<noteq> authority_id then Inl (scan_error ''mission ID is already bound to another authority'')
      else bindR (thawed_payload X (hd retained)) (\<lambda>payload.
        bindR (payload_item payload ''grant'') (\<lambda>g.
        bindR (payload_item payload ''key_id'') (\<lambda>k.
        bindR (payload_item payload ''signature_b64'') (\<lambda>sig.
        bindR (bindR (grant_to_envelope X grant) (envelope_to_json X)) (\<lambda>grant_json.
        requireR (norm_json g = norm_json grant_json \<and> k = JStr (sg_key_id signed) \<and> sig = JStr (sg_signature_b64 signed))
          (scan_error ''resume authority differs from the retained admission'')))))))"

definition admit_scan ::
  "externals \<Rightarrow> 's event_store_port \<Rightarrow> file_store \<Rightarrow> scan_request \<Rightarrow> event list \<Rightarrow> ('s, scan_context stage) access" where
  "admit_scan X P fs rq retained =
     bindP (liftP (admit_authority X (sn_signed_authority rq) (sn_trust_store rq) (JInt (sn_decision_time rq))
       (JStr (ts_object_id (sn_snapshot rq))) (map JStr (sn_required_actions rq)))) (\<lambda>decision.
     if retained = [] \<and> \<not> ad_accepted decision
     then bindP (liftP (unadmitted_authority_id X)) (\<lambda>i. refuse_initial_mission X P rq i (ad_reason_code decision) ''admission'')
     else if \<not> ad_accepted decision
     then finish_scan X P rq retained ''scan_cancelled'' ''AQUILA'' (ev_authority_id (hd retained))
            (reason_payload (''authority_'' @ ad_reason_code decision))
     else (case (ad_authority_id decision, ad_key_id decision, ad_grant decision, ad_admission decision) of
         (Some authority_id, Some key_id, Some grant, Some admission) \<Rightarrow>
           bindP (liftP (coerce_signed_grant X (sn_signed_authority rq))) (\<lambda>signed.
           bindP (liftP (same_authority X retained authority_id grant signed)) (\<lambda>_.
           bindP (preflight X P fs (sn_snapshot rq) grant retained) (\<lambda>(reason, source_bytes). case reason of
             Some r \<Rightarrow>
               if retained = [] then refuse_initial_mission X P rq authority_id r ''preflight''
               else finish_scan X P rq retained ''scan_failed'' ''ETZIO'' authority_id (reason_payload r)
           | None \<Rightarrow>
               liftP (Inr (Continue \<lparr>sx_authority_id = authority_id, sx_grant = grant, sx_admission = admission, sx_signed = signed,
                 sx_source_bytes = source_bytes\<rparr>)))))
       | _ \<Rightarrow> liftP (Inl (scan_error ''accepted authority omitted its enforceable admission record''))))"

section \<open>Opening and leasing\<close>

definition scan_append ::
  "externals \<Rightarrow> 's event_store_port \<Rightarrow> scan_request \<Rightarrow> scan_context \<Rightarrow> event list \<Rightarrow> pystr \<Rightarrow> pystr \<Rightarrow> json \<Rightarrow> file_store option \<Rightarrow>
   ('s, event list) access" where
  "scan_append X P rq cx retained kind unit payload evidence_store =
     append_checked X P (sn_mission_id rq) (ts_object_id (sn_snapshot rq)) (sn_decision_time rq) retained kind unit (sx_authority_id cx) payload
       evidence_store"

definition admit_event ::
  "externals \<Rightarrow> 's event_store_port \<Rightarrow> file_store \<Rightarrow> scan_request \<Rightarrow> scan_context \<Rightarrow> event list \<Rightarrow> ('s, event list) access" where
  "admit_event X P fs rq cx retained =
     (if retained \<noteq> [] then liftP (Inr retained)
      else bindP (liftP (bindR (admission_to_envelope X (sx_admission cx)) (envelope_to_json X))) (\<lambda>admission_json.
        bindP (liftP (bindR (grant_to_envelope X (sx_grant cx)) (envelope_to_json X))) (\<lambda>grant_json.
        scan_append X P rq cx retained ''authority_admitted'' ''AQUILA''
          (JObj [(''admission'', admission_json), (''grant'', grant_json), (''key_id'', JStr (sg_key_id (sx_signed cx))),
                 (''signature_b64'', JStr (sg_signature_b64 (sx_signed cx)))]) (Some fs))))"

definition open_scan ::
  "externals \<Rightarrow> 's event_store_port \<Rightarrow> file_store \<Rightarrow> scan_request \<Rightarrow> scan_context \<Rightarrow> event list \<Rightarrow> ('s, event list stage) access" where
  "open_scan X P fs rq cx retained =
     bindP (admit_event X P fs rq cx retained) (\<lambda>retained.
     if sn_cancel_requested rq
     then finish_scan X P rq retained ''scan_cancelled'' ''AQUILA'' (sx_authority_id cx) (reason_payload ''operator_cancelled'')
     else bindP (liftP (reduce_events X retained)) (\<lambda>p.
       if mp_phase p = ADMITTED
       then continueP (bindP (liftP (bindR (target_snapshot_to_envelope X (sn_snapshot rq)) (envelope_to_json X))) (\<lambda>snapshot_json.
         scan_append X P rq cx retained ''mission_opened'' ''ETZIO'' (JObj [(''target_snapshot'', snapshot_json)]) (Some fs)))
       else liftP (Inr (Continue retained))))"

definition lease_for :: "externals \<Rightarrow> scan_request \<Rightarrow> scan_context \<Rightarrow> int \<Rightarrow> analysis_lease result" where
  "lease_for X rq cx issued_at =
     (let grant = sx_grant cx; expires_at = min (ag_expires_at grant) (issued_at + ag_max_wallclock_seconds grant) in
      bindR (content_id X ''analysis_lease_nonce'' (JObj [
        (''authority_id'', JStr (sx_authority_id cx)), (''mission_id'', JStr (sn_mission_id rq)),
        (''target_snapshot_id'', JStr (ts_object_id (sn_snapshot rq)))])) (\<lambda>d.
      analysis_lease_issue X (sn_mission_id rq) (sx_authority_id cx) (ts_object_id (sn_snapshot rq)) issued_at expires_at (ag_max_bytes grant)
        (ag_max_candidates grant) (ag_max_wallclock_seconds grant) (take 32 (if starts_with ''sha256:'' d then drop 7 d else d))))"

definition lease_wire :: "externals \<Rightarrow> analysis_lease \<Rightarrow> json result" where
  "lease_wire X l = bindR (analysis_lease_to_envelope X l) (envelope_to_json X)"

definition retained_lease_matches :: "externals \<Rightarrow> event list \<Rightarrow> analysis_lease \<Rightarrow> exn + unit" where
  "retained_lease_matches X retained l =
     (let differs = scan_error ''retained analysis lease differs from deterministic replay'' in
      case filter (\<lambda>ev. ev_kind ev = ''analysis_lease_issued'') retained of
        [ev] \<Rightarrow> bindR (thawed_payload X ev) (\<lambda>payload. bindR (payload_item payload ''lease'') (\<lambda>j.
                 bindR (lease_wire X l) (\<lambda>lease_json. requireR (norm_json j = norm_json lease_json) differs)))
      | _ \<Rightarrow> Inl differs)"

definition lease_scan ::
  "externals \<Rightarrow> 's event_store_port \<Rightarrow> scan_request \<Rightarrow> scan_context \<Rightarrow> event list \<Rightarrow> ('s, (event list \<times> analysis_lease) stage) access" where
  "lease_scan X P rq cx retained =
     bindP (liftP (lease_for X rq cx (ev_decision_time (hd retained)))) (\<lambda>l.
     bindP (liftP (reduce_events X retained)) (\<lambda>p.
     bindS (if mp_phase p = OPEN
            then (if sn_decision_time rq \<ge> al_expires_at l
                  then finish_scan X P rq retained ''scan_timed_out'' ''ETZIO'' (sx_authority_id cx) (reason_payload ''lease_expired_before_issuance'')
                  else bindP (liftP (lease_wire X l)) (\<lambda>lease_json.
                    continueP (scan_append X P rq cx retained ''analysis_lease_issued'' ''AQUILA'' (JObj [(''lease'', lease_json)]) None)))
            else bindP (liftP (retained_lease_matches X retained l)) (\<lambda>_. liftP (Inr (Continue retained)))) (\<lambda>retained.
     bindP (liftP (reduce_events X retained)) (\<lambda>p.
     if mp_phase p = ANALYZING \<and> sn_decision_time rq \<ge> al_expires_at l
     then finish_scan X P rq retained ''scan_timed_out'' ''ETZIO'' (sx_authority_id cx) (reason_payload ''lease_expired'')
     else liftP (Inr (Continue (retained, l)))))))"

section \<open>Analysing\<close>

type_synonym scan_output = "pystr \<times> pystr \<times> json"

text \<open>The order of the candidates of one file.\<close>

definition candidate_key :: "static_candidate \<Rightarrow> pystr \<times> int \<times> int \<times> pystr \<times> pystr \<times> pystr" where
  "candidate_key c = (sc_relative_path c, sc_line c, sc_column c, sc_rule_id c, sc_symbol c, sc_candidate_id c)"

definition file_outputs ::
  "externals \<Rightarrow> (bytes \<Rightarrow> parsed_source) \<Rightarrow> scan_request \<Rightarrow> scan_context \<Rightarrow> analysis_lease \<Rightarrow> snapshot_file \<Rightarrow> (scan_output list \<times> nat \<times> nat) result" where
  "file_outputs X parse rq cx l f =
     (case map_of (sx_source_bytes cx) (sf_relative_path f) of
        None \<Rightarrow> Inl (KeyError (sf_relative_path f))
      | Some data \<Rightarrow>
          bindR (analyze_python_bytes parse (sf_relative_path f) data) (\<lambda>analysis.
          case sa_parse_failure analysis of
            Some failure \<Rightarrow>
              Inr ([(''parse_failed'', ''VELITES'', JObj [(''analysis_lease_id'', JStr (al_lease_id l)),
                 (''parse_failure'', parse_failure_json failure), (''source_artifact_digest'', JStr (sf_artifact_digest f))])], 0, 1)
          | None \<Rightarrow>
              bindR (mapR (\<lambda>fd. candidate_from_finding X fd (sn_mission_id rq) (sx_authority_id cx) (al_lease_id l)
                (ts_object_id (sn_snapshot rq)) (sf_artifact_digest f)) (sa_findings analysis)) (\<lambda>candidates.
              bindR (mapR (\<lambda>c. bindR (bindR (candidate_to_envelope X c) (envelope_to_json X)) (\<lambda>j.
                Inr (''candidate_recorded'', ''VELITES'', JObj [(''candidate'', j)]))) (sort_key candidate_key candidates)) (\<lambda>outputs.
              Inr (outputs, length outputs, 0)))))"

definition expected_outputs ::
  "externals \<Rightarrow> (bytes \<Rightarrow> parsed_source) \<Rightarrow> scan_request \<Rightarrow> scan_context \<Rightarrow> analysis_lease \<Rightarrow> (scan_output list \<times> nat \<times> nat) result" where
  "expected_outputs X parse rq cx l =
     bindR (mapR (file_outputs X parse rq cx l) (ts_files (sn_snapshot rq))) (\<lambda>per_file.
     Inr (concat (map fst per_file), sum_list (map (\<lambda>(_, c, _). c) per_file), sum_list (map (\<lambda>(_, _, n). n) per_file)))"

text \<open>\<open>except (EvidenceError, OSError, SyntaxError, UnicodeError, ValueError)\<close>\<close>

definition analyse_scan ::
  "externals \<Rightarrow> 's event_store_port \<Rightarrow> (bytes \<Rightarrow> parsed_source) \<Rightarrow> int \<times> int \<Rightarrow> scan_request \<Rightarrow> scan_context \<Rightarrow> event list \<Rightarrow> analysis_lease \<Rightarrow>
   ('s, (scan_output list \<times> nat \<times> nat) stage) access" where
  "analyse_scan X P parse clock rq cx retained l =
     (case expected_outputs X parse rq cx l of
        Inl ex \<Rightarrow>
          if is_value_error ex then finish_scan X P rq retained ''scan_failed'' ''ETZIO'' (sx_authority_id cx) (reason_payload ''analyzer_failed'')
          else liftP (Inl ex)
      | Inr (outputs, candidate_count, parse_failure_count) \<Rightarrow>
          let elapsed_ns = snd clock - fst clock in
          if elapsed_ns < 0 then liftP (Inl (scan_error ''monotonic clock moved backward''))
          else if elapsed_ns > al_max_wallclock_seconds l * 1000000000
          then finish_scan X P rq retained ''scan_timed_out'' ''ETZIO'' (sx_authority_id cx) (reason_payload ''wallclock_budget_exhausted'')
          else if int candidate_count > al_max_candidates l
          then finish_scan X P rq retained ''budget_exhausted'' ''AQUILA'' (sx_authority_id cx) (reason_payload ''candidate_budget_exhausted'')
          else liftP (Inr (Continue (outputs, candidate_count, parse_failure_count))))"

section \<open>Recording\<close>

definition output_matches :: "externals \<Rightarrow> event \<Rightarrow> scan_output \<Rightarrow> bool result" where
  "output_matches X ev out = (case out of (kind, unit, payload) \<Rightarrow>
     if ev_kind ev \<noteq> kind \<or> ev_unit ev \<noteq> unit then Inr False
     else bindR (thawed_payload X ev) (\<lambda>retained. Inr (norm_json retained = norm_json payload)))"

definition assert_retained_prefix :: "externals \<Rightarrow> event list \<Rightarrow> scan_output list \<Rightarrow> nat result" where
  "assert_retained_prefix X retained outputs =
     (let retained_outputs = filter (\<lambda>ev. ev_kind ev \<in> {''candidate_recorded'', ''parse_failed''}) retained in
      if length retained_outputs > length outputs then Inl (scan_error ''retained output stream is longer than deterministic replay'')
      else bindR (foldR (\<lambda>_ (ev, out). bindR (output_matches X ev out) (\<lambda>same.
        requireR same (scan_error ''retained scan output differs from deterministic replay''))) () (zip retained_outputs outputs)) (\<lambda>_.
      Inr (length retained_outputs)))"

fun append_outputs ::
  "externals \<Rightarrow> 's event_store_port \<Rightarrow> scan_request \<Rightarrow> scan_context \<Rightarrow> event list \<Rightarrow> scan_output list \<Rightarrow> ('s, event list) access" where
  "append_outputs X P rq cx retained [] = liftP (Inr retained)"
| "append_outputs X P rq cx retained ((kind, unit, payload) # outputs) =
     bindP (scan_append X P rq cx retained kind unit payload None) (\<lambda>evs. append_outputs X P rq cx evs outputs)"

definition scan_summary :: "target_snapshot \<Rightarrow> nat \<Rightarrow> nat \<Rightarrow> json" where
  "scan_summary snapshot candidate_count parse_failure_count = JObj [
     (''analyzer_version'', JStr PYTHON_SAST_VERSION),
     (''bytes_scanned'', JInt (sum_list (map sf_size (ts_files snapshot)))),
     (''candidate_count'', JInt (int candidate_count)),
     (''file_count'', JInt (int (length (ts_files snapshot)))),
     (''parse_failure_count'', JInt (int parse_failure_count))]"

definition complete_scan_record ::
  "externals \<Rightarrow> 's event_store_port \<Rightarrow> scan_request \<Rightarrow> scan_context \<Rightarrow> event list \<Rightarrow> nat \<Rightarrow> nat \<Rightarrow> ('s, event list) access" where
  "complete_scan_record X P rq cx retained candidate_count parse_failure_count =
     (let summary = scan_summary (sn_snapshot rq) candidate_count parse_failure_count;
          differs = scan_error ''retained scan summary differs from deterministic replay'' in
      bindP (liftP (reduce_events X retained)) (\<lambda>p.
      if mp_phase p = ANALYZING then scan_append X P rq cx retained ''scan_completed'' ''VELITES'' summary None
      else if mp_phase p = SCAN_COMPLETED
      then (case mp_scan_summary p of
          None \<Rightarrow> liftP (Inl differs)
        | Some ev \<Rightarrow> bindP (liftP (thawed_payload X ev)) (\<lambda>payload.
            if norm_json payload \<noteq> norm_json summary then liftP (Inl differs) else liftP (Inr retained)))
      else liftP (Inl (scan_error ''cannot complete fixture scan from this phase''))))"

definition record_scan ::
  "externals \<Rightarrow> 's event_store_port \<Rightarrow> scan_request \<Rightarrow> scan_context \<Rightarrow> event list \<Rightarrow> scan_output list \<times> nat \<times> nat \<Rightarrow> ('s, unit stage) access" where
  "record_scan X P rq cx retained found = (case found of (outputs, candidate_count, parse_failure_count) \<Rightarrow>
     bindP (liftP (assert_retained_prefix X retained outputs)) (\<lambda>n.
     bindP (append_outputs X P rq cx retained (drop n outputs)) (\<lambda>evs.
     bindP (complete_scan_record X P rq cx evs candidate_count parse_failure_count) (\<lambda>evs.
     if sn_retain_for_verification rq \<and> candidate_count \<noteq> 0
     then liftP (bindR (reduce_events X evs) (\<lambda>p. Inr (Finished p)))
     else finish_scan X P rq evs ''mission_closed'' ''ETZIO'' (sx_authority_id cx)
       (JObj [(''candidate_count'', JInt (int candidate_count)), (''parse_failure_count'', JInt (int parse_failure_count)),
              (''status'', JStr (closing_status rq))])))))"

section \<open>The scan\<close>

definition run_scan ::
  "externals \<Rightarrow> 's event_store_port \<Rightarrow> (bytes \<Rightarrow> parsed_source) \<Rightarrow> int \<times> int \<Rightarrow> file_store \<Rightarrow> scan_request \<Rightarrow> ('s, unit stage) access" where
  "run_scan X P parse clock fs rq =
     bindP (liftP (seqR [
       requireR (full_digest (sn_mission_id rq)) (scan_error ''mission_id must be a full sha256 identifier''),
       requireR (0 \<le> sn_decision_time rq) (scan_error ''decision_time must be a nonnegative integer'')])) (\<lambda>_.
     bindP (port_load P (sn_mission_id rq)) (\<lambda>retained.
     bindS (resume_scan X P rq retained) (\<lambda>retained.
     bindS (admit_scan X P fs rq retained) (\<lambda>cx.
     bindS (open_scan X P fs rq cx retained) (\<lambda>retained.
     bindS (lease_scan X P rq cx retained) (\<lambda>(retained, l).
     bindS (analyse_scan X P parse clock rq cx retained l) (\<lambda>found.
     record_scan X P rq cx retained found)))))))"

definition run_fixture_scan ::
  "externals \<Rightarrow> 's event_store_port \<Rightarrow> (bytes \<Rightarrow> parsed_source) \<Rightarrow> int \<times> int \<Rightarrow> file_store \<Rightarrow> scan_request \<Rightarrow> ('s, unit stage) access" where
  "run_fixture_scan X P parse clock fs rq =
     run_scan X P parse clock fs (rq\<lparr>sn_required_actions := STATIC_ANALYSIS_ACTIONS, sn_retain_for_verification := False\<rparr>)"

definition prepare_fixture_scan_for_verification ::
  "externals \<Rightarrow> 's event_store_port \<Rightarrow> (bytes \<Rightarrow> parsed_source) \<Rightarrow> int \<times> int \<Rightarrow> file_store \<Rightarrow> scan_request \<Rightarrow> ('s, unit stage) access" where
  "prepare_fixture_scan_for_verification X P parse clock fs rq =
     run_scan X P parse clock fs (rq\<lparr>sn_required_actions := FIXTURE_VERIFICATION_ACTIONS, sn_retain_for_verification := True\<rparr>)"

section \<open>What a scan leaves behind\<close>

context event_log
begin

text \<open>A scan holds a prefix of the retained stream at every point.\<close>

definition held :: "digest \<Rightarrow> event list \<Rightarrow> 's \<Rightarrow> bool" where
  "held m evs s \<longleftrightarrow> live s \<and> prefix evs (stream s m)"

definition scan_ended :: "externals \<Rightarrow> digest \<Rightarrow> mission_projection \<Rightarrow> 's \<Rightarrow> bool" where
  "scan_ended X m p s \<longleftrightarrow> (\<exists>evs. held m evs s \<and> reduce_events X evs = Inr p)"

lemma held_grows: "held m evs s \<Longrightarrow> live s' \<Longrightarrow> grows stream s s' \<Longrightarrow> held m evs s'"
  by (auto simp: held_def grows_def intro: prefix_order.trans)

lemma append_checked_held:
  assumes h: "held m retained s" and run: "append_checked X P m target t retained kind unit authority payload fs s = (Inr evs, s')"
  shows "held m evs s' \<and> grows stream s s' \<and> (\<exists>ev. evs = retained @ [ev]) \<and> (\<exists>p. reduce_events X evs = Inr p)"
proof -
  from run obtain ev u where ev: "event_create X m (int (length retained)) kind unit authority target t payload (head_of retained) = Inr ev"
    and red: "\<exists>p. reduce_events X (retained @ [ev]) = Inr p" and evs: "evs = retained @ [ev]"
    and app: "port_append P ev (head_of retained) s = (Inr u, s') \<or> (\<exists>fs. port_append_evidence P ev (head_of retained) fs s = (Inr u, s'))"
    by (auto simp: append_checked_def bindP_eq_Inr liftP_eq split: if_splits option.splits)
  note e = event_createD [OF ev]
  have l: "live s" and pre: "prefix retained (stream s m)" using h by (auto simp: held_def)
  from app appends [OF l] have g: "live s'" "grows stream s s'" and a: "adds stream ev (head_of retained) s s'" by blast+
  from a obtain before where b: "prefix (stream s m) before" "int (length before) = int (length retained)" "stream s' m = before @ [ev]"
    using e by (auto simp: adds_def)
  have "prefix retained before" using pre b(1) by (rule prefix_order.trans)
  with b(2) have "before = retained" by (metis append_Nil2 append_eq_append_conv of_nat_eq_iff prefix_def)
  with b(3) g red evs show ?thesis by (auto simp: held_def)
qed

lemma finish_scan_ended:
  assumes h: "held (sn_mission_id rq) retained s" and run: "finish_scan X P rq retained kind unit authority payload s = (Inr st, s')"
  shows "grows stream s s' \<and> (\<exists>p. st = Finished p \<and> scan_ended X (sn_mission_id rq) p s')"
proof -
  from run obtain evs t p where a: "append_checked X P (sn_mission_id rq) (ts_object_id (sn_snapshot rq)) (sn_decision_time rq) retained kind unit authority payload None s = (Inr evs, t)"
    and r: "reduce_events X evs = Inr p" "st = Finished p" "t = s'"
    by (auto simp: finish_scan_def bindP_eq_Inr liftP_eq bindR_eq_Inr)
  from append_checked_held [OF h a] r show ?thesis by (auto simp: scan_ended_def)
qed

text \<open>What a stage promises: streams grow, an end is an end, and what it goes on with is held.\<close>

definition stage_ok :: "externals \<Rightarrow> digest \<Rightarrow> ('a \<Rightarrow> event list) \<Rightarrow> 's \<Rightarrow> 'a stage \<Rightarrow> 's \<Rightarrow> bool" where
  "stage_ok X m held_by s st s' \<longleftrightarrow> grows stream s s' \<and>
     (case st of Finished p \<Rightarrow> scan_ended X m p s' | Continue x \<Rightarrow> held m (held_by x) s')"

lemma stage_finish:
  "held (sn_mission_id rq) retained s \<Longrightarrow> finish_scan X P rq retained kind unit authority payload s = (Inr st, s') \<Longrightarrow>
    stage_ok X (sn_mission_id rq) f s st s'"
  using finish_scan_ended by (fastforce simp: stage_ok_def)

lemma stage_stay: "stage_ok X m f s (Continue x) s \<longleftrightarrow> held m (f x) s"
  by (simp add: stage_ok_def)

lemma stage_end: "held m retained s \<Longrightarrow> reduce_events X retained = Inr p \<Longrightarrow> stage_ok X m f s (Finished p) s"
  by (auto simp: stage_ok_def scan_ended_def)

lemma stage_trans: "grows stream s t \<Longrightarrow> stage_ok X m f t st u \<Longrightarrow> stage_ok X m f s st u"
  by (auto simp: stage_ok_def intro: grows_trans)

lemma bindS_ok:
  assumes run: "bindS m f s = (Inr st, s')" and first: "\<And>x t. m s = (Inr x, t) \<Longrightarrow> stage_ok X mid g s x t"
    and rest: "\<And>x t. held mid (g x) t \<Longrightarrow> f x t = (Inr st, s') \<Longrightarrow> stage_ok X mid h t st s'"
  shows "stage_ok X mid h s st s'"
proof -
  from run obtain x t where m: "m s = (Inr x, t)" and c: "(case x of Finished p \<Rightarrow> liftP (Inr (Finished p)) | Continue x \<Rightarrow> f x) t = (Inr st, s')"
    by (auto simp: bindS_def bindP_eq_Inr)
  show ?thesis
  proof (cases x)
    case (Finished p)
    with c first [OF m] show ?thesis by (auto simp: liftP_eq stage_ok_def)
  next
    case (Continue y)
    with c first [OF m] rest [of y t] show ?thesis by (auto simp: stage_ok_def intro: grows_trans)
  qed
qed

lemma resume_ok:
  assumes h: "held (sn_mission_id rq) retained s" and run: "resume_scan X P rq retained s = (Inr st, s')"
  shows "stage_ok X (sn_mission_id rq) id s st s'"
  using run h
  by (auto simp: resume_scan_def bindP_eq_Inr liftP_eq stage_stay split: if_splits option.splits intro: stage_finish stage_end)

text \<open>The preflight only reads.\<close>

lemma preflight_safe: "safe (preflight X P fs snapshot grant retained)"
  unfolding preflight_def preflight_failure_def preflight_sources_def authority_bytes_def new_sources_def retained_sources_def
    target_sources_def Let_def
  by (intro safe_rules safe_sum)

lemma admit_scan_ok:
  assumes h: "held (sn_mission_id rq) retained s" and run: "admit_scan X P fs rq retained s = (Inr st, s')"
  shows "stage_ok X (sn_mission_id rq) (\<lambda>_. retained) s st s'"
proof -
  have l: "live s" using h by (simp add: held_def)
  from run consider kind unit a payload where "finish_scan X P rq retained kind unit a payload s = (Inr st, s')"
    | grant r t kind unit a payload where "preflight X P fs (sn_snapshot rq) grant retained s = (Inr r, t)"
        "finish_scan X P rq retained kind unit a payload t = (Inr st, s')"
    | grant r cx where "preflight X P fs (sn_snapshot rq) grant retained s = (Inr r, s')" "st = Continue cx"
    unfolding admit_scan_def
    by (auto simp: refuse_initial_mission_def bindP_eq_Inr liftP_eq split: if_splits option.splits prod.splits)
  then show ?thesis
  proof cases
    case 1
    then show ?thesis by (rule stage_finish [OF h])
  next
    case 2
    note g = safeD [OF preflight_safe l 2(1)]
    then show ?thesis using stage_trans stage_finish [OF held_grows [OF h] 2(2)] by blast
  next
    case 3
    then show ?thesis using safeD [OF preflight_safe l 3(1)] held_grows [OF h] by (simp add: stage_ok_def)
  qed
qed

lemma scan_append_held:
  assumes "held (sn_mission_id rq) retained s" and "scan_append X P rq cx retained kind unit payload fs s = (Inr evs, s')"
  shows "held (sn_mission_id rq) evs s' \<and> grows stream s s'"
  using append_checked_held [OF assms(1)] assms(2) unfolding scan_append_def by blast

lemma stage_continue:
  assumes "held (sn_mission_id rq) retained s" and "continueP (scan_append X P rq cx retained kind unit payload fs) s = (Inr st, s')"
  shows "stage_ok X (sn_mission_id rq) id s st s'"
  using assms scan_append_held by (auto simp: continueP_def bindP_eq_Inr liftP_eq stage_ok_def)

lemma open_scan_ok:
  assumes h: "held (sn_mission_id rq) retained s" and run: "open_scan X P fs rq cx retained s = (Inr st, s')"
  shows "stage_ok X (sn_mission_id rq) id s st s'"
proof -
  from run obtain evs t where a: "admit_event X P fs rq cx retained s = (Inr evs, t)"
    and c: "(if sn_cancel_requested rq
     then finish_scan X P rq evs ''scan_cancelled'' ''AQUILA'' (sx_authority_id cx) (reason_payload ''operator_cancelled'')
     else bindP (liftP (reduce_events X evs)) (\<lambda>p.
       if mp_phase p = ADMITTED
       then continueP (bindP (liftP (bindR (target_snapshot_to_envelope X (sn_snapshot rq)) (envelope_to_json X))) (\<lambda>snapshot_json.
         scan_append X P rq cx evs ''mission_opened'' ''ETZIO'' (JObj [(''target_snapshot'', snapshot_json)]) (Some fs)))
       else liftP (Inr (Continue evs)))) t = (Inr st, s')"
    unfolding open_scan_def bindP_eq_Inr by blast
  have t: "held (sn_mission_id rq) evs t" "grows stream s t"
    using a scan_append_held [OF h] h by (auto simp: admit_event_def bindP_eq_Inr liftP_eq split: if_splits)
  from c t(1) have "stage_ok X (sn_mission_id rq) id t st s'"
    using scan_append_held
    by (auto simp: bindP_eq_Inr liftP_eq continueP_def stage_stay stage_ok_def [of _ _ _ _ "Continue a" for a] split: if_splits intro: stage_finish)
  then show ?thesis by (rule stage_trans [OF t(2)])
qed

lemma lease_scan_ok:
  assumes h: "held (sn_mission_id rq) retained s" and run: "lease_scan X P rq cx retained s = (Inr st, s')"
  shows "stage_ok X (sn_mission_id rq) fst s st s'"
proof -
  let ?first = "\<lambda>(l :: analysis_lease) (p :: mission_projection). if mp_phase p = OPEN
            then (if sn_decision_time rq \<ge> al_expires_at l
                  then finish_scan X P rq retained ''scan_timed_out'' ''ETZIO'' (sx_authority_id cx) (reason_payload ''lease_expired_before_issuance'')
                  else bindP (liftP (lease_wire X l)) (\<lambda>lease_json.
                    continueP (scan_append X P rq cx retained ''analysis_lease_issued'' ''AQUILA'' (JObj [(''lease'', lease_json)]) None)))
            else bindP (liftP (retained_lease_matches X retained l)) (\<lambda>_. liftP (Inr (Continue retained)))"
  let ?rest = "\<lambda>(l :: analysis_lease) retained. bindP (liftP (reduce_events X retained)) (\<lambda>p.
     if mp_phase p = ANALYZING \<and> sn_decision_time rq \<ge> al_expires_at l
     then finish_scan X P rq retained ''scan_timed_out'' ''ETZIO'' (sx_authority_id cx) (reason_payload ''lease_expired'')
     else liftP (Inr (Continue (retained, l))))"
  from run obtain l and p :: mission_projection where c: "bindS (?first l p) (?rest l) s = (Inr st, s')"
    unfolding lease_scan_def bindP_eq_Inr liftP_eq by blast
  show ?thesis
  proof (rule bindS_ok [OF c])
    show "stage_ok X (sn_mission_id rq) id s x t" if "?first l p s = (Inr x, t)" for x t
      using that h by (auto simp: bindP_eq_Inr liftP_eq stage_stay split: if_splits intro: stage_finish stage_continue)
    show "stage_ok X (sn_mission_id rq) fst t st s'" if "held (sn_mission_id rq) (id evs) t" "?rest l evs t = (Inr st, s')" for evs t
      using that by (auto simp: bindP_eq_Inr liftP_eq stage_stay split: if_splits intro: stage_finish)
  qed
qed

lemma analyse_scan_ok:
  assumes "held (sn_mission_id rq) retained s" and "analyse_scan X P parse clock rq cx retained l s = (Inr st, s')"
  shows "stage_ok X (sn_mission_id rq) (\<lambda>_. retained) s st s'"
  using assms by (auto simp: analyse_scan_def Let_def liftP_eq stage_stay split: if_splits sum.splits prod.splits intro: stage_finish)

lemma append_outputs_held:
  "held (sn_mission_id rq) retained s \<Longrightarrow> append_outputs X P rq cx retained outputs s = (Inr evs, s') \<Longrightarrow>
    held (sn_mission_id rq) evs s' \<and> grows stream s s'"
proof (induction outputs arbitrary: retained s)
  case (Cons out outputs)
  obtain kind unit payload where o: "out = (kind, unit, payload)" by (cases out)
  from Cons.prems(2) obtain evs' t where a: "scan_append X P rq cx retained kind unit payload None s = (Inr evs', t)"
    and b: "append_outputs X P rq cx evs' outputs t = (Inr evs, s')" by (auto simp: o bindP_eq_Inr)
  from scan_append_held [OF Cons.prems(1) a] Cons.IH [OF _ b] show ?case by (blast intro: grows_trans)
qed (auto simp: liftP_eq)

lemma record_scan_ok:
  assumes h: "held (sn_mission_id rq) retained s" and run: "record_scan X P rq cx retained found s = (Inr st, s')"
  shows "stage_ok X (sn_mission_id rq) f s st s'"
proof -
  obtain outputs c n where f: "found = (outputs, c, n)" by (cases found)
  from run obtain k evs t evs2 u where a: "append_outputs X P rq cx retained (drop k outputs) s = (Inr evs, t)"
    and b: "complete_scan_record X P rq cx evs c n t = (Inr evs2, u)"
    and d: "(if sn_retain_for_verification rq \<and> c \<noteq> 0 then liftP (bindR (reduce_events X evs2) (\<lambda>p. Inr (Finished p)))
     else finish_scan X P rq evs2 ''mission_closed'' ''ETZIO'' (sx_authority_id cx)
       (JObj [(''candidate_count'', JInt (int c)), (''parse_failure_count'', JInt (int n)), (''status'', JStr (closing_status rq))])) u = (Inr st, s')"
    unfolding record_scan_def f prod.case bindP_eq_Inr liftP_eq by blast
  note t = append_outputs_held [OF h a]
  have u: "held (sn_mission_id rq) evs2 u" "grows stream t u"
    using b t scan_append_held [of rq evs t] by (auto simp: complete_scan_record_def Let_def bindP_eq_Inr liftP_eq split: if_splits option.splits)
  from d u(1) have "stage_ok X (sn_mission_id rq) f u st s'"
    by (auto simp: liftP_eq bindR_eq_Inr split: if_splits intro: stage_finish stage_end)
  with t u(2) show ?thesis by (blast intro: stage_trans grows_trans)
qed

text \<open>A scan that returns returns the projection of a retained prefix of the mission's stream, and every stream has only grown.\<close>

lemma run_scan_outcome:
  assumes s: "live s" and run: "run_scan X P parse clock fs rq s = (Inr st, s')"
  shows "grows stream s s' \<and> (\<exists>p. st = Finished p \<and> scan_ended X (sn_mission_id rq) p s')"
proof -
  let ?m = "sn_mission_id rq"
  from run obtain retained t where l: "port_load P ?m s = (Inr retained, t)"
    and c: "bindS (resume_scan X P rq retained) (\<lambda>retained.
     bindS (admit_scan X P fs rq retained) (\<lambda>cx.
     bindS (open_scan X P fs rq cx retained) (\<lambda>retained.
     bindS (lease_scan X P rq cx retained) (\<lambda>(retained, l).
     bindS (analyse_scan X P parse clock rq cx retained l) (\<lambda>found.
     record_scan X P rq cx retained found))))) t = (Inr st, s')"
    by (auto simp: run_scan_def bindP_eq_Inr liftP_eq)
  have h: "held ?m retained t" using load_grows [OF s l] load_stream [OF s l] by (simp add: held_def)
  have ok: "stage_ok X ?m f t st s'" for f
  proof (rule bindS_ok [OF c resume_ok [OF h]])
    fix evs1 t1
    assume h1: "held ?m (id evs1) t1" and c1: "bindS (admit_scan X P fs rq evs1) (\<lambda>cx.
     bindS (open_scan X P fs rq cx evs1) (\<lambda>retained.
     bindS (lease_scan X P rq cx retained) (\<lambda>(retained, l).
     bindS (analyse_scan X P parse clock rq cx retained l) (\<lambda>found.
     record_scan X P rq cx retained found)))) t1 = (Inr st, s')"
    show "stage_ok X ?m f t1 st s'"
    proof (rule bindS_ok [OF c1 admit_scan_ok [OF h1 [unfolded id_apply]]])
      fix cx t2
      assume h2: "held ?m evs1 t2" and c2: "bindS (open_scan X P fs rq cx evs1) (\<lambda>retained.
         bindS (lease_scan X P rq cx retained) (\<lambda>(retained, l).
         bindS (analyse_scan X P parse clock rq cx retained l) (\<lambda>found.
         record_scan X P rq cx retained found))) t2 = (Inr st, s')"
      show "stage_ok X ?m f t2 st s'"
      proof (rule bindS_ok [OF c2 open_scan_ok [OF h2]])
        fix evs3 t3
        assume h3: "held ?m (id evs3) t3" and c3: "bindS (lease_scan X P rq cx evs3) (\<lambda>(retained, l).
           bindS (analyse_scan X P parse clock rq cx retained l) (\<lambda>found. record_scan X P rq cx retained found)) t3 = (Inr st, s')"
        show "stage_ok X ?m f t3 st s'"
        proof (rule bindS_ok [OF c3 lease_scan_ok [OF h3 [unfolded id_apply]]])
          fix x t4
          assume h4: "held ?m (fst x) t4" and c4: "(case x of (retained, l) \<Rightarrow>
             bindS (analyse_scan X P parse clock rq cx retained l) (\<lambda>found. record_scan X P rq cx retained found)) t4 = (Inr st, s')"
          obtain evs4 l where x: "x = (evs4, l)" by (cases x)
          from c4 have c5: "bindS (analyse_scan X P parse clock rq cx evs4 l) (\<lambda>found. record_scan X P rq cx evs4 found) t4 = (Inr st, s')"
            by (simp add: x)
          show "stage_ok X ?m f t4 st s'"
            by (rule bindS_ok [OF c5 analyse_scan_ok]) (use h4 x record_scan_ok in auto)
        qed
      qed
    qed
  qed
  from ok [of "\<lambda>_. stream s' ?m @ [undefined]"] have "\<exists>p. st = Finished p"
    by (cases st) (auto simp: stage_ok_def held_def prefix_def)
  with ok [of "\<lambda>_. []"] load_grows [OF s l] show ?thesis by (auto simp: stage_ok_def intro: grows_trans)
qed

lemma finish_scan_safe: "safe (append_checked X P m target t retained kind unit a payload fs)" "safe (finish_scan X P rq retained kind unit a payload)"
  unfolding finish_scan_def append_checked_def by (intro safe_rules)+

lemma safe_stage: "safe m \<Longrightarrow> (\<And>x. safe (f x)) \<Longrightarrow> safe (bindS m f)"
  unfolding bindS_def by (intro safe_rules) (auto split: stage.split intro: safe_rules)

lemma append_outputs_safe: "safe (append_outputs X P rq cx retained outputs)"
proof (induction outputs arbitrary: retained)
  case (Cons out outputs)
  then show ?case by (cases out) (auto simp: scan_append_def intro!: safe_rules finish_scan_safe)
qed (simp add: safe_rules)

lemma run_scan_safe: "safe (run_scan X P parse clock fs rq)"
  unfolding run_scan_def resume_scan_def admit_scan_def open_scan_def lease_scan_def analyse_scan_def record_scan_def
    refuse_initial_mission_def scan_append_def admit_event_def complete_scan_record_def continueP_def Let_def
  by (intro safe_rules safe_stage safe_sum finish_scan_safe preflight_safe append_outputs_safe)

end

end
