(* ===== verification/Semantic_V1.thy ===== *)
theory Semantic_V1
  imports Integrity_Signed Authority_V1 Mission_V1
begin

text \<open>
  \<open>src/etzio/protocol/semantic_v1.py\<close>: the dispatcher from canonical envelopes to typed objects. Reading bytes through it is one strict
  codec over all object kinds, composed of the codecs of the single kinds.
\<close>

section \<open>Typed objects\<close>

datatype semantic_object =
    SemGrant authority_grant
  | SemSignedGrant signed_grant
  | SemAdmission authority_admission
  | SemSnapshot target_snapshot
  | SemAnalysisLease analysis_lease
  | SemVerificationLease verification_lease
  | SemResolution artifact_resolution
  | SemCandidate static_candidate
  | SemReceipt verifier_receipt
  | SemSignedReceipt signed_receipt
  | SemEvent event
  | SemSignedDecision signed_decision
  | SemSignedCheckpoint signed_checkpoint

definition mapR1 :: "('a \<Rightarrow> 'b) \<Rightarrow> 'a result \<Rightarrow> 'b result" where
  "mapR1 f m = bindR m (\<lambda>x. Inr (f x))"

lemma mapR1_eq_Inr [result_simps]: "mapR1 f m = Inr y \<longleftrightarrow> (\<exists>x. m = Inr x \<and> y = f x)"
  by (auto simp: mapR1_def bindR_eq_Inr)

section \<open>The dispatcher\<close>

text \<open>The kinds with a parser, and the parsers.\<close>

definition semantic_dispatch :: "externals \<Rightarrow> envelope \<Rightarrow> semantic_object result option" where
  "semantic_dispatch X e =
     (let k = env_kind e in
      if k = ''authority_grant''
      then Some (bindR (envelope_create X ''authority_grant'' (JObj (env_body e)) (JArr [])) (\<lambda>unattested.
        bindR (grant_from_envelope X unattested) (\<lambda>grant.
        if env_attestations e = [] then Inr (SemGrant grant)
        else bindR (envelope_to_bytes X e) (\<lambda>b. mapR1 SemSignedGrant (signed_grant_from_bytes X b)))))
      else if k = ''authority_admission'' then Some (mapR1 SemAdmission (admission_from_envelope X e))
      else if k = ''target_snapshot'' then Some (mapR1 SemSnapshot (target_snapshot_from_envelope X e))
      else if k = ''analysis_lease'' then Some (mapR1 SemAnalysisLease (analysis_lease_from_envelope X e))
      else if k = ''verification_lease'' then Some (mapR1 SemVerificationLease (vlease_from_envelope X e))
      else if k = ''verification_artifact_resolution'' then Some (mapR1 SemResolution (resolution_from_envelope X e))
      else if k = ''candidate'' then Some (mapR1 SemCandidate (candidate_from_envelope X e))
      else if k = ''verifier_receipt''
      then Some (if env_attestations e = [] then mapR1 SemReceipt (receipt_from_envelope X e)
        else bindR (envelope_to_bytes X e) (\<lambda>b. mapR1 SemSignedReceipt (signed_receipt_from_bytes X b)))
      else if k = ''event'' then Some (bindR (envelope_to_bytes X e) (\<lambda>b. mapR1 SemEvent (event_from_canonical_bytes X b)))
      else if k = ''integrity_decision''
      then Some (bindR (envelope_to_bytes X e) (\<lambda>b. mapR1 SemSignedDecision (signed_decision_from_bytes X (WireBytes b))))
      else if k = ''head_checkpoint''
      then Some (bindR (envelope_to_bytes X e) (\<lambda>b. mapR1 SemSignedCheckpoint (signed_checkpoint_from_bytes X (WireBytes b))))
      else None)"

definition parse_semantic_envelope :: "externals \<Rightarrow> envelope \<Rightarrow> semantic_object result" where
  "parse_semantic_envelope X e =
     bindR (rewrap value_caught (SemanticProtocolError ''invalid_semantic_object'' ''semantic parsing requires a valid canonical EnvelopeV1'')
       (bindR (envelope_to_bytes X e) (envelope_from_bytes X))) (\<lambda>e.
     case semantic_dispatch X e of
       Some m \<Rightarrow> catchR m (\<lambda>ex. if value_caught ex
         then Inl (SemanticProtocolError ''invalid_semantic_object'' (''invalid '' @ env_kind e @ '' semantic object: '' @ exn_message ex))
         else Inl ex)
     | None \<Rightarrow> Inl (SemanticProtocolError ''unsupported_semantic_object''
         (''protocol-v1 object kind '' @ CHR 0x27 # env_kind e @ CHR 0x27 # '' has no semantic parser'')))"

definition parse_semantic_bytes :: "externals \<Rightarrow> bytes \<Rightarrow> semantic_object result" where
  "parse_semantic_bytes X data = bindR (envelope_from_bytes X data) (parse_semantic_envelope X)"

section \<open>Writing\<close>

text \<open>The wire form of a typed object, by the writers of the single kinds.\<close>

fun semantic_to_bytes :: "externals \<Rightarrow> semantic_object \<Rightarrow> bytes result" where
  "semantic_to_bytes X (SemGrant r) = bindR (grant_to_envelope X r) (envelope_to_bytes X)"
| "semantic_to_bytes X (SemSignedGrant s) = signed_grant_to_bytes X s"
| "semantic_to_bytes X (SemAdmission r) = bindR (admission_to_envelope X r) (envelope_to_bytes X)"
| "semantic_to_bytes X (SemSnapshot r) = bindR (target_snapshot_to_envelope X r) (envelope_to_bytes X)"
| "semantic_to_bytes X (SemAnalysisLease r) = bindR (analysis_lease_to_envelope X r) (envelope_to_bytes X)"
| "semantic_to_bytes X (SemVerificationLease r) = bindR (vlease_to_envelope X r) (envelope_to_bytes X)"
| "semantic_to_bytes X (SemResolution r) = bindR (resolution_to_envelope X r) (envelope_to_bytes X)"
| "semantic_to_bytes X (SemCandidate r) = bindR (candidate_to_envelope X r) (envelope_to_bytes X)"
| "semantic_to_bytes X (SemReceipt r) = bindR (receipt_to_envelope X r) (envelope_to_bytes X)"
| "semantic_to_bytes X (SemSignedReceipt s) = signed_receipt_to_bytes X s"
| "semantic_to_bytes X (SemEvent ev) = event_to_canonical_bytes X ev"
| "semantic_to_bytes X (SemSignedDecision s) = signed_decision_to_bytes X s"
| "semantic_to_bytes X (SemSignedCheckpoint s) = signed_checkpoint_to_bytes X s"

section \<open>One strict codec\<close>

lemma unattested_self:
  assumes "created_envelope X e" and "env_attestations e = []" and "envelope_create X (env_kind e) (JObj (env_body e)) (JArr []) = Inr un"
  shows "un = e"
  using assms by (simp add: created_envelope_def)

lemma dispatch_sound:
  assumes b: "envelope_from_bytes X b = Inr e" and d: "semantic_dispatch X e = Some (Inr s)"
  shows "semantic_to_bytes X s = Inr b"
proof -
  have c: "created_envelope X e" and w: "envelope_to_bytes X e = Inr b" using env.decode_valid [OF b] env.encode_decode [OF b] by blast+
  note objects = admission.object_determines_bytes [OF b] snapshot.object_determines_bytes [OF b] analysis_lease.object_determines_bytes [OF b]
    vlease.object_determines_bytes [OF b] resolution.object_determines_bytes [OF b] candidate.object_determines_bytes [OF b]
    receipt.object_determines_bytes [OF b] grant.object_determines_bytes [OF b]
  note wires = signed.encode_decode signed_receipt.encode_decode event.encode_decode signed_decision.encode_decode signed_checkpoint.encode_decode
  show ?thesis
  proof (cases "env_kind e = ''authority_grant''")
    case True
    with d obtain un g where un: "envelope_create X ''authority_grant'' (JObj (env_body e)) (JArr []) = Inr un" "grant_from_envelope X un = Inr g"
      and r: "if env_attestations e = [] then s = SemGrant g else (\<exists>t. signed_grant_from_bytes X b = Inr t \<and> s = SemSignedGrant t)"
      by (auto simp: semantic_dispatch_def Let_def bindR_eq_Inr mapR1_eq_Inr w split: if_splits)
    have "un = e" if "env_attestations e = []" using unattested_self [OF c that] un(1) True by simp
    then show ?thesis using r un(2) objects(8) wires(1) by (auto split: if_splits)
  next
    case False
    with d show ?thesis
      using objects wires by (auto simp: semantic_dispatch_def Let_def bindR_eq_Inr mapR1_eq_Inr w split: if_splits)
  qed
qed

lemma parse_semantic_bytesD:
  assumes "parse_semantic_bytes X b = Inr s"
  obtains e where "envelope_from_bytes X b = Inr e" and "semantic_dispatch X e = Some (Inr s)"
proof -
  from assms obtain e where e: "envelope_from_bytes X b = Inr e" and p: "parse_semantic_envelope X e = Inr s"
    by (auto simp: parse_semantic_bytes_def bindR_eq_Inr)
  have "envelope_to_bytes X e = Inr b" by (rule env.encode_decode [OF e])
  then have "semantic_dispatch X e = Some (Inr s)"
    using p e by (auto simp: parse_semantic_envelope_def rewrap_def catchR_def split: option.splits sum.splits if_splits)
  with e show thesis by (rule that)
qed

lemma semantic_wire: "parse_semantic_bytes X b = Inr s \<Longrightarrow> semantic_to_bytes X s = Inr b"
  by (erule parse_semantic_bytesD) (rule dispatch_sound)

interpretation semantic: strict_codec "semantic_to_bytes X" "parse_semantic_bytes X" "\<lambda>s. \<exists>b. parse_semantic_bytes X b = Inr s" for X
  by unfold_locales (use semantic_wire in force)+

text \<open>The kind of an envelope decides the type of the object.\<close>

fun semantic_kind :: "semantic_object \<Rightarrow> pystr" where
  "semantic_kind (SemGrant r) = ''authority_grant''"
| "semantic_kind (SemSignedGrant s) = ''authority_grant''"
| "semantic_kind (SemAdmission r) = ''authority_admission''"
| "semantic_kind (SemSnapshot r) = ''target_snapshot''"
| "semantic_kind (SemAnalysisLease r) = ''analysis_lease''"
| "semantic_kind (SemVerificationLease r) = ''verification_lease''"
| "semantic_kind (SemResolution r) = ''verification_artifact_resolution''"
| "semantic_kind (SemCandidate r) = ''candidate''"
| "semantic_kind (SemReceipt r) = ''verifier_receipt''"
| "semantic_kind (SemSignedReceipt s) = ''verifier_receipt''"
| "semantic_kind (SemEvent ev) = ''event''"
| "semantic_kind (SemSignedDecision s) = ''integrity_decision''"
| "semantic_kind (SemSignedCheckpoint s) = ''head_checkpoint''"

lemma dispatch_kind: "semantic_dispatch X e = Some (Inr s) \<Longrightarrow> semantic_kind s = env_kind e"
  by (auto simp: semantic_dispatch_def Let_def bindR_eq_Inr mapR1_eq_Inr split: if_splits)

lemma dispatch_None: "semantic_dispatch X e = None \<longleftrightarrow> env_kind e \<notin> semantic_kind ` UNIV"
proof
  assume n: "semantic_dispatch X e = None"
  show "env_kind e \<notin> semantic_kind ` UNIV"
  proof
    assume "env_kind e \<in> semantic_kind ` UNIV"
    then obtain s where "env_kind e = semantic_kind s" by blast
    then show False using n by (cases s) (auto simp: semantic_dispatch_def Let_def split: if_splits)
  qed
next
  assume n: "env_kind e \<notin> semantic_kind ` UNIV"
  have k: "semantic_kind s \<noteq> env_kind e" for s using n by (metis rangeI)
  note ks = k [of "SemGrant undefined"] k [of "SemAdmission undefined"] k [of "SemSnapshot undefined"] k [of "SemAnalysisLease undefined"]
    k [of "SemVerificationLease undefined"] k [of "SemResolution undefined"] k [of "SemCandidate undefined"] k [of "SemReceipt undefined"]
    k [of "SemEvent undefined"] k [of "SemSignedDecision undefined"] k [of "SemSignedCheckpoint undefined"]
  from ks [unfolded semantic_kind.simps] show "semantic_dispatch X e = None" by (simp add: semantic_dispatch_def Let_def)
qed

end
