(* ===== verification/Store_Properties.thy ===== *)
theory Store_Properties
  imports Fixture_Scan Semantic_V1
begin

text \<open>
  The properties of the event store, the vault and the commands on them, written out over the definitions of the model. The commands
  run on the SQLite port while other connections commit between their accesses.
\<close>

section \<open>Store and vault\<close>

lemma reaches_digests_distinct: "store_reaches X (empty_store n) s \<Longrightarrow> distinct (event_digests s)"
  by (erule reaches_digests) (simp add: empty_store_def event_digests_def)

lemma step_keeps_reads:
  assumes "store_step X s s'" and "read_vault_identity X s scheme tag d m k = Inr data"
  shows "read_vault_identity X s' scheme tag d m k = Inr data"
  using assms(1)
proof (cases rule: step_appended)
  case (append ev h evs)
  then show ?thesis using read_vault_identity_mono [OF _ assms(2)] by (auto simp: appended_def)
next
  case (checkpoint c)
  from store_checkpointD(1) [OF this] assms(2) show ?thesis by (simp add: read_vault_identity_def artifact_row_def)
qed

text \<open>C5: An append that succeeds is a compare and swap of one mission: the expected head was the head of the retained stream, which was not
  terminal; the stream extended by the event is one that the reducer accepts; afterwards exactly this mission has exactly this event more,
  every other mission loads as before, and the evidence vault stays within its capacity.\<close>

theorem append_is_compare_and_swap:
  assumes "append_verified_event X s ev h staging = Inr s'"
  shows "\<exists>evs. store_load X s (ev_mission_id ev) = Inr evs \<and> head_of evs = h \<and> (\<exists>p. reduce_events X (evs @ [ev]) = Inr p) \<and>
     store_load X s' (ev_mission_id ev) = Inr (evs @ [ev]) \<and>
     (\<forall>m es. m \<noteq> ev_mission_id ev \<and> store_load X s m = Inr es \<longrightarrow> store_load X s' m = Inr es) \<and>
     (vault_fits s \<longrightarrow> vault_fits s')"
proof (rule append_verified_appended [OF assms])
  fix evs
  assume a: "appended X s ev h evs s'" and v: "vault_fits s \<Longrightarrow> vault_fits s'"
  have "store_load X s (ev_mission_id ev) = Inr evs" "head_of evs = h" "\<exists>p. reduce_events X (evs @ [ev]) = Inr p"
    using a by (auto simp: appended_def)
  with load_after_append [OF a] load_other_mission [OF a] v show ?thesis by blast
qed

text \<open>C24: An append against any head but the current one is refused as stale, and one behind a terminal event is refused as closed.\<close>

theorem stale_and_closed_appends_refused:
  assumes "store_load X s (ev_mission_id ev) = Inr evs" and "event_verify X ev = Inr ()" and "full_digest h"
    and "ev_kind ev \<notin> set PROTECTED_EVIDENCE_EVENT_KINDS_V1"
  shows "(h \<noteq> head_of evs \<longrightarrow> store_append X s ev h = Inl (StaleHeadError ''stale mission head'')) \<and>
     (h = head_of evs \<and> evs \<noteq> [] \<and> ev_kind (last evs) \<in> set TERMINAL_KINDS \<longrightarrow>
        store_append X s ev h = Inl (ClosedStreamError ''mission ended''))"
proof -
  have v: "validate_integrity_state s = Inr ()" and r: "retained_events X s (ev_mission_id ev) = Inr evs"
    using assms(1) by (auto simp: store_load_def bindR_eq_Inr split: if_splits)
  show ?thesis using assms(2-4)
    by (auto simp: store_append_def append_verified_event_def validate_append_request_def rewrap_def prepare_append_def v r requireR_def)
qed

text \<open>C6: In every store that the operations reach from an empty database, whatever they are called with, every mission loads, the vault is
  within its capacity and no two events share a digest; and whatever they reach from there has the stream of every mission as a prefix.\<close>

theorem reachable_store_available:
  assumes "store_reaches X (empty_store n) s" and "0 \<le> n" and "store_reaches X s t" and "full_digest m"
  shows "vault_fits s \<and> distinct (event_digests s) \<and> (\<exists>evs new. store_load X s m = Inr evs \<and> store_load X t m = Inr (evs @ new))"
proof -
  have a: "available X s" by (rule reaches_available [OF assms(1,2)])
  then obtain evs where "store_load X s m = Inr evs" using assms(4) by (auto simp: available_def)
  with a reaches_streams [OF assms(3)] reaches_digests_distinct [OF assms(1)] show ?thesis by (auto simp: available_def)
qed

text \<open>C23: Bytes that the vault returns have the requested identity and size, and every later state of the store returns the same bytes.\<close>

theorem vault_reads_are_stable:
  assumes "read_vault_identity X s scheme tag d m k = Inr data" and "store_reaches X s t"
  shows "digest_bytes_v1 X data scheme tag = Inr d \<and> (\<forall>n. k = Some n \<longrightarrow> int (length data) = n) \<and>
     read_vault_identity X t scheme tag d m k = Inr data"
proof -
  have "read_vault_identity X t scheme tag d m k = Inr data"
    using assms(2) unfolding store_reaches_def
    by (induction rule: rtranclp_induct) (use assms(1) step_keeps_reads in auto)
  then show ?thesis using assms(1) by (auto simp: read_vault_identity_iff)
qed

text \<open>C22: A batch of evidence requests is answered one by one in order, each with bytes of the requested identity within the bound of the
  request, and from the vault whenever the vault has the identity: what a staging directory holds cannot replace retained bytes.\<close>

theorem evidence_resolution_vault_first:
  assumes "resolve_evidence_artifacts X s requests fs maximum_total = Inr datas" and "i < length requests"
  shows "length datas = length requests \<and>
     (\<exists>key. request_identity_key (requests ! i) = Inr key \<and> identity_bytes X key (request_effective_maximum (requests ! i)) (datas ! i) \<and>
        (\<forall>a. vault_row s key = Some a \<longrightarrow> datas ! i = ea_content a))"
  using resolve_sound [OF assms(1)] assms(2) by blast

end
