(* ===== verification/Service_Properties.thy ===== *)
theory Service_Properties
  imports Store_Properties
begin

text \<open>
  The commands of the kernel on the SQLite port, whatever other connections commit between their accesses. A command is served when its
  connection stays live, no stream loses or changes an event, and what it returns is what the mission retains.
\<close>

definition served :: "externals \<Rightarrow> connection \<Rightarrow> digest \<Rightarrow> (event list \<Rightarrow> 'r \<Rightarrow> bool) \<Rightarrow> 'r result \<times> connection \<Rightarrow> bool" where
  "served X c m kept outcome \<longleftrightarrow> connected X (snd outcome) \<and> grows (mission_stream X) c (snd outcome) \<and>
     (\<forall>r. fst outcome = Inr r \<longrightarrow> kept (mission_stream X (snd outcome) m) r)"

lemma servedI:
  assumes "sqlite.safe X command" and "connected X c"
    and "\<And>r c'. command c = (Inr r, c') \<Longrightarrow> kept (mission_stream X c' m) r"
  shows "served X c m kept (command c)"
proof -
  obtain r c' where "command c = (r, c')" by (cases "command c")
  with assms sqlite.safeD [OF assms(1,2)] show ?thesis by (auto simp: served_def)
qed

section \<open>Leases\<close>





section \<open>Artifacts and receipts\<close>



section \<open>The scan\<close>

text \<open>C9: A scan, new or resumed from any retained prefix, ends with the projection of events that are a retained prefix of its mission's
  stream, whatever the analyser's parser and the clock give and wherever it stopped before.\<close>

theorem scan_returns_retained_projection:
  assumes "connected X c"
  shows "served X c (sn_mission_id rq) (\<lambda>stream st. \<exists>p evs. st = Finished p \<and> prefix evs stream \<and> reduce_events X evs = Inr p)
     (run_scan X (sqlite_port X) parse clock fs rq c)"
proof (rule servedI [OF sqlite.run_scan_safe assms])
  fix st c'
  assume "run_scan X (sqlite_port X) parse clock fs rq c = (Inr st, c')"
  from sqlite.run_scan_outcome [OF assms this]
  show "\<exists>p evs. st = Finished p \<and> prefix evs (mission_stream X c' (sn_mission_id rq)) \<and> reduce_events X evs = Inr p"
    by (auto simp: sqlite.scan_ended_def sqlite.held_def)
qed


text \<open>The dispatcher of the semantic layer accepts bytes exactly as one of its kinds and writes them back unchanged, and no two byte strings
  parse to the same object.\<close>

theorem semantic_wire_exact:
  assumes "parse_semantic_bytes X b = Inr s"
  shows "semantic_to_bytes X s = Inr b \<and> (\<exists>e. envelope_from_bytes X b = Inr e \<and> env_kind e = semantic_kind s) \<and>
     (\<forall>b'. parse_semantic_bytes X b' = Inr s \<longrightarrow> b' = b)"
  using semantic_wire [OF assms] parse_semantic_bytesD [OF assms] dispatch_kind by (metis Inr_inject semantic_wire)

end
