(* ===== verification/Sample_Store.thy ===== *)
theory Sample_Store
  imports Service_Properties Sample_Stream
begin

text \<open>
  Two concrete stores, evaluated with the parameters of \<open>Sample_Values\<close>: one that retains the refusal of a mission, and one that retains the
  admission of an authority together with the bytes of its evidence. Under the constant sample hash every event has the same digest,
  so that each of them retains one event.
\<close>

section \<open>A refused mission\<close>

lemma sample_event_bytes:
  assumes "retainable k u s t p v"
  shows "event_to_canonical_bytes Xs (sample_event k u s t p v) =
    Inr (sample_wire ''event'' (event_body_with (sample_event k u s t p v) (norm_json v)) (JArr []))"
proof -
  let ?ev = "sample_event k u s t p v"
  note r = assms [unfolded retainable_def]
  have "event_to_envelope Xs ?ev = Inr (sample_envelope ''event'' (event_body_with ?ev (norm_json v)) (JArr []))"
    using r sample_create by (simp add: event_to_envelope_def sound_loads is_JObj_norm sample_envelope_def)
  then show ?thesis using r sample_to_bytes(1) by (simp add: event_to_canonical_bytes_def)
qed

definition REFUSAL :: json where
  "REFUSAL = JObj [(''reason_code'', JStr ''unsigned_object''), (''stage'', JStr ''admission'')]"

definition RE :: event where "RE = sample_event ''mission_admission_refused'' ''AQUILA'' 0 20 GENESIS_DIGEST REFUSAL"

definition REW :: bytes where "REW = sample_wire ''event'' (event_body_with RE (norm_json REFUSAL)) (JArr [])"

lemma RE_ok: "retainable ''mission_admission_refused'' ''AQUILA'' 0 20 GENESIS_DIGEST REFUSAL"
  unfolding REFUSAL_def by (rule retainableI) code_simp+

lemma RE_payload: "validate_payload Xs RE (norm_json REFUSAL) = Inr ()"
  unfolding RE_def by code_simp

lemmas RE_verified = sample_event_verified [OF RE_ok RE_payload [unfolded RE_def], folded RE_def]

lemma RE_event_verify: "event_verify Xs RE = Inr ()"
  using RE_verified(1) by (auto simp: verify_retained_def catchR_def split: sum.splits if_splits)

lemma RE_bytes: "event_to_canonical_bytes Xs RE = Inr REW"
  using sample_event_bytes [OF RE_ok] by (simp add: RE_def [symmetric] REW_def)

lemma RE_decoded: "event_from_canonical_bytes Xs REW = Inr RE"
  using RE_bytes RE_event_verify event.decode_encode by metis

lemma RE_reduced: "\<exists>p. reduce_events Xs [RE] = Inr p"
proof -
  let ?S = "(initial_state RE)\<lparr>st_phase := ''refused'', st_expected_seq := 1, st_expected_prev := Z, st_previous_time := Some 20,
     st_refusal := Some RE, st_terminal_event := Some RE\<rparr>"
  have k: "ev_kind RE = ''mission_admission_refused''" by (simp add: RE_def)
  have h: "handle_event Xs st RE = Inr (refuse_mission st RE)" for st by (simp add: handle_event_def k)
  have "reduce_step Xs (initial_state RE) RE = Inr ?S"
    by (simp add: reduce_step_def RE_verified h) (simp add: check_chain_def requireR_def transition_def initial_state_def advance_def refuse_mission_def RE_def)
  then have r: "reduce_events Xs [RE] = project [RE] ?S" by (simp add: reduce_events_def)
  have "\<exists>p. project [RE] ?S = Inr p" unfolding initial_state_def 
    by (simp add: project_def check_dispositions_def lease_dispositions_def requireR_def partitions_of_def verification_candidate_partitions_def PHASE_BY_INTERNAL_def sorted_items_def partition_list_def)
  with r show ?thesis by simp
qed

section \<open>A store with one refused mission\<close>

abbreviation NEW :: event_store where "NEW \<equiv> empty_store 1000"

definition REFUSED_STORE :: event_store where "REFUSED_STORE = NEW\<lparr>es_events := [row_of RE REW]\<rparr>"

lemma GENESIS_full: "full_digest GENESIS_DIGEST" by code_simp

lemma RE_fields [simp]:
  "ev_mission_id RE = Z" "ev_kind RE = ''mission_admission_refused''" "ev_seq RE = 0" "ev_prev_digest RE = GENESIS_DIGEST"
  "ev_event_digest RE = Z" "ev_decision_time RE = 20"
  by (simp_all add: RE_def)

lemma new_retained: "retained_events Xs NEW Z = Inr []"
  using empty_loads [OF Z_full, of Xs 1000] by (simp add: store_load_def Z_full bindR_eq_Inr)

lemma refusal_appended: "append_verified_event Xs NEW RE GENESIS_DIGEST None = Inr REFUSED_STORE"
proof -
  have v: "validate_append_request Xs RE GENESIS_DIGEST = Inr ()"
    by (simp add: validate_append_request_def GENESIS_full RE_event_verify requireR_def rewrap_def)
  have i: "validate_integrity_state NEW = Inr ()"
    by (simp add: validate_integrity_state_def foreign_keys_ok_def empty_store_def requireR_def)
  have p: "prepare_append Xs NEW RE GENESIS_DIGEST = Inr []"
    using RE_reduced by (auto simp: prepare_append_iff new_retained head_of_def)
  have c: "chain_trigger NEW (row_of RE REW) = Inr ()"
    by (simp add: chain_trigger_def empty_store_def mission_rows_def row_of_def event_digests_def)
  have m: "manifest_trigger NEW (row_of RE REW) = Inr ()"
    by (simp add: manifest_trigger_def empty_store_def row_of_def event_roles_def requireR_def)
  have n: "insert_event Xs NEW RE = Inr REFUSED_STORE"
    by (simp add: insert_event_def RE_bytes c m REFUSED_STORE_def) (simp add: empty_store_def)
  have e: "event_for_digest Xs REFUSED_STORE Z = Inr RE"
    by (simp add: event_for_digest_def REFUSED_STORE_def row_of_def RE_decoded rewrap_def RE_bytes)
  show ?thesis
    by (simp add: append_verified_event_def v PROTECTED_EVIDENCE_EVENT_KINDS_V1_def i p check_receipt_evidence_def retain_event_evidence_def n e)
qed

lemma refusal_stored: "store_append Xs NEW RE GENESIS_DIGEST = Inr REFUSED_STORE"
  using refusal_appended
  by (simp add: store_append_def validate_append_request_def GENESIS_full RE_event_verify requireR_def rewrap_def PROTECTED_EVIDENCE_EVENT_KINDS_V1_def)

lemma refused_reached: "store_reaches Xs NEW REFUSED_STORE"
  using store_step.append [OF refusal_stored] by (auto simp: store_reaches_def)

lemma new_loads: "store_load Xs NEW Z = Inr []" by (rule empty_loads) (rule Z_full)

lemma connected_new: "connected Xs (NEW, [])"
  using reaches_available [of Xs 1000 NEW] by (simp add: connected_def store_reaches_def event_digests_def empty_store_def)

lemma refused_loads: "store_load Xs REFUSED_STORE Z = Inr [RE]"
proof -
  from append_verified_appended [OF refusal_appended] obtain evs where a: "appended Xs NEW RE GENESIS_DIGEST evs REFUSED_STORE" by metis
  then have "evs = []" using new_loads by (simp add: appended_def)
  with load_after_append [OF a] show ?thesis by simp
qed

section \<open>An admitted authority\<close>

text \<open>The event that admits an authority, retained with the bytes of its evidence.\<close>

definition BLOB :: bytes where "BLOB = ''signed scope''"

definition STAGED :: file_store where
  "STAGED = \<lparr>fs_files = [(''00'', replicate 62 (CHR ''0'')) \<mapsto> BLOB], fs_max_artifact_bytes = 100\<rparr>"

definition W0 :: bytes where "W0 = sample_wire ''event'' (event_body_with E0 (norm_json P0)) (JArr [])"

definition REF0 :: "int option \<Rightarrow> vault_ref" where
  "REF0 n = \<lparr>va_slot = 0, va_role = AUTHORITY_EVIDENCE_ROLE_V1, va_ordinal = 0, va_locator = [], va_identity_scheme = GENERIC_IDENTITY_SCHEME_V1,
      va_type_tag = GENERIC_TYPE_TAG_V1, va_digest = Z, va_byte_size = n\<rparr>"

definition ART0 :: evidence_artifact where
  "ART0 = \<lparr>ea_identity_scheme = GENERIC_IDENTITY_SCHEME_V1, ea_type_tag = GENERIC_TYPE_TAG_V1, ea_digest = Z, ea_byte_size = 12,
     ea_origin_event_digest = Z, ea_content = BLOB\<rparr>"

definition ADMITTED_STORE :: event_store where
  "ADMITTED_STORE = \<lparr>es_events = [row_of E0 W0], es_artifacts = [ART0], es_roles = [role_of_ref E0 (REF0 (Some 12)) 12], es_checkpoints = [],
     es_max_vault_bytes = 1000\<rparr>"

lemma E0_fields [simp]:
  "ev_mission_id E0 = Z" "ev_kind E0 = ''authority_admitted''" "ev_seq E0 = 0" "ev_prev_digest E0 = GENESIS_DIGEST" "ev_event_digest E0 = Z"
  by (simp_all add: E0_def)

lemma REF0_check: "vault_ref_new (REF0 None) = Inr (REF0 None)" "vault_ref_new (REF0 (Some 12)) = Inr (REF0 (Some 12))"
  by code_simp+

lemma E0_manifest: "derive_event_artifact_manifest_v1 Xs E0 = Inr [REF0 None]"
proof -
  have p: "bindR (event_payload Xs E0) (thaw_json Xs) = Inr (norm_json P0)"
    using E_verified(2) thaw_json_idem [OF sound_thaw] E0_ok by (simp add: retainable_def)
  have s: "sound (envelope_json GE)" using G_sendable by (simp add: sendable_def GE_def)
  have "canonical_dumps Xs (sample_json GE) = Inr GB"
    using sound_again [OF s] by (simp add: sample_json_def sample_wire_def GB_def GE_def)
  then have "vault_nested_envelope Xs E0 ''grant'' = Inr GE"
    using sample_from_bytes [OF G_sendable] by (simp add: vault_nested_envelope_def p P_members rewrap_def GB_def GE_def)
  then show ?thesis
    using REF0_check(1)
    by (simp add: derive_event_artifact_manifest_v1_def PROTECTED_EVIDENCE_EVENT_KINDS_V1_def G_from rewrap_def generic_ref_def G_def REF0_def)
qed

lemma STAGED_get: "file_get Xs STAGED Z (Some MAX_AUTHORITY_EVIDENCE_BYTES_V1) = Inr BLOB"
  by code_simp

lemma read_ART0:
  "es_artifacts s = [ART0] \<Longrightarrow> n = None \<or> n = Some 12 \<Longrightarrow>
    read_vault_identity Xs s GENERIC_IDENTITY_SCHEME_V1 GENERIC_TYPE_TAG_V1 Z None n = Inr BLOB"
proof -
  have "digest_bytes_v1 Xs BLOB GENERIC_IDENTITY_SCHEME_V1 GENERIC_TYPE_TAG_V1 = Inr Z" by code_simp
  then show "es_artifacts s = [ART0] \<Longrightarrow> n = None \<or> n = Some 12 \<Longrightarrow> ?thesis"
    unfolding read_vault_identity_iff vault_row_def
    by (auto simp: ART0_def artifact_key_def Z_full MAX_VAULT_ARTIFACT_BYTES_V1_def MAX_RESOLUTION_SINGLE_ARTIFACT_BYTES_V1_def BLOB_def)
qed

lemma E0_retained:
  "retain_event_evidence Xs NEW (Some STAGED) E0 =
     Inr (NEW\<lparr>es_artifacts := [ART0], es_roles := [role_of_ref E0 (REF0 (Some 12)) 12]\<rparr>)"
proof -
  let ?s = "NEW\<lparr>es_artifacts := [ART0]\<rparr>"
  have row: "artifact_row NEW (ref_identity_key (REF0 None)) = Inr None" by (simp add: artifact_row_def empty_store_def)
  have st: "read_staged_artifact Xs (REF0 None) STAGED = Inr (REF0 (Some 12), BLOB)" by code_simp
  have ins: "insert_artifact NEW ART0 = Inr ?s"
  proof -
    have "artifact_row_check ART0 = Inr ()" by code_simp
    then show ?thesis by (simp add: insert_artifact_def) (simp add: empty_store_def)
  qed
  have art: "\<lparr>ea_identity_scheme = va_identity_scheme (REF0 (Some 12)), ea_type_tag = va_type_tag (REF0 (Some 12)),
           ea_digest = va_digest (REF0 (Some 12)), ea_byte_size = int (length BLOB), ea_origin_event_digest = Z, ea_content = BLOB\<rparr> = ART0"
    by (simp add: ART0_def REF0_def BLOB_def)
  have rd: "read_vault_identity Xs ?s (va_identity_scheme (REF0 (Some 12))) (va_type_tag (REF0 (Some 12))) (va_digest (REF0 (Some 12))) None
      (Some (int (length BLOB))) = Inr BLOB"
    using read_ART0 [of ?s "Some 12"] by (simp add: REF0_def BLOB_def)
  have cap: "\<not> es_max_vault_bytes NEW < vault_used_bytes NEW + int (length BLOB)"
    by (simp add: empty_store_def vault_used_bytes_def BLOB_def)
  have "retain_artifact Xs STAGED Z (REF0 None) (vault_used_bytes NEW, NEW) = Inr (REF0 (Some 12), vault_used_bytes NEW + int (length BLOB), ?s)"
    by (simp add: retain_artifact_def Z_full row st Let_def cap art ins rd)
  moreover have "insert_event_artifact_roles E0 ?s [REF0 (Some 12)] = Inr (?s\<lparr>es_roles := [role_of_ref E0 (REF0 (Some 12)) 12]\<rparr>)"
  proof -
    have "role_row_check (role_of_ref E0 (REF0 (Some 12)) 12) = Inr ()"
    proof -
      have "role_row_check \<lparr>er_event_digest = Z, er_event_kind = ''authority_admitted'', er_slot = 0, er_role = AUTHORITY_EVIDENCE_ROLE_V1,
          er_ordinal = 0, er_locator = [], er_identity_scheme = GENERIC_IDENTITY_SCHEME_V1, er_type_tag = GENERIC_TYPE_TAG_V1,
          er_artifact_digest = Z, er_byte_size = 12\<rparr> = Inr ()" by code_simp
      then show ?thesis by (simp add: role_of_ref_def REF0_def)
    qed
    then have "role_insert_check ?s (role_of_ref E0 (REF0 (Some 12)) 12) = Inr ()"
      by (simp add: role_insert_check_def requireR_def empty_store_def event_digests_def)
        (simp add: role_owns_def role_key_def artifact_key_def role_of_ref_def REF0_def ART0_def)
    then show ?thesis
      by (simp add: insert_event_artifact_roles_def insert_event_artifact_role_def REF0_def) (simp add: empty_store_def)
  qed
  ultimately show ?thesis by (simp add: retain_event_evidence_def E0_manifest rewrap_def)
qed

lemma E0_event_verify: "event_verify Xs E0 = Inr ()"
  using E_verified(1) by (auto simp: verify_retained_def catchR_def split: sum.splits if_splits)

lemma E0_bytes: "event_to_canonical_bytes Xs E0 = Inr W0"
  using sample_event_bytes [OF E0_ok] by (simp add: E0_def [symmetric] W0_def)

lemma E0_decoded: "event_from_canonical_bytes Xs W0 = Inr E0"
  using E0_bytes E0_event_verify event.decode_encode by metis

lemma E0_reduced: "\<exists>p. reduce_events Xs [E0] = Inr p"
proof -
  have "\<exists>p. project [E0] S1 = Inr p" unfolding S1_def initial_state_def
    by (simp add: project_def check_dispositions_def lease_dispositions_def requireR_def partitions_of_def verification_candidate_partitions_def
        PHASE_BY_INTERNAL_def sorted_items_def partition_list_def)
  then show ?thesis by (simp add: reduce_events_def step0)
qed

lemma E0_verified_manifest: "verify_event_manifest Xs ADMITTED_STORE [] E0 = Inr [((GENERIC_IDENTITY_SCHEME_V1, GENERIC_TYPE_TAG_V1, Z, 12), BLOB)]"
proof -
  have r: "ref_of_role (role_of_ref E0 (REF0 (Some 12)) 12) = REF0 (Some 12)" by (simp add: ref_of_role_def role_of_ref_def REF0_def)
  have "event_roles ADMITTED_STORE Z = [role_of_ref E0 (REF0 (Some 12)) 12]" by (simp add: event_roles_def ADMITTED_STORE_def role_of_ref_def)
  then have st: "stored_event_manifest ADMITTED_STORE Z = Inr [(''authority_admitted'', REF0 (Some 12))]"
    by (simp add: stored_event_manifest_def r REF0_check rewrap_def) (simp add: role_of_ref_def)
  have w: "with_observed_size (REF0 None) 12 = Inr (REF0 (Some 12))" by code_simp
  have m: "match_manifest E0 [REF0 None] [(''authority_admitted'', REF0 (Some 12))] = Inr [REF0 (Some 12)]"
    using w by (simp add: match_manifest_def rewrap_def REF0_def)
  have "rehash_artifact Xs ADMITTED_STORE [] (REF0 (Some 12)) = Inr [((GENERIC_IDENTITY_SCHEME_V1, GENERIC_TYPE_TAG_V1, Z, 12), BLOB)]"
    using read_ART0 [of ADMITTED_STORE "Some 12"] by (simp add: rehash_artifact_def REF0_def sized_key_of_def rewrap_def) (simp add: ADMITTED_STORE_def)
  then show ?thesis
    by (simp add: verify_event_manifest_def E0_manifest rewrap_def st PROTECTED_EVIDENCE_EVENT_KINDS_V1_def m)
qed

lemma admission_appended: "append_evidence_event Xs NEW E0 GENESIS_DIGEST STAGED = Inr ADMITTED_STORE"
proof -
  let ?s = "NEW\<lparr>es_artifacts := [ART0], es_roles := [role_of_ref E0 (REF0 (Some 12)) 12]\<rparr>"
  have v: "validate_append_request Xs E0 GENESIS_DIGEST = Inr ()"
    by (simp add: validate_append_request_def GENESIS_full E0_event_verify requireR_def rewrap_def)
  have t: "trusted_staging_store STAGED = Inr STAGED" by (simp add: trusted_staging_store_def STAGED_def)
  have i: "validate_integrity_state NEW = Inr ()"
    by (simp add: validate_integrity_state_def foreign_keys_ok_def empty_store_def requireR_def)
  have p: "prepare_append Xs NEW E0 GENESIS_DIGEST = Inr []"
    using E0_reduced by (auto simp: prepare_append_iff new_retained head_of_def)
  have c: "chain_trigger ?s (row_of E0 W0) = Inr ()"
    by (simp add: chain_trigger_def empty_store_def mission_rows_def row_of_def event_digests_def)
  have m: "manifest_trigger ?s (row_of E0 W0) = Inr ()"
    by (simp add: manifest_trigger_def empty_store_def row_of_def event_roles_def requireR_def role_of_ref_def REF0_def)
  have n: "insert_event Xs ?s E0 = Inr ADMITTED_STORE"
    by (simp add: insert_event_def E0_bytes c m ADMITTED_STORE_def) (simp add: empty_store_def)
  have e: "event_for_digest Xs ADMITTED_STORE Z = Inr E0"
    by (simp add: event_for_digest_def ADMITTED_STORE_def row_of_def E0_decoded rewrap_def E0_bytes)
  have o: "list_all (owned_artifact ADMITTED_STORE) (es_artifacts ADMITTED_STORE)"
    by (simp add: owned_artifact_def ADMITTED_STORE_def role_owns_def role_key_def artifact_key_def role_of_ref_def REF0_def ART0_def)
  have "append_verified_event Xs NEW E0 GENESIS_DIGEST (Some STAGED) = Inr ADMITTED_STORE"
    by (simp add: append_verified_event_def v PROTECTED_EVIDENCE_EVENT_KINDS_V1_def t i p check_receipt_evidence_def E0_retained n e
        E0_verified_manifest o requireR_def)
  then show ?thesis by (simp add: append_evidence_event_def v NON_RECEIPT_EVIDENCE_EVENT_KINDS_V1_def PROTECTED_EVIDENCE_EVENT_KINDS_V1_def t)
qed

lemma admission_step: "append_verified_event Xs NEW E0 GENESIS_DIGEST (Some STAGED) = Inr ADMITTED_STORE"
  by (rule appendsD(2) [OF admission_appended])

lemma admitted_loads: "store_load Xs ADMITTED_STORE Z = Inr [E0]"
proof -
  from append_verified_appended [OF admission_step] obtain evs where a: "appended Xs NEW E0 GENESIS_DIGEST evs ADMITTED_STORE" by metis
  then have "evs = []" using new_loads by (simp add: appended_def)
  with load_after_append [OF a] show ?thesis by simp
qed

end
