(* ===== verification/Service_Witnesses.thy ===== *)
theory Service_Witnesses
  imports Sample_Store
begin

text \<open>
  The properties of \<open>Store_Properties\<close> and \<open>Service_Properties\<close> at concrete inputs: the operations of the store on the sample stores, the
  commands on a store without the mission, and a scan that retains the refusal of an unsigned authority.
\<close>

section \<open>Store\<close>

theorem append_is_compare_and_swap_witness:
  "append_verified_event Xs NEW RE GENESIS_DIGEST None = Inr REFUSED_STORE \<and> store_load Xs REFUSED_STORE Z = Inr [RE]"
  using append_is_compare_and_swap [OF refusal_appended] refusal_appended new_loads by auto


theorem stale_and_closed_appends_refused_witness:
  "store_load Xs REFUSED_STORE Z = Inr [RE] \<and> store_append Xs REFUSED_STORE RE GENESIS_DIGEST = Inl (StaleHeadError ''stale mission head'') \<and>
   store_append Xs REFUSED_STORE RE Z = Inl (ClosedStreamError ''mission ended'')"
proof -
  have g: "GENESIS_DIGEST \<noteq> Z" by code_simp
  have k: "ev_kind RE \<notin> set PROTECTED_EVIDENCE_EVENT_KINDS_V1" by (simp add: PROTECTED_EVIDENCE_EVENT_KINDS_V1_def)
  have l: "store_load Xs REFUSED_STORE (ev_mission_id RE) = Inr [RE]" by (simp add: refused_loads)
  show ?thesis
    using stale_and_closed_appends_refused [OF l RE_event_verify GENESIS_full k] stale_and_closed_appends_refused [OF l RE_event_verify Z_full k]
      refused_loads g by (simp add: head_of_def TERMINAL_KINDS_def)
qed

theorem reachable_store_available_witness:
  "vault_fits NEW \<and> (\<exists>evs new. store_load Xs NEW Z = Inr evs \<and> store_load Xs REFUSED_STORE Z = Inr (evs @ new)) \<and> length (es_events REFUSED_STORE) = 1"
  using reachable_store_available [of Xs 1000 NEW REFUSED_STORE Z] refused_reached Z_full by (simp add: store_reaches_def REFUSED_STORE_def)

definition MARK :: opaque_checkpoint where
  "MARK = \<lparr>oc_mission_id = Z, oc_event_digest = Z, oc_signer_id = ''s'', oc_algorithm = ''a'', oc_signed_at = 30, oc_signature = ''x''\<rparr>"

definition MARKED :: event_store where "MARKED = ADMITTED_STORE\<lparr>es_checkpoints := [MARK]\<rparr>"

lemma marked: "store_checkpoint Xs ADMITTED_STORE MARK = Inr MARKED"
proof -
  have l: "validate_integrity_state ADMITTED_STORE = Inr ()" "retained_events Xs ADMITTED_STORE Z = Inr [E0]"
    using admitted_loads by (auto simp: store_load_def bindR_eq_Inr Z_full)
  have n: "opaque_checkpoint_new MARK = Inr MARK" by code_simp
  have f: "oc_mission_id MARK = Z" "oc_event_digest MARK = Z" "oc_signed_at MARK = 30" "oc_signature MARK = ''x''" by (simp_all add: MARK_def)
  have s: "es_checkpoints ADMITTED_STORE = []" "es_events ADMITTED_STORE = [row_of E0 W0]" by (simp_all add: ADMITTED_STORE_def)
  show ?thesis by (simp add: store_checkpoint_def l f n s row_of_def Let_def MARKED_def)
qed

theorem vault_reads_are_stable_witness:
  "append_evidence_event Xs NEW E0 GENESIS_DIGEST STAGED = Inr ADMITTED_STORE \<and> store_checkpoint Xs ADMITTED_STORE MARK = Inr MARKED \<and>
   read_vault_identity Xs MARKED GENERIC_IDENTITY_SCHEME_V1 GENERIC_TYPE_TAG_V1 Z None (Some 12) = Inr BLOB"
  using vault_reads_are_stable [OF read_ART0 [of ADMITTED_STORE "Some 12"], of MARKED] store_step.checkpoint [OF marked] admission_appended marked
  by (auto simp: store_reaches_def ADMITTED_STORE_def)

definition TAMPERED :: file_store where
  "TAMPERED = \<lparr>fs_files = [(''00'', replicate 62 (CHR ''0'')) \<mapsto> ''other bytes''], fs_max_artifact_bytes = 100\<rparr>"

definition REQ0 :: vault_request where "REQ0 = \<lparr>vq_role = AUTHORITY_EVIDENCE_ROLE_V1, vq_digest = Z, vq_maximum = 50\<rparr>"

lemma E0_resolved: "resolve_evidence_artifacts Xs ADMITTED_STORE [REQ0] TAMPERED 50 = Inr [BLOB]"
proof -
  let ?k = "(GENERIC_IDENTITY_SCHEME_V1, GENERIC_TYPE_TAG_V1, Z)"
  have k: "request_identity_key REQ0 = Inr ?k" "request_effective_maximum REQ0 = 50" by code_simp+
  have g: "MAX_VAULT_BATCH_REQUESTS_V1 \<ge> 1" "DEFAULT_MAX_VAULT_BYTES_V1 \<ge> 50" "MAX_VAULT_ARTIFACT_BYTES_V1 \<ge> 12" by code_simp+
  have row: "artifact_row ADMITTED_STORE ?k = Inr (Some ART0)"
    by (simp add: artifact_row_def ADMITTED_STORE_def artifact_key_def ART0_def Z_full MAX_VAULT_ARTIFACT_BYTES_V1_def MAX_RESOLUTION_SINGLE_ARTIFACT_BYTES_V1_def)
  have origin: "origin_rows ADMITTED_STORE ART0 = [Z]"
    by (simp add: origin_rows_def ADMITTED_STORE_def row_of_def role_owns_def role_key_def artifact_key_def role_of_ref_def REF0_def ART0_def)
  have place: "place_request ADMITTED_STORE \<lparr>vb_canonical = [], vb_absent = []\<rparr> (?k, 0, 50) = Inr \<lparr>vb_canonical = [(?k, 12, Z)], vb_absent = []\<rparr>"
    by (simp add: place_request_def row origin Z_full) (simp add: ART0_def)
  have l: "validate_integrity_state ADMITTED_STORE = Inr ()" "retained_events Xs ADMITTED_STORE Z = Inr [E0]"
    using admitted_loads by (auto simp: store_load_def bindR_eq_Inr Z_full)
  from l(2) obtain rs where r: "store_rows ADMITTED_STORE Z = Inr rs" "decode_rows Xs Z 0 GENESIS_DIGEST rs = Inr [E0]" "validate_retained_lifecycle Xs [E0] = Inr ()"
     "validate_no_orphan_artifacts ADMITTED_STORE = Inr ()"
    by (auto simp: retained_events_def validate_retained_evidence_def bindR_eq_Inr)
  show ?thesis
    using g by (simp add: resolve_evidence_artifacts_def k place canonical_bytes_def load_missions_with_shared_evidence_validation_def cache_key_def
        sized_key_ok_def Z_full r E0_verified_manifest Let_def)
qed

theorem evidence_resolution_vault_first_witness:
  "resolve_evidence_artifacts Xs ADMITTED_STORE [REQ0] TAMPERED 50 = Inr [BLOB] \<and>
   (\<exists>key a. request_identity_key REQ0 = Inr key \<and> vault_row ADMITTED_STORE key = Some a \<and> ea_content a = BLOB)"
proof -
  have k: "request_identity_key REQ0 = Inr (GENERIC_IDENTITY_SCHEME_V1, GENERIC_TYPE_TAG_V1, Z)" by code_simp
  have v: "vault_row ADMITTED_STORE (GENERIC_IDENTITY_SCHEME_V1, GENERIC_TYPE_TAG_V1, Z) = Some ART0"
    by (simp add: vault_row_def ADMITTED_STORE_def artifact_key_def ART0_def)
  from evidence_resolution_vault_first [OF E0_resolved, of 0] k v have "ea_content ART0 = BLOB" by (simp add: ART0_def)
  with k v E0_resolved show ?thesis by blast
qed

section \<open>Commands on a store without the mission\<close>

lemma new_port_load: "port_load (sqlite_port Xs) Z (NEW, []) = (Inr [], (NEW, []))"
  by (simp add: sqlite_port_def reading_def new_loads)













section \<open>A scan without a signed authority\<close>

definition SCAN_REQUEST :: scan_request where
  "SCAN_REQUEST = \<lparr>sn_mission_id = Z, sn_snapshot = TS, sn_signed_authority = RawOther, sn_trust_store = T, sn_decision_time = 20,
     sn_required_actions = STATIC_ANALYSIS_ACTIONS, sn_retain_for_verification = False, sn_cancel_requested = False\<rparr>"

lemma SCAN_fields:
  "sn_mission_id SCAN_REQUEST = Z" "ts_object_id (sn_snapshot SCAN_REQUEST) = Z" "sn_decision_time SCAN_REQUEST = 20"
  by (simp_all add: SCAN_REQUEST_def TS_def)

lemma SCAN_raw:
  "sn_signed_authority SCAN_REQUEST = RawOther" "sn_trust_store SCAN_REQUEST = T" "sn_required_actions SCAN_REQUEST = STATIC_ANALYSIS_ACTIONS"
  by (simp_all add: SCAN_REQUEST_def)

lemma RE_created:
  "event_create Xs Z 0 ''mission_admission_refused'' ''AQUILA'' Z Z 20
     (JObj [(''reason_code'', JStr ''unsigned_object''), (''stage'', JStr ''admission'')]) GENESIS_DIGEST = Inr RE"
proof -
  note r = RE_ok [unfolded retainable_def]
  let ?body = "JObj [(''authority_id'', JStr Z), (''decision_time'', JInt 20), (''kind'', JStr ''mission_admission_refused''),
           (''mission_id'', JStr Z), (''payload'', norm_json REFUSAL), (''prev_digest'', JStr GENESIS_DIGEST),
           (''seq'', JInt 0), (''target_id'', JStr Z), (''unit'', JStr ''AQUILA'')]"
  have b: "event_body_with RE (norm_json REFUSAL) = ?body" by (simp add: event_body_with_def RE_def)
  have c: "envelope_create Xs ''event'' ?body (JArr []) = Inr (sample_envelope ''event'' ?body (JArr []))"
    using r sample_create b by (simp add: RE_def)
  have "event_new Xs ?body (ev_payload_bytes RE) (ev_event_digest RE) = Inr RE"
    by (rule event_verify_new [OF RE_event_verify]) (auto simp: EVENT_BODY_FIELDS_def event_body_with_def RE_def member_def)
  moreover have "ev_payload_bytes RE = dumps (norm_json REFUSAL)" by (simp add: RE_def)
  ultimately have n: "event_new Xs ?body (dumps (norm_json REFUSAL)) Z = Inr RE" by simp
  have s: "bindR (bindR (freeze_json Xs REFUSAL) (thaw_json Xs)) (canonical_dumps Xs) = Inr (dumps (norm_json REFUSAL))"
    using r sound_again thaw_json_idem [OF sound_thaw] by (simp add: freeze_json_thaw sound_thaw)
  have "event_create Xs Z 0 ''mission_admission_refused'' ''AQUILA'' Z Z 20 REFUSAL GENESIS_DIGEST = Inr RE"
    using r n c s by (simp add: event_create_def sound_loads is_JObj_norm wrap_error_def Let_def sample_envelope_def)
  then show ?thesis by (simp add: REFUSAL_def)
qed

lemma refused_admission:
  "\<exists>d. admit_authority Xs RawOther T (JInt 20) (JStr Z) (map JStr STATIC_ANALYSIS_ACTIONS) = Inr d \<and> \<not> ad_accepted d \<and>
     ad_reason_code d = ''unsigned_object''"
proof -
  have "required_action_tuple (map JStr STATIC_ANALYSIS_ACTIONS) = Inr STATIC_ANALYSIS_ACTIONS" by code_simp
  then show ?thesis
    by (simp add: admit_authority_def digest_value_def Z_full refuse_on_def refuse_def)
qed

theorem scan_returns_retained_projection_witness:
  "\<exists>p. run_scan Xs (sqlite_port Xs) (\<lambda>b. InvalidUtf8 0) (0, 0) STAGED SCAN_REQUEST (NEW, []) = (Inr (Finished p), REFUSED_STORE, []) \<and>
     reduce_events Xs [RE] = Inr p \<and> mission_stream Xs (REFUSED_STORE, []) Z = [RE] \<and>
     served Xs (NEW, []) Z (\<lambda>stream st. \<exists>p evs. st = Finished p \<and> prefix evs stream \<and> reduce_events Xs evs = Inr p)
       (run_scan Xs (sqlite_port Xs) (\<lambda>b. InvalidUtf8 0) (0, 0) STAGED SCAN_REQUEST (NEW, []))"
proof -
  obtain p where p: "reduce_events Xs [RE] = Inr p" using RE_reduced by blast
  obtain d where d: "admit_authority Xs RawOther T (JInt 20) (JStr Z) (map JStr STATIC_ANALYSIS_ACTIONS) = Inr d" "\<not> ad_accepted d"
     "ad_reason_code d = ''unsigned_object''" using refused_admission by blast
  have u: "unadmitted_authority_id Xs = Inr Z"
    unfolding unadmitted_authority_id_def by (rule sound_id) (rule compact_sound [of 1 100 10000], code_simp+)
  have ap: "port_append (sqlite_port Xs) RE GENESIS_DIGEST (NEW, []) = (Inr (), REFUSED_STORE, [])"
    by (simp add: sqlite_port_def writing_def refusal_stored)
  have "refuse_initial_mission Xs (sqlite_port Xs) SCAN_REQUEST Z ''unsigned_object'' ''admission'' (NEW, []) = (Inr (Finished p), REFUSED_STORE, [])"
    by (simp add: refuse_initial_mission_def finish_scan_def append_checked_def SCAN_fields bindP_def liftP_def head_of_def RE_created p ap)
  then have "admit_scan Xs (sqlite_port Xs) STAGED SCAN_REQUEST [] (NEW, []) = (Inr (Finished p), REFUSED_STORE, [])"
    using d u by (simp add: admit_scan_def bindP_def liftP_def SCAN_fields SCAN_raw)
  then have "run_scan Xs (sqlite_port Xs) (\<lambda>b. InvalidUtf8 0) (0, 0) STAGED SCAN_REQUEST (NEW, []) = (Inr (Finished p), REFUSED_STORE, [])"
    by (simp add: run_scan_def bindP_def bindS_def liftP_def SCAN_fields Z_full requireR_def new_port_load resume_scan_def)
  moreover have "mission_stream Xs (REFUSED_STORE, []) Z = [RE]" by (simp add: mission_stream_def refused_loads)
  ultimately show ?thesis using p scan_returns_retained_projection [OF connected_new, of SCAN_REQUEST "\<lambda>b. InvalidUtf8 0" "(0, 0)" STAGED] SCAN_fields(1)
    by metis
qed

end
