(* ===== verification/Spec2Isabelle.thy ===== *)
theory Spec2Isabelle
  imports Witnesses Integrity_Witnesses Service_Witnesses
begin

text \<open>
  Verification library of the Etzio mission kernel.

  \<^bold>\<open>The program.\<close> Etzio records a security mission as an append-only stream of events. An operator signs a
  grant (\<open>etzio/authority.py\<close>); the kernel admits it, opens a target snapshot (\<open>etzio/evidence.py\<close>), leases the analysis and
  records candidates (\<open>etzio/mission_v1.py\<close>). Each candidate can be leased to an independent verifier
  (\<open>etzio/verification.py\<close>), whose predeclared artifacts are resolved (\<open>etzio/verification_artifacts.py\<close>) and whose signed receipt
  consumes the lease. Every object travels as canonical JSON inside a content-addressed envelope
  (\<open>etzio/protocol/v1.py\<close>). An event is validated by kind (\<open>etzio/kernel/events_v1.py\<close>), and the whole
  mission state is a pure function of the stream, \<open>reduce_events\<close> in \<open>etzio/kernel/reducer.py\<close>. The streams are retained by an event store
  with an evidence vault (\<open>etzio/kernel/store.py\<close>, \<open>etzio/kernel/evidence_vault.py\<close>), which validates everything that it reads and everything
  that it is asked to retain. Commands load a stream, decide, build one event and append it against the head they expect: the scan of
  a fixture (\<open>etzio/kernel/fixture_scan.py\<close> with the analyser \<open>etzio/analysis/python_sast.py\<close>), the issue, expiry, cancellation
  and reassignment of leases and the closing of a mission (\<open>etzio/kernel/verification_lease.py\<close>, \<open>etzio/kernel/verification_recovery.py\<close>),
  the resolution of artifacts and the admission of receipts (\<open>etzio/kernel/artifact_resolution.py\<close>, \<open>etzio/kernel/receipt_admission.py\<close>).
  A second layer guards the stream itself (\<open>etzio/integrity_v1.py\<close>): a decision
  authority signs what event may come next and in which trusted interval of time, a checkpoint authority signs the new head, and
  an externally retained floor tells a rolled-back head or revocation list from a current one. The checkpoints are leaves of a
  Merkle log (\<open>etzio/kernel/head_authority_adapters_v1.py\<close>, \<open>etzio/kernel/merkle_frontier_v1.py\<close>).

  \<^bold>\<open>Theories\<close>, in the order of their imports.
  \<^item> \<open>Etzio_Prelude\<close>: exceptions as a datatype (one constructor per exception class that the code distinguishes), the result type
    \<open>exn + 'a\<close>, sequencing and loops over it (\<open>bindR\<close>, \<open>seqR\<close>, \<open>mapR\<close>, \<open>foldR\<close>, \<open>catchR\<close> for \<open>try\<close>/\<open>except\<close>), the record
    \<open>externals\<close> of the parameters, and the collection \<open>result_simps\<close> of inversion rules.
  \<^item> \<open>Json_Text\<close>: the JSON values of \<open>protocol/v1.py\<close> and the part of Python's \<open>json\<close> module that it calls: \<open>dumps\<close> with compact
    separators, and a parser with the hooks \<open>_parse_int\<close>, \<open>_reject_float\<close>, \<open>_reject_constant\<close>, \<open>_unique_object\<close>. Printing then
    parsing is the identity, and the parser's fuel (twice the length of the text) always suffices.
  \<^item> \<open>Protocol_V1\<close>: \<open>_normalize_json\<close> with its depth, node and size ceilings, \<open>canonical_dumps\<close>, \<open>strict_loads\<close>, \<open>content_id\<close> and
    \<open>EnvelopeV1\<close>. The locales \<open>codec\<close> and \<open>strict_codec\<close> state what an encoder/decoder pair promises, and are
    interpreted by the JSON wire and the envelope wire.
  \<^item> \<open>Kernel_Eval\<close>: code equations with which the kernel evaluates the text functions on concrete input.
  \<^item> \<open>Field_Checks\<close>, \<open>Typed_Objects\<close>: shared validations, and the locale \<open>content_object\<close> (an object that is rebuilt from its envelope
    encodes to that envelope), interpreted by every typed object below.
  \<^item> \<open>Evidence_V1\<close>, \<open>Mission_V1\<close>, \<open>Verification_Artifacts\<close>, \<open>Verification_V1\<close>: snapshots, analysis leases and candidates,
    artifact resolutions, verification leases and receipts, each as a record with its constructor checks
    (\<open>__post_init__\<close> is \<open>..._new\<close>), \<open>issue\<close>, \<open>to_envelope\<close> and \<open>from_envelope\<close>.
  \<^item> \<open>Attested_Wire\<close>: the locale \<open>attested_wire\<close> of an object signed by exactly one attestation, interpreted by signed grants and
    signed receipts, which thereby are strict codecs.
  \<^item> \<open>Authority_V1\<close>: grants, signed grants, trust stores, admission records and \<open>admit_authority\<close> with all its refusals.
  \<^item> \<open>Verifier_Trust\<close>: verifier trust stores and their snapshots, the verdict rule, and \<open>authenticate_verifier_receipt\<close>.
  \<^item> \<open>Events_V1\<close>: \<open>EventV1\<close>, one validation per event kind, and the canonical wire of an event.
  \<^item> \<open>Reducer\<close>: the local variables of \<open>reduce_events\<close> as the record \<open>mission_state\<close>, the transition table, one handler per event kind
    split into decoding and state change, candidate partitions and the projection.
  \<^item> \<open>Lifecycle\<close>: the handlers as the rules of the relation \<open>evidence_step\<close>, runs of it as \<open>mission_run\<close>, the lemma that the
    replay refines these runs, and the ledger invariant by induction on runs.
  \<^item> \<open>Lifecycle_Invariants\<close>: frame lemmas, and the invariants on assignments, successions, resolutions, budgets and the hash chain.
  \<^item> \<open>Mission_Replay\<close>: the properties of the replay. \<open>Wire_Properties\<close>: the properties of the wire and of single operations.
  \<^item> \<open>Merkle_V1\<close>, \<open>Merkle_Consistency\<close>: the Merkle trees of the head log (\<open>kernel/head_authority_adapters_v1.py\<close>): roots, audit paths and
    consistency proofs by recursion over the leaves, and the two verification loops, which only see positions and hashes. The loops climb
    the tree (\<open>climb_tree\<close>, \<open>honest_run\<close>), and a root determines the proof that it accepts.
  \<^item> \<open>Merkle_Frontier\<close>: the append state of \<open>kernel/merkle_frontier_v1.py\<close>, which keeps the roots of the complete subtrees; it
    interprets the locale \<open>append_log\<close> with the trees as the reference.
  \<^item> \<open>Integrity_Fields\<close>, \<open>Integrity_Decision\<close>, \<open>Head_Checkpoint\<close>: evidence references, revocation views, \<open>IntegrityDecisionV1\<close> and
    \<open>HeadCheckpointV1\<close>; both interpret \<open>content_object\<close>. \<open>Integrity_Signed\<close>: their signed wires, which interpret \<open>attested_wire\<close>.
    \<open>Integrity_Copies\<close>: the defensive copy that every consequential function takes of a value is that value.
  \<^item> \<open>Integrity_Trust\<close>, \<open>Integrity_Authentication\<close>: trust stores and their snapshots, authentication, and the repeated authentication of
    every argument; \<open>authentic_decision\<close> and \<open>authentic_checkpoint\<close> say what a record means, and repeating accepts exactly these.
  \<^item> \<open>Integrity_Floors\<close>: validation policies, revocation floors and head floors; the locale \<open>body_format\<close> states what their JSON bodies
    promise. \<open>Revocation_Chain\<close>: policy checks and \<open>validate_revocation_advance\<close>, with the order \<open>views_le\<close> on revocation
    metadata and the relation \<open>revocation_step\<close>. \<open>Checkpoint_Chain\<close>: binding, \<open>validate_checkpoint_advance\<close> and the finality predicate.
  \<^item> \<open>Integrity_Properties\<close>: the catalog of accepted checkpoints as the relation \<open>catalog_run\<close>, its invariant, and the properties.
  \<^item> \<open>Semantic_V1\<close>: the dispatcher of \<open>protocol/semantic_v1.py\<close> over all object kinds, a strict codec again.
  \<^item> \<open>File_Evidence\<close>: \<open>FileEvidenceStore\<close> over an abstract directory (reads, publication by a rename that never replaces, snapshots and the
    fixture manifest). \<open>Evidence_Vault\<close>: roles, requests and the artifact manifest that each event kind implies.
    \<open>Receipt_Evidence\<close>, \<open>Retained_History\<close>: the revalidation of a receipt against an evidence view and the retained events.
  \<^item> \<open>Event_Store\<close>, \<open>Store_Replay\<close>, \<open>Vault_Resolution\<close>: \<open>SQLiteEventStore\<close>. Its tables are lists of rows, the constraints and triggers of the
    schema are checks of the insertions, and each public operation is one function from tables to a result. A successful load is
    characterised by \<open>stream_ok\<close>, a successful append by \<open>appended\<close>; the operations are the rules of \<open>store_step\<close>.
  \<^item> \<open>Retained_Logs\<close>, \<open>Store_Port\<close>: the interface between commands and store. A command is an access to the store between whose steps other
    connections commit (\<open>interference\<close>); the locale \<open>event_log\<close> states what the commands rely on, and the SQLite port interprets it.
  \<^item> \<open>Lease_Issuance\<close>, \<open>Lease_Recovery\<close>, \<open>Artifact_Service\<close>, \<open>Receipt_Service\<close>: the commands, each with the predicate that says what its
    result means in the retained stream. \<open>Python_Sast\<close>: the analyser over syntax trees. \<open>Fixture_Scan\<close>: the resumable scan as a chain of stages.
  \<^item> \<open>Store_Properties\<close>, \<open>Service_Properties\<close>: the properties of store and commands. \<open>Sample_Store\<close>, \<open>Service_Witnesses\<close>: concrete stores.
  \<^item> \<open>Sample_Integrity\<close>, \<open>Sample_Chain\<close>, \<open>Integrity_Witnesses\<close>: two signed decisions and checkpoints over one mission, accepted as a
    catalog and retained in a floor, and the properties applied to them.
  \<^item> \<open>Sample_Values\<close>, \<open>Sample_Evidence\<close>, \<open>Sample_Stream\<close>: a worked example with concrete parameters, from a signed grant to a
    closed mission of nine events, evaluated by the kernel. \<open>Witnesses\<close>: every property with a hypothesis applied to it.

  \<^bold>\<open>Correspondence.\<close> A Python string is its UTF-8 encoding, bytes are a list of characters, an \<open>int\<close> is an \<open>int\<close>, a \<open>dict\<close> an
  association list in insertion order, a \<open>set\<close> a set. A frozen dataclass is a record with the prefix of its class
  (\<open>vl_\<close> for \<open>VerificationLeaseV1\<close>, and so on). A \<open>raise\<close> is \<open>Inl\<close> of its exception class; messages are kept where they are
  constant. A value whose type the code checks at run time arrives as \<open>json\<close>, so that the checks are part of the model;
  an argument of \<open>integrity_v1\<close> that is a value of a class of the module has that type.

  \<^bold>\<open>What is shown.\<close> The replay refines the lifecycle relation and its closing checks are redundant; the five lease
  dispositions and the five candidate states are partitions at every point; a lease retires once; a receipt needs a
  resolution, a lease needs authority, a successor keeps the work and changes the verifier; budgets hold; the closing status is
  truthful; prefixes are recovery points and terminal missions are final. Admission and authentication are sound. The wire formats
  are bijections between valid objects and canonical bytes; identifiers bind kind and content; strict decoding
  is total. Merkle proofs are accepted when honest, and an accepted proof binds leaf, position and prefix; the append state is the
  tree. The checkpoint catalog is one gapless hash-linked chain and one chain per mission; an advance is accepted only against a
  floor that names exactly this head or its predecessors; a floor makes one checkpoint final; revocation metadata never
  rolls back; binding ties checkpoint, decision and event together. An append is a compare and swap of one stream; every store that is reached
  from an empty one can load every mission, streams only grow, and retained evidence is read back unchanged and before any staged copy.
  What a command returns is what the mission retains, however other connections interleave with it, and no stream loses an event when
  it fails; the scan can be resumed from any prefix. The analyser visits every node of the tree. Two membership tests on unhashable JSON values raise an exception that the callers do not expect.

  \<^bold>\<open>Parameters.\<close> SHA-256, Unicode normalisation and Ed25519 are fields of \<open>externals\<close>. Some properties assume that SHA-256
  returns 32 bytes. Where a property needs collision freedom, it assumes it for the finite set of messages that are hashed in the
  situation it describes, never for all messages (which no function with 32-byte values satisfies).

  \<^bold>\<open>Not modelled.\<close> Of the event store: the integrity-enrolled profile (pending transitions, anchors, candidates and finalisations), schema
  creation and migration, journal modes and the recovery of connections; a store here is one in the legacy profile. Of the file store: modes
  and owners of directories. The transition service and the adapters of the integrity layer (external head authorities, time stamps,
  finality journals), which call the functions modelled here around a store; qualification (network,
  certificates); Python's parser, which is a parameter of the analyser; benchmark, command line and schemas.
\<close>

end
